(* ===== verification/Prelude.thy ===== *)
theory Prelude
  imports Main "HOL-Library.Word"
begin

text \<open>
  Shared vocabulary of the development: the errors of the Go code as values, the
  collections of rewrite rules that the component theories extend, and the generic
  facts about lists, options and maps that more than one component uses.

  A Go function that may panic, or that returns an \<^verbatim>\<open>error\<close>, returns a
  \<^verbatim>\<open>result\<close>: \<^verbatim>\<open>Inl\<close> the failure or \<^verbatim>\<open>Inr\<close> the value.
\<close>

section \<open>Failures as values\<close>

datatype go_error
  = Panic string
  | Err string

type_synonym 'a result = "go_error + 'a"

text \<open>Positions of blocks.\<close>
type_synonym bpos = "int \<times> int \<times> int"

text \<open>Rewrite rules that describe one operation on every branch.\<close>
named_theorems op_simps

text \<open>Preservation of the well-formedness invariants.\<close>
named_theorems inv_intros

definition bind_result :: "'a result \<Rightarrow> ('a \<Rightarrow> 'b result) \<Rightarrow> 'b result" where
  "bind_result r f = (case r of Inl e \<Rightarrow> Inl e | Inr x \<Rightarrow> f x)"

lemma bind_result_simps [simp]:
  "bind_result (Inl e) f = Inl e"
  "bind_result (Inr x) f = f x"
  by (simp_all add: bind_result_def)

lemma bind_result_Inr_iff:
  "bind_result r f = Inr y \<longleftrightarrow> (\<exists>x. r = Inr x \<and> f x = Inr y)"
  by (cases r) simp_all

definition is_ok :: "'a result \<Rightarrow> bool" where
  "is_ok r = (case r of Inl _ \<Rightarrow> False | Inr _ \<Rightarrow> True)"

lemma is_ok_simps [simp]: "\<not> is_ok (Inl e)" "is_ok (Inr x)"
  by (simp_all add: is_ok_def)

lemma is_ok_iff: "is_ok r \<longleftrightarrow> (\<exists>x. r = Inr x)"
  by (cases r) simp_all

text \<open>Go's indexing of a slice: out of range is a run-time panic.\<close>
definition go_index :: "'a list \<Rightarrow> int \<Rightarrow> 'a result" where
  "go_index xs i = (if 0 \<le> i \<and> i < int (length xs) then Inr (xs ! nat i)
                    else Inl (Panic ''index out of range''))"

text \<open>Go's division truncates.\<close>
definition go_div :: "int \<Rightarrow> int \<Rightarrow> int" where
  "go_div a b = sgn a * sgn b * (\<bar>a\<bar> div \<bar>b\<bar>)"

lemma ex_not_bool [simp]: "Ex Not"
  by (rule exI[of _ False]) simp

section \<open>The last elements of a list\<close>

text \<open>\<^verbatim>\<open>lastn n xs\<close> is what a window of capacity \<^verbatim>\<open>n\<close> keeps of \<^verbatim>\<open>xs\<close>.\<close>
definition lastn :: "nat \<Rightarrow> 'a list \<Rightarrow> 'a list" where
  "lastn n xs = drop (length xs - n) xs"

lemma length_lastn [simp]: "length (lastn n xs) = min n (length xs)"
  by (simp add: lastn_def)

lemma lastn_all [simp]: "length xs \<le> n \<Longrightarrow> lastn n xs = xs"
  by (simp add: lastn_def)

lemma lastn_append1: "lastn n (lastn n xs @ ys) = lastn n (xs @ ys)"
proof (cases "length xs \<le> n")
  case False
  hence "length xs + length ys - (length xs - n + n) + (length xs - n) = length xs + length ys - n"
    by simp
  with False show ?thesis by (simp add: lastn_def)
qed simp

lemma lastn_append_ge: "n \<le> length ys \<Longrightarrow> lastn n (xs @ ys) = lastn n ys"
  by (simp add: lastn_def)

lemma lastn_full: "length xs = n \<Longrightarrow> 0 < n \<Longrightarrow> lastn n (xs @ [x]) = tl xs @ [x]"
  by (cases xs) (auto simp: lastn_def)

lemma set_lastn_subset: "set (lastn n xs) \<subseteq> set xs"
  by (auto simp: lastn_def dest: in_set_dropD)

section \<open>Rotations: a ring buffer read from its head\<close>

definition ring :: "'a list \<Rightarrow> nat \<Rightarrow> nat \<Rightarrow> 'a list" where
  "ring xs h n = map (\<lambda>i. xs ! ((h + i) mod length xs)) [0..<n]"

lemma length_ring [simp]: "length (ring xs h n) = n"
  by (simp add: ring_def)

lemma nth_ring [simp]: "i < n \<Longrightarrow> ring xs h n ! i = xs ! ((h + i) mod length xs)"
  by (simp add: ring_def)

lemma ring_index_inj:
  assumes "i < c" "j < c" "(h + i) mod c = (h + j) mod (c::nat)"
  shows "i = j"
proof (rule ccontr)
  assume "i \<noteq> j"
  have "int c dvd int (h + i) - int (h + j)"
    using assms(3) by (metis mod_eq_dvd_iff of_nat_mod)
  hence "int c dvd int i - int j" by simp
  moreover have "\<bar>int i - int j\<bar> < int c" using assms(1,2) by auto
  ultimately have "int i - int j = 0"
    using dvd_imp_le_int[of "int i - int j" "int c"] by fastforce
  with \<open>i \<noteq> j\<close> show False by simp
qed

lemma ring_full:
  assumes "h < length xs"
  shows "ring xs h (length xs) = drop h xs @ take h xs"
proof (rule nth_equalityI)
  show "length (ring xs h (length xs)) = length (drop h xs @ take h xs)"
    using assms by simp
  fix i assume "i < length (ring xs h (length xs))"
  hence i: "i < length xs" by simp
  show "ring xs h (length xs) ! i = (drop h xs @ take h xs) ! i"
  proof (cases "h + i < length xs")
    case True
    hence "i < length xs - h" by simp
    with True assms show ?thesis by (simp add: nth_append)
  next
    case False
    hence "(h + i) mod length xs = h + i - length xs"
      using i assms by (simp add: mod_if)
    moreover have "\<not> i < length xs - h" "i - (length xs - h) = h + i - length xs"
      using False assms by auto
    ultimately show ?thesis using i assms by (simp add: nth_append)
  qed
qed

section \<open>Sums over lists\<close>

lemma sum_list_update_int:
  "i < length xs \<Longrightarrow> sum_list (xs[i := y]) = sum_list xs - xs ! i + (y::int)"
  by (induction xs arbitrary: i) (auto split: nat.splits)

section \<open>Association lists kept in order\<close>

lemma map_of_filter_ne:
  "map_of (filter (\<lambda>p. fst p \<noteq> k) xs) = (map_of xs)(k := None)"
  by (induction xs) (auto simp: fun_eq_iff)

end
