(* ===== verification/Queues.thy ===== *)
theory Queues
  imports Prelude
begin

text \<open>
  The two fixed-capacity containers of \<^verbatim>\<open>src/utils\<close>: the ring buffer
  \<^verbatim>\<open>CircularQueue\<close> (circular_queue.go) and the \<^verbatim>\<open>EvictingList\<close>
  (evicting_list.go).  Both promise their clients the same thing: the elements that are
  visible are the last \<^verbatim>\<open>cap\<close> elements that were added, oldest first.  The locale
  \<^verbatim>\<open>window\<close> states that contract, and both implementations interpret it.
\<close>

section \<open>The contract of a bounded window\<close>

locale window =
  fixes add :: "'a \<Rightarrow> 'q \<Rightarrow> 'q"
    and items :: "'q \<Rightarrow> 'a list"
    and cap :: "'q \<Rightarrow> nat"
    and ok :: "'q \<Rightarrow> bool"
  assumes ok_add: "ok q \<Longrightarrow> ok (add x q)"
    and cap_add: "ok q \<Longrightarrow> cap (add x q) = cap q"
    and items_add: "ok q \<Longrightarrow> items (add x q) = lastn (cap q) (items q @ [x])"
    and items_cap: "ok q \<Longrightarrow> length (items q) \<le> cap q"
begin

lemma ok_adds: "ok q \<Longrightarrow> ok (fold add xs q) \<and> cap (fold add xs q) = cap q"
  by (induction xs arbitrary: q) (simp_all add: ok_add cap_add)

lemma items_adds: "ok q \<Longrightarrow> items (fold add xs q) = lastn (cap q) (items q @ xs)"
proof (induction xs arbitrary: q)
  case Nil
  thus ?case by (simp add: items_cap)
next
  case (Cons x xs)
  have "items (fold add (x # xs) q) = lastn (cap q) (lastn (cap q) (items q @ [x]) @ xs)"
    using Cons by (simp add: ok_add cap_add items_add)
  thus ?case by (simp add: lastn_append1)
qed

lemma items_refilled:
  "ok q \<Longrightarrow> cap q \<le> length xs \<Longrightarrow> items (fold add xs q) = lastn (cap q) xs"
  by (simp add: items_adds lastn_append_ge)

lemma items_add_room:
  "ok q \<Longrightarrow> length (items q) < cap q \<Longrightarrow> items (add x q) = items q @ [x]"
  by (simp add: items_add)

lemma items_add_full:
  "ok q \<Longrightarrow> 0 < cap q \<Longrightarrow> length (items q) = cap q \<Longrightarrow> items (add x q) = tl (items q) @ [x]"
  by (simp add: items_add lastn_full)

end

section \<open>CircularQueue\<close>

record 'a circ =
  cq_items :: "'a list"
  cq_head :: nat
  cq_tail :: nat
  cq_size :: nat

text \<open>
  \<^verbatim>\<open>NewCircularQueue\<close>: a negative size makes \<^verbatim>\<open>make\<close> panic.  The queue
  starts full, with the zero value or with what the generator returns on its
  \<^verbatim>\<open>i\<close>-th call.
\<close>
definition new_circular_queue :: "'a \<Rightarrow> int \<Rightarrow> (nat \<Rightarrow> 'a) option \<Rightarrow> 'a circ result" where
  "new_circular_queue zero n propagate =
     (if n < 0 then Inl (Panic ''makeslice: len out of range'')
      else Inr \<lparr>cq_items = (case propagate of
                    None \<Rightarrow> replicate (nat n) zero
                  | Some g \<Rightarrow> map g [0..<nat n]),
                cq_head = 0, cq_tail = 0, cq_size = nat n\<rparr>)"

definition cq_get :: "'a circ \<Rightarrow> int \<Rightarrow> 'a result" where
  "cq_get q index =
     (if index < 0 \<or> index \<ge> int (cq_size q) then Inl (Err ''circularqueue: get out of range'')
      else Inr (cq_items q ! ((cq_head q + nat index) mod length (cq_items q))))"

definition cq_set :: "'a circ \<Rightarrow> int \<Rightarrow> 'a \<Rightarrow> 'a circ result" where
  "cq_set q index item =
     (if index < 0 \<or> index \<ge> int (cq_size q) then Inl (Err ''circularqueue: set out of range'')
      else Inr (q\<lparr>cq_items := (cq_items q)[(cq_head q + nat index) mod length (cq_items q) := item]\<rparr>))"

text \<open>\<^verbatim>\<open>Iter\<close>: the callback threads its own state and answers whether to go on.\<close>
fun iter_yield :: "('s \<Rightarrow> 'a \<Rightarrow> 's \<times> bool) \<Rightarrow> 's \<Rightarrow> 'a list \<Rightarrow> 's" where
  "iter_yield f s [] = s"
| "iter_yield f s (x # xs) = (let (s', go) = f s x in if go then iter_yield f s' xs else s')"

definition cq_iter :: "'a circ \<Rightarrow> ('s \<Rightarrow> 'a \<Rightarrow> 's \<times> bool) \<Rightarrow> 's \<Rightarrow> 's" where
  "cq_iter q f s =
     iter_yield f s (map (\<lambda>i. cq_items q ! ((cq_head q + i) mod length (cq_items q))) [0..<cq_size q])"

definition cq_unsafe_items :: "'a circ \<Rightarrow> 'a list \<times> nat \<times> nat" where
  "cq_unsafe_items q = (cq_items q, cq_head q, cq_size q)"

definition cq_pop :: "'a circ \<Rightarrow> 'a option \<times> 'a circ" where
  "cq_pop q =
     (if cq_size q = 0 then (None, q)
      else (Some (cq_items q ! cq_head q),
            q\<lparr>cq_head := (cq_head q + 1) mod length (cq_items q), cq_size := cq_size q - 1\<rparr>))"

definition cq_append :: "'a \<Rightarrow> 'a circ \<Rightarrow> 'a circ result" where
  "cq_append item q =
     (if length (cq_items q) = 0 then Inl (Err ''circularQueue: append on zero-capacity queue'')
      else
        let q1 = q\<lparr>cq_items := (cq_items q)[cq_tail q := item]\<rparr>;
            q2 = (if cq_size q1 = length (cq_items q1)
                  then q1\<lparr>cq_head := (cq_head q1 + 1) mod length (cq_items q1)\<rparr>
                  else q1\<lparr>cq_size := cq_size q1 + 1\<rparr>)
        in Inr (q2\<lparr>cq_tail := (cq_tail q2 + 1) mod length (cq_items q2)\<rparr>))"

subsection \<open>Invariant and abstraction\<close>

definition cq_ok :: "'a circ \<Rightarrow> bool" where
  "cq_ok q \<longleftrightarrow> 0 < length (cq_items q) \<and> cq_head q < length (cq_items q)
     \<and> cq_size q \<le> length (cq_items q)
     \<and> cq_tail q = (cq_head q + cq_size q) mod length (cq_items q)"

definition cq_cap :: "'a circ \<Rightarrow> nat" where
  "cq_cap q = length (cq_items q)"

definition cq_list :: "'a circ \<Rightarrow> 'a list" where
  "cq_list q = ring (cq_items q) (cq_head q) (cq_size q)"

text \<open>The append of a queue known to have room for one element.\<close>
definition cq_push :: "'a \<Rightarrow> 'a circ \<Rightarrow> 'a circ" where
  "cq_push x q = (case cq_append x q of Inl _ \<Rightarrow> q | Inr q' \<Rightarrow> q')"

lemma cq_append_ok: "cq_ok q \<Longrightarrow> cq_append x q = Inr (cq_push x q)"
  by (simp add: cq_push_def cq_append_def cq_ok_def Let_def)

lemma cq_ok_new:
  "0 < n \<Longrightarrow> new_circular_queue z n g = Inr q \<Longrightarrow> cq_ok q"
  by (auto simp: new_circular_queue_def cq_ok_def split: option.splits)

lemma cq_cap_push [simp]: "cq_cap (cq_push x q) = cq_cap q"
  by (simp add: cq_push_def cq_append_def cq_cap_def Let_def)

lemma cq_ok_push [inv_intros]: "cq_ok q \<Longrightarrow> cq_ok (cq_push x q)"
  by (auto simp: cq_ok_def cq_push_def cq_append_def Let_def mod_Suc_eq)

lemma cq_ok_pop [inv_intros]:
  assumes "cq_ok q"
  shows "cq_ok (snd (cq_pop q))"
proof (cases "cq_size q")
  case (Suc n)
  have "(Suc (cq_head q) mod length (cq_items q) + n) mod length (cq_items q)
        = (cq_head q + Suc n) mod length (cq_items q)"
    by (simp add: mod_simps)
  with Suc assms show ?thesis by (auto simp: cq_ok_def cq_pop_def)
qed (use assms in \<open>simp add: cq_pop_def\<close>)

lemma cq_ok_set [inv_intros]: "cq_ok q \<Longrightarrow> cq_set q i x = Inr q' \<Longrightarrow> cq_ok q'"
  by (auto simp: cq_ok_def cq_set_def split: if_splits)

lemma cq_list_push:
  assumes "cq_ok q"
  shows "cq_list (cq_push x q) = lastn (cq_cap q) (cq_list q @ [x])"
proof (cases "cq_size q = length (cq_items q)")
  case True
  let ?c = "length (cq_items q)"
  have c: "0 < ?c" "cq_head q < ?c" "cq_tail q = cq_head q"
    using assms True by (auto simp: cq_ok_def)
  have "cq_list (cq_push x q) = tl (cq_list q) @ [x]"
  proof (rule nth_equalityI)
    show "length (cq_list (cq_push x q)) = length (tl (cq_list q) @ [x])"
      using True c by (simp add: cq_list_def cq_push_def cq_append_def Let_def)
    fix i assume "i < length (cq_list (cq_push x q))"
    hence i: "i < ?c" using True c by (simp add: cq_list_def cq_push_def cq_append_def Let_def)
    have e: "(Suc (cq_head q) mod ?c + i) mod ?c = (cq_head q + Suc i) mod ?c"
      by (simp add: mod_simps)
    show "cq_list (cq_push x q) ! i = (tl (cq_list q) @ [x]) ! i"
    proof (cases "Suc i < ?c")
      case True
      hence "(cq_head q + Suc i) mod ?c \<noteq> cq_head q"
        using ring_index_inj[of "Suc i" ?c 0 "cq_head q"] c by auto
      moreover have "i < ?c - Suc 0" using True by simp
      ultimately show ?thesis using i c \<open>cq_size q = ?c\<close> e
        by (simp add: cq_list_def cq_push_def cq_append_def Let_def nth_append nth_tl)
    next
      case False
      with i have "Suc i = ?c" by simp
      moreover from this have "\<not> i < ?c - Suc 0" "i - (?c - Suc 0) = 0" by simp_all
      ultimately show ?thesis using i c e \<open>cq_size q = ?c\<close>
        by (simp add: cq_list_def cq_push_def cq_append_def Let_def nth_append)
    qed
  qed
  moreover have "lastn (cq_cap q) (cq_list q @ [x]) = tl (cq_list q) @ [x]"
    using True c by (intro lastn_full) (simp_all add: cq_list_def cq_cap_def)
  ultimately show ?thesis by simp
next
  case False
  let ?c = "length (cq_items q)"
  have c: "0 < ?c" "cq_size q < ?c" "cq_tail q = (cq_head q + cq_size q) mod ?c"
    using assms False by (auto simp: cq_ok_def)
  have "cq_list (cq_push x q) = cq_list q @ [x]"
  proof (rule nth_equalityI)
    show "length (cq_list (cq_push x q)) = length (cq_list q @ [x])"
      using False c by (simp add: cq_list_def cq_push_def cq_append_def Let_def)
    fix i assume "i < length (cq_list (cq_push x q))"
    hence i: "i < Suc (cq_size q)"
      using False c by (simp add: cq_list_def cq_push_def cq_append_def Let_def)
    show "cq_list (cq_push x q) ! i = (cq_list q @ [x]) ! i"
    proof (cases "i < cq_size q")
      case True
      hence "(cq_head q + i) mod ?c \<noteq> cq_tail q"
        using ring_index_inj[of i ?c "cq_size q" "cq_head q"] c by auto
      with True False c show ?thesis
        by (simp add: cq_list_def cq_push_def cq_append_def Let_def nth_append)
    next
      case False2: False
      with i have "i = cq_size q" by simp
      with False c show ?thesis
        by (simp add: cq_list_def cq_push_def cq_append_def Let_def nth_append)
    qed
  qed
  with c show ?thesis by (simp add: cq_cap_def cq_list_def)
qed

lemma cq_list_cap: "cq_ok q \<Longrightarrow> length (cq_list q) \<le> cq_cap q"
  by (simp add: cq_ok_def cq_list_def cq_cap_def)

interpretation cqw: window cq_push cq_list cq_cap cq_ok
  by unfold_locales (simp_all add: cq_ok_push cq_list_push cq_list_cap)

lemma cq_get_list [op_simps]:
  "cq_get q i = (if 0 \<le> i \<and> i < int (length (cq_list q)) then Inr (cq_list q ! nat i)
                 else Inl (Err ''circularqueue: get out of range''))"
  by (auto simp: cq_get_def cq_list_def)

lemma cq_pop_list [op_simps]:
  assumes "cq_ok q"
  shows "fst (cq_pop q) = (case cq_list q of [] \<Rightarrow> None | x # _ \<Rightarrow> Some x)"
    and "cq_list (snd (cq_pop q)) = tl (cq_list q)"
proof -
  have "cq_list q \<noteq> [] \<longleftrightarrow> cq_size q \<noteq> 0" by (auto simp: cq_list_def ring_def)
  moreover have "cq_size q \<noteq> 0 \<Longrightarrow> hd (cq_list q) = cq_items q ! cq_head q"
    using assms by (simp add: cq_list_def ring_def cq_ok_def hd_map)
  ultimately show "fst (cq_pop q) = (case cq_list q of [] \<Rightarrow> None | x # _ \<Rightarrow> Some x)"
    by (cases "cq_list q") (auto simp: cq_pop_def)
  show "cq_list (snd (cq_pop q)) = tl (cq_list q)"
    by (rule nth_equalityI)
      (auto simp: cq_pop_def cq_list_def nth_tl mod_simps ring_def)
qed

lemma cq_set_list [op_simps]:
  assumes "cq_ok q" "cq_set q i x = Inr q'"
  shows "cq_list q' = (cq_list q)[nat i := x]"
proof (rule nth_equalityI)
  from assms(2) have i: "0 \<le> i" "i < int (cq_size q)"
    and q': "q' = q\<lparr>cq_items := (cq_items q)[(cq_head q + nat i) mod length (cq_items q) := x]\<rparr>"
    by (auto simp: cq_set_def split: if_splits)
  show "length (cq_list q') = length ((cq_list q)[nat i := x])"
    by (simp add: q' cq_list_def)
  fix j assume "j < length (cq_list q')"
  hence j: "j < cq_size q" by (simp add: q' cq_list_def)
  have c: "0 < length (cq_items q)" "cq_size q \<le> length (cq_items q)"
    using assms(1) by (auto simp: cq_ok_def)
  show "cq_list q' ! j = (cq_list q)[nat i := x] ! j"
  proof (cases "j = nat i")
    case True
    with j c show ?thesis by (simp add: q' cq_list_def)
  next
    case False
    hence "(cq_head q + nat i) mod length (cq_items q) \<noteq> (cq_head q + j) mod length (cq_items q)"
      using ring_index_inj[of "nat i" "length (cq_items q)" j "cq_head q"] i j c by force
    with False j show ?thesis by (simp add: q' cq_list_def)
  qed
qed

lemma cq_iter_list: "cq_iter q f s = iter_yield f s (cq_list q)"
  by (simp add: cq_iter_def cq_list_def ring_def)

lemma cq_list_new:
  "0 \<le> n \<Longrightarrow> new_circular_queue z n None = Inr q \<Longrightarrow> cq_list q = replicate (nat n) z"
  by (auto simp: new_circular_queue_def cq_list_def ring_def intro!: nth_equalityI)

section \<open>EvictingList\<close>

record 'a evict =
  el_items :: "'a list"
  el_size :: nat
  el_count :: nat
  el_head :: nat

definition new_evicting_list :: "'a \<Rightarrow> int \<Rightarrow> 'a evict result" where
  "new_evicting_list zero n =
     (if n < 0 then Inl (Panic ''makeslice: len out of range'')
      else Inr \<lparr>el_items = replicate (nat n) zero, el_size = nat n, el_count = 0, el_head = 0\<rparr>)"

definition el_add :: "'a \<Rightarrow> 'a evict \<Rightarrow> 'a evict result" where
  "el_add v e =
     (if el_count e < el_size e
      then Inr (e\<lparr>el_items := (el_items e)[el_count e := v], el_count := el_count e + 1\<rparr>)
      else if el_head e < length (el_items e)
      then Inr (e\<lparr>el_items := (el_items e)[el_head e := v],
                  el_head := (el_head e + 1) mod el_size e\<rparr>)
      else Inl (Panic ''index out of range''))"

definition el_list :: "'a evict \<Rightarrow> 'a list" where
  "el_list e =
     (if el_count e = 0 then []
      else if el_count e < el_size e then take (el_count e) (el_items e)
      else drop (el_head e) (el_items e) @ take (el_head e) (el_items e))"

definition el_full :: "'a evict \<Rightarrow> bool" where
  "el_full e \<longleftrightarrow> el_size e \<le> el_count e"

definition el_clear :: "'a evict \<Rightarrow> 'a evict" where
  "el_clear e = e\<lparr>el_count := 0, el_head := 0\<rparr>"

definition el_ok :: "'a evict \<Rightarrow> bool" where
  "el_ok e \<longleftrightarrow> 0 < el_size e \<and> length (el_items e) = el_size e \<and> el_count e \<le> el_size e
     \<and> el_head e < el_size e \<and> (el_count e < el_size e \<longrightarrow> el_head e = 0)"

definition el_push :: "'a \<Rightarrow> 'a evict \<Rightarrow> 'a evict" where
  "el_push v e = (case el_add v e of Inl _ \<Rightarrow> e | Inr e' \<Rightarrow> e')"

lemma el_add_ok: "el_ok e \<Longrightarrow> el_add v e = Inr (el_push v e)"
  by (simp add: el_push_def el_add_def el_ok_def)

lemma el_ok_push [inv_intros]: "el_ok e \<Longrightarrow> el_ok (el_push v e)"
  by (auto simp: el_push_def el_add_def el_ok_def)

lemma el_size_push: "el_size (el_push v e) = el_size e"
  by (simp add: el_push_def el_add_def)

lemma el_ok_clear [inv_intros]: "el_ok e \<Longrightarrow> el_ok (el_clear e)"
  by (simp add: el_clear_def el_ok_def)

lemma el_ok_new: "0 < n \<Longrightarrow> new_evicting_list z n = Inr e \<Longrightarrow> el_ok e"
  by (auto simp: new_evicting_list_def el_ok_def)

lemma el_list_new: "new_evicting_list z n = Inr e \<Longrightarrow> el_list e = []"
  by (auto simp: new_evicting_list_def el_list_def split: if_splits)

lemma el_list_length: "el_ok e \<Longrightarrow> length (el_list e) = el_count e"
  by (auto simp: el_list_def el_ok_def)

lemma el_list_push_full:
  assumes "el_ok e" "el_count e = el_size e"
  shows "el_list (el_push v e) = tl (el_list e) @ [v]"
proof -
  let ?xs = "el_items e" and ?h = "el_head e"
  have h: "?h < length ?xs" "length ?xs = el_size e" using assms by (auto simp: el_ok_def)
  obtain y ys where d: "drop ?h ?xs = y # ys" using h by (metis Cons_nth_drop_Suc)
  have ys: "ys = drop (Suc ?h) ?xs" using d by (metis drop_Suc list.sel(3) tl_drop)
  show ?thesis
  proof (cases "Suc ?h = el_size e")
    case True
    have "take (Suc ?h) (?xs[?h := v]) = take ?h ?xs @ [v]"
      using h by (simp add: take_Suc_conv_app_nth)
    moreover have "?xs[?h := v] = take (Suc ?h) (?xs[?h := v])" using True h by simp
    ultimately have "?xs[?h := v] = take ?h ?xs @ [v]" by simp
    thus ?thesis using assms h True d ys
      by (simp add: el_list_def el_push_def el_add_def el_ok_def)
  next
    case False
    hence "Suc ?h < el_size e" using h by simp
    thus ?thesis using assms h d ys
      by (simp add: el_list_def el_push_def el_add_def el_ok_def take_Suc_conv_app_nth)
  qed
qed

lemma el_list_push:
  assumes "el_ok e"
  shows "el_list (el_push v e) = lastn (el_size e) (el_list e @ [v])"
proof (cases "el_count e = el_size e")
  case True
  have "lastn (el_size e) (el_list e @ [v]) = tl (el_list e) @ [v]"
    using assms True by (intro lastn_full) (auto simp: el_list_length el_ok_def)
  with el_list_push_full[OF assms True] show ?thesis by simp
next
  case False
  hence lt: "el_count e < el_size e" using assms by (simp add: el_ok_def)
  hence "take (Suc (el_count e)) ((el_items e)[el_count e := v]) = take (el_count e) (el_items e) @ [v]"
    using assms by (simp add: el_ok_def take_Suc_conv_app_nth)
  moreover have "Suc (el_count e) = el_size e \<Longrightarrow>
      take (Suc (el_count e)) ((el_items e)[el_count e := v]) = (el_items e)[el_count e := v]"
    using assms by (simp add: el_ok_def)
  ultimately have "el_list (el_push v e) = el_list e @ [v]"
    using assms lt
    by (cases "Suc (el_count e) < el_size e")
      (auto simp: el_list_def el_push_def el_add_def el_ok_def)
  with lt assms show ?thesis by (simp add: el_list_length)
qed

interpretation elw: window el_push el_list el_size el_ok
  by unfold_locales
    (auto simp: el_ok_push el_list_push el_list_length el_size_push, simp add: el_ok_def)

section \<open>Both containers\<close>

text \<open>Adding a list of elements one after the other, stopping at the first failure.\<close>
primrec run_adds :: "('a \<Rightarrow> 'q \<Rightarrow> 'q result) \<Rightarrow> 'a list \<Rightarrow> 'q \<Rightarrow> 'q result" where
  "run_adds f [] q = Inr q"
| "run_adds f (x # xs) q = bind_result (f x q) (run_adds f xs)"

lemma run_adds_total:
  assumes "\<And>x q. ok q \<Longrightarrow> f x q = Inr (g x q)" "\<And>x q. ok q \<Longrightarrow> ok (g x q)" "ok q"
  shows "run_adds f xs q = Inr (fold g xs q)"
  using assms(3) by (induction xs arbitrary: q) (simp_all add: assms(1,2))

text \<open>Adding elements to a new ring buffer or a new evicting list of positive capacity n never
  fails, and both then hold the last n elements in the order in which they were added (the ring
  after its n initial zero values).\<close>
theorem containers_hold_last_added:
  assumes "0 < n" "new_circular_queue z n None = Inr q" "new_evicting_list z n = Inr l"
  shows "\<exists>q' l'. run_adds cq_append xs q = Inr q' \<and> run_adds el_add xs l = Inr l'
     \<and> cq_list q' = lastn (nat n) (replicate (nat n) z @ xs) \<and> el_list l' = lastn (nat n) xs"
proof -
  have q: "cq_ok q" "cq_cap q = nat n" "cq_list q = replicate (nat n) z"
    using cq_ok_new[OF assms(1,2)] cq_list_new[OF _ assms(2)] assms(1,2)
    by (auto simp: cq_cap_def new_circular_queue_def)
  have l: "el_ok l" "el_size l = nat n" "el_list l = []"
    using el_ok_new[OF assms(1,3)] el_list_new[OF assms(3)] assms(1,3)
    by (auto simp: new_evicting_list_def)
  show ?thesis
    using cqw.items_adds[OF q(1), of xs] elw.items_adds[OF l(1), of xs]
      run_adds_total[of cq_ok cq_append cq_push, OF cq_append_ok cq_ok_push q(1), of xs]
      run_adds_total[of el_ok el_add el_push, OF el_add_ok el_ok_push l(1), of xs]
    by (simp add: q l)
qed

theorem containers_hold_last_added_witness:
  "\<exists>q' l'. run_adds cq_append [5, 6, 7] \<lparr>cq_items = [0, 0], cq_head = 0, cq_tail = 0, cq_size = 2\<rparr> = Inr q'
     \<and> run_adds el_add [5, 6, 7] \<lparr>el_items = [0, 0], el_size = 2, el_count = 0, el_head = 0\<rparr> = Inr l'
     \<and> cq_list q' = [6, 7 :: int] \<and> el_list l' = [6, 7 :: int]"
  using containers_hold_last_added[of 2 "0 :: int" "\<lparr>cq_items = [0, 0], cq_head = 0, cq_tail = 0, cq_size = 2\<rparr>"
      "\<lparr>el_items = [0, 0], el_size = 2, el_count = 0, el_head = 0\<rparr>" "[5, 6, 7]"]
  by (simp add: new_circular_queue_def new_evicting_list_def lastn_def numeral_2_eq_2)

end
