(* ===== verification/Bits.thy ===== *)
theory Bits
  imports Prelude
begin

text \<open>
  The flag words and the little-endian primitives of \<^verbatim>\<open>src/utils/bit.go\<close>.
  \<^verbatim>\<open>uint64\<close> and \<^verbatim>\<open>int64\<close> are both \<^verbatim>\<open>64 word\<close>; the signed reading is
  \<^verbatim>\<open>sint\<close>.  A buffer is the list of its bytes, a float is its bit pattern.
\<close>

unbundle bit_operations_syntax

section \<open>Flags\<close>

text \<open>\<^verbatim>\<open>HasFlag\<close> compares an unsigned word with zero.\<close>
definition has_flag :: "64 word \<Rightarrow> 64 word \<Rightarrow> bool" where
  "has_flag flags flag \<longleftrightarrow> 0 < flags AND flag"

text \<open>A Go shift by an unsigned count: counts of 64 and more shift every bit out.\<close>
definition go_shl :: "64 word \<Rightarrow> 64 word \<Rightarrow> 64 word" where
  "go_shl x n = push_bit (unat n) x"

text \<open>\<^verbatim>\<open>AddFlag\<close> and \<^verbatim>\<open>RemoveFlag\<close> at type \<^verbatim>\<open>uint64\<close>.\<close>
definition add_flag :: "64 word \<Rightarrow> 64 word \<Rightarrow> 64 word" where
  "add_flag flags flag = flags OR go_shl 1 flag"

definition remove_flag :: "64 word \<Rightarrow> 64 word \<Rightarrow> 64 word" where
  "remove_flag flags flag = flags AND NOT (go_shl 1 flag)"

text \<open>At type \<^verbatim>\<open>int64\<close> a negative shift count panics.\<close>
definition add_flag_s :: "64 word \<Rightarrow> 64 word \<Rightarrow> 64 word result" where
  "add_flag_s flags flag =
     (if sint flag < 0 then Inl (Panic ''negative shift amount'') else Inr (add_flag flags flag))"

definition remove_flag_s :: "64 word \<Rightarrow> 64 word \<Rightarrow> 64 word result" where
  "remove_flag_s flags flag =
     (if sint flag < 0 then Inl (Panic ''negative shift amount'') else Inr (remove_flag flags flag))"

text \<open>\<^verbatim>\<open>HasDataFlag\<close>: the data is an \<^verbatim>\<open>int64\<close>, so the test is the signed one.\<close>
definition has_data_flag :: "64 word \<Rightarrow> 64 word \<Rightarrow> bool" where
  "has_data_flag flag data \<longleftrightarrow> 0 < sint (data AND go_shl 1 (flag mod 64))"

definition remove_data_flag :: "64 word \<Rightarrow> 64 word \<Rightarrow> 64 word" where
  "remove_data_flag flags flag = flags AND NOT (go_shl 1 (flag mod 64))"

lemma has_flag_iff: "has_flag flags flag \<longleftrightarrow> (\<exists>i. bit flags i \<and> bit flag i)"
proof -
  have "has_flag flags flag \<longleftrightarrow> (\<exists>i. bit (flags AND flag) i)"
    unfolding has_flag_def by (metis bit_0_eq bit_eqI bot_apply bot_bool_def word_neq_0_conv)
  thus ?thesis by (simp add: bit_and_iff)
qed

lemma unat_mod_64: "unat (flag mod 64 :: 64 word) = unat flag mod 64"
  by (simp add: unat_mod)

lemma and_bit_eq: "(x AND push_bit n 1 :: 'a::len word) = (if bit x n then push_bit n 1 else 0)"
  by (rule bit_word_eqI) (auto simp: bit_simps)

lemma sint_pos_iff: "0 < sint w \<longleftrightarrow> w \<noteq> 0 \<and> \<not> bit w 63" for w :: "64 word"
proof -
  have "bit w 63 \<longleftrightarrow> sint w < 0" using bit_last_iff[of w] by simp
  moreover have "sint w = 0 \<longleftrightarrow> w = 0" by (metis signed_0 signed_word_eqI)
  ultimately show ?thesis by linarith
qed

lemma sint_push_bit_1:
  assumes "n < 64"
  shows "0 < sint (push_bit n 1 :: 64 word) \<longleftrightarrow> n \<noteq> 63"
proof -
  have "bit (push_bit n 1 :: 64 word) n" using assms by (simp add: bit_simps)
  hence "(push_bit n 1 :: 64 word) \<noteq> 0" by (metis bit_0_eq bot_apply bot_bool_def)
  thus ?thesis using assms unfolding sint_pos_iff by (auto simp: bit_simps)
qed

lemma has_data_flag_iff:
  "has_data_flag flag data \<longleftrightarrow> bit data (unat flag mod 64) \<and> unat flag mod 64 \<noteq> 63"
proof -
  have "unat flag mod 64 < 64" by simp
  from sint_push_bit_1[OF this] show ?thesis
    unfolding has_data_flag_def go_shl_def unat_mod_64 and_bit_eq by simp
qed

lemma bit_remove_data_flag:
  "bit (remove_data_flag flags flag) i \<longleftrightarrow> bit flags i \<and> i \<noteq> unat flag mod 64"
  by (auto simp: remove_data_flag_def go_shl_def unat_mod_64 bit_simps dest: bit_imp_le_length)

lemma bit_add_flag:
  "bit (add_flag flags flag) i \<longleftrightarrow> bit flags i \<or> (i = unat flag \<and> i < 64)"
  by (auto simp: add_flag_def go_shl_def bit_simps)

lemma bit_remove_flag:
  "bit (remove_flag flags flag) i \<longleftrightarrow> bit flags i \<and> i \<noteq> unat flag"
  by (auto simp: remove_flag_def go_shl_def bit_simps dest: bit_imp_le_length)

section \<open>Little-endian integers\<close>

definition byte_at :: "'a::len word \<Rightarrow> nat \<Rightarrow> 8 word" where
  "byte_at v k = ucast (signed_drop_bit (8 * k) v)"

definition write_lint32 :: "8 word list \<Rightarrow> 32 word \<Rightarrow> 8 word list" where
  "write_lint32 b v = b @ [byte_at v 0, byte_at v 1, byte_at v 2, byte_at v 3]"

definition write_lint64 :: "8 word list \<Rightarrow> 64 word \<Rightarrow> 8 word list" where
  "write_lint64 b v = b @ [byte_at v 0, byte_at v 1, byte_at v 2, byte_at v 3,
                           byte_at v 4, byte_at v 5, byte_at v 6, byte_at v 7]"

definition le_or :: "8 word list \<Rightarrow> nat \<Rightarrow> 'a::len word" where
  "le_or b n = foldr (\<lambda>k acc. push_bit (8 * k) (ucast (b ! k)) OR acc) [0..<n] 0"

definition lint32 :: "8 word list \<Rightarrow> 32 word result" where
  "lint32 b = (if length b < 4 then Inl (Panic ''index out of range'') else Inr (le_or b 4))"

definition lint64 :: "8 word list \<Rightarrow> 64 word result" where
  "lint64 b = (if length b < 8 then Inl (Panic ''index out of range'') else Inr (le_or b 8))"

text \<open>Floats are written by their bit pattern, in the same order of bytes.\<close>
definition write_lfloat32 :: "8 word list \<Rightarrow> 32 word \<Rightarrow> 8 word list" where
  "write_lfloat32 b bits = b @ map (\<lambda>k. ucast (drop_bit (8 * k) bits)) [0..<4]"

definition lfloat32 :: "8 word list \<Rightarrow> 32 word result" where
  "lfloat32 b = (if length b < 4 then Inl (Panic ''index out of range'') else Inr (le_or b 4))"

definition write_lfloat64 :: "8 word list \<Rightarrow> 64 word \<Rightarrow> 8 word list" where
  "write_lfloat64 b bits = b @ map (\<lambda>k. ucast (drop_bit (8 * k) bits)) [0..<8]"

definition lfloat64 :: "8 word list \<Rightarrow> 64 word result" where
  "lfloat64 b = (if length b < 8 then Inl (Panic ''index out of range'') else Inr (le_or b 8))"

definition write_vec32 :: "8 word list \<Rightarrow> 32 word \<times> 32 word \<times> 32 word \<Rightarrow> 8 word list" where
  "write_vec32 b v = (case v of (x, y, z) \<Rightarrow>
     write_lfloat32 (write_lfloat32 (write_lfloat32 b x) y) z)"

text \<open>The three slices of \<^verbatim>\<open>ReadVec32\<close>, of a buffer without spare capacity.\<close>
definition read_vec32 :: "8 word list \<Rightarrow> (32 word \<times> 32 word \<times> 32 word) result" where
  "read_vec32 b =
     (if length b < 12 then Inl (Panic ''slice bounds out of range'')
      else bind_result (lfloat32 (take 4 b)) (\<lambda>x.
           bind_result (lfloat32 (take 4 (drop 4 b))) (\<lambda>y.
           bind_result (lfloat32 (take 4 (drop 8 b))) (\<lambda>z. Inr (x, y, z)))))"

definition write_bool :: "8 word list \<Rightarrow> bool \<Rightarrow> 8 word list" where
  "write_bool b v = b @ [if v then 1 else 0]"

definition read_bool :: "8 word list \<Rightarrow> bool result" where
  "read_bool b = (case b of
       [] \<Rightarrow> Inl (Panic ''index out of range'')
     | v # _ \<Rightarrow> if v = 0 then Inr False else if v = 1 then Inr True
                else Inl (Panic ''unexpected non-boolean value in byte buffer''))"

lemma bit_byte_at:
  "8 * k + 8 \<le> LENGTH('a) \<Longrightarrow>
   bit (byte_at (v :: 'a::len word) k) i \<longleftrightarrow> i < 8 \<and> bit v (8 * k + i)"
  by (auto simp: byte_at_def bit_simps)

lemma bit_le_or:
  "bit (le_or b n :: 'a::len word) i \<longleftrightarrow>
     i < LENGTH('a) \<and> (\<exists>k<n. 8 * k \<le> i \<and> bit (b ! k) (i - 8 * k))"
proof (induction n)
  case (Suc n)
  have fr: "foldr (\<lambda>k acc. push_bit (8 * k) (ucast (b ! k)) OR acc) xs a
        = foldr (\<lambda>k acc. push_bit (8 * k) (ucast (b ! k)) OR acc) xs (0 :: 'a word) OR a" for xs a
    by (induction xs) (simp_all add: or.assoc)
  have "(le_or b (Suc n) :: 'a word) = le_or b n OR push_bit (8 * n) (ucast (b ! n))"
    unfolding le_or_def by (simp add: fr[of _ "push_bit (8 * n) (ucast (b ! n))"])
  with Suc show ?case by (auto simp: bit_simps less_Suc_eq)
qed (simp add: le_or_def)

lemma le_or_bytes:
  assumes "\<And>k i. k < n \<Longrightarrow> i < 8 \<Longrightarrow> bit (b ! k) i \<longleftrightarrow> bit (v :: 'a::len word) (8 * k + i)"
    and "LENGTH('a) = 8 * n"
  shows "(le_or b n :: 'a word) = v"
proof (rule bit_word_eqI)
  fix i assume i: "i < LENGTH('a)"
  hence q: "i div 8 < n" "8 * (i div 8) + i mod 8 = i" using assms(2) by auto
  have uniq: "k = i div 8" if "8 * k \<le> i" "bit (b ! k) (i - 8 * k)" for k
  proof -
    have "i - 8 * k < 8" using bit_imp_le_length[OF that(2)] by simp
    thus ?thesis using that(1) by simp
  qed
  show "bit (le_or b n :: 'a word) i \<longleftrightarrow> bit v i"
  proof
    assume "bit (le_or b n :: 'a word) i"
    then obtain k where "k < n" "8 * k \<le> i" "bit (b ! k) (i - 8 * k)"
      by (auto simp: bit_le_or)
    thus "bit v i" using assms(1)[of k "i - 8 * k"] bit_imp_le_length by fastforce
  next
    assume "bit v i"
    hence "bit (b ! (i div 8)) (i mod 8)" using assms(1)[of "i div 8" "i mod 8"] q by simp
    moreover have "i - 8 * (i div 8) = i mod 8" by (simp add: minus_mult_div_eq_mod)
    ultimately show "bit (le_or b n :: 'a word) i" using i q by (auto simp: bit_le_or)
  qed
qed

lemma less_4_cases: "k < 4 \<Longrightarrow> k = 0 \<or> k = 1 \<or> k = 2 \<or> k = (3::nat)" by auto
lemma less_8_cases:
  "k < 8 \<Longrightarrow> k = 0 \<or> k = 1 \<or> k = 2 \<or> k = 3 \<or> k = 4 \<or> k = 5 \<or> k = 6 \<or> k = (7::nat)" by auto

lemma lint32_write: "lint32 (write_lint32 [] v) = Inr v"
proof -
  have "(le_or (write_lint32 [] v) 4 :: 32 word) = v"
    by (rule le_or_bytes)
      (auto simp: write_lint32_def bit_byte_at dest!: less_4_cases)
  thus ?thesis by (simp add: lint32_def write_lint32_def)
qed

lemma lint64_write: "lint64 (write_lint64 [] v) = Inr v"
proof -
  have "(le_or (write_lint64 [] v) 8 :: 64 word) = v"
    by (rule le_or_bytes)
      (auto simp: write_lint64_def bit_byte_at dest!: less_8_cases)
  thus ?thesis by (simp add: lint64_def write_lint64_def)
qed

lemma lfloat32_write: "lfloat32 (write_lfloat32 [] v) = Inr v"
proof -
  have "(le_or (write_lfloat32 [] v) 4 :: 32 word) = v"
    by (rule le_or_bytes) (auto simp: write_lfloat32_def bit_simps add.commute)
  thus ?thesis by (simp add: lfloat32_def write_lfloat32_def)
qed

lemma lfloat64_write: "lfloat64 (write_lfloat64 [] v) = Inr v"
proof -
  have "(le_or (write_lfloat64 [] v) 8 :: 64 word) = v"
    by (rule le_or_bytes) (auto simp: write_lfloat64_def bit_simps add.commute)
  thus ?thesis by (simp add: lfloat64_def write_lfloat64_def)
qed

lemma length_write_lfloat32 [simp]: "length (write_lfloat32 b v) = length b + 4"
  by (simp add: write_lfloat32_def)

lemma write_lfloat32_split: "write_lfloat32 b v = b @ write_lfloat32 [] v"
  by (simp add: write_lfloat32_def)

lemma read_vec32_write: "read_vec32 (write_vec32 [] v) = Inr v"
proof (cases v)
  case (fields x y z)
  have "write_vec32 [] v = write_lfloat32 [] x @ write_lfloat32 [] y @ write_lfloat32 [] z"
    unfolding fields write_vec32_def
    by (simp add: write_lfloat32_def)
  thus ?thesis by (simp add: read_vec32_def lfloat32_write fields)
qed

lemma read_bool_write: "read_bool (write_bool [] v) = Inr v"
  by (simp add: read_bool_def write_bool_def)

section \<open>Wire formats\<close>

text \<open>Every writer of the byte buffer is read back exactly by the reader of its width, whatever the
  buffer held before it, for all 32- and 64-bit patterns (floats by their bits, NaNs included).\<close>
theorem writers_read_back:
  "lint32 (drop (length b) (write_lint32 b i)) = Inr i
   \<and> lint64 (drop (length b) (write_lint64 b j)) = Inr j
   \<and> lfloat32 (drop (length b) (write_lfloat32 b f)) = Inr f
   \<and> lfloat64 (drop (length b) (write_lfloat64 b g)) = Inr g
   \<and> read_vec32 (drop (length b) (write_vec32 b v)) = Inr v
   \<and> read_bool (drop (length b) (write_bool b t)) = Inr t"
proof -
  have "drop (length b) (write_lint32 b i) = write_lint32 [] i" "drop (length b) (write_lint64 b j) = write_lint64 [] j"
    "drop (length b) (write_lfloat32 b f) = write_lfloat32 [] f"
    "drop (length b) (write_lfloat64 b g) = write_lfloat64 [] g" "drop (length b) (write_bool b t) = write_bool [] t"
    by (simp_all add: write_lint32_def write_lint64_def write_lfloat32_def write_lfloat64_def write_bool_def)
  moreover have "drop (length b) (write_vec32 b v) = write_vec32 [] v"
    by (cases v) (simp add: write_vec32_def write_lfloat32_def)
  ultimately show ?thesis
    by (simp only: lint32_write lint64_write lfloat32_write lfloat64_write read_vec32_write read_bool_write)
qed

text \<open>The test of a data flag is the test of its bit for every flag but number 63, the sign bit of the
  signed word, for which it answers no.\<close>
theorem data_flag_is_bit:
  "has_data_flag flag data \<longleftrightarrow> bit data (unat flag mod 64) \<and> unat flag mod 64 \<noteq> 63"
  by (rule has_data_flag_iff)

end
