(* ===== verification/Entities.thy ===== *)
theory Entities
  imports Queues Bits
begin

text \<open>
  Entities and their rewind buffer: \<^verbatim>\<open>src/entity/entity.go\<close>,
  \<^verbatim>\<open>src/entity/rewind.go\<close>, and the tracker of
  \<^verbatim>\<open>src/player/component/entities.go\<close>.

  The vectors are values of a type \<^verbatim>\<open>'v\<close> with the operations of the vector package
  that the code calls, collected in a record; sizes are values of a type \<^verbatim>\<open>'f\<close>.
  Entities are shared by pointer (a pending acknowledgment may hold one), so the tracker
  maps runtime ids to addresses of a store of entities.
\<close>

section \<open>Vectors\<close>

text \<open>
  \<^verbatim>\<open>v_mul_inv n v\<close> is \<^verbatim>\<open>v.Mul(1 / float32(n))\<close>, and
  \<^verbatim>\<open>v_lower v\<close> subtracts the default player height offset from the second coordinate.
\<close>
record 'v vec_ops =
  v_zero :: 'v
  v_add :: "'v \<Rightarrow> 'v \<Rightarrow> 'v"
  v_sub :: "'v \<Rightarrow> 'v \<Rightarrow> 'v"
  v_mul_inv :: "int \<Rightarrow> 'v \<Rightarrow> 'v"
  v_lower :: "'v \<Rightarrow> 'v"

section \<open>Entities\<close>

record 'v hist =
  hp_pos :: 'v
  hp_prev :: 'v
  hp_teleport :: bool
  hp_tick :: int

record ('v, 'f, 'm) entity =
  e_rid :: "64 word"
  e_metadata :: 'm
  e_type :: string
  e_pos :: 'v
  e_prev_pos :: 'v
  e_recv_pos :: 'v
  e_prev_recv_pos :: 'v
  e_vel :: 'v
  e_prev_vel :: 'v
  e_recv_vel :: 'v
  e_prev_recv_vel :: 'v
  e_history :: "'v hist circ option"
  e_interp_ticks :: int
  e_since_teleport :: int
  e_width :: 'f
  e_height :: 'f
  e_scale :: 'f
  e_is_player :: bool
  e_history_size :: int

abbreviation entity_player_interpolation_ticks :: int where
  "entity_player_interpolation_ticks \<equiv> 3"

abbreviation entity_mob_interpolation_ticks :: int where
  "entity_mob_interpolation_ticks \<equiv> 6"

definition zero_hist :: "'v vec_ops \<Rightarrow> 'v hist" where
  "zero_hist V = \<lparr>hp_pos = v_zero V, hp_prev = v_zero V, hp_teleport = False, hp_tick = 0\<rparr>"

definition new_entity ::
  "'v vec_ops \<Rightarrow> 64 word \<Rightarrow> string \<Rightarrow> 'm \<Rightarrow> 'v \<Rightarrow> int \<Rightarrow> bool \<Rightarrow> 'f \<Rightarrow> 'f \<Rightarrow> 'f
   \<Rightarrow> ('v, 'f, 'm) entity result" where
  "new_entity V rid ty metadata pos history_size is_player width height scale =
     bind_result (new_circular_queue (zero_hist V) history_size (Some (\<lambda>_. zero_hist V))) (\<lambda>q.
       Inr \<lparr>e_rid = rid, e_metadata = metadata, e_type = ty,
            e_pos = pos, e_prev_pos = pos, e_recv_pos = pos, e_prev_recv_pos = v_zero V,
            e_vel = v_zero V, e_prev_vel = v_zero V,
            e_recv_vel = v_zero V, e_prev_recv_vel = v_zero V,
            e_history = Some q, e_interp_ticks = 0, e_since_teleport = 0,
            e_width = width, e_height = height, e_scale = scale,
            e_is_player = is_player, e_history_size = history_size\<rparr>)"

definition receive_position :: "'v hist \<Rightarrow> ('v, 'f, 'm) entity \<Rightarrow> ('v, 'f, 'm) entity" where
  "receive_position hp e =
    (let e1 = e\<lparr>e_prev_recv_pos := e_recv_pos e, e_recv_pos := hp_pos hp,
                e_interp_ticks := entity_mob_interpolation_ticks\<rparr>;
         e2 = (if e_is_player e1 then e1\<lparr>e_interp_ticks := entity_player_interpolation_ticks\<rparr> else e1)
     in if hp_teleport hp then e2\<lparr>e_since_teleport := 0, e_interp_ticks := 1\<rparr> else e2)"

text \<open>
  \<^verbatim>\<open>UpdatePosition\<close>: the positions have already moved when the append fails.
\<close>
definition update_position ::
  "'v vec_ops \<Rightarrow> 'v hist \<Rightarrow> ('v, 'f, 'm) entity \<Rightarrow> go_error option \<times> ('v, 'f, 'm) entity" where
  "update_position V hp e =
    (let e1 = e\<lparr>e_prev_pos := e_pos e, e_pos := hp_pos hp\<rparr>;
         e2 = e1\<lparr>e_prev_vel := e_vel e1, e_vel := v_sub V (e_pos e1) (e_prev_pos e1)\<rparr>
     in case e_history e2 of
          None \<Rightarrow> (Some (Panic ''nil pointer dereference''), e2)
        | Some q \<Rightarrow> (case cq_append hp q of
              Inl err \<Rightarrow> (Some err, e2)
            | Inr q' \<Rightarrow> (None, e2\<lparr>e_history := Some q'\<rparr>)))"

definition update_velocity :: "'v \<Rightarrow> ('v, 'f, 'm) entity \<Rightarrow> ('v, 'f, 'm) entity" where
  "update_velocity vel e = e\<lparr>e_prev_recv_vel := e_recv_vel e, e_recv_vel := vel\<rparr>"

text \<open>The position that one tick of interpolation moves to.\<close>
definition interpolated :: "'v vec_ops \<Rightarrow> ('v, 'f, 'm) entity \<Rightarrow> 'v" where
  "interpolated V e =
    (if e_interp_ticks e < 0 then e_pos e
     else if 0 < e_interp_ticks e
     then v_add V (e_pos e) (v_mul_inv V (e_interp_ticks e) (v_sub V (e_recv_pos e) (e_pos e)))
     else e_recv_pos e)"

definition entity_tick ::
  "'v vec_ops \<Rightarrow> int \<Rightarrow> ('v, 'f, 'm) entity \<Rightarrow> go_error option \<times> ('v, 'f, 'm) entity" where
  "entity_tick V tick e =
    (let hp = \<lparr>hp_pos = interpolated V e, hp_prev = e_pos e, hp_teleport = False, hp_tick = tick\<rparr>
     in if e_interp_ticks e < 0 then update_position V hp e
        else (case update_position V hp e of
                (Some err, e') \<Rightarrow> (Some err, e')
              | (None, e') \<Rightarrow>
                  (None, e'\<lparr>e_since_teleport := e_since_teleport e' + 1,
                            e_interp_ticks := e_interp_ticks e' - 1\<rparr>)))"

section \<open>Rewind\<close>

text \<open>
  The scan of \<^verbatim>\<open>Rewind\<close> over the buffer, oldest entry first; \<^verbatim>\<open>best\<close> is
  \<^verbatim>\<open>None\<close> while nothing has been found, else the best entry and its distance.
\<close>
fun rewind_scan :: "int \<Rightarrow> ('v hist \<times> int) option \<Rightarrow> 'v hist list \<Rightarrow> 'v hist option" where
  "rewind_scan tick best [] = map_option fst best"
| "rewind_scan tick best (hp # hps) =
    (if hp_tick hp = 0 then rewind_scan tick best hps
     else if hp_tick hp = tick then Some hp
     else
       let delta = hp_tick hp - tick;
           current = (if delta < 0 then delta * -1 else delta)
       in case best of
            None \<Rightarrow> rewind_scan tick (Some (hp, current)) hps
          | Some (b, bd) \<Rightarrow>
              if current \<le> bd then rewind_scan tick (Some (hp, current)) hps
              else Some b)"

definition rewind ::
  "'v vec_ops \<Rightarrow> int \<Rightarrow> ('v, 'f, 'm) entity \<Rightarrow> (('v hist option) \<times> ('v, 'f, 'm) entity) result" where
  "rewind V tick e =
    (case e_history e of
       Some q \<Rightarrow>
         if cq_size q \<noteq> 0
         then (let (buf, head, size) = cq_unsafe_items q
               in Inr (rewind_scan tick None (ring buf head size), e))
         else if e_history_size e \<le> 0
         then Inl (Panic ''entity.Rewind: unable to re-create entity rewind buffer'')
         else bind_result (new_circular_queue (zero_hist V) (e_history_size e) (Some (\<lambda>_. zero_hist V)))
                (\<lambda>q'. Inr (None, e\<lparr>e_history := Some q'\<rparr>))
     | None \<Rightarrow>
         if e_history_size e \<le> 0
         then Inl (Panic ''entity.Rewind: unable to re-create entity rewind buffer'')
         else bind_result (new_circular_queue (zero_hist V) (e_history_size e) (Some (\<lambda>_. zero_hist V)))
                (\<lambda>q'. Inr (None, e\<lparr>e_history := Some q'\<rparr>)))"

text \<open>The entries of the buffer that a tick has written.\<close>
definition recorded :: "'v hist list \<Rightarrow> 'v hist list" where
  "recorded hps = filter (\<lambda>hp. hp_tick hp \<noteq> 0) hps"

definition ordered :: "'v hist list \<Rightarrow> bool" where
  "ordered hps \<longleftrightarrow> sorted (map hp_tick (recorded hps))"

lemma recorded_simps [simp]:
  "recorded [] = []"
  "recorded (hp # hps) = (if hp_tick hp = 0 then recorded hps else hp # recorded hps)"
  "recorded (xs @ ys) = recorded xs @ recorded ys"
  by (simp_all add: recorded_def)

lemma set_recorded: "set (recorded hps) = {h \<in> set hps. hp_tick h \<noteq> 0}"
  by (auto simp: recorded_def)

definition closest :: "int \<Rightarrow> 'v hist \<Rightarrow> 'v hist list \<Rightarrow> bool" where
  "closest tick r hps \<longleftrightarrow> r \<in> set hps \<and> (\<forall>h \<in> set hps. \<bar>hp_tick r - tick\<bar> \<le> \<bar>hp_tick h - tick\<bar>)"

lemma abs_delta: "(if d < 0 then d * -1 else d) = \<bar>d :: int\<bar>" by simp

lemma rewind_scan_best:
  assumes "ordered (b # hps)" "hp_tick b \<noteq> 0"
  shows "\<exists>r. rewind_scan tick (Some (b, \<bar>hp_tick b - tick\<bar>)) hps = Some r
           \<and> closest tick r (recorded (b # hps))"
  using assms
proof (induction hps arbitrary: b)
  case Nil
  thus ?case by (simp add: closest_def)
next
  case (Cons hp hps)
  show ?case
  proof (cases "hp_tick hp = 0")
    case True
    with Cons.prems Cons.IH[of b] show ?thesis by (simp add: ordered_def)
  next
    case nz: False
    have le: "\<forall>h \<in> set (recorded hps). hp_tick hp \<le> hp_tick h" "hp_tick b \<le> hp_tick hp"
      and ord: "ordered (hp # hps)"
      using Cons.prems nz by (auto simp: ordered_def)
    consider (exact) "hp_tick hp = tick"
      | (better) "hp_tick hp \<noteq> tick" "\<bar>hp_tick hp - tick\<bar> \<le> \<bar>hp_tick b - tick\<bar>"
      | (worse) "hp_tick hp \<noteq> tick" "\<bar>hp_tick b - tick\<bar> < \<bar>hp_tick hp - tick\<bar>"
      by linarith
    thus ?thesis
    proof cases
      case exact
      with nz Cons.prems(2) show ?thesis by (simp add: closest_def)
    next
      case better
      from Cons.IH[OF ord nz] obtain r
        where r: "rewind_scan tick (Some (hp, \<bar>hp_tick hp - tick\<bar>)) hps = Some r"
          "closest tick r (recorded (hp # hps))"
        by blast
      have "\<bar>hp_tick r - tick\<bar> \<le> \<bar>hp_tick hp - tick\<bar>"
        using r(2) nz by (simp add: closest_def)
      hence "closest tick r (recorded (b # hp # hps))"
        using r(2) better nz Cons.prems(2) by (simp add: closest_def)
      with r(1) better nz show ?thesis by (simp add: Let_def abs_delta)
    next
      case worse
      have "\<bar>hp_tick b - tick\<bar> \<le> \<bar>hp_tick h - tick\<bar>" if "h \<in> set (recorded hps)" for h
        using le(1)[rule_format, OF that] le(2) worse by linarith
      hence "closest tick b (recorded (b # hp # hps))"
        using worse nz Cons.prems(2) by (simp add: closest_def)
      with worse nz show ?thesis by (simp add: Let_def abs_delta)
    qed
  qed
qed

lemma rewind_scan_closest:
  assumes "ordered hps"
  shows "(rewind_scan tick None hps = None \<and> recorded hps = [])
       \<or> (\<exists>r. rewind_scan tick None hps = Some r \<and> closest tick r (recorded hps))"
  using assms
proof (induction hps)
  case (Cons hp hps)
  consider (zero) "hp_tick hp = 0" | (exact) "hp_tick hp \<noteq> 0" "hp_tick hp = tick"
    | (other) "hp_tick hp \<noteq> 0" "hp_tick hp \<noteq> tick" by blast
  thus ?case
  proof cases
    case zero
    with Cons show ?thesis by (simp add: ordered_def)
  next
    case exact
    thus ?thesis by (simp add: closest_def)
  next
    case other
    hence "rewind_scan tick None (hp # hps) = rewind_scan tick (Some (hp, \<bar>hp_tick hp - tick\<bar>)) hps"
      by (simp add: Let_def abs_delta)
    moreover obtain r where "rewind_scan tick (Some (hp, \<bar>hp_tick hp - tick\<bar>)) hps = Some r"
      "closest tick r (recorded (hp # hps))"
      using rewind_scan_best[OF Cons.prems other(1)] by blast
    ultimately show ?thesis by (metis)
  qed
qed simp

text \<open>An entry with the tick asked for is found whatever precedes it, when ticks do not repeat.\<close>
lemma rewind_scan_exact:
  assumes "ordered hps" "hp \<in> set hps" "hp_tick hp = tick" "tick \<noteq> 0"
    and "\<forall>h \<in> set hps. hp_tick h = tick \<longrightarrow> h = hp"
  shows "rewind_scan tick None hps = Some hp"
proof -
  have mem: "hp \<in> set (recorded hps)" using assms(2-4) by (simp add: set_recorded)
  hence "recorded hps \<noteq> []" by (metis length_greater_0_conv length_pos_if_in_set)
  then obtain r where r: "rewind_scan tick None hps = Some r" "closest tick r (recorded hps)"
    using rewind_scan_closest[OF assms(1), of tick] by blast
  have "\<bar>hp_tick r - tick\<bar> \<le> \<bar>hp_tick hp - tick\<bar>" "r \<in> set hps"
    using r(2) mem by (auto simp: closest_def set_recorded)
  with assms(3,5) have "r = hp" by simp
  with r(1) show ?thesis by simp
qed

section \<open>The tick keeps the history in order\<close>

definition history_list :: "('v, 'f, 'm) entity \<Rightarrow> 'v hist list" where
  "history_list e = (case e_history e of None \<Rightarrow> [] | Some q \<Rightarrow> cq_list q)"

text \<open>
  The invariant of an entity whose last tick was \<^verbatim>\<open>now\<close>: a usable buffer, whose
  entries carry increasing ticks, none later than \<^verbatim>\<open>now\<close>.
\<close>
definition entity_ok :: "int \<Rightarrow> ('v, 'f, 'm) entity \<Rightarrow> bool" where
  "entity_ok now e \<longleftrightarrow>
     (\<exists>q. e_history e = Some q \<and> cq_ok q \<and> cq_size q = length (cq_items q)
        \<and> sorted_wrt (<) (map hp_tick (recorded (cq_list q)))
        \<and> (\<forall>h \<in> set (cq_list q). hp_tick h \<le> now))"

lemma entity_ok_new:
  assumes "0 < n" "0 \<le> now" "new_entity V rid ty m pos n pl w h s = Inr e"
  shows "entity_ok now e"
proof -
  from assms(1,3) obtain q where q: "new_circular_queue (zero_hist V) n (Some (\<lambda>_. zero_hist V)) = Inr q"
    and e: "e_history e = Some q"
    by (auto simp: new_entity_def bind_result_Inr_iff)
  have "cq_ok q" using cq_ok_new[OF assms(1) q] .
  have items: "cq_items q = replicate (nat n) (zero_hist V)" "cq_size q = nat n"
    using q assms(1) by (auto simp: new_circular_queue_def map_replicate_const)
  have "set (cq_list q) \<subseteq> {zero_hist V}"
    using assms(1) by (auto simp: cq_list_def ring_def items)
  hence z: "\<forall>h \<in> set (cq_list q). hp_tick h = 0" by (auto simp: zero_hist_def)
  hence "recorded (cq_list q) = []" unfolding recorded_def by (intro filter_False) simp
  with \<open>cq_ok q\<close> items e assms(2) z show ?thesis by (auto simp: entity_ok_def)
qed

lemma entity_ok_cong:
  "e_history e' = e_history e \<Longrightarrow> entity_ok now e' \<longleftrightarrow> entity_ok now e"
  by (simp add: entity_ok_def)

lemma receive_position_history [simp]: "e_history (receive_position hp e) = e_history e"
  by (simp add: receive_position_def Let_def)

lemma update_position_ok:
  assumes "entity_ok now e"
  shows "fst (update_position V hp e) = None"
    and "e_history e = Some q \<Longrightarrow> e_history (snd (update_position V hp e)) = Some (cq_push hp q)"
    and "e_pos (snd (update_position V hp e)) = hp_pos hp"
  using assms by (auto simp: entity_ok_def update_position_def Let_def cq_append_ok)

lemma entity_tick_ok:
  assumes "entity_ok now e"
  shows "fst (entity_tick V tick e) = None"
    and "e_history e = Some q \<Longrightarrow> e_history (snd (entity_tick V tick e))
         = Some (cq_push \<lparr>hp_pos = interpolated V e, hp_prev = e_pos e,
                          hp_teleport = False, hp_tick = tick\<rparr> q)"
    and "e_pos (snd (entity_tick V tick e)) = interpolated V e"
proof -
  let ?hp = "\<lparr>hp_pos = interpolated V e, hp_prev = e_pos e, hp_teleport = False, hp_tick = tick\<rparr>"
  obtain e' where u: "update_position V ?hp e = (None, e')"
    using update_position_ok(1)[OF assms, of V ?hp] by (cases "update_position V ?hp e") auto
  have u': "e_pos e' = interpolated V e"
    "e_history e = Some q \<Longrightarrow> e_history e' = Some (cq_push ?hp q)"
    using update_position_ok(2)[OF assms, of q V ?hp] update_position_ok(3)[OF assms, of V ?hp] u by auto
  show "fst (entity_tick V tick e) = None" by (simp add: entity_tick_def u Let_def)
  show "e_history (snd (entity_tick V tick e)) = Some (cq_push ?hp q)" if "e_history e = Some q"
    using u'(2)[OF that] by (simp add: entity_tick_def u Let_def)
  show "e_pos (snd (entity_tick V tick e)) = interpolated V e"
    using u'(1) by (simp add: entity_tick_def u Let_def)
qed

lemma cq_list_push_full:
  "cq_ok q \<Longrightarrow> cq_size q = length (cq_items q) \<Longrightarrow> cq_list (cq_push x q) = tl (cq_list q) @ [x]"
  by (rule cqw.items_add_full) (auto simp: cq_cap_def cq_list_def cq_ok_def)

lemma cq_push_full:
  "cq_size q = length (cq_items q) \<Longrightarrow> cq_size (cq_push x q) = length (cq_items (cq_push x q))"
  by (simp add: cq_push_def cq_append_def Let_def)

lemma recorded_tl_sorted:
  "sorted_wrt (<) (map hp_tick (recorded xs)) \<Longrightarrow> sorted_wrt (<) (map hp_tick (recorded (tl xs)))"
  by (cases xs) (auto split: if_splits)

lemma entity_ok_tick [inv_intros]:
  assumes "entity_ok now e" "now < tick"
  shows "entity_ok tick (snd (entity_tick V tick e))"
proof -
  from assms(1) obtain q where q: "e_history e = Some q" "cq_ok q" "cq_size q = length (cq_items q)"
    "sorted_wrt (<) (map hp_tick (recorded (cq_list q)))"
    "\<forall>h \<in> set (cq_list q). hp_tick h \<le> now"
    by (auto simp: entity_ok_def)
  let ?hp = "\<lparr>hp_pos = interpolated V e, hp_prev = e_pos e, hp_teleport = False, hp_tick = tick\<rparr>"
  have l: "cq_list (cq_push ?hp q) = tl (cq_list q) @ [?hp]"
    using q by (simp add: cq_list_push_full)
  have older: "hp_tick h \<le> now" if "h \<in> set (tl (cq_list q))" for h
    using q(5) that by (cases "cq_list q") auto
  have "sorted_wrt (<) (map hp_tick (recorded (cq_list (cq_push ?hp q))))"
    using recorded_tl_sorted[OF q(4)] older assms(2)
    by (auto simp: l sorted_wrt_append set_recorded intro: le_less_trans)
  moreover have "\<forall>h \<in> set (cq_list (cq_push ?hp q)). hp_tick h \<le> tick"
    using older assms(2) by (fastforce simp: l)
  ultimately show ?thesis
    using entity_tick_ok(2)[OF assms(1) q(1), of V tick] q cq_push_full[of q ?hp]
    by (auto simp: entity_ok_def intro: inv_intros)
qed

section \<open>Runs of one entity\<close>

datatype 'v entity_event = EvReceive "'v hist" | EvVelocity 'v | EvEntityTick int

primrec entity_step :: "'v vec_ops \<Rightarrow> 'v entity_event \<Rightarrow> ('v, 'f, 'm) entity \<Rightarrow> ('v, 'f, 'm) entity" where
  "entity_step V (EvReceive hp) e = receive_position hp e"
| "entity_step V (EvVelocity v) e = update_velocity v e"
| "entity_step V (EvEntityTick t) e = snd (entity_tick V t e)"

text \<open>The ticks of a run.\<close>
fun event_ticks :: "'v entity_event list \<Rightarrow> int list" where
  "event_ticks [] = []"
| "event_ticks (EvEntityTick t # evs) = t # event_ticks evs"
| "event_ticks (_ # evs) = event_ticks evs"

text \<open>The reference history: every tick with the position that the entity has after it.\<close>
fun position_trace :: "'v vec_ops \<Rightarrow> 'v entity_event list \<Rightarrow> ('v, 'f, 'm) entity \<Rightarrow> (int \<times> 'v) list" where
  "position_trace V [] e = []"
| "position_trace V (EvEntityTick t # evs) e =
    (let e' = snd (entity_tick V t e) in (t, e_pos e') # position_trace V evs e')"
| "position_trace V (ev # evs) e = position_trace V evs (entity_step V ev e)"

lemma position_trace_ticks: "map fst (position_trace V evs e) = event_ticks evs"
  by (induction V evs e rule: position_trace.induct) (simp_all add: Let_def)

definition stamps :: "'v hist list \<Rightarrow> (int \<times> 'v) list" where
  "stamps hps = map (\<lambda>h. (hp_tick h, hp_pos h)) hps"

lemma map_lastn: "map f (lastn n xs) = lastn n (map f xs)"
  by (simp add: lastn_def drop_map)

lemma entity_step_keeps:
  "e_history (receive_position hp e) = e_history e" "e_history (update_velocity v e) = e_history e"
  by (simp_all add: update_velocity_def)

lemma tick_history:
  assumes "e_history e = Some q" "cq_ok q"
  shows "\<exists>hp. e_history (snd (entity_tick V t e)) = Some (cq_push hp q)
     \<and> hp_tick hp = t \<and> hp_pos hp = e_pos (snd (entity_tick V t e))"
  using assms
  by (auto simp: entity_tick_def update_position_def Let_def cq_append_ok
      intro!: exI[of _ "\<lparr>hp_pos = interpolated V e, hp_prev = e_pos e, hp_teleport = False, hp_tick = t\<rparr>"])

text \<open>The buffer holds the last ticks of the run, after what it held before.\<close>
lemma entity_run_history:
  assumes "e_history e = Some q" "cq_ok q"
  shows "\<exists>q'. e_history (fold (entity_step V) evs e) = Some q' \<and> cq_ok q' \<and> cq_cap q' = cq_cap q
     \<and> stamps (cq_list q') = lastn (cq_cap q) (stamps (cq_list q) @ position_trace V evs e)"
  using assms
proof (induction evs arbitrary: e q)
  case Nil
  then show ?case using cq_list_cap[of q] by (simp add: stamps_def)
next
  case (Cons ev evs)
  show ?case
  proof (cases ev)
    case (EvEntityTick t)
    let ?e = "snd (entity_tick V t e)"
    obtain hp where hp: "e_history ?e = Some (cq_push hp q)" "hp_tick hp = t" "hp_pos hp = e_pos ?e"
      using tick_history[OF Cons.prems] by blast
    have "stamps (cq_list (cq_push hp q)) = lastn (cq_cap q) (stamps (cq_list q) @ [(t, e_pos ?e)])"
      using hp by (simp add: cq_list_push[OF Cons.prems(2)] stamps_def map_lastn)
    with Cons.IH[OF hp(1) cq_ok_push[OF Cons.prems(2)]] show ?thesis
      by (simp add: EvEntityTick Let_def lastn_append1)
  qed (use Cons in \<open>simp_all add: entity_step_keeps\<close>)
qed

lemma stamps_empty: "stamps (replicate n (zero_hist V)) = replicate n (0, v_zero V)"
  by (simp add: stamps_def zero_hist_def)

lemma new_entity_history:
  assumes "0 < n" "new_entity V rid ty m pos n pl w h s = Inr e"
  obtains q where "e_history e = Some q" "cq_ok q" "cq_cap q = nat n"
    "cq_list q = replicate (nat n) (zero_hist V)"
proof -
  from assms obtain q where q: "new_circular_queue (zero_hist V) n (Some (\<lambda>_. zero_hist V)) = Inr q"
    and e: "e_history e = Some q"
    by (auto simp: new_entity_def bind_result_Inr_iff)
  have items: "cq_items q = replicate (nat n) (zero_hist V)" "cq_size q = nat n" "cq_head q = 0"
    using q assms(1) by (auto simp: new_circular_queue_def map_replicate_const)
  have "cq_list q = replicate (nat n) (zero_hist V)"
    by (rule nth_equalityI) (simp_all add: cq_list_def ring_def items)
  then show thesis using that[OF e cq_ok_new[OF assms(1) q]] items by (simp add: cq_cap_def)
qed

lemma lastn_set: "x \<in> set (lastn n xs) \<Longrightarrow> x \<in> set xs"
  unfolding lastn_def by (rule in_set_dropD)

lemma recorded_stamps:
  "stamps hps = lastn n (replicate n (0, v) @ tr) \<Longrightarrow> \<forall>p \<in> set tr. fst p \<noteq> 0
   \<Longrightarrow> stamps (recorded hps) = lastn n tr"
proof -
  assume a: "stamps hps = lastn n (replicate n (0, v) @ tr)" and nz: "\<forall>p \<in> set tr. fst p \<noteq> 0"
  have "stamps (recorded hps) = filter (\<lambda>p. fst p \<noteq> 0) (stamps hps)"
    by (simp add: stamps_def recorded_def filter_map o_def)
  also have "\<dots> = filter (\<lambda>p. fst p \<noteq> 0) (lastn n tr)"
    by (simp add: a lastn_def)
  also have "\<dots> = lastn n tr" using nz lastn_set by (intro filter_True) fast
  finally show ?thesis .
qed

lemma sorted_lastn: "sorted_wrt R xs \<Longrightarrow> sorted_wrt R (lastn n xs)"
  by (simp add: lastn_def sorted_wrt_drop)

lemma stamps_in:
  "h \<in> set hps \<Longrightarrow> (hp_tick h, hp_pos h) \<in> set (stamps hps)"
  "(t, p) \<in> set (stamps hps) \<Longrightarrow> \<exists>h \<in> set hps. hp_tick h = t \<and> hp_pos h = p"
  by (auto simp: stamps_def)

text \<open>C27: whatever positions and velocities arrive, after a run of increasing ticks a rewind to tick t
  answers from the last n ticks of the run (n the history size) with the position that the entity
  had after a tick closest to t, hence with the position after t itself when t is one of them; it
  answers nothing only when no tick has run, and never fails.\<close>
theorem rewind_answers_closest:
  assumes "0 < n" "new_entity V rid ty m pos n pl w h s = Inr e"
    and "sorted_wrt (<) (event_ticks evs)" "\<forall>k \<in> set (event_ticks evs). 0 < k"
  shows "\<exists>r. rewind V t (fold (entity_step V) evs e) = Inr (r, fold (entity_step V) evs e)
     \<and> (case r of None \<Rightarrow> event_ticks evs = []
        | Some hp \<Rightarrow> (hp_tick hp, hp_pos hp) \<in> set (lastn (nat n) (position_trace V evs e))
            \<and> (\<forall>k \<in> set (lastn (nat n) (event_ticks evs)). \<bar>hp_tick hp - t\<bar> \<le> \<bar>k - t\<bar>))"
proof -
  let ?e = "fold (entity_step V) evs e" and ?tr = "position_trace V evs e"
  obtain q0 where q0: "e_history e = Some q0" "cq_ok q0" "cq_cap q0 = nat n"
    "cq_list q0 = replicate (nat n) (zero_hist V)" by (rule new_entity_history[OF assms(1,2)])
  obtain q where q: "e_history ?e = Some q" "cq_ok q" "cq_cap q = nat n"
    "stamps (cq_list q) = lastn (nat n) (replicate (nat n) (0, v_zero V) @ ?tr)"
    using entity_run_history[OF q0(1,2), of V evs] by (auto simp: q0(3,4) stamps_empty)
  have "fst p \<in> set (event_ticks evs)" if "p \<in> set ?tr" for p
    using that position_trace_ticks[of V evs e] by (metis image_eqI list.set_map)
  then have nz: "\<forall>p \<in> set ?tr. fst p \<noteq> 0" using assms(4) by fastforce
  have rec: "stamps (recorded (cq_list q)) = lastn (nat n) ?tr" by (rule recorded_stamps[OF q(4) nz])
  have ticks: "map hp_tick (recorded (cq_list q)) = lastn (nat n) (event_ticks evs)"
    using arg_cong[OF rec, of "map fst"] position_trace_ticks[of V evs e]
    by (simp add: stamps_def o_def map_lastn)
  then have ord: "ordered (cq_list q)"
    using sorted_lastn[OF assms(3), of "nat n"]
    by (simp add: ordered_def sorted_wrt_mono_rel[of _ "(<)" "(\<le>)"])
  have size: "cq_size q \<noteq> 0"
    using arg_cong[OF q(4), of length] assms(1) by (simp add: cq_list_def stamps_def lastn_def)
  have r: "rewind V t ?e = Inr (rewind_scan t None (cq_list q), ?e)"
    using size by (simp add: rewind_def q(1) cq_unsafe_items_def cq_list_def)
  have empty: "event_ticks evs = []" if "recorded (cq_list q) = []"
    using ticks that assms(1) by (cases "event_ticks evs") (auto simp: lastn_def)
  from rewind_scan_closest[OF ord, of t] show ?thesis
  proof
    assume "rewind_scan t None (cq_list q) = None \<and> recorded (cq_list q) = []"
    with r empty show ?thesis by simp
  next
    assume "\<exists>r. rewind_scan t None (cq_list q) = Some r \<and> closest t r (recorded (cq_list q))"
    then obtain hp where hp: "rewind_scan t None (cq_list q) = Some hp" "closest t hp (recorded (cq_list q))"
      by blast
    have "\<forall>k \<in> set (lastn (nat n) (event_ticks evs)). \<bar>hp_tick hp - t\<bar> \<le> \<bar>k - t\<bar>"
      using hp(2) by (simp add: closest_def flip: ticks)
    moreover have "(hp_tick hp, hp_pos hp) \<in> set (lastn (nat n) ?tr)"
      using hp(2) stamps_in(1) unfolding closest_def rec[symmetric] by blast
    ultimately show ?thesis using r hp(1) by simp
  qed
qed


text \<open>Positions on a line, a mob with a buffer of two.\<close>
definition line_ops :: "int vec_ops" where
  "line_ops = \<lparr>v_zero = 0, v_add = (+), v_sub = (-), v_mul_inv = (\<lambda>n v. v div n), v_lower = (\<lambda>v. v - 1)\<rparr>"

definition demo_entity :: "(int, nat, unit) entity" where
  "demo_entity = projr (new_entity line_ops 7 ''minecraft:pig'' () 10 2 False 0 0 1)"

lemma demo_entity_new:
  "new_entity line_ops 7 ''minecraft:pig'' () 10 2 False 0 0 1 = Inr demo_entity"
  by (simp add: demo_entity_def new_entity_def new_circular_queue_def)

abbreviation demo_events :: "int entity_event list" where
  "demo_events \<equiv> [EvEntityTick 1, EvReceive \<lparr>hp_pos = 40, hp_prev = 10, hp_teleport = False, hp_tick = 2\<rparr>,
     EvEntityTick 2, EvEntityTick 5]"

theorem rewind_answers_closest_witness:
  "\<exists>hp. rewind line_ops 4 (fold (entity_step line_ops) demo_events demo_entity)
         = Inr (Some hp, fold (entity_step line_ops) demo_events demo_entity) \<and> hp_tick hp = 5"
  using rewind_answers_closest[of 2 line_ops 7 "''minecraft:pig''" "()" 10 False 0 0 1 demo_entity
      demo_events 4, OF _ demo_entity_new]
  by (auto simp: lastn_def Let_def split: option.splits)

section \<open>Interpolation\<close>

fun ticks_from :: "'v vec_ops \<Rightarrow> int \<Rightarrow> nat \<Rightarrow> ('v, 'f, 'm) entity \<Rightarrow> ('v, 'f, 'm) entity" where
  "ticks_from V t 0 e = e"
| "ticks_from V t (Suc k) e = ticks_from V (t + 1) k (snd (entity_tick V t e))"

lemma tick_interp:
  assumes "\<exists>q. e_history e = Some q \<and> cq_ok q" "0 \<le> e_interp_ticks e"
  shows "e_interp_ticks (snd (entity_tick V t e)) = e_interp_ticks e - 1"
    and "e_recv_pos (snd (entity_tick V t e)) = e_recv_pos e"
    and "e_pos (snd (entity_tick V t e)) = interpolated V e"
    and "\<exists>q. e_history (snd (entity_tick V t e)) = Some q \<and> cq_ok q"
  using assms by (auto simp: entity_tick_def update_position_def Let_def cq_append_ok cq_ok_push)

lemma interpolation_run:
  assumes "\<exists>q. e_history e = Some q \<and> cq_ok q" "0 \<le> e_interp_ticks e" "k = nat (e_interp_ticks e)"
  shows "e_pos (ticks_from V t (Suc k) e) = e_recv_pos e"
  using assms
proof (induction k arbitrary: e t)
  case 0
  then show ?case using tick_interp(3)[OF 0(1,2)] by (simp add: interpolated_def)
next
  case (Suc k)
  have "nat (e_interp_ticks (snd (entity_tick V t e))) = k" "0 \<le> e_interp_ticks (snd (entity_tick V t e))"
    using Suc.prems(2,3) tick_interp(1)[OF Suc.prems(1,2), of V t] by auto
  with Suc.IH[of "snd (entity_tick V t e)" "t + 1"] tick_interp(2,4)[OF Suc.prems(1,2), of V t]
  show ?case by simp
qed

text \<open>A position that arrives is reached exactly: one tick after the interpolation steps it sets
  (three for a player, six for another mob, one for a teleport) the entity is at that position,
  whatever rounding the steps before it made.\<close>
theorem received_position_reached:
  assumes "entity_ok now e"
  shows "e_pos (ticks_from V t (if hp_teleport hp then 2 else if e_is_player e then 4 else 7)
           (receive_position hp e)) = hp_pos hp"
proof -
  let ?e = "receive_position hp e"
  have h: "\<exists>q. e_history ?e = Some q \<and> cq_ok q" using assms by (auto simp: entity_ok_def)
  have i: "e_interp_ticks ?e = (if hp_teleport hp then 1 else if e_is_player e then 3 else 6)"
    and p: "e_recv_pos ?e = hp_pos hp"
    by (simp_all add: receive_position_def Let_def)
  have "0 \<le> e_interp_ticks ?e" by (simp add: i)
  from interpolation_run[OF h this refl, of V t] show ?thesis
    by (auto simp: i p eval_nat_numeral split: if_splits simp del: ticks_from.simps)
qed

theorem received_position_reached_witness:
  "e_pos (ticks_from line_ops 1 7 (receive_position
     \<lparr>hp_pos = 45, hp_prev = 10, hp_teleport = False, hp_tick = 1\<rparr> demo_entity)) = 45"
proof -
  have "entity_ok 0 demo_entity" by (rule entity_ok_new[OF _ _ demo_entity_new]) simp_all
  moreover have "\<not> e_is_player demo_entity"
    by (simp add: demo_entity_def new_entity_def new_circular_queue_def)
  ultimately show ?thesis
    using received_position_reached[of 0 demo_entity line_ops 1
      "\<lparr>hp_pos = 45, hp_prev = 10, hp_teleport = False, hp_tick = 1\<rparr>"] by simp
qed

section \<open>The tracker\<close>

text \<open>
  One tracker: whether it follows the client's view, and the entity addresses by runtime id.
  The store of entities is shared by the trackers and by pending acknowledgments.
\<close>
type_synonym ('v, 'f, 'm) ent_store = "nat \<Rightarrow> ('v, 'f, 'm) entity option"

record tracker =
  tr_entities :: "64 word \<Rightarrow> nat option"
  tr_client :: bool

definition new_entity_tracker :: "bool \<Rightarrow> tracker" where
  "new_entity_tracker client = \<lparr>tr_entities = Map.empty, tr_client = client\<rparr>"

definition add_entity :: "64 word \<Rightarrow> nat \<Rightarrow> tracker \<Rightarrow> tracker" where
  "add_entity rid a tr = tr\<lparr>tr_entities := (tr_entities tr)(rid \<mapsto> a)\<rparr>"

definition remove_entity :: "64 word \<Rightarrow> tracker \<Rightarrow> tracker" where
  "remove_entity rid tr = tr\<lparr>tr_entities := (tr_entities tr)(rid := None)\<rparr>"

definition find_entity :: "64 word \<Rightarrow> tracker \<Rightarrow> nat option" where
  "find_entity rid tr = tr_entities tr rid"

definition move_entity ::
  "'v vec_ops \<Rightarrow> tracker \<Rightarrow> 64 word \<Rightarrow> int \<Rightarrow> 'v \<Rightarrow> bool
   \<Rightarrow> ('v, 'f, 'm) ent_store \<Rightarrow> ('v, 'f, 'm) ent_store" where
  "move_entity V tr rid tick pos teleport st =
    (case tr_entities tr rid of
       None \<Rightarrow> st
     | Some a \<Rightarrow> (case st a of
         None \<Rightarrow> st
       | Some e \<Rightarrow>
           st(a \<mapsto> receive_position
                  \<lparr>hp_pos = (if e_is_player e then v_lower V pos else pos),
                   hp_prev = e_recv_pos e, hp_teleport = teleport, hp_tick = tick\<rparr> e)))"

text \<open>
  What a tracker does with a movement packet: move the entity now, or leave the move to an
  acknowledgment of the client.
\<close>
datatype 'v move_outcome = MovedNow | AckPosition 'v "64 word" bool

definition handle_move ::
  "'v vec_ops \<Rightarrow> tracker \<Rightarrow> int \<Rightarrow> 64 word \<Rightarrow> 'v \<Rightarrow> bool
   \<Rightarrow> ('v, 'f, 'm) ent_store \<Rightarrow> 'v move_outcome \<times> ('v, 'f, 'm) ent_store" where
  "handle_move V tr server_tick rid pos teleport st =
    (if \<not> tr_client tr then (MovedNow, move_entity V tr rid server_tick pos teleport st)
     else (AckPosition pos rid teleport, st))"

text \<open>
  The packet library's \<^verbatim>\<open>MoveModeTeleport\<close> and \<^verbatim>\<open>MoveFlagTeleport\<close> are
  arguments.
\<close>
definition handle_move_player ::
  "'v vec_ops \<Rightarrow> 8 word \<Rightarrow> tracker \<Rightarrow> int \<Rightarrow> 64 word \<Rightarrow> 'v \<Rightarrow> 8 word
   \<Rightarrow> ('v, 'f, 'm) ent_store \<Rightarrow> 'v move_outcome \<times> ('v, 'f, 'm) ent_store" where
  "handle_move_player V mode_teleport tr server_tick rid pos mode st =
     handle_move V tr server_tick rid pos (mode = mode_teleport) st"

definition handle_move_actor_absolute ::
  "'v vec_ops \<Rightarrow> 64 word \<Rightarrow> tracker \<Rightarrow> int \<Rightarrow> 64 word \<Rightarrow> 'v \<Rightarrow> 8 word
   \<Rightarrow> ('v, 'f, 'm) ent_store \<Rightarrow> 'v move_outcome \<times> ('v, 'f, 'm) ent_store" where
  "handle_move_actor_absolute V flag_teleport tr server_tick rid pos flags st =
     handle_move V tr server_tick rid pos (has_flag (ucast flags) flag_teleport) st"

text \<open>
  The size entries of the metadata, \<^verbatim>\<open>None\<close> when absent; an entry of another type
  would fail the type assertion.
\<close>
record 'f size_meta =
  sm_width :: "'f option"
  sm_height :: "'f option"
  sm_scale :: "'f option"

definition calculate_bb_size :: "'f size_meta \<Rightarrow> 'f \<Rightarrow> 'f \<Rightarrow> 'f \<Rightarrow> 'f \<times> 'f \<times> 'f" where
  "calculate_bb_size d w0 h0 s0 =
    (let width = (case sm_width d of Some w \<Rightarrow> w | None \<Rightarrow> w0);
         height = (case sm_height d of Some h \<Rightarrow> h | None \<Rightarrow> h0);
         s = (case sm_scale d of Some c \<Rightarrow> c | None \<Rightarrow> s0)
     in (width, height, s))"

datatype 'f size_outcome = NoEntity | SizedNow | AckSize nat 'f 'f 'f

definition handle_set_actor_data ::
  "tracker \<Rightarrow> 64 word \<Rightarrow> 'f size_meta \<Rightarrow> ('v, 'f, 'm) ent_store
   \<Rightarrow> 'f size_outcome \<times> ('v, 'f, 'm) ent_store" where
  "handle_set_actor_data tr rid d st =
    (case find_entity rid tr of
       None \<Rightarrow> (NoEntity, st)
     | Some a \<Rightarrow> (case st a of
         None \<Rightarrow> (NoEntity, st)
       | Some e \<Rightarrow>
          (let (w, h, s) = calculate_bb_size d (e_width e) (e_height e) (e_scale e)
           in if tr_client tr then (AckSize a w h s, st)
              else (SizedNow, st(a \<mapsto> e\<lparr>e_width := w, e_height := h, e_scale := s\<rparr>)))))"

text \<open>
  \<^verbatim>\<open>Tick\<close> of the tracker: the tracked entities in the order of the map's
  iteration; errors are only logged.
\<close>
definition tick_at ::
  "'v vec_ops \<Rightarrow> int \<Rightarrow> nat \<Rightarrow> ('v, 'f, 'm) ent_store \<Rightarrow> ('v, 'f, 'm) ent_store" where
  "tick_at V tick a st = (case st a of None \<Rightarrow> st | Some e \<Rightarrow> st(a \<mapsto> snd (entity_tick V tick e)))"

definition tracker_tick ::
  "'v vec_ops \<Rightarrow> tracker \<Rightarrow> int \<Rightarrow> 64 word list \<Rightarrow> ('v, 'f, 'm) ent_store \<Rightarrow> ('v, 'f, 'm) ent_store" where
  "tracker_tick V tr tick order st =
    fold (\<lambda>rid st. case tr_entities tr rid of None \<Rightarrow> st | Some a \<Rightarrow> tick_at V tick a st) order st"

lemma tick_at_apply:
  "tick_at V tick a st b = (if b = a then map_option (\<lambda>e. snd (entity_tick V tick e)) (st a) else st b)"
  by (simp add: tick_at_def split: option.splits)

lemma tracker_tick_apply:
  assumes "distinct order" "inj_on (tr_entities tr) (set order)"
  shows "tracker_tick V tr tick order st b =
    (if \<exists>rid \<in> set order. tr_entities tr rid = Some b
     then map_option (\<lambda>e. snd (entity_tick V tick e)) (st b) else st b)"
  using assms
proof (induction order arbitrary: st)
  case (Cons rid order)
  have new: "tr_entities tr r \<noteq> Some x" if "r \<in> set order" "tr_entities tr rid = Some x" for r x
  proof
    assume "tr_entities tr r = Some x"
    hence "r = rid" using inj_onD[OF Cons.prems(2), of r rid] that by simp
    with that Cons.prems(1) show False by simp
  qed
  have IH: "tracker_tick V tr tick order st' b =
    (if \<exists>rid \<in> set order. tr_entities tr rid = Some b
     then map_option (\<lambda>e. snd (entity_tick V tick e)) (st' b) else st' b)"
    for st' :: "('a, 'b, 'c) ent_store"
    using Cons.IH[of st'] Cons.prems by simp
  have step: "tracker_tick V tr tick (rid # order) st = tracker_tick V tr tick order
      (case tr_entities tr rid of None \<Rightarrow> st | Some a \<Rightarrow> tick_at V tick a st)"
    by (simp add: tracker_tick_def)
  show ?case
    unfolding step IH using new by (auto simp: tick_at_apply split: option.splits)
qed (simp add: tracker_tick_def)

lemma tracker_tick_keeps:
  assumes "\<And>a e. st a = Some e \<Longrightarrow> entity_ok now e" "now < tick"
    and "distinct order" "inj_on (tr_entities tr) (set order)"
    and "rid \<in> set order" "tr_entities tr rid = Some a" "tracker_tick V tr tick order st a = Some e'"
  shows "entity_ok tick e'"
  using assms(1,2,5,6,7)
  by (auto simp: tracker_tick_apply[OF assms(3,4)] intro: entity_ok_tick split: if_splits)

end
