(* ===== verification/Clicks.thy ===== *)
theory Clicks
  imports Queues
begin

text \<open>
  The click counters of \<^verbatim>\<open>src/player/component/clicks.go\<close> and the effect timers of
  \<^verbatim>\<open>src/player/component/effects.go\<close> and \<^verbatim>\<open>src/player/effects.go\<close>.

  The left and the right button have the same fields and the same operations in the code;
  \<^verbatim>\<open>click_side\<close> holds the fields of one button, and the component has one of each.
  A hook is a callback of a detection: an operation returns the hooks that it calls, in
  order.
\<close>

section \<open>The click counters\<close>

abbreviation ticks_per_second :: int where
  "ticks_per_second \<equiv> 20"

record 'h click_side =
  cs_clicks :: "int circ"
  cs_delay :: int
  cs_last :: int
  cs_cps :: int
  cs_hooks :: "'h list"

record 'h clicks =
  ck_left :: "'h click_side"
  ck_right :: "'h click_side"

text \<open>A new queue of one second of ticks; \<^verbatim>\<open>ticks_per_second\<close> is not negative.\<close>
definition fresh_click_queue :: "int circ" where
  "fresh_click_queue = \<lparr>cq_items = replicate (nat ticks_per_second) 0,
      cq_head = 0, cq_tail = 0, cq_size = nat ticks_per_second\<rparr>"

lemma fresh_click_queue_new:
  "new_circular_queue 0 ticks_per_second (Some (\<lambda>_. 0)) = Inr fresh_click_queue"
  by (simp add: new_circular_queue_def fresh_click_queue_def map_replicate_const)

definition new_click_side :: "'h click_side" where
  "new_click_side = \<lparr>cs_clicks = fresh_click_queue, cs_delay = 0, cs_last = 0, cs_cps = 0, cs_hooks = []\<rparr>"

definition new_clicks_component :: "'h clicks" where
  "new_clicks_component = \<lparr>ck_left = new_click_side, ck_right = new_click_side\<rparr>"

definition reset_and_propagate :: "'h click_side \<Rightarrow> 'h click_side" where
  "reset_and_propagate c = c\<lparr>cs_cps := 0, cs_delay := 0, cs_last := 0, cs_clicks := fresh_click_queue\<rparr>"

definition click_side_click :: "int \<Rightarrow> 'h click_side \<Rightarrow> 'h click_side \<times> 'h list" where
  "click_side_click input_count c =
    (let index = int (cq_size (cs_clicks c)) - 1
     in case cq_get (cs_clicks c) index of
          Inl _ \<Rightarrow> (reset_and_propagate c, [])
        | Inr current \<Rightarrow>
            (case cq_set (cs_clicks c) index (current + 1) of
               Inl _ \<Rightarrow> (reset_and_propagate c, [])
             | Inr q \<Rightarrow>
                 (c\<lparr>cs_clicks := q, cs_cps := cs_cps c + 1,
                    cs_delay := input_count - cs_last c, cs_last := input_count\<rparr>, cs_hooks c)))"

text \<open>
  \<^verbatim>\<open>Tick\<close> of one button: the oldest count leaves the rate, a zero enters the queue;
  the error of an append to a queue without capacity is ignored.
\<close>
definition click_side_tick :: "'h click_side \<Rightarrow> 'h click_side" where
  "click_side_tick c =
    (let c1 = (case cq_get (cs_clicks c) 0 of
                 Inl _ \<Rightarrow> reset_and_propagate c
               | Inr oldest \<Rightarrow> c\<lparr>cs_cps := cs_cps c - oldest\<rparr>)
     in case cq_append 0 (cs_clicks c1) of
          Inl _ \<Rightarrow> c1
        | Inr q \<Rightarrow> c1\<lparr>cs_clicks := q\<rparr>)"

definition click_left :: "int \<Rightarrow> 'h clicks \<Rightarrow> 'h clicks \<times> 'h list" where
  "click_left input_count c =
    (case click_side_click input_count (ck_left c) of (s, hs) \<Rightarrow> (c\<lparr>ck_left := s\<rparr>, hs))"

definition click_right :: "int \<Rightarrow> 'h clicks \<Rightarrow> 'h clicks \<times> 'h list" where
  "click_right input_count c =
    (case click_side_click input_count (ck_right c) of (s, hs) \<Rightarrow> (c\<lparr>ck_right := s\<rparr>, hs))"

definition clicks_handle_attack :: "bool \<Rightarrow> int \<Rightarrow> 'h clicks \<Rightarrow> 'h clicks \<times> 'h list" where
  "clicks_handle_attack is_attack input_count c =
     (if is_attack then click_left input_count c else (c, []))"

definition clicks_handle_swing :: "int \<Rightarrow> 'h clicks \<Rightarrow> 'h clicks \<times> 'h list" where
  "clicks_handle_swing = click_left"

definition clicks_handle_right :: "bool \<Rightarrow> bool \<Rightarrow> int \<Rightarrow> 'h clicks \<Rightarrow> 'h clicks \<times> 'h list" where
  "clicks_handle_right version_in_range is_player_input input_count c =
     (if \<not> version_in_range \<or> \<not> is_player_input then (c, []) else click_right input_count c)"

definition add_left_hook :: "'h \<Rightarrow> 'h clicks \<Rightarrow> 'h clicks" where
  "add_left_hook h c = c\<lparr>ck_left := (ck_left c)\<lparr>cs_hooks := cs_hooks (ck_left c) @ [h]\<rparr>\<rparr>"

definition add_right_hook :: "'h \<Rightarrow> 'h clicks \<Rightarrow> 'h clicks" where
  "add_right_hook h c = c\<lparr>ck_right := (ck_right c)\<lparr>cs_hooks := cs_hooks (ck_right c) @ [h]\<rparr>\<rparr>"

definition clicks_tick :: "'h clicks \<Rightarrow> 'h clicks" where
  "clicks_tick c = c\<lparr>ck_left := click_side_tick (ck_left c), ck_right := click_side_tick (ck_right c)\<rparr>"

subsection \<open>The rate is the sum of the window\<close>

definition side_ok :: "'h click_side \<Rightarrow> bool" where
  "side_ok c \<longleftrightarrow> cq_ok (cs_clicks c) \<and> length (cq_items (cs_clicks c)) = nat ticks_per_second
     \<and> cq_size (cs_clicks c) = nat ticks_per_second
     \<and> cs_cps c = sum_list (cq_list (cs_clicks c))"

lemma sum_list_last_update:
  "xs \<noteq> [] \<Longrightarrow> sum_list (xs[length xs - 1 := last xs + 1]) = sum_list xs + (1::int)"
  by (simp add: sum_list_update_int last_conv_nth)

lemma fresh_ok: "cq_ok fresh_click_queue" "cq_list fresh_click_queue = replicate (nat ticks_per_second) 0"
  by (auto simp: fresh_click_queue_def cq_ok_def cq_list_def ring_def intro!: nth_equalityI)

lemma side_ok_new: "side_ok new_click_side"
  using fresh_ok by (simp add: side_ok_def new_click_side_def sum_list_replicate fresh_click_queue_def)

lemma side_window: "side_ok c \<Longrightarrow> length (cq_list (cs_clicks c)) = nat ticks_per_second"
  by (simp add: side_ok_def cq_list_def)

text \<open>A click adds one to the newest count; the reset branches are not reached.\<close>
lemma side_click_queue:
  assumes "side_ok c"
  shows "cq_list (cs_clicks (fst (click_side_click n c)))
           = (cq_list (cs_clicks c))[19 := cq_list (cs_clicks c) ! 19 + 1]"
    and "cs_cps (fst (click_side_click n c)) = cs_cps c + 1"
    and "snd (click_side_click n c) = cs_hooks c"
    and "side_ok (fst (click_side_click n c))"
proof -
  let ?q = "cs_clicks c"
  have len: "length (cq_list ?q) = 20" "cq_size ?q = 20" "cq_ok ?q"
    using side_window[OF assms] assms by (auto simp: side_ok_def)
  have g: "cq_get ?q 19 = Inr (cq_list ?q ! 19)" by (simp add: op_simps len)
  obtain q' where q': "cq_set ?q 19 (cq_list ?q ! 19 + 1) = Inr q'"
    by (simp add: cq_set_def len)
  have l': "cq_list q' = (cq_list ?q)[19 := cq_list ?q ! 19 + 1]"
    using cq_set_list[OF len(3) q'] by simp
  have sz: "length (cq_items q') = length (cq_items ?q)" "cq_size q' = cq_size ?q"
    using q' by (auto simp: cq_set_def split: if_splits)
  have r: "click_side_click n c = (c\<lparr>cs_clicks := q', cs_cps := cs_cps c + 1,
      cs_delay := n - cs_last c, cs_last := n\<rparr>, cs_hooks c)"
    by (simp add: click_side_click_def Let_def g q' len)
  show "cq_list (cs_clicks (fst (click_side_click n c)))
      = (cq_list ?q)[19 := cq_list ?q ! 19 + 1]" by (simp add: r l')
  show "cs_cps (fst (click_side_click n c)) = cs_cps c + 1" "snd (click_side_click n c) = cs_hooks c"
    by (simp_all add: r)
  have "sum_list (cq_list q') = sum_list (cq_list ?q) + 1"
    by (simp add: l' sum_list_update_int len)
  thus "side_ok (fst (click_side_click n c))"
    using assms sz cq_ok_set[OF len(3) q'] by (simp add: r side_ok_def)
qed

lemma side_tick_queue:
  assumes "side_ok c"
  shows "cq_list (cs_clicks (click_side_tick c)) = tl (cq_list (cs_clicks c)) @ [0]"
    and "side_ok (click_side_tick c)"
proof -
  let ?q = "cs_clicks c"
  have len: "length (cq_list ?q) = 20" "cq_size ?q = 20" "length (cq_items ?q) = 20" "cq_ok ?q"
    using side_window[OF assms] assms by (auto simp: side_ok_def)
  then obtain x xs where xs: "cq_list ?q = x # xs" by (cases "cq_list ?q") auto
  have r: "click_side_tick c = c\<lparr>cs_cps := cs_cps c - x, cs_clicks := cq_push 0 ?q\<rparr>"
    using len xs by (simp add: click_side_tick_def Let_def op_simps cq_append_ok)
  have l: "cq_list (cq_push 0 ?q) = tl (cq_list ?q) @ [0]"
    by (rule cqw.items_add_full) (use len in \<open>simp_all add: cq_cap_def\<close>)
  thus "cq_list (cs_clicks (click_side_tick c)) = tl (cq_list ?q) @ [0]" by (simp add: r)
  have "cq_size (cq_push 0 ?q) = 20" "length (cq_items (cq_push 0 ?q)) = 20"
    using len by (simp_all add: cq_push_def cq_append_def Let_def)
  thus "side_ok (click_side_tick c)"
    using assms len l xs cq_ok_push[of ?q 0] by (simp add: r side_ok_def)
qed

subsection \<open>A reference definition of the rate\<close>

datatype click_event = EvClick int | EvTick

primrec side_step :: "click_event \<Rightarrow> 'h click_side \<Rightarrow> 'h click_side" where
  "side_step (EvClick n) c = fst (click_side_click n c)"
| "side_step EvTick c = click_side_tick c"

text \<open>The number of clicks between consecutive ticks, the open interval last.\<close>
fun interval_counts :: "int list \<Rightarrow> click_event list \<Rightarrow> int list" where
  "interval_counts cs [] = cs"
| "interval_counts cs (EvClick _ # evs) = interval_counts (butlast cs @ [last cs + 1]) evs"
| "interval_counts cs (EvTick # evs) = interval_counts (cs @ [0]) evs"

lemma lastn_bump:
  assumes "20 \<le> length cs"
  shows "(lastn 20 cs)[19 := lastn 20 cs ! 19 + 1] = lastn 20 (butlast cs @ [last cs + (1::int)])"
proof -
  from assms obtain ys z where cs: "cs = ys @ [z]" by (cases cs rule: rev_cases) auto
  have "length (lastn 19 ys) = 19" using assms cs by simp
  moreover have "lastn 20 (ys @ [w]) = lastn 19 ys @ [w]" for w :: int
    using assms cs by (auto simp: lastn_def)
  ultimately show ?thesis by (simp add: cs nth_append list_update_append)
qed

lemma lastn_shift: "20 \<le> length cs \<Longrightarrow> tl (lastn 20 cs) @ [0] = lastn 20 (cs @ [0::int])"
  using lastn_append1[of 20 cs "[0]"] by (subst lastn_full[symmetric]) auto

lemma side_run_window:
  assumes "side_ok c" "20 \<le> length cs" "cq_list (cs_clicks c) = lastn 20 cs"
  shows "side_ok (fold side_step evs c)
     \<and> cq_list (cs_clicks (fold side_step evs c)) = lastn 20 (interval_counts cs evs)"
  using assms
proof (induction evs arbitrary: c cs)
  case (Cons ev evs)
  show ?case
  proof (cases ev)
    case (EvClick n)
    have "cs \<noteq> []" using Cons.prems(2) by auto
    with EvClick Cons.prems
      Cons.IH[of "fst (click_side_click n c)" "butlast cs @ [last cs + 1]"]
    show ?thesis by (simp add: side_click_queue lastn_bump)
  next
    case EvTick
    with Cons.prems Cons.IH[of "click_side_tick c" "cs @ [0]"] show ?thesis
      by (simp add: side_tick_queue lastn_shift)
  qed
qed simp

text \<open>After any interleaving of clicks and ticks the rate (clicks per second) is exactly the number
  of clicks in the last twenty tick intervals, the open one included.\<close>
theorem click_rate_is_last_second:
  "cs_cps (fold side_step evs (new_click_side :: 'h click_side))
     = sum_list (lastn 20 (interval_counts (replicate 20 0) evs))"
proof -
  have "cq_list (cs_clicks (new_click_side :: 'h click_side)) = lastn 20 (replicate 20 (0::int))"
    by (simp add: new_click_side_def fresh_ok lastn_def)
  from side_run_window[OF side_ok_new _ this, of evs] show ?thesis by (simp add: side_ok_def)
qed

section \<open>Effects\<close>

record effect =
  ef_amplifier :: int
  ef_duration :: int

type_synonym effects = "int \<Rightarrow> effect option"

definition new_effect :: "int \<Rightarrow> int \<Rightarrow> effect" where
  "new_effect level duration = \<lparr>ef_amplifier = level, ef_duration = duration\<rparr>"

definition new_effects_component :: effects where
  "new_effects_component = Map.empty"

definition effects_get :: "int \<Rightarrow> effects \<Rightarrow> effect \<times> bool" where
  "effects_get i ec = (case ec i of
      Some e \<Rightarrow> (e, True) | None \<Rightarrow> (\<lparr>ef_amplifier = 0, ef_duration = 0\<rparr>, False))"

definition effects_add :: "int \<Rightarrow> effect \<Rightarrow> effects \<Rightarrow> effects" where
  "effects_add i e ec = ec(i \<mapsto> e)"

definition effects_remove :: "int \<Rightarrow> effects \<Rightarrow> effects" where
  "effects_remove i ec = ec(i := None)"

definition effects_remove_all :: "effects \<Rightarrow> effects" where
  "effects_remove_all ec = Map.empty"

text \<open>
  \<^verbatim>\<open>Tick\<close>: an effect that is visited loses a tick (the \<^verbatim>\<open>int32\<close> wraps), and is
  deleted when none is left.  \<^verbatim>\<open>order\<close> is the order of the map's iteration.
\<close>
definition wrap32 :: "int \<Rightarrow> int" where
  "wrap32 n = (n + 2 ^ 31) mod 2 ^ 32 - 2 ^ 31"

definition effects_tick :: "int list \<Rightarrow> effects \<Rightarrow> effects" where
  "effects_tick order ec =
    fold (\<lambda>i ec. case ec i of
        None \<Rightarrow> ec
      | Some e \<Rightarrow>
          (let e' = e\<lparr>ef_duration := wrap32 (ef_duration e - 1)\<rparr>
           in if ef_duration e' \<le> 0 then ec(i := None) else ec(i \<mapsto> e'))) order ec"

lemma wrap32_id: "- (2 ^ 31) \<le> n \<Longrightarrow> n < 2 ^ 31 \<Longrightarrow> wrap32 n = n"
  by (simp add: wrap32_def)

lemma effects_tick_other: "i \<notin> set order \<Longrightarrow> effects_tick order ec i = ec i"
  by (induction order arbitrary: ec) (auto simp: effects_tick_def Let_def split: option.splits)

lemma effects_tick_apply:
  assumes "distinct order"
  shows "effects_tick order ec i =
    (if i \<in> set order then
       (case ec i of None \<Rightarrow> None
        | Some e \<Rightarrow> if wrap32 (ef_duration e - 1) \<le> 0 then None
                   else Some (e\<lparr>ef_duration := wrap32 (ef_duration e - 1)\<rparr>))
     else ec i)"
  using assms
proof (induction order arbitrary: ec)
  case (Cons j order)
  have step: "effects_tick (j # order) ec i = effects_tick order (effects_tick [j] ec) i"
    by (simp add: effects_tick_def)
  show ?case
    unfolding step Cons.IH[OF distinct_tl[OF Cons.prems, simplified]]
    using Cons.prems by (auto simp: effects_tick_def Let_def split: option.splits)
qed (simp add: effects_tick_def)

text \<open>The iterations of the ticks: each visits every effect that is present.\<close>
fun effects_ticks :: "int list list \<Rightarrow> effects \<Rightarrow> effects" where
  "effects_ticks [] ec = ec"
| "effects_ticks (order # orders) ec = effects_ticks orders (effects_tick order ec)"

lemma effects_ticks_remaining:
  assumes "\<forall>order \<in> set orders. distinct order \<and> i \<in> set order"
    and "ec i = Some e" "int (length orders) < ef_duration e" "ef_duration e < 2 ^ 31"
  shows "effects_ticks orders ec i = Some (e\<lparr>ef_duration := ef_duration e - int (length orders)\<rparr>)"
  using assms
proof (induction orders arbitrary: ec e)
  case (Cons order orders)
  have w: "wrap32 (ef_duration e - 1) = ef_duration e - 1"
    using Cons.prems by (intro wrap32_id) auto
  have "effects_tick order ec i = Some (e\<lparr>ef_duration := ef_duration e - 1\<rparr>)"
    using Cons.prems by (simp add: effects_tick_apply w)
  with Cons.prems Cons.IH[of "effects_tick order ec" "e\<lparr>ef_duration := ef_duration e - 1\<rparr>"]
  show ?case by simp
qed simp

lemma effects_ticks_gone:
  "\<forall>order \<in> set orders. distinct order \<and> i \<in> set order \<Longrightarrow> ec i = None \<Longrightarrow>
   effects_ticks orders ec i = None"
  by (induction orders arbitrary: ec) (simp_all add: effects_tick_apply)

lemma effects_ticks_append:
  "effects_ticks (xs @ ys) ec = effects_ticks ys (effects_ticks xs ec)"
  by (induction xs arbitrary: ec) simp_all

text \<open>An effect that is added for d ticks (1 to 2^31 - 1) is there with d - k ticks left after any
  k < d ticks, and gone from tick d on, whatever the order in which the map is iterated.\<close>
theorem effect_lasts_its_duration:
  assumes "0 < ef_duration e" "ef_duration e < 2 ^ 31"
    and "\<forall>order \<in> set orders. distinct order \<and> i \<in> set order"
  shows "effects_get i (effects_ticks orders (effects_add i e ec)) =
    (if int (length orders) < ef_duration e
     then (e\<lparr>ef_duration := ef_duration e - int (length orders)\<rparr>, True)
     else (new_effect 0 0, False))"
proof (cases "int (length orders) < ef_duration e")
  case True
  with effects_ticks_remaining[OF assms(3), of "effects_add i e ec" e] assms(2) show ?thesis
    by (simp add: effects_add_def effects_get_def)
next
  case False
  define k where "k = nat (ef_duration e - 1)"
  obtain order rest where split: "orders = take k orders @ order # rest"
    using False assms(1) id_take_nth_drop[of k orders] by (force simp: k_def)
  have sub: "set (take k orders) \<subseteq> set orders" "order \<in> set orders" "set rest \<subseteq> set orders"
    by (subst split; auto dest: in_set_takeD)+
  have len: "int (length (take k orders)) = ef_duration e - 1" using False assms(1) by (simp add: k_def)
  have all: "\<forall>order \<in> set (take k orders). distinct order \<and> i \<in> set order" using sub(1) assms(3) by blast
  have rem: "effects_ticks (take k orders) (effects_add i e ec) i = Some (e\<lparr>ef_duration := 1\<rparr>)"
    using effects_ticks_remaining[OF all, of "effects_add i e ec" e] len assms(2)
    by (simp add: effects_add_def)
  have "effects_tick order (effects_ticks (take k orders) (effects_add i e ec)) i = None"
    using sub(2) assms(3) by (simp add: effects_tick_apply rem wrap32_def)
  then have "effects_ticks orders (effects_add i e ec) i = None"
    using sub(3) assms(3) by (subst split) (auto simp: effects_ticks_append intro!: effects_ticks_gone)
  then show ?thesis using False by (simp add: effects_get_def new_effect_def)
qed

theorem effect_lasts_its_duration_witness:
  "effects_get 5 (effects_ticks [[5, 3], [3, 5]] (effects_add 5 (new_effect 1 3) Map.empty)) = (new_effect 1 1, True)
   \<and> effects_get 5 (effects_ticks [[5], [3, 5], [5]] (effects_add 5 (new_effect 1 3) Map.empty)) = (new_effect 0 0, False)"
  using effect_lasts_its_duration[of "new_effect 1 3" "[[5, 3], [3, 5]]" 5 Map.empty]
    effect_lasts_its_duration[of "new_effect 1 3" "[[5], [3, 5], [5]]" 5 Map.empty]
  by (simp add: new_effect_def)

end
