(* ===== verification/Inventory.thy ===== *)
theory Inventory
  imports Prelude
begin

text \<open>
  The predicted inventory: the slot containers of \<^verbatim>\<open>src/player/inventory.go\<close> and the
  windows of \<^verbatim>\<open>src/player/component/inventory.go\<close>.

  An item stack is a value of a type \<^verbatim>\<open>'s\<close>; the operations of the item library that the
  code calls are a record of functions.  The packet library's window and container
  identifiers are a record of numbers.  The five windows are distinct objects that never
  change places, so a window is named by its role; the locale \<^verbatim>\<open>cell_store\<close> states what
  the actions rely on when they read and write slots.
\<close>

section \<open>Item stacks\<close>

record 's stack_ops =
  st_zero :: 's
  st_count :: "'s \<Rightarrow> int"
  st_empty :: "'s \<Rightarrow> bool"
  st_grow :: "int \<Rightarrow> 's \<Rightarrow> 's"

text \<open>
  What the item library documents: a stack is empty when it has a count of zero, and growing
  by a number adds it to the count, which is never negative.
\<close>
definition stack_laws :: "'s stack_ops \<Rightarrow> bool" where
  "stack_laws S \<longleftrightarrow>
     (\<forall>s. 0 \<le> st_count S s) \<and>
     (\<forall>s. st_empty S s = (st_count S s = 0)) \<and>
     (\<forall>n s. st_count S (st_grow S n s) = max 0 (st_count S s + n))"

section \<open>Containers of slots\<close>

record 's inventory =
  iv_items :: "'s list"
  iv_special :: "int \<Rightarrow> int option"
  iv_size :: nat

definition new_inventory :: "'s stack_ops \<Rightarrow> nat \<Rightarrow> 's inventory" where
  "new_inventory S n = \<lparr>iv_items = replicate n (st_zero S), iv_special = Map.empty, iv_size = n\<rparr>"

definition set_special_slot :: "int \<Rightarrow> int \<Rightarrow> 's inventory \<Rightarrow> 's inventory" where
  "set_special_slot slot special i = i\<lparr>iv_special := (iv_special i)(slot \<mapsto> special)\<rparr>"

definition resolve_slot :: "'s inventory \<Rightarrow> int \<Rightarrow> int" where
  "resolve_slot i slot = (case iv_special i slot of Some sp \<Rightarrow> sp | None \<Rightarrow> slot)"

definition inv_slot :: "'s inventory \<Rightarrow> int \<Rightarrow> 's result" where
  "inv_slot i slot =
    (let slot = resolve_slot i slot
     in if slot < 0 \<or> slot \<ge> int (iv_size i) then Inl (Panic ''slot is invalid for inventory'')
        else go_index (iv_items i) slot)"

definition inv_set_slot :: "int \<Rightarrow> 's \<Rightarrow> 's inventory \<Rightarrow> 's inventory result" where
  "inv_set_slot slot it i =
    (let slot = resolve_slot i slot
     in if slot < 0 \<or> slot \<ge> int (iv_size i) then Inl (Panic ''slot is invalid for inventory'')
        else if slot < int (length (iv_items i)) then Inr (i\<lparr>iv_items := (iv_items i)[nat slot := it]\<rparr>)
        else Inl (Panic ''index out of range''))"

definition inventory_wf :: "'s inventory \<Rightarrow> bool" where
  "inventory_wf i \<longleftrightarrow> length (iv_items i) = iv_size i"

definition slot_valid :: "'s inventory \<Rightarrow> int \<Rightarrow> bool" where
  "slot_valid i slot \<longleftrightarrow> 0 \<le> resolve_slot i slot \<and> resolve_slot i slot < int (iv_size i)"

lemma inv_slot_valid:
  "inventory_wf i \<Longrightarrow> slot_valid i slot \<Longrightarrow>
   inv_slot i slot = Inr (iv_items i ! nat (resolve_slot i slot))"
  by (simp add: inv_slot_def slot_valid_def inventory_wf_def go_index_def)

lemma inv_slot_invalid: "\<not> slot_valid i slot \<Longrightarrow> \<exists>e. inv_slot i slot = Inl (Panic e)"
  by (auto simp: inv_slot_def slot_valid_def)

lemma inv_set_slot_valid:
  "inventory_wf i \<Longrightarrow> slot_valid i slot \<Longrightarrow>
   inv_set_slot slot s i = Inr (i\<lparr>iv_items := (iv_items i)[nat (resolve_slot i slot) := s]\<rparr>)"
  by (simp add: inv_set_slot_def slot_valid_def inventory_wf_def)

section \<open>The component\<close>

abbreviation inventory_size_armour :: nat where "inventory_size_armour \<equiv> 4"
abbreviation inventory_size_player :: nat where "inventory_size_player \<equiv> 36"
abbreviation inventory_size_hotbar :: int where "inventory_size_hotbar \<equiv> 9"
abbreviation inventory_size_offhand :: nat where "inventory_size_offhand \<equiv> 1"
abbreviation inventory_size_ui :: nat where "inventory_size_ui \<equiv> 54"
abbreviation alt_window_size :: nat where "alt_window_size \<equiv> 64"

datatype win = WArmour | WInventory | WOffhand | WUi | WAlt

text \<open>The identifiers of the packet library.\<close>
record proto_ids =
  c_crafting_input :: int
  c_created_output :: int
  c_cursor :: int
  c_hotbar :: int
  c_inventory :: int
  c_combined :: int
  c_offhand :: int
  c_armor :: int
  w_armour :: int
  w_inventory :: int
  w_offhand :: int
  w_ui :: int

text \<open>Packets that the component writes.\<close>
datatype 's inv_out = OutContent int "'s list" | OutSlot int int 's | OutMismatch

record 's windows =
  p_armour :: "'s inventory"
  p_inventory :: "'s inventory"
  p_offhand :: "'s inventory"
  p_ui :: "'s inventory"
  alt_window :: "'s inventory option"

definition new_windows :: "'s stack_ops \<Rightarrow> 's windows" where
  "new_windows S = \<lparr>p_armour = new_inventory S inventory_size_armour,
      p_inventory = new_inventory S inventory_size_player,
      p_offhand = set_special_slot 1 0 (new_inventory S inventory_size_offhand),
      p_ui = new_inventory S inventory_size_ui, alt_window = None\<rparr>"

definition get_window :: "'s windows \<Rightarrow> win \<Rightarrow> 's inventory option" where
  "get_window w k = (case k of
      WArmour \<Rightarrow> Some (p_armour w) | WInventory \<Rightarrow> Some (p_inventory w)
    | WOffhand \<Rightarrow> Some (p_offhand w) | WUi \<Rightarrow> Some (p_ui w) | WAlt \<Rightarrow> alt_window w)"

definition put_window :: "win \<Rightarrow> 's inventory \<Rightarrow> 's windows \<Rightarrow> 's windows" where
  "put_window k i w = (case k of
      WArmour \<Rightarrow> w\<lparr>p_armour := i\<rparr> | WInventory \<Rightarrow> w\<lparr>p_inventory := i\<rparr>
    | WOffhand \<Rightarrow> w\<lparr>p_offhand := i\<rparr> | WUi \<Rightarrow> w\<lparr>p_ui := i\<rparr> | WAlt \<Rightarrow> w\<lparr>alt_window := Some i\<rparr>)"

text \<open>The window that an identifier denotes; its presence is \<^verbatim>\<open>get_window \<noteq> None\<close>.\<close>
definition window_from_container_id :: "proto_ids \<Rightarrow> int \<Rightarrow> win" where
  "window_from_container_id K cid =
    (if cid = c_crafting_input K \<or> cid = c_created_output K \<or> cid = c_cursor K then WUi
     else if cid = c_hotbar K \<or> cid = c_inventory K \<or> cid = c_combined K then WInventory
     else if cid = c_offhand K then WOffhand
     else if cid = c_armor K then WArmour
     else WAlt)"

definition window_from_window_id :: "proto_ids \<Rightarrow> int \<Rightarrow> win" where
  "window_from_window_id K cid =
    (if cid = w_armour K then WArmour
     else if cid = w_inventory K then WInventory
     else if cid = w_offhand K then WOffhand
     else if cid = w_ui K then WUi
     else WAlt)"

lemma get_put_window [simp]:
  "get_window (put_window k i w) k' = (if k' = k then Some i else get_window w k')"
  by (cases k; cases k') (simp_all add: get_window_def put_window_def)

lemma put_put_window [simp]: "put_window k j (put_window k i w) = put_window k j w"
  by (cases k) (simp_all add: put_window_def)

lemma put_get_window: "get_window w k = Some i \<Longrightarrow> put_window k i w = w"
  by (cases k) (auto simp: get_window_def put_window_def)

lemma put_window_commute:
  "k \<noteq> k' \<Longrightarrow> put_window k i (put_window k' j w) = put_window k' j (put_window k i w)"
  by (cases k; cases k') (simp_all add: put_window_def)

text \<open>Reading and writing a slot of a window: a missing window is a nil dereference.\<close>
definition win_slot :: "'s windows \<Rightarrow> win \<Rightarrow> int \<Rightarrow> 's result" where
  "win_slot w k slot = (case get_window w k of
      None \<Rightarrow> Inl (Panic ''nil pointer dereference'') | Some i \<Rightarrow> inv_slot i slot)"

definition win_set_slot :: "win \<Rightarrow> int \<Rightarrow> 's \<Rightarrow> 's windows \<Rightarrow> 's windows result" where
  "win_set_slot k slot s w = (case get_window w k of
      None \<Rightarrow> Inl (Panic ''nil pointer dereference'')
    | Some i \<Rightarrow> bind_result (inv_set_slot slot s i) (\<lambda>i'. Inr (put_window k i' w)))"

section \<open>Cells\<close>

text \<open>
  The interface between the actions and the windows: cells that can be read and written,
  where a write changes no other cell.
\<close>
locale cell_store =
  fixes rd :: "'w \<Rightarrow> 'k \<Rightarrow> 's"
    and wr :: "'k \<Rightarrow> 's \<Rightarrow> 'w \<Rightarrow> 'w"
    and has :: "'w \<Rightarrow> 'k \<Rightarrow> bool"
  assumes has_write: "has (wr k v w) k' = has w k'"
    and read_write: "has w k \<Longrightarrow> rd (wr k v w) k' = (if k' = k then v else rd w k')"
    and write_read: "has w k \<Longrightarrow> wr k (rd w k) w = w"
    and write_write: "wr k v (wr k u w) = wr k v w"
    and write_commute: "k \<noteq> k' \<Longrightarrow> wr k v (wr k' u w) = wr k' u (wr k v w)"
begin

lemma write_back: "has w k \<Longrightarrow> wr k (rd w k) (wr k v w) = w"
  by (simp add: write_write write_read)

lemma write_back2:
  assumes "has w k1" "has w k2"
  shows "wr k2 (rd w k2) (wr k1 (rd w k1) (wr k2 b (wr k1 a w))) = w"
proof (cases "k1 = k2")
  case True
  with assms show ?thesis by (simp add: write_write write_read)
next
  case False
  have "wr k1 (rd w k1) (wr k2 b (wr k1 a w))
        = wr k2 b (wr k1 (rd w k1) (wr k1 a w))"
    by (rule write_commute[OF False])
  also have "\<dots> = wr k2 b w" using assms by (simp add: write_back)
  finally show ?thesis using assms by (simp add: write_back)
qed

lemma write_back2_same:
  assumes "has w k1" "has w k2"
  shows "wr k2 (rd w k2) (wr k1 (rd w k1) w) = w"
  using assms by (simp add: write_read)

lemma sum_two_writes:
  fixes f :: "'s \<Rightarrow> int"
  assumes "has w k1" "has w k2" "k1 \<noteq> k2"
  shows "f (rd (wr k2 b (wr k1 a w)) k1) + f (rd (wr k2 b (wr k1 a w)) k2) = f a + f b"
  using assms by (simp add: read_write has_write)

end

text \<open>The cell of a window: its role and the index of the slot in the list of items.\<close>
type_synonym cell = "win \<times> nat"

definition read_cell :: "'s windows \<Rightarrow> cell \<Rightarrow> 's" where
  "read_cell w c = iv_items (the (get_window w (fst c))) ! snd c"

definition write_cell :: "cell \<Rightarrow> 's \<Rightarrow> 's windows \<Rightarrow> 's windows" where
  "write_cell c s w = (case get_window w (fst c) of
      None \<Rightarrow> w
    | Some i \<Rightarrow> put_window (fst c) (i\<lparr>iv_items := (iv_items i)[snd c := s]\<rparr>) w)"

definition has_cell :: "'s windows \<Rightarrow> cell \<Rightarrow> bool" where
  "has_cell w c \<longleftrightarrow> (case get_window w (fst c) of None \<Rightarrow> False | Some i \<Rightarrow> snd c < length (iv_items i))"

interpretation cells: cell_store read_cell write_cell has_cell
proof unfold_locales
  fix k k' :: cell and w :: "'a windows" and u v :: 'a
  obtain a i where k: "k = (a, i)" by fastforce
  obtain b j where k': "k' = (b, j)" by fastforce
  show "has_cell (write_cell k v w) k' = has_cell w k'"
    by (auto simp: has_cell_def write_cell_def split: option.splits)
  show "read_cell (write_cell k v w) k' = (if k' = k then v else read_cell w k')" if "has_cell w k"
    using that by (auto simp: k k' has_cell_def write_cell_def read_cell_def split: option.splits)
  show "write_cell k (read_cell w k) w = w" if "has_cell w k"
    using that by (auto simp: k has_cell_def write_cell_def read_cell_def put_get_window split: option.splits)
  show "write_cell k v (write_cell k u w) = write_cell k v w"
    by (auto simp: k write_cell_def split: option.splits)
  show "write_cell k v (write_cell k' u w) = write_cell k' u (write_cell k v w)" if "k \<noteq> k'"
  proof (cases "a = b")
    case True
    with that have "i \<noteq> j" by (simp add: k k')
    with True show ?thesis
      by (auto simp: k k' write_cell_def list_update_swap split: option.splits)
  next
    case False
    thus ?thesis by (auto simp: k k' write_cell_def put_window_commute split: option.splits)
  qed
qed

section \<open>Well-formed windows\<close>

text \<open>The sizes and the special slots never change.\<close>
definition window_shape :: "win \<Rightarrow> 's inventory \<Rightarrow> bool" where
  "window_shape k i \<longleftrightarrow> inventory_wf i \<and> (case k of
      WArmour \<Rightarrow> iv_size i = inventory_size_armour \<and> iv_special i = Map.empty
    | WInventory \<Rightarrow> iv_size i = inventory_size_player \<and> iv_special i = Map.empty
    | WOffhand \<Rightarrow> iv_size i = inventory_size_offhand \<and> iv_special i = [1 \<mapsto> 0]
    | WUi \<Rightarrow> iv_size i = inventory_size_ui \<and> iv_special i = Map.empty
    | WAlt \<Rightarrow> iv_size i = alt_window_size \<and> iv_special i = Map.empty)"

definition windows_ok :: "'s windows \<Rightarrow> bool" where
  "windows_ok w \<longleftrightarrow> (\<forall>k \<in> {WArmour, WInventory, WOffhand, WUi, WAlt}.
     case get_window w k of None \<Rightarrow> True | Some i \<Rightarrow> window_shape k i)"

definition win_size :: "win \<Rightarrow> int" where
  "win_size k = (case k of WArmour \<Rightarrow> 4 | WInventory \<Rightarrow> 36 | WOffhand \<Rightarrow> 1 | WUi \<Rightarrow> 54 | WAlt \<Rightarrow> 64)"

definition phys :: "win \<Rightarrow> int \<Rightarrow> nat" where
  "phys k slot = (if k = WOffhand \<and> slot = 1 then 0 else nat slot)"

lemma windows_ok_new: "windows_ok (new_windows S)"
  by (auto simp: windows_ok_def new_windows_def get_window_def window_shape_def new_inventory_def
      inventory_wf_def set_special_slot_def)

lemma windows_okD: "windows_ok w \<Longrightarrow> get_window w k = Some i \<Longrightarrow> window_shape k i"
  by (cases k) (auto simp: windows_ok_def)

lemma windows_ok_put:
  "windows_ok w \<Longrightarrow> window_shape k i \<Longrightarrow> windows_ok (put_window k i w)"
  by (auto simp: windows_ok_def)

lemma shape_resolve:
  "window_shape k i \<Longrightarrow> resolve_slot i slot = (if k = WOffhand \<and> slot = 1 then 0 else slot)"
  by (cases k) (auto simp: window_shape_def resolve_slot_def)

lemma shape_size: "window_shape k i \<Longrightarrow> int (iv_size i) = win_size k"
  by (cases k) (auto simp: window_shape_def win_size_def)

lemma shape_valid:
  "window_shape k i \<Longrightarrow> 0 \<le> slot \<Longrightarrow> slot < win_size k \<Longrightarrow> slot_valid i slot"
  by (auto simp: slot_valid_def shape_resolve shape_size win_size_def split: win.splits)

lemma shape_update: "window_shape k (i\<lparr>iv_items := (iv_items i)[n := s]\<rparr>) = window_shape k i"
  by (auto simp: window_shape_def inventory_wf_def split: win.splits)

lemma win_slot_cell:
  assumes "windows_ok w" "get_window w k \<noteq> None" "0 \<le> slot" "slot < win_size k"
  shows "win_slot w k slot = Inr (read_cell w (k, phys k slot))"
    and "win_set_slot k slot s w = Inr (write_cell (k, phys k slot) s w)"
    and "has_cell w (k, phys k slot)"
proof -
  obtain i where i: "get_window w k = Some i" using assms(2) by auto
  have sh: "window_shape k i" using windows_okD[OF assms(1) i] .
  hence wf: "inventory_wf i" by (simp add: window_shape_def)
  have v: "slot_valid i slot" using shape_valid[OF sh assms(3,4)] .
  have r: "nat (resolve_slot i slot) = phys k slot" by (auto simp: shape_resolve[OF sh] phys_def)
  show "win_slot w k slot = Inr (read_cell w (k, phys k slot))"
    by (simp add: win_slot_def i inv_slot_valid[OF wf v] r read_cell_def)
  show "win_set_slot k slot s w = Inr (write_cell (k, phys k slot) s w)"
    by (simp add: win_set_slot_def i inv_set_slot_valid[OF wf v] r write_cell_def)
  show "has_cell w (k, phys k slot)"
    using v wf r by (auto simp: has_cell_def i slot_valid_def inventory_wf_def)
qed

lemma windows_ok_write [inv_intros]: "windows_ok w \<Longrightarrow> windows_ok (write_cell c s w)"
  by (auto simp: write_cell_def shape_update dest: windows_okD intro!: windows_ok_put split: option.splits)

lemma write_cell_present [simp]:
  "(get_window (write_cell c s w) k = None) = (get_window w k = None)"
  by (auto simp: write_cell_def split: option.splits)

end
