(* ===== verification/InvActions.thy ===== *)
theory InvActions
  imports Inventory
begin

text \<open>
  The inventory actions of \<^verbatim>\<open>src/player/component/inventory_transaction.go\<close>: each
  action executes on the windows, remembers what it overwrote, and can be reverted.  An
  action is closed by dropping its pointer to the player; a closed action does nothing.
\<close>

section \<open>Actions\<close>

record 's transfer_action =
  ta_open :: bool
  ta_count :: int
  ta_src_inv :: int
  ta_src_slot :: int
  ta_dst_inv :: int
  ta_dst_slot :: int
  ta_old_src :: 's
  ta_old_dst :: 's

record 's swap_action =
  sa_open :: bool
  sa_src_inv :: int
  sa_src_slot :: int
  sa_dst_inv :: int
  sa_dst_slot :: int
  sa_old_src :: 's
  sa_old_dst :: 's

record 's destroy_action =
  da_open :: bool
  da_old_src :: 's
  da_count :: int
  da_src_slot :: int
  da_src_inv :: int
  da_is_drop :: bool

record 's create_action =
  ca_open :: bool
  ca_slot :: int
  ca_inv :: int
  ca_stack :: 's
  ca_old :: 's

datatype 's inv_action
  = TransferA "'s transfer_action"
  | SwapA "'s swap_action"
  | DestroyA "'s destroy_action"
  | CreateA "'s create_action"
  | NopA
  | UnknownA bool string

definition new_transfer_action where
  "new_transfer_action count src_inv src_slot src_item dst_inv dst_slot dst_item =
     TransferA \<lparr>ta_open = True, ta_count = count, ta_src_inv = src_inv, ta_src_slot = src_slot,
                ta_dst_inv = dst_inv, ta_dst_slot = dst_slot,
                ta_old_src = src_item, ta_old_dst = dst_item\<rparr>"

definition new_swap_action where
  "new_swap_action src_inv src_item src_slot dst_inv dst_item dst_slot =
     SwapA \<lparr>sa_open = True, sa_src_inv = src_inv, sa_src_slot = src_slot, sa_dst_inv = dst_inv,
            sa_dst_slot = dst_slot, sa_old_src = src_item, sa_old_dst = dst_item\<rparr>"

definition new_destroy_action where
  "new_destroy_action src_item count src_slot src_inv is_drop =
     DestroyA \<lparr>da_open = True, da_old_src = src_item, da_count = count, da_src_slot = src_slot,
               da_src_inv = src_inv, da_is_drop = is_drop\<rparr>"

definition new_create_action where
  "new_create_action S slot win stack =
     CreateA \<lparr>ca_open = True, ca_slot = slot, ca_inv = win, ca_stack = stack, ca_old = st_zero S\<rparr>"

definition close_action :: "'s inv_action \<Rightarrow> 's inv_action" where
  "close_action a = (case a of
      TransferA t \<Rightarrow> TransferA (t\<lparr>ta_open := False\<rparr>)
    | SwapA t \<Rightarrow> SwapA (t\<lparr>sa_open := False\<rparr>)
    | DestroyA t \<Rightarrow> DestroyA (t\<lparr>da_open := False\<rparr>)
    | CreateA t \<Rightarrow> CreateA (t\<lparr>ca_open := False\<rparr>)
    | NopA \<Rightarrow> NopA
    | UnknownA _ n \<Rightarrow> UnknownA False n)"

abbreviation win_of :: "proto_ids \<Rightarrow> int \<Rightarrow> win" where
  "win_of \<equiv> window_from_container_id"

abbreviation max_int32 :: int where "max_int32 \<equiv> 2147483647"

section \<open>Execution\<close>

definition execute_transfer ::
  "'s stack_ops \<Rightarrow> proto_ids \<Rightarrow> 's transfer_action \<Rightarrow> 's windows
   \<Rightarrow> ('s transfer_action \<times> 's windows) result" where
  "execute_transfer S K a w =
    (if \<not> ta_open a then Inr (a, w)
     else if get_window w (win_of K (ta_src_inv a)) = None then Inr (a, w)
     else if get_window w (win_of K (ta_dst_inv a)) = None then Inr (a, w)
     else
       bind_result (win_slot w (win_of K (ta_src_inv a)) (ta_src_slot a)) (\<lambda>src.
       bind_result (win_slot w (win_of K (ta_dst_inv a)) (ta_dst_slot a)) (\<lambda>dst.
         let a = a\<lparr>ta_old_src := src, ta_old_dst := dst\<rparr>
         in if st_empty S src then Inr (a, w)
            else if st_count S src < ta_count a then Inr (a, w)
            else
              let dst = (if st_empty S dst then st_grow S (- max_int32) src else dst)
              in bind_result (win_set_slot (win_of K (ta_src_inv a)) (ta_src_slot a)
                                (st_grow S (- ta_count a) src) w) (\<lambda>w1.
                 bind_result (win_set_slot (win_of K (ta_dst_inv a)) (ta_dst_slot a)
                                (st_grow S (ta_count a) dst) w1) (\<lambda>w2. Inr (a, w2))))))"

definition execute_swap ::
  "proto_ids \<Rightarrow> 's swap_action \<Rightarrow> 's windows \<Rightarrow> ('s swap_action \<times> 's windows) result" where
  "execute_swap K a w =
    (if \<not> sa_open a then Inr (a, w)
     else if get_window w (win_of K (sa_src_inv a)) = None then Inr (a, w)
     else if get_window w (win_of K (sa_dst_inv a)) = None then Inr (a, w)
     else
       bind_result (win_slot w (win_of K (sa_src_inv a)) (sa_src_slot a)) (\<lambda>src.
       bind_result (win_slot w (win_of K (sa_dst_inv a)) (sa_dst_slot a)) (\<lambda>dst.
         let a = a\<lparr>sa_old_src := src, sa_old_dst := dst\<rparr>
         in bind_result (win_set_slot (win_of K (sa_src_inv a)) (sa_src_slot a) dst w) (\<lambda>w1.
            bind_result (win_set_slot (win_of K (sa_dst_inv a)) (sa_dst_slot a) src w1) (\<lambda>w2.
              Inr (a, w2))))))"

definition execute_destroy ::
  "'s stack_ops \<Rightarrow> proto_ids \<Rightarrow> 's destroy_action \<Rightarrow> 's windows
   \<Rightarrow> ('s destroy_action \<times> 's windows) result" where
  "execute_destroy S K a w =
    (if \<not> da_open a then Inr (a, w)
     else if get_window w (win_of K (da_src_inv a)) = None then Inr (a, w)
     else
       bind_result (win_slot w (win_of K (da_src_inv a)) (da_src_slot a)) (\<lambda>src.
         let a = a\<lparr>da_old_src := src\<rparr>
         in if st_count S src < da_count a then Inr (a, w)
            else bind_result (win_set_slot (win_of K (da_src_inv a)) (da_src_slot a)
                                (st_grow S (- da_count a) src) w) (\<lambda>w1. Inr (a, w1))))"

definition execute_create ::
  "proto_ids \<Rightarrow> 's create_action \<Rightarrow> 's windows \<Rightarrow> ('s create_action \<times> 's windows) result" where
  "execute_create K a w =
    (if \<not> ca_open a then Inr (a, w)
     else if get_window w (win_of K (ca_inv a)) = None then Inr (a, w)
     else
       bind_result (win_slot w (win_of K (ca_inv a)) (ca_slot a)) (\<lambda>old.
         let a = a\<lparr>ca_old := old\<rparr>
         in bind_result (win_set_slot (win_of K (ca_inv a)) (ca_slot a) (ca_stack a) w)
              (\<lambda>w1. Inr (a, w1))))"

definition execute_action ::
  "'s stack_ops \<Rightarrow> proto_ids \<Rightarrow> 's inv_action \<Rightarrow> 's windows \<Rightarrow> ('s inv_action \<times> 's windows) result" where
  "execute_action S K a w = (case a of
      TransferA t \<Rightarrow> map_sum id (map_prod TransferA id) (execute_transfer S K t w)
    | SwapA t \<Rightarrow> map_sum id (map_prod SwapA id) (execute_swap K t w)
    | DestroyA t \<Rightarrow> map_sum id (map_prod DestroyA id) (execute_destroy S K t w)
    | CreateA t \<Rightarrow> map_sum id (map_prod CreateA id) (execute_create K t w)
    | NopA \<Rightarrow> Inr (a, w)
    | UnknownA _ _ \<Rightarrow> Inr (a, w))"

section \<open>Revert\<close>

definition revert_transfer ::
  "proto_ids \<Rightarrow> 's transfer_action \<Rightarrow> 's windows \<Rightarrow> 's windows result" where
  "revert_transfer K a w =
    (if \<not> ta_open a then Inr w
     else if get_window w (win_of K (ta_src_inv a)) = None then Inr w
     else if get_window w (win_of K (ta_dst_inv a)) = None then Inr w
     else bind_result (win_set_slot (win_of K (ta_src_inv a)) (ta_src_slot a) (ta_old_src a) w)
            (win_set_slot (win_of K (ta_dst_inv a)) (ta_dst_slot a) (ta_old_dst a)))"

definition revert_swap :: "proto_ids \<Rightarrow> 's swap_action \<Rightarrow> 's windows \<Rightarrow> 's windows result" where
  "revert_swap K a w =
    (if \<not> sa_open a then Inr w
     else if get_window w (win_of K (sa_src_inv a)) = None then Inr w
     else if get_window w (win_of K (sa_dst_inv a)) = None then Inr w
     else bind_result (win_set_slot (win_of K (sa_src_inv a)) (sa_src_slot a) (sa_old_src a) w)
            (win_set_slot (win_of K (sa_dst_inv a)) (sa_dst_slot a) (sa_old_dst a)))"

definition revert_destroy :: "proto_ids \<Rightarrow> 's destroy_action \<Rightarrow> 's windows \<Rightarrow> 's windows result" where
  "revert_destroy K a w =
    (if \<not> da_open a then Inr w
     else if get_window w (win_of K (da_src_inv a)) = None then Inr w
     else win_set_slot (win_of K (da_src_inv a)) (da_src_slot a) (da_old_src a) w)"

definition revert_create :: "proto_ids \<Rightarrow> 's create_action \<Rightarrow> 's windows \<Rightarrow> 's windows result" where
  "revert_create K a w =
    (if \<not> ca_open a then Inr w
     else if get_window w (win_of K (ca_inv a)) = None then Inr w
     else win_set_slot (win_of K (ca_inv a)) (ca_slot a) (ca_old a) w)"

text \<open>The windows after a revert, and whether the revert asks for an inventory sync.\<close>
definition revert_action ::
  "proto_ids \<Rightarrow> 's inv_action \<Rightarrow> 's windows \<Rightarrow> ('s windows \<times> bool) result" where
  "revert_action K a w = (case a of
      TransferA t \<Rightarrow> bind_result (revert_transfer K t w) (\<lambda>w. Inr (w, False))
    | SwapA t \<Rightarrow> bind_result (revert_swap K t w) (\<lambda>w. Inr (w, False))
    | DestroyA t \<Rightarrow> bind_result (revert_destroy K t w) (\<lambda>w. Inr (w, False))
    | CreateA t \<Rightarrow> bind_result (revert_create K t w) (\<lambda>w. Inr (w, False))
    | NopA \<Rightarrow> Inr (w, False)
    | UnknownA is_open _ \<Rightarrow> Inr (w, is_open))"

section \<open>Actions whose slots are in bounds\<close>

text \<open>
  The bound the code checks when it builds an action, on the size of the window that the
  container identifier denotes.
\<close>
definition slot_in_bounds :: "proto_ids \<Rightarrow> int \<Rightarrow> int \<Rightarrow> bool" where
  "slot_in_bounds K cid slot \<longleftrightarrow> 0 \<le> slot \<and> slot < win_size (win_of K cid)"

definition action_in_bounds :: "proto_ids \<Rightarrow> 's inv_action \<Rightarrow> bool" where
  "action_in_bounds K a = (case a of
      TransferA t \<Rightarrow> slot_in_bounds K (ta_src_inv t) (ta_src_slot t)
                  \<and> slot_in_bounds K (ta_dst_inv t) (ta_dst_slot t)
    | SwapA t \<Rightarrow> slot_in_bounds K (sa_src_inv t) (sa_src_slot t)
              \<and> slot_in_bounds K (sa_dst_inv t) (sa_dst_slot t)
    | DestroyA t \<Rightarrow> slot_in_bounds K (da_src_inv t) (da_src_slot t)
    | CreateA t \<Rightarrow> slot_in_bounds K (ca_inv t) (ca_slot t)
    | NopA \<Rightarrow> True
    | UnknownA _ _ \<Rightarrow> True)"

lemma in_bounds_close [simp]: "action_in_bounds K (close_action a) = action_in_bounds K a"
  by (cases a) (simp_all add: close_action_def action_in_bounds_def)

abbreviation cell_of :: "proto_ids \<Rightarrow> int \<Rightarrow> int \<Rightarrow> cell" where
  "cell_of K cid slot \<equiv> (win_of K cid, phys (win_of K cid) slot)"

text \<open>What execution does, in terms of cells.\<close>
lemma execute_transfer_cells:
  assumes "windows_ok w" "slot_in_bounds K (ta_src_inv a) (ta_src_slot a)"
    "slot_in_bounds K (ta_dst_inv a) (ta_dst_slot a)"
    "ta_open a" "get_window w (win_of K (ta_src_inv a)) \<noteq> None"
    "get_window w (win_of K (ta_dst_inv a)) \<noteq> None"
    "sc = cell_of K (ta_src_inv a) (ta_src_slot a)" "dc = cell_of K (ta_dst_inv a) (ta_dst_slot a)"
    "src = read_cell w sc" "dst = read_cell w dc"
  shows "execute_transfer S K a w = Inr (a\<lparr>ta_old_src := src, ta_old_dst := dst\<rparr>,
    (if st_empty S src \<or> st_count S src < ta_count a then w
     else write_cell dc (st_grow S (ta_count a) (if st_empty S dst then st_grow S (- max_int32) src else dst))
            (write_cell sc (st_grow S (- ta_count a) src) w)))"
  using assms by (auto simp: execute_transfer_def slot_in_bounds_def win_slot_cell windows_ok_write Let_def)

lemma execute_swap_cells:
  assumes "windows_ok w" "slot_in_bounds K (sa_src_inv a) (sa_src_slot a)"
    "slot_in_bounds K (sa_dst_inv a) (sa_dst_slot a)"
    "sa_open a" "get_window w (win_of K (sa_src_inv a)) \<noteq> None"
    "get_window w (win_of K (sa_dst_inv a)) \<noteq> None"
    "sc = cell_of K (sa_src_inv a) (sa_src_slot a)" "dc = cell_of K (sa_dst_inv a) (sa_dst_slot a)"
  shows "execute_swap K a w = Inr (a\<lparr>sa_old_src := read_cell w sc, sa_old_dst := read_cell w dc\<rparr>,
     write_cell dc (read_cell w sc) (write_cell sc (read_cell w dc) w))"
  using assms by (auto simp: execute_swap_def slot_in_bounds_def win_slot_cell windows_ok_write Let_def)

lemma execute_destroy_cells:
  assumes "windows_ok w" "slot_in_bounds K (da_src_inv a) (da_src_slot a)"
    "da_open a" "get_window w (win_of K (da_src_inv a)) \<noteq> None"
    "sc = cell_of K (da_src_inv a) (da_src_slot a)"
  shows "execute_destroy S K a w = Inr (a\<lparr>da_old_src := read_cell w sc\<rparr>,
     (if st_count S (read_cell w sc) < da_count a then w
      else write_cell sc (st_grow S (- da_count a) (read_cell w sc)) w))"
  using assms by (auto simp: execute_destroy_def slot_in_bounds_def win_slot_cell Let_def)

lemma execute_create_cells:
  assumes "windows_ok w" "slot_in_bounds K (ca_inv a) (ca_slot a)"
    "ca_open a" "get_window w (win_of K (ca_inv a)) \<noteq> None" "sc = cell_of K (ca_inv a) (ca_slot a)"
  shows "execute_create K a w = Inr (a\<lparr>ca_old := read_cell w sc\<rparr>, write_cell sc (ca_stack a) w)"
  using assms by (auto simp: execute_create_def slot_in_bounds_def win_slot_cell Let_def)

text \<open>
  Executing an action that is in bounds succeeds, keeps the windows well-formed and the
  action in bounds, and reverting it puts the windows back.
\<close>
definition undoable ::
  "'s stack_ops \<Rightarrow> proto_ids \<Rightarrow> 's inv_action \<Rightarrow> 's windows \<Rightarrow> bool" where
  "undoable S K a w \<longleftrightarrow> (\<exists>a' w'. execute_action S K a w = Inr (a', w') \<and> windows_ok w'
     \<and> action_in_bounds K a' \<and> (\<forall>k. (get_window w' k = None) = (get_window w k = None))
     \<and> (\<exists>f. revert_action K a' w' = Inr (w, f)))"

lemma undoable_transfer:
  assumes "windows_ok w" "action_in_bounds K (TransferA a)"
  shows "undoable S K (TransferA a) w"
proof (cases "ta_open a \<and> get_window w (win_of K (ta_src_inv a)) \<noteq> None
               \<and> get_window w (win_of K (ta_dst_inv a)) \<noteq> None")
  case True
  note b = assms(2)[unfolded action_in_bounds_def, simplified]
  let ?sc = "cell_of K (ta_src_inv a) (ta_src_slot a)"
  let ?dc = "cell_of K (ta_dst_inv a) (ta_dst_slot a)"
  have cs: "has_cell w ?sc" "has_cell w ?dc"
    using True b assms(1) by (auto simp: slot_in_bounds_def intro!: win_slot_cell(3))
  have rev: "revert_action K (TransferA (a\<lparr>ta_old_src := s, ta_old_dst := d\<rparr>)) v
      = Inr (write_cell ?dc d (write_cell ?sc s v), False)"
    if "windows_ok v" "\<And>k. (get_window v k = None) = (get_window w k = None)" for s d v
    using True b that
    by (auto simp: revert_action_def revert_transfer_def slot_in_bounds_def win_slot_cell windows_ok_write)
  show ?thesis
    using True b assms(1) cs
    by (auto simp: undoable_def execute_action_def action_in_bounds_def rev windows_ok_write
        execute_transfer_cells[OF assms(1) _ _ _ _ _ refl refl refl refl]
        cells.write_back2 cells.write_back2_same)
next
  case False
  hence "execute_transfer S K a w = Inr (a, w)" "revert_transfer K a w = Inr w"
    by (auto simp: execute_transfer_def revert_transfer_def)
  with assms show ?thesis by (simp add: undoable_def execute_action_def revert_action_def)
qed

lemma undoable_swap:
  assumes "windows_ok w" "action_in_bounds K (SwapA a)"
  shows "undoable S K (SwapA a) w"
proof (cases "sa_open a \<and> get_window w (win_of K (sa_src_inv a)) \<noteq> None
               \<and> get_window w (win_of K (sa_dst_inv a)) \<noteq> None")
  case True
  note b = assms(2)[unfolded action_in_bounds_def, simplified]
  have cs: "has_cell w (cell_of K (sa_src_inv a) (sa_src_slot a))"
    "has_cell w (cell_of K (sa_dst_inv a) (sa_dst_slot a))"
    using True b assms(1) by (auto simp: slot_in_bounds_def intro!: win_slot_cell(3))
  show ?thesis
    using True b assms(1) cs
    by (auto simp: undoable_def execute_action_def action_in_bounds_def windows_ok_write
        execute_swap_cells[OF assms(1) _ _ _ _ _ refl refl] revert_action_def revert_swap_def
        slot_in_bounds_def win_slot_cell cells.write_back2)
next
  case False
  hence "execute_swap K a w = Inr (a, w)" "revert_swap K a w = Inr w"
    by (auto simp: execute_swap_def revert_swap_def)
  with assms show ?thesis by (simp add: undoable_def execute_action_def revert_action_def)
qed

lemma undoable_destroy:
  assumes "windows_ok w" "action_in_bounds K (DestroyA a)"
  shows "undoable S K (DestroyA a) w"
proof (cases "da_open a \<and> get_window w (win_of K (da_src_inv a)) \<noteq> None")
  case True
  note b = assms(2)[unfolded action_in_bounds_def, simplified]
  have cs: "has_cell w (cell_of K (da_src_inv a) (da_src_slot a))"
    using True b assms(1) by (auto simp: slot_in_bounds_def intro!: win_slot_cell(3))
  show ?thesis
    using True b assms(1) cs
    by (auto simp: undoable_def execute_action_def action_in_bounds_def windows_ok_write
        execute_destroy_cells[OF assms(1) _ _ _ refl] revert_action_def revert_destroy_def
        slot_in_bounds_def win_slot_cell cells.write_back cells.write_read)
next
  case False
  hence "execute_destroy S K a w = Inr (a, w)" "revert_destroy K a w = Inr w"
    by (auto simp: execute_destroy_def revert_destroy_def)
  with assms show ?thesis by (simp add: undoable_def execute_action_def revert_action_def)
qed

lemma undoable_create:
  assumes "windows_ok w" "action_in_bounds K (CreateA a)"
  shows "undoable S K (CreateA a) w"
proof (cases "ca_open a \<and> get_window w (win_of K (ca_inv a)) \<noteq> None")
  case True
  note b = assms(2)[unfolded action_in_bounds_def, simplified]
  have cs: "has_cell w (cell_of K (ca_inv a) (ca_slot a))"
    using True b assms(1) by (auto simp: slot_in_bounds_def intro!: win_slot_cell(3))
  show ?thesis
    using True b assms(1) cs
    by (auto simp: undoable_def execute_action_def action_in_bounds_def windows_ok_write
        execute_create_cells[OF assms(1) _ _ _ refl] revert_action_def revert_create_def
        slot_in_bounds_def win_slot_cell cells.write_back)
next
  case False
  hence "execute_create K a w = Inr (a, w)" "revert_create K a w = Inr w"
    by (auto simp: execute_create_def revert_create_def)
  with assms show ?thesis by (simp add: undoable_def execute_action_def revert_action_def)
qed

lemma undoable_action: "windows_ok w \<Longrightarrow> action_in_bounds K a \<Longrightarrow> undoable S K a w"
proof (cases a)
  case (UnknownA x y)
  thus "windows_ok w \<Longrightarrow> action_in_bounds K a \<Longrightarrow> undoable S K a w"
    by (simp add: undoable_def execute_action_def revert_action_def)
next
  case NopA
  thus "windows_ok w \<Longrightarrow> action_in_bounds K a \<Longrightarrow> undoable S K a w"
    by (simp add: undoable_def execute_action_def revert_action_def)
qed (auto intro: undoable_transfer undoable_swap undoable_destroy undoable_create)

lemma revert_action_ok:
  assumes "windows_ok w" "action_in_bounds K a"
  shows "\<exists>w' f. revert_action K a w = Inr (w', f) \<and> windows_ok w'"
  using assms
  by (cases a) (auto simp: revert_action_def revert_transfer_def revert_swap_def revert_destroy_def
      revert_create_def action_in_bounds_def slot_in_bounds_def win_slot_cell windows_ok_write)

end
