(* ===== verification/InvRequests.thy ===== *)
theory InvRequests
  imports InvActions
begin

text \<open>
  The item stack requests of \<^verbatim>\<open>src/player/component/inventory.go\<close> and the doubly
  linked list of pending requests of \<^verbatim>\<open>inventory_transaction.go\<close>.  Requests live in a
  store by address, with their \<^verbatim>\<open>prev\<close> and \<^verbatim>\<open>next\<close> pointers; the invariant
  \<^verbatim>\<open>linked\<close> says which list of addresses the pointers form, and the component refines
  a queue of requests that the server answers in order.
\<close>

section \<open>Requests and the component\<close>

record 's inv_req =
  rq_id :: int
  rq_prev :: "nat option"
  rq_next :: "nat option"
  rq_actions :: "'s inv_action list"

type_synonym 's req_heap = "nat \<Rightarrow> 's inv_req option"

record 's inv_comp =
  ic_windows :: "'s windows"
  ic_alt_id :: int
  ic_first :: "nat option"
  ic_current :: "nat option"
  ic_reqs :: "'s req_heap"
  ic_next :: nat
  ic_held :: int
  ic_pending_sync :: bool
  ic_out :: "'s inv_out list"

definition new_inventory_component :: "'s stack_ops \<Rightarrow> 's inv_comp" where
  "new_inventory_component S = \<lparr>ic_windows = new_windows S, ic_alt_id = 0, ic_first = None,
     ic_current = None, ic_reqs = Map.empty, ic_next = 0, ic_held = 0,
     ic_pending_sync = False, ic_out = []\<rparr>"

definition new_inv_request :: "int \<Rightarrow> 's inv_req" where
  "new_inv_request i = \<lparr>rq_id = i, rq_prev = None, rq_next = None, rq_actions = []\<rparr>"

definition req_append :: "'s inv_action \<Rightarrow> 's inv_req \<Rightarrow> 's inv_req" where
  "req_append a r = r\<lparr>rq_actions := rq_actions r @ [a]\<rparr>"

text \<open>Armour slots, in the order helmet, chestplate, leggings, boots.\<close>
definition armour_piece :: "int \<Rightarrow> 's inv_comp \<Rightarrow> 's result" where
  "armour_piece n c = win_slot (ic_windows c) WArmour n"

definition helmet :: "'s inv_comp \<Rightarrow> 's result" where "helmet = armour_piece 0"
definition chestplate :: "'s inv_comp \<Rightarrow> 's result" where "chestplate = armour_piece 1"
definition leggings :: "'s inv_comp \<Rightarrow> 's result" where "leggings = armour_piece 2"
definition boots :: "'s inv_comp \<Rightarrow> 's result" where "boots = armour_piece 3"

definition create_window :: "'s stack_ops \<Rightarrow> proto_ids \<Rightarrow> int \<Rightarrow> int \<Rightarrow> 's inv_comp \<Rightarrow> 's inv_comp" where
  "create_window S K window_id container_type c =
    (if container_type = 255 then c
     else if window_id = w_inventory K \<or> window_id = w_offhand K
           \<or> window_id = w_armour K \<or> window_id = w_ui K then c
     else c\<lparr>ic_windows := (ic_windows c)\<lparr>alt_window := Some (new_inventory S alt_window_size)\<rparr>,
            ic_alt_id := window_id\<rparr>)"

definition remove_window :: "int \<Rightarrow> 's inv_comp \<Rightarrow> 's inv_comp" where
  "remove_window window_id c =
    (if window_id \<noteq> ic_alt_id c then c
     else c\<lparr>ic_windows := (ic_windows c)\<lparr>alt_window := None\<rparr>\<rparr>)"

definition force_sync :: "bool \<Rightarrow> 's inv_comp \<Rightarrow> 's inv_comp" where
  "force_sync server_conn c =
    (if ic_pending_sync c then c
     else let c = c\<lparr>ic_pending_sync := True\<rparr>
          in if server_conn then c\<lparr>ic_out := ic_out c @ [OutMismatch]\<rparr> else c)"

fun slots_from :: "'s windows \<Rightarrow> win \<Rightarrow> nat \<Rightarrow> nat \<Rightarrow> 's list result" where
  "slots_from w k i 0 = Inr []"
| "slots_from w k i (Suc n) = bind_result (win_slot w k (int i)) (\<lambda>s.
     bind_result (slots_from w k (Suc i) n) (\<lambda>ss. Inr (s # ss)))"

definition inv_sync :: "proto_ids \<Rightarrow> int \<Rightarrow> 's inv_comp \<Rightarrow> (bool \<times> 's inv_comp) result" where
  "inv_sync K window_id c =
    (case get_window (ic_windows c) (window_from_window_id K window_id) of
       None \<Rightarrow> Inr (False, c)
     | Some i \<Rightarrow>
         bind_result (slots_from (ic_windows c) (window_from_window_id K window_id) 0 (iv_size i))
           (\<lambda>ss. Inr (True, c\<lparr>ic_out := ic_out c @ [OutContent window_id ss], ic_pending_sync := False\<rparr>)))"

definition sync_slot :: "proto_ids \<Rightarrow> int \<Rightarrow> int \<Rightarrow> 's inv_comp \<Rightarrow> (bool \<times> 's inv_comp) result" where
  "sync_slot K window_id slot c =
    (case get_window (ic_windows c) (window_from_window_id K window_id) of
       None \<Rightarrow> Inr (False, c)
     | Some i \<Rightarrow> bind_result (win_slot (ic_windows c) (window_from_window_id K window_id) slot)
           (\<lambda>s. Inr (True, c\<lparr>ic_out := ic_out c @ [OutSlot window_id slot s]\<rparr>)))"

definition set_held_slot :: "int \<Rightarrow> 's inv_comp \<Rightarrow> 's inv_comp" where
  "set_held_slot held c =
    (if held < 0 \<or> held \<ge> inventory_size_hotbar then c else c\<lparr>ic_held := held\<rparr>)"

definition holding :: "'s inv_comp \<Rightarrow> 's result" where
  "holding c = win_slot (ic_windows c) WInventory (ic_held c)"

section \<open>Running the actions of a request\<close>

definition deref :: "'s req_heap \<Rightarrow> nat option \<Rightarrow> (nat \<times> 's inv_req) result" where
  "deref h p = (case p of
      None \<Rightarrow> Inl (Panic ''nil pointer dereference'')
    | Some a \<Rightarrow> (case h a of
        None \<Rightarrow> Inl (Panic ''nil pointer dereference'') | Some r \<Rightarrow> Inr (a, r)))"

fun execute_actions ::
  "'s stack_ops \<Rightarrow> proto_ids \<Rightarrow> 's inv_action list \<Rightarrow> 's windows \<Rightarrow> ('s inv_action list \<times> 's windows) result" where
  "execute_actions S K [] w = Inr ([], w)"
| "execute_actions S K (a # as) w = bind_result (execute_action S K a w) (\<lambda>(a', w').
     bind_result (execute_actions S K as w') (\<lambda>(as', w''). Inr (a' # as', w'')))"

definition execute_req ::
  "'s stack_ops \<Rightarrow> proto_ids \<Rightarrow> 's inv_req \<Rightarrow> 's windows \<Rightarrow> ('s inv_req \<times> 's windows) result" where
  "execute_req S K r w = bind_result (execute_actions S K (rq_actions r) w)
     (\<lambda>(as, w'). Inr (r\<lparr>rq_actions := as\<rparr>, w'))"

definition accept_req :: "'s inv_req \<Rightarrow> 's inv_req result" where
  "accept_req r =
    (let r = r\<lparr>rq_actions := map close_action (rq_actions r)\<rparr>
     in if rq_prev r \<noteq> None then Inl (Panic ''request was accepted out of order'') else Inr r)"

text \<open>
  The loop of \<^verbatim>\<open>reject\<close> on the reversed actions: revert and close each.  The flag says
  whether some revert called \<^verbatim>\<open>ForceSync\<close>; calling it again changes nothing.
\<close>
fun revert_actions ::
  "proto_ids \<Rightarrow> 's inv_action list \<Rightarrow> 's windows \<Rightarrow> ('s inv_action list \<times> 's windows \<times> bool) result" where
  "revert_actions K [] w = Inr ([], w, False)"
| "revert_actions K (a # as) w = bind_result (revert_action K a w) (\<lambda>(w', f).
     bind_result (revert_actions K as w') (\<lambda>(as', w'', f'). Inr (close_action a # as', w'', f \<or> f')))"

definition set_req :: "nat \<Rightarrow> 's inv_req \<Rightarrow> 's inv_comp \<Rightarrow> 's inv_comp" where
  "set_req a r c = c\<lparr>ic_reqs := (ic_reqs c)(a \<mapsto> r)\<rparr>"

definition reject_req ::
  "'s stack_ops \<Rightarrow> proto_ids \<Rightarrow> bool \<Rightarrow> nat \<Rightarrow> 's inv_req \<Rightarrow> 's inv_comp \<Rightarrow> 's inv_comp result" where
  "reject_req S K conn a r c =
     bind_result (revert_actions K (rev (rq_actions r)) (ic_windows c)) (\<lambda>(as, w, f).
       let c = (set_req a (r\<lparr>rq_actions := rev as\<rparr>) c)\<lparr>ic_windows := w\<rparr>;
           c = (if f then force_sync conn c else c)
       in case rq_next r of
            None \<Rightarrow> Inr c
          | Some n \<Rightarrow> bind_result (deref (ic_reqs c) (Some n)) (\<lambda>(n, nr).
              bind_result (execute_req S K nr (ic_windows c)) (\<lambda>(nr', w').
                Inr ((set_req n nr' c)\<lparr>ic_windows := w'\<rparr>))))"

section \<open>Responses\<close>

record response =
  rs_id :: int
  rs_ok :: bool

text \<open>One round of the loop; the flag tells whether the loop goes on.\<close>
definition handle_response ::
  "'s stack_ops \<Rightarrow> proto_ids \<Rightarrow> bool \<Rightarrow> response \<Rightarrow> 's inv_comp \<Rightarrow> (bool \<times> 's inv_comp) result" where
  "handle_response S K conn rs c =
    (if ic_first c = None then Inr (True, force_sync conn c)
     else bind_result (deref (ic_reqs c) (ic_first c)) (\<lambda>(a, r).
       if rs_id rs \<noteq> rq_id r then Inr (False, c)
       else
         bind_result
           (if rs_ok rs then bind_result (accept_req r) (\<lambda>r'. Inr (set_req a r' c))
            else reject_req S K conn a r c) (\<lambda>c.
         if ic_first c = ic_current c then Inr (True, c\<lparr>ic_first := None, ic_current := None\<rparr>)
         else bind_result (deref (ic_reqs c) (ic_first c)) (\<lambda>(a, r).
              bind_result (deref (ic_reqs c) (rq_next r)) (\<lambda>(n, nr).
                let c = set_req n (nr\<lparr>rq_prev := None\<rparr>) c;
                    c = (case ic_reqs c a of
                           None \<Rightarrow> c | Some r \<Rightarrow> set_req a (r\<lparr>rq_next := None\<rparr>) c)
                in Inr (True, c\<lparr>ic_first := Some n\<rparr>))))))"

fun handle_item_stack_response ::
  "'s stack_ops \<Rightarrow> proto_ids \<Rightarrow> bool \<Rightarrow> response list \<Rightarrow> 's inv_comp \<Rightarrow> 's inv_comp result" where
  "handle_item_stack_response S K conn [] c = Inr c"
| "handle_item_stack_response S K conn (rs # rss) c =
     bind_result (handle_response S K conn rs c) (\<lambda>(go_on, c').
       if go_on then handle_item_stack_response S K conn rss c' else Inr c')"

section \<open>Building requests\<close>

record slot_info =
  si_container :: int
  si_slot :: nat

text \<open>Recipes as the packets describe them.\<close>
datatype descriptor = DefaultDesc string int nat | TagDesc string nat | OtherDesc

record 'p recipe =
  re_block :: string
  re_input :: "descriptor list"
  re_output :: "'p list"

datatype 'p any_recipe = ShapedRecipe "'p recipe" | ShapelessRecipe "'p recipe" | OtherRecipe

datatype req_action
  = TakeA slot_info slot_info nat
  | PlaceA slot_info slot_info nat
  | SwapReqA slot_info slot_info
  | DestroyReqA slot_info nat
  | DropReqA slot_info nat
  | MineBlockA
  | CraftRecipeA nat int
  | CraftResultsA
  | ConsumeA
  | CraftCreativeA nat
  | OtherA string

text \<open>
  What the component asks of the item library and of the player while it builds a
  request: recipe items are values of a type \<^verbatim>\<open>'r\<close>, protocol stacks of a type
  \<^verbatim>\<open>'p\<close>.
\<close>
record ('s, 'r, 'p) craft_env =
  ce_creative_mode :: bool
  ce_creative_item :: "nat \<Rightarrow> 'p option"
  ce_recipe :: "nat \<Rightarrow> 'p any_recipe option"
  ce_item_by_name :: "string \<Rightarrow> int \<Rightarrow> nat \<Rightarrow> 'r option"
  ce_item_tag :: "string \<Rightarrow> nat \<Rightarrow> 'r"
  ce_stack_to_item :: "'p \<Rightarrow> 's"
  ce_r_empty :: "'r \<Rightarrow> bool"
  ce_r_count :: "'r \<Rightarrow> int"
  ce_matching :: "'s \<Rightarrow> 'r \<Rightarrow> bool"
  ce_repeat :: "'s list \<Rightarrow> int \<Rightarrow> 's list"

definition recipe_item :: "('s, 'r, 'p) craft_env \<Rightarrow> descriptor \<Rightarrow> 'r option" where
  "recipe_item E d = (case d of
      DefaultDesc n meta cnt \<Rightarrow> ce_item_by_name E n meta cnt
    | TagDesc t cnt \<Rightarrow> Some (ce_item_tag E t cnt)
    | OtherDesc \<Rightarrow> None)"

text \<open>The inner loop: the first slot of the table that can give the expected item.\<close>
fun find_craft_slot ::
  "'s stack_ops \<Rightarrow> ('s, 'r, 'p) craft_env \<Rightarrow> 's windows \<Rightarrow> 'r \<Rightarrow> int \<Rightarrow> nat \<Rightarrow> bool list \<Rightarrow> nat
   \<Rightarrow> (nat \<times> 's) option result" where
  "find_craft_slot S E w expected crafts offset [] n = Inr None"
| "find_craft_slot S E w expected crafts offset (used # consumed) n =
    (if used then find_craft_slot S E w expected crafts offset consumed (Suc n)
     else bind_result (win_slot w WUi (int (offset + n))) (\<lambda>has.
       if st_empty S has \<noteq> ce_r_empty E expected
          \<or> st_count S has < ce_r_count E expected * crafts
          \<or> \<not> ce_matching E has expected
       then find_craft_slot S E w expected crafts offset consumed (Suc n)
       else Inr (Some (n, has))))"

fun consume_inputs ::
  "'s stack_ops \<Rightarrow> proto_ids \<Rightarrow> ('s, 'r, 'p) craft_env \<Rightarrow> 's windows \<Rightarrow> int \<Rightarrow> nat
   \<Rightarrow> 'r option list \<Rightarrow> bool list \<Rightarrow> bool \<Rightarrow> 's inv_req \<Rightarrow> (bool \<times> 's inv_req) result" where
  "consume_inputs S K E w crafts offset [] consumed allowed tx = Inr (allowed, tx)"
| "consume_inputs S K E w crafts offset (None # es) consumed allowed tx =
     consume_inputs S K E w crafts offset es consumed allowed tx"
| "consume_inputs S K E w crafts offset (Some e # es) consumed allowed tx =
    (if ce_r_empty E e then consume_inputs S K E w crafts offset es consumed allowed tx
     else bind_result (find_craft_slot S E w e crafts offset consumed 0) (\<lambda>found.
       case found of
         None \<Rightarrow> consume_inputs S K E w crafts offset es consumed False tx
       | Some (n, has) \<Rightarrow>
           consume_inputs S K E w crafts offset es (consumed[n := True]) allowed
             (req_append (new_destroy_action has (ce_r_count E e * crafts) (int (offset + n))
                            (c_crafting_input K) False) tx)))"

definition created_output_slot :: int where "created_output_slot = 50"

definition append_creates :: "'s stack_ops \<Rightarrow> proto_ids \<Rightarrow> 's list \<Rightarrow> 's inv_req \<Rightarrow> 's inv_req" where
  "append_creates S K outs tx =
     fold (\<lambda>out. req_append (new_create_action S created_output_slot (c_created_output K) out)) outs tx"

definition handle_craft_recipe ::
  "'s stack_ops \<Rightarrow> proto_ids \<Rightarrow> ('s, 'r, 'p) craft_env \<Rightarrow> 'p recipe \<Rightarrow> int \<Rightarrow> 's inv_comp
   \<Rightarrow> 's inv_req \<Rightarrow> 's inv_req result" where
  "handle_craft_recipe S K E recp crafts c tx =
    (let recp_input = map (recipe_item E) (re_input recp);
         recp_output = map (ce_stack_to_item E) (re_output recp)
     in if re_block recp \<noteq> ''crafting_table'' then Inr tx
        else if crafts < 1 then Inr tx
        else
          let (table_size, table_offset) =
                (if alt_window (ic_windows c) \<noteq> None then (9, 32) else (4, 28))
          in bind_result
               (consume_inputs S K E (ic_windows c) crafts table_offset recp_input
                  (replicate table_size False) True tx)
               (\<lambda>(allowed, tx).
                  if allowed then Inr (append_creates S K (ce_repeat E recp_output crafts) tx)
                  else Inr tx))"

definition handle_craft_stack_request ::
  "'s stack_ops \<Rightarrow> proto_ids \<Rightarrow> ('s, 'r, 'p) craft_env \<Rightarrow> nat \<Rightarrow> int \<Rightarrow> 's inv_comp
   \<Rightarrow> 's inv_req \<Rightarrow> 's inv_req result" where
  "handle_craft_stack_request S K E recipe_id crafts c tx =
    (case ce_recipe E recipe_id of
       None \<Rightarrow> Inr tx
     | Some (ShapedRecipe recp) \<Rightarrow> handle_craft_recipe S K E recp crafts c tx
     | Some (ShapelessRecipe recp) \<Rightarrow> handle_craft_recipe S K E recp crafts c tx
     | Some OtherRecipe \<Rightarrow> Inr tx)"

definition handle_creative_craft ::
  "'s stack_ops \<Rightarrow> proto_ids \<Rightarrow> ('s, 'r, 'p) craft_env \<Rightarrow> nat \<Rightarrow> 's inv_req \<Rightarrow> 's inv_req" where
  "handle_creative_craft S K E item_id tx =
    (if \<not> ce_creative_mode E then tx
     else case ce_creative_item E item_id of
            None \<Rightarrow> tx
          | Some p \<Rightarrow> req_append (new_create_action S created_output_slot (c_created_output K)
                                   (ce_stack_to_item E p)) tx)"

definition handle_transfer_request ::
  "proto_ids \<Rightarrow> 's inv_comp \<Rightarrow> slot_info \<Rightarrow> slot_info \<Rightarrow> int \<Rightarrow> 's inv_req \<Rightarrow> 's inv_req result" where
  "handle_transfer_request K c src dst n tx =
    (let sk = win_of K (si_container src); dk = win_of K (si_container dst);
         w = ic_windows c
     in case get_window w sk of None \<Rightarrow> Inr tx | Some si \<Rightarrow>
       (case get_window w dk of None \<Rightarrow> Inr tx | Some di \<Rightarrow>
         if si_slot src \<ge> iv_size si \<or> si_slot dst \<ge> iv_size di then Inr tx
         else bind_result (win_slot w sk (int (si_slot src))) (\<lambda>s.
              bind_result (win_slot w dk (int (si_slot dst))) (\<lambda>d.
                Inr (req_append (new_transfer_action n (si_container src) (int (si_slot src)) s
                       (si_container dst) (int (si_slot dst)) d) tx)))))"

definition handle_swap_request ::
  "proto_ids \<Rightarrow> 's inv_comp \<Rightarrow> slot_info \<Rightarrow> slot_info \<Rightarrow> 's inv_req \<Rightarrow> 's inv_req result" where
  "handle_swap_request K c src dst tx =
    (let sk = win_of K (si_container src); dk = win_of K (si_container dst);
         w = ic_windows c
     in case get_window w sk of None \<Rightarrow> Inr tx | Some si \<Rightarrow>
       (case get_window w dk of None \<Rightarrow> Inr tx | Some di \<Rightarrow>
         if si_slot src \<ge> iv_size si \<or> si_slot dst \<ge> iv_size di then Inr tx
         else bind_result (win_slot w sk (int (si_slot src))) (\<lambda>s.
              bind_result (win_slot w dk (int (si_slot dst))) (\<lambda>d.
                Inr (req_append (new_swap_action (si_container src) s (int (si_slot src))
                       (si_container dst) d (int (si_slot dst))) tx)))))"

definition handle_destroy_request ::
  "proto_ids \<Rightarrow> 's inv_comp \<Rightarrow> slot_info \<Rightarrow> int \<Rightarrow> bool \<Rightarrow> 's inv_req \<Rightarrow> 's inv_req result" where
  "handle_destroy_request K c src n is_drop tx =
    (let sk = win_of K (si_container src); w = ic_windows c
     in case get_window w sk of None \<Rightarrow> Inr tx | Some si \<Rightarrow>
         if si_slot src \<ge> iv_size si then Inr tx
         else bind_result (win_slot w sk (int (si_slot src))) (\<lambda>s.
                Inr (req_append (new_destroy_action s n (int (si_slot src)) (si_container src) is_drop) tx)))"

definition handle_req_action ::
  "'s stack_ops \<Rightarrow> proto_ids \<Rightarrow> ('s, 'r, 'p) craft_env \<Rightarrow> 's inv_comp \<Rightarrow> req_action \<Rightarrow> 's inv_req
   \<Rightarrow> 's inv_req result" where
  "handle_req_action S K E c action tx = (case action of
      TakeA src dst n \<Rightarrow> handle_transfer_request K c src dst (int n) tx
    | PlaceA src dst n \<Rightarrow> handle_transfer_request K c src dst (int n) tx
    | SwapReqA src dst \<Rightarrow> handle_swap_request K c src dst tx
    | DestroyReqA src n \<Rightarrow> handle_destroy_request K c src (int n) False tx
    | DropReqA src n \<Rightarrow> handle_destroy_request K c src (int n) True tx
    | MineBlockA \<Rightarrow> Inr (req_append (UnknownA True ''*protocol.MineBlockStackRequestAction'') tx)
    | CraftRecipeA i crafts \<Rightarrow> handle_craft_stack_request S K E i crafts c tx
    | CraftResultsA \<Rightarrow> Inr (req_append NopA tx)
    | ConsumeA \<Rightarrow> Inr (req_append NopA tx)
    | CraftCreativeA i \<Rightarrow> Inr (handle_creative_craft S K E i tx)
    | OtherA n \<Rightarrow> Inr (req_append (UnknownA True n) tx))"

fun handle_req_actions ::
  "'s stack_ops \<Rightarrow> proto_ids \<Rightarrow> ('s, 'r, 'p) craft_env \<Rightarrow> 's inv_comp \<Rightarrow> req_action list \<Rightarrow> 's inv_req
   \<Rightarrow> 's inv_req result" where
  "handle_req_actions S K E c [] tx = Inr tx"
| "handle_req_actions S K E c (a # as) tx =
     bind_result (handle_req_action S K E c a tx) (handle_req_actions S K E c as)"

definition handle_single_request ::
  "'s stack_ops \<Rightarrow> proto_ids \<Rightarrow> ('s, 'r, 'p) craft_env \<Rightarrow> int \<Rightarrow> req_action list \<Rightarrow> 's inv_comp
   \<Rightarrow> 's inv_comp result" where
  "handle_single_request S K E req_id actions c =
     bind_result (handle_req_actions S K E c actions (new_inv_request req_id)) (\<lambda>tx.
       if rq_actions tx = [] then Inr c
       else bind_result (execute_req S K tx (ic_windows c)) (\<lambda>(tx, w).
         let t = ic_next c;
             c = c\<lparr>ic_windows := w, ic_next := Suc t\<rparr>
         in if ic_first c = None
            then Inr ((set_req t tx c)\<lparr>ic_first := Some t, ic_current := Some t\<rparr>)
            else bind_result (deref (ic_reqs c) (ic_current c)) (\<lambda>(l, lr).
                   Inr ((set_req t (tx\<lparr>rq_prev := ic_current c\<rparr>)
                          (set_req l (lr\<lparr>rq_next := Some t\<rparr>) c))\<lparr>ic_current := Some t\<rparr>))))"

fun handle_item_stack_request ::
  "'s stack_ops \<Rightarrow> proto_ids \<Rightarrow> ('s, 'r, 'p) craft_env \<Rightarrow> (int \<times> req_action list) list \<Rightarrow> 's inv_comp
   \<Rightarrow> 's inv_comp result" where
  "handle_item_stack_request S K E [] c = Inr c"
| "handle_item_stack_request S K E ((i, as) # rest) c =
     bind_result (handle_single_request S K E i as c) (handle_item_stack_request S K E rest)"

end
