(* ===== verification/InvQueue.thy ===== *)
theory InvQueue
  imports InvRequests
begin

text \<open>
  Correctness of the pending requests: the pointers always form one doubly linked list from
  the first to the current request, no operation dereferences nil or leaves the bounds of a
  window, and the component answers requests like a queue.
\<close>

section \<open>The linked list\<close>

fun linked :: "'s req_heap \<Rightarrow> nat option \<Rightarrow> nat list \<Rightarrow> bool" where
  "linked h p [] \<longleftrightarrow> True"
| "linked h p (a # as) \<longleftrightarrow> (\<exists>r. h a = Some r \<and> rq_prev r = p
      \<and> rq_next r = (case as of [] \<Rightarrow> None | b # _ \<Rightarrow> Some b) \<and> linked h (Some a) as)"

lemma linked_fresh: "t \<notin> set as \<Longrightarrow> linked (h(t := x)) p as = linked h p as"
  by (induction h p as rule: linked.induct) auto

lemma linked_update:
  assumes "linked h p as" "h a = Some r" "rq_prev r' = rq_prev r" "rq_next r' = rq_next r"
  shows "linked (h(a \<mapsto> r')) p as"
  using assms by (induction h p as rule: linked.induct) auto

lemma linked_prev: "linked h p (a # as) \<Longrightarrow> h a = Some r \<Longrightarrow> a \<notin> set as \<Longrightarrow>
    linked (h(a \<mapsto> r\<lparr>rq_prev := q\<rparr>)) q (a # as)"
  by (auto simp: linked_fresh)

lemma linked_snoc:
  assumes "linked h p (as @ [l])" "h l = Some lr" "t \<notin> set (as @ [l])" "distinct (as @ [l])"
    "rq_prev r = Some l" "rq_next r = None"
    "h' = h(l \<mapsto> lr\<lparr>rq_next := Some t\<rparr>, t \<mapsto> r)"
  shows "linked h' p ((as @ [l]) @ [t])"
  using assms
proof (induction as arbitrary: p)
  case Nil
  thus ?case by auto
next
  case (Cons a as)
  have "linked h' (Some a) ((as @ [l]) @ [t])"
    by (rule Cons.IH) (use Cons.prems in auto)
  moreover obtain ra where "h a = Some ra" "rq_prev ra = p"
    "rq_next ra = (case as @ [l] of [] \<Rightarrow> None | b # _ \<Rightarrow> Some b)"
    using Cons.prems by auto
  moreover have "h' a = h a" using Cons.prems by auto
  ultimately show ?case by (cases as) simp_all
qed

lemma linked_heap: "linked h p as \<Longrightarrow> a \<in> set as \<Longrightarrow> \<exists>r. h a = Some r"
  by (induction h p as rule: linked.induct) auto

text \<open>The addresses that the pointers reach from the first request.\<close>
fun walk :: "nat \<Rightarrow> 's req_heap \<Rightarrow> nat option \<Rightarrow> nat list" where
  "walk 0 h p = []"
| "walk (Suc n) h None = []"
| "walk (Suc n) h (Some a) = (case h a of None \<Rightarrow> [] | Some r \<Rightarrow> a # walk n h (rq_next r))"

lemma walk_linked:
  "linked h p as \<Longrightarrow> length as \<le> n \<Longrightarrow>
   walk n h (case as of [] \<Rightarrow> None | a # _ \<Rightarrow> Some a) = as"
proof (induction as arbitrary: p n)
  case Nil
  show ?case by (cases n) simp_all
next
  case (Cons a as)
  then obtain m where "n = Suc m" by (cases n) auto
  with Cons show ?case by auto
qed

definition addresses :: "'s inv_comp \<Rightarrow> nat list" where
  "addresses c = walk (ic_next c) (ic_reqs c) (ic_first c)"

definition req_bounds :: "proto_ids \<Rightarrow> 's req_heap \<Rightarrow> nat list \<Rightarrow> bool" where
  "req_bounds K h as \<longleftrightarrow> (\<forall>a \<in> set as. \<forall>r. h a = Some r \<longrightarrow> list_all (action_in_bounds K) (rq_actions r))"

definition comp_inv :: "proto_ids \<Rightarrow> 's inv_comp \<Rightarrow> nat list \<Rightarrow> bool" where
  "comp_inv K c as \<longleftrightarrow> windows_ok (ic_windows c) \<and> linked (ic_reqs c) None as \<and> distinct as
     \<and> (\<forall>a \<in> set as. a < ic_next c)
     \<and> ic_first c = (case as of [] \<Rightarrow> None | a # _ \<Rightarrow> Some a)
     \<and> ic_current c = (if as = [] then None else Some (last as))
     \<and> req_bounds K (ic_reqs c) as
     \<and> 0 \<le> ic_held c \<and> ic_held c < inventory_size_hotbar"

definition inv_comp_ok :: "proto_ids \<Rightarrow> 's inv_comp \<Rightarrow> bool" where
  "inv_comp_ok K c \<longleftrightarrow> comp_inv K c (addresses c)"

lemma addresses_eq:
  assumes "comp_inv K c as"
  shows "addresses c = as"
proof -
  have "set as \<subseteq> {..<ic_next c}" "distinct as" using assms by (auto simp: comp_inv_def)
  hence "length as \<le> ic_next c"
    by (metis card_lessThan card_mono distinct_card finite_lessThan)
  with assms walk_linked[of "ic_reqs c" None as "ic_next c"] show ?thesis
    by (simp add: comp_inv_def addresses_def)
qed

lemma inv_comp_okI: "comp_inv K c as \<Longrightarrow> inv_comp_ok K c"
  by (simp add: inv_comp_ok_def addresses_eq)

lemma inv_comp_ok_new: "inv_comp_ok K (new_inventory_component S)"
  by (rule inv_comp_okI[of _ _ "[]"])
    (simp add: comp_inv_def new_inventory_component_def windows_ok_new req_bounds_def)

section \<open>Running actions\<close>

lemma revert_actions_append:
  "revert_actions K (xs @ ys) w = bind_result (revert_actions K xs w) (\<lambda>(xs', w', f).
     bind_result (revert_actions K ys w') (\<lambda>(ys', w'', g). Inr (xs' @ ys', w'', f \<or> g)))"
proof (induction xs arbitrary: w)
  case Nil
  show ?case by (simp add: bind_result_def case_prod_unfold split: sum.splits)
next
  case (Cons x xs)
  show ?case
    by (simp add: Cons bind_result_def case_prod_unfold disj_assoc split: sum.splits)
qed

lemma execute_actions_undo:
  assumes "windows_ok w" "list_all (action_in_bounds K) as"
  shows "\<exists>as' w' bs f. execute_actions S K as w = Inr (as', w') \<and> windows_ok w'
     \<and> list_all (action_in_bounds K) as' \<and> length as' = length as
     \<and> revert_actions K (rev as') w' = Inr (bs, w, f)"
  using assms
proof (induction as arbitrary: w)
  case (Cons a as)
  obtain a' w1 f1 where a: "execute_action S K a w = Inr (a', w1)" "windows_ok w1"
    "action_in_bounds K a'" "revert_action K a' w1 = Inr (w, f1)"
    using undoable_action[of w K a S] Cons.prems by (auto simp: undoable_def)
  obtain as' w' bs f where s: "execute_actions S K as w1 = Inr (as', w')" "windows_ok w'"
    "list_all (action_in_bounds K) as'" "length as' = length as"
    "revert_actions K (rev as') w' = Inr (bs, w1, f)"
    using Cons.IH[OF a(2)] Cons.prems by auto
  with a show ?case by (simp add: revert_actions_append)
qed simp

lemma revert_actions_ok:
  assumes "windows_ok w" "list_all (action_in_bounds K) as"
  shows "\<exists>w' f. revert_actions K as w = Inr (map close_action as, w', f) \<and> windows_ok w'"
  using assms
proof (induction as arbitrary: w)
  case (Cons a as)
  obtain w1 f1 where "revert_action K a w = Inr (w1, f1)" "windows_ok w1"
    using revert_action_ok[of w K a] Cons.prems by auto
  with Cons.IH[of w1] Cons.prems show ?case by auto
qed simp

section \<open>The queue that the component implements\<close>

text \<open>
  The abstract state: the identifiers and actions of the pending requests, oldest first, and
  the windows.  A response is for the oldest request, or it ends the processing; acceptance
  forgets the request, rejection undoes it and runs the actions of the one behind it.
\<close>
type_synonym 's req_queue = "(int \<times> 's inv_action list) list"

definition spec_response ::
  "'s stack_ops \<Rightarrow> proto_ids \<Rightarrow> response \<Rightarrow> 's req_queue \<times> 's windows
   \<Rightarrow> (bool \<times> ('s req_queue \<times> 's windows) \<times> bool) result" where
  "spec_response S K rs s = (case s of
      ([], w) \<Rightarrow> Inr (True, ([], w), True)
    | ((i, acts) # q, w) \<Rightarrow>
        if rs_id rs \<noteq> i then Inr (False, s, False)
        else if rs_ok rs then Inr (True, (q, w), False)
        else bind_result (revert_actions K (rev acts) w) (\<lambda>(_, w', f).
          case q of
            [] \<Rightarrow> Inr (True, ([], w'), f)
          | (j, acts') # q' \<Rightarrow> bind_result (execute_actions S K acts' w') (\<lambda>(acts'', w'').
              Inr (True, ((j, acts'') # q', w''), f))))"

definition req_view :: "'s req_heap \<Rightarrow> nat \<Rightarrow> int \<times> 's inv_action list" where
  "req_view h a = (case h a of None \<Rightarrow> (0, []) | Some r \<Rightarrow> (rq_id r, rq_actions r))"

definition abs_comp :: "'s inv_comp \<Rightarrow> 's req_queue \<times> 's windows" where
  "abs_comp c = (map (req_view (ic_reqs c)) (addresses c), ic_windows c)"

lemma abs_comp_eq:
  "comp_inv K c as \<Longrightarrow> abs_comp c = (map (req_view (ic_reqs c)) as, ic_windows c)"
  by (simp add: abs_comp_def addresses_eq)

lemma force_sync_simps [simp]:
  "ic_windows (force_sync b c) = ic_windows c" "ic_reqs (force_sync b c) = ic_reqs c"
  "ic_first (force_sync b c) = ic_first c" "ic_current (force_sync b c) = ic_current c"
  "ic_next (force_sync b c) = ic_next c" "ic_held (force_sync b c) = ic_held c"
  "ic_pending_sync (force_sync b c)"
  by (simp_all add: force_sync_def Let_def)

lemma set_req_simps [simp]:
  "ic_windows (set_req a r c) = ic_windows c" "ic_reqs (set_req a r c) = (ic_reqs c)(a \<mapsto> r)"
  "ic_first (set_req a r c) = ic_first c" "ic_current (set_req a r c) = ic_current c"
  "ic_next (set_req a r c) = ic_next c" "ic_held (set_req a r c) = ic_held c"
  "ic_pending_sync (set_req a r c) = ic_pending_sync c"
  by (simp_all add: set_req_def)

text \<open>Taking the head off the list: what the end of a response does.\<close>
definition drop_first :: "'s inv_comp \<Rightarrow> 's inv_comp result" where
  "drop_first c =
    (if ic_first c = ic_current c then Inr (c\<lparr>ic_first := None, ic_current := None\<rparr>)
     else bind_result (deref (ic_reqs c) (ic_first c)) (\<lambda>(a, r).
          bind_result (deref (ic_reqs c) (rq_next r)) (\<lambda>(n, nr).
            let c = set_req n (nr\<lparr>rq_prev := None\<rparr>) c;
                c = (case ic_reqs c a of None \<Rightarrow> c | Some r \<Rightarrow> set_req a (r\<lparr>rq_next := None\<rparr>) c)
            in Inr (c\<lparr>ic_first := Some n\<rparr>))))"

lemma drop_first_ok:
  assumes "comp_inv K c (a # as)"
  shows "\<exists>c'. drop_first c = Inr c' \<and> comp_inv K c' as \<and> ic_windows c' = ic_windows c
     \<and> map (req_view (ic_reqs c')) as = map (req_view (ic_reqs c)) as
     \<and> ic_pending_sync c' = ic_pending_sync c"
proof (cases as)
  case Nil
  with assms show ?thesis by (auto simp: drop_first_def comp_inv_def req_bounds_def)
next
  case (Cons b bs)
  obtain r where r: "ic_reqs c a = Some r" "rq_next r = Some b"
    and lk: "linked (ic_reqs c) (Some a) (b # bs)"
    using assms Cons by (auto simp: comp_inv_def)
  obtain nr where nr: "ic_reqs c b = Some nr" using lk by auto
  have d: "a \<noteq> b" "a \<notin> set bs" "b \<notin> set bs" "distinct bs"
    using assms Cons by (auto simp: comp_inv_def)
  hence ne: "last (b # bs) \<noteq> a"
    by (metis last_in_set list.distinct(1) set_ConsD)
  let ?h = "(ic_reqs c)(b \<mapsto> nr\<lparr>rq_prev := None\<rparr>, a \<mapsto> r\<lparr>rq_next := None\<rparr>)"
  have eq: "drop_first c = Inr (c\<lparr>ic_reqs := ?h, ic_first := Some b\<rparr>)"
    using assms Cons r nr d ne
    by (simp add: drop_first_def comp_inv_def deref_def set_req_def)
  have "linked ((ic_reqs c)(b \<mapsto> nr\<lparr>rq_prev := None\<rparr>)) None (b # bs)"
    using linked_prev[OF lk nr d(3)] .
  hence "linked ?h None (b # bs)"
    using d by (subst linked_fresh) auto
  moreover have "req_bounds K ?h (b # bs)"
    using assms Cons nr d by (auto simp: comp_inv_def req_bounds_def)
  moreover have "map (req_view ?h) (b # bs) = map (req_view (ic_reqs c)) (b # bs)"
    using d nr by (auto simp: req_view_def)
  ultimately show ?thesis
    using assms Cons eq ne d by (auto simp: comp_inv_def)
qed

lemma handle_response_eq:
  "handle_response S K conn rs c =
    (if ic_first c = None then Inr (True, force_sync conn c)
     else bind_result (deref (ic_reqs c) (ic_first c)) (\<lambda>(a, r).
       if rs_id rs \<noteq> rq_id r then Inr (False, c)
       else bind_result
           (if rs_ok rs then bind_result (accept_req r) (\<lambda>r'. Inr (set_req a r' c))
            else reject_req S K conn a r c) (\<lambda>c.
              bind_result (drop_first c) (\<lambda>c'. Inr (True, c')))))"
proof -
  have "bind_result (drop_first c') (\<lambda>c. Inr (True, c)) =
    (if ic_first c' = ic_current c' then Inr (True, c'\<lparr>ic_first := None, ic_current := None\<rparr>)
     else bind_result (deref (ic_reqs c') (ic_first c')) (\<lambda>(a, r).
          bind_result (deref (ic_reqs c') (rq_next r)) (\<lambda>(n, nr).
            let c = set_req n (nr\<lparr>rq_prev := None\<rparr>) c';
                c = (case ic_reqs c a of None \<Rightarrow> c | Some r \<Rightarrow> set_req a (r\<lparr>rq_next := None\<rparr>) c)
            in Inr (True, c\<lparr>ic_first := Some n\<rparr>))))" for c' :: "'a inv_comp"
    by (simp add: drop_first_def bind_result_def case_prod_unfold Let_def split: sum.splits)
  thus ?thesis by (simp only: handle_response_def)
qed

lemma comp_inv_set_actions:
  assumes "comp_inv K c as" "ic_reqs c a = Some r" "list_all (action_in_bounds K) acts"
    "windows_ok w"
  shows "comp_inv K ((set_req a (r\<lparr>rq_actions := acts\<rparr>) c)\<lparr>ic_windows := w\<rparr>) as"
  using assms
  by (auto simp: comp_inv_def req_bounds_def intro: linked_update)

lemma comp_inv_force_sync [simp]: "comp_inv K (force_sync b c) as = comp_inv K c as"
  by (simp add: comp_inv_def)

lemma rev_map_rev: "rev (map g (rev xs)) = map g xs"
  by (metis rev_map rev_rev_ident)

lemma reject_req_refines:
  assumes inv: "comp_inv K c (a # as)" and r: "ic_reqs c a = Some r"
  shows "\<exists>c' w f q. reject_req S K conn a r c = Inr c' \<and> comp_inv K c' (a # as)
     \<and> spec_response S K \<lparr>rs_id = rq_id r, rs_ok = False\<rparr> (abs_comp c) = Inr (True, (q, w), f)
     \<and> map (req_view (ic_reqs c')) as = q \<and> ic_windows c' = w
     \<and> ic_pending_sync c' = (ic_pending_sync c \<or> f)"
proof -
  have acts: "list_all (action_in_bounds K) (rq_actions r)" and wok: "windows_ok (ic_windows c)"
    using inv r by (auto simp: comp_inv_def req_bounds_def)
  obtain w' f where rv: "revert_actions K (rev (rq_actions r)) (ic_windows c)
      = Inr (map close_action (rev (rq_actions r)), w', f)" "windows_ok w'"
    using revert_actions_ok[OF wok, of K "rev (rq_actions r)"] acts by auto
  define c1 where "c1 = (set_req a (r\<lparr>rq_actions := map close_action (rq_actions r)\<rparr>) c)\<lparr>ic_windows := w'\<rparr>"
  define c2 where "c2 = (if f then force_sync conn c1 else c1)"
  have "list_all (action_in_bounds K) (map close_action (rq_actions r))"
    using acts by (simp add: list_all_iff)
  hence inv1: "comp_inv K c1 (a # as)"
    using comp_inv_set_actions[OF inv r _ rv(2)] by (simp add: c1_def)
  hence inv2: "comp_inv K c2 (a # as)" by (simp add: c2_def)
  have f2: "ic_windows c2 = w'" "ic_pending_sync c2 = (ic_pending_sync c \<or> f)"
    "ic_reqs c2 = (ic_reqs c)(a \<mapsto> r\<lparr>rq_actions := map close_action (rq_actions r)\<rparr>)"
    by (simp_all add: c2_def c1_def)
  have step: "reject_req S K conn a r c = (case rq_next r of None \<Rightarrow> Inr c2
      | Some n \<Rightarrow> bind_result (deref (ic_reqs c2) (Some n)) (\<lambda>(n, nr).
          bind_result (execute_req S K nr (ic_windows c2)) (\<lambda>(nr', w').
            Inr ((set_req n nr' c2)\<lparr>ic_windows := w'\<rparr>))))"
    by (cases "rq_next r") (simp_all add: reject_req_def rv rev_map_rev c2_def c1_def Let_def)
  have d: "a \<notin> set as" using inv by (simp add: comp_inv_def)
  show ?thesis
  proof (cases as)
    case Nil
    with inv r have "rq_next r = None" by (auto simp: comp_inv_def)
    with step inv2 f2 Nil rv show ?thesis
      by (simp add: abs_comp_eq[OF inv] spec_response_def req_view_def r)
  next
    case (Cons b bs)
    with inv r obtain nr where nr: "rq_next r = Some b" "ic_reqs c b = Some nr"
      by (auto simp: comp_inv_def)
    have ab: "a \<noteq> b" "b \<notin> set bs" "a \<notin> set bs" using inv Cons by (auto simp: comp_inv_def)
    have nb: "ic_reqs c2 b = Some nr" using nr ab by (simp add: f2)
    have "list_all (action_in_bounds K) (rq_actions nr)"
      using inv Cons nr by (auto simp: comp_inv_def req_bounds_def)
    then obtain acts' w'' where ex: "execute_actions S K (rq_actions nr) w' = Inr (acts', w'')"
      "windows_ok w''" "list_all (action_in_bounds K) acts'"
      using execute_actions_undo[OF rv(2)] by blast
    let ?c' = "(set_req b (nr\<lparr>rq_actions := acts'\<rparr>) c2)\<lparr>ic_windows := w''\<rparr>"
    have "reject_req S K conn a r c = Inr ?c'"
      by (simp add: step nr nb deref_def execute_req_def f2(1) ex)
    moreover have "comp_inv K ?c' (a # as)"
      by (rule comp_inv_set_actions[OF inv2 nb ex(3,2)])
    moreover have "map (req_view (ic_reqs ?c')) as = (rq_id nr, acts') # map (req_view (ic_reqs c)) bs"
      using Cons ab by (auto simp: req_view_def f2)
    ultimately show ?thesis
      using rv ex f2(2) Cons
      by (simp add: abs_comp_eq[OF inv] spec_response_def req_view_def r nr)
  qed
qed

lemma handle_response_refines:
  assumes inv: "comp_inv K c as"
  shows "\<exists>go c' as' q w f. handle_response S K conn rs c = Inr (go, c') \<and> comp_inv K c' as'
     \<and> spec_response S K rs (abs_comp c) = Inr (go, (q, w), f)
     \<and> abs_comp c' = (q, w) \<and> ic_pending_sync c' = (ic_pending_sync c \<or> f)"
proof (cases as)
  case Nil
  hence "handle_response S K conn rs c = Inr (True, force_sync conn c)"
    using inv by (simp add: handle_response_def comp_inv_def)
  moreover have "comp_inv K (force_sync conn c) []" using inv Nil by simp
  ultimately show ?thesis using abs_comp_eq[OF inv] abs_comp_eq[of K "force_sync conn c" "[]"] Nil
    by (fastforce simp: spec_response_def)
next
  case (Cons a bs)
  then obtain r where r: "ic_reqs c a = Some r" "rq_prev r = None" and f: "ic_first c = Some a"
    using inv by (auto simp: comp_inv_def)
  have hr: "handle_response S K conn rs c =
      (if rs_id rs \<noteq> rq_id r then Inr (False, c)
       else bind_result
           (if rs_ok rs then bind_result (accept_req r) (\<lambda>r'. Inr (set_req a r' c))
            else reject_req S K conn a r c) (\<lambda>c.
              bind_result (drop_first c) (\<lambda>c'. Inr (True, c'))))"
    by (simp add: handle_response_eq f r deref_def)
  have view: "req_view (ic_reqs c) a = (rq_id r, rq_actions r)" by (simp add: req_view_def r)
  consider (other) "rs_id rs \<noteq> rq_id r" | (ok) "rs_id rs = rq_id r" "rs_ok rs"
    | (bad) "rs_id rs = rq_id r" "\<not> rs_ok rs" by blast
  thus ?thesis
  proof cases
    case other
    with inv hr Cons view show ?thesis
      by (simp add: abs_comp_eq[OF inv] spec_response_def) (metis abs_comp_eq[OF inv] list.simps(9))
  next
    case ok
    let ?c1 = "set_req a (r\<lparr>rq_actions := map close_action (rq_actions r)\<rparr>) c"
    have "list_all (action_in_bounds K) (map close_action (rq_actions r))"
      using inv r Cons by (auto simp: comp_inv_def req_bounds_def list_all_iff)
    moreover have "windows_ok (ic_windows c)" using inv by (simp add: comp_inv_def)
    ultimately have inv1: "comp_inv K ?c1 (a # bs)"
      using comp_inv_set_actions[OF inv r(1), of "map close_action (rq_actions r)" "ic_windows c"] Cons
      by (simp add: comp_inv_def)
    from drop_first_ok[OF inv1] obtain c' where c': "drop_first ?c1 = Inr c'" "comp_inv K c' bs"
      "ic_windows c' = ic_windows c" "ic_pending_sync c' = ic_pending_sync c"
      "map (req_view (ic_reqs c')) bs = map (req_view (ic_reqs ?c1)) bs" by auto
    have "map (req_view (ic_reqs ?c1)) bs = map (req_view (ic_reqs c)) bs"
      using inv Cons by (auto simp: comp_inv_def req_view_def)
    moreover have "handle_response S K conn rs c = Inr (True, c')"
      using hr ok r c' by (simp add: accept_req_def Let_def)
    ultimately show ?thesis using c' ok Cons view
      by (auto simp: abs_comp_eq[OF inv] abs_comp_eq[OF c'(2)] spec_response_def)
  next
    case bad
    from reject_req_refines[OF inv[unfolded Cons] r(1), of S conn] obtain c1 w f q where
      c1: "reject_req S K conn a r c = Inr c1" "comp_inv K c1 (a # bs)"
      "spec_response S K \<lparr>rs_id = rq_id r, rs_ok = False\<rparr> (abs_comp c) = Inr (True, (q, w), f)"
      "map (req_view (ic_reqs c1)) bs = q" "ic_windows c1 = w"
      "ic_pending_sync c1 = (ic_pending_sync c \<or> f)" by blast
    from drop_first_ok[OF c1(2)] obtain c' where c': "drop_first c1 = Inr c'" "comp_inv K c' bs"
      "ic_windows c' = ic_windows c1" "ic_pending_sync c' = ic_pending_sync c1"
      "map (req_view (ic_reqs c')) bs = map (req_view (ic_reqs c1)) bs" by blast
    have "rs = \<lparr>rs_id = rq_id r, rs_ok = False\<rparr>" using bad by simp
    hence "spec_response S K rs (abs_comp c) = Inr (True, (q, w), f)" using c1(3) by simp
    moreover have "handle_response S K conn rs c = Inr (True, c')"
      using hr bad c1(1) c'(1) by simp
    moreover have "abs_comp c' = (q, w)" using c' c1 by (simp add: abs_comp_eq[OF c'(2)])
    ultimately show ?thesis using c'(2,4) c1(6) by blast
  qed
qed

end
