(* ===== verification/InvProps.thy ===== *)
theory InvProps
  imports InvQueue
begin

text \<open>
  The properties of the predicted inventory that its clients rely on: building and running
  a request keeps the invariant, responses refine the queue, a request can be undone, and a
  transfer conserves the items.
\<close>

section \<open>Requests are built in bounds\<close>

definition tx_ok :: "proto_ids \<Rightarrow> 's inv_req \<Rightarrow> bool" where
  "tx_ok K tx \<longleftrightarrow> list_all (action_in_bounds K) (rq_actions tx) \<and> rq_prev tx = None \<and> rq_next tx = None"

definition builds :: "proto_ids \<Rightarrow> 's inv_req \<Rightarrow> 's inv_req result \<Rightarrow> bool" where
  "builds K tx r \<longleftrightarrow> (\<exists>tx'. r = Inr tx' \<and> tx_ok K tx' \<and> rq_id tx' = rq_id tx)"

lemma builds_Inr [simp]: "builds K tx (Inr tx') \<longleftrightarrow> tx_ok K tx' \<and> rq_id tx' = rq_id tx"
  by (simp add: builds_def)

lemma tx_ok_append: "tx_ok K (req_append a tx) = (tx_ok K tx \<and> action_in_bounds K a)"
  by (auto simp: tx_ok_def req_append_def)

lemma req_append_id [simp]: "rq_id (req_append a tx) = rq_id tx"
  by (simp add: req_append_def)

lemma window_size_bounds:
  assumes "windows_ok w" "get_window w k = Some i" "n < iv_size i"
  shows "int n < win_size k" "win_slot w k (int n) = Inr (read_cell w (k, phys k (int n)))"
proof -
  have "int (iv_size i) = win_size k" using shape_size[OF windows_okD[OF assms(1,2)]] .
  with assms(3) show "int n < win_size k" by linarith
  with assms show "win_slot w k (int n) = Inr (read_cell w (k, phys k (int n)))"
    by (intro win_slot_cell) auto
qed

lemma transfer_builds:
  assumes "windows_ok (ic_windows c)" "tx_ok K tx"
  shows "builds K tx (handle_transfer_request K c src dst n tx)"
  using assms
  by (auto simp: handle_transfer_request_def Let_def window_size_bounds tx_ok_append not_le
      new_transfer_action_def action_in_bounds_def slot_in_bounds_def split: option.splits)

lemma swap_builds:
  assumes "windows_ok (ic_windows c)" "tx_ok K tx"
  shows "builds K tx (handle_swap_request K c src dst tx)"
  using assms
  by (auto simp: handle_swap_request_def Let_def window_size_bounds tx_ok_append not_le
      new_swap_action_def action_in_bounds_def slot_in_bounds_def split: option.splits)

lemma destroy_builds:
  assumes "windows_ok (ic_windows c)" "tx_ok K tx"
  shows "builds K tx (handle_destroy_request K c src n d tx)"
  using assms
  by (auto simp: handle_destroy_request_def Let_def window_size_bounds tx_ok_append not_le
      new_destroy_action_def action_in_bounds_def slot_in_bounds_def split: option.splits)

lemma win_of_crafting [simp]:
  "win_of K (c_crafting_input K) = WUi" "win_of K (c_created_output K) = WUi"
  by (simp_all add: window_from_container_id_def)

lemma ui_slot: "windows_ok w \<Longrightarrow> n < 54 \<Longrightarrow> win_slot w WUi (int n) = Inr (read_cell w (WUi, n))"
  by (subst win_slot_cell) (auto simp: get_window_def win_size_def phys_def)

lemma find_craft_slot_ok:
  assumes "windows_ok w" "offset + n + length consumed \<le> 54"
  shows "\<exists>r. find_craft_slot S E w e crafts offset consumed n = Inr r
     \<and> (\<forall>m has. r = Some (m, has) \<longrightarrow> m < n + length consumed)"
  using assms
proof (induction consumed arbitrary: n)
  case (Cons used consumed)
  obtain r where r: "find_craft_slot S E w e crafts offset consumed (Suc n) = Inr r"
    "\<forall>m has. r = Some (m, has) \<longrightarrow> m < Suc n + length consumed"
    using Cons.IH[of "Suc n"] Cons.prems by auto
  have "win_slot w WUi (int (offset + n)) = Inr (read_cell w (WUi, offset + n))"
    using Cons.prems by (intro ui_slot) auto
  with r show ?case by (auto split: option.splits)
qed simp

lemma consume_inputs_ok:
  assumes "windows_ok w" "offset + length consumed \<le> 54" "tx_ok K tx"
  shows "\<exists>b tx'. consume_inputs S K E w crafts offset es consumed allowed tx = Inr (b, tx')
     \<and> tx_ok K tx' \<and> rq_id tx' = rq_id tx"
  using assms
proof (induction es arbitrary: consumed allowed tx)
  case (Cons e es)
  show ?case
  proof (cases e)
    case None
    with Cons show ?thesis by simp
  next
    case (Some d)
    obtain r where r: "find_craft_slot S E w d crafts offset consumed 0 = Inr r"
      "\<forall>m has. r = Some (m, has) \<longrightarrow> m < length consumed"
      using find_craft_slot_ok[of w offset 0 consumed S E d crafts] Cons.prems(1,2) by auto
    show ?thesis
    proof (cases r)
      case None
      with Some r Cons show ?thesis by simp
    next
      case (Some mh)
      obtain m has where mh: "mh = (m, has)" by fastforce
      let ?a = "new_destroy_action has (ce_r_count E d * crafts) (int (offset + m)) (c_crafting_input K) False"
      have "action_in_bounds K ?a"
        using r Some mh Cons.prems
        by (simp add: new_destroy_action_def action_in_bounds_def slot_in_bounds_def win_size_def)
      hence "tx_ok K (req_append ?a tx)" using Cons.prems by (simp add: tx_ok_append)
      with Cons.IH[of "consumed[m := True]" "req_append ?a tx" allowed]
        Cons.IH[of consumed tx allowed] Cons.prems \<open>e = Some d\<close> Some mh r
      show ?thesis by auto
    qed
  qed
qed simp

lemma append_creates_ok: "tx_ok K tx \<Longrightarrow> tx_ok K (append_creates S K outs tx)
    \<and> rq_id (append_creates S K outs tx) = rq_id tx"
proof (induction outs arbitrary: tx)
  case (Cons out outs)
  have "tx_ok K (req_append (new_create_action S created_output_slot (c_created_output K) out) tx)"
    using Cons.prems by (simp add: tx_ok_append new_create_action_def action_in_bounds_def
        slot_in_bounds_def win_size_def created_output_slot_def)
  from Cons.IH[OF this] show ?case by (simp add: append_creates_def)
qed (simp add: append_creates_def)

lemma craft_builds:
  assumes "windows_ok (ic_windows c)" "tx_ok K tx"
  shows "builds K tx (handle_craft_stack_request S K E i crafts c tx)"
proof -
  have "builds K tx (handle_craft_recipe S K E recp crafts c tx)" for recp
  proof (cases "re_block recp \<noteq> ''crafting_table'' \<or> crafts < 1")
    case True
    with assms show ?thesis by (auto simp: handle_craft_recipe_def Let_def)
  next
    case False
    define size_off :: "nat \<times> nat" where
      "size_off = (if alt_window (ic_windows c) \<noteq> None then (9, 32) else (4, 28))"
    have "snd size_off + length (replicate (fst size_off) False) \<le> 54" by (simp add: size_off_def)
    from consume_inputs_ok[OF assms(1) this assms(2), of S E crafts "map (recipe_item E) (re_input recp)" True]
    obtain b tx' where "consume_inputs S K E (ic_windows c) crafts (snd size_off)
        (map (recipe_item E) (re_input recp)) (replicate (fst size_off) False) True tx = Inr (b, tx')"
      "tx_ok K tx'" "rq_id tx' = rq_id tx" by blast
    with False append_creates_ok[of K tx' S "ce_repeat E (map (ce_stack_to_item E) (re_output recp)) crafts"]
    show ?thesis
      by (cases "alt_window (ic_windows c)") (auto simp: handle_craft_recipe_def Let_def size_off_def)
  qed
  with assms show ?thesis
    by (auto simp: handle_craft_stack_request_def split: option.splits any_recipe.splits)
qed

lemma creative_builds: "tx_ok K tx \<Longrightarrow> tx_ok K (handle_creative_craft S K E i tx)
    \<and> rq_id (handle_creative_craft S K E i tx) = rq_id tx"
  by (auto simp: handle_creative_craft_def tx_ok_append new_create_action_def action_in_bounds_def
      slot_in_bounds_def win_size_def created_output_slot_def split: option.splits)

lemma req_action_builds:
  assumes "windows_ok (ic_windows c)" "tx_ok K tx"
  shows "builds K tx (handle_req_action S K E c a tx)"
  using transfer_builds[OF assms] swap_builds[OF assms] destroy_builds[OF assms] craft_builds[OF assms]
    creative_builds[OF assms(2)] assms(2)
  by (cases a) (simp_all add: handle_req_action_def tx_ok_append action_in_bounds_def)

lemma req_actions_build:
  assumes "windows_ok (ic_windows c)" "tx_ok K tx"
  shows "builds K tx (handle_req_actions S K E c as tx)"
  using assms(2)
proof (induction as arbitrary: tx)
  case (Cons a as)
  obtain tx' where "handle_req_action S K E c a tx = Inr tx'" "tx_ok K tx'" "rq_id tx' = rq_id tx"
    using req_action_builds[OF assms(1) Cons.prems, of S E a] by (auto simp: builds_def)
  with Cons.IH[of tx'] show ?case by (simp add: builds_def)
qed simp

section \<open>A new request enters at the end of the queue\<close>

lemma single_request_ok:
  assumes inv: "comp_inv K c as"
  shows "\<exists>c' as'. handle_single_request S K E i acts c = Inr c' \<and> comp_inv K c' as'
     \<and> (fst (abs_comp c') = fst (abs_comp c) \<and> c' = c
        \<or> (\<exists>acts'. acts' \<noteq> [] \<and> fst (abs_comp c') = fst (abs_comp c) @ [(i, acts')]))"
proof -
  have wok: "windows_ok (ic_windows c)" using inv by (simp add: comp_inv_def)
  have "tx_ok K (new_inv_request i)" by (simp add: tx_ok_def new_inv_request_def)
  from req_actions_build[OF wok this, of S E acts] obtain tx where
    tx: "handle_req_actions S K E c acts (new_inv_request i) = Inr tx" "tx_ok K tx" "rq_id tx = i"
    by (auto simp: builds_def new_inv_request_def)
  show ?thesis
  proof (cases "rq_actions tx = []")
    case True
    with tx inv show ?thesis by (auto simp: handle_single_request_def)
  next
    case False
    from tx(2) have "list_all (action_in_bounds K) (rq_actions tx)" by (simp add: tx_ok_def)
    then obtain acts' w' where ex: "execute_actions S K (rq_actions tx) (ic_windows c) = Inr (acts', w')"
      "windows_ok w'" "list_all (action_in_bounds K) acts'" "length acts' = length (rq_actions tx)"
      using execute_actions_undo[OF wok] by blast
    define tx' where "tx' = tx\<lparr>rq_actions := acts'\<rparr>"
    have tx': "rq_prev tx' = None" "rq_next tx' = None" "rq_id tx' = i" "rq_actions tx' = acts'"
      using tx by (simp_all add: tx'_def tx_ok_def)
    have ne: "acts' \<noteq> []" using ex(4) False by auto
    let ?t = "ic_next c"
    have fresh: "?t \<notin> set as" using inv by (auto simp: comp_inv_def)
    show ?thesis
    proof (cases as rule: rev_cases)
      case Nil
      define c' where "c' = (set_req ?t tx' (c\<lparr>ic_windows := w', ic_next := Suc ?t\<rparr>))
          \<lparr>ic_first := Some ?t, ic_current := Some ?t\<rparr>"
      have eq: "handle_single_request S K E i acts c = Inr c'"
        using Nil inv tx False ex
        by (simp add: handle_single_request_def execute_req_def comp_inv_def c'_def tx'_def Let_def)
      have inv': "comp_inv K c' [?t]"
        using inv ex tx' by (auto simp: comp_inv_def req_bounds_def c'_def)
      have "fst (abs_comp c') = fst (abs_comp c) @ [(i, acts')]"
        unfolding abs_comp_eq[OF inv'] abs_comp_eq[OF inv]
        using Nil tx' by (simp add: req_view_def c'_def)
      with eq inv' ne show ?thesis by blast
    next
      case (snoc bs l)
      then obtain lr where lr: "ic_reqs c l = Some lr"
        using inv linked_heap[of "ic_reqs c" None as l] by (auto simp: comp_inv_def)
      obtain fa where cur: "ic_current c = Some l" "ic_first c = Some fa"
        using inv snoc by (auto simp: comp_inv_def split: list.splits)
      have lt: "l \<noteq> ?t" using fresh snoc by auto
      define tx'' where "tx'' = tx'\<lparr>rq_prev := Some l\<rparr>"
      define h where "h = (ic_reqs c)(l \<mapsto> lr\<lparr>rq_next := Some ?t\<rparr>, ?t \<mapsto> tx'')"
      define c' where "c' = c\<lparr>ic_windows := w', ic_next := Suc ?t, ic_reqs := h, ic_current := Some ?t\<rparr>"
      have eq: "handle_single_request S K E i acts c = Inr c'"
        using snoc cur tx False ex lr lt
        by (simp add: handle_single_request_def execute_req_def c'_def h_def tx''_def tx'_def
            Let_def deref_def set_req_def)
      have "linked h None ((bs @ [l]) @ [?t])"
        by (rule linked_snoc[OF _ lr _ _ _ _ h_def])
          (use inv snoc fresh tx' in \<open>auto simp: comp_inv_def tx''_def\<close>)
      moreover have "req_bounds K h (as @ [?t])"
        using inv ex tx' lr lt snoc by (auto simp: comp_inv_def req_bounds_def h_def tx''_def)
      moreover have "distinct (as @ [?t])" "\<forall>a \<in> set (as @ [?t]). a < Suc ?t"
        using inv fresh by (auto simp: comp_inv_def)
      moreover have "ic_first c = (case as @ [?t] of [] \<Rightarrow> None | a # _ \<Rightarrow> Some a)"
        using inv snoc by (cases bs) (auto simp: comp_inv_def)
      ultimately have inv': "comp_inv K c' (as @ [?t])"
        using inv ex(2) snoc unfolding comp_inv_def c'_def by simp
      have "map (req_view h) as = map (req_view (ic_reqs c)) as"
        using fresh lr by (auto simp: req_view_def h_def)
      hence "fst (abs_comp c') = fst (abs_comp c) @ [(i, acts')]"
        unfolding abs_comp_eq[OF inv'] abs_comp_eq[OF inv]
        using tx' by (simp add: c'_def) (simp add: req_view_def h_def tx''_def)
      with eq inv' ne show ?thesis by blast
    qed
  qed
qed


section \<open>Runs of the component\<close>

datatype inv_event
  = EvRequest int "req_action list"
  | EvResponses "response list"
  | EvOpenWindow int int
  | EvCloseWindow int
  | EvHeldSlot int
  | EvForceSync

definition inv_event_step ::
  "'s stack_ops \<Rightarrow> proto_ids \<Rightarrow> ('s, 'r, 'p) craft_env \<Rightarrow> bool \<Rightarrow> inv_event \<Rightarrow> 's inv_comp \<Rightarrow> 's inv_comp result" where
  "inv_event_step S K E conn ev c = (case ev of
      EvRequest i acts \<Rightarrow> handle_single_request S K E i acts c
    | EvResponses rss \<Rightarrow> handle_item_stack_response S K conn rss c
    | EvOpenWindow wid ty \<Rightarrow> Inr (create_window S K wid ty c)
    | EvCloseWindow wid \<Rightarrow> Inr (remove_window wid c)
    | EvHeldSlot n \<Rightarrow> Inr (set_held_slot n c)
    | EvForceSync \<Rightarrow> Inr (force_sync conn c))"

fun inv_run ::
  "'s stack_ops \<Rightarrow> proto_ids \<Rightarrow> ('s, 'r, 'p) craft_env \<Rightarrow> bool \<Rightarrow> inv_event list \<Rightarrow> 's inv_comp \<Rightarrow> 's inv_comp result" where
  "inv_run S K E conn [] c = Inr c"
| "inv_run S K E conn (ev # evs) c = bind_result (inv_event_step S K E conn ev c) (inv_run S K E conn evs)"

lemma windows_ok_alt: "windows_ok w \<Longrightarrow> windows_ok (w\<lparr>alt_window := None\<rparr>)"
  "windows_ok w \<Longrightarrow> windows_ok (w\<lparr>alt_window := Some (new_inventory S alt_window_size)\<rparr>)"
  by (auto simp: windows_ok_def get_window_def window_shape_def new_inventory_def inventory_wf_def)

lemma responses_ok:
  "comp_inv K c as \<Longrightarrow> \<exists>c' as'. handle_item_stack_response S K conn rss c = Inr c' \<and> comp_inv K c' as'"
proof (induction rss arbitrary: c as)
  case (Cons rs rss)
  from handle_response_refines[OF Cons.prems, of S conn rs] obtain go c' as'
    where "handle_response S K conn rs c = Inr (go, c')" "comp_inv K c' as'" by blast
  with Cons.IH[of c' as'] show ?case by auto
qed auto

lemma inv_event_ok:
  assumes "comp_inv K c as"
  shows "\<exists>c' as'. inv_event_step S K E conn ev c = Inr c' \<and> comp_inv K c' as'"
proof (cases ev)
  case (EvRequest i acts)
  with single_request_ok[OF assms, of S E i acts] show ?thesis by (auto simp: inv_event_step_def)
next
  case (EvResponses rss)
  with responses_ok[OF assms] show ?thesis by (simp add: inv_event_step_def)
next
  case (EvOpenWindow wid ty)
  have "comp_inv K (create_window S K wid ty c) as"
    using assms windows_ok_alt(2) by (auto simp: create_window_def comp_inv_def)
  with EvOpenWindow show ?thesis by (auto simp: inv_event_step_def)
next
  case (EvCloseWindow wid)
  have "comp_inv K (remove_window wid c) as"
    using assms windows_ok_alt(1) by (auto simp: remove_window_def comp_inv_def)
  with EvCloseWindow show ?thesis by (auto simp: inv_event_step_def)
next
  case (EvHeldSlot n)
  have "comp_inv K (set_held_slot n c) as"
    using assms by (auto simp: set_held_slot_def comp_inv_def)
  with EvHeldSlot show ?thesis by (auto simp: inv_event_step_def)
next
  case EvForceSync
  with assms show ?thesis by (auto simp: inv_event_step_def)
qed

lemma inv_run_ok:
  "comp_inv K c as \<Longrightarrow> \<exists>c'. inv_run S K E conn evs c = Inr c' \<and> inv_comp_ok K c'"
proof (induction evs arbitrary: c as)
  case Nil
  thus ?case by (simp add: inv_comp_okI)
next
  case (Cons ev evs)
  from inv_event_ok[OF Cons.prems] obtain c' as'
    where "inv_event_step S K E conn ev c = Inr c'" "comp_inv K c' as'" by blast
  with Cons.IH show ?case by auto
qed

section \<open>A concrete instance\<close>

text \<open>Stacks that are their counts, and identifiers that do not collide.\<close>
definition count_stacks :: "int stack_ops" where
  "count_stacks = \<lparr>st_zero = 0, st_count = (\<lambda>s. max 0 s), st_empty = (\<lambda>s. s \<le> 0),
     st_grow = (\<lambda>n s. max 0 (max 0 s + n))\<rparr>"

definition sample_ids :: proto_ids where
  "sample_ids = \<lparr>c_crafting_input = 13, c_created_output = 60, c_cursor = 59, c_hotbar = 28,
     c_inventory = 29, c_combined = 12, c_offhand = 34, c_armor = 6,
     w_armour = 120, w_inventory = 0, w_offhand = 119, w_ui = 124\<rparr>"

definition sample_craft_env :: "(int, int, int) craft_env" where
  "sample_craft_env = \<lparr>ce_creative_mode = True, ce_creative_item = (\<lambda>i. Some (int i)),
     ce_recipe = (\<lambda>_. None), ce_item_by_name = (\<lambda>_ _ n. Some (int n)), ce_item_tag = (\<lambda>_ n. int n),
     ce_stack_to_item = id, ce_r_empty = (\<lambda>r. r \<le> 0), ce_r_count = id,
     ce_matching = (\<lambda>_ _. True), ce_repeat = (\<lambda>xs _. xs)\<rparr>"

lemma count_stacks_laws: "stack_laws count_stacks"
  by (auto simp: stack_laws_def count_stacks_def)

section \<open>Properties\<close>


text \<open>A request is handled without failure and refines an enqueue: either it has no action
  and the component is unchanged, or it becomes the last pending request, behind all others,
  which stay as they are.\<close>
theorem request_enqueues:
  assumes "inv_comp_ok K c"
  shows "\<exists>c'. handle_single_request S K E i acts c = Inr c' \<and> inv_comp_ok K c'
     \<and> (c' = c \<or> (\<exists>acts'. acts' \<noteq> [] \<and> fst (abs_comp c') = fst (abs_comp c) @ [(i, acts')]))"
proof -
  from single_request_ok[OF assms[unfolded inv_comp_ok_def], of S E i acts]
  show ?thesis by (blast intro: inv_comp_okI)
qed

theorem request_enqueues_witness:
  "\<exists>c'. handle_single_request count_stacks sample_ids sample_craft_env 7 [CraftCreativeA 5, ConsumeA]
         (new_inventory_component count_stacks) = Inr c' \<and> inv_comp_ok sample_ids c'"
  using request_enqueues[OF inv_comp_ok_new[of sample_ids count_stacks],
      of count_stacks sample_craft_env 7 "[CraftCreativeA 5, ConsumeA]"] by blast

text \<open>C7: The handling of one response on the doubly linked list refines the queue: whatever the
  response, the component does not fail, and its pending requests and windows afterwards are
  those the abstract queue gives, in particular a response for another request than the oldest
  changes nothing, and the oldest request leaves the list when it is answered.\<close>
theorem response_refines_queue:
  assumes "inv_comp_ok K c"
  shows "\<exists>go c' f. handle_response S K conn rs c = Inr (go, c') \<and> inv_comp_ok K c'
     \<and> spec_response S K rs (abs_comp c) = Inr (go, abs_comp c', f)
     \<and> ic_pending_sync c' = (ic_pending_sync c \<or> f)"
proof -
  from handle_response_refines[OF assms[unfolded inv_comp_ok_def], of S conn rs] obtain go c' as' q w f
    where "handle_response S K conn rs c = Inr (go, c')" "comp_inv K c' as'"
      "spec_response S K rs (abs_comp c) = Inr (go, (q, w), f)" "abs_comp c' = (q, w)"
      "ic_pending_sync c' = (ic_pending_sync c \<or> f)" by blast
  thus ?thesis by (metis inv_comp_okI)
qed

theorem response_refines_queue_witness:
  "\<exists>go c' f. handle_response count_stacks sample_ids True \<lparr>rs_id = 3, rs_ok = True\<rparr>
       (new_inventory_component count_stacks) = Inr (go, c') \<and> inv_comp_ok sample_ids c'
     \<and> spec_response count_stacks sample_ids \<lparr>rs_id = 3, rs_ok = True\<rparr>
         (abs_comp (new_inventory_component count_stacks)) = Inr (go, abs_comp c', f)"
  using response_refines_queue[OF inv_comp_ok_new[of sample_ids count_stacks],
      of count_stacks True "\<lparr>rs_id = 3, rs_ok = True\<rparr>"] by blast

text \<open>C18: Rejection undoes a request: when the actions of a request are executed in order and then
  reverted in the reverse order, as \<^verbatim>\<open>reject\<close> does, the windows are exactly what they were
  before, also when actions of the request touched the same slots.\<close>
theorem reject_undoes_execution:
  assumes "windows_ok w" "list_all (action_in_bounds K) acts"
  shows "\<exists>acts' w' f. execute_actions S K acts w = Inr (acts', w')
     \<and> revert_actions K (rev acts') w' = Inr (map close_action (rev acts'), w, f)"
proof -
  from execute_actions_undo[OF assms, of S] obtain acts' w' bs f where
    u: "execute_actions S K acts w = Inr (acts', w')" "windows_ok w'"
      "list_all (action_in_bounds K) acts'" "revert_actions K (rev acts') w' = Inr (bs, w, f)"
    by blast
  moreover have "bs = map close_action (rev acts')"
    using revert_actions_ok[OF u(2), of K "rev acts'"] u(3,4) by auto
  ultimately show ?thesis by blast
qed

theorem reject_undoes_execution_witness:
  "\<exists>acts' w' f. execute_actions count_stacks sample_ids
       [new_create_action count_stacks 50 60 9, new_transfer_action 4 60 50 0 12 3 0]
       (new_windows count_stacks) = Inr (acts', w')
     \<and> revert_actions sample_ids (rev acts') w'
         = Inr (map close_action (rev acts'), new_windows count_stacks, f)"
  by (rule reject_undoes_execution[OF windows_ok_new])
    (simp add: action_in_bounds_def slot_in_bounds_def new_create_action_def new_transfer_action_def
      window_from_container_id_def sample_ids_def win_size_def)

text \<open>C26: A transfer between two different slots conserves the number of items: the counts of the
  two slots have the same sum afterwards, no other slot changes, and no count is negative.\<close>
theorem transfer_conserves_items:
  assumes "stack_laws S" "windows_ok w" "action_in_bounds K (TransferA a)" "0 \<le> ta_count a"
    and "get_window w (win_of K (ta_src_inv a)) \<noteq> None"
    and "get_window w (win_of K (ta_dst_inv a)) \<noteq> None"
    and "cell_of K (ta_src_inv a) (ta_src_slot a) \<noteq> cell_of K (ta_dst_inv a) (ta_dst_slot a)"
    and "st_count S (read_cell w (cell_of K (ta_src_inv a) (ta_src_slot a))) \<le> max_int32"
  shows "\<exists>a' w'. execute_transfer S K a w = Inr (a', w')
     \<and> st_count S (read_cell w' (cell_of K (ta_src_inv a) (ta_src_slot a)))
       + st_count S (read_cell w' (cell_of K (ta_dst_inv a) (ta_dst_slot a)))
       = st_count S (read_cell w (cell_of K (ta_src_inv a) (ta_src_slot a)))
       + st_count S (read_cell w (cell_of K (ta_dst_inv a) (ta_dst_slot a)))
     \<and> (\<forall>k. k \<noteq> cell_of K (ta_src_inv a) (ta_src_slot a)
          \<longrightarrow> k \<noteq> cell_of K (ta_dst_inv a) (ta_dst_slot a) \<longrightarrow> read_cell w' k = read_cell w k)"
proof (cases "ta_open a")
  case True
  define sc where "sc = cell_of K (ta_src_inv a) (ta_src_slot a)"
  define dc where "dc = cell_of K (ta_dst_inv a) (ta_dst_slot a)"
  have b: "slot_in_bounds K (ta_src_inv a) (ta_src_slot a)"
    "slot_in_bounds K (ta_dst_inv a) (ta_dst_slot a)"
    using assms(3) by (simp_all add: action_in_bounds_def)
  have cs: "has_cell w sc" "has_cell w dc" "sc \<noteq> dc"
    using assms b by (auto simp: sc_def dc_def slot_in_bounds_def intro!: win_slot_cell(3))
  note ex = execute_transfer_cells[OF assms(2) b True assms(5,6) sc_def dc_def refl refl, of S]
  have grow: "st_count S (st_grow S n s) = max 0 (st_count S s + n)"
    "st_empty S s \<longleftrightarrow> st_count S s = 0" "0 \<le> st_count S s" for n s
    using assms(1) by (simp_all add: stack_laws_def)
  show ?thesis
    unfolding ex sc_def[symmetric] dc_def[symmetric]
    using cs assms(4,8)
    by (auto simp: cells.read_write cells.has_write grow sc_def[symmetric])
next
  case False
  thus ?thesis by (simp add: execute_transfer_def)
qed

theorem transfer_conserves_items_witness:
  "\<exists>a' w'. execute_transfer count_stacks sample_ids
       \<lparr>ta_open = True, ta_count = 4, ta_src_inv = 12, ta_src_slot = 0, ta_dst_inv = 34,
        ta_dst_slot = 0, ta_old_src = 0, ta_old_dst = 0\<rparr>
       (write_cell (WInventory, 0) 9 (new_windows count_stacks)) = Inr (a', w')
     \<and> st_count count_stacks (read_cell w' (WInventory, 0)) + st_count count_stacks (read_cell w' (WOffhand, 0)) = 9"
proof -
  let ?w = "write_cell (WInventory, 0) 9 (new_windows count_stacks)"
  have cnt: "read_cell ?w (WInventory, 0) = 9" "read_cell ?w (WOffhand, 0) = 0"
    by (simp_all add: read_cell_def write_cell_def get_window_def put_window_def new_windows_def
        new_inventory_def set_special_slot_def count_stacks_def)
  have "get_window ?w k \<noteq> None" if "k \<noteq> WAlt" for k
    using that by (cases k) (simp_all add: new_windows_def get_window_def)
  with transfer_conserves_items[OF count_stacks_laws, of ?w sample_ids
      "\<lparr>ta_open = True, ta_count = 4, ta_src_inv = 12, ta_src_slot = 0, ta_dst_inv = 34,
        ta_dst_slot = 0, ta_old_src = 0, ta_old_dst = 0\<rparr>"]
  show ?thesis
    using cnt windows_ok_write[OF windows_ok_new[of count_stacks], of "(WInventory, 0)" 9]
    by (simp add: window_from_container_id_def sample_ids_def phys_def action_in_bounds_def
        slot_in_bounds_def win_size_def count_stacks_def) blast
qed

section \<open>What the code does on two corner cases\<close>

text \<open>A transfer from a slot to itself adds the items without taking them.\<close>
theorem transfer_to_same_slot_duplicates:
  assumes "stack_laws S" "windows_ok w" "action_in_bounds K (TransferA a)" "ta_open a"
    and "get_window w (win_of K (ta_src_inv a)) \<noteq> None"
    and "ta_dst_inv a = ta_src_inv a" "ta_dst_slot a = ta_src_slot a"
    and "0 < ta_count a"
    and "ta_count a \<le> st_count S (read_cell w (cell_of K (ta_src_inv a) (ta_src_slot a)))"
  shows "\<exists>a' w'. execute_transfer S K a w = Inr (a', w')
     \<and> st_count S (read_cell w' (cell_of K (ta_src_inv a) (ta_src_slot a)))
       = st_count S (read_cell w (cell_of K (ta_src_inv a) (ta_src_slot a))) + ta_count a"
proof -
  define sc where "sc = cell_of K (ta_src_inv a) (ta_src_slot a)"
  have b: "slot_in_bounds K (ta_src_inv a) (ta_src_slot a)"
    using assms(3) by (simp add: action_in_bounds_def)
  have cs: "has_cell w sc"
    using assms b by (auto simp: sc_def slot_in_bounds_def intro!: win_slot_cell(3))
  have dc: "sc = cell_of K (ta_dst_inv a) (ta_dst_slot a)" using assms(6,7) by (simp add: sc_def)
  note ex = execute_transfer_cells[OF assms(2) b _ assms(4,5) _ sc_def dc refl refl, of S]
  have grow: "st_count S (st_grow S n s) = max 0 (st_count S s + n)"
    "st_empty S s \<longleftrightarrow> st_count S s = 0" for n s
    using assms(1) by (simp_all add: stack_laws_def)
  show ?thesis
    using ex b assms(5-9) cs
    by (auto simp: cells.write_write cells.read_write grow sc_def[symmetric])
qed


text \<open>
  A rejected request makes the request behind it run again on slots that still hold its
  first effect: one drop of an item behind an unrelated rejected drop takes two items.
\<close>
definition two_stacks :: "int inv_comp" where
  "two_stacks = (new_inventory_component count_stacks)
     \<lparr>ic_windows := write_cell (WInventory, 1) 9 (write_cell (WInventory, 0) 9 (new_windows count_stacks))\<rparr>"

theorem rejection_runs_next_request_twice:
  "map_sum id (\<lambda>c. (read_cell (ic_windows c) (WInventory, 0), read_cell (ic_windows c) (WInventory, 1)))
     (inv_run count_stacks sample_ids sample_craft_env True
        [EvRequest 1 [DropReqA \<lparr>si_container = 12, si_slot = 0\<rparr> 1],
         EvRequest 2 [DropReqA \<lparr>si_container = 12, si_slot = 1\<rparr> 1],
         EvResponses [\<lparr>rs_id = 1, rs_ok = False\<rparr>, \<lparr>rs_id = 2, rs_ok = True\<rparr>]] two_stacks)
   = Inr (9, 7)"
  by code_simp

end
