(* ===== verification/BlockNetwork.thy ===== *)
theory BlockNetwork
  imports Prelude
begin

text \<open>
  Block identifiers on the network: \<^verbatim>\<open>src/world/blocknetwork/codec.go\<close>,
  \<^verbatim>\<open>mode.go\<close>, and the conversions of \<^verbatim>\<open>src/player/world.go\<close>.  The block
  registry is the library's: a record of its three lookups.
\<close>

datatype mode = RuntimeIDs | Hashes

definition mode_from_hashes :: "bool \<Rightarrow> mode" where
  "mode_from_hashes enabled = (if enabled then Hashes else RuntimeIDs)"

record registry =
  hash_to_runtime_id :: "32 word \<Rightarrow> 32 word option"
  runtime_id_to_hash :: "32 word \<Rightarrow> 32 word option"
  runtime_id_known :: "32 word \<Rightarrow> bool"

record codec =
  cd_registry :: registry
  cd_mode :: mode

definition new_codec :: "registry option \<Rightarrow> mode \<Rightarrow> codec result" where
  "new_codec r m = (case r of
      None \<Rightarrow> Inl (Panic ''blocknetwork: nil block registry'')
    | Some r \<Rightarrow> Inr \<lparr>cd_registry = r, cd_mode = m\<rparr>)"

text \<open>The pair of an identifier and a found flag is \<^verbatim>\<open>None\<close> when it is not found.\<close>
definition to_runtime_id :: "codec \<Rightarrow> 32 word \<Rightarrow> 32 word option" where
  "to_runtime_id c network_id =
    (if cd_mode c = Hashes then hash_to_runtime_id (cd_registry c) network_id
     else if runtime_id_known (cd_registry c) network_id then Some network_id else None)"

definition from_runtime_id :: "codec \<Rightarrow> 32 word \<Rightarrow> 32 word option" where
  "from_runtime_id c runtime_id =
    (if cd_mode c = Hashes then runtime_id_to_hash (cd_registry c) runtime_id
     else if runtime_id_known (cd_registry c) runtime_id then Some runtime_id else None)"

record translator =
  tl_source :: codec
  tl_target :: codec

definition new_translator :: "codec \<Rightarrow> codec \<Rightarrow> translator" where
  "new_translator source target = \<lparr>tl_source = source, tl_target = target\<rparr>"

definition translator_required :: "translator \<Rightarrow> bool" where
  "translator_required t \<longleftrightarrow> cd_mode (tl_source t) \<noteq> cd_mode (tl_target t)"

definition translate :: "translator \<Rightarrow> 32 word \<Rightarrow> 32 word" where
  "translate t network_id =
    (if \<not> translator_required t then network_id
     else case to_runtime_id (tl_source t) network_id of
            None \<Rightarrow> network_id
          | Some runtime_id \<Rightarrow>
              (case from_runtime_id (tl_target t) runtime_id of
                 None \<Rightarrow> network_id
               | Some translated \<Rightarrow> translated))"

definition block_runtime_id_from_network :: "codec \<Rightarrow> 32 word \<Rightarrow> 32 word" where
  "block_runtime_id_from_network c i = (case to_runtime_id c i of Some r \<Rightarrow> r | None \<Rightarrow> i)"

definition block_runtime_id_to_network :: "codec \<Rightarrow> 32 word \<Rightarrow> 32 word" where
  "block_runtime_id_to_network c i = (case from_runtime_id c i of Some r \<Rightarrow> r | None \<Rightarrow> i)"

text \<open>
  What the registry promises: the two hash lookups are inverse to each other, and the
  runtime identifiers that have a hash are the known ones.
\<close>
definition registry_laws :: "registry \<Rightarrow> bool" where
  "registry_laws r \<longleftrightarrow>
     (\<forall>i h. hash_to_runtime_id r h = Some i \<longleftrightarrow> runtime_id_to_hash r i = Some h) \<and>
     (\<forall>i. runtime_id_known r i = (runtime_id_to_hash r i \<noteq> None))"

lemma from_to_runtime_id:
  "registry_laws (cd_registry c) \<Longrightarrow> to_runtime_id c n = Some i \<longleftrightarrow> from_runtime_id c i = Some n"
  by (auto simp: registry_laws_def to_runtime_id_def from_runtime_id_def split: if_splits)

lemma translate_there_and_back:
  assumes "registry_laws (cd_registry a)" "cd_registry b = cd_registry a"
    and "to_runtime_id a n = Some i"
  shows "translate (new_translator b a) (translate (new_translator a b) n) = n"
proof (cases "cd_mode a = cd_mode b")
  case True
  thus ?thesis by (simp add: translate_def new_translator_def translator_required_def)
next
  case False
  have known: "runtime_id_known (cd_registry a) i" "\<exists>h. runtime_id_to_hash (cd_registry a) i = Some h"
    using assms(1,3)
    by (auto simp: registry_laws_def to_runtime_id_def split: if_splits)
  hence "from_runtime_id b i \<noteq> None" using assms(2) by (auto simp: from_runtime_id_def)
  then obtain m where m: "from_runtime_id b i = Some m" by blast
  hence "to_runtime_id b m = Some i" "from_runtime_id a i = Some n"
    using from_to_runtime_id[of b m i] from_to_runtime_id[of a n i] assms by auto
  with m assms(3) False show ?thesis
    by (simp add: translate_def new_translator_def translator_required_def)
qed

text \<open>A small registry that keeps the laws, with one hash above the signed range.\<close>
definition sample_registry :: registry where
  "sample_registry = \<lparr>
     hash_to_runtime_id = [0x80000000 \<mapsto> 1, 8 \<mapsto> 2],
     runtime_id_to_hash = [1 \<mapsto> 0x80000000, 2 \<mapsto> 8],
     runtime_id_known = (\<lambda>i. i = 1 \<or> i = 2)\<rparr>"

lemma sample_registry_laws: "registry_laws sample_registry"
proof -
  have "(i = 1 \<longrightarrow> i \<noteq> 2) \<and> (h = 0x80000000 \<longrightarrow> h \<noteq> 8)" for i h :: "32 word" by auto
  thus ?thesis
    unfolding registry_laws_def sample_registry_def registry.select_convs
    by (auto split: if_split_asm)
qed

text \<open>Between endpoints that share a registry with inverse lookups, translating a known block
  identifier to the other endpoint's representation and back gives the identifier back,
  whichever representations the two endpoints use.\<close>
theorem translate_round_trip:
  assumes "registry_laws (cd_registry a)" "cd_registry b = cd_registry a"
    and "to_runtime_id a n \<noteq> None"
  shows "translate (new_translator b a) (translate (new_translator a b) n) = n"
  using translate_there_and_back[OF assms(1,2)] assms(3) by blast

theorem translate_round_trip_witness:
  "translate (new_translator \<lparr>cd_registry = sample_registry, cd_mode = RuntimeIDs\<rparr>
                             \<lparr>cd_registry = sample_registry, cd_mode = Hashes\<rparr>)
     (translate (new_translator \<lparr>cd_registry = sample_registry, cd_mode = Hashes\<rparr>
                                \<lparr>cd_registry = sample_registry, cd_mode = RuntimeIDs\<rparr>) 0x80000000)
   = 0x80000000"
  by (rule translate_round_trip)
    (simp add: sample_registry_laws, simp, simp add: to_runtime_id_def sample_registry_def)

end
