(* ===== verification/WorldCache.thy ===== *)
theory WorldCache
  imports BlockNetwork
begin

text \<open>
  The process-wide chunk caches of \<^verbatim>\<open>src/world/cache.go\<close>: entries shared by all
  sessions and counted, keyed by the hash of the payload and the block mode.

  Chunks are mutable objects shared by pointer, so they live in a store by address.  The
  functions of the chunk library (decoding, encoding, hashing, block access) are the record
  \<^verbatim>\<open>chunk_ops\<close>; a chunk is a value of \<^verbatim>\<open>'c\<close>, a sub-chunk of \<^verbatim>\<open>'sc\<close>, a hash
  of \<^verbatim>\<open>'h\<close>, a dimension of \<^verbatim>\<open>'d\<close>, a block of \<^verbatim>\<open>'b\<close>.
\<close>

type_synonym bytes = "8 word list"

record ('h, 'c, 'sc, 'd, 'b) chunk_ops =
  co_hash :: "bytes \<Rightarrow> mode \<Rightarrow> 'h"
  co_dimension :: "int \<Rightarrow> 'd option"
  co_overworld :: 'd
  co_decode :: "bytes \<Rightarrow> int \<Rightarrow> 'd \<Rightarrow> string + 'c"
  co_decode_buffer :: "bytes \<Rightarrow> int \<Rightarrow> 'd \<Rightarrow> string + ('c \<times> bytes)"
  co_convert :: "'c \<Rightarrow> 'c"
  co_compact :: "'c \<Rightarrow> 'c"
  co_encode :: "'c \<Rightarrow> bytes list \<times> bytes"
  co_encode_hashes :: "'c \<Rightarrow> bytes list \<times> bytes"
  co_decode_sub :: "bytes \<Rightarrow> 'c \<Rightarrow> string + (nat \<times> 'sc)"
  co_convert_sub :: "'sc \<Rightarrow> 'sc"
  co_new_chunk :: "'d \<Rightarrow> 'c"
  co_put_sub :: "nat \<Rightarrow> 'sc \<Rightarrow> 'c \<Rightarrow> 'c option"
  co_block :: "'c \<Rightarrow> 8 word \<Rightarrow> 16 word \<Rightarrow> 8 word \<Rightarrow> 32 word"
  co_block_by_rid :: "32 word \<Rightarrow> 'b option"
  co_rid_of_block :: "'b \<Rightarrow> 32 word"
  co_air :: 'b
  co_out_of_bounds :: "int \<times> int \<times> int \<Rightarrow> bool"

section \<open>Counted caches\<close>

text \<open>
  The contract of both caches: a subscription adds one use of a key, its end takes one away,
  and an entry is present exactly while it has uses.
\<close>
locale counted_cache =
  fixes uses :: "'s \<Rightarrow> 'h \<Rightarrow> int"
    and present :: "'s \<Rightarrow> 'h \<Rightarrow> bool"
    and acquire :: "'h \<Rightarrow> 'e \<Rightarrow> 's \<Rightarrow> 's"
    and release :: "'h \<Rightarrow> 's \<Rightarrow> 's"
    and ok :: "'s \<Rightarrow> bool"
  assumes ok_acquire: "ok s \<Longrightarrow> ok (acquire h e s)"
    and ok_release: "ok s \<Longrightarrow> ok (release h s)"
    and present_uses: "ok s \<Longrightarrow> present s h = (0 < uses s h)"
    and uses_nonneg: "ok s \<Longrightarrow> 0 \<le> uses s h"
    and uses_acquire: "ok s \<Longrightarrow> uses (acquire h e s) k = uses s k + (if k = h then 1 else 0)"
    and uses_release: "ok s \<Longrightarrow> uses (release h s) k =
        (if k = h then max 0 (uses s h - 1) else uses s k)"
begin

lemma ok_releases: "ok s \<Longrightarrow> ok (fold release hs s)"
  by (induction hs arbitrary: s) (simp_all add: ok_release)

lemma uses_releases:
  "ok s \<Longrightarrow> uses (fold release hs s) k = max 0 (uses s k - int (count_list hs k))"
proof (induction hs arbitrary: s)
  case Nil
  thus ?case using uses_nonneg by (simp add: max_def)
next
  case (Cons h hs)
  with uses_nonneg[OF Cons.prems, of k] show ?case
    by (auto simp: ok_release uses_release max_def)
qed

text \<open>Releasing what was acquired leaves the uses of everybody else.\<close>
lemma uses_release_own:
  "ok s \<Longrightarrow> uses s k = others + int (count_list hs k) \<Longrightarrow> 0 \<le> others \<Longrightarrow>
   uses (fold release hs s) k = others"
  by (simp add: uses_releases)

lemma absent_after_last:
  "ok s \<Longrightarrow> uses s k = int (count_list hs k) \<Longrightarrow> \<not> present (fold release hs s) k"
  by (simp add: present_uses ok_releases uses_releases)

end

record 'h cached_chunk =
  cch_hash :: 'h
  cch_subs :: int
  cch_chunk :: nat

record ('h, 'sc) cached_sub =
  csc_layer :: nat
  csc_hash :: 'h
  csc_subs :: int
  csc_sub :: 'sc

text \<open>The state shared by the sessions: the two caches and the chunk objects.\<close>
record ('h, 'c, 'sc) shared =
  sh_chunks :: "'h \<Rightarrow> 'h cached_chunk option"
  sh_subs :: "'h \<Rightarrow> ('h, 'sc) cached_sub option"
  sh_heap :: "nat \<Rightarrow> 'c option"
  sh_next :: nat

definition unsub_map ::
  "('e \<Rightarrow> int) \<Rightarrow> ('e \<Rightarrow> 'e) \<Rightarrow> 'h \<Rightarrow> ('h \<Rightarrow> 'e option) \<Rightarrow> ('h \<Rightarrow> 'e option)" where
  "unsub_map subs dec h m = (case m h of
      None \<Rightarrow> m
    | Some c \<Rightarrow> (let c = dec c in if subs c \<le> 0 then m(h := None) else m(h \<mapsto> c)))"

definition unsub_c :: "'h \<Rightarrow> ('h, 'c, 'sc) shared \<Rightarrow> ('h, 'c, 'sc) shared" where
  "unsub_c h s = s\<lparr>sh_chunks := unsub_map cch_subs (cch_subs_update (\<lambda>n. n - 1)) h (sh_chunks s)\<rparr>"

definition unsub_sc :: "'h \<Rightarrow> ('h, 'c, 'sc) shared \<Rightarrow> ('h, 'c, 'sc) shared" where
  "unsub_sc h s = s\<lparr>sh_subs := unsub_map csc_subs (csc_subs_update (\<lambda>n. n - 1)) h (sh_subs s)\<rparr>"

text \<open>The hit and miss branches of the two caching functions.\<close>
definition chunk_hit :: "'h \<Rightarrow> 'h cached_chunk \<Rightarrow> ('h, 'c, 'sc) shared \<Rightarrow> ('h, 'c, 'sc) shared" where
  "chunk_hit h c s = s\<lparr>sh_chunks := (sh_chunks s)(h \<mapsto> c\<lparr>cch_subs := cch_subs c + 1\<rparr>)\<rparr>"

definition sub_hit :: "'h \<Rightarrow> ('h, 'sc) cached_sub \<Rightarrow> ('h, 'c, 'sc) shared \<Rightarrow> ('h, 'c, 'sc) shared" where
  "sub_hit h c s = s\<lparr>sh_subs := (sh_subs s)(h \<mapsto> c\<lparr>csc_subs := csc_subs c + 1\<rparr>)\<rparr>"

definition alloc_chunk :: "'c \<Rightarrow> ('h, 'c, 'sc) shared \<Rightarrow> nat \<times> ('h, 'c, 'sc) shared" where
  "alloc_chunk c s = (sh_next s, s\<lparr>sh_heap := (sh_heap s)(sh_next s \<mapsto> c), sh_next := Suc (sh_next s)\<rparr>)"

definition cache_sub_chunk ::
  "('h, 'c, 'sc, 'd, 'b) chunk_ops \<Rightarrow> mode \<Rightarrow> bytes \<Rightarrow> 'c \<Rightarrow> ('h, 'c, 'sc) shared
   \<Rightarrow> (string + ('h, 'sc) cached_sub) \<times> ('h, 'c, 'sc) shared" where
  "cache_sub_chunk ops m payload c s =
    (let h = co_hash ops payload m
     in case sh_subs s h of
          Some sc \<Rightarrow> (Inr (sc\<lparr>csc_subs := csc_subs sc + 1\<rparr>), sub_hit h sc s)
        | None \<Rightarrow>
            (case co_decode_sub ops payload c of
               Inl err \<Rightarrow> (Inl err, s)
             | Inr (index, decoded) \<Rightarrow>
                 let decoded = (if m = Hashes then co_convert_sub ops decoded else decoded);
                     sc = \<lparr>csc_layer = index, csc_hash = h, csc_subs = 1, csc_sub = decoded\<rparr>
                 in (Inr sc, s\<lparr>sh_subs := (sh_subs s)(h \<mapsto> sc)\<rparr>)))"

record 'h chunk_info =
  ci_cached :: bool
  ci_hash :: "'h option"
  ci_chunk :: nat

record level_chunk =
  lc_pos :: "32 word \<times> 32 word"
  lc_dimension :: int
  lc_sub_count :: int
  lc_cache_enabled :: bool
  lc_payload :: bytes

definition cache_chunk ::
  "('h, 'c, 'sc, 'd, 'b) chunk_ops \<Rightarrow> mode \<Rightarrow> level_chunk \<Rightarrow> ('h, 'c, 'sc) shared
   \<Rightarrow> (string + 'h chunk_info) \<times> ('h, 'c, 'sc) shared" where
  "cache_chunk ops m input s =
    (let h = co_hash ops (lc_payload input) m
     in case sh_chunks s h of
          Some c \<Rightarrow> (Inr \<lparr>ci_cached = True, ci_hash = Some h, ci_chunk = cch_chunk c\<rparr>, chunk_hit h c s)
        | None \<Rightarrow>
            (case co_dimension ops (lc_dimension input) of
               None \<Rightarrow> (Inl ''unknown dimension'', s)
             | Some d \<Rightarrow>
                 (case co_decode ops (lc_payload input) (lc_sub_count input) d of
                    Inl err \<Rightarrow> (Inl err, s)
                  | Inr decoded \<Rightarrow>
                      let decoded = (if m = Hashes then co_convert ops decoded else decoded);
                          (p, s) = alloc_chunk (co_compact ops decoded) s
                      in (Inr \<lparr>ci_cached = True, ci_hash = Some h, ci_chunk = p\<rparr>,
                          s\<lparr>sh_chunks := (sh_chunks s)(h \<mapsto> \<lparr>cch_hash = h, cch_subs = 1, cch_chunk = p\<rparr>)\<rparr>))))"

text \<open>\<^verbatim>\<open>ReencodeLevelChunk\<close>: an error leaves the packet as it was.\<close>
definition reencode_level_chunk ::
  "('h, 'c, 'sc, 'd, 'b) chunk_ops \<Rightarrow> mode \<Rightarrow> level_chunk \<Rightarrow> string + level_chunk" where
  "reencode_level_chunk ops m input =
    (case co_dimension ops (lc_dimension input) of
       None \<Rightarrow> Inl ''unknown dimension''
     | Some d \<Rightarrow>
         (case co_decode_buffer ops (lc_payload input) (lc_sub_count input) d of
            Inl err \<Rightarrow> Inl err
          | Inr (decoded, rest) \<Rightarrow>
              let decoded = (if m = Hashes then co_convert ops decoded else decoded);
                  (subs, biomes) = (if m = Hashes then co_encode_hashes ops decoded else co_encode ops decoded)
              in Inr (input\<lparr>lc_payload := concat subs @ biomes @ rest,
                            lc_sub_count := int (length subs)\<rparr>)))"

subsection \<open>Both caches are counted\<close>

definition map_uses :: "('e \<Rightarrow> int) \<Rightarrow> ('h \<Rightarrow> 'e option) \<Rightarrow> 'h \<Rightarrow> int" where
  "map_uses subs m h = (case m h of None \<Rightarrow> 0 | Some c \<Rightarrow> subs c)"

definition map_ok :: "('e \<Rightarrow> int) \<Rightarrow> ('h \<Rightarrow> 'e option) \<Rightarrow> bool" where
  "map_ok subs m \<longleftrightarrow> (\<forall>h c. m h = Some c \<longrightarrow> 0 < subs c)"

text \<open>Subscribing to a key: a hit counts one more use, a miss stores the new entry.\<close>
definition acquire_chunk :: "'h \<Rightarrow> nat \<Rightarrow> ('h, 'c, 'sc) shared \<Rightarrow> ('h, 'c, 'sc) shared" where
  "acquire_chunk h p s = (case sh_chunks s h of
      Some c \<Rightarrow> chunk_hit h c s
    | None \<Rightarrow> s\<lparr>sh_chunks := (sh_chunks s)(h \<mapsto> \<lparr>cch_hash = h, cch_subs = 1, cch_chunk = p\<rparr>)\<rparr>)"

definition acquire_sub :: "'h \<Rightarrow> nat \<times> 'sc \<Rightarrow> ('h, 'c, 'sc) shared \<Rightarrow> ('h, 'c, 'sc) shared" where
  "acquire_sub h e s = (case sh_subs s h of
      Some c \<Rightarrow> sub_hit h c s
    | None \<Rightarrow> s\<lparr>sh_subs := (sh_subs s)(h \<mapsto> \<lparr>csc_layer = fst e, csc_hash = h, csc_subs = 1, csc_sub = snd e\<rparr>)\<rparr>)"

definition chunk_uses :: "('h, 'c, 'sc) shared \<Rightarrow> 'h \<Rightarrow> int" where
  "chunk_uses s = map_uses cch_subs (sh_chunks s)"

definition sub_uses :: "('h, 'c, 'sc) shared \<Rightarrow> 'h \<Rightarrow> int" where
  "sub_uses s = map_uses csc_subs (sh_subs s)"

definition chunks_ok :: "('h, 'c, 'sc) shared \<Rightarrow> bool" where
  "chunks_ok s = map_ok cch_subs (sh_chunks s)"

definition subs_ok :: "('h, 'c, 'sc) shared \<Rightarrow> bool" where
  "subs_ok s \<longleftrightarrow> map_ok csc_subs (sh_subs s) \<and> (\<forall>h c. sh_subs s h = Some c \<longrightarrow> csc_hash c = h)"

interpretation cchunk: counted_cache chunk_uses "\<lambda>s h. sh_chunks s h \<noteq> None" acquire_chunk unsub_c chunks_ok
  by unfold_locales
    (auto simp: chunk_uses_def chunks_ok_def map_uses_def map_ok_def acquire_chunk_def chunk_hit_def
      unsub_c_def unsub_map_def Let_def split: option.splits if_splits, fastforce+)

interpretation csub: counted_cache sub_uses "\<lambda>s h. sh_subs s h \<noteq> None" acquire_sub unsub_sc subs_ok
  by unfold_locales
    (auto simp: sub_uses_def subs_ok_def map_uses_def map_ok_def acquire_sub_def sub_hit_def
      unsub_sc_def unsub_map_def Let_def split: option.splits if_splits, fastforce+)

text \<open>The caching functions subscribe exactly once when they succeed, and not at all when they fail.\<close>
lemma cache_sub_chunk_acquires:
  assumes "subs_ok s"
  shows "(\<exists>e. cache_sub_chunk ops m payload c s = (Inl e, s))
   \<or> (\<exists>sc e. cache_sub_chunk ops m payload c s = (Inr sc, acquire_sub (csc_hash sc) e s))"
proof (cases "sh_subs s (co_hash ops payload m)")
  case None
  thus ?thesis
    by (auto simp: cache_sub_chunk_def acquire_sub_def Let_def split: sum.splits)
next
  case (Some sc)
  hence "csc_hash sc = co_hash ops payload m" using assms by (simp add: subs_ok_def)
  with Some show ?thesis by (auto simp: cache_sub_chunk_def acquire_sub_def Let_def)
qed

lemma cache_chunk_acquires:
  "(\<exists>e. cache_chunk ops m input s = (Inl e, s))
   \<or> (\<exists>info h p s'. cache_chunk ops m input s = (Inr info, acquire_chunk h p s')
        \<and> ci_cached info \<and> ci_hash info = Some h
        \<and> sh_chunks s' = sh_chunks s \<and> sh_subs s' = sh_subs s)"
proof (cases "sh_chunks s (co_hash ops (lc_payload input) m)")
  case None
  let ?h = "co_hash ops (lc_payload input) m"
  show ?thesis
  proof (cases "\<exists>d c. co_dimension ops (lc_dimension input) = Some d
      \<and> co_decode ops (lc_payload input) (lc_sub_count input) d = Inr c")
    case True
    then obtain d c where dc: "co_dimension ops (lc_dimension input) = Some d"
      "co_decode ops (lc_payload input) (lc_sub_count input) d = Inr c" by blast
    define c' where "c' = co_compact ops (if m = Hashes then co_convert ops c else c)"
    have "cache_chunk ops m input s = (Inr \<lparr>ci_cached = True, ci_hash = Some ?h, ci_chunk = sh_next s\<rparr>,
        acquire_chunk ?h (sh_next s) (snd (alloc_chunk c' s)))"
      using None dc by (simp add: cache_chunk_def acquire_chunk_def alloc_chunk_def Let_def c'_def)
    moreover have "sh_chunks (snd (alloc_chunk c' s)) = sh_chunks s"
      "sh_subs (snd (alloc_chunk c' s)) = sh_subs s" by (simp_all add: alloc_chunk_def)
    ultimately show ?thesis by (metis chunk_info.select_convs(1,2))
  next
    case False
    with None show ?thesis by (auto simp: cache_chunk_def Let_def split: option.splits sum.splits)
  qed
next
  case (Some c)
  hence "cache_chunk ops m input s =
     (Inr \<lparr>ci_cached = True, ci_hash = Some (co_hash ops (lc_payload input) m), ci_chunk = cch_chunk c\<rparr>,
      acquire_chunk (co_hash ops (lc_payload input) m) 0 s)"
    by (simp add: cache_chunk_def acquire_chunk_def Let_def)
  thus ?thesis by (metis chunk_info.select_convs(1,2))
qed

end
