(* ===== verification/Distance.thy ===== *)
theory Distance
  imports Prelude
begin

text \<open>
  The range test of \<^verbatim>\<open>chunkInRange\<close> in \<^verbatim>\<open>src/world/world.go\<close>, computed as the
  code does: 32-bit differences and squares that wrap, converted to single precision, a
  single-precision sum and square root, truncated to an integer.  Only integers occur before
  the root, so single precision is rounding to 24 significant bits, ties to even.
\<close>

section \<open>Single precision on integers\<close>

fun bit_len :: "nat \<Rightarrow> nat" where
  "bit_len n = (if n = 0 then 0 else Suc (bit_len (n div 2)))"

declare bit_len.simps [simp del]

definition round24 :: "nat \<Rightarrow> nat" where
  "round24 m =
    (if m < 2 ^ 24 then m
     else let e = bit_len m - 24; q = m div 2 ^ e; r = m mod 2 ^ e; half = 2 ^ (e - 1)
          in (if half < r \<or> (r = half \<and> odd q) then Suc q else q) * 2 ^ e)"

definition f32_int :: "int \<Rightarrow> int" where
  "f32_int n = (if n < 0 then - int (round24 (nat (- n))) else int (round24 (nat n)))"

fun isqrt :: "nat \<Rightarrow> nat" where
  "isqrt n = (if n = 0 then 0 else
     let r = 2 * isqrt (n div 4) in if (r + 1) * (r + 1) \<le> n then r + 1 else r)"

declare isqrt.simps [simp del]

text \<open>
  The integer part of the rounded root of \<^verbatim>\<open>n\<close>: the root scaled to 24 bits, rounded to
  nearest (a tie cannot happen), and truncated.
\<close>
definition f32_sqrt_trunc :: "nat \<Rightarrow> nat" where
  "f32_sqrt_trunc n =
    (if n = 0 then 0
     else let sh = 24 - bit_len (isqrt n);
              N = n * 4 ^ sh;
              r = isqrt N;
              m = (if r < N - r * r then r + 1 else r)
          in m div 2 ^ sh)"

text \<open>A negative sum has no root: the conversion of NaN to \<^verbatim>\<open>int32\<close> is up to the machine.\<close>
definition chunk_dist :: "int \<Rightarrow> 32 word \<times> 32 word \<Rightarrow> 32 word \<times> 32 word \<Rightarrow> int" where
  "chunk_dist nan_int32 chunk_pos pos =
    (let dx = fst pos - fst chunk_pos; dz = snd pos - snd chunk_pos;
         s = f32_int (f32_int (sint (dx * dx)) + f32_int (sint (dz * dz)))
     in if s < 0 then nan_int32 else int (f32_sqrt_trunc (nat s)))"

definition chunk_in_range :: "int \<Rightarrow> int \<Rightarrow> 32 word \<times> 32 word \<Rightarrow> 32 word \<times> 32 word \<Rightarrow> bool" where
  "chunk_in_range nan_int32 radius chunk_pos pos \<longleftrightarrow> chunk_dist nan_int32 chunk_pos pos \<le> radius"

section \<open>The root is the integer square root on the distances that occur\<close>

lemma isqrt_spec: "isqrt n * isqrt n \<le> n \<and> n < (isqrt n + 1) * (isqrt n + 1)"
proof (induction n rule: isqrt.induct)
  case (1 n)
  show ?case
  proof (cases "n = 0")
    case True
    thus ?thesis by (simp add: isqrt.simps)
  next
    case False
    let ?q = "isqrt (n div 4)"
    have IH: "?q * ?q \<le> n div 4" "n div 4 < (?q + 1) * (?q + 1)" using 1 False by auto
    have "4 * (?q * ?q) \<le> n" using IH(1) by simp
    moreover have "n < 4 * ((?q + 1) * (?q + 1))" using IH(2) by (simp add: div_less_iff_less_mult)
    ultimately show ?thesis
      using False by (subst (1 2 3 4) isqrt.simps) (auto simp: Let_def algebra_simps)
  qed
qed

lemma isqrt_le_iff: "isqrt n \<le> r \<longleftrightarrow> n < (r + 1) * (r + 1)"
proof
  assume "isqrt n \<le> r"
  hence "(isqrt n + 1) * (isqrt n + 1) \<le> (r + 1) * (r + 1)" by (intro mult_le_mono) auto
  thus "n < (r + 1) * (r + 1)" using isqrt_spec[of n] by linarith
next
  assume a: "n < (r + 1) * (r + 1)"
  show "isqrt n \<le> r"
  proof (rule ccontr)
    assume "\<not> isqrt n \<le> r"
    hence "(r + 1) * (r + 1) \<le> isqrt n * isqrt n" by (intro mult_le_mono) auto
    thus False using a isqrt_spec[of n] by linarith
  qed
qed

lemma bit_len_bounds: "0 < n \<Longrightarrow> 2 ^ (bit_len n - 1) \<le> n \<and> n < 2 ^ bit_len n \<and> 0 < bit_len n"
proof (induction n rule: bit_len.induct)
  case (1 n)
  show ?case
  proof (cases "n div 2 = 0")
    case True
    hence "n = 1" using 1 by auto
    thus ?thesis by (simp add: bit_len.simps[of "Suc 0"] bit_len.simps[of 0])
  next
    case False
    let ?m = "n div 2"
    have IH: "2 ^ (bit_len ?m - 1) \<le> ?m" "?m < 2 ^ bit_len ?m" "0 < bit_len ?m"
      using 1 False by auto
    have "bit_len n = Suc (bit_len ?m)" using 1(2) by (subst bit_len.simps) simp
    moreover have "2 * 2 ^ (bit_len ?m - 1) = (2::nat) ^ bit_len ?m"
      using IH(3) by (metis Suc_diff_1 power_Suc)
    moreover have "2 * ?m \<le> n" "n < 2 * (?m + 1)" by auto
    ultimately show ?thesis using IH by (simp del: mult_Suc_right) linarith
  qed
qed

lemma f32_sqrt_trunc_exact:
  assumes "n < 2 ^ 24"
  shows "f32_sqrt_trunc n = isqrt n"
proof (cases "n = 0")
  case True
  thus ?thesis by (simp add: f32_sqrt_trunc_def isqrt.simps)
next
  case False
  define k where "k = isqrt n"
  have k: "k * k \<le> n" "n < (k + 1) * (k + 1)" using isqrt_spec[of n] by (auto simp: k_def)
  have kpos: "0 < k" using k False by (cases k) auto
  have "k < 2 ^ 12"
  proof (rule ccontr)
    assume "\<not> k < 2 ^ 12"
    hence "2 ^ 12 * 2 ^ 12 \<le> k * k" by (intro mult_le_mono) auto
    thus False using k assms by simp
  qed
  define b where "b = bit_len k"
  have b: "2 ^ (b - 1) \<le> k" "k < 2 ^ b" "0 < b" using bit_len_bounds[OF kpos] by (auto simp: b_def)
  have "b \<le> 12"
  proof (rule ccontr)
    assume "\<not> b \<le> 12"
    hence "(2::nat) ^ 12 \<le> 2 ^ (b - 1)" by (intro power_increasing) auto
    thus False using b \<open>k < 2 ^ 12\<close> by linarith
  qed
  define sh where "sh = 24 - b"
  define S :: nat where "S = 2 ^ sh"
  have "2 ^ b \<le> S" unfolding S_def sh_def using \<open>b \<le> 12\<close> by (intro power_increasing) auto
  hence kS: "k + 1 \<le> S" using b(2) by linarith
  define N where "N = n * (S * S)"
  have S4: "4 ^ sh = S * S" by (simp add: S_def power_mult_distrib[symmetric])
  define r where "r = isqrt N"
  have r: "r * r \<le> N" "N < (r + 1) * (r + 1)" using isqrt_spec[of N] by (auto simp: r_def)
  define T where "T = (k + 1) * S"
  have Tpos: "0 < T" using kS by (simp add: T_def)
  have NT: "N + S * S \<le> T * T"
  proof -
    have "(n + 1) * (S * S) \<le> ((k + 1) * (k + 1)) * (S * S)" using k(2) by (intro mult_le_mono1) simp
    thus ?thesis by (simp add: N_def T_def algebra_simps)
  qed
  have TS: "T \<le> S * S" unfolding T_def using kS by (rule mult_le_mono1)
  define m where "m = (if r < N - r * r then r + 1 else r)"
  have rT: "r < T"
  proof (rule ccontr)
    assume "\<not> r < T"
    hence "T * T \<le> r * r" by (intro mult_le_mono) auto
    moreover have "0 < S * S" using kS by (cases S) auto
    ultimately show False using r(1) NT by linarith
  qed
  have mT: "m < T"
  proof (cases "r < N - r * r")
    case True
    have "r + 1 < T"
    proof (rule ccontr)
      assume "\<not> r + 1 < T"
      hence "T \<le> r + 1" by simp
      have "T = r + 1" using rT \<open>T \<le> r + 1\<close> by simp
      hence "T * T = r * r + r + T" by (simp add: algebra_simps)
      moreover have "r * r + r < N" using True by linarith
      ultimately show False using NT TS by linarith
    qed
    with True show ?thesis by (simp add: m_def)
  next
    case False
    with rT show ?thesis by (simp add: m_def)
  qed
  have "k * S \<le> r"
  proof (rule ccontr)
    assume "\<not> k * S \<le> r"
    hence "(r + 1) * (r + 1) \<le> (k * S) * (k * S)" by (intro mult_le_mono) auto
    also have "\<dots> = (k * k) * (S * S)" by (simp add: algebra_simps)
    also have "\<dots> \<le> N" using k(1) unfolding N_def by (rule mult_le_mono1)
    finally show False using r(2) by linarith
  qed
  hence "k * S \<le> m" by (simp add: m_def)
  hence "m div S = k" using mT by (intro div_nat_eqI) (auto simp: T_def algebra_simps)
  moreover have "f32_sqrt_trunc n = m div S"
    using False S4 unfolding f32_sqrt_trunc_def Let_def k_def[symmetric] b_def[symmetric] sh_def[symmetric]
    by (simp add: m_def r_def N_def S_def)
  ultimately show ?thesis by (simp add: k_def)
qed

lemma f32_int_exact: "0 \<le> n \<Longrightarrow> n < 2 ^ 24 \<Longrightarrow> f32_int n = n"
  by (simp add: f32_int_def round24_def nat_less_iff)

lemma sint_square:
  fixes d :: "32 word"
  assumes "\<bar>sint d\<bar> \<le> 2047"
  shows "sint (d * d) = sint d * sint d" "0 \<le> sint d * sint d" "sint d * sint d \<le> 4190209"
proof -
  have "\<bar>sint d\<bar> * \<bar>sint d\<bar> \<le> 2047 * 2047" using assms by (intro mult_mono) auto
  thus u: "sint d * sint d \<le> 4190209" by (simp add: abs_mult_self_eq)
  show "0 \<le> sint d * sint d" by simp
  hence l: "- (2 ^ 31) \<le> sint d * sint d" by (rule order_trans[rotated]) simp
  have "d * d = word_of_int (sint d * sint d)" by simp
  hence "sint (d * d) = signed_take_bit 31 (sint d * sint d)"
    using sint_sbintrunc'[of "sint d * sint d", where ?'a = 32] by simp
  also have "\<dots> = sint d * sint d"
    by (rule signed_take_bit_int_eq_self) (use u l in simp_all)
  finally show "sint (d * d) = sint d * sint d" .
qed

lemma chunk_in_range_small:
  assumes "\<bar>sint (fst p - fst c)\<bar> \<le> 2047" "\<bar>sint (snd p - snd c)\<bar> \<le> 2047" "0 \<le> radius"
  shows "chunk_in_range nan radius c p \<longleftrightarrow>
    sint (fst p - fst c) ^ 2 + sint (snd p - snd c) ^ 2 < (radius + 1) ^ 2"
proof -
  let ?x = "sint (fst p - fst c)" and ?z = "sint (snd p - snd c)"
  define n where "n = nat (?x * ?x + ?z * ?z)"
  note sx = sint_square[OF assms(1)] and sz = sint_square[OF assms(2)]
  have n: "int n = ?x * ?x + ?z * ?z" "n < 2 ^ 24" using sx(2,3) sz(2,3) by (auto simp: n_def)
  have f: "f32_int (?x * ?x) = ?x * ?x" "f32_int (?z * ?z) = ?z * ?z" "f32_int (?x * ?x + ?z * ?z) = int n"
    using sx(2,3) sz(2,3) n by (auto intro!: f32_int_exact)
  have "chunk_dist nan c p = int (isqrt n)"
    unfolding chunk_dist_def Let_def sx(1) sz(1) f using n(2) by (simp add: f32_sqrt_trunc_exact)
  hence "chunk_in_range nan radius c p \<longleftrightarrow> isqrt n \<le> nat radius"
    using assms(3) by (simp add: chunk_in_range_def le_nat_iff)
  also have "\<dots> \<longleftrightarrow> n < (nat radius + 1) * (nat radius + 1)" by (rule isqrt_le_iff)
  also have "\<dots> \<longleftrightarrow> int n < (radius + 1) * (radius + 1)"
  proof -
    have "int ((nat radius + 1) * (nat radius + 1)) = (radius + 1) * (radius + 1)"
      using assms(3) by (simp add: algebra_simps)
    thus ?thesis by (metis of_nat_less_iff)
  qed
  finally show ?thesis using n(1) by (simp add: power2_eq_square)
qed

text \<open>For chunks less than 2048 chunks away along both axes, the range test, with its wrapping
  32-bit squares and its rounded single-precision root, is the exact test on integers: a chunk
  is in range if and only if its Euclidean distance is less than the radius plus one.\<close>
theorem chunk_in_range_exact:
  assumes "\<bar>sint (fst p - fst c)\<bar> \<le> 2047" "\<bar>sint (snd p - snd c)\<bar> \<le> 2047" "0 \<le> radius"
  shows "chunk_in_range nan radius c p \<longleftrightarrow>
    sint (fst p - fst c) ^ 2 + sint (snd p - snd c) ^ 2 < (radius + 1) ^ 2"
  using chunk_in_range_small[OF assms] .

theorem chunk_in_range_exact_witness:
  "chunk_in_range 0 5 (3, 4) (0, 0) \<and> \<not> chunk_in_range 0 4 (3, 4) (0, 0)"
  using chunk_in_range_exact[of "(0, 0)" "(3, 4)" 5 0] chunk_in_range_exact[of "(0, 0)" "(3, 4)" 4 0]
  by simp

end
