(* ===== verification/World.thy ===== *)
theory World
  imports WorldCache Distance
begin

text \<open>
  A session's world: \<^verbatim>\<open>src/world/world.go\<close>, and the acknowledgments of
  \<^verbatim>\<open>src/player/component/acknowledgement/chunks.go\<close> that fill it.  The operations
  work on the pair of the state shared by the sessions and the world itself.  A map
  iteration is given by the list of keys in the order they are visited.
\<close>

type_synonym cpos = "32 word \<times> 32 word"

record ('h, 'b) world =
  w_last_clean :: cpos
  w_chunks :: "cpos \<Rightarrow> 'h chunk_info option"
  w_subs :: "cpos \<Rightarrow> 'h list option"
  w_exempted :: "cpos set"
  w_updates :: "cpos \<Rightarrow> (bpos \<Rightarrow> 'b option) option"
  w_stw :: nat

definition new_world :: "('h, 'b) world" where
  "new_world = \<lparr>w_last_clean = (0, 0), w_chunks = Map.empty, w_subs = Map.empty,
     w_exempted = {}, w_updates = Map.empty, w_stw = 0\<rparr>"

definition set_stw_ticks :: "nat \<Rightarrow> ('h, 'b) world \<Rightarrow> ('h, 'b) world" where
  "set_stw_ticks n w = w\<lparr>w_stw := n\<rparr>"

text \<open>\<^verbatim>\<open>removeChunk\<close>: the exemption of the position stays.\<close>
definition remove_chunk ::
  "'h chunk_info \<Rightarrow> cpos \<Rightarrow> ('h, 'c, 'sc) shared \<times> ('h, 'b) world \<Rightarrow> ('h, 'c, 'sc) shared \<times> ('h, 'b) world" where
  "remove_chunk info p sw = (case sw of (s, w) \<Rightarrow>
     (let s = (if ci_cached info then (case ci_hash info of None \<Rightarrow> s | Some h \<Rightarrow> unsub_c h s) else s);
          s = (case w_subs w p of None \<Rightarrow> s | Some hs \<Rightarrow> fold unsub_sc hs s)
      in (s, w\<lparr>w_subs := (w_subs w)(p := None), w_chunks := (w_chunks w)(p := None),
               w_updates := (w_updates w)(p := None)\<rparr>)))"

definition add_chunk ::
  "cpos \<Rightarrow> 'h chunk_info \<Rightarrow> ('h, 'c, 'sc) shared \<times> ('h, 'b) world \<Rightarrow> ('h, 'c, 'sc) shared \<times> ('h, 'b) world" where
  "add_chunk p info sw =
    (let (s, w) = (case w_chunks (snd sw) p of
                     None \<Rightarrow> sw | Some old \<Rightarrow> remove_chunk old p sw)
     in (s, w\<lparr>w_chunks := (w_chunks w)(p \<mapsto> info), w_exempted := insert p (w_exempted w)\<rparr>))"

definition add_sub_chunk :: "cpos \<Rightarrow> 'h \<Rightarrow> ('h, 'b) world \<Rightarrow> ('h, 'b) world" where
  "add_sub_chunk p h w =
    (let hs = (case w_subs w p of None \<Rightarrow> [] | Some hs \<Rightarrow> hs)
     in w\<lparr>w_subs := (w_subs w)(p \<mapsto> hs @ [h])\<rparr>)"

definition world_chunk :: "cpos \<Rightarrow> ('h, 'b) world \<Rightarrow> nat option" where
  "world_chunk p w = map_option ci_chunk (w_chunks w p)"

definition chunk_pos_of :: "bpos \<Rightarrow> cpos" where
  "chunk_pos_of pos = (case pos of (x, y, z) \<Rightarrow>
     (signed_drop_bit 4 (word_of_int x), signed_drop_bit 4 (word_of_int z)))"

text \<open>\<^verbatim>\<open>Block\<close> creates the table of updates of a chunk it has not seen.\<close>
definition world_block ::
  "('h, 'c, 'sc, 'd, 'b) chunk_ops \<Rightarrow> ('h, 'c, 'sc) shared \<Rightarrow> bpos \<Rightarrow> ('h, 'b) world \<Rightarrow> 'b \<times> ('h, 'b) world" where
  "world_block ops s pos w =
    (if co_out_of_bounds ops pos then (co_air ops, w)
     else
       let p = chunk_pos_of pos;
           stored = (case w_updates w p of None \<Rightarrow> None | Some m \<Rightarrow> m pos);
           w' = (case w_updates w p of
                   None \<Rightarrow> w\<lparr>w_updates := (w_updates w)(p \<mapsto> Map.empty)\<rparr> | Some m \<Rightarrow> w)
       in case stored of
            Some b \<Rightarrow> (b, w')
          | None \<Rightarrow>
              (case world_chunk p w' of
                 None \<Rightarrow> (co_air ops, w')
               | Some a \<Rightarrow>
                   (case sh_heap s a of
                      None \<Rightarrow> (co_air ops, w')
                    | Some c \<Rightarrow>
                        (case pos of (x, y, z) \<Rightarrow>
                           (case co_block_by_rid ops (co_block ops c (word_of_int x) (word_of_int y) (word_of_int z)) of
                              Some b \<Rightarrow> (b, w')
                            | None \<Rightarrow> (co_air ops, w'))))))"

definition world_set_block ::
  "('h, 'c, 'sc, 'd, 'b) chunk_ops \<Rightarrow> bpos \<Rightarrow> 'b \<Rightarrow> ('h, 'b) world \<Rightarrow> ('h, 'b) world" where
  "world_set_block ops pos b w =
    (if co_out_of_bounds ops pos then w
     else
       let p = chunk_pos_of pos;
           m = (case w_updates w p of None \<Rightarrow> Map.empty | Some m \<Rightarrow> m)
       in w\<lparr>w_updates := (w_updates w)(p \<mapsto> m(pos \<mapsto> b))\<rparr>)"

definition clean_one ::
  "int \<Rightarrow> int \<Rightarrow> cpos \<Rightarrow> cpos \<Rightarrow> ('h, 'c, 'sc) shared \<times> ('h, 'b) world \<Rightarrow> ('h, 'c, 'sc) shared \<times> ('h, 'b) world" where
  "clean_one nan radius pos p sw =
    (case w_chunks (snd sw) p of
       None \<Rightarrow> sw
     | Some info \<Rightarrow>
         let exempted = p \<in> w_exempted (snd sw); in_range = chunk_in_range nan radius p pos
         in if exempted \<and> in_range
            then (fst sw, (snd sw)\<lparr>w_exempted := w_exempted (snd sw) - {p}\<rparr>)
            else if \<not> exempted \<and> \<not> in_range then remove_chunk info p sw
            else sw)"

definition clean_chunks ::
  "int \<Rightarrow> cpos list \<Rightarrow> int \<Rightarrow> cpos \<Rightarrow> ('h, 'c, 'sc) shared \<times> ('h, 'b) world
   \<Rightarrow> ('h, 'c, 'sc) shared \<times> ('h, 'b) world" where
  "clean_chunks nan order radius pos sw =
    (if 0 < w_stw (snd sw) then (fst sw, (snd sw)\<lparr>w_stw := w_stw (snd sw) - 1\<rparr>)
     else if pos = w_last_clean (snd sw) then sw
     else fold (clean_one nan radius pos) order (fst sw, (snd sw)\<lparr>w_last_clean := pos\<rparr>))"

definition purge_one ::
  "cpos \<Rightarrow> ('h, 'c, 'sc) shared \<times> ('h, 'b) world \<Rightarrow> ('h, 'c, 'sc) shared \<times> ('h, 'b) world" where
  "purge_one p sw = (case w_chunks (snd sw) p of None \<Rightarrow> sw | Some info \<Rightarrow> remove_chunk info p sw)"

definition purge_chunks ::
  "cpos list \<Rightarrow> ('h, 'c, 'sc) shared \<times> ('h, 'b) world \<Rightarrow> ('h, 'c, 'sc) shared \<times> ('h, 'b) world" where
  "purge_chunks order sw = fold purge_one order sw"

section \<open>The acknowledgments that add chunks\<close>

text \<open>The messages a run disconnects the player with.\<close>
type_synonym disconnects = "string list"

definition chunk_update_run ::
  "('h, 'c, 'sc, 'd, 'b) chunk_ops \<Rightarrow> mode \<Rightarrow> level_chunk
   \<Rightarrow> ('h, 'c, 'sc) shared \<times> ('h, 'b) world \<Rightarrow> disconnects \<times> (('h, 'c, 'sc) shared \<times> ('h, 'b) world)" where
  "chunk_update_run ops m pk sw =
    (if lc_cache_enabled pk then ([''chunk cache unsupported''], sw)
     else case cache_chunk ops m pk (fst sw) of
            (Inl err, s) \<Rightarrow> ([''decode chunk: '' @ err], (s, snd sw))
          | (Inr info, s) \<Rightarrow> ([], add_chunk (lc_pos pk) info (s, snd sw)))"

record sub_entry =
  se_dx :: int
  se_dz :: int
  se_result :: int
  se_payload :: bytes

record sub_chunk_pk =
  sp_x :: "32 word"
  sp_z :: "32 word"
  sp_dimension :: int
  sp_cache_enabled :: bool
  sp_entries :: "sub_entry list"

record ('h, 'c, 'sc, 'b) sub_run =
  sr_new :: "(cpos \<times> nat) list"
  sr_msgs :: disconnects
  sr_shared :: "('h, 'c, 'sc) shared"
  sr_world :: "('h, 'b) world"

text \<open>The chunk an entry goes to: one made for this packet, an existing one, or a new one.\<close>
definition entry_chunk ::
  "('h, 'c, 'sc, 'd, 'b) chunk_ops \<Rightarrow> sub_chunk_pk \<Rightarrow> cpos \<Rightarrow> ('h, 'c, 'sc, 'b) sub_run
   \<Rightarrow> nat \<times> ('h, 'c, 'sc, 'b) sub_run" where
  "entry_chunk ops pk p r =
    (case map_of (sr_new r) p of
       Some a \<Rightarrow> (a, r)
     | None \<Rightarrow>
         (case world_chunk p (sr_world r) of
            Some a \<Rightarrow> (a, r)
          | None \<Rightarrow>
              let d = (case co_dimension ops (sp_dimension pk) of
                         Some d \<Rightarrow> d | None \<Rightarrow> co_overworld ops);
                  (a, s) = alloc_chunk (co_new_chunk ops d) (sr_shared r)
              in (a, r\<lparr>sr_new := sr_new r @ [(p, a)], sr_shared := s\<rparr>)))"

definition sub_entry_run ::
  "('h, 'c, 'sc, 'd, 'b) chunk_ops \<Rightarrow> mode \<Rightarrow> int \<Rightarrow> sub_chunk_pk \<Rightarrow> sub_entry
   \<Rightarrow> ('h, 'c, 'sc, 'b) sub_run \<Rightarrow> ('h, 'c, 'sc, 'b) sub_run result" where
  "sub_entry_run ops m success pk entry r =
    (let p = (sp_x pk + word_of_int (se_dx entry), sp_z pk + word_of_int (se_dz entry));
         (a, r) = entry_chunk ops pk p r
     in if se_result entry \<noteq> success then Inr r
        else case sh_heap (sr_shared r) a of
               None \<Rightarrow> Inl (Panic ''nil pointer dereference'')
             | Some c \<Rightarrow>
                 (case cache_sub_chunk ops m (se_payload entry) c (sr_shared r) of
                    (Inl err, s) \<Rightarrow>
                      Inr (r\<lparr>sr_msgs := sr_msgs r @ [''decode chunk: '' @ err], sr_shared := s\<rparr>)
                  | (Inr sc, s) \<Rightarrow>
                      (case co_put_sub ops (csc_layer sc) (csc_sub sc) c of
                         None \<Rightarrow> Inl (Panic ''index out of range'')
                       | Some c' \<Rightarrow>
                           Inr (r\<lparr>sr_shared := s\<lparr>sh_heap := (sh_heap s)(a \<mapsto> c')\<rparr>,
                                  sr_world := add_sub_chunk p (csc_hash sc) (sr_world r)\<rparr>))))"

fun sub_entries_run ::
  "('h, 'c, 'sc, 'd, 'b) chunk_ops \<Rightarrow> mode \<Rightarrow> int \<Rightarrow> sub_chunk_pk \<Rightarrow> sub_entry list
   \<Rightarrow> ('h, 'c, 'sc, 'b) sub_run \<Rightarrow> ('h, 'c, 'sc, 'b) sub_run result" where
  "sub_entries_run ops m success pk [] r = Inr r"
| "sub_entries_run ops m success pk (e # es) r =
     bind_result (sub_entry_run ops m success pk e r) (sub_entries_run ops m success pk es)"

definition sub_chunk_update_run ::
  "('h, 'c, 'sc, 'd, 'b) chunk_ops \<Rightarrow> mode \<Rightarrow> int \<Rightarrow> sub_chunk_pk
   \<Rightarrow> ('h, 'c, 'sc) shared \<times> ('h, 'b) world
   \<Rightarrow> (disconnects \<times> (('h, 'c, 'sc) shared \<times> ('h, 'b) world)) result" where
  "sub_chunk_update_run ops m success pk sw =
    (if sp_cache_enabled pk then Inr ([''chunk cache unsupported''], sw)
     else bind_result
            (sub_entries_run ops m success pk (sp_entries pk)
               \<lparr>sr_new = [], sr_msgs = [], sr_shared = fst sw, sr_world = snd sw\<rparr>) (\<lambda>r.
            Inr (sr_msgs r,
                 fold (\<lambda>(p, a). add_chunk p \<lparr>ci_cached = False, ci_hash = None, ci_chunk = a\<rparr>)
                   (sr_new r) (sr_shared r, sr_world r))))"

section \<open>Every cache entry has as many uses as the worlds hold\<close>

definition info_use :: "'h chunk_info \<Rightarrow> 'h \<Rightarrow> int" where
  "info_use info h = (if ci_cached info \<and> ci_hash info = Some h then 1 else 0)"

definition held_chunks :: "('h, 'b) world \<Rightarrow> 'h \<Rightarrow> int" where
  "held_chunks w h = (\<Sum>p \<in> dom (w_chunks w). info_use (the (w_chunks w p)) h)"

definition held_subs :: "('h, 'b) world \<Rightarrow> 'h \<Rightarrow> int" where
  "held_subs w h = (\<Sum>p \<in> dom (w_subs w). int (count_list (the (w_subs w p)) h))"

text \<open>
  \<^verbatim>\<open>oc\<close> and \<^verbatim>\<open>os\<close> are the uses of chunks and sub-chunks by the other sessions.
\<close>
definition shared_inv ::
  "('h \<Rightarrow> int) \<Rightarrow> ('h \<Rightarrow> int) \<Rightarrow> ('h, 'c, 'sc) shared \<times> ('h, 'b) world \<Rightarrow> bool" where
  "shared_inv oc os sw \<longleftrightarrow> chunks_ok (fst sw) \<and> subs_ok (fst sw)
     \<and> finite (dom (w_chunks (snd sw))) \<and> finite (dom (w_subs (snd sw)))
     \<and> (\<forall>h. 0 \<le> oc h \<and> 0 \<le> os h)
     \<and> (\<forall>h. chunk_uses (fst sw) h = oc h + held_chunks (snd sw) h)
     \<and> (\<forall>h. sub_uses (fst sw) h = os h + held_subs (snd sw) h)"

lemma sum_dom_upd_None:
  "finite (dom m) \<Longrightarrow> m p = Some x \<Longrightarrow>
   (\<Sum>q \<in> dom (m(p := None)). f (the ((m(p := None)) q))) = (\<Sum>q \<in> dom m. f (the (m q))) - (f x :: int)"
  by (subst sum.remove[of "dom m" p]) (auto intro: sum.cong)

lemma sum_dom_upd_Some:
  assumes "finite (dom m)"
  shows "(\<Sum>q \<in> dom (m(p \<mapsto> x)). f (the ((m(p \<mapsto> x)) q)))
    = (\<Sum>q \<in> dom m. f (the (m q))) - (case m p of None \<Rightarrow> 0 | Some y \<Rightarrow> f y) + (f x :: int)"
proof (cases "m p")
  case None
  hence "p \<notin> dom m" by auto
  with assms None show ?thesis
    by (simp add: sum.insert) (rule sum.cong, auto)
next
  case (Some y)
  hence d: "dom (m(p \<mapsto> x)) = dom m" by auto
  have "(\<Sum>q \<in> dom m. f (the ((m(p \<mapsto> x)) q))) = f x + (\<Sum>q \<in> dom m - {p}. f (the (m q)))"
    using assms Some by (subst sum.remove[of _ p]) (auto intro!: sum.cong)
  moreover have "(\<Sum>q \<in> dom m. f (the (m q))) = f y + (\<Sum>q \<in> dom m - {p}. f (the (m q)))"
    using assms Some by (subst sum.remove[of _ p]) auto
  ultimately show ?thesis using Some d by simp
qed

lemma held_chunks_nonneg: "0 \<le> held_chunks w h"
  unfolding held_chunks_def by (rule sum_nonneg) (simp add: info_use_def)

lemma held_subs_nonneg: "0 \<le> held_subs w h"
  unfolding held_subs_def by (rule sum_nonneg) simp

lemma fold_unsub_sc_chunks:
  "chunk_uses (fold unsub_sc hs t) = chunk_uses t \<and> chunks_ok (fold unsub_sc hs t) = chunks_ok t"
  by (induction hs arbitrary: t) (simp_all add: unsub_sc_def chunk_uses_def chunks_ok_def)

lemma remove_chunk_inv:
  assumes "shared_inv oc os (s, w)" "w_chunks w p = Some info"
  shows "shared_inv oc os (remove_chunk info p (s, w))"
    and "w_chunks (snd (remove_chunk info p (s, w))) = (w_chunks w)(p := None)"
    and "w_subs (snd (remove_chunk info p (s, w))) = (w_subs w)(p := None)"
proof -
  define s1 where "s1 = (if ci_cached info then (case ci_hash info of None \<Rightarrow> s | Some h \<Rightarrow> unsub_c h s) else s)"
  define s2 where "s2 = (case w_subs w p of None \<Rightarrow> s1 | Some hs \<Rightarrow> fold unsub_sc hs s1)"
  define w' where "w' = w\<lparr>w_subs := (w_subs w)(p := None), w_chunks := (w_chunks w)(p := None),
      w_updates := (w_updates w)(p := None)\<rparr>"
  have r: "remove_chunk info p (s, w) = (s2, w')"
    by (simp only: remove_chunk_def s1_def s2_def w'_def Let_def prod.case)
  from assms have ok: "chunks_ok s" "subs_ok s" "finite (dom (w_chunks w))" "finite (dom (w_subs w))"
    and u: "chunk_uses s h = oc h + held_chunks w h" "sub_uses s h = os h + held_subs w h"
    and nn: "0 \<le> oc h" "0 \<le> os h" for h
    by (auto simp: shared_inv_def)
  have subs1: "sub_uses s1 = sub_uses s" "subs_ok s1 = subs_ok s"
    by (auto simp: s1_def unsub_c_def sub_uses_def subs_ok_def split: option.splits)
  have hc: "held_chunks w' h = held_chunks w h - info_use info h" for h
    using sum_dom_upd_None[OF ok(3) assms(2), of "\<lambda>i. info_use i h"]
    by (simp add: held_chunks_def w'_def)
  have ge: "info_use info h \<le> held_chunks w h" for h
    using hc[of h] held_chunks_nonneg[of w' h] by simp
  have c1: "chunks_ok s1 \<and> chunk_uses s1 h = oc h + held_chunks w' h" for h
    using cchunk.uses_release[OF ok(1)] cchunk.ok_release[OF ok(1)] u(1)[of h] ge[of h] nn(1)[of h] ok(1)
    by (auto simp: s1_def hc info_use_def max_def split: option.splits)
  have hs: "held_subs w' h = held_subs w h - int (count_list (case w_subs w p of None \<Rightarrow> [] | Some hs \<Rightarrow> hs) h)" for h
  proof (cases "w_subs w p")
    case None
    hence "(w_subs w)(p := None) = w_subs w" by auto
    with None show ?thesis by (simp add: held_subs_def w'_def)
  next
    case (Some hs)
    with sum_dom_upd_None[OF ok(4) Some, of "\<lambda>hs. int (count_list hs h)"]
    show ?thesis by (simp add: held_subs_def w'_def)
  qed
  have s2: "subs_ok s2 \<and> sub_uses s2 h = os h + held_subs w' h" for h
  proof (cases "w_subs w p")
    case None
    with hs[of h] u(2)[of h] ok(2) subs1 show ?thesis by (simp add: s2_def)
  next
    case (Some xs)
    have "sub_uses s1 h = (os h + held_subs w' h) + int (count_list xs h)"
      using hs[of h] u(2)[of h] subs1 Some by simp
    moreover have "0 \<le> os h + held_subs w' h" using nn(2)[of h] held_subs_nonneg[of w' h] by simp
    moreover have "subs_ok s1" using ok(2) subs1 by simp
    ultimately show ?thesis
      using csub.uses_release_own[of s1 h "os h + held_subs w' h" xs] csub.ok_releases[of s1 xs] Some
      by (simp add: s2_def)
  qed
  have c2: "chunks_ok s2 \<and> chunk_uses s2 h = oc h + held_chunks w' h" for h
    using c1[of h] by (auto simp: s2_def fold_unsub_sc_chunks split: option.splits)
  have "finite (dom (w_chunks w'))" "finite (dom (w_subs w'))" using ok by (simp_all add: w'_def)
  with c2 s2 nn show "shared_inv oc os (remove_chunk info p (s, w))"
    by (simp add: r shared_inv_def)
  show "w_chunks (snd (remove_chunk info p (s, w))) = (w_chunks w)(p := None)"
    "w_subs (snd (remove_chunk info p (s, w))) = (w_subs w)(p := None)"
    by (simp_all add: r w'_def)
qed

text \<open>A chunk that is added brings the use that was taken for it.\<close>
lemma add_chunk_inv:
  assumes "shared_inv (\<lambda>h. oc h + info_use info h) os (s, w)" "\<forall>h. 0 \<le> oc h"
  shows "shared_inv oc os (add_chunk p info (s, w))"
proof -
  have "\<exists>s1 w1. (case w_chunks w p of None \<Rightarrow> (s, w) | Some old \<Rightarrow> remove_chunk old p (s, w)) = (s1, w1)
      \<and> shared_inv (\<lambda>h. oc h + info_use info h) os (s1, w1) \<and> w_chunks w1 p = None"
  proof (cases "w_chunks w p")
    case None
    with assms(1) show ?thesis by simp
  next
    case (Some old)
    obtain s1 w1 where r: "remove_chunk old p (s, w) = (s1, w1)" by fastforce
    with remove_chunk_inv(1,2)[OF assms(1) Some] Some show ?thesis by simp
  qed
  then obtain s1 w1 where
    sw1: "(case w_chunks w p of None \<Rightarrow> (s, w) | Some old \<Rightarrow> remove_chunk old p (s, w)) = (s1, w1)"
    and inv1: "shared_inv (\<lambda>h. oc h + info_use info h) os (s1, w1)" and none: "w_chunks w1 p = None"
    by blast
  have "held_chunks (w1\<lparr>w_chunks := (w_chunks w1)(p \<mapsto> info), w_exempted := e\<rparr>) h
      = held_chunks w1 h + info_use info h" for h e
    using inv1 none sum_dom_upd_Some[of "w_chunks w1" "\<lambda>i. info_use i h" p info]
    by (simp add: held_chunks_def shared_inv_def)
  with inv1 assms(2) sw1 show ?thesis
    by (simp add: add_chunk_def shared_inv_def held_subs_def)
qed

lemma add_sub_chunk_inv:
  assumes "shared_inv oc (\<lambda>k. os k + (if k = h then 1 else 0)) (s, w)" "\<forall>k. 0 \<le> os k"
  shows "shared_inv oc os (s, add_sub_chunk p h w)"
proof -
  have "held_subs (add_sub_chunk p h w) k = held_subs w k + (if k = h then 1 else 0)" for k
    using assms(1) sum_dom_upd_Some[of "w_subs w" "\<lambda>hs. int (count_list hs k)" p]
    by (auto simp: held_subs_def add_sub_chunk_def Let_def shared_inv_def split: option.splits)
  with assms show ?thesis
    by (simp add: shared_inv_def add_sub_chunk_def held_chunks_def Let_def)
qed

end
