(* ===== verification/WorldProps.thy ===== *)
theory WorldProps
  imports World
begin

text \<open>
  Properties of the world: the shared caches count exactly what the sessions hold and forget
  what nobody holds, purging a world returns everything it took, cleaning removes exactly
  the chunks it should, and block updates are read back.
\<close>

section \<open>The operations keep the counts\<close>

lemma shared_inv_cong:
  "sh_chunks s' = sh_chunks s \<Longrightarrow> sh_subs s' = sh_subs s \<Longrightarrow> w_chunks w' = w_chunks w \<Longrightarrow>
   w_subs w' = w_subs w \<Longrightarrow> shared_inv oc os (s', w') = shared_inv oc os (s, w)"
  by (simp add: shared_inv_def chunks_ok_def subs_ok_def chunk_uses_def sub_uses_def
      held_chunks_def held_subs_def)

lemma shared_inv_others: "shared_inv oc os sw \<Longrightarrow> 0 \<le> oc h \<and> 0 \<le> os h"
  by (simp add: shared_inv_def)

lemma acquire_chunk_inv:
  assumes "shared_inv oc os (s, w)"
  shows "shared_inv (\<lambda>k. oc k + (if k = h then 1 else 0)) os (acquire_chunk h p s, w)"
proof -
  have ok: "chunks_ok s" using assms by (simp add: shared_inv_def)
  have "sub_uses (acquire_chunk h p s) = sub_uses s" "subs_ok (acquire_chunk h p s) = subs_ok s"
    by (simp_all add: acquire_chunk_def chunk_hit_def sub_uses_def subs_ok_def split: option.splits)
  thus ?thesis
    using assms cchunk.uses_acquire[OF ok, of h p] cchunk.ok_acquire[OF ok, of h p]
    by (simp add: shared_inv_def)
qed

lemma acquire_sub_inv:
  assumes "shared_inv oc os (s, w)"
  shows "shared_inv oc (\<lambda>k. os k + (if k = h then 1 else 0)) (acquire_sub h e s, w)"
proof -
  have ok: "subs_ok s" using assms by (simp add: shared_inv_def)
  have "chunk_uses (acquire_sub h e s) = chunk_uses s" "chunks_ok (acquire_sub h e s) = chunks_ok s"
    by (simp_all add: acquire_sub_def sub_hit_def chunk_uses_def chunks_ok_def split: option.splits)
  thus ?thesis
    using assms csub.uses_acquire[OF ok, of h e] csub.ok_acquire[OF ok, of h e]
    by (simp add: shared_inv_def)
qed

lemma chunk_update_run_inv:
  assumes "shared_inv oc os sw"
  shows "shared_inv oc os (snd (chunk_update_run ops m pk sw))"
proof (cases "lc_cache_enabled pk")
  case True
  with assms show ?thesis by (simp add: chunk_update_run_def)
next
  case False
  obtain s w where sw: "sw = (s, w)" by fastforce
  from cache_chunk_acquires[of ops m pk s] show ?thesis
  proof
    assume "\<exists>e. cache_chunk ops m pk s = (Inl e, s)"
    with False assms sw show ?thesis by (auto simp: chunk_update_run_def)
  next
    assume "\<exists>info h p s'. cache_chunk ops m pk s = (Inr info, acquire_chunk h p s')
        \<and> ci_cached info \<and> ci_hash info = Some h \<and> sh_chunks s' = sh_chunks s \<and> sh_subs s' = sh_subs s"
    then obtain info h p s' where c: "cache_chunk ops m pk s = (Inr info, acquire_chunk h p s')"
      "ci_cached info" "ci_hash info = Some h" "sh_chunks s' = sh_chunks s" "sh_subs s' = sh_subs s"
      by blast
    have "shared_inv oc os (s', w)" using assms sw shared_inv_cong[OF c(4,5), of w w] by simp
    from acquire_chunk_inv[OF this, of h p]
    have acq: "shared_inv (\<lambda>k. oc k + (if k = h then 1 else 0)) os (acquire_chunk h p s', w)" .
    have "(\<lambda>k. oc k + info_use info k) = (\<lambda>k. oc k + (if k = h then 1 else 0))"
      using c(2,3) by (auto simp: info_use_def fun_eq_iff)
    with acq have "shared_inv (\<lambda>k. oc k + info_use info k) os (acquire_chunk h p s', w)" by simp
    from add_chunk_inv[OF this, of "lc_pos pk"] shared_inv_others[OF assms]
    show ?thesis using False c(1) sw by (simp add: chunk_update_run_def)
  qed
qed

lemma entry_chunk_frame:
  assumes "entry_chunk ops pk p r = (a, r')"
  shows "sh_chunks (sr_shared r') = sh_chunks (sr_shared r)" "sh_subs (sr_shared r') = sh_subs (sr_shared r)"
    "sr_world r' = sr_world r" "p \<in> dom (w_chunks (sr_world r')) \<union> fst ` set (sr_new r')"
    "fst ` set (sr_new r) \<subseteq> fst ` set (sr_new r')"
  using assms
  by (auto simp: entry_chunk_def alloc_chunk_def world_chunk_def Let_def dest: map_of_SomeD
      split: option.splits prod.splits intro: rev_image_eqI)

definition run_closed :: "('h, 'c, 'sc, 'b) sub_run \<Rightarrow> bool" where
  "run_closed r \<longleftrightarrow> dom (w_subs (sr_world r)) \<subseteq> dom (w_chunks (sr_world r)) \<union> fst ` set (sr_new r)"

lemma add_sub_chunk_frame [simp]:
  "w_chunks (add_sub_chunk p h w) = w_chunks w" "dom (w_subs (add_sub_chunk p h w)) = insert p (dom (w_subs w))"
  by (auto simp: add_sub_chunk_def Let_def)

lemma sub_entry_run_inv:
  assumes "sub_entry_run ops m success pk e r = Inr r''" "shared_inv oc os (sr_shared r, sr_world r)"
    "run_closed r"
  shows "shared_inv oc os (sr_shared r'', sr_world r'') \<and> run_closed r''"
proof -
  define p where "p = (sp_x pk + word_of_int (se_dx e), sp_z pk + word_of_int (se_dz e))"
  obtain a r' where ec: "entry_chunk ops pk p r = (a, r')" by fastforce
  note fr = entry_chunk_frame[OF ec]
  have inv': "shared_inv oc os (sr_shared r', sr_world r')"
    using assms(2) shared_inv_cong[OF fr(1,2), of "sr_world r'" "sr_world r"] fr(3) by simp
  have cl': "run_closed r'"
    using assms(3) fr(5) unfolding run_closed_def fr(3) by blast
  show ?thesis
  proof (cases "se_result e \<noteq> success")
    case True
    with assms(1) ec inv' cl' show ?thesis by (simp add: sub_entry_run_def p_def[symmetric])
  next
    case False
    then obtain c where c: "sh_heap (sr_shared r') a = Some c"
      using assms(1) ec by (auto simp: sub_entry_run_def p_def[symmetric] split: option.splits)
    have ok: "subs_ok (sr_shared r')" using inv' by (simp add: shared_inv_def)
    from cache_sub_chunk_acquires[OF ok, of ops m "se_payload e" c] show ?thesis
    proof
      assume "\<exists>err. cache_sub_chunk ops m (se_payload e) c (sr_shared r') = (Inl err, sr_shared r')"
      with assms(1) ec False c obtain err
        where r'': "r'' = r'\<lparr>sr_msgs := sr_msgs r' @ [''decode chunk: '' @ err], sr_shared := sr_shared r'\<rparr>"
        by (auto simp: sub_entry_run_def p_def[symmetric])
      have "run_closed r'' = run_closed r'" by (simp add: r'' run_closed_def)
      with inv' cl' r'' show ?thesis by simp
    next
      assume "\<exists>sc ee. cache_sub_chunk ops m (se_payload e) c (sr_shared r')
          = (Inr sc, acquire_sub (csc_hash sc) ee (sr_shared r'))"
      then obtain sc ee where cs: "cache_sub_chunk ops m (se_payload e) c (sr_shared r')
          = (Inr sc, acquire_sub (csc_hash sc) ee (sr_shared r'))" by blast
      let ?s = "acquire_sub (csc_hash sc) ee (sr_shared r')"
      obtain c' where r'': "r'' = r'\<lparr>sr_shared := ?s\<lparr>sh_heap := (sh_heap ?s)(a \<mapsto> c')\<rparr>,
            sr_world := add_sub_chunk p (csc_hash sc) (sr_world r')\<rparr>"
        using assms(1) ec False c cs
        by (auto simp: sub_entry_run_def p_def[symmetric] split: option.splits)
      have "shared_inv oc os (?s, add_sub_chunk p (csc_hash sc) (sr_world r'))"
        using add_sub_chunk_inv[OF acquire_sub_inv[OF inv'], where p = p] shared_inv_others[OF inv'] by blast
      hence "shared_inv oc os (sr_shared r'', sr_world r'')"
        unfolding r'' by (subst shared_inv_cong[of _ ?s _ "add_sub_chunk p (csc_hash sc) (sr_world r')"]) simp_all
      moreover have "run_closed r''" using cl' fr(4) by (auto simp: r'' run_closed_def)
      ultimately show ?thesis by simp
    qed
  qed
qed

lemma sub_entries_run_inv:
  "sub_entries_run ops m success pk es r = Inr r'' \<Longrightarrow> shared_inv oc os (sr_shared r, sr_world r) \<Longrightarrow>
   run_closed r \<Longrightarrow> shared_inv oc os (sr_shared r'', sr_world r'') \<and> run_closed r''"
proof (induction es arbitrary: r)
  case (Cons e es)
  from Cons.prems(1) obtain r' where r': "sub_entry_run ops m success pk e r = Inr r'"
    "sub_entries_run ops m success pk es r' = Inr r''"
    by (auto simp: bind_result_Inr_iff)
  from sub_entry_run_inv[OF r'(1) Cons.prems(2,3)] Cons.IH[OF r'(2)] show ?case by blast
qed simp

definition world_closed :: "('h, 'b) world \<Rightarrow> bool" where
  "world_closed w \<longleftrightarrow> dom (w_subs w) \<subseteq> dom (w_chunks w)"

lemma add_chunk_frame:
  "dom (w_chunks (snd (add_chunk p info sw))) = insert p (dom (w_chunks (snd sw)))"
  "dom (w_subs (snd (add_chunk p info sw))) \<subseteq> dom (w_subs (snd sw))"
  by (auto simp: add_chunk_def remove_chunk_def Let_def split: prod.splits option.splits)

lemma add_chunks_inv:
  assumes "shared_inv oc os sw" "dom (w_subs (snd sw)) \<subseteq> dom (w_chunks (snd sw)) \<union> fst ` set new"
  shows "shared_inv oc os (fold (\<lambda>(p, a). add_chunk p \<lparr>ci_cached = False, ci_hash = None, ci_chunk = a\<rparr>) new sw)
    \<and> world_closed (snd (fold (\<lambda>(p, a). add_chunk p \<lparr>ci_cached = False, ci_hash = None, ci_chunk = a\<rparr>) new sw))"
  using assms
proof (induction new arbitrary: sw)
  case Nil
  thus ?case by (simp add: world_closed_def)
next
  case (Cons pa new)
  obtain p a where pa: "pa = (p, a)" by fastforce
  obtain s w where sw: "sw = (s, w)" by fastforce
  let ?i = "\<lparr>ci_cached = False, ci_hash = None, ci_chunk = a\<rparr> :: 'a chunk_info"
  have "shared_inv (\<lambda>h. oc h + info_use ?i h) os (s, w)"
    using Cons.prems(1) by (simp add: sw info_use_def)
  from add_chunk_inv[OF this, of p] shared_inv_others[OF Cons.prems(1)]
  have "shared_inv oc os (add_chunk p ?i sw)" by (simp add: sw)
  moreover have "dom (w_subs (snd (add_chunk p ?i sw)))
      \<subseteq> dom (w_chunks (snd (add_chunk p ?i sw))) \<union> fst ` set new"
    using Cons.prems(2) add_chunk_frame[of p ?i sw] by (auto simp: pa)
  ultimately show ?case using Cons.IH[of "add_chunk p ?i sw"] by (simp add: pa)
qed

lemma sub_chunk_update_run_inv:
  assumes "sub_chunk_update_run ops m success pk sw = Inr (msgs, sw')" "shared_inv oc os sw"
    "world_closed (snd sw)"
  shows "shared_inv oc os sw' \<and> world_closed (snd sw')"
proof (cases "sp_cache_enabled pk")
  case True
  with assms show ?thesis by (simp add: sub_chunk_update_run_def)
next
  case False
  let ?r0 = "\<lparr>sr_new = [], sr_msgs = [], sr_shared = fst sw, sr_world = snd sw\<rparr>"
  from assms(1) False obtain r where r: "sub_entries_run ops m success pk (sp_entries pk) ?r0 = Inr r"
    "sw' = fold (\<lambda>(p, a). add_chunk p \<lparr>ci_cached = False, ci_hash = None, ci_chunk = a\<rparr>)
             (sr_new r) (sr_shared r, sr_world r)"
    by (auto simp: sub_chunk_update_run_def bind_result_Inr_iff)
  have "shared_inv oc os (sr_shared r, sr_world r) \<and> run_closed r"
    by (rule sub_entries_run_inv[OF r(1)]) (use assms(2,3) in \<open>simp_all add: run_closed_def world_closed_def\<close>)
  thus ?thesis unfolding r(2) by (intro add_chunks_inv) (simp_all add: run_closed_def)
qed

lemma remove_chunk_closed:
  "world_closed (snd sw) \<Longrightarrow> world_closed (snd (remove_chunk info p sw))"
proof -
  assume c: "world_closed (snd sw)"
  have "dom (w_subs (snd (remove_chunk info p sw))) = dom (w_subs (snd sw)) - {p}"
    "dom (w_chunks (snd (remove_chunk info p sw))) = dom (w_chunks (snd sw)) - {p}"
    by (cases sw; simp add: remove_chunk_def Let_def)+
  with c show "world_closed (snd (remove_chunk info p sw))"
    unfolding world_closed_def by (simp only: Diff_mono order_refl)
qed

lemma add_chunk_closed:
  assumes "world_closed w"
  shows "world_closed (snd (add_chunk p info (s, w)))"
  using assms add_chunk_frame[of p info "(s, w)", unfolded snd_conv] unfolding world_closed_def by blast

lemma chunk_update_run_closed:
  assumes "world_closed (snd sw)"
  shows "world_closed (snd (snd (chunk_update_run ops m pk sw)))"
  using assms by (simp add: chunk_update_run_def add_chunk_closed split: prod.splits sum.splits)

lemma clean_one_inv:
  "shared_inv oc os sw \<Longrightarrow> world_closed (snd sw) \<Longrightarrow>
   shared_inv oc os (clean_one nan radius pos p sw) \<and> world_closed (snd (clean_one nan radius pos p sw))"
  using remove_chunk_inv(1)[of oc os "fst sw" "snd sw" p] remove_chunk_closed[of sw]
    shared_inv_cong[of "fst sw" "fst sw" "(snd sw)\<lparr>w_exempted := w_exempted (snd sw) - {p}\<rparr>" "snd sw" oc os]
  by (auto simp: clean_one_def Let_def world_closed_def split: option.splits)

lemma purge_one_inv:
  "shared_inv oc os sw \<Longrightarrow> world_closed (snd sw) \<Longrightarrow>
   shared_inv oc os (purge_one p sw) \<and> world_closed (snd (purge_one p sw))"
  using remove_chunk_inv(1)[of oc os "fst sw" "snd sw" p] remove_chunk_closed[of sw]
  by (auto simp: purge_one_def split: option.splits)

lemma fold_inv:
  assumes "\<And>x s. P s \<Longrightarrow> P (f x s)"
  shows "P s \<Longrightarrow> P (fold f xs s)"
  by (induction xs arbitrary: s) (auto simp: assms)

lemma clean_chunks_inv:
  assumes "shared_inv oc os sw" "world_closed (snd sw)"
  shows "shared_inv oc os (clean_chunks nan order radius pos sw)
    \<and> world_closed (snd (clean_chunks nan order radius pos sw))"
proof -
  have i: "shared_inv oc os (fst sw, (snd sw)\<lparr>w_stw := n\<rparr>)"
    "shared_inv oc os (fst sw, (snd sw)\<lparr>w_last_clean := pos\<rparr>)" for n
    using assms(1) shared_inv_cong[of "fst sw" "fst sw" "(snd sw)\<lparr>w_stw := n\<rparr>" "snd sw" oc os]
      shared_inv_cong[of "fst sw" "fst sw" "(snd sw)\<lparr>w_last_clean := pos\<rparr>" "snd sw" oc os] by auto
  have "world_closed ((snd sw)\<lparr>w_last_clean := pos\<rparr>)" using assms(2) by (simp add: world_closed_def)
  with i have "shared_inv oc os (fold (clean_one nan radius pos) order (fst sw, (snd sw)\<lparr>w_last_clean := pos\<rparr>))
    \<and> world_closed (snd (fold (clean_one nan radius pos) order (fst sw, (snd sw)\<lparr>w_last_clean := pos\<rparr>)))"
    by (intro fold_inv[where P = "\<lambda>sw. shared_inv oc os sw \<and> world_closed (snd sw)"]) (simp_all add: clean_one_inv[of oc os])
  with assms i show ?thesis by (auto simp: clean_chunks_def world_closed_def)
qed

lemma purge_chunks_inv:
  assumes "shared_inv oc os sw" "world_closed (snd sw)"
  shows "shared_inv oc os (purge_chunks order sw) \<and> world_closed (snd (purge_chunks order sw))"
  unfolding purge_chunks_def
  by (rule fold_inv[where P = "\<lambda>sw. shared_inv oc os sw \<and> world_closed (snd sw)"])
    (simp_all add: purge_one_inv[of oc os] assms)

lemma set_block_frame [simp]:
  "w_chunks (world_set_block ops pos b w) = w_chunks w" "w_subs (world_set_block ops pos b w) = w_subs w"
  by (simp_all add: world_set_block_def Let_def)

lemma world_block_frame [simp]:
  "w_chunks (snd (world_block ops s pos w)) = w_chunks w" "w_subs (snd (world_block ops s pos w)) = w_subs w"
  by (auto simp: world_block_def Let_def split: option.splits prod.splits)

lemma world_closed_updates [simp]:
  "world_closed (world_set_block ops pos b w) = world_closed w"
  "world_closed (snd (world_block ops s pos w)) = world_closed w"
  by (simp_all add: world_closed_def)

section \<open>Runs of one session\<close>

datatype 'b world_event
  = EvChunk level_chunk
  | EvSubChunk sub_chunk_pk
  | EvClean "cpos list" int cpos
  | EvPurge "cpos list"
  | EvSetBlock bpos 'b
  | EvReadBlock bpos

definition world_step ::
  "('h, 'c, 'sc, 'd, 'b) chunk_ops \<Rightarrow> mode \<Rightarrow> int \<Rightarrow> int \<Rightarrow> 'b world_event
   \<Rightarrow> ('h, 'c, 'sc) shared \<times> ('h, 'b) world \<Rightarrow> (('h, 'c, 'sc) shared \<times> ('h, 'b) world) result" where
  "world_step ops m success nan ev sw = (case ev of
      EvChunk pk \<Rightarrow> Inr (snd (chunk_update_run ops m pk sw))
    | EvSubChunk pk \<Rightarrow> bind_result (sub_chunk_update_run ops m success pk sw) (\<lambda>(_, sw). Inr sw)
    | EvClean order radius pos \<Rightarrow> Inr (clean_chunks nan order radius pos sw)
    | EvPurge order \<Rightarrow> Inr (purge_chunks order sw)
    | EvSetBlock pos b \<Rightarrow> Inr (fst sw, world_set_block ops pos b (snd sw))
    | EvReadBlock pos \<Rightarrow> Inr (fst sw, snd (world_block ops (fst sw) pos (snd sw))))"

fun world_run ::
  "('h, 'c, 'sc, 'd, 'b) chunk_ops \<Rightarrow> mode \<Rightarrow> int \<Rightarrow> int \<Rightarrow> 'b world_event list
   \<Rightarrow> ('h, 'c, 'sc) shared \<times> ('h, 'b) world \<Rightarrow> (('h, 'c, 'sc) shared \<times> ('h, 'b) world) result" where
  "world_run ops m success nan [] sw = Inr sw"
| "world_run ops m success nan (ev # evs) sw =
     bind_result (world_step ops m success nan ev sw) (world_run ops m success nan evs)"

lemma world_step_inv:
  assumes "world_step ops m success nan ev sw = Inr sw'" "shared_inv oc os sw" "world_closed (snd sw)"
  shows "shared_inv oc os sw' \<and> world_closed (snd sw')"
proof (cases ev)
  case (EvSubChunk pk)
  with assms show ?thesis
    by (auto simp: world_step_def bind_result_Inr_iff dest: sub_chunk_update_run_inv)
next
  case (EvSetBlock pos b)
  with assms shared_inv_cong[of "fst sw" "fst sw" "world_set_block ops pos b (snd sw)" "snd sw" oc os]
  show ?thesis by (auto simp: world_step_def)
next
  case (EvReadBlock pos)
  with assms shared_inv_cong[of "fst sw" "fst sw" "snd (world_block ops (fst sw) pos (snd sw))" "snd sw" oc os]
  show ?thesis by (auto simp: world_step_def)
qed (use assms chunk_update_run_inv[OF assms(2)] chunk_update_run_closed[OF assms(3)]
      clean_chunks_inv[OF assms(2,3)] purge_chunks_inv[OF assms(2,3)] in \<open>auto simp: world_step_def\<close>)

lemma world_run_inv:
  "world_run ops m success nan evs sw = Inr sw' \<Longrightarrow> shared_inv oc os sw \<Longrightarrow> world_closed (snd sw) \<Longrightarrow>
   shared_inv oc os sw' \<and> world_closed (snd sw')"
proof (induction evs arbitrary: sw)
  case (Cons ev evs)
  from Cons.prems(1) obtain sw1 where "world_step ops m success nan ev sw = Inr sw1"
    "world_run ops m success nan evs sw1 = Inr sw'" by (auto simp: bind_result_Inr_iff)
  with Cons world_step_inv show ?case by blast
qed simp

lemma remove_chunk_chunks: "w_chunks (snd (remove_chunk info p sw)) = (w_chunks (snd sw))(p := None)"
  by (simp add: remove_chunk_def Let_def split: prod.splits)

lemma purge_chunks_dom: "dom (w_chunks (snd (purge_chunks order sw))) = dom (w_chunks (snd sw)) - set order"
proof (induction order arbitrary: sw)
  case (Cons p order)
  have "dom (w_chunks (snd (purge_one p sw))) = dom (w_chunks (snd sw)) - {p}"
    by (auto simp: purge_one_def remove_chunk_chunks split: option.splits)
  with Cons[of "purge_one p sw"] show ?case by (auto simp: purge_chunks_def)
qed (simp add: purge_chunks_def)


section \<open>Cleaning\<close>

lemma clean_one_other:
  "q \<noteq> p \<Longrightarrow> w_chunks (snd (clean_one nan radius pos p sw)) q = w_chunks (snd sw) q"
  "q \<noteq> p \<Longrightarrow> (q \<in> w_exempted (snd (clean_one nan radius pos p sw))) = (q \<in> w_exempted (snd sw))"
  by (auto simp: clean_one_def Let_def remove_chunk_def split: option.splits prod.splits)

lemma clean_one_same:
  "w_chunks (snd (clean_one nan radius pos p sw)) p =
     (if p \<notin> w_exempted (snd sw) \<and> \<not> chunk_in_range nan radius p pos then None else w_chunks (snd sw) p)"
  "(p \<in> w_exempted (snd (clean_one nan radius pos p sw))) =
     (p \<in> w_exempted (snd sw) \<and> \<not> (w_chunks (snd sw) p \<noteq> None \<and> chunk_in_range nan radius p pos))"
  by (auto simp: clean_one_def Let_def remove_chunk_def split: option.splits prod.splits)

lemma clean_all:
  assumes "distinct order"
  shows "w_chunks (snd (fold (clean_one nan radius pos) order sw)) q =
     (if q \<in> set order \<and> q \<notin> w_exempted (snd sw) \<and> \<not> chunk_in_range nan radius q pos
      then None else w_chunks (snd sw) q)"
    and "(q \<in> w_exempted (snd (fold (clean_one nan radius pos) order sw))) =
     (q \<in> w_exempted (snd sw) \<and> \<not> (q \<in> set order \<and> w_chunks (snd sw) q \<noteq> None \<and> chunk_in_range nan radius q pos))"
  using assms
proof (induction order arbitrary: sw)
  case (Cons p order)
  {
    case 1
    show ?case
      using Cons.IH(1)[of "clean_one nan radius pos p sw"] 1
      by (cases "q = p") (auto simp: clean_one_other clean_one_same)
  next
    case 2
    show ?case
      using Cons.IH(2)[of "clean_one nan radius pos p sw"] 2
      by (cases "q = p") (auto simp: clean_one_other clean_one_same)
  }
qed simp_all

section \<open>A concrete library\<close>

text \<open>Chunks and sub-chunks that are numbers, payloads that are their own hashes.\<close>
definition sample_chunk_ops :: "(bytes, nat, nat, nat, nat) chunk_ops" where
  "sample_chunk_ops = \<lparr>co_hash = (\<lambda>p _. p), co_dimension = (\<lambda>i. if i = 0 then Some 0 else None),
     co_overworld = 0, co_decode = (\<lambda>p _ _. Inr (length p)),
     co_decode_buffer = (\<lambda>p _ _. Inr (length p, [])), co_convert = id, co_compact = id,
     co_encode = (\<lambda>_. ([], [])), co_encode_hashes = (\<lambda>_. ([], [])),
     co_decode_sub = (\<lambda>p _. Inr (0, length p)), co_convert_sub = id, co_new_chunk = id,
     co_put_sub = (\<lambda>_ sc _. Some sc), co_block = (\<lambda>c _ _ _. word_of_int (int c)),
     co_block_by_rid = (\<lambda>r. Some (unat r)), co_rid_of_block = (\<lambda>b. word_of_int (int b)), co_air = 0,
     co_out_of_bounds = (\<lambda>(x, y, z). y < -64 \<or> 319 < y)\<rparr>"

definition empty_shared :: "('h, 'c, 'sc) shared" where
  "empty_shared = \<lparr>sh_chunks = Map.empty, sh_subs = Map.empty, sh_heap = Map.empty, sh_next = 0\<rparr>"

lemma shared_inv_empty: "shared_inv (\<lambda>_. 0) (\<lambda>_. 0) (empty_shared, new_world)"
  by (simp add: shared_inv_def empty_shared_def new_world_def chunks_ok_def subs_ok_def map_ok_def
      chunk_uses_def sub_uses_def map_uses_def held_chunks_def held_subs_def)

definition sample_start :: "(bytes, nat, nat) shared \<times> (bytes, nat) world" where
  "sample_start = (empty_shared, new_world)"

section \<open>Properties\<close>

text \<open>C3: Whatever a session does with its world (chunk and sub-chunk packets, cleaning in any
  order, purges, block updates and reads), the process-wide caches keep counting exactly: the
  count of every entry is what the other sessions use plus what this world holds, and an entry
  is in a cache exactly while its count is positive.\<close>
theorem cache_counts_what_sessions_hold:
  assumes "shared_inv oc os sw" "world_closed (snd sw)" "world_run ops m success nan evs sw = Inr sw'"
  shows "chunk_uses (fst sw') h = oc h + held_chunks (snd sw') h
     \<and> sub_uses (fst sw') h = os h + held_subs (snd sw') h
     \<and> (sh_chunks (fst sw') h \<noteq> None \<longleftrightarrow> 0 < oc h + held_chunks (snd sw') h)
     \<and> (sh_subs (fst sw') h \<noteq> None \<longleftrightarrow> 0 < os h + held_subs (snd sw') h)"
proof -
  from world_run_inv[OF assms(3,1,2)] have inv: "shared_inv oc os sw'" by blast
  have "chunks_ok (fst sw')" "subs_ok (fst sw')" using inv by (simp_all add: shared_inv_def)
  from cchunk.present_uses[OF this(1)] csub.present_uses[OF this(2)] inv
  show ?thesis by (simp add: shared_inv_def)
qed

text \<open>Two chunks with one payload, the first position replaced by another payload.\<close>
definition sample_events :: "nat world_event list" where
  "sample_events =
    [EvChunk \<lparr>lc_pos = (0, 0), lc_dimension = 0, lc_sub_count = 1, lc_cache_enabled = False, lc_payload = [7]\<rparr>,
     EvChunk \<lparr>lc_pos = (1, 0), lc_dimension = 0, lc_sub_count = 1, lc_cache_enabled = False, lc_payload = [7]\<rparr>,
     EvChunk \<lparr>lc_pos = (0, 0), lc_dimension = 0, lc_sub_count = 1, lc_cache_enabled = False, lc_payload = [8]\<rparr>]"

theorem cache_counts_what_sessions_hold_witness:
  "\<exists>sw. world_run sample_chunk_ops RuntimeIDs 1 0 sample_events (empty_shared, new_world) = Inr sw
     \<and> chunk_uses (fst sw) [7] = held_chunks (snd sw) [7]"
proof -
  obtain sw where sw: "world_run sample_chunk_ops RuntimeIDs 1 0 sample_events (empty_shared, new_world) = Inr sw"
    by (simp add: sample_events_def world_step_def)
  have "world_closed (snd (empty_shared, new_world))" by (simp add: world_closed_def new_world_def)
  from cache_counts_what_sessions_hold[OF shared_inv_empty this sw, of "[7]"] sw show ?thesis by auto
qed

text \<open>Purging a world, as a transfer to another backend does, gives back everything the world
  took: no chunk and no sub-chunk is left in the world, each cache count is again the count of
  the other sessions, and an entry that nobody else uses is gone from the cache.\<close>
theorem purge_returns_everything:
  assumes "shared_inv oc os sw" "world_closed (snd sw)" "set order = dom (w_chunks (snd sw))"
  shows "w_chunks (snd (purge_chunks order sw)) = Map.empty
     \<and> w_subs (snd (purge_chunks order sw)) = Map.empty
     \<and> chunk_uses (fst (purge_chunks order sw)) h = oc h
     \<and> sub_uses (fst (purge_chunks order sw)) h = os h
     \<and> (oc h = 0 \<longrightarrow> sh_chunks (fst (purge_chunks order sw)) h = None)
     \<and> (os h = 0 \<longrightarrow> sh_subs (fst (purge_chunks order sw)) h = None)"
proof -
  let ?sw = "purge_chunks order sw"
  have inv: "shared_inv oc os ?sw" "world_closed (snd ?sw)" using purge_chunks_inv[OF assms(1,2)] by auto
  have "dom (w_chunks (snd ?sw)) = {}" using purge_chunks_dom[of order sw] assms(3) by simp
  hence e: "w_chunks (snd ?sw) = Map.empty" "w_subs (snd ?sw) = Map.empty"
    using inv(2) by (simp_all add: world_closed_def)
  hence "held_chunks (snd ?sw) h = 0" "held_subs (snd ?sw) h = 0"
    by (simp_all add: held_chunks_def held_subs_def)
  moreover have "chunks_ok (fst ?sw)" "subs_ok (fst ?sw)" using inv(1) by (simp_all add: shared_inv_def)
  ultimately show ?thesis
    using e inv(1) cchunk.present_uses[of "fst ?sw" h] csub.present_uses[of "fst ?sw" h]
    by (auto simp: shared_inv_def)
qed

theorem purge_returns_everything_witness:
  "w_chunks (snd (purge_chunks [] sample_start)) = Map.empty
   \<and> sh_chunks (fst (purge_chunks [] sample_start)) [7] = None"
proof -
  have "shared_inv (\<lambda>_. 0) (\<lambda>_. 0) sample_start" "world_closed (snd sample_start)"
    "set [] = dom (w_chunks (snd sample_start))"
    using shared_inv_empty by (simp_all add: sample_start_def world_closed_def new_world_def)
  from purge_returns_everything[OF this, of "[7]"] show ?thesis by simp
qed

text \<open>When cleaning runs, it removes exactly the chunks that are out of range and not exempted,
  and it ends the exemption of exactly the exempted chunks that are in range: a chunk in range
  is never removed, and a chunk that was just received survives until it has been in range once.\<close>
theorem clean_removes_out_of_range:
  assumes "distinct order" "set order = dom (w_chunks w)" "w_stw w = 0" "pos \<noteq> w_last_clean w"
  shows "w_chunks (snd (clean_chunks nan order radius pos (s, w))) q =
      (if q \<notin> w_exempted w \<and> \<not> chunk_in_range nan radius q pos then None else w_chunks w q)
    \<and> (q \<in> w_exempted (snd (clean_chunks nan order radius pos (s, w))) \<longleftrightarrow>
       q \<in> w_exempted w \<and> \<not> (w_chunks w q \<noteq> None \<and> chunk_in_range nan radius q pos))"
proof -
  have o: "q \<in> set order \<longleftrightarrow> w_chunks w q \<noteq> None" using assms(2) by auto
  show ?thesis
    using assms(3,4) clean_all[OF assms(1), where nan = nan and radius = radius and pos = pos and q = q
        and sw = "(s, w\<lparr>w_last_clean := pos\<rparr>)"] o
    by (auto simp: clean_chunks_def)
qed

theorem clean_removes_out_of_range_witness:
  "w_chunks (snd (clean_chunks 0 [(0, 0), (9, 0)] 4 (1, 0)
      (empty_shared :: (bytes, nat, nat) shared,
       (new_world :: (bytes, nat) world)\<lparr>w_chunks := [(0, 0) \<mapsto> \<lparr>ci_cached = False, ci_hash = None, ci_chunk = 0\<rparr>,
                             (9, 0) \<mapsto> \<lparr>ci_cached = False, ci_hash = None, ci_chunk = 1\<rparr>]\<rparr>))) (9, 0) = None"
proof -
  have "\<not> chunk_in_range 0 4 (9, 0) (1, 0)"
    using chunk_in_range_small[of "(1, 0)" "(9, 0)" 4 0] by simp
  with clean_removes_out_of_range[of "[(0, 0), (9, 0)]"
      "(new_world :: (bytes, nat) world)\<lparr>w_chunks := [(0, 0) \<mapsto> \<lparr>ci_cached = False, ci_hash = None, ci_chunk = 0\<rparr>,
                             (9, 0) \<mapsto> \<lparr>ci_cached = False, ci_hash = None, ci_chunk = 1\<rparr>]\<rparr>" "(1, 0)" 0 4
      "empty_shared :: (bytes, nat, nat) shared" "(9, 0)"]
  show ?thesis by (simp add: new_world_def insert_commute)
qed

text \<open>A block update is read back, and only there: after a block is set at a position of the
  world, reading that position gives the block, and reading any other position gives what it
  gave before, whether or not the chunk was ever received.\<close>
theorem set_block_read_back:
  assumes "\<not> co_out_of_bounds ops pos"
  shows "fst (world_block ops s q (world_set_block ops pos b w))
     = (if q = pos then b else fst (world_block ops s q w))"
  using assms
  by (auto simp: world_block_def world_set_block_def world_chunk_def Let_def
      split: option.splits prod.splits)

theorem set_block_read_back_witness:
  "fst (world_block sample_chunk_ops (empty_shared :: (bytes, nat, nat) shared) (5, 70, -3)
      (world_set_block sample_chunk_ops (5, 70, -3) 42 new_world)) = 42"
  by (subst set_block_read_back) (simp_all add: sample_chunk_ops_def)

end
