(* ===== verification/Proxy.thy ===== *)
theory Proxy
  imports Prelude
begin

text \<open>
  The transfer proxy of \<^verbatim>\<open>src/deps/proxy\<close>: the rewriting of entity identifiers in
  both directions, the tracker of client-visible state (state_tracker.go), and the session
  that replaces its backend while the client stays connected (proxy.go).

  Packets are a datatype with the fields that the code reads or writes; the constants of
  the packet library are a record; positions and angles are values of \<^verbatim>\<open>'v\<close> and
  \<^verbatim>\<open>'f\<close>, game rules of \<^verbatim>\<open>'g\<close>, player identifiers of \<^verbatim>\<open>'u\<close>.
\<close>

section \<open>Packets\<close>

text \<open>A player-list entry: its identifier and its action.\<close>
type_synonym 'u list_entry = "'u \<times> int"

datatype ('v, 'f, 'g, 'u) pk
  = PkAddPlayer "64 word" "64 word"
  | PkAddActor "64 word" "64 word"
  | PkAddItemActor "64 word" "64 word"
  | PkAddPainting "64 word" "64 word"
  | PkMoveActorAbsolute "64 word"
  | PkMovePlayer "64 word" 'v 'f 'f 'f int
  | PkMobEquipment "64 word"
  | PkAnimate "64 word"
  | PkActorEvent "64 word"
  | PkPlayerAction "64 word" int
  | PkSetActorData "64 word"
  | PkSetActorMotion "64 word"
  | PkUpdateAttributes "64 word"
  | PkMobEffect "64 word" int int
  | PkRespawn "64 word"
  | PkMobArmourEquipment "64 word"
  | PkUpdateAbilities "64 word"
  | PkContainerOpen "64 word"
  | PkRemoveActor "64 word"
  | PkInteract "64 word"
  | PkInventoryTransaction "64 word option"
  | PkBossEvent "64 word" int
  | PkPlayerList "'u list_entry list"
  | PkSetDisplayObjective string
  | PkRemoveObjective string
  | PkStopSound bool
  | PkLevelEvent int int
  | PkChangeDimension int 'v
  | PkPlayStatus int
  | PkSetPlayerGameType int
  | PkSetDifficulty int
  | PkGameRulesChanged 'g
  | PkRequestChunkRadius int int
  | PkDisconnect string
  | PkTransfer string int
  | PkOther string

record pk_consts =
  k_dim_overworld :: int
  k_dim_nether :: int
  k_dim_end :: int
  k_boss_hide :: int
  k_effect_add :: int
  k_effect_modify :: int
  k_effect_remove :: int
  k_list_add :: int
  k_list_remove :: int
  k_stop_raining :: int
  k_stop_thunder :: int
  k_player_spawn :: int
  k_dimension_done :: int
  k_move_reset :: int

section \<open>The state tracker\<close>

record 'u state_tracker =
  bt_boss_bars :: "64 word set"
  bt_effects :: "int set"
  bt_entities :: "64 word set"
  bt_players :: "'u set"
  bt_scoreboards :: "string set"

definition new_state_tracker :: "'u state_tracker" where
  "new_state_tracker = \<lparr>bt_boss_bars = {}, bt_effects = {}, bt_entities = {}, bt_players = {},
     bt_scoreboards = {}\<rparr>"

definition track_entry :: "pk_consts \<Rightarrow> 'u list_entry \<Rightarrow> 'u set \<Rightarrow> 'u set" where
  "track_entry C e ps = (if snd e = k_list_add C then insert (fst e) ps else ps - {fst e})"

definition tracker_handle ::
  "pk_consts \<Rightarrow> 64 word \<Rightarrow> ('v, 'f, 'g, 'u) pk \<Rightarrow> 'u state_tracker \<Rightarrow> 'u state_tracker" where
  "tracker_handle C client_rid pk t = (case pk of
      PkAddActor _ uid \<Rightarrow> t\<lparr>bt_entities := insert uid (bt_entities t)\<rparr>
    | PkAddItemActor _ uid \<Rightarrow> t\<lparr>bt_entities := insert uid (bt_entities t)\<rparr>
    | PkAddPainting _ uid \<Rightarrow> t\<lparr>bt_entities := insert uid (bt_entities t)\<rparr>
    | PkAddPlayer _ uid \<Rightarrow> t\<lparr>bt_entities := insert uid (bt_entities t)\<rparr>
    | PkRemoveActor uid \<Rightarrow> t\<lparr>bt_entities := bt_entities t - {uid}\<rparr>
    | PkBossEvent uid ty \<Rightarrow>
        if ty = k_boss_hide C then t\<lparr>bt_boss_bars := bt_boss_bars t - {uid}\<rparr>
        else t\<lparr>bt_boss_bars := insert uid (bt_boss_bars t)\<rparr>
    | PkMobEffect rid ty operation \<Rightarrow>
        if rid \<noteq> client_rid then t
        else if operation = k_effect_add C \<or> operation = k_effect_modify C
        then t\<lparr>bt_effects := insert ty (bt_effects t)\<rparr>
        else if operation = k_effect_remove C then t\<lparr>bt_effects := bt_effects t - {ty}\<rparr>
        else t
    | PkPlayerList entries \<Rightarrow> t\<lparr>bt_players := fold (track_entry C) entries (bt_players t)\<rparr>
    | PkSetDisplayObjective obj \<Rightarrow> t\<lparr>bt_scoreboards := insert obj (bt_scoreboards t)\<rparr>
    | PkRemoveObjective obj \<Rightarrow> t\<lparr>bt_scoreboards := bt_scoreboards t - {obj}\<rparr>
    | _ \<Rightarrow> t)"

text \<open>The order in which the five maps are iterated.\<close>
record 'u clear_order =
  o_entities :: "64 word list"
  o_boss_bars :: "64 word list"
  o_effects :: "int list"
  o_players :: "'u list"
  o_scoreboards :: "string list"

definition order_of :: "'u clear_order \<Rightarrow> 'u state_tracker \<Rightarrow> bool" where
  "order_of ord t \<longleftrightarrow> set (o_entities ord) = bt_entities t \<and> set (o_boss_bars ord) = bt_boss_bars t
     \<and> set (o_effects ord) = bt_effects t \<and> set (o_players ord) = bt_players t
     \<and> set (o_scoreboards ord) = bt_scoreboards t"

definition clear_packets ::
  "pk_consts \<Rightarrow> 64 word \<Rightarrow> 'u clear_order \<Rightarrow> 'u state_tracker
   \<Rightarrow> ('v, 'f, 'g, 'u) pk list \<times> 'u state_tracker" where
  "clear_packets C client_rid ord t =
    (map PkRemoveActor (o_entities ord)
     @ map (\<lambda>uid. PkBossEvent uid (k_boss_hide C)) (o_boss_bars ord)
     @ map (\<lambda>ty. PkMobEffect client_rid ty (k_effect_remove C)) (o_effects ord)
     @ (if o_players ord \<noteq> [] then [PkPlayerList (map (\<lambda>u. (u, k_list_remove C)) (o_players ord))] else [])
     @ map PkRemoveObjective (o_scoreboards ord),
     new_state_tracker)"

section \<open>Identifiers\<close>

abbreviation max_int64 :: "64 word" where "max_int64 \<equiv> 0x7FFFFFFFFFFFFFFF"

text \<open>The rewriting of one identifier on the way to the client.\<close>
definition rewrite_down :: "64 word \<Rightarrow> 64 word \<Rightarrow> 64 word \<Rightarrow> 64 word" where
  "rewrite_down backend client i =
    (if i = backend then client else if backend \<noteq> client \<and> i = client then max_int64 else i)"

text \<open>The rewriting of a target on the way to the backend.\<close>
definition rewrite_up :: "64 word \<Rightarrow> 64 word \<Rightarrow> 64 word \<Rightarrow> 64 word" where
  "rewrite_up client backend i =
    (if i = max_int64 then client else if i = client then backend else i)"

section \<open>The session\<close>

record ('v, 'f, 'g) game_data =
  gd_rid :: "64 word"
  gd_uid :: "64 word"
  gd_dimension :: int
  gd_hashes :: bool
  gd_radius :: int
  gd_position :: 'v
  gd_pitch :: 'f
  gd_yaw :: 'f
  gd_game_mode :: int
  gd_difficulty :: int
  gd_rules :: 'g

text \<open>
  Backends are values of \<^verbatim>\<open>'b\<close>.  The session's output: the packets written to the
  client, the packets written to backends, the backends that were closed and the addresses
  whose transfer the handler was told has failed.
\<close>
record ('v, 'f, 'g, 'u, 'b) session =
  ss_backend :: 'b
  ss_generation :: "64 word"
  ss_client_rid :: "64 word"
  ss_client_uid :: "64 word"
  ss_client_dim :: int
  ss_hashes :: bool
  ss_backend_rid :: "64 word"
  ss_backend_uid :: "64 word"
  ss_radius :: int
  ss_tracker :: "'u state_tracker"
  ss_to_client :: "('v, 'f, 'g, 'u) pk list"
  ss_to_backend :: "('b \<times> ('v, 'f, 'g, 'u) pk) list"
  ss_closed :: "'b list"
  ss_failed :: "string list"

text \<open>
  What the session gets from its connections and its handler: the outcome of a dial, the
  game data and spawn of a backend, whether the handler takes a backend or forwards a packet
  (possibly changed), whether the n-th write to the client succeeds, and the handler's
  override of the chunk radius.
\<close>
record ('v, 'f, 'g, 'u, 'b) env =
  ev_ctx_done :: bool
  ev_dial :: "string \<Rightarrow> 'b option"
  ev_data :: "'b \<Rightarrow> ('v, 'f, 'g) game_data"
  ev_spawn :: "'b \<Rightarrow> bool"
  ev_handler_takes :: "'b \<Rightarrow> bool"
  ev_client_write :: "nat \<Rightarrow> bool"
  ev_backend_write :: "'b \<Rightarrow> ('v, 'f, 'g, 'u) pk \<Rightarrow> bool"
  ev_flush :: "'b \<Rightarrow> bool"
  ev_radius :: "int option"
  ev_from_client :: "('v, 'f, 'g, 'u) pk \<Rightarrow> ('v, 'f, 'g, 'u) pk option"
  ev_from_server :: "('v, 'f, 'g, 'u) pk \<Rightarrow> ('v, 'f, 'g, 'u) pk option"
  ev_consts :: pk_consts
  ev_order :: "'u state_tracker \<Rightarrow> 'u clear_order"
  ev_remote :: string

definition new_session :: "('v, 'f, 'g, 'u, 'b) env \<Rightarrow> 'b \<Rightarrow> ('v, 'f, 'g, 'u, 'b) session" where
  "new_session E b = (let d = ev_data E b in
     \<lparr>ss_backend = b, ss_generation = 0, ss_client_rid = gd_rid d, ss_client_uid = gd_uid d,
      ss_client_dim = gd_dimension d, ss_hashes = gd_hashes d, ss_backend_rid = gd_rid d,
      ss_backend_uid = gd_uid d, ss_radius = gd_radius d, ss_tracker = new_state_tracker,
      ss_to_client = [], ss_to_backend = [], ss_closed = [], ss_failed = []\<rparr>)"

definition rewrite_client_packet ::
  "('v, 'f, 'g, 'u, 'b) session \<Rightarrow> ('v, 'f, 'g, 'u) pk \<Rightarrow> ('v, 'f, 'g, 'u) pk" where
  "rewrite_client_packet s pk =
    (let own = (\<lambda>i. if i = ss_client_rid s then ss_backend_rid s else i);
         target = rewrite_up (ss_client_rid s) (ss_backend_rid s)
     in case pk of
          PkMovePlayer i p a b c m \<Rightarrow> PkMovePlayer (own i) p a b c m
        | PkMobEquipment i \<Rightarrow> PkMobEquipment (own i)
        | PkAnimate i \<Rightarrow> PkAnimate (own i)
        | PkPlayerAction i a \<Rightarrow> PkPlayerAction (own i) a
        | PkRespawn i \<Rightarrow> PkRespawn (own i)
        | PkInteract i \<Rightarrow> PkInteract (target i)
        | PkInventoryTransaction (Some i) \<Rightarrow> PkInventoryTransaction (Some (target i))
        | PkContainerOpen u \<Rightarrow>
            PkContainerOpen (if u = ss_client_uid s then ss_backend_uid s else u)
        | _ \<Rightarrow> pk)"

text \<open>\<^verbatim>\<open>rewriteServerPacket\<close>: \<^verbatim>\<open>None\<close> is a packet that is not forwarded.\<close>
definition rewrite_server_packet ::
  "('v, 'f, 'g, 'u, 'b) session \<Rightarrow> ('v, 'f, 'g, 'u) pk \<Rightarrow> ('v, 'f, 'g, 'u) pk option" where
  "rewrite_server_packet s pk =
    (let r = rewrite_down (ss_backend_rid s) (ss_client_rid s);
         u = rewrite_down (ss_backend_uid s) (ss_client_uid s)
     in case pk of
          PkAddPlayer i v \<Rightarrow> if i = ss_backend_rid s then None else Some (PkAddPlayer (r i) (u v))
        | PkAddActor i v \<Rightarrow> if i = ss_backend_rid s then None else Some (PkAddActor (r i) (u v))
        | PkAddItemActor i v \<Rightarrow> Some (PkAddItemActor (r i) (u v))
        | PkAddPainting i v \<Rightarrow> Some (PkAddPainting (r i) (u v))
        | PkMoveActorAbsolute i \<Rightarrow> Some (PkMoveActorAbsolute (r i))
        | PkMovePlayer i p a b c m \<Rightarrow> Some (PkMovePlayer (r i) p a b c m)
        | PkMobEquipment i \<Rightarrow> Some (PkMobEquipment (r i))
        | PkAnimate i \<Rightarrow> Some (PkAnimate (r i))
        | PkActorEvent i \<Rightarrow> Some (PkActorEvent (r i))
        | PkPlayerAction i a \<Rightarrow> Some (PkPlayerAction (r i) a)
        | PkSetActorData i \<Rightarrow> Some (PkSetActorData (r i))
        | PkSetActorMotion i \<Rightarrow> Some (PkSetActorMotion (r i))
        | PkUpdateAttributes i \<Rightarrow> Some (PkUpdateAttributes (r i))
        | PkMobEffect i ty operation \<Rightarrow> Some (PkMobEffect (r i) ty operation)
        | PkRespawn i \<Rightarrow> Some (PkRespawn (r i))
        | PkMobArmourEquipment i \<Rightarrow> Some (PkMobArmourEquipment (r i))
        | PkUpdateAbilities v \<Rightarrow> Some (PkUpdateAbilities (u v))
        | PkContainerOpen v \<Rightarrow> Some (PkContainerOpen (u v))
        | PkRemoveActor v \<Rightarrow> Some (PkRemoveActor (u v))
        | _ \<Rightarrow> Some pk)"

definition write_client ::
  "('v, 'f, 'g, 'u, 'b) env \<Rightarrow> ('v, 'f, 'g, 'u) pk \<Rightarrow> ('v, 'f, 'g, 'u, 'b) session
   \<Rightarrow> bool \<times> ('v, 'f, 'g, 'u, 'b) session" where
  "write_client E pk s =
    (if ev_client_write E (length (ss_to_client s)) then (True, s\<lparr>ss_to_client := ss_to_client s @ [pk]\<rparr>)
     else (False, s))"

definition write_backend ::
  "('v, 'f, 'g, 'u, 'b) env \<Rightarrow> ('v, 'f, 'g, 'u) pk \<Rightarrow> ('v, 'f, 'g, 'u, 'b) session
   \<Rightarrow> bool \<times> ('v, 'f, 'g, 'u, 'b) session" where
  "write_backend E pk s =
    (if ev_backend_write E (ss_backend s) pk
     then (True, s\<lparr>ss_to_backend := ss_to_backend s @ [(ss_backend s, pk)]\<rparr>) else (False, s))"

section \<open>Transfers\<close>

definition fake_dimension :: "pk_consts \<Rightarrow> int \<Rightarrow> int \<Rightarrow> int" where
  "fake_dimension C current target =
    (case find (\<lambda>d. d \<noteq> current \<and> d \<noteq> target) [k_dim_overworld C, k_dim_nether C, k_dim_end C] of
       None \<Rightarrow> k_dim_overworld C | Some d \<Rightarrow> d)"

definition transfer_reset_packets ::
  "pk_consts \<Rightarrow> int \<Rightarrow> ('v, 'f, 'g) game_data \<Rightarrow> ('v, 'f, 'g, 'u) pk list" where
  "transfer_reset_packets C current d =
    [PkStopSound True, PkLevelEvent (k_stop_raining C) 10000, PkLevelEvent (k_stop_thunder C) 0]
    @ (if current = gd_dimension d
       then [PkChangeDimension (fake_dimension C current (gd_dimension d)) (gd_position d),
             PkPlayStatus (k_player_spawn C), PkPlayerAction (gd_rid d) (k_dimension_done C)]
       else [])
    @ [PkChangeDimension (gd_dimension d) (gd_position d), PkPlayStatus (k_player_spawn C),
       PkPlayerAction (gd_rid d) (k_dimension_done C), PkSetPlayerGameType (gd_game_mode d),
       PkSetDifficulty (gd_difficulty d), PkGameRulesChanged (gd_rules d),
       PkMovePlayer (gd_rid d) (gd_position d) (gd_pitch d) (gd_yaw d) (gd_yaw d) (k_move_reset C)]"

fun write_all ::
  "('v, 'f, 'g, 'u, 'b) env \<Rightarrow> ('v, 'f, 'g, 'u) pk list \<Rightarrow> ('v, 'f, 'g, 'u, 'b) session
   \<Rightarrow> bool \<times> ('v, 'f, 'g, 'u, 'b) session" where
  "write_all E [] s = (True, s)"
| "write_all E (pk # pks) s =
    (case write_client E pk s of (True, s) \<Rightarrow> write_all E pks s | (False, s) \<Rightarrow> (False, s))"

text \<open>
  The packets of a reset are rewritten in place; one that would not be forwarded is written
  all the same, as the result of the rewriting is not looked at.
\<close>
definition rewrite_reset ::
  "('v, 'f, 'g, 'u, 'b) session \<Rightarrow> ('v, 'f, 'g, 'u) pk \<Rightarrow> ('v, 'f, 'g, 'u) pk" where
  "rewrite_reset s pk = (case rewrite_server_packet s pk of None \<Rightarrow> pk | Some pk' \<Rightarrow> pk')"

definition clamp_radius :: "int \<Rightarrow> int" where
  "clamp_radius r = min (max r 1) 255"

definition reset_transfer_state ::
  "('v, 'f, 'g, 'u, 'b) env \<Rightarrow> ('v, 'f, 'g, 'u, 'b) session \<Rightarrow> bool \<times> ('v, 'f, 'g, 'u, 'b) session" where
  "reset_transfer_state E s =
    (let (clears, t) = clear_packets (ev_consts E) (ss_client_rid s) (ev_order E (ss_tracker s)) (ss_tracker s);
         s = s\<lparr>ss_tracker := t\<rparr>
     in case write_all E clears s of
          (False, s) \<Rightarrow> (False, s)
        | (True, s) \<Rightarrow>
            let d = ev_data E (ss_backend s)
            in case write_all E (map (rewrite_reset s)
                       (transfer_reset_packets (ev_consts E) (ss_client_dim s) d)) s of
                 (False, s) \<Rightarrow> (False, s)
               | (True, s) \<Rightarrow>
                   let s = s\<lparr>ss_client_dim := gd_dimension d\<rparr>;
                       radius = clamp_radius (case ev_radius E of Some r \<Rightarrow> r | None \<Rightarrow> ss_radius s)
                   in case write_backend E (PkRequestChunkRadius radius radius) s of
                        (False, s) \<Rightarrow> (False, s)
                      | (True, s) \<Rightarrow> (ev_flush E (ss_backend s), s))"

definition swap_backend ::
  "('v, 'f, 'g, 'u, 'b) env \<Rightarrow> 'b \<Rightarrow> ('v, 'f, 'g, 'u, 'b) session \<Rightarrow> 'b \<times> ('v, 'f, 'g, 'u, 'b) session" where
  "swap_backend E b s = (ss_backend s,
     s\<lparr>ss_backend := b, ss_backend_rid := gd_rid (ev_data E b), ss_backend_uid := gd_uid (ev_data E b),
       ss_generation := ss_generation s + 1\<rparr>)"

definition close_backend :: "'b \<Rightarrow> ('v, 'f, 'g, 'u, 'b) session \<Rightarrow> ('v, 'f, 'g, 'u, 'b) session" where
  "close_backend b s = s\<lparr>ss_closed := ss_closed s @ [b]\<rparr>"

text \<open>Whether the transfer was committed, whether it succeeded, and the session.\<close>
definition transfer_locked ::
  "('v, 'f, 'g, 'u, 'b) env \<Rightarrow> string \<Rightarrow> ('v, 'f, 'g, 'u, 'b) session
   \<Rightarrow> bool \<times> bool \<times> ('v, 'f, 'g, 'u, 'b) session" where
  "transfer_locked E address s =
    (if ev_ctx_done E then (False, False, s)
     else case ev_dial E address of
            None \<Rightarrow> (False, False, s)
          | Some b \<Rightarrow>
              if gd_hashes (ev_data E b) \<noteq> ss_hashes s then (False, False, close_backend b s)
              else if \<not> ev_spawn E b then (False, False, close_backend b s)
              else if \<not> ev_handler_takes E b then (False, False, close_backend b s)
              else
                let (old, s) = swap_backend E b s;
                    (ok, s) = reset_transfer_state E s
                in (True, ok, close_backend old s))"

section \<open>The two loops\<close>

text \<open>One round of the client loop for a packet that was read; the flag is whether it goes on.\<close>
definition client_packet ::
  "('v, 'f, 'g, 'u, 'b) env \<Rightarrow> ('v, 'f, 'g, 'u) pk \<Rightarrow> ('v, 'f, 'g, 'u, 'b) session
   \<Rightarrow> bool \<times> ('v, 'f, 'g, 'u, 'b) session" where
  "client_packet E pk s =
    (case ev_from_client E (rewrite_client_packet s pk) of
       None \<Rightarrow> (True, s)
     | Some pk \<Rightarrow>
         write_backend E pk (case pk of PkRequestChunkRadius r _ \<Rightarrow> s\<lparr>ss_radius := r\<rparr> | _ \<Rightarrow> s))"

definition is_current :: "64 word \<Rightarrow> ('v, 'f, 'g, 'u, 'b) session \<Rightarrow> bool" where
  "is_current generation s \<longleftrightarrow> ss_generation s = generation"

text \<open>
  One round of the backend loop for a packet that was read in the given generation: whether
  the loop goes on, its count of failures in a row, and the session.
  \<^verbatim>\<open>net.JoinHostPort\<close> is a library function of host and port.
\<close>
definition backend_packet ::
  "(string \<Rightarrow> int \<Rightarrow> string) \<Rightarrow> ('v, 'f, 'g, 'u, 'b) env \<Rightarrow> 64 word \<Rightarrow> ('v, 'f, 'g, 'u) pk \<Rightarrow> int
   \<Rightarrow> ('v, 'f, 'g, 'u, 'b) session \<Rightarrow> bool \<times> int \<times> ('v, 'f, 'g, 'u, 'b) session" where
  "backend_packet join_host_port E generation pk failures s =
    (if \<not> is_current generation s then (True, failures, s)
     else case pk of
            PkTransfer host port \<Rightarrow>
              (let address = join_host_port host port
               in case transfer_locked E address s of
                    (committed, ok, s) \<Rightarrow>
                      if ok then (True, 0, s)
                      else if committed then (False, 0, s)
                      else (True, 0, s\<lparr>ss_failed := ss_failed s @ [address]\<rparr>))
          | _ \<Rightarrow>
              (case ev_from_server E pk of
                 None \<Rightarrow> (True, 0, s)
               | Some pk \<Rightarrow>
                   (case rewrite_server_packet s pk of
                      None \<Rightarrow> (True, 0, s)
                    | Some pk \<Rightarrow>
                        let (ok, s) = write_client E pk
                          (s\<lparr>ss_tracker := tracker_handle (ev_consts E) (ss_client_rid s) pk (ss_tracker s)\<rparr>)
                        in (ok, 0, s))))"

section \<open>Backend errors\<close>

text \<open>
  Errors as the standard library composes them: a disconnect reason (the string and the text
  that its \<^verbatim>\<open>Error\<close> method gives), a network operation with its cause, the closed-connection error, a join of errors, a wrapper, any other error.
\<close>
datatype goerr
  = EDisconnect string string
  | EOp string goerr
  | EClosed
  | EJoined "goerr list"
  | EWrap goerr
  | EOther string

text \<open>\<^verbatim>\<open>errors.As\<close> for a disconnect reason and \<^verbatim>\<open>errors.Is\<close> for the closed error.\<close>
fun as_disconnect :: "goerr \<Rightarrow> (string \<times> string) option" and as_disconnect_any :: "goerr list \<Rightarrow> (string \<times> string) option" where
  "as_disconnect (EDisconnect m t) = Some (m, t)"
| "as_disconnect (EOp _ e) = as_disconnect e"
| "as_disconnect EClosed = None"
| "as_disconnect (EJoined es) = as_disconnect_any es"
| "as_disconnect (EWrap e) = as_disconnect e"
| "as_disconnect (EOther _) = None"
| "as_disconnect_any [] = None"
| "as_disconnect_any (e # es) = (case as_disconnect e of Some m \<Rightarrow> Some m | None \<Rightarrow> as_disconnect_any es)"

fun is_closed :: "goerr \<Rightarrow> bool" where
  "is_closed EClosed = True"
| "is_closed (EOp _ e) = is_closed e"
| "is_closed (EJoined es) = list_ex is_closed es"
| "is_closed (EWrap e) = is_closed e"
| "is_closed _ = False"

definition internal_operations :: "string list" where
  "internal_operations = ['''', ''accept'', ''close'', ''dial'', ''do spawn'', ''flush'', ''read'',
     ''read packet'', ''start game'', ''write'', ''write packet'']"

definition player_facing_disconnect_operation :: "string \<Rightarrow> bool" where
  "player_facing_disconnect_operation operation \<longleftrightarrow> operation \<notin> set internal_operations"

fun legacy_message :: "goerr \<Rightarrow> string option" and legacy_message_any :: "goerr list \<Rightarrow> string option" where
  "legacy_message (EOp name e) =
    (case e of
       EOp op2 e2 \<Rightarrow>
         if is_closed e2 \<and> player_facing_disconnect_operation op2 then Some op2 else legacy_message e
     | _ \<Rightarrow> legacy_message e)"
| "legacy_message (EJoined es) = legacy_message_any es"
| "legacy_message (EWrap e) = legacy_message e"
| "legacy_message (EDisconnect _ _) = None"
| "legacy_message EClosed = None"
| "legacy_message (EOther _) = None"
| "legacy_message_any [] = None"
| "legacy_message_any (e # es) = (case legacy_message e of Some m \<Rightarrow> Some m | None \<Rightarrow> legacy_message_any es)"

definition backend_disconnect_message :: "goerr \<Rightarrow> string option" where
  "backend_disconnect_message e =
    (case as_disconnect e of
       Some (m, shown) \<Rightarrow> if m \<noteq> '''' then Some shown else legacy_message e
     | None \<Rightarrow> legacy_message e)"

text \<open>Durations in nanoseconds.\<close>
abbreviation initial_fallback_retry_delay :: int where "initial_fallback_retry_delay \<equiv> 100000000"
abbreviation maximum_fallback_retry_delay :: int where "maximum_fallback_retry_delay \<equiv> 2000000000"

text \<open>The loop runs at most \<^verbatim>\<open>n - 1\<close> times, \<^verbatim>\<open>k\<close> rounds being left.\<close>
fun fallback_loop :: "nat \<Rightarrow> int \<Rightarrow> int" where
  "fallback_loop 0 delay = delay"
| "fallback_loop (Suc k) delay =
    (if delay < maximum_fallback_retry_delay
     then fallback_loop k (min (delay * 2) maximum_fallback_retry_delay) else delay)"

definition fallback_retry_delay :: "int \<Rightarrow> int" where
  "fallback_retry_delay consecutive_failures =
     fallback_loop (nat (consecutive_failures - 1)) initial_fallback_retry_delay"

text \<open>
  A failed read of the current backend: a player-facing reason ends the session with a
  disconnect; otherwise, after the wait of \<^verbatim>\<open>recoverFallback\<close>, the session transfers to
  the configured backend.  The result: whether the loop goes on, the wait, the new count of
  failures and the session.
\<close>
definition backend_read_failed ::
  "('v, 'f, 'g, 'u, 'b) env \<Rightarrow> 64 word \<Rightarrow> goerr \<Rightarrow> int \<Rightarrow> ('v, 'f, 'g, 'u, 'b) session
   \<Rightarrow> bool \<times> int \<times> int \<times> ('v, 'f, 'g, 'u, 'b) session" where
  "backend_read_failed E generation err failures s =
    (if \<not> is_current generation s then (True, 0, failures, s)
     else case backend_disconnect_message err of
            Some reason \<Rightarrow> (False, 0, failures, snd (write_client E (PkDisconnect reason) s))
          | None \<Rightarrow>
              let wait = (if 0 < failures then fallback_retry_delay failures else 0)
              in (case transfer_locked E (ev_remote E) s of
                    (committed, ok, s) \<Rightarrow> (ok, wait, if ok then failures + 1 else failures, s)))"

end
