(* ===== verification/ProxyProps.thy ===== *)
theory ProxyProps
  imports Proxy "HOL-Library.List_Lexorder" "HOL-Library.Char_ord"
begin

text \<open>
  What the proxy session guarantees: the identifier rewriting is undone by the way back, the
  tracker is what the client displays in every reachable session, a committed transfer clears
  the client and closes the previous backend, a refused one changes nothing the client or the
  current backend can see, and packets of a replaced backend are dropped.
\<close>

section \<open>Identifiers\<close>

text \<open>The runtime identifier of a packet that names one entity.\<close>
fun pk_rid :: "('v, 'f, 'g, 'u) pk \<Rightarrow> 64 word option" where
  "pk_rid (PkMoveActorAbsolute i) = Some i"
| "pk_rid (PkMovePlayer i _ _ _ _ _) = Some i"
| "pk_rid (PkMobEquipment i) = Some i"
| "pk_rid (PkAnimate i) = Some i"
| "pk_rid (PkActorEvent i) = Some i"
| "pk_rid (PkPlayerAction i _) = Some i"
| "pk_rid (PkSetActorData i) = Some i"
| "pk_rid (PkSetActorMotion i) = Some i"
| "pk_rid (PkUpdateAttributes i) = Some i"
| "pk_rid (PkMobEffect i _ _) = Some i"
| "pk_rid (PkRespawn i) = Some i"
| "pk_rid (PkMobArmourEquipment i) = Some i"
| "pk_rid (PkAddPlayer i _) = Some i"
| "pk_rid (PkAddActor i _) = Some i"
| "pk_rid (PkAddItemActor i _) = Some i"
| "pk_rid (PkAddPainting i _) = Some i"
| "pk_rid _ = None"

lemma rewrite_down_client_iff:
  assumes "client \<noteq> max_int64"
  shows "rewrite_down backend client i = client \<longleftrightarrow> i = backend"
  using assms by (auto simp: rewrite_down_def)

lemma rewrite_up_down:
  assumes "client \<noteq> max_int64" "i \<noteq> max_int64"
  shows "rewrite_up client backend (rewrite_down backend client i) = i"
  using assms by (auto simp: rewrite_up_def rewrite_down_def)

lemma rewrite_server_rid:
  assumes "rewrite_server_packet s pk = Some pk'"
  shows "pk_rid pk' = map_option (rewrite_down (ss_backend_rid s) (ss_client_rid s)) (pk_rid pk)"
  using assms by (cases pk) (auto simp: rewrite_server_packet_def Let_def split: if_splits)

text \<open>C25: a forwarded backend packet about entity i reaches the client about an entity j that is
  the client's own exactly when i is the backend's player, and an interaction or attack on j is
  sent back to the backend as one on i (for identifiers below MaxInt64).\<close>
theorem server_ids_come_back:
  assumes "rewrite_server_packet s pk = Some pk'" "pk_rid pk = Some i"
    and "ss_client_rid s \<noteq> max_int64" "i \<noteq> max_int64"
  shows "\<exists>j. pk_rid pk' = Some j \<and> (j = ss_client_rid s \<longleftrightarrow> i = ss_backend_rid s)
     \<and> rewrite_client_packet s (PkInteract j) = PkInteract i
     \<and> rewrite_client_packet s (PkInventoryTransaction (Some j)) = PkInventoryTransaction (Some i)"
  using assms rewrite_server_rid[OF assms(1)]
  by (simp add: rewrite_down_client_iff rewrite_client_packet_def rewrite_up_down)

definition demo_data :: "64 word \<Rightarrow> int \<Rightarrow> (int, int, int) game_data" where
  "demo_data i dim = \<lparr>gd_rid = i, gd_uid = i + 100, gd_dimension = dim, gd_hashes = False,
     gd_radius = 8, gd_position = 64, gd_pitch = 0, gd_yaw = 0, gd_game_mode = 0,
     gd_difficulty = 1, gd_rules = 0\<rparr>"

definition demo_consts :: pk_consts where
  "demo_consts = \<lparr>k_dim_overworld = 0, k_dim_nether = 1, k_dim_end = 2, k_boss_hide = 2,
     k_effect_add = 1, k_effect_modify = 2, k_effect_remove = 3, k_list_add = 0, k_list_remove = 1,
     k_stop_raining = 3003, k_stop_thunder = 3004, k_player_spawn = 3, k_dimension_done = 14,
     k_move_reset = 1\<rparr>"

text \<open>Backends are numbered: backend n has runtime identifier n + 1 and dimension 0.\<close>
definition demo_env :: "(int, int, int, int, nat) env" where
  "demo_env = \<lparr>ev_ctx_done = False, ev_dial = (\<lambda>a. if a = ''hub'' then Some 1 else None),
     ev_data = (\<lambda>b. demo_data (of_nat b + 1) 0), ev_spawn = (\<lambda>_. True),
     ev_handler_takes = (\<lambda>_. True), ev_client_write = (\<lambda>_. True),
     ev_backend_write = (\<lambda>_ _. True), ev_flush = (\<lambda>_. True), ev_radius = None,
     ev_from_client = Some, ev_from_server = Some, ev_consts = demo_consts,
     ev_order = (\<lambda>t. \<lparr>o_entities = sorted_list_of_set (bt_entities t),
                      o_boss_bars = sorted_list_of_set (bt_boss_bars t),
                      o_effects = sorted_list_of_set (bt_effects t),
                      o_players = sorted_list_of_set (bt_players t),
                      o_scoreboards = sorted_list_of_set (bt_scoreboards t)\<rparr>),
     ev_remote = ''hub''\<rparr>"

definition demo_session :: "(int, int, int, int, nat) session" where
  "demo_session = (new_session demo_env 0)\<lparr>ss_backend := 1, ss_backend_rid := 2\<rparr>"

theorem server_ids_come_back_witness:
  "\<exists>j. pk_rid (PkAnimate 1 :: (int, int, int, int) pk) = Some 1
     \<and> rewrite_client_packet demo_session (PkInteract j) = PkInteract 1 \<and> j \<noteq> ss_client_rid demo_session"
  using server_ids_come_back[of demo_session "PkAnimate 1" "PkAnimate max_int64" 1]
  by (auto simp: demo_session_def new_session_def demo_env_def demo_data_def
        rewrite_server_packet_def rewrite_down_def Let_def)

section \<open>The tracker and the client's view\<close>

text \<open>What the client displays after a list of packets: the tracker's rules applied to it.\<close>
definition client_view :: "pk_consts \<Rightarrow> 64 word \<Rightarrow> ('v, 'f, 'g, 'u) pk list \<Rightarrow> 'u state_tracker" where
  "client_view C rid pks = fold (tracker_handle C rid) pks new_state_tracker"

lemma client_view_snoc: "client_view C rid (pks @ [pk]) = tracker_handle C rid pk (client_view C rid pks)"
  by (simp add: client_view_def)

lemma client_view_append:
  "client_view C rid (pks @ qks) = fold (tracker_handle C rid) qks (client_view C rid pks)"
  by (simp add: client_view_def)

definition consts_ok :: "pk_consts \<Rightarrow> bool" where
  "consts_ok C \<longleftrightarrow> k_effect_remove C \<noteq> k_effect_add C \<and> k_effect_remove C \<noteq> k_effect_modify C
     \<and> k_list_remove C \<noteq> k_list_add C
     \<and> distinct [k_dim_overworld C, k_dim_nether C, k_dim_end C]"

lemma tracker_handle_removals:
  "tracker_handle C rid (PkRemoveActor u) t = t\<lparr>bt_entities := bt_entities t - {u}\<rparr>"
  "tracker_handle C rid (PkBossEvent u (k_boss_hide C)) t = t\<lparr>bt_boss_bars := bt_boss_bars t - {u}\<rparr>"
  "tracker_handle C rid (PkRemoveObjective ob) t = t\<lparr>bt_scoreboards := bt_scoreboards t - {ob}\<rparr>"
  "tracker_handle C rid (PkPlayerList es) t = t\<lparr>bt_players := fold (track_entry C) es (bt_players t)\<rparr>"
  by (simp_all add: tracker_handle_def)

lemma tracker_handle_effect_remove:
  "consts_ok C \<Longrightarrow> tracker_handle C rid (PkMobEffect rid ty (k_effect_remove C)) t
     = t\<lparr>bt_effects := bt_effects t - {ty}\<rparr>"
  by (simp add: tracker_handle_def consts_ok_def)

lemma fold_remove_actor:
  "fold (tracker_handle C rid) (map PkRemoveActor us) t = t\<lparr>bt_entities := bt_entities t - set us\<rparr>"
  by (induction us arbitrary: t) (simp_all add: tracker_handle_removals Diff_insert2 [symmetric])

lemma fold_boss_hide:
  "fold (tracker_handle C rid) (map (\<lambda>u. PkBossEvent u (k_boss_hide C)) us) t
     = t\<lparr>bt_boss_bars := bt_boss_bars t - set us\<rparr>"
  by (induction us arbitrary: t) (simp_all add: tracker_handle_removals Diff_insert2 [symmetric])

lemma fold_effect_remove:
  assumes "consts_ok C"
  shows "fold (tracker_handle C rid) (map (\<lambda>ty. PkMobEffect rid ty (k_effect_remove C)) us) t
     = t\<lparr>bt_effects := bt_effects t - set us\<rparr>"
  by (induction us arbitrary: t)
    (simp_all add: tracker_handle_effect_remove[OF assms] Diff_insert2 [symmetric])

lemma fold_remove_objective:
  "fold (tracker_handle C rid) (map PkRemoveObjective us) t
     = t\<lparr>bt_scoreboards := bt_scoreboards t - set us\<rparr>"
  by (induction us arbitrary: t) (simp_all add: tracker_handle_removals Diff_insert2 [symmetric])

lemma fold_list_remove:
  assumes "consts_ok C"
  shows "fold (track_entry C) (map (\<lambda>u. (u, k_list_remove C)) us) ps = ps - set us"
  using assms
  by (induction us arbitrary: ps) (simp_all add: consts_ok_def track_entry_def Diff_insert2 [symmetric])

lemma players_removed:
  assumes "consts_ok C"
  shows "fold (tracker_handle C rid)
      (if us \<noteq> [] then [PkPlayerList (map (\<lambda>u. (u, k_list_remove C)) us)] else []) t
     = t\<lparr>bt_players := bt_players t - set us\<rparr>"
  by (simp add: tracker_handle_removals fold_list_remove[OF assms] del: fold_map)

lemma clear_packets_clear:
  assumes "consts_ok C" "order_of ord t"
  shows "fold (tracker_handle C rid) (fst (clear_packets C rid ord t)) t = new_state_tracker"
  using assms
  by (simp add: clear_packets_def fold_remove_actor fold_boss_hide fold_effect_remove[OF assms(1)]
      players_removed[OF assms(1)] fold_remove_objective order_of_def new_state_tracker_def
      del: fold_map)

section \<open>Writing to the client\<close>

text \<open>What writing to the client and the backend leaves alone.\<close>
definition session_core where
  "session_core s = (ss_backend s, ss_generation s, (ss_client_rid s, ss_client_uid s, ss_hashes s),
     (ss_backend_rid s, ss_backend_uid s), ss_radius s, ss_closed s, ss_failed s)"

lemma write_client_core: "session_core (snd (write_client E pk s)) = session_core s"
  by (simp add: write_client_def session_core_def)

lemma write_backend_core: "session_core (snd (write_backend E pk s)) = session_core s"
  by (simp add: write_backend_def session_core_def)

lemma write_all_core: "session_core (snd (write_all E pks s)) = session_core s"
proof (induction pks arbitrary: s)
  case (Cons pk pks)
  then show ?case using write_client_core[of E pk s]
    by (cases "write_client E pk s") (auto split: bool.split)
qed simp

lemma session_core_cong:
  "session_core (s\<lparr>ss_tracker := t\<rparr>) = session_core s"
  "session_core (s\<lparr>ss_client_dim := d\<rparr>) = session_core s"
  by (simp_all add: session_core_def)

lemma reset_core:
  fixes E :: "('v, 'f, 'g, 'u, 'b) env"
  shows "session_core (snd (reset_transfer_state E s)) = session_core s"
proof -
  define ps :: "('v, 'f, 'g, 'u) pk list \<times> 'u state_tracker" where "ps = clear_packets (ev_consts E) (ss_client_rid s) (ev_order E (ss_tracker s)) (ss_tracker s)"
  define s1 where "s1 = s\<lparr>ss_tracker := snd ps\<rparr>"
  define w where "w = write_all E (fst ps) s1"
  define d where "d = ev_data E (ss_backend (snd w))"
  define v where "v = write_all E (map (rewrite_reset (snd w))
     (transfer_reset_packets (ev_consts E) (ss_client_dim (snd w)) d)) (snd w)"
  have "session_core (snd w) = session_core s"
    by (simp add: w_def write_all_core s1_def session_core_cong)
  moreover have "session_core (snd v) = session_core (snd w)" by (simp add: v_def write_all_core)
  moreover have "session_core (snd (write_backend E pk ((snd v)\<lparr>ss_client_dim := dim\<rparr>)))
      = session_core (snd v)" for pk dim
    by (simp add: write_backend_core session_core_cong)
  ultimately show ?thesis
    unfolding reset_transfer_state_def Let_def ps_def[symmetric]
    by (auto simp: s1_def w_def v_def d_def case_prod_beta' split: bool.splits) 
qed

lemma write_all_True:
  "write_all E pks s = (True, s') \<Longrightarrow> s' = s\<lparr>ss_to_client := ss_to_client s @ pks\<rparr>"
proof (induction pks arbitrary: s)
  case (Cons pk pks)
  from Cons.prems have w: "write_all E pks (s\<lparr>ss_to_client := ss_to_client s @ [pk]\<rparr>) = (True, s')"
    by (auto simp: write_client_def split: if_splits)
  from Cons.IH[OF w] show ?case by simp
qed simp

lemma reset_packets_inert:
  assumes "pk \<in> set (map (rewrite_reset s) (transfer_reset_packets C cur d))"
  shows "tracker_handle C' rid pk t = t"
  using assms
  by (auto simp: transfer_reset_packets_def rewrite_reset_def rewrite_server_packet_def Let_def
      tracker_handle_def split: if_splits)

lemma fold_inert: "(\<And>x t. x \<in> set xs \<Longrightarrow> f x t = t) \<Longrightarrow> fold f xs t = t"
  by (induction xs) auto

section \<open>The session's invariant\<close>

definition tracker_finite :: "'u state_tracker \<Rightarrow> bool" where
  "tracker_finite t \<longleftrightarrow> finite (bt_entities t) \<and> finite (bt_boss_bars t) \<and> finite (bt_effects t)
     \<and> finite (bt_players t) \<and> finite (bt_scoreboards t)"

definition env_ok :: "('v, 'f, 'g, 'u, 'b) env \<Rightarrow> bool" where
  "env_ok E \<longleftrightarrow> consts_ok (ev_consts E) \<and> (\<forall>t. tracker_finite t \<longrightarrow> order_of (ev_order E t) t)"

text \<open>The session and its connections fit: the tracker is the client's view, the backend's
  identifiers and block-hash setting are the current backend's.\<close>
definition session_inv :: "('v, 'f, 'g, 'u, 'b) env \<Rightarrow> ('v, 'f, 'g, 'u, 'b) session \<Rightarrow> bool" where
  "session_inv E s \<longleftrightarrow>
     ss_tracker s = client_view (ev_consts E) (ss_client_rid s) (ss_to_client s)
     \<and> tracker_finite (ss_tracker s)
     \<and> ss_backend_rid s = gd_rid (ev_data E (ss_backend s))
     \<and> ss_backend_uid s = gd_uid (ev_data E (ss_backend s))
     \<and> ss_hashes s = gd_hashes (ev_data E (ss_backend s))"

lemma finite_track_entries: "finite ps \<Longrightarrow> finite (fold (track_entry C) es ps)"
  by (induction es arbitrary: ps) (auto simp: track_entry_def)

lemma tracker_handle_finite: "tracker_finite t \<Longrightarrow> tracker_finite (tracker_handle C rid pk t)"
  by (cases pk) (auto simp: tracker_finite_def tracker_handle_def finite_track_entries)

lemma new_session_inv: "session_inv E (new_session E b)"
  by (simp add: session_inv_def new_session_def Let_def client_view_def new_state_tracker_def
      tracker_finite_def)

lemma transfer_uncommitted:
  assumes "transfer_locked E address s = (False, ok, s')"
  shows "\<not> ok \<and> (s' = s \<or> (\<exists>b. ev_dial E address = Some b \<and> s' = close_backend b s))"
  using assms by (auto simp: transfer_locked_def Let_def split: if_splits option.splits prod.splits)

text \<open>A committed transfer: the new backend is checked and current, the previous one is closed.\<close>
lemma transfer_committed:
  assumes "transfer_locked E address s = (True, ok, s')"
  obtains b where "ev_dial E address = Some b" "gd_hashes (ev_data E b) = ss_hashes s"
    "s' = close_backend (ss_backend s) (snd (reset_transfer_state E (snd (swap_backend E b s))))"
    "ok = fst (reset_transfer_state E (snd (swap_backend E b s)))"
    "session_core s' = (b, ss_generation s + 1, (ss_client_rid s, ss_client_uid s, ss_hashes s),
       (gd_rid (ev_data E b), gd_uid (ev_data E b)), ss_radius s, ss_closed s @ [ss_backend s],
       ss_failed s)"
proof -
  from assms obtain b where b: "ev_dial E address = Some b" "gd_hashes (ev_data E b) = ss_hashes s"
    and ok: "s' = close_backend (ss_backend s) (snd (reset_transfer_state E (snd (swap_backend E b s))))"
      "ok = fst (reset_transfer_state E (snd (swap_backend E b s)))"
    by (auto simp: transfer_locked_def Let_def swap_backend_def split: if_splits option.splits prod.splits)
  have "session_core (snd (reset_transfer_state E (snd (swap_backend E b s))))
      = session_core (snd (swap_backend E b s))" by (rule reset_core)
  then show thesis
    by (intro that[OF b ok]) (simp add: ok(1) session_core_def close_backend_def swap_backend_def)
qed

lemma rewrite_server_packet_cong:
  "rewrite_server_packet (s\<lparr>ss_tracker := t\<rparr>) pk = rewrite_server_packet s pk"
  "rewrite_server_packet (s\<lparr>ss_to_client := pks\<rparr>) pk = rewrite_server_packet s pk"
  by (cases pk; simp add: rewrite_server_packet_def Let_def)+

lemma rewrite_reset_cong:
  "rewrite_reset (s\<lparr>ss_tracker := t\<rparr>) = rewrite_reset s"
  "rewrite_reset (s\<lparr>ss_to_client := pks\<rparr>) = rewrite_reset s"
  by (simp_all add: rewrite_reset_def[abs_def] rewrite_server_packet_cong)

text \<open>A reset that succeeds: what was sent, and the state after it.\<close>
lemma reset_True:
  assumes "reset_transfer_state E s = (True, s')"
  shows "ss_to_client s' = ss_to_client s
      @ fst (clear_packets (ev_consts E) (ss_client_rid s) (ev_order E (ss_tracker s)) (ss_tracker s))
      @ map (rewrite_reset s) (transfer_reset_packets (ev_consts E) (ss_client_dim s) (ev_data E (ss_backend s)))
    \<and> ss_tracker s' = new_state_tracker \<and> ss_client_dim s' = gd_dimension (ev_data E (ss_backend s))"
  using assms
  by (auto simp: reset_transfer_state_def Let_def clear_packets_def write_backend_def rewrite_reset_cong
      dest!: write_all_True split: bool.splits prod.splits if_splits option.splits)

section \<open>Transfers\<close>


lemma write_all_total:
  assumes "\<forall>n. ev_client_write E n"
  shows "write_all E pks s = (True, s\<lparr>ss_to_client := ss_to_client s @ pks\<rparr>)"
  using assms by (induction pks arbitrary: s) (simp_all add: write_client_def)

lemma reset_total:
  assumes "\<forall>n. ev_client_write E n" "\<forall>pk. ev_backend_write E (ss_backend s) pk" "ev_flush E (ss_backend s)"
  shows "fst (reset_transfer_state E s)"
  using assms(2,3)
  by (simp add: reset_transfer_state_def Let_def clear_packets_def write_all_total[OF assms(1)]
      write_backend_def)

lemma client_view_reset:
  assumes "env_ok E" "session_inv E s" "reset_transfer_state E (snd (swap_backend E b s)) = (True, s')"
  shows "client_view (ev_consts E) (ss_client_rid s) (ss_to_client s') = new_state_tracker"
proof -
  let ?s = "snd (swap_backend E b s)"
  have same: "ss_to_client ?s = ss_to_client s" "ss_tracker ?s = ss_tracker s" "ss_client_rid ?s = ss_client_rid s"
    by (simp_all add: swap_backend_def)
  have "order_of (ev_order E (ss_tracker s)) (ss_tracker s)" "consts_ok (ev_consts E)"
    using assms(1,2) by (auto simp: env_ok_def session_inv_def)
  then have "fold (tracker_handle (ev_consts E) (ss_client_rid s))
     (fst (clear_packets (ev_consts E) (ss_client_rid s) (ev_order E (ss_tracker s)) (ss_tracker s)))
     (ss_tracker s) = new_state_tracker" by (rule clear_packets_clear[rotated])
  then show ?thesis
    using reset_True[OF assms(3)] assms(2)
    by (simp add: same session_inv_def client_view_append reset_packets_inert fold_inert del: set_map)
qed

lemma transfer_succeeds:
  assumes "\<not> ev_ctx_done E" "ev_dial E address = Some b" "gd_hashes (ev_data E b) = ss_hashes s"
    and "ev_spawn E b" "ev_handler_takes E b" "\<forall>n. ev_client_write E n"
    and "\<forall>pk. ev_backend_write E b pk" "ev_flush E b"
  obtains s1 where "reset_transfer_state E (snd (swap_backend E b s)) = (True, s1)"
    "transfer_locked E address s = (True, True, close_backend (ss_backend s) s1)"
proof -
  let ?s = "snd (swap_backend E b s)"
  have "fst (reset_transfer_state E ?s)"
    by (rule reset_total) (use assms(6-8) in \<open>simp_all add: swap_backend_def\<close>)
  then obtain s1 where s1: "reset_transfer_state E ?s = (True, s1)"
    by (cases "reset_transfer_state E ?s") auto
  have "transfer_locked E address s = (True, True, close_backend (ss_backend s) s1)"
    using assms(1-5) s1 by (simp add: transfer_locked_def Let_def swap_backend_def split: prod.split)
  with s1 show thesis by (rule that)
qed

text \<open>C22: when the dial, the spawn, the handler, the client and the new backend all work, a
  transfer commits and succeeds; afterwards the tracker is empty, the client displays no entity,
  boss bar, effect, listed player or scoreboard, and is in the new backend's dimension.\<close>
theorem transfer_clears_client:
  assumes "env_ok E" "session_inv E s"
    and "\<not> ev_ctx_done E" "ev_dial E address = Some b" "gd_hashes (ev_data E b) = ss_hashes s"
    and "ev_spawn E b" "ev_handler_takes E b" "\<forall>n. ev_client_write E n"
    and "\<forall>pk. ev_backend_write E b pk" "ev_flush E b"
  shows "\<exists>s'. transfer_locked E address s = (True, True, s') \<and> ss_tracker s' = new_state_tracker
     \<and> client_view (ev_consts E) (ss_client_rid s) (ss_to_client s') = new_state_tracker
     \<and> ss_client_dim s' = gd_dimension (ev_data E b)"
proof -
  obtain s1 where s1: "reset_transfer_state E (snd (swap_backend E b s)) = (True, s1)"
    "transfer_locked E address s = (True, True, close_backend (ss_backend s) s1)"
    by (rule transfer_succeeds[OF assms(3-10)])
  moreover have "ss_backend (snd (swap_backend E b s)) = b" by (simp add: swap_backend_def)
  ultimately show ?thesis
    using client_view_reset[OF assms(1,2) s1(1)] reset_True[OF s1(1)] by (simp add: close_backend_def)
qed

lemma demo_env_ok: "env_ok demo_env"
  by (simp add: env_ok_def order_of_def tracker_finite_def demo_env_def demo_consts_def consts_ok_def)

theorem transfer_clears_client_witness:
  "\<exists>s'. transfer_locked demo_env ''hub'' (new_session demo_env 0) = (True, True, s')
     \<and> ss_tracker s' = new_state_tracker \<and> ss_client_dim s' = 0"
  using transfer_clears_client[OF demo_env_ok new_session_inv, of "''hub''" 1 0]
  by (simp add: demo_env_def demo_data_def new_session_def Let_def) blast

section \<open>Dimension changes\<close>

text \<open>The dimensions that a list of packets takes the client through.\<close>
definition dims_of :: "('v, 'f, 'g, 'u) pk list \<Rightarrow> int list" where
  "dims_of pks = List.map_filter (\<lambda>pk. case pk of PkChangeDimension d _ \<Rightarrow> Some d | _ \<Rightarrow> None) pks"

fun no_repeat :: "int \<Rightarrow> int list \<Rightarrow> bool" where
  "no_repeat d [] = True"
| "no_repeat d (e # es) = (d \<noteq> e \<and> no_repeat e es)"

lemma fake_dimension_differs:
  assumes "consts_ok C"
  shows "fake_dimension C current target \<noteq> current" "fake_dimension C current target \<noteq> target"
  using assms by (auto simp: fake_dimension_def consts_ok_def)

text \<open>The reset of a transfer never sends the client a change to the dimension it is in, and
  the last change is to the new backend's dimension.\<close>
theorem reset_changes_dimension:
  assumes "consts_ok C"
  shows "no_repeat current (dims_of (transfer_reset_packets C current d))
     \<and> last (dims_of (transfer_reset_packets C current d)) = gd_dimension d"
  using fake_dimension_differs[OF assms, of current "gd_dimension d"]
  by (auto simp: dims_of_def transfer_reset_packets_def map_filter_simps)

theorem reset_changes_dimension_witness:
  "no_repeat 1 (dims_of (transfer_reset_packets demo_consts 1 (demo_data 4 1)))"
  by (rule conjunct1[OF reset_changes_dimension]) (simp add: demo_consts_def consts_ok_def)

section \<open>Reachable sessions\<close>

text \<open>A step of either loop after which it goes on.\<close>
inductive session_step ::
  "(string \<Rightarrow> int \<Rightarrow> string) \<Rightarrow> ('v, 'f, 'g, 'u, 'b) env \<Rightarrow> ('v, 'f, 'g, 'u, 'b) session
   \<Rightarrow> ('v, 'f, 'g, 'u, 'b) session \<Rightarrow> bool" for J E where
  from_client: "client_packet E pk s = (True, s') \<Longrightarrow> session_step J E s s'"
| from_backend: "backend_packet J E g pk f s = (True, f', s') \<Longrightarrow> session_step J E s s'"
| read_failed: "backend_read_failed E g err f s = (True, w, f', s') \<Longrightarrow> session_step J E s s'"

inductive session_reachable ::
  "(string \<Rightarrow> int \<Rightarrow> string) \<Rightarrow> ('v, 'f, 'g, 'u, 'b) env \<Rightarrow> ('v, 'f, 'g, 'u, 'b) session \<Rightarrow> bool" for J E where
  session_start: "session_reachable J E (new_session E b)"
| session_next: "session_reachable J E s \<Longrightarrow> session_step J E s s' \<Longrightarrow> session_reachable J E s'"

lemma session_inv_core:
  assumes "session_inv E s" "session_core s' = session_core s" "ss_tracker s' = ss_tracker s"
    "ss_to_client s' = ss_to_client s"
  shows "session_inv E s'"
  using assms by (auto simp: session_inv_def session_core_def)

lemma transfer_inv:
  assumes "env_ok E" "session_inv E s" "transfer_locked E address s = (committed, ok, s')" "ok \<or> \<not> committed"
  shows "session_inv E s'"
proof (cases committed)
  case True
  with assms(3,4) have "transfer_locked E address s = (True, True, s')" by simp
  then show ?thesis
  proof (rule transfer_committed)
    fix b assume b: "gd_hashes (ev_data E b) = ss_hashes s"
      "s' = close_backend (ss_backend s) (snd (reset_transfer_state E (snd (swap_backend E b s))))"
      "True = fst (reset_transfer_state E (snd (swap_backend E b s)))"
      "session_core s' = (b, ss_generation s + 1, (ss_client_rid s, ss_client_uid s, ss_hashes s),
       (gd_rid (ev_data E b), gd_uid (ev_data E b)), ss_radius s, ss_closed s @ [ss_backend s], ss_failed s)"
    from b(3) obtain s1 where s1: "reset_transfer_state E (snd (swap_backend E b s)) = (True, s1)"
      by (cases "reset_transfer_state E (snd (swap_backend E b s))") auto
    show ?thesis
      using b client_view_reset[OF assms(1,2) s1] reset_True[OF s1] s1
      by (auto simp: session_inv_def session_core_def close_backend_def new_state_tracker_def tracker_finite_def)
  qed
next
  case False
  with assms(2,3) show ?thesis
    using transfer_uncommitted[of E address s ok s']
    by (auto simp: session_inv_def close_backend_def)
qed

lemma backend_packet_inv:
  assumes "env_ok E" "session_inv E s" "backend_packet J E g pk f s = (True, f', s')"
  shows "session_inv E s'"
proof -
  have other: "session_inv E s'"
    if "(case ev_from_server E pk of None \<Rightarrow> (True, 0, s)
         | Some pk \<Rightarrow> (case rewrite_server_packet s pk of None \<Rightarrow> (True, 0, s)
            | Some pk \<Rightarrow> let (ok, s) = write_client E pk
               (s\<lparr>ss_tracker := tracker_handle (ev_consts E) (ss_client_rid s) pk (ss_tracker s)\<rparr>)
               in (ok, 0, s))) = (True, f', s')"
    using that assms(2)
    by (auto simp: session_inv_def write_client_def client_view_snoc tracker_handle_finite Let_def
        split: option.splits if_splits prod.splits)
  show ?thesis
  proof (cases "is_current g s")
    case True
    show ?thesis
    proof (cases "\<exists>h p. pk = PkTransfer h p")
      case True
      then obtain h p where pk: "pk = PkTransfer h p" by blast
      obtain committed ok s1 where t: "transfer_locked E (J h p) s = (committed, ok, s1)"
        by (cases "transfer_locked E (J h p) s") auto
      have "ok \<or> \<not> committed" and "s' = s1 \<or> s' = s1\<lparr>ss_failed := ss_failed s1 @ [J h p]\<rparr>"
        using assms(3) pk t \<open>is_current g s\<close> by (auto simp: backend_packet_def split: if_splits)
      with transfer_inv[OF assms(1,2) t] show ?thesis by (auto simp: session_inv_def)
    next
      case False
      with assms(3) \<open>is_current g s\<close> show ?thesis
        by (intro other) (cases pk; simp add: backend_packet_def)
    qed
  next
    case False
    with assms(2,3) show ?thesis by (simp add: backend_packet_def)
  qed
qed

lemma client_packet_inv:
  assumes "session_inv E s" "client_packet E pk s = (True, s')"
  shows "session_inv E s'"
  using assms
  by (auto simp: client_packet_def write_backend_def session_inv_def split: option.splits if_splits pk.splits)

lemma read_failed_inv:
  assumes "env_ok E" "session_inv E s" "backend_read_failed E g err f s = (True, w, f', s')"
  shows "session_inv E s'"
proof (cases "is_current g s")
  case True
  with assms(3) obtain committed s1 where "transfer_locked E (ev_remote E) s = (committed, True, s1)" "s' = s1"
    by (auto simp: backend_read_failed_def Let_def split: option.splits prod.splits)
  with transfer_inv[OF assms(1,2)] show ?thesis by blast
qed (use assms in \<open>simp add: backend_read_failed_def\<close>)

lemma session_reachable_inv:
  assumes "env_ok E" "session_reachable J E s"
  shows "session_inv E s"
  using assms(2)
proof induction
  case (session_next s s')
  from session_next(2,3) show ?case
    by cases (auto intro: client_packet_inv backend_packet_inv[OF assms(1)] read_failed_inv[OF assms(1)])
qed (rule new_session_inv)


text \<open>A session on its way: an actor is shown, the backend sends the client to another server.\<close>
definition demo_shown :: "(int, int, int, int, nat) session" where
  "demo_shown = (new_session demo_env 0)\<lparr>ss_tracker := new_state_tracker\<lparr>bt_entities := {8}\<rparr>,
     ss_to_client := [PkAddActor 7 8]\<rparr>"

lemma demo_shown_step:
  "backend_packet J demo_env 0 (PkAddActor 7 8) 0 (new_session demo_env 0) = (True, 0, demo_shown)"
  by (simp add: demo_shown_def backend_packet_def new_session_def demo_env_def demo_data_def
      is_current_def rewrite_server_packet_def rewrite_down_def write_client_def tracker_handle_def
      new_state_tracker_def Let_def)

definition demo_moved :: "(int, int, int, int, nat) session" where
  "demo_moved = snd (snd (transfer_locked demo_env ''hub'' demo_shown))"

lemma demo_moved_transfer: "transfer_locked demo_env ''hub'' demo_shown = (True, True, demo_moved)"
proof -
  obtain s1 where "reset_transfer_state demo_env (snd (swap_backend demo_env 1 demo_shown)) = (True, s1)"
    "transfer_locked demo_env ''hub'' demo_shown = (True, True, close_backend (ss_backend demo_shown) s1)"
    by (rule transfer_succeeds[of demo_env "''hub''" 1 demo_shown])
      (auto simp: demo_env_def demo_data_def demo_shown_def new_session_def Let_def)
  then show ?thesis by (simp add: demo_moved_def)
qed

lemma demo_moved_reachable: "session_reachable (\<lambda>h _. h) demo_env demo_moved"
proof -
  have "is_current 0 demo_shown" by (simp add: demo_shown_def is_current_def new_session_def Let_def)
  then have "backend_packet (\<lambda>h _. h) demo_env 0 (PkTransfer ''hub'' 19132) 0 demo_shown = (True, 0, demo_moved)"
    by (simp add: backend_packet_def demo_moved_transfer)
  from session_next[OF session_next[OF session_start from_backend[OF demo_shown_step]] from_backend[OF this]]
  show ?thesis .
qed


section \<open>Replaced backends\<close>

text \<open>After a committed transfer, a packet or a read error of the generation before it changes
  nothing and the loop goes on.\<close>
theorem stale_generation_ignored:
  assumes "transfer_locked E address s = (True, ok, s')"
  shows "backend_packet J E (ss_generation s) pk f s' = (True, f, s')
     \<and> backend_read_failed E (ss_generation s) err f s' = (True, 0, f, s')"
proof -
  from assms have "ss_generation s' = ss_generation s + 1"
    by (rule transfer_committed) (simp add: session_core_def)
  then have "\<not> is_current (ss_generation s) s'" by (simp add: is_current_def)
  then show ?thesis by (simp add: backend_packet_def backend_read_failed_def)
qed

theorem stale_generation_ignored_witness:
  "backend_packet (\<lambda>h _. h) demo_env (ss_generation demo_shown) (PkAnimate 3) 2 demo_moved = (True, 2, demo_moved)"
  using stale_generation_ignored[OF demo_moved_transfer] by blast

section \<open>The client's dimension\<close>

text \<open>
  The session learns the client's dimension from its own resets only: a dimension change that
  a backend sends is forwarded and not recorded, so that the next transfer to a backend in that
  dimension sends the client to the dimension it is in.
\<close>
theorem dimension_change_not_recorded:
  "let s1 = snd (snd (backend_packet (\<lambda>h _. h) demo_env 0 (PkChangeDimension 1 64) 0 (new_session demo_env 0)))
   in ss_client_dim s1 = 0 \<and> dims_of (ss_to_client s1) = [1]
      \<and> \<not> no_repeat (last (dims_of (ss_to_client s1)))
            (dims_of (transfer_reset_packets demo_consts (ss_client_dim s1) (demo_data 2 1)
               :: (int, int, int, int) pk list))"
  by (simp add: backend_packet_def new_session_def demo_env_def demo_data_def is_current_def demo_consts_def
        rewrite_server_packet_def write_client_def tracker_handle_def Let_def dims_of_def map_filter_simps
        transfer_reset_packets_def)

section \<open>The wait before a retry\<close>

lemma fallback_loop_closed:
  "0 < delay \<Longrightarrow> delay \<le> maximum_fallback_retry_delay
   \<Longrightarrow> fallback_loop k delay = min (delay * 2 ^ k) maximum_fallback_retry_delay"
proof (induction k arbitrary: delay)
  case (Suc k)
  have big: "maximum_fallback_retry_delay \<le> x * 2 ^ k" if "maximum_fallback_retry_delay \<le> x" for x :: int
    using that mult_mono[OF that, of 1 "2 ^ k"] by simp
  show ?case
  proof (cases "delay * 2 < maximum_fallback_retry_delay")
    case True
    with Suc show ?thesis by (simp add: mult.assoc)
  next
    case False
    then have "min (delay * 2) maximum_fallback_retry_delay = maximum_fallback_retry_delay" by simp
    moreover have "maximum_fallback_retry_delay \<le> delay * 2 ^ Suc k"
      using big[of "delay * 2"] False by (simp add: mult.assoc)
    ultimately show ?thesis
      using Suc.IH[of maximum_fallback_retry_delay] Suc.prems big[of maximum_fallback_retry_delay]
      by simp
  qed
qed simp

text \<open>The wait before the next fallback after n failures in a row is 100 ms doubled n - 1 times,
  but never more than two seconds.\<close>
theorem fallback_delay_doubles:
  "fallback_retry_delay n = min (100000000 * 2 ^ nat (n - 1)) 2000000000"
  by (simp add: fallback_retry_delay_def fallback_loop_closed)

section \<open>Disconnect messages\<close>

lemma legacy_message_facing:
  "legacy_message e = Some m \<Longrightarrow> player_facing_disconnect_operation m"
  "legacy_message_any es = Some m \<Longrightarrow> player_facing_disconnect_operation m"
  by (induction e and es rule: legacy_message_legacy_message_any.induct)
    (auto split: goerr.splits if_splits option.splits)

text \<open>What a player is told when a backend goes away is the backend's own non-empty disconnect
  reason, or else an operation name that is not one of the internal ones.\<close>
theorem disconnect_message_facing:
  assumes "backend_disconnect_message e = Some m"
  shows "(\<exists>v. v \<noteq> '''' \<and> as_disconnect e = Some (v, m)) \<or> player_facing_disconnect_operation m"
  using assms legacy_message_facing(1)
  by (auto simp: backend_disconnect_message_def split: option.splits if_splits)

theorem disconnect_message_facing_witness:
  "backend_disconnect_message (EWrap (EOp ''read'' (EOp ''Server closed'' EClosed))) = Some ''Server closed''
   \<and> ((\<exists>v. v \<noteq> '''' \<and> as_disconnect (EWrap (EOp ''read'' (EOp ''Server closed'' EClosed))) = Some (v, ''Server closed''))
      \<or> player_facing_disconnect_operation ''Server closed'')"
proof -
  have b: "backend_disconnect_message (EWrap (EOp ''read'' (EOp ''Server closed'' EClosed))) = Some ''Server closed''"
    by (simp add: backend_disconnect_message_def player_facing_disconnect_operation_def internal_operations_def)
  from disconnect_message_facing[OF b] b show ?thesis by blast
qed

end
