(* ===== verification/Floats.thy ===== *)
theory Floats
  imports Prelude Complex_Main
begin

text \<open>
  Single-precision numbers and vectors (\<^verbatim>\<open>src/game/math.go\<close>,
  \<^verbatim>\<open>src/game/minecraft.go\<close>).  Numbers are values of a type \<^verbatim>\<open>'f\<close> with the
  operations that the code uses, collected in a record: the language's arithmetic and the
  float library.  Vectors are triples with the componentwise operations of the vector library.
  Two instances: the exact reals, and thousandths for the examples.
\<close>

section \<open>Numbers\<close>

text \<open>
  \<^verbatim>\<open>fl_lit\<close> is the rounding of a literal, \<^verbatim>\<open>fl_to_int\<close> the conversion to an
  integer, which truncates, \<^verbatim>\<open>fl_min\<close> and \<^verbatim>\<open>fl_max\<close> those of the float library.
\<close>
record 'f flt =
  fl_lit :: "real \<Rightarrow> 'f"
  fl_neg :: "'f \<Rightarrow> 'f"
  fl_add :: "'f \<Rightarrow> 'f \<Rightarrow> 'f"
  fl_sub :: "'f \<Rightarrow> 'f \<Rightarrow> 'f"
  fl_mul :: "'f \<Rightarrow> 'f \<Rightarrow> 'f"
  fl_div :: "'f \<Rightarrow> 'f \<Rightarrow> 'f"
  fl_less :: "'f \<Rightarrow> 'f \<Rightarrow> bool"
  fl_le :: "'f \<Rightarrow> 'f \<Rightarrow> bool"
  fl_eq :: "'f \<Rightarrow> 'f \<Rightarrow> bool"
  fl_min :: "'f \<Rightarrow> 'f \<Rightarrow> 'f"
  fl_max :: "'f \<Rightarrow> 'f \<Rightarrow> 'f"
  fl_abs :: "'f \<Rightarrow> 'f"
  fl_sqrt :: "'f \<Rightarrow> 'f"
  fl_floor :: "'f \<Rightarrow> 'f"
  fl_ceil :: "'f \<Rightarrow> 'f"
  fl_round :: "'f \<Rightarrow> 'f"
  fl_mod :: "'f \<Rightarrow> 'f \<Rightarrow> 'f"
  fl_sin :: "'f \<Rightarrow> 'f"
  fl_cos :: "'f \<Rightarrow> 'f"
  fl_atan2 :: "'f \<Rightarrow> 'f \<Rightarrow> 'f"
  fl_of_int :: "int \<Rightarrow> 'f"
  fl_to_int :: "'f \<Rightarrow> int"
  fl_finite :: "'f \<Rightarrow> bool"
  fl_max_value :: 'f

definition clamp_float :: "'f flt \<Rightarrow> 'f \<Rightarrow> 'f \<Rightarrow> 'f \<Rightarrow> 'f" where
  "clamp_float F num lo hi = (if fl_less F num lo then lo else fl_min F num hi)"

text \<open>Powers of ten are exact for the precisions that the code uses.\<close>
definition round32 :: "'f flt \<Rightarrow> 'f \<Rightarrow> nat \<Rightarrow> 'f" where
  "round32 F v precision =
    (let pwr = fl_lit F (10 ^ precision) in fl_div F (fl_round F (fl_mul F v pwr)) pwr)"

definition float32_approx_eq :: "'f flt \<Rightarrow> 'f \<Rightarrow> 'f \<Rightarrow> bool" where
  "float32_approx_eq F a b \<longleftrightarrow> fl_le F (fl_abs F (fl_sub F a b)) (fl_lit F 0.00001)"

definition abs_num :: "'f flt \<Rightarrow> 'f \<Rightarrow> 'f" where
  "abs_num F a = (if fl_less F a (fl_lit F 0) then fl_neg F a else a)"

definition abs_int64 :: "64 word \<Rightarrow> 64 word" where
  "abs_int64 a = (if a <s 0 then - a else a)"

definition wrap_yaw_delta :: "'f flt \<Rightarrow> 'f \<Rightarrow> 'f" where
  "wrap_yaw_delta F delta =
    (if fl_less F (fl_lit F 180) delta then fl_sub F delta (fl_lit F 360)
     else if fl_less F delta (fl_lit F (-180)) then fl_add F delta (fl_lit F 360)
     else delta)"

definition php_spaceship_op :: "'f flt \<Rightarrow> 'f \<Rightarrow> 'f \<Rightarrow> 'f" where
  "php_spaceship_op F x y =
    (if fl_less F x y then fl_lit F (-1) else if fl_eq F x y then fl_lit F 0 else fl_lit F 1)"

section \<open>Minecraft's sine\<close>

definition pi32 :: "'f flt \<Rightarrow> 'f" where "pi32 F = fl_lit F pi"

text \<open>The i-th entry of the table.\<close>
definition sin_table :: "'f flt \<Rightarrow> 16 word \<Rightarrow> 'f" where
  "sin_table F i =
    fl_sin F (fl_div F (fl_mul F (fl_mul F (fl_of_int F (uint i)) (pi32 F)) (fl_lit F 2)) (fl_lit F 65536))"

definition mc_sin :: "'f flt \<Rightarrow> 'f \<Rightarrow> 'f" where
  "mc_sin F v = sin_table F (and (word_of_int (fl_to_int F (fl_mul F v (fl_lit F 10430.378)))) 65535)"

definition mc_cos :: "'f flt \<Rightarrow> 'f \<Rightarrow> 'f" where
  "mc_cos F v = sin_table F (and (word_of_int (fl_to_int F
     (fl_add F (fl_mul F v (fl_lit F 10430.378)) (fl_lit F 16384)))) 65535)"

section \<open>Vectors\<close>

type_synonym 'f vec3 = "'f \<times> 'f \<times> 'f"
type_synonym 'f vec2 = "'f \<times> 'f"

definition zero3 :: "'f flt \<Rightarrow> 'f vec3" where
  "zero3 F = (fl_lit F 0, fl_lit F 0, fl_lit F 0)"

definition zero2 :: "'f flt \<Rightarrow> 'f vec2" where
  "zero2 F = (fl_lit F 0, fl_lit F 0)"

definition add3 :: "'f flt \<Rightarrow> 'f vec3 \<Rightarrow> 'f vec3 \<Rightarrow> 'f vec3" where
  "add3 F a b = (case a of (x, y, z) \<Rightarrow> case b of (x', y', z') \<Rightarrow>
     (fl_add F x x', fl_add F y y', fl_add F z z'))"

definition sub3 :: "'f flt \<Rightarrow> 'f vec3 \<Rightarrow> 'f vec3 \<Rightarrow> 'f vec3" where
  "sub3 F a b = (case a of (x, y, z) \<Rightarrow> case b of (x', y', z') \<Rightarrow>
     (fl_sub F x x', fl_sub F y y', fl_sub F z z'))"

definition mul3 :: "'f flt \<Rightarrow> 'f vec3 \<Rightarrow> 'f \<Rightarrow> 'f vec3" where
  "mul3 F a k = (case a of (x, y, z) \<Rightarrow> (fl_mul F x k, fl_mul F y k, fl_mul F z k))"

definition dot3 :: "'f flt \<Rightarrow> 'f vec3 \<Rightarrow> 'f vec3 \<Rightarrow> 'f" where
  "dot3 F a b = (case a of (x, y, z) \<Rightarrow> case b of (x', y', z') \<Rightarrow>
     fl_add F (fl_add F (fl_mul F x x') (fl_mul F y y')) (fl_mul F z z'))"

definition len_sqr3 :: "'f flt \<Rightarrow> 'f vec3 \<Rightarrow> 'f" where
  "len_sqr3 F a = dot3 F a a"

definition len3 :: "'f flt \<Rightarrow> 'f vec3 \<Rightarrow> 'f" where
  "len3 F a = fl_sqrt F (len_sqr3 F a)"

definition len_sqr2 :: "'f flt \<Rightarrow> 'f vec2 \<Rightarrow> 'f" where
  "len_sqr2 F a = (case a of (x, y) \<Rightarrow> fl_add F (fl_mul F x x) (fl_mul F y y))"

definition len2 :: "'f flt \<Rightarrow> 'f vec2 \<Rightarrow> 'f" where
  "len2 F a = fl_sqrt F (len_sqr2 F a)"

text \<open>The library normalises by multiplying with the inverse of the length.\<close>
definition normalize3 :: "'f flt \<Rightarrow> 'f vec3 \<Rightarrow> 'f vec3" where
  "normalize3 F a = mul3 F a (fl_div F (fl_lit F 1) (len3 F a))"

definition eq3 :: "'f flt \<Rightarrow> 'f vec3 \<Rightarrow> 'f vec3 \<Rightarrow> bool" where
  "eq3 F a b \<longleftrightarrow> (case a of (x, y, z) \<Rightarrow> case b of (x', y', z') \<Rightarrow>
     fl_eq F x x' \<and> fl_eq F y y' \<and> fl_eq F z z')"

text \<open>Components by name and by axis.\<close>
definition vx :: "'f vec3 \<Rightarrow> 'f" where "vx v = fst v"
definition vy :: "'f vec3 \<Rightarrow> 'f" where "vy v = fst (snd v)"
definition vz :: "'f vec3 \<Rightarrow> 'f" where "vz v = snd (snd v)"

definition set_vx :: "'f \<Rightarrow> 'f vec3 \<Rightarrow> 'f vec3" where "set_vx a v = (a, vy v, vz v)"
definition set_vy :: "'f \<Rightarrow> 'f vec3 \<Rightarrow> 'f vec3" where "set_vy a v = (vx v, a, vz v)"
definition set_vz :: "'f \<Rightarrow> 'f vec3 \<Rightarrow> 'f vec3" where "set_vz a v = (vx v, vy v, a)"

definition vget :: "nat \<Rightarrow> 'f vec3 \<Rightarrow> 'f" where
  "vget i v = (if i = 0 then vx v else if i = 1 then vy v else vz v)"

definition vset :: "nat \<Rightarrow> 'f \<Rightarrow> 'f vec3 \<Rightarrow> 'f vec3" where
  "vset i a v = (if i = 0 then set_vx a v else if i = 1 then set_vy a v else set_vz a v)"

lemma vec_simps [simp]:
  "vx (x, y, z) = x" "vy (x, y, z) = y" "vz (x, y, z) = z"
  "set_vx a (x, y, z) = (a, y, z)" "set_vy a (x, y, z) = (x, a, z)" "set_vz a (x, y, z) = (x, y, a)"
  by (simp_all add: vx_def vy_def vz_def set_vx_def set_vy_def set_vz_def)

lemma set_v_simps [simp]:
  "vx (set_vx a v) = a" "vy (set_vx a v) = vy v" "vz (set_vx a v) = vz v"
  "vx (set_vy a v) = vx v" "vy (set_vy a v) = a" "vz (set_vy a v) = vz v"
  "vx (set_vz a v) = vx v" "vy (set_vz a v) = vy v" "vz (set_vz a v) = a"
  by (simp_all add: set_vx_def set_vy_def set_vz_def)

lemma add3_simps [simp]:
  "vx (add3 F a b) = fl_add F (vx a) (vx b)" "vy (add3 F a b) = fl_add F (vy a) (vy b)"
  "vz (add3 F a b) = fl_add F (vz a) (vz b)"
  by (simp_all add: add3_def split: prod.splits)

lemma sub3_simps [simp]:
  "vx (sub3 F a b) = fl_sub F (vx a) (vx b)" "vy (sub3 F a b) = fl_sub F (vy a) (vy b)"
  "vz (sub3 F a b) = fl_sub F (vz a) (vz b)"
  by (simp_all add: sub3_def split: prod.splits)

lemma mul3_simps [simp]:
  "vx (mul3 F a k) = fl_mul F (vx a) k" "vy (mul3 F a k) = fl_mul F (vy a) k"
  "vz (mul3 F a k) = fl_mul F (vz a) k"
  by (simp_all add: mul3_def split: prod.splits)

lemma vec_eqI: "vx a = vx b \<Longrightarrow> vy a = vy b \<Longrightarrow> vz a = vz b \<Longrightarrow> a = b"
  by (cases a, cases b) simp

lemma vget_vset [simp]: "i < 3 \<Longrightarrow> j < 3 \<Longrightarrow> vget i (vset j a v) = (if i = j then a else vget i v)"
  by (auto simp: vget_def vset_def)

definition abs_vec32 :: "'f flt \<Rightarrow> 'f vec3 \<Rightarrow> 'f vec3" where
  "abs_vec32 F v = (fl_abs F (vx v), fl_abs F (vy v), fl_abs F (vz v))"

definition round_vec32 :: "'f flt \<Rightarrow> 'f vec3 \<Rightarrow> nat \<Rightarrow> 'f vec3" where
  "round_vec32 F v p = (round32 F (vx v) p, round32 F (vy v) p, round32 F (vz v) p)"

definition vec3_hz_dist_sqr :: "'f flt \<Rightarrow> 'f vec3 \<Rightarrow> 'f" where
  "vec3_hz_dist_sqr F v = fl_add F (fl_mul F (vx v) (vx v)) (fl_mul F (vz v) (vz v))"

definition deg_to_rad :: "'f flt \<Rightarrow> 'f \<Rightarrow> 'f" where
  "deg_to_rad F a = fl_div F (fl_mul F a (pi32 F)) (fl_lit F 180)"

definition direction_vector :: "'f flt \<Rightarrow> 'f \<Rightarrow> 'f \<Rightarrow> 'f vec3" where
  "direction_vector F yaw pitch =
    (let yaw_rad = deg_to_rad F yaw; pitch_rad = deg_to_rad F pitch; m = fl_cos F pitch_rad
     in (fl_mul F (fl_neg F m) (fl_sin F yaw_rad), fl_neg F (fl_sin F pitch_rad),
         fl_mul F m (fl_cos F yaw_rad)))"

text \<open>\<^verbatim>\<open>LerpRotation\<close>; the partial ticks are not used.\<close>
definition lerp_axis :: "'f flt \<Rightarrow> 'f \<Rightarrow> 'f" where
  "lerp_axis F d =
    (let d = fl_mod F d (fl_lit F 360)
     in if fl_less F d (fl_lit F 0) then fl_add F d (fl_lit F 360) else d)"

definition lerp_rotation :: "'f flt \<Rightarrow> 'f vec3 \<Rightarrow> 'f vec3 \<Rightarrow> 'f \<Rightarrow> 'f vec3" where
  "lerp_rotation F source target partial_ticks =
    (let d = sub3 F target source
     in add3 F source (lerp_axis F (vx d), lerp_axis F (vy d), lerp_axis F (vz d)))"

definition min_vec3 :: "'f flt \<Rightarrow> 'f vec3 list \<Rightarrow> 'f vec3" where
  "min_vec3 F vs = fold (\<lambda>v m. if fl_le F (vx v) (vx m) \<or> fl_le F (vy v) (vy m) \<or> fl_le F (vz v) (vz m)
     then v else m) vs (fl_max_value F, fl_max_value F, fl_max_value F)"

definition max_vec3 :: "'f flt \<Rightarrow> 'f vec3 list \<Rightarrow> 'f vec3" where
  "max_vec3 F vs = fold (\<lambda>v m. if fl_le F (vx m) (vx v) \<or> fl_le F (vy m) (vy v) \<or> fl_le F (vz m) (vz v)
     then v else m) vs (fl_neg F (fl_max_value F), fl_neg F (fl_max_value F), fl_neg F (fl_max_value F))"

text \<open>The yaw and the pitch that aim at a point, and how far a rotation is from them.\<close>
definition rotation_to_point :: "'f flt \<Rightarrow> 'f vec3 \<Rightarrow> 'f vec3 \<Rightarrow> 'f vec2" where
  "rotation_to_point F origin target =
    (let d = sub3 F target origin;
         deg = (\<lambda>r. fl_div F (fl_mul F r (fl_lit F 180)) (pi32 F));
         yaw = fl_sub F (deg (fl_atan2 F (vz d) (vx d))) (fl_lit F 90);
         pitch = deg (fl_atan2 F (vy d) (fl_sqrt F (fl_add F (fl_mul F (vx d) (vx d)) (fl_mul F (vz d) (vz d)))));
         yaw = (if fl_less F yaw (fl_lit F (-180)) then fl_add F yaw (fl_lit F 360)
                else if fl_less F (fl_lit F 180) yaw then fl_sub F yaw (fl_lit F 360) else yaw)
     in (yaw, fl_neg F pitch))"

definition angle_to_point :: "'f flt \<Rightarrow> 'f vec3 \<Rightarrow> 'f vec3 \<Rightarrow> 'f vec3 \<Rightarrow> 'f vec2" where
  "angle_to_point F origin target rotation =
    (let (yaw, pitch) = rotation_to_point F origin target
     in (wrap_yaw_delta F (fl_sub F yaw (vz rotation)), fl_sub F pitch (vx rotation)))"

section \<open>Instances\<close>

text \<open>Exact numbers: what the arithmetic is before rounding.\<close>
definition real_atan2 :: "real \<Rightarrow> real \<Rightarrow> real" where
  "real_atan2 y x =
    (if 0 < x then arctan (y / x) else if x < 0 then arctan (y / x) + (if 0 \<le> y then pi else - pi)
     else if 0 < y then pi / 2 else if y < 0 then - (pi / 2) else 0)"

definition real_flt :: "real flt" where
  "real_flt = \<lparr>fl_lit = (\<lambda>r. r), fl_neg = uminus, fl_add = (+), fl_sub = (-), fl_mul = (*), fl_div = (/),
     fl_less = (<), fl_le = (\<le>), fl_eq = (=), fl_min = min, fl_max = max, fl_abs = abs, fl_sqrt = sqrt,
     fl_floor = (\<lambda>x. of_int \<lfloor>x\<rfloor>), fl_ceil = (\<lambda>x. of_int \<lceil>x\<rceil>), fl_round = (\<lambda>x. sgn x * of_int \<lfloor>\<bar>x\<bar> + 1 / 2\<rfloor>),
     fl_mod = (\<lambda>x y. x - y * sgn (x / y) * of_int \<lfloor>\<bar>x / y\<bar>\<rfloor>), fl_sin = sin, fl_cos = cos,
     fl_atan2 = real_atan2, fl_of_int = of_int, fl_to_int = (\<lambda>x. sgn \<lfloor>x\<rfloor> * \<lfloor>\<bar>x\<bar>\<rfloor>),
     fl_finite = (\<lambda>_. True), fl_max_value = 340282346638528859811704183484516925440\<rparr>"

lemma real_flt_simps [simp]:
  "fl_lit real_flt r = r" "fl_neg real_flt a = - a" "fl_add real_flt a b = a + b"
  "fl_sub real_flt a b = a - b" "fl_mul real_flt a b = a * b" "fl_div real_flt a b = a / b"
  "fl_less real_flt a b = (a < b)" "fl_le real_flt a b = (a \<le> b)" "fl_eq real_flt a b = (a = b)"
  "fl_min real_flt a b = min a b" "fl_max real_flt a b = max a b" "fl_abs real_flt a = \<bar>a\<bar>"
  "fl_sqrt real_flt a = sqrt a" "fl_floor real_flt a = of_int \<lfloor>a\<rfloor>" "fl_ceil real_flt a = of_int \<lceil>a\<rceil>"
  "fl_of_int real_flt n = of_int n"
  by (simp_all add: real_flt_def)

text \<open>Thousandths, for the examples; the square root is that of the largest square below.\<close>
fun int_sqrt :: "nat \<Rightarrow> nat" where
  "int_sqrt n = (if n = 0 then 0 else
     let r = 2 * int_sqrt (n div 4) in if (r + 1) * (r + 1) \<le> n then r + 1 else r)"

declare int_sqrt.simps [simp del]

definition demo_flt :: "int flt" where
  "demo_flt = \<lparr>fl_lit = (\<lambda>r. \<lfloor>r * 1000\<rfloor>), fl_neg = uminus, fl_add = (+), fl_sub = (-),
     fl_mul = (\<lambda>a b. a * b div 1000), fl_div = (\<lambda>a b. a * 1000 div b), fl_less = (<), fl_le = (\<le>),
     fl_eq = (=), fl_min = min, fl_max = max, fl_abs = abs, fl_sqrt = (\<lambda>a. int (int_sqrt (nat (a * 1000)))),
     fl_floor = (\<lambda>a. a div 1000 * 1000), fl_ceil = (\<lambda>a. (a + 999) div 1000 * 1000),
     fl_round = (\<lambda>a. (a + 500) div 1000 * 1000), fl_mod = (\<lambda>a b. sgn a * (\<bar>a\<bar> mod \<bar>b\<bar>)),
     fl_sin = (\<lambda>a. 0), fl_cos = (\<lambda>a. 1000), fl_atan2 = (\<lambda>a b. 0), fl_of_int = (\<lambda>n. n * 1000),
     fl_to_int = (\<lambda>a. sgn a * (\<bar>a\<bar> div 1000)), fl_finite = (\<lambda>_. True), fl_max_value = 10 ^ 40\<rparr>"

end
