(* ===== verification/Movement.thy ===== *)
theory Movement
  imports Floats
begin

text \<open>
  The authoritative movement component: \<^verbatim>\<open>src/player/component/movement.go\<close>.
  The fields of the Go struct are grouped into sub-records (body, speeds, teleports, stance, inputs); the simulation step
  is an argument of the update, as a function on the component.
\<close>

section \<open>The component\<close>

record 'f client_mv =
  cm_pos :: "'f vec3"
  cm_last_pos :: "'f vec3"
  cm_vel :: "'f vec3"
  cm_last_vel :: "'f vec3"
  cm_mov :: "'f vec3"
  cm_last_mov :: "'f vec3"
  cm_toggled_fly :: bool
  cm_horizontal :: bool
  cm_vertical :: bool

record 'f body =
  bo_pos :: "'f vec3"
  bo_last_pos :: "'f vec3"
  bo_vel :: "'f vec3"
  bo_last_vel :: "'f vec3"
  bo_mov :: "'f vec3"
  bo_last_mov :: "'f vec3"
  bo_rotation :: "'f vec3"
  bo_last_rotation :: "'f vec3"
  bo_slide_offset :: "'f vec2"
  bo_impulse :: "'f vec2"
  bo_size :: "'f vec3"
  bo_supporting :: "(int \<times> int \<times> int) option"
  bo_gravity :: 'f
  bo_jump_height :: 'f
  bo_fall_distance :: 'f

record 'f speeds =
  sp_movement :: 'f
  sp_default :: 'f
  sp_air :: 'f
  sp_server_updated :: bool

record 'f teleports =
  tp_knockback :: "'f vec3"
  tp_since_kb :: "64 word"
  tp_pending_pos :: "'f vec3"
  tp_pending :: int
  tp_pos :: "'f vec3"
  tp_since :: "64 word"
  tp_completion :: "64 word"
  tp_smoothed :: bool

record stance =
  sn_sprinting :: bool
  sn_pressing_sprint :: bool
  sn_server_sprint :: bool
  sn_server_sprint_applied :: bool
  sn_sneaking :: bool
  sn_pressing_sneak :: bool
  sn_jumping :: bool
  sn_pressing_jump :: bool
  sn_jump_delay :: "64 word"
  sn_on_ground :: bool
  sn_gliding :: bool
  sn_glide_boost :: int

record contacts =
  ct_x :: bool
  ct_y :: bool
  ct_z :: bool
  ct_penetrated :: bool
  ct_stuck :: bool
  ct_immobile :: bool
  ct_no_clip :: bool
  ct_has_gravity :: bool

record flight =
  fy_flying :: bool
  fy_may_fly :: bool
  fy_trust :: bool
  fy_just_disabled :: bool

record inputs =
  in_allowed :: int
  in_first :: bool
  in_corrections :: int
  in_cooldown :: bool

record 'f mv =
  mv_client :: "'f client_mv"
  mv_body :: "'f body"
  mv_speeds :: "'f speeds"
  mv_tp :: "'f teleports"
  mv_stance :: stance
  mv_contacts :: contacts
  mv_flight :: flight
  mv_inputs :: inputs

definition new_client_mv :: "'f flt \<Rightarrow> 'f client_mv" where
  "new_client_mv F = \<lparr>cm_pos = zero3 F, cm_last_pos = zero3 F, cm_vel = zero3 F, cm_last_vel = zero3 F,
     cm_mov = zero3 F, cm_last_mov = zero3 F, cm_toggled_fly = False, cm_horizontal = False,
     cm_vertical = False\<rparr>"

definition new_movement :: "'f flt \<Rightarrow> 'f mv" where
  "new_movement F =
    \<lparr>mv_client = new_client_mv F,
     mv_body = \<lparr>bo_pos = zero3 F, bo_last_pos = zero3 F, bo_vel = zero3 F, bo_last_vel = zero3 F,
       bo_mov = zero3 F, bo_last_mov = zero3 F, bo_rotation = zero3 F, bo_last_rotation = zero3 F,
       bo_slide_offset = zero2 F, bo_impulse = zero2 F, bo_size = zero3 F, bo_supporting = None,
       bo_gravity = fl_lit F 0, bo_jump_height = fl_lit F 0, bo_fall_distance = fl_lit F 0\<rparr>,
     mv_speeds = \<lparr>sp_movement = fl_lit F 0.1, sp_default = fl_lit F 0.1, sp_air = fl_lit F 0.02,
       sp_server_updated = False\<rparr>,
     mv_tp = \<lparr>tp_knockback = zero3 F, tp_since_kb = 0, tp_pending_pos = zero3 F, tp_pending = 0,
       tp_pos = zero3 F, tp_since = 0, tp_completion = 0, tp_smoothed = False\<rparr>,
     mv_stance = \<lparr>sn_sprinting = False, sn_pressing_sprint = False, sn_server_sprint = False,
       sn_server_sprint_applied = False, sn_sneaking = False, sn_pressing_sneak = False,
       sn_jumping = False, sn_pressing_jump = False, sn_jump_delay = 0, sn_on_ground = False,
       sn_gliding = False, sn_glide_boost = 0\<rparr>,
     mv_contacts = \<lparr>ct_x = False, ct_y = False, ct_z = False, ct_penetrated = False,
       ct_stuck = False, ct_immobile = False, ct_no_clip = False, ct_has_gravity = False\<rparr>,
     mv_flight = \<lparr>fy_flying = False, fy_may_fly = False, fy_trust = False, fy_just_disabled = False\<rparr>,
     mv_inputs = \<lparr>in_allowed = 0, in_first = False, in_corrections = 0, in_cooldown = False\<rparr>\<rparr>"

section \<open>Setters\<close>

definition set_pos :: "'f vec3 \<Rightarrow> 'f mv \<Rightarrow> 'f mv" where
  "set_pos p m = m\<lparr>mv_body := (mv_body m)\<lparr>bo_last_pos := bo_pos (mv_body m), bo_pos := p\<rparr>\<rparr>"

definition set_vel :: "'f vec3 \<Rightarrow> 'f mv \<Rightarrow> 'f mv" where
  "set_vel v m = m\<lparr>mv_body := (mv_body m)\<lparr>bo_last_vel := bo_vel (mv_body m), bo_vel := v\<rparr>\<rparr>"

definition set_mov :: "'f vec3 \<Rightarrow> 'f mv \<Rightarrow> 'f mv" where
  "set_mov v m = m\<lparr>mv_body := (mv_body m)\<lparr>bo_last_mov := bo_mov (mv_body m), bo_mov := v\<rparr>\<rparr>"

definition set_size :: "'f vec3 \<Rightarrow> 'f mv \<Rightarrow> 'f mv" where
  "set_size v m = m\<lparr>mv_body := (mv_body m)\<lparr>bo_size := v\<rparr>\<rparr>"

definition set_server_sprint :: "bool \<Rightarrow> 'f mv \<Rightarrow> 'f mv" where
  "set_server_sprint b m = m\<lparr>mv_stance := (mv_stance m)\<lparr>sn_server_sprint_applied := False,
     sn_server_sprint := b\<rparr>\<rparr>"

definition set_movement_speed :: "'f \<Rightarrow> 'f mv \<Rightarrow> 'f mv" where
  "set_movement_speed v m = m\<lparr>mv_speeds := (mv_speeds m)\<lparr>sp_movement := v, sp_server_updated := True\<rparr>\<rparr>"

definition set_default_movement_speed :: "'f \<Rightarrow> 'f mv \<Rightarrow> 'f mv" where
  "set_default_movement_speed v m = m\<lparr>mv_speeds := (mv_speeds m)\<lparr>sp_default := v\<rparr>\<rparr>"

definition set_immobile :: "bool \<Rightarrow> 'f mv \<Rightarrow> 'f mv" where
  "set_immobile b m = m\<lparr>mv_contacts := (mv_contacts m)\<lparr>ct_immobile := b\<rparr>\<rparr>"

definition set_no_clip :: "bool \<Rightarrow> 'f mv \<Rightarrow> 'f mv" where
  "set_no_clip b m = m\<lparr>mv_contacts := (mv_contacts m)\<lparr>ct_no_clip := b\<rparr>\<rparr>"

definition set_has_gravity :: "bool \<Rightarrow> 'f mv \<Rightarrow> 'f mv" where
  "set_has_gravity b m = m\<lparr>mv_contacts := (mv_contacts m)\<lparr>ct_has_gravity := b\<rparr>\<rparr>"

definition set_flying :: "bool \<Rightarrow> 'f mv \<Rightarrow> 'f mv" where
  "set_flying b m = m\<lparr>mv_flight := (mv_flight m)\<lparr>fy_flying := b\<rparr>\<rparr>"

definition set_may_fly :: "bool \<Rightarrow> 'f mv \<Rightarrow> 'f mv" where
  "set_may_fly b m = m\<lparr>mv_flight := (mv_flight m)\<lparr>fy_may_fly := b\<rparr>\<rparr>"

definition set_trust_fly_status :: "bool \<Rightarrow> 'f mv \<Rightarrow> 'f mv" where
  "set_trust_fly_status b m = m\<lparr>mv_flight := (mv_flight m)\<lparr>fy_trust := b\<rparr>\<rparr>"

definition set_toggled_fly :: "bool \<Rightarrow> 'f mv \<Rightarrow> 'f mv" where
  "set_toggled_fly b m = m\<lparr>mv_client := (mv_client m)\<lparr>cm_toggled_fly := b\<rparr>\<rparr>"

definition set_knockback :: "'f vec3 \<Rightarrow> 'f mv \<Rightarrow> 'f mv" where
  "set_knockback v m = m\<lparr>mv_tp := (mv_tp m)\<lparr>tp_knockback := v, tp_since_kb := 0\<rparr>\<rparr>"

definition has_knockback :: "'f mv \<Rightarrow> bool" where
  "has_knockback m \<longleftrightarrow> tp_since_kb (mv_tp m) = 0"

definition mv_teleport :: "'f vec3 \<Rightarrow> bool \<Rightarrow> bool \<Rightarrow> 'f mv \<Rightarrow> 'f mv" where
  "mv_teleport pos on_ground smoothed m =
    m\<lparr>mv_tp := (mv_tp m)\<lparr>tp_pos := pos, tp_smoothed := smoothed, tp_since := 0,
        tp_completion := (if smoothed then 2 else 0)\<rparr>,
      mv_stance := (mv_stance m)\<lparr>sn_on_ground := on_ground\<rparr>\<rparr>"

definition has_teleport :: "'f mv \<Rightarrow> bool" where
  "has_teleport m \<longleftrightarrow> tp_since (mv_tp m) \<le> tp_completion (mv_tp m)"

definition remaining_teleport_ticks :: "'f mv \<Rightarrow> int" where
  "remaining_teleport_ticks m = sint (tp_completion (mv_tp m) - tp_since (mv_tp m))"

definition set_pending_teleport_pos :: "'f vec3 \<Rightarrow> 'f mv \<Rightarrow> 'f mv" where
  "set_pending_teleport_pos v m = m\<lparr>mv_tp := (mv_tp m)\<lparr>tp_pending_pos := v\<rparr>\<rparr>"

definition add_pending_teleport :: "'f mv \<Rightarrow> 'f mv" where
  "add_pending_teleport m = m\<lparr>mv_tp := (mv_tp m)\<lparr>tp_pending := tp_pending (mv_tp m) + 1\<rparr>\<rparr>"

definition remove_pending_teleport :: "'f mv \<Rightarrow> 'f mv" where
  "remove_pending_teleport m = m\<lparr>mv_tp := (mv_tp m)\<lparr>tp_pending := tp_pending (mv_tp m) - 1\<rparr>\<rparr>"

definition add_pending_correction :: "'f mv \<Rightarrow> 'f mv" where
  "add_pending_correction m = m\<lparr>mv_inputs := (mv_inputs m)\<lparr>in_corrections := in_corrections (mv_inputs m) + 1\<rparr>\<rparr>"

definition remove_pending_correction :: "'f mv \<Rightarrow> 'f mv" where
  "remove_pending_correction m = m\<lparr>mv_inputs := (mv_inputs m)\<lparr>in_corrections := in_corrections (mv_inputs m) - 1\<rparr>\<rparr>"

definition set_correction_cooldown :: "bool \<Rightarrow> 'f mv \<Rightarrow> 'f mv" where
  "set_correction_cooldown b m = m\<lparr>mv_inputs := (mv_inputs m)\<lparr>in_cooldown := b\<rparr>\<rparr>"

section \<open>The rate limit of inputs\<close>

definition input_acceptable :: "'f mv \<Rightarrow> bool \<times> 'f mv" where
  "input_acceptable m =
    (let i = (mv_inputs m)\<lparr>in_first := True\<rparr>
     in if in_allowed i \<le> 0 then (False, m\<lparr>mv_inputs := i\<rparr>)
        else (True, m\<lparr>mv_inputs := i\<lparr>in_allowed := in_allowed i - 1\<rparr>\<rparr>))"

definition mv_tick :: "int \<Rightarrow> int \<Rightarrow> int \<Rightarrow> 'f mv \<Rightarrow> 'f mv" where
  "mv_tick server_tick client_tick elapsed m =
    (let i = mv_inputs m
     in if \<not> in_first i then m\<lparr>mv_inputs := i\<lparr>in_allowed := 65535\<rparr>\<rparr>
        else
          let latency_allowance = max 0 (server_tick - client_tick) + elapsed;
              default_allowance = max 0 (in_allowed i) + elapsed;
              allowed = (if latency_allowance < default_allowance then latency_allowance else default_allowance)
          in m\<lparr>mv_inputs := i\<lparr>in_allowed := (if allowed < 1 then 1 else allowed)\<rparr>\<rparr>)"

section \<open>Updates from the client's input\<close>

datatype input_flag = FHorizontalCollision | FVerticalCollision | FStartFlying | FStopFlying
  | FSneaking | FSprintDown | FStartSprinting | FStopSprinting | FStartSneaking | FStopSneaking
  | FSneakDown | FStartJumping | FJumping | FStopGliding | FStartGliding | FJumpPressedRaw

record 'f auth_input =
  ai_flags :: "input_flag \<Rightarrow> bool"
  ai_position :: "'f vec3"
  ai_delta :: "'f vec3"
  ai_pitch :: 'f
  ai_head_yaw :: 'f
  ai_yaw :: 'f
  ai_move :: "'f vec2"

text \<open>What the update reads of the player: its version, its use of an item and its effects.\<close>
record mv_player =
  mp_new_version :: bool
  mp_consuming :: bool
  mp_jump_boost :: "int option"
  mp_slow_falling :: bool

definition update_client :: "'f flt \<Rightarrow> 'f auth_input \<Rightarrow> 'f client_mv \<Rightarrow> 'f client_mv" where
  "update_client F pk c =
    (let pos = sub3 F (ai_position pk) (fl_lit F 0, fl_lit F 1.62, fl_lit F 0)
     in c\<lparr>cm_horizontal := ai_flags pk FHorizontalCollision, cm_vertical := ai_flags pk FVerticalCollision,
          cm_last_pos := cm_pos c, cm_pos := pos, cm_last_vel := cm_vel c, cm_vel := ai_delta pk,
          cm_last_mov := cm_mov c, cm_mov := sub3 F pos (cm_pos c)\<rparr>)"

definition update_flight :: "'f auth_input \<Rightarrow> 'f mv \<Rightarrow> 'f mv" where
  "update_flight pk m =
    (if ai_flags pk FStartFlying then
       let m = set_toggled_fly True m
       in if fy_trust (mv_flight m) then set_flying True m else m
     else if ai_flags pk FStopFlying then
       let m = (if fy_flying (mv_flight m)
                then m\<lparr>mv_flight := (mv_flight m)\<lparr>fy_just_disabled := True\<rparr>\<rparr> else m)
       in set_toggled_fly False (set_flying False m)
     else m)"

definition set_sprint :: "'f flt \<Rightarrow> bool \<Rightarrow> 'f mv \<Rightarrow> 'f mv" where
  "set_sprint F b m = m\<lparr>mv_stance := (mv_stance m)\<lparr>sn_sprinting := b\<rparr>,
     mv_speeds := (mv_speeds m)\<lparr>sp_air := fl_lit F (if b then 0.026 else 0.02)\<rparr>\<rparr>"

text \<open>The sprint state before the simulation, and whether the speed has to be adjusted.\<close>
definition update_sprint :: "'f flt \<Rightarrow> mv_player \<Rightarrow> 'f auth_input \<Rightarrow> 'f mv \<Rightarrow> bool \<times> 'f mv" where
  "update_sprint F P pk m =
    (let start = ai_flags pk FStartSprinting; stop = ai_flags pk FStopSprinting; st = mv_stance m
     in if start \<and> stop then (mp_new_version P, set_sprint F False m)
        else if \<not> start \<and> \<not> stop \<and> \<not> sn_server_sprint_applied st \<and> sn_server_sprint st \<noteq> sn_sprinting st
        then (False, set_sprint F (sn_server_sprint st) m)
        else if start then (mp_new_version P, set_sprint F True m)
        else if stop then (mp_new_version P \<and> \<not> sp_server_updated (mv_speeds m), set_sprint F False m)
        else (False, m))"

definition adjust_speed :: "'f flt \<Rightarrow> 'f mv \<Rightarrow> 'f mv" where
  "adjust_speed F m =
    (let sp = (mv_speeds m)\<lparr>sp_server_updated := False, sp_movement := sp_default (mv_speeds m)\<rparr>
     in m\<lparr>mv_speeds := (if sn_sprinting (mv_stance m)
          then sp\<lparr>sp_movement := fl_mul F (sp_movement sp) (fl_lit F 1.3)\<rparr> else sp)\<rparr>)"

definition max_impulse :: "'f flt \<Rightarrow> mv_player \<Rightarrow> bool \<Rightarrow> 'f" where
  "max_impulse F P sneaking =
    (let i = fl_lit F 1;
         i = (if mp_consuming P then fl_mul F i (fl_lit F 0.1225) else i)
     in if sneaking then fl_mul F i (fl_lit F 0.3) else i)"

text \<open>The rest of the update before the simulation.\<close>
definition update_controls :: "'f flt \<Rightarrow> mv_player \<Rightarrow> 'f auth_input \<Rightarrow> 'f mv \<Rightarrow> 'f mv" where
  "update_controls F P pk m =
    (let st = mv_stance m;
         sneaking = (if ai_flags pk FStartSneaking then True
                     else if ai_flags pk FStopSneaking then False else ai_flags pk FSneakDown);
         lim = max_impulse F P sneaking;
         mx = clamp_float F (fst (ai_move pk)) (fl_neg F lim) lim;
         my = clamp_float F (snd (ai_move pk)) (fl_neg F lim) lim;
         height = (case mp_jump_boost P of
                     Some a \<Rightarrow> fl_add F (fl_lit F 0.42) (fl_mul F (fl_of_int F a) (fl_lit F 0.1))
                   | None \<Rightarrow> fl_lit F 0.42);
         gravity = (if mp_slow_falling P then fl_lit F 0.01 else fl_lit F 0.08);
         pressing = ai_flags pk FJumping;
         st = st\<lparr>sn_sneaking := sneaking, sn_jumping := ai_flags pk FStartJumping,
                 sn_pressing_jump := pressing,
                 sn_jump_delay := (if pressing then sn_jump_delay st else 0)\<rparr>;
         st = (if ai_flags pk FStopGliding then st\<lparr>sn_gliding := False, sn_glide_boost := 0\<rparr>
               else if ai_flags pk FStartGliding then st\<lparr>sn_gliding := True\<rparr> else st)
     in m\<lparr>mv_stance := st,
          mv_body := (mv_body m)\<lparr>bo_jump_height := height, bo_gravity := gravity,
            bo_impulse := (fl_mul F mx (fl_lit F 0.98), fl_mul F my (fl_lit F 0.98))\<rparr>\<rparr>)"

text \<open>The sprint state of older versions after the simulation.\<close>
definition update_sprint_late :: "'f flt \<Rightarrow> 'f auth_input \<Rightarrow> 'f mv \<Rightarrow> 'f mv" where
  "update_sprint_late F pk m =
    (let start = ai_flags pk FStartSprinting; stop = ai_flags pk FStopSprinting;
         sprint = (\<lambda>b. m\<lparr>mv_stance := (mv_stance m)\<lparr>sn_sprinting := b\<rparr>\<rparr>);
         (adjust, m) =
           (if start \<and> stop then (True, sprint False)
            else if start then (True, sprint True)
            else if stop then (\<not> sp_server_updated (mv_speeds m), sprint False)
            else (False, m))
     in if adjust then adjust_speed F m else m)"

text \<open>The counters at the end of a frame; \<^verbatim>\<open>uint64\<close> and \<^verbatim>\<open>int64\<close> counters.\<close>
definition update_counters :: "'f mv \<Rightarrow> 'f mv" where
  "update_counters m =
    m\<lparr>mv_stance := (mv_stance m)\<lparr>sn_glide_boost := sn_glide_boost (mv_stance m) - 1,
        sn_jump_delay := (if 0 < sn_jump_delay (mv_stance m) then sn_jump_delay (mv_stance m) - 1
                          else sn_jump_delay (mv_stance m))\<rparr>,
      mv_tp := (mv_tp m)\<lparr>tp_since_kb := tp_since_kb (mv_tp m) + 1, tp_since := tp_since (mv_tp m) + 1\<rparr>,
      mv_flight := (mv_flight m)\<lparr>fy_just_disabled := False\<rparr>\<rparr>"

text \<open>The update up to the sprint state: the client's claims, its flight, its rotation, its keys.\<close>
definition update_start :: "'f flt \<Rightarrow> 'f auth_input \<Rightarrow> 'f mv \<Rightarrow> 'f mv" where
  "update_start F pk m =
    (let m = update_flight pk (m\<lparr>mv_client := update_client F pk (mv_client m)\<rparr>)
     in m\<lparr>mv_body := (mv_body m)\<lparr>bo_last_rotation := bo_rotation (mv_body m),
            bo_rotation := (ai_pitch pk, ai_head_yaw pk, ai_yaw pk)\<rparr>,
          mv_stance := (mv_stance m)\<lparr>sn_pressing_sneak := ai_flags pk FSneaking,
            sn_pressing_sprint := ai_flags pk FSprintDown\<rparr>\<rparr>)"

definition update_sprint_step :: "'f flt \<Rightarrow> mv_player \<Rightarrow> 'f auth_input \<Rightarrow> 'f mv \<Rightarrow> 'f mv" where
  "update_sprint_step F P pk m =
    (let (adjust, m) = update_sprint F P pk m;
         m = m\<lparr>mv_stance := (mv_stance m)\<lparr>sn_server_sprint_applied := True\<rparr>\<rparr>
     in if adjust then adjust_speed F m else m)"

text \<open>The whole update; the flag is whether the detections are told of a knockback.\<close>
definition mv_update ::
  "'f flt \<Rightarrow> ('f mv \<Rightarrow> 'f mv) \<Rightarrow> mv_player \<Rightarrow> 'f auth_input \<Rightarrow> 'f mv \<Rightarrow> bool \<times> 'f mv" where
  "mv_update F simulate P pk m =
    (let m = simulate (update_controls F P pk (update_sprint_step F P pk (update_start F pk m)));
         m = (if \<not> mp_new_version P then update_sprint_late F pk m else m)
     in (has_knockback m, update_counters m))"

text \<open>\<^verbatim>\<open>Reset\<close>: back to what the client says, within the configured limit of velocities.\<close>
definition mv_reset :: "'f flt \<Rightarrow> 'f option \<Rightarrow> 'f mv \<Rightarrow> 'f mv" where
  "mv_reset F limit m =
    (let c = mv_client m;
         b = (mv_body m)\<lparr>bo_last_pos := cm_last_pos c, bo_pos := cm_pos c, bo_last_vel := cm_last_vel c,
               bo_vel := cm_vel c, bo_last_mov := cm_last_mov c, bo_mov := cm_mov c\<rparr>;
         s = (if fy_flying (mv_flight m) then (mv_stance m)\<lparr>sn_on_ground := False\<rparr> else mv_stance m);
         b = (case limit of None \<Rightarrow> b
              | Some t \<Rightarrow>
                  let t = (if fl_less F t (fl_lit F 0) then fl_neg F t else t);
                      cl = (\<lambda>v. clamp_float F v (fl_neg F t) t)
                  in case bo_vel b of (x, y, z) \<Rightarrow> b\<lparr>bo_vel := (cl x, cl y, cl z)\<rparr>)
     in m\<lparr>mv_body := b, mv_stance := s\<rparr>)"

definition mv_reset_transfer_state :: "'f flt \<Rightarrow> 'f vec3 \<Rightarrow> 'f mv \<Rightarrow> 'f mv" where
  "mv_reset_transfer_state F pos m =
    \<lparr>mv_client = \<lparr>cm_pos = pos, cm_last_pos = pos, cm_vel = zero3 F, cm_last_vel = zero3 F,
       cm_mov = zero3 F, cm_last_mov = zero3 F, cm_toggled_fly = False, cm_horizontal = False,
       cm_vertical = False\<rparr>,
     mv_body = (mv_body m)\<lparr>bo_pos := pos, bo_last_pos := pos, bo_vel := zero3 F, bo_last_vel := zero3 F,
       bo_mov := zero3 F, bo_last_mov := zero3 F, bo_slide_offset := zero2 F, bo_impulse := zero2 F,
       bo_supporting := None, bo_gravity := fl_lit F 0.08, bo_jump_height := fl_lit F 0.42,
       bo_fall_distance := fl_lit F 0\<rparr>,
     mv_speeds = (mv_speeds m)\<lparr>sp_movement := sp_default (mv_speeds m), sp_air := fl_lit F 0.02,
       sp_server_updated := False\<rparr>,
     mv_tp = \<lparr>tp_knockback = zero3 F, tp_since_kb = 1, tp_pending_pos = pos, tp_pending = 0,
       tp_pos = pos, tp_since = 1, tp_completion = 0, tp_smoothed = False\<rparr>,
     mv_stance = \<lparr>sn_sprinting = False, sn_pressing_sprint = False, sn_server_sprint = False,
       sn_server_sprint_applied = False, sn_sneaking = False, sn_pressing_sneak = False,
       sn_jumping = False, sn_pressing_jump = False, sn_jump_delay = 0, sn_on_ground = False,
       sn_gliding = False, sn_glide_boost = 0\<rparr>,
     mv_contacts = \<lparr>ct_x = False, ct_y = False, ct_z = False, ct_penetrated = False,
       ct_stuck = False, ct_immobile = False, ct_no_clip = False, ct_has_gravity = True\<rparr>,
     mv_flight = \<lparr>fy_flying = False, fy_may_fly = False, fy_trust = False, fy_just_disabled = False\<rparr>,
     mv_inputs = \<lparr>in_allowed = 65535, in_first = False, in_corrections = 0, in_cooldown = False\<rparr>\<rparr>"

section \<open>The rate limit\<close>

datatype input_event = EvInput | EvServerTick int int int

text \<open>The number of inputs accepted in a run, and the component after it.\<close>
fun input_run :: "input_event list \<Rightarrow> 'f mv \<Rightarrow> nat \<times> 'f mv" where
  "input_run [] m = (0, m)"
| "input_run (EvInput # evs) m =
    (let (ok, m) = input_acceptable m; (n, m) = input_run evs m in ((if ok then Suc n else n), m))"
| "input_run (EvServerTick s c el # evs) m = input_run evs (mv_tick s c el m)"

fun elapsed_ticks :: "input_event list \<Rightarrow> int" where
  "elapsed_ticks [] = 0"
| "elapsed_ticks (EvInput # evs) = elapsed_ticks evs"
| "elapsed_ticks (EvServerTick _ _ el # evs) = max 1 el + elapsed_ticks evs"

definition allowed_inputs :: "'f mv \<Rightarrow> int" where
  "allowed_inputs m = max 0 (in_allowed (mv_inputs m))"

lemma mv_tick_allowed:
  assumes "in_first (mv_inputs m)"
  shows "allowed_inputs (mv_tick s c el m) \<le> allowed_inputs m + max 1 el"
    and "in_first (mv_inputs (mv_tick s c el m))"
    and "1 \<le> in_allowed (mv_inputs (mv_tick s c el m))"
    and "in_allowed (mv_inputs (mv_tick s c el m)) \<le> max 1 (max 0 (s - c) + el)"
  using assms by (auto simp: mv_tick_def allowed_inputs_def Let_def)

lemma input_acceptable_allowed:
  assumes "input_acceptable m = (ok, m')"
  shows "allowed_inputs m' = allowed_inputs m - (if ok then 1 else 0)"
    and "in_first (mv_inputs m')" "ok \<longleftrightarrow> 0 < in_allowed (mv_inputs m)"
  using assms by (auto simp: input_acceptable_def allowed_inputs_def Let_def split: if_splits)

lemma input_run_bound:
  "in_first (mv_inputs m) \<Longrightarrow> input_run evs m = (n, m')
   \<Longrightarrow> int n + allowed_inputs m' \<le> allowed_inputs m + elapsed_ticks evs"
proof (induction evs m arbitrary: n m' rule: input_run.induct)
  case (2 evs m)
  obtain ok m1 where a: "input_acceptable m = (ok, m1)" by fastforce
  obtain k m2 where r: "input_run evs m1 = (k, m2)" by fastforce
  have "int k + allowed_inputs m2 \<le> allowed_inputs m1 + elapsed_ticks evs"
    by (rule "2.IH"[OF a[symmetric] refl input_acceptable_allowed(2)[OF a] r])
  then show ?case using "2.prems"(2) input_acceptable_allowed(1)[OF a] a r
    by (auto split: if_splits)
next
  case (3 s c el evs m)
  have "int n + allowed_inputs m' \<le> allowed_inputs (mv_tick s c el m) + elapsed_ticks evs"
    using "3.IH" "3.prems" mv_tick_allowed(2)[OF "3.prems"(1)] by auto
  then show ?case using mv_tick_allowed(1)[OF "3.prems"(1), of s c el] by simp
qed simp

text \<open>From any state after the first input, the inputs accepted over any run are at most what was
  allowed at its start plus the server ticks that passed in it, so a client cannot run faster than
  the server, whatever it claims about its latency.\<close>
theorem inputs_bounded_by_ticks:
  assumes "in_first (mv_inputs m)"
  shows "int (fst (input_run evs m)) \<le> max 0 (in_allowed (mv_inputs m)) + elapsed_ticks evs"
  using input_run_bound[OF assms, of evs] by (cases "input_run evs m") (fastforce simp: allowed_inputs_def)

definition demo_mv :: "int mv" where
  "demo_mv = snd (input_acceptable (mv_tick 0 0 1 (new_movement demo_flt)))"

theorem inputs_bounded_by_ticks_witness:
  "int (fst (input_run [EvInput, EvServerTick 9 3 1, EvInput, EvInput] demo_mv)) \<le> 65535"
  using inputs_bounded_by_ticks[of demo_mv "[EvInput, EvServerTick 9 3 1, EvInput, EvInput]"]
  by (simp add: demo_mv_def input_acceptable_def mv_tick_def new_movement_def Let_def)

text \<open>After a server tick at least one input is accepted, and at most the client's lag plus the
  ticks that elapsed are accepted before the next one.\<close>
theorem tick_allows_lag:
  assumes "in_first (mv_inputs m)"
  shows "fst (input_acceptable (mv_tick s c el m))
     \<and> int (fst (input_run (replicate k EvInput) (mv_tick s c el m))) \<le> max 1 (max 0 (s - c) + el)"
proof -
  have e: "elapsed_ticks (replicate k EvInput) = 0" by (induction k) auto
  have "int (fst (input_run (replicate k EvInput) (mv_tick s c el m))) \<le> allowed_inputs (mv_tick s c el m)"
    using input_run_bound[OF mv_tick_allowed(2)[OF assms, of s c el], of "replicate k EvInput"] e
    by (cases "input_run (replicate k EvInput) (mv_tick s c el m)") (fastforce simp: allowed_inputs_def)
  then show ?thesis
    using mv_tick_allowed(3,4)[OF assms, of s c el]
    by (auto simp: input_acceptable_def allowed_inputs_def Let_def)
qed

theorem tick_allows_lag_witness:
  "int (fst (input_run (replicate 9 EvInput) (mv_tick 12 10 1 demo_mv))) \<le> 3"
  using tick_allows_lag[of demo_mv 12 10 1 9]
  by (simp add: demo_mv_def input_acceptable_def mv_tick_def new_movement_def Let_def)

section \<open>Frames\<close>

text \<open>What a simulation leaves alone: it has no access to these fields.\<close>
definition simulation_keeps :: "('f mv \<Rightarrow> 'f mv) \<Rightarrow> bool" where
  "simulation_keeps sim \<longleftrightarrow> (\<forall>m. mv_tp (sim m) = mv_tp m \<and> mv_flight (sim m) = mv_flight m
     \<and> mv_speeds (sim m) = mv_speeds m \<and> mv_inputs (sim m) = mv_inputs m
     \<and> sn_sprinting (mv_stance (sim m)) = sn_sprinting (mv_stance m))"

lemma update_start_parts:
  "mv_tp (update_start F pk m) = mv_tp m" "mv_speeds (update_start F pk m) = mv_speeds m"
  "sn_sprinting (mv_stance (update_start F pk m)) = sn_sprinting (mv_stance m)"
  "sn_server_sprint (mv_stance (update_start F pk m)) = sn_server_sprint (mv_stance m)"
  "sn_server_sprint_applied (mv_stance (update_start F pk m)) = sn_server_sprint_applied (mv_stance m)"
  by (simp_all add: update_start_def update_flight_def Let_def set_toggled_fly_def set_flying_def)

lemma update_start_flight:
  "fy_flying (mv_flight (update_start F pk m)) =
     (if ai_flags pk FStartFlying then fy_flying (mv_flight m) \<or> fy_trust (mv_flight m)
      else if ai_flags pk FStopFlying then False else fy_flying (mv_flight m))"
  "fy_trust (mv_flight (update_start F pk m)) = fy_trust (mv_flight m)"
  by (simp_all add: update_start_def update_flight_def Let_def set_toggled_fly_def set_flying_def)

lemma adjust_speed_parts:
  "mv_tp (adjust_speed F m) = mv_tp m" "mv_flight (adjust_speed F m) = mv_flight m"
  "mv_stance (adjust_speed F m) = mv_stance m"
  "sp_air (mv_speeds (adjust_speed F m)) = sp_air (mv_speeds m)"
  by (simp_all add: adjust_speed_def Let_def)

text \<open>What the sprint flags of an input and the server's pending change make of the sprint state.\<close>
definition next_sprint :: "'f auth_input \<Rightarrow> stance \<Rightarrow> bool" where
  "next_sprint pk st =
    (if ai_flags pk FStartSprinting then \<not> ai_flags pk FStopSprinting
     else if ai_flags pk FStopSprinting then False
     else if \<not> sn_server_sprint_applied st then sn_server_sprint st else sn_sprinting st)"

definition air_speed_ok :: "'f flt \<Rightarrow> 'f mv \<Rightarrow> bool" where
  "air_speed_ok F m \<longleftrightarrow>
     sp_air (mv_speeds m) = fl_lit F (if sn_sprinting (mv_stance m) then 0.026 else 0.02)"

lemma update_sprint_step_parts:
  "mv_tp (update_sprint_step F P pk m) = mv_tp m"
  "mv_flight (update_sprint_step F P pk m) = mv_flight m"
  "sn_sprinting (mv_stance (update_sprint_step F P pk m)) = next_sprint pk (mv_stance m)"
  by (auto simp: update_sprint_step_def update_sprint_def next_sprint_def set_sprint_def Let_def adjust_speed_parts)

lemma update_sprint_step_air:
  "air_speed_ok F m \<Longrightarrow> air_speed_ok F (update_sprint_step F P pk m)"
  by (auto simp: air_speed_ok_def update_sprint_step_def update_sprint_def set_sprint_def Let_def adjust_speed_parts)

lemma update_controls_parts:
  "mv_tp (update_controls F P pk m) = mv_tp m" "mv_flight (update_controls F P pk m) = mv_flight m"
  "mv_speeds (update_controls F P pk m) = mv_speeds m"
  "sn_sprinting (mv_stance (update_controls F P pk m)) = sn_sprinting (mv_stance m)"
  by (simp_all add: update_controls_def Let_def)

lemma update_sprint_late_parts:
  "mv_tp (update_sprint_late F pk m) = mv_tp m" "mv_flight (update_sprint_late F pk m) = mv_flight m"
  "sp_air (mv_speeds (update_sprint_late F pk m)) = sp_air (mv_speeds m)"
  by (simp_all add: update_sprint_late_def Let_def adjust_speed_parts)

text \<open>The assignments of the late sprint state repeat the early ones.\<close>
lemma update_sprint_late_same:
  assumes "sn_sprinting (mv_stance m) = next_sprint pk st"
  shows "sn_sprinting (mv_stance (update_sprint_late F pk m)) = sn_sprinting (mv_stance m)"
  using assms by (auto simp: update_sprint_late_def next_sprint_def Let_def adjust_speed_parts)

lemma update_counters_parts:
  "mv_speeds (update_counters m) = mv_speeds m"
  "sn_sprinting (mv_stance (update_counters m)) = sn_sprinting (mv_stance m)"
  "fy_flying (mv_flight (update_counters m)) = fy_flying (mv_flight m)"
  "fy_trust (mv_flight (update_counters m)) = fy_trust (mv_flight m)"
  "mv_tp (update_counters m) = (mv_tp m)\<lparr>tp_since_kb := tp_since_kb (mv_tp m) + 1, tp_since := tp_since (mv_tp m) + 1\<rparr>"
  by (simp_all add: update_counters_def)

lemmas update_parts = update_start_parts update_start_flight update_sprint_step_parts
  update_controls_parts update_sprint_late_parts update_counters_parts

lemma mv_update_parts:
  assumes "simulation_keeps sim"
  shows "mv_tp (snd (mv_update F sim P pk m))
     = (mv_tp m)\<lparr>tp_since_kb := tp_since_kb (mv_tp m) + 1, tp_since := tp_since (mv_tp m) + 1\<rparr>"
    and "fy_trust (mv_flight (snd (mv_update F sim P pk m))) = fy_trust (mv_flight m)"
    and "fy_flying (mv_flight (snd (mv_update F sim P pk m))) = fy_flying (mv_flight (update_start F pk m))"
    and "sn_sprinting (mv_stance (snd (mv_update F sim P pk m))) = next_sprint pk (mv_stance m)"
proof -
  let ?m = "update_controls F P pk (update_sprint_step F P pk (update_start F pk m))"
  have keep: "mv_tp (sim ?m) = mv_tp ?m" "mv_flight (sim ?m) = mv_flight ?m"
    "sn_sprinting (mv_stance (sim ?m)) = sn_sprinting (mv_stance ?m)"
    using assms by (auto simp: simulation_keeps_def)
  show "mv_tp (snd (mv_update F sim P pk m))
     = (mv_tp m)\<lparr>tp_since_kb := tp_since_kb (mv_tp m) + 1, tp_since := tp_since (mv_tp m) + 1\<rparr>"
    "fy_trust (mv_flight (snd (mv_update F sim P pk m))) = fy_trust (mv_flight m)"
    "fy_flying (mv_flight (snd (mv_update F sim P pk m))) = fy_flying (mv_flight (update_start F pk m))"
    by (simp_all add: mv_update_def Let_def update_parts keep)
  have sp: "sn_sprinting (mv_stance ?m) = next_sprint pk (mv_stance (update_start F pk m))"
    by (simp add: update_parts)
  have ns: "next_sprint pk (mv_stance (update_start F pk m)) = next_sprint pk (mv_stance m)"
    by (simp add: next_sprint_def update_start_parts)
  show "sn_sprinting (mv_stance (snd (mv_update F sim P pk m))) = next_sprint pk (mv_stance m)"
    using update_sprint_late_same[of "sim ?m" pk "mv_stance m" F] keep(3) sp ns
    by (simp add: mv_update_def Let_def update_counters_parts)
qed

lemma update_inputs:
  "mv_inputs (update_start F pk m) = mv_inputs m" "mv_inputs (update_sprint_step F P pk m) = mv_inputs m"
  "mv_inputs (update_controls F P pk m) = mv_inputs m" "mv_inputs (update_sprint_late F pk m) = mv_inputs m"
  "mv_inputs (update_counters m) = mv_inputs m"
  by (simp_all add: update_start_def update_flight_def set_toggled_fly_def set_flying_def update_sprint_step_def
      update_sprint_def set_sprint_def adjust_speed_def update_controls_def update_sprint_late_def
      update_counters_def Let_def)

lemma mv_update_inputs:
  "simulation_keeps sim \<Longrightarrow> mv_inputs (snd (mv_update F sim P pk m)) = mv_inputs m"
  by (simp add: mv_update_def Let_def update_inputs simulation_keeps_def)

lemma mv_update_air:
  assumes "simulation_keeps sim" "air_speed_ok F m"
  shows "air_speed_ok F (snd (mv_update F sim P pk m))"
proof -
  let ?s = "update_sprint_step F P pk (update_start F pk m)"
  have "air_speed_ok F (update_start F pk m)"
    using assms(2) by (simp add: air_speed_ok_def update_start_parts)
  then have a: "air_speed_ok F ?s" by (rule update_sprint_step_air)
  have "sp_air (mv_speeds (snd (mv_update F sim P pk m))) = sp_air (mv_speeds ?s)"
    using assms(1) by (simp add: mv_update_def Let_def update_parts simulation_keeps_def)
  moreover have "sn_sprinting (mv_stance ?s) = next_sprint pk (mv_stance m)"
    by (simp add: update_sprint_step_parts next_sprint_def update_start_parts)
  ultimately show ?thesis
    using a mv_update_parts(4)[OF assms(1), of F P pk m] by (simp add: air_speed_ok_def)
qed

text \<open>Frames: the inputs that were simulated, oldest first.\<close>
definition mv_frames :: "'f flt \<Rightarrow> ('f mv \<Rightarrow> 'f mv) \<Rightarrow> mv_player \<Rightarrow> 'f auth_input list \<Rightarrow> 'f mv \<Rightarrow> 'f mv" where
  "mv_frames F sim P pks m = fold (\<lambda>pk m. snd (mv_update F sim P pk m)) pks m"

lemma mv_frames_tp:
  assumes "simulation_keeps sim"
  shows "mv_tp (mv_frames F sim P pks m) = (mv_tp m)\<lparr>tp_since_kb := tp_since_kb (mv_tp m) + of_nat (length pks),
     tp_since := tp_since (mv_tp m) + of_nat (length pks)\<rparr>"
  by (induction pks arbitrary: m) (simp_all add: mv_frames_def mv_update_parts(1)[OF assms] algebra_simps)

text \<open>A teleport is pending for the simulation of exactly the next frame, or of the next three when it
  is smoothed, and for no later one (below 2^64 frames); a knockback of exactly the next frame.\<close>
theorem teleport_and_knockback_windows:
  assumes "simulation_keeps sim" "length pks < 2 ^ 64"
  shows "(has_teleport (mv_frames F sim P pks (mv_teleport pos ground smoothed m))
       \<longleftrightarrow> length pks \<le> (if smoothed then 2 else 0))
     \<and> (has_knockback (mv_frames F sim P pks (set_knockback v m)) \<longleftrightarrow> pks = [])"
proof -
  have n: "unat (of_nat (length pks) :: 64 word) = length pks"
    using assms(2) by (simp add: unat_of_nat take_bit_nat_eq_self)
  have "has_teleport (mv_frames F sim P pks (mv_teleport pos ground smoothed m))
       \<longleftrightarrow> length pks \<le> (if smoothed then 2 else 0)"
    by (simp add: has_teleport_def mv_frames_tp[OF assms(1)] mv_teleport_def word_le_nat_alt n)
  moreover have "has_knockback (mv_frames F sim P pks (set_knockback v m)) \<longleftrightarrow> pks = []"
    by (simp add: has_knockback_def mv_frames_tp[OF assms(1)] set_knockback_def unat_eq_0[symmetric] n
        del: unat_eq_0)
  ultimately show ?thesis by blast
qed

abbreviation demo_player :: mv_player where
  "demo_player \<equiv> \<lparr>mp_new_version = False, mp_consuming = False, mp_jump_boost = None, mp_slow_falling = False\<rparr>"

definition demo_input :: "input_flag list \<Rightarrow> int auth_input" where
  "demo_input fs = \<lparr>ai_flags = (\<lambda>f. f \<in> set fs), ai_position = (0, 1620, 0), ai_delta = (0, 0, 0),
     ai_pitch = 0, ai_head_yaw = 0, ai_yaw = 0, ai_move = (0, 1000)\<rparr>"

lemma simulation_keeps_id: "simulation_keeps (\<lambda>m. m)"
  by (simp add: simulation_keeps_def)

theorem teleport_and_knockback_windows_witness:
  "has_teleport (mv_frames demo_flt (\<lambda>m. m) demo_player [demo_input [FStartSprinting]] (mv_teleport (0, 9, 0) True True demo_mv))
   \<and> \<not> has_knockback (mv_frames demo_flt (\<lambda>m. m) demo_player [demo_input [FStartSprinting]] (set_knockback (0, 9, 0) demo_mv))"
  using teleport_and_knockback_windows[OF simulation_keeps_id, of "[demo_input [FStartSprinting]]" demo_flt demo_player
      "(0, 9, 0)" True True demo_mv "(0, 9, 0)"]
  by simp

lemma mv_frames_air:
  "simulation_keeps sim \<Longrightarrow> air_speed_ok F m \<Longrightarrow> air_speed_ok F (mv_frames F sim P pks m)"
  by (induction pks arbitrary: m) (simp_all add: mv_frames_def mv_update_air)

text \<open>From a new component or from any state a transfer leaves, whatever inputs are simulated, the air
  speed is the sprinting one exactly while sprinting, and an input leaves the sprint state that
  its flags and the server's pending change ask for, on old and new versions alike.\<close>
theorem air_speed_follows_sprint:
  assumes "simulation_keeps sim" "m = new_movement F \<or> (\<exists>m0 p. m = mv_reset_transfer_state F p m0)"
  shows "sp_air (mv_speeds (mv_frames F sim P pks m))
       = fl_lit F (if sn_sprinting (mv_stance (mv_frames F sim P pks m)) then 0.026 else 0.02)
     \<and> sn_sprinting (mv_stance (snd (mv_update F sim P pk (mv_frames F sim P pks m))))
       = next_sprint pk (mv_stance (mv_frames F sim P pks m))"
proof -
  have "air_speed_ok F m"
    using assms(2) by (auto simp: air_speed_ok_def new_movement_def mv_reset_transfer_state_def)
  from mv_frames_air[OF assms(1) this, of P pks] show ?thesis
    by (simp add: air_speed_ok_def mv_update_parts(4)[OF assms(1)])
qed

theorem air_speed_follows_sprint_witness:
  "sn_sprinting (mv_stance (snd (mv_update demo_flt (\<lambda>m. m) demo_player (demo_input [FStartSprinting])
      (mv_frames demo_flt (\<lambda>m. m) demo_player [] (new_movement demo_flt)))))"
  using air_speed_follows_sprint[OF simulation_keeps_id, of "new_movement demo_flt" demo_flt demo_player "[]"
      "demo_input [FStartSprinting]"]
  by (simp add: next_sprint_def demo_input_def)

lemma mv_update_no_fly:
  assumes "simulation_keeps sim" "\<not> fy_flying (mv_flight m)" "\<not> fy_trust (mv_flight m)"
  shows "\<not> fy_flying (mv_flight (snd (mv_update F sim P pk m)))
     \<and> \<not> fy_trust (mv_flight (snd (mv_update F sim P pk m)))"
  using assms(2,3) by (simp add: mv_update_parts(2,3)[OF assms(1)] update_start_flight)

text \<open>A client whose fly status is not trusted cannot start to fly by any sequence of inputs.\<close>
theorem untrusted_never_flies:
  assumes "simulation_keeps sim" "\<not> fy_flying (mv_flight m)" "\<not> fy_trust (mv_flight m)"
  shows "\<not> fy_flying (mv_flight (mv_frames F sim P pks m))"
  using assms(2,3)
  by (induction pks arbitrary: m) (auto simp: mv_frames_def dest: mv_update_no_fly[OF assms(1)])

theorem untrusted_never_flies_witness:
  "\<not> fy_flying (mv_flight (mv_frames demo_flt (\<lambda>m. m) demo_player
      [demo_input [FStartFlying], demo_input [FStartFlying, FJumping]] demo_mv))"
  using untrusted_never_flies[OF simulation_keeps_id, of demo_mv]
  by (simp add: demo_mv_def input_acceptable_def mv_tick_def new_movement_def Let_def)

end
