(* ===== verification/Placements.thy ===== *)
theory Placements
  imports Prelude
begin

text \<open>
  The client's block placements and their chains: \<^verbatim>\<open>chainedBlockPlacement\<close> of
  \<^verbatim>\<open>src/player/component/world.go\<close>.  Placements are objects that point to each other,
  kept in a heap (a list; an object is its index).  The faces of a block and their opposites
  are the cube library's: \<^verbatim>\<open>faces\<close> lists them in order, \<^verbatim>\<open>opp\<close> is the opposite.
\<close>

record placement =
  pc_allowed :: bool
  pc_confirmed :: bool
  pc_ticks :: "16 word"
  pc_rid :: "32 word"
  pc_parent_face :: int
  pc_conns :: "nat option list"

record cube_lib =
  cl_faces :: "nat list"
  cl_opp :: "nat \<Rightarrow> nat"

text \<open>What the cube library documents: six faces, and the opposite of a face is a face.\<close>
definition cube_laws :: "cube_lib \<Rightarrow> bool" where
  "cube_laws L \<longleftrightarrow> cl_faces L = [0, 1, 2, 3, 4, 5] \<and> (\<forall>f < 6. cl_opp L f < 6 \<and> cl_opp L f \<noteq> f \<and> cl_opp L (cl_opp L f) = f)"

abbreviation max_placement_lifetime :: "16 word" where "max_placement_lifetime \<equiv> 200"
abbreviation max_ghost_chain :: nat where "max_ghost_chain \<equiv> 100"

definition conn :: "placement \<Rightarrow> nat \<Rightarrow> nat option" where
  "conn p f = (if f < length (pc_conns p) then pc_conns p ! f else None)"

definition set_conn :: "nat \<Rightarrow> nat option \<Rightarrow> placement \<Rightarrow> placement" where
  "set_conn f c p = p\<lparr>pc_conns := (pc_conns p)[f := c]\<rparr>"

definition modify :: "nat \<Rightarrow> (placement \<Rightarrow> placement) \<Rightarrow> placement list \<Rightarrow> placement list" where
  "modify i f heap = (if i < length heap then heap[i := f (heap ! i)] else heap)"

definition new_placement ::
  "cube_lib \<Rightarrow> 32 word \<Rightarrow> nat \<Rightarrow> nat option \<Rightarrow> placement list \<Rightarrow> nat \<times> placement list" where
  "new_placement L rid face parent heap =
    (let pl = \<lparr>pc_allowed = True, pc_confirmed = False, pc_ticks = max_placement_lifetime,
               pc_rid = rid, pc_parent_face = -1, pc_conns = replicate 6 None\<rparr>;
         i = length heap
     in case parent of
          None \<Rightarrow> (i, heap @ [pl])
        | Some p \<Rightarrow>
            let pf = cl_opp L face;
                pl = set_conn pf (Some p) (pl\<lparr>pc_parent_face := int pf\<rparr>)
            in (i, modify p (set_conn face (Some i)) (heap @ [pl])))"

text \<open>The walk up the chain, \<^verbatim>\<open>k\<close> steps below the limit.\<close>
fun chain_walk :: "nat \<Rightarrow> placement list \<Rightarrow> bool \<Rightarrow> nat option \<Rightarrow> nat \<times> bool" where
  "chain_walk k heap confirmed None = (max_ghost_chain - k, confirmed)"
| "chain_walk 0 heap confirmed (Some i) = (max_ghost_chain, confirmed)"
| "chain_walk (Suc k) heap confirmed (Some i) =
    (let parent = heap ! i
     in if pc_allowed parent then (max_ghost_chain - Suc k, confirmed)
        else
          let confirmed = (confirmed \<or> pc_confirmed parent)
          in if pc_parent_face parent = -1 \<or> k = 0 then (max_ghost_chain - k, confirmed)
             else chain_walk k heap confirmed (conn parent (nat (pc_parent_face parent))))"

definition ghost_block_chain :: "placement list \<Rightarrow> nat \<Rightarrow> nat \<times> bool" where
  "ghost_block_chain heap i =
    (let pl = heap ! i
     in if pc_allowed pl then (0, True)
        else if pc_parent_face pl = -1 then (1, pc_confirmed pl)
        else chain_walk (max_ghost_chain - 1) heap (pc_confirmed pl) (conn pl (nat (pc_parent_face pl))))"

definition settled :: "placement \<Rightarrow> bool" where
  "settled p \<longleftrightarrow> pc_confirmed p \<and> pc_allowed p"

text \<open>The children of a node that are pushed, in the order of the faces; the step is a byte.\<close>
definition push_children ::
  "cube_lib \<Rightarrow> placement \<Rightarrow> 8 word \<Rightarrow> (nat \<times> 8 word) list \<Rightarrow> (nat \<times> 8 word) list" where
  "push_children L n step stack =
    fold (\<lambda>f st. if int f = pc_parent_face n then st
                 else case conn n f of None \<Rightarrow> st | Some c \<Rightarrow> (c, step + 1) # st) (cl_faces L) stack"

text \<open>
  The depth-first search of \<^verbatim>\<open>setPlacementAllowed\<close>: the head of the list is the top of
  the stack; a pointer outside the heap does not occur and ends the branch.
\<close>
function dfs_allowed ::
  "cube_lib \<Rightarrow> bool \<Rightarrow> (nat \<times> 8 word) list \<Rightarrow> nat set \<Rightarrow> placement list \<Rightarrow> placement list" where
  "dfs_allowed L allowed [] visited heap = heap"
| "dfs_allowed L allowed ((i, step) # stack) visited heap =
    (if i \<in> visited \<or> length heap \<le> i then dfs_allowed L allowed stack visited heap
     else if settled (heap ! i) \<or> of_nat max_ghost_chain \<le> step
     then dfs_allowed L allowed stack (insert i visited) heap
     else
       let n = (heap ! i)\<lparr>pc_allowed := allowed, pc_confirmed := True\<rparr>
       in dfs_allowed L allowed (push_children L n step stack) (insert i visited) (heap[i := n]))"
  by pat_completeness auto

definition unvisited :: "placement list \<Rightarrow> nat set \<Rightarrow> nat" where
  "unvisited heap visited = card ({..<length heap} - visited)"

lemma unvisited_decreases:
  assumes "i \<notin> visited" "i < length heap"
  shows "unvisited heap (insert i visited) < unvisited heap visited"
proof -
  have "{..<length heap} - insert i visited \<subset> {..<length heap} - visited" using assms by auto
  then show ?thesis unfolding unvisited_def by (rule psubset_card_mono[rotated]) simp
qed

lemma unvisited_update [simp]: "unvisited (heap[i := n]) visited = unvisited heap visited"
  by (simp add: unvisited_def)

termination dfs_allowed
  by (relation "measures [\<lambda>(L, a, st, vis, heap). unvisited heap vis, \<lambda>(L, a, st, vis, heap). length st]")
    (auto simp: unvisited_decreases)

definition set_placement_allowed :: "cube_lib \<Rightarrow> bool \<Rightarrow> nat \<Rightarrow> placement list \<Rightarrow> placement list" where
  "set_placement_allowed L allowed i heap =
    (if settled (heap ! i) then heap else dfs_allowed L allowed [(i, 0)] {} heap)"

definition destroy_face :: "cube_lib \<Rightarrow> nat \<Rightarrow> nat \<Rightarrow> placement list \<Rightarrow> placement list" where
  "destroy_face L i f heap =
    (case conn (heap ! i) f of
       None \<Rightarrow> heap
     | Some c \<Rightarrow> modify c (\<lambda>p. (set_conn f None (set_conn (cl_opp L f) None p))\<lparr>pc_parent_face := -1\<rparr>) heap)"

definition destroy :: "cube_lib \<Rightarrow> nat \<Rightarrow> placement list \<Rightarrow> placement list" where
  "destroy L i heap = fold (destroy_face L i) (cl_faces L) heap"

type_synonym placements = "placement list \<times> (int \<times> int \<times> int \<Rightarrow> nat option)"

definition queue_block_placement ::
  "cube_lib \<Rightarrow> int \<Rightarrow> 32 word \<Rightarrow> int \<times> int \<times> int \<Rightarrow> int \<times> int \<times> int \<Rightarrow> nat \<Rightarrow> placements \<Rightarrow> placements" where
  "queue_block_placement L max_chain rid clicked placed face pls =
    (if max_chain < 0 then pls
     else let (i, heap) = new_placement L rid face (snd pls clicked) (fst pls)
          in (heap, (snd pls)(placed \<mapsto> i)))"

definition placement_tick_at :: "cube_lib \<Rightarrow> int \<times> int \<times> int \<Rightarrow> placements \<Rightarrow> placements" where
  "placement_tick_at L pos pls =
    (case snd pls pos of
       None \<Rightarrow> pls
     | Some i \<Rightarrow>
         let heap = modify i (\<lambda>p. p\<lparr>pc_ticks := pc_ticks p - 1\<rparr>) (fst pls)
         in if pc_ticks (heap ! i) = 0 then (destroy L i heap, (snd pls)(pos := None))
            else (heap, snd pls))"

text \<open>\<^verbatim>\<open>Tick\<close>: \<^verbatim>\<open>order\<close> is the order of the map's iteration.\<close>
definition placements_tick :: "cube_lib \<Rightarrow> (int \<times> int \<times> int) list \<Rightarrow> placements \<Rightarrow> placements" where
  "placements_tick L order pls = fold (placement_tick_at L) order pls"

section \<open>Chains are bounded\<close>

lemma chain_walk_bounds:
  "k < max_ghost_chain \<Longrightarrow>
   max_ghost_chain - k \<le> fst (chain_walk k heap c p) \<and> fst (chain_walk k heap c p) \<le> max_ghost_chain"
proof (induction k heap c p rule: chain_walk.induct)
  case (3 k heap confirmed i)
  then show ?case by (auto simp: Let_def not_le) force+
qed auto

text \<open>The size of a ghost block chain is 0 exactly when the placement is allowed, and never more than
  100, whatever cycles the placements form.\<close>
theorem chain_size_bounded:
  "fst (ghost_block_chain heap i) \<le> 100
   \<and> (fst (ghost_block_chain heap i) = 0 \<longleftrightarrow> pc_allowed (heap ! i))"
  using chain_walk_bounds[of "max_ghost_chain - 1" heap "pc_confirmed (heap ! i)"
      "conn (heap ! i) (nat (pc_parent_face (heap ! i)))"]
  by (auto simp: ghost_block_chain_def Let_def)

section \<open>Confirming placements\<close>

text \<open>What the search may change: nothing of a settled placement, only the two flags of the others.\<close>
definition same_links :: "placement \<Rightarrow> placement \<Rightarrow> bool" where
  "same_links p q \<longleftrightarrow> pc_ticks q = pc_ticks p \<and> pc_rid q = pc_rid p
     \<and> pc_parent_face q = pc_parent_face p \<and> pc_conns q = pc_conns p"

definition flags_only :: "bool \<Rightarrow> placement list \<Rightarrow> placement list \<Rightarrow> bool" where
  "flags_only allowed heap heap' \<longleftrightarrow> length heap' = length heap \<and>
     (\<forall>j < length heap. heap' ! j = heap ! j
        \<or> \<not> settled (heap ! j) \<and> same_links (heap ! j) (heap' ! j)
           \<and> pc_allowed (heap' ! j) = allowed \<and> pc_confirmed (heap' ! j))"

lemma flags_only_refl: "flags_only a heap heap" by (simp add: flags_only_def)

lemma dfs_flags_only:
  "(\<And>j. j < length heap \<Longrightarrow> j \<notin> visited \<Longrightarrow> heap ! j = heap0 ! j)
   \<Longrightarrow> flags_only allowed heap0 heap \<Longrightarrow> flags_only allowed heap0 (dfs_allowed L allowed stack visited heap)"
proof (induction L allowed stack visited heap rule: dfs_allowed.induct)
  case (2 L allowed i step stack visited heap)
  let ?n = "(heap ! i)\<lparr>pc_allowed := allowed, pc_confirmed := True\<rparr>"
  consider (skip) "i \<in> visited \<or> length heap \<le> i"
    | (stop) "\<not> (i \<in> visited \<or> length heap \<le> i)" "settled (heap ! i) \<or> of_nat max_ghost_chain \<le> step"
    | (mark) "\<not> (i \<in> visited \<or> length heap \<le> i)" "\<not> (settled (heap ! i) \<or> of_nat max_ghost_chain \<le> step)"
    by blast
  then show ?case
  proof cases
    case skip
    with 2 show ?thesis by simp
  next
    case stop
    with "2.IH"(2)[OF stop] "2.prems" show ?thesis by simp
  next
    case mark
    have i: "i < length heap" "heap ! i = heap0 ! i" "\<not> settled (heap0 ! i)"
      using mark "2.prems"(1)[of i] by auto
    have "flags_only allowed heap0 (heap[i := ?n])"
      using "2.prems"(2) i by (auto simp: flags_only_def nth_list_update same_links_def)
    moreover have "heap[i := ?n] ! j = heap0 ! j" if "j < length (heap[i := ?n])" "j \<notin> insert i visited" for j
      using that "2.prems"(1)[of j] by simp
    ultimately show ?thesis using "2.IH"(3)[OF mark refl] mark by (simp add: Let_def)
  qed
qed simp

text \<open>The answer of the server to a placement never touches a placement that was confirmed as allowed,
  changes only the two flags of others, sets them to the answer, and leaves the placement itself
  confirmed; the search always ends.\<close>
theorem answer_keeps_settled:
  assumes "i < length heap"
  shows "flags_only allowed heap (set_placement_allowed L allowed i heap)
     \<and> pc_confirmed (set_placement_allowed L allowed i heap ! i)
     \<and> (\<not> settled (heap ! i) \<longrightarrow> pc_allowed (set_placement_allowed L allowed i heap ! i) = allowed)"
proof (cases "settled (heap ! i)")
  case True
  then show ?thesis by (simp add: set_placement_allowed_def flags_only_refl settled_def)
next
  case False
  let ?n = "(heap ! i)\<lparr>pc_allowed := allowed, pc_confirmed := True\<rparr>"
  have first: "dfs_allowed L allowed [(i, 0)] {} heap
      = dfs_allowed L allowed (push_children L ?n 0 []) {i} (heap[i := ?n])"
    using assms False by (simp add: Let_def)
  have f: "flags_only allowed heap (dfs_allowed L allowed [(i, 0)] {} heap)"
    by (rule dfs_flags_only) (auto simp: flags_only_refl)
  have "dfs_allowed L allowed stack vis h ! i = h ! i"
    if "i \<in> vis" for stack vis and h :: "placement list"
    using that
  proof (induction L allowed stack vis h rule: dfs_allowed.induct)
    case (2 L allowed k step stack visited heap)
    then show ?case by (cases "i = k") (auto simp: Let_def)
  qed simp
  then have "dfs_allowed L allowed [(i, 0)] {} heap ! i = ?n" using assms by (simp only: first) simp
  with f False show ?thesis by (simp add: set_placement_allowed_def)
qed

definition demo_cube :: cube_lib where
  "demo_cube = \<lparr>cl_faces = [0, 1, 2, 3, 4, 5], cl_opp = (\<lambda>f. if even f then f + 1 else f - 1)\<rparr>"

text \<open>Three placements on top of each other.\<close>
definition demo_tower :: "placement list" where
  "demo_tower = snd (new_placement demo_cube 7 1 (Some 1)
     (snd (new_placement demo_cube 7 1 (Some 0) (snd (new_placement demo_cube 7 1 None [])))))"

theorem answer_keeps_settled_witness:
  "pc_confirmed (set_placement_allowed demo_cube False 1 demo_tower ! 1)
   \<and> \<not> pc_allowed (set_placement_allowed demo_cube False 1 demo_tower ! 1)"
  using answer_keeps_settled[where i = 1 and heap = demo_tower and L = demo_cube and allowed = False]
  by (simp add: demo_tower_def new_placement_def modify_def set_conn_def settled_def Let_def)

lemma demo_tower_eq:
  "demo_tower =
    [\<lparr>pc_allowed = True, pc_confirmed = False, pc_ticks = 200, pc_rid = 7, pc_parent_face = -1,
      pc_conns = [None, Some 1, None, None, None, None]\<rparr>,
     \<lparr>pc_allowed = True, pc_confirmed = False, pc_ticks = 200, pc_rid = 7, pc_parent_face = 0,
      pc_conns = [Some 0, Some 2, None, None, None, None]\<rparr>,
     \<lparr>pc_allowed = True, pc_confirmed = False, pc_ticks = 200, pc_rid = 7, pc_parent_face = 0,
      pc_conns = [Some 1, None, None, None, None, None]\<rparr>]"
  by (simp add: demo_tower_def new_placement_def demo_cube_def modify_def set_conn_def Let_def eval_nat_numeral)

lemma chain_limit_byte: "\<not> (100 :: 8 word) \<le> 0" "\<not> (100 :: 8 word) \<le> 1" "(100 :: 8 word) \<noteq> 0"
  by (simp_all add: word_le_nat_alt)

lemma set_allowed_tower:
  "set_placement_allowed demo_cube False 1 demo_tower ! 2 = (demo_tower ! 2)\<lparr>pc_allowed := False, pc_confirmed := True\<rparr>"
  by (simp add: chain_limit_byte demo_tower_eq set_placement_allowed_def settled_def push_children_def demo_cube_def conn_def
      Let_def)

text \<open>
  Destroying the lowest placement of a tower clears the link of the middle one to the top one
  (\<^verbatim>\<open>child.connections[face] = nil\<close>), while the top one keeps its link down: an answer
  for the middle one no longer reaches the top one.
\<close>
theorem destroy_cuts_chain_above:
  "let heap = destroy demo_cube 0 demo_tower in
     pc_allowed (set_placement_allowed demo_cube False 1 heap ! 2)
     \<and> \<not> pc_allowed (set_placement_allowed demo_cube False 1 demo_tower ! 2)
     \<and> conn (heap ! 2) 0 = Some 1 \<and> conn (heap ! 1) 1 = None"
  by (simp add: set_allowed_tower Let_def)
    (simp add: chain_limit_byte demo_tower_eq set_placement_allowed_def settled_def push_children_def demo_cube_def conn_def
      destroy_def destroy_face_def modify_def set_conn_def Let_def)

end
