(* ===== verification/Acks.thy ===== *)
theory Acks
  imports Movement Placements Clicks Entities Inventory World
begin

text \<open>
  Acknowledgments: the component that sends batches of them to the client and runs them when
  the client answers (\<^verbatim>\<open>src/player/component/acks.go\<close>), the acknowledgments
  themselves (\<^verbatim>\<open>src/player/component/acknowledgement\<close>), and the updater of the
  client's view of blocks (\<^verbatim>\<open>src/player/component/world.go\<close>), over the part of the
  player's state that they read and write.
\<close>

section \<open>Data\<close>

text \<open>The updates of a batch by position, its lifetime in client ticks, whether it can still run.\<close>
record block_batch =
  bb_updates :: "bpos \<Rightarrow> 32 word option"
  bb_expires :: int
  bb_valid :: bool

datatype ('f, 'n) ack =
    AckBlocks block_batch
  | AckEntitySize nat 'f 'f 'f
  | AckEntityPosition "'f vec3" "64 word" bool
  | AckGamemode int
  | AckContents int "'n list"
  | AckSlot int int 'n
  | AckInitialized
  | AckLatency int int
  | AckSimRate 'f
  | AckEffects int int int int
  | AckTeleport "'f vec3" bool bool
  | AckAbilities bool bool bool
  | AckAttributes "(string \<times> 'f \<times> 'f) list"
  | AckActorData "'f option" "'f option" "'f option" "64 word option"
  | AckKnockback "'f vec3" int bool
  | AckCorrection bool

record ('f, 'n) ack_batch =
  ab_acks :: "('f, 'n) ack list"
  ab_timestamp :: int

record ('f, 'n) acks =
  ac_legacy :: bool
  ac_client_ticked :: bool
  ac_since_response :: int
  ac_current :: "('f, 'n) ack_batch option"
  ac_pending :: "('f, 'n) ack_batch list"
  ac_refreshes :: nat

record wu =
  wu_radius :: int
  wu_server_radius :: int
  wu_pending :: "bpos \<Rightarrow> 32 word option"
  wu_batch :: block_batch
  wu_placements :: placements
  wu_breaking :: "bpos option"

text \<open>What is written to the client.\<close>
datatype 'f client_out = OutLatency int | OutBlock bpos "32 word" | OutPopup
  | OutActorData "64 word option" | OutCorrection "'f vec3" "'f vec3" bool | OutDisconnect

record ('f, 's, 'n, 'h, 'b, 'm) pl =
  pl_mv :: "'f mv"
  pl_effects :: effects
  pl_ready :: bool
  pl_alive :: bool
  pl_hungry :: bool
  pl_game_mode :: int
  pl_pending_game_mode :: int
  pl_latency :: int
  pl_client_tick :: int
  pl_server_tick :: int
  pl_now :: int
  pl_tps :: 'f
  pl_consume_tick :: int
  pl_pending_correction :: bool
  pl_actor_data :: "64 word option option"
  pl_world :: "('h, 'b) world"
  pl_server_tracker :: tracker
  pl_tracker :: tracker
  pl_entities :: "('f vec3, 'f, 'm) ent_store"
  pl_windows :: "'s windows"
  pl_wu :: wu
  pl_acks :: "('f, 'n) acks"
  pl_server_conn :: bool
  pl_last_tick :: int
  pl_closed :: bool
  pl_mode :: mode
  pl_out :: "'f client_out list"

text \<open>
  What is fixed for a session: libraries, packet constants, options, and the draws that each
  refresh of the batch makes of the random source.  \<^verbatim>\<open>en_item\<close> converts a network item
  to a stack (an empty one for the network identifier 0), \<^verbatim>\<open>en_lasting\<close> is whether an
  effect is known and lasting, \<^verbatim>\<open>en_order\<close> the order in which a map of updates is iterated.
\<close>
record ('f, 's, 'n, 'h, 'c, 'sc, 'd, 'b) pl_env =
  en_flt :: "'f flt"
  en_float_equal :: "'f \<Rightarrow> 'f \<Rightarrow> bool"
  en_vec :: "'f vec3 vec_ops"
  en_ops :: "('h, 'c, 'sc, 'd, 'b) chunk_ops"
  en_shared :: "('h, 'c, 'sc) shared"
  en_ids :: proto_ids
  en_cube :: cube_lib
  en_item :: "'n \<Rightarrow> 's"
  en_lasting :: "int \<Rightarrow> bool"
  en_effect_add :: int
  en_effect_modify :: int
  en_flag_immobile :: "64 word"
  en_flag_sprinting :: "64 word"
  en_flag_sneaking :: "64 word"
  en_flag_gravity :: "64 word"
  en_flag_action :: "64 word"
  en_mode_normal :: int
  en_mode_reset :: int
  en_mode_teleport :: int
  en_mode_rotation :: int
  en_move_teleport :: "64 word"
  en_move_ground :: "64 word"
  en_may_fly :: "64 word"
  en_flying :: "64 word"
  en_no_clip :: "64 word"
  en_orbis :: bool
  en_max_ack_timeout :: int
  en_cutoff :: int
  en_max_chain :: int
  en_max_kb_delay :: int
  en_max_block_delay :: int
  en_encode :: "32 word \<Rightarrow> 32 word"
  en_order :: "(bpos \<Rightarrow> 32 word option) \<Rightarrow> bpos list"
  en_place_order :: "placements \<Rightarrow> bpos list"
  en_entity_order :: "tracker \<Rightarrow> 64 word list"
  en_chunk_order :: "('h, 'b) world \<Rightarrow> cpos list"
  en_replay :: bool
  en_draws :: "nat \<Rightarrow> 32 word list"

abbreviation ack_divider :: int where "ack_divider \<equiv> 1000"
abbreviation no_timeout :: int where "no_timeout \<equiv> 1000000000"

definition new_block_batch :: block_batch where
  "new_block_batch = \<lparr>bb_updates = Map.empty, bb_expires = 0, bb_valid = True\<rparr>"

definition set_batch_block :: "bpos \<Rightarrow> 32 word \<Rightarrow> block_batch \<Rightarrow> block_batch" where
  "set_batch_block pos r b = b\<lparr>bb_updates := (bb_updates b)(pos \<mapsto> r)\<rparr>"

definition remove_batch_block :: "bpos \<Rightarrow> block_batch \<Rightarrow> block_batch" where
  "remove_batch_block pos b = b\<lparr>bb_updates := (bb_updates b)(pos := None)\<rparr>"

definition has_updates :: "('f, 's, 'n, 'h, 'c, 'sc, 'd, 'b) pl_env \<Rightarrow> block_batch \<Rightarrow> bool" where
  "has_updates E b \<longleftrightarrow> en_order E (bb_updates b) \<noteq> []"

section \<open>The world updater: pending updates\<close>

definition add_pending_update :: "bpos \<Rightarrow> 32 word \<Rightarrow> wu \<Rightarrow> wu" where
  "add_pending_update pos r w = w\<lparr>wu_batch := set_batch_block pos r (wu_batch w),
     wu_pending := (wu_pending w)(pos \<mapsto> r)\<rparr>"

definition has_pending_update :: "bpos \<Rightarrow> wu \<Rightarrow> bool" where
  "has_pending_update pos w \<longleftrightarrow> wu_pending w pos \<noteq> None"

definition remove_pending_update :: "bpos \<Rightarrow> 32 word \<Rightarrow> wu \<Rightarrow> wu" where
  "remove_pending_update pos r w =
    (if wu_pending w pos = Some r then w\<lparr>wu_pending := (wu_pending w)(pos := None)\<rparr> else w)"

definition set_server_chunk_radius :: "int \<Rightarrow> wu \<Rightarrow> wu" where
  "set_server_chunk_radius r w = w\<lparr>wu_server_radius := r, wu_radius := r\<rparr>"

definition set_chunk_radius :: "int \<Rightarrow> wu \<Rightarrow> wu" where
  "set_chunk_radius r w =
    w\<lparr>wu_radius := (if wu_server_radius w < r \<and> wu_server_radius w \<noteq> 0 then wu_server_radius w else r)\<rparr>"

text \<open>The block of a runtime identifier, air when it is not known.\<close>
definition block_of :: "('f, 's, 'n, 'h, 'c, 'sc, 'd, 'b) pl_env \<Rightarrow> 32 word \<Rightarrow> 'b" where
  "block_of E r = (case co_block_by_rid (en_ops E) r of Some b \<Rightarrow> b | None \<Rightarrow> co_air (en_ops E))"

definition place_in_world ::
  "('f, 's, 'n, 'h, 'c, 'sc, 'd, 'b) pl_env \<Rightarrow> bpos \<Rightarrow> 32 word \<Rightarrow> ('f, 's, 'n, 'h, 'b, 'm) pl
   \<Rightarrow> ('f, 's, 'n, 'h, 'b, 'm) pl" where
  "place_in_world E pos r p =
    p\<lparr>pl_world := world_set_block (en_ops E) pos (block_of E r) (pl_world p),
      pl_wu := remove_pending_update pos r (pl_wu p)\<rparr>"

definition run_block_batch ::
  "('f, 's, 'n, 'h, 'c, 'sc, 'd, 'b) pl_env \<Rightarrow> block_batch \<Rightarrow> ('f, 's, 'n, 'h, 'b, 'm) pl
   \<Rightarrow> block_batch \<times> ('f, 's, 'n, 'h, 'b, 'm) pl" where
  "run_block_batch E b p =
    (if \<not> bb_valid b then (b, p)
     else (b\<lparr>bb_valid := False, bb_updates := Map.empty\<rparr>,
           fold (\<lambda>pos p. case bb_updates b pos of None \<Rightarrow> p | Some r \<Rightarrow> place_in_world E pos r p)
             (en_order E (bb_updates b)) p))"

section \<open>Running an acknowledgment\<close>

text \<open>Writing the contents of a window, slot by slot; a slot that does not exist panics.\<close>
fun set_contents :: "win \<Rightarrow> int \<Rightarrow> 's list \<Rightarrow> 's windows \<Rightarrow> 's windows \<times> go_error option" where
  "set_contents k i [] w = (w, None)"
| "set_contents k i (s # ss) w =
    (case win_set_slot k i s w of Inl e \<Rightarrow> (w, Some e) | Inr w \<Rightarrow> set_contents k (i + 1) ss w)"

definition run_attribute ::
  "('f, 's, 'n, 'h, 'c, 'sc, 'd, 'b) pl_env \<Rightarrow> string \<times> 'f \<times> 'f \<Rightarrow> ('f, 's, 'n, 'h, 'b, 'm) pl
   \<Rightarrow> ('f, 's, 'n, 'h, 'b, 'm) pl" where
  "run_attribute E a p = (case a of (name, v, d) \<Rightarrow>
     if name = ''minecraft:movement''
     then p\<lparr>pl_mv := set_default_movement_speed d (set_movement_speed v (pl_mv p))\<rparr>
     else if name = ''minecraft:health'' then p\<lparr>pl_alive := fl_less (en_flt E) (fl_lit (en_flt E) 0) v\<rparr>
     else if name = ''minecraft:player.hunger'' then p\<lparr>pl_hungry := fl_less (en_flt E) v (fl_lit (en_flt E) 20)\<rparr>
     else p)"

definition run_actor_data ::
  "('f, 's, 'n, 'h, 'c, 'sc, 'd, 'b) pl_env \<Rightarrow> 'f option \<Rightarrow> 'f option \<Rightarrow> 'f option \<Rightarrow> 64 word option
   \<Rightarrow> ('f, 's, 'n, 'h, 'b, 'm) pl \<Rightarrow> ('f, 's, 'n, 'h, 'b, 'm) pl" where
  "run_actor_data E width height scale flags p =
    (let (w, h, s) = bo_size (mv_body (pl_mv p));
         size = (case width of Some w \<Rightarrow> w | None \<Rightarrow> w, case height of Some h \<Rightarrow> h | None \<Rightarrow> h,
                 case scale of Some s \<Rightarrow> s | None \<Rightarrow> s);
         p = p\<lparr>pl_mv := set_size size (pl_mv p)\<rparr>
     in case flags of
          None \<Rightarrow> p
        | Some fs \<Rightarrow>
            let p = p\<lparr>pl_mv := set_has_gravity (has_data_flag (en_flag_gravity E) fs)
                       (set_server_sprint (has_data_flag (en_flag_sprinting E) fs)
                         (set_immobile (has_data_flag (en_flag_immobile E) fs) (pl_mv p)))\<rparr>
            in if \<not> has_data_flag (en_flag_action E) fs \<and> pl_consume_tick p \<noteq> 0
               then p\<lparr>pl_consume_tick := 0\<rparr> else p)"

definition run_abilities :: "bool \<Rightarrow> bool \<Rightarrow> bool \<Rightarrow> 'f mv \<Rightarrow> 'f mv" where
  "run_abilities may_fly flying no_clip m =
    (let m = set_no_clip no_clip (set_flying flying (set_may_fly may_fly m))
     in if cm_toggled_fly (mv_client m)
        then set_toggled_fly False (set_trust_fly_status (flying \<or> may_fly) m) else m)"

definition run_latency :: "int \<Rightarrow> int \<Rightarrow> ('f, 's, 'n, 'h, 'b, 'm) pl \<Rightarrow> ('f, 's, 'n, 'h, 'b, 'm) pl" where
  "run_latency time_of tick_of p =
    (let p = p\<lparr>pl_latency := pl_now p - time_of\<rparr>
     in if \<not> pl_ready p \<or> pl_client_tick p < tick_of \<or> pl_server_tick p \<le> pl_client_tick p
        then p\<lparr>pl_client_tick := tick_of\<rparr> else p)"

definition run_effects ::
  "('f, 's, 'n, 'h, 'c, 'sc, 'd, 'b) pl_env \<Rightarrow> int \<Rightarrow> int \<Rightarrow> int \<Rightarrow> int \<Rightarrow> effects \<Rightarrow> effects" where
  "run_effects E ty amplifier duration operation ec =
    (if operation = en_effect_add E \<or> operation = en_effect_modify E
     then (if en_lasting E ty then effects_add ty (new_effect (wrap32 (amplifier + 1)) duration) ec else ec)
     else effects_remove ty ec)"

definition run_entity_size ::
  "nat \<Rightarrow> 'f \<Rightarrow> 'f \<Rightarrow> 'f \<Rightarrow> ('f, 's, 'n, 'h, 'b, 'm) pl \<Rightarrow> ('f, 's, 'n, 'h, 'b, 'm) pl" where
  "run_entity_size i w h s p =
    p\<lparr>pl_entities := (pl_entities p)(i := map_option
      (\<lambda>e. e\<lparr>e_width := w, e_height := h, e_scale := s\<rparr>) (pl_entities p i))\<rparr>"

definition run_entity_position ::
  "('f, 's, 'n, 'h, 'c, 'sc, 'd, 'b) pl_env
   \<Rightarrow> 'f vec3 \<Rightarrow> 64 word \<Rightarrow> bool \<Rightarrow> ('f, 's, 'n, 'h, 'b, 'm) pl \<Rightarrow> ('f, 's, 'n, 'h, 'b, 'm) pl" where
  "run_entity_position E pos rid teleport p =
    p\<lparr>pl_entities := move_entity (en_vec E) (pl_tracker p) rid 0 pos teleport (pl_entities p)\<rparr>"

definition run_gamemode ::
  "int \<Rightarrow> ('f, 's, 'n, 'h, 'b, 'm) pl \<Rightarrow> ('f, 's, 'n, 'h, 'b, 'm) pl" where
  "run_gamemode g p = p\<lparr>pl_game_mode := g, pl_pending_game_mode := -1\<rparr>"

definition run_contents ::
  "('f, 's, 'n, 'h, 'c, 'sc, 'd, 'b) pl_env
   \<Rightarrow> int \<Rightarrow> 'n list \<Rightarrow> ('f, 's, 'n, 'h, 'b, 'm) pl \<Rightarrow> ('f, 's, 'n, 'h, 'b, 'm) pl \<times> go_error option" where
  "run_contents E wid items p =
    (let k = window_from_window_id (en_ids E) wid
     in if get_window (pl_windows p) k = None then (p, None)
        else case set_contents k 0 (map (en_item E) items) (pl_windows p) of
               (w, e) \<Rightarrow> (p\<lparr>pl_windows := w\<rparr>, e))"

definition run_slot ::
  "('f, 's, 'n, 'h, 'c, 'sc, 'd, 'b) pl_env
   \<Rightarrow> int \<Rightarrow> int \<Rightarrow> 'n \<Rightarrow> ('f, 's, 'n, 'h, 'b, 'm) pl \<Rightarrow> ('f, 's, 'n, 'h, 'b, 'm) pl \<times> go_error option" where
  "run_slot E wid slot item p =
    (let k = window_from_window_id (en_ids E) wid
     in if get_window (pl_windows p) k = None then (p, None)
        else case win_set_slot k slot (en_item E item) (pl_windows p) of
               Inl e \<Rightarrow> (p, Some e) | Inr w \<Rightarrow> (p\<lparr>pl_windows := w\<rparr>, None))"

definition run_initialized ::
  "('f, 's, 'n, 'h, 'b, 'm) pl \<Rightarrow> ('f, 's, 'n, 'h, 'b, 'm) pl" where
  "run_initialized p = p\<lparr>pl_ready := True\<rparr>"

definition run_sim_rate ::
  "('f, 's, 'n, 'h, 'c, 'sc, 'd, 'b) pl_env
   \<Rightarrow> 'f \<Rightarrow> ('f, 's, 'n, 'h, 'b, 'm) pl \<Rightarrow> ('f, 's, 'n, 'h, 'b, 'm) pl" where
  "run_sim_rate E m p =
    p\<lparr>pl_tps := (if en_float_equal E m (fl_lit (en_flt E) 1) then fl_lit (en_flt E) 20
                  else fl_mul (en_flt E) (pl_tps p) m)\<rparr>"

text \<open>The \<^verbatim>\<open>Run\<close> of each acknowledgment: itself afterwards, the player, a panic.\<close>
definition run_ack ::
  "('f, 's, 'n, 'h, 'c, 'sc, 'd, 'b) pl_env \<Rightarrow> ('f, 'n) ack \<Rightarrow> ('f, 's, 'n, 'h, 'b, 'm) pl
   \<Rightarrow> ('f, 'n) ack \<times> ('f, 's, 'n, 'h, 'b, 'm) pl \<times> go_error option" where
  "run_ack E a p = (case a of
      AckBlocks b \<Rightarrow> (case run_block_batch E b p of (b, p) \<Rightarrow> (AckBlocks b, p, None))
    | AckEntitySize i w h s \<Rightarrow> (a, run_entity_size i w h s p, None)
    | AckEntityPosition pos rid teleport \<Rightarrow> (a, run_entity_position E pos rid teleport p, None)
    | AckGamemode g \<Rightarrow> (a, run_gamemode g p, None)
    | AckContents wid items \<Rightarrow> (a, run_contents E wid items p)
    | AckSlot wid slot item \<Rightarrow> (a, run_slot E wid slot item p)
    | AckInitialized \<Rightarrow> (a, run_initialized p, None)
    | AckLatency t k \<Rightarrow> (a, run_latency t k p, None)
    | AckSimRate m \<Rightarrow> (a, run_sim_rate E m p, None)
    | AckEffects ty am d op \<Rightarrow> (a, p\<lparr>pl_effects := run_effects E ty am d op (pl_effects p)\<rparr>, None)
    | AckTeleport pos g sm \<Rightarrow>
        (a, p\<lparr>pl_mv := remove_pending_teleport (mv_teleport pos g sm (pl_mv p))\<rparr>, None)
    | AckAbilities f fl n \<Rightarrow> (a, p\<lparr>pl_mv := run_abilities f fl n (pl_mv p)\<rparr>, None)
    | AckAttributes as \<Rightarrow> (a, fold (run_attribute E) as p, None)
    | AckActorData w h s fs \<Rightarrow> (a, run_actor_data E w h s fs p, None)
    | AckKnockback v ex spent \<Rightarrow>
        (if spent then (a, p, None) else (AckKnockback v ex True, p\<lparr>pl_mv := set_knockback v (pl_mv p)\<rparr>, None))
    | AckCorrection f \<Rightarrow>
        (let p = p\<lparr>pl_mv := remove_pending_correction (pl_mv p)\<rparr>
         in (a, if f then p\<lparr>pl_pending_correction := False\<rparr> else p, None)))"

lemmas run_ack_defs = run_ack_def run_entity_size_def run_entity_position_def run_gamemode_def
  run_contents_def run_slot_def run_initialized_def run_sim_rate_def

text \<open>The \<^verbatim>\<open>Tick\<close> of the two acknowledgments that expire.\<close>
definition tick_ack ::
  "('f, 's, 'n, 'h, 'c, 'sc, 'd, 'b) pl_env \<Rightarrow> ('f, 'n) ack \<Rightarrow> ('f, 's, 'n, 'h, 'b, 'm) pl
   \<Rightarrow> ('f, 'n) ack \<times> ('f, 's, 'n, 'h, 'b, 'm) pl" where
  "tick_ack E a p = (case a of
      AckBlocks b \<Rightarrow>
        if \<not> bb_valid b then (a, p)
        else let b = b\<lparr>bb_expires := bb_expires b - 1\<rparr>
             in if bb_expires b \<le> 0
                then (case run_ack E (AckBlocks b) p of (a, p, _) \<Rightarrow> (a, p)) else (AckBlocks b, p)
    | AckKnockback v ex spent \<Rightarrow>
        if spent then (a, p)
        else if ex - 1 \<le> 0
             then (case run_ack E (AckKnockback v (ex - 1) spent) p of (a, p, _) \<Rightarrow> (a, p))
             else (AckKnockback v (ex - 1) spent, p)
    | _ \<Rightarrow> (a, p))"

text \<open>Running a list, up to the first panic; and ticking a list.\<close>
fun run_acks ::
  "('f, 's, 'n, 'h, 'c, 'sc, 'd, 'b) pl_env \<Rightarrow> ('f, 'n) ack list \<Rightarrow> ('f, 's, 'n, 'h, 'b, 'm) pl
   \<Rightarrow> ('f, 'n) ack list \<times> ('f, 's, 'n, 'h, 'b, 'm) pl \<times> go_error option" where
  "run_acks E [] p = ([], p, None)"
| "run_acks E (a # as) p =
    (case run_ack E a p of
       (a', p, Some e) \<Rightarrow> (a' # as, p, Some e)
     | (a', p, None) \<Rightarrow> (case run_acks E as p of (as', p, e) \<Rightarrow> (a' # as', p, e)))"

fun tick_acks ::
  "('f, 's, 'n, 'h, 'c, 'sc, 'd, 'b) pl_env \<Rightarrow> ('f, 'n) ack list \<Rightarrow> ('f, 's, 'n, 'h, 'b, 'm) pl
   \<Rightarrow> ('f, 'n) ack list \<times> ('f, 's, 'n, 'h, 'b, 'm) pl" where
  "tick_acks E [] p = ([], p)"
| "tick_acks E (a # as) p =
    (case tick_ack E a p of (a', p) \<Rightarrow> (case tick_acks E as p of (as', p) \<Rightarrow> (a' # as', p)))"

fun run_batches ::
  "('f, 's, 'n, 'h, 'c, 'sc, 'd, 'b) pl_env \<Rightarrow> ('f, 'n) ack_batch list \<Rightarrow> ('f, 's, 'n, 'h, 'b, 'm) pl
   \<Rightarrow> ('f, 'n) ack_batch list \<times> ('f, 's, 'n, 'h, 'b, 'm) pl \<times> go_error option" where
  "run_batches E [] p = ([], p, None)"
| "run_batches E (b # bs) p =
    (case run_acks E (ab_acks b) p of
       (as, p, Some e) \<Rightarrow> (b\<lparr>ab_acks := as\<rparr> # bs, p, Some e)
     | (as, p, None) \<Rightarrow> (case run_batches E bs p of (bs', p, e) \<Rightarrow> (b\<lparr>ab_acks := as\<rparr> # bs', p, e)))"

fun tick_batches ::
  "('f, 's, 'n, 'h, 'c, 'sc, 'd, 'b) pl_env \<Rightarrow> ('f, 'n) ack_batch list \<Rightarrow> ('f, 's, 'n, 'h, 'b, 'm) pl
   \<Rightarrow> ('f, 'n) ack_batch list \<times> ('f, 's, 'n, 'h, 'b, 'm) pl" where
  "tick_batches E [] p = ([], p)"
| "tick_batches E (b # bs) p =
    (case tick_acks E (ab_acks b) p of
       (as, p) \<Rightarrow> (case tick_batches E bs p of (bs', p) \<Rightarrow> (b\<lparr>ab_acks := as\<rparr> # bs', p)))"

section \<open>The component\<close>

text \<open>
  The loop of \<^verbatim>\<open>Refresh\<close> over the draws of the random source: the batch takes a draw as its
  timestamp and the loop ends when no pending batch has it.  After a list of draws that are
  all taken the loop still runs, with the last draw in the batch.
\<close>
fun refresh_loop :: "bool \<Rightarrow> int set \<Rightarrow> 32 word list \<Rightarrow> int \<Rightarrow> int" where
  "refresh_loop legacy used [] t = t"
| "refresh_loop legacy used (d # ds) t =
    (let t = (if legacy then uint d * ack_divider else uint d)
     in if t \<in> used then refresh_loop legacy used ds t else t)"

definition refresh :: "('f, 's, 'n, 'h, 'c, 'sc, 'd, 'b) pl_env \<Rightarrow> ('f, 'n) acks \<Rightarrow> ('f, 'n) acks" where
  "refresh E c =
    c\<lparr>ac_current := Some \<lparr>ab_acks = [], ab_timestamp =
         refresh_loop (ac_legacy c) (set (map ab_timestamp (ac_pending c))) (en_draws E (ac_refreshes c)) 0\<rparr>,
      ac_refreshes := ac_refreshes c + 1\<rparr>"

definition new_acks :: "('f, 's, 'n, 'h, 'c, 'sc, 'd, 'b) pl_env \<Rightarrow> ('f, 'n) acks" where
  "new_acks E = refresh E \<lparr>ac_legacy = False, ac_client_ticked = False, ac_since_response = 0,
     ac_current = None, ac_pending = [], ac_refreshes = 0\<rparr>"

definition acks_add ::
  "('f, 's, 'n, 'h, 'c, 'sc, 'd, 'b) pl_env \<Rightarrow> ('f, 'n) ack \<Rightarrow> ('f, 'n) acks \<Rightarrow> ('f, 'n) acks" where
  "acks_add E a c =
    (let c = (if ac_current c = None then refresh E c else c)
     in c\<lparr>ac_current := map_option (\<lambda>b. b\<lparr>ab_acks := ab_acks b @ [a]\<rparr>) (ac_current c)\<rparr>)"

definition pl_add ::
  "('f, 's, 'n, 'h, 'c, 'sc, 'd, 'b) pl_env \<Rightarrow> ('f, 'n) ack \<Rightarrow> ('f, 's, 'n, 'h, 'b, 'm) pl
   \<Rightarrow> ('f, 's, 'n, 'h, 'b, 'm) pl" where
  "pl_add E a p = p\<lparr>pl_acks := acks_add E a (pl_acks p)\<rparr>"

text \<open>\<^verbatim>\<open>Disconnect\<close> tells the client and closes the player; the clean-up that \<^verbatim>\<open>Close\<close> starts runs later.\<close>
definition disconnect :: "('f, 's, 'n, 'h, 'b, 'm) pl \<Rightarrow> ('f, 's, 'n, 'h, 'b, 'm) pl" where
  "disconnect p = p\<lparr>pl_out := pl_out p @ [OutDisconnect], pl_closed := True\<rparr>"


definition decode_id :: "('f, 's, 'n, 'h, 'c, 'sc, 'd, 'b) pl_env \<Rightarrow> bool \<Rightarrow> int \<Rightarrow> int" where
  "decode_id E legacy i =
    (if legacy then i
     else let i = go_div i ack_divider in if en_orbis E then i else go_div i ack_divider)"

fun find_batch :: "int \<Rightarrow> ('f, 'n) ack_batch list \<Rightarrow> nat option" where
  "find_batch i [] = None"
| "find_batch i (b # bs) = (if ab_timestamp b = i then Some 0 else map_option Suc (find_batch i bs))"

definition acks_execute ::
  "('f, 's, 'n, 'h, 'c, 'sc, 'd, 'b) pl_env \<Rightarrow> int \<Rightarrow> ('f, 's, 'n, 'h, 'b, 'm) pl
   \<Rightarrow> bool \<times> ('f, 's, 'n, 'h, 'b, 'm) pl \<times> go_error option" where
  "acks_execute E raw p =
    (case find_batch (decode_id E (ac_legacy (pl_acks p)) raw) (ac_pending (pl_acks p)) of
       None \<Rightarrow> (False, p, None)
     | Some i \<Rightarrow>
         (case run_batches E (take (Suc i) (ac_pending (pl_acks p))) p of
            (bs, p, Some e) \<Rightarrow>
              (False, p\<lparr>pl_acks := (pl_acks p)\<lparr>ac_pending := bs @ drop (Suc i) (ac_pending (pl_acks p))\<rparr>\<rparr>, Some e)
          | (bs, p, None) \<Rightarrow>
              (True, p\<lparr>pl_acks := (pl_acks p)\<lparr>ac_pending := drop (Suc i) (ac_pending (pl_acks p)),
                       ac_since_response := 0\<rparr>\<rparr>, None)))"

definition acks_responsive ::
  "('f, 's, 'n, 'h, 'c, 'sc, 'd, 'b) pl_env \<Rightarrow> ('f, 'n) acks \<Rightarrow> bool" where
  "acks_responsive E c \<longleftrightarrow> ac_pending c = [] \<or> ac_since_response c \<le> en_max_ack_timeout E * 20"

definition acks_client_tick ::
  "('f, 's, 'n, 'h, 'c, 'sc, 'd, 'b) pl_env \<Rightarrow> ('f, 's, 'n, 'h, 'b, 'm) pl \<Rightarrow> ('f, 's, 'n, 'h, 'b, 'm) pl" where
  "acks_client_tick E p =
    (let p = p\<lparr>pl_acks := (pl_acks p)\<lparr>ac_client_ticked := True\<rparr>\<rparr>
     in case tick_batches E (ac_pending (pl_acks p)) p of
          (bs, p) \<Rightarrow> p\<lparr>pl_acks := (pl_acks p)\<lparr>ac_pending := bs\<rparr>\<rparr>)"

definition acks_server_tick ::
  "('f, 's, 'n, 'h, 'c, 'sc, 'd, 'b) pl_env \<Rightarrow> ('f, 's, 'n, 'h, 'b, 'm) pl \<Rightarrow> ('f, 's, 'n, 'h, 'b, 'm) pl" where
  "acks_server_tick E p =
    (let p = (if pl_server_tick p mod 10 = 0
              then pl_add E (AckLatency (pl_now p) (pl_server_tick p)) p else p);
         c = pl_acks p
     in if \<not> ac_client_ticked c then p
        else p\<lparr>pl_acks := c\<lparr>ac_client_ticked := False,
               ac_since_response := (if ac_pending c \<noteq> [] \<and> pl_server_conn p
                                     then ac_since_response c + 1 else 0)\<rparr>\<rparr>)"

section \<open>The world updater: flush\<close>

text \<open>The answer of the server to the client's placement at a position, if there was one.\<close>
definition flush_placement ::
  "('f, 's, 'n, 'h, 'c, 'sc, 'd, 'b) pl_env \<Rightarrow> bpos \<Rightarrow> 32 word \<Rightarrow> ('f, 's, 'n, 'h, 'b, 'm) pl
   \<Rightarrow> ('f, 's, 'n, 'h, 'b, 'm) pl" where
  "flush_placement E pos r p =
    (case snd (wu_placements (pl_wu p)) pos of
       None \<Rightarrow> p
     | Some i \<Rightarrow>
         if en_max_chain E < 0 then p
         else
           let heap = fst (wu_placements (pl_wu p));
               allowed = (co_rid_of_block (en_ops E) (block_of E r) \<noteq> pc_rid (heap ! i))
           in if 1 \<le> en_max_chain E
              then p\<lparr>pl_wu := (pl_wu p)\<lparr>wu_placements :=
                       (set_placement_allowed (en_cube E) allowed i heap, snd (wu_placements (pl_wu p)))\<rparr>\<rparr>
              else if en_max_chain E = 0 \<and> \<not> allowed
              then let p = p\<lparr>pl_out := pl_out p @ [OutPopup],
                        pl_wu := (pl_wu p)\<lparr>wu_batch := remove_batch_block pos (wu_batch (pl_wu p))\<rparr>\<rparr>
                   in place_in_world E pos r p
              else p)"

definition no_lag_comp :: "('f, 's, 'n, 'h, 'c, 'sc, 'd, 'b) pl_env \<Rightarrow> ('f, 's, 'n, 'h, 'b, 'm) pl \<Rightarrow> bool" where
  "no_lag_comp E p \<longleftrightarrow> 0 \<le> en_cutoff E \<and> en_cutoff E \<le> pl_server_tick p - pl_client_tick p"

definition wu_flush ::
  "('f, 's, 'n, 'h, 'c, 'sc, 'd, 'b) pl_env \<Rightarrow> ('f, 's, 'n, 'h, 'b, 'm) pl \<Rightarrow> ('f, 's, 'n, 'h, 'b, 'm) pl" where
  "wu_flush E p =
    (if \<not> has_updates E (wu_batch (pl_wu p)) then p
     else
       let timeout = (if en_max_block_delay E < 0 then no_timeout else en_max_block_delay E);
           direct = no_lag_comp E p;
           updates = bb_updates (wu_batch (pl_wu p));
           p = fold (\<lambda>pos p. case updates pos of None \<Rightarrow> p | Some r \<Rightarrow> flush_placement E pos r p)
                 (en_order E updates) p;
           b = (wu_batch (pl_wu p))\<lparr>bb_expires := timeout\<rparr>;
           p = (if direct then snd (run_block_batch E b p) else pl_add E (AckBlocks b) p)
       in p\<lparr>pl_wu := (pl_wu p)\<lparr>wu_batch := new_block_batch\<rparr>\<rparr>)"

definition acks_flush ::
  "('f, 's, 'n, 'h, 'c, 'sc, 'd, 'b) pl_env \<Rightarrow> ('f, 's, 'n, 'h, 'b, 'm) pl \<Rightarrow> ('f, 's, 'n, 'h, 'b, 'm) pl" where
  "acks_flush E p =
    (let p = wu_flush E p
     in case ac_current (pl_acks p) of
          None \<Rightarrow> disconnect p
        | Some b \<Rightarrow>
            let t = (if ac_legacy (pl_acks p) \<and> en_orbis E then go_div (ab_timestamp b) ack_divider
                     else ab_timestamp b)
            in p\<lparr>pl_out := pl_out p @ [OutLatency t],
                 pl_acks := refresh E ((pl_acks p)\<lparr>ac_pending := ac_pending (pl_acks p) @ [b]\<rparr>)\<rparr>)"

definition invalidate_ack :: "('f, 'n) ack \<Rightarrow> ('f, 'n) ack" where
  "invalidate_ack a = (case a of AckBlocks b \<Rightarrow> AckBlocks (b\<lparr>bb_valid := False\<rparr>) | _ \<Rightarrow> a)"

definition acks_invalidate :: "('f, 'n) acks \<Rightarrow> ('f, 'n) acks" where
  "acks_invalidate c =
    c\<lparr>ac_pending := map (\<lambda>b. b\<lparr>ab_acks := map invalidate_ack (ab_acks b)\<rparr>) (ac_pending c)\<rparr>"

definition acks_reset_transfer_state ::
  "('f, 's, 'n, 'h, 'c, 'sc, 'd, 'b) pl_env \<Rightarrow> ('f, 'n) acks \<Rightarrow> ('f, 'n) acks" where
  "acks_reset_transfer_state E c =
    refresh E (c\<lparr>ac_client_ticked := False, ac_since_response := 0, ac_pending := []\<rparr>)"

end
