(* ===== verification/Session.thy ===== *)
theory Session
  imports Acks
begin

text \<open>
  The player's session around the acknowledgments: the updates of the server that add them
  (\<^verbatim>\<open>ServerUpdate\<close> of the movement component, the game mode, the inventory packets),
  the correction of the client's movement, the player's tick
  (\<^verbatim>\<open>src/player/player.go\<close>) and the transfer to another backend
  (\<^verbatim>\<open>src/player/network.go\<close>).
\<close>

section \<open>Updates of the server\<close>

definition gamemode_handle ::
  "('f, 's, 'n, 'h, 'c, 'sc, 'd, 'b) pl_env \<Rightarrow> int \<Rightarrow> ('f, 's, 'n, 'h, 'b, 'm) pl \<Rightarrow> ('f, 's, 'n, 'h, 'b, 'm) pl" where
  "gamemode_handle E g p = pl_add E (AckGamemode g) (p\<lparr>pl_pending_game_mode := g\<rparr>)"

definition handle_inventory_slot ::
  "('f, 's, 'n, 'h, 'c, 'sc, 'd, 'b) pl_env \<Rightarrow> int \<Rightarrow> int \<Rightarrow> 'n \<Rightarrow> ('f, 's, 'n, 'h, 'b, 'm) pl \<Rightarrow> ('f, 's, 'n, 'h, 'b, 'm) pl" where
  "handle_inventory_slot E wid slot item = pl_add E (AckSlot (wrap32 wid) (wrap32 slot) item)"

definition handle_inventory_content ::
  "('f, 's, 'n, 'h, 'c, 'sc, 'd, 'b) pl_env \<Rightarrow> int \<Rightarrow> 'n list \<Rightarrow> ('f, 's, 'n, 'h, 'b, 'm) pl \<Rightarrow> ('f, 's, 'n, 'h, 'b, 'm) pl" where
  "handle_inventory_content E wid items = pl_add E (AckContents (wrap32 wid) items)"

definition handle_update_block ::
  "('f, 's, 'n, 'h, 'c, 'sc, 'd, 'b) pl_env \<Rightarrow> int \<Rightarrow> bpos \<Rightarrow> 32 word \<Rightarrow> ('f, 's, 'n, 'h, 'b, 'm) pl \<Rightarrow> ('f, 's, 'n, 'h, 'b, 'm) pl" where
  "handle_update_block E layer pos r p =
    (if layer \<noteq> 0 then p else p\<lparr>pl_wu := add_pending_update pos r (pl_wu p)\<rparr>)"

definition handle_update_sub_chunk_blocks ::
  "('f, 's, 'n, 'h, 'c, 'sc, 'd, 'b) pl_env \<Rightarrow> (bpos \<times> 32 word) list \<Rightarrow> (bpos \<times> 32 word) list
   \<Rightarrow> ('f, 's, 'n, 'h, 'b, 'm) pl \<Rightarrow> ('f, 's, 'n, 'h, 'b, 'm) pl" where
  "handle_update_sub_chunk_blocks E blocks extra p =
    (let p = (if \<not> pl_ready p then pl_add E AckInitialized p else p)
     in p\<lparr>pl_wu := fold (\<lambda>(pos, r). add_pending_update pos r) (blocks @ extra) (pl_wu p)\<rparr>)"

text \<open>The abilities of the layers: which are set, and their values.\<close>
definition new_update_abilities ::
  "('f, 's, 'n, 'h, 'c, 'sc, 'd, 'b) pl_env \<Rightarrow> (64 word \<times> 64 word) list \<Rightarrow> ('f, 'n) ack" where
  "new_update_abilities E layers =
    (let has = (\<lambda>flag. list_ex (\<lambda>(set_abilities, vals). has_flag set_abilities flag \<and> has_flag vals flag) layers)
     in AckAbilities (has (en_may_fly E)) (has (en_flying E)) (has (en_no_clip E)))"

text \<open>The packets of \<^verbatim>\<open>ServerUpdate\<close> with the fields that it reads.\<close>
datatype 'f server_update =
    SuMobEffect bool int int int int
  | SuMoveAbsolute "'f vec3" "64 word"
  | SuMovePlayer "'f vec3" int bool
  | SuActorData "'f option" "'f option" "'f option" "64 word option"
  | SuActorMotion "'f vec3"
  | SuAbilities "(64 word \<times> 64 word) list"
  | SuAttributes "(string \<times> 'f \<times> 'f) list"
  | SuOther

definition pend_teleport :: "'f vec3 \<Rightarrow> 'f mv \<Rightarrow> 'f mv" where
  "pend_teleport pos m = add_pending_teleport (set_pending_teleport_pos pos m)"

definition server_update ::
  "('f, 's, 'n, 'h, 'c, 'sc, 'd, 'b) pl_env \<Rightarrow> 'f server_update \<Rightarrow> ('f, 's, 'n, 'h, 'b, 'm) pl
   \<Rightarrow> ('f, 's, 'n, 'h, 'b, 'm) pl" where
  "server_update E u p = (case u of
      SuMobEffect own ty am d op \<Rightarrow> if own then pl_add E (AckEffects ty am d op) p else p
    | SuMoveAbsolute pos flags \<Rightarrow>
        if has_flag flags (en_move_teleport E)
        then pl_add E (AckTeleport pos (has_flag flags (en_move_ground E)) False)
               (p\<lparr>pl_mv := pend_teleport pos (pl_mv p)\<rparr>)
        else p
    | SuMovePlayer pos md ground \<Rightarrow>
        if md \<noteq> en_mode_rotation E
        then let md = (if md = en_mode_reset E then en_mode_teleport E else md);
                 pos = sub3 (en_flt E) pos (fl_lit (en_flt E) 0, fl_lit (en_flt E) 1.62, fl_lit (en_flt E) 0)
             in pl_add E (AckTeleport pos ground (md = en_mode_normal E))
                  (p\<lparr>pl_mv := pend_teleport pos (pl_mv p)\<rparr>)
        else p
    | SuActorData w h s fs \<Rightarrow> pl_add E (AckActorData w h s fs) p
    | SuActorMotion v \<Rightarrow>
        let timeout = (if en_max_kb_delay E < 0 then no_timeout else en_max_kb_delay E);
            a = AckKnockback v timeout False
        in if no_lag_comp E p then fst (snd (run_ack E a p)) else pl_add E a p
    | SuAbilities layers \<Rightarrow> pl_add E (new_update_abilities E layers) p
    | SuAttributes as \<Rightarrow> pl_add E (AckAttributes as) p
    | SuOther \<Rightarrow> disconnect p)"

section \<open>Corrections\<close>

definition sync_block ::
  "('f, 's, 'n, 'h, 'c, 'sc, 'd, 'b) pl_env \<Rightarrow> bpos \<Rightarrow> ('f, 's, 'n, 'h, 'b, 'm) pl \<Rightarrow> ('f, 's, 'n, 'h, 'b, 'm) pl" where
  "sync_block E pos p =
    (if has_pending_update pos (pl_wu p) then p
     else
       let (b, w) = world_block (en_ops E) (en_shared E) pos (pl_world p);
           r = co_rid_of_block (en_ops E) b
       in p\<lparr>pl_world := w, pl_wu := add_pending_update pos r (pl_wu p),
            pl_out := pl_out p @ [OutBlock pos (en_encode E r)]\<rparr>)"

definition correct_flags ::
  "('f, 's, 'n, 'h, 'c, 'sc, 'd, 'b) pl_env \<Rightarrow> 'f mv \<Rightarrow> 64 word \<Rightarrow> 64 word" where
  "correct_flags E m fs =
    (let put = (\<lambda>b flag fs. if b then add_flag fs flag else remove_flag fs flag)
     in put (ct_immobile (mv_contacts m)) (en_flag_immobile E)
          (put (sn_sneaking (mv_stance m)) (en_flag_sneaking E)
            (put (sn_sprinting (mv_stance m)) (en_flag_sprinting E) fs)))"

text \<open>\<^verbatim>\<open>Sync\<close>; \<^verbatim>\<open>near\<close> are the positions that \<^verbatim>\<open>SyncWorld\<close> visits.\<close>
definition movement_sync ::
  "('f, 's, 'n, 'h, 'c, 'sc, 'd, 'b) pl_env \<Rightarrow> bpos list \<Rightarrow> ('f, 's, 'n, 'h, 'b, 'm) pl \<Rightarrow> ('f, 's, 'n, 'h, 'b, 'm) pl" where
  "movement_sync E near p =
    (if en_replay E then p
     else
       let p = p\<lparr>pl_mv := set_correction_cooldown True (add_pending_correction (pl_mv p))\<rparr>;
           p = pl_add E (AckCorrection (\<not> pl_pending_correction p)) p;
           p = fold (sync_block E) near p
       in if pl_pending_correction p then p
          else case pl_actor_data p of
                 None \<Rightarrow> p
               | Some fs \<Rightarrow>
                   let fs = map_option (correct_flags E (pl_mv p)) fs;
                       b = mv_body (pl_mv p); F = en_flt E;
                       pos = (case bo_pos b of (x, y, z) \<Rightarrow>
                                (fl_add F x (fl_lit F 0), fl_add F y (fl_lit F 1.621), fl_add F z (fl_lit F 0)))
                   in p\<lparr>pl_actor_data := Some fs,
                        pl_out := pl_out p @ [OutActorData fs, OutCorrection pos (bo_vel b) (sn_on_ground (mv_stance (pl_mv p)))],
                        pl_pending_correction := True\<rparr>)"

section \<open>The tick\<close>

definition next_server_tick :: "int \<Rightarrow> int \<Rightarrow> int" where
  "next_server_tick delta t = (if 100 \<le> delta then t + delta div 50 else t + 1)"

text \<open>The new server tick, and the movement, the entities and the placements ticked by it.\<close>
definition tick_components ::
  "('f, 's, 'n, 'h, 'c, 'sc, 'd, 'b) pl_env \<Rightarrow> ('f, 's, 'n, 'h, 'b, 'm) pl \<Rightarrow> ('f, 's, 'n, 'h, 'b, 'm) pl" where
  "tick_components E p =
    (let now = next_server_tick (go_div (pl_now p - pl_last_tick p) 1000000) (pl_server_tick p)
     in p\<lparr>pl_last_tick := pl_now p, pl_server_tick := now,
          pl_mv := mv_tick now (pl_client_tick p) (now - pl_server_tick p) (pl_mv p),
          pl_entities := tracker_tick (en_vec E) (pl_server_tracker p) now
             (en_entity_order E (pl_server_tracker p)) (pl_entities p),
          pl_wu := (pl_wu p)\<lparr>wu_placements := placements_tick (en_cube E)
             (en_place_order E (wu_placements (pl_wu p))) (wu_placements (pl_wu p))\<rparr>\<rparr>)"

text \<open>\<^verbatim>\<open>Tick\<close>: whether the player stays, and the player; flushing the connections is left out.\<close>
definition player_tick ::
  "('f, 's, 'n, 'h, 'c, 'sc, 'd, 'b) pl_env \<Rightarrow> ('f, 's, 'n, 'h, 'b, 'm) pl \<Rightarrow> bool \<times> ('f, 's, 'n, 'h, 'b, 'm) pl" where
  "player_tick E p =
    (if pl_closed p then (False, p)
     else
       let p = acks_server_tick E (tick_components E p)
       in if \<not> acks_responsive E (pl_acks p) then (False, disconnect p)
          else (True, if en_replay E then p else acks_flush E p))"

section \<open>Transfers\<close>

text \<open>What the new backend's connection says: its position, game modes, block ids.\<close>
record 'f backend_data =
  bd_position :: "'f vec3"
  bd_game_mode :: int
  bd_world_game_mode :: int
  bd_hashes :: bool

text \<open>A nil connection disconnects; the registry and the items of the first backend are left out.\<close>
definition set_server_conn ::
  "('f, 's, 'n, 'h, 'c, 'sc, 'd, 'b) pl_env \<Rightarrow> 'f backend_data option \<Rightarrow> ('f, 's, 'n, 'h, 'b, 'm) pl
   \<Rightarrow> ('f, 's, 'n, 'h, 'b, 'm) pl" where
  "set_server_conn E backend p = (case backend of
      None \<Rightarrow> disconnect p
    | Some d \<Rightarrow>
        let p = (if \<not> pl_server_conn p then p\<lparr>pl_mode := mode_from_hashes (bd_hashes d)\<rparr> else p)
        in p\<lparr>pl_server_conn := True,
             pl_game_mode := (if bd_game_mode d = 5 then bd_world_game_mode d else bd_game_mode d),
             pl_pending_correction := False,
             pl_acks := acks_reset_transfer_state E (pl_acks p),
             pl_mv := mv_reset_transfer_state (en_flt E) (bd_position d) (pl_mv p)\<rparr>)"

text \<open>
  \<^verbatim>\<open>TransferServerConn\<close>: the effects that were active in the order of the map's iteration, or
  the error; the combat components are reset elsewhere.
\<close>
definition transfer_server_conn ::
  "('f, 's, 'n, 'h, 'c, 'sc, 'd, 'b) pl_env \<Rightarrow> int list \<Rightarrow> 'f backend_data
   \<Rightarrow> ('h, 'c, 'sc) shared \<times> ('f, 's, 'n, 'h, 'b, 'm) pl
   \<Rightarrow> int list result \<times> ('h, 'c, 'sc) shared \<times> ('f, 's, 'n, 'h, 'b, 'm) pl" where
  "transfer_server_conn E order d sp =
    (let (s, p) = sp
     in if mode_from_hashes (bd_hashes d) \<noteq> pl_mode p
        then (Inl (Err ''backend block-hash setting does not match''), s, p)
        else
          let ids = filter (\<lambda>i. pl_effects p i \<noteq> None) order;
              p = set_server_conn E (Some d) p;
              (s, w) = purge_chunks (en_chunk_order E (pl_world p)) (s, pl_world p)
          in (Inr ids, s, p\<lparr>pl_world := w,
                pl_server_tracker := (pl_server_tracker p)\<lparr>tr_entities := Map.empty\<rparr>,
                pl_tracker := (pl_tracker p)\<lparr>tr_entities := Map.empty\<rparr>,
                pl_effects := effects_remove_all (pl_effects p)\<rparr>))"

end
