(* ===== verification/AckProps.thy ===== *)
theory AckProps
  imports Session
begin

text \<open>
  What the acknowledgments guarantee: an answer runs exactly the batches up to the one it
  names, pending teleports and corrections are the ones in flight, timestamps tell batches
  apart, knockback is applied once, and the client's view of the blocks becomes the server's.
\<close>

section \<open>Acknowledgments in flight\<close>

definition in_flight :: "('f, 'n) acks \<Rightarrow> ('f, 'n) ack list" where
  "in_flight c = concat (map ab_acks (ac_pending c))
     @ (case ac_current c of None \<Rightarrow> [] | Some b \<Rightarrow> ab_acks b)"

definition is_teleport :: "('f, 'n) ack \<Rightarrow> bool" where
  "is_teleport a \<longleftrightarrow> (case a of AckTeleport _ _ _ \<Rightarrow> True | _ \<Rightarrow> False)"

definition is_correction :: "('f, 'n) ack \<Rightarrow> bool" where
  "is_correction a \<longleftrightarrow> (case a of AckCorrection _ \<Rightarrow> True | _ \<Rightarrow> False)"

definition count_of :: "('a \<Rightarrow> bool) \<Rightarrow> 'a list \<Rightarrow> int" where
  "count_of P xs = int (length (filter P xs))"

lemma count_of_simps [simp]:
  "count_of P [] = 0" "count_of P (x # xs) = (if P x then 1 else 0) + count_of P xs"
  "count_of P (xs @ ys) = count_of P xs + count_of P ys"
  by (simp_all add: count_of_def)

text \<open>What the acknowledgments leave alone of the player, and the two counters.\<close>
definition pl_counters where
  "pl_counters p = (tp_pending (mv_tp (pl_mv p)), in_corrections (mv_inputs (pl_mv p)))"

lemma pl_counters_iff:
  "pl_counters p = (a, b) \<longleftrightarrow> tp_pending (mv_tp (pl_mv p)) = a \<and> in_corrections (mv_inputs (pl_mv p)) = b"
  by (auto simp: pl_counters_def)

text \<open>The changes of the player that touch neither the component, nor the counters, nor the flag.\<close>
definition same_acks where
  "same_acks p q \<longleftrightarrow> pl_acks q = pl_acks p \<and> pl_counters q = pl_counters p
     \<and> pl_pending_correction q = pl_pending_correction p"

lemma same_acks_refl [simp]: "same_acks p p" by (simp add: same_acks_def)

lemma same_acks_trans: "same_acks p q \<Longrightarrow> same_acks q r \<Longrightarrow> same_acks p r"
  by (simp add: same_acks_def)

lemma same_acks_fold:
  assumes "\<And>x p. same_acks p (f x p)"
  shows "same_acks p (fold f xs p)"
proof (induction xs arbitrary: p)
  case (Cons x xs)
  from same_acks_trans[OF assms Cons] show ?case by simp
qed simp

lemma same_acks_place: "same_acks p (place_in_world E pos r p)"
  by (simp add: same_acks_def place_in_world_def pl_counters_def)

lemma same_acks_batch: "same_acks p (snd (run_block_batch E b p))"
  by (auto simp: run_block_batch_def intro!: same_acks_fold split: option.split intro: same_acks_place)

lemma same_acks_attribute: "same_acks p (run_attribute E a p)"
  by (auto simp: same_acks_def run_attribute_def pl_counters_def set_movement_speed_def
      set_default_movement_speed_def split: prod.split)

lemma same_acks_actor_data: "same_acks p (run_actor_data E w h s fs p)"
  by (auto simp: same_acks_def run_actor_data_def pl_counters_def set_size_def set_has_gravity_def
      set_server_sprint_def set_immobile_def Let_def split: option.split prod.split)

lemma same_acks_latency: "same_acks p (run_latency t k p)"
  by (simp add: same_acks_def run_latency_def pl_counters_def Let_def)

lemma run_ack_frame:
  assumes "run_ack E a p = (a', q, e)"
  shows "pl_acks q = pl_acks p"
    and "tp_pending (mv_tp (pl_mv q)) = tp_pending (mv_tp (pl_mv p)) - (if is_teleport a then 1 else 0)"
    and "in_corrections (mv_inputs (pl_mv q)) = in_corrections (mv_inputs (pl_mv p)) - (if is_correction a then 1 else 0)"
    and "pl_pending_correction q \<longleftrightarrow> pl_pending_correction p \<and> a \<noteq> AckCorrection True"
    and "is_teleport a' = is_teleport a" "is_correction a' = is_correction a"
    and "a' = AckCorrection True \<longleftrightarrow> a = AckCorrection True"
proof -
  have "pl_acks q = pl_acks p
    \<and> tp_pending (mv_tp (pl_mv q)) = tp_pending (mv_tp (pl_mv p)) - (if is_teleport a then 1 else 0)
    \<and> in_corrections (mv_inputs (pl_mv q)) = in_corrections (mv_inputs (pl_mv p)) - (if is_correction a then 1 else 0)
    \<and> (pl_pending_correction q \<longleftrightarrow> pl_pending_correction p \<and> a \<noteq> AckCorrection True)
    \<and> is_teleport a' = is_teleport a \<and> is_correction a' = is_correction a
    \<and> (a' = AckCorrection True \<longleftrightarrow> a = AckCorrection True)"
  proof (cases a)
    case (AckBlocks b)
    with assms same_acks_batch[of p E b] show ?thesis
      by (auto simp: run_ack_defs same_acks_def pl_counters_def is_teleport_def is_correction_def split: prod.splits)
  next
    case (AckAttributes as)
    with assms same_acks_fold[of "run_attribute E" p as, OF same_acks_attribute] show ?thesis
      by (auto simp: run_ack_defs same_acks_def pl_counters_def is_teleport_def is_correction_def)
  next
    case (AckActorData w h s fs)
    with assms same_acks_actor_data[of p E w h s fs] show ?thesis
      by (auto simp: run_ack_defs same_acks_def pl_counters_def is_teleport_def is_correction_def)
  next
    case (AckLatency t k)
    with assms same_acks_latency[of p t k] show ?thesis
      by (auto simp: run_ack_defs same_acks_def pl_counters_def is_teleport_def is_correction_def)
  qed (use assms in \<open>auto simp: run_ack_defs Let_def is_teleport_def is_correction_def run_abilities_def
      set_no_clip_def set_flying_def set_may_fly_def set_toggled_fly_def set_trust_fly_status_def
      set_knockback_def remove_pending_teleport_def mv_teleport_def remove_pending_correction_def
      split: prod.splits sum.splits if_splits\<close>)
  then show "pl_acks q = pl_acks p"
    "tp_pending (mv_tp (pl_mv q)) = tp_pending (mv_tp (pl_mv p)) - (if is_teleport a then 1 else 0)"
    "in_corrections (mv_inputs (pl_mv q)) = in_corrections (mv_inputs (pl_mv p)) - (if is_correction a then 1 else 0)"
    "pl_pending_correction q \<longleftrightarrow> pl_pending_correction p \<and> a \<noteq> AckCorrection True"
    "is_teleport a' = is_teleport a" "is_correction a' = is_correction a"
    "a' = AckCorrection True \<longleftrightarrow> a = AckCorrection True" by blast+
qed

lemma run_acks_frame:
  assumes "run_acks E as p = (as', q, None)"
  shows "pl_acks q = pl_acks p
    \<and> tp_pending (mv_tp (pl_mv q)) = tp_pending (mv_tp (pl_mv p)) - count_of is_teleport as
    \<and> in_corrections (mv_inputs (pl_mv q)) = in_corrections (mv_inputs (pl_mv p)) - count_of is_correction as
    \<and> (pl_pending_correction q \<longleftrightarrow> pl_pending_correction p \<and> AckCorrection True \<notin> set as)"
  using assms
proof (induction as arbitrary: p as')
  case (Cons a as)
  obtain a' r e where a: "run_ack E a p = (a', r, e)" by (cases "run_ack E a p") auto
  with Cons.prems obtain bs where "e = None" "run_acks E as r = (bs, q, None)"
    by (auto split: option.splits prod.splits)
  with Cons.IH[of r bs] run_ack_frame(1-4)[OF a] show ?case by auto
qed simp

lemma run_batches_frame:
  assumes "run_batches E bs p = (bs', q, None)"
  shows "pl_acks q = pl_acks p
    \<and> tp_pending (mv_tp (pl_mv q)) = tp_pending (mv_tp (pl_mv p)) - count_of is_teleport (concat (map ab_acks bs))
    \<and> in_corrections (mv_inputs (pl_mv q)) = in_corrections (mv_inputs (pl_mv p)) - count_of is_correction (concat (map ab_acks bs))
    \<and> (pl_pending_correction q \<longleftrightarrow> pl_pending_correction p \<and> AckCorrection True \<notin> set (concat (map ab_acks bs)))"
  using assms
proof (induction bs arbitrary: p bs')
  case (Cons b bs)
  obtain as r e where a: "run_acks E (ab_acks b) p = (as, r, e)" by (cases "run_acks E (ab_acks b) p") auto
  with Cons.prems obtain cs where e: "e = None" "run_batches E bs r = (cs, q, None)"
    by (auto split: option.splits prod.splits)
  from Cons.IH[OF e(2)] run_acks_frame[OF a[unfolded e(1)]] show ?case by auto
qed simp

text \<open>A tick of the pending acknowledgments changes no counter and no kind of acknowledgment.\<close>
definition same_kinds :: "('f, 'n) ack list \<Rightarrow> ('f, 'n) ack list \<Rightarrow> bool" where
  "same_kinds as bs \<longleftrightarrow> count_of is_teleport bs = count_of is_teleport as
     \<and> count_of is_correction bs = count_of is_correction as
     \<and> (AckCorrection True \<in> set bs \<longleftrightarrow> AckCorrection True \<in> set as)"

lemma tick_ack_frame:
  assumes "tick_ack E a p = (a', q)"
  shows "same_acks p q \<and> same_kinds [a] [a']"
proof (cases a)
  case (AckBlocks b)
  have "same_acks p (snd (run_block_batch E (b\<lparr>bb_expires := bb_expires b - 1\<rparr>) p))" by (rule same_acks_batch)
  with AckBlocks assms show ?thesis
    by (cases "run_block_batch E (b\<lparr>bb_expires := bb_expires b - 1\<rparr>) p")
      (auto simp: tick_ack_def run_ack_defs Let_def same_kinds_def is_teleport_def is_correction_def
        split: if_splits prod.splits)
next
  case (AckKnockback v ex spent)
  with assms show ?thesis
    by (auto simp: tick_ack_def run_ack_defs same_kinds_def is_teleport_def is_correction_def same_acks_def
        pl_counters_def set_knockback_def split: if_splits)
qed (use assms in \<open>simp_all add: tick_ack_def same_kinds_def\<close>)

lemma same_kinds_append:
  "same_kinds as as' \<Longrightarrow> same_kinds bs bs' \<Longrightarrow> same_kinds (as @ bs) (as' @ bs')"
  by (auto simp: same_kinds_def)

lemma tick_acks_frame:
  assumes "tick_acks E as p = (as', q)"
  shows "same_acks p q \<and> same_kinds as as'"
  using assms
proof (induction as arbitrary: p as')
  case (Cons a as)
  obtain a' r bs where a: "tick_ack E a p = (a', r)" and bs: "tick_acks E as r = (bs, q)" "as' = a' # bs"
    using Cons.prems by (auto split: prod.splits)
  from same_kinds_append[of "[a]" "[a']" as bs] tick_ack_frame[OF a] Cons.IH[OF bs(1)] bs(2)
  show ?case using same_acks_trans[of p r q] by simp
qed (simp add: same_kinds_def)

lemma tick_batches_frame:
  assumes "tick_batches E bs p = (bs', q)"
  shows "same_acks p q \<and> same_kinds (concat (map ab_acks bs)) (concat (map ab_acks bs'))
     \<and> map ab_timestamp bs' = map ab_timestamp bs"
  using assms
proof (induction bs arbitrary: p bs')
  case (Cons b bs)
  obtain as r cs where a: "tick_acks E (ab_acks b) p = (as, r)"
    and cs: "tick_batches E bs r = (cs, q)" "bs' = b\<lparr>ab_acks := as\<rparr> # cs"
    using Cons.prems by (auto split: prod.splits)
  from same_kinds_append[of "ab_acks b" as] tick_acks_frame[OF a] Cons.IH[OF cs(1)] cs(2)
  show ?case using same_acks_trans[of p r q] by simp
qed (simp add: same_kinds_def)

section \<open>The invariant of the component\<close>

definition ack_inv :: "('f, 's, 'n, 'h, 'b, 'm) pl \<Rightarrow> bool" where
  "ack_inv p \<longleftrightarrow> ac_current (pl_acks p) \<noteq> None
     \<and> tp_pending (mv_tp (pl_mv p)) = count_of is_teleport (in_flight (pl_acks p))
     \<and> in_corrections (mv_inputs (pl_mv p)) = count_of is_correction (in_flight (pl_acks p))
     \<and> (pl_pending_correction p \<longrightarrow> AckCorrection True \<in> set (in_flight (pl_acks p)))"

lemma ack_inv_cong: "same_acks p q \<Longrightarrow> ack_inv p \<Longrightarrow> ack_inv q"
  by (auto simp: ack_inv_def same_acks_def pl_counters_def)

lemma in_flight_add:
  assumes "ac_current c \<noteq> None"
  shows "in_flight (acks_add E a c) = in_flight c @ [a]" "ac_current (acks_add E a c) \<noteq> None"
    "ac_pending (acks_add E a c) = ac_pending c"
  using assms by (auto simp: in_flight_def acks_add_def Let_def)

lemma ack_inv_add:
  assumes "ack_inv p" "\<not> is_teleport a" "\<not> is_correction a"
  shows "ack_inv (pl_add E a p)"
  using assms by (simp add: ack_inv_def pl_add_def in_flight_add)

lemma ack_inv_add_teleport:
  assumes "ack_inv p" "is_teleport a"
  shows "ack_inv (pl_add E a (p\<lparr>pl_mv := pend_teleport pos (pl_mv p)\<rparr>))"
  using assms
  by (auto simp: ack_inv_def pl_add_def in_flight_add pend_teleport_def add_pending_teleport_def
      set_pending_teleport_pos_def is_teleport_def is_correction_def split: ack.splits)

lemma ack_inv_add_correction:
  assumes "ack_inv p"
  shows "ack_inv (pl_add E (AckCorrection f) (p\<lparr>pl_mv := set_correction_cooldown True (add_pending_correction (pl_mv p))\<rparr>))"
  using assms
  by (auto simp: ack_inv_def pl_add_def in_flight_add set_correction_cooldown_def add_pending_correction_def
      is_teleport_def is_correction_def)

lemma ack_inv_server_update:
  assumes "ack_inv p"
  shows "ack_inv (server_update E u p)"
proof (cases u)
  case (SuActorMotion v)
  have "ack_inv (fst (snd (run_ack E (AckKnockback v t False) p)))" for t
    using assms by (auto simp: run_ack_defs ack_inv_def set_knockback_def)
  moreover have "ack_inv (pl_add E (AckKnockback v t False) p)" for t
    by (rule ack_inv_add[OF assms]) (simp_all add: is_teleport_def is_correction_def)
  ultimately show ?thesis by (simp add: SuActorMotion server_update_def Let_def)
next
  case SuOther
  with assms show ?thesis by (simp add: server_update_def disconnect_def ack_inv_def)
qed (use assms in \<open>auto simp: server_update_def Let_def new_update_abilities_def is_teleport_def is_correction_def
      intro!: ack_inv_add ack_inv_add_teleport\<close>)

lemma same_acks_sync_block: "same_acks p (sync_block E pos p)"
  by (simp add: sync_block_def same_acks_def pl_counters_def Let_def split: prod.split)

lemma ack_inv_sync:
  assumes "ack_inv p"
  shows "ack_inv (movement_sync E near p)"
proof -
  define q where "q = pl_add E (AckCorrection (\<not> pl_pending_correction p))
     (p\<lparr>pl_mv := set_correction_cooldown True (add_pending_correction (pl_mv p))\<rparr>)"
  define r where "r = fold (sync_block E) near q"
  have q: "ack_inv q" unfolding q_def by (rule ack_inv_add_correction[OF assms])
  have qr: "same_acks q r" unfolding r_def by (rule same_acks_fold[OF same_acks_sync_block])
  have r: "ack_inv r" by (rule ack_inv_cong[OF qr q])
  have flag: "AckCorrection True \<in> set (in_flight (pl_acks r))"
  proof (cases "pl_pending_correction p")
    case True
    then have "pl_pending_correction r" using qr by (simp add: same_acks_def q_def pl_add_def)
    with r show ?thesis by (simp add: ack_inv_def)
  next
    case False
    then show ?thesis using assms qr by (simp add: same_acks_def q_def pl_add_def in_flight_add ack_inv_def)
  qed
  have "movement_sync E near p = (if en_replay E then p
     else if pl_pending_correction r then r
          else case pl_actor_data r of None \<Rightarrow> r
               | Some fs \<Rightarrow> movement_sync E near p)"
    by (simp add: movement_sync_def Let_def q_def r_def pl_add_def split: option.split)
  moreover have "ack_inv (movement_sync E near p)" if "\<not> en_replay E" "\<not> pl_pending_correction r" "pl_actor_data r \<noteq> None"
    using that r flag
    by (auto simp: movement_sync_def Let_def ack_inv_def q_def r_def pl_add_def split: prod.split)
  ultimately show ?thesis using assms r
    by (cases "en_replay E"; cases "pl_pending_correction r"; cases "pl_actor_data r") simp_all
qed

lemma same_acks_flush_placement: "same_acks p (flush_placement E pos r p)"
proof -
  have "same_acks p (place_in_world E pos r (p\<lparr>pl_out := pl_out p @ [OutPopup],
          pl_wu := (pl_wu p)\<lparr>wu_batch := remove_batch_block pos (wu_batch (pl_wu p))\<rparr>\<rparr>))"
    by (simp add: same_acks_def place_in_world_def pl_counters_def)
  then show ?thesis
    by (auto simp: flush_placement_def Let_def same_acks_def pl_counters_def split: option.split)
qed

lemma ack_inv_wu_flush:
  assumes "ack_inv p"
  shows "ack_inv (wu_flush E p) \<and> ac_pending (pl_acks (wu_flush E p)) = ac_pending (pl_acks p)"
proof -
  let ?u = "bb_updates (wu_batch (pl_wu p))"
  define q where "q = fold (\<lambda>pos p. case ?u pos of None \<Rightarrow> p | Some r \<Rightarrow> flush_placement E pos r p) (en_order E ?u) p"
  define b where "b = (wu_batch (pl_wu q))\<lparr>bb_expires := (if en_max_block_delay E < 0 then no_timeout else en_max_block_delay E)\<rparr>"
  define r where "r = (if no_lag_comp E p then snd (run_block_batch E b q) else pl_add E (AckBlocks b) q)"
  have pq: "same_acks p q" unfolding q_def
    by (rule same_acks_fold) (simp add: same_acks_flush_placement split: option.split)
  have q: "ack_inv q" by (rule ack_inv_cong[OF pq assms])
  have "ack_inv (pl_add E (AckBlocks b) q)"
    by (rule ack_inv_add[OF q]) (simp_all add: is_teleport_def is_correction_def)
  then have "ack_inv r" using ack_inv_cong[OF same_acks_batch q, of E b] by (simp add: r_def)
  moreover have "ac_pending (pl_acks r) = ac_pending (pl_acks p)"
    using pq same_acks_batch[of q E b] q
    by (auto simp: r_def same_acks_def pl_add_def in_flight_add ack_inv_def)
  moreover have "wu_flush E p = (if \<not> has_updates E (wu_batch (pl_wu p)) then p
      else r\<lparr>pl_wu := (pl_wu r)\<lparr>wu_batch := new_block_batch\<rparr>\<rparr>)"
    by (simp add: wu_flush_def Let_def r_def b_def q_def)
  ultimately show ?thesis using assms by (simp add: ack_inv_def)
qed

lemma ack_inv_flush:
  assumes "ack_inv p"
  shows "ack_inv (acks_flush E p)"
proof -
  obtain b where b: "ac_current (pl_acks (wu_flush E p)) = Some b"
    using ack_inv_wu_flush[OF assms, of E] by (auto simp: ack_inv_def)
  have inv: "ack_inv (wu_flush E p)" using ack_inv_wu_flush[OF assms] by blast
  have fl: "in_flight (refresh E ((pl_acks (wu_flush E p))\<lparr>ac_pending := ac_pending (pl_acks (wu_flush E p)) @ [b]\<rparr>))
      = in_flight (pl_acks (wu_flush E p))"
    by (simp add: in_flight_def refresh_def b)
  from inv show ?thesis by (simp add: acks_flush_def Let_def b ack_inv_def fl) (simp add: refresh_def)
qed

lemma ack_inv_client_tick:
  assumes "ack_inv p"
  shows "ack_inv (acks_client_tick E p)"
proof -
  let ?p = "p\<lparr>pl_acks := (pl_acks p)\<lparr>ac_client_ticked := True\<rparr>\<rparr>"
  obtain bs q where t: "tick_batches E (ac_pending (pl_acks p)) ?p = (bs, q)"
    by (cases "tick_batches E (ac_pending (pl_acks p)) ?p") auto
  from tick_batches_frame[OF t] assms show ?thesis
    by (auto simp: acks_client_tick_def t ack_inv_def same_acks_def pl_counters_def same_kinds_def in_flight_def)
qed

lemma ack_inv_server_tick:
  assumes "ack_inv p"
  shows "ack_inv (acks_server_tick E p)"
proof -
  define q where "q = (if pl_server_tick p mod 10 = 0
     then pl_add E (AckLatency (pl_now p) (pl_server_tick p)) p else p)"
  have "ack_inv q" using ack_inv_add[OF assms, of "AckLatency (pl_now p) (pl_server_tick p)" E] assms
    by (simp add: q_def is_teleport_def is_correction_def)
  moreover have "acks_server_tick E p = (if \<not> ac_client_ticked (pl_acks q) then q
        else q\<lparr>pl_acks := (pl_acks q)\<lparr>ac_client_ticked := False,
               ac_since_response := (if ac_pending (pl_acks q) \<noteq> [] \<and> pl_server_conn q
                                     then ac_since_response (pl_acks q) + 1 else 0)\<rparr>\<rparr>)"
    by (simp add: acks_server_tick_def Let_def q_def)
  ultimately show ?thesis by (simp add: ack_inv_def in_flight_def)
qed

lemma ack_inv_execute:
  assumes "ack_inv p" "acks_execute E raw p = (ok, q, None)"
  shows "ack_inv q"
proof (cases "find_batch (decode_id E (ac_legacy (pl_acks p)) raw) (ac_pending (pl_acks p))")
  case None
  with assms show ?thesis by (simp add: acks_execute_def)
next
  case (Some i)
  let ?bs = "ac_pending (pl_acks p)"
  obtain cs r e where run: "run_batches E (take (Suc i) ?bs) p = (cs, r, e)"
    by (cases "run_batches E (take (Suc i) ?bs) p") auto
  with assms(2) Some have e: "e = None" and q: "q = r\<lparr>pl_acks := (pl_acks r)\<lparr>ac_pending := drop (Suc i) (ac_pending (pl_acks r)),
                       ac_since_response := 0\<rparr>\<rparr>"
    by (auto simp: acks_execute_def split: option.splits)
  have "concat (map ab_acks ?bs) = concat (map ab_acks (take (Suc i) ?bs)) @ concat (map ab_acks (drop (Suc i) ?bs))"
    by (metis append_take_drop_id concat_append map_append)
  with run_batches_frame[OF run[unfolded e]] assms(1) show ?thesis
    by (auto simp: q ack_inv_def in_flight_def)
qed

lemma ack_inv_set_server_conn:
  assumes "ack_inv p"
  shows "ack_inv (set_server_conn E d p)"
  using assms
  by (cases d) (auto simp: set_server_conn_def disconnect_def ack_inv_def in_flight_def Let_def
      acks_reset_transfer_state_def refresh_def mv_reset_transfer_state_def)

lemma ack_inv_player_tick:
  assumes "ack_inv p"
  shows "ack_inv (snd (player_tick E p))"
proof -
  have "ack_inv (tick_components E p)"
    using assms by (simp add: tick_components_def Let_def ack_inv_def mv_tick_def)
  then have r: "ack_inv (acks_server_tick E (tick_components E p))" by (rule ack_inv_server_tick)
  with assms ack_inv_flush[OF r, of E] show ?thesis
    by (simp add: player_tick_def Let_def disconnect_def ack_inv_def)
qed

section \<open>Timestamps\<close>

text \<open>The refresh has returned: its batch has a timestamp of its own.\<close>
definition refreshed :: "('f, 'n) acks \<Rightarrow> bool" where
  "refreshed c \<longleftrightarrow> (case ac_current c of None \<Rightarrow> False
     | Some b \<Rightarrow> ab_timestamp b \<notin> set (map ab_timestamp (ac_pending c)))"

lemma refresh_loop_unused:
  "\<exists>d \<in> set ds. (if legacy then uint d * ack_divider else uint d) \<notin> used
   \<Longrightarrow> refresh_loop legacy used ds t \<notin> used"
  by (induction legacy used ds t rule: refresh_loop.induct) (auto simp: Let_def)

text \<open>The loop that picks a timestamp returns one that no pending batch has as soon as the random source
  has given more different values than there are pending batches.\<close>
theorem refresh_returns:
  assumes "length (ac_pending c) < card (set (en_draws E (ac_refreshes c)))"
  shows "refreshed (refresh E c)"
proof -
  let ?f = "\<lambda>d :: 32 word. if ac_legacy c then uint d * ack_divider else uint d"
  let ?used = "set (map ab_timestamp (ac_pending c))" and ?ds = "en_draws E (ac_refreshes c)"
  have "inj ?f" by (rule injI) (simp add: word_uint_eq_iff split: if_splits)
  then have "card (?f ` set ?ds) = card (set ?ds)" by (intro card_image) (auto intro: inj_on_subset)
  moreover have "card ?used \<le> length (ac_pending c)" by (metis card_length length_map)
  ultimately have "card ?used < card (?f ` set ?ds)" using assms by simp
  then have "\<not> ?f ` set ?ds \<subseteq> ?used" using card_mono[OF finite_set, of "?f ` set ?ds"] by (meson leD)
  then have "\<exists>d \<in> set ?ds. ?f d \<notin> ?used" by blast
  then have "refresh_loop (ac_legacy c) ?used ?ds 0 \<notin> ?used" by (rule refresh_loop_unused)
  then show ?thesis by (simp add: refreshed_def refresh_def)
qed

text \<open>What distinguishes batches: the timestamps and the mode.\<close>
definition stamps_of :: "('f, 'n) acks \<Rightarrow> int list \<times> int option \<times> bool" where
  "stamps_of c = (map ab_timestamp (ac_pending c), map_option ab_timestamp (ac_current c), ac_legacy c)"

definition stamps_ok :: "int list \<times> int option \<times> bool \<Rightarrow> bool" where
  "stamps_ok s \<longleftrightarrow> (case s of (ts, cur, legacy) \<Rightarrow> distinct ts \<and> (\<forall>t \<in> set ts. 0 \<le> t) \<and> \<not> legacy
     \<and> (\<exists>t. cur = Some t \<and> 0 \<le> t \<and> t \<notin> set ts))"

definition ts_inv :: "('f, 'n) acks \<Rightarrow> bool" where
  "ts_inv c \<longleftrightarrow> stamps_ok (stamps_of c)"

lemma refresh_loop_nonneg: "0 \<le> t \<Longrightarrow> 0 \<le> refresh_loop legacy used ds t"
  by (induction legacy used ds t rule: refresh_loop.induct) (auto simp: Let_def)

lemma stamps_ok_drop: "stamps_ok (ts, cur, legacy) \<Longrightarrow> stamps_ok (drop n ts, cur, legacy)"
  by (auto simp: stamps_ok_def dest: in_set_dropD)

lemma ts_inv_cong: "stamps_of c' = stamps_of c \<Longrightarrow> ts_inv c \<Longrightarrow> ts_inv c'"
  by (simp add: ts_inv_def)

lemma ts_inv_refresh:
  assumes "distinct (map ab_timestamp (ac_pending c))" "\<forall>t \<in> set (map ab_timestamp (ac_pending c)). 0 \<le> t"
    and "\<not> ac_legacy c" "refreshed (refresh E c)"
  shows "ts_inv (refresh E c)"
  using assms
  by (auto simp: ts_inv_def stamps_ok_def stamps_of_def refreshed_def refresh_def intro: refresh_loop_nonneg)

lemma stamps_add: "ac_current c \<noteq> None \<Longrightarrow> stamps_of (acks_add E a c) = stamps_of c"
  by (auto simp: stamps_of_def acks_add_def Let_def)

lemma ts_inv_current: "ts_inv c \<Longrightarrow> ac_current c \<noteq> None"
  by (auto simp: ts_inv_def stamps_ok_def stamps_of_def)

lemma ts_inv_add: "ts_inv c \<Longrightarrow> ts_inv (acks_add E a c)"
  using ts_inv_cong[OF stamps_add] ts_inv_current by blast

lemma ts_inv_same: "same_acks p q \<Longrightarrow> ts_inv (pl_acks p) \<Longrightarrow> ts_inv (pl_acks q)"
  by (simp add: same_acks_def)

lemma ts_inv_pl_add: "ts_inv (pl_acks p) \<Longrightarrow> ts_inv (pl_acks (pl_add E a p))"
  by (simp add: pl_add_def ts_inv_add)

lemma ts_inv_execute:
  assumes "ts_inv (pl_acks p)" "acks_execute E raw p = (ok, q, None)"
  shows "ts_inv (pl_acks q)"
proof (cases "find_batch (decode_id E (ac_legacy (pl_acks p)) raw) (ac_pending (pl_acks p))")
  case None
  with assms show ?thesis by (simp add: acks_execute_def)
next
  case (Some i)
  let ?bs = "ac_pending (pl_acks p)"
  obtain cs r e where run: "run_batches E (take (Suc i) ?bs) p = (cs, r, e)"
    by (cases "run_batches E (take (Suc i) ?bs) p") auto
  with assms(2) Some have e: "e = None" and q: "q = r\<lparr>pl_acks := (pl_acks r)\<lparr>ac_pending := drop (Suc i) (ac_pending (pl_acks r)),
                       ac_since_response := 0\<rparr>\<rparr>"
    by (auto simp: acks_execute_def split: option.splits)
  have "pl_acks r = pl_acks p" using run_batches_frame[OF run[unfolded e]] by blast
  with assms(1) show ?thesis
    by (simp add: q ts_inv_def stamps_of_def drop_map[symmetric] stamps_ok_drop)
qed

text \<open>The flush of the world updater leaves the timestamps alone.\<close>
lemma stamps_wu_flush:
  assumes "ac_current (pl_acks p) \<noteq> None"
  shows "stamps_of (pl_acks (wu_flush E p)) = stamps_of (pl_acks p)"
proof -
  let ?u = "bb_updates (wu_batch (pl_wu p))"
  define q where "q = fold (\<lambda>pos p. case ?u pos of None \<Rightarrow> p | Some r \<Rightarrow> flush_placement E pos r p) (en_order E ?u) p"
  have "same_acks p q" unfolding q_def
    by (rule same_acks_fold) (simp add: same_acks_flush_placement split: option.split)
  then have q: "pl_acks q = pl_acks p" by (simp add: same_acks_def)
  have "pl_acks (snd (run_block_batch E b q)) = pl_acks p" for b
    using same_acks_batch[of q E b] q by (simp add: same_acks_def)
  moreover have "stamps_of (pl_acks (pl_add E a q)) = stamps_of (pl_acks p)" for a
    using assms q by (simp add: pl_add_def stamps_add)
  ultimately show ?thesis by (simp add: wu_flush_def Let_def flip: q_def)
qed

lemma ts_inv_flush:
  assumes "ts_inv (pl_acks p)" "refreshed (pl_acks (acks_flush E p))"
  shows "ts_inv (pl_acks (acks_flush E p))"
proof -
  define c where "c = pl_acks (wu_flush E p)"
  have c: "ts_inv c" unfolding c_def
    by (rule ts_inv_cong[OF stamps_wu_flush assms(1)]) (rule ts_inv_current[OF assms(1)])
  then obtain b where b: "ac_current c = Some b" using ts_inv_current by auto
  have f: "pl_acks (acks_flush E p) = refresh E (c\<lparr>ac_pending := ac_pending c @ [b]\<rparr>)"
    using b by (simp add: acks_flush_def Let_def c_def)
  show ?thesis unfolding f
    by (rule ts_inv_refresh) (use c b assms(2) f in \<open>auto simp: ts_inv_def stamps_ok_def stamps_of_def\<close>)
qed

lemma ts_inv_server_conn:
  assumes "ts_inv (pl_acks p)" "refreshed (pl_acks (set_server_conn E d p))"
  shows "ts_inv (pl_acks (set_server_conn E d p))"
proof (cases d)
  case (Some bd)
  have "pl_acks (set_server_conn E d p) = acks_reset_transfer_state E (pl_acks p)"
    by (simp add: Some set_server_conn_def Let_def)
  with assms show ?thesis unfolding acks_reset_transfer_state_def
    by simp (rule ts_inv_refresh, auto simp: ts_inv_def stamps_ok_def stamps_of_def)
qed (use assms in \<open>simp add: set_server_conn_def disconnect_def\<close>)

lemma ts_inv_client_tick:
  assumes "ts_inv (pl_acks p)"
  shows "ts_inv (pl_acks (acks_client_tick E p))"
proof -
  let ?p = "p\<lparr>pl_acks := (pl_acks p)\<lparr>ac_client_ticked := True\<rparr>\<rparr>"
  obtain bs q where t: "tick_batches E (ac_pending (pl_acks p)) ?p = (bs, q)"
    by (cases "tick_batches E (ac_pending (pl_acks p)) ?p") auto
  from tick_batches_frame[OF t] assms show ?thesis
    by (auto simp: acks_client_tick_def t same_acks_def ts_inv_def stamps_of_def)
qed

lemma ts_inv_server_tick:
  assumes "ts_inv (pl_acks p)"
  shows "ts_inv (pl_acks (acks_server_tick E p))"
proof -
  define q where "q = (if pl_server_tick p mod 10 = 0
     then pl_add E (AckLatency (pl_now p) (pl_server_tick p)) p else p)"
  have "ts_inv (pl_acks q)" using assms by (simp add: q_def ts_inv_pl_add)
  moreover have "stamps_of (pl_acks (acks_server_tick E p)) = stamps_of (pl_acks q)"
    by (simp add: acks_server_tick_def Let_def stamps_of_def flip: q_def)
  ultimately show ?thesis by (simp add: ts_inv_def)
qed

lemma ts_inv_player_tick:
  assumes "ts_inv (pl_acks p)" "refreshed (pl_acks (snd (player_tick E p)))"
  shows "ts_inv (pl_acks (snd (player_tick E p)))"
proof -
  have "ts_inv (pl_acks (tick_components E p))" using assms(1) by (simp add: tick_components_def Let_def)
  then have r: "ts_inv (pl_acks (acks_server_tick E (tick_components E p)))" by (rule ts_inv_server_tick)
  with assms ts_inv_flush[OF r, of E] show ?thesis
    by (auto simp: player_tick_def Let_def disconnect_def split: if_splits)
qed

lemma ts_inv_server_update:
  assumes "ts_inv (pl_acks p)"
  shows "ts_inv (pl_acks (server_update E u p))"
proof (cases u)
  case (SuActorMotion v)
  have "pl_acks (fst (snd (run_ack E (AckKnockback v t False) p))) = pl_acks p" for t
    by (simp add: run_ack_defs)
  with assms show ?thesis by (simp add: SuActorMotion server_update_def Let_def ts_inv_pl_add)
qed (use assms in \<open>auto simp: server_update_def Let_def disconnect_def intro!: ts_inv_pl_add\<close>)

lemma ts_inv_sync:
  assumes "ts_inv (pl_acks p)"
  shows "ts_inv (pl_acks (movement_sync E near p))"
proof -
  define q where "q = pl_add E (AckCorrection (\<not> pl_pending_correction p))
     (p\<lparr>pl_mv := set_correction_cooldown True (add_pending_correction (pl_mv p))\<rparr>)"
  have "same_acks q (fold (sync_block E) near q)" by (rule same_acks_fold[OF same_acks_sync_block])
  then have "pl_acks (fold (sync_block E) near q) = pl_acks q" by (simp add: same_acks_def)
  moreover have "ts_inv (pl_acks q)" using assms by (simp add: q_def ts_inv_pl_add)
  moreover have "pl_acks (movement_sync E near p)
      = (if en_replay E then pl_acks p else pl_acks (fold (sync_block E) near q))"
    by (auto simp: movement_sync_def Let_def q_def split: option.split prod.split)
  ultimately show ?thesis using assms by simp
qed

section \<open>Sessions\<close>

text \<open>
  One step of a session: an update of the server, a frame of the client (whose simulation
  keeps what it cannot reach), an answer that does not panic, a tick, a change of the backend.
  A step that flushes or transfers ends when its refresh has returned.
\<close>
inductive pl_step ::
  "('f, 's, 'n, 'h, 'c, 'sc, 'd, 'b) pl_env \<Rightarrow> ('f, 's, 'n, 'h, 'b, 'm) pl \<Rightarrow> ('f, 's, 'n, 'h, 'b, 'm) pl \<Rightarrow> bool"
  for E where
  st_server: "pl_step E p (server_update E u p)"
| st_gamemode: "pl_step E p (gamemode_handle E g p)"
| st_slot: "pl_step E p (handle_inventory_slot E wid slot item p)"
| st_content: "pl_step E p (handle_inventory_content E wid items p)"
| st_block: "pl_step E p (handle_update_block E layer pos r p)"
| st_blocks: "pl_step E p (handle_update_sub_chunk_blocks E bs extra p)"
| st_entity: "pl_step E p (pl_add E (AckEntityPosition pos rid tele) p)"
| st_size: "pl_step E p (pl_add E (AckEntitySize i w h s) p)"
| st_sync: "pl_step E p (movement_sync E near p)"
| st_frame: "simulation_keeps sim \<Longrightarrow> pl_step E p (p\<lparr>pl_mv := snd (mv_update (en_flt E) sim P pk (pl_mv p)),
      pl_client_tick := pl_client_tick p + 1\<rparr>)"
| st_client_tick: "pl_step E p (acks_client_tick E p)"
| st_execute: "acks_execute E raw p = (ok, q, None) \<Longrightarrow> pl_step E p q"
| st_tick: "refreshed (pl_acks (snd (player_tick E p))) \<Longrightarrow> pl_step E p (snd (player_tick E p))"
| st_backend: "refreshed (pl_acks (set_server_conn E d p)) \<Longrightarrow> pl_step E p (set_server_conn E d p)"

inductive pl_reachable ::
  "('f, 's, 'n, 'h, 'c, 'sc, 'd, 'b) pl_env \<Rightarrow> ('f, 's, 'n, 'h, 'b, 'm) pl \<Rightarrow> bool" for E where
  pl_start: "pl_acks p = new_acks E \<Longrightarrow> refreshed (pl_acks p) \<Longrightarrow> pl_mv p = new_movement (en_flt E)
     \<Longrightarrow> \<not> pl_pending_correction p \<Longrightarrow> pl_reachable E p"
| pl_next: "pl_reachable E p \<Longrightarrow> pl_step E p q \<Longrightarrow> pl_reachable E q"

lemma ack_inv_step: "pl_step E p q \<Longrightarrow> ack_inv p \<Longrightarrow> ack_inv q"
proof (induction rule: pl_step.induct)
  case (st_gamemode p g)
  then have "ack_inv (p\<lparr>pl_pending_game_mode := g\<rparr>)" by (simp add: ack_inv_def)
  then show ?case unfolding gamemode_handle_def
    by (rule ack_inv_add) (simp_all add: is_teleport_def is_correction_def)
next
  case (st_blocks p bs extra)
  then have "ack_inv (if \<not> pl_ready p then pl_add E AckInitialized p else p)"
    by (auto intro!: ack_inv_add simp: is_teleport_def is_correction_def)
  then show ?case by (simp add: handle_update_sub_chunk_blocks_def Let_def ack_inv_def)
next
  case (st_frame sim p P pk)
  then show ?case by (simp add: ack_inv_def mv_update_parts(1) mv_update_inputs)
next
  case (st_block p layer pos r)
  then show ?case by (simp add: handle_update_block_def ack_inv_def)
qed (auto simp: handle_inventory_slot_def handle_inventory_content_def
    is_teleport_def is_correction_def intro: ack_inv_server_update ack_inv_sync ack_inv_client_tick
    ack_inv_execute ack_inv_player_tick ack_inv_set_server_conn intro!: ack_inv_add)

lemma ts_inv_step: "pl_step E p q \<Longrightarrow> ts_inv (pl_acks p) \<Longrightarrow> ts_inv (pl_acks q)"
proof (induction rule: pl_step.induct)
  case (st_blocks p bs extra)
  then show ?case by (simp add: handle_update_sub_chunk_blocks_def Let_def ts_inv_pl_add)
qed (auto simp: handle_inventory_slot_def handle_inventory_content_def handle_update_block_def gamemode_handle_def
    intro: ts_inv_server_update ts_inv_sync ts_inv_client_tick ts_inv_execute ts_inv_player_tick
      ts_inv_server_conn ts_inv_pl_add)

lemma ack_inv_start:
  assumes "pl_acks p = new_acks E" "pl_mv p = new_movement F" "\<not> pl_pending_correction p"
  shows "ack_inv p"
  using assms by (simp add: ack_inv_def new_acks_def refresh_def in_flight_def new_movement_def)

lemma pl_reachable_inv: "pl_reachable E p \<Longrightarrow> ack_inv p \<and> ts_inv (pl_acks p)"
proof (induction rule: pl_reachable.induct)
  case (pl_start p)
  have "ts_inv (new_acks E)" unfolding new_acks_def
    by (rule ts_inv_refresh) (use pl_start in \<open>simp_all add: new_acks_def\<close>)
  with pl_start ack_inv_start show ?case by auto
next
  case (pl_next p q)
  then show ?case using ack_inv_step ts_inv_step by blast
qed

text \<open>C5: in every session, through updates, frames, answers, ticks and transfers, the number of pending
  teleports is the number of teleports in flight to the client, the number of pending corrections
  is that of the corrections in flight, and while the flag of a pending correction is set the
  correction that will clear it is in flight.\<close>
theorem pending_counts_in_flight:
  assumes "pl_reachable E p"
  shows "tp_pending (mv_tp (pl_mv p)) = count_of is_teleport (in_flight (pl_acks p))
     \<and> in_corrections (mv_inputs (pl_mv p)) = count_of is_correction (in_flight (pl_acks p))
     \<and> (pl_pending_correction p \<longrightarrow> AckCorrection True \<in> set (in_flight (pl_acks p)))"
  using pl_reachable_inv[OF assms] by (simp add: ack_inv_def)

section \<open>Answers\<close>

text \<open>What a client answers to a batch: its timestamp, multiplied once or twice by the platform.\<close>
definition client_echo :: "('f, 's, 'n, 'h, 'c, 'sc, 'd, 'b) pl_env \<Rightarrow> int \<Rightarrow> int" where
  "client_echo E t = (if en_orbis E then t * 1000 else t * 1000000)"

lemma decode_echo: "0 \<le> t \<Longrightarrow> decode_id E False (client_echo E t) = t"
  by (cases "t = 0") (simp_all add: decode_id_def client_echo_def go_div_def Let_def)

lemma find_batch_nth:
  "distinct (map ab_timestamp bs) \<Longrightarrow> i < length bs \<Longrightarrow> find_batch (ab_timestamp (bs ! i)) bs = Some i"
proof (induction bs arbitrary: i)
  case (Cons b bs)
  show ?case
  proof (cases i)
    case (Suc j)
    then have "ab_timestamp (bs ! j) \<in> ab_timestamp ` set bs" using Cons.prems(2) by simp
    with Cons.prems(1) have "ab_timestamp b \<noteq> ab_timestamp (bs ! j)" by auto
    with Suc Cons show ?thesis by simp
  qed simp
qed simp

lemma find_batch_None: "t \<notin> set (map ab_timestamp bs) \<Longrightarrow> find_batch t bs = None"
  by (induction bs) auto

text \<open>C19: in every session, a client's answer to the i-th pending batch runs the batches up to it in the
  order in which they were sent, takes exactly these away, and counts as a response; an answer
  that matches no pending batch changes nothing.\<close>
theorem answer_runs_prefix:
  assumes "pl_reachable E p" "i < length (ac_pending (pl_acks p))"
    and "run_batches E (take (Suc i) (ac_pending (pl_acks p))) p = (bs, q, None)"
  shows "acks_execute E (client_echo E (ab_timestamp (ac_pending (pl_acks p) ! i))) p
       = (True, q\<lparr>pl_acks := (pl_acks p)\<lparr>ac_pending := drop (Suc i) (ac_pending (pl_acks p)),
                    ac_since_response := 0\<rparr>\<rparr>, None)
     \<and> (\<forall>raw. decode_id E False raw \<notin> set (map ab_timestamp (ac_pending (pl_acks p)))
          \<longrightarrow> acks_execute E raw p = (False, p, None))"
proof -
  let ?bs = "ac_pending (pl_acks p)"
  have inv: "distinct (map ab_timestamp ?bs)" "\<forall>t \<in> set (map ab_timestamp ?bs). 0 \<le> t" "\<not> ac_legacy (pl_acks p)"
    using pl_reachable_inv[OF assms(1)] by (auto simp: ts_inv_def stamps_ok_def stamps_of_def)
  have "0 \<le> ab_timestamp (?bs ! i)" using inv(2) assms(2) by simp
  then have "find_batch (decode_id E (ac_legacy (pl_acks p)) (client_echo E (ab_timestamp (?bs ! i)))) ?bs = Some i"
    using find_batch_nth[OF inv(1) assms(2)] inv(3) by (simp add: decode_echo)
  moreover have "pl_acks q = pl_acks p" using run_batches_frame[OF assms(3)] by blast
  ultimately show ?thesis using inv(3) by (auto simp: acks_execute_def assms(3) find_batch_None)
qed

end
