(* ===== verification/AckSamples.thy ===== *)
theory AckSamples
  imports AckProps WorldProps InvProps
begin

text \<open>
  A concrete session for the properties of the acknowledgments: numbers that are integers in
  thousandths, chunks that are numbers, a random source that counts, and the properties applied
  to a run with a teleport, a correction and a tick.
\<close>

definition vec_of :: "'f flt \<Rightarrow> 'f vec3 vec_ops" where
  "vec_of F = \<lparr>v_zero = zero3 F,
     v_add = (\<lambda>(a, b, c) (x, y, z). (fl_add F a x, fl_add F b y, fl_add F c z)),
     v_sub = sub3 F, v_mul_inv = (\<lambda>_ v. v), v_lower = (\<lambda>v. v)\<rparr>"

definition demo_pl_env :: "(int, int, int, bytes, nat, nat, nat, nat) pl_env" where
  "demo_pl_env = \<lparr>en_flt = demo_flt, en_float_equal = (=), en_vec = vec_of demo_flt,
     en_ops = sample_chunk_ops, en_shared = empty_shared, en_ids = sample_ids, en_cube = demo_cube,
     en_item = id, en_lasting = (\<lambda>i. 0 < i \<and> i < 31), en_effect_add = 1, en_effect_modify = 2,
     en_flag_immobile = 16, en_flag_sprinting = 3, en_flag_sneaking = 1, en_flag_gravity = 49,
     en_flag_action = 4, en_mode_normal = 0, en_mode_reset = 1, en_mode_teleport = 2,
     en_mode_rotation = 3, en_move_teleport = 2, en_move_ground = 1, en_may_fly = 1024,
     en_flying = 512, en_no_clip = 131072, en_orbis = False, en_max_ack_timeout = 15, en_cutoff = -1,
     en_max_chain = 4, en_max_kb_delay = -1, en_max_block_delay = -1, en_encode = id,
     en_order = (\<lambda>m. filter (\<lambda>q. m q \<noteq> None) [(0, 64, 0), (1, 64, 0), (2, 64, 0)]),
     en_place_order = (\<lambda>h. []), en_entity_order = (\<lambda>t. []), en_chunk_order = (\<lambda>w. []),
     en_replay = False, en_draws = (\<lambda>k. [7, word_of_nat (7 + k), word_of_nat (8 + k)])\<rparr>"

definition demo_pl :: "(int, int, int, bytes, nat, unit) pl" where
  "demo_pl = \<lparr>pl_mv = new_movement demo_flt, pl_effects = new_effects_component, pl_ready = True,
     pl_alive = True, pl_hungry = False, pl_game_mode = 0, pl_pending_game_mode = -1, pl_latency = 0,
     pl_client_tick = 0, pl_server_tick = 0, pl_now = 50000000, pl_tps = 20000, pl_consume_tick = 0,
     pl_pending_correction = False, pl_actor_data = Some (Some 0), pl_world = new_world,
     pl_server_tracker = new_entity_tracker False, pl_tracker = new_entity_tracker True,
     pl_entities = Map.empty, pl_windows = new_windows count_stacks,
     pl_wu = \<lparr>wu_radius = 8, wu_server_radius = 8, wu_pending = Map.empty, wu_batch = new_block_batch,
       wu_placements = ([], Map.empty), wu_breaking = None\<rparr>,
     pl_acks = new_acks demo_pl_env, pl_server_conn = True, pl_last_tick = 0, pl_closed = False,
     pl_mode = RuntimeIDs, pl_out = []\<rparr>"

text \<open>A teleport and a correction, sent by a tick.\<close>
definition demo_sent :: "(int, int, int, bytes, nat, unit) pl" where
  "demo_sent = snd (player_tick demo_pl_env (movement_sync demo_pl_env []
     (server_update demo_pl_env (SuMoveAbsolute (5000, 70000, 5000) 3) demo_pl)))"

lemma demo_start: "pl_reachable demo_pl_env demo_pl"
  by (rule pl_start) (simp_all add: demo_pl_def new_acks_def refresh_def refreshed_def demo_pl_env_def)

lemma demo_sent_refreshed: "refreshed (pl_acks demo_sent)"
  by code_simp

lemma demo_sent_reachable: "pl_reachable demo_pl_env demo_sent"
proof -
  have "pl_reachable demo_pl_env (movement_sync demo_pl_env []
     (server_update demo_pl_env (SuMoveAbsolute (5000, 70000, 5000) 3) demo_pl))"
    by (rule pl_next[OF pl_next[OF demo_start st_server] st_sync])
  from pl_next[OF this st_tick] demo_sent_refreshed show ?thesis
    unfolding demo_sent_def by blast
qed

theorem refresh_returns_witness:
  "refreshed (refresh demo_pl_env (pl_acks demo_sent))"
proof (rule refresh_returns)
  show "length (ac_pending (pl_acks demo_sent)) < card (set (en_draws demo_pl_env (ac_refreshes (pl_acks demo_sent))))"
    by code_simp
qed

theorem pending_counts_in_flight_witness:
  "count_of is_teleport (in_flight (pl_acks demo_sent)) = 1
   \<and> AckCorrection True \<in> set (in_flight (pl_acks demo_sent))"
proof -
  have "tp_pending (mv_tp (pl_mv demo_sent)) = 1" "pl_pending_correction demo_sent" by code_simp+
  then show ?thesis using pending_counts_in_flight[OF demo_sent_reachable] by simp
qed

theorem answer_runs_prefix_witness:
  "\<exists>q. acks_execute demo_pl_env 7000000 demo_sent = (True, q, None) \<and> ac_pending (pl_acks q) = []"
proof -
  have one: "length (ac_pending (pl_acks demo_sent)) = 1"
    "ab_timestamp (ac_pending (pl_acks demo_sent) ! 0) = 7" by code_simp+
  have "snd (snd (run_batches demo_pl_env (take 1 (ac_pending (pl_acks demo_sent))) demo_sent)) = None"
    by code_simp
  then obtain bs q where "run_batches demo_pl_env (take (Suc 0) (ac_pending (pl_acks demo_sent))) demo_sent = (bs, q, None)"
    by (metis One_nat_def prod.collapse)
  from answer_runs_prefix[OF demo_sent_reachable _ this] one show ?thesis
    by (simp add: client_echo_def demo_pl_env_def)
qed

end
