(* ===== verification/Boxes.thy ===== *)
theory Boxes
  imports Floats
begin

text \<open>
  Bounding boxes and rays: \<^verbatim>\<open>src/game/aabb.go\<close> and \<^verbatim>\<open>src/game/raytrace.go\<close>.
  A box is the pair of its corners.  The operations of the box library (translating, growing,
  extending, intersection, ray intercepts) are a record of functions; \<^verbatim>\<open>box_laws\<close> states
  what the library documents of them, in exact numbers.
\<close>

section \<open>Boxes\<close>

type_synonym 'f bbox = "'f vec3 \<times> 'f vec3"

record 'f box_lib =
  bl_box :: "'f vec3 \<Rightarrow> 'f vec3 \<Rightarrow> 'f bbox"
  bl_translate :: "'f vec3 \<Rightarrow> 'f bbox \<Rightarrow> 'f bbox"
  bl_grow :: "'f \<Rightarrow> 'f bbox \<Rightarrow> 'f bbox"
  bl_grow_vec :: "'f vec3 \<Rightarrow> 'f bbox \<Rightarrow> 'f bbox"
  bl_extend :: "'f vec3 \<Rightarrow> 'f bbox \<Rightarrow> 'f bbox"
  bl_extend_down :: "'f \<Rightarrow> 'f bbox \<Rightarrow> 'f bbox"
  bl_intersects :: "'f bbox \<Rightarrow> 'f bbox \<Rightarrow> bool"
  bl_within :: "'f bbox \<Rightarrow> 'f vec3 \<Rightarrow> bool"
  bl_intercept :: "'f bbox \<Rightarrow> 'f vec3 \<Rightarrow> 'f vec3 \<Rightarrow> 'f vec3 option"
  bl_pos_of :: "'f vec3 \<Rightarrow> int \<times> int \<times> int"

abbreviation bb_min :: "'f bbox \<Rightarrow> 'f vec3" where "bb_min \<equiv> fst"
abbreviation bb_max :: "'f bbox \<Rightarrow> 'f vec3" where "bb_max \<equiv> snd"

definition bb_has_zero_volume :: "'f flt \<Rightarrow> 'f bbox \<Rightarrow> bool" where
  "bb_has_zero_volume F bb \<longleftrightarrow> eq3 F (bb_min bb) (bb_max bb)"

section \<open>Clipping a velocity against a box\<close>

record 'f clip_result =
  cr_axis :: nat
  cr_penetration :: 'f
  cr_clipped :: "'f vec3"
  cr_depenetrating :: "'f vec3"

text \<open>The locals of the loop over the axes.\<close>
record 'f axes =
  ax_pen :: "'f vec3"
  ax_signed :: "'f vec3"
  ax_normal :: "'f vec3"
  ax_separating :: nat
  ax_axis :: nat
  ax_best :: 'f

definition snap :: "'f flt \<Rightarrow> 'f \<Rightarrow> 'f" where
  "snap F p = (if fl_le F (fl_abs F p) (fl_lit F 0.0000001) then fl_lit F 0 else p)"

definition scan_axis :: "'f flt \<Rightarrow> 'f bbox \<Rightarrow> 'f bbox \<Rightarrow> nat \<Rightarrow> 'f axes \<Rightarrow> 'f axes" where
  "scan_axis F stationary moving i a =
    (let min_pen = snap F (fl_sub F (vget i (bb_max moving)) (vget i (bb_min stationary)));
         max_pen = snap F (fl_sub F (vget i (bb_max stationary)) (vget i (bb_min moving)));
         zero = fl_lit F 0;
         min_pos = fl_max F zero min_pen; max_pos = fl_max F zero max_pen
     in if fl_eq F min_pos zero
        then a\<lparr>ax_pen := vset i zero (ax_pen a), ax_signed := vset i min_pen (ax_signed a),
               ax_normal := vset i (fl_lit F (-1)) (ax_normal a),
               ax_separating := ax_separating a + 1, ax_axis := i\<rparr>
        else if fl_eq F max_pos zero
        then a\<lparr>ax_pen := vset i zero (ax_pen a), ax_signed := vset i max_pen (ax_signed a),
               ax_normal := vset i (fl_lit F 1) (ax_normal a),
               ax_separating := ax_separating a + 1, ax_axis := i\<rparr>
        else if fl_less F min_pos max_pos
        then a\<lparr>ax_pen := vset i min_pos (ax_pen a), ax_signed := vset i min_pos (ax_signed a),
               ax_normal := vset i (fl_lit F (-1)) (ax_normal a)\<rparr>
        else a\<lparr>ax_pen := vset i max_pos (ax_pen a), ax_signed := vset i max_pos (ax_signed a),
               ax_normal := vset i (fl_lit F 1) (ax_normal a)\<rparr>)"

text \<open>The loop; it leaves the function when a second axis separates the boxes.\<close>
fun scan_axes :: "'f flt \<Rightarrow> 'f bbox \<Rightarrow> 'f bbox \<Rightarrow> nat list \<Rightarrow> 'f axes \<Rightarrow> 'f axes option" where
  "scan_axes F stationary moving [] a = Some a"
| "scan_axes F stationary moving (i # is) a =
    (let a = scan_axis F stationary moving i a
     in if 1 < ax_separating a then None
        else scan_axes F stationary moving is (a\<lparr>ax_best := fl_min F (ax_best a) (vget i (ax_pen a))\<rparr>))"

definition best_axis :: "'f flt \<Rightarrow> 'f vec3 \<Rightarrow> nat" where
  "best_axis F p = (let b = (if fl_less F (vget 1 p) (vget 0 p) then 1 else 0)
     in if fl_less F (vget 2 p) (vget b p) then 2 else b)"

definition do_bb_clip_collide :: "'f flt \<Rightarrow> 'f bbox \<Rightarrow> 'f bbox \<Rightarrow> 'f vec3 \<Rightarrow> 'f clip_result" where
  "do_bb_clip_collide F stationary moving velocity =
    (let zero = fl_lit F 0;
         result = \<lparr>cr_axis = 0, cr_penetration = zero, cr_clipped = velocity, cr_depenetrating = velocity\<rparr>
     in if bb_has_zero_volume F stationary then result
        else case scan_axes F stationary moving [0, 1, 2]
                    \<lparr>ax_pen = zero3 F, ax_signed = zero3 F, ax_normal = zero3 F, ax_separating = 0,
                     ax_axis = 0, ax_best = fl_sub F (fl_max_value F) (fl_lit F 1)\<rparr> of
               None \<Rightarrow> result
             | Some a \<Rightarrow>
                 if ax_separating a = 0
                 then let b = best_axis F (ax_pen a);
                          desired = fl_mul F (vget b (ax_pen a)) (vget b (ax_normal a))
                      in result\<lparr>cr_penetration := ax_best a,
                           cr_depenetrating := vset b (if fl_less F zero desired
                              then fl_max F desired (vget b velocity)
                              else fl_min F desired (vget b velocity)) velocity,
                           cr_axis := b\<rparr>
                 else let k = ax_axis a;
                          swept = fl_sub F (vget k (ax_signed a)) (fl_mul F (vget k (ax_normal a)) (vget k velocity))
                      in if fl_le F swept zero then result
                         else let r = fl_mul F (vget k (ax_signed a)) (vget k (ax_normal a))
                              in result\<lparr>cr_clipped := vset k r velocity, cr_depenetrating := vset k r velocity\<rparr>)"

text \<open>The velocity, and the penetrations when the caller wants them.\<close>
definition bb_clip_collide ::
  "'f flt \<Rightarrow> 'f bbox \<Rightarrow> 'f bbox \<Rightarrow> bool \<Rightarrow> 'f vec3 \<times> 'f vec3 option \<Rightarrow> 'f vec3 \<times> 'f vec3 option" where
  "bb_clip_collide F this c one_way vp =
    (let (vel, pen) = vp;
         r = do_bb_clip_collide F this c vel;
         pen = (case pen of None \<Rightarrow> None
                | Some p \<Rightarrow> if fl_less F (vget (cr_axis r) p) (cr_penetration r)
                            then Some (vset (cr_axis r) (cr_penetration r) p) else Some p)
     in (if one_way then cr_clipped r else cr_depenetrating r, pen))"

section \<open>Points, lines and boxes\<close>

definition closest_point_in_line_to_point :: "'f flt \<Rightarrow> 'f vec3 \<Rightarrow> 'f vec3 \<Rightarrow> 'f vec3 \<Rightarrow> 'f vec3" where
  "closest_point_in_line_to_point F origin end_pt point =
    (let line = sub3 F end_pt origin
     in if fl_le F (len_sqr3 F line) (fl_lit F 0.0001) then origin
        else let t = fl_div F (dot3 F (sub3 F point origin) line) (len_sqr3 F line);
                 t = (if fl_less F t (fl_lit F 0) then fl_lit F 0
                      else if fl_less F (fl_lit F 1) t then fl_lit F 1 else t)
             in add3 F origin (mul3 F line t))"

definition closest_coord :: "'f flt \<Rightarrow> 'f \<Rightarrow> 'f \<Rightarrow> 'f \<Rightarrow> 'f" where
  "closest_coord F p lo hi = (if fl_less F p lo then lo else if fl_less F hi p then hi else p)"

definition closest_point_to_bbox :: "'f flt \<Rightarrow> 'f vec3 \<Rightarrow> 'f bbox \<Rightarrow> 'f vec3" where
  "closest_point_to_bbox F origin bb =
    (closest_coord F (vx origin) (vx (bb_min bb)) (vx (bb_max bb)),
     closest_coord F (vy origin) (vy (bb_min bb)) (vy (bb_max bb)),
     closest_coord F (vz origin) (vz (bb_min bb)) (vz (bb_max bb)))"

definition ray_or_closest :: "'f flt \<Rightarrow> 'f box_lib \<Rightarrow> 'f vec3 \<Rightarrow> 'f bbox \<Rightarrow> 'f vec3 \<Rightarrow> 'f vec3 \<times> bool" where
  "ray_or_closest F L origin bb point =
    (case bl_intercept L bb origin point of Some p \<Rightarrow> (p, True) | None \<Rightarrow> (closest_point_to_bbox F point bb, False))"

definition closest_point_directional ::
  "'f flt \<Rightarrow> 'f box_lib \<Rightarrow> 'f vec3 \<Rightarrow> 'f vec3 \<Rightarrow> 'f vec3 \<Rightarrow> 'f bbox \<Rightarrow> 'f \<Rightarrow> 'f vec3 \<times> bool" where
  "closest_point_directional F L origin start_look end_look bb distance =
    (let (point1, hit1) = ray_or_closest F L origin bb (add3 F origin (mul3 F start_look distance));
         (point2, hit2) = ray_or_closest F L origin bb (add3 F origin (mul3 F end_look distance))
     in if eq3 F point1 point2
        then if \<not> hit1 then if \<not> hit2 then (zero3 F, False) else (point2, True) else (point1, True)
        else (closest_point_to_bbox F origin (bl_box L point1 point2), True))"

definition aabb_from_dimensions :: "'f flt \<Rightarrow> 'f box_lib \<Rightarrow> 'f \<Rightarrow> 'f \<Rightarrow> 'f bbox" where
  "aabb_from_dimensions F L width height =
    (let h = fl_div F width (fl_lit F 2)
     in bl_box L (fl_neg F h, fl_lit F 0, fl_neg F h) (h, height, h))"

text \<open>The comparison with a NaN is never true.\<close>
definition aabb_vector_distance :: "'f flt \<Rightarrow> 'f bbox \<Rightarrow> 'f vec3 \<Rightarrow> 'f" where
  "aabb_vector_distance F a v =
    (let axis = (\<lambda>i. fl_max F (fl_sub F (vget i (bb_min a)) (vget i v))
                     (fl_max F (fl_lit F 0) (fl_sub F (vget i v) (vget i (bb_max a)))))
     in fl_sqrt F (fl_add F (fl_add F (fl_mul F (axis 0) (axis 0)) (fl_mul F (axis 1) (axis 1)))
                     (fl_mul F (axis 2) (axis 2))))"

definition bbox_center :: "'f flt \<Rightarrow> 'f bbox \<Rightarrow> 'f vec3" where
  "bbox_center F bb = mul3 F (add3 F (bb_min bb) (bb_max bb)) (fl_lit F 0.5)"

definition bbox_points :: "'f flt \<Rightarrow> 'f bbox \<Rightarrow> 'f vec3 list" where
  "bbox_points F bb =
    (let (x0, y0, z0) = bb_min bb; (x1, y1, z1) = bb_max bb
     in [bb_min bb, (x0, y0, z1), (x0, y1, z0), (x0, y1, z1), (x1, y0, z0), (x1, y0, z1), (x1, y1, z0),
         bb_max bb, bbox_center F bb])"

section \<open>The blocks along a ray\<close>

definition ray_trace_distance_to_boundary :: "'f flt \<Rightarrow> 'f \<Rightarrow> 'f \<Rightarrow> 'f" where
  "ray_trace_distance_to_boundary F s ds =
    (if fl_eq F ds (fl_lit F 0) then fl_max_value F
     else
       let back = fl_less F ds (fl_lit F 0);
           s = (if back then fl_neg F s else s);
           ds = (if back then fl_neg F ds else ds)
       in if back \<and> fl_eq F (fl_floor F s) s then fl_lit F 0
          else fl_div F (fl_sub F (fl_lit F 1) (fl_sub F s (fl_floor F s))) ds)"

text \<open>The state of the walk: the block and the distances to the next boundary of each axis.\<close>
record 'f ray =
  ry_block :: "'f vec3"
  ry_t :: "'f vec3"

definition ray_delta :: "'f flt \<Rightarrow> 'f \<Rightarrow> 'f \<Rightarrow> 'f" where
  "ray_delta F step d = (if fl_eq F d (fl_lit F 0) then fl_lit F 0 else fl_div F step d)"

definition ray_step :: "'f flt \<Rightarrow> 'f vec3 \<Rightarrow> 'f vec3 \<Rightarrow> 'f \<Rightarrow> 'f ray \<Rightarrow> 'f ray option" where
  "ray_step F step delta radius r =
    (let (tx, ty, tz) = ry_t r; zero = fl_lit F 0
     in if fl_less F tx ty \<and> fl_less F tx tz
        then if fl_less F radius tx then None
             else Some \<lparr>ry_block = add3 F (ry_block r) (vx step, zero, zero), ry_t = (fl_add F tx (vx delta), ty, tz)\<rparr>
        else if fl_less F ty tz
        then if fl_less F radius ty then None
             else Some \<lparr>ry_block = add3 F (ry_block r) (zero, vy step, zero), ry_t = (tx, fl_add F ty (vy delta), tz)\<rparr>
        else if fl_less F radius tz then None
             else Some \<lparr>ry_block = add3 F (ry_block r) (zero, zero, vz step), ry_t = (tx, ty, fl_add F tz (vz delta))\<rparr>)"

text \<open>The blocks that are yielded, with as many iterations left as the limit allows.\<close>
fun ray_walk :: "'f flt \<Rightarrow> 'f vec3 \<Rightarrow> 'f vec3 \<Rightarrow> 'f \<Rightarrow> nat \<Rightarrow> 'f ray \<Rightarrow> 'f vec3 list" where
  "ray_walk F step delta radius 0 r = []"
| "ray_walk F step delta radius (Suc n) r = ry_block r #
    (case ray_step F step delta radius r of None \<Rightarrow> [] | Some r \<Rightarrow> ray_walk F step delta radius n r)"

definition vec_of_pos :: "'f flt \<Rightarrow> int \<times> int \<times> int \<Rightarrow> 'f vec3" where
  "vec_of_pos F p = (case p of (x, y, z) \<Rightarrow> (fl_of_int F x, fl_of_int F y, fl_of_int F z))"

definition blocks_between :: "'f flt \<Rightarrow> 'f box_lib \<Rightarrow> 'f vec3 \<Rightarrow> 'f vec3 \<Rightarrow> nat \<Rightarrow> 'f vec3 list" where
  "blocks_between F L start end_pt max_iters =
    (let d = sub3 F end_pt start
     in if fl_le F (len_sqr3 F d) (fl_lit F 0.0000000001) then []
        else
          let dir = normalize3 F d; radius = len3 F d; zero = fl_lit F 0;
              step = (php_spaceship_op F (vx dir) zero, php_spaceship_op F (vy dir) zero, php_spaceship_op F (vz dir) zero);
              delta = (ray_delta F (vx step) (vx dir), ray_delta F (vy step) (vy dir), ray_delta F (vz step) (vz dir));
              t = (ray_trace_distance_to_boundary F (vx start) (vx dir),
                   ray_trace_distance_to_boundary F (vy start) (vy dir),
                   ray_trace_distance_to_boundary F (vz start) (vz dir))
          in ray_walk F step delta radius max_iters
               \<lparr>ry_block = vec_of_pos F (bl_pos_of L start), ry_t = t\<rparr>)"

end
