(* ===== verification/Blocks.thy ===== *)
theory Blocks
  imports Boxes
begin

text \<open>
  Blocks and the boxes near a bounding box: \<^verbatim>\<open>src/utils/world.go\<close>.  A block is a value
  of a type \<^verbatim>\<open>'b\<close>; what the block library says of it (its hashes, its name, which Go
  type it has, the boxes of its model) is a record of functions, and the blocks of a world are
  a function from positions.
\<close>

record ('f, 'b) block_lib =
  bk_hash :: "'b \<Rightarrow> 64 word \<times> 64 word"
  bk_world_hash :: "'b \<Rightarrow> 64 word"
  bk_encode_name :: "'b \<Rightarrow> string"
  bk_registered :: "'b list"
  bk_friction :: "'b \<Rightarrow> 'f option"
  bk_is_air :: "'b \<Rightarrow> bool"
  bk_is_liquid :: "'b \<Rightarrow> bool"
  bk_is_ladder :: "'b \<Rightarrow> bool"
  bk_is_fence :: "'b \<Rightarrow> bool"
  bk_is_fence_gate :: "'b \<Rightarrow> bool"
  bk_is_wall :: "'b \<Rightarrow> bool"
  bk_is_iron_bars :: "'b \<Rightarrow> bool"
  bk_model_boxes :: "'b \<Rightarrow> bpos \<Rightarrow> (bpos \<Rightarrow> 'b) \<Rightarrow> 'f bbox list"
  bk_iron_bars_boxes :: "bpos \<Rightarrow> (bpos \<Rightarrow> 'b) \<Rightarrow> 'f bbox list"
  bk_fallback_boxes :: "'b \<Rightarrow> 'f bbox list"

definition max_uint64 :: "64 word" where "max_uint64 = - 1"

definition unknown_block :: "('f, 'b) block_lib \<Rightarrow> 'b \<Rightarrow> bool" where
  "unknown_block B b \<longleftrightarrow> bk_hash B b = (0, max_uint64)"

text \<open>The names of the registered blocks by hash; a later block of the same hash wins.\<close>
definition initialize_block_name_mapping :: "('f, 'b) block_lib \<Rightarrow> 64 word \<Rightarrow> string option" where
  "initialize_block_name_mapping B = fold (\<lambda>b m. if unknown_block B b then m
     else m(bk_world_hash B b \<mapsto> bk_encode_name B b)) (bk_registered B) Map.empty"

definition block_name :: "('f, 'b) block_lib \<Rightarrow> 'b \<Rightarrow> string" where
  "block_name B b = (case initialize_block_name_mapping B (bk_world_hash B b) of
     Some n \<Rightarrow> n | None \<Rightarrow> bk_encode_name B b)"

definition block_friction :: "'f flt \<Rightarrow> ('f, 'b) block_lib \<Rightarrow> 'b \<Rightarrow> 'f" where
  "block_friction F B b = (case bk_friction B b of
     Some f \<Rightarrow> f
   | None \<Rightarrow>
       let n = block_name B b
       in if n = ''minecraft:slime'' then fl_lit F 0.8
          else if n = ''minecraft:ice'' \<or> n = ''minecraft:packed_ice'' then fl_lit F 0.98
          else if n = ''minecraft:blue_ice'' then fl_lit F 0.99
          else fl_lit F 0.6)"

definition can_pass_block :: "('f, 'b) block_lib \<Rightarrow> 'b \<Rightarrow> bool" where
  "can_pass_block B b \<longleftrightarrow> block_name B b \<in> {''minecraft:web'', ''minecraft:water'', ''minecraft:lava''}"

definition block_climbable :: "('f, 'b) block_lib \<Rightarrow> 'b \<Rightarrow> bool" where
  "block_climbable B b \<longleftrightarrow> bk_is_ladder B b \<or> block_name B b \<in>
     {''minecraft:vine'', ''minecraft:cave_vines'', ''minecraft:cave_vines_body_with_berries'',
      ''minecraft:cave_vines_head_with_berries'', ''minecraft:twisting_vines'', ''minecraft:weeping_vines''}"

definition one_way_collision_blocks :: "('f, 'b) block_lib \<Rightarrow> ('b \<times> bpos) list \<Rightarrow> 'b list" where
  "one_way_collision_blocks B bs = map fst (filter (\<lambda>(b, p). block_climbable B b) bs)"

definition is_block_pass_interaction :: "('f, 'b) block_lib \<Rightarrow> 'b \<Rightarrow> bool" where
  "is_block_pass_interaction B b \<longleftrightarrow> block_name B b \<in> {''minecraft:barrier'', ''minecraft:invisible_bedrock''}"

definition block_collisions :: "('f, 'b) block_lib \<Rightarrow> 'b \<Rightarrow> bpos \<Rightarrow> (bpos \<Rightarrow> 'b) \<Rightarrow> 'f bbox list" where
  "block_collisions B b pos src =
    (if unknown_block B b then bk_fallback_boxes B b
     else if bk_is_iron_bars B b then bk_iron_bars_boxes B pos src
     else bk_model_boxes B b pos src)"

section \<open>Scanning the blocks near a box\<close>

definition floor_int :: "'f flt \<Rightarrow> 'f \<Rightarrow> int" where "floor_int F x = fl_to_int F (fl_floor F x)"
definition ceil_int :: "'f flt \<Rightarrow> 'f \<Rightarrow> int" where "ceil_int F x = fl_to_int F (fl_ceil F x)"

definition span :: "'f flt \<Rightarrow> 'f bbox \<Rightarrow> nat \<Rightarrow> int list" where
  "span F bb i = [floor_int F (vget i (bb_min bb))..ceil_int F (vget i (bb_max bb))]"

definition block_boxes_at :: "'f flt \<Rightarrow> 'f box_lib \<Rightarrow> ('f, 'b) block_lib \<Rightarrow> (bpos \<Rightarrow> 'b) \<Rightarrow> bpos \<Rightarrow> 'f bbox list" where
  "block_boxes_at F L B src pos = map (bl_translate L (vec_of_pos F pos)) (block_collisions B (src pos) pos src)"

definition nearby_block_collisions ::
  "'f flt \<Rightarrow> 'f box_lib \<Rightarrow> ('f, 'b) block_lib \<Rightarrow> 'f bbox \<Rightarrow> (bpos \<Rightarrow> 'b) \<Rightarrow> ('b \<times> bpos) list" where
  "nearby_block_collisions F L B aabb src =
    [(src (x, y, z), (x, y, z)). y \<leftarrow> span F aabb 1, x \<leftarrow> span F aabb 0, z \<leftarrow> span F aabb 2,
       \<not> bk_is_air B (src (x, y, z)) \<and> list_ex (\<lambda>bb. bl_intersects L bb aabb) (block_boxes_at F L B src (x, y, z))]"

text \<open>The test for unknown blocks looks at the first hash, as the code does.\<close>
definition nearby_blocks ::
  "'f flt \<Rightarrow> ('f, 'b) block_lib \<Rightarrow> 'f bbox \<Rightarrow> bool \<Rightarrow> bool \<Rightarrow> (bpos \<Rightarrow> 'b) \<Rightarrow> ('b \<times> bpos) list" where
  "nearby_blocks F B aabb include_air include_unknown src =
    [(src (x, y, z), (x, y, z)). y \<leftarrow> span F aabb 1, x \<leftarrow> span F aabb 0, z \<leftarrow> span F aabb 2,
       \<not> (\<not> include_air \<and> bk_is_air B (src (x, y, z)))
       \<and> \<not> (\<not> include_unknown \<and> fst (bk_hash B (src (x, y, z))) = max_uint64)]"

definition scan_nearby_bboxes ::
  "'f flt \<Rightarrow> 'f box_lib \<Rightarrow> ('f, 'b) block_lib \<Rightarrow> 'f bbox \<Rightarrow> (bpos \<Rightarrow> 'b) \<Rightarrow> bool \<Rightarrow> 'f bbox list \<times> bool" where
  "scan_nearby_bboxes F L B aabb src first_only =
    (let grown = bl_grow L (fl_lit F 1) aabb;
         boxes = [b. x \<leftarrow> span F grown 0, z \<leftarrow> span F grown 2, y \<leftarrow> span F grown 1,
                    \<not> can_pass_block B (src (x, y, z)),
                    b \<leftarrow> block_boxes_at F L B src (x, y, z), bl_intersects L b aabb]
     in if first_only then ([], boxes \<noteq> []) else (boxes, False))"

definition has_nearby_bboxes ::
  "'f flt \<Rightarrow> 'f box_lib \<Rightarrow> ('f, 'b) block_lib \<Rightarrow> 'f bbox \<Rightarrow> (bpos \<Rightarrow> 'b) \<Rightarrow> bool" where
  "has_nearby_bboxes F L B aabb src = snd (scan_nearby_bboxes F L B aabb src True)"

definition nearby_bboxes ::
  "'f flt \<Rightarrow> 'f box_lib \<Rightarrow> ('f, 'b) block_lib \<Rightarrow> 'f bbox \<Rightarrow> (bpos \<Rightarrow> 'b) \<Rightarrow> 'f bbox list" where
  "nearby_bboxes F L B aabb src = fst (scan_nearby_bboxes F L B aabb src False)"

lemma has_nearby_iff: "has_nearby_bboxes F L B aabb src \<longleftrightarrow> nearby_bboxes F L B aabb src \<noteq> []"
  by (simp add: has_nearby_bboxes_def nearby_bboxes_def scan_nearby_bboxes_def Let_def)

end
