(* ===== verification/Simulation.thy ===== *)
theory Simulation
  imports Movement Blocks
begin

text \<open>
  The simulation of a player's movement: \<^verbatim>\<open>src/player/simulation/movement.go\<close>, on the
  movement component and the blocks of the world.  What it reads of the player is fixed during
  a frame and collected in a record.  The loops that keep a sneaking player at an edge may run
  for ever on numbers that rounding leaves unchanged, so the simulation returns an option:
  \<^verbatim>\<open>None\<close> is a frame that never ends.
\<close>

section \<open>The environment of a frame\<close>

record ('f, 'b) sim_env =
  se_flt :: "'f flt"
  se_box :: "'f box_lib"
  se_blocks :: "('f, 'b) block_lib"
  se_src :: "bpos \<Rightarrow> 'b"
  se_chunk_loaded :: "32 word \<times> 32 word \<Rightarrow> bool"
  se_old_version :: bool
  se_survival_or_adventure :: bool
  se_alive :: bool
  se_ready :: bool
  se_elytra :: bool
  se_levitation :: "int option"
  se_velocity_limit :: "'f option"
  se_correction_threshold :: 'f

section \<open>Setters of the component\<close>

definition set_slide_offset :: "'f vec2 \<Rightarrow> 'f mv \<Rightarrow> 'f mv" where
  "set_slide_offset v m = m\<lparr>mv_body := (mv_body m)\<lparr>bo_slide_offset := v\<rparr>\<rparr>"

definition set_supporting_block_pos :: "bpos option \<Rightarrow> 'f mv \<Rightarrow> 'f mv" where
  "set_supporting_block_pos p m = m\<lparr>mv_body := (mv_body m)\<lparr>bo_supporting := p\<rparr>\<rparr>"

definition set_jump_delay :: "64 word \<Rightarrow> 'f mv \<Rightarrow> 'f mv" where
  "set_jump_delay n m = m\<lparr>mv_stance := (mv_stance m)\<lparr>sn_jump_delay := n\<rparr>\<rparr>"

definition set_on_ground :: "bool \<Rightarrow> 'f mv \<Rightarrow> 'f mv" where
  "set_on_ground b m = m\<lparr>mv_stance := (mv_stance m)\<lparr>sn_on_ground := b\<rparr>\<rparr>"

definition set_gliding :: "bool \<Rightarrow> 'f mv \<Rightarrow> 'f mv" where
  "set_gliding b m = m\<lparr>mv_stance := (mv_stance m)\<lparr>sn_gliding := b\<rparr>\<rparr>"

definition set_penetrated_last_frame :: "bool \<Rightarrow> 'f mv \<Rightarrow> 'f mv" where
  "set_penetrated_last_frame b m = m\<lparr>mv_contacts := (mv_contacts m)\<lparr>ct_penetrated := b\<rparr>\<rparr>"

definition set_stuck_in_collider :: "bool \<Rightarrow> 'f mv \<Rightarrow> 'f mv" where
  "set_stuck_in_collider b m = m\<lparr>mv_contacts := (mv_contacts m)\<lparr>ct_stuck := b\<rparr>\<rparr>"

definition set_collisions :: "bool \<Rightarrow> bool \<Rightarrow> bool \<Rightarrow> 'f mv \<Rightarrow> 'f mv" where
  "set_collisions x y z m = m\<lparr>mv_contacts := (mv_contacts m)\<lparr>ct_x := x, ct_y := y, ct_z := z\<rparr>\<rparr>"

abbreviation mv_pos :: "'f mv \<Rightarrow> 'f vec3" where "mv_pos m \<equiv> bo_pos (mv_body m)"
abbreviation mv_vel :: "'f mv \<Rightarrow> 'f vec3" where "mv_vel m \<equiv> bo_vel (mv_body m)"
abbreviation mv_on_ground :: "'f mv \<Rightarrow> bool" where "mv_on_ground m \<equiv> sn_on_ground (mv_stance m)"
abbreviation mv_sneaking :: "'f mv \<Rightarrow> bool" where "mv_sneaking m \<equiv> sn_sneaking (mv_stance m)"

text \<open>Both flags of the last frame cleared, as on every path that simulates nothing.\<close>
definition clear_penetration :: "'f mv \<Rightarrow> 'f mv" where
  "clear_penetration m = set_stuck_in_collider False (set_penetrated_last_frame False m)"

definition bounding_box :: "('f, 'b) sim_env \<Rightarrow> 'f mv \<Rightarrow> 'f bbox" where
  "bounding_box E m =
    (let F = se_flt E; (w, h, scale) = bo_size (mv_body m);
         width = fl_mul F (fl_mul F w (fl_lit F 0.5)) scale; height = fl_mul F h scale;
         y_offset = (if se_old_version E then snd (bo_slide_offset (mv_body m)) else fl_lit F 0);
         (x, y, z) = mv_pos m
     in bl_grow_vec (se_box E) (fl_lit F (-0.0001), fl_lit F 0, fl_lit F (-0.0001))
          (bl_box (se_box E) (fl_sub F x width, fl_add F y y_offset, fl_sub F z width)
             (fl_add F x width, fl_add F (fl_add F y height) y_offset, fl_add F z width)))"

text \<open>The box at the client's position; it does not look at the scale.\<close>
definition client_bounding_box :: "('f, 'b) sim_env \<Rightarrow> 'f mv \<Rightarrow> 'f bbox" where
  "client_bounding_box E m =
    (let F = se_flt E; (w, h, scale) = bo_size (mv_body m);
         width = fl_div F w (fl_lit F 2);
         y_offset = (if se_old_version E then snd (bo_slide_offset (mv_body m)) else fl_lit F 0);
         (x, y, z) = cm_pos (mv_client m)
     in bl_grow_vec (se_box E) (fl_lit F (-0.0001), fl_lit F 0, fl_lit F (-0.0001))
          (bl_box (se_box E) (fl_sub F x width, fl_add F y y_offset, fl_sub F z width)
             (fl_add F x width, fl_add F (fl_add F y h) y_offset, fl_add F z width)))"

section \<open>Forces\<close>

definition move_relative :: "'f flt \<Rightarrow> 'f \<Rightarrow> 'f mv \<Rightarrow> 'f mv" where
  "move_relative F speed m =
    (let (ix, iy) = bo_impulse (mv_body m);
         force = fl_add F (fl_mul F iy iy) (fl_mul F ix ix)
     in if fl_le F (fl_lit F 0.0001) force
        then let force = fl_div F speed (fl_max F (fl_sqrt F force) (fl_lit F 1));
                 mf = fl_mul F iy force; ms = fl_mul F ix force;
                 yaw = fl_div F (fl_mul F (vz (bo_rotation (mv_body m))) (pi32 F)) (fl_lit F 180);
                 v2 = mc_sin F yaw; v3 = mc_cos F yaw; v = mv_vel m
             in set_vel (fl_add F (vx v) (fl_sub F (fl_mul F ms v3) (fl_mul F mf v2)), vy v,
                         fl_add F (vz v) (fl_add F (fl_mul F mf v3) (fl_mul F ms v2))) m
        else m)"

definition attempt_knockback :: "'f mv \<Rightarrow> bool \<times> 'f mv" where
  "attempt_knockback m =
    (if has_knockback m then (True, set_vel (tp_knockback (mv_tp m)) m) else (False, m))"

text \<open>Clipping a velocity against boxes, one after the other.\<close>
definition sweep ::
  "'f flt \<Rightarrow> 'f bbox list \<Rightarrow> bool \<Rightarrow> 'f bbox \<Rightarrow> 'f vec3 \<times> 'f vec3 option \<Rightarrow> 'f vec3 \<times> 'f vec3 option" where
  "sweep F boxes one_way bb vp = fold (\<lambda>b vp. bb_clip_collide F b bb one_way vp) boxes vp"

text \<open>Three sweeps, the box moving on by each clipped velocity.\<close>
definition sweep3 ::
  "'f flt \<Rightarrow> 'f box_lib \<Rightarrow> 'f bbox list \<Rightarrow> bool \<Rightarrow> 'f bbox \<Rightarrow> 'f vec3 \<Rightarrow> 'f vec3 \<Rightarrow> 'f vec3 \<Rightarrow> 'f vec3 option
   \<Rightarrow> 'f bbox \<times> 'f vec3 \<times> 'f vec3 \<times> 'f vec3 \<times> 'f vec3 option" where
  "sweep3 F L boxes one_way bb v1 v2 v3 pen =
    (let (v1, pen) = sweep F boxes one_way bb (v1, pen);
         bb = bl_translate L v1 bb;
         (v2, pen) = sweep F boxes one_way bb (v2, pen);
         bb = bl_translate L v2 bb;
         (v3, pen) = sweep F boxes one_way bb (v3, pen);
         bb = bl_translate L v3 bb
     in (bb, v1, v2, v3, pen))"

definition x_only :: "'f flt \<Rightarrow> 'f \<Rightarrow> 'f vec3" where "x_only F a = (a, fl_lit F 0, fl_lit F 0)"
definition y_only :: "'f flt \<Rightarrow> 'f \<Rightarrow> 'f vec3" where "y_only F a = (fl_lit F 0, a, fl_lit F 0)"
definition z_only :: "'f flt \<Rightarrow> 'f \<Rightarrow> 'f vec3" where "z_only F a = (fl_lit F 0, fl_lit F 0, a)"

definition near_boxes :: "('f, 'b) sim_env \<Rightarrow> 'f bbox \<Rightarrow> 'f bbox list" where
  "near_boxes E bb = nearby_bboxes (se_flt E) (se_box E) (se_blocks E) bb (se_src E)"

definition any_near_box :: "('f, 'b) sim_env \<Rightarrow> 'f bbox \<Rightarrow> bool" where
  "any_near_box E bb = has_nearby_bboxes (se_flt E) (se_box E) (se_blocks E) bb (se_src E)"

definition is_jump_blocked :: "('f, 'b) sim_env \<Rightarrow> 'f mv \<Rightarrow> 'f vec3 \<Rightarrow> bool" where
  "is_jump_blocked E m jump =
    (let F = se_flt E; L = se_box E; bb = bounding_box E m;
         boxes = rev (near_boxes E (bl_extend L jump bb));
         ne = (\<lambda>a b. \<not> fl_eq F a b);
         (_, y, x, z, _) = sweep3 F L boxes False bb (y_only F (vy jump)) (x_only F (vx jump)) (z_only F (vz jump)) None
     in if \<not> ((ne (vx x) (vx jump) \<or> ne (vz z) (vz jump)) \<and> fl_eq F (vy y) (vy jump)) then False
        else let (_, x, z, y, _) =
                   sweep3 F L boxes False bb (x_only F (vx jump)) (z_only F (vz jump)) (y_only F (vy jump)) None
             in ne (vy y) (vy jump) \<and> fl_eq F (vx x) (vx jump) \<and> fl_eq F (vz z) (vz jump))"

text \<open>
  The jump: whether it is applied, whether it is found to be blocked (only looked at when the
  caller asks), and the component.
\<close>
definition attempt_jump :: "('f, 'b) sim_env \<Rightarrow> bool \<Rightarrow> 'f mv \<Rightarrow> bool \<times> bool \<times> 'f mv" where
  "attempt_jump E ask m =
    (let st = mv_stance m; F = se_flt E
     in if \<not> sn_jumping st \<or> \<not> sn_on_ground st \<or> 0 < sn_jump_delay st then (False, False, m)
        else
          let v = set_vy (fl_max F (bo_jump_height (mv_body m)) (vy (mv_vel m))) (mv_vel m);
              m = set_jump_delay 10 m;
              v = (if sn_sprinting st
                   then let force = fl_mul F (vz (bo_rotation (mv_body m))) (fl_lit F 0.017453292)
                        in (fl_sub F (vx v) (fl_mul F (mc_sin F force) (fl_lit F 0.2)), vy v,
                            fl_add F (vz v) (fl_mul F (mc_cos F force) (fl_lit F 0.2)))
                   else v);
              blocked = (ask \<and> \<not> has_knockback m \<and> \<not> has_teleport m \<and> is_jump_blocked E m v)
          in (True, blocked, set_vel v m))"

text \<open>A pending teleport: at once, with a jump of the same frame, or step by step.\<close>
definition attempt_teleport :: "('f, 'b) sim_env \<Rightarrow> 'f mv \<Rightarrow> bool \<times> 'f mv" where
  "attempt_teleport E m =
    (let F = se_flt E
     in if \<not> has_teleport m then (False, m)
        else if \<not> tp_smoothed (mv_tp m)
        then (True, snd (snd (attempt_jump E False
                (set_jump_delay 0 (set_vel (zero3 F) (set_pos (tp_pos (mv_tp m)) m))))))
        else
          let delta = sub3 F (tp_pos (mv_tp m)) (mv_pos m);
              remaining = remaining_teleport_ticks m + 1
          in if 0 < remaining
             then (1 < remaining, set_jump_delay 0
                    (set_pos (add3 F (mv_pos m) (mul3 F delta (fl_div F (fl_lit F 1) (fl_of_int F remaining)))) m))
             else (False, m))"

section \<open>Collisions\<close>

definition box_pos :: "'f flt \<Rightarrow> 'f bbox \<Rightarrow> 'f vec3" where
  "box_pos F bb = (fl_mul F (fl_add F (vx (bb_min bb)) (vx (bb_max bb))) (fl_lit F 0.5), vy (bb_min bb),
                   fl_mul F (fl_add F (vz (bb_min bb)) (vz (bb_max bb))) (fl_lit F 0.5))"

definition add_all3 :: "'f flt \<Rightarrow> 'f vec3 \<Rightarrow> 'f vec3 \<Rightarrow> 'f vec3 \<Rightarrow> 'f vec3" where
  "add_all3 F y x z = add3 F (add3 F y x) z"

text \<open>The step up a block: the box and the velocity when the step is taken.\<close>
definition try_step ::
  "('f, 'b) sim_env \<Rightarrow> 'f bbox list \<Rightarrow> bool \<Rightarrow> 'f mv \<Rightarrow> 'f vec3 \<Rightarrow> 'f vec3 \<Rightarrow> ('f bbox \<times> 'f vec3) option" where
  "try_step E boxes one_way m coll_vel coll_pos =
    (let F = se_flt E; L = se_box E; v = mv_vel m;
         (bb, sy, sx, sz, _) = sweep3 F L boxes one_way (bounding_box E m)
            (y_only F (fl_lit F 0.6)) (x_only F (vx v)) (z_only F (vz v)) None;
         inv = fst (sweep F boxes one_way bb (mul3 F sy (fl_lit F (-1)), None));
         bb = bl_translate L inv bb;
         step_vel = add_all3 F (add3 F sy inv) sx sz;
         step_pos = box_pos F bb;
         client = cm_pos (mv_client m);
         step_dist = len3 F (sub3 F step_pos client); coll_dist = len3 F (sub3 F coll_pos client)
     in if \<not> any_near_box E bb
           \<and> fl_less F (vec3_hz_dist_sqr F coll_vel) (vec3_hz_dist_sqr F step_vel)
           \<and> (fl_less F (se_correction_threshold E) coll_dist \<or> fl_le F step_dist coll_dist)
        then Some (bb, step_vel) else None)"

text \<open>The result of the first sweeps.\<close>
record 'f collided =
  cd_boxes :: "'f bbox list"
  cd_box :: "'f bbox"
  cd_vel :: "'f vec3"
  cd_pen :: "'f vec3"

definition collide :: "('f, 'b) sim_env \<Rightarrow> bool \<Rightarrow> 'f mv \<Rightarrow> 'f collided" where
  "collide E jump_prevented m =
    (let F = se_flt E; L = se_box E; v = mv_vel m; bb = bounding_box E m;
         boxes = near_boxes E (bl_extend L v bb);
         (bb', y, x, z, pen) = sweep3 F L (rev boxes) (ct_stuck (mv_contacts m)) bb
            (y_only F (if jump_prevented then fl_lit F 0 else vy v)) (x_only F (vx v)) (z_only F (vz v))
            (Some (zero3 F))
     in \<lparr>cd_boxes = boxes, cd_box = bb', cd_vel = add_all3 F y x z,
         cd_pen = (case pen of Some p \<Rightarrow> p | None \<Rightarrow> zero3 F)\<rparr>)"

definition find_supporting_block :: "('f, 'b) sim_env \<Rightarrow> 'f mv \<Rightarrow> 'f bbox \<Rightarrow> bpos option" where
  "find_supporting_block E m bb =
    (let F = se_flt E;
         center = add3 F (vec_of_pos F (bl_pos_of (se_box E) (mv_pos m))) (fl_lit F 0.5, fl_lit F 0.5, fl_lit F 0.5)
     in fst (fold (\<lambda>(_, pos) (best, min_dist).
               let dist = len_sqr3 F (sub3 F (vec_of_pos F pos) center)
               in if fl_less F dist min_dist then (Some pos, dist) else (best, min_dist))
             (nearby_block_collisions F (se_box E) (se_blocks E) bb (se_src E))
             (None, fl_sub F (fl_max_value F) (fl_lit F 1))))"

definition check_supporting_block_pos :: "('f, 'b) sim_env \<Rightarrow> 'f vec3 \<Rightarrow> 'f mv \<Rightarrow> 'f mv" where
  "check_supporting_block_pos E vel m =
    (if \<not> mv_on_ground m then set_supporting_block_pos None m
     else
       let F = se_flt E; L = se_box E;
           bb = bl_extend_down L (fl_lit F 0.001) (bounding_box E m)
       in case find_supporting_block E m bb of
            Some p \<Rightarrow> set_supporting_block_pos (Some p) m
          | None \<Rightarrow> set_supporting_block_pos (find_supporting_block E m
              (bl_translate L (fl_neg F (vx vel), fl_lit F 0, fl_neg F (vz vel)) bb)) m)"

definition differs :: "'f flt \<Rightarrow> 'f \<Rightarrow> 'f \<Rightarrow> bool" where
  "differs F a b \<longleftrightarrow> fl_le F (fl_lit F 0.00001) (fl_abs F (fl_sub F a b))"

text \<open>What the collisions leave in the component: position, flags, velocity.\<close>
definition settle ::
  "('f, 'b) sim_env \<Rightarrow> bool \<Rightarrow> 'f vec3 \<Rightarrow> 'f bbox \<Rightarrow> 'f vec3 \<Rightarrow> 'f mv \<Rightarrow> 'f mv" where
  "settle E stepped cur bb coll m =
    (let F = se_flt E; p = box_pos F bb;
         (p, m) = (if \<not> se_old_version E then (p, m)
                   else if stepped then (set_vy (fl_sub F (vy p) (snd (bo_slide_offset (mv_body m)))) p, m)
                   else (p, set_slide_offset (zero2 F) m));
         m = set_pos p m;
         y_coll = differs F (vy cur) (vy coll);
         m = set_collisions (differs F (vx cur) (vx coll)) y_coll (differs F (vz cur) (vz coll)) m;
         m = set_on_ground ((y_coll \<and> fl_less F (vy cur) (fl_lit F 0))
               \<or> (mv_on_ground m \<and> \<not> y_coll \<and> fl_le F (fl_abs F (vy cur)) (fl_lit F 0.00001))) m
     in set_vel coll (check_supporting_block_pos E cur m))"

definition try_collisions :: "('f, 'b) sim_env \<Rightarrow> bool \<Rightarrow> 'f mv \<Rightarrow> 'f mv" where
  "try_collisions E jump_prevented m =
    (let F = se_flt E; cur = mv_vel m; c = collide E jump_prevented m;
         one_way = ct_stuck (mv_contacts m);
         coll_pos = box_pos F (cd_box c);
         has_pen = fl_le F (fl_lit F 0.000000000009999999999999999) (len_sqr3 F (cd_pen c));
         ne = (\<lambda>a b. \<not> fl_eq F a b);
         x_coll = ne (vx cur) (vx (cd_vel c)); z_coll = ne (vz cur) (vz (cd_vel c));
         y_coll = (ne (vy cur) (vy (cd_vel c)) \<or> jump_prevented);
         on_ground = (mv_on_ground m \<or> (y_coll \<and> fl_less F (vy cur) (fl_lit F 0)));
         m = set_penetrated_last_frame has_pen
               (set_stuck_in_collider (ct_penetrated (mv_contacts m) \<and> has_pen) m)
     in case (if on_ground \<and> (x_coll \<or> z_coll) then try_step E (cd_boxes c) one_way m (cd_vel c) coll_pos
              else None) of
          None \<Rightarrow> settle E False cur (cd_box c) (cd_vel c) m
        | Some (bb, step_vel) \<Rightarrow>
            let (sx, sy) = bo_slide_offset (mv_body m);
                m = (if se_old_version E
                     then set_slide_offset (fl_mul F sx (fl_lit F 0.4),
                            fl_add F (fl_mul F sy (fl_lit F 0.4)) (vy step_vel)) m
                     else m)
            in settle E (se_old_version E) cur bb step_vel m)"

section \<open>Edges\<close>

definition edge_shrink :: "'f flt \<Rightarrow> 'f \<Rightarrow> 'f" where
  "edge_shrink F a =
    (if fl_less F a (fl_lit F 0.05) \<and> fl_le F (fl_lit F (-0.05)) a then fl_lit F 0
     else if fl_less F (fl_lit F 0) a then fl_sub F a (fl_lit F 0.05)
     else fl_add F a (fl_lit F 0.05))"

text \<open>A loop over one axis, and the loop over both; \<^verbatim>\<open>near\<close> is whether a box is below.\<close>
partial_function (option) edge_loop :: "'f flt \<Rightarrow> ('f \<Rightarrow> bool) \<Rightarrow> 'f \<Rightarrow> 'f option" where
  [code]: "edge_loop F near a =
    (if \<not> fl_eq F a (fl_lit F 0) \<and> \<not> near a then edge_loop F near (edge_shrink F a) else Some a)"

partial_function (option) edge_loop2 :: "'f flt \<Rightarrow> ('f \<Rightarrow> 'f \<Rightarrow> bool) \<Rightarrow> 'f \<Rightarrow> 'f \<Rightarrow> ('f \<times> 'f) option" where
  [code]: "edge_loop2 F near a b =
    (if \<not> fl_eq F a (fl_lit F 0) \<and> \<not> fl_eq F b (fl_lit F 0) \<and> \<not> near a b
     then edge_loop2 F near (edge_shrink F a) (edge_shrink F b) else Some (a, b))"

definition avoid_edge :: "('f, 'b) sim_env \<Rightarrow> 'f mv \<Rightarrow> 'f mv option" where
  "avoid_edge E m =
    (let F = se_flt E; L = se_box E; v = mv_vel m; zero = fl_lit F 0
     in if \<not> mv_sneaking m \<or> \<not> mv_on_ground m \<or> fl_less F zero (vy v) then Some m
        else
          let bb = bl_grow_vec L (fl_lit F (-0.025), zero, fl_lit F (-0.025)) (bounding_box E m);
              down = fl_mul F (fl_neg F (fl_lit F 0.6)) (fl_lit F 1.01);
              near = (\<lambda>a b. any_near_box E (bl_translate L (a, down, b) bb))
          in case edge_loop F (\<lambda>a. near a zero) (vx v) of None \<Rightarrow> None | Some a \<Rightarrow>
             (case edge_loop F (\<lambda>b. near zero b) (vz v) of None \<Rightarrow> None | Some b \<Rightarrow>
              (case edge_loop2 F near a b of None \<Rightarrow> None | Some (a, b) \<Rightarrow>
                 Some (set_vel (a, vy v, b) m))))"

section \<open>Blocks that change the movement\<close>

definition walk_on_block :: "('f, 'b) sim_env \<Rightarrow> 'b \<Rightarrow> 'f mv \<Rightarrow> 'f mv" where
  "walk_on_block E blk m =
    (let F = se_flt E; v = mv_vel m; y = fl_abs F (vy v)
     in if \<not> mv_on_ground m \<or> mv_sneaking m then m
        else if block_name (se_blocks E) blk = ''minecraft:slime''
                \<and> fl_less F y (fl_lit F 0.1) \<and> \<not> sn_pressing_sneak (mv_stance m)
        then let d = fl_add F (fl_lit F 0.4) (fl_mul F y (fl_lit F 0.2))
             in set_vel (fl_mul F (vx v) d, vy v, fl_mul F (vz v) d) m
        else set_vel v m)"

definition land_on_block :: "('f, 'b) sim_env \<Rightarrow> 'f vec3 \<Rightarrow> 'b \<Rightarrow> 'f mv \<Rightarrow> 'f mv" where
  "land_on_block E old blk m =
    (let F = se_flt E; zero = fl_lit F 0; v = mv_vel m; n = block_name (se_blocks E) blk
     in if fl_le F zero (vy old) \<or> sn_pressing_sneak (mv_stance m) then set_vel (set_vy zero v) m
        else if n = ''minecraft:slime''
        then let y = fl_mul F (fl_lit F (-1)) (vy old)
             in set_vel (set_vy (if fl_less F (fl_abs F y) (fl_lit F 0.0001) then zero else y) v) m
        else if n = ''minecraft:bed''
        then set_vel (set_vy (fl_min F (fl_lit F 1) (fl_mul F (fl_lit F (-0.66)) (vy old))) v) m
        else set_vel (set_vy zero v) m)"

definition set_post_collision_motion :: "('f, 'b) sim_env \<Rightarrow> 'f vec3 \<Rightarrow> bool \<Rightarrow> 'b \<Rightarrow> 'f mv \<Rightarrow> 'f mv" where
  "set_post_collision_motion E old old_ground blk m =
    (let zero = fl_lit (se_flt E) 0; c = mv_contacts m;
         m = (if \<not> old_ground \<and> ct_y c then land_on_block E old blk m
              else if ct_y c then set_vel (set_vy zero (mv_vel m)) m else m);
         v = mv_vel m;
         v = (if ct_x c then set_vx zero v else v);
         v = (if ct_z c then set_vz zero v else v)
     in set_vel v m)"

definition unit_box_at :: "('f, 'b) sim_env \<Rightarrow> bpos \<Rightarrow> 'f bbox" where
  "unit_box_at E pos = (let F = se_flt E in bl_translate (se_box E) (vec_of_pos F pos)
     (bl_box (se_box E) (zero3 F) (fl_lit F 1, fl_lit F 1, fl_lit F 1)))"

definition is_inside_cobweb :: "('f, 'b) sim_env \<Rightarrow> 'f mv \<Rightarrow> bool" where
  "is_inside_cobweb E m =
    (let bb = bounding_box E m
     in list_ex (\<lambda>(b, pos). block_name (se_blocks E) b = ''minecraft:web''
                   \<and> bl_intersects (se_box E) bb (unit_box_at E pos))
          (nearby_blocks (se_flt E) (se_blocks E) (bl_grow (se_box E) (fl_lit (se_flt E) 1) bb) False True (se_src E)))"

definition simulation_is_reliable :: "('f, 'b) sim_env \<Rightarrow> 'f mv \<Rightarrow> bool" where
  "simulation_is_reliable E m =
    (if 0 < remaining_teleport_ticks m then True
     else
       let bb = bounding_box E m
       in if list_ex (\<lambda>(b, pos). (bk_is_liquid (se_blocks E) b \<and> bl_intersects (se_box E) bb (unit_box_at E pos))
                        \<or> block_name (se_blocks E) b = ''minecraft:bamboo'')
               (nearby_blocks (se_flt E) (se_blocks E) (bl_grow (se_box E) (fl_lit (se_flt E) 1) bb) False True (se_src E))
          then False
          else se_survival_or_adventure E
               \<and> \<not> (fy_flying (mv_flight m) \<or> fy_just_disabled (mv_flight m) \<or> ct_no_clip (mv_contacts m)
                    \<or> \<not> se_alive E))"

section \<open>Gliding\<close>

text \<open>The forces of a glide on a velocity: gravity and lift, diving, steering, the boost, drag.\<close>
definition glide_velocity :: "'f flt \<Rightarrow> 'f vec3 \<Rightarrow> bool \<Rightarrow> 'f vec3 \<Rightarrow> 'f vec3" where
  "glide_velocity F rot boosted v =
    (let lit = fl_lit F; mul = fl_mul F; add = fl_add F; sub = fl_sub F; quot = fl_div F; neg = fl_neg F;
         radians = lit (pi / 180);
         yaw = mul (vz rot) radians; pitch = mul (vx rot) radians;
         yaw_cos = mc_cos F (sub (neg yaw) (pi32 F)); yaw_sin = mc_sin F (sub (neg yaw) (pi32 F));
         pitch_cos = mc_cos F pitch; pitch_sin = mc_sin F pitch;
         look_x = mul yaw_sin (neg pitch_cos); look_y = neg pitch_sin; look_z = mul yaw_cos (neg pitch_cos);
         vel_hz = fl_sqrt F (add (mul (vx v) (vx v)) (mul (vz v) (vz v)));
         look_hz = pitch_cos; sqr = mul pitch_cos pitch_cos;
         v = set_vy (add (vy v) (add (lit (-0.08)) (mul sqr (lit 0.06)))) v;
         v = (if fl_less F (vy v) (lit 0) \<and> fl_less F (lit 0) look_hz
              then let a = mul (mul (vy v) (lit (-0.1))) sqr
                   in (add (vx v) (quot (mul look_x a) look_hz), add (vy v) a, add (vz v) (quot (mul look_z a) look_hz))
              else v);
         v = (if fl_less F pitch (lit 0)
              then let a = mul (mul vel_hz (neg pitch_sin)) (lit 0.04)
                   in (sub (vx v) (quot (mul look_x a) look_hz), add (vy v) (mul a (lit 3.2)),
                       sub (vz v) (quot (mul look_z a) look_hz))
              else v);
         v = (if fl_less F (lit 0) look_hz
              then (add (vx v) (mul (sub (mul (quot look_x look_hz) vel_hz) (vx v)) (lit 0.1)), vy v,
                    add (vz v) (mul (sub (mul (quot look_z look_hz) vel_hz) (vz v)) (lit 0.1)))
              else v);
         boost = (\<lambda>look a. add a (add (mul look (lit 0.1)) (mul (sub (mul look (lit 1.5)) a) (lit 0.5))));
         v = (if boosted then (boost look_x (vx v), boost look_y (vy v), boost look_z (vz v)) else v)
     in (mul (vx v) (lit 0.99), mul (vy v) (lit 0.98), mul (vz v) (lit 0.99)))"

definition simulate_glide :: "('f, 'b) sim_env \<Rightarrow> 'f mv \<Rightarrow> 'f mv" where
  "simulate_glide E m = try_collisions E False
     (set_vel (glide_velocity (se_flt E) (bo_rotation (mv_body m)) (0 < sn_glide_boost (mv_stance m)) (mv_vel m)) m)"

section \<open>The frame\<close>

definition block_at :: "('f, 'b) sim_env \<Rightarrow> 'f vec3 \<Rightarrow> 'b" where
  "block_at E p = se_src E (bl_pos_of (se_box E) p)"

definition chunk_of_vec :: "'f flt \<Rightarrow> 'f vec3 \<Rightarrow> 32 word \<times> 32 word" where
  "chunk_of_vec F p = (let c = (\<lambda>a. signed_drop_bit 4 (word_of_int (fl_to_int F a) :: 32 word)) in (c (vx p), c (vz p)))"

text \<open>The friction of the frame and the speed of its relative movement.\<close>
definition friction_and_speed :: "('f, 'b) sim_env \<Rightarrow> 'b \<Rightarrow> 'f mv \<Rightarrow> 'f \<times> 'f" where
  "friction_and_speed E blk m =
    (let F = se_flt E; friction = fl_lit F 0.91
     in if mv_on_ground m
        then let speed = sp_movement (mv_speeds m);
                 speed = (if block_name (se_blocks E) blk = ''minecraft:soul_sand''
                          then fl_mul F speed (fl_lit F 0.543) else speed);
                 friction = fl_mul F friction (block_friction F (se_blocks E) blk)
             in (friction, fl_mul F speed (fl_div F (fl_lit F 0.16277136)
                  (fl_mul F (fl_mul F friction friction) friction)))
        else (friction, sp_air (mv_speeds m)))"

definition climb :: "('f, 'b) sim_env \<Rightarrow> 'f mv \<Rightarrow> 'f mv" where
  "climb E m =
    (if block_climbable (se_blocks E) (block_at E (mv_pos m))
     then let F = se_flt E; zero = fl_lit F 0; v = mv_vel m; neg = fl_neg F (fl_lit F 0.2);
              v = (if fl_less F (vy v) neg then set_vy neg v else v);
              v = (if sn_pressing_jump (mv_stance m) \<or> ct_x (mv_contacts m) \<or> ct_z (mv_contacts m)
                   then set_vy (fl_lit F 0.2) v else v);
              v = (if mv_sneaking m \<and> fl_less F (vy v) zero then set_vy zero v else v)
          in set_vel v m
     else m)"

definition cobweb_slow :: "'f flt \<Rightarrow> 'f mv \<Rightarrow> 'f mv" where
  "cobweb_slow F m = (let v = mv_vel m
     in set_vel (fl_mul F (vx v) (fl_lit F 0.25), fl_mul F (vy v) (fl_lit F 0.05), fl_mul F (vz v) (fl_lit F 0.25)) m)"

definition block_under_after :: "('f, 'b) sim_env \<Rightarrow> 'f mv \<Rightarrow> 'b" where
  "block_under_after E m =
    (let F = se_flt E; B = se_blocks E
     in case bo_supporting (mv_body m) of
          Some p \<Rightarrow> se_src E p
        | None \<Rightarrow>
            let blk = block_at E (sub3 F (mv_pos m) (y_only F (fl_lit F 0.2)))
            in if bk_is_air B blk
               then let below = (case bl_pos_of (se_box E) (mv_pos m) of (x, y, z) \<Rightarrow> se_src E (x, y - 1, z))
                    in if bk_is_wall B below \<or> bk_is_fence B below \<or> bk_is_fence_gate B below then below else blk
               else blk)"

text \<open>Levitation or gravity, and the friction of the frame.\<close>
definition end_of_frame :: "('f, 'b) sim_env \<Rightarrow> 'f \<Rightarrow> 'f mv \<Rightarrow> 'f mv" where
  "end_of_frame E friction m =
    (let F = se_flt E; v = mv_vel m;
         y = (case se_levitation E of
                Some a \<Rightarrow> fl_add F (vy v) (fl_mul F (fl_sub F (fl_mul F (fl_lit F 0.05) (fl_of_int F a)) (vy v)) (fl_lit F 0.2))
              | None \<Rightarrow> if ct_has_gravity (mv_contacts m)
                        then fl_mul F (fl_sub F (vy v) (bo_gravity (mv_body m))) (fl_lit F 0.98) else vy v)
     in set_vel (fl_mul F (vx v) friction, y, fl_mul F (vz v) friction) m)"

text \<open>The rest of a frame, after the forces: edges, collisions, blocks, gravity.\<close>
definition move_frame :: "('f, 'b) sim_env \<Rightarrow> bool \<Rightarrow> bool \<Rightarrow> 'f \<Rightarrow> 'f mv \<Rightarrow> 'f mv option" where
  "move_frame E in_cobweb jump_prevented friction m =
    (case avoid_edge E m of
       None \<Rightarrow> None
     | Some m \<Rightarrow>
         let F = se_flt E; old_vel = mv_vel m; old_ground = mv_on_ground m; old_y = vy (mv_pos m);
             m = try_collisions E jump_prevented m;
             blk = block_under_after E m;
             m = (if fl_eq F old_y (vy (mv_pos m)) then walk_on_block E blk m else m);
             m = set_mov (mv_vel m) m;
             m = set_post_collision_motion E old_vel old_ground blk m;
             m = (if in_cobweb then set_vel (zero3 F) m else m)
         in Some (end_of_frame E friction m))"

definition simulate_player_movement :: "('f, 'b) sim_env \<Rightarrow> 'f mv \<Rightarrow> 'f mv option" where
  "simulate_player_movement E m =
    (let F = se_flt E; B = se_blocks E
     in case attempt_teleport E m of
          (True, m) \<Rightarrow> Some (clear_penetration m)
        | (False, m) \<Rightarrow>
            if \<not> simulation_is_reliable E m then Some (mv_reset F (se_velocity_limit E) (clear_penetration m))
            else if \<not> se_chunk_loaded E (chunk_of_vec F (mv_pos m)) then Some (set_vel (zero3 F) (clear_penetration m))
            else if ct_immobile (mv_contacts m) \<or> \<not> se_ready E then Some (set_vel (zero3 F) (clear_penetration m))
            else
              let m = (if fl_less F (len_sqr3 F (mv_vel m)) (fl_lit F 0.000000000001) then set_vel (zero3 F) m else m);
                  blk = block_at E (sub3 F (mv_pos m) (y_only F (fl_lit F 0.5)));
                  (friction, speed) = friction_and_speed E blk m
              in if sn_gliding (mv_stance m) \<and> se_elytra E \<and> \<not> mv_on_ground m
                 then let m = simulate_glide E (set_on_ground False m) in Some (set_mov (mv_vel m) m)
                 else
                   let m = set_gliding False m;
                       m = snd (attempt_knockback m);
                       m = move_relative F speed m;
                       (_, jump_prevented, m) = attempt_jump E True m;
                       m = climb E m;
                       in_cobweb = is_inside_cobweb E m;
                       m = (if in_cobweb then cobweb_slow F m else m)
                   in move_frame E in_cobweb jump_prevented friction m)"

end
