(* ===== verification/ClipProps.thy ===== *)
theory ClipProps
  imports Boxes
begin

text \<open>
  What clipping a velocity against a box does, in exact numbers: a box that is apart from a
  block stays apart from it on the whole way of the clipped velocity, and the clipped velocity
  is between zero and the one asked for.
\<close>

section \<open>Boxes that are apart\<close>

text \<open>Some axis on which two boxes overlap by at most the tolerance.\<close>
definition apart :: "real \<Rightarrow> real bbox \<Rightarrow> real bbox \<Rightarrow> bool" where
  "apart t s m \<longleftrightarrow> (\<exists>i<3. vget i (bb_max m) - vget i (bb_min s) \<le> t \<or> vget i (bb_max s) - vget i (bb_min m) \<le> t)"

definition shift_box :: "real vec3 \<Rightarrow> real bbox \<Rightarrow> real bbox" where
  "shift_box v b = (add3 real_flt (bb_min b) v, add3 real_flt (bb_max b) v)"

lemma vget_add3 [simp]: "vget i (add3 real_flt a v) = vget i a + vget i v"
  by (simp add: vget_def)

lemma shift_box_corner [simp]:
  "vget i (bb_min (shift_box v b)) = vget i (bb_min b) + vget i v"
  "vget i (bb_max (shift_box v b)) = vget i (bb_max b) + vget i v"
  by (simp_all add: shift_box_def)

lemma apart_mono: "apart t s m \<Longrightarrow> t \<le> u \<Longrightarrow> apart u s m"
  unfolding apart_def by (meson order_trans)

text \<open>A velocity along one axis.\<close>
definition along :: "nat \<Rightarrow> real vec3 \<Rightarrow> bool" where
  "along k v \<longleftrightarrow> k < 3 \<and> (\<forall>i<3. i \<noteq> k \<longrightarrow> vget i v = 0)"

definition between0 :: "real \<Rightarrow> real \<Rightarrow> bool" where
  "between0 w v \<longleftrightarrow> (0 \<le> w \<and> w \<le> v) \<or> (v \<le> w \<and> w \<le> 0)"

lemma between0_refl [simp]: "between0 v v" by (auto simp: between0_def)

lemma between0_trans: "between0 u w \<Longrightarrow> between0 w v \<Longrightarrow> between0 u v"
  by (auto simp: between0_def)

lemma along_vset: "along k v \<Longrightarrow> along k (vset k a v)"
  by (auto simp: along_def)

lemma along_vget: "along k v \<Longrightarrow> i < 3 \<Longrightarrow> vget i v = (if i = k then vget k v else 0)"
  by (auto simp: along_def)

section \<open>The loop over the axes\<close>

text \<open>The penetrations of an axis from the two sides, tiny ones taken as zero.\<close>
definition below :: "real bbox \<Rightarrow> real bbox \<Rightarrow> nat \<Rightarrow> real" where
  "below s m i = snap real_flt (vget i (bb_max m) - vget i (bb_min s))"

definition above :: "real bbox \<Rightarrow> real bbox \<Rightarrow> nat \<Rightarrow> real" where
  "above s m i = snap real_flt (vget i (bb_max s) - vget i (bb_min m))"

definition separates :: "real bbox \<Rightarrow> real bbox \<Rightarrow> nat \<Rightarrow> bool" where
  "separates s m i \<longleftrightarrow> below s m i \<le> 0 \<or> above s m i \<le> 0"

definition tolerance :: real where "tolerance = 0.0000001"

lemma tolerance_nonneg: "0 \<le> tolerance" by (simp add: tolerance_def)

lemma snap_le: "snap real_flt p \<le> 0 \<longleftrightarrow> p \<le> tolerance"
  by (auto simp: snap_def tolerance_def)

lemma snap_eq: "snap real_flt p = (if \<bar>p\<bar> \<le> tolerance then 0 else p)"
  by (simp add: snap_def tolerance_def)

lemma apart_separates: "apart tolerance s m \<longleftrightarrow> (\<exists>i<3. separates s m i)"
  by (simp add: apart_def separates_def below_def above_def snap_le)

lemma scan_axis_frame:
  assumes "i < 3"
  shows "ax_separating (scan_axis real_flt s m i a) = ax_separating a + (if separates s m i then 1 else 0)"
    and "ax_axis (scan_axis real_flt s m i a) = (if separates s m i then i else ax_axis a)"
    and "j < 3 \<Longrightarrow> j \<noteq> i \<Longrightarrow> vget j (ax_signed (scan_axis real_flt s m i a)) = vget j (ax_signed a)"
    and "j < 3 \<Longrightarrow> j \<noteq> i \<Longrightarrow> vget j (ax_normal (scan_axis real_flt s m i a)) = vget j (ax_normal a)"
    and "separates s m i \<Longrightarrow> vget i (ax_signed (scan_axis real_flt s m i a))
            = (if below s m i \<le> 0 then below s m i else above s m i)"
    and "separates s m i \<Longrightarrow> vget i (ax_normal (scan_axis real_flt s m i a))
            = (if below s m i \<le> 0 then -1 else 1)"
  using assms by (auto simp: scan_axis_def separates_def below_def above_def Let_def max_def)

lemma scan_axes_one:
  assumes "k < 3" "separates s m k" "\<forall>i<3. i \<noteq> k \<longrightarrow> \<not> separates s m i" "ax_separating a0 = 0"
  shows "\<exists>a. scan_axes real_flt s m [0, 1, 2] a0 = Some a \<and> ax_separating a = 1 \<and> ax_axis a = k
     \<and> vget k (ax_signed a) = (if below s m k \<le> 0 then below s m k else above s m k)
     \<and> vget k (ax_normal a) = (if below s m k \<le> 0 then -1 else 1)"
proof -
  have k: "k = 0 \<or> k = 1 \<or> k = 2" using assms(1) by auto
  have no: "i < 3 \<Longrightarrow> i \<noteq> k \<Longrightarrow> \<not> separates s m i" for i using assms(3) by blast
  show ?thesis
    using k assms(2,4) no[of 0] no[of 1] no[of 2]
    by (elim disjE) (simp_all add: Let_def scan_axis_frame)
qed

lemma scan_axes_many:
  assumes "i < 3" "j < 3" "i \<noteq> j" "separates s m i" "separates s m j" "ax_separating a0 = 0"
  shows "scan_axes real_flt s m [0, 1, 2] a0 = None"
proof -
  have "i = 0 \<or> i = 1 \<or> i = 2" "j = 0 \<or> j = 1 \<or> j = 2" using assms(1,2) by auto
  then show ?thesis
    using assms(3-) by (elim disjE) (simp_all add: Let_def scan_axis_frame)
qed

section \<open>Clipping\<close>

abbreviation clip1 :: "real bbox \<Rightarrow> real bbox \<Rightarrow> bool \<Rightarrow> real vec3 \<times> real vec3 option \<Rightarrow> real vec3" where
  "clip1 s m ow vp \<equiv> fst (bb_clip_collide real_flt s m ow vp)"

lemma clip_many:
  assumes "i < 3" "j < 3" "i \<noteq> j" "separates s m i" "separates s m j"
  shows "clip1 s m ow (v, p) = v"
  using scan_axes_many[OF assms]
  by (simp add: bb_clip_collide_def do_bb_clip_collide_def Let_def case_prod_unfold)

lemma clip_one:
  assumes "k < 3" "separates s m k" "\<forall>i<3. i \<noteq> k \<longrightarrow> \<not> separates s m i"
    "\<not> bb_has_zero_volume real_flt s"
  shows "clip1 s m ow (v, p) =
    (if below s m k \<le> 0
     then if below s m k + vget k v \<le> 0 then v else vset k (- below s m k) v
     else if above s m k - vget k v \<le> 0 then v else vset k (above s m k) v)"
proof -
  obtain a where a: "scan_axes real_flt s m [0, 1, 2]
      \<lparr>ax_pen = zero3 real_flt, ax_signed = zero3 real_flt, ax_normal = zero3 real_flt, ax_separating = 0,
        ax_axis = 0, ax_best = fl_max_value real_flt - 1\<rparr> = Some a"
    "ax_separating a = 1" "ax_axis a = k"
    "vget k (ax_signed a) = (if below s m k \<le> 0 then below s m k else above s m k)"
    "vget k (ax_normal a) = (if below s m k \<le> 0 then -1 else 1)"
    using scan_axes_one[of k s m "\<lparr>ax_pen = zero3 real_flt, ax_signed = zero3 real_flt,
      ax_normal = zero3 real_flt, ax_separating = 0, ax_axis = 0, ax_best = fl_max_value real_flt - 1\<rparr>"]
      assms(1-3) by auto
  show ?thesis
    using assms(4) a
    by (simp add: bb_clip_collide_def do_bb_clip_collide_def Let_def case_prod_unfold)
qed

text \<open>
  The clipped velocity is along the same axis, between zero and the one asked for, and on every
  part of its way the boxes stay apart.
\<close>
definition safe_clip :: "real bbox \<Rightarrow> real bbox \<Rightarrow> nat \<Rightarrow> real vec3 \<Rightarrow> real vec3 \<Rightarrow> bool" where
  "safe_clip s m k v v' \<longleftrightarrow> along k v' \<and> between0 (vget k v') (vget k v)
     \<and> (\<forall>w. along k w \<and> between0 (vget k w) (vget k v') \<longrightarrow> apart tolerance s (shift_box w m))"

lemma apart_sideways:
  assumes "separates s m i" "i < 3" "i \<noteq> k" "along k w"
  shows "apart tolerance s (shift_box w m)"
proof -
  have "vget i w = 0" using assms by (simp add: along_def)
  then have "separates s (shift_box w m) i" using assms(1) by (simp add: separates_def below_def above_def)
  with assms(2) show ?thesis by (auto simp: apart_separates)
qed

lemma apart_along:
  assumes "k < 3" "vget k (bb_max m) - vget k (bb_min s) + vget k w \<le> tolerance
     \<or> vget k (bb_max s) - vget k (bb_min m) - vget k w \<le> tolerance"
  shows "apart tolerance s (shift_box w m)"
  using assms by (auto simp: apart_def algebra_simps intro!: exI[of _ k])

lemma clip_safe:
  assumes "along k v" "apart tolerance s m" "\<not> bb_has_zero_volume real_flt s"
  shows "safe_clip s m k v (clip1 s m ow (v, p))"
proof -
  have k: "k < 3" using assms(1) by (simp add: along_def)
  consider (many) i j where "i < 3" "j < 3" "i \<noteq> j" "separates s m i" "separates s m j"
    | (one) i where "i < 3" "separates s m i" "\<forall>j<3. j \<noteq> i \<longrightarrow> \<not> separates s m j"
    using assms(2) unfolding apart_separates by blast
  then show ?thesis
  proof cases
    case many
    then obtain l where l: "l < 3" "l \<noteq> k" "separates s m l" by (cases "i = k") auto
    from clip_many[OF many] have c: "clip1 s m ow (v, p) = v" .
    show ?thesis unfolding c safe_clip_def using assms(1) apart_sideways[OF l(3,1,2)] by simp
  next
    case one
    note c = clip_one[OF one assms(3), of ow v p]
    show ?thesis
    proof (cases "i = k")
      case False
      then have "vget i v = 0" using assms(1) one(1) by (simp add: along_def)
      then have "clip1 s m ow (v, p) = v" using c one(2) by (auto simp: separates_def)
      then show ?thesis unfolding safe_clip_def using assms(1) apart_sideways[OF one(2,1) False] by simp
    next
      case True
      let ?p = "vget k (bb_max m) - vget k (bb_min s)" and ?q = "vget k (bb_max s) - vget k (bb_min m)"
      let ?v' = "clip1 s m ow (v, p)"
      have along: "along k ?v'" using assms(1) by (simp add: c True along_vset)
      have btw: "between0 (vget k ?v') (vget k v)
         \<and> (\<forall>w. between0 w (vget k ?v') \<longrightarrow> ?p + w \<le> tolerance \<or> ?q - w \<le> tolerance)"
      proof (cases "below s m k \<le> 0")
        case b: True
        then have p: "?p \<le> tolerance" by (simp add: below_def snap_le)
        have p': "below s m k = (if \<bar>?p\<bar> \<le> tolerance then 0 else ?p)" by (simp add: below_def snap_eq)
        have v': "vget k ?v' = (if below s m k + vget k v \<le> 0 then vget k v else - below s m k)"
          using b k by (simp add: c True)
        show ?thesis unfolding v' using p p' b tolerance_nonneg by (auto simp: between0_def split: if_splits)
      next
        case b: False
        with one(2) True have a: "above s m k \<le> 0" by (simp add: separates_def)
        then have q: "?q \<le> tolerance" by (simp add: above_def snap_le)
        have q': "above s m k = (if \<bar>?q\<bar> \<le> tolerance then 0 else ?q)" by (simp add: above_def snap_eq)
        have v': "vget k ?v' = (if above s m k - vget k v \<le> 0 then vget k v else above s m k)"
          using b k by (simp add: c True)
        show ?thesis unfolding v' using q q' a tolerance_nonneg by (auto simp: between0_def split: if_splits)
      qed
      show ?thesis unfolding safe_clip_def
        using along btw apart_along[OF k] by (auto simp: add_diff_eq)
    qed
  qed
qed

end
