(* ===== verification/SimProps.thy ===== *)
theory SimProps
  imports Simulation ClipProps
begin

text \<open>
  Properties of the movement simulation, in exact numbers: a player whose box is apart from
  every block box is, at the end of a frame, still apart from all of them; a frame always ends;
  a player who is frozen does not move.
\<close>

section \<open>The box library\<close>

definition intersect_tolerance :: real where "intersect_tolerance = 0.00001"

text \<open>What the library documents of its operations.\<close>
definition box_laws :: "real box_lib \<Rightarrow> bool" where
  "box_laws L \<longleftrightarrow> (\<forall>v b. bl_translate L v b = shift_box v b)
     \<and> (\<forall>a b. bl_box L a b = ((min (vx a) (vx b), min (vy a) (vy b), min (vz a) (vz b)),
                              (max (vx a) (vx b), max (vy a) (vy b), max (vz a) (vz b))))
     \<and> (\<forall>v b. bl_grow_vec L v b = (sub3 real_flt (bb_min b) v, add3 real_flt (bb_max b) v))
     \<and> (\<forall>x b. bl_grow L x b = (sub3 real_flt (bb_min b) (x, x, x), add3 real_flt (bb_max b) (x, x, x)))
     \<and> (\<forall>v b i. i < 3 \<longrightarrow> vget i (bb_min (bl_extend L v b)) = vget i (bb_min b) + min 0 (vget i v)
           \<and> vget i (bb_max (bl_extend L v b)) = vget i (bb_max b) + max 0 (vget i v))
     \<and> (\<forall>a b. \<not> apart intersect_tolerance a b \<longrightarrow> bl_intersects L a b)
     \<and> (\<forall>a b. bl_intersects L a b \<longrightarrow> \<not> apart 0 a b)"

lemma box_lawsD:
  assumes "box_laws L"
  shows "bl_translate L v b = shift_box v b"
    and "bl_box L a b' = ((min (vx a) (vx b'), min (vy a) (vy b'), min (vz a) (vz b')),
                          (max (vx a) (vx b'), max (vy a) (vy b'), max (vz a) (vz b')))"
    and "bl_grow_vec L v b = (sub3 real_flt (bb_min b) v, add3 real_flt (bb_max b) v)"
    and "bl_grow L x b = (sub3 real_flt (bb_min b) (x, x, x), add3 real_flt (bb_max b) (x, x, x))"
    and "i < 3 \<Longrightarrow> vget i (bb_min (bl_extend L v b)) = vget i (bb_min b) + min 0 (vget i v)"
    and "i < 3 \<Longrightarrow> vget i (bb_max (bl_extend L v b)) = vget i (bb_max b) + max 0 (vget i v)"
    and "\<not> apart intersect_tolerance b c \<Longrightarrow> bl_intersects L b c"
    and "bl_intersects L b c \<Longrightarrow> \<not> apart 0 b c"
  using assms unfolding box_laws_def by blast+

section \<open>Sweeps\<close>

definition clear_of :: "real bbox set \<Rightarrow> real bbox \<Rightarrow> bool" where
  "clear_of S m \<longleftrightarrow> (\<forall>s \<in> S. apart tolerance s m \<and> \<not> bb_has_zero_volume real_flt s)"

lemma sweep_safe:
  assumes "along k v" "clear_of (set boxes) m"
  shows "\<forall>v' p'. sweep real_flt boxes ow m (v, p) = (v', p') \<longrightarrow> along k v' \<and> between0 (vget k v') (vget k v)
     \<and> (\<forall>s \<in> set boxes. \<forall>w. along k w \<and> between0 (vget k w) (vget k v') \<longrightarrow> apart tolerance s (shift_box w m))"
  using assms
proof (induction boxes arbitrary: v p)
  case (Cons s boxes)
  obtain v1 p1 where c: "bb_clip_collide real_flt s m ow (v, p) = (v1, p1)" by fastforce
  have s: "safe_clip s m k v v1"
    using clip_safe[OF Cons.prems(1), of s m ow p] Cons.prems(2) c by (simp add: clear_of_def)
  then have v1: "along k v1" "between0 (vget k v1) (vget k v)" by (auto simp: safe_clip_def)
  have "clear_of (set boxes) m" using Cons.prems(2) by (simp add: clear_of_def)
  note IH = Cons.IH[OF v1(1) this, of p1]
  show ?case
  proof (intro allI impI)
    fix v' p' assume "sweep real_flt (s # boxes) ow m (v, p) = (v', p')"
    then have "sweep real_flt boxes ow m (v1, p1) = (v', p')" by (simp add: sweep_def c)
    with IH have r: "along k v'" "between0 (vget k v') (vget k v1)"
      "\<forall>s \<in> set boxes. \<forall>w. along k w \<and> between0 (vget k w) (vget k v') \<longrightarrow> apart tolerance s (shift_box w m)"
      by blast+
    have "\<forall>w. along k w \<and> between0 (vget k w) (vget k v') \<longrightarrow> apart tolerance s (shift_box w m)"
      using s r(2) unfolding safe_clip_def by (meson between0_trans)
    with r v1(2) show "along k v' \<and> between0 (vget k v') (vget k v)
       \<and> (\<forall>s \<in> set (s # boxes). \<forall>w. along k w \<and> between0 (vget k w) (vget k v') \<longrightarrow> apart tolerance s (shift_box w m))"
      by (auto intro: between0_trans)
  qed
qed (simp add: sweep_def clear_of_def)

lemma sweep_clear:
  assumes "along k v" "clear_of (set boxes) m" "sweep real_flt boxes ow m (v, p) = (v', p')"
  shows "along k v'" "between0 (vget k v') (vget k v)" "clear_of (set boxes) (shift_box v' m)"
proof -
  from sweep_safe[OF assms(1,2), of ow p] assms(3)
  have r: "along k v'" "between0 (vget k v') (vget k v)"
    "\<forall>s \<in> set boxes. \<forall>w. along k w \<and> between0 (vget k w) (vget k v') \<longrightarrow> apart tolerance s (shift_box w m)"
    by blast+
  show "along k v'" "between0 (vget k v') (vget k v)" by (rule r)+
  have "\<forall>s \<in> set boxes. apart tolerance s (shift_box v' m)" using r(1,3) between0_refl by blast
  with assms(2) show "clear_of (set boxes) (shift_box v' m)" by (simp add: clear_of_def)
qed

lemma sweep3_clear:
  assumes "box_laws L" "along i v1" "along j v2" "along k v3" "clear_of (set boxes) m"
    and "sweep3 real_flt L boxes ow m v1 v2 v3 p = (bb, w1, w2, w3, p')"
  shows "along i w1 \<and> between0 (vget i w1) (vget i v1)" "along j w2 \<and> between0 (vget j w2) (vget j v2)"
    "along k w3 \<and> between0 (vget k w3) (vget k v3)"
    "bb = shift_box w3 (shift_box w2 (shift_box w1 m))" "clear_of (set boxes) bb"
proof -
  note T = box_lawsD(1)[OF assms(1)]
  obtain p1 p2 where s: "sweep real_flt boxes ow m (v1, p) = (w1, p1)"
    "sweep real_flt boxes ow (shift_box w1 m) (v2, p1) = (w2, p2)"
    "sweep real_flt boxes ow (shift_box w2 (shift_box w1 m)) (v3, p2) = (w3, p')"
    and bb: "bb = shift_box w3 (shift_box w2 (shift_box w1 m))"
    using assms(6) by (auto simp: sweep3_def Let_def T split: prod.splits)
  note 1 = sweep_clear[OF assms(2,5) s(1)]
  note 2 = sweep_clear[OF assms(3) 1(3) s(2)]
  note 3 = sweep_clear[OF assms(4) 2(3) s(3)]
  show "along i w1 \<and> between0 (vget i w1) (vget i v1)" "along j w2 \<and> between0 (vget j w2) (vget j v2)"
    "along k w3 \<and> between0 (vget k w3) (vget k v3)"
    "bb = shift_box w3 (shift_box w2 (shift_box w1 m))" "clear_of (set boxes) bb"
    using 1(1,2) 2(1,2) 3 bb by auto
qed

lemma along_axis [simp]:
  "along 0 (x_only real_flt a)" "along (Suc 0) (y_only real_flt a)" "along 2 (z_only real_flt a)"
  by (auto simp: along_def x_only_def y_only_def z_only_def vget_def)

section \<open>The boxes of the blocks\<close>

text \<open>The boxes that blocks have in the world, and that each stays near its block.\<close>
definition solid :: "(real, 'b) sim_env \<Rightarrow> real bbox set" where
  "solid E = {s. \<exists>pos. \<not> can_pass_block (se_blocks E) (se_src E pos)
     \<and> s \<in> set (block_boxes_at (se_flt E) (se_box E) (se_blocks E) (se_src E) pos)}"

definition boxes_near_blocks :: "(real, 'b) sim_env \<Rightarrow> bool" where
  "boxes_near_blocks E \<longleftrightarrow> (\<forall>pos. \<forall>s \<in> set (block_boxes_at (se_flt E) (se_box E) (se_blocks E) (se_src E) pos).
     \<forall>i<3. vget i (vec_of_pos real_flt pos) - 1 \<le> vget i (bb_min s)
         \<and> vget i (bb_max s) \<le> vget i (vec_of_pos real_flt pos) + 2)"

lemma real_to_int [simp]: "fl_to_int real_flt (of_int k) = k"
proof -
  have "sgn k * \<lfloor>\<bar>real_of_int k\<bar>\<rfloor> = k" by (metis floor_of_int of_int_abs sgn_mult_abs)
  then show ?thesis by (simp add: real_flt_def)
qed

lemma in_span:
  "k \<in> set (span real_flt bb i) \<longleftrightarrow> \<lfloor>vget i (bb_min bb)\<rfloor> \<le> k \<and> k \<le> \<lceil>vget i (bb_max bb)\<rceil>"
  by (simp add: span_def floor_int_def ceil_int_def)

lemma span_covers:
  assumes "of_int k - 1 \<le> a" "b \<le> of_int k + (2::real)" "a < hi" "lo < b"
  shows "\<lfloor>lo - 1\<rfloor> \<le> k \<and> k \<le> \<lceil>hi + 1\<rceil>"
proof
  have "lo - 1 < of_int (k + 1)" using assms(2,4) by simp
  then have "\<lfloor>lo - 1\<rfloor> < k + 1" by (simp only: floor_less_iff)
  then show "\<lfloor>lo - 1\<rfloor> \<le> k" by simp
  have "of_int (k - 1) < hi + 1" using assms(1,3) by simp
  then have "k - 1 < \<lceil>hi + 1\<rceil>" by (simp only: less_ceiling_iff)
  then show "k \<le> \<lceil>hi + 1\<rceil>" by simp
qed

lemma near_boxes_solid:
  assumes "se_flt E = real_flt"
  shows "set (near_boxes E bb) \<subseteq> {s \<in> solid E. bl_intersects (se_box E) s bb}"
  by (auto simp: near_boxes_def nearby_bboxes_def scan_nearby_bboxes_def Let_def solid_def assms)

lemma near_boxes_complete:
  assumes "box_laws (se_box E)" "se_flt E = real_flt" "boxes_near_blocks E"
    and "s \<in> solid E" "bl_intersects (se_box E) s bb"
  shows "s \<in> set (near_boxes E bb)"
proof -
  obtain x y z where p: "\<not> can_pass_block (se_blocks E) (se_src E (x, y, z))"
    "s \<in> set (block_boxes_at real_flt (se_box E) (se_blocks E) (se_src E) (x, y, z))"
    using assms(2,4) by (auto simp: solid_def)
  let ?g = "bl_grow (se_box E) 1 bb"
  have "\<not> apart 0 s bb" using box_lawsD(8)[OF assms(1,5)] .
  then have o: "i < 3 \<Longrightarrow> vget i (bb_min s) < vget i (bb_max bb) \<and> vget i (bb_min bb) < vget i (bb_max s)" for i
    unfolding apart_def by (meson diff_le_0_iff_le not_less)
  have near: "i < 3 \<Longrightarrow> vget i (vec_of_pos real_flt (x, y, z)) - 1 \<le> vget i (bb_min s)
         \<and> vget i (bb_max s) \<le> vget i (vec_of_pos real_flt (x, y, z)) + 2" for i
    using assms(2,3) p(2) unfolding boxes_near_blocks_def by metis
  have g: "vget i (bb_min ?g) = vget i (bb_min bb) - 1" "vget i (bb_max ?g) = vget i (bb_max bb) + 1" for i
    by (simp_all add: box_lawsD(4)[OF assms(1)] vget_def)
  have "x \<in> set (span real_flt ?g 0)" "y \<in> set (span real_flt ?g 1)" "z \<in> set (span real_flt ?g 2)"
    unfolding in_span g
    using span_covers[of x "vget 0 (bb_min s)" "vget 0 (bb_max s)" "vget 0 (bb_max bb)" "vget 0 (bb_min bb)"]
      span_covers[of y "vget 1 (bb_min s)" "vget 1 (bb_max s)" "vget 1 (bb_max bb)" "vget 1 (bb_min bb)"]
      span_covers[of z "vget 2 (bb_min s)" "vget 2 (bb_max s)" "vget 2 (bb_max bb)" "vget 2 (bb_min bb)"]
      near[of 0] near[of 1] near[of 2] o[of 0] o[of 1] o[of 2]
    by (simp_all add: vec_of_pos_def vget_def)
  then show ?thesis
    using p assms(2,5)
    by (fastforce simp: near_boxes_def nearby_bboxes_def scan_nearby_bboxes_def Let_def)
qed

section \<open>The place of a player\<close>

definition base_box :: "real vec3 \<Rightarrow> real bbox" where
  "base_box sz = (case sz of (w, h, scale) \<Rightarrow> let a = w * 0.5 * scale; b = h * scale
     in ((min (- a) a + 0.0001, min 0 b, min (- a) a + 0.0001), (max (- a) a - 0.0001, max 0 b, max (- a) a - 0.0001)))"

lemma shift_shift: "shift_box u (shift_box v b) = shift_box (add3 real_flt v u) b"
  by (simp add: shift_box_def add3_def split: prod.splits)

lemma min_max_around:
  "min (x - a) (x + a) = x + min (- a) (a::real)" "max (x - a) (x + a) = x + max (- a) a"
  "min y (y + b) = y + min 0 (b::real)" "max y (y + b) = y + max 0 b"
  by (auto simp: min_def max_def)

lemma bounding_box_at:
  assumes "se_flt E = real_flt" "box_laws (se_box E)" "\<not> se_old_version E"
  shows "bounding_box E m = shift_box (mv_pos m) (base_box (bo_size (mv_body m)))"
  using assms(1,3)
  by (simp add: bounding_box_def box_lawsD(2,3)[OF assms(2)] base_box_def shift_box_def sub3_def add3_def
      Let_def min_max_around split: prod.splits)

lemma box_pos_shift: "box_pos real_flt (shift_box v b) = add3 real_flt (box_pos real_flt b) v"
  by (simp add: box_pos_def shift_box_def add3_def algebra_simps add_divide_distrib split: prod.splits)

lemma box_pos_base: "0 \<le> fst (snd s) * snd (snd s) \<Longrightarrow> box_pos real_flt (base_box s) = (0, 0, 0)"
  by (cases s) (auto simp: box_pos_def base_box_def Let_def min_def max_def)

lemma add3_zero [simp]: "add3 real_flt (0, 0, 0) v = v" by (cases v) (simp add: add3_def)

text \<open>A new position and the box around it.\<close>
lemma bounding_box_moved:
  assumes "se_flt E = real_flt" "box_laws (se_box E)" "\<not> se_old_version E"
    and "0 \<le> fst (snd (bo_size (mv_body m))) * snd (snd (bo_size (mv_body m)))"
    and "mv_pos m' = box_pos real_flt (shift_box u (bounding_box E m))"
    and "bo_size (mv_body m') = bo_size (mv_body m)"
  shows "bounding_box E m' = shift_box u (bounding_box E m)"
  unfolding bounding_box_at[OF assms(1-3)] assms(5,6)
  by (simp add: bounding_box_at[OF assms(1-3)] box_pos_shift box_pos_base[OF assms(4)] shift_shift)

section \<open>Collisions\<close>

lemma set_place [simp]:
  "mv_pos (set_vel v m) = mv_pos m" "bo_size (mv_body (set_vel v m)) = bo_size (mv_body m)"
  "mv_pos (set_mov v m) = mv_pos m" "bo_size (mv_body (set_mov v m)) = bo_size (mv_body m)"
  "mv_pos (set_on_ground b m) = mv_pos m" "bo_size (mv_body (set_on_ground b m)) = bo_size (mv_body m)"
  "mv_pos (set_gliding b m) = mv_pos m" "bo_size (mv_body (set_gliding b m)) = bo_size (mv_body m)"
  "mv_pos (set_jump_delay n m) = mv_pos m" "bo_size (mv_body (set_jump_delay n m)) = bo_size (mv_body m)"
  "mv_pos (set_collisions x y z m) = mv_pos m" "bo_size (mv_body (set_collisions x y z m)) = bo_size (mv_body m)"
  "mv_pos (set_penetrated_last_frame b m) = mv_pos m"
  "bo_size (mv_body (set_penetrated_last_frame b m)) = bo_size (mv_body m)"
  "mv_pos (set_stuck_in_collider b m) = mv_pos m"
  "bo_size (mv_body (set_stuck_in_collider b m)) = bo_size (mv_body m)"
  "mv_pos (set_supporting_block_pos q m) = mv_pos m"
  "bo_size (mv_body (set_supporting_block_pos q m)) = bo_size (mv_body m)"
  "mv_pos (set_pos p m) = p" "bo_size (mv_body (set_pos p m)) = bo_size (mv_body m)"
  by (simp_all add: set_vel_def set_mov_def set_on_ground_def set_gliding_def set_jump_delay_def
      set_collisions_def set_penetrated_last_frame_def set_stuck_in_collider_def
      set_supporting_block_pos_def set_pos_def)

lemma support_place [simp]:
  "mv_pos (check_supporting_block_pos E v m) = mv_pos m"
  "bo_size (mv_body (check_supporting_block_pos E v m)) = bo_size (mv_body m)"
  by (simp_all add: check_supporting_block_pos_def Let_def split: option.splits)

lemma settle_place:
  "\<not> se_old_version E \<Longrightarrow> mv_pos (settle E st cur bb coll m) = box_pos (se_flt E) bb"
  "\<not> se_old_version E \<Longrightarrow> bo_size (mv_body (settle E st cur bb coll m)) = bo_size (mv_body m)"
  by (simp_all add: settle_def Let_def)

lemma bounding_box_cong:
  "mv_pos m' = mv_pos m \<Longrightarrow> bo_size (mv_body m') = bo_size (mv_body m) \<Longrightarrow> \<not> se_old_version E
   \<Longrightarrow> bounding_box E m' = bounding_box E m"
  by (simp add: bounding_box_def)

text \<open>The first sweeps: clear of the boxes found, within the extended box.\<close>
lemma collide_clear:
  assumes "se_flt E = real_flt" "box_laws (se_box E)"
    and "clear_of (set (cd_boxes (collide E jp m))) (bounding_box E m)"
  shows "\<exists>u. cd_box (collide E jp m) = shift_box u (bounding_box E m)
      \<and> (\<forall>i<3. between0 (vget i u) (vget i (mv_vel m)))"
    and "clear_of (set (cd_boxes (collide E jp m))) (cd_box (collide E jp m))"
proof -
  let ?bb = "bounding_box E m" and ?v = "mv_vel m"
  let ?boxes = "near_boxes E (bl_extend (se_box E) ?v ?bb)"
  obtain bb' y x z p where s: "sweep3 real_flt (se_box E) (rev ?boxes) (ct_stuck (mv_contacts m)) ?bb
      (y_only real_flt (if jp then 0 else vy ?v)) (x_only real_flt (vx ?v)) (z_only real_flt (vz ?v))
      (Some (zero3 real_flt)) = (bb', y, x, z, p)" by (metis prod_cases5)
  have c: "cd_boxes (collide E jp m) = ?boxes" "cd_box (collide E jp m) = bb'"
    using s by (cases jp; simp add: collide_def Let_def assms(1))+
  have clear: "clear_of (set (rev ?boxes)) ?bb" using assms(3) c(1) by simp
  note r = sweep3_clear[OF assms(2) along_axis(2) along_axis(1) along_axis(3) clear s]
  let ?u = "add3 real_flt (add3 real_flt y x) z"
  have "bb' = shift_box ?u ?bb" using r(4) by (simp add: shift_shift)
  moreover have "\<forall>i<3. between0 (vget i ?u) (vget i ?v)"
  proof (intro allI impI)
    fix i :: nat assume "i < 3"
    then consider "i = 0" | "i = 1" | "i = 2" by linarith
    then show "between0 (vget i ?u) (vget i ?v)"
    proof cases
      case 1
      then show ?thesis using r(1-3) along_vget[of 1 y 0] along_vget[of 2 z 0]
        by (simp add: along_def x_only_def vget_def between0_def split: if_splits)
    next
      case 2
      then show ?thesis using r(1-3) along_vget[of 0 x 1] along_vget[of 2 z 1] linear[of 0 "vy ?v"]
        by (simp add: along_def y_only_def vget_def between0_def split: if_splits)
    next
      case 3
      then show ?thesis using r(1-3) along_vget[of 0 x 2] along_vget[of 1 y 2]
        by (simp add: along_def z_only_def vget_def between0_def split: if_splits)
    qed
  qed
  ultimately show "\<exists>u. cd_box (collide E jp m) = shift_box u ?bb \<and> (\<forall>i<3. between0 (vget i u) (vget i ?v))"
    using c(2) by blast
  show "clear_of (set (cd_boxes (collide E jp m))) (cd_box (collide E jp m))" using r(5) c by simp
qed

lemma apart_within:
  assumes "apart t s big" "\<forall>i<3. vget i (bb_min big) \<le> vget i (bb_min m) \<and> vget i (bb_max m) \<le> vget i (bb_max big)"
  shows "apart t s m"
  using assms unfolding apart_def by (meson diff_left_mono diff_right_mono order_trans)

lemma shift_within_extend:
  assumes "box_laws L" "\<forall>i<3. between0 (vget i u) (vget i v)"
  shows "\<forall>i<3. vget i (bb_min (bl_extend L v bb)) \<le> vget i (bb_min (shift_box u bb))
     \<and> vget i (bb_max (shift_box u bb)) \<le> vget i (bb_max (bl_extend L v bb))"
  using assms(2) by (auto simp: box_lawsD(5,6)[OF assms(1)] between0_def)

text \<open>What a world is in which the player can be simulated exactly.\<close>
definition exact_world :: "(real, 'b) sim_env \<Rightarrow> bool" where
  "exact_world E \<longleftrightarrow> se_flt E = real_flt \<and> box_laws (se_box E) \<and> boxes_near_blocks E \<and> \<not> se_old_version E
     \<and> (\<forall>s \<in> solid E. \<not> bb_has_zero_volume real_flt s)"

definition stays_out :: "real \<Rightarrow> (real, 'b) sim_env \<Rightarrow> real bbox \<Rightarrow> bool" where
  "stays_out t E bb \<longleftrightarrow> (\<forall>s \<in> solid E. apart t s bb)"

lemma near_boxes_none:
  assumes "exact_world E" "\<not> any_near_box E bb"
  shows "stays_out intersect_tolerance E bb"
  unfolding stays_out_def
proof
  fix s assume s: "s \<in> solid E"
  have "near_boxes E bb = []" using assms(2) by (simp add: any_near_box_def near_boxes_def has_nearby_iff)
  then have "\<not> bl_intersects (se_box E) s bb"
    using near_boxes_complete[of E s bb] s assms(1) by (auto simp: exact_world_def)
  then show "apart intersect_tolerance s bb"
    using box_lawsD(7)[of "se_box E" s bb] assms(1) by (auto simp: exact_world_def)
qed

lemma collide_stays_out:
  assumes W: "exact_world E" and "stays_out tolerance E (bounding_box E m)"
  shows "stays_out intersect_tolerance E (cd_box (collide E jp m))"
    and "\<exists>u. cd_box (collide E jp m) = shift_box u (bounding_box E m)"
proof -
  let ?bb = "bounding_box E m" and ?c = "collide E jp m"
  let ?ext = "bl_extend (se_box E) (mv_vel m) ?bb"
  have F: "se_flt E = real_flt" and L: "box_laws (se_box E)" and N: "boxes_near_blocks E"
    using W by (auto simp: exact_world_def)
  have boxes: "cd_boxes ?c = near_boxes E ?ext" by (simp add: collide_def Let_def split: prod.splits)
  have "clear_of (set (cd_boxes ?c)) ?bb"
    unfolding boxes clear_of_def using near_boxes_solid[OF F, of ?ext] assms(2) W
    by (auto simp: stays_out_def exact_world_def)
  note c = collide_clear[OF F L this]
  then obtain u where u: "cd_box ?c = shift_box u ?bb" "\<forall>i<3. between0 (vget i u) (vget i (mv_vel m))" by blast
  then show "\<exists>u. cd_box ?c = shift_box u ?bb" by blast
  show "stays_out intersect_tolerance E (cd_box ?c)" unfolding stays_out_def
  proof
    fix s assume s: "s \<in> solid E"
    show "apart intersect_tolerance s (cd_box ?c)"
    proof (cases "s \<in> set (cd_boxes ?c)")
      case True
      then have "apart tolerance s (cd_box ?c)" using c(2) by (simp add: clear_of_def)
      then show ?thesis by (rule apart_mono) (simp add: tolerance_def intersect_tolerance_def)
    next
      case False
      then have "\<not> bl_intersects (se_box E) s ?ext" using near_boxes_complete[OF L F N s, of ?ext] boxes by argo
      then have "apart intersect_tolerance s ?ext" using box_lawsD(7)[OF L] by blast
      from apart_within[OF this shift_within_extend[OF L u(2)]] show ?thesis by (simp only: u(1))
    qed
  qed
qed

lemma try_step_out:
  assumes "exact_world E" "try_step E boxes ow m cv cp = Some (bb, sv)"
  shows "stays_out intersect_tolerance E bb" "\<exists>u. bb = shift_box u (bounding_box E m)"
proof -
  have F: "se_flt E = real_flt" and L: "box_laws (se_box E)" using assms(1) by (auto simp: exact_world_def)
  obtain bb0 y x z p where s: "sweep3 real_flt (se_box E) boxes ow (bounding_box E m)
      (y_only real_flt 0.6) (x_only real_flt (vx (mv_vel m))) (z_only real_flt (vz (mv_vel m))) None = (bb0, y, x, z, p)"
    by (metis prod_cases5)
  have bb0: "bb0 = shift_box z (shift_box x (shift_box y (bounding_box E m)))"
    using s by (auto simp: sweep3_def Let_def box_lawsD(1)[OF L] split: prod.splits)
  have r: "\<not> any_near_box E bb"
    "bb = shift_box (fst (sweep real_flt boxes ow bb0 (mul3 real_flt y (-1), None))) bb0"
    using assms(2) s by (auto simp: try_step_def Let_def F box_lawsD(1)[OF L] split: if_splits)
  show "stays_out intersect_tolerance E bb" by (rule near_boxes_none[OF assms(1) r(1)])
  show "\<exists>u. bb = shift_box u (bounding_box E m)" unfolding r(2) bb0 shift_shift by blast
qed

lemma try_collisions_out:
  assumes W: "exact_world E" and "stays_out tolerance E (bounding_box E m)"
    and "0 \<le> fst (snd (bo_size (mv_body m))) * snd (snd (bo_size (mv_body m)))"
  shows "stays_out intersect_tolerance E (bounding_box E (try_collisions E jp m))"
proof -
  have F: "se_flt E = real_flt" and L: "box_laws (se_box E)" and O: "\<not> se_old_version E"
    using W by (auto simp: exact_world_def)
  obtain u bb st cv m0 where r: "try_collisions E jp m = settle E st (mv_vel m) bb cv m0"
    "bb = shift_box u (bounding_box E m)" "stays_out intersect_tolerance E bb" "bo_size (mv_body m0) = bo_size (mv_body m)"
  proof (cases "try_collisions E jp m = settle E False (mv_vel m) (cd_box (collide E jp m)) (cd_vel (collide E jp m))
      (set_penetrated_last_frame (fl_le (se_flt E) (fl_lit (se_flt E) 0.000000000009999999999999999)
          (len_sqr3 (se_flt E) (cd_pen (collide E jp m))))
        (set_stuck_in_collider (ct_penetrated (mv_contacts m) \<and> fl_le (se_flt E) (fl_lit (se_flt E) 0.000000000009999999999999999)
          (len_sqr3 (se_flt E) (cd_pen (collide E jp m)))) m))")
    case True
    with collide_stays_out[OF W assms(2), of jp] that show ?thesis by fastforce
  next
    case False
    let ?m0 = "set_penetrated_last_frame (fl_le (se_flt E) (fl_lit (se_flt E) 0.000000000009999999999999999)
          (len_sqr3 (se_flt E) (cd_pen (collide E jp m))))
        (set_stuck_in_collider (ct_penetrated (mv_contacts m) \<and> fl_le (se_flt E) (fl_lit (se_flt E) 0.000000000009999999999999999)
          (len_sqr3 (se_flt E) (cd_pen (collide E jp m)))) m)"
    from False obtain bb sv where st: "try_step E (cd_boxes (collide E jp m)) (ct_stuck (mv_contacts m)) ?m0
        (cd_vel (collide E jp m)) (box_pos (se_flt E) (cd_box (collide E jp m))) = Some (bb, sv)"
      and eq: "try_collisions E jp m = settle E (se_old_version E) (mv_vel m) bb sv ?m0"
      using O by (auto simp: try_collisions_def Let_def split: if_splits option.splits prod.splits)
    have "bounding_box E ?m0 = bounding_box E m" by (rule bounding_box_cong[OF _ _ O]) simp_all
    with try_step_out[OF W st] eq that show ?thesis by fastforce
  qed
  have "bounding_box E (try_collisions E jp m) = shift_box u (bounding_box E m)"
    by (rule bounding_box_moved[OF F L O assms(3)])
      (simp_all add: r(1) settle_place[OF O] r(2,4) F)
  with r show ?thesis by simp
qed

end
