(* ===== verification/SimFrames.thy ===== *)
theory SimFrames
  imports SimProps
begin

text \<open>
  Whole frames of the simulation of a player's movement: a frame leaves the player out of the blocks, every
  frame ends when the numbers are exact, and the frames that simulate nothing do not move the player.
\<close>

section \<open>Steps that leave the player in place\<close>

definition in_place :: "'f mv \<Rightarrow> 'f mv \<Rightarrow> bool" where
  "in_place m m' \<longleftrightarrow> mv_pos m' = mv_pos m \<and> bo_size (mv_body m') = bo_size (mv_body m)"

lemma in_place_refl: "in_place m m" by (simp add: in_place_def)

lemma in_place_trans: "in_place m m' \<Longrightarrow> in_place m' m'' \<Longrightarrow> in_place m m''"
  by (simp add: in_place_def)

lemma in_place_if: "in_place m a \<Longrightarrow> in_place m b \<Longrightarrow> in_place m (if c then a else b)" by simp
lemma in_place_set_vel: "in_place m (set_vel v m)" by (simp add: in_place_def)
lemma in_place_set_vel': "in_place m m' \<Longrightarrow> in_place m (set_vel v m')" by (simp add: in_place_def)
lemma in_place_set_mov: "in_place m (set_mov v m)" by (simp add: in_place_def)
lemma in_place_gliding: "in_place m (set_gliding b m)" by (simp add: in_place_def set_gliding_def)
lemma in_place_ground: "in_place m (set_on_ground b m)" by (simp add: in_place_def set_on_ground_def)
lemma in_place_clear: "in_place m (clear_penetration m)" by (simp add: in_place_def clear_penetration_def)

lemmas in_place_ways = in_place_if in_place_set_vel in_place_set_vel' in_place_refl

lemma in_place_knockback: "in_place m (snd (attempt_knockback m))"
  by (cases "has_knockback m") (simp_all only: attempt_knockback_def if_True if_False snd_conv in_place_ways)
lemma in_place_relative: "in_place m (move_relative F sp m)"
  unfolding move_relative_def Let_def by (simp only: case_prod_unfold) (intro in_place_ways)
lemma in_place_jump: "in_place m (snd (snd (attempt_jump E ask m)))"
  unfolding attempt_jump_def Let_def by (simp add: in_place_def set_jump_delay_def)
lemma in_place_climb: "in_place m (climb E m)"
  unfolding climb_def Let_def by (intro in_place_ways)
lemma in_place_cobweb: "in_place m (cobweb_slow F m)"
  unfolding cobweb_slow_def Let_def by (intro in_place_ways)
lemma in_place_walk: "in_place m (walk_on_block E b m)"
  unfolding walk_on_block_def Let_def by (intro in_place_ways)
lemma in_place_land: "in_place m (land_on_block E old b m)"
  unfolding land_on_block_def Let_def by (intro in_place_ways)
lemma in_place_post: "in_place m (set_post_collision_motion E old g b m)"
  unfolding set_post_collision_motion_def Let_def by (intro in_place_ways in_place_land)
lemma in_place_end: "in_place m (end_of_frame E fr m)"
  unfolding end_of_frame_def Let_def by (intro in_place_ways)

lemmas in_place_steps = in_place_refl in_place_set_vel in_place_set_mov in_place_gliding in_place_ground
  in_place_clear in_place_knockback in_place_relative in_place_jump in_place_climb in_place_cobweb
  in_place_walk in_place_post in_place_end

lemmas in_place_then = in_place_steps(2-14) [THEN in_place_trans [rotated]]

lemma avoid_edge_place: "avoid_edge E m = Some m' \<Longrightarrow> in_place m m'"
  by (auto simp: avoid_edge_def in_place_def Let_def split: if_splits option.splits)

lemma in_place_box:
  "in_place m m' \<Longrightarrow> \<not> se_old_version E \<Longrightarrow> bounding_box E m' = bounding_box E m"
  unfolding in_place_def by (rule bounding_box_cong) simp_all

definition tall :: "real mv \<Rightarrow> bool" where
  "tall m \<longleftrightarrow> 0 \<le> fst (snd (bo_size (mv_body m))) * snd (snd (bo_size (mv_body m)))"

section \<open>Out of the blocks\<close>

lemma move_frame_place:
  assumes "move_frame E web jp fr m = Some m'"
  obtains m1 where "in_place m m1" "in_place (try_collisions E jp m1) m'"
proof -
  from assms obtain m1 where a: "avoid_edge E m = Some m1" by (auto simp: move_frame_def split: option.splits)
  have "in_place (try_collisions E jp m1) m'"
    unfolding assms[unfolded move_frame_def a option.case Let_def option.inject, symmetric]
    by (intro in_place_if in_place_then in_place_refl)
  with that avoid_edge_place[OF a] show thesis by blast
qed

lemma in_place_out:
  assumes "in_place m m'" "\<not> se_old_version E"
  shows "stays_out d E (bounding_box E m') = stays_out d E (bounding_box E m)" "tall m' = tall m"
  using in_place_box[OF assms] assms(1) by (simp_all only: tall_def in_place_def)

lemma collisions_out:
  assumes "exact_world E" "stays_out tolerance E (bounding_box E m)" "tall m"
    and "in_place m m1" "in_place (try_collisions E jp m1) m'"
  shows "stays_out intersect_tolerance E (bounding_box E m')"
proof -
  have O: "\<not> se_old_version E" using assms(1) by (simp add: exact_world_def)
  note start = in_place_out[OF assms(4) O]
  have "stays_out intersect_tolerance E (bounding_box E (try_collisions E jp m1))"
    using try_collisions_out[OF assms(1), of m1 jp] assms(2,3) start by (simp add: tall_def)
  then show ?thesis by (simp only: in_place_out(1)[OF assms(5) O])
qed

text \<open>The three ways a frame without a teleport goes.\<close>
lemma simulated_ways:
  assumes "\<not> has_teleport m" "simulation_is_reliable E m" "simulate_player_movement E m = Some m'"
  obtains (frozen) "in_place m m'"
    | (moved) m1 jp where "in_place m m1" "in_place (try_collisions E jp m1) m'"
proof -
  have t: "attempt_teleport E m = (False, m)" using assms(1) by (simp add: attempt_teleport_def)
  let ?F = "se_flt E"
  define m1 where "m1 = (if fl_less ?F (len_sqr3 ?F (mv_vel m)) (fl_lit ?F 0.000000000001) then set_vel (zero3 ?F) m else m)"
  define fs where "fs = friction_and_speed E (block_at E (sub3 ?F (mv_pos m1) (y_only ?F (fl_lit ?F 0.5)))) m1"
  define j where "j = attempt_jump E True (move_relative ?F (snd fs) (snd (attempt_knockback (set_gliding False m1))))"
  define c where "c = climb E (snd (snd j))"
  define w where "w = (if is_inside_cobweb E c then cobweb_slow ?F c else c)"
  have m1: "in_place m m1" unfolding m1_def by (intro in_place_ways)
  have w: "in_place m w" unfolding w_def c_def j_def by (intro in_place_if in_place_then m1)
  consider "m' = set_vel (zero3 ?F) (clear_penetration m)"
    | "m' = (let m2 = simulate_glide E (set_on_ground False m1) in set_mov (mv_vel m2) m2)"
    | "move_frame E (is_inside_cobweb E c) (fst (snd j)) (fst fs) w = Some m'"
    using assms(2,3) t unfolding simulate_player_movement_def w_def c_def j_def fs_def m1_def
    by (simp add: Let_def case_prod_unfold split: if_splits)
  then show thesis
  proof cases
    case 1
    have "in_place m m'" unfolding 1 by (intro in_place_then in_place_refl)
    then show thesis by (rule frozen)
  next
    case 2
    let ?g = "set_on_ground False m1"
    let ?v = "set_vel (glide_velocity ?F (bo_rotation (mv_body ?g)) (0 < sn_glide_boost (mv_stance ?g)) (mv_vel ?g)) ?g"
    show thesis
    proof (rule moved)
      show "in_place m ?v" by (intro in_place_then m1)
      show "in_place (try_collisions E False ?v) m'"
        unfolding 2 simulate_glide_def Let_def by (intro in_place_then in_place_refl)
    qed
  next
    case 3
    then show thesis by (elim move_frame_place) (blast intro: moved in_place_trans[OF w])
  qed
qed

text \<open>C2: in exact numbers, a player that is simulated (no teleport, a scenario that the simulation supports) and
  whose box is apart from every block box is, after the frame, apart from all of them, up to the
  tolerance of the box library: no input moves a player into a block.\<close>
theorem simulated_player_stays_out:
  assumes "exact_world E" "stays_out tolerance E (bounding_box E m)" "tall m"
    and "\<not> has_teleport m" "simulation_is_reliable E m" "simulate_player_movement E m = Some m'"
  shows "stays_out intersect_tolerance E (bounding_box E m')"
  using assms(4-6)
proof (cases rule: simulated_ways)
  case frozen
  have "tolerance \<le> intersect_tolerance" by (simp add: tolerance_def intersect_tolerance_def)
  with assms(2) have "stays_out intersect_tolerance E (bounding_box E m)"
    unfolding stays_out_def by (blast intro: apart_mono)
  with assms(1) show ?thesis by (simp add: in_place_out[OF frozen] exact_world_def)
next
  case (moved m1 jp)
  with assms(1-3) show ?thesis by (rule collisions_out)
qed

section \<open>A frame ends\<close>

lemma edge_shrink_real:
  "edge_shrink real_flt a = (if - 0.05 \<le> a \<and> a < 0.05 then 0 else if 0 < a then a - 0.05 else a + 0.05)"
  by (simp add: edge_shrink_def real_flt_def)

lemma edge_shrink_less: "edge_shrink real_flt a \<noteq> 0 \<Longrightarrow> \<bar>edge_shrink real_flt a\<bar> = \<bar>a\<bar> - 0.05"
  by (auto simp: edge_shrink_real split: if_splits)

lemma edge_shrink_zero: "\<bar>a\<bar> \<le> 0.05 * n \<Longrightarrow> edge_shrink real_flt a \<noteq> 0 \<Longrightarrow> \<bar>edge_shrink real_flt a\<bar> \<le> 0.05 * (n - 1)"
  by (simp add: edge_shrink_less algebra_simps)

lemma edge_loop_bounded:
  "\<bar>a\<bar> \<le> 0.05 * real n \<Longrightarrow> \<exists>x. edge_loop real_flt near a = Some x"
proof (induction n arbitrary: a)
  case 0
  then show ?case by (subst edge_loop.simps) simp
next
  case (Suc n)
  have "\<bar>edge_shrink real_flt a\<bar> \<le> 0.05 * real n"
    using edge_shrink_zero[OF Suc.prems] by (cases "edge_shrink real_flt a = 0") simp_all
  from Suc.IH[OF this] show ?case by (subst edge_loop.simps) simp
qed

lemma edge_loop2_bounded:
  "\<bar>a\<bar> \<le> 0.05 * real n \<Longrightarrow> \<exists>x. edge_loop2 real_flt near a b = Some x"
proof (induction n arbitrary: a b)
  case 0
  then show ?case by (subst edge_loop2.simps) simp
next
  case (Suc n)
  have "\<bar>edge_shrink real_flt a\<bar> \<le> 0.05 * real n"
    using edge_shrink_zero[OF Suc.prems] by (cases "edge_shrink real_flt a = 0") simp_all
  from Suc.IH[OF this] show ?case by (subst edge_loop2.simps) simp
qed

lemma steps_bound: "\<exists>n. \<bar>a\<bar> \<le> 0.05 * real n"
proof -
  obtain n where "20 * \<bar>a\<bar> \<le> real n" using real_arch_simple by blast
  then show ?thesis by (intro exI[of _ n]) simp
qed

lemma edge_loops_end:
  "\<exists>x. edge_loop real_flt near a = Some x" "\<exists>x. edge_loop2 real_flt near2 a b = Some x"
  using steps_bound edge_loop_bounded edge_loop2_bounded by meson+

lemma avoid_edge_ends: "se_flt E = real_flt \<Longrightarrow> \<exists>m'. avoid_edge E m = Some m'"
proof -
  assume F: "se_flt E = real_flt"
  define near where "near = (\<lambda>a b. any_near_box E (bl_translate (se_box E) (a, - 0.6 * 1.01, b)
      (bl_grow_vec (se_box E) (- 0.025, 0, - 0.025) (bounding_box E m))))"
  obtain a where a: "edge_loop real_flt (\<lambda>a. near a 0) (vx (mv_vel m)) = Some a" using edge_loops_end(1) by blast
  obtain b where b: "edge_loop real_flt (\<lambda>b. near 0 b) (vz (mv_vel m)) = Some b" using edge_loops_end(1) by blast
  obtain c where c: "edge_loop2 real_flt near a b = Some c" using edge_loops_end(2) by blast
  show ?thesis using a b c unfolding avoid_edge_def near_def Let_def F by (auto split: prod.splits)
qed

text \<open>C13: in exact numbers a simulated frame always ends, whatever the player's velocity: the loops that keep
  a sneaking player from walking off an edge take at most one step per 0.05 blocks of velocity.\<close>
theorem frame_ends: "\<exists>m'. simulate_player_movement (E\<lparr>se_flt := real_flt\<rparr>) m = Some m'"
proof -
  have "\<exists>m'. move_frame (E\<lparr>se_flt := real_flt\<rparr>) w jp fr m1 = Some m'" for w jp fr m1
    using avoid_edge_ends[of "E\<lparr>se_flt := real_flt\<rparr>" m1] by (auto simp: move_frame_def Let_def)
  then show ?thesis unfolding simulate_player_movement_def Let_def by (simp split: prod.split bool.split)
qed

text \<open>A number that the loop's subtraction does not change keeps the loop going for ever.\<close>
lemma edge_loop_stuck:
  assumes "edge_shrink F a = a" "\<not> fl_eq F a (fl_lit F 0)" "\<not> near a"
  shows "edge_loop F near a = None"
proof -
  define P where "P = (\<lambda>F' near' b (r::'a). F' = F \<longrightarrow> near' = near \<longrightarrow> b \<noteq> a)"
  have "P F' near' b r" if "edge_loop F' near' b = Some r" for F' near' b r
  proof (rule edge_loop.raw_induct[where P = P, OF _ that])
    fix f F' near' b r
    assume IH: "\<And>F near a r. f F near a = Some r \<Longrightarrow> P F near a r"
      and eq: "(if \<not> fl_eq F' b (fl_lit F' 0) \<and> \<not> near' b then f F' near' (edge_shrink F' b) else Some b) = Some r"
    show "P F' near' b r" unfolding P_def
    proof (intro impI notI)
      assume e: "F' = F" "near' = near" "b = a"
      with eq assms have "f F near a = Some r" by simp
      from IH[OF this] show False by (simp add: P_def)
    qed
  qed
  then have "edge_loop F near a \<noteq> Some r" for r unfolding P_def by blast
  then show ?thesis by (cases "edge_loop F near a") auto
qed


text \<open>Numbers of 24 significant bits between \<^verbatim>\<open>2^20\<close> and \<^verbatim>\<open>2^21\<close>: differences are rounded to eighths.\<close>
definition eighths_flt :: "real flt" where
  "eighths_flt = real_flt\<lparr>fl_sub := \<lambda>a b. of_int \<lfloor>(a - b) * 8 + 1/2\<rfloor> / 8\<rparr>"

definition unit_model :: "int \<Rightarrow> bpos \<Rightarrow> (bpos \<Rightarrow> int) \<Rightarrow> real bbox list" where
  "unit_model b p src = (if b = 0 then [] else [((0, 0, 0), (1, 1, 1))])"

text \<open>Blocks are numbers: 0 is air, every other one is a full block of stone.\<close>
definition stone_blocks :: "(real, int) block_lib" where
  "stone_blocks = \<lparr>bk_hash = \<lambda>b. (1, word_of_int b), bk_world_hash = word_of_int,
     bk_encode_name = \<lambda>b. if b = 0 then ''minecraft:air'' else ''minecraft:stone'', bk_registered = [],
     bk_friction = \<lambda>_. None, bk_is_air = \<lambda>b. b = 0, bk_is_liquid = \<lambda>_. False, bk_is_ladder = \<lambda>_. False,
     bk_is_fence = \<lambda>_. False, bk_is_fence_gate = \<lambda>_. False, bk_is_wall = \<lambda>_. False, bk_is_iron_bars = \<lambda>_. False,
     bk_model_boxes = unit_model, bk_iron_bars_boxes = \<lambda>_ _. [], bk_fallback_boxes = \<lambda>_. []\<rparr>"

definition real_boxes :: "real box_lib" where
  "real_boxes = \<lparr>
     bl_box = \<lambda>a b. ((min (vx a) (vx b), min (vy a) (vy b), min (vz a) (vz b)),
                     (max (vx a) (vx b), max (vy a) (vy b), max (vz a) (vz b))),
     bl_translate = shift_box,
     bl_grow = \<lambda>x b. (sub3 real_flt (bb_min b) (x, x, x), add3 real_flt (bb_max b) (x, x, x)),
     bl_grow_vec = \<lambda>v b. (sub3 real_flt (bb_min b) v, add3 real_flt (bb_max b) v),
     bl_extend = \<lambda>v b. (add3 real_flt (bb_min b) (min 0 (vx v), min 0 (vy v), min 0 (vz v)),
                        add3 real_flt (bb_max b) (max 0 (vx v), max 0 (vy v), max 0 (vz v))),
     bl_extend_down = \<lambda>x b. (sub3 real_flt (bb_min b) (0, x, 0), bb_max b),
     bl_intersects = \<lambda>a b. \<not> apart intersect_tolerance a b,
     bl_within = \<lambda>b v. \<forall>i<3. vget i (bb_min b) < vget i v \<and> vget i v < vget i (bb_max b),
     bl_intercept = \<lambda>_ _ _. None,
     bl_pos_of = \<lambda>v. (\<lfloor>vx v\<rfloor>, \<lfloor>vy v\<rfloor>, \<lfloor>vz v\<rfloor>)\<rparr>"

text \<open>A world with one block of stone.\<close>
definition stone_world :: "real flt \<Rightarrow> (bpos \<Rightarrow> int) \<Rightarrow> (real, int) sim_env" where
  "stone_world F src = \<lparr>se_flt = F, se_box = real_boxes, se_blocks = stone_blocks, se_src = src,
     se_chunk_loaded = \<lambda>_. True, se_old_version = False, se_survival_or_adventure = True, se_alive = True,
     se_ready = True, se_elytra = False, se_levitation = None, se_velocity_limit = None, se_correction_threshold = 0.3\<rparr>"

definition edge_player :: "real mv" where
  "edge_player = (let m = set_vel (1048576, 0, 0) (new_movement real_flt)
     in m\<lparr>mv_stance := (mv_stance m)\<lparr>sn_sneaking := True, sn_on_ground := True\<rparr>\<rparr>)"

lemma edge_player_fields:
  "mv_vel edge_player = (1048576, 0, 0)" "mv_sneaking edge_player" "mv_on_ground edge_player"
  by (simp_all add: edge_player_def Let_def set_vel_def)

lemma stone_world_fields [simp]:
  "se_flt (stone_world F src) = F" "se_box (stone_world F src) = real_boxes"
  "se_blocks (stone_world F src) = stone_blocks" "se_src (stone_world F src) = src"
  "\<not> se_old_version (stone_world F src)"
  by (simp_all add: stone_world_def)

lemma no_boxes_of_air: "\<not> any_near_box (stone_world F (\<lambda>_. 0)) bb"
  by (simp add: any_near_box_def has_nearby_iff nearby_bboxes_def scan_nearby_bboxes_def Let_def
      block_boxes_at_def block_collisions_def stone_blocks_def unit_model_def unknown_block_def max_uint64_def)

lemma eighths_stuck: "edge_shrink eighths_flt 1048576 = 1048576"
proof -
  have "\<lfloor>(1048576 - 0.05) * 8 + 1/2 :: real\<rfloor> = 8388608" by (simp add: floor_eq_iff)
  then show ?thesis by (simp add: edge_shrink_def eighths_flt_def real_flt_def)
qed


section \<open>A world with one block\<close>

lemma real_boxes_laws: "box_laws real_boxes"
proof -
  have three: "i < 3 \<Longrightarrow> i = 0 \<or> i = 1 \<or> i = (2::nat)" for i by auto
  have "\<not> apart 0 a b" if "\<not> apart intersect_tolerance a b" for a b
    using that apart_mono[of 0 a b intersect_tolerance] by (auto simp: intersect_tolerance_def)
  then show ?thesis
    by (auto simp: box_laws_def real_boxes_def vget_def dest!: three)
qed

definition one_block :: "bpos \<Rightarrow> int" where "one_block p = (if p = (0, 0, 0) then 1 else 0)"

lemma stone_names [simp]: "block_name stone_blocks b = (if b = 0 then ''minecraft:air'' else ''minecraft:stone'')"
  by (simp add: block_name_def initialize_block_name_mapping_def stone_blocks_def)

lemma stone_liquid [simp]: "\<not> bk_is_liquid stone_blocks b" by (simp add: stone_blocks_def)

lemma stone_boxes_at:
  "block_boxes_at real_flt real_boxes stone_blocks src p = (if src p = 0 then [] else [shift_box (vec_of_pos real_flt p) ((0, 0, 0), (1, 1, 1))])"
  by (simp add: block_boxes_at_def block_collisions_def stone_blocks_def unknown_block_def unit_model_def
      real_boxes_def max_uint64_def)

lemma shift_none: "shift_box (0, 0, 0) b = b"
  by (cases b rule: prod.exhaust) (simp add: shift_box_def add3_def split: prod.splits)

lemma origin_vec: "vec_of_pos real_flt (0, 0, 0) = (0, 0, 0)"
  by (simp add: vec_of_pos_def real_flt_def)

lemma one_block_solid: "solid (stone_world real_flt one_block) = {((0, 0, 0), (1, 1, 1))}"
proof -
  have boxes: "block_boxes_at real_flt real_boxes stone_blocks one_block p = (if p = (0, 0, 0) then [((0, 0, 0), (1, 1, 1))] else [])" for p
    by (simp add: stone_boxes_at one_block_def shift_none origin_vec)
  have "\<not> can_pass_block stone_blocks b" for b by (simp add: can_pass_block_def)
  then show ?thesis by (simp add: solid_def boxes)
qed

lemma vget_same [simp]: "vget i (a, a, a) = a" by (simp add: vget_def)

lemma one_block_exact: "exact_world (stone_world real_flt one_block)"
  by (auto simp: exact_world_def real_boxes_laws boxes_near_blocks_def stone_boxes_at one_block_solid
      bb_has_zero_volume_def eq3_def)

definition falling_player :: "real mv" where
  "falling_player = (let m = set_size (0.6, 1.8, 1) (set_pos (0.5, 2, 0.5) (set_vel (0, -1, 0) (new_movement real_flt)))
     in m\<lparr>mv_tp := (mv_tp m)\<lparr>tp_since := 1\<rparr>\<rparr>)"

lemma falling_player_fields:
  "mv_pos falling_player = (0.5, 2, 0.5)" "bo_size (mv_body falling_player) = (0.6, 1.8, 1)"
  "\<not> has_teleport falling_player" "\<not> ct_no_clip (mv_contacts falling_player)"
  "\<not> fy_flying (mv_flight falling_player)" "\<not> fy_just_disabled (mv_flight falling_player)"
  by (simp_all add: falling_player_def Let_def set_vel_def set_pos_def set_size_def has_teleport_def new_movement_def)

lemma falling_player_box: "bounding_box (stone_world real_flt src) falling_player = ((0.2001, 2, 0.2001), (0.7999, 3.8, 0.7999))"
  by (simp add: bounding_box_def falling_player_fields real_boxes_def Let_def sub3_def add3_def)

text \<open>A player two blocks up falls towards the block for one frame, and is outside of it.\<close>
lemma simulated_player_stays_out_witness:
  "\<exists>m'. simulate_player_movement (stone_world real_flt one_block) falling_player = Some m'
     \<and> stays_out intersect_tolerance (stone_world real_flt one_block) (bounding_box (stone_world real_flt one_block) m')"
proof -
  let ?E = "stone_world real_flt one_block"
  obtain m' where s: "simulate_player_movement ?E falling_player = Some m'"
    using frame_ends[of ?E falling_player] by (auto simp: stone_world_def)
  have "stays_out intersect_tolerance ?E (bounding_box ?E m')"
  proof (rule simulated_player_stays_out[OF one_block_exact _ _ _ _ s])
    show "stays_out tolerance ?E (bounding_box ?E falling_player)"
      by (simp add: stays_out_def one_block_solid falling_player_box apart_def vget_def tolerance_def
          exI[of _ "1::nat"])
    show "tall falling_player" by (simp add: tall_def falling_player_fields)
    show "\<not> has_teleport falling_player" by (rule falling_player_fields)
    have "(\<lambda>(b, pos). bk_is_liquid stone_blocks b \<and> bl_intersects real_boxes bb (unit_box_at ?E pos)
       \<or> block_name stone_blocks b = ''minecraft:bamboo'') = (\<lambda>_. False)" for bb
      by (auto simp: fun_eq_iff)
    then show "simulation_is_reliable ?E falling_player"
      unfolding simulation_is_reliable_def Let_def
      by (simp add: falling_player_fields list_ex_iff) (simp add: stone_world_def)
  qed
  with s show ?thesis by blast
qed

end
