(* ===== verification/HandleMovement.thy ===== *)
theory HandleMovement
  imports SimFrames Session
begin

text \<open>
  The handling of a movement input: \<^verbatim>\<open>handleMovement\<close> of \<^verbatim>\<open>src/player/movement.go\<close>,
  which runs the simulation on the player's session, corrects the client or accepts what it says, and
  decides the position the server is told.
\<close>

section \<open>The simulation of a session\<close>

record 'f move_opts =
  mo_correction :: 'f
  mo_accept_pos :: bool
  mo_pos_threshold :: 'f
  mo_accept_vel :: bool
  mo_vel_threshold :: 'f
  mo_persuasion :: 'f
  mo_velocity_limit :: "'f option"

text \<open>The libraries and the protocol constants that the simulation uses.\<close>
record ('f, 's, 'b) sim_lib =
  sl_box :: "'f box_lib"
  sl_blocks :: "('f, 'b) block_lib"
  sl_is_elytra :: "'s \<Rightarrow> bool"
  sl_old_version :: bool
  sl_new_version :: bool
  sl_levitation :: int
  sl_jump_boost :: int
  sl_slow_falling :: int
  sl_survival :: int
  sl_adventure :: int
  sl_opts :: "'f move_opts"

definition effect_level :: "int \<Rightarrow> effects \<Rightarrow> int option" where
  "effect_level i ec = (case effects_get i ec of (e, ok) \<Rightarrow> if ok then Some (ef_amplifier e) else None)"

text \<open>What the simulation reads of a session; reading a block may add an empty map of updates, which is left out.\<close>
definition sim_env_of ::
  "('f, 's, 'n, 'h, 'c, 'sc, 'd, 'b) pl_env \<Rightarrow> ('f, 's, 'b) sim_lib \<Rightarrow> ('h, 'c, 'sc) shared
   \<Rightarrow> ('f, 's, 'n, 'h, 'b, 'm) pl \<Rightarrow> ('f, 'b) sim_env" where
  "sim_env_of E SL s p =
    \<lparr>se_flt = en_flt E, se_box = sl_box SL, se_blocks = sl_blocks SL,
     se_src = \<lambda>pos. fst (world_block (en_ops E) s pos (pl_world p)),
     se_chunk_loaded = \<lambda>c. world_chunk c (pl_world p) \<noteq> None,
     se_old_version = sl_old_version SL,
     se_survival_or_adventure = (pl_game_mode p = sl_survival SL \<or> pl_game_mode p = sl_adventure SL),
     se_alive = pl_alive p, se_ready = pl_ready p,
     se_elytra = (case win_slot (pl_windows p) WArmour 1 of Inr i \<Rightarrow> sl_is_elytra SL i | Inl _ \<Rightarrow> False),
     se_levitation = effect_level (sl_levitation SL) (pl_effects p),
     se_velocity_limit = mo_velocity_limit (sl_opts SL),
     se_correction_threshold = mo_correction (sl_opts SL)\<rparr>"

definition mv_player_of ::
  "('f, 's, 'b) sim_lib \<Rightarrow> ('f, 's, 'n, 'h, 'b, 'm) pl \<Rightarrow> mv_player" where
  "mv_player_of SL p =
    \<lparr>mp_new_version = sl_new_version SL, mp_consuming = (pl_consume_tick p \<noteq> 0),
     mp_jump_boost = effect_level (sl_jump_boost SL) (pl_effects p),
     mp_slow_falling = (effect_level (sl_slow_falling SL) (pl_effects p) \<noteq> None)\<rparr>"

text \<open>The component just before the simulation; and the update, which does not end when the simulation does not.\<close>
definition before_simulation :: "'f flt \<Rightarrow> mv_player \<Rightarrow> 'f auth_input \<Rightarrow> 'f mv \<Rightarrow> 'f mv" where
  "before_simulation F P pk m = update_controls F P pk (update_sprint_step F P pk (update_start F pk m))"

definition simulated_update ::
  "('f, 'b) sim_env \<Rightarrow> mv_player \<Rightarrow> 'f auth_input \<Rightarrow> 'f mv \<Rightarrow> (bool \<times> 'f mv) option" where
  "simulated_update SE P pk m =
    (case simulate_player_movement SE (before_simulation (se_flt SE) P pk m) of
       None \<Rightarrow> None
     | Some m' \<Rightarrow> Some (mv_update (se_flt SE) (\<lambda>_. m') P pk m))"

section \<open>Correcting the client, or accepting what it says\<close>

definition pos_diff :: "'f flt \<Rightarrow> 'f mv \<Rightarrow> 'f vec3" where
  "pos_diff F m = sub3 F (mv_pos m) (cm_pos (mv_client m))"

definition vel_diff :: "'f flt \<Rightarrow> 'f mv \<Rightarrow> 'f vec3" where
  "vel_diff F m = sub3 F (mv_vel m) (cm_vel (mv_client m))"

definition needs_correction :: "'f flt \<Rightarrow> 'f move_opts \<Rightarrow> 'f mv \<Rightarrow> bool" where
  "needs_correction F Op m \<longleftrightarrow> fl_less F (mo_correction Op) (len3 F (pos_diff F m))"

text \<open>A step of the position towards the client's, at most the threshold on an axis.\<close>
definition persuade :: "'f flt \<Rightarrow> 'f move_opts \<Rightarrow> 'f vec3 \<Rightarrow> 'f mv \<Rightarrow> 'f mv" where
  "persuade F Op d m =
    (let t = mo_persuasion Op; cl = (\<lambda>a. clamp_float F a (fl_neg F t) t)
     in if fl_less F (fl_lit F 0) t
        then set_pos (sub3 F (mv_pos m) (cl (vx d), fl_lit F 0, cl (vz d))) m else m)"

definition accept_client :: "'f flt \<Rightarrow> 'f move_opts \<Rightarrow> 'f mv \<Rightarrow> 'f mv" where
  "accept_client F Op m =
    (let vd = vel_diff F m;
         take_pos = (mo_accept_pos Op \<and> fl_less F (len3 F (pos_diff F m)) (mo_pos_threshold Op));
         pd = (if take_pos then zero3 F else pos_diff F m);
         m = (if take_pos then set_pos (cm_pos (mv_client m)) m else m);
         m = (if mo_accept_vel Op \<and> fl_less F (len3 F vd) (mo_vel_threshold Op)
              then set_vel (cm_vel (mv_client m)) m else m)
     in persuade F Op pd m)"

text \<open>The acceptance after a frame that needs no correction.\<close>
definition settle_client :: "('f, 'b) sim_env \<Rightarrow> 'f move_opts \<Rightarrow> 'f mv \<Rightarrow> 'f mv" where
  "settle_client SE Op m =
    (let cooldown = in_cooldown (mv_inputs m); m = set_correction_cooldown False m
     in if \<not> cooldown \<and> tp_pending (mv_tp m) = 0 \<and> \<not> ct_immobile (mv_contacts m)
           \<and> any_near_box SE (bounding_box SE m) = any_near_box SE (client_bounding_box SE m)
        then accept_client (se_flt SE) Op m else m)"

text \<open>The blocks that \<^verbatim>\<open>SyncWorld\<close> visits.\<close>
definition sync_positions :: "'f flt \<Rightarrow> 'f vec3 \<Rightarrow> bpos list" where
  "sync_positions F p =
    (let range = (\<lambda>a. [floor_int F (fl_sub F a (fl_lit F 0.05))..fl_to_int F (fl_add F a (fl_lit F 0.05))])
     in [(x, y, z). x \<leftarrow> range (vx p), y \<leftarrow> range (vy p), z \<leftarrow> range (vz p)])"

definition reconcile ::
  "('f, 's, 'n, 'h, 'c, 'sc, 'd, 'b) pl_env \<Rightarrow> ('f, 'b) sim_env \<Rightarrow> 'f move_opts \<Rightarrow> bool \<Rightarrow> bool \<Rightarrow> bool
   \<Rightarrow> ('f, 's, 'n, 'h, 'b, 'm) pl \<Rightarrow> ('f, 's, 'n, 'h, 'b, 'm) pl" where
  "reconcile E SE Op had_teleport had_knockback jump_raw p =
    (let m = pl_mv p; F = en_flt E; wrong = needs_correction F Op m
     in if wrong \<and> tp_pending (mv_tp m) = 0 \<and> \<not> had_teleport \<and> \<not> jump_raw \<and> \<not> had_knockback
        then movement_sync E (sync_positions F (mv_pos m)) p
        else if \<not> wrong \<and> \<not> had_teleport \<and> \<not> had_knockback \<and> in_corrections (mv_inputs m) = 0
        then p\<lparr>pl_mv := settle_client SE Op m\<rparr>
        else p)"

text \<open>The position the packet carries on to the server.\<close>
definition final_pos :: "'f flt \<Rightarrow> 'f mv \<Rightarrow> 'f vec3" where
  "final_pos F m = add3 F (if 0 < tp_pending (mv_tp m) then tp_pending_pos (mv_tp m) else mv_pos m)
     (fl_lit F 0, fl_lit F 1.621, fl_lit F 0)"

section \<open>The handler\<close>

record ('f, 's, 'n, 'h, 'b, 'm, 'c, 'sc) frame =
  fr_tick :: "64 word"
  fr_inputs :: int
  fr_shared :: "('h, 'c, 'sc) shared"
  fr_pl :: "('f, 's, 'n, 'h, 'b, 'm) pl"

record 'f handled =
  ha_knockback :: bool
  ha_position :: "'f vec3"

text \<open>
  The orders are those of the chunks' and the effects' maps; \<^verbatim>\<open>nan\<close> is what a chunk distance that is no
  number converts to.
\<close>
definition handle_movement ::
  "('f, 's, 'n, 'h, 'c, 'sc, 'd, 'b) pl_env \<Rightarrow> ('f, 's, 'b) sim_lib \<Rightarrow> int \<Rightarrow> cpos list \<Rightarrow> int list
   \<Rightarrow> 64 word \<Rightarrow> 'f auth_input \<Rightarrow> ('f, 's, 'n, 'h, 'b, 'm, 'c, 'sc) frame
   \<Rightarrow> ('f handled \<times> ('f, 's, 'n, 'h, 'b, 'm, 'c, 'sc) frame) option" where
  "handle_movement E SL nan chunk_order effect_order tick pk f =
    (let p = fr_pl f; F = en_flt E; Op = sl_opts SL;
         p = p\<lparr>pl_client_tick := pl_client_tick p + 1\<rparr>;
         had_tp = has_teleport (pl_mv p); had_kb = has_knockback (pl_mv p);
         (s, w) = clean_chunks nan chunk_order (wu_radius (pl_wu p)) (chunk_of_vec F (mv_pos (pl_mv p))) (fr_shared f, pl_world p);
         p = p\<lparr>pl_world := w, pl_effects := effects_tick effect_order (pl_effects p)\<rparr>;
         SE = sim_env_of E SL s p
     in case simulated_update SE (mv_player_of SL p) pk (pl_mv p) of
          None \<Rightarrow> None
        | Some (kb, m) \<Rightarrow>
            let p = reconcile E SE Op had_tp had_kb (ai_flags pk FJumpPressedRaw) (p\<lparr>pl_mv := m\<rparr>)
            in Some (\<lparr>ha_knockback = kb, ha_position = final_pos F (pl_mv p)\<rparr>,
                     \<lparr>fr_tick = tick, fr_inputs = fr_inputs f + 1, fr_shared = s, fr_pl = p\<rparr>))"

section \<open>What the simulation leaves alone\<close>

definition keeps :: "'f mv \<Rightarrow> 'f mv \<Rightarrow> bool" where
  "keeps m m' \<longleftrightarrow> mv_tp m' = mv_tp m \<and> mv_flight m' = mv_flight m \<and> mv_speeds m' = mv_speeds m
     \<and> mv_inputs m' = mv_inputs m \<and> sn_sprinting (mv_stance m') = sn_sprinting (mv_stance m)
     \<and> mv_client m' = mv_client m"

lemma keeps_refl: "keeps m m" by (simp add: keeps_def)
lemma keeps_trans: "keeps m m' \<Longrightarrow> keeps m' m'' \<Longrightarrow> keeps m m''" by (simp add: keeps_def)
lemma keeps_if: "keeps m a \<Longrightarrow> keeps m b \<Longrightarrow> keeps m (if c then a else b)" by simp

lemma keeps_setters:
  "keeps m a \<Longrightarrow> keeps m (set_vel v a)" "keeps m a \<Longrightarrow> keeps m (set_mov v a)" "keeps m a \<Longrightarrow> keeps m (set_pos v a)"
  "keeps m a \<Longrightarrow> keeps m (set_gliding b a)" "keeps m a \<Longrightarrow> keeps m (set_on_ground b a)"
  "keeps m a \<Longrightarrow> keeps m (set_penetrated_last_frame b a)" "keeps m a \<Longrightarrow> keeps m (set_stuck_in_collider b a)"
  "keeps m a \<Longrightarrow> keeps m (set_collisions x y z a)" "keeps m a \<Longrightarrow> keeps m (set_slide_offset o2 a)"
  "keeps m a \<Longrightarrow> keeps m (set_supporting_block_pos bp a)" "keeps m a \<Longrightarrow> keeps m (set_jump_delay n a)"
  by (simp_all add: keeps_def set_vel_def set_mov_def set_pos_def set_gliding_def set_on_ground_def
      set_penetrated_last_frame_def set_stuck_in_collider_def set_collisions_def set_slide_offset_def
      set_supporting_block_pos_def set_jump_delay_def)

lemma keeps_option:
  "keeps m n \<Longrightarrow> (\<And>x. keeps m (g x)) \<Longrightarrow> keeps m (case y of None \<Rightarrow> n | Some x \<Rightarrow> g x)"
  by (cases y) simp_all
lemma keeps_prod: "(\<And>a b. keeps m (g a b)) \<Longrightarrow> keeps m (case y of (a, b) \<Rightarrow> g a b)"
  by (cases y) simp

lemmas keeps_ways = keeps_if keeps_setters keeps_refl

lemma keeps_supporting: "keeps m (check_supporting_block_pos E v m)"
  unfolding check_supporting_block_pos_def Let_def by (intro keeps_option keeps_ways)

lemma keeps_settle: "keeps m a \<Longrightarrow> keeps m (settle E st cur bb coll a)"
  unfolding settle_def Let_def
  by (cases "se_old_version E"; cases st; simp only: simp_thms if_True if_False prod.case)
    (intro keeps_ways keeps_trans[OF _ keeps_supporting]; assumption)+

lemma keeps_collisions: "keeps m a \<Longrightarrow> keeps m (try_collisions E jp a)"
  unfolding try_collisions_def Let_def by (intro keeps_option keeps_prod keeps_settle keeps_ways)

lemma keeps_avoid_edge: "avoid_edge E m = Some m' \<Longrightarrow> keeps m m'"
  by (auto simp: avoid_edge_def Let_def split: if_splits option.splits intro: keeps_refl keeps_setters)

lemma keeps_teleport: "keeps m (snd (attempt_teleport E m))"
  unfolding attempt_teleport_def attempt_jump_def Let_def
  by (simp only: if_distrib[of snd] snd_conv) (intro keeps_ways)

lemma keeps_clear: assumes k: "keeps m a" shows "keeps m (clear_penetration a)"
  unfolding clear_penetration_def Let_def by (intro keeps_ways keeps_collisions k)
lemma keeps_knockback: assumes k: "keeps m a" shows "keeps m (snd (attempt_knockback a))"
  unfolding attempt_knockback_def Let_def by (simp only: if_distrib[of snd] snd_conv) (intro keeps_ways k)
lemma keeps_relative: assumes k: "keeps m a" shows "keeps m (move_relative F sp a)"
  unfolding move_relative_def Let_def by (simp only: case_prod_unfold) (intro keeps_ways k)
lemma keeps_jump: assumes k: "keeps m a" shows "keeps m (snd (snd (attempt_jump E ask a)))"
  unfolding attempt_jump_def Let_def by (simp only: if_distrib[of snd] snd_conv) (intro keeps_ways k)
lemma keeps_climb: assumes k: "keeps m a" shows "keeps m (climb E a)"
  unfolding climb_def Let_def by (intro keeps_ways keeps_collisions k)
lemma keeps_cobweb: assumes k: "keeps m a" shows "keeps m (cobweb_slow F a)"
  unfolding cobweb_slow_def Let_def by (intro keeps_ways keeps_collisions k)
lemma keeps_walk: assumes k: "keeps m a" shows "keeps m (walk_on_block E b a)"
  unfolding walk_on_block_def Let_def by (intro keeps_ways keeps_collisions k)
lemma keeps_post: assumes k: "keeps m a" shows "keeps m (set_post_collision_motion E old g b a)"
  unfolding set_post_collision_motion_def land_on_block_def Let_def by (intro keeps_ways keeps_collisions k)
lemma keeps_end: assumes k: "keeps m a" shows "keeps m (end_of_frame E fr a)"
  unfolding end_of_frame_def Let_def by (intro keeps_ways keeps_collisions k)
lemma keeps_glide: assumes k: "keeps m a" shows "keeps m (simulate_glide E a)"
  unfolding simulate_glide_def Let_def by (intro keeps_ways keeps_collisions k)

lemmas keeps_parts = keeps_clear keeps_knockback keeps_relative keeps_jump keeps_climb keeps_cobweb keeps_walk keeps_post keeps_end keeps_glide

lemma keeps_reset: "keeps m a \<Longrightarrow> keeps m (mv_reset F li a)"
  by (simp add: keeps_def mv_reset_def Let_def)

lemma keeps_move_frame: "keeps m a \<Longrightarrow> move_frame E web jp fr a = Some m' \<Longrightarrow> keeps m m'"
proof -
  assume k: "keeps m a" and s: "move_frame E web jp fr a = Some m'"
  obtain m1 where a: "avoid_edge E a = Some m1" using s by (auto simp: move_frame_def split: option.splits)
  have "keeps m m1" by (rule keeps_trans[OF k keeps_avoid_edge[OF a]])
  then show ?thesis
    unfolding s[unfolded move_frame_def a option.case Let_def option.inject, symmetric]
    by (intro keeps_if keeps_setters keeps_parts keeps_collisions)
qed

lemma keeps_simulation: "simulate_player_movement E m = Some m' \<Longrightarrow> keeps m m'"
proof -
  assume s: "simulate_player_movement E m = Some m'"
  obtain tp m0 where t: "attempt_teleport E m = (tp, m0)" by fastforce
  have k: "keeps m m0" using keeps_teleport[of m E] by (simp add: t)
  show ?thesis
  proof (cases "tp \<or> \<not> simulation_is_reliable E m0 \<or> \<not> se_chunk_loaded E (chunk_of_vec (se_flt E) (mv_pos m0))
      \<or> ct_immobile (mv_contacts m0) \<or> \<not> se_ready E")
    case True
    then show ?thesis
      using s k unfolding simulate_player_movement_def t Let_def
      by (auto split: if_splits bool.splits intro: keeps_reset keeps_parts keeps_setters)
  next
    case False
    then show ?thesis
      using s k unfolding simulate_player_movement_def t Let_def
      by (auto simp: case_prod_unfold split: if_splits intro!: keeps_setters keeps_parts keeps_if
          elim!: keeps_move_frame[rotated])
  qed
qed

definition simulated :: "('f, 'b) sim_env \<Rightarrow> 'f mv \<Rightarrow> 'f mv" where
  "simulated SE m = (case simulate_player_movement SE m of Some m' \<Rightarrow> m' | None \<Rightarrow> m)"

text \<open>The simulation is one of the steps that the properties of the update hold for.\<close>
lemma simulation_keeps_simulated: "simulation_keeps (simulated SE)"
  using keeps_simulation[of SE] by (auto simp: simulation_keeps_def simulated_def keeps_def split: option.split)

lemma simulated_update_is_update:
  "simulated_update SE P pk m = Some r \<Longrightarrow> r = mv_update (se_flt SE) (simulated SE) P pk m"
  by (auto simp: simulated_update_def mv_update_def before_simulation_def simulated_def Let_def split: option.splits)

section \<open>Corrections and acceptance\<close>

lemma persuade_pos:
  "mv_pos (persuade real_flt Op d m) = (if 0 < mo_persuasion Op then sub3 real_flt (mv_pos m)
     (clamp_float real_flt (vx d) (- mo_persuasion Op) (mo_persuasion Op), 0,
      clamp_float real_flt (vz d) (- mo_persuasion Op) (mo_persuasion Op)) else mv_pos m)"
  by (simp add: persuade_def Let_def)

lemma accept_client_pos:
  assumes "\<not> mo_accept_pos Op"
  shows "mv_pos (accept_client real_flt Op m) = mv_pos (persuade real_flt Op (pos_diff real_flt m) m)"
  using assms by (simp add: accept_client_def persuade_pos)

lemma settle_client_pos:
  assumes "se_flt SE = real_flt" "\<not> mo_accept_pos Op"
  shows "mv_pos (settle_client SE Op m) \<in> {mv_pos m, mv_pos (persuade real_flt Op (pos_diff real_flt m) m)}"
  unfolding settle_client_def Let_def
  by (simp add: assms accept_client_pos persuade_pos pos_diff_def set_correction_cooldown_def)

lemma clamp_real: "clamp_float real_flt a lo hi = (if a < lo then lo else min a hi)"
  by (simp add: clamp_float_def)


definition near_player :: "real mv" where
  "near_player = falling_player\<lparr>mv_client := (new_client_mv real_flt)\<lparr>cm_pos := (0.25, 2, 0.5)\<rparr>\<rparr>"

definition persuading :: "real move_opts" where
  "persuading = \<lparr>mo_correction = 0.3, mo_accept_pos = False, mo_pos_threshold = 0, mo_accept_vel = False,
     mo_vel_threshold = 0, mo_persuasion = 0.002, mo_velocity_limit = None\<rparr>"


lemma same_mv_sync_block: "pl_mv (sync_block E pos p) = pl_mv p"
  by (simp add: sync_block_def Let_def split: prod.split)

lemma same_mv_sync_blocks: "pl_mv (fold (sync_block E) ps p) = pl_mv p"
  by (induction ps arbitrary: p) (simp_all add: same_mv_sync_block)

lemma movement_sync_mv:
  "pl_mv (movement_sync E near p) = (if en_replay E then pl_mv p
     else set_correction_cooldown True (add_pending_correction (pl_mv p)))"
  by (auto simp: movement_sync_def Let_def same_mv_sync_blocks pl_add_def split: option.splits prod.splits)

lemma settle_client_corrections:
  "in_corrections (mv_inputs (settle_client SE Op m)) = in_corrections (mv_inputs m)"
  unfolding settle_client_def accept_client_def persuade_def Let_def
  by (simp add: set_correction_cooldown_def set_vel_def set_pos_def)


end
