(* ===== verification/Combat.thy ===== *)
theory Combat
  imports Entities Movement Blocks
begin

text \<open>
  The combat component: \<^verbatim>\<open>src/player/component/combat.go\<close>, and the box of an entity
  (\<^verbatim>\<open>Box\<close> in \<^verbatim>\<open>src/entity/entity.go\<close>).  An attack of the client is measured against the
  rewound (or the client's) position of its target: rays from sampled eye positions, the closest points
  of the box, and the angles; then the attack is sent to the server or not, and the hooks see the results.
\<close>

section \<open>State\<close>

text \<open>The option values are those after the conversion to 32 bits.\<close>
record 'f combat_opts =
  co_lerp_steps :: int
  co_expansion :: 'f
  co_max_reach :: 'f
  co_leniency :: 'f
  co_max_angle :: 'f
  co_radius :: 'f
  co_raw_fallback :: bool
  co_no_occlusion :: bool
  co_forward_rejected :: bool

record ('f, 'n) attack_pk =
  ap_target :: "64 word"
  ap_slot :: int
  ap_item :: 'n
  ap_position :: "'f vec3"
  ap_clicked :: "'f vec3"

record 'f lerped =
  le_attack :: "'f vec3"
  le_entity :: "'f vec3"
  le_rotation :: "'f vec3"

record ('f, 'n) combat =
  cb_start :: "'f lerped"
  cb_end :: "'f lerped"
  cb_target :: "nat option"
  cb_target_id :: "64 word"
  cb_bb :: "'f bbox"
  cb_unique :: "64 word \<Rightarrow> nat option"
  cb_swing :: int
  cb_raycasts :: "'f list"
  cb_raws :: "'f list"
  cb_angles :: "'f list"
  cb_input :: "('f, 'n) attack_pk option"
  cb_check :: bool
  cb_attacked :: bool
  cb_client :: bool
  cb_steps :: nat

text \<open>What the component reads of the player; \<^verbatim>\<open>cv_order\<close> is the order in which the tracker's map is walked.\<close>
record ('f, 'b, 'n) combat_env =
  cv_flt :: "'f flt"
  cv_vec :: "'f vec3 vec_ops"
  cv_box :: "'f box_lib"
  cv_blocks :: "('f, 'b) block_lib"
  cv_src :: "bpos \<Rightarrow> 'b"
  cv_opts :: "'f combat_opts"
  cv_trusting :: bool
  cv_touch :: bool
  cv_client_tick :: int
  cv_mv :: "'f mv"
  cv_tracker :: tracker
  cv_order :: "64 word list"
  cv_held_slot :: int
  cv_equipment :: 'n

definition no_lerped :: "'f flt \<Rightarrow> 'f lerped" where
  "no_lerped F = \<lparr>le_attack = zero3 F, le_entity = zero3 F, le_rotation = zero3 F\<rparr>"

definition new_combat :: "'f flt \<Rightarrow> 'f combat_opts \<Rightarrow> bool \<Rightarrow> ('f, 'n) combat" where
  "new_combat F Op client =
    \<lparr>cb_start = no_lerped F, cb_end = no_lerped F, cb_target = None, cb_target_id = 0,
     cb_bb = (zero3 F, zero3 F), cb_unique = Map.empty, cb_swing = 0, cb_raycasts = [], cb_raws = [],
     cb_angles = [], cb_input = None, cb_check = False, cb_attacked = False, cb_client = client,
     cb_steps = (if 0 < co_lerp_steps Op then nat (co_lerp_steps Op) else 10)\<rparr>"

definition combat_reset :: "('f, 'n) combat \<Rightarrow> ('f, 'n) combat" where
  "combat_reset c = c\<lparr>cb_input := None, cb_target := None, cb_check := False, cb_raycasts := [], cb_raws := [],
     cb_angles := [], cb_attacked := False, cb_unique := Map.empty\<rparr>"

definition combat_swing :: "64 word \<Rightarrow> ('f, 'n) combat \<Rightarrow> ('f, 'n) combat" where
  "combat_swing frame c = c\<lparr>cb_swing := sint frame\<rparr>"

section \<open>Attacks\<close>

definition entity_box :: "'f flt \<Rightarrow> 'f box_lib \<Rightarrow> 'f vec3 \<Rightarrow> ('v, 'f, 'm) entity \<Rightarrow> 'f bbox" where
  "entity_box F L pos e =
    (let w = fl_div F (fl_mul F (e_width e) (e_scale e)) (fl_lit F 2)
     in bl_translate L pos (bl_box L (fl_neg F w, fl_lit F 0, fl_neg F w) (w, fl_mul F (e_height e) (e_scale e), w)))"

definition eye_of :: "('f, 'b, 'n) combat_env \<Rightarrow> 'f vec3 \<Rightarrow> 'f vec3" where
  "eye_of E p = (let F = cv_flt E
     in set_vy (fl_add F (vy p) (fl_lit F (if sn_sneaking (mv_stance (cv_mv E)) then 1.27 else 1.62))) p)"

definition attack_from :: "('f, 'b, 'n) combat_env \<Rightarrow> 'f vec3 \<Rightarrow> 'f vec3 \<Rightarrow> ('f, 'n) combat \<Rightarrow> ('f, 'n) combat" where
  "attack_from E p q c = c\<lparr>cb_start := (cb_start c)\<lparr>le_attack := eye_of E p\<rparr>, cb_end := (cb_end c)\<lparr>le_attack := eye_of E q\<rparr>\<rparr>"

definition attack_entity :: "'f vec3 \<Rightarrow> 'f vec3 \<Rightarrow> ('f, 'n) combat \<Rightarrow> ('f, 'n) combat" where
  "attack_entity p q c = c\<lparr>cb_start := (cb_start c)\<lparr>le_entity := p\<rparr>, cb_end := (cb_end c)\<lparr>le_entity := q\<rparr>\<rparr>"

text \<open>
  \<^verbatim>\<open>Attack\<close>: whether the ticks since the last attack are reset, the entities (a rewind may create a
  buffer anew) and the component.
\<close>
definition combat_attack ::
  "('f, 'b, 'n) combat_env \<Rightarrow> ('f, 'n) attack_pk option \<Rightarrow> ('f vec3, 'f, 'm) ent_store \<Rightarrow> ('f, 'n) combat
   \<Rightarrow> (bool \<times> ('f vec3, 'f, 'm) ent_store \<times> ('f, 'n) combat) result" where
  "combat_attack E input st c = (case input of
      None \<Rightarrow>
        Inr (False, st, if cb_input c = None \<and> \<not> cb_client c
          then attack_from E (bo_last_pos (mv_body (cv_mv E))) (bo_pos (mv_body (cv_mv E)))
                 (c\<lparr>cb_check := True, cb_attacked := True\<rparr>)
          else c)
    | Some pk \<Rightarrow>
        (case find_entity (ap_target pk) (cv_tracker E) of
           None \<Rightarrow> Inr (True, st, c)
         | Some a \<Rightarrow>
             (case st a of
                None \<Rightarrow> Inl (Panic ''nil pointer dereference'')
              | Some e \<Rightarrow>
                  let c = c\<lparr>cb_unique := (cb_unique c)(ap_target pk \<mapsto> a), cb_check := False\<rparr>;
                      started = c\<lparr>cb_attacked := True, cb_target := Some a, cb_target_id := ap_target pk\<rparr>;
                      finish = (\<lambda>e c. c\<lparr>cb_bb := entity_box (cv_flt E) (cv_box E) (zero3 (cv_flt E)) e, cb_input := Some pk\<rparr>);
                      b = mv_body (cv_mv E); cl = mv_client (cv_mv E)
                  in if cb_input c \<noteq> None then Inr (True, st, c)
                     else if cb_client c
                     then Inr (True, st, finish e (attack_from E (cm_last_pos cl) (cm_pos cl)
                            (attack_entity (e_prev_pos e) (e_pos e) started)))
                     else bind_result (rewind (cv_vec E) (cv_client_tick E) e) (\<lambda>(h, e').
                            Inr (True, st(a \<mapsto> e'), case h of
                               None \<Rightarrow> started
                             | Some hp \<Rightarrow> finish e' (attack_from E (bo_last_pos b) (bo_pos b)
                                 (attack_entity (hp_prev hp) (hp_pos hp) started)))))))"

section \<open>An air swing that may have hit\<close>

text \<open>The nearest entity within the radius; an entity without a buffer gets one and is passed over.\<close>
definition nearest_step ::
  "('f, 'b, 'n) combat_env \<Rightarrow> 'f \<Rightarrow> 'f vec3 \<Rightarrow> 64 word
   \<Rightarrow> ('f vec3, 'f, 'm) ent_store \<times> 'f \<times> (64 word \<times> nat \<times> 'f vec3 hist) option
   \<Rightarrow> (('f vec3, 'f, 'm) ent_store \<times> 'f \<times> (64 word \<times> nat \<times> 'f vec3 hist) option) result" where
  "nearest_step E radius_sq attack_pos rid s =
    (let (st, min_dist, best) = s; F = cv_flt E
     in case find_entity rid (cv_tracker E) of
          None \<Rightarrow> Inr s
        | Some a \<Rightarrow>
            (case st a of
               None \<Rightarrow> Inl (Panic ''nil pointer dereference'')
             | Some e \<Rightarrow>
                 bind_result (rewind (cv_vec E) (cv_client_tick E - 1) e) (\<lambda>(h, e').
                   let st = st(a \<mapsto> e')
                   in case h of
                        None \<Rightarrow> Inr (st, min_dist, best)
                      | Some hp \<Rightarrow>
                          let dist = len_sqr3 F (sub3 F (hp_pos hp) attack_pos)
                          in if fl_le F dist radius_sq \<and> fl_less F dist min_dist
                             then Inr (st, dist, Some (rid, a, hp)) else Inr (st, min_dist, best))))"

fun nearest_entity ::
  "('f, 'b, 'n) combat_env \<Rightarrow> 'f \<Rightarrow> 'f vec3 \<Rightarrow> 64 word list
   \<Rightarrow> ('f vec3, 'f, 'm) ent_store \<times> 'f \<times> (64 word \<times> nat \<times> 'f vec3 hist) option
   \<Rightarrow> (('f vec3, 'f, 'm) ent_store \<times> 'f \<times> (64 word \<times> nat \<times> 'f vec3 hist) option) result" where
  "nearest_entity E radius_sq attack_pos [] s = Inr s"
| "nearest_entity E radius_sq attack_pos (rid # rids) s =
    bind_result (nearest_step E radius_sq attack_pos rid s) (nearest_entity E radius_sq attack_pos rids)"

text \<open>The attack on the nearest entity, when there is one.\<close>
definition aim_at ::
  "('f, 'b, 'n) combat_env \<Rightarrow> ('f, 'n) combat
   \<Rightarrow> ('f vec3, 'f, 'm) ent_store \<times> 'f \<times> (64 word \<times> nat \<times> 'f vec3 hist) option
   \<Rightarrow> (bool \<times> ('f vec3, 'f, 'm) ent_store \<times> ('f, 'n) combat) result" where
  "aim_at E c r = (case snd (snd r) of
      None \<Rightarrow> Inr (False, fst r, c)
    | Some (rid, a, hp) \<Rightarrow>
        (case fst r a of
           None \<Rightarrow> Inl (Panic ''nil pointer dereference'')
         | Some e \<Rightarrow>
             Inr (True, fst r, (attack_entity (hp_prev hp) (hp_pos hp) c)
               \<lparr>cb_bb := entity_box (cv_flt E) (cv_box E) (zero3 (cv_flt E)) e,
                cb_input := Some \<lparr>ap_target = rid, ap_slot = cv_held_slot E, ap_item = cv_equipment E,
                  ap_position = le_attack (cb_end c), ap_clicked = zero3 (cv_flt E)\<rparr>\<rparr>)))"

definition check_for_mispredicted_entity ::
  "('f, 'b, 'n) combat_env \<Rightarrow> ('f vec3, 'f, 'm) ent_store \<Rightarrow> ('f, 'n) combat
   \<Rightarrow> (bool \<times> ('f vec3, 'f, 'm) ent_store \<times> ('f, 'n) combat) result" where
  "check_for_mispredicted_entity E st c =
    (if cb_client c then Inr (False, st, c)
     else
       let F = cv_flt E; r = co_radius (cv_opts E);
           r = (if fl_less F r (fl_lit F 0) then fl_lit F 6 else r)
       in bind_result (nearest_entity E (fl_mul F r r) (le_attack (cb_end c)) (cv_order E) (st, fl_lit F 1000000, None))
            (aim_at E c))"

section \<open>Measuring an attack\<close>

definition lerp_at :: "'f flt \<Rightarrow> ('f, 'n) combat \<Rightarrow> 'f \<Rightarrow> 'f lerped" where
  "lerp_at F c t =
    (if fl_eq F t (fl_lit F 0) then cb_start c
     else if fl_eq F t (fl_lit F 1) then cb_end c
     else
       let mix = (\<lambda>get. add3 F (get (cb_start c)) (mul3 F (sub3 F (get (cb_end c)) (get (cb_start c))) t))
       in \<lparr>le_attack = mix le_attack, le_entity = mix le_entity, le_rotation = mix le_rotation\<rparr>)"

text \<open>The locals of the loop over the samples.\<close>
record 'f scan =
  sc_rays :: "'f list"
  sc_raws :: "'f list"
  sc_angles :: "'f list"
  sc_ray :: 'f
  sc_raw :: 'f
  sc_angle :: 'f
  sc_raw_pos :: "'f vec3"
  sc_hit_pos :: "'f vec3"
  sc_lerped :: "'f lerped"
  sc_hit :: bool
  sc_valid :: bool

definition new_scan :: "'f flt \<Rightarrow> ('f, 'n) combat \<Rightarrow> 'f scan" where
  "new_scan F c = \<lparr>sc_rays = cb_raycasts c, sc_raws = cb_raws c, sc_angles = cb_angles c,
     sc_ray = fl_lit F 1000000, sc_raw = fl_lit F 1000000, sc_angle = fl_lit F 1000000,
     sc_raw_pos = zero3 F, sc_hit_pos = zero3 F, sc_lerped = no_lerped F, sc_hit = False, sc_valid = False\<rparr>"

definition measure_angle :: "'f flt \<Rightarrow> 'f lerped \<Rightarrow> 'f vec3 \<Rightarrow> 'f scan \<Rightarrow> 'f scan" where
  "measure_angle F l target s =
    (let a = fl_abs F (fst (angle_to_point F (le_attack l) target (le_rotation l)))
     in s\<lparr>sc_angles := sc_angles s @ [a], sc_angle := (if fl_less F a (sc_angle s) then a else sc_angle s)\<rparr>)"

definition measure_ray :: "'f flt \<Rightarrow> 'f box_lib \<Rightarrow> 'f \<Rightarrow> 'f lerped \<Rightarrow> 'f bbox \<Rightarrow> 'f scan \<Rightarrow> 'f scan" where
  "measure_ray F L reach l bb s =
    (let dir = direction_vector F (vz (le_rotation l)) (vx (le_rotation l))
     in case bl_intercept L bb (le_attack l) (add3 F (le_attack l) (mul3 F dir (fl_lit F 7))) of
          None \<Rightarrow> s
        | Some p \<Rightarrow>
            let d = len3 F (sub3 F (le_attack l) p);
                s = s\<lparr>sc_valid := sc_valid s \<or> fl_le F d reach, sc_rays := sc_rays s @ [d], sc_hit := True\<rparr>
            in if fl_less F d (sc_ray s) then s\<lparr>sc_ray := d, sc_hit_pos := p, sc_lerped := l\<rparr> else s)"

definition measure_raw :: "'f flt \<Rightarrow> 'f lerped \<Rightarrow> 'f bbox \<Rightarrow> 'f scan \<Rightarrow> 'f scan" where
  "measure_raw F l bb s =
    (let p = closest_point_to_bbox F (le_attack l) bb; d = len3 F (sub3 F (le_attack l) p);
         s = s\<lparr>sc_raws := sc_raws s @ [d]\<rparr>
     in if fl_less F d (sc_raw s) then s\<lparr>sc_raw := d, sc_raw_pos := p\<rparr> else s)"

text \<open>One sample: whether it ends the loop (the eye is inside the box), and the locals; \<^verbatim>\<open>alt\<close> is the client's entity.\<close>
definition scan_step ::
  "'f flt \<Rightarrow> 'f box_lib \<Rightarrow> 'f \<Rightarrow> 'f \<Rightarrow> ('f vec3 \<times> 'f vec3) option \<Rightarrow> ('f, 'n) combat \<Rightarrow> nat \<Rightarrow> 'f scan \<Rightarrow> bool \<times> 'f scan" where
  "scan_step F L grow reach alt c k s =
    (let t = fl_mul F (fl_of_int F (int k)) (fl_div F (fl_lit F 1) (fl_of_int F (int (cb_steps c))));
         l = lerp_at F c t; zero = fl_lit F 0;
         box_at = (\<lambda>p. bl_grow L grow (bl_translate L p (cb_bb c)));
         bb = box_at (le_entity l)
     in if bl_within L bb (le_attack l)
        then (True, s\<lparr>sc_ray := zero, sc_raw := zero, sc_raw_pos := le_attack l, sc_angle := zero, sc_valid := True,
                      sc_rays := sc_rays s @ [zero], sc_raws := sc_raws s @ [zero]\<rparr>)
        else
          let s = measure_ray F L reach l bb (measure_angle F l (le_entity l) s);
              s = (case alt of
                     None \<Rightarrow> s
                   | Some (p, q) \<Rightarrow>
                       let pos = add3 F p (mul3 F (sub3 F q p) t)
                       in measure_raw F l (box_at pos) (measure_ray F L reach l (box_at pos) (measure_angle F l pos s)))
          in (False, measure_raw F l bb s))"

fun scan_steps ::
  "'f flt \<Rightarrow> 'f box_lib \<Rightarrow> 'f \<Rightarrow> 'f \<Rightarrow> ('f vec3 \<times> 'f vec3) option \<Rightarrow> ('f, 'n) combat \<Rightarrow> nat list \<Rightarrow> 'f scan \<Rightarrow> 'f scan" where
  "scan_steps F L grow reach alt c [] s = s"
| "scan_steps F L grow reach alt c (k # ks) s =
    (case scan_step F L grow reach alt c k s of
       (True, s) \<Rightarrow> s | (False, s) \<Rightarrow> scan_steps F L grow reach alt c ks s)"

text \<open>A solid block on the ray of the closest hit.\<close>
definition ray_occluded :: "('f, 'b, 'n) combat_env \<Rightarrow> 'f vec3 \<Rightarrow> 'f vec3 \<Rightarrow> bool" where
  "ray_occluded E p q =
    list_ex (\<lambda>v. let pos = bl_pos_of (cv_box E) v; b = cv_src E pos
       in \<not> is_block_pass_interaction (cv_blocks E) b
          \<and> list_ex (\<lambda>bb. bl_intercept (cv_box E) (bl_translate (cv_box E) v bb) p q \<noteq> None)
              (block_collisions (cv_blocks E) b pos (cv_src E)))
      (blocks_between (cv_flt E) (cv_box E) p q 50)"

definition max_reach_of :: "'f flt \<Rightarrow> 'f combat_opts \<Rightarrow> 'f" where
  "max_reach_of F Op = (if fl_le F (co_max_reach Op) (fl_lit F 0) then fl_lit F 2.9 else co_max_reach Op)"

definition expansion_of :: "'f flt \<Rightarrow> 'f combat_opts \<Rightarrow> 'f" where
  "expansion_of F Op = (if fl_less F (co_expansion Op) (fl_lit F 0) then fl_lit F 0.1 else co_expansion Op)"

text \<open>The fallback to the closest point when no ray was good enough; the ray is then that to the closest point.\<close>
definition raw_fallback :: "('f, 'b, 'n) combat_env \<Rightarrow> ('f, 'n) combat \<Rightarrow> 'f scan \<Rightarrow> 'f scan" where
  "raw_fallback E c s =
    (let F = cv_flt E; Op = cv_opts E
     in if \<not> sc_valid s \<and> (cv_touch E \<or> co_raw_fallback Op)
           \<and> fl_le F (sc_raw s) (max_reach_of F Op) \<and> fl_le F (sc_angle s) (co_max_angle Op)
        then s\<lparr>sc_valid := True, sc_hit := True, sc_hit_pos := sc_raw_pos s,
               sc_lerped := \<lparr>le_attack = le_attack (cb_end c), le_entity = le_entity (cb_start c),
                             le_rotation = le_rotation (cb_end c)\<rparr>\<rparr>
        else s)"

text \<open>The whole measurement.\<close>
definition measure_attack ::
  "('f, 'b, 'n) combat_env \<Rightarrow> ('f vec3 \<times> 'f vec3) option \<Rightarrow> ('f, 'n) combat \<Rightarrow> 'f scan" where
  "measure_attack E alt c =
    (let F = cv_flt E; Op = cv_opts E;
         s = raw_fallback E c (scan_steps F (cv_box E) (expansion_of F Op)
               (fl_add F (max_reach_of F Op) (co_leniency Op)) alt c [0..<Suc (cb_steps c)] (new_scan F c))
     in if \<not> cb_client c \<and> sc_valid s \<and> sc_hit s \<and> fl_less F (fl_lit F 0) (sc_ray s) \<and> \<not> co_no_occlusion Op
           \<and> ray_occluded E (le_attack (sc_lerped s)) (sc_hit_pos s)
        then s\<lparr>sc_valid := False\<rparr> else s)"

section \<open>The verdict\<close>

record ('f, 'n) verdict =
  cx_result :: bool
  cx_sent :: "('f, 'n) attack_pk option"
  cx_hooked :: "('f, 'n) combat option"

definition no_verdict :: "('f, 'n) verdict" where
  "no_verdict = \<lparr>cx_result = False, cx_sent = None, cx_hooked = None\<rparr>"

text \<open>The positions and rotations of the attack at the end of the tick.\<close>
definition prepare_attack :: "('f, 'b, 'n) combat_env \<Rightarrow> ('f, 'n) combat \<Rightarrow> ('f, 'n) combat" where
  "prepare_attack E c =
    (let m = cv_mv E; p = tp_pos (mv_tp m); b = mv_body m;
         c = (if has_teleport m \<and> \<not> tp_smoothed (mv_tp m)
              then c\<lparr>cb_start := (cb_start c)\<lparr>le_attack := p\<rparr>, cb_end := (cb_end c)\<lparr>le_attack := p\<rparr>\<rparr> else c)
     in c\<lparr>cb_start := (cb_start c)\<lparr>le_rotation := bo_last_rotation b\<rparr>,
          cb_end := (cb_end c)\<lparr>le_rotation := bo_rotation b\<rparr>\<rparr>)"

text \<open>What is made of a measured attack.\<close>
definition decide_attack :: "('f, 'b, 'n) combat_env \<Rightarrow> ('f vec3 \<times> 'f vec3) option \<Rightarrow> ('f, 'n) combat \<Rightarrow> ('f, 'n) verdict" where
  "decide_attack E alt c =
    (let s = measure_attack E alt c;
         forward = (sc_valid s \<or> (\<not> cb_client c \<and> co_forward_rejected (cv_opts E) \<and> \<not> cb_check c) \<or> cv_trusting E)
     in \<lparr>cx_result = (cv_trusting E \<or> \<not> cb_check c \<or> sc_valid s),
         cx_sent = (if forward \<and> \<not> cb_client c then cb_input c else None),
         cx_hooked = Some (c\<lparr>cb_raycasts := sc_rays s, cb_raws := sc_raws s, cb_angles := sc_angles s\<rparr>)\<rparr>)"

definition combat_calculate ::
  "('f, 'b, 'n) combat_env \<Rightarrow> ('f vec3, 'f, 'm) ent_store \<Rightarrow> ('f, 'n) combat
   \<Rightarrow> (('f, 'n) verdict \<times> ('f vec3, 'f, 'm) ent_store \<times> ('f, 'n) combat) result" where
  "combat_calculate E st c =
    (if \<not> cb_attacked c then Inr (no_verdict, st, c)
     else if \<not> cb_check c \<and> cb_input c = None then Inr (no_verdict, st, combat_reset c)
     else bind_result (if cb_check c then check_for_mispredicted_entity E st c else Inr (True, st, c)) (\<lambda>(ok, st, c).
       if \<not> ok then Inr (no_verdict, st, combat_reset c)
       else if cb_client c \<and> 0 < in_corrections (mv_inputs (cv_mv E)) then Inr (no_verdict, st, combat_reset c)
       else if \<not> cb_client c then Inr (decide_attack E None (prepare_attack E c), st, combat_reset (prepare_attack E c))
       else case cb_target c of
              None \<Rightarrow> Inl (Panic ''nil pointer dereference'')
            | Some a \<Rightarrow>
                (case st a of
                   None \<Rightarrow> Inl (Panic ''nil pointer dereference'')
                 | Some e \<Rightarrow> Inr (decide_attack E (Some (e_prev_pos e, e_pos e)) (prepare_attack E c), st,
                                combat_reset (prepare_attack E c)))))"

end
