(* ===== verification/CombatProps.thy ===== *)
theory CombatProps
  imports Combat SimFrames
begin

text \<open>
  Properties of the combat component: an attack that reaches the server was measured within reach, the
  results stay within the capacity that is allocated for them, and a tick carries one attack.
\<close>

section \<open>The measurements\<close>

text \<open>What the loop keeps: a valid hit has a result within reach, and the closest raw distance is one of the results.\<close>
definition scan_ok :: "real \<Rightarrow> real scan \<Rightarrow> bool" where
  "scan_ok reach s \<longleftrightarrow> (sc_valid s \<longrightarrow> (\<exists>d \<in> set (sc_rays s). d \<le> reach))
     \<and> (sc_raw s = 1000000 \<or> sc_raw s \<in> set (sc_raws s))"

lemma scan_ok_angle: "scan_ok reach s \<Longrightarrow> scan_ok reach (measure_angle F l p s)"
  by (auto simp: scan_ok_def measure_angle_def Let_def)

lemma scan_ok_ray: "scan_ok reach s \<Longrightarrow> scan_ok reach (measure_ray real_flt L reach l bb s)"
  by (auto simp: scan_ok_def measure_ray_def Let_def split: option.split)

lemma scan_ok_raw: "scan_ok reach s \<Longrightarrow> scan_ok reach (measure_raw real_flt l bb s)"
  by (auto simp: scan_ok_def measure_raw_def Let_def)

lemma scan_ok_step:
  assumes "0 \<le> reach" "scan_ok reach s"
  shows "scan_ok reach (snd (scan_step real_flt L grow reach alt c k s))"
proof -
  have "scan_ok reach (s\<lparr>sc_ray := 0, sc_raw := 0, sc_raw_pos := p, sc_angle := 0, sc_valid := True,
      sc_rays := sc_rays s @ [0], sc_raws := sc_raws s @ [0]\<rparr>)" for p
    using assms by (auto simp: scan_ok_def)
  then show ?thesis
    using assms(2) unfolding scan_step_def Let_def
    by (auto intro!: scan_ok_raw scan_ok_ray scan_ok_angle split: option.split)
qed

lemma scan_ok_steps:
  "0 \<le> reach \<Longrightarrow> scan_ok reach s \<Longrightarrow> scan_ok reach (scan_steps real_flt L grow reach alt c ks s)"
proof (induction ks arbitrary: s)
  case (Cons k ks)
  show ?case using Cons.IH[OF Cons.prems(1)] scan_ok_step[OF Cons.prems, of L grow alt c k]
    by (auto split: prod.split bool.split)
qed simp

lemma max_reach_pos: "0 \<le> max_reach_of real_flt Op"
  by (simp add: max_reach_of_def)

text \<open>A valid measurement has a result within the reach.\<close>
lemma measured_in_reach:
  assumes "cv_flt E = real_flt" "0 \<le> co_leniency (cv_opts E)" "co_max_reach (cv_opts E) < 1000000"
    and "sc_valid (measure_attack E alt c)"
  shows "\<exists>d \<in> set (sc_rays (measure_attack E alt c)) \<union> set (sc_raws (measure_attack E alt c)).
    d \<le> max_reach_of real_flt (cv_opts E) + co_leniency (cv_opts E)"
proof -
  let ?m = "max_reach_of real_flt (cv_opts E)" and ?l = "co_leniency (cv_opts E)"
  define s where "s = scan_steps real_flt (cv_box E) (expansion_of real_flt (cv_opts E)) (?m + ?l) alt c
    [0..<Suc (cb_steps c)] (new_scan real_flt c)"
  have "scan_ok (?m + ?l) (new_scan real_flt c)" by (simp add: scan_ok_def new_scan_def)
  then have ok: "scan_ok (?m + ?l) s"
    unfolding s_def using assms(2) max_reach_pos[of "cv_opts E"] by (intro scan_ok_steps) simp_all
  have lists: "sc_rays (measure_attack E alt c) = sc_rays s" "sc_raws (measure_attack E alt c) = sc_raws s"
    by (simp_all add: measure_attack_def Let_def raw_fallback_def assms(1) s_def)
  have valid: "sc_valid s \<or> sc_raw s \<le> ?m"
    using assms(4) by (auto simp: measure_attack_def Let_def raw_fallback_def assms(1) s_def split: if_splits)
  have "?m < 1000000" using assms(3) by (simp add: max_reach_of_def)
  then have "sc_valid s \<or> (sc_raw s \<in> set (sc_raws s) \<and> sc_raw s \<le> ?m + ?l)"
    using ok valid assms(2) by (auto simp: scan_ok_def)
  with ok show ?thesis unfolding lists scan_ok_def by blast
qed

lemma aim_at_keeps:
  "aim_at E c r = Inr (ok, st1, c1) \<Longrightarrow> cb_check c1 = cb_check c \<and> cb_client c1 = cb_client c"
  by (auto simp: aim_at_def attack_entity_def split: option.splits)

lemma mispredicted_keeps:
  "check_for_mispredicted_entity E st c = Inr (ok, st1, c1) \<Longrightarrow> cb_check c1 = cb_check c \<and> cb_client c1 = cb_client c"
  unfolding check_for_mispredicted_entity_def Let_def bind_result_Inr_iff
  by (auto simp: bind_result_Inr_iff split: if_splits dest: aim_at_keeps)

text \<open>The only ways to a packet for the server.\<close>
lemma sent_cases:
  assumes "combat_calculate E st c = Inr (v, st', c')" "cx_sent v = Some a"
  obtains c1 where "\<not> cb_client c1" "cb_check c1 = cb_check c" "cb_input c1 = Some a" "v = decide_attack E None c1"
proof -
  note mis = mispredicted_keeps
  have p: "cb_input (prepare_attack E d) = cb_input d" "cb_check (prepare_attack E d) = cb_check d"
    "cb_client (prepare_attack E d) = cb_client d" for d
    by (simp_all add: prepare_attack_def Let_def)
  have n: "cx_sent (decide_attack E alt d) = None" if "cb_client d" for alt d
    using that by (simp add: decide_attack_def Let_def)
  obtain ok st1 c1 where r: "(if cb_check c then check_for_mispredicted_entity E st c else Inr (True, st, c)) = Inr (ok, st1, c1)"
    "cb_attacked c" "\<not> (\<not> cb_check c \<and> cb_input c = None)"
    using assms by (auto simp: combat_calculate_def no_verdict_def bind_result_Inr_iff split: if_splits)
  have k: "cb_check c1 = cb_check c" using r(1) by (cases "cb_check c") (auto dest: mis)
  have e: "(if \<not> ok then Inr (no_verdict, st1, combat_reset c1)
       else if cb_client c1 \<and> 0 < in_corrections (mv_inputs (cv_mv E)) then Inr (no_verdict, st1, combat_reset c1)
       else if \<not> cb_client c1 then Inr (decide_attack E None (prepare_attack E c1), st1, combat_reset (prepare_attack E c1))
       else case cb_target c1 of
              None \<Rightarrow> Inl (Panic ''nil pointer dereference'')
            | Some a \<Rightarrow>
                (case st1 a of
                   None \<Rightarrow> Inl (Panic ''nil pointer dereference'')
                 | Some e \<Rightarrow> Inr (decide_attack E (Some (e_prev_pos e, e_pos e)) (prepare_attack E c1), st1,
                                combat_reset (prepare_attack E c1)))) = Inr (v, st', c')"
    using assms(1) r by (simp add: combat_calculate_def)
  have "\<not> cb_client c1 \<and> v = decide_attack E None (prepare_attack E c1)"
    using e assms(2) n[of "prepare_attack E c1"] p(3)[of c1]
    by (auto simp: no_verdict_def split: if_splits option.splits)
  moreover from this assms(2) have "cb_input (prepare_attack E c1) = Some a"
    by (auto simp: decide_attack_def Let_def p split: if_splits)
  ultimately show thesis using that[of "prepare_attack E c1"] k by (simp add: p)
qed


text \<open>An attack from inside the box of its target, in a world with one block.\<close>
definition close_attack :: "(real, unit) attack_pk" where
  "close_attack = \<lparr>ap_target = 7, ap_slot = 0, ap_item = (), ap_position = (0, 0, 0), ap_clicked = (0, 0, 0)\<rparr>"

definition close_env :: "(real, int, unit) combat_env" where
  "close_env = \<lparr>cv_flt = real_flt, cv_vec = \<lparr>v_zero = (0, 0, 0), v_add = add3 real_flt, v_sub = sub3 real_flt,
       v_mul_inv = \<lambda>_ v. v, v_lower = \<lambda>v. v\<rparr>,
     cv_box = real_boxes, cv_blocks = stone_blocks, cv_src = one_block,
     cv_opts = \<lparr>co_lerp_steps = 10, co_expansion = 0.1, co_max_reach = 2.9, co_leniency = 0, co_max_angle = 90,
       co_radius = 6, co_raw_fallback = False, co_no_occlusion = False, co_forward_rejected = False\<rparr>,
     cv_trusting = False, cv_touch = False, cv_client_tick = 9, cv_mv = falling_player,
     cv_tracker = new_entity_tracker False, cv_order = [], cv_held_slot = 0, cv_equipment = ()\<rparr>"

definition close_combat :: "(real, unit) combat" where
  "close_combat = (new_combat real_flt (cv_opts close_env) False)
     \<lparr>cb_start := \<lparr>le_attack = (0, 3, 0), le_entity = (0, 2, 0), le_rotation = (0, 0, 0)\<rparr>,
      cb_end := \<lparr>le_attack = (0, 3, 0), le_entity = (0, 2, 0), le_rotation = (0, 0, 0)\<rparr>,
      cb_bb := ((-0.3, 0, -0.3), (0.3, 1.8, 0.3)), cb_input := Some close_attack, cb_attacked := True\<rparr>"

lemma close_fields [simp]:
  "cv_flt close_env = real_flt" "cv_box close_env = real_boxes" "\<not> cv_trusting close_env" "\<not> cv_touch close_env"
  "cv_mv close_env = falling_player"
  "co_leniency (cv_opts close_env) = 0" "co_max_reach (cv_opts close_env) = 2.9" "co_expansion (cv_opts close_env) = 0.1"
  "\<not> co_forward_rejected (cv_opts close_env)"
  "\<not> cb_client close_combat" "\<not> cb_check close_combat" "cb_input close_combat = Some close_attack" "cb_attacked close_combat"
  by (simp_all add: close_env_def close_combat_def new_combat_def)

lemma close_valid: "sc_valid (measure_attack close_env None (prepare_attack close_env close_combat))"
proof -
  define c where "c = prepare_attack close_env close_combat"
  have c: "cb_start c = \<lparr>le_attack = (0, 3, 0), le_entity = (0, 2, 0), le_rotation = bo_last_rotation (mv_body falling_player)\<rparr>"
    "cb_bb c = ((-0.3, 0, -0.3), (0.3, 1.8, 0.3))"
    using falling_player_fields(3)
    by (simp_all add: c_def prepare_attack_def Let_def) (simp_all add: close_combat_def)
  have within: "bl_within real_boxes (bl_grow real_boxes (1 / 10) (bl_translate real_boxes (0, 2, 0) (cb_bb c))) (0, 3, 0)"
    unfolding c(2) by (simp add: real_boxes_def vget_def shift_box_def)
  have list: "[0..<Suc (cb_steps c)] = 0 # [1..<Suc (cb_steps c)]" by (simp add: upt_conv_Cons)
  obtain s where s: "scan_step real_flt real_boxes (1 / 10) reach None c 0 (new_scan real_flt c) = (True, s)"
    "sc_valid s" "\<not> sc_hit s" for reach
    using within by (simp add: scan_step_def lerp_at_def c(1) new_scan_def)
  show ?thesis
    unfolding c_def[symmetric] measure_attack_def Let_def list
    by (simp add: raw_fallback_def expansion_of_def s)
qed


section \<open>The results and the attack of a tick\<close>

lemma measure_lists:
  "sc_rays (measure_angle F l p s) = sc_rays s" "sc_raws (measure_angle F l p s) = sc_raws s"
  "length (sc_angles (measure_angle F l p s)) = Suc (length (sc_angles s))"
  "sc_raws (measure_ray F L r l bb s) = sc_raws s" "sc_angles (measure_ray F L r l bb s) = sc_angles s"
  "sc_rays (measure_raw F l bb s) = sc_rays s" "length (sc_raws (measure_raw F l bb s)) = Suc (length (sc_raws s))"
  "sc_angles (measure_raw F l bb s) = sc_angles s"
  by (simp_all add: measure_ray_def measure_raw_def measure_angle_def Let_def split: option.split)

lemma ray_length: "length (sc_rays (measure_ray F L r l bb s)) \<le> Suc (length (sc_rays s))"
  by (simp add: measure_ray_def Let_def split: option.split)

lemma scan_step_lengths:
  "length (sc_rays (snd (scan_step F L g reach alt c k s))) \<le> length (sc_rays s) + 2"
  "length (sc_raws (snd (scan_step F L g reach alt c k s))) \<le> length (sc_raws s) + 2"
  "length (sc_angles (snd (scan_step F L g reach alt c k s))) \<le> length (sc_angles s) + 2"
proof -
  have two: "length (sc_rays (measure_ray F L r l bb (measure_angle F l p (measure_ray F L r l bb' s')))) \<le> length (sc_rays s') + 2"
    for r l bb bb' p s'
    by (rule order_trans[OF ray_length], simp only: measure_lists, rule order_trans[OF Suc_le_mono[THEN iffD2, OF ray_length]]) simp
  have one: "length (sc_rays (measure_ray F L r l bb s')) \<le> length (sc_rays s') + 2" for r l bb s'
    by (rule order_trans[OF ray_length]) simp
  show "length (sc_rays (snd (scan_step F L g reach alt c k s))) \<le> length (sc_rays s) + 2"
    unfolding scan_step_def Let_def
    by (cases alt; simp only: if_distrib[of snd] snd_conv option.case case_prod_unfold measure_lists)
      (simp_all add: measure_lists order_trans[OF one] order_trans[OF two])
  show "length (sc_raws (snd (scan_step F L g reach alt c k s))) \<le> length (sc_raws s) + 2"
    "length (sc_angles (snd (scan_step F L g reach alt c k s))) \<le> length (sc_angles s) + 2"
    unfolding scan_step_def Let_def
    by (cases alt; simp add: if_distrib[of snd] case_prod_unfold measure_lists)+
qed

lemma scan_steps_lengths:
  "length (sc_rays (scan_steps F L g reach alt c ks s)) \<le> length (sc_rays s) + 2 * length ks
   \<and> length (sc_raws (scan_steps F L g reach alt c ks s)) \<le> length (sc_raws s) + 2 * length ks
   \<and> length (sc_angles (scan_steps F L g reach alt c ks s)) \<le> length (sc_angles s) + 2 * length ks"
proof (induction ks arbitrary: s)
  case (Cons k ks)
  obtain b s1 where s1: "scan_step F L g reach alt c k s = (b, s1)" by fastforce
  show ?case using Cons.IH[of s1] scan_step_lengths[of F L g reach alt c k s] by (cases b) (simp_all add: s1)
qed simp

definition results_empty :: "('f, 'n) combat \<Rightarrow> bool" where
  "results_empty c \<longleftrightarrow> cb_raycasts c = [] \<and> cb_raws c = [] \<and> cb_angles c = []"

definition samples :: "('f, 'b, 'n) combat_env \<Rightarrow> ('f vec3 \<times> 'f vec3) option \<Rightarrow> ('f, 'n) combat \<Rightarrow> 'f scan" where
  "samples E alt c = scan_steps (cv_flt E) (cv_box E) (expansion_of (cv_flt E) (cv_opts E))
     (fl_add (cv_flt E) (max_reach_of (cv_flt E) (cv_opts E)) (co_leniency (cv_opts E))) alt c
     [0..<Suc (cb_steps c)] (new_scan (cv_flt E) c)"

lemma fallback_lists:
  "sc_rays (raw_fallback E c s) = sc_rays s" "sc_raws (raw_fallback E c s) = sc_raws s"
  "sc_angles (raw_fallback E c s) = sc_angles s"
  by (simp_all add: raw_fallback_def Let_def)

lemma measured_is:
  "measure_attack E alt c \<in> {raw_fallback E c (samples E alt c), raw_fallback E c (samples E alt c)\<lparr>sc_valid := False\<rparr>}"
  unfolding measure_attack_def Let_def samples_def by (simp only: insert_iff split: if_split) simp

lemma measured_lists:
  "sc_rays (measure_attack E alt c) = sc_rays (samples E alt c)"
  "sc_raws (measure_attack E alt c) = sc_raws (samples E alt c)"
  "sc_angles (measure_attack E alt c) = sc_angles (samples E alt c)"
  using measured_is[of E alt c] by (auto simp: fallback_lists)

lemma measured_lengths:
  assumes "results_empty c"
  shows "length (sc_rays (measure_attack E alt c)) \<le> 2 * Suc (cb_steps c)
    \<and> length (sc_raws (measure_attack E alt c)) \<le> 2 * Suc (cb_steps c)
    \<and> length (sc_angles (measure_attack E alt c)) \<le> 2 * Suc (cb_steps c)"
proof -
  have "length (sc_rays (new_scan F c)) = 0" "length (sc_raws (new_scan F c)) = 0" "length (sc_angles (new_scan F c)) = 0" for F
    using assms by (simp_all add: new_scan_def results_empty_def)
  moreover have "length [0..<Suc (cb_steps c)] = Suc (cb_steps c)" by (rule trans[OF length_upt]) simp
  ultimately show ?thesis
    unfolding measured_lists samples_def by (metis scan_steps_lengths add_0)
qed

lemma prepare_results: "results_empty (prepare_attack E c) = results_empty c" "cb_steps (prepare_attack E c) = cb_steps c"
  by (simp_all add: prepare_attack_def results_empty_def Let_def)

lemma reset_results: "results_empty (combat_reset c)"
  by (simp add: combat_reset_def results_empty_def)

lemma aim_results:
  "aim_at E c r = Inr (ok, st1, c1) \<Longrightarrow> results_empty c1 = results_empty c \<and> cb_steps c1 = cb_steps c"
  by (auto simp: aim_at_def attack_entity_def results_empty_def split: option.splits)

lemma mispredicted_results:
  "check_for_mispredicted_entity E st c = Inr (ok, st1, c1) \<Longrightarrow> results_empty c1 = results_empty c \<and> cb_steps c1 = cb_steps c"
  unfolding check_for_mispredicted_entity_def Let_def bind_result_Inr_iff
  by (auto simp: bind_result_Inr_iff split: if_splits dest: aim_results)

text \<open>What a calculation is: no verdict, or the decision on a component with the results empty.\<close>
lemma calculate_cases:
  assumes "combat_calculate E st c = Inr (v, st', c')" "results_empty c"
  obtains (none) "v = no_verdict" "results_empty c'"
  | (decided) alt c1 where "v = decide_attack E alt c1" "results_empty c1" "cb_steps c1 = cb_steps c" "c' = combat_reset c1"
proof (cases "cb_attacked c \<and> (cb_check c \<or> cb_input c \<noteq> None)")
  case False
  then show thesis using none assms by (auto simp: combat_calculate_def reset_results split: if_splits)
next
  case True
  then obtain ok st1 c1 where r: "(if cb_check c then check_for_mispredicted_entity E st c else Inr (True, st, c)) = Inr (ok, st1, c1)"
    using assms(1) by (auto simp: combat_calculate_def bind_result_Inr_iff split: if_splits)
  then have k: "results_empty c1" "cb_steps c1 = cb_steps c"
    using assms(2) by (cases "cb_check c"; auto dest: mispredicted_results)+
  show thesis
    using assms(1) True r none decided[of _ "prepare_attack E c1"] k
    by (auto simp: combat_calculate_def prepare_results reset_results split: if_splits option.splits)
qed

text \<open>The hooks never see more results than the capacity that is allocated for them, twice the samples, and no
  result is left for the next tick.\<close>
theorem results_within_capacity:
  assumes "results_empty c" "combat_calculate E st c = Inr (v, st', c')" "cx_hooked v = Some seen"
  shows "length (cb_raycasts seen) \<le> 2 * (cb_steps c + 1) \<and> length (cb_raws seen) \<le> 2 * (cb_steps c + 1)
    \<and> length (cb_angles seen) \<le> 2 * (cb_steps c + 1) \<and> results_empty c' \<and> cb_input c' = None \<and> \<not> cb_attacked c'"
  using assms(2,1)
proof (cases rule: calculate_cases)
  case none
  then show ?thesis using assms(3) by (simp add: no_verdict_def)
next
  case (decided alt c1)
  then show ?thesis
    using assms(3) measured_lengths[OF decided(2), of E alt]
    by (auto simp: decide_attack_def Let_def reset_results combat_reset_def results_empty_def)
qed

theorem results_within_capacity_witness:
  "length (cb_raycasts (the (cx_hooked (decide_attack close_env None (prepare_attack close_env close_combat))))) \<le> 22"
proof -
  have calc: "combat_calculate close_env Map.empty close_combat
      = Inr (decide_attack close_env None (prepare_attack close_env close_combat), Map.empty,
             combat_reset (prepare_attack close_env close_combat))"
    by (simp add: combat_calculate_def)
  have "results_empty close_combat" "cb_steps close_combat = 10"
    by (simp_all add: close_combat_def new_combat_def results_empty_def close_env_def)
  with results_within_capacity[OF _ calc] show ?thesis by (simp add: decide_attack_def Let_def)
qed

text \<open>The first attack of a tick is the one that is measured.\<close>
lemma second_attack_ignored:
  assumes "cb_input c = Some first" "combat_attack E input st c = Inr (r, st', c')"
  shows "st' = st \<and> c' = c\<lparr>cb_unique := cb_unique c', cb_check := cb_check c'\<rparr>"
  using assms by (auto simp: combat_attack_def Let_def split: option.splits)

text \<open>In a game mode that is trusted the attack made of an air swing is sent, whether it was in reach or not.\<close>
lemma trusted_air_swing_sent:
  assumes "cv_trusting E" "cb_attacked c" "cb_check c" "\<not> cb_client c"
    and "check_for_mispredicted_entity E st c = Inr (True, st1, c1)"
  shows "\<exists>v. combat_calculate E st c = Inr (v, st1, combat_reset (prepare_attack E c1)) \<and> cx_sent v = cb_input c1"
proof -
  have "\<not> cb_client c1" using mispredicted_keeps[OF assms(5)] assms(4) by simp
  moreover have "cb_client (prepare_attack E c1) = cb_client c1" "cb_input (prepare_attack E c1) = cb_input c1"
    by (simp_all add: prepare_attack_def Let_def)
  ultimately show ?thesis using assms by (simp add: combat_calculate_def decide_attack_def Let_def)
qed

end
