(* ===== verification/Detections.thy ===== *)
theory Detections
  imports Movement Blocks Entities
begin

text \<open>
  The detections: their buffers and violations (\<^verbatim>\<open>src/player/detection.go\<close>), the packets and the
  state of the player that they look at.  A detection is a step from its own state and a packet to the verdicts
  that it gives, in order; the metadata of all detections is changed by the verdicts alone.
\<close>

section \<open>Metadata\<close>

text \<open>Numbers of type \<^verbatim>\<open>'d\<close> are the 64 bit ones.\<close>
record 'd dtc_meta =
  dm_violations :: 'd
  dm_max_violations :: 'd
  dm_buffer :: 'd
  dm_fail_buffer :: 'd
  dm_max_buffer :: 'd
  dm_trust :: int
  dm_last_flagged :: int

definition new_meta :: "'d flt \<Rightarrow> real \<Rightarrow> real \<Rightarrow> real \<Rightarrow> int \<Rightarrow> 'd dtc_meta" where
  "new_meta D fail max_buffer max_violations trust =
    \<lparr>dm_violations = fl_lit D 0, dm_max_violations = fl_lit D max_violations, dm_buffer = fl_lit D 0,
     dm_fail_buffer = fl_lit D fail, dm_max_buffer = fl_lit D max_buffer, dm_trust = trust, dm_last_flagged = 0\<rparr>"

definition pass_detection :: "'d flt \<Rightarrow> 'd \<Rightarrow> 'd dtc_meta \<Rightarrow> 'd dtc_meta" where
  "pass_detection D sub m = m\<lparr>dm_buffer := fl_max D (fl_lit D 0) (fl_sub D (dm_buffer m) sub)\<rparr>"

text \<open>The configuration, and what the event handler decides of a flag and of a punishment.\<close>
record 'd fail_env =
  fe_flt :: "'d flt"
  fe_server_tick :: int
  fe_legacy :: bool
  fe_punishable :: bool
  fe_cancel_flag :: "'d dtc_meta \<Rightarrow> bool"
  fe_cancel_punish :: "'d dtc_meta \<Rightarrow> bool"

datatype fail_outcome = Buffered | FlagCancelled | Flagged bool | Punished bool

definition added_violations :: "'d fail_env \<Rightarrow> 'd dtc_meta \<Rightarrow> 'd" where
  "added_violations E m =
    (let D = fe_flt E
     in if 0 < dm_trust m
        then fl_div D (fl_max D (fl_lit D 0) (fl_sub D (fl_of_int D (dm_trust m))
               (fl_of_int D (fe_server_tick E - dm_last_flagged m)))) (fl_of_int D (dm_trust m))
        else fl_lit D 1)"

text \<open>\<^verbatim>\<open>FailDetection\<close>; the outcome says whether the flag is logged (and sent, when events are legacy).\<close>
definition fail_detection :: "'d fail_env \<Rightarrow> 'd dtc_meta \<Rightarrow> fail_outcome \<times> 'd dtc_meta" where
  "fail_detection E m =
    (let D = fe_flt E; m = m\<lparr>dm_buffer := fl_min D (fl_add D (dm_buffer m) (fl_lit D 1)) (dm_max_buffer m)\<rparr>
     in if fl_less D (dm_buffer m) (dm_fail_buffer m) then (Buffered, m)
        else
          let m' = m\<lparr>dm_violations := fl_add D (dm_violations m) (added_violations E m)\<rparr>
          in if fe_cancel_flag E m' then (FlagCancelled, m)
             else
               let m' = m'\<lparr>dm_last_flagged := fe_server_tick E\<rparr>; logged = fl_le D (fl_lit D 0.01) (dm_violations m')
               in if \<not> fe_legacy E \<and> fe_punishable E \<and> fl_le D (dm_max_violations m') (dm_violations m')
                     \<and> \<not> fe_cancel_punish E m'
                  then (Punished logged, m') else (Flagged logged, m'))"

section \<open>Verdicts\<close>

text \<open>\<^verbatim>\<open>PassAll\<close> passes with the whole buffer; \<^verbatim>\<open>Kick\<close> disconnects without a flag.\<close>
datatype 'd judgement = Pass 'd | PassAll | Fail | Kick

definition judge :: "'d fail_env \<Rightarrow> 'd judgement \<Rightarrow> 'd dtc_meta \<Rightarrow> fail_outcome list \<times> 'd dtc_meta" where
  "judge E v m = (case v of
      Pass x \<Rightarrow> ([], pass_detection (fe_flt E) x m)
    | PassAll \<Rightarrow> ([], pass_detection (fe_flt E) (dm_buffer m) m)
    | Fail \<Rightarrow> (case fail_detection E m of (out, m) \<Rightarrow> ([out], m))
    | Kick \<Rightarrow> ([], m))"

text \<open>Verdicts at the times and with the decisions of the handler that each was given under.\<close>
fun judge_all :: "('d fail_env \<times> 'd judgement) list \<Rightarrow> 'd dtc_meta \<Rightarrow> fail_outcome list \<times> 'd dtc_meta" where
  "judge_all [] m = ([], m)"
| "judge_all ((E, v) # vs) m = (case judge E v m of (o1, m) \<Rightarrow> case judge_all vs m of (o2, m) \<Rightarrow> (o1 @ o2, m))"

section \<open>Packets\<close>

datatype use_action = ClickBlock | ClickAir | BreakBlock | OtherUse
datatype trigger = TriggerUnknown | TriggerPlayerInput | TriggerSimulationTick | TriggerOther
datatype prediction = PredictFailure | PredictSuccess | PredictOther
datatype block_action = PredictDestroy | StartBreak | CrackBreak | ContinueDestroy | AbortBreak | StopBreak
  | CreativeDestroy | OtherAction
datatype game_mode = Survival | Creative | Adventure | Spectator | OtherMode

datatype stack_action = SaTake int int | SaPlace int int | SaSwap int int | SaDrop int | SaDestroy int
  | SaConsume int | SaMineBlock | SaCraftCreative | SaOther

record 'f use_item =
  ui_action :: use_action
  ui_face :: int
  ui_trigger :: trigger
  ui_prediction :: prediction
  ui_slot :: int
  ui_clicked :: "'f vec3"

datatype 'f transaction = TxUseItem "'f use_item" | TxUseEntity bool "64 word" int | TxRelease int | TxOther

datatype raw_flag = RVerticalCollision | RPerformItemInteraction | RPerformBlockActions | RPerformStackRequest
  | RStartSpin | RStopSpin | RWantUp | RJumping | RJumpDown | RStartGliding | RStartUsingItem

record 'f raw_input =
  ri_tick :: "64 word"
  ri_flags :: "raw_flag \<Rightarrow> bool"
  ri_move :: "'f vec2"
  ri_delta :: "'f vec3"
  ri_mode :: int
  ri_item :: "(use_action \<times> int) option"
  ri_actions :: "(block_action \<times> int) list"
  ri_request :: "stack_action list option"
  ri_vehicle :: "int option"

datatype 'f dpacket =
    PkInput "'f raw_input"
  | PkTransaction "'f transaction"
  | PkPlayerAction block_action
  | PkStackRequests "stack_action list list"
  | PkEquipment bool int
  | PkLatency int
  | PkInteract bool "'f vec3 option" "64 word"
  | PkOther

section \<open>What the detections read of the player\<close>

text \<open>Protocol versions (\<^verbatim>\<open>player.go\<close>), and the input modes of the protocol.\<close>
abbreviation game_version_1_21_20 :: int where "game_version_1_21_20 \<equiv> 712"
abbreviation game_version_1_21_80 :: int where "game_version_1_21_80 \<equiv> 800"
abbreviation game_version_1_21_90 :: int where "game_version_1_21_90 \<equiv> 818"
abbreviation game_version_1_21_120 :: int where "game_version_1_21_120 \<equiv> 859"
abbreviation mode_mouse :: int where "mode_mouse \<equiv> 1"
abbreviation mode_touch :: int where "mode_touch \<equiv> 2"
abbreviation mode_gamepad :: int where "mode_gamepad \<equiv> 3"

datatype device = Android | IOS | FireOS | Win10 | Win32 | Orbis | NX | XBOX | WP | OtherDevice int

record ('f, 'b, 'm) dtc_env =
  dc_flt :: "'f flt"
  dc_box :: "'f box_lib"
  dc_blocks :: "('f, 'b) block_lib"
  dc_src :: "bpos \<Rightarrow> 'b"
  dc_mv :: "'f mv"
  dc_frame :: "64 word"
  dc_game_mode :: game_mode
  dc_mode_pending :: bool
  dc_version :: int
  dc_current_protocol :: int
  dc_runtime_id :: "64 word"
  dc_pending_acks :: int
  dc_server_tick :: int
  dc_now :: int
  dc_input_mode :: int
  dc_cps_left :: int
  dc_cps_right :: int
  dc_left_limit :: int
  dc_right_limit :: int
  dc_left_limit_mobile :: int
  dc_right_limit_mobile :: int
  dc_last_swing :: int
  dc_fatigue :: "int option"
  dc_device :: device
  dc_title_id :: string
  dc_default_mode :: int
  dc_allow_touch :: bool
  dc_client_tracking :: bool
  dc_find_entity :: "64 word \<Rightarrow> ('f vec3, 'f, 'm) entity option"
  dc_hand_sim_based :: bool
  dc_hotbar_container :: int

definition version_in_range :: "int \<Rightarrow> int \<Rightarrow> int \<Rightarrow> bool" where
  "version_in_range v oldest latest \<longleftrightarrow> oldest \<le> v \<and> v \<le> latest"

abbreviation new_breaking :: "('f, 'b, 'm) dtc_env \<Rightarrow> bool" where
  "new_breaking C \<equiv> version_in_range (dc_version C) game_version_1_21_20 (dc_current_protocol C)"

definition is_block_face_valid :: "int \<Rightarrow> bool" where
  "is_block_face_valid face \<longleftrightarrow> 0 \<le> face \<and> face \<le> 5"

definition riding :: "'f raw_input \<Rightarrow> bool" where
  "riding i \<longleftrightarrow> (case ri_vehicle i of Some v \<Rightarrow> v \<noteq> 0 | None \<Rightarrow> False)"

section \<open>Bounds\<close>

text \<open>In exact numbers: the buffer stays within its bounds, and violations grow by at most one a failure.\<close>
definition meta_ok :: "real dtc_meta \<Rightarrow> bool" where
  "meta_ok m \<longleftrightarrow> 0 \<le> dm_buffer m \<and> dm_buffer m \<le> dm_max_buffer m \<and> 0 \<le> dm_violations m"

definition now_or_later :: "(real fail_env \<times> real judgement) list \<Rightarrow> int \<Rightarrow> bool" where
  "now_or_later vs t \<longleftrightarrow> sorted (t # map (\<lambda>(E, v). fe_server_tick E) vs)
     \<and> (\<forall>(E, v) \<in> set vs. fe_flt E = real_flt \<and> (\<forall>x. v = Pass x \<longrightarrow> 0 \<le> x))"

lemma added_violations_bounds:
  assumes "fe_flt E = real_flt" "dm_last_flagged m \<le> fe_server_tick E"
  shows "0 \<le> added_violations E m \<and> added_violations E m \<le> 1"
proof -
  have "max 0 (real_of_int (dm_trust m) - real_of_int (fe_server_tick E - dm_last_flagged m)) \<le> real_of_int (dm_trust m)"
    if "0 < dm_trust m" using that assms(2) by simp
  then show ?thesis using assms by (simp add: added_violations_def Let_def divide_le_eq)
qed

lemma fail_detection_bounds:
  assumes "fe_flt E = real_flt" "dm_last_flagged m \<le> fe_server_tick E" "meta_ok m" "fail_detection E m = (out, m')"
  shows "meta_ok m' \<and> dm_max_buffer m' = dm_max_buffer m \<and> dm_max_violations m' = dm_max_violations m
    \<and> dm_violations m \<le> dm_violations m' \<and> dm_violations m' \<le> dm_violations m + 1
    \<and> dm_last_flagged m' \<le> fe_server_tick E
    \<and> ((\<exists>b. out = Punished b) \<longrightarrow> dm_max_violations m \<le> dm_violations m')"
proof -
  define m1 where "m1 = m\<lparr>dm_buffer := min (dm_buffer m + 1) (dm_max_buffer m)\<rparr>"
  define a where "a = added_violations E m1"
  have a: "0 \<le> a" "a \<le> 1"
    using added_violations_bounds[OF assms(1), of m1] assms(2) by (simp_all add: a_def m1_def)
  have "fail_detection E m = (if dm_buffer m1 < dm_fail_buffer m1 then (Buffered, m1)
     else let m2 = m1\<lparr>dm_violations := dm_violations m1 + a\<rparr>
          in if fe_cancel_flag E m2 then (FlagCancelled, m1)
             else let m3 = m2\<lparr>dm_last_flagged := fe_server_tick E\<rparr>
                  in if \<not> fe_legacy E \<and> fe_punishable E \<and> dm_max_violations m3 \<le> dm_violations m3 \<and> \<not> fe_cancel_punish E m3
                     then (Punished (0.01 \<le> dm_violations m3), m3) else (Flagged (0.01 \<le> dm_violations m3), m3))"
    by (simp add: fail_detection_def Let_def assms(1) m1_def a_def)
  then show ?thesis using assms(2-4) a
    by (auto simp: Let_def m1_def meta_ok_def split: if_splits)
qed

definition fails :: "(real fail_env \<times> real judgement) list \<Rightarrow> nat" where
  "fails vs = length (filter (\<lambda>(E, v). v = Fail) vs)"

lemma fails_simps [simp]: "fails [] = 0" "fails ((E, v) # vs) = (if v = Fail then 1 else 0) + fails vs"
  by (simp_all add: fails_def)

definition flags :: "fail_outcome \<Rightarrow> bool" where
  "flags out \<longleftrightarrow> (case out of Flagged _ \<Rightarrow> True | Punished _ \<Rightarrow> True | _ \<Rightarrow> False)"

lemma fail_detection_buffer:
  assumes "fe_flt E = real_flt" "fail_detection E m = (out, m')"
  shows "dm_buffer m' \<le> dm_buffer m + 1" "dm_fail_buffer m' = dm_fail_buffer m"
    "flags out \<Longrightarrow> dm_fail_buffer m \<le> dm_buffer m'"
  using assms by (auto simp: fail_detection_def Let_def flags_def split: if_splits)

text \<open>One verdict.\<close>
lemma judge_bounds:
  assumes "fe_flt E = real_flt" "dm_last_flagged m \<le> fe_server_tick E" "\<forall>x. v = Pass x \<longrightarrow> 0 \<le> x" "meta_ok m"
    and "judge E v m = (outs, m')"
  shows "meta_ok m'" "dm_max_buffer m' = dm_max_buffer m" "dm_max_violations m' = dm_max_violations m"
    "dm_fail_buffer m' = dm_fail_buffer m" "dm_last_flagged m' \<le> fe_server_tick E"
    "dm_violations m' \<le> dm_violations m + (if v = Fail then 1 else 0)"
    "dm_buffer m' \<le> dm_buffer m + (if v = Fail then 1 else 0)"
    "Punished b \<in> set outs \<Longrightarrow> dm_max_violations m \<le> dm_violations m'"
    "\<exists>out \<in> set outs. flags out \<Longrightarrow> dm_fail_buffer m \<le> dm_buffer m'"
proof -
  have pass: "meta_ok (pass_detection real_flt x m) \<and> dm_buffer (pass_detection real_flt x m) \<le> dm_buffer m"
    if "0 \<le> x" for x using that assms(4) by (auto simp: pass_detection_def meta_ok_def)
  have keeps: "dm_max_buffer (pass_detection real_flt x m) = dm_max_buffer m"
    "dm_max_violations (pass_detection real_flt x m) = dm_max_violations m"
    "dm_fail_buffer (pass_detection real_flt x m) = dm_fail_buffer m"
    "dm_last_flagged (pass_detection real_flt x m) = dm_last_flagged m"
    "dm_violations (pass_detection real_flt x m) = dm_violations m" for x
    by (simp_all add: pass_detection_def)
  have all: "0 \<le> dm_buffer m" using assms(4) by (simp add: meta_ok_def)
  obtain out mf where f: "fail_detection E m = (out, mf)" by fastforce
  note fb = fail_detection_bounds[OF assms(1,2,4) f] fail_detection_buffer[OF assms(1) f]
  have cases: "v = Fail \<and> outs = [out] \<and> m' = mf
     \<or> v \<noteq> Fail \<and> outs = [] \<and> (m' = m \<or> (\<exists>x\<ge>0. m' = pass_detection real_flt x m))"
    using assms(1,3,5) all by (cases v) (auto simp: judge_def f)
  show "meta_ok m'" "dm_max_buffer m' = dm_max_buffer m" "dm_max_violations m' = dm_max_violations m"
    "dm_fail_buffer m' = dm_fail_buffer m" "dm_last_flagged m' \<le> fe_server_tick E"
    "dm_violations m' \<le> dm_violations m + (if v = Fail then 1 else 0)"
    "dm_buffer m' \<le> dm_buffer m + (if v = Fail then 1 else 0)"
    using cases fb assms(2,4) pass keeps by auto
  show "Punished b \<in> set outs \<Longrightarrow> dm_max_violations m \<le> dm_violations m'"
    "\<exists>out \<in> set outs. flags out \<Longrightarrow> dm_fail_buffer m \<le> dm_buffer m'"
    using cases fb by auto
qed

lemma judge_all_bounds:
  assumes "now_or_later vs (dm_last_flagged m)" "meta_ok m" "judge_all vs m = (outs, m')"
  shows "meta_ok m' \<and> dm_max_buffer m' = dm_max_buffer m \<and> dm_violations m' \<le> dm_violations m + fails vs
    \<and> (\<forall>b. Punished b \<in> set outs \<longrightarrow> dm_max_violations m \<le> dm_violations m + fails vs)
    \<and> ((\<exists>out \<in> set outs. flags out) \<longrightarrow> dm_fail_buffer m \<le> dm_buffer m + fails vs)"
  using assms
proof (induction vs arbitrary: m outs)
  case (Cons x vs)
  obtain E v where x: "x = (E, v)" by fastforce
  obtain o1 m1 where j: "judge E v m = (o1, m1)" by fastforce
  obtain o2 m2 where r: "judge_all vs m1 = (o2, m2)" by fastforce
  have outs: "outs = o1 @ o2" "m2 = m'" using Cons.prems(3) by (simp_all add: x j r)
  have e: "fe_flt E = real_flt" "dm_last_flagged m \<le> fe_server_tick E" "\<forall>x. v = Pass x \<longrightarrow> 0 \<le> x"
    using Cons.prems(1) by (auto simp: x now_or_later_def)
  note b = judge_bounds[OF e Cons.prems(2) j]
  have "now_or_later vs (dm_last_flagged m1)"
    using Cons.prems(1) b(5) by (fastforce simp: x now_or_later_def)
  note ih = Cons.IH[OF this b(1) r[unfolded outs(2)]]
  have v: "dm_violations m1 + fails vs \<le> dm_violations m + fails (x # vs)"
    "dm_buffer m1 + fails vs \<le> dm_buffer m + fails (x # vs)"
    using b(6,7) by (auto simp: x split: if_splits)
  have p: "dm_max_violations m \<le> dm_violations m + fails (x # vs)" if "Punished q \<in> set outs" for q
  proof (cases "Punished q \<in> set o1")
    case True
    with b(8)[OF True] v(1) show ?thesis by simp
  next
    case False
    with that outs have "Punished q \<in> set o2" by simp
    with ih b(3) v(1) show ?thesis by fastforce
  qed
  have f: "dm_fail_buffer m \<le> dm_buffer m + fails (x # vs)" if "\<exists>out \<in> set outs. flags out"
  proof (cases "\<exists>out \<in> set o1. flags out")
    case True
    with b(9)[OF True] v(2) show ?thesis by simp
  next
    case False
    with that outs have "\<exists>out \<in> set o2. flags out" by auto
    with ih b(4) v(2) show ?thesis by fastforce
  qed
  show ?case using ih b(2) v(1) p f outs by auto
qed auto

text \<open>Whatever verdicts a detection gives, in any order, its buffer stays between zero and its maximum, it
  flags only after as many failures as its fail buffer, and it punishes only after as many failures as its
  maximal violations.\<close>
theorem punished_needs_fails:
  assumes "0 \<le> max_buffer" "now_or_later vs 0"
    and "judge_all vs (new_meta real_flt fail max_buffer max_violations trust) = (outs, m)"
  shows "0 \<le> dm_buffer m \<and> dm_buffer m \<le> max_buffer
    \<and> ((\<exists>out \<in> set outs. flags out) \<longrightarrow> fail \<le> fails vs)
    \<and> (\<forall>b. Punished b \<in> set outs \<longrightarrow> max_violations \<le> fails vs)"
  using judge_all_bounds[of vs "new_meta real_flt fail max_buffer max_violations trust" outs m] assms
  by (simp add: new_meta_def meta_ok_def)

definition sample_fail_env :: "int \<Rightarrow> real fail_env" where
  "sample_fail_env t = \<lparr>fe_flt = real_flt, fe_server_tick = t, fe_legacy = False, fe_punishable = True,
     fe_cancel_flag = \<lambda>_. False, fe_cancel_punish = \<lambda>_. False\<rparr>"

text \<open>Two failures reach two violations: the second one punishes.\<close>
theorem punished_needs_fails_witness:
  "fst (judge_all [(sample_fail_env 5, Fail), (sample_fail_env 9, Pass 0.5), (sample_fail_env 9, Fail)]
     (new_meta real_flt 1 1 2 0)) = [Flagged True, Punished True]
   \<and> dm_buffer (snd (judge_all [(sample_fail_env 5, Fail), (sample_fail_env 9, Pass 0.5), (sample_fail_env 9, Fail)]
     (new_meta real_flt 1 1 2 0))) \<le> 1"
proof -
  let ?vs = "[(sample_fail_env 5, Fail), (sample_fail_env 9, Pass 0.5), (sample_fail_env 9, Fail)]"
  obtain outs m where j: "judge_all ?vs (new_meta real_flt 1 1 2 0) = (outs, m)" by fastforce
  have "now_or_later ?vs 0" by (simp add: now_or_later_def sample_fail_env_def)
  from punished_needs_fails[OF _ this j] have "dm_buffer m \<le> 1" by simp
  moreover have "outs = [Flagged True, Punished True]"
    using j by (auto simp: judge_def fail_detection_def pass_detection_def added_violations_def sample_fail_env_def new_meta_def Let_def)
  ultimately show ?thesis unfolding j by simp
qed

end
