(* ===== verification/DetectPackets.thy ===== *)
theory DetectPackets
  imports Detections
begin

text \<open>
  The detections of bad packets: \<^verbatim>\<open>src/player/detection/bad_packet_a.go\<close> to
  \<^verbatim>\<open>bad_packet_q.go\<close>.  A detection without a state is a function from a packet to its verdicts.
\<close>

section \<open>A to G: fields that cannot be\<close>

definition new_bad_packet_a :: "'d flt \<Rightarrow> 'd dtc_meta" where "new_bad_packet_a D = new_meta D 1 1 1 0"

text \<open>The state is the last frame.\<close>
definition detect_bad_packet_a :: "'f dpacket \<Rightarrow> 64 word \<Rightarrow> 'd judgement list \<times> 64 word" where
  "detect_bad_packet_a pk prev = (case pk of
      PkInput i \<Rightarrow> (if prev \<noteq> 0 \<and> ri_tick i = 0 then [Fail] else [], ri_tick i)
    | _ \<Rightarrow> ([], prev))"

definition new_bad_packet_b :: "'d flt \<Rightarrow> 'd dtc_meta" where "new_bad_packet_b D = new_meta D 1 1 1 0"

definition detect_bad_packet_b :: "('f, 'b, 'm) dtc_env \<Rightarrow> 'f dpacket \<Rightarrow> 'd judgement list" where
  "detect_bad_packet_b C pk = (case pk of
      PkTransaction (TxUseEntity attack target slot) \<Rightarrow> if attack \<and> dc_runtime_id C = target then [Fail] else []
    | _ \<Rightarrow> [])"

definition new_bad_packet_c :: "'d flt \<Rightarrow> 'd dtc_meta" where "new_bad_packet_c D = new_meta D 1 1 1 0"

definition detect_bad_packet_c :: "('f, 'b, 'm) dtc_env \<Rightarrow> 'f dpacket \<Rightarrow> 'd judgement list" where
  "detect_bad_packet_c C pk =
    (let creative = (dc_game_mode C = Creative)
     in case pk of
          PkTransaction (TxUseItem u) \<Rightarrow> if ui_action u = BreakBlock \<and> \<not> creative then [Fail] else []
        | PkPlayerAction a \<Rightarrow>
            if \<not> new_breaking C then []
            else if a \<in> {PredictDestroy, StartBreak, CrackBreak, ContinueDestroy, AbortBreak, StopBreak} then [Fail]
            else if a = CreativeDestroy \<and> \<not> creative then [Fail] else []
        | PkInput i \<Rightarrow>
            (case ri_item i of
               Some (action, face) \<Rightarrow> if ri_flags i RPerformItemInteraction \<and> action = BreakBlock \<and> \<not> creative then [Fail] else []
             | None \<Rightarrow> [])
            @ (if list_ex (\<lambda>(a, face). a = CreativeDestroy) (ri_actions i) \<and> \<not> creative then [Fail] else [])
        | _ \<Rightarrow> [])"

definition new_bad_packet_d :: "'d flt \<Rightarrow> 'd dtc_meta" where "new_bad_packet_d D = new_meta D 1 1 1 0"

definition check_request_action :: "('f, 'b, 'm) dtc_env \<Rightarrow> stack_action \<Rightarrow> 'd judgement list" where
  "check_request_action C a =
    (if dc_mode_pending C then [] else if a = SaCraftCreative \<and> dc_game_mode C \<noteq> Creative then [Fail] else [])"

definition detect_bad_packet_d :: "('f, 'b, 'm) dtc_env \<Rightarrow> 'f dpacket \<Rightarrow> 'd judgement list" where
  "detect_bad_packet_d C pk = (case pk of
      PkInput i \<Rightarrow>
        if \<not> ri_flags i RPerformStackRequest then []
        else (case ri_request i of None \<Rightarrow> [] | Some actions \<Rightarrow> concat (map (check_request_action C) actions))
    | PkStackRequests rs \<Rightarrow> concat (map (check_request_action C) (concat rs))
    | _ \<Rightarrow> [])"

definition new_bad_packet_e :: "'d flt \<Rightarrow> 'd dtc_meta" where "new_bad_packet_e D = new_meta D 1 1 1 (-1)"

text \<open>A number that is not equal to itself is a NaN.\<close>
definition detect_bad_packet_e :: "('f, 'b, 'm) dtc_env \<Rightarrow> 'f dpacket \<Rightarrow> 'd judgement list" where
  "detect_bad_packet_e C pk = (case pk of
      PkInput i \<Rightarrow>
        (let F = dc_flt C;
             bad = (\<lambda>v. fl_less F v (fl_lit F (-1.001)) \<or> fl_less F (fl_lit F 1.001) v \<or> \<not> fl_eq F v v)
         in (if bad (fst (ri_move i)) then [Fail] else []) @ (if bad (snd (ri_move i)) then [Fail] else []))
    | _ \<Rightarrow> [])"

definition new_bad_packet_f :: "'d flt \<Rightarrow> 'd dtc_meta" where "new_bad_packet_f D = new_meta D 1 1 1 (-1)"

definition check_hotbar_slot :: "int \<Rightarrow> 'd judgement list" where
  "check_hotbar_slot slot = (if slot < 0 \<or> 9 \<le> slot then [Fail] else [])"

definition detect_bad_packet_f :: "('f, 'b, 'm) dtc_env \<Rightarrow> 'f dpacket \<Rightarrow> 'd judgement list" where
  "detect_bad_packet_f C pk = (case pk of
      PkTransaction (TxRelease slot) \<Rightarrow> check_hotbar_slot slot
    | PkTransaction (TxUseEntity attack target slot) \<Rightarrow> check_hotbar_slot slot
    | PkTransaction (TxUseItem u) \<Rightarrow>
        check_hotbar_slot (ui_slot u)
        @ (if ui_action u \<noteq> ClickBlock \<or> \<not> new_breaking C then []
           else (if ui_trigger u \<noteq> TriggerPlayerInput \<and> ui_trigger u \<noteq> TriggerSimulationTick then [Fail] else [])
              @ (if ui_prediction u \<noteq> PredictFailure \<and> ui_prediction u \<noteq> PredictSuccess then [Fail] else []))
    | PkEquipment inventory slot \<Rightarrow> if inventory then check_hotbar_slot slot else []
    | _ \<Rightarrow> [])"

definition new_bad_packet_g :: "'d flt \<Rightarrow> 'd dtc_meta" where "new_bad_packet_g D = new_meta D 1 1 1 0"

definition detect_bad_packet_g :: "'f dpacket \<Rightarrow> 'd judgement list" where
  "detect_bad_packet_g pk = (case pk of
      PkTransaction (TxUseItem u) \<Rightarrow>
        if ui_action u \<noteq> ClickAir \<and> \<not> is_block_face_valid (ui_face u) then [Fail] else []
    | PkInput i \<Rightarrow>
        (if ri_flags i RPerformItemInteraction
         then (case ri_item i of Some (action, face) \<Rightarrow> if is_block_face_valid face then [] else [Fail] | None \<Rightarrow> [])
         else [])
        @ (if ri_flags i RPerformBlockActions
           then concat (map (\<lambda>(a, face). if a \<noteq> AbortBreak \<and> \<not> is_block_face_valid face then [Fail] else []) (ri_actions i))
           else [])
    | _ \<Rightarrow> [])"

section \<open>H to K: tampered timing\<close>

definition new_bad_packet_h :: "'d flt \<Rightarrow> 'd dtc_meta" where "new_bad_packet_h D = new_meta D 1 1 3 0"

text \<open>The state is the count of unmatched answers and the last one.\<close>
definition detect_bad_packet_h ::
  "'d flt \<Rightarrow> ('f, 'b, 'm) dtc_env \<Rightarrow> 'f dpacket \<Rightarrow> nat \<times> int \<Rightarrow> 'd judgement list \<times> nat \<times> int" where
  "detect_bad_packet_h D C pk st = (case pk of
      PkLatency t \<Rightarrow>
        if 0 < dc_pending_acks C
        then (if t \<noteq> snd st then (if 3 \<le> fst st + 1 then [Fail] else [], fst st + 1, t) else ([], st))
        else ([Pass (fl_lit D 0.5)], 0, 0)
    | _ \<Rightarrow> ([], st))"

definition new_bad_packet_i :: "'d flt \<Rightarrow> 'd dtc_meta" where "new_bad_packet_i D = new_meta D 1 1 3 0"

definition detect_bad_packet_i :: "'d flt \<Rightarrow> ('f, 'b, 'm) dtc_env \<Rightarrow> 'f dpacket \<Rightarrow> 'd judgement list" where
  "detect_bad_packet_i D C pk = (case pk of
      PkInput i \<Rightarrow>
        (let F = dc_flt C; (x, y, z) = cm_pos (mv_client (dc_mv C));
             beyond = (\<lambda>v lim. fl_less F (fl_lit F lim) v \<or> fl_less F v (fl_lit F (- lim)))
         in if \<not> fl_finite F x \<or> \<not> fl_finite F y \<or> \<not> fl_finite F z then [Fail]
            else if beyond x 300000000 \<or> beyond z 300000000 \<or> beyond y 100000000 then [Fail]
            else [Pass (fl_lit D 0.5)])
    | _ \<Rightarrow> [])"

definition new_bad_packet_j :: "'d flt \<Rightarrow> 'd dtc_meta" where "new_bad_packet_j D = new_meta D 2 3 10 0"

text \<open>The state is the last tick; a large jump backwards does not change it.\<close>
definition detect_bad_packet_j :: "'d flt \<Rightarrow> 'f dpacket \<Rightarrow> 64 word \<Rightarrow> 'd judgement list \<times> 64 word" where
  "detect_bad_packet_j D pk prev = (case pk of
      PkInput i \<Rightarrow>
        if prev \<noteq> 0 \<and> ri_tick i < prev \<and> 60 < prev - ri_tick i then ([Fail], prev)
        else ([Pass (fl_lit D 0.1)], ri_tick i)
    | _ \<Rightarrow> ([], prev))"

definition new_bad_packet_k :: "'d flt \<Rightarrow> 'd dtc_meta" where "new_bad_packet_k D = new_meta D 1 1 3 0"

definition detect_bad_packet_k :: "'d flt \<Rightarrow> 'f dpacket \<Rightarrow> nat \<Rightarrow> 'd judgement list \<times> nat" where
  "detect_bad_packet_k D pk n = (case pk of
      PkInput i \<Rightarrow>
        if ri_flags i RStartSpin \<and> ri_flags i RStopSpin
        then (if 3 \<le> n + 1 then [Fail] else [Pass (fl_lit D 0.5)], n + 1)
        else ([Pass (fl_lit D 0.5)], 0)
    | _ \<Rightarrow> ([], n))"

section \<open>L to Q: impossible movement\<close>

definition new_bad_packet_l :: "'d flt \<Rightarrow> 'd dtc_meta" where "new_bad_packet_l D = new_meta D 2 3 10 0"

definition detect_bad_packet_l :: "'d flt \<Rightarrow> ('f, 'b, 'm) dtc_env \<Rightarrow> 'f dpacket \<Rightarrow> 'd judgement list" where
  "detect_bad_packet_l D C pk = (case pk of
      PkInput i \<Rightarrow>
        (let F = dc_flt C; m = dc_mv C;
             fall = fl_mul F (fl_mul F (fl_lit F 0.08) (fl_lit F 0.98)) (fl_lit F 1.5)
         in if riding i then [Pass (fl_lit D 0.5)]
            else if \<not> ri_flags i RVerticalCollision \<or> fl_le F (fl_neg F fall) (vy (ri_delta i)) then [Pass (fl_lit D 0.2)]
            else if tp_since (mv_tp m) \<le> 20 \<or> in_cooldown (mv_inputs m) \<or> 0 < tp_pending (mv_tp m) then [Pass (fl_lit D 0.2)]
            else if ct_y (mv_contacts m) \<or> sn_on_ground (mv_stance m) then [Pass (fl_lit D 0.2)]
            else [Fail])
    | _ \<Rightarrow> [])"

definition new_bad_packet_m :: "'d flt \<Rightarrow> 'd dtc_meta" where "new_bad_packet_m D = new_meta D 1 2 10 0"

text \<open>The state is the last input mode, when there is one.\<close>
definition detect_bad_packet_m :: "'d flt \<Rightarrow> 'f dpacket \<Rightarrow> int option \<Rightarrow> 'd judgement list \<times> int option" where
  "detect_bad_packet_m D pk last_mode = (case pk of
      PkInput i \<Rightarrow>
        (case last_mode of
           None \<Rightarrow> ([], Some (ri_mode i))
         | Some n \<Rightarrow> if ri_mode i \<noteq> n then ([Fail], Some (ri_mode i)) else ([Pass (fl_lit D 0.5)], Some n))
    | _ \<Rightarrow> ([], last_mode))"

definition new_bad_packet_n :: "'d flt \<Rightarrow> 'd dtc_meta" where "new_bad_packet_n D = new_meta D 2 3 10 0"

text \<open>The state is the last position, when there is one; a position that is flagged does not change it.\<close>
definition detect_bad_packet_n ::
  "'d flt \<Rightarrow> ('f, 'b, 'm) dtc_env \<Rightarrow> 'f dpacket \<Rightarrow> 'f vec3 option \<Rightarrow> 'd judgement list \<times> 'f vec3 option" where
  "detect_bad_packet_n D C pk last_pos = (case pk of
      PkInput i \<Rightarrow>
        (let F = dc_flt C; m = dc_mv C; pos = cm_pos (mv_client m)
         in if eq3 F pos (zero3 F) then ([], last_pos)
            else case last_pos of
                   None \<Rightarrow> ([], Some pos)
                 | Some q \<Rightarrow>
                     if has_teleport m \<or> 0 < tp_pending (mv_tp m) \<or> has_knockback m \<or> ct_immobile (mv_contacts m) \<or> riding i
                     then ([], Some pos)
                     else if fl_less F (fl_lit F 50) (len3 F (sub3 F pos q)) then ([Fail], Some q)
                     else ([Pass (fl_lit D 0.5)], Some pos))
    | _ \<Rightarrow> ([], last_pos))"

definition new_bad_packet_o :: "'d flt \<Rightarrow> 'd dtc_meta" where "new_bad_packet_o D = new_meta D 1 1 3 0"

definition detect_bad_packet_o :: "'d flt \<Rightarrow> 'f dpacket \<Rightarrow> bool \<Rightarrow> 'd judgement list \<times> bool" where
  "detect_bad_packet_o D pk held = (case pk of
      PkInput i \<Rightarrow>
        if ri_flags i RJumpDown \<and> held then ([Fail], held)
        else ([Pass (fl_lit D 0.5)], ri_flags i RWantUp \<or> ri_flags i RJumping)
    | _ \<Rightarrow> ([], held))"

definition new_bad_packet_p :: "'d flt \<Rightarrow> 'd dtc_meta" where "new_bad_packet_p D = new_meta D 1 1 3 0"

definition detect_bad_packet_p :: "'d flt \<Rightarrow> ('f, 'b, 'm) dtc_env \<Rightarrow> 'f dpacket \<Rightarrow> 'd judgement list" where
  "detect_bad_packet_p D C pk = (case pk of
      PkInput i \<Rightarrow>
        if ri_flags i RStartGliding \<and> fl_less (dc_flt C) (fl_lit (dc_flt C) 0.1) (vy (ri_delta i)) then [Fail]
        else [Pass (fl_lit D 0.5)]
    | _ \<Rightarrow> [])"

definition new_bad_packet_q :: "'d flt \<Rightarrow> 'd dtc_meta" where "new_bad_packet_q D = new_meta D 2 3 10 0"

definition detect_bad_packet_q :: "'d flt \<Rightarrow> ('f, 'b, 'm) dtc_env \<Rightarrow> 'f dpacket \<Rightarrow> 'd judgement list" where
  "detect_bad_packet_q D C pk = (case pk of
      PkInput i \<Rightarrow>
        (let F = dc_flt C; m = dc_mv C
         in if has_teleport m \<or> 0 < tp_pending (mv_tp m) \<or> has_knockback m \<or> tp_since_kb (mv_tp m) \<le> 1
               \<or> sn_gliding (mv_stance m) \<or> fy_flying (mv_flight m) \<or> ct_no_clip (mv_contacts m) \<or> ct_immobile (mv_contacts m)
            then [Pass (fl_lit D 0.2)]
            else if fl_less F (vy (ri_delta i)) (fl_sub F (fl_neg F (fl_lit F 3.92)) (fl_lit F 0.05)) then [Fail]
            else [Pass (fl_lit D 0.2)])
    | _ \<Rightarrow> [])"

section \<open>Runs of packets\<close>

text \<open>The verdicts of a detection with a state on a run of packets.\<close>
fun detect_run :: "('p \<Rightarrow> 'st \<Rightarrow> 'd judgement list \<times> 'st) \<Rightarrow> 'p list \<Rightarrow> 'st \<Rightarrow> 'd judgement list" where
  "detect_run f [] st = []"
| "detect_run f (p # ps) st = (case f p st of (vs, st) \<Rightarrow> vs @ detect_run f ps st)"

definition ticks_of :: "'f dpacket list \<Rightarrow> 64 word list" where
  "ticks_of pks = concat (map (\<lambda>pk. case pk of PkInput i \<Rightarrow> [ri_tick i] | _ \<Rightarrow> []) pks)"

lemma ticks_of_simps [simp]: "ticks_of [] = []" "ticks_of (pk # pks) = (case pk of PkInput i \<Rightarrow> [ri_tick i] | _ \<Rightarrow> []) @ ticks_of pks"
  by (simp_all add: ticks_of_def)

definition is_input :: "'f dpacket \<Rightarrow> bool" where
  "is_input pk \<longleftrightarrow> (case pk of PkInput _ \<Rightarrow> True | _ \<Rightarrow> False)"

lemma tick_detections:
  "detect_bad_packet_a (PkInput i) prev = (if prev \<noteq> 0 \<and> ri_tick i = 0 then [Fail] else [], ri_tick i)"
  "detect_bad_packet_j D (PkInput i) prev = (if prev \<noteq> 0 \<and> ri_tick i < prev \<and> 60 < prev - ri_tick i
     then ([Fail], prev) else ([Pass (fl_lit D 0.1)], ri_tick i))"
  "\<not> is_input pk \<Longrightarrow> detect_bad_packet_a pk prev = ([], prev)"
  "\<not> is_input pk \<Longrightarrow> detect_bad_packet_j D pk prev = ([], prev)"
  "\<not> is_input pk \<Longrightarrow> ticks_of (pk # pks) = ticks_of pks"
  by (cases pk; simp add: detect_bad_packet_a_def detect_bad_packet_j_def is_input_def)+

lemma input_cases: obtains i where "pk = PkInput i" | "\<not> is_input pk"
  by (cases pk) (simp_all add: is_input_def)

lemma honest_a: "0 \<notin> set (ticks_of pks) \<Longrightarrow> Fail \<notin> set (detect_run detect_bad_packet_a pks prev)"
proof (induction pks arbitrary: prev)
  case (Cons pk pks)
  show ?case
  proof (cases pk rule: input_cases)
    case (1 i)
    then show ?thesis using Cons by (simp add: tick_detections)
  next
    case 2
    then have "0 \<notin> set (ticks_of pks)" using Cons.prems by (simp add: tick_detections del: ticks_of_simps)
    with 2 Cons.IH show ?thesis by (simp add: tick_detections)
  qed
qed simp

lemma honest_j: "sorted (prev # ticks_of pks) \<Longrightarrow> Fail \<notin> set (detect_run (detect_bad_packet_j D) pks prev)"
proof (induction pks arbitrary: prev)
  case (Cons pk pks)
  show ?case
  proof (cases pk rule: input_cases)
    case (1 i)
    then have "\<not> ri_tick i < prev" "sorted (ri_tick i # ticks_of pks)" using Cons.prems by auto
    with 1 Cons.IH[of "ri_tick i"] show ?thesis by (simp add: tick_detections)
  next
    case 2
    then have "sorted (prev # ticks_of pks)" using Cons.prems by (simp add: tick_detections del: ticks_of_simps)
    with 2 Cons.IH show ?thesis by (simp add: tick_detections)
  qed
qed simp

text \<open>A client whose input ticks never go back and never return to zero is never flagged by the detections of
  the tick, whatever other packets it sends.\<close>
theorem increasing_ticks_unflagged:
  assumes "sorted (ticks_of pks)" "0 \<notin> set (ticks_of pks)"
  shows "Fail \<notin> set (detect_run detect_bad_packet_a pks 0 @ detect_run (detect_bad_packet_j D) pks 0)"
  using honest_a[OF assms(2)] honest_j[of 0 pks D] assms(1) by simp

definition sample_input :: "64 word \<Rightarrow> real raw_input" where
  "sample_input t = \<lparr>ri_tick = t, ri_flags = \<lambda>_. False, ri_move = (0, 0), ri_delta = (0, 0, 0), ri_mode = 1, ri_item = None,
     ri_actions = [], ri_request = None, ri_vehicle = None\<rparr>"

theorem increasing_ticks_unflagged_witness:
  "Fail \<notin> set (detect_run detect_bad_packet_a [PkInput (sample_input 3), PkOther, PkInput (sample_input 100)] 0
     @ detect_run (detect_bad_packet_j real_flt) [PkInput (sample_input 3), PkOther, PkInput (sample_input 100)] 0)"
  by (rule increasing_ticks_unflagged) (simp_all add: sample_input_def)

text \<open>After one jump backwards of more than 60 ticks every later input is flagged, however regular its ticks are,
  until they are within 60 of the tick before the jump: the detection never takes the new tick as its base.\<close>
theorem one_jump_flags_all:
  assumes "\<forall>t \<in> set (ticks_of pks). t < prev \<and> 60 < prev - t" "prev \<noteq> 0"
  shows "detect_run (detect_bad_packet_j D) pks prev = replicate (length (ticks_of pks)) Fail"
  using assms(1)
proof (induction pks)
  case (Cons pk pks)
  show ?case
  proof (cases pk rule: input_cases)
    case (1 i)
    then show ?thesis using Cons assms(2) by (simp add: tick_detections)
  next
    case 2
    then have "ticks_of (pk # pks) = ticks_of pks" by (simp add: tick_detections del: ticks_of_simps)
    with 2 Cons show ?thesis by (simp add: tick_detections del: ticks_of_simps)
  qed
qed simp

theorem one_jump_flags_all_witness:
  "detect_run (detect_bad_packet_j real_flt) [PkInput (sample_input 10), PkInput (sample_input 11), PkInput (sample_input 12)] 100
     = [Fail, Fail, Fail]"
proof -
  let ?pks = "[PkInput (sample_input 10), PkInput (sample_input 11), PkInput (sample_input 12)]"
  have t: "ticks_of ?pks = [10, 11, 12]" by (simp add: sample_input_def)
  have "\<forall>t \<in> set (ticks_of ?pks). t < 100 \<and> 60 < 100 - t" unfolding t by simp
  from one_jump_flags_all[OF this] have "detect_run (detect_bad_packet_j real_flt) ?pks 100 = replicate (length (ticks_of ?pks)) Fail"
    by simp
  then show ?thesis unfolding t by simp
qed

text \<open>The same of positions: a player that moved 50 blocks once is flagged while standing still.\<close>
lemma far_position_flags_all:
  assumes "\<not> eq3 (dc_flt C) (cm_pos (mv_client (dc_mv C))) (zero3 (dc_flt C))"
    and "\<not> has_teleport (dc_mv C)" "\<not> 0 < tp_pending (mv_tp (dc_mv C))" "\<not> has_knockback (dc_mv C)"
    and "\<not> ct_immobile (mv_contacts (dc_mv C))" "\<forall>i \<in> set is. \<not> riding i"
    and "fl_less (dc_flt C) (fl_lit (dc_flt C) 50) (len3 (dc_flt C) (sub3 (dc_flt C) (cm_pos (mv_client (dc_mv C))) q))"
  shows "detect_run (detect_bad_packet_n D C) (map PkInput is) (Some q) = replicate (length is) Fail"
  using assms(6)
  by (induction "is") (simp_all add: detect_bad_packet_n_def Let_def assms(1-5) assms(7))

end
