(* ===== verification/DetectOthers.thy ===== *)
theory DetectOthers
  imports Detections Combat
begin

text \<open>
  The other detections of \<^verbatim>\<open>src/player/detection\<close>: clicks, rotations, devices, inventory,
  combat results and movement.  Four of them (\<^verbatim>\<open>blink_a.go\<close>,
  \<^verbatim>\<open>fly_a.go\<close>, \<^verbatim>\<open>no_slowdown_a.go\<close>, \<^verbatim>\<open>speed_b.go\<close>) are
  never registered.
\<close>

section \<open>Clicks and rotations\<close>

definition new_autoclicker_a :: "'d flt \<Rightarrow> 'd dtc_meta" where "new_autoclicker_a D = new_meta D 4 4 20 (-1)"

definition hook_left :: "('f, 'b, 'm) dtc_env \<Rightarrow> 'd judgement list" where
  "hook_left C =
    (let limit = (if dc_input_mode C = mode_touch then dc_left_limit_mobile C else dc_left_limit C)
     in if limit < dc_cps_left C then [Fail] else [])"

definition hook_right :: "('f, 'b, 'm) dtc_env \<Rightarrow> 'd judgement list" where
  "hook_right C =
    (let limit = (if dc_input_mode C = mode_touch then dc_right_limit_mobile C else dc_right_limit C)
     in if limit < dc_cps_right C then [Fail] else [])"

definition new_aim_a :: "'d flt \<Rightarrow> 'd dtc_meta" where "new_aim_a D = new_meta D 5 5 20 0"

definition detect_aim_a :: "'d flt \<Rightarrow> ('f, 'b, 'm) dtc_env \<Rightarrow> 'f dpacket \<Rightarrow> 'd judgement list" where
  "detect_aim_a D C pk = (case pk of
      PkInput i \<Rightarrow>
        (let F = dc_flt C; m = dc_mv C; b = mv_body m;
             yaw = fl_abs F (fl_sub F (vz (bo_rotation b)) (vz (bo_last_rotation b)));
             diff = fl_abs F (fl_sub F (round32 F yaw 5) (round32 F yaw 1))
         in if ri_mode i \<noteq> mode_mouse \<or> ct_x (mv_contacts m) \<or> ct_z (mv_contacts m) \<or> fl_less F yaw (fl_lit F 0.001) then []
            else if fl_le F diff (fl_lit F 0.00003) then [Fail] else [Pass (fl_lit D 0.1)])
    | _ \<Rightarrow> [])"

section \<open>Devices\<close>

text \<open>The title ids that the devices are known to have.\<close>
definition title_preview :: string where "title_preview = ''1904044383''"

definition known_title_id :: "device \<Rightarrow> string option" where
  "known_title_id d = (case d of
      Android \<Rightarrow> Some ''1739947436'' | IOS \<Rightarrow> Some ''1810924247'' | FireOS \<Rightarrow> Some ''1944307183''
    | Win10 \<Rightarrow> Some ''896928775'' | Win32 \<Rightarrow> Some ''896928775'' | Orbis \<Rightarrow> Some ''2044456598''
    | NX \<Rightarrow> Some ''2047319603'' | XBOX \<Rightarrow> Some ''1828326430'' | WP \<Rightarrow> Some ''1916611344''
    | OtherDevice _ \<Rightarrow> None)"

definition new_edition_faker_a :: "'d flt \<Rightarrow> 'd dtc_meta" where "new_edition_faker_a D = new_meta D 1 1 1 0"

text \<open>The check of the title id, once; the state is whether it is still to run.\<close>
definition check_title_id :: "('f, 'b, 'm) dtc_env \<Rightarrow> 'd judgement list" where
  "check_title_id C =
    (let d = dc_device C; t = dc_title_id C; v = dc_version C
     in if t = [] \<and> game_version_1_21_90 \<le> v then []
        else if t = title_preview then (if d \<in> {Win10, IOS, XBOX} then [] else [Fail])
        else if d = Win32 \<and> v < game_version_1_21_120 then [Fail]
        else case known_title_id d of
               None \<Rightarrow> [Kick]
             | Some expected \<Rightarrow>
                 if expected = t \<or> t = ''2044456598'' \<or> t = ''1828326430''
                    \<or> (t = ''1739947436'' \<and> (d = Orbis \<or> d = XBOX))
                    \<or> (t = [] \<and> v = game_version_1_21_80)
                 then [] else [Fail])"

definition detect_edition_faker_a :: "('f, 'b, 'm) dtc_env \<Rightarrow> 'f dpacket \<Rightarrow> bool \<Rightarrow> 'd judgement list \<times> bool" where
  "detect_edition_faker_a C pk run = (case pk of
      PkInput i \<Rightarrow> if run then (check_title_id C, False) else ([], run)
    | _ \<Rightarrow> ([], run))"

definition default_input_mode :: "device \<Rightarrow> int option" where
  "default_input_mode d =
    (if d \<in> {Win10, Win32} then Some mode_mouse
     else if d \<in> {Android, IOS, FireOS} then Some mode_touch
     else if d \<in> {XBOX, Orbis, NX} then Some mode_gamepad else None)"

definition new_edition_faker_b :: "'d flt \<Rightarrow> 'd dtc_meta" where "new_edition_faker_b D = new_meta D 1 1 1 0"

definition detect_edition_faker_b :: "('f, 'b, 'm) dtc_env \<Rightarrow> 'f dpacket \<Rightarrow> bool \<Rightarrow> 'd judgement list \<times> bool" where
  "detect_edition_faker_b C pk run = (case pk of
      PkInput i \<Rightarrow>
        if run
        then (case default_input_mode (dc_device C) of
                Some n \<Rightarrow> if n \<noteq> dc_default_mode C then [Fail] else []
              | None \<Rightarrow> [], False)
        else ([], run)
    | _ \<Rightarrow> ([], run))"

definition new_edition_faker_c :: "'d flt \<Rightarrow> 'd dtc_meta" where "new_edition_faker_c D = new_meta D 1 1 1 0"

text \<open>The state is the last input mode, which nothing reads.\<close>
definition detect_edition_faker_c :: "('f, 'b, 'm) dtc_env \<Rightarrow> 'f dpacket \<Rightarrow> int \<Rightarrow> 'd judgement list \<times> int" where
  "detect_edition_faker_c C pk last_mode = (case pk of
      PkInput i \<Rightarrow>
        (let max_mode = (if dc_version C < game_version_1_21_120 then 4 else mode_gamepad)
         in if max_mode < ri_mode i \<or> ri_mode i < mode_mouse then ([Fail], last_mode)
            else (if \<not> dc_allow_touch C \<and> dc_device C \<notin> {Android, IOS, FireOS} \<and> ri_mode i = mode_touch
                  then [Kick] else [], ri_mode i))
    | _ \<Rightarrow> ([], last_mode))"

section \<open>Inventory and blocks\<close>

definition new_inv_move_a :: "'d flt \<Rightarrow> 'd dtc_meta" where "new_inv_move_a D = new_meta D 1 1 1 0"

definition is_hotbar_slot :: "('f, 'b, 'm) dtc_env \<Rightarrow> int \<Rightarrow> bool" where
  "is_hotbar_slot C container \<longleftrightarrow> container = dc_hotbar_container C"

definition action_requires_gui :: "('f, 'b, 'm) dtc_env \<Rightarrow> stack_action \<Rightarrow> bool" where
  "action_requires_gui C a = (case a of
      SaTake s d \<Rightarrow> \<not> is_hotbar_slot C s \<or> \<not> is_hotbar_slot C d
    | SaPlace s d \<Rightarrow> \<not> is_hotbar_slot C s \<or> \<not> is_hotbar_slot C d
    | SaSwap s d \<Rightarrow> \<not> is_hotbar_slot C s \<or> \<not> is_hotbar_slot C d
    | SaDrop s \<Rightarrow> \<not> is_hotbar_slot C s
    | SaDestroy s \<Rightarrow> \<not> is_hotbar_slot C s
    | SaConsume s \<Rightarrow> \<not> is_hotbar_slot C s
    | SaMineBlock \<Rightarrow> False
    | SaCraftCreative \<Rightarrow> True
    | SaOther \<Rightarrow> True)"

definition moving :: "('f, 'b, 'm) dtc_env \<Rightarrow> bool" where
  "moving C \<longleftrightarrow> fl_less (dc_flt C) (fl_lit (dc_flt C) 0) (len_sqr2 (dc_flt C) (bo_impulse (mv_body (dc_mv C))))"

text \<open>The state is whether a request of a moving player touched the inventory.\<close>
definition detect_inv_move_a :: "('f, 'b, 'm) dtc_env \<Rightarrow> 'f dpacket \<Rightarrow> bool \<Rightarrow> 'd judgement list \<times> bool" where
  "detect_inv_move_a C pk pre = (case pk of
      PkStackRequests rs \<Rightarrow> ([], list_ex (\<lambda>r. list_ex (action_requires_gui C) r \<and> moving C) rs)
    | PkInput i \<Rightarrow> (if pre \<and> moving C then [Fail] else [], False)
    | _ \<Rightarrow> ([], pre))"

definition new_nuker_a :: "'d flt \<Rightarrow> 'd dtc_meta" where "new_nuker_a D = new_meta D 1 1 1 0"

definition detect_nuker_a :: "('f, 'b, 'm) dtc_env \<Rightarrow> 'f dpacket \<Rightarrow> 'd judgement list" where
  "detect_nuker_a C pk = (case pk of
      PkInput i \<Rightarrow> if 3 < length (filter (\<lambda>(a, face). a = PredictDestroy) (ri_actions i)) then [Fail] else []
    | PkTransaction (TxUseItem u) \<Rightarrow>
        if new_breaking C \<and> ui_action u = BreakBlock \<and> (dc_game_mode C = Survival \<or> dc_game_mode C = Adventure)
        then [Fail] else []
    | _ \<Rightarrow> [])"

definition new_scaffold_a :: "'d flt \<Rightarrow> 'd dtc_meta" where "new_scaffold_a D = new_meta D 1 1 5 0"

definition detect_scaffold_a :: "'d flt \<Rightarrow> ('f, 'b, 'm) dtc_env \<Rightarrow> 'f dpacket \<Rightarrow> 'd judgement list" where
  "detect_scaffold_a D C pk = (case pk of
      PkTransaction (TxUseItem u) \<Rightarrow>
        if \<not> new_breaking C \<or> dc_hand_sim_based C then []
        else if ui_action u = ClickBlock \<and> fl_eq (dc_flt C) (len_sqr3 (dc_flt C) (ui_clicked u)) (fl_lit (dc_flt C) 0)
                \<and> ui_trigger u = TriggerPlayerInput
        then [Fail] else [Pass (fl_lit D 0.5)]
    | _ \<Rightarrow> [])"

section \<open>Combat\<close>

definition new_killaura_a :: "'d flt \<Rightarrow> 'd dtc_meta" where "new_killaura_a D = new_meta D 1 1 1 0"

text \<open>More ticks since the last swing than a swing takes.\<close>
definition late_swing :: "('f, 'b, 'm) dtc_env \<Rightarrow> bool" where
  "late_swing C \<longleftrightarrow> 10 + (case dc_fatigue C of Some a \<Rightarrow> a | None \<Rightarrow> 0) < sint (dc_frame C) - dc_last_swing C"

definition detect_killaura_a :: "('f, 'b, 'm) dtc_env \<Rightarrow> 'f dpacket \<Rightarrow> bool \<Rightarrow> 'd judgement list \<times> bool" where
  "detect_killaura_a C pk deferred = (case pk of
      PkTransaction (TxUseEntity attack target slot) \<Rightarrow> ([], if attack \<and> late_swing C then True else deferred)
    | PkInput i \<Rightarrow> (if deferred \<and> late_swing C then [Fail] else [], False)
    | _ \<Rightarrow> ([], deferred))"

definition settling :: "('f, 'b, 'm) dtc_env \<Rightarrow> bool" where
  "settling C \<longleftrightarrow> tp_since (mv_tp (dc_mv C)) \<le> 20 \<or> in_cooldown (mv_inputs (dc_mv C))"

definition vanilla_reach :: "('f, 'b, 'm) dtc_env \<Rightarrow> 'f" where
  "vanilla_reach C = fl_lit (dc_flt C) (if dc_game_mode C = Creative then 5 else 2.9)"

text \<open>The smallest number that is below the start, and the largest above it.\<close>
definition least_of :: "'f flt \<Rightarrow> 'f list \<Rightarrow> 'f" where
  "least_of F xs = fold (\<lambda>d m. if fl_less F d m then d else m) xs (fl_max_value F)"

definition greatest_of :: "'f flt \<Rightarrow> 'f list \<Rightarrow> 'f" where
  "greatest_of F xs = fold (\<lambda>d m. if fl_less F m d then d else m) xs (fl_lit F 0)"

definition new_reach_a :: "'d flt \<Rightarrow> 'd dtc_meta" where "new_reach_a D = new_meta D 1.01 1.5 7 1200"

definition run_reach_a :: "'d flt \<Rightarrow> ('f, 'b, 'm) dtc_env \<Rightarrow> ('f, 'n) combat \<Rightarrow> 'd judgement list" where
  "run_reach_a D C c =
    (let F = dc_flt C; reach = vanilla_reach C
     in if dc_input_mode C = mode_touch \<or> settling C \<or> cb_raycasts c = [] then []
        else if fl_less F reach (least_of F (cb_raycasts c))
                \<and> fl_less F (fl_add F reach (fl_lit F 0.1)) (greatest_of F (cb_raycasts c))
        then [Fail] else [Pass (fl_lit D 0.0015)])"

definition new_reach_b :: "'d flt \<Rightarrow> 'd dtc_meta" where "new_reach_b D = new_meta D 1.01 3 15 400"

definition run_reach_b :: "'d flt \<Rightarrow> ('f, 'b, 'm) dtc_env \<Rightarrow> ('f, 'n) combat \<Rightarrow> 'd judgement list" where
  "run_reach_b D C c =
    (if settling C then []
     else if fl_less (dc_flt C) (vanilla_reach C) (least_of (dc_flt C) (cb_raws c)) then [Fail] else [Pass (fl_lit D 0.001)])"

definition new_hitbox_a :: "'d flt \<Rightarrow> 'd dtc_meta" where "new_hitbox_a D = new_meta D 6 6 10 0"

definition detect_hitbox_a :: "('f, 'b, 'm) dtc_env \<Rightarrow> 'f dpacket \<Rightarrow> 'd judgement list" where
  "detect_hitbox_a C pk = (case pk of
      PkInteract over pos target \<Rightarrow>
        (case pos of
           None \<Rightarrow> []
         | Some p \<Rightarrow>
             if \<not> dc_client_tracking C \<or> \<not> over then []
             else case dc_find_entity C target of
                    None \<Rightarrow> []
                  | Some e \<Rightarrow>
                      if \<not> e_is_player e \<or> e_since_teleport e \<le> 10 then []
                      else
                        let F = dc_flt C; L = dc_box C;
                            far = (\<lambda>q. len3 F (sub3 F p (closest_point_to_bbox F p (bl_grow L (fl_lit F 0.1) (entity_box F L q e)))))
                        in if fl_less F (fl_lit F 0.004) (fl_min F (far (e_prev_pos e)) (far (e_pos e))) then [Fail] else [PassAll])
    | _ \<Rightarrow> [])"

section \<open>Movement\<close>

definition new_phase_a :: "'d flt \<Rightarrow> 'd dtc_meta" where "new_phase_a D = new_meta D 1 1 10 0"

text \<open>A player who may move through blocks, or is being moved.\<close>
definition passing :: "'f mv \<Rightarrow> bool" where
  "passing m \<longleftrightarrow> fy_flying (mv_flight m) \<or> ct_no_clip (mv_contacts m) \<or> ct_immobile (mv_contacts m)
     \<or> has_teleport m \<or> 0 < tp_pending (mv_tp m)"

definition detect_phase_a :: "'d flt \<Rightarrow> ('f, 'b, 'm) dtc_env \<Rightarrow> 'f dpacket \<Rightarrow> nat \<Rightarrow> 'd judgement list \<times> nat" where
  "detect_phase_a D C pk n = (case pk of
      PkInput i \<Rightarrow>
        if ri_tick i \<noteq> dc_frame C \<or> passing (dc_mv C) then ([Pass (fl_lit D 0.5)], n)
        else if ct_penetrated (mv_contacts (dc_mv C))
        then (if 3 \<le> n + 1 then [Fail] else [Pass (fl_lit D 0.5)], n + 1)
        else ([Pass (fl_lit D 0.5)], 0)
    | _ \<Rightarrow> ([], n))"

text \<open>The speed that movement in equilibrium has on the supporting block, from a speed of the player.\<close>
definition ground_speed :: "('f, 'b, 'm) dtc_env \<Rightarrow> 'f \<Rightarrow> 'f" where
  "ground_speed C speed =
    (let F = dc_flt C; mul = fl_mul F;
         (friction, speed) =
           (case bo_supporting (mv_body (dc_mv C)) of
              None \<Rightarrow> (mul (fl_lit F 0.91) (fl_lit F 0.6), speed)
            | Some p \<Rightarrow>
                let b = dc_src C p
                in (mul (fl_lit F 0.91) (block_friction F (dc_blocks C) b),
                    if block_name (dc_blocks C) b = ''minecraft:soul_sand'' then mul speed (fl_lit F 0.543) else speed));
         relative = mul speed (fl_div F (fl_lit F 0.16277136) (mul (mul friction friction) friction))
     in fl_div F relative (fl_sub F (fl_lit F 1) friction))"

definition too_fast :: "('f, 'b, 'm) dtc_env \<Rightarrow> 'f \<Rightarrow> bool" where
  "too_fast C max_speed =
    (let F = dc_flt C; v = cm_vel (mv_client (dc_mv C))
     in fl_less F (fl_add F max_speed (fl_lit F 0.06)) (len2 F (vx v, vz v)))"

text \<open>Frames whose movement is not that of walking.\<close>
definition unusual :: "'f mv \<Rightarrow> bool" where
  "unusual m \<longleftrightarrow> fy_flying (mv_flight m) \<or> sn_gliding (mv_stance m) \<or> ct_immobile (mv_contacts m)
     \<or> ct_no_clip (mv_contacts m) \<or> fy_just_disabled (mv_flight m) \<or> has_teleport m \<or> 0 < tp_pending (mv_tp m)
     \<or> tp_since (mv_tp m) \<le> 1 \<or> tp_since_kb (mv_tp m) \<le> 1 \<or> ct_penetrated (mv_contacts m) \<or> ct_stuck (mv_contacts m)"

definition new_speed_a :: "'d flt \<Rightarrow> 'd dtc_meta" where "new_speed_a D = new_meta D 1 1 10 0"

definition detect_speed_a :: "'d flt \<Rightarrow> ('f, 'b, 'm) dtc_env \<Rightarrow> 'f dpacket \<Rightarrow> 'd judgement list" where
  "detect_speed_a D C pk = (case pk of
      PkInput i \<Rightarrow>
        if ri_tick i \<noteq> dc_frame C \<or> \<not> sn_on_ground (mv_stance (dc_mv C)) \<or> unusual (dc_mv C) \<or> riding i
           \<or> \<not> too_fast C (ground_speed C (sp_movement (mv_speeds (dc_mv C))))
        then [Pass (fl_lit D 0.5)] else [Fail]
    | _ \<Rightarrow> [])"

definition new_timer_a :: "'d flt \<Rightarrow> 'd dtc_meta" where "new_timer_a D = new_meta D 2 3 5 0"

text \<open>The inputs of a window, and the tick and the time (in nanoseconds) of its start.\<close>
record timer =
  tm_inputs :: int
  tm_tick :: int
  tm_time :: int

definition new_timer :: "('f, 'b, 'm) dtc_env \<Rightarrow> timer" where
  "new_timer C = \<lparr>tm_inputs = 0, tm_tick = dc_server_tick C, tm_time = dc_now C\<rparr>"

definition detect_timer_a :: "'d flt \<Rightarrow> ('f, 'b, 'm) dtc_env \<Rightarrow> 'f dpacket \<Rightarrow> timer \<Rightarrow> 'd judgement list \<times> timer" where
  "detect_timer_a D C pk t = (case pk of
      PkInput i \<Rightarrow>
        (let t = t\<lparr>tm_inputs := tm_inputs t + 1\<rparr>;
             ticks = dc_server_tick C - tm_tick t; ms = go_div (dc_now C - tm_time t) 1000000;
             expected = (if ms < 1000 then 20 else go_div ms 50 + 1)
         in if ticks < 20 \<and> ms < 1000 then ([], t)
            else (if expected + 5 < tm_inputs t then [Fail] else [Pass (fl_lit D 0.2)], new_timer C))
    | _ \<Rightarrow> ([], t))"

section \<open>Detections that are not registered\<close>

definition new_blink_a :: "'d flt \<Rightarrow> 'd dtc_meta" where "new_blink_a D = new_meta D 1 2 5 0"

text \<open>The time of the last input, the start of the freeze and the position before it.\<close>
record 'f blink =
  bk_last :: int
  bk_start :: int
  bk_pos :: "'f vec3"
  bk_active :: bool

definition new_blink :: "('f, 'b, 'm) dtc_env \<Rightarrow> 'f blink" where
  "new_blink C = \<lparr>bk_last = dc_now C, bk_start = 0, bk_pos = bo_pos (mv_body (dc_mv C)), bk_active = False\<rparr>"

text \<open>The distance of a leap after a freeze is more than walking covers in the same time.\<close>
definition leapt :: "('f, 'b, 'm) dtc_env \<Rightarrow> 'f blink \<Rightarrow> bool" where
  "leapt C b =
    (let F = dc_flt C; p = bo_pos (mv_body (dc_mv C)); q = bk_pos b;
         dist = len3 F (fl_sub F (vx p) (vx q), fl_lit F 0, fl_sub F (vz p) (vz q));
         ms = fl_of_int F (go_div (dc_now C - bk_start b) 1000000);
         max_dist = fl_add F (fl_mul F (fl_div F ms (fl_lit F 1000)) (fl_lit F 4.317)) (fl_lit F 1.5)
     in fl_less F max_dist dist \<and> fl_less F (fl_lit F 3) dist)"

definition detect_blink_a :: "'d flt \<Rightarrow> ('f, 'b, 'm) dtc_env \<Rightarrow> 'f dpacket \<Rightarrow> 'f blink \<Rightarrow> 'd judgement list \<times> 'f blink" where
  "detect_blink_a D C pk b = (case pk of
      PkInput i \<Rightarrow>
        (let now = dc_now C; pos = bo_pos (mv_body (dc_mv C))
         in if bk_active b
            then (if leapt C b then [Fail] else [Pass (fl_lit D 0.3)], b\<lparr>bk_active := False, bk_last := now, bk_pos := pos\<rparr>)
            else if 250000000 < now - bk_last b
            then ([Pass (fl_lit D 0.3)], b\<lparr>bk_start := bk_last b, bk_active := True, bk_last := now\<rparr>)
            else ([Pass (fl_lit D 0.3)], b\<lparr>bk_last := now, bk_pos := pos\<rparr>))
    | _ \<Rightarrow> ([], b))"

definition new_fly_a :: "'d flt \<Rightarrow> 'd dtc_meta" where "new_fly_a D = new_meta D 2 3 5 0"

record 'f airtime =
  ar_ticks :: int
  ar_last_y :: 'f
  ar_peak_y :: 'f

definition grounded :: "'f flt \<Rightarrow> 'f airtime" where
  "grounded F = \<lparr>ar_ticks = 0, ar_last_y = fl_lit F 0, ar_peak_y = fl_lit F 0\<rparr>"

text \<open>Frames of a player who is on the ground or may stay in the air.\<close>
definition may_hover :: "('f, 'b, 'm) dtc_env \<Rightarrow> 'f raw_input \<Rightarrow> bool" where
  "may_hover C i =
    (let m = dc_mv C
     in passing m \<or> tp_since (mv_tp m) \<le> 2 \<or> tp_since_kb (mv_tp m) \<le> 2 \<or> ct_penetrated (mv_contacts m)
        \<or> ct_stuck (mv_contacts m) \<or> fy_just_disabled (mv_flight m) \<or> ri_vehicle i \<noteq> None
        \<or> dc_game_mode C \<in> {Creative, Spectator} \<or> \<not> ct_has_gravity (mv_contacts m) \<or> sn_on_ground (mv_stance m))"

text \<open>The three checks of a player who has been in the air for more than four ticks.\<close>
definition hovers :: "('f, 'b, 'm) dtc_env \<Rightarrow> 'f airtime \<Rightarrow> bool" where
  "hovers C a =
    (let F = dc_flt C; y = vy (bo_pos (mv_body (dc_mv C)))
     in fl_less F (fl_lit F 0) (vy (cm_vel (mv_client (dc_mv C))))
        \<or> 20 < ar_ticks a \<and> fl_less F (fl_sub F (ar_peak_y a) y) (fl_lit F 3)
        \<or> 8 < ar_ticks a \<and> fl_le F (fl_lit F 0) (fl_sub F y (ar_last_y a)))"

definition detect_fly_a :: "'d flt \<Rightarrow> ('f, 'b, 'm) dtc_env \<Rightarrow> 'f dpacket \<Rightarrow> 'f airtime \<Rightarrow> 'd judgement list \<times> 'f airtime" where
  "detect_fly_a D C pk a = (case pk of
      PkInput i \<Rightarrow>
        if ri_tick i \<noteq> dc_frame C then ([Pass (fl_lit D 0.5)], a)
        else if may_hover C i then ([Pass (fl_lit D 0.5)], grounded (dc_flt C))
        else
          (let F = dc_flt C; y = vy (bo_pos (mv_body (dc_mv C)));
               a = a\<lparr>ar_ticks := ar_ticks a + 1, ar_peak_y := if fl_less F (ar_peak_y a) y then y else ar_peak_y a\<rparr>
           in (if 4 < ar_ticks a \<and> hovers C a then [Fail] else [Pass (fl_lit D 0.5)], a\<lparr>ar_last_y := y\<rparr>))
    | _ \<Rightarrow> ([], a))"

definition new_no_slowdown_a :: "'d flt \<Rightarrow> 'd dtc_meta" where "new_no_slowdown_a D = new_meta D 2 3 10 0"

text \<open>The state is the number of ticks that the item is still taken to be in use.\<close>
definition detect_no_slowdown_a :: "'d flt \<Rightarrow> ('f, 'b, 'm) dtc_env \<Rightarrow> 'f dpacket \<Rightarrow> int \<Rightarrow> 'd judgement list \<times> int" where
  "detect_no_slowdown_a D C pk n = (case pk of
      PkInput i \<Rightarrow>
        if ri_tick i \<noteq> dc_frame C then ([Pass (fl_lit D 0.5)], n)
        else
          (let n = (if ri_flags i RStartUsingItem then 20 else n); n = (if 0 < n then n - 1 else n); F = dc_flt C
           in (if n = 0 \<or> unusual (dc_mv C) \<or> ri_vehicle i \<noteq> None
                  \<or> \<not> too_fast C (ground_speed C (fl_mul F (sp_movement (mv_speeds (dc_mv C))) (fl_lit F 0.4)))
               then [Pass (fl_lit D 0.5)] else [Fail], n))
    | _ \<Rightarrow> ([], n))"

definition new_speed_b :: "'d flt \<Rightarrow> 'd dtc_meta" where "new_speed_b D = new_meta D 1 1 10 0"

definition detect_speed_b :: "'d flt \<Rightarrow> ('f, 'b, 'm) dtc_env \<Rightarrow> 'f dpacket \<Rightarrow> 'd judgement list" where
  "detect_speed_b D C pk = (case pk of
      PkInput i \<Rightarrow>
        (let F = dc_flt C; m = dc_mv C;
             speed = fl_lit F (if sn_sprinting (mv_stance m) then 0.026 else 0.02)
         in if ri_tick i \<noteq> dc_frame C \<or> dc_game_mode C \<in> {Creative, Spectator} \<or> sn_on_ground (mv_stance m)
               \<or> unusual m \<or> ri_vehicle i \<noteq> None
               \<or> \<not> too_fast C (fl_div F speed (fl_sub F (fl_lit F 1) (fl_lit F 0.91)))
            then [Pass (fl_lit D 0.5)] else [Fail])
    | _ \<Rightarrow> [])"

end
