(* ===== verification/DetectNames.thy ===== *)
theory DetectNames
  imports Floats "HOL-Library.AList"
begin

text \<open>
  The names, descriptions and punishability of the detections (the methods \<^verbatim>\<open>Type\<close>, \<^verbatim>\<open>SubType\<close>, \<^verbatim>\<open>Description\<close> and
  \<^verbatim>\<open>Punishable\<close> in \<^verbatim>\<open>src/player/detection\<close>), and the options of detections in the configuration
  (\<^verbatim>\<open>src/oconfig/detection.go\<close> and \<^verbatim>\<open>config.go\<close>).  Strings are the bytes of the source.
\<close>

section \<open>Names\<close>

text \<open>The apostrophe, and the section sign in UTF-8.\<close>
abbreviation apos :: string where "apos \<equiv> [CHR 0x27]"
abbreviation sect :: string where "sect \<equiv> [CHR 0xC2, CHR 0xA7]"

record dtc_info =
  di_type :: string
  di_sub_type :: string
  di_description :: string
  di_punishable :: bool

text \<open>The key of a detection in the configuration.\<close>
definition config_key :: "dtc_info \<Rightarrow> string" where
  "config_key i = di_type i @ ''_'' @ di_sub_type i"

definition info_aim_a :: dtc_info where
  "info_aim_a = \<lparr>di_type = ''Aim'', di_sub_type = ''A'',
     di_description = ''Checks for rounded yaw deltas.'',
     di_punishable = True\<rparr>"

definition info_autoclicker_a :: dtc_info where
  "info_autoclicker_a = \<lparr>di_type = ''Autoclicker'', di_sub_type = ''A'',
     di_description = ''Checks if the player is clicking above the limit set in KillLime'' @ apos @ ''s configuration.'',
     di_punishable = True\<rparr>"

definition info_bad_packet_a :: dtc_info where
  "info_bad_packet_a = \<lparr>di_type = ''BadPacket'', di_sub_type = ''A'',
     di_description = ''Checks if a player'' @ apos @ ''s simulation frame is valid.'',
     di_punishable = True\<rparr>"

definition info_bad_packet_b :: dtc_info where
  "info_bad_packet_b = \<lparr>di_type = ''BadPacket'', di_sub_type = ''B'',
     di_description = ''Checks if a player is if the user is hitting themselves.'',
     di_punishable = True\<rparr>"

definition info_bad_packet_c :: dtc_info where
  "info_bad_packet_c = \<lparr>di_type = ''BadPacket'', di_sub_type = ''C'',
     di_description = ''Checks if a player is breaking blocks in an invalid way.'',
     di_punishable = True\<rparr>"

definition info_bad_packet_d :: dtc_info where
  "info_bad_packet_d = \<lparr>di_type = ''BadPacket'', di_sub_type = ''D'',
     di_description = ''Checks if a player is attempting to run a creative transaction whilst not in creative mode.'',
     di_punishable = True\<rparr>"

definition info_bad_packet_e :: dtc_info where
  "info_bad_packet_e = \<lparr>di_type = ''BadPacket'', di_sub_type = ''E'',
     di_description = ''Checks if the player is sending an invalid value for their MoveVector on client-side.'',
     di_punishable = True\<rparr>"

definition info_bad_packet_f :: dtc_info where
  "info_bad_packet_f = \<lparr>di_type = ''BadPacket'', di_sub_type = ''F'',
     di_description = ''Checks if the player'' @ apos @ ''s inventory actions are valid'',
     di_punishable = True\<rparr>"

definition info_bad_packet_g :: dtc_info where
  "info_bad_packet_g = \<lparr>di_type = ''BadPacket'', di_sub_type = ''G'',
     di_description = ''Checks if the player is sending an invalid block-face value.'',
     di_punishable = True\<rparr>"

definition info_bad_packet_h :: dtc_info where
  "info_bad_packet_h = \<lparr>di_type = ''BadPacket'', di_sub_type = ''H'',
     di_description = ''Checks if a player is sending acknowledgments that do not match any pending acknowledgment, which is typically caused by tampering with the NetworkStackLatency timestamp (ping spoofing).'',
     di_punishable = True\<rparr>"

definition info_bad_packet_i :: dtc_info where
  "info_bad_packet_i = \<lparr>di_type = ''BadPacket'', di_sub_type = ''I'',
     di_description = ''Checks if a player is sending positions that are either non-finite (NaN/infinity) or beyond the world border, which indicates a client attempting to desync its position from the server (e.g - spamming '' @ [CHR 0xC2, CHR 0xB1] @ ''INT_MAX positions).'',
     di_punishable = True\<rparr>"

definition info_bad_packet_j :: dtc_info where
  "info_bad_packet_j = \<lparr>di_type = ''BadPacket'', di_sub_type = ''J'',
     di_description = ''Checks if a player'' @ apos @ ''s client tick is moving backwards, which is typically caused by a client subtracting an offset from its tick to desync from the server (e.g - SentinelNew'' @ apos @ ''s tick shifter).'',
     di_punishable = True\<rparr>"

definition info_bad_packet_k :: dtc_info where
  "info_bad_packet_k = \<lparr>di_type = ''BadPacket'', di_sub_type = ''K'',
     di_description = ''Checks if a player is toggling the spin attack and swimming states in the same tick, which is typically caused by a client attempting to desync its movement prediction (e.g - NukkitLagback disabler).'',
     di_punishable = True\<rparr>"

definition info_bad_packet_l :: dtc_info where
  "info_bad_packet_l = \<lparr>di_type = ''BadPacket'', di_sub_type = ''L'',
     di_description = ''Checks if a player reports a downward velocity while claiming vertical ground collision that is faster than a grounded player can physically fall (e.g a constant gravity-delta spoof, as used by NetherGames or Custom disablers).'',
     di_punishable = True\<rparr>"

definition info_bad_packet_m :: dtc_info where
  "info_bad_packet_m = \<lparr>di_type = ''BadPacket'', di_sub_type = ''M'',
     di_description = ''Checks if a player is continuously changing their input mode, which is only possible when a client randomizes the input mode field to bypass input validation (e.g - NetherGames disabler).'',
     di_punishable = True\<rparr>"

definition info_bad_packet_n :: dtc_info where
  "info_bad_packet_n = \<lparr>di_type = ''BadPacket'', di_sub_type = ''N'',
     di_description = ''Checks if a player is teleporting large distances in their movement input without a server-authorized teleport, which is only possible when a client injects fake positions (e.g - Sentinel'' @ apos @ ''s origin-point flood or fake teleports).'',
     di_punishable = True\<rparr>"

definition info_bad_packet_o :: dtc_info where
  "info_bad_packet_o = \<lparr>di_type = ''BadPacket'', di_sub_type = ''O'',
     di_description = ''Checks if a player is holding and releasing the jump key in the same input, which is only possible when a client forces contradictory jump flags to desync movement prediction (e.g - Lifeboat and Sentinel disablers).'',
     di_punishable = True\<rparr>"

definition info_bad_packet_p :: dtc_info where
  "info_bad_packet_p = \<lparr>di_type = ''BadPacket'', di_sub_type = ''P'',
     di_description = ''Checks if a player is reporting the start-gliding flag while not descending, which is only possible when a client forces the glide flag to desync movement prediction (e.g - Solstice'' @ apos @ ''s '' @ apos @ ''Glide'' @ apos @ '' disabler setting).'',
     di_punishable = True\<rparr>"

definition info_bad_packet_q :: dtc_info where
  "info_bad_packet_q = \<lparr>di_type = ''BadPacket'', di_sub_type = ''Q'',
     di_description = ''Checks if a player is reporting a vertical velocity faster than the vanilla terminal velocity, which is only possible when a client directly sets the motion vector to descend faster than physically possible (e.g - Solstice'' @ apos @ ''s fast fall disabler with the '' @ apos @ ''Predict'' @ apos @ '' or '' @ apos @ ''Set Vel'' @ apos @ '' modes).'',
     di_punishable = True\<rparr>"

definition info_edition_faker_a :: dtc_info where
  "info_edition_faker_a = \<lparr>di_type = ''EditionFaker'', di_sub_type = ''A'',
     di_description = ''Checks if the player is faking their device OS.'',
     di_punishable = True\<rparr>"

definition info_edition_faker_b :: dtc_info where
  "info_edition_faker_b = \<lparr>di_type = ''EditionFaker'', di_sub_type = ''B'',
     di_description = ''Checks if the player'' @ apos @ ''s default input mode matches an expected value.'',
     di_punishable = True\<rparr>"

definition info_edition_faker_c :: dtc_info where
  "info_edition_faker_c = \<lparr>di_type = ''EditionFaker'', di_sub_type = ''C'',
     di_description = ''Checks if the player has an invalid input mode for their given device.'',
     di_punishable = True\<rparr>"

definition info_fly_a :: dtc_info where
  "info_fly_a = \<lparr>di_type = ''Fly'', di_sub_type = ''A'',
     di_description = ''Checks if the player is hovering or moving upward without flight permission.'',
     di_punishable = True\<rparr>"

definition info_hitbox_a :: dtc_info where
  "info_hitbox_a = \<lparr>di_type = ''Hitbox'', di_sub_type = ''A'',
     di_description = ''Checks if the player is using a hitbox modification greater than the one sent by the server.'',
     di_punishable = True\<rparr>"

definition info_inv_move_a :: dtc_info where
  "info_inv_move_a = \<lparr>di_type = ''InvMove'', di_sub_type = ''A'',
     di_description = ''Checks if a player is moving while moving items in their inventory.'',
     di_punishable = True\<rparr>"

definition info_killaura_a :: dtc_info where
  "info_killaura_a = \<lparr>di_type = ''Killaura'', di_sub_type = ''A'',
     di_description = ''Detects if a player is attacking without swinging their arm'',
     di_punishable = True\<rparr>"

definition info_nuker_a :: dtc_info where
  "info_nuker_a = \<lparr>di_type = ''Nuker'', di_sub_type = ''A'',
     di_description = ''Checks if a player sends the wrong packet for breaking blocks.'',
     di_punishable = True\<rparr>"

definition info_phase_a :: dtc_info where
  "info_phase_a = \<lparr>di_type = ''Phase'', di_sub_type = ''A'',
     di_description = ''Checks if the player is penetrating solid blocks without the ability to do so.'',
     di_punishable = True\<rparr>"

definition info_reach_a :: dtc_info where
  "info_reach_a = \<lparr>di_type = ''Reach'', di_sub_type = ''A'',
     di_description = ''Checks if the player'' @ apos @ ''s combat reach exceeds the vanilla value - only applicable for non-touch clients.'',
     di_punishable = True\<rparr>"

definition info_reach_b :: dtc_info where
  "info_reach_b = \<lparr>di_type = ''Reach'', di_sub_type = ''B'',
     di_description = ''Checks if the distance between the player and the closest point of the entity is greater than the vanilla limit.'',
     di_punishable = True\<rparr>"

definition info_scaffold_a :: dtc_info where
  "info_scaffold_a = \<lparr>di_type = ''Scaffold'', di_sub_type = ''A'',
     di_description = ''Checks if the click vector is zero during an initial right click input.'',
     di_punishable = True\<rparr>"

definition info_speed_a :: dtc_info where
  "info_speed_a = \<lparr>di_type = ''Speed'', di_sub_type = ''A'',
     di_description = ''Checks if the player is moving faster than the maximum speed allowed by their movement speed and sprint state.'',
     di_punishable = True\<rparr>"

definition info_speed_b :: dtc_info where
  "info_speed_b = \<lparr>di_type = ''Speed'', di_sub_type = ''B'',
     di_description = ''Checks if the player is moving faster than the maximum air speed allowed by vanilla physics.'',
     di_punishable = True\<rparr>"

definition info_timer_a :: dtc_info where
  "info_timer_a = \<lparr>di_type = ''Timer'', di_sub_type = ''A'',
     di_description = ''Checks if the player is sending more movement inputs than the server tick rate allows.'',
     di_punishable = True\<rparr>"

section \<open>Options\<close>

datatype punishment = PunishNone | PunishKick | PunishBan

record dtc_opts =
  do_max_vl :: real
  do_flag_msg :: string
  do_punishment :: punishment

definition default_dtc_opts :: dtc_opts where
  "default_dtc_opts = \<lparr>do_max_vl = 10,
     do_flag_msg = ''{prefix} '' @ sect @ ''e{player} '' @ sect @ ''7flagged '' @ sect @ ''d{detection_type}'' @ sect @ ''7('' @ sect @ ''cx{detection_subtype}'' @ sect @ ''7) '' @ sect @ ''7['' @ sect @ ''cx{violations}'' @ sect @ ''7]'',
     do_punishment = PunishNone\<rparr>"

definition opts_autoclicker_a :: dtc_opts where
  "opts_autoclicker_a = \<lparr>do_max_vl = 25,
     do_flag_msg = ''{prefix} '' @ sect @ ''e{player} '' @ sect @ ''6is clicking too quickly '' @ sect @ ''7['' @ sect @ ''cx{violations}'' @ sect @ ''7]'',
     do_punishment = PunishKick\<rparr>"

definition opts_aim_a :: dtc_opts where
  "opts_aim_a = \<lparr>do_max_vl = 5,
     do_flag_msg = ''{prefix} '' @ sect @ ''e{player} '' @ sect @ ''6rotated suspiciously '' @ sect @ ''7['' @ sect @ ''cx{violations}'' @ sect @ ''7]'',
     do_punishment = PunishKick\<rparr>"

definition opts_badpacket_a :: dtc_opts where
  "opts_badpacket_a = \<lparr>do_max_vl = 1,
     do_flag_msg = ''{prefix} '' @ sect @ ''e{player} '' @ sect @ ''6sent an invalid packet'',
     do_punishment = PunishBan\<rparr>"

definition opts_badpacket_b :: dtc_opts where
  "opts_badpacket_b = \<lparr>do_max_vl = 1,
     do_flag_msg = ''{prefix} '' @ sect @ ''e{player} '' @ sect @ ''6tried to attack themselves'',
     do_punishment = PunishBan\<rparr>"

definition opts_badpacket_c :: dtc_opts where
  "opts_badpacket_c = \<lparr>do_max_vl = 1,
     do_flag_msg = ''{prefix} '' @ sect @ ''e{player} '' @ sect @ ''6tried to break blocks with an invalid packet'',
     do_punishment = PunishBan\<rparr>"

definition opts_badpacket_d :: dtc_opts where
  "opts_badpacket_d = \<lparr>do_max_vl = 1,
     do_flag_msg = ''{prefix} '' @ sect @ ''e{player} '' @ sect @ ''6executed creative action in survival'',
     do_punishment = PunishBan\<rparr>"

definition opts_badpacket_e :: dtc_opts where
  "opts_badpacket_e = \<lparr>do_max_vl = 1,
     do_flag_msg = ''{prefix} '' @ sect @ ''e{player} '' @ sect @ ''6sent an invalid movement'',
     do_punishment = PunishBan\<rparr>"

definition opts_badpacket_f :: dtc_opts where
  "opts_badpacket_f = \<lparr>do_max_vl = 1,
     do_flag_msg = ''{prefix} '' @ sect @ ''e{player} '' @ sect @ ''6sent an invalid inventory action'',
     do_punishment = PunishBan\<rparr>"

definition opts_editionfaker_a :: dtc_opts where
  "opts_editionfaker_a = \<lparr>do_max_vl = 1,
     do_flag_msg = ''{prefix} '' @ sect @ ''e{player} '' @ sect @ ''6attempted to spoof their device information'',
     do_punishment = PunishBan\<rparr>"

definition opts_editionfaker_b :: dtc_opts where
  "opts_editionfaker_b = \<lparr>do_max_vl = 1,
     do_flag_msg = ''{prefix} '' @ sect @ ''e{player} '' @ sect @ ''6attempted to spoof their device information'',
     do_punishment = PunishBan\<rparr>"

definition opts_editionfaker_c :: dtc_opts where
  "opts_editionfaker_c = \<lparr>do_max_vl = 1,
     do_flag_msg = ''{prefix} '' @ sect @ ''e{player} '' @ sect @ ''6attempted to spoof their device information'',
     do_punishment = PunishBan\<rparr>"

definition opts_proxy_a :: dtc_opts where
  "opts_proxy_a = \<lparr>do_max_vl = 10,
     do_flag_msg = ''{prefix} '' @ sect @ ''e{player} '' @ sect @ ''6is likely using a game proxy'',
     do_punishment = PunishKick\<rparr>"

definition opts_proxy_b :: dtc_opts where
  "opts_proxy_b = \<lparr>do_max_vl = 1,
     do_flag_msg = ''{prefix} '' @ sect @ ''e{player} '' @ sect @ ''6is connected with a game proxy'',
     do_punishment = PunishBan\<rparr>"

definition opts_hitbox_a :: dtc_opts where
  "opts_hitbox_a = \<lparr>do_max_vl = 20,
     do_flag_msg = ''{prefix} '' @ sect @ ''e{player} '' @ sect @ ''7| '' @ sect @ ''6Hitbox '' @ sect @ ''7['' @ sect @ ''cx{violations}'' @ sect @ ''7]'',
     do_punishment = PunishBan\<rparr>"

definition opts_invmove_a :: dtc_opts where
  "opts_invmove_a = \<lparr>do_max_vl = 1,
     do_flag_msg = ''{prefix} '' @ sect @ ''e{player} '' @ sect @ ''6moving whilst in inventory'',
     do_punishment = PunishBan\<rparr>"

definition opts_killaura_a :: dtc_opts where
  "opts_killaura_a = \<lparr>do_max_vl = 5,
     do_flag_msg = ''{prefix} '' @ sect @ ''e{player} '' @ sect @ ''7| '' @ sect @ ''6Killaura '' @ sect @ ''7['' @ sect @ ''cx{violations}'' @ sect @ ''7]'',
     do_punishment = PunishBan\<rparr>"

definition opts_nuker_a :: dtc_opts where
  "opts_nuker_a = \<lparr>do_max_vl = 1,
     do_flag_msg = ''{prefix} '' @ sect @ ''e{player} '' @ sect @ ''6tried to break blocks using an invalid packet '' @ sect @ ''7['' @ sect @ ''cx{violations}'' @ sect @ ''7]'',
     do_punishment = PunishBan\<rparr>"

definition opts_reach_a :: dtc_opts where
  "opts_reach_a = \<lparr>do_max_vl = 10,
     do_flag_msg = ''{prefix} '' @ sect @ ''e{player} '' @ sect @ ''7| '' @ sect @ ''6Reach '' @ sect @ ''8(Raycast) '' @ sect @ ''7['' @ sect @ ''cx{violations}'' @ sect @ ''7]'',
     do_punishment = PunishBan\<rparr>"

definition opts_reach_b :: dtc_opts where
  "opts_reach_b = \<lparr>do_max_vl = 30,
     do_flag_msg = ''{prefix} '' @ sect @ ''e{player} '' @ sect @ ''7| '' @ sect @ ''6Reach '' @ sect @ ''8(Raw) '' @ sect @ ''7['' @ sect @ ''cx{violations}'' @ sect @ ''7]'',
     do_punishment = PunishBan\<rparr>"

definition opts_scaffold_a :: dtc_opts where
  "opts_scaffold_a = \<lparr>do_max_vl = 1,
     do_flag_msg = ''{prefix} '' @ sect @ ''e{player} '' @ sect @ ''6sent invalid action to place blocks '' @ sect @ ''7['' @ sect @ ''cx{violations}'' @ sect @ ''7]'',
     do_punishment = PunishBan\<rparr>"

definition opts_scaffold_b :: dtc_opts where
  "opts_scaffold_b = \<lparr>do_max_vl = 25,
     do_flag_msg = ''{prefix} '' @ sect @ ''e{player} '' @ sect @ ''6is placing with an invalid direction '' @ sect @ ''7['' @ sect @ ''cx{violations}'' @ sect @ ''7]'',
     do_punishment = PunishBan\<rparr>"

definition opts_cloud_scaffold :: dtc_opts where
  "opts_cloud_scaffold = \<lparr>do_max_vl = 0,
     do_flag_msg = ''{prefix} '' @ sect @ ''e{player} '' @ sect @ ''6is building suspiciously '' @ sect @ ''7['' @ sect @ ''cx{violations}'' @ sect @ ''7]'',
     do_punishment = PunishBan\<rparr>"

definition opts_cloud_combat :: dtc_opts where
  "opts_cloud_combat = \<lparr>do_max_vl = 0,
     do_flag_msg = ''{prefix} '' @ sect @ ''e{player} '' @ sect @ ''6is fighting suspiciously '' @ sect @ ''7['' @ sect @ ''cx{violations}'' @ sect @ ''7]'',
     do_punishment = PunishBan\<rparr>"

definition opts_cloud_aim :: dtc_opts where
  "opts_cloud_aim = \<lparr>do_max_vl = 0,
     do_flag_msg = ''{prefix} '' @ sect @ ''e{player} '' @ sect @ ''6is aiming suspiciously '' @ sect @ ''7['' @ sect @ ''cx{violations}'' @ sect @ ''7]'',
     do_punishment = PunishBan\<rparr>"

definition opts_cloud_proxy :: dtc_opts where
  "opts_cloud_proxy = \<lparr>do_max_vl = 0,
     do_flag_msg = ''{prefix} '' @ sect @ ''e{player} '' @ sect @ ''6is using a game proxy '' @ sect @ ''7['' @ sect @ ''cx{violations}'' @ sect @ ''7]'',
     do_punishment = PunishBan\<rparr>"

text \<open>The detections that the default configuration names.\<close>
definition default_detections :: "(string \<times> dtc_opts) list" where
  "default_detections =
    [(''Autoclicker_A'', opts_autoclicker_a),
     (''Aim_A'', opts_aim_a),
     (''BadPacket_A'', opts_badpacket_a),
     (''BadPacket_B'', opts_badpacket_b),
     (''BadPacket_C'', opts_badpacket_c),
     (''BadPacket_D'', opts_badpacket_d),
     (''BadPacket_E'', opts_badpacket_e),
     (''BadPacket_F'', opts_badpacket_f),
     (''EditionFaker_A'', opts_editionfaker_a),
     (''EditionFaker_B'', opts_editionfaker_b),
     (''EditionFaker_C'', opts_editionfaker_c),
     (''Proxy_A'', opts_proxy_a),
     (''Proxy_B'', opts_proxy_b),
     (''Hitbox_A'', opts_hitbox_a),
     (''InvMove_A'', opts_invmove_a),
     (''Killaura_A'', opts_killaura_a),
     (''Nuker_A'', opts_nuker_a),
     (''Reach_A'', opts_reach_a),
     (''Reach_B'', opts_reach_b),
     (''Scaffold_A'', opts_scaffold_a),
     (''Scaffold_B'', opts_scaffold_b),
     (''Cloud_Scaffold'', opts_cloud_scaffold),
     (''Cloud_Combat'', opts_cloud_combat),
     (''Cloud_Aim'', opts_cloud_aim),
     (''Cloud_Proxy'', opts_cloud_proxy)]"

definition dtc_opts_of :: "(string \<times> dtc_opts) list \<Rightarrow> string \<Rightarrow> dtc_opts" where
  "dtc_opts_of cfg k = (case map_of cfg k of Some d \<Rightarrow> d | None \<Rightarrow> default_dtc_opts)"

definition modify_dtc_opts :: "string \<Rightarrow> dtc_opts \<Rightarrow> (string \<times> dtc_opts) list \<Rightarrow> (string \<times> dtc_opts) list" where
  "modify_dtc_opts k d cfg = AList.update k d cfg"

end
