(* ===== verification/DetectRegister.thy ===== *)
theory DetectRegister
  imports DetectPackets DetectOthers DetectNames
begin

text \<open>
  The registration of the detections (\<^verbatim>\<open>src/player/detection/register.go\<close> and \<^verbatim>\<open>RegisterDetection\<close>):
  the limits of the configuration replace those of the constructors.
\<close>

section \<open>Registration\<close>

datatype dtc_name = AimA | AutoclickerA | BadPacketA | BadPacketB | BadPacketC | BadPacketD | BadPacketE | BadPacketF | BadPacketG | BadPacketH | BadPacketI | BadPacketJ | BadPacketK | BadPacketL | BadPacketM | BadPacketN | BadPacketO | BadPacketP | BadPacketQ | EditionFakerA | EditionFakerB | EditionFakerC | FlyA | HitboxA | InvMoveA | KillauraA | NukerA | PhaseA | ReachA | ReachB | ScaffoldA | SpeedA | SpeedB | TimerA

fun info :: "dtc_name \<Rightarrow> dtc_info" where
  "info AimA = info_aim_a"
| "info AutoclickerA = info_autoclicker_a"
| "info BadPacketA = info_bad_packet_a"
| "info BadPacketB = info_bad_packet_b"
| "info BadPacketC = info_bad_packet_c"
| "info BadPacketD = info_bad_packet_d"
| "info BadPacketE = info_bad_packet_e"
| "info BadPacketF = info_bad_packet_f"
| "info BadPacketG = info_bad_packet_g"
| "info BadPacketH = info_bad_packet_h"
| "info BadPacketI = info_bad_packet_i"
| "info BadPacketJ = info_bad_packet_j"
| "info BadPacketK = info_bad_packet_k"
| "info BadPacketL = info_bad_packet_l"
| "info BadPacketM = info_bad_packet_m"
| "info BadPacketN = info_bad_packet_n"
| "info BadPacketO = info_bad_packet_o"
| "info BadPacketP = info_bad_packet_p"
| "info BadPacketQ = info_bad_packet_q"
| "info EditionFakerA = info_edition_faker_a"
| "info EditionFakerB = info_edition_faker_b"
| "info EditionFakerC = info_edition_faker_c"
| "info FlyA = info_fly_a"
| "info HitboxA = info_hitbox_a"
| "info InvMoveA = info_inv_move_a"
| "info KillauraA = info_killaura_a"
| "info NukerA = info_nuker_a"
| "info PhaseA = info_phase_a"
| "info ReachA = info_reach_a"
| "info ReachB = info_reach_b"
| "info ScaffoldA = info_scaffold_a"
| "info SpeedA = info_speed_a"
| "info SpeedB = info_speed_b"
| "info TimerA = info_timer_a"

fun new_detection :: "'d flt \<Rightarrow> dtc_name \<Rightarrow> 'd dtc_meta" where
  "new_detection D AimA = new_aim_a D"
| "new_detection D AutoclickerA = new_autoclicker_a D"
| "new_detection D BadPacketA = new_bad_packet_a D"
| "new_detection D BadPacketB = new_bad_packet_b D"
| "new_detection D BadPacketC = new_bad_packet_c D"
| "new_detection D BadPacketD = new_bad_packet_d D"
| "new_detection D BadPacketE = new_bad_packet_e D"
| "new_detection D BadPacketF = new_bad_packet_f D"
| "new_detection D BadPacketG = new_bad_packet_g D"
| "new_detection D BadPacketH = new_bad_packet_h D"
| "new_detection D BadPacketI = new_bad_packet_i D"
| "new_detection D BadPacketJ = new_bad_packet_j D"
| "new_detection D BadPacketK = new_bad_packet_k D"
| "new_detection D BadPacketL = new_bad_packet_l D"
| "new_detection D BadPacketM = new_bad_packet_m D"
| "new_detection D BadPacketN = new_bad_packet_n D"
| "new_detection D BadPacketO = new_bad_packet_o D"
| "new_detection D BadPacketP = new_bad_packet_p D"
| "new_detection D BadPacketQ = new_bad_packet_q D"
| "new_detection D EditionFakerA = new_edition_faker_a D"
| "new_detection D EditionFakerB = new_edition_faker_b D"
| "new_detection D EditionFakerC = new_edition_faker_c D"
| "new_detection D FlyA = new_fly_a D"
| "new_detection D HitboxA = new_hitbox_a D"
| "new_detection D InvMoveA = new_inv_move_a D"
| "new_detection D KillauraA = new_killaura_a D"
| "new_detection D NukerA = new_nuker_a D"
| "new_detection D PhaseA = new_phase_a D"
| "new_detection D ReachA = new_reach_a D"
| "new_detection D ReachB = new_reach_b D"
| "new_detection D ScaffoldA = new_scaffold_a D"
| "new_detection D SpeedA = new_speed_a D"
| "new_detection D SpeedB = new_speed_b D"
| "new_detection D TimerA = new_timer_a D"

text \<open>A registered detection has the maximal violations of its configuration, whatever its constructor says.\<close>
definition register_detection ::
  "'d flt \<Rightarrow> (string \<times> dtc_opts) list \<Rightarrow> dtc_name \<Rightarrow> (dtc_name \<times> 'd dtc_meta) list \<Rightarrow> (dtc_name \<times> 'd dtc_meta) list" where
  "register_detection D cfg n ds =
    ds @ [(n, (new_detection D n)\<lparr>dm_max_violations := fl_lit D (do_max_vl (dtc_opts_of cfg (config_key (info n))))\<rparr>)]"

definition registered_names :: "dtc_name list" where
  "registered_names =
    [AutoclickerA, AimA, BadPacketA, BadPacketB, BadPacketC, BadPacketD, BadPacketE, BadPacketF,
     BadPacketG, BadPacketH, BadPacketI, BadPacketJ, BadPacketK, BadPacketL, BadPacketM, BadPacketN,
     BadPacketO, BadPacketP, BadPacketQ, EditionFakerA, EditionFakerB, EditionFakerC, InvMoveA,
     NukerA, KillauraA, ReachA, ReachB, HitboxA, PhaseA, ScaffoldA, SpeedA, TimerA]"

definition register :: "'d flt \<Rightarrow> (string \<times> dtc_opts) list \<Rightarrow> (dtc_name \<times> 'd dtc_meta) list" where
  "register D cfg = fold (register_detection D cfg) registered_names []"

lemma register_map:
  "register D cfg = map (\<lambda>n. (n, (new_detection D n)\<lparr>dm_max_violations := fl_lit D (do_max_vl (dtc_opts_of cfg (config_key (info n))))\<rparr>)) registered_names"
proof -
  have "fold (register_detection D cfg) ns acc
    = acc @ map (\<lambda>n. (n, (new_detection D n)\<lparr>dm_max_violations := fl_lit D (do_max_vl (dtc_opts_of cfg (config_key (info n))))\<rparr>)) ns" for ns acc
    by (induction ns arbitrary: acc) (simp_all add: register_detection_def)
  then show ?thesis by (simp add: register_def)
qed

section \<open>Limits\<close>

lemma distinct_lookup: "distinct (map fst xs) \<Longrightarrow> (k, d) \<in> set xs \<Longrightarrow> dtc_opts_of xs k = d"
  by (simp add: dtc_opts_of_def map_of_is_SomeI)

lemmas info_defs = info_aim_a_def info_autoclicker_a_def info_bad_packet_a_def info_bad_packet_b_def
  info_bad_packet_c_def info_bad_packet_d_def info_bad_packet_e_def info_bad_packet_f_def info_bad_packet_g_def
  info_bad_packet_h_def info_bad_packet_i_def info_bad_packet_j_def info_bad_packet_k_def info_bad_packet_l_def
  info_bad_packet_m_def info_bad_packet_n_def info_bad_packet_o_def info_bad_packet_p_def info_bad_packet_q_def
  info_edition_faker_a_def info_edition_faker_b_def info_edition_faker_c_def info_inv_move_a_def info_nuker_a_def
  info_killaura_a_def info_reach_a_def info_reach_b_def info_hitbox_a_def info_phase_a_def info_scaffold_a_def
  info_speed_a_def info_timer_a_def

lemmas opts_defs = opts_autoclicker_a_def opts_aim_a_def opts_badpacket_a_def opts_badpacket_b_def opts_badpacket_c_def
  opts_badpacket_d_def opts_badpacket_e_def opts_badpacket_f_def opts_editionfaker_a_def opts_editionfaker_b_def
  opts_editionfaker_c_def opts_hitbox_a_def opts_invmove_a_def opts_killaura_a_def opts_nuker_a_def opts_reach_a_def
  opts_reach_b_def opts_scaffold_a_def default_dtc_opts_def

lemma registered_names_punishable: "list_all (\<lambda>n. di_punishable (info n)) registered_names"
  by (simp add: registered_names_def info_defs)

lemma registered_keys:
  "map (config_key \<circ> info) registered_names =
    [''Autoclicker_A'', ''Aim_A'', ''BadPacket_A'', ''BadPacket_B'', ''BadPacket_C'', ''BadPacket_D'', ''BadPacket_E'',
     ''BadPacket_F'', ''BadPacket_G'', ''BadPacket_H'', ''BadPacket_I'', ''BadPacket_J'', ''BadPacket_K'', ''BadPacket_L'',
     ''BadPacket_M'', ''BadPacket_N'', ''BadPacket_O'', ''BadPacket_P'', ''BadPacket_Q'', ''EditionFaker_A'',
     ''EditionFaker_B'', ''EditionFaker_C'', ''InvMove_A'', ''Nuker_A'', ''Killaura_A'', ''Reach_A'', ''Reach_B'',
     ''Hitbox_A'', ''Phase_A'', ''Scaffold_A'', ''Speed_A'', ''Timer_A'']"
  by (simp add: registered_names_def info_defs config_key_def)

lemma registered_keys_distinct: "distinct (map (config_key \<circ> info) registered_names)"
  unfolding registered_keys by simp

definition max_vls :: "(string \<times> real) list" where
  "max_vls = map (\<lambda>(k, d). (k, do_max_vl d)) default_detections"

lemma max_vls:
  "max_vls =
    [(''Autoclicker_A'', 25), (''Aim_A'', 5), (''BadPacket_A'', 1), (''BadPacket_B'', 1), (''BadPacket_C'', 1),
     (''BadPacket_D'', 1), (''BadPacket_E'', 1), (''BadPacket_F'', 1), (''EditionFaker_A'', 1), (''EditionFaker_B'', 1),
     (''EditionFaker_C'', 1), (''Proxy_A'', 10), (''Proxy_B'', 1), (''Hitbox_A'', 20), (''InvMove_A'', 1),
     (''Killaura_A'', 5), (''Nuker_A'', 1), (''Reach_A'', 10), (''Reach_B'', 30), (''Scaffold_A'', 1), (''Scaffold_B'', 25),
     (''Cloud_Scaffold'', 0), (''Cloud_Combat'', 0), (''Cloud_Aim'', 0), (''Cloud_Proxy'', 0)]"
  by (simp add: max_vls_def default_detections_def opts_defs opts_proxy_a_def opts_proxy_b_def opts_scaffold_b_def
      opts_cloud_scaffold_def opts_cloud_combat_def opts_cloud_aim_def opts_cloud_proxy_def)

lemma max_vl_of: "do_max_vl (dtc_opts_of default_detections k) = (case map_of max_vls k of Some x \<Rightarrow> x | None \<Rightarrow> 10)"
  by (simp add: dtc_opts_of_def max_vls_def map_of_map default_dtc_opts_def split: option.splits)

text \<open>With the default configuration the registered detections have these limits: those of the constructors are overridden, also
  for the detections that the configuration does not name (10 instead of the 3 of \<^verbatim>\<open>BadPacket_H\<close>, of the 1 of
  \<^verbatim>\<open>BadPacket_G\<close> or of the 5 of \<^verbatim>\<open>Timer_A\<close>).\<close>
theorem registered_limits:
  "map (\<lambda>(n, m). (config_key (info n), dm_max_violations m)) (register real_flt default_detections) =
    [(''Autoclicker_A'', 25), (''Aim_A'', 5), (''BadPacket_A'', 1), (''BadPacket_B'', 1), (''BadPacket_C'', 1),
     (''BadPacket_D'', 1), (''BadPacket_E'', 1), (''BadPacket_F'', 1), (''BadPacket_G'', 10), (''BadPacket_H'', 10),
     (''BadPacket_I'', 10), (''BadPacket_J'', 10), (''BadPacket_K'', 10), (''BadPacket_L'', 10), (''BadPacket_M'', 10),
     (''BadPacket_N'', 10), (''BadPacket_O'', 10), (''BadPacket_P'', 10), (''BadPacket_Q'', 10),
     (''EditionFaker_A'', 1), (''EditionFaker_B'', 1), (''EditionFaker_C'', 1), (''InvMove_A'', 1), (''Nuker_A'', 1),
     (''Killaura_A'', 5), (''Reach_A'', 10), (''Reach_B'', 30), (''Hitbox_A'', 20), (''Phase_A'', 10), (''Scaffold_A'', 1),
     (''Speed_A'', 10), (''Timer_A'', 10)]"
proof -
  have "map (\<lambda>(n, m). (config_key (info n), dm_max_violations m)) (register real_flt default_detections)
    = map (\<lambda>k. (k, case map_of max_vls k of Some x \<Rightarrow> x | None \<Rightarrow> 10)) (map (config_key \<circ> info) registered_names)"
    by (simp add: register_map max_vl_of o_def)
  then show ?thesis unfolding registered_keys max_vls by simp
qed

lemmas new_defs =
  new_aim_a_def new_autoclicker_a_def new_bad_packet_a_def new_bad_packet_b_def new_bad_packet_c_def
  new_bad_packet_d_def new_bad_packet_e_def new_bad_packet_f_def new_bad_packet_g_def new_bad_packet_h_def
  new_bad_packet_i_def new_bad_packet_j_def new_bad_packet_k_def new_bad_packet_l_def new_bad_packet_m_def
  new_bad_packet_n_def new_bad_packet_o_def new_bad_packet_p_def new_bad_packet_q_def new_edition_faker_a_def
  new_edition_faker_b_def new_edition_faker_c_def new_fly_a_def new_hitbox_a_def new_inv_move_a_def
  new_killaura_a_def new_nuker_a_def new_phase_a_def new_reach_a_def new_reach_b_def new_scaffold_a_def
  new_speed_a_def new_speed_b_def new_timer_a_def

lemma new_detection_meta: "\<exists>f b v t. 0 \<le> b \<and> new_detection real_flt n = new_meta real_flt f b v t"
  by (cases n; simp only: new_detection.simps new_defs; (rule exI)+; rule conjI[OF _ refl]; simp)

text \<open>C17: a registered detection punishes only a player who failed it at least as often as its configuration allows
  violations, whatever the order of its verdicts.\<close>
theorem registered_punishes_late:
  assumes "(n, m0) \<in> set (register real_flt cfg)" "now_or_later vs 0" "judge_all vs m0 = (outs, m)"
    and "Punished b \<in> set outs"
  shows "do_max_vl (dtc_opts_of cfg (config_key (info n))) \<le> fails vs"
proof -
  have m0: "m0 = (new_detection real_flt n)\<lparr>dm_max_violations := do_max_vl (dtc_opts_of cfg (config_key (info n)))\<rparr>"
    using assms(1) by (auto simp: register_map)
  obtain f b' v t where new: "0 \<le> b'" "new_detection real_flt n = new_meta real_flt f b' v t"
    using new_detection_meta by blast
  have ok: "dm_last_flagged m0 = 0" "dm_violations m0 = 0" "meta_ok m0"
    "dm_max_violations m0 = do_max_vl (dtc_opts_of cfg (config_key (info n)))"
    using new(1) unfolding m0 new(2) by (simp_all add: new_meta_def meta_ok_def)
  have "now_or_later vs (dm_last_flagged m0)" using assms(2) ok(1) by simp
  from judge_all_bounds[OF this ok(3) assms(3)] assms(4) ok(2,4) show ?thesis by auto
qed

text \<open>A swing check that fails five times is punished by the fifth failure.\<close>
theorem registered_punishes_late_witness:
  "Punished True \<in> set (fst (judge_all (replicate 5 (sample_fail_env 1, Fail))
     ((new_meta real_flt 1 1 1 0)\<lparr>dm_max_violations := 5\<rparr>)))
   \<and> do_max_vl (dtc_opts_of default_detections (config_key (info KillauraA))) \<le> 5"
proof -
  let ?m0 = "(new_meta real_flt 1 1 1 0)\<lparr>dm_max_violations := (5::real)\<rparr>" and ?vs = "replicate 5 (sample_fail_env 1, Fail)"
  have key: "do_max_vl (dtc_opts_of default_detections (config_key (info KillauraA))) = 5"
    unfolding max_vl_of max_vls by (simp add: info_defs config_key_def)
  have mem: "(KillauraA, ?m0) \<in> set (register real_flt default_detections)"
    unfolding register_map using key by (auto simp: registered_names_def new_killaura_a_def)
  obtain outs m where j: "judge_all ?vs ?m0 = (outs, m)" by fastforce
  have p: "Punished True \<in> set outs"
    using j by (auto simp: numeral_eq_Suc judge_def fail_detection_def added_violations_def sample_fail_env_def new_meta_def Let_def)
  have "now_or_later ?vs 0" by (simp add: now_or_later_def sample_fail_env_def numeral_eq_Suc)
  from registered_punishes_late[OF mem this j p] p show ?thesis unfolding j by (simp add: fails_def numeral_eq_Suc)
qed

end
