(* ===== verification/Commands.thy ===== *)
theory Commands
  imports Prelude "HOL-Library.Word"
begin

text \<open>
  Command lines, the registry of commands, and the enums of the command packet (\<^verbatim>\<open>splitCommandLine\<close> in
  \<^verbatim>\<open>src/player/packet.go\<close>, \<^verbatim>\<open>src/player/command\<close>, \<^verbatim>\<open>src/player/permission.go\<close>).
  Strings are bytes; letters are those of ASCII, which the commands and player names consist of.
\<close>

section \<open>Command lines\<close>

record splitter =
  sl_args :: "string list"
  sl_cur :: string
  sl_quote :: "char option"
  sl_escaped :: bool

definition is_space :: "char \<Rightarrow> bool" where
  "is_space c \<longleftrightarrow> c = CHR '' '' \<or> c = CHR 0x09 \<or> c = CHR 0x0A \<or> c = CHR 0x0D"

definition is_quote :: "char \<Rightarrow> bool" where
  "is_quote c \<longleftrightarrow> c = CHR 0x22 \<or> c = CHR 0x27"

definition flush_arg :: "splitter \<Rightarrow> splitter" where
  "flush_arg s = (if sl_cur s = [] then s else s\<lparr>sl_args := sl_args s @ [sl_cur s], sl_cur := []\<rparr>)"

definition split_step :: "char \<Rightarrow> splitter \<Rightarrow> splitter" where
  "split_step r s =
    (if sl_escaped s then s\<lparr>sl_cur := sl_cur s @ [r], sl_escaped := False\<rparr>
     else if r = CHR 0x5C then s\<lparr>sl_escaped := True\<rparr>
     else case sl_quote s of
            Some q \<Rightarrow> if r = q then s\<lparr>sl_quote := None\<rparr> else s\<lparr>sl_cur := sl_cur s @ [r]\<rparr>
          | None \<Rightarrow> if is_quote r then s\<lparr>sl_quote := Some r\<rparr>
                    else if is_space r then flush_arg s
                    else s\<lparr>sl_cur := sl_cur s @ [r]\<rparr>)"

definition split_start :: splitter where
  "split_start = \<lparr>sl_args = [], sl_cur = [], sl_quote = None, sl_escaped = False\<rparr>"

definition split_command_line :: "string \<Rightarrow> string list" where
  "split_command_line line = sl_args (flush_arg (fold split_step line split_start))"

section \<open>Permissions\<close>

abbreviation permission_alerts :: "64 word" where "permission_alerts \<equiv> 1"
abbreviation permission_logs :: "64 word" where "permission_logs \<equiv> 2"
abbreviation permission_debug :: "64 word" where "permission_debug \<equiv> 4"
abbreviation permission_admin :: "64 word" where "permission_admin \<equiv> 8"

definition add_perm :: "64 word \<Rightarrow> 64 word \<Rightarrow> 64 word" where
  "add_perm perm ps = or ps perm"

definition remove_perm :: "64 word \<Rightarrow> 64 word \<Rightarrow> 64 word" where
  "remove_perm perm ps = and ps (not perm)"

definition has_perm :: "64 word \<Rightarrow> 64 word \<Rightarrow> bool" where
  "has_perm perm ps \<longleftrightarrow> and ps perm \<noteq> 0"

section \<open>The registry\<close>

definition lower_char :: "char \<Rightarrow> char" where
  "lower_char c = (let n = of_char c :: nat in if 65 \<le> n \<and> n \<le> 90 then char_of (n + 32) else c)"

definition to_lower :: "string \<Rightarrow> string" where
  "to_lower = map lower_char"

text \<open>A command with its handler; what the handler does is a value of \<^verbatim>\<open>'r\<close>.\<close>
record 'r command =
  cd_name :: string
  cd_aliases :: "string list"
  cd_permission :: "64 word"
  cd_usage :: string
  cd_min_args :: nat
  cd_run :: "string list \<Rightarrow> 'r"

record 'r registry =
  rg_commands :: "string \<rightharpoonup> 'r command"
  rg_aliases :: "string \<rightharpoonup> 'r command"

definition empty_registry :: "'r registry" where
  "empty_registry = \<lparr>rg_commands = Map.empty, rg_aliases = Map.empty\<rparr>"

definition forget_aliases :: "string list \<Rightarrow> (string \<rightharpoonup> 'r command) \<Rightarrow> (string \<rightharpoonup> 'r command)" where
  "forget_aliases = fold (\<lambda>a m. m(a := None))"

definition register_command :: "'r command \<Rightarrow> 'r registry \<Rightarrow> 'r registry" where
  "register_command c g =
    (let aliases = (case rg_commands g (cd_name c) of Some old \<Rightarrow> forget_aliases (cd_aliases old) (rg_aliases g) | None \<Rightarrow> rg_aliases g)
     in \<lparr>rg_commands = (rg_commands g)(cd_name c \<mapsto> c),
         rg_aliases = fold (\<lambda>a m. m(to_lower a \<mapsto> c)) (cd_aliases c) aliases\<rparr>)"

definition by_name :: "'r registry \<Rightarrow> string \<Rightarrow> 'r command option" where
  "by_name g n = (case rg_commands g n of Some c \<Rightarrow> Some c | None \<Rightarrow> rg_aliases g (to_lower n))"

datatype 'r dispatched = Unknown | Denied string | UsageShown string | Ran 'r

text \<open>The sender has the permissions; false is returned for an unknown command only.\<close>
definition dispatch :: "'r registry \<Rightarrow> 64 word \<Rightarrow> string \<Rightarrow> string list \<Rightarrow> bool \<times> 'r dispatched" where
  "dispatch g perms n args = (case by_name g n of
      None \<Rightarrow> (False, Unknown)
    | Some c \<Rightarrow>
        if cd_permission c \<noteq> 0 \<and> \<not> has_perm (cd_permission c) perms then (True, Denied (cd_name c))
        else if length args < cd_min_args c then (True, UsageShown (cd_usage c))
        else (True, Ran (cd_run c args)))"

definition arg :: "string list \<Rightarrow> int \<Rightarrow> string" where
  "arg args i = (if i < 0 \<or> int (length args) \<le> i then [] else args ! nat i)"

fun join_spaces :: "string list \<Rightarrow> string" where
  "join_spaces [] = []"
| "join_spaces [a] = a"
| "join_spaces (a # b # as) = a @ CHR '' '' # join_spaces (b # as)"

definition join_args :: "string list \<Rightarrow> int \<Rightarrow> string" where
  "join_args args i = (if i < 0 \<or> int (length args) \<le> i then [] else join_spaces (drop (nat i) args))"

section \<open>Enums of the command packet\<close>

record cmd_packet =
  cp_values :: "string list"
  cp_enums :: "(string \<times> 32 word list) list"
  cp_dynamic :: "(string \<times> string list) list"

fun index_of :: "('a \<Rightarrow> bool) \<Rightarrow> 'a list \<Rightarrow> nat option" where
  "index_of P [] = None"
| "index_of P (x # xs) = (if P x then Some 0 else map_option Suc (index_of P xs))"

text \<open>The values with their indices; of equal values the last one counts.\<close>
definition value_index :: "string list \<Rightarrow> (string \<rightharpoonup> 32 word)" where
  "value_index vs = fold (\<lambda>(i, v) m. m(v \<mapsto> word_of_nat i)) (enumerate 0 vs) Map.empty"

fun add_options :: "string list \<Rightarrow> string list \<times> (string \<rightharpoonup> 32 word) \<Rightarrow> (string list \<times> (string \<rightharpoonup> 32 word)) \<times> 32 word list" where
  "add_options [] s = (s, [])"
| "add_options (opt # opts) (vs, m) =
    (let (i, s) = (case m opt of
                     Some i \<Rightarrow> (i, (vs, m))
                   | None \<Rightarrow> let i = word_of_nat (length vs) in (i, (vs @ [opt], m(opt \<mapsto> i))));
         (s, is) = add_options opts s
     in (s, i # is))"

definition find_or_create_enum :: "string \<Rightarrow> string list \<Rightarrow> cmd_packet \<Rightarrow> 32 word \<times> cmd_packet" where
  "find_or_create_enum ty opts pk = (case index_of (\<lambda>(t, _). t = ty) (cp_enums pk) of
      Some i \<Rightarrow> (word_of_nat i, pk)
    | None \<Rightarrow>
        (let ((vs, m), is) = add_options opts (cp_values pk, value_index (cp_values pk))
         in (word_of_nat (length (cp_enums pk)), pk\<lparr>cp_values := vs, cp_enums := cp_enums pk @ [(ty, is)]\<rparr>)))"

definition find_or_create_dynamic_enum :: "string \<Rightarrow> string list \<Rightarrow> cmd_packet \<Rightarrow> 32 word \<times> cmd_packet" where
  "find_or_create_dynamic_enum ty opts pk = (case index_of (\<lambda>(t, _). t = ty) (cp_dynamic pk) of
      Some i \<Rightarrow> (word_of_nat i, pk\<lparr>cp_dynamic := (cp_dynamic pk)[i := (ty, opts)]\<rparr>)
    | None \<Rightarrow> (word_of_nat (length (cp_dynamic pk)), pk\<lparr>cp_dynamic := cp_dynamic pk @ [(ty, opts)]\<rparr>))"

section \<open>Parameters and overloads\<close>

record cmd_param =
  pm_name :: string
  pm_type :: "32 word"
  pm_optional :: bool

text \<open>The bits of parameter types in the protocol.\<close>
record arg_bits =
  ab_valid :: "32 word"
  ab_enum :: "32 word"
  ab_soft_enum :: "32 word"
  ab_int :: "32 word"
  ab_target :: "32 word"
  ab_message :: "32 word"

definition make_enum_param :: "arg_bits \<Rightarrow> string \<Rightarrow> 32 word \<Rightarrow> bool \<Rightarrow> bool \<Rightarrow> cmd_param" where
  "make_enum_param B n i soft opt =
    \<lparr>pm_name = n, pm_type = or (ab_valid B) (or (if soft then ab_soft_enum B else ab_enum B) i), pm_optional = opt\<rparr>"

definition make_normal_param :: "arg_bits \<Rightarrow> string \<Rightarrow> 32 word \<Rightarrow> bool \<Rightarrow> cmd_param" where
  "make_normal_param B n ty opt = \<lparr>pm_name = n, pm_type = or (ab_valid B) ty, pm_optional = opt\<rparr>"

type_synonym overload_fn = "64 word \<Rightarrow> cmd_packet \<Rightarrow> cmd_param list option \<times> cmd_packet"

text \<open>The registered functions in the order in which the map is iterated.\<close>
fun run_overloads :: "overload_fn list \<Rightarrow> 64 word \<Rightarrow> cmd_packet \<Rightarrow> cmd_param list list \<times> cmd_packet" where
  "run_overloads [] perms pk = ([], pk)"
| "run_overloads (f # fs) perms pk =
    (case f perms pk of (ov, pk) \<Rightarrow> case run_overloads fs perms pk of (ovs, pk) \<Rightarrow>
      ((case ov of Some v \<Rightarrow> [v] | None \<Rightarrow> []) @ ovs, pk))"

text \<open>The overloads of the one command that is added to the packet, for players with any permission.\<close>
definition init_command :: "overload_fn list \<Rightarrow> 64 word \<Rightarrow> cmd_packet \<Rightarrow> cmd_param list list option \<times> cmd_packet" where
  "init_command fs perms pk =
    (if perms = 0 then (None, pk) else case run_overloads fs perms pk of (ovs, pk) \<Rightarrow> (Some ovs, pk))"

section \<open>Quoting\<close>

definition escape_char :: "char \<Rightarrow> string" where
  "escape_char c = (if c = CHR 0x22 \<or> c = CHR 0x5C then [CHR 0x5C, c] else [c])"

definition quote_arg :: "string \<Rightarrow> string" where
  "quote_arg a = CHR 0x22 # concat (map escape_char a) @ [CHR 0x22]"

definition plain :: "string \<Rightarrow> bool" where
  "plain a \<longleftrightarrow> (\<forall>c \<in> set a. c \<noteq> CHR 0x5C \<and> \<not> is_quote c \<and> \<not> is_space c)"

text \<open>A word of the line that is written for an argument.\<close>
definition spells :: "string \<Rightarrow> string \<Rightarrow> bool" where
  "spells w a \<longleftrightarrow> w = quote_arg a \<or> w = a \<and> plain a"

definition line_of :: "string list \<Rightarrow> string" where
  "line_of ws = concat (map (\<lambda>w. w @ '' '') ws)"

definition between_args :: "splitter \<Rightarrow> bool" where
  "between_args s \<longleftrightarrow> sl_quote s = None \<and> \<not> sl_escaped s"

lemma split_plain:
  assumes "plain w" "between_args s"
  shows "fold split_step w s = s\<lparr>sl_cur := sl_cur s @ w\<rparr>"
  using assms
proof (induction w arbitrary: s)
  case (Cons c w)
  then have "split_step c s = s\<lparr>sl_cur := sl_cur s @ [c]\<rparr>"
    by (simp add: split_step_def plain_def between_args_def)
  with Cons show ?case by (simp add: plain_def between_args_def)
qed simp

lemma split_escaped:
  assumes "sl_quote s = Some (CHR 0x22)" "\<not> sl_escaped s"
  shows "fold split_step (concat (map escape_char w)) s = s\<lparr>sl_cur := sl_cur s @ w\<rparr>"
  using assms
proof (induction w arbitrary: s)
  case (Cons c w)
  then have "fold split_step (escape_char c) s = s\<lparr>sl_cur := sl_cur s @ [c]\<rparr>"
    by (simp add: split_step_def escape_char_def)
  with Cons show ?case by simp
qed simp

lemma split_word:
  assumes "spells w a" "between_args s"
  shows "fold split_step w s = s\<lparr>sl_cur := sl_cur s @ a\<rparr>"
proof (cases "w = quote_arg a")
  case True
  have open_q: "split_step (CHR 0x22) s = s\<lparr>sl_quote := Some (CHR 0x22)\<rparr>"
    using assms(2) by (simp add: split_step_def is_quote_def between_args_def)
  have "fold split_step (concat (map escape_char a)) (s\<lparr>sl_quote := Some (CHR 0x22)\<rparr>)
    = s\<lparr>sl_quote := Some (CHR 0x22), sl_cur := sl_cur s @ a\<rparr>"
    using assms(2) by (subst split_escaped) (simp_all add: between_args_def)
  moreover have "split_step (CHR 0x22) (s\<lparr>sl_quote := Some (CHR 0x22), sl_cur := sl_cur s @ a\<rparr>) = s\<lparr>sl_cur := sl_cur s @ a\<rparr>"
    using assms(2) by (simp add: split_step_def between_args_def)
  ultimately show ?thesis using open_q by (simp add: True quote_arg_def)
next
  case False
  with assms show ?thesis by (simp add: spells_def split_plain)
qed

lemma split_line:
  assumes "list_all2 spells ws as" "between_args s" "sl_cur s = []"
  shows "fold split_step (line_of ws) s = s\<lparr>sl_args := sl_args s @ filter (\<lambda>a. a \<noteq> []) as\<rparr>"
  using assms
proof (induction ws as arbitrary: s rule: list_all2_induct)
  case (Cons w ws a as)
  let ?s = "s\<lparr>sl_args := sl_args s @ (if a = [] then [] else [a])\<rparr>"
  have "fold split_step (w @ '' '') s = flush_arg (s\<lparr>sl_cur := a\<rparr>)"
    using split_word[OF Cons.hyps(1) Cons.prems(1)] Cons.prems
    by (simp add: split_step_def is_space_def is_quote_def between_args_def)
  also have "\<dots> = ?s" using Cons.prems by (simp add: flush_arg_def)
  finally have "fold split_step (line_of (w # ws)) s = fold split_step (line_of ws) ?s"
    by (simp add: line_of_def)
  also have "\<dots> = ?s\<lparr>sl_args := sl_args ?s @ filter (\<lambda>a. a \<noteq> []) as\<rparr>"
    using Cons.IH[of ?s] Cons.prems by (simp add: between_args_def)
  finally show ?case by simp
qed (simp add: line_of_def)



section \<open>Aliases\<close>

text \<open>Every alias leads to a command that is registered under its own name.\<close>
definition aliases_live :: "'r registry \<Rightarrow> bool" where
  "aliases_live g \<longleftrightarrow> (\<forall>a c. rg_aliases g a = Some c \<longrightarrow> rg_commands g (cd_name c) = Some c \<and> a \<in> to_lower ` set (cd_aliases c))"

definition names_keyed :: "'r registry \<Rightarrow> bool" where
  "names_keyed g \<longleftrightarrow> (\<forall>n c. rg_commands g n = Some c \<longrightarrow> cd_name c = n)"

definition lower_case :: "'r command \<Rightarrow> bool" where
  "lower_case c \<longleftrightarrow> (\<forall>a \<in> set (cd_aliases c). to_lower a = a)"

lemma forget_aliases_apply: "forget_aliases as m a = (if a \<in> set as then None else m a)"
  by (induction as arbitrary: m) (simp_all add: forget_aliases_def)

lemma add_aliases_apply: "fold (\<lambda>a m. m(to_lower a \<mapsto> c)) as m a = (if a \<in> to_lower ` set as then Some c else m a)"
  by (induction as arbitrary: m) auto

definition registry_ok :: "'r registry \<Rightarrow> bool" where
  "registry_ok g \<longleftrightarrow> aliases_live g \<and> names_keyed g \<and> (\<forall>n c. rg_commands g n = Some c \<longrightarrow> lower_case c)"

lemma register_ok: "registry_ok g \<Longrightarrow> lower_case c \<Longrightarrow> registry_ok (register_command c g)"
proof -
  assume g: "registry_ok g" and c: "lower_case c"
  let ?g = "register_command c g"
  have live: "rg_commands ?g (cd_name d) = Some d \<and> a \<in> to_lower ` set (cd_aliases d)" if "rg_aliases ?g a = Some d" for a d
  proof (cases "a \<in> to_lower ` set (cd_aliases c)")
    case True
    with that show ?thesis by (auto simp: register_command_def Let_def add_aliases_apply)
  next
    case False
    then have old: "rg_aliases g a = Some d"
      "\<And>e. rg_commands g (cd_name c) = Some e \<Longrightarrow> a \<notin> set (cd_aliases e)"
      using that by (auto simp: register_command_def Let_def add_aliases_apply forget_aliases_apply split: option.splits if_splits)
    then have d: "rg_commands g (cd_name d) = Some d" "a \<in> to_lower ` set (cd_aliases d)" "lower_case d"
      using g unfolding registry_ok_def aliases_live_def by blast+
    have "cd_name d \<noteq> cd_name c"
      using old(2)[of d] d by (auto simp: lower_case_def)
    with d show ?thesis by (simp add: register_command_def Let_def)
  qed
  show ?thesis using g c live unfolding registry_ok_def aliases_live_def names_keyed_def
    by (auto simp: register_command_def Let_def)
qed

lemma registry_ok_empty: "registry_ok empty_registry"
  by (simp add: registry_ok_def aliases_live_def names_keyed_def empty_registry_def)

text \<open>As long as all aliases are in lower case, a name never leads to a command that was replaced: it finds the
  command of that name, or else a command that is registered and has it as an alias.\<close>
theorem names_lead_to_registered:
  assumes "\<forall>c \<in> set cs. lower_case c" "by_name (fold register_command cs empty_registry) n = Some d"
  shows "rg_commands (fold register_command cs empty_registry) (cd_name d) = Some d
    \<and> (cd_name d = n \<or> to_lower n \<in> to_lower ` set (cd_aliases d))"
proof -
  have keep: "registry_ok (fold register_command cs g)" if "registry_ok g" for g using assms(1) that
    by (induction cs arbitrary: g) (simp_all add: register_ok)
  define g where "g = fold register_command cs empty_registry"
  have ok: "aliases_live g" "names_keyed g"
    using keep[OF registry_ok_empty] by (simp_all add: g_def registry_ok_def)
  show ?thesis
  proof (cases "rg_commands g n")
    case None
    then have "rg_aliases g (to_lower n) = Some d" using assms(2) by (simp add: g_def by_name_def)
    with ok(1) show ?thesis unfolding aliases_live_def g_def by blast
  next
    case (Some c)
    then have "c = d" using assms(2) by (simp add: g_def by_name_def)
    with Some ok(2) show ?thesis unfolding names_keyed_def g_def by blast
  qed
qed

definition demo_command :: "string list \<Rightarrow> nat \<Rightarrow> nat command" where
  "demo_command as k = \<lparr>cd_name = ''freeze'', cd_aliases = as, cd_permission = 0, cd_usage = [], cd_min_args = 0, cd_run = \<lambda>_. k\<rparr>"

theorem names_lead_to_registered_witness:
  "\<exists>d. by_name (fold register_command [demo_command [''fr''] 1, demo_command [''fz''] 2] empty_registry) ''FZ'' = Some d
    \<and> rg_commands (fold register_command [demo_command [''fr''] 1, demo_command [''fz''] 2] empty_registry) (cd_name d) = Some d"
proof -
  let ?cs = "[demo_command [''fr''] 1, demo_command [''fz''] 2]"
  have low: "to_lower ''FZ'' = ''fz''" "to_lower ''fz'' = ''fz''" "to_lower ''fr'' = ''fr''" by code_simp+
  have found: "by_name (fold register_command ?cs empty_registry) ''FZ'' = Some (demo_command [''fz''] 2)"
    by (simp add: by_name_def register_command_def demo_command_def low empty_registry_def forget_aliases_def)
  have "\<forall>c \<in> set ?cs. lower_case c" by (simp add: lower_case_def demo_command_def low)
  from names_lead_to_registered[OF this found] found show ?thesis by blast
qed

text \<open>With a capital in an alias, the alias of a replaced command stays, and runs the old handler.\<close>
lemma capital_alias_stays:
  "dispatch (fold register_command [demo_command [''Fr''] 1, demo_command [''fz''] 2] empty_registry) 0 ''fr'' [] = (True, Ran 1)"
proof -
  have "to_lower ''Fr'' = ''fr''" "to_lower ''fz'' = ''fz''" "to_lower ''fr'' = ''fr''" by code_simp+
  then show ?thesis
    by (simp add: dispatch_def by_name_def register_command_def demo_command_def empty_registry_def forget_aliases_def)
qed

lemma dispatch_permitted:
  "dispatch g perms n args = (b, Ran r) \<Longrightarrow>
    \<exists>c. by_name g n = Some c \<and> cd_min_args c \<le> length args \<and> r = cd_run c args
      \<and> (cd_permission c = 0 \<or> has_perm (cd_permission c) perms)"
  by (auto simp: dispatch_def split: option.splits if_splits)

section \<open>Enums read back\<close>

definition indexed :: "string list \<Rightarrow> (string \<rightharpoonup> 32 word) \<Rightarrow> bool" where
  "indexed vs m \<longleftrightarrow> (\<forall>v i. m v = Some i \<longrightarrow> unat i < length vs \<and> vs ! unat i = v)"

definition enum_values :: "cmd_packet \<Rightarrow> nat \<Rightarrow> string list" where
  "enum_values pk e = map (\<lambda>i. cp_values pk ! unat i) (snd (cp_enums pk ! e))"

definition enums_ok :: "cmd_packet \<Rightarrow> bool" where
  "enums_ok pk \<longleftrightarrow> (\<forall>(t, is) \<in> set (cp_enums pk). \<forall>i \<in> set is. unat i < length (cp_values pk))"

lemma unat_small: "n < 2 ^ 32 \<Longrightarrow> unat (word_of_nat n :: 32 word) = n"
  by (simp add: unat_of_nat take_bit_nat_eq_self)

lemma indexed_append: "indexed vs m \<Longrightarrow> indexed (vs @ ws) m"
  by (fastforce simp: indexed_def nth_append)

lemma indexed_upd: "indexed vs m \<Longrightarrow> unat i < length vs \<Longrightarrow> vs ! unat i = v \<Longrightarrow> indexed vs (m(v \<mapsto> i))"
  by (simp add: indexed_def)

lemma value_index_indexed:
  assumes "length vs < 2 ^ 32"
  shows "indexed vs (value_index vs)"
proof -
  have "indexed vs (fold (\<lambda>(i, v) m. m(v \<mapsto> word_of_nat i)) (enumerate (length us) ws) m)"
    if "vs = us @ ws" "indexed vs m" for us ws m using that
  proof (induction ws arbitrary: us m)
    case (Cons w ws)
    have "indexed vs (m(w \<mapsto> word_of_nat (length us)))"
      using Cons.prems assms by (intro indexed_upd) (simp_all add: unat_small)
    then have "indexed vs (fold (\<lambda>(i, v) m. m(v \<mapsto> word_of_nat i)) (enumerate (length (us @ [w])) ws) (m(w \<mapsto> word_of_nat (length us))))"
      by (intro Cons.IH) (simp_all add: Cons.prems(1) del: fun_upd_apply)
    then show ?case by (simp del: fun_upd_apply)
  qed simp
  from this[of "[]" vs Map.empty] show ?thesis by (simp add: value_index_def indexed_def)
qed

lemma add_options_reads:
  assumes "indexed vs m" "length vs + length opts < 2 ^ 32" "add_options opts (vs, m) = ((vs', m'), is)"
  shows "\<exists>ws. vs' = vs @ ws \<and> (\<forall>i \<in> set is. unat i < length vs') \<and> map (\<lambda>i. vs' ! unat i) is = opts"
  using assms
proof (induction opts arbitrary: vs m "is")
  case (Cons opt opts)
  obtain i vs1 m1 where step: "(case m opt of Some i \<Rightarrow> (i, (vs, m))
      | None \<Rightarrow> let i = word_of_nat (length vs) in (i, (vs @ [opt], m(opt \<mapsto> i)))) = (i, (vs1, m1))"
    by (metis surj_pair)
  obtain js where rest: "add_options opts (vs1, m1) = ((vs', m'), js)" "is = i # js"
    using Cons.prems(3) step by (auto simp: Let_def split: prod.splits)
  have i: "\<exists>ws. vs1 = vs @ ws" "indexed vs1 m1" "unat i < length vs1" "vs1 ! unat i = opt" "length vs1 \<le> Suc (length vs)"
  proof -
    have new: "unat (word_of_nat (length vs) :: 32 word) = length vs" using Cons.prems(2) by (simp add: unat_small)
    show "\<exists>ws. vs1 = vs @ ws" "indexed vs1 m1" "unat i < length vs1" "vs1 ! unat i = opt" "length vs1 \<le> Suc (length vs)"
      using step Cons.prems(1) new indexed_upd[OF indexed_append[OF Cons.prems(1)], of "word_of_nat (length vs)" "[opt]" opt]
        Cons.prems(1)[unfolded indexed_def, rule_format, of opt i]
      by (auto simp: Let_def split: option.splits)
  qed
  obtain ws where ws: "vs' = vs1 @ ws" "\<forall>i \<in> set js. unat i < length vs'" "map (\<lambda>i. vs' ! unat i) js = opts"
    using Cons.IH[OF i(2) _ rest(1)] i(5) Cons.prems(2) by auto
  with i rest(2) show ?case by (auto simp: nth_append)
qed simp

lemma index_of_Some: "index_of P xs = Some i \<Longrightarrow> i < length xs \<and> P (xs ! i)"
  by (induction xs arbitrary: i) (auto split: if_splits)

text \<open>The index that is returned is that of an enum of the type that was asked for; a new enum reads back exactly its
  options, and all enums that were there read back what they did.\<close>
theorem enum_options_read_back:
  assumes "enums_ok pk" "length (cp_values pk) + length opts < 2 ^ 32" "length (cp_enums pk) < 2 ^ 32"
    and "find_or_create_enum ty opts pk = (i, pk')"
  shows "enums_ok pk' \<and> unat i < length (cp_enums pk') \<and> fst (cp_enums pk' ! unat i) = ty
    \<and> (unat i = length (cp_enums pk) \<longrightarrow> enum_values pk' (unat i) = opts)
    \<and> (\<forall>e < length (cp_enums pk). cp_enums pk' ! e = cp_enums pk ! e \<and> enum_values pk' e = enum_values pk e)"
proof (cases "index_of (\<lambda>(t, _). t = ty) (cp_enums pk)")
  case (Some j)
  then have "j < length (cp_enums pk)" "fst (cp_enums pk ! j) = ty" "i = word_of_nat j" "pk' = pk"
    using assms(4) index_of_Some[OF Some] by (auto simp: find_or_create_enum_def split_beta)
  with assms(1,3) show ?thesis by (simp add: unat_small)
next
  case None
  obtain vs m "is" where add: "add_options opts (cp_values pk, value_index (cp_values pk)) = ((vs, m), is)"
    by (metis surj_pair)
  then have pk': "i = word_of_nat (length (cp_enums pk))" "pk' = pk\<lparr>cp_values := vs, cp_enums := cp_enums pk @ [(ty, is)]\<rparr>"
    using assms(4) None by (simp_all add: find_or_create_enum_def)
  obtain ws where ws: "vs = cp_values pk @ ws" "\<forall>i \<in> set is. unat i < length vs" "map (\<lambda>i. vs ! unat i) is = opts"
    using add_options_reads[OF value_index_indexed assms(2) add] assms(2) by auto
  have old: "map (\<lambda>i. vs ! unat i) (snd (cp_enums pk ! e)) = map (\<lambda>i. cp_values pk ! unat i) (snd (cp_enums pk ! e))"
    if "e < length (cp_enums pk)" for e
    using assms(1) nth_mem[OF that] ws(1) by (auto simp: enums_ok_def nth_append split_beta)
  have "enums_ok pk'" using assms(1) ws(1,2) by (fastforce simp: enums_ok_def pk')
  with old ws assms(3) show ?thesis by (auto simp: pk'(2) pk'(1) unat_small enum_values_def nth_append)
qed

definition demo_packet :: cmd_packet where
  "demo_packet = \<lparr>cp_values = [''true'', ''false''], cp_enums = [(''bool'', [0, 1])], cp_dynamic = []\<rparr>"

theorem enum_options_read_back_witness:
  "\<exists>i pk. find_or_create_enum ''enabled'' [''true'', ''enable'', ''enable''] demo_packet = (i, pk)
    \<and> enum_values pk (unat i) = [''true'', ''enable'', ''enable''] \<and> enum_values pk 0 = [''true'', ''false'']"
proof -
  obtain i pk where f: "find_or_create_enum ''enabled'' [''true'', ''enable'', ''enable''] demo_packet = (i, pk)" by fastforce
  have ok: "enums_ok demo_packet" by (simp add: enums_ok_def demo_packet_def)
  have i: "unat i = 1" using f by (auto simp: find_or_create_enum_def demo_packet_def split: prod.splits)
  from enum_options_read_back[OF ok _ _ f] i f show ?thesis by (auto simp: demo_packet_def enum_values_def)
qed

end
