(* ===== verification/Admin.thy ===== *)
theory Admin
  imports Commands
begin

text \<open>
  Operators, bans and the commands of the example event handler (\<^verbatim>\<open>src/player/admin.go\<close>,
  \<^verbatim>\<open>src/player/handler.go\<close>, \<^verbatim>\<open>src/player/debug.go\<close>).  What is printed to players and to the
  log is left out; disconnections are results.
\<close>

section \<open>Strings of the standard library, on ASCII\<close>

definition is_white :: "char \<Rightarrow> bool" where
  "is_white c \<longleftrightarrow> is_space c \<or> c = CHR 0x0B \<or> c = CHR 0x0C"

definition trim_space :: "string \<Rightarrow> string" where
  "trim_space s = rev (dropWhile is_white (rev (dropWhile is_white s)))"

definition equal_fold :: "string \<Rightarrow> string \<Rightarrow> bool" where
  "equal_fold a b \<longleftrightarrow> to_lower a = to_lower b"

fun digits_value :: "string \<Rightarrow> int \<Rightarrow> int option" where
  "digits_value [] n = Some n"
| "digits_value (c # cs) n =
    (let d = int (of_char c) in if 48 \<le> d \<and> d \<le> 57 then digits_value cs (10 * n + (d - 48)) else None)"

definition atoi :: "string \<Rightarrow> int option" where
  "atoi s =
    (let (neg, ds) = (case s of CHR ''-'' # r \<Rightarrow> (True, r) | CHR ''+'' # r \<Rightarrow> (False, r) | _ \<Rightarrow> (False, s))
     in if ds = [] then None
        else case digits_value ds 0 of
               None \<Rightarrow> None
             | Some n \<Rightarrow> let v = if neg then - n else n in if - (2 ^ 63) \<le> v \<and> v < 2 ^ 63 then Some v else None)"

section \<open>The operator store\<close>

record identity =
  ai_name :: string
  ai_xuid :: string

record ban_entry =
  bn_identity :: identity
  bn_reason :: string
  bn_by :: string
  bn_at :: int

text \<open>The file of the store: missing, not readable, not parsable, or with its operators and bans.\<close>
datatype admin_file = Missing | Unreadable | Malformed | Stored "identity list" "ban_entry list"

record admin =
  ad_path :: string
  ad_ops :: "identity list"
  ad_bans :: "ban_entry list"
  ad_file :: admin_file

definition admin_load :: "admin \<Rightarrow> admin" where
  "admin_load s =
    (if ad_path s = [] then s
     else case ad_file s of Stored ops bans \<Rightarrow> s\<lparr>ad_ops := ops, ad_bans := bans\<rparr> | _ \<Rightarrow> s)"

definition new_admin_store :: "string \<Rightarrow> admin_file \<Rightarrow> admin" where
  "new_admin_store path file = admin_load \<lparr>ad_path = path, ad_ops = [], ad_bans = [], ad_file = file\<rparr>"

text \<open>The file is replaced as a whole or, when anything fails, not at all.\<close>
definition admin_save :: "bool \<Rightarrow> admin \<Rightarrow> admin" where
  "admin_save writable s =
    (if ad_path s = [] \<or> \<not> writable then s else s\<lparr>ad_file := Stored (ad_ops s) (ad_bans s)\<rparr>)"

definition identity_matches :: "identity \<Rightarrow> string \<Rightarrow> string \<Rightarrow> bool" where
  "identity_matches i name xuid \<longleftrightarrow>
    ai_xuid i \<noteq> [] \<and> xuid \<noteq> [] \<and> equal_fold (ai_xuid i) xuid
    \<or> ai_name i \<noteq> [] \<and> equal_fold (ai_name i) (trim_space name)"

definition identity_of :: "string \<Rightarrow> string \<Rightarrow> identity" where
  "identity_of name xuid = \<lparr>ai_name = trim_space name, ai_xuid = trim_space xuid\<rparr>"

definition is_operator :: "admin \<Rightarrow> string \<Rightarrow> string \<Rightarrow> bool" where
  "is_operator s name xuid \<longleftrightarrow> list_ex (\<lambda>i. identity_matches i name xuid) (ad_ops s)"

definition promote_if_first_operator :: "bool \<Rightarrow> string \<Rightarrow> string \<Rightarrow> admin \<Rightarrow> bool \<times> admin" where
  "promote_if_first_operator writable name xuid s =
    (if ad_ops s \<noteq> [] then (False, s)
     else (True, admin_save writable (s\<lparr>ad_ops := ad_ops s @ [identity_of name xuid]\<rparr>)))"

definition add_operator :: "bool \<Rightarrow> string \<Rightarrow> string \<Rightarrow> admin \<Rightarrow> bool \<times> admin" where
  "add_operator writable name xuid s =
    (if is_operator s name xuid then (False, s)
     else (True, admin_save writable (s\<lparr>ad_ops := ad_ops s @ [identity_of name xuid]\<rparr>)))"

definition remove_operator :: "bool \<Rightarrow> string \<Rightarrow> string \<Rightarrow> admin \<Rightarrow> bool \<times> admin" where
  "remove_operator writable name xuid s =
    (let ops = filter (\<lambda>i. \<not> identity_matches i name xuid) (ad_ops s); s' = s\<lparr>ad_ops := ops\<rparr>
     in if length ops \<noteq> length (ad_ops s) then (True, admin_save writable s') else (False, s'))"

definition is_banned :: "admin \<Rightarrow> string \<Rightarrow> string \<Rightarrow> ban_entry option" where
  "is_banned s name xuid = find (\<lambda>b. identity_matches (bn_identity b) name xuid) (ad_bans s)"

definition ban :: "bool \<Rightarrow> int \<Rightarrow> string \<Rightarrow> string \<Rightarrow> string \<Rightarrow> string \<Rightarrow> admin \<Rightarrow> admin" where
  "ban writable now name xuid reason by_whom s =
    admin_save writable (s\<lparr>ad_bans := filter (\<lambda>b. \<not> identity_matches (bn_identity b) name xuid) (ad_bans s)
      @ [\<lparr>bn_identity = identity_of name xuid, bn_reason = reason, bn_by = by_whom, bn_at = now\<rparr>]\<rparr>)"

definition unban :: "bool \<Rightarrow> string \<Rightarrow> string \<Rightarrow> admin \<Rightarrow> bool \<times> admin" where
  "unban writable name xuid s =
    (let bans = filter (\<lambda>b. \<not> identity_matches (bn_identity b) name xuid) (ad_bans s); s' = s\<lparr>ad_bans := bans\<rparr>
     in if length bans \<noteq> length (ad_bans s) then (True, admin_save writable s') else (False, s'))"

section \<open>Debug modes\<close>

definition debug_mode_list :: "string list" where
  "debug_mode_list = [''acks'', ''rotations'', ''combat'', ''movement_sim'', ''latency'', ''chunks'', ''aim-a'', ''timer-a'',
     ''block_placements'', ''unhandled_packets'', ''block_breaking'', ''crafting'', ''item_requests'', ''block_interaction'']"

text \<open>The map of modes has the indices of the list.\<close>
definition debug_mode_of :: "string \<Rightarrow> nat option" where
  "debug_mode_of name = index_of (\<lambda>m. m = name) debug_mode_list"

abbreviation debug_movement_sim :: nat where "debug_movement_sim \<equiv> 3"

record debugger =
  db_modes :: "nat \<Rightarrow> bool"
  db_to_log :: bool
  db_buffer :: "string list"
  db_buffering :: bool

definition new_debugger :: debugger where
  "new_debugger = \<lparr>db_modes = \<lambda>_. False, db_to_log = True, db_buffer = [], db_buffering = False\<rparr>"

definition debug_toggle :: "nat \<Rightarrow> debugger \<Rightarrow> debugger" where
  "debug_toggle mode d =
    (if 14 \<le> mode then d else d\<lparr>db_modes := (db_modes d)(mode := \<not> db_modes d mode)\<rparr>)"

definition debug_enabled :: "nat \<Rightarrow> debugger \<Rightarrow> bool" where
  "debug_enabled mode d \<longleftrightarrow> mode < 14 \<and> db_modes d mode"

text \<open>The lines that are written, with whether they go to the log.\<close>
definition write_debug :: "debugger \<Rightarrow> nat \<Rightarrow> string \<Rightarrow> bool \<times> string" where
  "write_debug d mode msg = (db_to_log d, ''['' @ debug_mode_list ! mode @ '']: '' @ msg)"

definition debug_notify :: "nat \<Rightarrow> bool \<Rightarrow> string \<Rightarrow> debugger \<Rightarrow> (bool \<times> string) list \<times> debugger" where
  "debug_notify mode cond msg d =
    (if \<not> cond \<or> \<not> debug_enabled mode d then ([], d)
     else if mode = debug_movement_sim \<and> db_buffering d then ([], d\<lparr>db_buffer := db_buffer d @ [msg]\<rparr>)
     else ([write_debug d mode msg], d))"

definition start_movement_sim_buffer :: "debugger \<Rightarrow> debugger" where
  "start_movement_sim_buffer d = d\<lparr>db_buffer := [], db_buffering := True\<rparr>"

definition flush_movement_sim_buffer :: "debugger \<Rightarrow> (bool \<times> string) list \<times> debugger" where
  "flush_movement_sim_buffer d =
    (map (write_debug d debug_movement_sim) (db_buffer d), d\<lparr>db_buffer := [], db_buffering := False\<rparr>)"

definition discard_movement_sim_buffer :: "debugger \<Rightarrow> debugger" where
  "discard_movement_sim_buffer d = d\<lparr>db_buffer := [], db_buffering := False\<rparr>"

section \<open>The event handler\<close>

record online =
  on_name :: string
  on_xuid :: string
  on_perms :: "64 word"
  on_alerts :: bool
  on_delay :: int
  on_last_alert :: int
  on_debug :: debugger

text \<open>The connected players in the order in which the map is iterated, and who is sent alerts.\<close>
record server =
  sv_admin :: admin
  sv_online :: "online list"
  sv_allowed :: "string list"

definition update_online :: "string \<Rightarrow> (online \<Rightarrow> online) \<Rightarrow> server \<Rightarrow> server" where
  "update_online n f s = s\<lparr>sv_online := map (\<lambda>p. if on_name p = n then f p else p) (sv_online s)\<rparr>"

definition player_by_name :: "server \<Rightarrow> string \<Rightarrow> online option" where
  "player_by_name s n = find (\<lambda>p. equal_fold (on_name p) n) (sv_online s)"

definition xuid_of :: "online option \<Rightarrow> string" where
  "xuid_of p = (case p of Some p \<Rightarrow> on_xuid p | None \<Rightarrow> [])"

definition with_perm :: "64 word \<Rightarrow> online \<Rightarrow> online" where
  "with_perm perm p = p\<lparr>on_perms := add_perm perm (on_perms p)\<rparr>"

definition without_perm :: "64 word \<Rightarrow> online \<Rightarrow> online" where
  "without_perm perm p = p\<lparr>on_perms := remove_perm perm (on_perms p)\<rparr>"

definition reason_or :: "string \<Rightarrow> string \<Rightarrow> string" where
  "reason_or other reason = (if reason = [] then other else reason)"

text \<open>The reason for which the join is cancelled, if it is.\<close>
definition handle_join :: "bool \<Rightarrow> online \<Rightarrow> server \<Rightarrow> string option \<times> server" where
  "handle_join writable p s = (case is_banned (sv_admin s) (on_name p) (on_xuid p) of
      Some b \<Rightarrow> (Some (reason_or ''banned'' (bn_reason b)), s)
    | None \<Rightarrow>
        let (promoted, a) = promote_if_first_operator writable (on_name p) (on_xuid p) (sv_admin s);
            p = (if promoted \<or> is_operator a (on_name p) (on_xuid p) then with_perm permission_admin p else p)
        in (None, s\<lparr>sv_admin := a,
                    sv_online := filter (\<lambda>q. on_name q \<noteq> on_name p) (sv_online s) @ [p],
                    sv_allowed := if has_perm permission_alerts (on_perms p) then List.insert (on_name p) (sv_allowed s) else sv_allowed s\<rparr>))"

definition handle_quit :: "string \<Rightarrow> server \<Rightarrow> server" where
  "handle_quit n s = s\<lparr>sv_online := filter (\<lambda>q. on_name q \<noteq> n) (sv_online s), sv_allowed := removeAll n (sv_allowed s)\<rparr>"

text \<open>What a command does besides printing: disconnect a player with a reason, or send the sender a creative mode.\<close>
datatype command_effect = Disconnects string string | SendsCreative

definition command_debug :: "bool \<Rightarrow> online \<Rightarrow> string list \<Rightarrow> server \<Rightarrow> command_effect list \<times> server" where
  "command_debug dev p args s = (case args of
      [] \<Rightarrow> ([], s)
    | a # _ \<Rightarrow>
        let set_debug = (\<lambda>f. update_online (on_name p) (\<lambda>p. p\<lparr>on_debug := f (on_debug p)\<rparr>) s)
        in case debug_mode_of a of
             Some m \<Rightarrow> ([], set_debug (debug_toggle m))
           | None \<Rightarrow>
               if a = ''type_message'' then ([], set_debug (\<lambda>d. d\<lparr>db_to_log := False\<rparr>))
               else if a = ''type_log'' then ([], set_debug (\<lambda>d. d\<lparr>db_to_log := True\<rparr>))
               else if a = ''gmc'' \<and> dev then ([SendsCreative], s)
               else ([], s))"

definition command_alerts :: "online \<Rightarrow> string list \<Rightarrow> server \<Rightarrow> server" where
  "command_alerts p args s = (case args of
      [] \<Rightarrow> s
    | a # _ \<Rightarrow>
        if a = ''true'' \<or> a = ''enable'' then update_online (on_name p) (\<lambda>p. p\<lparr>on_alerts := True\<rparr>) s
        else if a = ''false'' \<or> a = ''disable'' then update_online (on_name p) (\<lambda>p. p\<lparr>on_alerts := False\<rparr>) s
        else case atoi a of
               Some ms \<Rightarrow> update_online (on_name p) (\<lambda>p. p\<lparr>on_delay := sint (word_of_int (ms * 1000000) :: 64 word)\<rparr>) s
             | None \<Rightarrow> s)"

definition command_op :: "bool \<Rightarrow> string \<Rightarrow> server \<Rightarrow> server" where
  "command_op writable name s =
    (let target = player_by_name s name; (added, a) = add_operator writable name (xuid_of target) (sv_admin s); s = s\<lparr>sv_admin := a\<rparr>
     in case target of
          Some t \<Rightarrow> if added then update_online (on_name t) (with_perm permission_admin) s else s
        | None \<Rightarrow> s)"

definition command_deop :: "bool \<Rightarrow> string \<Rightarrow> server \<Rightarrow> server" where
  "command_deop writable name s =
    (let target = player_by_name s name; (removed, a) = remove_operator writable name (xuid_of target) (sv_admin s); s = s\<lparr>sv_admin := a\<rparr>
     in case target of
          Some t \<Rightarrow> if removed then update_online (on_name t) (without_perm permission_admin) s else s
        | None \<Rightarrow> s)"

definition command_ban :: "bool \<Rightarrow> int \<Rightarrow> online \<Rightarrow> string \<Rightarrow> string \<Rightarrow> server \<Rightarrow> command_effect list \<times> server" where
  "command_ban writable now p name reason s =
    (let target = player_by_name s name;
         s = s\<lparr>sv_admin := ban writable now name (xuid_of target) reason (on_name p) (sv_admin s)\<rparr>
     in case target of
          Some t \<Rightarrow> ([Disconnects (on_name t) reason], update_online (on_name t) (without_perm permission_admin) s)
        | None \<Rightarrow> ([], s))"

definition command_kick :: "string \<Rightarrow> string \<Rightarrow> server \<Rightarrow> command_effect list" where
  "command_kick name reason s = (case player_by_name s name of
      Some t \<Rightarrow> [Disconnects (on_name t) (reason_or ''kicked by an operator'' reason)]
    | None \<Rightarrow> [])"

definition command_admin :: "bool \<Rightarrow> int \<Rightarrow> online \<Rightarrow> string \<Rightarrow> string list \<Rightarrow> server \<Rightarrow> command_effect list \<times> server" where
  "command_admin writable now p cmd args s = (case args of
      [] \<Rightarrow> ([], s)
    | name # rest \<Rightarrow>
        if cmd = ''op'' then ([], command_op writable name s)
        else if cmd = ''deop'' then ([], command_deop writable name s)
        else if cmd = ''kick'' then (command_kick name (join_spaces rest) s, s)
        else if cmd = ''ban'' then command_ban writable now p name (join_spaces rest) s
        else ([], s\<lparr>sv_admin := snd (unban writable name (xuid_of (player_by_name s name)) (sv_admin s))\<rparr>))"

text \<open>Whether the context is cancelled (the command then goes on to the server), the effects and the new state;
  \<^verbatim>\<open>dev\<close> stands for the environment variable of the developers.\<close>
definition handle_command ::
  "bool \<Rightarrow> bool \<Rightarrow> int \<Rightarrow> online \<Rightarrow> string \<Rightarrow> string list \<Rightarrow> server \<Rightarrow> bool \<times> command_effect list \<times> server" where
  "handle_command writable dev now p cmd args s =
    (if cmd = ''debug'' then
       if has_perm permission_debug (on_perms p) then (False, command_debug dev p args s) else (True, [], s)
     else if cmd = ''alerts'' then
       if has_perm permission_alerts (on_perms p) then (False, [], command_alerts p args s) else (True, [], s)
     else if cmd = ''logs'' then (\<not> has_perm permission_logs (on_perms p), [], s)
     else if cmd \<in> {''op'', ''deop'', ''kick'', ''ban'', ''unban''} then
       if has_perm permission_admin (on_perms p) then (False, command_admin writable now p cmd args s) else (True, [], s)
     else (False, [], s))"

section \<open>Overloads of the commands\<close>

definition overload_alerts_enable :: "arg_bits \<Rightarrow> overload_fn" where
  "overload_alerts_enable B perms pk =
    (if \<not> has_perm permission_alerts perms then (None, pk)
     else
       let (i, pk) = find_or_create_enum ''KillLime:alerts'' [''alerts''] pk;
           (j, pk) = find_or_create_enum ''enabled'' [''true'', ''false'', ''enable'', ''disable''] pk
       in (Some [make_enum_param B ''alerts'' i False False,
                 \<lparr>pm_name = ''enable_alerts'', pm_type = or (ab_valid B) (or (ab_enum B) j), pm_optional = False\<rparr>], pk))"

definition overload_alerts_delay :: "arg_bits \<Rightarrow> overload_fn" where
  "overload_alerts_delay B perms pk =
    (if \<not> has_perm permission_alerts perms then (None, pk)
     else
       let (i, pk) = find_or_create_enum ''KillLime:alerts'' [''alerts''] pk
       in (Some [make_enum_param B ''alerts'' i False False, make_normal_param B ''delayMs'' (ab_int B) False], pk))"

definition overload_logs :: "arg_bits \<Rightarrow> overload_fn" where
  "overload_logs B perms pk =
    (if \<not> has_perm permission_logs perms then (None, pk)
     else
       let (i, pk) = find_or_create_enum ''KillLime:logs'' [''logs''] pk
       in (Some [make_enum_param B ''logs'' i False False, make_normal_param B ''player'' (ab_target B) False], pk))"

definition overload_debug :: "arg_bits \<Rightarrow> overload_fn" where
  "overload_debug B perms pk =
    (if \<not> has_perm permission_debug perms then (None, pk)
     else
       let (i, pk) = find_or_create_enum ''KillLime:debug'' [''debug''] pk;
           (j, pk) = find_or_create_dynamic_enum ''KillLime:debug_modes'' (debug_mode_list @ [''type_message'', ''type_log'']) pk
       in (Some [make_enum_param B ''debug'' i False False, make_enum_param B ''mode'' j True True], pk))"

definition overload_op :: "arg_bits \<Rightarrow> overload_fn" where
  "overload_op B perms pk =
    (if \<not> has_perm permission_admin perms then (None, pk)
     else
       let (i, pk) = find_or_create_enum ''KillLime:op'' [''op''] pk
       in (Some [make_enum_param B ''op'' i False False, make_normal_param B ''player'' (ab_target B) False], pk))"

definition overload_deop :: "arg_bits \<Rightarrow> overload_fn" where
  "overload_deop B perms pk =
    (if \<not> has_perm permission_admin perms then (None, pk)
     else
       let (i, pk) = find_or_create_enum ''KillLime:deop'' [''deop''] pk
       in (Some [make_enum_param B ''deop'' i False False, make_normal_param B ''player'' (ab_target B) False], pk))"

definition overload_kick :: "arg_bits \<Rightarrow> overload_fn" where
  "overload_kick B perms pk =
    (if \<not> has_perm permission_admin perms then (None, pk)
     else
       let (i, pk) = find_or_create_enum ''KillLime:kick'' [''kick''] pk
       in (Some [make_enum_param B ''kick'' i False False, make_normal_param B ''player'' (ab_target B) False,
                 make_normal_param B ''reason'' (ab_message B) True], pk))"

definition overload_ban :: "arg_bits \<Rightarrow> overload_fn" where
  "overload_ban B perms pk =
    (if \<not> has_perm permission_admin perms then (None, pk)
     else
       let (i, pk) = find_or_create_enum ''KillLime:ban'' [''ban''] pk
       in (Some [make_enum_param B ''ban'' i False False, make_normal_param B ''player'' (ab_target B) False,
                 make_normal_param B ''reason'' (ab_message B) True], pk))"

definition overload_unban :: "arg_bits \<Rightarrow> overload_fn" where
  "overload_unban B perms pk =
    (if \<not> has_perm permission_admin perms then (None, pk)
     else
       let (i, pk) = find_or_create_enum ''KillLime:unban'' [''unban''] pk
       in (Some [make_enum_param B ''unban'' i False False, make_normal_param B ''player'' (ab_target B) False], pk))"

definition handler_overloads :: "arg_bits \<Rightarrow> overload_fn list" where
  "handler_overloads B = [overload_alerts_enable B, overload_alerts_delay B, overload_logs B, overload_debug B, overload_op B,
     overload_deop B, overload_kick B, overload_ban B, overload_unban B]"

section \<open>Alerts\<close>

text \<open>The replacer of the standard library: at each position the first pair that matches, without overlaps.\<close>
fun strip_prefix :: "string \<Rightarrow> string \<Rightarrow> string option" where
  "strip_prefix [] s = Some s"
| "strip_prefix (c # cs) [] = None"
| "strip_prefix (c # cs) (d # ds) = (if c = d then strip_prefix cs ds else None)"

lemma strip_prefix_shorter: "strip_prefix p s = Some r \<Longrightarrow> length r + length p = length s"
  by (induction p s rule: strip_prefix.induct) (auto split: if_splits)

fun first_match :: "(string \<times> string) list \<Rightarrow> string \<Rightarrow> (string \<times> string) option" where
  "first_match [] s = None"
| "first_match ((old, new) # ps) s =
    (case strip_prefix old s of Some r \<Rightarrow> Some (new, r) | None \<Rightarrow> first_match ps s)"

lemma first_match_shorter: "first_match ps s = Some (new, r) \<Longrightarrow> [] \<notin> fst ` set ps \<Longrightarrow> length r < length s"
proof (induction ps)
  case (Cons p ps)
  obtain old n where p: "p = (old, n)" by fastforce
  show ?case
  proof (cases "strip_prefix old s")
    case None
    with Cons show ?thesis by (simp add: p)
  next
    case (Some r')
    have "old \<noteq> []" using Cons.prems(2) by (auto simp: p)
    with strip_prefix_shorter[OF Some] Some Cons.prems(1) show ?thesis by (cases old) (auto simp: p)
  qed
qed simp

text \<open>For non-empty patterns, as here.\<close>
function replace_all :: "(string \<times> string) list \<Rightarrow> string \<Rightarrow> string" where
  "replace_all ps s =
    (if [] \<in> fst ` set ps then s
     else case s of
            [] \<Rightarrow> []
          | c # cs \<Rightarrow> case first_match ps s of Some (new, r) \<Rightarrow> new @ replace_all ps r | None \<Rightarrow> c # replace_all ps cs)"
  by pat_completeness auto
termination by (relation "measure (\<lambda>(ps, s). length s)") (auto dest: first_match_shorter)

declare replace_all.simps [simp del]

text \<open>The message of an alert and the players who are sent it; \<^verbatim>\<open>viol\<close> is the formatted number of
  violations.\<close>
definition handle_flag :: "string \<Rightarrow> string \<Rightarrow> online \<Rightarrow> string \<Rightarrow> string \<Rightarrow> string \<Rightarrow> server \<Rightarrow> string \<times> string list" where
  "handle_flag template prefix p ty sub viol s =
    (replace_all [(''{prefix}'', prefix), (''{player}'', on_name p), (''{xuid}'', on_xuid p), (''{detection_type}'', ty),
       (''{detection_subtype}'', sub), (''{violations}'', viol)] template,
     sv_allowed s)"

definition refresh_alert_list :: "int \<Rightarrow> server \<Rightarrow> server" where
  "refresh_alert_list now s =
    s\<lparr>sv_allowed := map on_name (filter (\<lambda>p. has_perm permission_alerts (on_perms p) \<and> on_alerts p
       \<and> on_delay p \<le> now - on_last_alert p) (sv_online s))\<rparr>"

end
