(* ===== verification/AdminProps.thy ===== *)
theory AdminProps
  imports Admin
begin

text \<open>
  What the operator store and the commands keep: the file is the state, a ban keeps its player out, and the
  permission of operators is given to operators only.
\<close>

section \<open>The store and its file\<close>

datatype admin_op = Promote string string | AddOp string string | RemoveOp string string
  | Ban int string string string string | Unban string string

fun admin_step :: "admin_op \<Rightarrow> admin \<Rightarrow> admin" where
  "admin_step (Promote n x) s = snd (promote_if_first_operator True n x s)"
| "admin_step (AddOp n x) s = snd (add_operator True n x s)"
| "admin_step (RemoveOp n x) s = snd (remove_operator True n x s)"
| "admin_step (Ban now n x r b) s = ban True now n x r b s"
| "admin_step (Unban n x) s = snd (unban True n x s)"

text \<open>The file has the lists of the store, or has none while the store is empty.\<close>
definition on_file :: "admin \<Rightarrow> bool" where
  "on_file s \<longleftrightarrow> ad_path s \<noteq> [] \<and> (ad_file s = Stored (ad_ops s) (ad_bans s)
     \<or> (\<forall>ops bans. ad_file s \<noteq> Stored ops bans) \<and> ad_ops s = [] \<and> ad_bans s = [])"

lemma on_file_save: "ad_path s \<noteq> [] \<Longrightarrow> on_file (admin_save True s)"
  by (simp add: admin_save_def on_file_def)

lemma path_save [simp]: "ad_path (admin_save w s) = ad_path s"
  by (simp add: admin_save_def)

lemma filter_same: "length (filter P xs) = length xs \<Longrightarrow> filter P xs = xs"
  by (metis filter_id_conv length_filter_less nat_neq_iff)

lemma on_file_step: "on_file s \<Longrightarrow> on_file (admin_step ev s) \<and> ad_path (admin_step ev s) = ad_path s"
  by (cases ev) (auto simp: promote_if_first_operator_def add_operator_def remove_operator_def ban_def unban_def Let_def
      on_file_def admin_save_def filter_same)

lemma on_file_run: "on_file s \<Longrightarrow> on_file (fold admin_step evs s) \<and> ad_path (fold admin_step evs s) = ad_path s"
  by (induction evs arbitrary: s) (simp_all add: on_file_step)

lemma on_file_new: "path \<noteq> [] \<Longrightarrow> on_file (new_admin_store path file) \<and> ad_path (new_admin_store path file) = path"
  by (simp add: new_admin_store_def admin_load_def on_file_def split: admin_file.splits)

text \<open>Whatever the file held at the start and whatever was done since, a store that is created from the file again
  has the operators and the bans of the running one, as long as the file can be written.\<close>
theorem admin_survives_restart:
  assumes "path \<noteq> []" "s = fold admin_step evs (new_admin_store path file)"
  shows "new_admin_store path (ad_file s) = s"
proof -
  have "on_file s" "ad_path s = path"
    using on_file_run on_file_new[OF assms(1)] by (simp_all add: assms(2))
  then show ?thesis
    by (cases s) (auto simp: on_file_def new_admin_store_def admin_load_def split: admin_file.splits)
qed

theorem admin_survives_restart_witness:
  "ad_ops (new_admin_store ''a.json'' (ad_file (fold admin_step [AddOp ''Alex'' ''1'', Ban 5 ''Steve'' [] ''cheating'' ''Alex'']
     (new_admin_store ''a.json'' Malformed)))) = [identity_of ''Alex'' ''1'']"
  by (subst admin_survives_restart[OF _ refl]) (simp_all add: new_admin_store_def admin_load_def add_operator_def
      is_operator_def admin_save_def ban_def)

section \<open>Names\<close>

lemma white_code: "is_white c \<longleftrightarrow> (of_char c :: nat) \<in> {9, 10, 11, 12, 13, 32}"
proof -
  have eq: "c = d \<longleftrightarrow> (of_char c :: nat) = of_char d" for d by simp
  show ?thesis unfolding is_white_def is_space_def by (subst (1 2 3 4 5 6) eq) (simp del: of_char_eq_iff; blast)
qed

lemma lower_white: "is_white (lower_char c) = is_white c"
proof -
  have "(of_char (char_of (n + 32)) :: nat) = n + 32" if "n \<le> 90" for n :: nat using that by simp
  then show ?thesis by (auto simp: white_code lower_char_def Let_def)
qed

lemma trim_lower: "trim_space (to_lower s) = to_lower (trim_space s)"
  by (simp add: trim_space_def to_lower_def rev_map dropWhile_map lower_white o_def)

lemma equal_fold_trim: "equal_fold a b \<Longrightarrow> equal_fold (trim_space a) (trim_space b)"
  by (metis equal_fold_def trim_lower)

lemma equal_fold_empty: "equal_fold a b \<Longrightarrow> a = [] \<longleftrightarrow> b = []"
  by (auto simp: equal_fold_def to_lower_def)

text \<open>The name of a player is that of an entry, but for case and outer space.\<close>
definition same_name :: "string \<Rightarrow> string \<Rightarrow> bool" where
  "same_name a b \<longleftrightarrow> equal_fold (trim_space a) (trim_space b)"

lemma matches_by_name: "same_name name n \<Longrightarrow> trim_space n \<noteq> [] \<Longrightarrow> identity_matches (identity_of name xuid) n x"
  using equal_fold_empty by (auto simp: identity_matches_def identity_of_def same_name_def)

section \<open>Events\<close>

datatype server_event = Join online | Quit string | Command bool int online string "string list" | Refresh int

fun server_step :: "bool \<Rightarrow> server_event \<Rightarrow> server \<Rightarrow> server" where
  "server_step w (Join p) s = snd (handle_join w p s)"
| "server_step w (Quit n) s = handle_quit n s"
| "server_step w (Command dev now p cmd args) s = snd (snd (handle_command w dev now p cmd args s))"
| "server_step w (Refresh now) s = refresh_alert_list now s"

lemma admin_update [simp]: "sv_admin (update_online n f s) = sv_admin s"
  by (simp add: update_online_def)

lemma promote_bans [simp]: "ad_bans (snd (promote_if_first_operator w n x a)) = ad_bans a"
  by (simp add: promote_if_first_operator_def admin_save_def)

lemma add_bans [simp]: "ad_bans (snd (add_operator w n x a)) = ad_bans a"
  by (simp add: add_operator_def admin_save_def)

lemma remove_bans [simp]: "ad_bans (snd (remove_operator w n x a)) = ad_bans a"
  by (simp add: remove_operator_def admin_save_def Let_def)

lemma op_admin: "sv_admin (command_op w n s) = snd (add_operator w n (xuid_of (player_by_name s n)) (sv_admin s))"
  by (simp add: command_op_def Let_def split: prod.splits option.splits)

lemma deop_admin: "sv_admin (command_deop w n s) = snd (remove_operator w n (xuid_of (player_by_name s n)) (sv_admin s))"
  by (simp add: command_deop_def Let_def split: prod.splits option.splits)

lemma debug_admin: "sv_admin (snd (command_debug dev p args s)) = sv_admin s"
  by (simp add: command_debug_def Let_def split: list.splits option.splits)

lemma alerts_admin: "sv_admin (command_alerts p args s) = sv_admin s"
  by (simp add: command_alerts_def split: list.splits option.splits)

definition bans_players :: "server_event \<Rightarrow> bool" where
  "bans_players ev \<longleftrightarrow> (\<exists>dev now p cmd args. ev = Command dev now p cmd args \<and> (cmd = ''ban'' \<or> cmd = ''unban''))"

lemma step_bans: "\<not> bans_players ev \<Longrightarrow> ad_bans (sv_admin (server_step w ev s)) = ad_bans (sv_admin s)"
proof (cases ev)
  case (Join p)
  then show ?thesis
    by (simp add: handle_join_def Let_def split_beta split: option.splits)
next
  case (Command dev now p cmd args)
  moreover assume "\<not> bans_players ev"
  ultimately show ?thesis
    by (simp add: bans_players_def handle_command_def command_admin_def debug_admin alerts_admin op_admin deop_admin
        split: list.splits)
qed (simp_all add: handle_quit_def refresh_alert_list_def)

lemma run_bans: "list_all (\<lambda>ev. \<not> bans_players ev) evs \<Longrightarrow> ad_bans (sv_admin (fold (server_step w) evs s)) = ad_bans (sv_admin s)"
  by (induction evs arbitrary: s) (simp_all add: step_bans)

lemma ban_admin: "sv_admin (snd (command_ban w now p n r s)) = ban w now n (xuid_of (player_by_name s n)) r (on_name p) (sv_admin s)"
  by (simp add: command_ban_def Let_def split: option.splits)

text \<open>C32: after an operator banned a name, no player of that name can join, whatever happens until the next ban or
  unban.\<close>
theorem banned_player_stays_out:
  assumes "has_perm permission_admin (on_perms p)" "list_all (\<lambda>ev. \<not> bans_players ev) evs"
    and "same_name name (on_name q)" "trim_space (on_name q) \<noteq> []"
    and "s' = fold (server_step w) (Command dev now p ''ban'' (name # reason) # evs) s"
  shows "\<exists>r. r \<noteq> [] \<and> handle_join w' q s' = (Some r, s')"
proof -
  define b where "b = \<lparr>bn_identity = identity_of name (xuid_of (player_by_name s name)), bn_reason = join_spaces reason,
    bn_by = on_name p, bn_at = now\<rparr>"
  have "ad_bans (sv_admin s') = ad_bans (sv_admin (server_step w (Command dev now p ''ban'' (name # reason)) s))"
    using run_bans[OF assms(2)] assms(5) by simp
  also have "\<dots> = ad_bans (ban w now name (xuid_of (player_by_name s name)) (join_spaces reason) (on_name p) (sv_admin s))"
    using assms(1) by (simp add: handle_command_def command_admin_def ban_admin)
  finally have "b \<in> set (ad_bans (sv_admin s'))" by (simp add: ban_def admin_save_def b_def)
  moreover have "identity_matches (bn_identity b) (on_name q) (on_xuid q)"
    using matches_by_name[OF assms(3,4)] by (simp add: b_def)
  ultimately have "is_banned (sv_admin s') (on_name q) (on_xuid q) \<noteq> None"
    by (auto simp: is_banned_def find_None_iff)
  then show ?thesis by (auto simp: handle_join_def reason_or_def)
qed

definition demo_online :: "string \<Rightarrow> string \<Rightarrow> 64 word \<Rightarrow> online" where
  "demo_online n x perms = \<lparr>on_name = n, on_xuid = x, on_perms = perms, on_alerts = False, on_delay = 0, on_last_alert = 0, on_debug = new_debugger\<rparr>"

definition demo_server :: server where
  "demo_server = \<lparr>sv_admin = new_admin_store [] Missing, sv_online = [demo_online ''Alex'' ''1'' 8], sv_allowed = []\<rparr>"

lemma demo_names: "same_name ''steve'' ''Steve''" "trim_space ''Steve'' \<noteq> []" "has_perm 8 8"
  by code_simp+

theorem banned_player_stays_out_witness:
  "fst (handle_join True (demo_online ''Steve'' ''2'' 0) (fold (server_step True)
     [Command False 5 (demo_online ''Alex'' ''1'' 8) ''ban'' [''steve'', ''cheating''], Quit ''Steve''] demo_server)) \<noteq> None"
  using banned_player_stays_out[of "demo_online ''Alex'' ''1'' 8" "[Quit ''Steve'']" "''steve''" "demo_online ''Steve'' ''2'' 0" _ True False 5 "[''cheating'']" demo_server True]
    demo_names
  by (auto simp: demo_online_def bans_players_def)

section \<open>The permission of operators\<close>

abbreviation admin_online :: "online \<Rightarrow> bool" where
  "admin_online p \<equiv> has_perm permission_admin (on_perms p)"

lemma and_perm_8: "has_perm 8 (add_perm 8 ps)" "\<not> has_perm 8 (remove_perm 8 ps)"
proof -
  have "and (or ps 8) 8 = (8 :: 64 word)" by (auto simp: bit_eq_iff bit_and_iff bit_or_iff)
  then show "has_perm 8 (add_perm 8 ps)" by (simp add: has_perm_def add_perm_def)
  have "and (and ps (not 8)) 8 = and ps (and (not 8) (8 :: 64 word))" by (simp only: and.assoc)
  also have "\<dots> = 0" by simp
  finally have "and (and ps (not 8)) 8 = (0 :: 64 word)" .
  then show "\<not> has_perm 8 (remove_perm 8 ps)" by (simp add: has_perm_def remove_perm_def)
qed

lemma find_SomeD: "find P xs = Some x \<Longrightarrow> x \<in> set xs \<and> P x"
  by (auto simp: find_Some_iff)

lemma in_update_online:
  assumes "q \<in> set (sv_online (update_online n f s))"
  shows "\<exists>p \<in> set (sv_online s). q = p \<or> on_name p = n \<and> q = f p"
  using assms by (auto simp: update_online_def split: if_splits)

text \<open>The player was there before the step with the same name, identity and permission.\<close>
definition had_admin :: "server \<Rightarrow> online \<Rightarrow> bool" where
  "had_admin s q \<longleftrightarrow> (\<exists>p \<in> set (sv_online s). on_name p = on_name q \<and> on_xuid p = on_xuid q \<and> admin_online p)"

lemma had_adminI: "q \<in> set (sv_online s) \<Longrightarrow> admin_online q \<Longrightarrow> had_admin s q"
  by (auto simp: had_admin_def)

lemma kept_had:
  assumes "q \<in> set (sv_online (update_online n f s))" "admin_online q"
    and "\<And>p. on_name (f p) = on_name p \<and> on_xuid (f p) = on_xuid p \<and> on_perms (f p) = on_perms p"
  shows "had_admin s q"
  using in_update_online[OF assms(1)] assms(2,3) by (metis had_admin_def)

lemma debug_had: "q \<in> set (sv_online (snd (command_debug dev p args s))) \<Longrightarrow> admin_online q \<Longrightarrow> had_admin s q"
  unfolding command_debug_def Let_def
  by (cases args; cases "debug_mode_of (hd args)") (simp_all add: had_adminI split: if_splits, (erule (1) kept_had, simp)+)

lemma alerts_had: "q \<in> set (sv_online (command_alerts p args s)) \<Longrightarrow> admin_online q \<Longrightarrow> had_admin s q"
  unfolding command_alerts_def
  by (cases args; cases "atoi (hd args)") (simp_all add: had_adminI split: if_splits, (erule (1) kept_had, simp)+)

lemma without_had: "q \<in> set (sv_online (update_online n (without_perm 8) s)) \<Longrightarrow> admin_online q \<Longrightarrow> had_admin s q"
  by (auto simp: without_perm_def had_admin_def and_perm_8 dest!: in_update_online)

lemma deop_had: "q \<in> set (sv_online (command_deop w n s)) \<Longrightarrow> admin_online q \<Longrightarrow> had_admin s q"
  by (auto simp: command_deop_def Let_def had_admin_def split: prod.splits option.splits if_splits
      dest!: without_had)

lemma ban_had: "q \<in> set (sv_online (snd (command_ban w now p n r s))) \<Longrightarrow> admin_online q \<Longrightarrow> had_admin s q"
  by (auto simp: command_ban_def Let_def had_admin_def split: option.splits dest!: without_had)

lemma added_operator: "add_operator w n x a = (True, a') \<Longrightarrow> identity_of n x \<in> set (ad_ops a')"
  by (auto simp: add_operator_def admin_save_def split: if_splits)

lemma op_had:
  assumes "q \<in> set (sv_online (command_op w n s))" "admin_online q" "trim_space (on_name q) \<noteq> []"
  shows "had_admin s q \<or> is_operator (sv_admin (command_op w n s)) (on_name q) (on_xuid q)"
proof (cases "q \<in> set (sv_online s)")
  case True
  then show ?thesis using assms(2) had_adminI by blast
next
  case False
  obtain b a where add: "add_operator w n (xuid_of (player_by_name s n)) (sv_admin s) = (b, a)" by fastforce
  obtain t where t: "player_by_name s n = Some t" "b"
    using assms(1) False add by (auto simp: command_op_def Let_def split: option.splits if_splits)
  then have "on_name q = on_name t"
    using assms(1) False add by (auto simp: command_op_def Let_def update_online_def with_perm_def split: if_splits)
  moreover have "same_name n (on_name t)"
    using find_SomeD[OF t(1)[unfolded player_by_name_def]] equal_fold_trim
    by (metis same_name_def equal_fold_def)
  ultimately have "identity_matches (identity_of n (xuid_of (player_by_name s n))) (on_name q) (on_xuid q)"
    using matches_by_name assms(3) by simp
  with added_operator[of w n _ "sv_admin s"] add t(2) have "is_operator a (on_name q) (on_xuid q)"
    by (auto simp: is_operator_def list_ex_iff)
  then show ?thesis by (simp add: op_admin add)
qed

lemma promoted_operator:
  assumes "promote_if_first_operator w n x a = (True, a')" "trim_space n \<noteq> []"
  shows "is_operator a' n x"
proof -
  have "identity_matches (identity_of n x) n x"
    using matches_by_name[of n n x x] assms(2) by (simp add: same_name_def equal_fold_def)
  then show ?thesis using assms(1)
    by (auto simp: promote_if_first_operator_def admin_save_def is_operator_def split: if_splits)
qed

lemma join_had:
  assumes "q \<in> set (sv_online (snd (handle_join w p s)))" "admin_online q" "trim_space (on_name q) \<noteq> []"
    and "\<not> admin_online p"
  shows "had_admin s q \<or> is_operator (sv_admin (snd (handle_join w p s))) (on_name q) (on_xuid q)"
proof (cases "q \<in> set (sv_online s)")
  case True
  then show ?thesis using assms(2) had_adminI by blast
next
  case False
  obtain b a where pr: "promote_if_first_operator w (on_name p) (on_xuid p) (sv_admin s) = (b, a)" by fastforce
  have "is_banned (sv_admin s) (on_name p) (on_xuid p) = None"
    using assms(1) False by (auto simp: handle_join_def split: option.splits)
  then have "q = with_perm 8 p \<and> (b \<or> is_operator a (on_name p) (on_xuid p))" "sv_admin (snd (handle_join w p s)) = a"
    using assms(1,2,4) False pr by (auto simp: handle_join_def Let_def split: if_splits)
  then show ?thesis using promoted_operator pr assms(3) by (auto simp: with_perm_def)
qed

text \<open>C16: no event gives a player the permission of operators unless the store has the player as an operator
  afterwards.\<close>
theorem admin_only_for_operators:
  assumes "q \<in> set (sv_online (server_step w ev s))" "admin_online q" "trim_space (on_name q) \<noteq> []"
    and "\<And>p. ev = Join p \<Longrightarrow> \<not> admin_online p"
  shows "had_admin s q \<or> is_operator (sv_admin (server_step w ev s)) (on_name q) (on_xuid q)"
proof (cases ev)
  case (Join p)
  with assms join_had show ?thesis by simp
next
  case (Command dev now p cmd args)
  show ?thesis
  proof (cases "cmd = ''op'' \<and> admin_online p \<and> args \<noteq> []")
    case True
    then obtain n rest where "server_step w ev s = command_op w n s"
      using Command by (cases args) (auto simp: handle_command_def command_admin_def)
    with op_had assms(1-3) show ?thesis by metis
  next
    case False
    then show ?thesis using assms(1,2)
      by (auto simp: Command handle_command_def command_admin_def had_adminI split: list.splits if_splits
          dest: debug_had alerts_had deop_had ban_had)
  qed
qed (use assms in \<open>auto simp: handle_quit_def refresh_alert_list_def had_adminI\<close>)

theorem admin_only_for_operators_witness:
  "is_operator (sv_admin (server_step True (Join (demo_online ''Alex'' ''1'' 0)) (demo_server\<lparr>sv_online := []\<rparr>))) ''Alex'' ''1''"
proof -
  let ?p = "demo_online ''Alex'' ''1'' 0" and ?s = "demo_server\<lparr>sv_online := []\<rparr>"
  have q: "with_perm 8 ?p \<in> set (sv_online (server_step True (Join ?p) ?s))"
    by (simp add: handle_join_def demo_server_def new_admin_store_def admin_load_def is_banned_def
        promote_if_first_operator_def Let_def with_perm_def)
  have n: "trim_space (on_name (with_perm 8 ?p)) \<noteq> []" by code_simp
  have "admin_online (with_perm 8 ?p)" by (simp add: with_perm_def and_perm_8)
  from admin_only_for_operators[OF q this n] show ?thesis
    by (auto simp: had_admin_def has_perm_def demo_online_def with_perm_def)
qed

section \<open>What does not hold\<close>

text \<open>Names are trimmed by the store but not by the lookup of online players: an operator who is removed with a space
  after the name keeps the permission.\<close>
lemma deop_with_space_keeps_permission:
  "let s = demo_server\<lparr>sv_admin := snd (add_operator True ''Alex'' ''1'' (sv_admin demo_server))\<rparr>;
       s' = command_deop True ''Alex '' s
   in ad_ops (sv_admin s') = [] \<and> map on_perms (sv_online s') = [8]"
  by code_simp

text \<open>A ban that is repeated while the player is offline forgets the identifier: after a change of the name
  the player is no longer banned.\<close>
lemma repeated_ban_forgets_xuid:
  "let s = ban True 1 ''Steve'' ''2'' [] ''Alex'' (new_admin_store [] Missing)
   in is_banned s ''Renamed'' ''2'' \<noteq> None \<and> is_banned (ban True 2 ''Steve'' [] [] ''Alex'' s) ''Renamed'' ''2'' = None"
  by code_simp

end
