(* ===== verification/Breaking.thy ===== *)
theory Breaking
  imports Detections
begin

text \<open>
  Breaking blocks: \<^verbatim>\<open>handleBlockActions\<close>, \<^verbatim>\<open>tryBreakBlock\<close>,
  \<^verbatim>\<open>blockInteractable\<close> and \<^verbatim>\<open>expectedBlockBreakTime\<close> of
  \<^verbatim>\<open>src/player/world.go\<close>.  The blocks of the world are a function of the position here
  (\<^verbatim>\<open>World.set_block_read_back\<close> relates it to the chunks); how long a block takes to break is the block
  library's.
\<close>

section \<open>The state and what it is computed from\<close>

record block_action_pk =
  ba_kind :: block_action
  ba_pos :: bpos
  ba_face :: int

text \<open>What stays the same while the actions of an input are handled.  The faces are the numbers of the protocol,
  from down (0) to east (5).\<close>
record ('f, 'b, 'i) break_env =
  be_flt :: "'f flt"
  be_box :: "'f box_lib"
  be_blocks :: "('f, 'b) block_lib"
  be_air :: 'b
  be_is_wool :: "'b \<Rightarrow> bool"
  be_break_ms :: "'b \<Rightarrow> 'i \<Rightarrow> int \<Rightarrow> int \<Rightarrow> int \<Rightarrow> int"
  be_side :: "bpos \<Rightarrow> int \<Rightarrow> bpos"
  be_mode :: game_mode
  be_version :: int
  be_held :: 'i
  be_haste :: "int option"
  be_conduit :: "int option"
  be_fatigue :: "int option"
  be_player_pos :: "'f vec3"
  be_touch :: bool
  be_full_auth :: bool
  be_client_tick :: int

text \<open>What the world answers with: an air swing for the combat component, or blocks that are sent again.\<close>
datatype break_event = AirSwing | Resent bpos

record ('f, 'b) breaker =
  br_pos :: "bpos option"
  br_progress :: 'f
  br_in_progress :: bool
  br_start :: int
  br_world :: "bpos \<Rightarrow> 'b"
  br_events :: "break_event list"

definition br_emit :: "break_event \<Rightarrow> ('f, 'b) breaker \<Rightarrow> ('f, 'b) breaker" where
  "br_emit ev s = s\<lparr>br_events := br_events s @ [ev]\<rparr>"

definition set_air :: "('f, 'b, 'i) break_env \<Rightarrow> bpos \<Rightarrow> ('f, 'b) breaker \<Rightarrow> ('f, 'b) breaker" where
  "set_air E p s = s\<lparr>br_world := (br_world s)(p := be_air E)\<rparr>"

section \<open>How long a block takes\<close>

abbreviation game_version_1_21_50 :: int where "game_version_1_21_50 \<equiv> 766"

definition amplifier_or_zero :: "int option \<Rightarrow> int" where
  "amplifier_or_zero a = (case a of Some n \<Rightarrow> n | None \<Rightarrow> 0)"

definition survival_like :: "game_mode \<Rightarrow> bool" where
  "survival_like m \<longleftrightarrow> m = Survival \<or> m = Adventure"

definition expected_block_break_time :: "('f, 'b, 'i) break_env \<Rightarrow> (bpos \<Rightarrow> 'b) \<Rightarrow> bpos \<Rightarrow> 'f" where
  "expected_block_break_time E src p =
    (let F = be_flt E; B = be_blocks E; b = src p
     in if \<not> survival_like (be_mode E) then fl_lit F 0
        else if unknown_block B b then fl_lit F 0
        else if bk_is_air B b then fl_lit F 0
        else if block_name B b = ''minecraft:web'' \<or> block_name B b = ''minecraft:bed'' then fl_lit F 1
        else
          let ms = fl_of_int F (be_break_ms E b (be_held E) (amplifier_or_zero (be_haste E))
                     (amplifier_or_zero (be_conduit E)) (amplifier_or_zero (be_fatigue E)));
              ms = (if be_is_wool E b \<and> be_version E < game_version_1_21_50 then fl_mul F ms (fl_lit F 0.75) else ms)
          in fl_div F ms (fl_lit F 50))"

definition add_progress :: "('f, 'b, 'i) break_env \<Rightarrow> bpos \<Rightarrow> ('f, 'b) breaker \<Rightarrow> ('f, 'b) breaker" where
  "add_progress E p s =
    (let F = be_flt E
     in s\<lparr>br_progress := fl_add F (br_progress s)
            (fl_div F (fl_lit F 1) (fl_max F (expected_block_break_time E (br_world s) p) (fl_lit F 0.001)))\<rparr>)"

definition no_progress :: "('f, 'b, 'i) break_env \<Rightarrow> ('f, 'b) breaker \<Rightarrow> ('f, 'b) breaker" where
  "no_progress E s = s\<lparr>br_progress := fl_lit (be_flt E) 0\<rparr>"

section \<open>Which faces can be reached\<close>

text \<open>The faces that the eyes are outside of: down, up, west, east, north, south.\<close>
definition interactable_faces :: "bpos \<Rightarrow> bpos \<Rightarrow> int list" where
  "interactable_faces eye p = (case (eye, p) of ((ex, ey, ez), (x, y, z)) \<Rightarrow>
     (if ey < y then [0] else []) @ (if y < ey then [1] else [])
     @ (if ex < x then [4] else []) @ (if x < ex then [5] else [])
     @ (if ez < z then [2] else []) @ (if z < ez then [3] else []))"

text \<open>Only the first box of a neighbour is looked at.\<close>
definition side_free :: "('f, 'b, 'i) break_env \<Rightarrow> (bpos \<Rightarrow> 'b) \<Rightarrow> bpos \<Rightarrow> bool" where
  "side_free E src q = (case block_collisions (be_blocks E) (src q) q src of
      [] \<Rightarrow> True
    | b # _ \<Rightarrow>
        let F = be_flt E; one = fl_lit F 1;
            width = fl_sub F (vx (bb_max b)) (vx (bb_min b)); height = fl_sub F (vy (bb_max b)) (vy (bb_min b));
            len = fl_sub F (vz (bb_max b)) (vz (bb_min b))
        in \<not> ((fl_eq F width one \<or> fl_eq F len one) \<and> fl_eq F height one))"

definition eye_block :: "('f, 'b, 'i) break_env \<Rightarrow> bpos" where
  "eye_block E = bl_pos_of (be_box E) (add3 (be_flt E) (be_player_pos E) (fl_lit (be_flt E) 0, fl_lit (be_flt E) 1.62, fl_lit (be_flt E) 0))"

text \<open>The previous and the current position are the same in the code.\<close>
definition block_interactable :: "('f, 'b, 'i) break_env \<Rightarrow> (bpos \<Rightarrow> 'b) \<Rightarrow> bpos \<Rightarrow> int \<Rightarrow> bool" where
  "block_interactable E src p face \<longleftrightarrow>
    \<not> survival_like (be_mode E)
    \<or> fst (snd (eye_block E)) = fst (snd p)
    \<or> (let faces = interactable_faces (eye_block E) p
        in face \<in> set faces \<and> list_ex (\<lambda>f. side_free E src (be_side E p f)) faces)"

section \<open>Breaking\<close>

definition try_break_block :: "('f, 'b, 'i) break_env \<Rightarrow> int \<Rightarrow> ('f, 'b) breaker \<Rightarrow> bool \<times> ('f, 'b) breaker" where
  "try_break_block E face s = (case br_pos s of
      None \<Rightarrow> (False, s)
    | Some p \<Rightarrow>
        let s = add_progress E p s
        in if fl_le (be_flt E) (br_progress s) (fl_lit (be_flt E) 0.999) then (False, no_progress E (br_emit (Resent p) s))
           else if \<not> block_interactable E (br_world s) p face then (False, no_progress E (br_emit (Resent p) s))
           else (True, s))"

definition reset_break :: "('f, 'b, 'i) break_env \<Rightarrow> ('f, 'b) breaker \<Rightarrow> ('f, 'b) breaker" where
  "reset_break E s = (no_progress E s)\<lparr>br_start := be_client_tick E\<rparr>"

definition finish_break :: "('f, 'b, 'i) break_env \<Rightarrow> bpos \<Rightarrow> ('f, 'b) breaker \<Rightarrow> ('f, 'b) breaker" where
  "finish_break E p s = set_air E p ((no_progress E s)\<lparr>br_in_progress := False\<rparr>)"

definition swing_unless_touch :: "('f, 'b, 'i) break_env \<Rightarrow> ('f, 'b) breaker \<Rightarrow> ('f, 'b) breaker" where
  "swing_unless_touch E s = (if be_touch E then s else br_emit AirSwing s)"

text \<open>An action; it is dropped from the packet when the result is false.\<close>
definition handle_block_action :: "('f, 'b, 'i) break_env \<Rightarrow> block_action_pk \<Rightarrow> ('f, 'b) breaker \<Rightarrow> bool \<times> ('f, 'b) breaker" where
  "handle_block_action E a s =
    (let p = ba_pos a
     in case ba_kind a of
          PredictDestroy \<Rightarrow>
            if \<not> be_full_auth E \<or> br_pos s = None then (False, s)
            else (case try_break_block E (ba_face a) s of (ok, s) \<Rightarrow> if ok then (True, finish_break E p s) else (False, s))
        | StartBreak \<Rightarrow>
            let s = reset_break E ((swing_unless_touch E s)\<lparr>br_in_progress := True\<rparr>);
                s = (if br_pos s \<noteq> Some p then reset_break E s else s)
            in (True, (add_progress E p s)\<lparr>br_pos := Some p\<rparr>)
        | CrackBreak \<Rightarrow>
            let s = (if br_pos s \<noteq> Some p then reset_break E s else s)
            in (True, (add_progress E p s)\<lparr>br_pos := Some p\<rparr>)
        | ContinueDestroy \<Rightarrow>
            let other = (case br_pos s of Some q \<Rightarrow> q \<noteq> p | None \<Rightarrow> False);
                s = (if \<not> br_in_progress s \<or> other then reset_break E s else s)
            in (True, swing_unless_touch E ((add_progress E p s)\<lparr>br_pos := Some p, br_in_progress := True\<rparr>))
        | AbortBreak \<Rightarrow> (True, (no_progress E s)\<lparr>br_pos := None, br_in_progress := False\<rparr>)
        | StopBreak \<Rightarrow>
            (case br_pos s of
               None \<Rightarrow> (False, s)
             | Some q \<Rightarrow> (case try_break_block E (ba_face a) s of
                           (ok, s) \<Rightarrow> if ok then (True, finish_break E q s) else (False, s)))
        | _ \<Rightarrow> (True, s))"

fun handle_actions :: "('f, 'b, 'i) break_env \<Rightarrow> block_action_pk list \<Rightarrow> ('f, 'b) breaker \<Rightarrow> block_action_pk list \<times> ('f, 'b) breaker" where
  "handle_actions E [] s = ([], s)"
| "handle_actions E (a # as) s =
    (case handle_block_action E a s of (keep, s) \<Rightarrow> case handle_actions E as s of (kept, s) \<Rightarrow>
      (if keep then a # kept else kept, s))"

definition assumed_break :: "('f, 'b, 'i) break_env \<Rightarrow> ('f, 'b) breaker \<Rightarrow> bool" where
  "assumed_break E s \<longleftrightarrow> be_full_auth E \<and> br_pos s \<noteq> None \<and> br_in_progress s"

definition assume_progress :: "('f, 'b, 'i) break_env \<Rightarrow> ('f, 'b) breaker \<Rightarrow> ('f, 'b) breaker" where
  "assume_progress E s = (case br_pos s of Some p \<Rightarrow> if assumed_break E s then add_progress E p s else s | None \<Rightarrow> s)"

text \<open>The actions of an input, if it has any; those that go on to the server, the flag of the input being unset when
  there are none.\<close>
definition handle_block_actions ::
  "('f, 'b, 'i) break_env \<Rightarrow> block_action_pk list option \<Rightarrow> ('f, 'b) breaker \<Rightarrow> block_action_pk list option \<times> ('f, 'b) breaker" where
  "handle_block_actions E acts s =
    (let handled = assumed_break E s; s = assume_progress E s;
         (kept, s) = (case acts of
                        None \<Rightarrow> (None, s)
                      | Some as \<Rightarrow> case handle_actions E as s of (kept, s) \<Rightarrow> (if kept = [] then None else Some kept, s))
     in (kept, if handled then s else assume_progress E s))"

end
