(* ===== verification/BreakProps.thy ===== *)
theory BreakProps
  imports Breaking SimFrames
begin

text \<open>
  How long breaking takes: in exact numbers no block goes before the inputs and actions that its time asks for, as
  long as every position that the actions name needs that time.
\<close>

section \<open>Progress\<close>

lemma add_progress_simps [simp]:
  "br_pos (add_progress E p s) = br_pos s" "br_world (add_progress E p s) = br_world s"
  "br_in_progress (add_progress E p s) = br_in_progress s"
  "br_pos (no_progress E s) = br_pos s" "br_world (no_progress E s) = br_world s"
  "br_pos (reset_break E s) = br_pos s" "br_world (reset_break E s) = br_world s"
  "br_pos (br_emit ev s) = br_pos s" "br_world (br_emit ev s) = br_world s" "br_progress (br_emit ev s) = br_progress s"
  "br_pos (swing_unless_touch E s) = br_pos s" "br_world (swing_unless_touch E s) = br_world s"
  "br_progress (swing_unless_touch E s) = br_progress s"
  by (simp_all add: add_progress_def no_progress_def reset_break_def br_emit_def swing_unless_touch_def Let_def)

text \<open>The progress so far comes from at most n steps of breaking blocks that take the time T each.\<close>
definition unbroken :: "real \<Rightarrow> bpos set \<Rightarrow> (bpos \<Rightarrow> 'b) \<Rightarrow> nat \<Rightarrow> (real, 'b) breaker \<Rightarrow> bool" where
  "unbroken T P w n s \<longleftrightarrow> br_world s = w \<and> br_progress s \<le> n / T \<and> (\<forall>p. br_pos s = Some p \<longrightarrow> p \<in> P)"

definition long_enough :: "real \<Rightarrow> nat \<Rightarrow> bool" where
  "long_enough T n \<longleftrightarrow> 0.999 * T < n"

text \<open>Every one of the positions takes the time T to break.\<close>
definition slow :: "real \<Rightarrow> bpos set \<Rightarrow> (bpos \<Rightarrow> 'b) \<Rightarrow> (real, 'b, 'i) break_env \<Rightarrow> bool" where
  "slow T P w E \<longleftrightarrow> be_flt E = real_flt \<and> (\<forall>p \<in> P. T \<le> expected_block_break_time E w p)"

lemma unbroken_mono: "0 < T \<Longrightarrow> unbroken T P w n s \<Longrightarrow> n \<le> m \<Longrightarrow> unbroken T P w m s"
  by (auto simp: unbroken_def divide_right_mono elim!: order_trans)

lemma long_enough_mono: "long_enough T n \<Longrightarrow> n \<le> m \<Longrightarrow> long_enough T m"
  by (simp add: long_enough_def)

lemma add_progress_unbroken:
  assumes "0 < T" "slow T P w E" "unbroken T P w n s" "p \<in> P"
  shows "unbroken T P w (Suc n) (add_progress E p s)"
proof -
  let ?t = "expected_block_break_time E w p"
  have "T \<le> ?t" using assms(2,4) by (simp add: slow_def)
  then have "1 / max ?t 0.001 \<le> 1 / T" using assms(1) by (intro divide_left_mono) auto
  moreover have "br_progress (add_progress E p s) = br_progress s + 1 / max ?t 0.001"
    using assms(2,3) by (simp add: add_progress_def slow_def unbroken_def Let_def)
  ultimately have "br_progress (add_progress E p s) \<le> n / T + 1 / T" using assms(3) by (simp add: unbroken_def)
  then show ?thesis using assms(3) by (simp add: unbroken_def add_divide_distrib)
qed

lemma no_progress_unbroken:
  assumes "0 < T" "slow T P w E" "unbroken T P w n s"
  shows "unbroken T P w n (no_progress E s)" "unbroken T P w n (reset_break E s)"
  using assms by (simp_all add: unbroken_def no_progress_def reset_break_def slow_def)

lemma unbroken_updates:
  "unbroken T P w n (s\<lparr>br_start := a\<rparr>) = unbroken T P w n s"
  "unbroken T P w n (s\<lparr>br_in_progress := b\<rparr>) = unbroken T P w n s"
  "unbroken T P w n (br_emit ev s) = unbroken T P w n s"
  "unbroken T P w n (swing_unless_touch E s) = unbroken T P w n s"
  "unbroken T P w n s \<Longrightarrow> p \<in> P \<Longrightarrow> unbroken T P w n (s\<lparr>br_pos := Some p\<rparr>)"
  "unbroken T P w n s \<Longrightarrow> unbroken T P w n (s\<lparr>br_pos := None\<rparr>)"
  by (simp_all add: unbroken_def br_emit_def swing_unless_touch_def)

lemma try_break_unbroken:
  assumes "0 < T" "slow T P w E" "unbroken T P w n s" "try_break_block E face s = (ok, s')"
  shows "if ok then long_enough T (Suc n) else unbroken T P w (Suc n) s'"
proof (cases "br_pos s")
  case None
  with assms(4) unbroken_mono[OF assms(1,3), of "Suc n"] show ?thesis by (auto simp: try_break_block_def)
next
  case (Some p)
  then have p: "p \<in> P" using assms(3) by (simp add: unbroken_def)
  let ?s = "add_progress E p s"
  note step = add_progress_unbroken[OF assms(1-3) p]
  show ?thesis
  proof (cases ok)
    case True
    then have "0.999 < br_progress ?s"
      using assms(2,4) Some by (simp add: try_break_block_def Let_def slow_def split: if_splits)
    also have "\<dots> \<le> Suc n / T" using step by (simp add: unbroken_def)
    finally show ?thesis using True assms(1) by (simp add: long_enough_def field_simps)
  next
    case False
    then have "s' = no_progress E (br_emit (Resent p) ?s)"
      using assms(4) Some by (auto simp: try_break_block_def Let_def split: if_splits)
    with no_progress_unbroken(1)[OF assms(1,2), of "Suc n" "br_emit (Resent p) ?s"] step False show ?thesis
      by (simp add: unbroken_updates)
  qed
qed

lemma action_unbroken:
  assumes "0 < T" "slow T P w E" "unbroken T P w n s" "ba_pos a \<in> P" "handle_block_action E a s = (keep, s')"
  shows "unbroken T P w (Suc n) s' \<or> long_enough T (Suc n)"
proof -
  note reset = no_progress_unbroken[OF assms(1,2)]
  note add = add_progress_unbroken[OF assms(1,2) _ assms(4)]
  note attempt = try_break_unbroken[OF assms(1,2,3)]
  have more: "unbroken T P w (Suc n) s" using unbroken_mono[OF assms(1,3)] by simp
  show ?thesis
  proof (cases "ba_kind a")
    case PredictDestroy
    with assms(5) attempt[of "ba_face a"] more show ?thesis
      by (cases "try_break_block E (ba_face a) s") (auto simp: handle_block_action_def split: if_splits)
  next
    case StopBreak
    with assms(5) attempt[of "ba_face a"] more show ?thesis
      by (cases "try_break_block E (ba_face a) s") (auto simp: handle_block_action_def split: if_splits option.splits)
  next
    case StartBreak
    with assms(3-5) reset add show ?thesis
      by (auto simp: handle_block_action_def Let_def unbroken_updates split: if_splits)
  next
    case CrackBreak
    with assms(3-5) reset add show ?thesis
      by (auto simp: handle_block_action_def Let_def unbroken_updates split: if_splits)
  next
    case ContinueDestroy
    with assms(3-5) reset add show ?thesis
      by (auto simp: handle_block_action_def Let_def unbroken_updates split: if_splits)
  next
    case AbortBreak
    with assms(5) reset(1)[OF more] show ?thesis
      by (auto simp: handle_block_action_def Let_def unbroken_updates)
  qed (use assms(5) more in \<open>auto simp: handle_block_action_def\<close>)
qed

lemma actions_unbroken:
  assumes "0 < T" "slow T P w E"
  shows "unbroken T P w n s \<or> long_enough T n \<Longrightarrow> ba_pos ` set as \<subseteq> P \<Longrightarrow> handle_actions E as s = (kept, s') \<Longrightarrow>
    unbroken T P w (n + length as) s' \<or> long_enough T (n + length as)"
proof (induction as arbitrary: n s kept)
  case (Cons a as)
  obtain k s1 where one: "handle_block_action E a s = (k, s1)" by fastforce
  obtain kept' where rest: "handle_actions E as s1 = (kept', s')"
    using Cons.prems(3) one by (cases "handle_actions E as s1") simp
  have "unbroken T P w (Suc n) s1 \<or> long_enough T (Suc n)"
    using Cons.prems(1,2) action_unbroken[OF assms _ _ one] long_enough_mono[of T n "Suc n"] by auto
  from Cons.IH[OF this _ rest] Cons.prems(2) show ?case by simp
qed simp

section \<open>Inputs\<close>

definition actions_of :: "block_action_pk list option \<Rightarrow> block_action_pk list" where
  "actions_of acts = (case acts of Some as \<Rightarrow> as | None \<Rightarrow> [])"

lemma assume_unbroken:
  assumes "0 < T" "slow T P w E" "unbroken T P w n s"
  shows "unbroken T P w (if assumed_break E s then Suc n else n) (assume_progress E s)"
proof (cases "br_pos s")
  case (Some p)
  then have "p \<in> P" using assms(3) by (simp add: unbroken_def)
  with Some add_progress_unbroken[OF assms] assms(3) show ?thesis by (simp add: assume_progress_def)
qed (use assms(3) in \<open>simp add: assume_progress_def assumed_break_def\<close>)

lemma input_unbroken:
  assumes "0 < T" "slow T P w E" "unbroken T P w n s \<or> long_enough T n" "ba_pos ` set (actions_of acts) \<subseteq> P"
    and "handle_block_actions E acts s = (kept, s')"
  shows "unbroken T P w (n + 1 + length (actions_of acts)) s' \<or> long_enough T (n + 1 + length (actions_of acts))"
proof (cases "long_enough T n")
  case True
  with long_enough_mono show ?thesis by auto
next
  case False
  let ?h = "assumed_break E s" and ?s0 = "assume_progress E s"
  let ?n = "if ?h then Suc n else n"
  have start: "unbroken T P w ?n ?s0" using assume_unbroken[OF assms(1,2)] assms(3) False by blast
  obtain s1 where s1: "s1 = (case acts of None \<Rightarrow> ?s0 | Some as \<Rightarrow> snd (handle_actions E as ?s0))"
    "s' = (if ?h then s1 else assume_progress E s1)"
    using assms(5) by (auto simp: handle_block_actions_def Let_def split: prod.splits option.splits)
  have mid: "unbroken T P w (?n + length (actions_of acts)) s1 \<or> long_enough T (?n + length (actions_of acts))"
  proof (cases acts)
    case None
    with start s1 show ?thesis by (simp add: actions_of_def)
  next
    case (Some as)
    with actions_unbroken[OF assms(1,2), of ?n ?s0 as "fst (handle_actions E as ?s0)" s1] start assms(4) s1 show ?thesis
      by (simp add: actions_of_def)
  qed
  show ?thesis
  proof (cases "?h \<or> \<not> unbroken T P w (?n + length (actions_of acts)) s1")
    case True
    with mid s1 show ?thesis
      by (auto split: if_splits intro: long_enough_mono)
  next
    case False
    with assume_unbroken[OF assms(1,2), of "n + length (actions_of acts)" s1] s1
      unbroken_mono[OF assms(1), of P w "n + length (actions_of acts)"] show ?thesis by (auto split: if_splits)
  qed
qed

fun run_inputs :: "((real, 'b, 'i) break_env \<times> block_action_pk list option) list \<Rightarrow> (real, 'b) breaker \<Rightarrow> (real, 'b) breaker" where
  "run_inputs [] s = s"
| "run_inputs ((E, acts) # ins) s = run_inputs ins (snd (handle_block_actions E acts s))"

definition named_positions :: "('e \<times> block_action_pk list option) list \<Rightarrow> bpos set" where
  "named_positions ins = (\<Union>(E, acts) \<in> set ins. ba_pos ` set (actions_of acts))"

definition break_steps :: "('e \<times> block_action_pk list option) list \<Rightarrow> nat" where
  "break_steps ins = (\<Sum>(E, acts) \<leftarrow> ins. 1 + length (actions_of acts))"

lemma run_unbroken:
  assumes "0 < T"
  shows "\<forall>(E, acts) \<in> set ins. slow T P w E \<Longrightarrow> named_positions ins \<subseteq> P \<Longrightarrow> unbroken T P w n s \<or> long_enough T n \<Longrightarrow>
    unbroken T P w (n + break_steps ins) (run_inputs ins s) \<or> long_enough T (n + break_steps ins)"
proof (induction ins arbitrary: n s)
  case (Cons i ins)
  obtain E acts where i: "i = (E, acts)" by fastforce
  obtain kept s1 where one: "handle_block_actions E acts s = (kept, s1)" by fastforce
  have "unbroken T P w (n + 1 + length (actions_of acts)) s1 \<or> long_enough T (n + 1 + length (actions_of acts))"
    using input_unbroken[OF assms _ Cons.prems(3) _ one] Cons.prems(1,2) by (auto simp: i named_positions_def)
  from Cons.IH[OF _ _ this] Cons.prems(1,2) one show ?case
    by (simp add: i named_positions_def break_steps_def add.assoc)
qed (simp add: break_steps_def)

text \<open>C14: in exact numbers, from a player who is not breaking anything, the first block goes only after as many inputs
  and actions together as the shortest breaking time of the named positions, whatever their order.\<close>
theorem breaking_takes_time:
  assumes "0 < T" "\<forall>(E, acts) \<in> set ins. be_flt E = real_flt \<and> (\<forall>p \<in> named_positions ins. T \<le> expected_block_break_time E (br_world s) p)"
    and "br_pos s = None" "br_progress s \<le> 0" "br_world (run_inputs ins s) \<noteq> br_world s"
  shows "0.999 * T < break_steps ins"
proof -
  have "unbroken T (named_positions ins) (br_world s) 0 s" using assms(3,4) by (simp add: unbroken_def)
  moreover have "\<forall>(E, acts) \<in> set ins. slow T (named_positions ins) (br_world s) E" using assms(2) by (auto simp: slow_def)
  ultimately have "unbroken T (named_positions ins) (br_world s) (break_steps ins) (run_inputs ins s) \<or> long_enough T (break_steps ins)"
    using run_unbroken[OF assms(1), of ins "named_positions ins" "br_world s" 0 s] by simp
  with assms(5) show ?thesis by (simp add: unbroken_def long_enough_def)
qed

definition stone_env :: "(real, int, unit) break_env" where
  "stone_env = \<lparr>be_flt = real_flt, be_box = real_boxes, be_blocks = stone_blocks, be_air = 0, be_is_wool = \<lambda>_. False,
     be_break_ms = \<lambda>_ _ _ _ _. 100, be_side = \<lambda>(x, y, z) _. (x, y + 1, z), be_mode = Survival, be_version = 900, be_held = (),
     be_haste = None, be_conduit = None, be_fatigue = None, be_player_pos = (0, 62.5, 0), be_touch = True,
     be_full_auth = True, be_client_tick = 0\<rparr>"

abbreviation near_block :: bpos where "near_block \<equiv> (3, 64, 0)"
abbreviation far_block :: bpos where "far_block \<equiv> (9, 64, 0)"
abbreviation empty_block :: bpos where "empty_block \<equiv> (1, 64, 0)"

definition two_stones :: "bpos \<Rightarrow> int" where
  "two_stones p = (if p = near_block \<or> p = far_block then 1 else 0)"

definition idle_breaker :: "(real, int) breaker" where
  "idle_breaker = \<lparr>br_pos = None, br_progress = 0, br_in_progress = False, br_start = 0, br_world = two_stones, br_events = []\<rparr>"

abbreviation act :: "block_action \<Rightarrow> bpos \<Rightarrow> block_action_pk" where
  "act k p \<equiv> \<lparr>ba_kind = k, ba_pos = p, ba_face = 1\<rparr>"

lemma stone_env_fields [simp]:
  "be_flt stone_env = real_flt" "be_mode stone_env = Survival" "be_touch stone_env" "be_full_auth stone_env"
  "be_air stone_env = 0" "be_client_tick stone_env = 0" "eye_block stone_env = (0, 64, 0)"
proof -
  have "\<lfloor>62.5 + 1.62 :: real\<rfloor> = 64" by (simp add: floor_eq_iff)
  then show "eye_block stone_env = (0, 64, 0)"
    by (simp add: stone_env_def eye_block_def real_boxes_def add3_def vx_def vy_def vz_def)
qed (simp_all add: stone_env_def)

lemma stone_names_here: "block_name stone_blocks 1 = ''minecraft:stone''"
  by (simp add: block_name_def initialize_block_name_mapping_def stone_blocks_def)

lemma stone_time [simp]:
  "src p = 0 \<Longrightarrow> expected_block_break_time stone_env src p = 0"
  "src p = 1 \<Longrightarrow> expected_block_break_time stone_env src p = 2"
  by (simp_all add: expected_block_break_time_def Let_def survival_like_def)
    (simp_all add: stone_env_def stone_names_here unknown_block_def, simp_all add: stone_blocks_def)

lemma eye_level [simp]: "block_interactable stone_env src (x, 64, z) face"
  by (simp add: block_interactable_def)

lemmas break_steps_simps = handle_block_action_def try_break_block_def finish_break_def set_air_def add_progress_def
  no_progress_def reset_break_def br_emit_def swing_unless_touch_def Let_def

text \<open>The block in reach goes after one start and one stop, which with the two inputs are four steps for a time of two.\<close>
theorem breaking_takes_time_witness:
  "br_world (run_inputs [(stone_env, Some [act StartBreak near_block]), (stone_env, Some [act StopBreak near_block])] idle_breaker)
     near_block = 0 \<and> 0.999 * 2 < (4 :: real)"
proof -
  let ?ins = "[(stone_env, Some [act StartBreak near_block]), (stone_env, Some [act StopBreak near_block])]"
  have named: "named_positions ?ins = {near_block}" by (simp add: named_positions_def actions_of_def)
  have world: "br_world idle_breaker near_block = 1" by (simp add: idle_breaker_def two_stones_def)
  have gone: "br_world (run_inputs ?ins idle_breaker) near_block = 0"
    by (simp add: handle_block_actions_def assumed_break_def assume_progress_def break_steps_simps idle_breaker_def two_stones_def)
  then have changed: "br_world (run_inputs ?ins idle_breaker) \<noteq> br_world idle_breaker" using world by force
  have "0.999 * 2 < real (break_steps ?ins)"
    by (rule breaking_takes_time[OF _ _ _ _ changed]) (use world in \<open>simp_all add: named idle_breaker_def\<close>)
  then show ?thesis using gone by (simp add: break_steps_def actions_of_def)
qed

section \<open>Which blocks go\<close>

definition touched :: "block_action_pk list \<Rightarrow> ('f, 'b) breaker \<Rightarrow> bpos set" where
  "touched as s = ba_pos ` set as \<union> set_option (br_pos s)"

lemma try_break_world: "try_break_block E face s = (ok, s') \<Longrightarrow> br_world s' = br_world s \<and> br_pos s' = br_pos s"
  by (auto simp: try_break_block_def Let_def split: option.splits if_splits)

lemma action_world:
  assumes "handle_block_action E a s = (keep, s')"
  shows "(\<forall>p. br_world s' p \<noteq> br_world s p \<longrightarrow> br_world s' p = be_air E \<and> p \<in> touched [a] s \<and> ba_kind a \<in> {PredictDestroy, StopBreak})
    \<and> set_option (br_pos s') \<subseteq> touched [a] s"
proof -
  have step: "br_world (finish_break E p s1) = (br_world s1)(p := be_air E)" "br_pos (finish_break E p s1) = br_pos s1" for p s1
    by (simp_all add: finish_break_def set_air_def)
  obtain ok s1 where t: "try_break_block E (ba_face a) s = (ok, s1)" by fastforce
  show ?thesis using assms try_break_world[OF t]
    by (cases "ba_kind a") (auto simp: handle_block_action_def Let_def step touched_def t split: if_splits option.splits)
qed

lemma actions_world:
  "handle_actions E as s = (kept, s') \<Longrightarrow>
    (\<forall>p. br_world s' p \<noteq> br_world s p \<longrightarrow> br_world s' p = be_air E \<and> p \<in> touched as s) \<and> set_option (br_pos s') \<subseteq> touched as s"
proof (induction as arbitrary: s kept)
  case (Cons a as)
  obtain k s1 where one: "handle_block_action E a s = (k, s1)" by fastforce
  obtain kept' where rest: "handle_actions E as s1 = (kept', s')"
    using Cons.prems one by (cases "handle_actions E as s1") simp
  note a = action_world[OF one] and ih = Cons.IH[OF rest]
  have sub: "touched [a] s \<subseteq> touched (a # as) s" "touched as s1 \<subseteq> touched (a # as) s"
    using a by (auto simp: touched_def)
  show ?case
  proof (intro conjI allI impI)
    fix p assume p: "br_world s' p \<noteq> br_world s p"
    show "br_world s' p = be_air E" "p \<in> touched (a # as) s"
      using p a ih sub by (metis subsetD)+
  qed (use ih sub in blast)
qed (simp add: touched_def)

text \<open>Handling the actions of an input changes blocks only to air, and only at a position that one of the actions
  names or that was being broken.\<close>
theorem only_named_blocks_go:
  assumes "handle_block_actions E (Some as) s = (kept, s')" "br_world s' p \<noteq> br_world s p"
  shows "br_world s' p = be_air E \<and> (p \<in> ba_pos ` set as \<or> br_pos s = Some p)"
proof -
  have keep: "br_world (assume_progress E s) = br_world s" "br_pos (assume_progress E s) = br_pos s" for s :: "('a, 'b) breaker"
    by (simp_all add: assume_progress_def split: option.splits)
  obtain k s1 where as: "handle_actions E as (assume_progress E s) = (k, s1)" by fastforce
  then have "br_world s' = br_world s1"
    using assms(1) by (auto simp: handle_block_actions_def Let_def keep split: if_splits)
  with assms(2) have "br_world s1 p \<noteq> br_world (assume_progress E s) p" by (simp add: keep)
  then have "br_world s1 p = be_air E \<and> p \<in> touched as (assume_progress E s)" using actions_world[OF as] by blast
  with \<open>br_world s' = br_world s1\<close> show ?thesis by (auto simp: touched_def keep elem_set)
qed

theorem only_named_blocks_go_witness:
  "br_world (snd (handle_block_actions stone_env (Some [act StartBreak near_block, act StopBreak near_block, act StopBreak near_block]) idle_breaker)) near_block = 0"
proof -
  let ?as = "[act StartBreak near_block, act StopBreak near_block, act StopBreak near_block]"
  obtain k s where h: "handle_block_actions stone_env (Some ?as) idle_breaker = (k, s)" by fastforce
  have "br_world s near_block \<noteq> br_world idle_breaker near_block"
    using h by (auto simp: handle_block_actions_def assumed_break_def assume_progress_def break_steps_simps idle_breaker_def two_stones_def)
  from only_named_blocks_go[OF h this] h show ?thesis by simp
qed

section \<open>What does not hold\<close>

text \<open>A predicted break is checked for the block that is being broken but removes the block that its action names; with an
  empty position being broken, which takes no time, any block goes at once, and the action goes on to the server.\<close>
lemma predicted_break_of_another_block:
  "case handle_block_actions stone_env (Some [act StartBreak empty_block, act PredictDestroy far_block]) idle_breaker of
     (kept, s) \<Rightarrow> kept = Some [act StartBreak empty_block, act PredictDestroy far_block] \<and> br_world s far_block = 0"
  by (simp add: handle_block_actions_def assumed_break_def assume_progress_def break_steps_simps idle_breaker_def two_stones_def)

text \<open>Every continued break of one input counts as a tick of breaking.\<close>
lemma repeated_actions_break_at_once:
  "br_world (snd (handle_block_actions stone_env
     (Some [act ContinueDestroy near_block, act ContinueDestroy near_block, act StopBreak near_block]) idle_breaker)) near_block = 0"
  by (simp add: handle_block_actions_def assumed_break_def assume_progress_def break_steps_simps idle_breaker_def two_stones_def)

end
