(* ===== verification/Interaction.thy ===== *)
theory Interaction
  imports Blocks
begin

text \<open>
  What an item does to the blocks it is used on: \<^verbatim>\<open>src/utils/interaction.go\<close>.  The blocks of the
  block library are values of a type \<^verbatim>\<open>'b\<close>; their Go type (by its name), the assignment of their fields and what the library says of them is a record of functions, as is
  the geometry of faces and directions.  \<^verbatim>\<open>UseOnBlock\<close> only decides: the result is the list of its calls
  of \<^verbatim>\<open>PlaceBlock\<close>, in order, as no block is read after the first of them.
\<close>

section \<open>What the libraries provide\<close>

datatype face = FaceDown | FaceUp | FaceNorth | FaceSouth | FaceWest | FaceEast
datatype direction = North | South | West | East
datatype axis = AxisY | AxisZ | AxisX

text \<open>The sides of a position, opposites and turns, and which positions lie outside of the overworld.\<close>
record geometry =
  g_side :: "bpos \<Rightarrow> face \<Rightarrow> bpos"
  g_opposite :: "face \<Rightarrow> face"
  g_axis :: "face \<Rightarrow> axis"
  g_direction :: "face \<Rightarrow> direction"
  g_face :: "direction \<Rightarrow> face"
  g_dir_opposite :: "direction \<Rightarrow> direction"
  g_left :: "direction \<Rightarrow> direction"
  g_right :: "direction \<Rightarrow> direction"
  g_orientation_opposite :: "int \<Rightarrow> int"
  g_horizontal :: "face list"
  g_out_of_bounds :: "bpos \<Rightarrow> bool"
  g_bottom :: int

text \<open>The fields of blocks that are assigned, and those that are copied from another block of the type.\<close>
datatype 'b field =
    SetFacing direction | SetFace face | SetAxis axis | SetStanding int | SetWall direction
  | SetTop bool | SetRight bool | SetOpen bool | SetDouble bool | SetUpsideDown bool | SetLowered bool
  | SetUpperPart bool | SetPersistent bool | SetHanging bool | SetDead bool
  | SetCount int | SetBites int | SetHangingGrindstone | SetWallGrindstone | SetDropChance
  | Attached direction | TypeOf 'b | OxidationOf 'b | WaxedOf 'b

record 'b use_lib =
  ul_kind :: "'b \<Rightarrow> string"
  ul_set :: "'b field \<Rightarrow> 'b \<Rightarrow> 'b"
  ul_make :: "string \<Rightarrow> 'b field list \<Rightarrow> 'b"
  ul_new :: "string \<Rightarrow> 'b"
  ul_new_facing :: "string \<Rightarrow> direction \<Rightarrow> 'b"
  ul_replaceable :: "'b \<Rightarrow> bool"
  ul_replaceable_by :: "'b \<Rightarrow> 'b \<Rightarrow> bool"
  ul_activatable :: "'b \<Rightarrow> bool"
  ul_liquid_depth :: "'b \<Rightarrow> int option"
  ul_liquid_type :: "'b \<Rightarrow> string"
  ul_soil_for :: "'b \<Rightarrow> 'b \<Rightarrow> bool option"
  ul_face_solid :: "'b \<Rightarrow> bpos \<Rightarrow> face \<Rightarrow> (bpos \<Rightarrow> 'b) \<Rightarrow> bool"
  ul_diffusion :: "'b \<Rightarrow> int option"
  ul_door_model :: "'b \<Rightarrow> bool"
  ul_empty_model :: "'b \<Rightarrow> bool"
  ul_solid_model :: "'b \<Rightarrow> bool"
  ul_jungle_wood :: "'b \<Rightarrow> bool"
  ul_normal_deepslate :: "'b \<Rightarrow> bool"
  ul_item_id :: "'b \<Rightarrow> string \<times> int"
  ul_double :: "'b \<Rightarrow> bool"
  ul_top :: "'b \<Rightarrow> bool"
  ul_open :: "'b \<Rightarrow> bool"
  ul_count :: "'b \<Rightarrow> int"
  ul_bites :: "'b \<Rightarrow> int"
  ul_level :: "'b \<Rightarrow> int"
  ul_facing_face :: "'b \<Rightarrow> face"

text \<open>
  The placer: its position (in double precision, \<^verbatim>\<open>'d\<close>) and the block it lies in, its rotation; the height
  of its eyes if it has the method, which a player has not.
\<close>
record ('d, 'b) use_env =
  u_num :: "'d flt"
  u_geo :: geometry
  u_lib :: "'b use_lib"
  u_pos_y :: 'd
  u_block_pos :: bpos
  u_eye_height :: "'d option"
  u_direction :: direction
  u_orientation :: int

text \<open>The options of a use: where, on which face, and the height of the point within the block.\<close>
record 'd use_opts =
  uo_replace :: bpos
  uo_face :: face
  uo_click_y :: 'd

type_synonym 'b calls = "(bpos \<times> face \<times> 'b) list"

abbreviation u_side :: "('d, 'b) use_env \<Rightarrow> bpos \<Rightarrow> face \<Rightarrow> bpos" where "u_side E \<equiv> g_side (u_geo E)"
abbreviation u_kind :: "('d, 'b) use_env \<Rightarrow> 'b \<Rightarrow> string" where "u_kind E \<equiv> ul_kind (u_lib E)"
abbreviation u_set :: "('d, 'b) use_env \<Rightarrow> 'b field \<Rightarrow> 'b \<Rightarrow> 'b" where "u_set E \<equiv> ul_set (u_lib E)"
abbreviation u_back :: "('d, 'b) use_env \<Rightarrow> direction" where "u_back E \<equiv> g_dir_opposite (u_geo E) (u_direction E)"

section \<open>Where a block can go\<close>

definition replaceable_with :: "('d, 'b) use_env \<Rightarrow> (bpos \<Rightarrow> 'b) \<Rightarrow> bpos \<Rightarrow> 'b \<Rightarrow> bool" where
  "replaceable_with E src p w =
    (if g_out_of_bounds (u_geo E) p then False
     else let L = u_lib E; b = src p
          in if ul_replaceable L b
             then if \<not> ul_replaceable_by L b w \<or> b = w then False
                  else (case ul_liquid_depth L b of Some _ \<Rightarrow> ul_replaceable L b \<and> ul_replaceable_by L b w | None \<Rightarrow> True)
             else False)"

definition first_replaceable :: "('d, 'b) use_env \<Rightarrow> (bpos \<Rightarrow> 'b) \<Rightarrow> bpos \<Rightarrow> face \<Rightarrow> 'b \<Rightarrow> bpos \<times> face \<times> bool" where
  "first_replaceable E src p f w =
    (if replaceable_with E src p w then (p, FaceUp, True)
     else let side = u_side E p f
          in if replaceable_with E src side w then (side, f, True) else (p, f, False))"

definition supports_vegetation :: "('d, 'b) use_env \<Rightarrow> 'b \<Rightarrow> 'b \<Rightarrow> bool" where
  "supports_vegetation E vegetation b = (case ul_soil_for (u_lib E) b vegetation of None \<Rightarrow> False | Some ok \<Rightarrow> ok)"

definition face_solid_at :: "('d, 'b) use_env \<Rightarrow> (bpos \<Rightarrow> 'b) \<Rightarrow> bpos \<Rightarrow> face \<Rightarrow> bool" where
  "face_solid_at E src p f = ul_face_solid (u_lib E) (src p) p f src"

definition is_water_at :: "('d, 'b) use_env \<Rightarrow> (bpos \<Rightarrow> 'b) \<Rightarrow> bpos \<Rightarrow> bool" where
  "is_water_at E src p \<longleftrightarrow> ul_liquid_depth (u_lib E) (src p) \<noteq> None \<and> u_kind E (src p) = ''Water''"

text \<open>The recursion goes down a stack of canes; \<^verbatim>\<open>n\<close> bounds its depth.\<close>
fun can_sugar_cane_grow_on :: "('d, 'b) use_env \<Rightarrow> (bpos \<Rightarrow> 'b) \<Rightarrow> nat \<Rightarrow> bpos \<Rightarrow> bool \<Rightarrow> bool option" where
  "can_sugar_cane_grow_on E src 0 p recursive = None"
| "can_sugar_cane_grow_on E src (Suc n) p recursive =
    (if u_kind E (src (u_side E p FaceDown)) = ''SugarCane'' \<and> recursive
     then can_sugar_cane_grow_on E src n (u_side E p FaceDown) recursive
     else Some (supports_vegetation E (ul_make (u_lib E) ''SugarCane'' []) (src (fst p, fst (snd p) - 1, snd (snd p)))
       \<and> list_ex (\<lambda>f. is_water_at E src (u_side E (u_side E p f) FaceDown)) (g_horizontal (u_geo E))))"

definition sea_pickle_can_survive :: "('d, 'b) use_env \<Rightarrow> (bpos \<Rightarrow> 'b) \<Rightarrow> bpos \<Rightarrow> bool" where
  "sea_pickle_can_survive E src p =
    (let L = u_lib E; below = src (u_side E p FaceDown)
     in if \<not> face_solid_at E src (u_side E p FaceDown) FaceUp then False
        else if (case ul_liquid_depth L (src p) of None \<Rightarrow> False | Some d \<Rightarrow> u_kind E (src p) \<noteq> ''Water'' \<or> d < 8) then False
        else case ul_diffusion L below of None \<Rightarrow> True | Some n \<Rightarrow> n = 15)"

fun can_cactus_grow_on :: "('d, 'b) use_env \<Rightarrow> (bpos \<Rightarrow> 'b) \<Rightarrow> nat \<Rightarrow> bpos \<Rightarrow> bool \<Rightarrow> bool option" where
  "can_cactus_grow_on E src 0 p recursive = None"
| "can_cactus_grow_on E src (Suc n) p recursive =
    (if \<not> list_all (\<lambda>f. u_kind E (src (u_side E p f)) = ''Air'') (g_horizontal (u_geo E)) then Some False
     else if u_kind E (src (u_side E p FaceDown)) = ''Cactus'' \<and> recursive
     then can_cactus_grow_on E src n (u_side E p FaceDown) recursive
     else Some (supports_vegetation E (ul_make (u_lib E) ''Cactus'' []) (src (u_side E p FaceDown))))"

text \<open>Enough for the blocks between the position and the bottom of the world.\<close>
definition growth_depth :: "('d, 'b) use_env \<Rightarrow> bpos \<Rightarrow> nat" where
  "growth_depth E p = nat (fst (snd p) - g_bottom (u_geo E)) + 1"

definition abs_go :: "int \<Rightarrow> int" where "abs_go x = (if 0 < x then x else - x)"

definition calculate_face :: "('d, 'b) use_env \<Rightarrow> bpos \<Rightarrow> face" where
  "calculate_face E p =
    (let F = u_num E; (x, _, z) = u_block_pos E; (px, py, pz) = p;
         y = (case u_eye_height E of Some h \<Rightarrow> fl_add F (u_pos_y E) h | None \<Rightarrow> u_pos_y E);
         level = g_face (u_geo E) (u_back E)
     in if abs_go (x - px) < 2 \<and> abs_go (z - pz) < 2
        then if fl_less F (fl_lit F 2) (fl_sub F y (fl_of_int F py)) then FaceUp
             else if fl_less F (fl_lit F 0) (fl_sub F (fl_of_int F py) y) then FaceDown
             else level
        else level)"

section \<open>Using an item on a block\<close>

text \<open>Most cases look for the position that can be replaced, and do nothing when there is none.\<close>
definition with_space :: "('d, 'b) use_env \<Rightarrow> (bpos \<Rightarrow> 'b) \<Rightarrow> 'd use_opts \<Rightarrow> 'b \<Rightarrow> (bpos \<Rightarrow> face \<Rightarrow> 'b calls) \<Rightarrow> 'b calls" where
  "with_space E src opts b k = (case first_replaceable E src (uo_replace opts) (uo_face opts) b of
     (p, f, used) \<Rightarrow> if used then k p f else [])"

definition below :: "('d, 'b) use_env \<Rightarrow> (bpos \<Rightarrow> 'b) \<Rightarrow> bpos \<Rightarrow> 'b" where
  "below E src p = src (u_side E p FaceDown)"

definition along_face :: "('d, 'b) use_env \<Rightarrow> (bpos \<Rightarrow> 'b) \<Rightarrow> 'd use_opts \<Rightarrow> 'b \<Rightarrow> 'b calls" where
  "along_face E src opts b = with_space E src opts b (\<lambda>p f. [(p, f, u_set E (SetAxis (g_axis (u_geo E) f)) b)])"

definition on_kind :: "('d, 'b) use_env \<Rightarrow> (bpos \<Rightarrow> 'b) \<Rightarrow> string \<Rightarrow> 'd use_opts \<Rightarrow> 'b \<Rightarrow> 'b calls" where
  "on_kind E src k opts b = with_space E src opts b (\<lambda>p _.
     if u_kind E (below E src p) = k then [(p, uo_face opts, b)] else [])"

definition not_on_kind :: "('d, 'b) use_env \<Rightarrow> (bpos \<Rightarrow> 'b) \<Rightarrow> string \<Rightarrow> 'd use_opts \<Rightarrow> 'b \<Rightarrow> 'b \<Rightarrow> 'b calls" where
  "not_on_kind E src k opts b b' = with_space E src opts b (\<lambda>p _.
     if u_kind E (below E src p) = k then [] else [(p, uo_face opts, b')])"

definition anywhere :: "('d, 'b) use_env \<Rightarrow> (bpos \<Rightarrow> 'b) \<Rightarrow> 'd use_opts \<Rightarrow> 'b \<Rightarrow> 'b \<Rightarrow> 'b calls" where
  "anywhere E src opts b b' = with_space E src opts b (\<lambda>p _. [(p, uo_face opts, b')])"

definition on_soil :: "('d, 'b) use_env \<Rightarrow> (bpos \<Rightarrow> 'b) \<Rightarrow> 'd use_opts \<Rightarrow> 'b \<Rightarrow> 'b calls" where
  "on_soil E src opts b = with_space E src opts b (\<lambda>p _.
     if supports_vegetation E b (below E src p) then [(p, uo_face opts, b)] else [])"

text \<open>Banners, signs and heads: standing on the floor or on a wall.\<close>
definition standing_or_wall :: "('d, 'b) use_env \<Rightarrow> (bpos \<Rightarrow> 'b) \<Rightarrow> 'd use_opts \<Rightarrow> 'b \<Rightarrow> 'b calls" where
  "standing_or_wall E src opts b = with_space E src opts b (\<lambda>p f.
     if f = FaceDown then []
     else if f = FaceUp then [(p, f, u_set E (SetStanding (g_orientation_opposite (u_geo E) (u_orientation E))) b)]
     else [(p, f, u_set E (SetWall (g_direction (u_geo E) f)) b)])"

text \<open>Trapdoors and stairs are turned over in the upper half of a block.\<close>
definition upper_half :: "('d, 'b) use_env \<Rightarrow> 'd use_opts \<Rightarrow> face \<Rightarrow> bool" where
  "upper_half E opts f \<longleftrightarrow> (fl_less (u_num E) (fl_lit (u_num E) 0.5) (uo_click_y opts) \<and> f \<noteq> FaceUp) \<or> f = FaceDown"

definition use_trapdoor :: "('d, 'b) use_env \<Rightarrow> (bpos \<Rightarrow> 'b) \<Rightarrow> 'd use_opts \<Rightarrow> 'b \<Rightarrow> 'b calls" where
  "use_trapdoor E src opts b = with_space E src opts b (\<lambda>p f.
     [(p, f, u_set E (SetTop (upper_half E opts f)) (u_set E (SetFacing (u_back E)) b))])"

text \<open>Doors: on which side the hinge is depends on the blocks to the left and to the right; that of the item itself is
  on the left.\<close>
definition hinge_right :: "('d, 'b) use_env \<Rightarrow> 'b \<Rightarrow> 'b \<Rightarrow> bool" where
  "hinge_right E left right \<longleftrightarrow>
     ul_door_model (u_lib E) left
     \<or> (case ul_diffusion (u_lib E) right of None \<Rightarrow> True | Some n \<Rightarrow> n \<noteq> 0)
       \<and> (case ul_diffusion (u_lib E) left of None \<Rightarrow> False | Some n \<Rightarrow> n = 0)"

definition use_door :: "('d, 'b) use_env \<Rightarrow> (bpos \<Rightarrow> 'b) \<Rightarrow> ('b field list \<Rightarrow> 'b) \<Rightarrow> 'd use_opts \<Rightarrow> 'b \<Rightarrow> 'b calls" where
  "use_door E src upper opts b =
    (let G = u_geo E; ground = uo_replace opts; p = u_side E ground FaceUp; up = u_side E p FaceUp; d = u_direction E;
         right = hinge_right E (src (u_side E p (g_face G (g_left G d)))) (src (u_side E p (g_face G (g_right G d))))
     in if uo_face opts \<noteq> FaceUp then []
        else if \<not> replaceable_with E src p b \<or> \<not> replaceable_with E src up b then []
        else if \<not> face_solid_at E src ground FaceUp then []
        else [(p, uo_face opts, (if right then u_set E (SetRight True) else (\<lambda>b. b)) (u_set E (SetFacing d) b)),
              (up, FaceUp, upper [SetFacing d, SetTop True, SetRight right])])"

text \<open>Flowers and grass of two blocks.\<close>
definition use_double_plant :: "('d, 'b) use_env \<Rightarrow> (bpos \<Rightarrow> 'b) \<Rightarrow> 'd use_opts \<Rightarrow> 'b \<Rightarrow> 'b calls" where
  "use_double_plant E src opts b = with_space E src opts b (\<lambda>p _.
     if \<not> replaceable_with E src (u_side E p FaceUp) b \<or> \<not> supports_vegetation E b (below E src p) then []
     else [(p, uo_face opts, b),
           (u_side E p FaceUp, FaceUp, ul_make (u_lib E) (u_kind E b) [TypeOf b, SetUpperPart True])])"

text \<open>The switch of \<^verbatim>\<open>UseOnBlock\<close>, in the order of the source; a part has no case for other blocks.\<close>
definition use_a :: "('d, 'b) use_env \<Rightarrow> (bpos \<Rightarrow> 'b) \<Rightarrow> 'd use_opts \<Rightarrow> 'b \<Rightarrow> 'b calls option" where
  "use_a E src opts b =
    (let k = u_kind E b; G = u_geo E; L = u_lib E; f0 = uo_face opts
     in if k = ''Anvil'' then Some (anywhere E src opts b (u_set E (SetFacing (g_left G (u_direction E))) b))
        else if k = ''Banner'' then Some (standing_or_wall E src opts b)
        else if k = ''Barrel'' then Some (with_space E src opts b (\<lambda>p _.
               [(p, f0, u_set E (SetFace (calculate_face E p)) (ul_new L ''Barrel''))]))
        else if k = ''Basalt'' then Some (along_face E src opts b)
        else if k = ''BeetrootSeeds'' then Some (on_kind E src ''Farmland'' opts b)
        else if k = ''BlastFurnace'' then Some (anywhere E src opts b (ul_new_facing L ''BlastFurnace'' (u_back E)))
        else if k = ''Bone'' then Some (along_face E src opts b)
        else if k = ''BrewingStand'' then Some (anywhere E src opts b (ul_new L ''BrewingStand''))
        else if k = ''Cactus'' then Some (with_space E src opts b (\<lambda>p _.
               if can_cactus_grow_on E src (growth_depth E p) p True = Some True then [(p, f0, b)] else []))
        else if k = ''Cake'' then Some (not_on_kind E src ''Air'' opts b b)
        else if k = ''Campfire'' then Some (not_on_kind E src ''Campfire'' opts b (u_set E (SetFacing (u_back E)) b))
        else if k = ''Carpet'' then Some (not_on_kind E src ''Air'' opts b b)
        else None)"

definition use_b :: "('d, 'b) use_env \<Rightarrow> (bpos \<Rightarrow> 'b) \<Rightarrow> 'd use_opts \<Rightarrow> 'b \<Rightarrow> 'b calls option" where
  "use_b E src opts b =
    (let k = u_kind E b; G = u_geo E; L = u_lib E; f0 = uo_face opts
     in if k = ''Carrot'' then Some (on_kind E src ''Farmland'' opts b)
        else if k = ''IronChain'' then Some (along_face E src opts b)
        else if k = ''Chest'' then Some (anywhere E src opts b (u_set E (SetFacing (u_back E)) (ul_new L ''Chest'')))
        else if k = ''CocoaBean'' then Some (with_space E src opts b (\<lambda>p _.
               if f0 = FaceUp \<or> f0 = FaceDown then []
               else let other = src (u_side E p (g_opposite G f0))
                    in if (u_kind E other = ''Log'' \<or> u_kind E other = ''Wood'') \<and> ul_jungle_wood L other
                       then [(p, f0, u_set E (SetFacing (g_direction G (g_opposite G f0))) b)] else []))
        else if k = ''CopperDoor''
        then Some (use_door E src (\<lambda>fs. ul_make L ''CopperDoor'' (OxidationOf b # WaxedOf b # fs)) opts b)
        else if k = ''CopperTrapdoor'' then Some (use_trapdoor E src opts b)
        else if k = ''Coral'' then Some (with_space E src opts b (\<lambda>p _.
               if \<not> face_solid_at E src (u_side E p FaceDown) FaceUp then []
               else if is_water_at E src p \<and> ul_liquid_depth L (src p) \<noteq> Some 8 then []
               else [(p, f0, b)]))
        else if k = ''DeadBush'' then Some (anywhere E src opts b b)
        else if k = ''DecoratedPot'' then Some (anywhere E src opts b (u_set E (SetFacing (u_back E)) b))
        else if k = ''Deepslate'' then Some (with_space E src opts b (\<lambda>p f.
               [(p, f, if ul_normal_deepslate L b then u_set E (SetAxis (g_axis G f)) b else b)]))
        else None)"

definition use_c :: "('d, 'b) use_env \<Rightarrow> (bpos \<Rightarrow> 'b) \<Rightarrow> 'd use_opts \<Rightarrow> 'b \<Rightarrow> 'b calls option" where
  "use_c E src opts b =
    (let k = u_kind E b; G = u_geo E; L = u_lib E; f0 = uo_face opts
     in if k = ''DoubleFlower'' then Some (use_double_plant E src opts b)
        else if k = ''DoubleTallGrass'' then Some (use_double_plant E src opts b)
        else if k = ''EndRod'' then Some (with_space E src opts b (\<lambda>p f.
               let other = src (u_side E p (g_opposite G f));
                   same = u_kind E other = ''EndRod'' \<and> f = ul_facing_face L other
               in [(p, f, u_set E (SetFace (if same then g_opposite G f else f)) b)]))
        else if k = ''EnderChest''
        then Some (anywhere E src opts b (u_set E (SetFacing (u_back E)) (ul_new L ''EnderChest'')))
        else if k = ''Fern'' then Some (on_soil E src opts b)
        else if k = ''Flower'' then Some (on_soil E src opts b)
        else if k = ''Froglight'' then Some (along_face E src opts b)
        else if k = ''Furnace'' then Some (anywhere E src opts b (ul_new_facing L ''Furnace'' (u_back E)))
        else if k = ''GlazedTerracotta'' then Some (anywhere E src opts b (u_set E (SetFacing (u_back E)) b))
        else if k = ''Grindstone'' then Some (with_space E src opts b (\<lambda>p f.
               let b = u_set E (SetFacing (u_back E)) b
               in [(p, f, if f = FaceDown then u_set E SetHangingGrindstone b
                          else if f \<noteq> FaceUp then u_set E (SetFacing (g_direction G f)) (u_set E SetWallGrindstone b)
                          else b)]))
        else if k = ''HayBale'' then Some (along_face E src opts b)
        else if k = ''Hopper'' then Some (anywhere E src opts b
               (u_set E (SetFace (if FaceDown \<noteq> f0 then g_opposite G f0 else FaceDown)) (ul_new L ''Hopper'')))
        else None)"

text \<open>The walls in the order in which a ladder and a torch try them.\<close>
definition wall_order :: "face list" where "wall_order = [FaceNorth, FaceSouth, FaceEast, FaceWest]"

definition ladder_face :: "('d, 'b) use_env \<Rightarrow> (bpos \<Rightarrow> 'b) \<Rightarrow> bpos \<Rightarrow> face \<Rightarrow> face option" where
  "ladder_face E src p f =
    (let L = u_lib E; G = u_geo E
     in if ul_diffusion L (src (u_side E p (g_opposite G f))) = None then Some f
        else map_option (g_opposite G) (List.find (\<lambda>i. ul_diffusion L (src (u_side E p i)) \<in> {None, Some 15}) wall_order))"

text \<open>The face that is asked for stays the clicked one while the walls are tried.\<close>
definition torch_face :: "('d, 'b) use_env \<Rightarrow> (bpos \<Rightarrow> 'b) \<Rightarrow> bpos \<Rightarrow> face \<Rightarrow> face option" where
  "torch_face E src p f =
    (let G = u_geo E
     in if face_solid_at E src (u_side E p (g_opposite G f)) f then Some f
        else map_option (g_opposite G) (List.find (\<lambda>i. face_solid_at E src (u_side E p i) f) wall_order))"

definition use_d :: "('d, 'b) use_env \<Rightarrow> (bpos \<Rightarrow> 'b) \<Rightarrow> 'd use_opts \<Rightarrow> 'b \<Rightarrow> 'b calls option" where
  "use_d E src opts b =
    (let k = u_kind E b; G = u_geo E; L = u_lib E; f0 = uo_face opts
     in if k = ''ItemFrame'' then Some (with_space E src opts b (\<lambda>p f.
               if ul_empty_model L (src (u_side E p (g_opposite G f))) then []
               else [(p, f, u_set E SetDropChance (u_set E (SetFace (g_opposite G f)) b))]))
        else if k = ''Kelp'' then Some (with_space E src opts b (\<lambda>p _.
               if u_kind E (below E src p) \<noteq> ''Kelp'' \<and> \<not> face_solid_at E src (u_side E p FaceDown) FaceUp then []
               else case ul_liquid_depth L (src p) of
                      None \<Rightarrow> []
                    | Some d \<Rightarrow> if u_kind E (src p) \<noteq> ''Water'' \<or> d < 8 then [] else [(p, f0, b)]))
        else if k = ''Ladder'' then Some (with_space E src opts b (\<lambda>p f.
               if f = FaceUp \<or> f = FaceDown then []
               else case ladder_face E src p f of
                      None \<Rightarrow> [] | Some f \<Rightarrow> [(p, f, u_set E (SetFacing (g_direction G f)) b)]))
        else if k = ''Lantern'' then Some (with_space E src opts b (\<lambda>p f.
               let up = u_side E p FaceUp;
                   f = (if f = FaceDown \<and> u_kind E (src up) \<noteq> ''IronChain'' \<and> \<not> face_solid_at E src up FaceDown
                        then FaceUp else f)
               in if f \<noteq> FaceDown \<and> \<not> face_solid_at E src (u_side E p FaceDown) FaceUp then []
                  else [(p, f, u_set E (SetHanging (f = FaceDown)) b)]))
        else if k = ''Leaves'' then Some (anywhere E src opts b (u_set E (SetPersistent True) b))
        else if k = ''Lectern'' then Some (anywhere E src opts b (u_set E (SetFacing (u_back E)) b))
        else if k = ''LilyPad'' then Some (with_space E src opts b (\<lambda>p _.
               case ul_liquid_depth L (below E src p) of
                 None \<Rightarrow> []
               | Some d \<Rightarrow> if ul_liquid_type L (below E src p) \<noteq> ''water'' \<or> d < 8 then [] else [(p, f0, b)]))
        else if k = ''LitPumpkin'' then Some (anywhere E src opts b (u_set E (SetFacing (u_back E)) b))
        else None)"

text \<open>Petals and pickles are added to those that are there already, up to four.\<close>
definition add_to_cluster :: "('d, 'b) use_env \<Rightarrow> (bpos \<Rightarrow> 'b) \<Rightarrow> 'd use_opts \<Rightarrow> 'b \<Rightarrow> 'b calls" where
  "add_to_cluster E src opts there =
    (if 3 \<le> ul_count (u_lib E) there then []
     else [(uo_replace opts, uo_face opts, u_set E (SetCount (ul_count (u_lib E) there + 1)) there)])"

definition use_e :: "('d, 'b) use_env \<Rightarrow> (bpos \<Rightarrow> 'b) \<Rightarrow> 'd use_opts \<Rightarrow> 'b \<Rightarrow> 'b calls option" where
  "use_e E src opts b =
    (let k = u_kind E b; f0 = uo_face opts
     in if k = ''Log'' then Some (along_face E src opts b)
        else if k = ''Loom'' then Some (anywhere E src opts b (u_set E (SetFacing (u_back E)) b))
        else if k = ''MelonSeeds'' then Some (on_kind E src ''Farmland'' opts b)
        else if k = ''MossCarpet'' then Some (not_on_kind E src ''Air'' opts b b)
        else if k = ''MuddyMangroveRoots'' then Some (along_face E src opts b)
        else if k = ''NetherSprouts'' then Some (on_soil E src opts b)
        else if k = ''NetherWart'' then Some (on_kind E src ''SoulSand'' opts b)
        else if k = ''PinkPetals'' then Some
              (if u_kind E (src (uo_replace opts)) = ''PinkPetals'' then add_to_cluster E src opts (src (uo_replace opts))
               else with_space E src opts b (\<lambda>p _.
                 if \<not> supports_vegetation E b (below E src p) then []
                 else [(p, f0, u_set E (SetFacing (u_back E)) b)]))
        else if k = ''Potato'' then Some (on_kind E src ''Farmland'' opts b)
        else if k = ''PumpkinSeeds'' then Some (on_kind E src ''Farmland'' opts b)
        else if k = ''Pumpkin'' then Some (anywhere E src opts b (u_set E (SetFacing (u_back E)) b))
        else if k = ''PurpurPillar'' then Some (along_face E src opts b)
        else if k = ''QuartzPillar'' then Some (along_face E src opts b)
        else None)"

text \<open>Slabs: the clicked one becomes double, else the one beside it, else a single one is placed.\<close>
definition same_slab :: "('d, 'b) use_env \<Rightarrow> 'b \<Rightarrow> 'b \<Rightarrow> bool" where
  "same_slab E there b \<longleftrightarrow> u_kind E there = ''Slab'' \<and> \<not> ul_double (u_lib E) b \<and> \<not> ul_double (u_lib E) there
     \<and> ul_item_id (u_lib E) there = ul_item_id (u_lib E) b"

definition use_slab :: "('d, 'b) use_env \<Rightarrow> (bpos \<Rightarrow> 'b) \<Rightarrow> 'd use_opts \<Rightarrow> 'b \<Rightarrow> 'b calls" where
  "use_slab E src opts b =
    (let L = u_lib E; r = uo_replace opts; f0 = uo_face opts; clicked = src r; beside = src (u_side E r f0)
     in if same_slab E clicked b \<and> (f0 = FaceUp \<and> \<not> ul_top L clicked \<or> f0 = FaceDown \<and> ul_top L clicked)
        then [(r, f0, u_set E (SetDouble True) clicked)]
        else if same_slab E beside b \<and> \<not> replaceable_with E src r b
        then [(u_side E r f0, f0, u_set E (SetDouble True) beside)]
        else with_space E src opts b (\<lambda>p f. [(p, f, if upper_half E opts f then u_set E (SetTop True) b else b)]))"

definition use_f :: "('d, 'b) use_env \<Rightarrow> (bpos \<Rightarrow> 'b) \<Rightarrow> 'd use_opts \<Rightarrow> 'b \<Rightarrow> 'b calls option" where
  "use_f E src opts b =
    (let k = u_kind E b; L = u_lib E; f0 = uo_face opts
     in if k = ''SeaPickle'' then Some
              (if u_kind E (src (uo_replace opts)) = ''SeaPickle'' then add_to_cluster E src opts (src (uo_replace opts))
               else with_space E src opts b (\<lambda>p _.
                 if \<not> sea_pickle_can_survive E src p then []
                 else [(p, f0, u_set E (SetDead (\<not> is_water_at E src p)) b)]))
        else if k = ''ShortGrass'' then Some (on_soil E src opts b)
        else if k = ''Sign'' then Some (standing_or_wall E src opts b)
        else if k = ''Skull'' then Some (standing_or_wall E src opts b)
        else if k = ''Slab'' then Some (use_slab E src opts b)
        else if k = ''Smoker'' then Some (anywhere E src opts b (ul_new_facing L ''Smoker'' (u_back E)))
        else if k = ''Sponge'' then Some (anywhere E src opts b b)
        else if k = ''SporeBlossom'' then Some (with_space E src opts b (\<lambda>p _.
               if face_solid_at E src (u_side E p FaceUp) FaceDown then [(p, f0, b)] else []))
        else if k = ''Stairs'' then Some (with_space E src opts b (\<lambda>p f.
               let b = u_set E (SetFacing (u_direction E)) b
               in [(p, f, if upper_half E opts f then u_set E (SetUpsideDown True) b else b)]))
        else if k = ''Stonecutter'' then Some (anywhere E src opts b (u_set E (SetFacing (u_back E)) b))
        else None)"

definition use_g :: "('d, 'b) use_env \<Rightarrow> (bpos \<Rightarrow> 'b) \<Rightarrow> 'd use_opts \<Rightarrow> 'b \<Rightarrow> 'b calls option" where
  "use_g E src opts b =
    (let k = u_kind E b; G = u_geo E; L = u_lib E; f0 = uo_face opts
     in if k = ''SugarCane'' then Some (with_space E src opts b (\<lambda>p _.
               if can_sugar_cane_grow_on E src (growth_depth E p) p True = Some True then [(p, f0, b)] else []))
        else if k = ''Torch'' then Some (with_space E src opts b (\<lambda>p f.
               if f = FaceDown then []
               else case torch_face E src p f of
                      None \<Rightarrow> [] | Some f \<Rightarrow> [(p, f, u_set E (SetFace (g_opposite G f)) b)]))
        else if k = ''Vines'' then Some
              (if \<not> ul_solid_model L (src (uo_replace opts)) \<or> g_axis G f0 = AxisY then []
               else with_space E src opts b (\<lambda>p f.
                 if u_kind E (src p) = ''Vines'' then []
                 else [(p, f, u_set E (Attached (g_dir_opposite G (g_direction G f))) b)]))
        else if k = ''Wall'' then Some (anywhere E src opts b b)
        else if k = ''WheatSeeds'' then Some (on_kind E src ''Farmland'' opts b)
        else if k = ''WoodDoor'' then Some (use_door E src (ul_make L ''WoodDoor'') opts b)
        else if k = ''WoodFenceGate'' then Some (with_space E src opts b (\<lambda>p _.
               let left = g_face G (g_left G (u_direction E));
                   lowered = u_kind E (src (u_side E p left)) = ''Wall''
                     \<or> u_kind E (src (u_side E p (g_opposite G left))) = ''Wall''
               in [(p, f0, u_set E (SetLowered lowered) (u_set E (SetFacing (u_direction E)) b))]))
        else if k = ''WoodTrapdoor'' then Some (use_trapdoor E src opts b)
        else if k = ''Wood'' then Some (along_face E src opts b)
        else None)"

definition use_on_block :: "('d, 'b) use_env \<Rightarrow> (bpos \<Rightarrow> 'b) \<Rightarrow> 'd use_opts \<Rightarrow> 'b \<Rightarrow> 'b calls" where
  "use_on_block E src opts b =
    (case List.find (\<lambda>r. r \<noteq> None) (map (\<lambda>part. part E src opts b) [use_a, use_b, use_c, use_d, use_e, use_f, use_g]) of
       Some (Some calls) \<Rightarrow> calls | _ \<Rightarrow> [])"

section \<open>Activating a block\<close>

text \<open>What is held: whether it has fire aspect, and its name.  A composter that takes an item is not written back,
  so what can be composted makes no difference.\<close>
record held_item =
  hi_fire_aspect :: bool
  hi_name :: string

definition toggle_open :: "('d, 'b) use_env \<Rightarrow> bpos \<Rightarrow> (bpos \<Rightarrow> 'b) \<Rightarrow> bpos \<Rightarrow> 'b" where
  "toggle_open E p src = src(p := u_set E (SetOpen (\<not> ul_open (u_lib E) (src p))) (src p))"

definition activate_block :: "('d, 'b) use_env \<Rightarrow> held_item \<Rightarrow> bpos \<Rightarrow> (bpos \<Rightarrow> 'b) \<Rightarrow> bpos \<Rightarrow> 'b" where
  "activate_block E held p src =
    (let b = src p; k = u_kind E b; air = ul_make (u_lib E) ''Air'' []
     in if k = ''Cake''
        then let bites = ul_bites (u_lib E) b + 1
             in if 6 < bites then src(p := air) else src(p := u_set E (SetBites bites) b)
        else if k = ''Composter''
        then if ul_level (u_lib E) b = 8 then src(p := air) else src
        else if k = ''CopperDoor'' then toggle_open E p src
        else if k = ''CopperTrapdoor'' then toggle_open E p src
        else if k = ''TNT''
        then if hi_fire_aspect held \<or> hi_name held = ''minecraft:flint_and_steel'' then src(p := air) else src
        else if k = ''WoodDoor'' then toggle_open E p src
        else if k = ''WoodFenceGate'' then toggle_open E p src
        else if k = ''WoodTrapdoor'' then toggle_open E p src
        else src)"

end
