(* ===== verification/Placing.thy ===== *)
theory Placing
  imports Interaction Simulation Combat Detections Acks InvQueue
begin

text \<open>
  Placing blocks and using items on them: \<^verbatim>\<open>PlaceBlock\<close> and \<^verbatim>\<open>SyncBlock\<close> of
  \<^verbatim>\<open>src/player/world.go\<close>, \<^verbatim>\<open>AttemptItemInteractionWithBlock\<close> and
  \<^verbatim>\<open>ValidateInteraction\<close> of \<^verbatim>\<open>src/player/component/world.go\<close>, over the blocks of the world
  (a function here, as in the theory of breaking), the inventory, the placements and the entities.
\<close>

section \<open>State\<close>

text \<open>What is held, by the switch of the code: an item that the library does not know (a pointer to air), nothing, an item
  that is used on blocks (the block that it is, if it is one), another block, another item.\<close>
datatype 'b held = HeldUnknown | HeldNil | HeldUsable "'b option" | HeldBlock 'b | HeldOther

record 'f use_pk =
  up_clicks_block :: bool
  up_prediction :: prediction
  up_face :: int
  up_pos :: bpos
  up_clicked :: "'f vec3"
  up_block_rid :: "32 word"

text \<open>
  What stays the same during an interaction: the libraries, the player's movement, game mode and options, the trackers
  with the orders in which their maps are walked.  \<^verbatim>\<open>pe_by_rid\<close> decodes a network identifier.
\<close>
record ('f, 'd, 'b, 's) place_env =
  pe_sim :: "('f, 'b) sim_env"
  pe_use :: "('d, 'b) use_env"
  pe_vec :: "'f vec3 vec_ops"
  pe_stacks :: "'s stack_ops"
  pe_held :: "'s \<Rightarrow> 'b held"
  pe_held_item :: "'s \<Rightarrow> held_item"
  pe_cube :: cube_lib
  pe_rid :: "'b \<Rightarrow> 32 word"
  pe_by_rid :: "32 word \<Rightarrow> 'b option"
  pe_widen :: "'f \<Rightarrow> 'd"
  pe_mv :: "'f mv"
  pe_mode :: game_mode
  pe_recent :: bool
  pe_client_entities :: bool
  pe_max_chain :: int
  pe_tracker :: tracker
  pe_order :: "64 word list"
  pe_client_tracker :: tracker
  pe_client_order :: "64 word list"
  pe_client_tick :: int
  pe_server_conn :: bool

record ('f, 's, 'b, 'm) actor =
  at_world :: "bpos \<Rightarrow> 'b"
  at_wu :: wu
  at_inv :: "'s inv_comp"
  at_entities :: "('f vec3, 'f, 'm) ent_store"
  at_accepted :: bool
  at_resent :: "bpos list"

abbreviation pe_flt :: "('f, 'd, 'b, 's) place_env \<Rightarrow> 'f flt" where "pe_flt E \<equiv> se_flt (pe_sim E)"
abbreviation pe_box :: "('f, 'd, 'b, 's) place_env \<Rightarrow> 'f box_lib" where "pe_box E \<equiv> se_box (pe_sim E)"
abbreviation pe_blocks :: "('f, 'd, 'b, 's) place_env \<Rightarrow> ('f, 'b) block_lib" where "pe_blocks E \<equiv> se_blocks (pe_sim E)"
abbreviation pe_lib :: "('f, 'd, 'b, 's) place_env \<Rightarrow> 'b use_lib" where "pe_lib E \<equiv> u_lib (pe_use E)"
abbreviation pe_geo :: "('f, 'd, 'b, 's) place_env \<Rightarrow> geometry" where "pe_geo E \<equiv> u_geo (pe_use E)"

definition face_number :: "face \<Rightarrow> nat" where
  "face_number f = (case f of FaceDown \<Rightarrow> 0 | FaceUp \<Rightarrow> 1 | FaceNorth \<Rightarrow> 2 | FaceSouth \<Rightarrow> 3 | FaceWest \<Rightarrow> 4 | FaceEast \<Rightarrow> 5)"

definition face_of_number :: "int \<Rightarrow> face" where
  "face_of_number n = (if n = 0 then FaceDown else if n = 1 then FaceUp else if n = 2 then FaceNorth
     else if n = 3 then FaceSouth else if n = 4 then FaceWest else FaceEast)"

section \<open>Placing a block\<close>

text \<open>A block is sent again, unless an update of it is pending.\<close>
definition resend :: "('f, 'd, 'b, 's) place_env \<Rightarrow> bpos \<Rightarrow> ('f, 's, 'b, 'm) actor \<Rightarrow> ('f, 's, 'b, 'm) actor" where
  "resend E p s =
    (if has_pending_update p (at_wu s) then s
     else s\<lparr>at_wu := add_pending_update p (pe_rid E (at_world s p)) (at_wu s), at_resent := at_resent s @ [p]\<rparr>)"

definition sync_inventory :: "('f, 'd, 'b, 's) place_env \<Rightarrow> ('f, 's, 'b, 'm) actor \<Rightarrow> ('f, 's, 'b, 'm) actor" where
  "sync_inventory E s = s\<lparr>at_inv := force_sync (pe_server_conn E) (at_inv s)\<rparr>"

definition any_intersects :: "('f, 'd, 'b, 's) place_env \<Rightarrow> 'f bbox list \<Rightarrow> 'f bbox \<Rightarrow> bool" where
  "any_intersects E boxes bb = list_ex (\<lambda>b. bl_intersects (pe_box E) b bb) boxes"

text \<open>The entities in the order of the tracker, rewound to the client's tick, until one is in the way.\<close>
fun entity_in_way ::
  "('f, 'd, 'b, 's) place_env \<Rightarrow> 'f bbox list \<Rightarrow> 64 word list \<Rightarrow> ('f vec3, 'f, 'm) ent_store
   \<Rightarrow> (bool \<times> ('f vec3, 'f, 'm) ent_store) result" where
  "entity_in_way E boxes [] st = Inr (False, st)"
| "entity_in_way E boxes (rid # rids) st =
    (case find_entity rid (pe_tracker E) of
       None \<Rightarrow> entity_in_way E boxes rids st
     | Some a \<Rightarrow>
         (case st a of
            None \<Rightarrow> Inl (Panic ''nil pointer dereference'')
          | Some e \<Rightarrow> bind_result (rewind (pe_vec E) (pe_client_tick E) e) (\<lambda>(h, e').
              if (case h of None \<Rightarrow> False
                  | Some hp \<Rightarrow> any_intersects E boxes (entity_box (pe_flt E) (pe_box E) (hp_pos hp) e'))
              then Inr (True, st(a \<mapsto> e'))
              else entity_in_way E boxes rids (st(a \<mapsto> e')))))"

definition client_entity_in_way ::
  "('f, 'd, 'b, 's) place_env \<Rightarrow> 'f bbox list \<Rightarrow> ('f vec3, 'f, 'm) ent_store \<Rightarrow> bool" where
  "client_entity_in_way E boxes st = list_ex (\<lambda>rid. case find_entity rid (pe_client_tracker E) of
      None \<Rightarrow> False
    | Some a \<Rightarrow> (case st a of None \<Rightarrow> False
        | Some e \<Rightarrow> any_intersects E boxes (entity_box (pe_flt E) (pe_box E) (e_pos e) e))) (pe_client_order E)"

text \<open>The boxes that the block will occupy.\<close>
definition boxes_of :: "('f, 'd, 'b, 's) place_env \<Rightarrow> 'b \<Rightarrow> bpos \<Rightarrow> (bpos \<Rightarrow> 'b) \<Rightarrow> 'f bbox list" where
  "boxes_of E b p src = map (bl_translate (pe_box E) (vec_of_pos (pe_flt E) p)) (block_collisions (pe_blocks E) b p src)"

definition refuse :: "('f, 'd, 'b, 's) place_env \<Rightarrow> bpos \<Rightarrow> ('f, 's, 'b, 'm) actor \<Rightarrow> ('f, 's, 'b, 'm) actor" where
  "refuse E p s = sync_inventory E (resend E p s)"

text \<open>The world ignores positions outside of its range.\<close>
definition put_block :: "('f, 'd, 'b, 's) place_env \<Rightarrow> bpos \<Rightarrow> 'b \<Rightarrow> (bpos \<Rightarrow> 'b) \<Rightarrow> bpos \<Rightarrow> 'b" where
  "put_block E p b src = (if g_out_of_bounds (pe_geo E) p then src else src(p := b))"

text \<open>One item of the held stack goes, the placement is queued, and the block is set.\<close>
definition do_place ::
  "('f, 'd, 'b, 's) place_env \<Rightarrow> bpos \<Rightarrow> bpos \<Rightarrow> face \<Rightarrow> 'b \<Rightarrow> ('f, 's, 'b, 'm) actor \<Rightarrow> ('f, 's, 'b, 'm) actor result" where
  "do_place E clicked p f b s =
    (let c = at_inv s
     in bind_result (holding c) (\<lambda>stack.
        bind_result (win_set_slot WInventory (ic_held c) (st_grow (pe_stacks E) (-1) stack) (ic_windows c)) (\<lambda>w.
          Inr (s\<lparr>at_inv := c\<lparr>ic_windows := w\<rparr>,
                 at_wu := (at_wu s)\<lparr>wu_placements := queue_block_placement (pe_cube E) (pe_max_chain E)
                   (pe_rid E (at_world s p)) clicked p (face_number f) (wu_placements (at_wu s))\<rparr>,
                 at_world := put_block E p b (at_world s)\<rparr>))))"

definition place_block ::
  "('f, 'd, 'b, 's) place_env \<Rightarrow> bpos \<Rightarrow> bpos \<Rightarrow> face \<Rightarrow> 'b \<Rightarrow> ('f, 's, 'b, 'm) actor \<Rightarrow> ('f, 's, 'b, 'm) actor result" where
  "place_block E clicked p f b s =
    (let boxes = boxes_of E b p (at_world s)
     in if \<not> ul_replaceable (pe_lib E) (at_world s p) then Inr s
        else if any_intersects E boxes (bounding_box (pe_sim E) (pe_mv E)) \<and> \<not> can_pass_block (pe_blocks E) b
        then Inr (refuse E p s)
        else bind_result
          (if pe_client_entities E then Inr (client_entity_in_way E boxes (at_entities s), at_entities s)
           else entity_in_way E boxes (pe_order E) (at_entities s))
          (\<lambda>(hit, st). let s = s\<lparr>at_entities := st\<rparr> in
             if hit then Inr (refuse E p s) else do_place E clicked p f b s))"

fun place_calls ::
  "('f, 'd, 'b, 's) place_env \<Rightarrow> bpos \<Rightarrow> 'b calls \<Rightarrow> ('f, 's, 'b, 'm) actor \<Rightarrow> ('f, 's, 'b, 'm) actor result" where
  "place_calls E clicked [] s = Inr s"
| "place_calls E clicked ((p, f, b) # cs) s = bind_result (place_block E clicked p f b s) (place_calls E clicked cs)"

section \<open>Interacting with a block\<close>

abbreviation max_interaction_distance :: "'f flt \<Rightarrow> 'f" where "max_interaction_distance F \<equiv> fl_lit F 6"

definition raise_eye :: "('f, 'd, 'b, 's) place_env \<Rightarrow> 'f vec3 \<Rightarrow> 'f vec3" where
  "raise_eye E v = set_vy (fl_add (pe_flt E) (vy v) (fl_lit (pe_flt E) (if mv_sneaking (pe_mv E) then 1.27 else 1.62))) v"

definition prev_eye :: "('f, 'd, 'b, 's) place_env \<Rightarrow> 'f vec3" where
  "prev_eye E = raise_eye E (bo_last_pos (mv_body (pe_mv E)))"

definition curr_eye :: "('f, 'd, 'b, 's) place_env \<Rightarrow> 'f vec3" where
  "curr_eye E = raise_eye E (bo_pos (mv_body (pe_mv E)))"

text \<open>The distance from the eyes to a box, and to the closest of the boxes of a block; a block without boxes counts as
  a full one.\<close>
definition box_distance :: "('f, 'd, 'b, 's) place_env \<Rightarrow> 'f bbox \<Rightarrow> 'f" where
  "box_distance E bb =
    (let F = pe_flt E; origin = closest_point_in_line_to_point F (prev_eye E) (curr_eye E) (bbox_center F bb)
     in len3 F (sub3 F (closest_point_to_bbox F origin bb) origin))"

definition interaction_boxes :: "('f, 'd, 'b, 's) place_env \<Rightarrow> 'b \<Rightarrow> bpos \<Rightarrow> (bpos \<Rightarrow> 'b) \<Rightarrow> 'f bbox list" where
  "interaction_boxes E b p src =
    (let F = pe_flt E; zero = fl_lit F 0; one = fl_lit F 1; bbs = block_collisions (pe_blocks E) b p src
     in map (bl_translate (pe_box E) (vec_of_pos F p)) (if bbs = [] then [bl_box (pe_box E) (zero, zero, zero) (one, one, one)] else bbs))"

definition closest_distance :: "('f, 'd, 'b, 's) place_env \<Rightarrow> 'f bbox list \<Rightarrow> 'f" where
  "closest_distance E bbs = (let F = pe_flt E in
     fold (\<lambda>bb d. if fl_less F (box_distance E bb) d then box_distance E bb else d) bbs (fl_sub F (fl_max_value F) (fl_lit F 1)))"

text \<open>An interaction is denied: the clicked block, the one beside it and the inventory are sent again.\<close>
definition deny :: "('f, 'd, 'b, 's) place_env \<Rightarrow> 'f use_pk \<Rightarrow> ('f, 's, 'b, 'm) actor \<Rightarrow> ('f, 's, 'b, 'm) actor" where
  "deny E pk s = sync_inventory E (resend E (g_side (pe_geo E) (up_pos pk) (face_of_number (up_face pk))) (resend E (up_pos pk) s))"

text \<open>The clicked block is one of too many that the server has not confirmed.\<close>
definition ghost_chain_exceeded :: "('f, 'd, 'b, 's) place_env \<Rightarrow> bpos \<Rightarrow> wu \<Rightarrow> bool" where
  "ghost_chain_exceeded E p w = (case snd (wu_placements w) p of
      None \<Rightarrow> False
    | Some i \<Rightarrow> 0 \<le> pe_max_chain E \<and>
        (case ghost_block_chain (fst (wu_placements w)) i of (n, confirmed) \<Rightarrow>
           confirmed \<and> \<not> pc_allowed (fst (wu_placements w) ! i) \<and> pe_max_chain E < int n + 1))"

definition held_is_block :: "'b held \<Rightarrow> bool" where
  "held_is_block h = (case h of HeldUnknown \<Rightarrow> True | HeldNil \<Rightarrow> False | HeldUsable b \<Rightarrow> b \<noteq> None | HeldBlock b \<Rightarrow> True | HeldOther \<Rightarrow> False)"

text \<open>At the clicked block if it can be replaced by the new one, else beside it.\<close>
definition place_at_or_beside ::
  "('f, 'd, 'b, 's) place_env \<Rightarrow> 'f use_pk \<Rightarrow> 'b \<Rightarrow> ('f, 's, 'b, 'm) actor \<Rightarrow> ('f, 's, 'b, 'm) actor result" where
  "place_at_or_beside E pk b s =
    (let p = up_pos pk; f = face_of_number (up_face pk); old = at_world s p;
         q = (if \<not> ul_replaceable (pe_lib E) old \<or> \<not> ul_replaceable_by (pe_lib E) old b then g_side (pe_geo E) p f else p)
     in place_block E p q f b s)"

definition use_held ::
  "('f, 'd, 'b, 's) place_env \<Rightarrow> 'f use_pk \<Rightarrow> 'b held \<Rightarrow> ('f, 's, 'b, 'm) actor \<Rightarrow> ('f, 's, 'b, 'm) actor result" where
  "use_held E pk h s = (case h of
      HeldUnknown \<Rightarrow> (case pe_by_rid E (up_block_rid pk) of None \<Rightarrow> Inr s | Some b \<Rightarrow> place_at_or_beside E pk b s)
    | HeldNil \<Rightarrow> Inr s
    | HeldUsable None \<Rightarrow> Inr s
    | HeldUsable (Some b) \<Rightarrow>
        place_calls E (up_pos pk) (use_on_block (pe_use E) (at_world s)
          \<lparr>uo_replace = up_pos pk, uo_face = face_of_number (up_face pk), uo_click_y = pe_widen E (vy (up_clicked pk))\<rparr> b) s
    | HeldBlock b \<Rightarrow>
        if ul_kind (pe_lib E) b = ''Glowstone'' \<and> block_name (pe_blocks E) (at_world s (up_pos pk)) = ''minecraft:respawn_anchor''
        then Inr s else place_at_or_beside E pk b s
    | HeldOther \<Rightarrow> Inr s)"

text \<open>\<^verbatim>\<open>AttemptItemInteractionWithBlock\<close>; the packet is none when the transaction is not the use of an item.  A false
  result cancels the packet.\<close>
definition attempt_item_interaction ::
  "('f, 'd, 'b, 's) place_env \<Rightarrow> 'f use_pk option \<Rightarrow> ('f, 's, 'b, 'm) actor \<Rightarrow> (bool \<times> ('f, 's, 'b, 'm) actor) result" where
  "attempt_item_interaction E upk s = (case upk of
      None \<Rightarrow> Inr (True, s)
    | Some pk \<Rightarrow>
        if \<not> up_clicks_block pk then Inr (True, s)
        else bind_result (holding (at_inv s)) (\<lambda>stack.
          let h = pe_held E stack; p = up_pos pk; b = at_world s p
          in if held_is_block h \<and> pe_recent E \<and> up_prediction pk = PredictFailure then Inr (False, s)
             else if up_face pk < 0 \<or> 5 < up_face pk then Inr (False, s)
             else if ul_kind (pe_lib E) b = ''Air'' then Inr (False, deny E pk s)
             else if ghost_chain_exceeded E p (at_wu s) then Inr (False, deny E pk s)
             else if pe_mode E \<noteq> Creative
                  \<and> fl_less (pe_flt E) (max_interaction_distance (pe_flt E)) (closest_distance E (interaction_boxes E b p (at_world s)))
             then Inr (False, deny E pk s)
             else if ul_activatable (pe_lib E) b \<and> (\<not> sn_pressing_sneak (mv_stance (pe_mv E)) \<or> st_empty (pe_stacks E) stack)
             then Inr (True, s\<lparr>at_world := activate_block (pe_use E) (pe_held_item E stack) p (at_world s)\<rparr>)
             else bind_result (use_held E pk h s) (\<lambda>s. Inr (True, s))))"

section \<open>Whether a block can be reached\<close>

text \<open>A block between the eyes and the point that stops the ray; each position is looked at once.\<close>
fun ray_obstructed ::
  "('f, 'd, 'b, 's) place_env \<Rightarrow> (bpos \<Rightarrow> 'b) \<Rightarrow> bpos \<Rightarrow> 'f vec3 \<Rightarrow> 'f vec3 \<Rightarrow> bpos set \<Rightarrow> 'f vec3 list \<Rightarrow> bool" where
  "ray_obstructed E src target eye point checked [] = False"
| "ray_obstructed E src target eye point checked (v # vs) =
    (let F = pe_flt E; q = (fl_to_int F (vx v), fl_to_int F (vy v), fl_to_int F (vz v)); b = src q
     in if q = target \<or> q \<in> checked then ray_obstructed E src target eye point checked vs
        else if ul_kind (pe_lib E) b \<in> {''InvisibleBedrock'', ''Barrier''}
        then ray_obstructed E src target eye point (insert q checked) vs
        else if list_ex (\<lambda>bb. bl_intercept (pe_box E) (bl_translate (pe_box E) v bb) eye point \<noteq> None)
                  (block_collisions (pe_blocks E) b q src)
        then True
        else ray_obstructed E src target eye point (insert q checked) vs)"

definition validate_interaction ::
  "('f, 'd, 'b, 's) place_env \<Rightarrow> 'f use_pk option \<Rightarrow> ('f, 's, 'b, 'm) actor \<Rightarrow> bool \<times> ('f, 's, 'b, 'm) actor" where
  "validate_interaction E upk s = (case upk of
      None \<Rightarrow> (True, s)
    | Some pk \<Rightarrow>
        let F = pe_flt E; p = up_pos pk; src = at_world s; b = src p;
            point = add3 F (vec_of_pos F p) (up_clicked pk);
            eye = closest_point_in_line_to_point F (prev_eye E) (curr_eye E) point
        in if pe_mode E \<noteq> Survival \<and> pe_mode E \<noteq> Adventure then (True, s)
           else if \<not> up_clicks_block pk then (True, s\<lparr>at_accepted := True\<rparr>)
           else if pe_recent E \<and> up_prediction pk \<noteq> PredictSuccess then (True, s)
           else if \<not> ul_activatable (pe_lib E) b then (True, s)
           else if block_collisions (pe_blocks E) b p src = [] then (True, s\<lparr>at_accepted := True\<rparr>)
           else if fl_less F (max_interaction_distance F) (len3 F (sub3 F eye point)) then (False, s\<lparr>at_accepted := False\<rparr>)
           else if ray_obstructed E src p eye point {} (blocks_between F (pe_box E) eye point 49)
           then (False, s\<lparr>at_accepted := False\<rparr>)
           else (True, s\<lparr>at_accepted := True\<rparr>))"

text \<open>What the transaction handler does with a use of an item: whether the packet goes on.\<close>
definition handle_interaction ::
  "('f, 'd, 'b, 's) place_env \<Rightarrow> 'f use_pk option \<Rightarrow> ('f, 's, 'b, 'm) actor \<Rightarrow> (bool \<times> ('f, 's, 'b, 'm) actor) result" where
  "handle_interaction E upk s = (case validate_interaction E upk s of (ok, s) \<Rightarrow>
     if \<not> ok then Inr (False, s) else attempt_item_interaction E upk s)"

end
