(* ===== verification/ItemUse.thy ===== *)
theory ItemUse
  imports Placing Breaking
begin

text \<open>
  Inventory transactions of the client: the case of \<^verbatim>\<open>InventoryTransaction\<close> in \<^verbatim>\<open>HandleClientPacket\<close>
  (\<^verbatim>\<open>src/player/packet.go\<close>), with attacks on entities, throwing and consuming items, and drops, and what changes
  the held slot.
\<close>

section \<open>Transactions\<close>

text \<open>The use of an item; an action that clicks neither a block nor the air is another one.\<close>
record 'f use_tx =
  ut_slot :: int
  ut_clicks_air :: bool
  ut_player_input :: bool
  ut_use :: "'f use_pk"

text \<open>An action of a drop: where it comes from, the slot, the window if it has one, the count of the new item.\<close>
record drop_action =
  da_from_world :: bool
  da_from_container :: bool
  da_slot :: nat
  da_window :: "int option"
  da_count :: nat

datatype ('f, 'n) client_tx =
    TrEntity "('f, 'n) attack_pk" bool
  | TrUse "'f use_tx"
  | TrRelease int
  | TrNormal "drop_action list"
  | TrOther

text \<open>What the item library says of something that can be consumed; the duration is in nanoseconds.\<close>
record consumable =
  cs_can_consume :: bool
  cs_duration :: int
  cs_always :: bool

record ('f, 'd, 'b, 's, 'n) item_env =
  ie_place :: "('f, 'd, 'b, 's) place_env"
  ie_combat :: "('f, 'b, 'n) combat_env"
  ie_client_combat :: "('f, 'b, 'n) combat_env"
  ie_is_firework :: "'s \<Rightarrow> bool"
  ie_is_projectile :: "'s \<Rightarrow> bool"
  ie_consumable :: "'s \<Rightarrow> consumable option"
  ie_window_inventory :: int

record ('f, 's, 'b, 'm, 'n, 'k) user =
  us_actor :: "('f, 's, 'b, 'm) actor"
  us_mv :: "'f mv"
  us_combat :: "('f, 'n) combat"
  us_client_combat :: "('f, 'n) combat"
  us_clicks :: "'k clicks"
  us_hooks :: "'k list"
  us_input_count :: int
  us_last_projectile :: int
  us_consume_tick :: int
  us_consumed_slot :: int
  us_hungry :: bool
  us_since_attack :: int
  us_closed :: bool
  us_equipment :: 'n

text \<open>Whether the packet is cancelled, and whether the detections see it.\<close>
record outcome =
  oc_cancelled :: bool
  oc_detected :: bool

text \<open>A step of the handler leaves it, or goes on with the packet cancelled or not.\<close>
datatype tx_step = Leave outcome | Next bool

abbreviation us_inv :: "('f, 's, 'b, 'm, 'n, 'k) user \<Rightarrow> 's inv_comp" where "us_inv s \<equiv> at_inv (us_actor s)"

definition on_inv :: "('s inv_comp \<Rightarrow> 's inv_comp) \<Rightarrow> ('f, 's, 'b, 'm, 'n, 'k) user \<Rightarrow> ('f, 's, 'b, 'm, 'n, 'k) user" where
  "on_inv g s = s\<lparr>us_actor := (us_actor s)\<lparr>at_inv := g (us_inv s)\<rparr>\<rparr>"

definition us_place :: "('f, 'd, 'b, 's, 'n) item_env \<Rightarrow> ('f, 's, 'b, 'm, 'n, 'k) user \<Rightarrow> ('f, 'd, 'b, 's) place_env" where
  "us_place E s = (ie_place E)\<lparr>pe_mv := us_mv s\<rparr>"

text \<open>What the combat components read.\<close>
definition fights_in :: "('f, 's, 'b, 'm, 'n, 'k) user \<Rightarrow> ('f, 'b, 'n) combat_env \<Rightarrow> ('f, 'b, 'n) combat_env" where
  "fights_in s C = C\<lparr>cv_mv := us_mv s, cv_src := at_world (us_actor s), cv_held_slot := ic_held (us_inv s),
     cv_equipment := us_equipment s\<rparr>"

section \<open>Attacks\<close>

text \<open>\<^verbatim>\<open>Attack\<close> of the combat component, and of the client's.\<close>
definition attack_server ::
  "('f, 'd, 'b, 's, 'n) item_env \<Rightarrow> ('f, 'n) attack_pk option \<Rightarrow> ('f, 's, 'b, 'm, 'n, 'k) user
   \<Rightarrow> ('f, 's, 'b, 'm, 'n, 'k) user result" where
  "attack_server E pk s = bind_result (combat_attack (fights_in s (ie_combat E)) pk (at_entities (us_actor s)) (us_combat s))
     (\<lambda>(reset, st, c). Inr (s\<lparr>us_actor := (us_actor s)\<lparr>at_entities := st\<rparr>, us_combat := c,
        us_since_attack := (if reset then 0 else us_since_attack s)\<rparr>))"

definition attack_client ::
  "('f, 'd, 'b, 's, 'n) item_env \<Rightarrow> ('f, 'n) attack_pk option \<Rightarrow> ('f, 's, 'b, 'm, 'n, 'k) user
   \<Rightarrow> ('f, 's, 'b, 'm, 'n, 'k) user result" where
  "attack_client E pk s = (if \<not> pe_client_entities (ie_place E) then Inr s
     else bind_result (combat_attack (fights_in s (ie_client_combat E)) pk (at_entities (us_actor s)) (us_client_combat s))
       (\<lambda>(reset, st, c). Inr (s\<lparr>us_actor := (us_actor s)\<lparr>at_entities := st\<rparr>, us_client_combat := c,
          us_since_attack := (if reset then 0 else us_since_attack s)\<rparr>)))"

definition with_clicks :: "('k clicks \<Rightarrow> 'k clicks \<times> 'k list) \<Rightarrow> ('f, 's, 'b, 'm, 'n, 'k) user \<Rightarrow> ('f, 's, 'b, 'm, 'n, 'k) user" where
  "with_clicks g s = (case g (us_clicks s) of (c, hs) \<Rightarrow> s\<lparr>us_clicks := c, us_hooks := us_hooks s @ hs\<rparr>)"

text \<open>An attack in the survival modes waits for the next input; otherwise it is forwarded.\<close>
definition use_on_entity ::
  "('f, 'd, 'b, 's, 'n) item_env \<Rightarrow> ('f, 'n) attack_pk \<Rightarrow> bool \<Rightarrow> ('f, 's, 'b, 'm, 'n, 'k) user
   \<Rightarrow> (tx_step \<times> ('f, 's, 'b, 'm, 'n, 'k) user) result" where
  "use_on_entity E pk attack s =
    (let s = on_inv (set_held_slot (ap_slot pk)) s
     in if \<not> attack then Inr (Next False, s)
        else if survival_like (pe_mode (ie_place E))
        then bind_result (attack_server E (Some pk) s) (\<lambda>s.
               bind_result (attack_client E (Some pk) (with_clicks (clicks_handle_attack attack (us_input_count s)) s))
                 (\<lambda>s. Inr (Next True, s)))
        else bind_result (attack_client E (Some pk) s) (\<lambda>s. Inr (Next False, s)))"

section \<open>Items in the air\<close>

abbreviation glide_boost_ticks :: int where "glide_boost_ticks \<equiv> 20"
abbreviation projectile_cooldown :: int where "projectile_cooldown \<equiv> 4"

definition boost_glide :: "('f, 's, 'b, 'm, 'n, 'k) user \<Rightarrow> ('f, 's, 'b, 'm, 'n, 'k) user" where
  "boost_glide s = s\<lparr>us_mv := (us_mv s)\<lparr>mv_stance := (mv_stance (us_mv s))\<lparr>sn_glide_boost := glide_boost_ticks\<rparr>\<rparr>\<rparr>"

definition sync_user :: "('f, 'd, 'b, 's, 'n) item_env \<Rightarrow> ('f, 's, 'b, 'm, 'n, 'k) user \<Rightarrow> ('f, 's, 'b, 'm, 'n, 'k) user" where
  "sync_user E = on_inv (force_sync (pe_server_conn (ie_place E)))"

text \<open>The stack with one item less is written to the slot of the packet, which need not be the held one.\<close>
definition throw_item ::
  "('f, 'd, 'b, 's, 'n) item_env \<Rightarrow> int \<Rightarrow> 's \<Rightarrow> ('f, 's, 'b, 'm, 'n, 'k) user
   \<Rightarrow> (tx_step \<times> ('f, 's, 'b, 'm, 'n, 'k) user) result" where
  "throw_item E slot stack s =
    (if us_input_count s - us_last_projectile s < projectile_cooldown
     then Inr (Leave \<lparr>oc_cancelled = True, oc_detected = False\<rparr>, sync_user E s)
     else bind_result (win_set_slot WInventory slot (st_grow (pe_stacks (ie_place E)) (-1) stack) (ic_windows (us_inv s)))
       (\<lambda>w. Inr (Next False, on_inv (\<lambda>c. c\<lparr>ic_windows := w\<rparr>) (s\<lparr>us_last_projectile := us_input_count s\<rparr>))))"

text \<open>The first use starts to consume, the next one ends it, unless it comes too early, which starts anew.\<close>
definition consume_item ::
  "('f, 'd, 'b, 's, 'n) item_env \<Rightarrow> consumable \<Rightarrow> int \<Rightarrow> ('f, 's, 'b, 'm, 'n, 'k) user
   \<Rightarrow> tx_step \<times> ('f, 's, 'b, 'm, 'n, 'k) user" where
  "consume_item E c slot s =
    (if \<not> cs_can_consume c then (Next False, s)
     else if us_consume_tick s = 0 \<and> 0 < cs_duration c \<and> (cs_always c \<or> us_hungry s)
     then (Next False, s\<lparr>us_consume_tick := us_input_count s, us_consumed_slot := slot\<rparr>)
     else if (us_input_count s - us_consume_tick s) * 50 < go_div (cs_duration c) 1000000 - 50
     then (Next True, sync_user E (s\<lparr>us_consume_tick := us_input_count s\<rparr>))
     else (Next False, s\<lparr>us_consume_tick := 0, us_consumed_slot := 0\<rparr>))"

definition use_in_air ::
  "('f, 'd, 'b, 's, 'n) item_env \<Rightarrow> int \<Rightarrow> ('f, 's, 'b, 'm, 'n, 'k) user
   \<Rightarrow> (tx_step \<times> ('f, 's, 'b, 'm, 'n, 'k) user) result" where
  "use_in_air E slot s = bind_result (holding (us_inv s)) (\<lambda>stack.
     if ie_is_firework E stack \<and> sn_gliding (mv_stance (us_mv s)) then Inr (Next False, boost_glide s)
     else if ie_is_projectile E stack then throw_item E slot stack s
     else case ie_consumable E stack of None \<Rightarrow> Inr (Next False, s) | Some c \<Rightarrow> Inr (consume_item E c slot s))"

definition use_item_step ::
  "('f, 'd, 'b, 's, 'n) item_env \<Rightarrow> 'f use_tx \<Rightarrow> ('f, 's, 'b, 'm, 'n, 'k) user
   \<Rightarrow> (tx_step \<times> ('f, 's, 'b, 'm, 'n, 'k) user) result" where
  "use_item_step E t s =
    (let s = on_inv (set_held_slot (ut_slot t)) s;
         s = with_clicks (clicks_handle_right (pe_recent (ie_place E)) (ut_player_input t) (us_input_count s)) s
     in if ut_clicks_air t then use_in_air E (ut_slot t) s else Inr (Next False, s))"

section \<open>Drops\<close>

text \<open>The slot the item comes from and the number that is dropped, when the actions say so; later actions win.\<close>
definition drop_slot :: "('f, 'd, 'b, 's, 'n) item_env \<Rightarrow> drop_action list \<Rightarrow> nat option" where
  "drop_slot E as = fold (\<lambda>a r. if da_from_world a \<and> da_slot a = 0 then r
     else if da_from_container a \<and> da_window a = Some (ie_window_inventory E) then Some (da_slot a) else r) as None"

definition drop_count :: "drop_action list \<Rightarrow> nat option" where
  "drop_count as = fold (\<lambda>a r. if da_from_world a \<and> da_slot a = 0 then Some (da_count a) else r) as None"

text \<open>A transaction that is not understood leaves the handler before the detections.\<close>
definition drop_step ::
  "('f, 'd, 'b, 's, 'n) item_env \<Rightarrow> drop_action list \<Rightarrow> ('f, 's, 'b, 'm, 'n, 'k) user
   \<Rightarrow> (tx_step \<times> ('f, 's, 'b, 'm, 'n, 'k) user) result" where
  "drop_step E as s =
    (let unseen = Leave \<lparr>oc_cancelled = False, oc_detected = False\<rparr>
     in if length as \<noteq> 2 then Inr (unseen, if 5 < length as then s\<lparr>us_closed := True\<rparr> else s)
        else case (drop_slot E as, drop_count as) of
          (Some slot, Some n) \<Rightarrow>
            bind_result (win_slot (ic_windows (us_inv s)) WInventory (int slot)) (\<lambda>stack.
              if st_count (pe_stacks (ie_place E)) stack < int n then Inr (unseen, s)
              else bind_result (win_set_slot WInventory (int slot) (st_grow (pe_stacks (ie_place E)) (- int n) stack) (ic_windows (us_inv s)))
                (\<lambda>w. Inr (Next False, on_inv (\<lambda>c. c\<lparr>ic_windows := w\<rparr>) s)))
        | _ \<Rightarrow> Inr (unseen, s))"

section \<open>The handler\<close>

definition tx_step_of ::
  "('f, 'd, 'b, 's, 'n) item_env \<Rightarrow> ('f, 'n) client_tx \<Rightarrow> ('f, 's, 'b, 'm, 'n, 'k) user
   \<Rightarrow> (tx_step \<times> ('f, 's, 'b, 'm, 'n, 'k) user) result" where
  "tx_step_of E tr s = (case tr of
      TrEntity pk attack \<Rightarrow> use_on_entity E pk attack s
    | TrUse t \<Rightarrow> use_item_step E t s
    | TrRelease slot \<Rightarrow> Inr (Next False, (on_inv (set_held_slot slot) s)\<lparr>us_consume_tick := 0\<rparr>)
    | TrNormal as \<Rightarrow> drop_step E as s
    | TrOther \<Rightarrow> Inr (Next False, s))"

definition use_of :: "('f, 'n) client_tx \<Rightarrow> 'f use_pk option" where
  "use_of tr = (case tr of TrUse t \<Rightarrow> Some (ut_use t) | _ \<Rightarrow> None)"

definition handle_transaction ::
  "('f, 'd, 'b, 's, 'n) item_env \<Rightarrow> ('f, 'n) client_tx \<Rightarrow> ('f, 's, 'b, 'm, 'n, 'k) user
   \<Rightarrow> (outcome \<times> ('f, 's, 'b, 'm, 'n, 'k) user) result" where
  "handle_transaction E tr s = bind_result (tx_step_of E tr s) (\<lambda>(step, s). case step of
      Leave oc \<Rightarrow> Inr (oc, s)
    | Next cancelled \<Rightarrow> bind_result (handle_interaction (us_place E s) (use_of tr) (us_actor s)) (\<lambda>(go, a).
        Inr (\<lparr>oc_cancelled = cancelled \<or> \<not> go, oc_detected = True\<rparr>, s\<lparr>us_actor := a\<rparr>)))"

text \<open>\<^verbatim>\<open>MobEquipment\<close>: the held slot changes, and consuming an item of another slot ends.\<close>
definition handle_equipment ::
  "('f, 'd, 'b, 's, 'n) item_env \<Rightarrow> int \<Rightarrow> int \<Rightarrow> 'n \<Rightarrow> ('f, 's, 'b, 'm, 'n, 'k) user \<Rightarrow> ('f, 's, 'b, 'm, 'n, 'k) user" where
  "handle_equipment E wid slot item s =
    (let s = s\<lparr>us_equipment := item\<rparr>; s = (if wid = ie_window_inventory E then on_inv (set_held_slot slot) s else s)
     in if us_consume_tick s \<noteq> 0 \<and> us_consumed_slot s \<noteq> slot then s\<lparr>us_consume_tick := 0, us_consumed_slot := 0\<rparr> else s)"

end
