(* ===== verification/PlacingProps.thy ===== *)
theory PlacingProps
  imports Placing InvProps SimFrames
begin

text \<open>
  Using items on blocks: which positions an interaction can change, that what is placed keeps clear of the player, that
  the inventory stays well-formed, and that the recursion down a stack of plants ends.
\<close>

section \<open>The calls of a use\<close>

text \<open>The clicked position and the one beside it, and up to two above.\<close>
definition near_positions :: "geometry \<Rightarrow> bpos \<Rightarrow> face \<Rightarrow> bpos set" where
  "near_positions G p f = {p, g_side G p f, g_side G p FaceUp, g_side G (g_side G p f) FaceUp, g_side G (g_side G p FaceUp) FaceUp}"

definition well_placed :: "('d, 'b) use_env \<Rightarrow> 'd use_opts \<Rightarrow> 'b calls \<Rightarrow> bool" where
  "well_placed E opts cs \<longleftrightarrow> fst ` set cs \<subseteq> near_positions (u_geo E) (uo_replace opts) (uo_face opts) \<and> distinct (map fst cs)"

text \<open>What the geometry documents: the block above is another one.\<close>
definition up_moves :: "geometry \<Rightarrow> bool" where
  "up_moves G \<longleftrightarrow> (\<forall>p. g_side G p FaceUp \<noteq> p)"

lemma up_moves_neq: "up_moves G \<Longrightarrow> g_side G p FaceUp \<noteq> p" "up_moves G \<Longrightarrow> p \<noteq> g_side G p FaceUp"
  unfolding up_moves_def by metis+

lemma well_placed_simps [simp]: "well_placed E opts []"
  "well_placed E opts [(p, f, b)] \<longleftrightarrow> p \<in> near_positions (u_geo E) (uo_replace opts) (uo_face opts)"
  by (simp_all add: well_placed_def)

lemma first_replaceable_pos:
  "first_replaceable E src r f b = (p, f', used) \<Longrightarrow> p \<in> {r, u_side E r f}"
  by (auto simp: first_replaceable_def Let_def split: if_splits)

lemma with_space_placed:
  assumes "\<And>p f. p \<in> {uo_replace opts, u_side E (uo_replace opts) (uo_face opts)} \<Longrightarrow> well_placed E opts (k p f)"
  shows "well_placed E opts (with_space E src opts b k)"
  using assms by (auto simp: with_space_def dest!: first_replaceable_pos split: prod.splits)

lemma near_self [simp]:
  "p \<in> {uo_replace opts, u_side E (uo_replace opts) (uo_face opts)} \<Longrightarrow>
    p \<in> near_positions (u_geo E) (uo_replace opts) (uo_face opts)
    \<and> u_side E p FaceUp \<in> near_positions (u_geo E) (uo_replace opts) (uo_face opts)"
  by (auto simp: near_positions_def)

lemma shapes_placed:
  "well_placed E opts (along_face E src opts b)" "well_placed E opts (on_kind E src k opts b)"
  "well_placed E opts (not_on_kind E src k opts b b')" "well_placed E opts (anywhere E src opts b b')"
  "well_placed E opts (on_soil E src opts b)" "well_placed E opts (standing_or_wall E src opts b)"
  "well_placed E opts (use_trapdoor E src opts b)" "well_placed E opts (add_to_cluster E src opts b)"
  unfolding along_face_def on_kind_def not_on_kind_def anywhere_def on_soil_def standing_or_wall_def use_trapdoor_def
    add_to_cluster_def
  by (rule with_space_placed; simp)+ (simp add: near_positions_def)

lemma door_placed: "up_moves (u_geo E) \<Longrightarrow> well_placed E opts (use_door E src upper opts b)"
  by (simp add: use_door_def Let_def well_placed_def near_positions_def up_moves_neq)

lemma double_plant_placed: "up_moves (u_geo E) \<Longrightarrow> well_placed E opts (use_double_plant E src opts b)"
  unfolding use_double_plant_def
  by (rule with_space_placed) (frule near_self, simp add: well_placed_def up_moves_neq)

lemma slab_placed: "well_placed E opts (use_slab E src opts b)"
  unfolding use_slab_def Let_def
  by (auto intro!: with_space_placed simp: near_positions_def)

lemmas use_placed = shapes_placed door_placed double_plant_placed slab_placed

lemma part_a: "up_moves (u_geo E) \<Longrightarrow> use_a E src opts b = Some cs \<Longrightarrow> well_placed E opts cs"
  unfolding use_a_def Let_def by (auto split: if_splits intro!: use_placed with_space_placed)

lemma part_b: "up_moves (u_geo E) \<Longrightarrow> use_b E src opts b = Some cs \<Longrightarrow> well_placed E opts cs"
  unfolding use_b_def Let_def by (auto split: if_splits intro!: use_placed with_space_placed)

lemma part_c: "up_moves (u_geo E) \<Longrightarrow> use_c E src opts b = Some cs \<Longrightarrow> well_placed E opts cs"
  unfolding use_c_def Let_def by (auto split: if_splits intro!: use_placed with_space_placed)

lemma part_d: "up_moves (u_geo E) \<Longrightarrow> use_d E src opts b = Some cs \<Longrightarrow> well_placed E opts cs"
  unfolding use_d_def Let_def by (auto split: if_splits option.splits intro!: use_placed with_space_placed)

lemma part_e: "up_moves (u_geo E) \<Longrightarrow> use_e E src opts b = Some cs \<Longrightarrow> well_placed E opts cs"
  unfolding use_e_def Let_def by (auto split: if_splits intro!: use_placed with_space_placed)

lemma part_f: "up_moves (u_geo E) \<Longrightarrow> use_f E src opts b = Some cs \<Longrightarrow> well_placed E opts cs"
  unfolding use_f_def Let_def by (auto split: if_splits intro!: use_placed with_space_placed)

lemma part_g: "up_moves (u_geo E) \<Longrightarrow> use_g E src opts b = Some cs \<Longrightarrow> well_placed E opts cs"
  unfolding use_g_def Let_def by (auto split: if_splits option.splits intro!: use_placed with_space_placed)

lemma use_on_block_placed:
  assumes "up_moves (u_geo E)"
  shows "well_placed E opts (use_on_block E src opts b)"
  using assms by (auto simp: use_on_block_def find_Some_iff split: option.splits
      dest: part_a part_b part_c part_d part_e part_f part_g)

section \<open>What a placement changes\<close>

text \<open>The block can be walked through, or keeps out of the player's box.\<close>
definition keeps_clear :: "('f, 'd, 'b, 's) place_env \<Rightarrow> 'b \<Rightarrow> bpos \<Rightarrow> (bpos \<Rightarrow> 'b) \<Rightarrow> bool" where
  "keeps_clear E b p src \<longleftrightarrow> can_pass_block (pe_blocks E) b
     \<or> \<not> any_intersects E (boxes_of E b p src) (bounding_box (pe_sim E) (pe_mv E))"

lemma resend_simps [simp]:
  "at_world (resend E p s) = at_world s" "at_inv (resend E p s) = at_inv s" "at_entities (resend E p s) = at_entities s"
  "at_world (sync_inventory E s) = at_world s" "at_entities (sync_inventory E s) = at_entities s"
  "at_world (refuse E p s) = at_world s" "at_entities (refuse E p s) = at_entities s"
  "at_world (deny E pk s) = at_world s" "at_entities (deny E pk s) = at_entities s"
  by (simp_all add: resend_def sync_inventory_def refuse_def deny_def)

lemma put_block_eq: "put_block E p b src q = (if q = p \<and> \<not> g_out_of_bounds (pe_geo E) p then b else src q)"
  by (simp add: put_block_def)

lemma do_place_world:
  "do_place E clicked p f b s = Inr s' \<Longrightarrow> at_world s' = put_block E p b (at_world s)"
  by (auto simp: do_place_def Let_def bind_result_Inr_iff)

lemma place_block_world:
  assumes "place_block E clicked p f b s = Inr s'" "at_world s' q \<noteq> at_world s q"
  shows "q = p \<and> at_world s' q = b \<and> at_world s' = put_block E p b (at_world s) \<and> ul_replaceable (pe_lib E) (at_world s q)
    \<and> keeps_clear E b p (at_world s)"
proof -
  have "at_world s' = at_world s \<or> at_world s' = put_block E p b (at_world s) \<and> ul_replaceable (pe_lib E) (at_world s p)
      \<and> keeps_clear E b p (at_world s)"
    using assms(1)
    by (auto simp: place_block_def Let_def bind_result_Inr_iff keeps_clear_def dest!: do_place_world split: if_splits)
  with assms(2) show ?thesis by (auto simp: put_block_eq split: if_splits)
qed

lemma place_calls_only:
  "place_calls E clicked cs s = Inr s' \<Longrightarrow> at_world s' q \<noteq> at_world s q \<Longrightarrow> q \<in> fst ` set cs"
proof (induction cs arbitrary: s)
  case (Cons c cs)
  obtain p f b s1 where c: "c = (p, f, b)" and one: "place_block E clicked p f b s = Inr s1"
    and rest: "place_calls E clicked cs s1 = Inr s'"
    using Cons.prems(1) by (cases c) (auto simp: bind_result_Inr_iff)
  show ?case using Cons.IH[OF rest] place_block_world[OF one, of q] Cons.prems(2) c
    by (cases "at_world s1 q = at_world s q") auto
qed simp

lemma place_calls_world:
  "place_calls E clicked cs s = Inr s' \<Longrightarrow> distinct (map fst cs) \<Longrightarrow> at_world s' q \<noteq> at_world s q \<Longrightarrow>
    q \<in> fst ` set cs \<and> ul_replaceable (pe_lib E) (at_world s q)
    \<and> (\<exists>src. (\<forall>r. src r \<in> {at_world s r, at_world s' r}) \<and> keeps_clear E (at_world s' q) q src)"
proof (induction cs arbitrary: s)
  case (Cons c cs)
  obtain p f b where c: "c = (p, f, b)" by (cases c) auto
  obtain s1 where one: "place_block E clicked p f b s = Inr s1" and rest: "place_calls E clicked cs s1 = Inr s'"
    using Cons.prems(1) by (auto simp: c bind_result_Inr_iff)
  have fresh: "p \<notin> fst ` set cs" "distinct (map fst cs)" using Cons.prems(2) by (auto simp: c)
  note first = place_block_world[OF one] and ih = Cons.IH[OF rest fresh(2)]
  have at_p: "at_world s' p = at_world s1 p"
    using place_calls_only[OF rest, of p] fresh(1) by blast
  have other: "at_world s1 r = at_world s r" if "r \<noteq> p" for r using first[of r] that by blast
  show ?case
  proof (cases "q = p")
    case True
    with Cons.prems(3) at_p have "at_world s1 p \<noteq> at_world s p" by simp
    with first[of p] True at_p show ?thesis by (auto simp: c)
  next
    case False
    then obtain src where src: "\<forall>r. src r \<in> {at_world s1 r, at_world s' r}" "keeps_clear E (at_world s' q) q src"
      and q: "q \<in> fst ` set cs" "ul_replaceable (pe_lib E) (at_world s q)"
      using ih Cons.prems(3) other[of q] by auto
    have "src r \<in> {at_world s r, at_world s' r}" for r
      using spec[OF src(1), of r] at_p other[of r] by (cases "r = p") simp_all
    with src(2) q show ?thesis by (auto simp: c)
  qed
qed simp

section \<open>Interactions\<close>

lemma bind_Inr [simp]: "bind_result r Inr = r"
  by (cases r) simp_all

lemma place_calls_one: "place_calls E clicked [(p, f, b)] s = place_block E clicked p f b s"
  by (cases "place_block E clicked p f b s") simp_all

lemma at_or_beside_calls:
  "\<exists>q. place_at_or_beside E pk b s = place_calls E (up_pos pk) [(q, face_of_number (up_face pk), b)] s
     \<and> q \<in> near_positions (pe_geo E) (up_pos pk) (face_of_number (up_face pk))"
proof -
  define q where "q = (if \<not> ul_replaceable (pe_lib E) (at_world s (up_pos pk)) \<or> \<not> ul_replaceable_by (pe_lib E) (at_world s (up_pos pk)) b
    then g_side (pe_geo E) (up_pos pk) (face_of_number (up_face pk)) else up_pos pk)"
  show ?thesis by (rule exI[of _ q]) (simp add: place_at_or_beside_def Let_def near_positions_def place_calls_one q_def
      del: place_calls.simps)
qed

text \<open>Using what is held is a list of placements, at different positions near the clicked one.\<close>
lemma use_held_calls:
  assumes "up_moves (pe_geo E)"
  shows "\<exists>cs. use_held E pk h s = place_calls E (up_pos pk) cs s \<and> distinct (map fst cs)
     \<and> fst ` set cs \<subseteq> near_positions (pe_geo E) (up_pos pk) (face_of_number (up_face pk))"
proof -
  have none: ?thesis if "use_held E pk h s = Inr s"
    by (rule exI[of _ "[]"]) (simp add: that)
  have one: ?thesis if "use_held E pk h s = place_at_or_beside E pk b s" for b
  proof -
    obtain q where "place_at_or_beside E pk b s = place_calls E (up_pos pk) [(q, face_of_number (up_face pk), b)] s"
      and "q \<in> near_positions (pe_geo E) (up_pos pk) (face_of_number (up_face pk))"
      using at_or_beside_calls[of E pk b s] by blast
    then show ?thesis unfolding that by (intro exI[of _ "[(q, face_of_number (up_face pk), b)]"]) simp
  qed
  show ?thesis
  proof (cases h)
    case (HeldUsable b)
    show ?thesis
    proof (cases b)
      case (Some b')
      let ?o = "\<lparr>uo_replace = up_pos pk, uo_face = face_of_number (up_face pk), uo_click_y = pe_widen E (vy (up_clicked pk))\<rparr>"
      show ?thesis using use_on_block_placed[OF assms, of ?o "at_world s" b'] HeldUsable Some
        by (auto simp: use_held_def well_placed_def)
    qed (rule none, simp add: use_held_def HeldUsable)
  next
    case HeldUnknown
    show ?thesis
    proof (cases "pe_by_rid E (up_block_rid pk)")
      case (Some b)
      show ?thesis by (rule one[of b]) (simp add: use_held_def HeldUnknown Some)
    qed (rule none, simp add: use_held_def HeldUnknown)
  next
    case (HeldBlock b)
    show ?thesis
    proof (cases "ul_kind (pe_lib E) b = ''Glowstone'' \<and> block_name (pe_blocks E) (at_world s (up_pos pk)) = ''minecraft:respawn_anchor''")
      case True
      show ?thesis by (rule none) (simp add: use_held_def HeldBlock True)
    next
      case False
      show ?thesis by (rule one[of b]) (use False in \<open>auto simp: use_held_def HeldBlock\<close>)
    qed
  qed (rule none, simp add: use_held_def)+
qed

lemma validate_simps:
  "validate_interaction E upk s = (ok, s') \<Longrightarrow> at_world s' = at_world s \<and> at_inv s' = at_inv s \<and> at_entities s' = at_entities s"
  by (auto simp: validate_interaction_def Let_def split: option.splits if_splits)

text \<open>The conditions under which an interaction gets as far as to change a block.\<close>
definition in_reach :: "('f, 'd, 'b, 's) place_env \<Rightarrow> 'f use_pk \<Rightarrow> (bpos \<Rightarrow> 'b) \<Rightarrow> bool" where
  "in_reach E pk src \<longleftrightarrow> up_clicks_block pk \<and> 0 \<le> up_face pk \<and> up_face pk \<le> 5 \<and> ul_kind (pe_lib E) (src (up_pos pk)) \<noteq> ''Air''
     \<and> (pe_mode E = Creative \<or> \<not> fl_less (pe_flt E) (max_interaction_distance (pe_flt E))
          (closest_distance E (interaction_boxes E (src (up_pos pk)) (up_pos pk) src)))"

lemma activate_only: "activate_block U held p src q \<noteq> src q \<Longrightarrow> q = p"
  by (auto simp: activate_block_def toggle_open_def Let_def split: if_splits)

lemma interaction_cases:
  assumes "handle_interaction E upk s = Inr (go, s')" "at_world s' q \<noteq> at_world s q"
  shows "\<exists>pk. upk = Some pk \<and> go \<and> in_reach E pk (at_world s)
    \<and> (ul_activatable (pe_lib E) (at_world s (up_pos pk)) \<and> q = up_pos pk
       \<or> (\<exists>s1 h. use_held E pk h s1 = Inr s' \<and> at_world s1 = at_world s))"
proof -
  obtain ok s1 where v: "validate_interaction E upk s = (ok, s1)" by fastforce
  note same = validate_simps[OF v]
  have att: "attempt_item_interaction E upk s1 = Inr (go, s')"
    using assms v same by (cases ok) (auto simp: handle_interaction_def)
  obtain pk where pk: "upk = Some pk" using att assms(2) same by (cases upk) (auto simp: attempt_item_interaction_def)
  have clicks: "up_clicks_block pk" using att assms(2) same pk by (auto simp: attempt_item_interaction_def split: if_splits)
  then obtain stack where stack: "holding (at_inv s1) = Inr stack"
    using att pk by (auto simp: attempt_item_interaction_def bind_result_Inr_iff)
  show ?thesis using att assms(2) same pk clicks stack
    by (auto simp: attempt_item_interaction_def Let_def bind_result_Inr_iff in_reach_def dest: activate_only split: if_splits)
qed

text \<open>C9: unless the clicked block is one that is activated, a block that an interaction changes could be replaced, and what
  stands there afterwards can be walked through or was placed clear of the player's box, in a world where every block
  is one of before or after.\<close>
theorem placed_block_keeps_clear:
  assumes "up_moves (pe_geo E)" "handle_interaction E (Some pk) s = Inr (go, s')" "at_world s' q \<noteq> at_world s q"
    and "q \<noteq> up_pos pk \<or> \<not> ul_activatable (pe_lib E) (at_world s q)"
  shows "ul_replaceable (pe_lib E) (at_world s q)
    \<and> (\<exists>src. (\<forall>r. src r \<in> {at_world s r, at_world s' r}) \<and> keeps_clear E (at_world s' q) q src)"
proof -
  obtain s1 h where "use_held E pk h s1 = Inr s'" and w: "at_world s1 = at_world s"
    using interaction_cases[OF assms(2,3)] assms(4) by auto
  with use_held_calls[OF assms(1), of pk h s1] obtain cs
    where "place_calls E (up_pos pk) cs s1 = Inr s'" "distinct (map fst cs)" by auto
  from place_calls_world[OF this, of q] assms(3) w show ?thesis by simp
qed

text \<open>C23: an interaction changes blocks only at the clicked position, beside it or up to two above, and only if the clicked
  block is not air and, outside of the creative mode, within six blocks of the eyes; its packet then goes on.\<close>
theorem interaction_stays_near:
  assumes "up_moves (pe_geo E)" "handle_interaction E upk s = Inr (go, s')" "at_world s' q \<noteq> at_world s q"
  shows "\<exists>pk. upk = Some pk \<and> go \<and> in_reach E pk (at_world s)
    \<and> q \<in> near_positions (pe_geo E) (up_pos pk) (face_of_number (up_face pk))"
proof -
  obtain pk where pk: "upk = Some pk" "go" "in_reach E pk (at_world s)"
    and how: "q = up_pos pk \<or> (\<exists>s1 h. use_held E pk h s1 = Inr s' \<and> at_world s1 = at_world s)"
    using interaction_cases[OF assms(2,3)] by auto
  have "q \<in> near_positions (pe_geo E) (up_pos pk) (face_of_number (up_face pk))"
    using how
  proof (elim disjE exE conjE)
    fix s1 h assume u: "use_held E pk h s1 = Inr s'" "at_world s1 = at_world s"
    obtain cs where "place_calls E (up_pos pk) cs s1 = Inr s'"
      "fst ` set cs \<subseteq> near_positions (pe_geo E) (up_pos pk) (face_of_number (up_face pk))"
      using use_held_calls[OF assms(1), of pk h s1] u by auto
    with place_calls_only[OF this(1), of q] assms(3) u(2) show ?thesis by auto
  qed (simp add: near_positions_def)
  with pk show ?thesis by blast
qed

section \<open>Nothing panics\<close>

text \<open>The entities that the server's tracker knows exist and have room for their past.\<close>
definition entities_ok :: "('f, 'd, 'b, 's) place_env \<Rightarrow> ('f vec3, 'f, 'm) ent_store \<Rightarrow> bool" where
  "entities_ok E st \<longleftrightarrow> pe_client_entities E \<or>
     (\<forall>rid a. find_entity rid (pe_tracker E) = Some a \<longrightarrow> (\<exists>e. st a = Some e \<and> 0 < e_history_size e))"

definition actor_ok :: "proto_ids \<Rightarrow> ('f, 'd, 'b, 's) place_env \<Rightarrow> ('f, 's, 'b, 'm) actor \<Rightarrow> bool" where
  "actor_ok K E s \<longleftrightarrow> inv_comp_ok K (at_inv s) \<and> entities_ok E (at_entities s)"

lemma inv_comp_ok_ex: "inv_comp_ok K c \<longleftrightarrow> (\<exists>as. comp_inv K c as)"
  using inv_comp_okI by (auto simp: inv_comp_ok_def)

lemma rewind_total:
  assumes "0 < e_history_size e"
  shows "\<exists>h e'. rewind V t e = Inr (h, e') \<and> e_history_size e' = e_history_size e"
  using assms by (auto simp: rewind_def new_circular_queue_def Let_def split: option.splits prod.splits)

lemma entity_in_way_total:
  "\<not> pe_client_entities E \<Longrightarrow> entities_ok E st \<Longrightarrow> \<exists>hit st'. entity_in_way E boxes rids st = Inr (hit, st') \<and> entities_ok E st'"
proof (induction rids arbitrary: st)
  case (Cons rid rids)
  show ?case
  proof (cases "find_entity rid (pe_tracker E)")
    case (Some a)
    then obtain e where e: "st a = Some e" "0 < e_history_size e" using Cons.prems by (auto simp: entities_ok_def)
    obtain h e' where r: "rewind (pe_vec E) (pe_client_tick E) e = Inr (h, e')" "e_history_size e' = e_history_size e"
      using rewind_total[OF e(2)] by blast
    have "entities_ok E (st(a \<mapsto> e'))" using Cons.prems e r by (auto simp: entities_ok_def)
    from Cons.IH[OF Cons.prems(1) this] this show ?thesis
      using Some e r by (auto simp del: fun_upd_apply)
  qed (use Cons in simp)
qed simp

lemma held_slot:
  assumes "inv_comp_ok K c"
  obtains stack w where "holding c = Inr stack" "win_set_slot WInventory (ic_held c) (g stack) (ic_windows c) = Inr w"
    "inv_comp_ok K (c\<lparr>ic_windows := w\<rparr>)"
proof -
  obtain as where inv: "comp_inv K c as" using assms by (auto simp: inv_comp_ok_ex)
  then have ok: "windows_ok (ic_windows c)" "0 \<le> ic_held c" "ic_held c < win_size WInventory"
    by (auto simp: comp_inv_def win_size_def)
  note cell = win_slot_cell[OF ok(1) _ ok(2,3)]
  have some: "get_window (ic_windows c) WInventory \<noteq> None" by (simp add: get_window_def)
  let ?w = "write_cell (WInventory, phys WInventory (ic_held c)) (g (read_cell (ic_windows c) (WInventory, phys WInventory (ic_held c)))) (ic_windows c)"
  have "comp_inv K (c\<lparr>ic_windows := ?w\<rparr>) as" using inv ok(1) by (simp add: comp_inv_def windows_ok_write)
  then show ?thesis using cell[OF some] that by (auto simp: holding_def inv_comp_ok_ex)
qed

lemma refuse_ok [simp]: "actor_ok K E (refuse E p s) = actor_ok K E s" "actor_ok K E (deny E pk s) = actor_ok K E s"
  by (simp_all add: actor_ok_def refuse_def deny_def sync_inventory_def inv_comp_ok_ex)

lemma place_block_total:
  assumes "actor_ok K E s"
  shows "\<exists>s'. place_block E clicked p f b s = Inr s' \<and> actor_ok K E s'"
proof -
  obtain hit st where way: "(if pe_client_entities E then Inr (client_entity_in_way E (boxes_of E b p (at_world s)) (at_entities s), at_entities s)
      else entity_in_way E (boxes_of E b p (at_world s)) (pe_order E) (at_entities s)) = Inr (hit, st)" "entities_ok E st"
    using assms entity_in_way_total[of E "at_entities s" "boxes_of E b p (at_world s)" "pe_order E"]
    by (cases "pe_client_entities E") (auto simp: actor_ok_def entities_ok_def)
  have s: "actor_ok K E (s\<lparr>at_entities := st\<rparr>)" using assms way(2) by (simp add: actor_ok_def)
  obtain stack w where "holding (at_inv s) = Inr stack"
    "win_set_slot WInventory (ic_held (at_inv s)) (st_grow (pe_stacks E) (-1) stack) (ic_windows (at_inv s)) = Inr w"
    "inv_comp_ok K ((at_inv s)\<lparr>ic_windows := w\<rparr>)"
    using assms held_slot[of K "at_inv s" "st_grow (pe_stacks E) (-1)"] by (auto simp: actor_ok_def)
  then have "\<exists>s'. do_place E clicked p f b (s\<lparr>at_entities := st\<rparr>) = Inr s' \<and> actor_ok K E s'"
    using way(2) by (simp add: do_place_def Let_def actor_ok_def)
  then show ?thesis using assms s by (simp add: place_block_def Let_def way(1))
qed

lemma place_calls_total:
  "actor_ok K E s \<Longrightarrow> \<exists>s'. place_calls E clicked cs s = Inr s' \<and> actor_ok K E s'"
proof (induction cs arbitrary: s)
  case (Cons c cs)
  obtain p f b where "c = (p, f, b)" by (cases c) auto
  with Cons place_block_total[OF Cons.prems, of clicked p f b] show ?case by auto
qed simp

lemma use_held_total:
  assumes "up_moves (pe_geo E)" "actor_ok K E s"
  shows "\<exists>s'. use_held E pk h s = Inr s' \<and> actor_ok K E s'"
  using use_held_calls[OF assms(1), of pk h s] place_calls_total[OF assms(2)] by metis


section \<open>Stacks of plants\<close>

definition down :: "bpos \<Rightarrow> nat \<Rightarrow> bpos" where
  "down p k = (fst p, fst (snd p) - int k, snd (snd p))"

text \<open>What the geometry and the world document: the block below is one lower, and there is nothing below the bottom.\<close>
definition bottomed :: "('d, 'b) use_env \<Rightarrow> (bpos \<Rightarrow> 'b) \<Rightarrow> bool" where
  "bottomed E src \<longleftrightarrow> (\<forall>p. u_side E p FaceDown = down p 1)
     \<and> (\<forall>p. fst (snd p) < g_bottom (u_geo E) \<longrightarrow> u_kind E (src p) = ''Air'')"

text \<open>The blocks of a kind below a position, of which there are \<^verbatim>\<open>k\<close>.\<close>
definition stack_below :: "('d, 'b) use_env \<Rightarrow> (bpos \<Rightarrow> 'b) \<Rightarrow> string \<Rightarrow> bpos \<Rightarrow> nat \<Rightarrow> bool" where
  "stack_below E src kd p k \<longleftrightarrow> (\<forall>i < k. u_kind E (src (down p (Suc i))) = kd) \<and> u_kind E (src (down p (Suc k))) \<noteq> kd"

definition free_around :: "('d, 'b) use_env \<Rightarrow> (bpos \<Rightarrow> 'b) \<Rightarrow> bpos \<Rightarrow> bool" where
  "free_around E src p \<longleftrightarrow> (\<forall>f \<in> set (g_horizontal (u_geo E)). u_kind E (src (u_side E p f)) = ''Air'')"

lemma down_simps [simp]: "down p 0 = p" "down (down p 1) k = down p (Suc k)" "down (down p (Suc 0)) k = down p (Suc k)"
  "fst (snd (down p k)) = fst (snd p) - int k"
  by (simp_all add: down_def)

lemma stack_below_Suc:
  "u_kind E (src (down p 1)) = kd \<Longrightarrow> stack_below E src kd (down p 1) k \<Longrightarrow> stack_below E src kd p (Suc k)"
  by (auto simp: stack_below_def less_Suc_eq_0_disj)

lemma stack_below_0: "u_kind E (src (down p 1)) \<noteq> kd \<Longrightarrow> stack_below E src kd p 0"
  by (simp add: stack_below_def)

lemma all_le_Suc: "(\<forall>i \<le> Suc k. P i) \<longleftrightarrow> P 0 \<and> (\<forall>i \<le> k. P (Suc i))"
  by (auto simp: less_Suc_eq_0_disj simp flip: less_Suc_eq_le)

lemma above_bottom:
  assumes "bottomed E src" "u_kind E (src (down p 1)) = kd" "kd \<noteq> ''Air''"
  shows "g_bottom (u_geo E) < fst (snd p)"
proof (rule ccontr)
  assume "\<not> g_bottom (u_geo E) < fst (snd p)"
  then have "fst (snd (down p 1)) < g_bottom (u_geo E)" by simp
  with assms show False unfolding bottomed_def by metis
qed

lemma cactus_scan:
  assumes "bottomed E src"
  shows "nat (fst (snd p) - g_bottom (u_geo E)) < n \<Longrightarrow>
    \<exists>k. stack_below E src ''Cactus'' p k
      \<and> can_cactus_grow_on E src n p True = Some ((\<forall>i \<le> k. free_around E src (down p i))
          \<and> supports_vegetation E (ul_make (u_lib E) ''Cactus'' []) (src (down p (Suc k))))"
proof (induction n arbitrary: p)
  case (Suc n)
  have side: "u_side E p FaceDown = down p 1" for p using assms unfolding bottomed_def by blast
  show ?case
  proof (cases "u_kind E (src (down p 1)) = ''Cactus''")
    case True
    have "nat (fst (snd (down p 1)) - g_bottom (u_geo E)) < n"
      using above_bottom[OF assms True] Suc.prems by simp
    from Suc.IH[OF this] obtain k where k: "stack_below E src ''Cactus'' (down p 1) k"
      "can_cactus_grow_on E src n (down p 1) True = Some ((\<forall>i \<le> k. free_around E src (down (down p 1) i))
          \<and> supports_vegetation E (ul_make (u_lib E) ''Cactus'' []) (src (down (down p 1) (Suc k))))" by blast
    from stack_below_Suc[OF True k(1)] k(2) True show ?thesis
      by (intro exI[of _ "Suc k"]) (auto simp: side all_le_Suc free_around_def list_all_iff)
  next
    case False
    with stack_below_0[of E src p "''Cactus''"] show ?thesis
      by (intro exI[of _ 0]) (auto simp: side free_around_def list_all_iff)
  qed
qed simp

lemma cane_scan:
  assumes "bottomed E src"
  shows "nat (fst (snd p) - g_bottom (u_geo E)) < n \<Longrightarrow>
    \<exists>k. stack_below E src ''SugarCane'' p k
      \<and> can_sugar_cane_grow_on E src n p True = Some (supports_vegetation E (ul_make (u_lib E) ''SugarCane'' []) (src (down p (Suc k)))
          \<and> (\<exists>f \<in> set (g_horizontal (u_geo E)). is_water_at E src (down (u_side E (down p k) f) 1)))"
proof (induction n arbitrary: p)
  case (Suc n)
  have side: "u_side E p FaceDown = down p 1" for p using assms unfolding bottomed_def by blast
  have sub: "(fst p, fst (snd p) - 1, snd (snd p)) = down p 1" by (simp add: down_def)
  show ?case
  proof (cases "u_kind E (src (down p 1)) = ''SugarCane''")
    case True
    have "nat (fst (snd (down p 1)) - g_bottom (u_geo E)) < n"
      using above_bottom[OF assms True] Suc.prems by simp
    from Suc.IH[OF this] obtain k where k: "stack_below E src ''SugarCane'' (down p 1) k"
      "can_sugar_cane_grow_on E src n (down p 1) True = Some (supports_vegetation E (ul_make (u_lib E) ''SugarCane'' []) (src (down (down p 1) (Suc k)))
          \<and> (\<exists>f \<in> set (g_horizontal (u_geo E)). is_water_at E src (down (u_side E (down (down p 1) k) f) 1)))" by blast
    from stack_below_Suc[OF True k(1)] k(2) True show ?thesis
      by (intro exI[of _ "Suc k"]) (auto simp: side)
  next
    case False
    with stack_below_0[of E src p "''SugarCane''"] show ?thesis
      by (intro exI[of _ 0]) (auto simp: side sub list_ex_iff)
  qed
qed simp

text \<open>C37: the recursion down a stack of plants ends within the depth that is allowed for, and decides: a cactus needs free
  sides at every level of the stack and soil under it, a sugar cane soil with water beside it under the stack.\<close>
theorem plant_search_ends:
  assumes "bottomed E src"
  shows "(\<exists>k. stack_below E src ''Cactus'' p k
      \<and> can_cactus_grow_on E src (growth_depth E p) p True = Some ((\<forall>i \<le> k. free_around E src (down p i))
          \<and> supports_vegetation E (ul_make (u_lib E) ''Cactus'' []) (src (down p (Suc k)))))
    \<and> (\<exists>k. stack_below E src ''SugarCane'' p k
      \<and> can_sugar_cane_grow_on E src (growth_depth E p) p True = Some (supports_vegetation E (ul_make (u_lib E) ''SugarCane'' []) (src (down p (Suc k)))
          \<and> (\<exists>f \<in> set (g_horizontal (u_geo E)). is_water_at E src (down (u_side E (down p k) f) 1))))"
  using cactus_scan[OF assms, of p "growth_depth E p"] cane_scan[OF assms, of p "growth_depth E p"]
  by (simp add: growth_depth_def)

section \<open>A door on a stone\<close>

text \<open>Blocks are numbers: air, stone, the lower and the upper half of a door.  Nothing has boxes.\<close>
definition door_geometry :: geometry where
  "door_geometry = \<lparr>g_side = \<lambda>(x, y, z) f. (case f of FaceDown \<Rightarrow> (x, y - 1, z) | FaceUp \<Rightarrow> (x, y + 1, z)
       | FaceNorth \<Rightarrow> (x, y, z - 1) | FaceSouth \<Rightarrow> (x, y, z + 1) | FaceWest \<Rightarrow> (x - 1, y, z) | FaceEast \<Rightarrow> (x + 1, y, z)),
     g_opposite = \<lambda>f. f, g_axis = \<lambda>_. AxisY, g_direction = \<lambda>_. North, g_face = \<lambda>_. FaceNorth, g_dir_opposite = \<lambda>d. d,
     g_left = \<lambda>d. d, g_right = \<lambda>d. d, g_orientation_opposite = \<lambda>n. n,
     g_horizontal = [FaceNorth, FaceSouth, FaceWest, FaceEast], g_out_of_bounds = \<lambda>_. False, g_bottom = -64\<rparr>"

definition door_lib :: "int use_lib" where
  "door_lib = \<lparr>ul_kind = \<lambda>b. if b = 0 then ''Air'' else if b = 1 then ''Stone'' else ''WoodDoor'',
     ul_set = \<lambda>_ b. b, ul_make = \<lambda>_ _. 3, ul_new = \<lambda>_. 0, ul_new_facing = \<lambda>_ _. 0, ul_replaceable = \<lambda>b. b = 0,
     ul_replaceable_by = \<lambda>_ _. True, ul_activatable = \<lambda>b. 2 \<le> b, ul_liquid_depth = \<lambda>_. None, ul_liquid_type = \<lambda>_. [],
     ul_soil_for = \<lambda>_ _. None, ul_face_solid = \<lambda>b _ _ _. b = 1, ul_diffusion = \<lambda>_. None, ul_door_model = \<lambda>_. False,
     ul_empty_model = \<lambda>b. b = 0, ul_solid_model = \<lambda>b. b = 1, ul_jungle_wood = \<lambda>_. False, ul_normal_deepslate = \<lambda>_. False,
     ul_item_id = \<lambda>_. ([], 0), ul_double = \<lambda>_. False, ul_top = \<lambda>_. False, ul_open = \<lambda>_. False, ul_count = \<lambda>_. 0,
     ul_bites = \<lambda>_. 0, ul_level = \<lambda>_. 0, ul_facing_face = \<lambda>_. FaceUp\<rparr>"

definition door_use :: "(real, int) use_env" where
  "door_use = \<lparr>u_num = real_flt, u_geo = door_geometry, u_lib = door_lib, u_pos_y = 1, u_block_pos = (4, 1, 4),
     u_eye_height = None, u_direction = North, u_orientation = 0\<rparr>"

definition no_tracker :: tracker where "no_tracker = \<lparr>tr_entities = Map.empty, tr_client = False\<rparr>"

definition door_env :: "(real, real, int, int) place_env" where
  "door_env = \<lparr>pe_sim = (stone_world real_flt (\<lambda>_. 0))\<lparr>se_blocks := stone_blocks\<lparr>bk_model_boxes := \<lambda>_ _ _. []\<rparr>\<rparr>,
     pe_use = door_use, pe_vec = \<lparr>v_zero = (0, 0, 0), v_add = \<lambda>a b. a, v_sub = \<lambda>a b. a, v_mul_inv = \<lambda>_ v. v, v_lower = \<lambda>v. v\<rparr>,
     pe_stacks = count_stacks, pe_held = \<lambda>n. if n = 0 then HeldNil else HeldUsable (Some 2),
     pe_held_item = \<lambda>_. \<lparr>hi_fire_aspect = False, hi_name = ''minecraft:wooden_door''\<rparr>, pe_cube = demo_cube,
     pe_rid = word_of_int, pe_by_rid = \<lambda>_. None, pe_widen = \<lambda>x. x, pe_mv = edge_player, pe_mode = Creative, pe_recent = True,
     pe_client_entities = True, pe_max_chain = -1, pe_tracker = no_tracker, pe_order = [], pe_client_tracker = no_tracker,
     pe_client_order = [], pe_client_tick = 0, pe_server_conn = False\<rparr>"

definition door_windows :: "int \<Rightarrow> int windows" where
  "door_windows n = (new_windows count_stacks)\<lparr>p_inventory := (new_inventory count_stacks 36)\<lparr>iv_items := n # replicate 35 0\<rparr>\<rparr>"

definition door_stack :: "int \<Rightarrow> int inv_comp" where
  "door_stack n = (new_inventory_component count_stacks)\<lparr>ic_windows := door_windows n\<rparr>"

lemma door_stack_simps [simp]: "ic_windows (door_stack n) = door_windows n" "ic_held (door_stack n) = 0"
  "(door_stack n)\<lparr>ic_windows := door_windows m\<rparr> = door_stack m"
  by (simp_all add: door_stack_def new_inventory_component_def)

lemma door_slots [simp]:
  "holding (door_stack n) = Inr n" "win_set_slot WInventory 0 m (door_windows n) = Inr (door_windows m)"
  by (simp_all add: holding_def win_slot_def win_set_slot_def get_window_def put_window_def inv_slot_def inv_set_slot_def
      resolve_slot_def new_inventory_def go_index_def door_windows_def)

definition one_stone :: "bpos \<Rightarrow> int" where "one_stone p = (if p = (0, 0, 0) then 1 else 0)"

definition door_actor :: "(real, int, int, unit) actor" where
  "door_actor = \<lparr>at_world = one_stone,
     at_wu = \<lparr>wu_radius = 16, wu_server_radius = 16, wu_pending = Map.empty, wu_batch = new_block_batch,
              wu_placements = ([], Map.empty), wu_breaking = None\<rparr>,
     at_inv = door_stack 64, at_entities = Map.empty, at_accepted = True, at_resent = []\<rparr>"

definition door_pk :: "real use_pk" where
  "door_pk = \<lparr>up_clicks_block = True, up_prediction = PredictSuccess, up_face = 1, up_pos = (0, 0, 0),
     up_clicked = (0, 1, 0), up_block_rid = 0\<rparr>"

text \<open>The two halves are placed one by one, and each takes an item: a door costs two.\<close>
lemma door_costs_two:
  "handle_interaction door_env (Some door_pk) door_actor
     = Inr (True, door_actor\<lparr>at_world := one_stone((0, 1, 0) := 2, (0, 2, 0) := 3), at_inv := door_stack 62\<rparr>)"
proof -
  have calls: "use_on_block door_use one_stone \<lparr>uo_replace = (0, 0, 0), uo_face = FaceUp, uo_click_y = 1\<rparr> 2
      = [((0, 1, 0), FaceUp, 2), ((0, 2, 0), FaceUp, 3)]"
    by (simp add: use_on_block_def use_a_def use_b_def use_c_def use_d_def use_e_def use_f_def use_g_def Let_def
        door_use_def door_lib_def door_geometry_def use_door_def replaceable_with_def face_solid_at_def one_stone_def hinge_right_def)
  have boxes: "boxes_of door_env b p src = []" for b p src
    by (simp add: boxes_of_def door_env_def stone_world_def block_collisions_def stone_blocks_def unknown_block_def)
  have env: "pe_mode door_env = Creative" "pe_use door_env = door_use" "pe_stacks door_env = count_stacks" "pe_client_entities door_env"
    "pe_held door_env 64 = HeldUsable (Some 2)" "pe_max_chain door_env = -1" "pe_client_order door_env = []"
    "u_lib door_use = door_lib" "u_geo door_use = door_geometry" "pe_widen door_env x = x" for x
    by (simp_all add: door_env_def door_use_def)
  have lib: "ul_kind door_lib 1 = ''Stone''" "\<not> ul_activatable door_lib 1" "ul_replaceable door_lib 0" "\<not> g_out_of_bounds door_geometry p" for p
    by (simp_all add: door_lib_def door_geometry_def)
  have place: "place_block door_env (0, 0, 0) p f b s = Inr (s\<lparr>at_inv := door_stack (n - 1), at_world := (at_world s)(p := b)\<rparr>)"
    if "at_world s p = 0" "at_inv s = door_stack n" "0 < n" for p f b n and s :: "(real, int, int, unit) actor"
    using that
    by (simp add: place_block_def do_place_def Let_def boxes env lib any_intersects_def client_entity_in_way_def put_block_def
        queue_block_placement_def count_stacks_def)
  have here: "one_stone (0, 0, 0) = 1" by (simp add: one_stone_def)
  show ?thesis
    by (simp add: handle_interaction_def validate_interaction_def attempt_item_interaction_def Let_def env lib door_actor_def
        door_pk_def here ghost_chain_exceeded_def use_held_def face_of_number_def)
      (simp add: calls place[where n = 64] place[where n = 63] one_stone_def)
qed

lemma door_geometry_up: "up_moves (pe_geo door_env)"
  by (simp add: up_moves_def door_env_def door_use_def door_geometry_def)

lemma door_changes: "at_world (door_actor\<lparr>at_world := one_stone((0, 1, 0) := 2, (0, 2, 0) := 3), at_inv := door_stack 62\<rparr>) (0, 1, 0)
    \<noteq> at_world door_actor (0, 1, 0)"
  "at_world (door_actor\<lparr>at_world := one_stone((0, 1, 0) := 2, (0, 2, 0) := 3), at_inv := door_stack 62\<rparr>) (0, 2, 0)
    \<noteq> at_world door_actor (0, 2, 0)"
  by (simp_all add: door_actor_def one_stone_def)

theorem placed_block_keeps_clear_witness:
  "\<exists>src. (\<forall>r. src r \<in> {one_stone r, (one_stone((0, 1, 0) := 2, (0, 2, 0) := 3)) r}) \<and> keeps_clear door_env 2 (0, 1, 0) src"
proof -
  have pk: "up_pos door_pk = (0, 0, 0)" by (simp add: door_pk_def)
  have w: "at_world door_actor = one_stone" by (simp add: door_actor_def)
  show ?thesis using placed_block_keeps_clear[OF door_geometry_up door_costs_two door_changes(1)] by (simp add: pk w)
qed

theorem interaction_stays_near_witness:
  "(0, 2, 0) \<in> near_positions door_geometry (0, 0, 0) FaceUp"
  using interaction_stays_near[OF door_geometry_up door_costs_two door_changes(2)]
  by (simp add: door_pk_def face_of_number_def door_env_def door_use_def)

lemma door_actor_ok: "actor_ok sample_ids door_env door_actor"
proof -
  have "windows_ok (door_windows 64)"
    using windows_ok_new[of count_stacks]
    by (auto simp: door_windows_def windows_ok_def window_shape_def inventory_wf_def new_windows_def get_window_def
        new_inventory_def set_special_slot_def)
  then have "comp_inv sample_ids (door_stack 64) []"
    by (simp add: comp_inv_def req_bounds_def) (simp add: door_stack_def new_inventory_component_def)
  then show ?thesis by (auto simp: actor_ok_def inv_comp_ok_ex door_actor_def entities_ok_def door_env_def)
qed


text \<open>Two cacti on sand: a third one can be put on top.\<close>
definition cactus_use :: "(real, int) use_env" where
  "cactus_use = door_use\<lparr>u_lib := door_lib\<lparr>ul_kind := \<lambda>b. if b = 0 then ''Air'' else if b = 1 then ''Sand'' else ''Cactus'',
     ul_soil_for := \<lambda>b _. if b = 1 then Some True else None\<rparr>\<rparr>"

definition cactus_world :: "bpos \<Rightarrow> int" where
  "cactus_world p = (if p = (0, 0, 0) then 1 else if p = (0, 1, 0) \<or> p = (0, 2, 0) then 2 else 0)"

lemma cactus_bottomed: "bottomed cactus_use cactus_world"
  by (auto simp: bottomed_def cactus_use_def door_use_def door_geometry_def door_lib_def cactus_world_def down_def)

theorem plant_search_ends_witness:
  "can_cactus_grow_on cactus_use cactus_world (growth_depth cactus_use (0, 3, 0)) (0, 3, 0) True = Some True"
proof -
  obtain k where k: "stack_below cactus_use cactus_world ''Cactus'' (0, 3, 0) k"
    "can_cactus_grow_on cactus_use cactus_world (growth_depth cactus_use (0, 3, 0)) (0, 3, 0) True
       = Some ((\<forall>i \<le> k. free_around cactus_use cactus_world (down (0, 3, 0) i))
          \<and> supports_vegetation cactus_use (ul_make (u_lib cactus_use) ''Cactus'' []) (cactus_world (down (0, 3, 0) (Suc k))))"
    using plant_search_ends[OF cactus_bottomed, of "(0, 3, 0)"] by blast
  have kind: "u_kind cactus_use (cactus_world (down (0, 3, 0) i)) = ''Cactus'' \<longleftrightarrow> i = 1 \<or> i = 2" for i
    by (auto simp: cactus_use_def cactus_world_def down_def)
  have "k = 2"
  proof (rule ccontr)
    assume "k \<noteq> 2"
    then consider "k = 0" | "k = 1" | "2 < k" by linarith
    then show False using k(1) kind by cases (auto simp: stack_below_def)
  qed
  moreover have "free_around cactus_use cactus_world (down (0, 3, 0) i)" for i
    by (auto simp: free_around_def cactus_use_def door_use_def door_geometry_def cactus_world_def down_def)
  moreover have "supports_vegetation cactus_use v (cactus_world (down (0, 3, 0) 3))" for v
    by (simp add: supports_vegetation_def cactus_use_def cactus_world_def down_def)
  ultimately show ?thesis using k(2) by (simp add: eval_nat_numeral)
qed

end
