(* ===== verification/ItemProps.thy ===== *)
theory ItemProps
  imports ItemUse PlacingProps CombatProps
begin

text \<open>
  Transactions of the client: throws keep their distance, drops take what they say, and what the slot that a packet
  names can do.
\<close>

section \<open>Throws\<close>

text \<open>Whether a transaction throws a projectile: what is held once the slot of the packet is.\<close>
definition throws_projectile :: "('f, 'd, 'b, 's, 'n) item_env \<Rightarrow> ('f, 'n) client_tx \<Rightarrow> ('f, 's, 'b, 'm, 'n, 'k) user \<Rightarrow> bool" where
  "throws_projectile E tr s = (case tr of
      TrUse t \<Rightarrow> ut_clicks_air t \<and> (case holding (set_held_slot (ut_slot t) (us_inv s)) of
         Inl _ \<Rightarrow> False
       | Inr stack \<Rightarrow> ie_is_projectile E stack \<and> \<not> (ie_is_firework E stack \<and> sn_gliding (mv_stance (us_mv s))))
    | _ \<Rightarrow> False)"

text \<open>A run of transactions, with anything else that happens before each; the inputs at which a throw is forwarded.\<close>
fun run_txs ::
  "('f, 'd, 'b, 's, 'n) item_env \<Rightarrow> ((('f, 's, 'b, 'm, 'n, 'k) user \<Rightarrow> ('f, 's, 'b, 'm, 'n, 'k) user) \<times> ('f, 'n) client_tx) list
   \<Rightarrow> ('f, 's, 'b, 'm, 'n, 'k) user \<Rightarrow> (int list \<times> ('f, 's, 'b, 'm, 'n, 'k) user) result" where
  "run_txs E [] s = Inr ([], s)"
| "run_txs E ((g, tr) # txs) s =
    (let s = g s
     in bind_result (handle_transaction E tr s) (\<lambda>(oc, s').
        bind_result (run_txs E txs s') (\<lambda>(ts, s'').
          Inr (if throws_projectile E tr s \<and> \<not> oc_cancelled oc then us_input_count s # ts else ts, s''))))"

lemma with_clicks_simps [simp]:
  "us_actor (with_clicks g s) = us_actor s" "us_last_projectile (with_clicks g s) = us_last_projectile s"
  "us_input_count (with_clicks g s) = us_input_count s" "us_mv (with_clicks g s) = us_mv s"
  by (simp_all add: with_clicks_def split: prod.split)

lemma on_inv_simps [simp]:
  "us_inv (on_inv g s) = g (us_inv s)" "us_last_projectile (on_inv g s) = us_last_projectile s"
  "us_input_count (on_inv g s) = us_input_count s" "us_mv (on_inv g s) = us_mv s"
  by (simp_all add: on_inv_def)

lemma attack_keeps:
  "attack_server E pk s = Inr s' \<Longrightarrow> us_last_projectile s' = us_last_projectile s \<and> us_inv s' = us_inv s"
  "attack_client E pk s = Inr s' \<Longrightarrow> us_last_projectile s' = us_last_projectile s \<and> us_inv s' = us_inv s"
  by (auto simp: attack_server_def attack_client_def bind_result_Inr_iff split: if_splits)

lemma consume_keeps: "consume_item E c slot s = (step, s') \<Longrightarrow> us_last_projectile s' = us_last_projectile s"
  by (auto simp: consume_item_def sync_user_def split: if_splits)

text \<open>A step sets the last throw exactly when it is a throw that goes on, which is late enough then.\<close>
lemma step_throws:
  assumes "tx_step_of E tr s = Inr (step, s')"
  shows "if throws_projectile E tr s
    then step = Leave \<lparr>oc_cancelled = True, oc_detected = False\<rparr> \<and> us_last_projectile s' = us_last_projectile s
       \<or> step = Next False \<and> us_last_projectile s' = us_input_count s \<and> us_last_projectile s + 4 \<le> us_input_count s
    else us_last_projectile s' = us_last_projectile s"
proof (cases tr)
  case (TrUse t)
  let ?s = "with_clicks (clicks_handle_right (pe_recent (ie_place E)) (ut_player_input t) (us_input_count s))
    (on_inv (set_held_slot (ut_slot t)) s)"
  show ?thesis
  proof (cases "ut_clicks_air t")
    case True
    then obtain stack where stack: "holding (set_held_slot (ut_slot t) (us_inv s)) = Inr stack"
      using assms TrUse by (auto simp: tx_step_of_def use_item_step_def use_in_air_def Let_def bind_result_Inr_iff)
    show ?thesis
    proof (cases "throws_projectile E tr s")
      case True
      with assms TrUse stack \<open>ut_clicks_air t\<close> have "throw_item E (ut_slot t) stack ?s = Inr (step, s')"
        by (auto simp: tx_step_of_def use_item_step_def use_in_air_def Let_def throws_projectile_def)
      with True show ?thesis by (auto simp: throw_item_def bind_result_Inr_iff sync_user_def split: if_splits)
    next
      case False
      with assms TrUse stack \<open>ut_clicks_air t\<close> show ?thesis
        by (auto simp: tx_step_of_def use_item_step_def use_in_air_def Let_def throws_projectile_def boost_glide_def
            dest!: consume_keeps split: if_splits option.splits)
    qed
  qed (use assms TrUse in \<open>auto simp: tx_step_of_def use_item_step_def throws_projectile_def Let_def\<close>)
next
  case (TrEntity pk attack)
  with assms show ?thesis
    by (auto simp: tx_step_of_def throws_projectile_def use_on_entity_def Let_def bind_result_Inr_iff
        dest!: attack_keeps split: if_splits)
next
  case (TrNormal as)
  with assms show ?thesis
    by (auto simp: tx_step_of_def throws_projectile_def drop_step_def Let_def bind_result_Inr_iff split: if_splits option.splits)
qed (use assms in \<open>auto simp: tx_step_of_def throws_projectile_def\<close>)

lemma transaction_cases:
  assumes "handle_transaction E tr s = Inr (oc, s')"
  obtains (leaves) "tx_step_of E tr s = Inr (Leave oc, s')"
    | (goes_on) c s1 go a where "tx_step_of E tr s = Inr (Next c, s1)"
        "handle_interaction (us_place E s1) (use_of tr) (us_actor s1) = Inr (go, a)"
        "oc = \<lparr>oc_cancelled = c \<or> \<not> go, oc_detected = True\<rparr>" "s' = s1\<lparr>us_actor := a\<rparr>"
proof -
  obtain step s1 where one: "tx_step_of E tr s = Inr (step, s1)"
    using assms by (auto simp: handle_transaction_def bind_result_Inr_iff)
  show ?thesis
  proof (cases step)
    case (Leave o')
    with assms one show ?thesis by (intro leaves) (simp add: handle_transaction_def)
  next
    case (Next c)
    with assms one goes_on show ?thesis by (auto simp: handle_transaction_def bind_result_Inr_iff)
  qed
qed

lemma transaction_throws:
  assumes "handle_transaction E tr s = Inr (oc, s')"
  shows "if throws_projectile E tr s \<and> \<not> oc_cancelled oc
    then us_last_projectile s' = us_input_count s \<and> us_last_projectile s + 4 \<le> us_input_count s
    else us_last_projectile s' = us_last_projectile s \<or> us_last_projectile s + 4 \<le> us_last_projectile s'"
  using assms
proof (cases rule: transaction_cases)
  case leaves
  with step_throws[OF leaves] show ?thesis by (auto split: if_splits)
next
  case (goes_on c s1 go a)
  with step_throws[OF goes_on(1)] show ?thesis by (auto split: if_splits)
qed

lemma successively_weaken: "successively (\<lambda>a b. a + 4 \<le> b) (x # xs) \<Longrightarrow> y \<le> x \<Longrightarrow> successively (\<lambda>a b. a + 4 \<le> b) (y # xs)"
  for x y :: int
  by (cases xs) auto

text \<open>C38: whatever happens between the transactions, as long as it leaves the input of the last throw alone, the throws that
  are forwarded are at least four inputs apart.\<close>
theorem throws_are_spaced:
  assumes "run_txs E txs s = Inr (ts, s')" "\<forall>(g, tr) \<in> set txs. \<forall>s. us_last_projectile (g s) = us_last_projectile s"
  shows "successively (\<lambda>a b. a + 4 \<le> b) (us_last_projectile s # ts)"
  using assms
proof (induction txs arbitrary: s ts)
  case (Cons e txs)
  obtain g tr where e: "e = (g, tr)" by fastforce
  obtain oc s1 ts' where one: "handle_transaction E tr (g s) = Inr (oc, s1)" and rest: "run_txs E txs s1 = Inr (ts', s')"
    and ts: "ts = (if throws_projectile E tr (g s) \<and> \<not> oc_cancelled oc then us_input_count (g s) # ts' else ts')"
    using Cons.prems(1) by (auto simp: e Let_def bind_result_Inr_iff)
  have ih: "successively (\<lambda>a b. a + 4 \<le> b) (us_last_projectile s1 # ts')" using Cons.IH[OF rest] Cons.prems(2) by simp
  have g: "us_last_projectile (g s) = us_last_projectile s" using Cons.prems(2) by (auto simp: e)
  show ?case
  proof (cases "throws_projectile E tr (g s) \<and> \<not> oc_cancelled oc")
    case True
    with transaction_throws[OF one] ih g ts show ?thesis by simp
  next
    case False
    with transaction_throws[OF one] g have "us_last_projectile s \<le> us_last_projectile s1" by auto
    with successively_weaken[OF ih] ts False show ?thesis by simp
  qed
qed simp

section \<open>Drops\<close>

text \<open>A drop that goes on takes from the named slot of the inventory exactly what it says, which was there, and leaves every
  other slot and window alone; one that does not changes nothing.\<close>
theorem drop_takes_what_it_says:
  assumes "stack_laws (pe_stacks (ie_place E))" "windows_ok (ic_windows (us_inv s))"
    and "handle_transaction E (TrNormal as) s = Inr (oc, s')"
  shows "if oc_detected oc
    then \<exists>slot n stack. drop_slot E as = Some slot \<and> drop_count as = Some n \<and> slot < 36
       \<and> win_slot (ic_windows (us_inv s)) WInventory (int slot) = Inr stack \<and> int n \<le> st_count (pe_stacks (ie_place E)) stack
       \<and> (\<exists>rest. ic_windows (us_inv s') = write_cell (WInventory, slot) rest (ic_windows (us_inv s))
            \<and> st_count (pe_stacks (ie_place E)) rest = st_count (pe_stacks (ie_place E)) stack - int n)
    else us_inv s' = us_inv s"
  using assms(3)
proof (cases rule: transaction_cases)
  case leaves
  then show ?thesis
    by (auto simp: tx_step_of_def drop_step_def Let_def bind_result_Inr_iff split: if_splits option.splits)
next
  case (goes_on c s1 go a)
  then have det: "oc_detected oc" and inv: "us_inv s' = us_inv s1"
      by (auto simp: use_of_def handle_interaction_def validate_interaction_def attempt_item_interaction_def)
    obtain slot n stack w where d: "drop_slot E as = Some slot" "drop_count as = Some n"
      and stack: "win_slot (ic_windows (us_inv s)) WInventory (int slot) = Inr stack"
      and enough: "int n \<le> st_count (pe_stacks (ie_place E)) stack"
      and w: "win_set_slot WInventory (int slot) (st_grow (pe_stacks (ie_place E)) (- int n) stack) (ic_windows (us_inv s)) = Inr w"
      and s1: "us_inv s1 = (us_inv s)\<lparr>ic_windows := w\<rparr>"
      using goes_on(1) by (auto simp: tx_step_of_def drop_step_def Let_def bind_result_Inr_iff split: if_splits option.splits)
    have some: "get_window (ic_windows (us_inv s)) WInventory \<noteq> None" by (simp add: get_window_def)
    obtain i where i: "get_window (ic_windows (us_inv s)) WInventory = Some i" using some by auto
    have shape: "window_shape WInventory i" by (rule windows_okD[OF assms(2) i])
    have "slot_valid i (int slot)"
      using inv_slot_invalid[of i "int slot"] stack i by (auto simp: win_slot_def)
    then have slot: "slot < 36" using shape by (auto simp: slot_valid_def shape_resolve shape_size win_size_def)
    have cell: "w = write_cell (WInventory, slot) (st_grow (pe_stacks (ie_place E)) (- int n) stack) (ic_windows (us_inv s))"
      using win_slot_cell(2)[OF assms(2) some, of "int slot"] slot w by (simp add: win_size_def phys_def)
    have "st_count (pe_stacks (ie_place E)) (st_grow (pe_stacks (ie_place E)) (- int n) stack)
        = st_count (pe_stacks (ie_place E)) stack - int n"
      using assms(1) enough by (simp add: stack_laws_def)
    then show ?thesis using det inv s1 d stack enough slot cell by auto
qed

section \<open>Snowballs\<close>

text \<open>A stack of snowballs in the first slot.\<close>
definition snow_env :: "(real, real, int, int, unit) item_env" where
  "snow_env = \<lparr>ie_place = door_env, ie_combat = close_env, ie_client_combat = close_env, ie_is_firework = \<lambda>_. False,
     ie_is_projectile = \<lambda>n. 0 < n, ie_consumable = \<lambda>_. None, ie_window_inventory = 0\<rparr>"

definition snow_user :: "int \<Rightarrow> int \<Rightarrow> int \<Rightarrow> (real, int, int, unit, unit, unit) user" where
  "snow_user n prev now = \<lparr>us_actor = door_actor\<lparr>at_inv := door_stack n\<rparr>, us_mv = edge_player,
     us_combat = new_combat real_flt (cv_opts close_env) False, us_client_combat = new_combat real_flt (cv_opts close_env) True,
     us_clicks = new_clicks_component, us_hooks = [], us_input_count = now, us_last_projectile = prev, us_consume_tick = 0,
     us_consumed_slot = 0, us_hungry = False, us_since_attack = 0, us_closed = False, us_equipment = ()\<rparr>"

text \<open>A throw from a slot.\<close>
definition throw_from :: "int \<Rightarrow> (real, unit) client_tx" where
  "throw_from slot = TrUse \<lparr>ut_slot = slot, ut_clicks_air = True, ut_player_input = False, ut_use = door_pk\<lparr>up_clicks_block := False\<rparr>\<rparr>"

definition at_input :: "int \<Rightarrow> (real, int, int, unit, unit, unit) user \<Rightarrow> (real, int, int, unit, unit, unit) user" where
  "at_input n s = s\<lparr>us_input_count := n\<rparr>"

lemma door_env_fields [simp]: "pe_mode door_env = Creative" "pe_stacks door_env = count_stacks" "pe_recent door_env"
  "\<not> pe_server_conn door_env"
  by (simp_all add: door_env_def)

lemma at_input_snow [simp]: "at_input m (snow_user n prev now) = snow_user n prev m"
  by (simp add: at_input_def snow_user_def)

lemma held_zero [simp]: "set_held_slot 0 (door_stack n) = door_stack n" "force_sync False (door_stack n) = (door_stack n)\<lparr>ic_pending_sync := True\<rparr>"
  by (simp_all add: set_held_slot_def door_stack_def new_inventory_component_def force_sync_def)

lemma snow_simps [simp]:
  "us_inv (snow_user n prev now) = door_stack n" "us_input_count (snow_user n prev now) = now" "us_mv (snow_user n prev now) = edge_player"
  "us_clicks (snow_user n prev now) = new_clicks_component" "us_last_projectile (snow_user n prev now) = prev"
  "on_inv (\<lambda>c. c\<lparr>ic_windows := door_windows m\<rparr>) (snow_user n prev now) = snow_user m prev now"
  "us_hooks (snow_user n prev now) = []"
  by (simp_all add: snow_user_def on_inv_def)

lemma throw_first:
  assumes "prev + 4 \<le> now" "0 < n"
  shows "handle_transaction snow_env (throw_from 0) (snow_user n prev now)
    = Inr (\<lparr>oc_cancelled = False, oc_detected = True\<rparr>, snow_user (n - 1) now now)"
proof -
  have "on_inv (set_held_slot 0) (snow_user n prev now) = snow_user n prev now"
    "with_clicks (clicks_handle_right True False now) (snow_user n prev now) = snow_user n prev now"
    by (simp_all add: on_inv_def with_clicks_def clicks_handle_right_def snow_user_def)
  moreover have "(snow_user n prev now)\<lparr>us_last_projectile := now\<rparr> = snow_user n now now"
    "(snow_user n prev now)\<lparr>us_actor := us_actor (snow_user n prev now)\<rparr> = snow_user n prev now" for n prev
    by (simp_all add: snow_user_def)
  moreover have "st_grow count_stacks (- 1) n = n - 1" using assms(2) by (simp add: count_stacks_def)
  ultimately show ?thesis using assms
    by (simp add: handle_transaction_def tx_step_of_def throw_from_def use_item_step_def snow_env_def use_in_air_def
        throw_item_def use_of_def handle_interaction_def validate_interaction_def attempt_item_interaction_def us_place_def)
qed

lemma throw_is_projectile: "0 < n \<Longrightarrow> throws_projectile snow_env (throw_from 0) (snow_user n prev now)"
  by (simp add: throws_projectile_def throw_from_def snow_env_def)

theorem throws_are_spaced_witness:
  "run_txs snow_env [(at_input 10, throw_from 0), (at_input 14, throw_from 0)] (snow_user 16 0 0) = Inr ([10, 14], snow_user 14 14 14)
   \<and> (0 :: int) + 4 \<le> 10 \<and> (10 :: int) + 4 \<le> 14"
proof -
  have run: "run_txs snow_env [(at_input 10, throw_from 0), (at_input 14, throw_from 0)] (snow_user 16 0 0) = Inr ([10, 14], snow_user 14 14 14)"
    by (simp add: throw_first throw_is_projectile)
  show ?thesis using throws_are_spaced[OF run] run by (simp add: at_input_def)
qed

text \<open>Two snowballs are dropped.\<close>
definition drop_two :: "nat \<Rightarrow> drop_action list" where
  "drop_two slot = [\<lparr>da_from_world = True, da_from_container = False, da_slot = 0, da_window = None, da_count = 2\<rparr>,
     \<lparr>da_from_world = False, da_from_container = True, da_slot = slot, da_window = Some 0, da_count = 0\<rparr>]"

lemma drop_two_means: "drop_slot snow_env (drop_two slot) = Some slot" "drop_count (drop_two slot) = Some 2"
  by (simp_all add: drop_slot_def drop_count_def drop_two_def snow_env_def)

lemma drop_two_runs: "handle_transaction snow_env (TrNormal (drop_two 0)) (snow_user 16 0 0)
    = Inr (\<lparr>oc_cancelled = False, oc_detected = True\<rparr>, snow_user 14 0 0)"
proof -
  have "win_slot (door_windows 16) WInventory 0 = Inr 16"
    using door_slots(1)[of 16] by (simp add: holding_def)
  moreover have "length (drop_two 0) = 2" by (simp add: drop_two_def)
  moreover have "(snow_user 14 0 0)\<lparr>us_actor := us_actor (snow_user 14 0 0)\<rparr> = snow_user 14 0 0" by (simp add: snow_user_def)
  moreover have "st_count count_stacks 16 = 16" "st_grow count_stacks (- 2) 16 = 14" by (simp_all add: count_stacks_def)
  ultimately show ?thesis
    by (simp add: handle_transaction_def tx_step_of_def drop_step_def drop_two_means use_of_def handle_interaction_def
        validate_interaction_def attempt_item_interaction_def Let_def) (simp add: snow_env_def)
qed

theorem drop_takes_what_it_says_witness:
  "\<exists>rest. ic_windows (us_inv (snow_user 14 0 0)) = write_cell (WInventory, 0) rest (ic_windows (us_inv (snow_user 16 0 0)))
     \<and> st_count count_stacks rest = 14"
proof -
  have "windows_ok (ic_windows (us_inv (snow_user 16 0 0)))"
    using windows_ok_new[of count_stacks]
    by (auto simp: door_windows_def windows_ok_def window_shape_def inventory_wf_def new_windows_def get_window_def
        new_inventory_def set_special_slot_def)
  moreover have "stack_laws (pe_stacks (ie_place snow_env))" by (simp add: snow_env_def count_stacks_laws)
  moreover have "win_slot (ic_windows (us_inv (snow_user 16 0 0))) WInventory 0 = Inr 16"
    using door_slots(1)[of 16] by (simp add: holding_def)
  ultimately show ?thesis using drop_takes_what_it_says[OF _ _ drop_two_runs] drop_two_means
    by (simp add: snow_env_def count_stacks_def)
qed

section \<open>Slots that the client names\<close>

text \<open>A drop from a slot that does not exist panics.\<close>
lemma drop_slot_panics: "handle_transaction snow_env (TrNormal (drop_two 40)) (snow_user 16 0 0) = Inl (Panic ''slot is invalid for inventory'')"
proof -
  have "win_slot (door_windows 16) WInventory 40 = Inl (Panic ''slot is invalid for inventory'')"
    by (simp add: win_slot_def get_window_def inv_slot_def resolve_slot_def door_windows_def new_inventory_def)
  moreover have "length (drop_two 40) = 2" by (simp add: drop_two_def)
  ultimately show ?thesis by (simp add: handle_transaction_def tx_step_of_def drop_step_def drop_two_means Let_def)
qed

text \<open>The held slot stays when the packet names a slot outside of the hotbar, but the stack that is left of the throw is
  written to that slot: the snowballs are in both.\<close>
lemma throw_copies_stack:
  "\<exists>oc s'. handle_transaction snow_env (throw_from 20) (snow_user 16 0 10) = Inr (oc, s') \<and> \<not> oc_cancelled oc
     \<and> win_slot (ic_windows (us_inv s')) WInventory 0 = Inr 16 \<and> win_slot (ic_windows (us_inv s')) WInventory 20 = Inr 15"
proof -
  have "set_held_slot 20 (door_stack n) = door_stack n" for n by (simp add: set_held_slot_def)
  then have "on_inv (set_held_slot 20) (snow_user 16 0 10) = snow_user 16 0 10"
    "with_clicks (clicks_handle_right True False 10) (snow_user 16 0 10) = snow_user 16 0 10"
    by (simp_all add: on_inv_def with_clicks_def clicks_handle_right_def snow_user_def)
  moreover have "st_grow count_stacks (- 1) 16 = 15" by (simp add: count_stacks_def)
  moreover obtain w where w: "win_set_slot WInventory 20 15 (door_windows 16) = Inr w"
    "win_slot w WInventory 0 = Inr 16" "win_slot w WInventory 20 = Inr 15"
    by (simp add: win_set_slot_def win_slot_def get_window_def put_window_def inv_set_slot_def inv_slot_def resolve_slot_def
        go_index_def door_windows_def new_inventory_def)
  ultimately have "handle_transaction snow_env (throw_from 20) (snow_user 16 0 10)
      = Inr (\<lparr>oc_cancelled = False, oc_detected = True\<rparr>,
          on_inv (\<lambda>c. c\<lparr>ic_windows := w\<rparr>) ((snow_user 16 0 10)\<lparr>us_last_projectile := 10\<rparr>))"
    by (simp add: handle_transaction_def tx_step_of_def throw_from_def use_item_step_def snow_env_def use_in_air_def
        throw_item_def use_of_def handle_interaction_def validate_interaction_def attempt_item_interaction_def us_place_def)
  moreover have "us_inv (on_inv (\<lambda>c. c\<lparr>ic_windows := w\<rparr>) ((snow_user 16 0 10)\<lparr>us_last_projectile := 10\<rparr>))
      = (door_stack 16)\<lparr>ic_windows := w\<rparr>" by (simp add: snow_user_def on_inv_def)
  ultimately show ?thesis using w by auto
qed

text \<open>A drop with more actions than two is not understood, and the detections never see the packet.\<close>
lemma odd_drop_unseen: "length as \<noteq> 2 \<Longrightarrow> \<exists>s'. handle_transaction E (TrNormal as) s = Inr (\<lparr>oc_cancelled = False, oc_detected = False\<rparr>, s')"
  by (simp add: handle_transaction_def tx_step_of_def drop_step_def Let_def)

end
