(* ===== verification/ServerPackets.thy ===== *)
theory ServerPackets
  imports Session InvRequests
begin

text \<open>
  The packets of the server: \<^verbatim>\<open>HandleServerPacket\<close> of \<^verbatim>\<open>src/player/packet.go\<close>, which calls the
  components, and \<^verbatim>\<open>HandleLevelChunk\<close>, \<^verbatim>\<open>HandleSubChunk\<close> and the trackers' handlers that add
  acknowledgments.
\<close>

section \<open>State and packets\<close>

text \<open>The session with the inventory component, whose windows are those of the session; the addresses of entities from
  \<^verbatim>\<open>hb_next\<close> on are free.\<close>
record ('f, 's, 'n, 'h, 'b, 'm, 'c, 'sc, 'r, 'i) hub =
  hb_shared :: "('h, 'c, 'sc) shared"
  hb_pl :: "('f, 's, 'n, 'h, 'b, 'm) pl"
  hb_inv :: "'s inv_comp"
  hb_next :: nat
  hb_recipes :: "32 word \<Rightarrow> 'r option"
  hb_creative :: "32 word \<Rightarrow> 'i option"

record ('f, 's, 'n, 'h, 'c, 'sc, 'd, 'b) server_env =
  sv_pl :: "('f, 's, 'n, 'h, 'c, 'sc, 'd, 'b) pl_env"
  sv_stacks :: "'s stack_ops"
  sv_runtime_id :: "64 word"
  sv_max_rewind :: int
  sv_client_entities :: bool
  sv_fix_chunks :: bool
  sv_sub_success :: int
  sv_mode_teleport :: "8 word"
  sv_flag_teleport :: "64 word"
  sv_decode :: "32 word \<Rightarrow> 32 word"

datatype ('f, 'n, 'm, 'r, 'i) server_packet =
    SpAddActor "64 word" string 'm "'f size_meta" "'f vec3"
  | SpAddPlayer "64 word" 'm "'f size_meta" "'f vec3"
  | SpChunkRadius int
  | SpInventorySlot int int 'n
  | SpInventoryContent int "'n list"
  | SpStackResponse "response list"
  | SpLevelChunk level_chunk bool
  | SpMobEffect bool int int int int
  | SpMoveActorAbsolute "64 word" "'f vec3" "8 word"
  | SpMovePlayer "64 word" "'f vec3" "8 word" bool
  | SpRemoveActor "64 word"
  | SpSetActorData "64 word" "'f size_meta" "64 word option"
  | SpSetActorMotion "64 word" "'f vec3"
  | SpSetPlayerGameType int
  | SpSubChunk sub_chunk_pk
  | SpUpdateAbilities bool "(64 word \<times> 64 word) list"
  | SpUpdateAttributes "64 word" "(string \<times> 'f \<times> 'f) list"
  | SpUpdateBlock int bpos "32 word"
  | SpUpdateSubChunkBlocks "(bpos \<times> 32 word) list" "(bpos \<times> 32 word) list"
  | SpContainerOpen int int
  | SpContainerClose int
  | SpCraftingData bool "(32 word \<times> 'r) list"
  | SpCreativeContent "(32 word \<times> 'i) list"
  | SpOtherPacket

definition on_pl ::
  "(('f, 's, 'n, 'h, 'b, 'm) pl \<Rightarrow> ('f, 's, 'n, 'h, 'b, 'm) pl) \<Rightarrow> ('f, 's, 'n, 'h, 'b, 'm, 'c, 'sc, 'r, 'i) hub
   \<Rightarrow> ('f, 's, 'n, 'h, 'b, 'm, 'c, 'sc, 'r, 'i) hub" where
  "on_pl g h = h\<lparr>hb_pl := g (hb_pl h)\<rparr>"

text \<open>The inventory component works on the windows of the session.\<close>
definition inv_of :: "('f, 's, 'n, 'h, 'b, 'm, 'c, 'sc, 'r, 'i) hub \<Rightarrow> 's inv_comp" where
  "inv_of h = (hb_inv h)\<lparr>ic_windows := pl_windows (hb_pl h)\<rparr>"

definition put_inv :: "'s inv_comp \<Rightarrow> ('f, 's, 'n, 'h, 'b, 'm, 'c, 'sc, 'r, 'i) hub \<Rightarrow> ('f, 's, 'n, 'h, 'b, 'm, 'c, 'sc, 'r, 'i) hub" where
  "put_inv c h = h\<lparr>hb_inv := c, hb_pl := (hb_pl h)\<lparr>pl_windows := ic_windows c\<rparr>\<rparr>"

section \<open>Entities\<close>

text \<open>Both trackers get an entity of their own.\<close>
definition add_both ::
  "('f, 's, 'n, 'h, 'c, 'sc, 'd, 'b) server_env \<Rightarrow> 64 word \<Rightarrow> string \<Rightarrow> 'm \<Rightarrow> 'f size_meta \<Rightarrow> 'f vec3 \<Rightarrow> bool
   \<Rightarrow> ('f, 's, 'n, 'h, 'b, 'm, 'c, 'sc, 'r, 'i) hub \<Rightarrow> ('f, 's, 'n, 'h, 'b, 'm, 'c, 'sc, 'r, 'i) hub result" where
  "add_both E rid ty metadata sz pos is_player h =
    (let F = en_flt (sv_pl E); (w, ht, sc) = calculate_bb_size sz (fl_lit F 0.6) (fl_lit F 1.8) (fl_lit F 1);
         a = hb_next h; p = hb_pl h
     in bind_result (new_entity (en_vec (sv_pl E)) rid ty metadata pos (sv_max_rewind E) is_player w ht sc) (\<lambda>e.
        Inr (h\<lparr>hb_next := a + 2, hb_pl := p\<lparr>pl_server_tracker := add_entity rid a (pl_server_tracker p),
               pl_tracker := add_entity rid (a + 1) (pl_tracker p),
               pl_entities := (pl_entities p)(a \<mapsto> e, a + 1 \<mapsto> e)\<rparr>\<rparr>)))"

text \<open>What a tracker's movement handler leaves to an acknowledgment is added to the batch.\<close>
definition moved ::
  "('f, 's, 'n, 'h, 'c, 'sc, 'd, 'b) server_env \<Rightarrow> 'f vec3 move_outcome \<times> ('f vec3, 'f, 'm) ent_store
   \<Rightarrow> ('f, 's, 'n, 'h, 'b, 'm) pl \<Rightarrow> ('f, 's, 'n, 'h, 'b, 'm) pl" where
  "moved E r p = (case r of (o', st) \<Rightarrow> let p = p\<lparr>pl_entities := st\<rparr> in case o' of
      MovedNow \<Rightarrow> p | AckPosition pos rid teleport \<Rightarrow> pl_add (sv_pl E) (AckEntityPosition pos rid teleport) p)"

definition move_both ::
  "('f, 's, 'n, 'h, 'c, 'sc, 'd, 'b) server_env
   \<Rightarrow> (tracker \<Rightarrow> ('f vec3, 'f, 'm) ent_store \<Rightarrow> 'f vec3 move_outcome \<times> ('f vec3, 'f, 'm) ent_store)
   \<Rightarrow> ('f, 's, 'n, 'h, 'b, 'm) pl \<Rightarrow> ('f, 's, 'n, 'h, 'b, 'm) pl" where
  "move_both E g p =
    (let p = moved E (g (pl_server_tracker p) (pl_entities p)) p
     in if sv_client_entities E then moved E (g (pl_tracker p) (pl_entities p)) p else p)"

definition sized ::
  "('f, 's, 'n, 'h, 'c, 'sc, 'd, 'b) server_env \<Rightarrow> 'f size_outcome \<times> ('f vec3, 'f, 'm) ent_store
   \<Rightarrow> ('f, 's, 'n, 'h, 'b, 'm) pl \<Rightarrow> ('f, 's, 'n, 'h, 'b, 'm) pl" where
  "sized E r p = (case r of (o', st) \<Rightarrow> let p = p\<lparr>pl_entities := st\<rparr> in case o' of
      AckSize a w ht sc \<Rightarrow> pl_add (sv_pl E) (AckEntitySize a w ht sc) p | _ \<Rightarrow> p)"

section \<open>Chunks\<close>

definition mark_initialized ::
  "('f, 's, 'n, 'h, 'c, 'sc, 'd, 'b) server_env \<Rightarrow> ('f, 's, 'n, 'h, 'b, 'm) pl \<Rightarrow> ('f, 's, 'n, 'h, 'b, 'm) pl" where
  "mark_initialized E p = (if \<not> pl_ready p then pl_add (sv_pl E) AckInitialized p else p)"

text \<open>Each message disconnects.\<close>
definition chunks_done ::
  "disconnects \<times> ('h, 'c, 'sc) shared \<times> ('h, 'b) world \<Rightarrow> ('f, 's, 'n, 'h, 'b, 'm, 'c, 'sc, 'r, 'i) hub
   \<Rightarrow> ('f, 's, 'n, 'h, 'b, 'm, 'c, 'sc, 'r, 'i) hub" where
  "chunks_done r h = (case r of (msgs, s, w) \<Rightarrow>
     h\<lparr>hb_shared := s, hb_pl := fold (\<lambda>_. disconnect) msgs ((hb_pl h)\<lparr>pl_world := w\<rparr>)\<rparr>)"

definition handle_level_chunk ::
  "('f, 's, 'n, 'h, 'c, 'sc, 'd, 'b) server_env \<Rightarrow> level_chunk \<Rightarrow> bool
   \<Rightarrow> ('f, 's, 'n, 'h, 'b, 'm, 'c, 'sc, 'r, 'i) hub \<Rightarrow> ('f, 's, 'n, 'h, 'b, 'm, 'c, 'sc, 'r, 'i) hub" where
  "handle_level_chunk E pk request_mode h =
    (let h = on_pl (mark_initialized E) h
     in if request_mode then h
        else chunks_done (chunk_update_run (en_ops (sv_pl E)) (pl_mode (hb_pl h)) pk (hb_shared h, pl_world (hb_pl h))) h)"

definition handle_sub_chunk ::
  "('f, 's, 'n, 'h, 'c, 'sc, 'd, 'b) server_env \<Rightarrow> sub_chunk_pk
   \<Rightarrow> ('f, 's, 'n, 'h, 'b, 'm, 'c, 'sc, 'r, 'i) hub \<Rightarrow> ('f, 's, 'n, 'h, 'b, 'm, 'c, 'sc, 'r, 'i) hub result" where
  "handle_sub_chunk E pk h =
    (let h = on_pl (mark_initialized E) h
     in bind_result (sub_chunk_update_run (en_ops (sv_pl E)) (pl_mode (hb_pl h)) (sv_sub_success E) pk (hb_shared h, pl_world (hb_pl h)))
          (\<lambda>r. Inr (chunks_done r h)))"

text \<open>A full chunk is encoded again when the option says so; whether the packet changes.\<close>
definition fixes_chunk :: "('f, 's, 'n, 'h, 'c, 'sc, 'd, 'b) server_env \<Rightarrow> mode \<Rightarrow> level_chunk \<Rightarrow> bool \<Rightarrow> bool" where
  "fixes_chunk E m pk request_mode \<longleftrightarrow> \<not> lc_cache_enabled pk \<and> \<not> request_mode \<and> sv_fix_chunks E
     \<and> (case reencode_level_chunk (en_ops (sv_pl E)) m pk of Inl _ \<Rightarrow> False | Inr _ \<Rightarrow> True)"

section \<open>The switch\<close>

definition recipes_after :: "bool \<Rightarrow> (32 word \<times> 'r) list \<Rightarrow> (32 word \<Rightarrow> 'r option) \<Rightarrow> 32 word \<Rightarrow> 'r option" where
  "recipes_after clear rs m = fold (\<lambda>(i, r) m. m(i \<mapsto> r)) rs (if clear then Map.empty else m)"

definition to_player ::
  "('f, 's, 'n, 'h, 'c, 'sc, 'd, 'b) server_env \<Rightarrow> 'f server_update
   \<Rightarrow> ('f, 's, 'n, 'h, 'b, 'm, 'c, 'sc, 'r, 'i) hub \<Rightarrow> ('f, 's, 'n, 'h, 'b, 'm, 'c, 'sc, 'r, 'i) hub" where
  "to_player E u = on_pl (server_update (sv_pl E) u)"

text \<open>Whether the packet is changed on its way to the client, and the session.\<close>
definition handle_server_packet ::
  "('f, 's, 'n, 'h, 'c, 'sc, 'd, 'b) server_env \<Rightarrow> ('f, 'n, 'm, 'r, 'i) server_packet
   \<Rightarrow> ('f, 's, 'n, 'h, 'b, 'm, 'c, 'sc, 'r, 'i) hub \<Rightarrow> (bool \<times> ('f, 's, 'n, 'h, 'b, 'm, 'c, 'sc, 'r, 'i) hub) result" where
  "handle_server_packet E pk h =
    (let P = sv_pl E; V = en_vec P; p = hb_pl h; own = (\<lambda>rid. rid = sv_runtime_id E)
     in case pk of
       SpAddActor rid ty metadata sz pos \<Rightarrow> bind_result (add_both E rid ty metadata sz pos False h) (\<lambda>h. Inr (False, h))
     | SpAddPlayer rid metadata sz pos \<Rightarrow> bind_result (add_both E rid [] metadata sz pos True h) (\<lambda>h. Inr (False, h))
     | SpChunkRadius r \<Rightarrow> Inr (False, on_pl (\<lambda>p. p\<lparr>pl_wu := set_server_chunk_radius (wrap32 (r + 4)) (pl_wu p)\<rparr>) h)
     | SpInventorySlot wid slot item \<Rightarrow> Inr (False, on_pl (handle_inventory_slot P wid slot item) h)
     | SpInventoryContent wid items \<Rightarrow> Inr (False, on_pl (handle_inventory_content P wid items) h)
     | SpStackResponse rs \<Rightarrow>
         bind_result (handle_item_stack_response (sv_stacks E) (en_ids P) (pl_server_conn p) rs (inv_of h))
           (\<lambda>c. Inr (False, put_inv c h))
     | SpLevelChunk pk request_mode \<Rightarrow>
         Inr (fixes_chunk E (pl_mode p) pk request_mode, handle_level_chunk E pk request_mode h)
     | SpMobEffect mine ty am d op \<Rightarrow> Inr (True, to_player E (SuMobEffect mine ty am d op) h)
     | SpMoveActorAbsolute rid pos flags \<Rightarrow>
         Inr (False, if \<not> own rid
           then on_pl (\<lambda>p. move_both E (\<lambda>tr. handle_move_actor_absolute V (sv_flag_teleport E) tr (pl_server_tick p) rid pos flags) p) h
           else to_player E (SuMoveAbsolute pos (ucast flags)) h)
     | SpMovePlayer rid pos md ground \<Rightarrow>
         Inr (True, if \<not> own rid
           then on_pl (\<lambda>p. move_both E (\<lambda>tr. handle_move_player V (sv_mode_teleport E) tr (pl_server_tick p) rid pos md) p) h
           else to_player E (SuMovePlayer pos (uint md) ground) h)
     | SpRemoveActor uid \<Rightarrow>
         Inr (False, on_pl (\<lambda>p. p\<lparr>pl_server_tracker := remove_entity uid (pl_server_tracker p),
                                  pl_tracker := remove_entity uid (pl_tracker p)\<rparr>) h)
     | SpSetActorData rid sz flags \<Rightarrow>
         Inr (True, if \<not> own rid
           then on_pl (\<lambda>p. let p = sized E (handle_set_actor_data (pl_server_tracker p) rid sz (pl_entities p)) p
                           in sized E (handle_set_actor_data (pl_tracker p) rid sz (pl_entities p)) p) h
           else to_player E (SuActorData (sm_width sz) (sm_height sz) (sm_scale sz) flags)
                  (on_pl (\<lambda>p. p\<lparr>pl_actor_data := Some flags\<rparr>) h))
     | SpSetActorMotion rid v \<Rightarrow> Inr (True, if own rid then to_player E (SuActorMotion v) h else h)
     | SpSetPlayerGameType g \<Rightarrow> Inr (False, on_pl (gamemode_handle P g) h)
     | SpSubChunk pk \<Rightarrow> bind_result (handle_sub_chunk E pk h) (\<lambda>h. Inr (False, h))
     | SpUpdateAbilities mine layers \<Rightarrow> Inr (False, if mine then to_player E (SuAbilities layers) h else h)
     | SpUpdateAttributes rid as \<Rightarrow> Inr (True, if own rid then to_player E (SuAttributes as) h else h)
     | SpUpdateBlock layer pos r \<Rightarrow> Inr (False, on_pl (handle_update_block P layer pos (sv_decode E r)) h)
     | SpUpdateSubChunkBlocks blocks extra \<Rightarrow>
         let dec = map (\<lambda>(pos, r). (pos, sv_decode E r))
         in Inr (False, on_pl (handle_update_sub_chunk_blocks P (dec blocks) (dec extra)) h)
     | SpContainerOpen wid ty \<Rightarrow> Inr (False, put_inv (create_window (sv_stacks E) (en_ids P) wid ty (inv_of h)) h)
     | SpContainerClose wid \<Rightarrow> Inr (False, put_inv (remove_window wid (inv_of h)) h)
     | SpCraftingData clear rs \<Rightarrow> Inr (False, h\<lparr>hb_recipes := recipes_after clear rs (hb_recipes h)\<rparr>)
     | SpCreativeContent is \<Rightarrow> Inr (False, h\<lparr>hb_creative := recipes_after True is Map.empty\<rparr>)
     | SpOtherPacket \<Rightarrow> Inr (False, h))"

fun run_server_packets ::
  "('f, 's, 'n, 'h, 'c, 'sc, 'd, 'b) server_env \<Rightarrow> ('f, 'n, 'm, 'r, 'i) server_packet list
   \<Rightarrow> ('f, 's, 'n, 'h, 'b, 'm, 'c, 'sc, 'r, 'i) hub \<Rightarrow> ('f, 's, 'n, 'h, 'b, 'm, 'c, 'sc, 'r, 'i) hub result" where
  "run_server_packets E [] h = Inr h"
| "run_server_packets E (pk # pks) h = bind_result (handle_server_packet E pk h) (\<lambda>(_, h). run_server_packets E pks h)"

end
