(* ===== verification/ServerProps.thy ===== *)
theory ServerProps
  imports ServerPackets AckSamples
begin

text \<open>
  What the packets of the server change at once: nothing that the client shows.  Movement, effects, game mode and the
  client's entities wait for its acknowledgment.
\<close>

section \<open>The client's view\<close>

text \<open>The movement component without the teleports that are on their way.\<close>
definition shown_movement ::
  "'f mv \<Rightarrow> 'f client_mv \<times> 'f body \<times> 'f speeds \<times> 'f teleports \<times> stance \<times> contacts \<times> flight \<times> inputs" where
  "shown_movement m = (mv_client m, mv_body m, mv_speeds m, (mv_tp m)\<lparr>tp_pending := 0, tp_pending_pos := tp_pos (mv_tp m)\<rparr>,
     mv_stance m, mv_contacts m, mv_flight m, mv_inputs m)"

text \<open>What the client has been shown, with the ticks of both sides.\<close>
definition client_view ::
  "('f, 's, 'n, 'h, 'b, 'm) pl
   \<Rightarrow> ('f client_mv \<times> 'f body \<times> 'f speeds \<times> 'f teleports \<times> stance \<times> contacts \<times> flight \<times> inputs)
     \<times> effects \<times> bool \<times> bool \<times> bool \<times> int \<times> int \<times> int \<times> int" where
  "client_view p = (shown_movement (pl_mv p), pl_effects p, pl_ready p, pl_alive p, pl_hungry p, pl_game_mode p,
     pl_client_tick p, pl_consume_tick p, pl_server_tick p)"

definition client_entity :: "('f, 's, 'n, 'h, 'b, 'm) pl \<Rightarrow> 64 word \<Rightarrow> ('f vec3, 'f, 'm) entity option" where
  "client_entity p rid = (case find_entity rid (pl_tracker p) of None \<Rightarrow> None | Some a \<Rightarrow> pl_entities p a)"

text \<open>The entities of two maps exist, below \<open>n\<close>, and none belongs to both.\<close>
definition apart ::
  "(64 word \<Rightarrow> nat option) \<Rightarrow> (64 word \<Rightarrow> nat option) \<Rightarrow> (nat \<Rightarrow> 'e option) \<Rightarrow> nat \<Rightarrow> bool" where
  "apart st ct es n \<longleftrightarrow> (\<forall>rid a. st rid = Some a \<or> ct rid = Some a \<longrightarrow> a < n \<and> es a \<noteq> None)
     \<and> (\<forall>rid rid' a. st rid = Some a \<longrightarrow> ct rid' \<noteq> Some a)"

definition trackers_apart :: "('f, 's, 'n, 'h, 'b, 'm, 'c, 'sc, 'r, 'i) hub \<Rightarrow> bool" where
  "trackers_apart h \<longleftrightarrow> (let p = hb_pl h
     in apart (tr_entities (pl_server_tracker p)) (tr_entities (pl_tracker p)) (pl_entities p) (hb_next h)
        \<and> \<not> tr_client (pl_server_tracker p) \<and> tr_client (pl_tracker p))"

lemma apart_add: "apart st ct es n \<Longrightarrow> apart (st(r \<mapsto> n)) (ct(r \<mapsto> n + 1)) (es(n \<mapsto> e, n + 1 \<mapsto> e)) (n + 2)"
  by (fastforce simp: apart_def)

lemma apart_remove: "apart st ct es n \<Longrightarrow> apart (st(r := None)) (ct(r := None)) es n"
  by (simp add: apart_def)

lemma apart_cong: "apart st ct es n \<Longrightarrow> (\<And>a. (es' a = None) = (es a = None)) \<Longrightarrow> apart st ct es' n"
  by (simp add: apart_def del: not_None_eq)

lemma view_add [simp]: "client_view (pl_add E a p) = client_view p" "client_view (disconnect p) = client_view p"
  "client_view (p\<lparr>pl_wu := w\<rparr>) = client_view p" "client_view (p\<lparr>pl_entities := st\<rparr>) = client_view p"
  "client_view (p\<lparr>pl_world := wd\<rparr>) = client_view p" "client_view (p\<lparr>pl_windows := ws\<rparr>) = client_view p"
  "client_view (p\<lparr>pl_pending_game_mode := g\<rparr>) = client_view p" "client_view (p\<lparr>pl_actor_data := d\<rparr>) = client_view p"
  "client_view (p\<lparr>pl_server_tracker := tr\<rparr>) = client_view p" "client_view (p\<lparr>pl_tracker := tr'\<rparr>) = client_view p"
  by (simp_all add: client_view_def pl_add_def disconnect_def)

lemma view_mark [simp]: "client_view (mark_initialized E p) = client_view p"
  by (simp add: mark_initialized_def)

lemma view_disconnects [simp]: "client_view (fold (\<lambda>_. disconnect) msgs p) = client_view p"
  by (induction msgs arbitrary: p) simp_all

lemma view_pending [simp]: "client_view (p\<lparr>pl_mv := pend_teleport pos (pl_mv p)\<rparr>) = client_view p"
  by (simp add: client_view_def shown_movement_def pend_teleport_def add_pending_teleport_def set_pending_teleport_pos_def)

lemma view_update:
  assumes "case u of SuActorMotion v \<Rightarrow> \<not> no_lag_comp P p | _ \<Rightarrow> True"
  shows "client_view (server_update P u p) = client_view p"
  using assms by (cases u) (simp_all add: server_update_def Let_def)

lemma view_moved [simp]: "client_view (moved E r p) = client_view p" "client_view (sized E r' p) = client_view p"
  "client_view (move_both E g p) = client_view p"
  by (auto simp: moved_def sized_def move_both_def Let_def split: prod.splits move_outcome.splits size_outcome.splits)

lemma hub_simps [simp]: "hb_pl (on_pl g h) = g (hb_pl h)" "hb_next (on_pl g h) = hb_next h"
  by (simp_all add: on_pl_def)

lemma view_chunks [simp]: "client_view (hb_pl (chunks_done r h)) = client_view (hb_pl h)"
  by (simp add: chunks_done_def split: prod.split)

section \<open>The entities\<close>

definition same_entities :: "('f, 's, 'n, 'h, 'b, 'm) pl \<Rightarrow> ('f, 's, 'n, 'h, 'b, 'm) pl \<Rightarrow> bool" where
  "same_entities p q \<longleftrightarrow> pl_entities q = pl_entities p \<and> pl_server_tracker q = pl_server_tracker p \<and> pl_tracker q = pl_tracker p"

lemma same_entities_refl [simp]: "same_entities p p"
  by (simp add: same_entities_def)

lemma same_entities_updates [simp]:
  "same_entities p (pl_add E a q) = same_entities p q" "same_entities p (disconnect q) = same_entities p q"
  "same_entities p (q\<lparr>pl_wu := w\<rparr>) = same_entities p q" "same_entities p (q\<lparr>pl_world := wd\<rparr>) = same_entities p q"
  "same_entities p (q\<lparr>pl_windows := ws\<rparr>) = same_entities p q" "same_entities p (q\<lparr>pl_pending_game_mode := g\<rparr>) = same_entities p q"
  "same_entities p (q\<lparr>pl_actor_data := d\<rparr>) = same_entities p q" "same_entities p (q\<lparr>pl_mv := m\<rparr>) = same_entities p q"
  "same_entities p (q\<lparr>pl_effects := ef\<rparr>) = same_entities p q"
  by (simp_all add: same_entities_def pl_add_def disconnect_def)

lemma same_entities_disconnects [simp]: "same_entities p (fold (\<lambda>_. disconnect) msgs q) = same_entities p q"
  by (induction msgs arbitrary: q) simp_all

lemma same_entities_more [simp]: "same_entities p (mark_initialized E q) = same_entities p q"
  "same_entities p (hb_pl (chunks_done r h)) = same_entities p (hb_pl h)"
  by (simp_all add: mark_initialized_def chunks_done_def split: prod.split)

lemma same_entities_update: "same_entities p (server_update P u p)"
proof -
  have k: "same_entities p (fst (snd (run_ack P (AckKnockback v t False) p)))" for v t
    by (simp add: run_ack_def)
  show ?thesis by (cases u) (simp_all add: server_update_def Let_def k)
qed

lemma same_apart:
  "same_entities (hb_pl h) (hb_pl h') \<Longrightarrow> hb_next h' = hb_next h \<Longrightarrow>
    (trackers_apart h' = trackers_apart h) \<and> client_entity (hb_pl h') rid = client_entity (hb_pl h) rid"
  by (cases "find_entity rid (pl_tracker (hb_pl h))") (simp_all add: same_entities_def trackers_apart_def client_entity_def Let_def)

text \<open>A change of the entities of the server's tracker.\<close>
definition server_only :: "('f, 's, 'n, 'h, 'b, 'm) pl \<Rightarrow> ('f, 's, 'n, 'h, 'b, 'm) pl \<Rightarrow> bool" where
  "server_only p q \<longleftrightarrow> pl_server_tracker q = pl_server_tracker p \<and> pl_tracker q = pl_tracker p
     \<and> (\<forall>a. (pl_entities q a = None) = (pl_entities p a = None))
     \<and> (\<forall>a. (\<forall>rid. tr_entities (pl_server_tracker p) rid \<noteq> Some a) \<longrightarrow> pl_entities q a = pl_entities p a)"

lemma server_only_apart:
  assumes "trackers_apart h" "server_only (hb_pl h) (hb_pl h')" "hb_next h' = hb_next h"
  shows "trackers_apart h' \<and> client_entity (hb_pl h') rid = client_entity (hb_pl h) rid"
proof
  show "trackers_apart h'" using assms
    by (auto simp: server_only_def trackers_apart_def Let_def intro: apart_cong)
  show "client_entity (hb_pl h') rid = client_entity (hb_pl h) rid"
  proof (cases "find_entity rid (pl_tracker (hb_pl h))")
    case (Some a)
    then have "\<forall>rid. tr_entities (pl_server_tracker (hb_pl h)) rid \<noteq> Some a"
      using assms(1) by (auto simp: trackers_apart_def apart_def find_entity_def Let_def)
    with assms(2) Some show ?thesis by (simp add: server_only_def client_entity_def)
  qed (use assms(2) in \<open>simp add: server_only_def client_entity_def\<close>)
qed

lemma moved_server_only:
  assumes "tr = pl_server_tracker p" "\<not> tr_client tr"
  shows "server_only p (moved E (handle_move V tr t rid pos tp (pl_entities p)) p)"
  using assms by (auto simp: moved_def handle_move_def move_entity_def server_only_def split: option.splits)

lemma sized_server_only:
  assumes "tr = pl_server_tracker p" "\<not> tr_client tr"
  shows "server_only p (sized E (handle_set_actor_data tr rid sz (pl_entities p)) p)"
proof (cases "tr_entities tr rid")
  case None
  then show ?thesis by (simp add: sized_def handle_set_actor_data_def find_entity_def server_only_def Let_def split: prod.splits)
next
  case (Some a)
  show ?thesis
  proof (cases "pl_entities p a")
    case None
    with Some show ?thesis
      by (simp add: sized_def handle_set_actor_data_def find_entity_def server_only_def Let_def split: prod.splits)
  next
    case e: (Some e)
    obtain w ht sc where c: "calculate_bb_size sz (e_width e) (e_height e) (e_scale e) = (w, ht, sc)"
      by (cases "calculate_bb_size sz (e_width e) (e_height e) (e_scale e)")
    have "handle_set_actor_data tr rid sz (pl_entities p)
        = (SizedNow, (pl_entities p)(a \<mapsto> e\<lparr>e_width := w, e_height := ht, e_scale := sc\<rparr>))"
      by (simp add: handle_set_actor_data_def find_entity_def Some e c assms(2))
    then have q: "sized E (handle_set_actor_data tr rid sz (pl_entities p)) p
        = p\<lparr>pl_entities := (pl_entities p)(a \<mapsto> e\<lparr>e_width := w, e_height := ht, e_scale := sc\<rparr>)\<rparr>"
      unfolding sized_def by simp
    have "b \<noteq> a" if "\<forall>rid. tr_entities (pl_server_tracker p) rid \<noteq> Some b" for b
      using that Some assms(1) by blast
    with e show ?thesis unfolding q server_only_def by simp
  qed
qed

lemma client_moved:
  assumes "tr_client tr"
  shows "same_entities p (moved E (handle_move V tr t rid pos tp (pl_entities p)) p)"
    "same_entities p (sized E (handle_set_actor_data tr rid sz (pl_entities p)) p)"
  using assms
  by (auto simp: moved_def handle_move_def sized_def handle_set_actor_data_def same_entities_def pl_add_def Let_def
      split: option.splits prod.splits)

lemma server_only_trans: "server_only p q \<Longrightarrow> same_entities q r \<Longrightarrow> server_only p r"
  by (simp add: server_only_def same_entities_def)

lemma move_both_server_only:
  assumes "trackers_apart h"
  shows "server_only (hb_pl h) (move_both E (\<lambda>tr. handle_move V tr t rid pos tp) (hb_pl h))"
proof -
  have tr: "\<not> tr_client (pl_server_tracker (hb_pl h))" "tr_client (pl_tracker (hb_pl h))"
    using assms by (simp_all add: trackers_apart_def Let_def)
  let ?q = "moved E (handle_move V (pl_server_tracker (hb_pl h)) t rid pos tp (pl_entities (hb_pl h))) (hb_pl h)"
  have q: "server_only (hb_pl h) ?q" by (rule moved_server_only) (simp_all add: tr)
  then have c: "tr_client (pl_tracker ?q)" using tr by (simp add: server_only_def)
  have r: "same_entities ?q (moved E (handle_move V (pl_tracker ?q) t rid pos tp (pl_entities ?q)) ?q)"
    by (rule client_moved(1)[OF c])
  from server_only_trans[OF q r] q show ?thesis
    by (simp add: move_both_def Let_def)
qed

lemma sized_both_server_only:
  assumes "trackers_apart h"
  shows "server_only (hb_pl h)
    (let p = sized E (handle_set_actor_data (pl_server_tracker (hb_pl h)) rid sz (pl_entities (hb_pl h))) (hb_pl h)
     in sized E (handle_set_actor_data (pl_tracker p) rid sz (pl_entities p)) p)"
proof -
  have tr: "\<not> tr_client (pl_server_tracker (hb_pl h))" "tr_client (pl_tracker (hb_pl h))"
    using assms by (simp_all add: trackers_apart_def Let_def)
  let ?q = "sized E (handle_set_actor_data (pl_server_tracker (hb_pl h)) rid sz (pl_entities (hb_pl h))) (hb_pl h)"
  have q: "server_only (hb_pl h) ?q" by (rule sized_server_only) (simp_all add: tr)
  then have c: "tr_client (pl_tracker ?q)" using tr by (simp add: server_only_def)
  have "same_entities ?q (sized E (handle_set_actor_data (pl_tracker ?q) rid sz (pl_entities ?q)) ?q)"
    by (rule client_moved(2)[OF c])
  from server_only_trans[OF q this] show ?thesis by (simp add: Let_def)
qed

text \<open>The entity of a packet that adds or removes one.\<close>
definition names_entity :: "64 word \<Rightarrow> ('f, 'n, 'm, 'r, 'i) server_packet \<Rightarrow> bool" where
  "names_entity rid pk \<longleftrightarrow> (case pk of SpAddActor r _ _ _ _ \<Rightarrow> r = rid | SpAddPlayer r _ _ _ \<Rightarrow> r = rid
     | SpRemoveActor r \<Rightarrow> r = rid | _ \<Rightarrow> False)"

definition is_motion :: "('f, 'n, 'm, 'r, 'i) server_packet \<Rightarrow> bool" where
  "is_motion pk \<longleftrightarrow> (case pk of SpSetActorMotion _ _ \<Rightarrow> True | _ \<Rightarrow> False)"

definition carries_chunks :: "('f, 'n, 'm, 'r, 'i) server_packet \<Rightarrow> bool" where
  "carries_chunks pk \<longleftrightarrow> (case pk of SpLevelChunk _ _ \<Rightarrow> True | SpSubChunk _ \<Rightarrow> True | _ \<Rightarrow> False)"

lemma add_both_apart:
  assumes "add_both E r ty md sz pos pl h = Inr h'" "trackers_apart h"
  shows "trackers_apart h' \<and> client_view (hb_pl h') = client_view (hb_pl h) \<and> pl_world (hb_pl h') = pl_world (hb_pl h)
    \<and> (r \<noteq> rid \<longrightarrow> client_entity (hb_pl h') rid = client_entity (hb_pl h) rid)"
proof -
  let ?p = "hb_pl h" and ?a = "hb_next h"
  from assms(1) obtain e where h': "h' = h\<lparr>hb_next := ?a + 2, hb_pl := ?p\<lparr>pl_server_tracker := add_entity r ?a (pl_server_tracker ?p),
      pl_tracker := add_entity r (?a + 1) (pl_tracker ?p), pl_entities := (pl_entities ?p)(?a \<mapsto> e, ?a + 1 \<mapsto> e)\<rparr>\<rparr>"
    by (auto simp: add_both_def Let_def bind_result_Inr_iff split: prod.splits)
  have a: "apart (tr_entities (pl_server_tracker ?p)) (tr_entities (pl_tracker ?p)) (pl_entities ?p) ?a"
    using assms(2) by (simp add: trackers_apart_def Let_def)
  have "trackers_apart h'" using apart_add[OF a, of r e] assms(2)
    by (simp add: h' trackers_apart_def add_entity_def Let_def)
  moreover have "client_entity (hb_pl h') rid = client_entity ?p rid" if "r \<noteq> rid"
  proof (cases "tr_entities (pl_tracker ?p) rid")
    case (Some b)
    with a have "b < ?a" by (auto simp: apart_def)
    with Some that show ?thesis by (simp add: h' client_entity_def find_entity_def add_entity_def)
  qed (use that in \<open>simp add: h' client_entity_def find_entity_def add_entity_def\<close>)
  ultimately show ?thesis by (simp add: h')
qed

lemma remove_both_apart:
  assumes "trackers_apart h"
    "h' = on_pl (\<lambda>p. p\<lparr>pl_server_tracker := remove_entity r (pl_server_tracker p), pl_tracker := remove_entity r (pl_tracker p)\<rparr>) h"
  shows "trackers_apart h' \<and> (r \<noteq> rid \<longrightarrow> client_entity (hb_pl h') rid = client_entity (hb_pl h) rid)"
  using assms(1) apart_remove[of "tr_entities (pl_server_tracker (hb_pl h))" "tr_entities (pl_tracker (hb_pl h))"
    "pl_entities (hb_pl h)" "hb_next h" r]
  by (simp add: assms(2) trackers_apart_def client_entity_def find_entity_def remove_entity_def Let_def split: option.split)

section \<open>Each packet\<close>

lemma to_player_simps [simp]: "hb_pl (to_player E u h) = server_update (sv_pl E) u (hb_pl h)"
  "hb_next (to_player E u h) = hb_next h"
  by (simp_all add: to_player_def)

lemma put_inv_simps [simp]: "hb_pl (put_inv c h) = (hb_pl h)\<lparr>pl_windows := ic_windows c\<rparr>" "hb_next (put_inv c h) = hb_next h"
  by (simp_all add: put_inv_def)

lemma chunks_next [simp]: "hb_next (chunks_done r h) = hb_next h"
  by (simp add: chunks_done_def split: prod.split)

lemma session_handlers [simp]:
  "client_view (handle_inventory_slot P wid slot item p) = client_view p"
  "client_view (handle_inventory_content P wid items p) = client_view p"
  "client_view (gamemode_handle P g p) = client_view p"
  "client_view (handle_update_block P layer pos r p) = client_view p"
  "client_view (handle_update_sub_chunk_blocks P blocks extra p) = client_view p"
  "same_entities p (handle_inventory_slot P wid slot item p)"
  "same_entities p (handle_inventory_content P wid items p)"
  "same_entities p (gamemode_handle P g p)"
  "same_entities p (handle_update_block P layer pos r p)"
  "same_entities p (handle_update_sub_chunk_blocks P blocks extra p)"
  by (simp_all add: handle_inventory_slot_def handle_inventory_content_def gamemode_handle_def handle_update_block_def
      handle_update_sub_chunk_blocks_def Let_def)

lemma level_chunk_view [simp]: "client_view (hb_pl (handle_level_chunk E pk r h)) = client_view (hb_pl h)"
  "same_entities (hb_pl h) (hb_pl (handle_level_chunk E pk r h))" "hb_next (handle_level_chunk E pk r h) = hb_next h"
  by (simp_all add: handle_level_chunk_def Let_def)

lemma sub_chunk_view:
  "handle_sub_chunk E pk h = Inr h' \<Longrightarrow> client_view (hb_pl h') = client_view (hb_pl h) \<and> same_entities (hb_pl h) (hb_pl h')
    \<and> hb_next h' = hb_next h"
  by (auto simp: handle_sub_chunk_def Let_def bind_result_Inr_iff)

text \<open>The world does not change either, but for chunks.\<close>
lemma world_kept [simp]:
  "pl_world (pl_add P a p) = pl_world p" "pl_world (disconnect p) = pl_world p"
  "pl_world (moved E r p) = pl_world p" "pl_world (sized E r' p) = pl_world p" "pl_world (move_both E g p) = pl_world p"
  by (auto simp: pl_add_def disconnect_def moved_def sized_def move_both_def Let_def
      split: prod.splits move_outcome.splits size_outcome.splits)

lemma world_handlers [simp]:
  "pl_world (handle_inventory_slot P wid slot item p) = pl_world p"
  "pl_world (handle_inventory_content P wid items p) = pl_world p"
  "pl_world (gamemode_handle P g p) = pl_world p"
  "pl_world (handle_update_block P layer pos r p) = pl_world p"
  "pl_world (handle_update_sub_chunk_blocks P blocks extra p) = pl_world p"
  by (simp_all add: handle_inventory_slot_def handle_inventory_content_def gamemode_handle_def handle_update_block_def
      handle_update_sub_chunk_blocks_def Let_def)

lemma world_update [simp]: "pl_world (server_update P u p) = pl_world p"
proof -
  have k: "pl_world (fst (snd (run_ack P (AckKnockback v t False) p))) = pl_world p" for v t
    by (simp add: run_ack_def)
  show ?thesis by (cases u) (simp_all add: server_update_def Let_def k)
qed

definition waits ::
  "('f, 'n, 'm, 'r, 'i) server_packet \<Rightarrow> ('f, 's, 'n, 'h, 'b, 'm, 'c, 'sc, 'r, 'i) hub
   \<Rightarrow> ('f, 's, 'n, 'h, 'b, 'm, 'c, 'sc, 'r, 'i) hub \<Rightarrow> bool" where
  "waits pk h h' \<longleftrightarrow> trackers_apart h' \<and> client_view (hb_pl h') = client_view (hb_pl h)
     \<and> (\<not> carries_chunks pk \<longrightarrow> pl_world (hb_pl h') = pl_world (hb_pl h))
     \<and> (\<forall>rid. \<not> names_entity rid pk \<longrightarrow> client_entity (hb_pl h') rid = client_entity (hb_pl h) rid)"

lemma waits_refl: "trackers_apart h \<Longrightarrow> \<forall>pk. waits pk h h"
  by (simp add: waits_def)

lemma waits_same:
  assumes "trackers_apart h" "same_entities (hb_pl h) (hb_pl h')" "hb_next h' = hb_next h"
    "client_view (hb_pl h') = client_view (hb_pl h)" "carries_chunks pk \<or> pl_world (hb_pl h') = pl_world (hb_pl h)"
  shows "waits pk h h'"
  using assms same_apart[OF assms(2,3)] unfolding waits_def by blast

lemma waits_server_only:
  assumes "trackers_apart h" "server_only (hb_pl h) (hb_pl h')" "hb_next h' = hb_next h"
    "client_view (hb_pl h') = client_view (hb_pl h)" "pl_world (hb_pl h') = pl_world (hb_pl h)"
  shows "waits pk h h'"
  using assms server_only_apart[OF assms(1-3)] unfolding waits_def by blast

lemma packet_waits:
  assumes "handle_server_packet E pk h = Inr (m, h')" "trackers_apart h" "is_motion pk \<Longrightarrow> \<not> no_lag_comp (sv_pl E) (hb_pl h)"
  shows "waits pk h h'"
proof (cases pk)
  case (SpAddActor rid ty md sz pos)
  with assms(1) have "add_both E rid ty md sz pos False h = Inr h'"
    by (auto simp: handle_server_packet_def Let_def bind_result_Inr_iff)
  from add_both_apart[OF this assms(2)] SpAddActor show ?thesis unfolding waits_def names_entity_def by simp
next
  case (SpAddPlayer rid md sz pos)
  with assms(1) have "add_both E rid [] md sz pos True h = Inr h'"
    by (auto simp: handle_server_packet_def Let_def bind_result_Inr_iff)
  from add_both_apart[OF this assms(2)] SpAddPlayer show ?thesis unfolding waits_def names_entity_def by simp
next
  case (SpRemoveActor rid)
  with assms(1) have h': "h' = on_pl (\<lambda>p. p\<lparr>pl_server_tracker := remove_entity rid (pl_server_tracker p),
      pl_tracker := remove_entity rid (pl_tracker p)\<rparr>) h"
    by (simp add: handle_server_packet_def Let_def)
  from remove_both_apart[OF assms(2) h'] SpRemoveActor show ?thesis unfolding waits_def names_entity_def by (simp add: h')
next
  case (SpSubChunk spk)
  with assms(1) have "handle_sub_chunk E spk h = Inr h'"
    by (auto simp: handle_server_packet_def Let_def bind_result_Inr_iff)
  from sub_chunk_view[OF this] SpSubChunk show ?thesis
    by (intro waits_same[OF assms(2)]) (simp_all add: carries_chunks_def)
next
  case (SpMoveActorAbsolute rid pos flags)
  show ?thesis
  proof (cases "rid = sv_runtime_id E")
    case False
    with assms(1) SpMoveActorAbsolute have h': "hb_pl h' = move_both E (\<lambda>tr. handle_move (en_vec (sv_pl E)) tr
          (pl_server_tick (hb_pl h)) rid pos (has_flag (ucast flags) (sv_flag_teleport E))) (hb_pl h)" "hb_next h' = hb_next h"
      by (auto simp: handle_server_packet_def handle_move_actor_absolute_def[abs_def] Let_def)
    show ?thesis by (rule waits_server_only[OF assms(2)]) (simp_all add: h' move_both_server_only[OF assms(2)])
  next
    case True
    with assms(1) SpMoveActorAbsolute show ?thesis
      by (intro waits_same[OF assms(2)]) (auto simp: handle_server_packet_def Let_def view_update same_entities_update)
  qed
next
  case (SpMovePlayer rid pos md ground)
  show ?thesis
  proof (cases "rid = sv_runtime_id E")
    case False
    with assms(1) SpMovePlayer have h': "hb_pl h' = move_both E (\<lambda>tr. handle_move (en_vec (sv_pl E)) tr
          (pl_server_tick (hb_pl h)) rid pos (md = sv_mode_teleport E)) (hb_pl h)" "hb_next h' = hb_next h"
      by (auto simp: handle_server_packet_def handle_move_player_def[abs_def] Let_def)
    show ?thesis by (rule waits_server_only[OF assms(2)]) (simp_all add: h' move_both_server_only[OF assms(2)])
  next
    case True
    with assms(1) SpMovePlayer show ?thesis
      by (intro waits_same[OF assms(2)]) (auto simp: handle_server_packet_def Let_def view_update same_entities_update)
  qed
next
  case (SpSetActorData rid sz flags)
  show ?thesis
  proof (cases "rid = sv_runtime_id E")
    case False
    with assms(1) SpSetActorData have h': "hb_pl h' = (let p = sized E (handle_set_actor_data (pl_server_tracker (hb_pl h)) rid sz
          (pl_entities (hb_pl h))) (hb_pl h) in sized E (handle_set_actor_data (pl_tracker p) rid sz (pl_entities p)) p)"
        "hb_next h' = hb_next h"
      by (auto simp: handle_server_packet_def Let_def)
    from sized_both_server_only[OF assms(2)] show ?thesis
      by (intro waits_server_only[OF assms(2)]) (simp_all add: h' Let_def)
  next
    case True
    with assms(1) SpSetActorData have h': "hb_pl h' = server_update (sv_pl E) (SuActorData (sm_width sz) (sm_height sz) (sm_scale sz) flags)
        ((hb_pl h)\<lparr>pl_actor_data := Some flags\<rparr>)" "hb_next h' = hb_next h"
      by (auto simp: handle_server_packet_def Let_def)
    show ?thesis
      by (rule waits_same[OF assms(2)]) (simp_all add: h' server_update_def)
  qed
next
  case (SpSetActorMotion rid v)
  with assms(1,3) show ?thesis
    by (intro waits_same[OF assms(2)])
      (auto simp: handle_server_packet_def Let_def is_motion_def view_update same_entities_update split: if_splits)
qed (use assms(1) waits_refl[OF assms(2)] in \<open>auto simp: handle_server_packet_def Let_def bind_result_Inr_iff view_update
    same_entities_update carries_chunks_def intro!: waits_same[OF assms(2)] split: if_splits\<close>)

section \<open>Runs\<close>

lemma lag_comp_view: "client_view q = client_view p \<Longrightarrow> no_lag_comp P q = no_lag_comp P p"
  by (simp add: client_view_def no_lag_comp_def)

text \<open>C8: whatever packets the server sends, nothing that the client has been shown changes when they are handled: its movement
  (but for the teleports that are on their way), effects, game mode and ticks, its entities (but for those that a packet adds
  or removes by their id) and, unless chunks arrive, its world.  Those changes wait for the client's acknowledgment.  The
  only exception is knockback for a client too far behind to be compensated.  The two trackers never share an entity.
\<close>
theorem server_updates_wait:
  assumes "run_server_packets E pks h = Inr h'" "trackers_apart h"
    "\<not> no_lag_comp (sv_pl E) (hb_pl h) \<or> list_all (\<lambda>pk. \<not> is_motion pk) pks"
  shows "client_view (hb_pl h') = client_view (hb_pl h) \<and> trackers_apart h'
    \<and> (list_all (\<lambda>pk. \<not> carries_chunks pk) pks \<longrightarrow> pl_world (hb_pl h') = pl_world (hb_pl h))
    \<and> (list_all (\<lambda>pk. \<not> names_entity rid pk) pks \<longrightarrow> client_entity (hb_pl h') rid = client_entity (hb_pl h) rid)"
  using assms
proof (induction pks arbitrary: h)
  case (Cons pk pks)
  from Cons.prems(1) obtain m k where k: "handle_server_packet E pk h = Inr (m, k)" "run_server_packets E pks k = Inr h'"
    by (auto simp: bind_result_Inr_iff)
  have w: "waits pk h k" by (rule packet_waits[OF k(1) Cons.prems(2)]) (use Cons.prems(3) in auto)
  then have v: "client_view (hb_pl k) = client_view (hb_pl h)" "trackers_apart k" by (simp_all add: waits_def)
  from Cons.IH[OF k(2) v(2)] lag_comp_view[OF v(1)] Cons.prems(3) w v(1) show ?case
    by (auto simp: waits_def)
qed simp

section \<open>A run\<close>

definition demo_server_env :: "(int, int, int, bytes, nat, nat, nat, nat) server_env" where
  "demo_server_env = \<lparr>sv_pl = demo_pl_env, sv_stacks = count_stacks, sv_runtime_id = 1, sv_max_rewind = 6,
     sv_client_entities = True, sv_fix_chunks = False, sv_sub_success = 1, sv_mode_teleport = 1, sv_flag_teleport = 2,
     sv_decode = id\<rparr>"

definition demo_hub :: "(int, int, int, bytes, nat, unit, nat, nat, nat, nat) hub" where
  "demo_hub = \<lparr>hb_shared = empty_shared, hb_pl = demo_pl, hb_inv = new_inventory_component count_stacks, hb_next = 0,
     hb_recipes = Map.empty, hb_creative = Map.empty\<rparr>"

definition demo_packets :: "(int, int, unit, nat, nat) server_packet list" where
  "demo_packets =
    [SpAddActor 5 ''minecraft:pig'' () \<lparr>sm_width = None, sm_height = None, sm_scale = None\<rparr> (1000, 2000, 3000),
     SpMoveActorAbsolute 5 (4000, 5000, 6000) 0, SpMoveActorAbsolute 1 (9000, 70000, 9000) 0, SpSetPlayerGameType 1]"

definition demo_hub_after :: "(int, int, int, bytes, nat, unit, nat, nat, nat, nat) hub" where
  "demo_hub_after = (case run_server_packets demo_server_env demo_packets demo_hub of Inr h \<Rightarrow> h | Inl _ \<Rightarrow> demo_hub)"

lemma demo_hub_runs: "run_server_packets demo_server_env demo_packets demo_hub = Inr demo_hub_after"
proof -
  have "case run_server_packets demo_server_env demo_packets demo_hub of Inr h \<Rightarrow> True | Inl _ \<Rightarrow> False" by code_simp
  then show ?thesis by (simp add: demo_hub_after_def split: sum.splits)
qed

lemma demo_hub_apart: "trackers_apart demo_hub"
  by (simp add: demo_hub_def demo_pl_def trackers_apart_def apart_def new_entity_tracker_def)

text \<open>The mob has moved for the server only, and the client still stands where it was.\<close>
theorem server_updates_wait_witness:
  "client_view (hb_pl demo_hub_after) = client_view demo_pl \<and> client_entity (hb_pl demo_hub_after) 7 = None
   \<and> trackers_apart demo_hub_after"
proof -
  have "hb_pl demo_hub = demo_pl" "client_entity demo_pl 7 = None"
    by (simp_all add: demo_hub_def demo_pl_def client_entity_def find_entity_def new_entity_tracker_def)
  moreover have "list_all (\<lambda>pk. \<not> is_motion pk) demo_packets" "list_all (\<lambda>pk. \<not> names_entity 7 pk) demo_packets" by code_simp+
  ultimately show ?thesis using server_updates_wait[OF demo_hub_runs demo_hub_apart, of 7] by simp
qed

text \<open>The packet names the unique id, the trackers know runtime ids: an entity whose two ids differ stays tracked.\<close>
lemma other_id_stays:
  assumes "handle_server_packet E (SpRemoveActor uid) h = Inr (m, h')" "trackers_apart h" "uid \<noteq> rid"
  shows "client_entity (hb_pl h') rid = client_entity (hb_pl h) rid"
  using packet_waits[OF assms(1,2)] assms(3) by (simp add: waits_def names_entity_def is_motion_def)

end
