(* ===== verification/Collisions.thy ===== *)
theory Collisions
  imports Bits Boxes "HOL-Library.AList" "HOL-Library.List_Lexorder" "HOL-Library.Char_ord"
begin

text \<open>
  The collision boxes of blocks: \<^verbatim>\<open>src/utils/collisions/register.go\<close>, which builds the registry from two data
  files, and \<^verbatim>\<open>collisions.go\<close>, which looks boxes up through a cache.  Maps are lists of pairs; the order of
  their iteration in Go does not matter here, since keys are sorted before they are used and the boxes of a block are only
  compared for equality.
\<close>

section \<open>Block properties\<close>

datatype property = PBool bool | PByte "8 word" | PInt "32 word" | PString string | POther

definition property_bytes :: "property \<Rightarrow> 8 word list result" where
  "property_bytes v = (case v of
      PBool b \<Rightarrow> Inr [if b then 1 else 0]
    | PByte w \<Rightarrow> Inr [w]
    | PInt w \<Rightarrow> Inr (write_lint32 [] w)
    | PString s \<Rightarrow> Inr (map of_char s)
    | POther \<Rightarrow> Inl (Panic ''invalid block property type''))"

fun sorted_bytes :: "(string \<times> property) list \<Rightarrow> 8 word list result" where
  "sorted_bytes [] = Inr []"
| "sorted_bytes ((k, v) # ps) =
    bind_result (property_bytes v) (\<lambda>b. bind_result (sorted_bytes ps) (\<lambda>bs. Inr (b @ bs)))"

text \<open>The values, one after the other in the order of their keys.\<close>
definition hash_block_properties :: "(string \<times> property) list \<Rightarrow> 8 word list result" where
  "hash_block_properties ps = sorted_bytes (sort_key fst ps)"

section \<open>The data\<close>

text \<open>A value of the state file; its numbers are whole.\<close>
datatype json_value = JString string | JNumber int | JOther

record json_state =
  js_type :: string
  js_value :: json_value

record block_state =
  bs_name :: string
  bs_state :: "(string \<times> json_state) list"

definition state_value :: "json_state \<Rightarrow> property result" where
  "state_value s =
    (if js_type s = ''string''
     then (case js_value s of JString v \<Rightarrow> Inr (PString v) | _ \<Rightarrow> Inl (Panic ''interface conversion''))
     else if js_type s = ''byte''
     then (case js_value s of JNumber n \<Rightarrow> Inr (PByte (word_of_int n)) | _ \<Rightarrow> Inl (Panic ''interface conversion''))
     else if js_type s = ''int''
     then (case js_value s of JNumber n \<Rightarrow> Inr (PInt (word_of_int n)) | _ \<Rightarrow> Inl (Panic ''interface conversion''))
     else Inl (Panic ''unknown type in block state''))"

fun encoded_state_to_map :: "(string \<times> json_state) list \<Rightarrow> (string \<times> property) list result" where
  "encoded_state_to_map [] = Inr []"
| "encoded_state_to_map ((k, s) # ss) =
    bind_result (state_value s) (\<lambda>v. bind_result (encoded_state_to_map ss) (\<lambda>ps. Inr ((k, v) # ps)))"

definition state_hash :: "block_state \<Rightarrow> 8 word list result" where
  "state_hash s = bind_result (encoded_state_to_map (bs_state s)) hash_block_properties"

text \<open>A box by its centre and its size.\<close>
definition encoded_collision_to_bbox :: "'f flt \<Rightarrow> 'f box_lib \<Rightarrow> ('f vec3 \<times> 'f vec3) list \<Rightarrow> 'f bbox list" where
  "encoded_collision_to_bbox F L = map (\<lambda>(c, s). let half = mul3 F s (fl_lit F 0.5)
     in bl_box L (sub3 F c half) (add3 F c half))"

section \<open>The registry\<close>

type_synonym 'f registry = "(string \<times> (8 word list \<times> 'f bbox list) list) list"

record 'f loader =
  ld_registry :: "'f registry"
  ld_counter :: "string \<Rightarrow> nat"

text \<open>The boxes of the blocks' states in the order of the state file, by number; a missing number has no boxes.\<close>
record 'f shape_data =
  sd_flt :: "'f flt"
  sd_lib :: "'f box_lib"
  sd_blocks :: "string \<Rightarrow> int list"
  sd_shapes :: "int \<Rightarrow> ('f vec3 \<times> 'f vec3) list"

abbreviation prefixed :: "string \<Rightarrow> string" where "prefixed n \<equiv> ''minecraft:'' @ n"

definition states_of :: "string \<Rightarrow> 'f registry \<Rightarrow> (8 word list \<times> 'f bbox list) list" where
  "states_of n reg = (case map_of reg n of None \<Rightarrow> [] | Some l \<Rightarrow> l)"

definition load_state :: "'f shape_data \<Rightarrow> block_state \<Rightarrow> 'f loader \<Rightarrow> 'f loader result" where
  "load_state D s ld = bind_result (state_hash s) (\<lambda>h.
     bind_result (go_index (sd_blocks D (bs_name s)) (int (ld_counter ld (bs_name s)))) (\<lambda>coll.
       let n = prefixed (bs_name s); reg = ld_registry ld
       in Inr \<lparr>ld_registry = AList.update n (AList.update h (encoded_collision_to_bbox (sd_flt D) (sd_lib D) (sd_shapes D coll))
                                (states_of n reg)) reg,
               ld_counter = (ld_counter ld)(bs_name s := ld_counter ld (bs_name s) + 1)\<rparr>))"

fun load_states :: "'f shape_data \<Rightarrow> block_state list \<Rightarrow> 'f loader \<Rightarrow> 'f loader result" where
  "load_states D [] ld = Inr ld"
| "load_states D (s # ss) ld = bind_result (load_state D s ld) (load_states D ss)"

text \<open>A block with one state, or with the same boxes in all, needs no properties; one state is taken to have none.\<close>
definition static_boxes :: "(8 word list \<times> 'f bbox list) list \<Rightarrow> 'f bbox list option result" where
  "static_boxes states = (case states of
      [] \<Rightarrow> Inl (Panic ''block has no states for collision boxes'')
    | [_] \<Rightarrow> Inr (Some (case map_of states [] of None \<Rightarrow> [] | Some bbs \<Rightarrow> bbs))
    | (_, bbs) # rest \<Rightarrow> Inr (if \<forall>(_, b) \<in> set rest. b = bbs then Some bbs else None))"

fun static_collisions :: "'f registry \<Rightarrow> (string \<times> 'f bbox list) list result" where
  "static_collisions [] = Inr []"
| "static_collisions ((n, states) # reg) = bind_result (static_boxes states) (\<lambda>r.
     bind_result (static_collisions reg) (\<lambda>ss. Inr (case r of None \<Rightarrow> ss | Some bbs \<Rightarrow> (n, bbs) # ss)))"

record 'f collisions =
  co_registry :: "'f registry"
  co_static :: "(string \<times> 'f bbox list) list"
  co_single :: "'f bbox list"

definition init_collisions :: "'f shape_data \<Rightarrow> block_state list \<Rightarrow> 'f collisions result" where
  "init_collisions D states =
    (let F = sd_flt D; zero = fl_lit F 0; one = fl_lit F 1
     in bind_result (load_states D states \<lparr>ld_registry = [], ld_counter = \<lambda>_. 0\<rparr>) (\<lambda>ld.
        bind_result (static_collisions (ld_registry ld)) (\<lambda>ss.
          Inr \<lparr>co_registry = ld_registry ld, co_static = ss,
               co_single = [bl_box (sd_lib D) (zero, zero, zero) (one, one, one)]\<rparr>)))"

section \<open>Looking boxes up\<close>

definition for_block_slow :: "'f collisions \<Rightarrow> string \<times> (string \<times> property) list \<Rightarrow> 'f bbox list result" where
  "for_block_slow C e = (case e of (n, ps) \<Rightarrow> case map_of (co_static C) n of
      Some bbs \<Rightarrow> Inr bbs
    | None \<Rightarrow> bind_result (hash_block_properties ps) (\<lambda>h. Inr (case map_of (co_registry C) n of
         None \<Rightarrow> co_single C
       | Some states \<Rightarrow> (case map_of states h of Some bbs \<Rightarrow> bbs | None \<Rightarrow> co_single C))))"

text \<open>What the block library says of a block: its name and properties, its hash and the key of the cache.\<close>
record ('b, 'k) block_view =
  bv_encode :: "'b \<Rightarrow> string \<times> (string \<times> property) list"
  bv_hash :: "'b \<Rightarrow> 64 word"
  bv_key :: "'b \<Rightarrow> 'k"

text \<open>All unknown blocks have the largest hash, so they are not cached.\<close>
definition for_block ::
  "('b, 'k) block_view \<Rightarrow> 'f collisions \<Rightarrow> 'b \<Rightarrow> ('k \<Rightarrow> 'f bbox list option) \<Rightarrow> 'f bbox list result \<times> ('k \<Rightarrow> 'f bbox list option)" where
  "for_block V C b cache =
    (let slow = for_block_slow C (bv_encode V b)
     in if bv_hash V b = - 1 then (slow, cache)
        else case cache (bv_key V b) of
          Some bbs \<Rightarrow> (Inr bbs, cache)
        | None \<Rightarrow> (slow, case slow of Inl _ \<Rightarrow> cache | Inr bbs \<Rightarrow> cache(bv_key V b \<mapsto> bbs)))"

fun look_ups ::
  "('b, 'k) block_view \<Rightarrow> 'f collisions \<Rightarrow> 'b list \<Rightarrow> ('k \<Rightarrow> 'f bbox list option) \<Rightarrow> 'f bbox list result list" where
  "look_ups V C [] cache = []"
| "look_ups V C (b # bs) cache = (case for_block V C b cache of (r, cache) \<Rightarrow> r # look_ups V C bs cache)"

section \<open>The cache is not seen\<close>

definition cache_ok :: "('b, 'k) block_view \<Rightarrow> 'f collisions \<Rightarrow> ('k \<Rightarrow> 'f bbox list option) \<Rightarrow> bool" where
  "cache_ok V C cache \<longleftrightarrow> (\<forall>b bbs. bv_hash V b \<noteq> - 1 \<longrightarrow> cache (bv_key V b) = Some bbs
     \<longrightarrow> for_block_slow C (bv_encode V b) = Inr bbs)"

lemma for_block_ok:
  assumes keys: "\<forall>b b'. bv_hash V b \<noteq> - 1 \<longrightarrow> bv_hash V b' \<noteq> - 1 \<longrightarrow> bv_key V b = bv_key V b' \<longrightarrow> bv_encode V b = bv_encode V b'"
    and ok: "cache_ok V C cache" and r: "for_block V C b cache = (r, cache')"
  shows "r = for_block_slow C (bv_encode V b) \<and> cache_ok V C cache'"
proof (cases "bv_hash V b = - 1 \<or> cache (bv_key V b) \<noteq> None")
  case True
  with ok r show ?thesis by (auto simp: for_block_def cache_ok_def Let_def split: if_splits)
next
  case False
  then have n: "bv_hash V b \<noteq> - 1" "cache (bv_key V b) = None" by simp_all
  show ?thesis
  proof (cases "for_block_slow C (bv_encode V b)")
    case (Inl e)
    with n ok r show ?thesis by (simp add: for_block_def Let_def)
  next
    case (Inr bbs)
    with n r have c: "r = Inr bbs" "cache' = cache(bv_key V b \<mapsto> bbs)" by (simp_all add: for_block_def Let_def)
    have "for_block_slow C (bv_encode V b') = Inr v" if "bv_hash V b' \<noteq> - 1" "cache' (bv_key V b') = Some v" for b' v
    proof (cases "bv_key V b' = bv_key V b")
      case True
      with keys that(1) n(1) have "bv_encode V b' = bv_encode V b" by blast
      with True that(2) c Inr show ?thesis by simp
    qed (use ok that c in \<open>simp add: cache_ok_def\<close>)
    with c Inr show ?thesis by (simp add: cache_ok_def)
  qed
qed

lemma look_ups_ok:
  assumes "\<forall>b b'. bv_hash V b \<noteq> - 1 \<longrightarrow> bv_hash V b' \<noteq> - 1 \<longrightarrow> bv_key V b = bv_key V b' \<longrightarrow> bv_encode V b = bv_encode V b'"
    "cache_ok V C cache"
  shows "look_ups V C bs cache = map (\<lambda>b. for_block_slow C (bv_encode V b)) bs"
  using assms(2)
proof (induction bs arbitrary: cache)
  case (Cons b bs)
  obtain r cache' where r: "for_block V C b cache = (r, cache')" by fastforce
  from for_block_ok[OF assms(1) Cons.prems r] Cons.IH r show ?case by simp
qed simp

text \<open>C29: looking up the boxes of any sequence of blocks through the cache, which starts empty, gives the answers of the lookup
  without a cache, failures included, when blocks with the same key have the same name and properties; unknown blocks, which
  share a hash, may share a key.
\<close>
theorem collision_cache_transparent:
  assumes "\<forall>b b'. bv_hash V b \<noteq> - 1 \<longrightarrow> bv_hash V b' \<noteq> - 1 \<longrightarrow> bv_key V b = bv_key V b' \<longrightarrow> bv_encode V b = bv_encode V b'"
  shows "look_ups V C bs Map.empty = map (\<lambda>b. for_block_slow C (bv_encode V b)) bs"
  by (rule look_ups_ok[OF assms]) (simp add: cache_ok_def)

section \<open>What is registered is found\<close>

definition registered :: "'f registry \<Rightarrow> string \<Rightarrow> 8 word list \<Rightarrow> 'f bbox list option" where
  "registered reg n h = map_of (states_of (prefixed n) reg) h"

lemma load_state_effect:
  assumes "load_state D s ld = Inr ld'"
  obtains h coll where "state_hash s = Inr h"
    "go_index (sd_blocks D (bs_name s)) (int (ld_counter ld (bs_name s))) = Inr coll"
    "ld_counter ld' = (ld_counter ld)(bs_name s := ld_counter ld (bs_name s) + 1)"
    "\<And>n k. registered (ld_registry ld') n k = (if n = bs_name s \<and> k = h
       then Some (encoded_collision_to_bbox (sd_flt D) (sd_lib D) (sd_shapes D coll)) else registered (ld_registry ld) n k)"
    "distinct (map fst (ld_registry ld)) \<Longrightarrow> distinct (map fst (ld_registry ld'))"
proof -
  from assms obtain h coll where h: "state_hash s = Inr h"
    "go_index (sd_blocks D (bs_name s)) (int (ld_counter ld (bs_name s))) = Inr coll"
    and ld': "ld' = \<lparr>ld_registry = AList.update (prefixed (bs_name s)) (AList.update h (encoded_collision_to_bbox (sd_flt D) (sd_lib D)
          (sd_shapes D coll)) (states_of (prefixed (bs_name s)) (ld_registry ld))) (ld_registry ld),
        ld_counter = (ld_counter ld)(bs_name s := ld_counter ld (bs_name s) + 1)\<rparr>"
    by (auto simp: load_state_def Let_def bind_result_Inr_iff)
  have r: "registered (ld_registry ld') n k = (if n = bs_name s \<and> k = h
       then Some (encoded_collision_to_bbox (sd_flt D) (sd_lib D) (sd_shapes D coll)) else registered (ld_registry ld) n k)" for n k
    by (simp add: ld' registered_def states_of_def update_conv')
  show thesis by (rule that[OF h _ r]) (simp_all add: ld' distinct_update)
qed

lemma load_states_append:
  "load_states D (xs @ ys) ld = bind_result (load_states D xs ld) (load_states D ys)"
  by (induction xs arbitrary: ld) (auto simp: bind_result_def split: sum.splits)

lemma load_states_counter:
  assumes "load_states D xs ld = Inr ld'"
  shows "ld_counter ld' n = ld_counter ld n + length (filter (\<lambda>s. bs_name s = n) xs)"
    and "distinct (map fst (ld_registry ld)) \<Longrightarrow> distinct (map fst (ld_registry ld'))"
  using assms
proof (induction xs arbitrary: ld)
  case (Cons x xs)
  { case 1
    then obtain l where l: "load_state D x ld = Inr l" "load_states D xs l = Inr ld'" by (auto simp: bind_result_Inr_iff)
    from load_state_effect[OF l(1)] Cons.IH(1)[OF l(2)] show ?case by fastforce }
  { case 2
    then obtain l where l: "load_state D x ld = Inr l" "load_states D xs l = Inr ld'" by (auto simp: bind_result_Inr_iff)
    from load_state_effect[OF l(1)] 2(1) have "distinct (map fst (ld_registry l))" by metis
    from Cons.IH(2)[OF this l(2)] show ?case . }
qed simp_all

text \<open>Later states with another hash, or of another block, leave an entry alone; and once there it stays there.\<close>
lemma load_states_keep:
  assumes "load_states D xs ld = Inr ld'" "\<forall>s \<in> set xs. bs_name s = n \<longrightarrow> state_hash s \<noteq> Inr h"
  shows "registered (ld_registry ld') n h = registered (ld_registry ld) n h"
  using assms
proof (induction xs arbitrary: ld)
  case (Cons x xs)
  then obtain l where l: "load_state D x ld = Inr l" "load_states D xs l = Inr ld'" by (auto simp: bind_result_Inr_iff)
  have "registered (ld_registry l) n h = registered (ld_registry ld) n h"
    by (rule load_state_effect[OF l(1)]) (use Cons.prems(2) in auto)
  with Cons.IH[OF l(2)] Cons.prems(2) show ?case by simp
qed simp

lemma load_states_in:
  assumes "load_states D xs ld = Inr ld'" "registered (ld_registry ld) n h \<noteq> None \<or> (\<exists>s \<in> set xs. bs_name s = n \<and> state_hash s = Inr h)"
  shows "registered (ld_registry ld') n h \<noteq> None"
  using assms
proof (induction xs arbitrary: ld)
  case (Cons x xs)
  then obtain l where l: "load_state D x ld = Inr l" "load_states D xs l = Inr ld'" by (auto simp: bind_result_Inr_iff)
  have "registered (ld_registry l) n h \<noteq> None \<or> (\<exists>s \<in> set xs. bs_name s = n \<and> state_hash s = Inr h)"
    by (rule load_state_effect[OF l(1)]) (use Cons.prems(2) in auto)
  from Cons.IH[OF l(2) this] show ?case .
qed simp

lemma static_boxes_right:
  assumes "static_boxes l = Inr (Some bbs)" "map_of l h = Some b" "h = [] \<or> (\<exists>k. k \<noteq> h \<and> map_of l k \<noteq> None)"
  shows "bbs = b"
proof (cases l)
  case (Cons x rest)
  show ?thesis
  proof (cases rest)
    case Nil
    with Cons assms show ?thesis by (cases x) (auto simp: static_boxes_def split: if_splits)
  next
    case (Cons y ys)
    obtain k c where x: "x = (k, c)" by fastforce
    from assms(1) \<open>l = x # rest\<close> Cons x have all: "bbs = c" "\<forall>(_, b) \<in> set rest. b = c"
      by (auto simp: static_boxes_def split: if_splits)
    from assms(2) have "(h, b) \<in> set l" by (rule map_of_SomeD)
    with all \<open>l = x # rest\<close> x show ?thesis by auto
  qed
qed (use assms(2) in simp)

lemma static_collisions_names: "static_collisions reg = Inr ss \<Longrightarrow> fst ` set ss \<subseteq> fst ` set reg"
proof (induction reg arbitrary: ss)
  case (Cons e reg)
  obtain m states where e: "e = (m, states)" by fastforce
  from Cons.prems e obtain r rest where r: "static_collisions reg = Inr rest"
    "ss = (case r of None \<Rightarrow> rest | Some bbs \<Rightarrow> (m, bbs) # rest)" by (auto simp: bind_result_Inr_iff)
  from Cons.IH[OF r(1)] r(2) e show ?case by (cases r) auto
qed simp

lemma static_collisions_of:
  assumes "static_collisions reg = Inr ss" "distinct (map fst reg)" "map_of reg n = Some l"
  shows "\<exists>r. static_boxes l = Inr r \<and> map_of ss n = r"
  using assms
proof (induction reg arbitrary: ss)
  case (Cons e reg)
  obtain m states where e: "e = (m, states)" by fastforce
  from Cons.prems(1) e obtain r rest where r: "static_boxes states = Inr r" "static_collisions reg = Inr rest"
    "ss = (case r of None \<Rightarrow> rest | Some bbs \<Rightarrow> (m, bbs) # rest)" by (auto simp: bind_result_Inr_iff)
  show ?case
  proof (cases "n = m")
    case True
    with Cons.prems(2) e have "n \<notin> fst ` set rest" using static_collisions_names[OF r(2)] by auto
    then have "map_of rest n = None" by (simp add: map_of_eq_None_iff)
    with True Cons.prems(3) e r show ?thesis by (auto split: option.splits)
  next
    case False
    with Cons.IH[OF r(2)] Cons.prems e r(3) show ?thesis by (auto split: option.splits)
  qed
qed simp

text \<open>Each state has a hash, and is there in the end.\<close>
lemma loaded_state:
  assumes "load_states D states ld = Inr ld'" "s \<in> set states"
  shows "\<exists>k. state_hash s = Inr k \<and> registered (ld_registry ld') (bs_name s) k \<noteq> None"
proof -
  from split_list[OF assms(2)] obtain ys zs where split: "states = ys @ s # zs" by blast
  with assms(1) obtain a b where "load_state D s a = Inr b" by (auto simp: load_states_append bind_result_Inr_iff)
  then obtain k where "state_hash s = Inr k" by (rule load_state_effect)
  with load_states_in[OF assms(1), of "bs_name s" k] assms(2) show ?thesis by blast
qed

text \<open>The lookup of a block of the registry, whether it is static or not.\<close>
lemma registered_is_found:
  assumes "static_collisions (co_registry C) = Inr (co_static C)" "distinct (map fst (co_registry C))"
    and "registered (co_registry C) n h = Some bbs" "hash_block_properties ps = Inr h"
    and "h = [] \<or> (\<exists>k. k \<noteq> h \<and> registered (co_registry C) n k \<noteq> None)"
  shows "for_block_slow C (prefixed n, ps) = Inr bbs"
proof -
  from assms(3) obtain l where l: "map_of (co_registry C) (prefixed n) = Some l" "map_of l h = Some bbs"
    by (auto simp: registered_def states_of_def split: option.splits)
  from assms(5) l(1) have "h = [] \<or> (\<exists>k. k \<noteq> h \<and> map_of l k \<noteq> None)" by (simp add: registered_def states_of_def)
  moreover obtain r where r: "static_boxes l = Inr r" "map_of (co_static C) (prefixed n) = r"
    using static_collisions_of[OF assms(1,2) l(1)] by blast
  ultimately have "b = bbs" if "r = Some b" for b using static_boxes_right[of l b h bbs] that l(2) by simp
  with r l assms(4) show ?thesis by (cases r) (simp_all add: for_block_slow_def)
qed

text \<open>C28: every state of the data is found again with the boxes of its shape, whichever way its block is stored: by its own
  boxes, or by one list for all of its states.  The properties of the block must give the bytes of the state, no later
  state of the block the same bytes, and a block with a single state no bytes at all.
\<close>
theorem registered_shapes_found:
  assumes "init_collisions D states = Inr C" "i < length states" "n = bs_name (states ! i)"
    and "state_hash (states ! i) = Inr h" "hash_block_properties ps = Inr h"
    and "\<forall>j < length states. i < j \<longrightarrow> bs_name (states ! j) = n \<longrightarrow> state_hash (states ! j) \<noteq> Inr h"
    and "h = [] \<or> (\<exists>j < length states. bs_name (states ! j) = n \<and> state_hash (states ! j) \<noteq> Inr h)"
  shows "\<exists>coll. go_index (sd_blocks D n) (int (length (filter (\<lambda>s. bs_name s = n) (take i states)))) = Inr coll
    \<and> for_block_slow C (prefixed n, ps) = Inr (encoded_collision_to_bbox (sd_flt D) (sd_lib D) (sd_shapes D coll))"
proof -
  let ?x = "states ! i" and ?ys = "take i states" and ?zs = "drop (Suc i) states"
  let ?start = "\<lparr>ld_registry = [], ld_counter = \<lambda>_. 0\<rparr> :: 'a loader"
  have split: "states = ?ys @ ?x # ?zs" using assms(2) by (simp add: id_take_nth_drop)
  from assms(1) obtain ld ss where ld: "load_states D states ?start = Inr ld" "static_collisions (ld_registry ld) = Inr ss"
    and C: "co_registry C = ld_registry ld" "co_static C = ss"
    by (auto simp: init_collisions_def Let_def bind_result_Inr_iff)
  from ld(1) obtain l1 l2 where l: "load_states D ?ys ?start = Inr l1" "load_state D ?x l1 = Inr l2" "load_states D ?zs l2 = Inr ld"
    by (subst (asm) split) (auto simp: load_states_append bind_result_Inr_iff)
  obtain coll where coll: "go_index (sd_blocks D n) (int (ld_counter l1 n)) = Inr coll"
    "registered (ld_registry l2) n h = Some (encoded_collision_to_bbox (sd_flt D) (sd_lib D) (sd_shapes D coll))"
    using l(2) by (rule load_state_effect) (use assms(3,4) in auto)
  have "registered (ld_registry ld) n h = registered (ld_registry l2) n h"
  proof (rule load_states_keep[OF l(3)], intro ballI impI)
    fix s assume "s \<in> set ?zs" and n: "bs_name s = n"
    then obtain k where "k < length ?zs" "s = ?zs ! k" by (metis in_set_conv_nth)
    then show "state_hash s \<noteq> Inr h" using assms(6) n by simp
  qed
  with coll(2) have "registered (ld_registry ld) n h
      = Some (encoded_collision_to_bbox (sd_flt D) (sd_lib D) (sd_shapes D coll))" (is "_ = Some ?bbs") by simp
  moreover have "h = [] \<or> (\<exists>k. k \<noteq> h \<and> registered (ld_registry ld) n k \<noteq> None)"
    using assms(7) loaded_state[OF ld(1)] nth_mem by metis
  moreover have "distinct (map fst (ld_registry ld))" using load_states_counter(2)[OF ld(1)] by simp
  ultimately have "for_block_slow C (prefixed n, ps) = Inr ?bbs"
    using registered_is_found[of C n h ?bbs ps] C ld(2) assms(5) by simp
  moreover have "ld_counter l1 n = length (filter (\<lambda>s. bs_name s = n) ?ys)"
    using load_states_counter(1)[OF l(1), of n] by simp
  ultimately show ?thesis using coll(1) by auto
qed

section \<open>A small registry\<close>

text \<open>A block with two states of different boxes, one with a single state, and one with a single state that has a property.\<close>
definition demo_shapes :: "int shape_data" where
  "demo_shapes = \<lparr>sd_flt = demo_flt, sd_lib = \<lparr>bl_box = Pair, bl_translate = \<lambda>_ b. b, bl_grow = \<lambda>_ b. b, bl_grow_vec = \<lambda>_ b. b,
       bl_extend = \<lambda>_ b. b, bl_extend_down = \<lambda>_ b. b, bl_intersects = \<lambda>_ _. False, bl_within = \<lambda>_ _. False,
       bl_intercept = \<lambda>_ _ _. None, bl_pos_of = \<lambda>_. (0, 0, 0)\<rparr>,
     sd_blocks = (\<lambda>n. if n = ''slab'' then [1, 2] else if n = ''stone'' then [1] else if n = ''post'' then [2] else []),
     sd_shapes = (\<lambda>i. if i = 1 then [((500, 500, 500), (1000, 1000, 1000))] else if i = 2
       then [((500, 250, 500), (1000, 500, 1000))] else [])\<rparr>"

definition half :: "int \<Rightarrow> (string \<times> json_state) list" where
  "half n = [(''top'', \<lparr>js_type = ''byte'', js_value = JNumber n\<rparr>)]"

definition demo_states :: "block_state list" where
  "demo_states = [\<lparr>bs_name = ''slab'', bs_state = half 0\<rparr>, \<lparr>bs_name = ''stone'', bs_state = []\<rparr>,
     \<lparr>bs_name = ''slab'', bs_state = half 1\<rparr>, \<lparr>bs_name = ''post'', bs_state = half 0\<rparr>]"

definition demo_collisions :: "int collisions" where
  "demo_collisions = (case init_collisions demo_shapes demo_states of Inr C \<Rightarrow> C | Inl _ \<Rightarrow> \<lparr>co_registry = [], co_static = [], co_single = []\<rparr>)"

lemma demo_init: "init_collisions demo_shapes demo_states = Inr demo_collisions"
proof -
  have "case init_collisions demo_shapes demo_states of Inr C \<Rightarrow> True | Inl _ \<Rightarrow> False" by code_simp
  then show ?thesis by (simp add: demo_collisions_def split: sum.splits)
qed

text \<open>The second state of the slab.\<close>
theorem registered_shapes_found_witness:
  "\<exists>coll. go_index [1, 2] 1 = Inr coll \<and> for_block_slow demo_collisions (prefixed ''slab'', [(''top'', PBool True)])
     = Inr (encoded_collision_to_bbox demo_flt (sd_lib demo_shapes) (sd_shapes demo_shapes coll))"
proof -
  have hashes: "state_hash (demo_states ! 0) = Inr [0]" "state_hash (demo_states ! 2) = Inr [1]"
    by code_simp+
  have h: "hash_block_properties [(''top'', PBool True)] = Inr [1]" by code_simp
  have len: "length demo_states = 4" by code_simp
  have names: "bs_name (demo_states ! 0) = ''slab''" "bs_name (demo_states ! 2) = ''slab''" "bs_name (demo_states ! 3) = ''post''"
    by code_simp+
  have later: "\<forall>j < length demo_states. 2 < j \<longrightarrow> bs_name (demo_states ! j) = ''slab'' \<longrightarrow> state_hash (demo_states ! j) \<noteq> Inr [1]"
  proof (intro allI impI)
    fix j assume "j < length demo_states" "2 < j" and n: "bs_name (demo_states ! j) = ''slab''"
    then have "j = 3" using len by simp
    with n names show "state_hash (demo_states ! j) \<noteq> Inr [1]" by simp
  qed
  have "\<exists>j < length demo_states. bs_name (demo_states ! j) = ''slab'' \<and> state_hash (demo_states ! j) \<noteq> Inr [1]"
    using names hashes len by (intro exI[of _ 0]) simp
  moreover have "length (filter (\<lambda>s. bs_name s = ''slab'') (take 2 demo_states)) = 1" by code_simp
  moreover have "sd_blocks demo_shapes ''slab'' = [1, 2]" "sd_flt demo_shapes = demo_flt" by (simp_all add: demo_shapes_def)
  ultimately show ?thesis using registered_shapes_found[OF demo_init, of 2 "''slab''" "[1]"] len names hashes h later by simp
qed

text \<open>A block whose only state has a property has no boxes at all.\<close>
lemma lone_state_loses_boxes:
  "for_block_slow demo_collisions (prefixed ''post'', [(''top'', PByte 0)]) = Inr []"
  by code_simp

definition named_view :: "(string, string) block_view" where
  "named_view = \<lparr>bv_encode = (\<lambda>n. (n, [])), bv_hash = (\<lambda>n. if n = ''unknown'' then - 1 else 0), bv_key = (\<lambda>n. n)\<rparr>"

theorem collision_cache_transparent_witness:
  "look_ups named_view demo_collisions [prefixed ''stone'', ''unknown'', prefixed ''stone''] Map.empty
     = map (\<lambda>n. for_block_slow demo_collisions (n, [])) [prefixed ''stone'', ''unknown'', prefixed ''stone'']"
  using collision_cache_transparent[of named_view demo_collisions "[prefixed ''stone'', ''unknown'', prefixed ''stone'']"]
  by (simp add: named_view_def)

end
