(* ===== verification/ConfigFile.thy ===== *)
theory ConfigFile
  imports Prelude "HOL-Library.AList"
begin

text \<open>
  The configuration file: \<^verbatim>\<open>src/oconfig/json.go\<close>, with the fields of \<^verbatim>\<open>config.go\<close> that the
  migrations set.  Reading and writing documents is the library's; what the code relies on is \<^verbatim>\<open>hjson_laws\<close>.
\<close>

section \<open>Documents\<close>

text \<open>A document is a value, or an object: its entries in their order.\<close>
datatype 'v node = Leaf 'v | Obj "(string \<times> 'v node) list"

type_synonym 'v entries = "(string \<times> 'v node) list"

text \<open>\<^verbatim>\<open>mergeConfigNodes\<close>: objects are merged entry by entry, any other value is replaced.\<close>
fun merge_config_nodes :: "(string \<Rightarrow> 'v node \<Rightarrow> 'v entries \<Rightarrow> 'v entries) \<Rightarrow> 'v node \<Rightarrow> 'v node \<Rightarrow> 'v node result"
  and merge_entries :: "(string \<Rightarrow> 'v node \<Rightarrow> 'v entries \<Rightarrow> 'v entries) \<Rightarrow> 'v entries \<Rightarrow> 'v entries \<Rightarrow> 'v entries result" where
  "merge_config_nodes put (Obj d) (Obj s) = bind_result (merge_entries put d s) (\<lambda>es. Inr (Obj es))"
| "merge_config_nodes put (Leaf v) s = Inl (Err ''expected config objects'')"
| "merge_config_nodes put (Obj d) (Leaf v) = Inl (Err ''expected config objects'')"
| "merge_entries put d [] = Inr d"
| "merge_entries put d ((k, c) # s) =
    (case map_of d k of
       None \<Rightarrow> merge_entries put (put k c d) s
     | Some dc \<Rightarrow> (case (dc, c) of
         (Obj x, Obj y) \<Rightarrow> bind_result (merge_config_nodes put (Obj x) (Obj y)) (\<lambda>n. merge_entries put (put k n d) s)
       | _ \<Rightarrow> merge_entries put (put k c d) s))"

section \<open>The configuration\<close>

abbreviation config_version :: "64 word" where "config_version \<equiv> 7"

text \<open>The fields that migrations touch; a nil map of detections is \<^verbatim>\<open>None\<close>.\<close>
record ('f, 'n, 'd, 'r) config =
  cf_version :: "64 word"
  cf_prefix :: string
  cf_gc_percent :: int
  cf_mem_threshold :: int
  cf_network :: 'n
  cf_limit_velocity :: bool
  cf_limit_threshold :: 'f
  cf_detections :: "(string \<Rightarrow> 'd option) option"
  cf_rest :: 'r

text \<open>The library: reading a file over a configuration or as a document, writing both, and the entries of an object.\<close>
record ('y, 'v, 'f, 'n, 'd, 'r) hjson =
  hj_config :: "'y \<Rightarrow> ('f, 'n, 'd, 'r) config \<Rightarrow> ('f, 'n, 'd, 'r) config option"
  hj_node :: "'y \<Rightarrow> 'v node option"
  hj_of_config :: "('f, 'n, 'd, 'r) config \<Rightarrow> 'y option"
  hj_of_node :: "'v node \<Rightarrow> 'y option"
  hj_put :: "string \<Rightarrow> 'v node \<Rightarrow> 'v entries \<Rightarrow> 'v entries"
  hj_delete :: "string \<Rightarrow> 'v node \<Rightarrow> 'v node option"
  hj_number :: "64 word \<Rightarrow> 'v"

definition detection_or :: "'d \<Rightarrow> string \<Rightarrow> ('f, 'n, 'd, 'r) config \<Rightarrow> 'd" where
  "detection_or zero k c = (case cf_detections c of None \<Rightarrow> zero | Some m \<Rightarrow> (case m k of None \<Rightarrow> zero | Some d \<Rightarrow> d))"

text \<open>One step, from the version of the file; \<^verbatim>\<open>dflt\<close> is the default configuration.\<close>
definition migrate :: "'d \<Rightarrow> ('f, 'n, 'd, 'r) config \<Rightarrow> ('f, 'n, 'd, 'r) config \<Rightarrow> ('f, 'n, 'd, 'r) config" where
  "migrate zero dflt c =
    (let c' = (if cf_version c = 0
           then c\<lparr>cf_prefix := cf_prefix dflt, cf_gc_percent := cf_gc_percent dflt, cf_mem_threshold := cf_mem_threshold dflt,
                  cf_detections := cf_detections dflt\<rparr>
         else if cf_version c = 2 then c\<lparr>cf_network := cf_network dflt\<rparr>
         else if cf_version c = 3
           then c\<lparr>cf_detections := Some ((case cf_detections c of None \<Rightarrow> Map.empty | Some m \<Rightarrow> m)
                    (''Proxy_A'' \<mapsto> detection_or zero ''Proxy_A'' dflt, ''Proxy_B'' \<mapsto> detection_or zero ''Proxy_B'' dflt))\<rparr>
         else if cf_version c = 4
           then c\<lparr>cf_limit_velocity := cf_limit_velocity dflt, cf_limit_threshold := cf_limit_threshold dflt\<rparr>
         else c)
     in c'\<lparr>cf_version := config_version\<rparr>)"

datatype 'c parsed = ParseError | TooNew | Migrated 'c | Parsed 'c

definition parse_raw_json ::
  "('y, 'v, 'f, 'n, 'd, 'r) hjson \<Rightarrow> 'd \<Rightarrow> ('f, 'n, 'd, 'r) config \<Rightarrow> 'y \<Rightarrow> ('f, 'n, 'd, 'r) config parsed" where
  "parse_raw_json H zero dflt data = (case hj_config H data dflt of
      None \<Rightarrow> ParseError
    | Some c \<Rightarrow> if config_version < cf_version c then TooNew
        else if cf_version c < config_version then Migrated (migrate zero dflt c) else Parsed c)"

section \<open>The file\<close>

datatype 'y config_file = Missing | Unreadable | Holds 'y

datatype start = Loaded | ConfigCreated | ConfigUpdated | Failed

text \<open>The file, whether it can be written, and the configuration in use.\<close>
record ('y, 'f, 'n, 'd, 'r) config_state =
  cs_file :: "'y config_file"
  cs_writable :: bool
  cs_global :: "('f, 'n, 'd, 'r) config"

definition write_file :: "'y option \<Rightarrow> ('y, 'f, 'n, 'd, 'r) config_state \<Rightarrow> start \<Rightarrow> start \<times> ('y, 'f, 'n, 'd, 'r) config_state" where
  "write_file y s ok = (case y of None \<Rightarrow> (Failed, s)
     | Some dat \<Rightarrow> if cs_writable s then (ok, s\<lparr>cs_file := Holds dat\<rparr>) else (Failed, s))"

abbreviation spectrum_token :: string where "spectrum_token \<equiv> ''spectrum_api_token''"

text \<open>The document of the old file with the values of the new configuration, without the obsolete token.\<close>
definition migrated_document ::
  "('y, 'v, 'f, 'n, 'd, 'r) hjson \<Rightarrow> 'y \<Rightarrow> ('f, 'n, 'd, 'r) config \<Rightarrow> 'v node option" where
  "migrated_document H original c = (case hj_node H original of None \<Rightarrow> None
     | Some existing \<Rightarrow> (case hj_of_config H c of None \<Rightarrow> None
         | Some known_data \<Rightarrow> (case hj_node H known_data of None \<Rightarrow> None
             | Some known \<Rightarrow> (case merge_config_nodes (hj_put H) existing known of Inl _ \<Rightarrow> None
                 | Inr merged \<Rightarrow> hj_delete H spectrum_token merged))))"

definition write_migrated_json ::
  "('y, 'v, 'f, 'n, 'd, 'r) hjson \<Rightarrow> 'y \<Rightarrow> ('f, 'n, 'd, 'r) config \<Rightarrow> ('y, 'f, 'n, 'd, 'r) config_state
   \<Rightarrow> start \<times> ('y, 'f, 'n, 'd, 'r) config_state" where
  "write_migrated_json H original c s = (case migrated_document H original c of None \<Rightarrow> (Failed, s)
     | Some n \<Rightarrow> write_file (hj_of_node H n) s ConfigUpdated)"

definition parse_json ::
  "('y, 'v, 'f, 'n, 'd, 'r) hjson \<Rightarrow> 'd \<Rightarrow> ('f, 'n, 'd, 'r) config \<Rightarrow> ('y, 'f, 'n, 'd, 'r) config_state
   \<Rightarrow> start \<times> ('y, 'f, 'n, 'd, 'r) config_state" where
  "parse_json H zero dflt s = (case cs_file s of
      Missing \<Rightarrow> write_file (hj_of_config H dflt) s ConfigCreated
    | Unreadable \<Rightarrow> (Failed, s)
    | Holds data \<Rightarrow> (case parse_raw_json H zero dflt data of
        ParseError \<Rightarrow> (Failed, s)
      | TooNew \<Rightarrow> (Failed, s)
      | Migrated c \<Rightarrow> write_migrated_json H data c s
      | Parsed c \<Rightarrow> (Loaded, s\<lparr>cs_global := c\<rparr>)))"

section \<open>Paths\<close>

fun node_at :: "string list \<Rightarrow> 'v node \<Rightarrow> 'v node option" where
  "node_at [] n = Some n"
| "node_at (k # ks) (Leaf v) = None"
| "node_at (k # ks) (Obj es) = (case map_of es k of None \<Rightarrow> None | Some n \<Rightarrow> node_at ks n)"

text \<open>Whether a path leaves a document where an entry is missing.\<close>
fun foreign :: "string list \<Rightarrow> 'v node \<Rightarrow> bool" where
  "foreign [] n = False"
| "foreign (k # ks) (Leaf v) = False"
| "foreign (k # ks) (Obj es) = (case map_of es k of None \<Rightarrow> True | Some n \<Rightarrow> foreign ks n)"

text \<open>No object has two entries of a name.\<close>
fun keys_distinct :: "'v node \<Rightarrow> bool" where
  "keys_distinct (Leaf v) = True"
| "keys_distinct (Obj es) = (distinct (map fst es) \<and> (\<forall>(k, n) \<in> set es. keys_distinct n))"

definition puts :: "(string \<Rightarrow> 'v node \<Rightarrow> 'v entries \<Rightarrow> 'v entries) \<Rightarrow> bool" where
  "puts put \<longleftrightarrow> (\<forall>k n es. map_of (put k n es) = (map_of es)(k \<mapsto> n))"

text \<open>What the library documents: what is written is read again, the version of a configuration is its field of that name,
  and entries are put and deleted.\<close>
definition hjson_laws :: "('y, 'v, 'f, 'n, 'd, 'r) hjson \<Rightarrow> ('f, 'n, 'd, 'r) config \<Rightarrow> bool" where
  "hjson_laws H dflt \<longleftrightarrow> puts (hj_put H)
     \<and> (\<forall>n y. hj_of_node H n = Some y \<longrightarrow> hj_node H y = Some n)
     \<and> (\<forall>y n. hj_node H y = Some n \<longrightarrow> keys_distinct n)
     \<and> (\<forall>c y. hj_of_config H c = Some y \<longrightarrow> (\<exists>n. hj_node H y = Some n
          \<and> node_at [''version''] n = Some (Leaf (hj_number H (cf_version c)))))
     \<and> (\<forall>y c n w. hj_config H y dflt = Some c \<longrightarrow> hj_node H y = Some n
          \<longrightarrow> node_at [''version''] n = Some (Leaf (hj_number H w)) \<longrightarrow> cf_version c = w)
     \<and> (\<forall>k n m. hj_delete H k n = Some m \<longrightarrow> (\<forall>j p. node_at (j # p) m = (if j = k then None else node_at (j # p) n)))"

section \<open>Merging\<close>

text \<open>What merging leaves: paths foreign to the source keep their value, values of the source are taken.\<close>
definition merged_from :: "'v node \<Rightarrow> 'v node \<Rightarrow> 'v node \<Rightarrow> bool" where
  "merged_from d s m \<longleftrightarrow> (\<forall>p. foreign p s \<longrightarrow> node_at p m = node_at p d)
     \<and> (\<forall>p v. node_at p s = Some (Leaf v) \<longrightarrow> node_at p m = Some (Leaf v))"

lemma foreign_node_at: "foreign p n \<Longrightarrow> node_at p n = None"
  by (induction p n rule: foreign.induct) (auto split: option.splits)

lemma foreign_Nil [simp]: "\<not> foreign [] n" "\<not> foreign p (Leaf v)"
  by simp (cases p; simp)

lemma node_at_Leaf: "node_at p (Leaf v) = (if p = [] then Some (Leaf v) else None)"
  by (cases p) simp_all

text \<open>An entry put first, which the other entries leave alone.\<close>
lemma merged_entry:
  assumes "map_of d' = (map_of d)(k \<mapsto> n)" "k \<notin> fst ` set s" "merged_from (Obj d') (Obj s) (Obj e)"
    and "\<And>p. foreign p c \<Longrightarrow> node_at p n = (case map_of d k of None \<Rightarrow> None | Some dc \<Rightarrow> node_at p dc)"
    and "\<And>p v. node_at p c = Some (Leaf v) \<Longrightarrow> node_at p n = Some (Leaf v)"
  shows "merged_from (Obj d) (Obj ((k, c) # s)) (Obj e)"
proof -
  have k: "map_of s k = None" using assms(2) by (simp add: map_of_eq_None_iff)
  have at_k: "node_at (k # p) (Obj e) = node_at p n" for p
  proof -
    have "foreign (k # p) (Obj s)" using k by simp
    then have "node_at (k # p) (Obj e) = node_at (k # p) (Obj d')" using assms(3) unfolding merged_from_def by blast
    then show ?thesis by (simp add: assms(1))
  qed
  have "node_at p (Obj e) = node_at p (Obj d)" if "foreign p (Obj ((k, c) # s))" for p
  proof (cases p)
    case (Cons j q)
    show ?thesis
    proof (cases "j = k")
      case True
      with that Cons assms(4)[of q] at_k[of q] show ?thesis by simp
    next
      case False
      with that Cons have "foreign p (Obj s)" by simp
      then have "node_at p (Obj e) = node_at p (Obj d')" using assms(3) unfolding merged_from_def by blast
      with False Cons assms(1) show ?thesis by simp
    qed
  qed (use that in simp)
  moreover have "node_at p (Obj e) = Some (Leaf v)" if "node_at p (Obj ((k, c) # s)) = Some (Leaf v)" for p v
  proof (cases p)
    case (Cons j q)
    show ?thesis
    proof (cases "j = k")
      case True
      with that Cons assms(5)[of q v] at_k[of q] show ?thesis by simp
    next
      case False
      with that Cons have "node_at p (Obj s) = Some (Leaf v)" by simp
      then show ?thesis using assms(3) unfolding merged_from_def by blast
    qed
  qed (use that in simp)
  ultimately show ?thesis unfolding merged_from_def by blast
qed

lemma merge_right:
  "puts put \<longrightarrow> keys_distinct n2 \<longrightarrow> (\<forall>m. merge_config_nodes put n1 n2 = Inr m \<longrightarrow> merged_from n1 n2 m)"
  "puts put \<longrightarrow> keys_distinct (Obj s) \<longrightarrow> (\<forall>e. merge_entries put d s = Inr e \<longrightarrow> merged_from (Obj d) (Obj s) (Obj e))"
proof (induction put n1 n2 and put d s rule: merge_config_nodes_merge_entries.induct)
  case (1 put d s)
  then show ?case by (auto simp: bind_result_Inr_iff)
next
  case (4 put d)
  show ?case by (auto simp: merged_from_def node_at_Leaf elim: node_at.elims foreign.elims)
next
  case (5 put d k c s)
  show ?case
  proof (intro impI allI)
    fix e assume p: "puts put" and kd: "keys_distinct (Obj ((k, c) # s))" and m: "merge_entries put d ((k, c) # s) = Inr e"
    have k: "k \<notin> fst ` set s" and ks: "keys_distinct (Obj s)" "keys_distinct c" using kd by auto
    have put: "map_of (put k n d) = (map_of d)(k \<mapsto> n)" for n using p by (simp add: puts_def)
    show "merged_from (Obj d) (Obj ((k, c) # s)) (Obj e)"
    proof (cases "map_of d k")
      case None
      with m 5(1)[OF None] p ks show ?thesis
        by (intro merged_entry[OF put k, where c = c and n = c]) (auto simp: foreign_node_at)
    next
      case dc: (Some dc)
      show ?thesis
      proof (cases "\<exists>x y. dc = Obj x \<and> c = Obj y")
        case True
        then obtain x y where xy: "dc = Obj x" "c = Obj y" by blast
        with m dc obtain n where n: "merge_config_nodes put (Obj x) (Obj y) = Inr n" "merge_entries put (put k n d) s = Inr e"
          by (auto simp: bind_result_Inr_iff)
        have a: "merged_from dc c n" using 5(4)[OF dc refl xy] p ks(2) xy n(1) by blast
        have b: "merged_from (Obj (put k n d)) (Obj s) (Obj e)" using 5(5)[OF dc refl xy] p ks(1) n by blast
        show ?thesis using a dc by (intro merged_entry[OF put k b]) (auto simp: merged_from_def)
      next
        case False
        then have "merge_entries put (put k c d) s = Inr e" using m dc by (auto split: node.splits)
        then have b: "merged_from (Obj (put k c d)) (Obj s) (Obj e)"
          using 5(2,3) dc p ks(1) False by (cases dc; cases c) auto
        show ?thesis
        proof (rule merged_entry[OF put k b])
          fix p assume f: "foreign p c"
          then obtain es where "c = Obj es" by (cases c) auto
          with False obtain v where "dc = Leaf v" by (cases dc) auto
          with dc f show "node_at p c = (case map_of d k of None \<Rightarrow> None | Some dc \<Rightarrow> node_at p dc)"
            by (cases p) (simp_all add: foreign_node_at)
        qed
      qed
    qed
  qed
qed simp_all

section \<open>Starts\<close>

lemma write_file_cases:
  assumes "write_file y s ok = (r, s')" "ok \<noteq> Failed"
  obtains "r = Failed" "s' = s" | dat where "y = Some dat" "r = ok" "s' = s\<lparr>cs_file := Holds dat\<rparr>"
  using assms by (auto simp: write_file_def split: option.splits if_splits)

lemma parsed_version: "parse_raw_json H zero dflt data = Parsed c \<Longrightarrow> cf_version c = config_version"
  by (auto simp: parse_raw_json_def split: option.splits if_splits)

lemma migrated_version: "parse_raw_json H zero dflt data = Migrated c \<Longrightarrow> cf_version c = config_version"
  by (auto simp: parse_raw_json_def migrate_def Let_def split: option.splits if_splits)

lemma written_version:
  "hjson_laws H dflt \<Longrightarrow> hj_of_config H c = Some y \<Longrightarrow>
    \<exists>n. hj_node H y = Some n \<and> node_at [''version''] n = Some (Leaf (hj_number H (cf_version c)))"
  by (simp only: hjson_laws_def)

text \<open>The parts of a document that was migrated.\<close>
lemma migrated_parts:
  assumes "migrated_document H data c = Some m" "hjson_laws H dflt"
  shows "\<exists>old y k. hj_node H data = Some old \<and> hj_of_config H c = Some y \<and> hj_node H y = Some k
    \<and> node_at [''version''] k = Some (Leaf (hj_number H (cf_version c))) \<and> node_at [spectrum_token] m = None
    \<and> (\<forall>j p. j \<noteq> spectrum_token \<longrightarrow> (foreign (j # p) k \<longrightarrow> node_at (j # p) m = node_at (j # p) old)
         \<and> (\<forall>v. node_at (j # p) k = Some (Leaf v) \<longrightarrow> node_at (j # p) m = Some (Leaf v)))"
proof -
  from assms(1) obtain old y k x where x: "hj_node H data = Some old" "hj_of_config H c = Some y" "hj_node H y = Some k"
    "merge_config_nodes (hj_put H) old k = Inr x" "hj_delete H spectrum_token x = Some m"
    by (auto simp: migrated_document_def split: option.splits sum.splits)
  from assms(2) x(2,3) have v: "node_at [''version''] k = Some (Leaf (hj_number H (cf_version c)))"
    using written_version by fastforce
  from assms(2) x(3) have "puts (hj_put H)" "keys_distinct k" unfolding hjson_laws_def by blast+
  with merge_right(1)[of "hj_put H" k old] x(4) have from_old: "merged_from old k x" by blast
  from assms(2) x(5) have del: "node_at (j # p) m = (if j = spectrum_token then None else node_at (j # p) x)" for j p
    unfolding hjson_laws_def by blast
  show ?thesis
    by (intro exI[of _ old] exI[of _ y] exI[of _ k] conjI allI impI)
      (use x(1-3) v from_old in \<open>simp_all add: del merged_from_def\<close>)
qed

text \<open>A file with the current version is loaded.\<close>
lemma current_file_loads:
  assumes "hjson_laws H dflt" "cs_file s = Holds y" "hj_node H y = Some n"
    and "node_at [''version''] n = Some (Leaf (hj_number H config_version))" "hj_config H y dflt = Some c"
  shows "parse_json H zero dflt s = (Loaded, s\<lparr>cs_global := c\<rparr>)"
proof -
  from assms(1,3-5) have "cf_version c = config_version" unfolding hjson_laws_def by blast
  with assms(2,5) show ?thesis by (simp add: parse_json_def parse_raw_json_def)
qed

lemma migrated_document_version:
  assumes "migrated_document H data c = Some m" "hjson_laws H dflt"
  shows "node_at [''version''] m = Some (Leaf (hj_number H (cf_version c)))"
proof -
  obtain old k where k: "node_at [''version''] k = Some (Leaf (hj_number H (cf_version c)))"
      "\<forall>j p. j \<noteq> spectrum_token \<longrightarrow> (foreign (j # p) k \<longrightarrow> node_at (j # p) m = node_at (j # p) old)
        \<and> (\<forall>v. node_at (j # p) k = Some (Leaf v) \<longrightarrow> node_at (j # p) m = Some (Leaf v))"
    using migrated_parts[OF assms] by (elim exE conjE) (rule that)
  with spec[OF spec[OF k(2)], of "''version''" "[]"] show ?thesis by simp
qed

text \<open>A write by a start: nothing changes, or the file is of the current version.\<close>
lemma written_start:
  assumes "hjson_laws H dflt" "write_file y s ok = (r, s')" "ok \<in> {ConfigCreated, ConfigUpdated}"
    and "\<And>dat. y = Some dat \<Longrightarrow> \<exists>n. hj_node H dat = Some n \<and> node_at [''version''] n = Some (Leaf (hj_number H config_version))"
  shows "r = Failed \<and> s' = s \<or> r = ok \<and> cs_global s' = cs_global s \<and> (\<exists>y. cs_file s' = Holds y
    \<and> (\<forall>c. hj_config H y dflt = Some c \<longrightarrow> parse_json H zero dflt s' = (Loaded, s'\<lparr>cs_global := c\<rparr>)))"
proof (cases rule: write_file_cases[OF assms(2)])
  case (3 dat)
  from assms(4)[OF 3(1)] obtain n where "hj_node H dat = Some n" "node_at [''version''] n = Some (Leaf (hj_number H config_version))"
    by blast
  with current_file_loads[OF assms(1), of s' dat n] 3 show ?thesis by simp
qed (use assms(3) in auto)

text \<open>C31: a start that fails leaves the file and the configuration in use alone.  One that succeeds finds the current version
  and does not touch the file.  One that creates or updates the file leaves a file of the current version, so that the
  next start, if the file can be decoded, loads it and changes nothing more: no file is migrated twice.
\<close>
theorem config_starts_settle:
  assumes "hjson_laws H dflt" "cf_version dflt = config_version" "parse_json H zero dflt s = (r, s')"
  shows "case r of
      Failed \<Rightarrow> s' = s
    | Loaded \<Rightarrow> cs_file s' = cs_file s \<and> cf_version (cs_global s') = config_version
    | _ \<Rightarrow> cs_global s' = cs_global s \<and> (\<exists>y. cs_file s' = Holds y
        \<and> (\<forall>c. hj_config H y dflt = Some c \<longrightarrow> parse_json H zero dflt s' = (Loaded, s'\<lparr>cs_global := c\<rparr>)))"
proof (cases "cs_file s")
  case Missing
  with assms(3) have w: "write_file (hj_of_config H dflt) s ConfigCreated = (r, s')" by (simp add: parse_json_def)
  have "\<exists>n. hj_node H dat = Some n \<and> node_at [''version''] n = Some (Leaf (hj_number H config_version))"
    if "hj_of_config H dflt = Some dat" for dat using written_version[OF assms(1) that] assms(2) by simp
  from written_start[OF assms(1) w _ this] show ?thesis by (auto split: start.split)
next
  case Unreadable
  with assms(3) show ?thesis by (auto simp: parse_json_def)
next
  case (Holds data)
  show ?thesis
  proof (cases "parse_raw_json H zero dflt data")
    case (Migrated c)
    with Holds assms(3) have w: "write_migrated_json H data c s = (r, s')" by (simp add: parse_json_def)
    show ?thesis
    proof (cases "migrated_document H data c")
      case (Some m)
      with w have w': "write_file (hj_of_node H m) s ConfigUpdated = (r, s')" by (simp add: write_migrated_json_def)
      have "\<exists>n. hj_node H dat = Some n \<and> node_at [''version''] n = Some (Leaf (hj_number H config_version))"
        if "hj_of_node H m = Some dat" for dat
        using that assms(1) migrated_document_version[OF Some assms(1)] migrated_version[OF Migrated]
        unfolding hjson_laws_def by simp
      from written_start[OF assms(1) w' _ this] show ?thesis by (auto split: start.split)
    qed (use w in \<open>auto simp: write_migrated_json_def\<close>)
  qed (use Holds assms(3) parsed_version in \<open>auto simp: parse_json_def\<close>)
qed

text \<open>An update of the file writes every value of the migrated configuration, and what the configuration does not know of
  keeps its value in the file, except for the obsolete token, which is gone.
\<close>
theorem update_keeps_foreign_fields:
  assumes "hjson_laws H dflt" "cs_file s = Holds data" "parse_json H zero dflt s = (ConfigUpdated, s')"
  shows "\<exists>old c y k m. hj_node H data = Some old \<and> parse_raw_json H zero dflt data = Migrated c
    \<and> hj_of_config H c = Some y \<and> hj_node H y = Some k \<and> (\<exists>dat. cs_file s' = Holds dat \<and> hj_node H dat = Some m)
    \<and> node_at [spectrum_token] m = None
    \<and> (\<forall>j p. j \<noteq> spectrum_token \<longrightarrow> (foreign (j # p) k \<longrightarrow> node_at (j # p) m = node_at (j # p) old)
         \<and> (\<forall>v. node_at (j # p) k = Some (Leaf v) \<longrightarrow> node_at (j # p) m = Some (Leaf v)))"
proof -
  from assms(2,3) obtain c where c: "parse_raw_json H zero dflt data = Migrated c"
    and w: "write_migrated_json H data c s = (ConfigUpdated, s')"
    by (auto simp: parse_json_def split: parsed.splits)
  then obtain m where m: "migrated_document H data c = Some m" and w': "write_file (hj_of_node H m) s ConfigUpdated = (ConfigUpdated, s')"
    by (auto simp: write_migrated_json_def split: option.splits)
  obtain dat where d: "hj_of_node H m = Some dat" "cs_file s' = Holds dat"
    by (rule write_file_cases[OF w']) auto
  from assms(1) d(1) have n: "hj_node H dat = Some m" unfolding hjson_laws_def by blast
  obtain old y k where "hj_node H data = Some old" "hj_of_config H c = Some y" "hj_node H y = Some k"
    "node_at [spectrum_token] m = None"
    "\<forall>j p. j \<noteq> spectrum_token \<longrightarrow> (foreign (j # p) k \<longrightarrow> node_at (j # p) m = node_at (j # p) old)
       \<and> (\<forall>v. node_at (j # p) k = Some (Leaf v) \<longrightarrow> node_at (j # p) m = Some (Leaf v))"
    using migrated_parts[OF m assms(1)] by (elim exE conjE) (rule that)
  moreover have "\<exists>dat. cs_file s' = Holds dat \<and> hj_node H dat = Some m" using d(2) n by (intro exI[of _ dat] conjI)
  ultimately show ?thesis using c
    by - (rule exI[of _ old], rule exI[of _ c], rule exI[of _ y], rule exI[of _ k], rule exI[of _ m], intro conjI)
qed

section \<open>A library for which this holds\<close>

text \<open>Files are documents of numbers; only the version of a configuration is written.\<close>
definition plain_hjson :: "(64 word node, 64 word, unit, unit, unit, unit) hjson" where
  "plain_hjson = \<lparr>hj_config = (\<lambda>y c. case node_at [''version''] y of Some (Leaf w) \<Rightarrow> Some (c\<lparr>cf_version := w\<rparr>) | _ \<Rightarrow> Some c),
     hj_node = (\<lambda>y. if keys_distinct y then Some y else None),
     hj_of_config = (\<lambda>c. Some (Obj [(''version'', Leaf (cf_version c))])),
     hj_of_node = (\<lambda>n. if keys_distinct n then Some n else None), hj_put = AList.update,
     hj_delete = (\<lambda>k n. case n of Leaf _ \<Rightarrow> None | Obj es \<Rightarrow> Some (Obj (AList.delete k es))), hj_number = (\<lambda>w. w)\<rparr>"

lemma plain_laws: "hjson_laws plain_hjson dflt"
proof -
  have del: "node_at (j # p) (Obj (AList.delete k es)) = (if j = k then None else node_at (j # p) (Obj es))"
    for j k p and es :: "(string \<times> 64 word node) list"
    by (simp add: delete_conv')
  show ?thesis
    by (auto simp: hjson_laws_def plain_hjson_def puts_def update_conv' del split: if_splits node.splits option.splits
        simp del: node_at.simps(3)) (auto)
qed

definition plain_default :: "(unit, unit, unit, unit) config" where
  "plain_default = \<lparr>cf_version = config_version, cf_prefix = [], cf_gc_percent = -1, cf_mem_threshold = 1024, cf_network = (),
     cf_limit_velocity = True, cf_limit_threshold = (), cf_detections = None, cf_rest = ()\<rparr>"

text \<open>A file of version 5, with the token and a field of a wrapper.\<close>
definition old_file :: "64 word node" where
  "old_file = Obj [(''wrapper'', Obj [(''port'', Leaf 80)]), (spectrum_token, Leaf 1), (''version'', Leaf 5)]"

definition old_start :: "(64 word node, unit, unit, unit, unit) config_state" where
  "old_start = \<lparr>cs_file = Holds old_file, cs_writable = True, cs_global = plain_default\<rparr>"

definition new_file :: "64 word node" where
  "new_file = Obj [(''wrapper'', Obj [(''port'', Leaf 80)]), (''version'', Leaf 7)]"

lemma old_start_updates: "parse_json plain_hjson () plain_default old_start = (ConfigUpdated, old_start\<lparr>cs_file := Holds new_file\<rparr>)"
  by (simp add: parse_json_def old_start_def parse_raw_json_def plain_hjson_def old_file_def new_file_def plain_default_def
      write_migrated_json_def migrated_document_def migrate_def write_file_def)

theorem config_starts_settle_witness:
  "parse_json plain_hjson () plain_default (old_start\<lparr>cs_file := Holds new_file\<rparr>)
     = (Loaded, old_start\<lparr>cs_file := Holds new_file\<rparr>)"
proof -
  have "hj_config plain_hjson new_file plain_default = Some plain_default" "cs_global old_start = plain_default"
    by (simp_all add: plain_hjson_def new_file_def plain_default_def old_start_def)
  moreover have "cf_version plain_default = config_version" by (simp add: plain_default_def)
  ultimately show ?thesis
    using config_starts_settle[OF plain_laws _ old_start_updates] by (auto simp: old_start_def)
qed

theorem update_keeps_foreign_fields_witness:
  "\<exists>m. node_at [''wrapper'', ''port''] m = Some (Leaf (80 :: 64 word)) \<and> node_at [spectrum_token] m = None"
proof -
  have k: "foreign [''wrapper'', ''port''] k" if "hj_of_config plain_hjson c = Some y" "hj_node plain_hjson y = Some k" for c y k
    using that by (auto simp: plain_hjson_def)
  have old: "hj_node plain_hjson old_file = Some old_file" by (simp add: plain_hjson_def old_file_def)
  have "cs_file old_start = Holds old_file" by (simp add: old_start_def)
  from update_keeps_foreign_fields[OF plain_laws this old_start_updates]
  obtain old c y k m where m: "hj_node plain_hjson old_file = Some old" "hj_of_config plain_hjson c = Some y"
    "hj_node plain_hjson y = Some k" "node_at [spectrum_token] m = None"
    "\<forall>j p. j \<noteq> spectrum_token \<longrightarrow> (foreign (j # p) k \<longrightarrow> node_at (j # p) m = node_at (j # p) old)
       \<and> (\<forall>v. node_at (j # p) k = Some (Leaf v) \<longrightarrow> node_at (j # p) m = Some (Leaf v))"
    by (elim exE conjE) (rule that)
  have "node_at [''wrapper'', ''port''] m = node_at [''wrapper'', ''port''] old"
    using spec[OF spec[OF m(5)], of "''wrapper''" "[''port'']"] k[OF m(2,3)] by simp
  with m(1,4) old show ?thesis by (intro exI[of _ m]) (simp add: old_file_def)
qed

text \<open>A file without a version reads as one of the default's, which is the current one: nothing migrates it.\<close>
lemma unversioned_is_current:
  assumes "hj_config H data dflt = Some c" "cf_version c = cf_version dflt" "cf_version dflt = config_version"
  shows "parse_raw_json H zero dflt data = Parsed c"
  using assms by (simp add: parse_raw_json_def)

end
