(* ===== verification/PackCrypt.thy ===== *)
theory PackCrypt
  imports Bits Commands
begin

text \<open>
  The encryption of resource packs: \<^verbatim>\<open>src/utils/encrypt.go\<close>.  The block cipher, the JSON of the list of keys
  and the archive are libraries': a cipher of a key that works on blocks of 16 bytes, a function to bytes, and a list of
  named files.
\<close>

section \<open>The cipher\<close>

type_synonym cipher = "8 word list \<Rightarrow> (8 word list \<Rightarrow> 8 word list) option"

text \<open>The loop of \<^verbatim>\<open>encryptCfb\<close>: each byte is masked by the first byte of the encrypted register, which then takes
  the new byte in.\<close>
fun cfb_loop :: "(8 word list \<Rightarrow> 8 word list) \<Rightarrow> 8 word list \<Rightarrow> 8 word list \<Rightarrow> 8 word list" where
  "cfb_loop enc reg [] = []"
| "cfb_loop enc reg (x # xs) = (let y = x XOR hd (enc reg) in y # cfb_loop enc (tl reg @ [y]) xs)"

definition encrypt_cfb :: "cipher \<Rightarrow> 8 word list \<Rightarrow> 8 word list \<Rightarrow> 8 word list result" where
  "encrypt_cfb aes data key = (case aes key of
      None \<Rightarrow> Inl (Err ''invalid key size'')
    | Some enc \<Rightarrow> if length key < 16 then Inl (Panic ''slice bounds out of range'')
        else Inr (cfb_loop enc (take 16 key) data))"

section \<open>Keys\<close>

abbreviation key_chars :: string where "key_chars \<equiv> ''abcdefghijklmnopqrstuvwxyzABCDEFGHIJKLMNOPQRSTUVWXYZ''"

text \<open>The numbers drawn so far, and those that the source of randomness gives.\<close>
definition random_string :: "(nat \<Rightarrow> nat) \<Rightarrow> nat \<Rightarrow> nat \<Rightarrow> string \<times> nat" where
  "random_string rand n k = (map (\<lambda>i. key_chars ! (rand (k + i) mod length key_chars)) [0..<n], k + n)"

abbreviation key_bytes :: "string \<Rightarrow> 8 word list" where "key_bytes \<equiv> map of_char"

section \<open>Packs\<close>

type_synonym archive = "(string \<times> 8 word list) list"

record pack =
  pa_uuid :: string
  pa_key :: string
  pa_files :: archive

definition ignored_file :: "string \<Rightarrow> bool" where
  "ignored_file n \<longleftrightarrow> to_lower n \<in> {''manifest.json'', ''pack_icon.png''}"

text \<open>The files of the new pack and the paths with their keys.\<close>
fun encrypt_files ::
  "cipher \<Rightarrow> (nat \<Rightarrow> nat) \<Rightarrow> archive \<Rightarrow> nat \<Rightarrow> (archive \<times> (string \<times> string) list) result" where
  "encrypt_files aes rand [] k = Inr ([], [])"
| "encrypt_files aes rand ((n, data) # fs) k =
    (if ignored_file n
     then bind_result (encrypt_files aes rand fs k) (\<lambda>(out, keys). Inr ((n, data) # out, keys))
     else let (key, k) = random_string rand 32 k
          in bind_result (encrypt_cfb aes data (key_bytes key)) (\<lambda>c.
             bind_result (encrypt_files aes rand fs k) (\<lambda>(out, keys). Inr ((n, c) # out, (n, key) # keys))))"

definition content_header :: "string \<Rightarrow> 8 word list result" where
  "content_header uuid =
    (let h = [0, 0, 0, 0, 0xFC, 0xB9, 0xCF, 0x9B, 0, 0, 0, 0, 0, 0, 0, 0] @ key_bytes (CHR ''$'' # uuid)
     in if 256 < length h then Inl (Panic ''makeslice: len out of range'') else Inr (h @ replicate (256 - length h) 0))"

definition encrypt_to_writer ::
  "cipher \<Rightarrow> ((string \<times> string) list \<Rightarrow> 8 word list) \<Rightarrow> (nat \<Rightarrow> nat) \<Rightarrow> pack \<Rightarrow> string \<Rightarrow> archive result" where
  "encrypt_to_writer aes json rand p key =
    (if pa_key p \<noteq> [] then Inl (Err ''cannot encrypt already encrypted pack'')
     else bind_result (encrypt_files aes rand (pa_files p) 0) (\<lambda>(out, keys).
          bind_result (encrypt_cfb aes (json keys) (key_bytes key)) (\<lambda>c.
          bind_result (content_header (pa_uuid p)) (\<lambda>h. Inr (out @ [(''contents.json'', h @ c)])))))"

text \<open>In place: the pack is changed only when all went well.\<close>
definition encrypt_pack ::
  "cipher \<Rightarrow> ((string \<times> string) list \<Rightarrow> 8 word list) \<Rightarrow> (nat \<Rightarrow> nat) \<Rightarrow> pack \<Rightarrow> string \<Rightarrow> pack result" where
  "encrypt_pack aes json rand p key =
    bind_result (encrypt_to_writer aes json rand p key) (\<lambda>out. Inr (p\<lparr>pa_key := key, pa_files := out\<rparr>))"

section \<open>What the client does\<close>

text \<open>The masks are the same for the client, who knows the encrypted bytes.\<close>
fun cfb_unloop :: "(8 word list \<Rightarrow> 8 word list) \<Rightarrow> 8 word list \<Rightarrow> 8 word list \<Rightarrow> 8 word list" where
  "cfb_unloop enc reg [] = []"
| "cfb_unloop enc reg (y # ys) = (y XOR hd (enc reg)) # cfb_unloop enc (tl reg @ [y]) ys"

definition decrypt_cfb :: "cipher \<Rightarrow> 8 word list \<Rightarrow> 8 word list \<Rightarrow> 8 word list option" where
  "decrypt_cfb aes data key = (case aes key of None \<Rightarrow> None | Some enc \<Rightarrow> Some (cfb_unloop enc (take 16 key) data))"

definition decrypt_file :: "cipher \<Rightarrow> (string \<times> string) list \<Rightarrow> string \<times> 8 word list \<Rightarrow> (string \<times> 8 word list) option" where
  "decrypt_file aes keys f = (case f of (n, c) \<Rightarrow> case map_of keys n of
      None \<Rightarrow> Some (n, c) | Some key \<Rightarrow> map_option (Pair n) (decrypt_cfb aes c (key_bytes key)))"

text \<open>The last file, after its header, names the keys of the files.\<close>
definition client_files ::
  "cipher \<Rightarrow> (8 word list \<Rightarrow> (string \<times> string) list option) \<Rightarrow> pack \<Rightarrow> archive option" where
  "client_files aes parse p =
    (case decrypt_cfb aes (drop 256 (snd (last (pa_files p)))) (key_bytes (pa_key p)) of None \<Rightarrow> None
     | Some js \<Rightarrow> (case parse js of None \<Rightarrow> None
         | Some keys \<Rightarrow> those (map (decrypt_file aes keys) (butlast (pa_files p)))))"

lemma cfb_unloop_loop: "cfb_unloop enc reg (cfb_loop enc reg xs) = xs"
  by (induction xs arbitrary: reg) (simp_all add: Let_def xor.assoc)

lemma decrypt_encrypt: "encrypt_cfb aes data key = Inr c \<Longrightarrow> decrypt_cfb aes c key = Some data"
  by (auto simp: encrypt_cfb_def decrypt_cfb_def cfb_unloop_loop split: option.splits if_splits)

lemma header_length: "content_header u = Inr h \<Longrightarrow> length h = 256"
  by (auto simp: content_header_def Let_def split: if_splits)

text \<open>The first file and the rest.\<close>
lemma encrypt_files_Cons:
  assumes "encrypt_files aes rand ((n, data) # fs) k = Inr (out, keys)"
  obtains rest where "ignored_file n" "encrypt_files aes rand fs k = Inr (rest, keys)" "out = (n, data) # rest"
  | key k' c rest ks where "\<not> ignored_file n" "encrypt_cfb aes data (key_bytes key) = Inr c"
      "encrypt_files aes rand fs k' = Inr (rest, ks)" "out = (n, c) # rest" "keys = (n, key) # ks"
proof (cases "ignored_file n")
  case True
  with assms that(1) show thesis by (auto simp: bind_result_Inr_iff)
next
  case False
  obtain key k' where "random_string rand 32 k = (key, k')" by fastforce
  with False assms that(2) show thesis by (auto simp: bind_result_Inr_iff)
qed

lemma encrypt_files_names:
  "encrypt_files aes rand fs k = Inr (out, keys) \<Longrightarrow> fst ` set keys \<subseteq> fst ` set fs"
proof (induction fs arbitrary: k out keys)
  case (Cons f fs)
  obtain n data where f: "f = (n, data)" by fastforce
  from Cons.prems[unfolded f] show ?case
  proof (cases rule: encrypt_files_Cons)
    case (1 rest)
    from Cons.IH[OF 1(2)] show ?thesis by auto
  next
    case (2 key k' c rest ks)
    from Cons.IH[OF 2(3)] 2(5) f show ?thesis by auto
  qed
qed simp

text \<open>Keys of other files do not matter to the rest.\<close>
lemma decrypt_files:
  assumes "encrypt_files aes rand fs k = Inr (out, keys)" "distinct (map fst fs)"
    and "\<forall>n \<in> fst ` set fs. map_of all n = map_of keys n"
  shows "those (map (decrypt_file aes all) out) = Some fs"
  using assms
proof (induction fs arbitrary: k out keys)
  case (Cons f fs)
  obtain n data where f: "f = (n, data)" by fastforce
  from Cons.prems(2) f have n: "n \<notin> fst ` set fs" "distinct (map fst fs)" by auto
  from Cons.prems(1)[unfolded f] show ?case
  proof (cases rule: encrypt_files_Cons)
    case (1 rest)
    from encrypt_files_names[OF 1(2)] n have "map_of keys n = None" by (auto simp: map_of_eq_None_iff)
    with Cons.prems(3) f have "decrypt_file aes all (n, data) = Some (n, data)" by (simp add: decrypt_file_def)
    moreover have "those (map (decrypt_file aes all) rest) = Some fs"
      by (rule Cons.IH[OF 1(2) n(2)]) (use Cons.prems(3) in simp)
    ultimately show ?thesis using 1 f by simp
  next
    case (2 key k' c rest ks)
    from Cons.prems(3) f 2(5) have "map_of all n = Some key" by simp
    with decrypt_encrypt[OF 2(2)] have "decrypt_file aes all (n, c) = Some (n, data)" by (simp add: decrypt_file_def)
    moreover have "those (map (decrypt_file aes all) rest) = Some fs"
      by (rule Cons.IH[OF 2(3) n(2)]) (use Cons.prems(3) n(1) 2(5) in \<open>auto\<close>)
    ultimately show ?thesis using 2 f by simp
  qed
qed simp

text \<open>C30: a client that has the key of an encrypted pack reads from it exactly the files of the pack before, the ignored ones
  included, whatever numbers were drawn for the keys of the files, when the list of keys can be read back and no two files
  have the same name.
\<close>
theorem client_reads_pack:
  assumes "encrypt_pack aes json rand p key = Inr q" "\<forall>keys. parse (json keys) = Some keys" "distinct (map fst (pa_files p))"
  shows "client_files aes parse q = Some (pa_files p) \<and> pa_key q = key"
proof -
  from assms(1) obtain out keys c h where e: "encrypt_files aes rand (pa_files p) 0 = Inr (out, keys)"
    "encrypt_cfb aes (json keys) (key_bytes key) = Inr c" "content_header (pa_uuid p) = Inr h"
    and q: "q = p\<lparr>pa_key := key, pa_files := out @ [(''contents.json'', h @ c)]\<rparr>"
    by (auto simp: encrypt_pack_def encrypt_to_writer_def bind_result_Inr_iff split: if_splits)
  have "those (map (decrypt_file aes keys) out) = Some (pa_files p)"
    by (rule decrypt_files[OF e(1) assms(3)]) simp
  with decrypt_encrypt[OF e(2)] header_length[OF e(3)] assms(2) show ?thesis
    by (simp add: q client_files_def)
qed

section \<open>A pack\<close>

text \<open>A cipher that adds the first byte of the key, for keys of the length that it wants.\<close>
definition toy_cipher :: cipher where
  "toy_cipher key = (if length key = 32 then Some (map (\<lambda>b. b + hd key)) else None)"

text \<open>A notation for lists of keys: every character after a one, a zero at the end of a string, a two before each pair.\<close>
definition write_word :: "string \<Rightarrow> 8 word list" where
  "write_word s = concat (map (\<lambda>c. [1, of_char c]) s) @ [0]"

fun write_keys :: "(string \<times> string) list \<Rightarrow> 8 word list" where
  "write_keys [] = []"
| "write_keys ((a, b) # ks) = 2 # write_word a @ write_word b @ write_keys ks"

fun read_word :: "8 word list \<Rightarrow> (string \<times> 8 word list) option" where
  "read_word [] = None"
| "read_word [x] = (if x = 0 then Some ([], []) else None)"
| "read_word (x # c # xs) = (if x = 0 then Some ([], c # xs)
     else map_option (\<lambda>(s, r). (char_of (unat c) # s, r)) (read_word xs))"

fun read_keys :: "nat \<Rightarrow> 8 word list \<Rightarrow> (string \<times> string) list option" where
  "read_keys n [] = Some []"
| "read_keys 0 (x # xs) = None"
| "read_keys (Suc n) (x # xs) = (case read_word xs of None \<Rightarrow> None
     | Some (a, xs) \<Rightarrow> (case read_word xs of None \<Rightarrow> None
         | Some (b, xs) \<Rightarrow> map_option (Cons (a, b)) (read_keys n xs)))"

lemma read_word_written: "read_word (write_word s @ r) = Some (s, r)"
proof (induction s)
  case Nil
  show ?case by (cases r) (simp_all add: write_word_def)
next
  case (Cons c s)
  have "(of_char c :: 8 word) = of_nat (of_char c)" by (simp add: of_nat_of_char)
  then have "char_of (unat (of_char c :: 8 word)) = c" by (simp add: unat_of_nat)
  with Cons show ?case by (simp add: write_word_def)
qed

lemma read_keys_written: "length ks \<le> n \<Longrightarrow> read_keys n (write_keys ks) = Some ks"
proof (induction ks arbitrary: n)
  case (Cons k ks)
  then show ?case by (cases k; cases n) (simp_all add: read_word_written)
qed simp

lemma keys_fit: "length ks \<le> length (write_keys ks)"
  by (induction ks rule: write_keys.induct) simp_all

definition small_pack :: pack where
  "small_pack = \<lparr>pa_uuid = ''0-1'', pa_key = [],
     pa_files = [(''Manifest.json'', [1, 2]), (''textures/stone.png'', [3, 4, 5]), (''texts/a'', [])]\<rparr>"

theorem client_reads_pack_witness:
  "\<exists>q. encrypt_pack toy_cipher write_keys (\<lambda>k. 7 * k) small_pack (replicate 32 CHR ''k'') = Inr q
    \<and> client_files toy_cipher (\<lambda>bs. read_keys (length bs) bs) q = Some (pa_files small_pack)"
proof -
  have "is_ok (encrypt_pack toy_cipher write_keys (\<lambda>k. 7 * k) small_pack (replicate 32 CHR ''k''))" by code_simp
  then obtain q where q: "encrypt_pack toy_cipher write_keys (\<lambda>k. 7 * k) small_pack (replicate 32 CHR ''k'') = Inr q"
    by (auto simp: is_ok_iff)
  have "\<forall>keys. read_keys (length (write_keys keys)) (write_keys keys) = Some keys"
    using read_keys_written[OF keys_fit] by blast
  moreover have "distinct (map fst (pa_files small_pack))" by code_simp
  ultimately show ?thesis using client_reads_pack[OF q, of "\<lambda>bs. read_keys (length bs) bs"] q by blast
qed

end
