(* ===== verification/SqlStore.thy ===== *)
theory SqlStore
  imports Admin
begin

text \<open>
  The SQLite store of operators and bans: \<^verbatim>\<open>src/store/sqlite.go\<close>, with the migration to it of
  \<^verbatim>\<open>migrate.go\<close>.  A table is the list of its rows; a statement does what SQL says of it, and fails when the
  database is closed.  Times are in seconds, as the text that is compared.
\<close>

section \<open>Tables\<close>

text \<open>Both tables have the XUID as their primary key.\<close>
record op_row =
  or_name :: string
  or_xuid :: string

record ban_row =
  br_name :: string
  br_xuid :: string
  br_reason :: string
  br_by :: string
  br_at :: int
  br_expires :: "int option"

record sqlite =
  sq_operators :: "op_row list"
  sq_bans :: "ban_row list"
  sq_open :: bool

definition open_sqlite :: sqlite where
  "open_sqlite = \<lparr>sq_operators = [], sq_bans = [], sq_open = True\<rparr>"

text \<open>\<^verbatim>\<open>INSERT OR IGNORE\<close> and \<^verbatim>\<open>INSERT OR REPLACE\<close>.\<close>
definition insert_or_ignore :: "op_row \<Rightarrow> op_row list \<Rightarrow> op_row list" where
  "insert_or_ignore r t = (if or_xuid r \<in> or_xuid ` set t then t else t @ [r])"

definition insert_or_replace :: "ban_row \<Rightarrow> ban_row list \<Rightarrow> ban_row list" where
  "insert_or_replace r t = filter (\<lambda>q. br_xuid q \<noteq> br_xuid r) t @ [r]"

definition same_lower :: "string \<Rightarrow> string \<Rightarrow> bool" where
  "same_lower a b \<longleftrightarrow> to_lower a = to_lower b"

section \<open>Operators\<close>

definition sq_list_operators :: "sqlite \<Rightarrow> op_row list" where
  "sq_list_operators s = (if sq_open s then sq_operators s else [])"

text \<open>A count that cannot be read stays zero.\<close>
definition sq_first_operator :: "sqlite \<Rightarrow> bool" where
  "sq_first_operator s \<longleftrightarrow> \<not> sq_open s \<or> sq_operators s = []"

definition sq_promote_if_first :: "string \<Rightarrow> string \<Rightarrow> sqlite \<Rightarrow> bool \<times> sqlite" where
  "sq_promote_if_first name xuid s =
    (if \<not> sq_first_operator s then (False, s)
     else if \<not> sq_open s then (False, s)
     else (True, s\<lparr>sq_operators := insert_or_ignore \<lparr>or_name = trim_space name, or_xuid = trim_space xuid\<rparr> (sq_operators s)\<rparr>))"

definition sq_is_operator :: "string \<Rightarrow> string \<Rightarrow> sqlite \<Rightarrow> bool" where
  "sq_is_operator name xuid s \<longleftrightarrow> sq_open s
     \<and> (xuid \<noteq> [] \<and> xuid \<in> or_xuid ` set (sq_operators s)
        \<or> list_ex (\<lambda>r. same_lower (or_name r) (trim_space name)) (sq_operators s))"

definition sq_add_operator :: "string \<Rightarrow> string \<Rightarrow> sqlite \<Rightarrow> bool \<times> sqlite" where
  "sq_add_operator name xuid s =
    (if sq_is_operator name xuid s then (False, s)
     else if \<not> sq_open s then (False, s)
     else (True, s\<lparr>sq_operators := insert_or_ignore \<lparr>or_name = trim_space name, or_xuid = trim_space xuid\<rparr> (sq_operators s)\<rparr>))"

text \<open>The error of a deletion is dropped and its result used all the same.\<close>
definition sq_remove_operator :: "string \<Rightarrow> string \<Rightarrow> sqlite \<Rightarrow> (bool \<times> sqlite) result" where
  "sq_remove_operator name xuid s =
    (if \<not> sq_open s then Inl (Panic ''nil pointer dereference'')
     else let t = sq_operators s
          in if xuid \<noteq> [] \<and> xuid \<in> or_xuid ` set t
             then Inr (True, s\<lparr>sq_operators := filter (\<lambda>r. or_xuid r \<noteq> xuid) t\<rparr>)
             else let t' = filter (\<lambda>r. \<not> same_lower (or_name r) (trim_space name)) t
                  in Inr (length t' < length t, s\<lparr>sq_operators := t'\<rparr>))"

section \<open>Bans\<close>

definition clean_expired :: "int \<Rightarrow> sqlite \<Rightarrow> sqlite" where
  "clean_expired now s = (if \<not> sq_open s then s
     else s\<lparr>sq_bans := filter (\<lambda>r. case br_expires r of None \<Rightarrow> True | Some e \<Rightarrow> \<not> e < now) (sq_bans s)\<rparr>)"

definition delete_ban :: "string \<Rightarrow> sqlite \<Rightarrow> sqlite" where
  "delete_ban xuid s = (if xuid = [] then s else s\<lparr>sq_bans := filter (\<lambda>r. br_xuid r \<noteq> xuid) (sq_bans s)\<rparr>)"

text \<open>With an XUID only the XUID counts; the second time is that of the check after the query.\<close>
definition sq_is_banned :: "string \<Rightarrow> string \<Rightarrow> int \<Rightarrow> int \<Rightarrow> sqlite \<Rightarrow> ban_row option \<times> sqlite" where
  "sq_is_banned name xuid now now' s =
    (let s = clean_expired now s
     in if \<not> sq_open s then (None, s)
        else case find (\<lambda>r. if xuid \<noteq> [] then br_xuid r = xuid else same_lower (br_name r) (trim_space name)) (sq_bans s) of
          None \<Rightarrow> (None, s)
        | Some r \<Rightarrow> (case br_expires r of
            None \<Rightarrow> (Some r, s)
          | Some e \<Rightarrow> if e < now' then (None, delete_ban (br_xuid r) s) else (Some r, s)))"

definition sq_ban_temp :: "string \<Rightarrow> string \<Rightarrow> string \<Rightarrow> string \<Rightarrow> int option \<Rightarrow> int \<Rightarrow> sqlite \<Rightarrow> sqlite" where
  "sq_ban_temp name xuid reason by expires now s = (if \<not> sq_open s then s
     else s\<lparr>sq_bans := insert_or_replace \<lparr>br_name = trim_space name, br_xuid = trim_space xuid, br_reason = reason,
              br_by = by, br_at = now, br_expires = expires\<rparr> (sq_bans s)\<rparr>)"

definition sq_ban :: "string \<Rightarrow> string \<Rightarrow> string \<Rightarrow> string \<Rightarrow> int \<Rightarrow> sqlite \<Rightarrow> sqlite" where
  "sq_ban name xuid reason by = sq_ban_temp name xuid reason by None"

definition sq_unban :: "string \<Rightarrow> string \<Rightarrow> sqlite \<Rightarrow> (bool \<times> sqlite) result" where
  "sq_unban name xuid s =
    (if \<not> sq_open s then Inl (Panic ''nil pointer dereference'')
     else let t = sq_bans s
          in if xuid \<noteq> [] \<and> xuid \<in> br_xuid ` set t
             then Inr (True, s\<lparr>sq_bans := filter (\<lambda>r. br_xuid r \<noteq> xuid) t\<rparr>)
             else let t' = filter (\<lambda>r. \<not> same_lower (br_name r) (trim_space name)) t
                  in Inr (length t' < length t, s\<lparr>sq_bans := t'\<rparr>))"

definition sq_list_bans :: "int \<Rightarrow> sqlite \<Rightarrow> ban_row list \<times> sqlite" where
  "sq_list_bans now s = (let s = clean_expired now s in (if sq_open s then sq_bans s else [], s))"

definition sq_close :: "sqlite \<Rightarrow> sqlite" where
  "sq_close s = s\<lparr>sq_open := False\<rparr>"

text \<open>The migration: a ban that has expired, or never expires, is stored without an end.\<close>
definition migrate_to_sqlite :: "op_row list \<Rightarrow> ban_row list \<Rightarrow> int \<Rightarrow> sqlite \<Rightarrow> sqlite" where
  "migrate_to_sqlite ops bans now s =
    fold (\<lambda>b s. let name = trim_space (br_name b); xuid = trim_space (br_xuid b)
                in case br_expires b of
                  Some e \<Rightarrow> if now < e then sq_ban_temp name xuid (br_reason b) (br_by b) (Some e) now s
                            else sq_ban name xuid (br_reason b) (br_by b) now s
                | None \<Rightarrow> sq_ban name xuid (br_reason b) (br_by b) now s) bans
      (fold (\<lambda>r s. snd (sq_add_operator (or_name r) (or_xuid r) s)) ops s)"

section \<open>Runs\<close>

datatype sql_event =
    SqAdd string string
  | SqRemove string string
  | SqPromote string string
  | SqBan string string string string "int option" int
  | SqUnban string string
  | SqIsBanned string string int int
  | SqBans int
  | SqTick int
  | SqClose

definition sql_step :: "sql_event \<Rightarrow> sqlite \<Rightarrow> sqlite result" where
  "sql_step ev s = (case ev of
      SqAdd n x \<Rightarrow> Inr (snd (sq_add_operator n x s))
    | SqRemove n x \<Rightarrow> bind_result (sq_remove_operator n x s) (\<lambda>(_, s). Inr s)
    | SqPromote n x \<Rightarrow> Inr (snd (sq_promote_if_first n x s))
    | SqBan n x reason by e now \<Rightarrow> Inr (sq_ban_temp n x reason by e now s)
    | SqUnban n x \<Rightarrow> bind_result (sq_unban n x s) (\<lambda>(_, s). Inr s)
    | SqIsBanned n x now now' \<Rightarrow> Inr (snd (sq_is_banned n x now now' s))
    | SqBans now \<Rightarrow> Inr (snd (sq_list_bans now s))
    | SqTick now \<Rightarrow> Inr (clean_expired now s)
    | SqClose \<Rightarrow> Inr (sq_close s))"

fun sql_run :: "sql_event list \<Rightarrow> sqlite \<Rightarrow> sqlite result" where
  "sql_run [] s = Inr s"
| "sql_run (ev # evs) s = bind_result (sql_step ev s) (sql_run evs)"

section \<open>Keys stay unique\<close>

definition keys_unique :: "sqlite \<Rightarrow> bool" where
  "keys_unique s \<longleftrightarrow> distinct (map or_xuid (sq_operators s)) \<and> distinct (map br_xuid (sq_bans s))"

lemma distinct_filter_key: "distinct (map f xs) \<Longrightarrow> distinct (map f (filter P xs))"
  by (simp add: distinct_map_filter)

lemma insert_ignore_unique: "distinct (map or_xuid t) \<Longrightarrow> distinct (map or_xuid (insert_or_ignore r t))"
  by (auto simp: insert_or_ignore_def)

lemma insert_replace_unique: "distinct (map br_xuid t) \<Longrightarrow> distinct (map br_xuid (insert_or_replace r t))"
  by (auto simp: insert_or_replace_def distinct_filter_key)

lemma unique_operations:
  assumes "keys_unique s"
  shows "keys_unique (snd (sq_add_operator n x s))" "keys_unique (snd (sq_promote_if_first n x s))"
    "keys_unique (clean_expired now s)" "keys_unique (delete_ban x s)" "keys_unique (sq_ban_temp n x reason by e now s)"
    "keys_unique (sq_close s)"
  using assms
  by (simp_all add: keys_unique_def sq_add_operator_def sq_promote_if_first_def clean_expired_def delete_ban_def
      sq_ban_temp_def sq_close_def insert_ignore_unique insert_replace_unique distinct_filter_key)

lemma unique_is_banned: "keys_unique s \<Longrightarrow> keys_unique (snd (sq_is_banned n x now now' s))"
  using unique_operations(3,4) by (auto simp: sq_is_banned_def Let_def split: option.split)

lemma unique_removals:
  "sq_remove_operator n x s = Inr (b, s') \<Longrightarrow> keys_unique s \<Longrightarrow> keys_unique s'"
  "sq_unban n x s = Inr (b, s') \<Longrightarrow> keys_unique s \<Longrightarrow> keys_unique s'"
  by (auto simp: sq_remove_operator_def sq_unban_def Let_def keys_unique_def distinct_filter_key split: if_splits)

lemma unique_step: "sql_step ev s = Inr s' \<Longrightarrow> keys_unique s \<Longrightarrow> keys_unique s'"
  using unique_removals unique_is_banned unique_operations
  by (auto simp: sql_step_def bind_result_Inr_iff sq_list_bans_def Let_def split: sql_event.splits)

text \<open>Whatever happens to the store, no two operators and no two bans have the same XUID.\<close>
theorem store_keys_unique:
  assumes "sql_run evs open_sqlite = Inr s"
  shows "keys_unique s"
proof -
  have "keys_unique t \<Longrightarrow> sql_run evs t = Inr s \<Longrightarrow> keys_unique s" for t
  proof (induction evs arbitrary: t)
    case (Cons ev evs)
    then obtain u where u: "sql_step ev t = Inr u" "sql_run evs u = Inr s" by (auto simp: bind_result_Inr_iff)
    from Cons.IH[OF unique_step[OF u(1) Cons.prems(1)] u(2)] show ?case .
  qed simp
  from this[OF _ assms] show ?thesis by (simp add: keys_unique_def open_sqlite_def)
qed

section \<open>A ban holds\<close>

text \<open>An event that leaves a ban alone: it does not lift it by XUID or by name, nor replace it, nor close the store, and
  it happens before the ban expires.\<close>
definition leaves_ban :: "ban_row \<Rightarrow> sql_event \<Rightarrow> bool" where
  "leaves_ban r ev \<longleftrightarrow> (let in_time = (\<lambda>now. case br_expires r of None \<Rightarrow> True | Some e \<Rightarrow> now \<le> e) in case ev of
      SqBan n x _ _ _ _ \<Rightarrow> trim_space x \<noteq> br_xuid r
    | SqUnban n x \<Rightarrow> x \<noteq> br_xuid r \<and> \<not> same_lower (br_name r) (trim_space n)
    | SqIsBanned n x now now' \<Rightarrow> in_time now \<and> in_time now'
    | SqBans now \<Rightarrow> in_time now
    | SqTick now \<Rightarrow> in_time now
    | SqClose \<Rightarrow> False
    | _ \<Rightarrow> True)"

definition holds_ban :: "ban_row \<Rightarrow> sqlite \<Rightarrow> bool" where
  "holds_ban r s \<longleftrightarrow> sq_open s \<and> keys_unique s \<and> r \<in> set (sq_bans s)"

lemma cleaned_holds:
  "holds_ban r s \<Longrightarrow> (case br_expires r of None \<Rightarrow> True | Some e \<Rightarrow> now \<le> e) \<Longrightarrow> holds_ban r (clean_expired now s)"
  using unique_operations(3)[of s now] by (auto simp: holds_ban_def clean_expired_def split: option.splits)

text \<open>The rows of a ban that is looked up by its XUID.\<close>
lemma holds_found:
  assumes "holds_ban r s" "br_xuid r \<noteq> []"
  shows "find (\<lambda>q. if br_xuid r \<noteq> [] then br_xuid q = br_xuid r else same_lower (br_name q) (trim_space n)) (sq_bans s) = Some r"
proof -
  from assms obtain xs ys where t: "sq_bans s = xs @ r # ys" by (auto simp: holds_ban_def dest: split_list)
  with assms(1) have "br_xuid r \<notin> br_xuid ` set xs" by (simp add: holds_ban_def keys_unique_def)
  then have "\<forall>q \<in> set xs. br_xuid q \<noteq> br_xuid r" by (metis imageI)
  then have "find (\<lambda>q. br_xuid q = br_xuid r) (xs @ r # ys) = Some r" by (induction xs) simp_all
  with t assms(2) show ?thesis by simp
qed

lemma is_banned_holds:
  assumes "holds_ban r s" "leaves_ban r (SqIsBanned n x now now')"
  shows "holds_ban r (snd (sq_is_banned n x now now' s))"
proof -
  let ?s = "clean_expired now s"
  have h: "holds_ban r ?s" by (rule cleaned_holds[OF assms(1)]) (use assms(2) in \<open>simp add: leaves_ban_def Let_def\<close>)
  show ?thesis
  proof (cases "find (\<lambda>q. if x \<noteq> [] then br_xuid q = x else same_lower (br_name q) (trim_space n)) (sq_bans ?s)")
    case None
    with h show ?thesis by (simp add: sq_is_banned_def Let_def)
  next
    case (Some q)
    then have q: "q \<in> set (sq_bans ?s)" by (auto simp: find_Some_iff)
    have "holds_ban r (delete_ban (br_xuid q) ?s)" if e: "br_expires q = Some e" "e < now'" for e
    proof -
      from assms(2) e have "q \<noteq> r" by (auto simp: leaves_ban_def Let_def)
      with h q have "br_xuid q \<noteq> br_xuid r" by (auto simp: holds_ban_def keys_unique_def distinct_map inj_on_def)
      with h show ?thesis using unique_operations(4)[of ?s "br_xuid q"] by (auto simp: holds_ban_def delete_ban_def)
    qed
    with h Some show ?thesis by (auto simp: sq_is_banned_def Let_def split: option.split)
  qed
qed

lemma step_holds:
  assumes "sql_step ev s = Inr s'" "holds_ban r s" "leaves_ban r ev"
  shows "holds_ban r s'"
proof -
  have k: "keys_unique s'" by (rule unique_step[OF assms(1)]) (use assms(2) in \<open>simp add: holds_ban_def\<close>)
  show ?thesis
  proof (cases ev)
    case (SqIsBanned n x now now')
    with is_banned_holds[OF assms(2), of n x now now'] assms(1,3) show ?thesis by (simp add: sql_step_def)
  next
    case (SqTick now)
    with assms(1,3) cleaned_holds[OF assms(2), of now] show ?thesis by (auto simp: sql_step_def leaves_ban_def Let_def)
  next
    case (SqBans now)
    with assms(1,3) cleaned_holds[OF assms(2), of now] show ?thesis
      by (auto simp: sql_step_def leaves_ban_def sq_list_bans_def Let_def)
  next
    case (SqUnban n x)
    with assms k show ?thesis
      by (auto simp: sql_step_def bind_result_Inr_iff sq_unban_def leaves_ban_def holds_ban_def Let_def split: if_splits)
  next
    case (SqBan n x reason who e now)
    with assms k show ?thesis
      by (auto simp: sql_step_def sq_ban_temp_def leaves_ban_def holds_ban_def insert_or_replace_def Let_def)
  qed (use assms k in \<open>auto simp: sql_step_def bind_result_Inr_iff sq_remove_operator_def sq_add_operator_def
      sq_promote_if_first_def leaves_ban_def holds_ban_def Let_def split: if_splits\<close>)
qed


section \<open>A store in use\<close>

definition banned_steve :: ban_row where
  "banned_steve = \<lparr>br_name = ''Steve'', br_xuid = ''25'', br_reason = ''reach'', br_by = ''Alex'', br_at = 100, br_expires = Some 700\<rparr>"

definition quiet_events :: "sql_event list" where
  "quiet_events = [SqTick 130, SqBan ''Herobrine'' ''66'' ''fly'' ''Alex'' None 140, SqUnban ''Herobrine'' ''66'', SqBans 160]"


theorem store_keys_unique_witness: "\<exists>s. sql_run quiet_events open_sqlite = Inr s \<and> keys_unique s"
proof -
  have "is_ok (sql_run quiet_events open_sqlite)" by code_simp
  then show ?thesis using store_keys_unique by (auto simp: is_ok_iff)
qed

section \<open>Players without an XUID\<close>

text \<open>All players that are not online are banned under the empty XUID: the second one takes the place of the first.\<close>
lemma second_offline_ban_replaces:
  "fst (sq_is_banned ''Steve'' [] 3 3 (sq_ban ''Alex'' [] ''fly'' ''Op'' 2 (sq_ban ''Steve'' [] ''reach'' ''Op'' 1 open_sqlite))) = None"
  by code_simp

text \<open>A player who was banned by name comes in with an XUID.\<close>
lemma offline_ban_missed_by_xuid:
  "fst (sq_is_banned ''Steve'' ''25'' 3 3 (sq_ban ''Steve'' [] ''reach'' ''Op'' 1 open_sqlite)) = None"
  by code_simp

text \<open>The second operator without an XUID is reported as added, and is none.\<close>
lemma second_offline_operator_lost:
  "case sq_add_operator ''Alex'' [] (snd (sq_add_operator ''Steve'' [] open_sqlite)) of (ok, s) \<Rightarrow>
     ok \<and> \<not> sq_is_operator ''Alex'' [] s"
  by code_simp

text \<open>A deletion panics once the store is closed.\<close>
lemma closed_store_panics: "sq_unban n x (sq_close s) = Inl (Panic ''nil pointer dereference'')"
  by (simp add: sq_unban_def sq_close_def)

end
