(* ===== verification/LuaEngine.thy ===== *)
theory LuaEngine
  imports Prelude "HOL-Library.Multiset"
begin

text \<open>
  The life of the script engine: \<^verbatim>\<open>src/player/lua/engine.go\<close>.  Calls to scripts go through a bounded queue to a
  worker; reloading replaces the interpreter and the channel that stops the worker, closing ends everything.  The
  interpreter itself is a library: a call is a value.
\<close>

section \<open>The engine\<close>

text \<open>Where the worker is: waiting on the queue and on the stop channel that it has read, with a call in hand before it
  gets the lock, between two rounds, or returned.\<close>
datatype 'c worker = Selecting nat | Taken 'c | Between | Gone

text \<open>Interpreters and stop channels are numbered together; \<^verbatim>\<open>eg_ran\<close> are the calls that ran, with their interpreter.\<close>
record 'c engine =
  eg_scripts :: "(string \<times> string) list"
  eg_state :: nat
  eg_closed :: bool
  eg_queue :: "'c list"
  eg_worker :: "'c worker"
  eg_ran :: "('c \<times> nat) list"

abbreviation queue_capacity :: nat where "queue_capacity \<equiv> 256"

definition new_engine :: "'c engine" where
  "new_engine = \<lparr>eg_scripts = [], eg_state = 0, eg_closed = False, eg_queue = [], eg_worker = Between, eg_ran = []\<rparr>"

text \<open>A full queue drops the call.\<close>
definition exec_lua :: "'c \<Rightarrow> 'c engine \<Rightarrow> 'c engine" where
  "exec_lua c e = (if length (eg_queue e) < queue_capacity then e\<lparr>eg_queue := eg_queue e @ [c]\<rparr> else e)"

definition load_script :: "string \<Rightarrow> string \<Rightarrow> 'c engine \<Rightarrow> 'c engine" where
  "load_script name src e = e\<lparr>eg_scripts := (name, src) # filter (\<lambda>(n, _). n \<noteq> name) (eg_scripts e)\<rparr>"

text \<open>The scripts are queued, each as a call.\<close>
definition run_all :: "(string \<times> string \<Rightarrow> 'c) \<Rightarrow> 'c engine \<Rightarrow> 'c engine" where
  "run_all source e = fold (\<lambda>s. exec_lua (source s)) (eg_scripts e) e"

text \<open>The calls that wait are lost; the scripts run at once, under the lock, in the new interpreter.\<close>
definition reload :: "(string \<times> string \<Rightarrow> 'c) \<Rightarrow> 'c engine \<Rightarrow> 'c engine result" where
  "reload source e = (if eg_closed e then Inl (Err ''engine closed'')
     else let n = eg_state e + 1
          in Inr (e\<lparr>eg_state := n, eg_queue := [], eg_ran := eg_ran e @ map (\<lambda>s. (source s, n)) (eg_scripts e)\<rparr>))"

definition close_engine :: "'c engine \<Rightarrow> 'c engine" where
  "close_engine e = e\<lparr>eg_closed := True\<rparr>"

definition stop_closed :: "nat \<Rightarrow> 'c engine \<Rightarrow> bool" where
  "stop_closed n e \<longleftrightarrow> n < eg_state e \<or> eg_closed e"

section \<open>Steps\<close>

text \<open>What callers do, and the steps of the worker, in any order; a select with both channels ready chooses one.\<close>
inductive engine_step :: "(string \<times> string \<Rightarrow> 'c) \<Rightarrow> 'c engine \<Rightarrow> 'c list \<Rightarrow> 'c engine \<Rightarrow> bool" for source where
  es_call: "length (eg_queue e) < queue_capacity \<Longrightarrow> engine_step source e [c] (exec_lua c e)"
| es_drop: "\<not> length (eg_queue e) < queue_capacity \<Longrightarrow> engine_step source e [] (exec_lua c e)"
| es_load: "engine_step source e [] (load_script name src e)"
| es_reload: "reload source e = Inr e' \<Longrightarrow> engine_step source e (map source (eg_scripts e)) e'"
| es_close: "engine_step source e [] (close_engine e)"
| es_take: "eg_worker e = Selecting n \<Longrightarrow> eg_queue e = c # q \<Longrightarrow> engine_step source e [] (e\<lparr>eg_worker := Taken c, eg_queue := q\<rparr>)"
| es_stop: "eg_worker e = Selecting n \<Longrightarrow> stop_closed n e \<Longrightarrow> engine_step source e [] (e\<lparr>eg_worker := Gone\<rparr>)"
| es_late: "eg_worker e = Taken c \<Longrightarrow> eg_closed e \<Longrightarrow> engine_step source e [] (e\<lparr>eg_worker := Gone\<rparr>)"
| es_run: "eg_worker e = Taken c \<Longrightarrow> \<not> eg_closed e \<Longrightarrow>
    engine_step source e [] (e\<lparr>eg_worker := Between, eg_ran := eg_ran e @ [(c, eg_state e)]\<rparr>)"
| es_loop: "eg_worker e = Between \<Longrightarrow> engine_step source e [] (e\<lparr>eg_worker := Selecting (eg_state e)\<rparr>)"

inductive_cases engine_stepE: "engine_step source e cs e'"

text \<open>Reachable engines, with the calls that were accepted on the way.\<close>
inductive engine_reachable :: "(string \<times> string \<Rightarrow> 'c) \<Rightarrow> 'c list \<Rightarrow> 'c engine \<Rightarrow> bool" for source where
  er_new: "engine_reachable source [] new_engine"
| er_step: "engine_reachable source acc e \<Longrightarrow> engine_step source e cs e' \<Longrightarrow> engine_reachable source (acc @ cs) e'"

text \<open>Calls that the worker has in hand.\<close>
definition in_hand :: "'c engine \<Rightarrow> 'c list" where
  "in_hand e = (case eg_worker e of Taken c \<Rightarrow> [c] | _ \<Rightarrow> [])"

section \<open>Calls run at most once\<close>

definition calls_in :: "'c engine \<Rightarrow> 'c multiset" where
  "calls_in e = mset (map fst (eg_ran e)) + mset (in_hand e) + mset (eg_queue e)"

lemma step_calls:
  assumes "engine_step source e cs e'"
  shows "calls_in e' \<subseteq># calls_in e + mset cs \<and> (length (eg_queue e) \<le> queue_capacity \<longrightarrow> length (eg_queue e') \<le> queue_capacity)"
  using assms
proof cases
  case es_reload
  then show ?thesis
    by (auto simp: reload_def calls_in_def in_hand_def Let_def multiset.map_comp comp_def simp flip: mset_map split: if_splits)
qed (auto simp: exec_lua_def load_script_def close_engine_def calls_in_def in_hand_def split: worker.splits)

text \<open>In every order of callers and worker, reloading and closing included, a call runs at most as often as it was accepted, and
  the queue keeps its bound.\<close>
theorem lua_calls_run_once:
  assumes "engine_reachable source acc e"
  shows "mset (map fst (eg_ran e)) + mset (in_hand e) + mset (eg_queue e) \<subseteq># mset acc
    \<and> length (eg_queue e) \<le> queue_capacity"
proof -
  from assms have "calls_in e \<subseteq># mset acc \<and> length (eg_queue e) \<le> queue_capacity"
  proof induction
    case er_new
    show ?case by (simp add: calls_in_def in_hand_def new_engine_def)
  next
    case (er_step acc e cs e')
    from step_calls[OF er_step.hyps(2)] er_step.IH show ?case
      by (auto intro: subset_mset.order_trans subset_mset.add_right_mono)
  qed
  then show ?thesis by (simp add: calls_in_def)
qed

section \<open>The worker lives\<close>

abbreviation worker_runs :: "(string \<times> string \<Rightarrow> 'c) \<Rightarrow> 'c engine \<Rightarrow> 'c engine \<Rightarrow> bool" where
  "worker_runs source \<equiv> (\<lambda>a b. engine_step source a [] b)\<^sup>*\<^sup>*"

lemma reachable_worker:
  assumes "engine_reachable source acc e"
  shows "(\<forall>n. eg_worker e = Selecting n \<longrightarrow> n \<le> eg_state e) \<and> (eg_worker e = Gone \<longrightarrow> 0 < eg_state e \<or> eg_closed e)"
  using assms
proof induction
  case (er_step acc e cs e')
  from er_step.hyps(2) er_step.IH show ?case
    by cases (auto simp: exec_lua_def load_script_def close_engine_def reload_def stop_closed_def Let_def split: if_splits)
qed (simp add: new_engine_def)

text \<open>The call in hand runs.\<close>
lemma run_taken:
  "eg_worker e = Taken c \<Longrightarrow> \<not> eg_closed e \<Longrightarrow> e' = e\<lparr>eg_worker := Between, eg_ran := eg_ran e @ [(c, eg_state e)]\<rparr> \<Longrightarrow>
    engine_step source e [] e'"
  by (simp add: es_run)

text \<open>From the queue to the end of one round.\<close>
lemma run_next:
  assumes "eg_worker e = Between" "\<not> eg_closed e" "eg_queue e = c # q"
  shows "worker_runs source e (e\<lparr>eg_queue := q, eg_ran := eg_ran e @ [(c, eg_state e)]\<rparr>)"
proof -
  let ?a = "e\<lparr>eg_worker := Selecting (eg_state e)\<rparr>" and ?b = "e\<lparr>eg_worker := Taken c, eg_queue := q\<rparr>"
  have "engine_step source e [] ?a" by (rule es_loop[OF assms(1)])
  moreover have "engine_step source ?a [] ?b" using es_take[of ?a "eg_state e" c q source] assms(3) by simp
  moreover have "engine_step source ?b [] (e\<lparr>eg_queue := q, eg_ran := eg_ran e @ [(c, eg_state e)]\<rparr>)"
    by (rule run_taken[of _ c]) (use assms(1,2) in \<open>cases e; simp\<close>)+
  ultimately show ?thesis by (meson converse_rtranclp_into_rtranclp rtranclp.rtrancl_refl)
qed

lemma run_queue:
  assumes "eg_worker e = Between" "\<not> eg_closed e"
  shows "\<exists>e'. worker_runs source e e' \<and> eg_queue e' = [] \<and> map fst (eg_ran e') = map fst (eg_ran e) @ eg_queue e"
  using assms
proof (induction "eg_queue e" arbitrary: e)
  case Nil
  then show ?case by (intro exI[of _ e]) simp
next
  case (Cons c q)
  let ?e = "e\<lparr>eg_queue := q, eg_ran := eg_ran e @ [(c, eg_state e)]\<rparr>"
  have n: "worker_runs source e ?e" using run_next[OF Cons.prems] Cons.hyps(2) by simp
  from Cons.hyps(1)[of ?e] Cons.prems obtain e' where e': "worker_runs source ?e e'" "eg_queue e' = []"
    "map fst (eg_ran e') = map fst (eg_ran ?e) @ q" by auto
  from rtranclp_trans[OF n e'(1)] e'(2,3) Cons.hyps(2)[symmetric] show ?case by auto
qed

text \<open>C36: as long as the engine was neither reloaded nor closed, the worker is there, and it can run all calls that wait, in their
  order, whatever has happened before.\<close>
theorem lua_worker_lives:
  assumes "engine_reachable source acc e" "eg_state e = 0" "\<not> eg_closed e"
  shows "\<exists>e'. worker_runs source e e' \<and> eg_queue e' = []
    \<and> map fst (eg_ran e') = map fst (eg_ran e) @ in_hand e @ eg_queue e"
proof (cases "eg_worker e")
  case (Selecting n)
  show ?thesis
  proof (cases "eg_queue e")
    case Nil
    with Selecting show ?thesis by (intro exI[of _ e]) (simp add: in_hand_def)
  next
    case (Cons c q)
    let ?a = "e\<lparr>eg_worker := Taken c, eg_queue := q\<rparr>" and ?b = "e\<lparr>eg_worker := Between, eg_queue := q, eg_ran := eg_ran e @ [(c, eg_state e)]\<rparr>"
    have "engine_step source e [] ?a" by (rule es_take[OF Selecting Cons])
    moreover have "engine_step source ?a [] ?b"
      by (rule run_taken[of _ c]) (use assms(3) in \<open>cases e; simp\<close>)+
    ultimately have r: "worker_runs source e ?b" by (meson converse_rtranclp_into_rtranclp rtranclp.rtrancl_refl)
    from run_queue[of ?b source] assms(3) obtain e' where "worker_runs source ?b e'" "eg_queue e' = []"
      "map fst (eg_ran e') = map fst (eg_ran ?b) @ q" by auto
    with rtranclp_trans[OF r] Selecting Cons show ?thesis by (auto simp: in_hand_def)
  qed
next
  case (Taken c)
  let ?b = "e\<lparr>eg_worker := Between, eg_ran := eg_ran e @ [(c, eg_state e)]\<rparr>"
  have r: "worker_runs source e ?b" by (rule r_into_rtranclp) (rule es_run[OF Taken assms(3)])
  from run_queue[of ?b source] assms(3) obtain e' where "worker_runs source ?b e'" "eg_queue e' = []"
    "map fst (eg_ran e') = map fst (eg_ran ?b) @ eg_queue e" by auto
  with rtranclp_trans[OF r] Taken show ?thesis by (auto simp: in_hand_def)
next
  case Between
  with run_queue[of e source] assms(3) show ?thesis by (simp add: in_hand_def)
next
  case Gone
  with reachable_worker[OF assms(1)] assms(2,3) show ?thesis by simp
qed

section \<open>After a reload\<close>

text \<open>The worker that waits when the engine is reloaded can only stop, as the queue is empty, and then nothing that is queued
  ever runs again.\<close>
lemma reload_stops_worker:
  assumes "eg_worker e = Selecting (eg_state e)" "reload source e = Inr e'" "engine_step source e' cs e''" "eg_worker e'' \<noteq> eg_worker e'"
  shows "eg_worker e'' = Gone"
proof -
  from assms(1,2) have e': "eg_worker e' = Selecting (eg_state e)" "eg_queue e' = []"
    by (auto simp: reload_def Let_def split: if_splits)
  from assms(3) show ?thesis
    by cases (use e' assms(4) in \<open>auto simp: exec_lua_def load_script_def close_engine_def reload_def Let_def split: if_splits\<close>)
qed

lemma gone_runs_nothing:
  assumes "eg_worker e = Gone" "engine_step source e cs e'" "eg_state e' = eg_state e"
  shows "eg_worker e' = Gone \<and> eg_ran e' = eg_ran e"
  using assms(2) by cases (use assms(1,3) in \<open>auto simp: exec_lua_def load_script_def close_engine_def reload_def Let_def split: if_splits\<close>)

section \<open>A run\<close>

definition two_calls :: "nat engine" where
  "two_calls = exec_lua 4 (exec_lua 3 new_engine)"

lemma two_calls_reachable: "engine_reachable (\<lambda>_. 0) [3, 4] two_calls"
proof -
  have "engine_reachable (\<lambda>_. 0) [3] (exec_lua 3 new_engine)"
    using er_step[OF er_new es_call[of new_engine "\<lambda>_. 0" 3]] by (simp add: new_engine_def)
  from er_step[OF this es_call[of _ "\<lambda>_. 0" 4]] show ?thesis by (simp add: two_calls_def new_engine_def exec_lua_def)
qed

theorem lua_calls_run_once_witness:
  "mset (map fst (eg_ran two_calls)) + mset (in_hand two_calls) + mset (eg_queue two_calls) \<subseteq># mset [3, 4]
    \<and> length (eg_queue two_calls) \<le> queue_capacity"
  using lua_calls_run_once[OF two_calls_reachable] .

theorem lua_worker_lives_witness:
  "\<exists>e'. worker_runs (\<lambda>_. 0) two_calls e' \<and> map fst (eg_ran e') = [3, 4]"
proof -
  have "eg_state two_calls = 0" "\<not> eg_closed two_calls" "eg_queue two_calls = [3, 4]" "eg_ran two_calls = []" "in_hand two_calls = []"
    by (simp_all add: two_calls_def exec_lua_def new_engine_def in_hand_def)
  with lua_worker_lives[OF two_calls_reachable] show ?thesis by auto
qed

end
