(* ===== verification/LuaLib.thy ===== *)
theory LuaLib
  imports Floats "HOL-Library.Multiset"
begin

text \<open>
  The library that scripts see: \<^verbatim>\<open>src/player/lua/stdlib.go\<close>.  A string is the list of its bytes.  Arguments
  are those that the checks of the interpreter let through, numbers that are used as integers after the conversion;
  a function yields the values that it pushes with the number that it returns.  Tables belong to the interpreter.
\<close>

section \<open>Runes\<close>

text \<open>The decoding of UTF-8: the first rune of a non-empty string and its width; what is not valid is the replacement
  character, one byte wide.\<close>
abbreviation rune_error :: nat where "rune_error \<equiv> 0xFFFD"

definition cont_byte :: "nat \<Rightarrow> bool" where
  "cont_byte b \<longleftrightarrow> 0x80 \<le> b \<and> b < 0xC0"

definition second_low :: "nat \<Rightarrow> nat" where
  "second_low b0 = (if b0 = 0xE0 then 0xA0 else if b0 = 0xF0 then 0x90 else 0x80)"

definition second_high :: "nat \<Rightarrow> nat" where
  "second_high b0 = (if b0 = 0xED then 0x9F else if b0 = 0xF4 then 0x8F else 0xBF)"

definition decode_two :: "nat \<Rightarrow> nat \<Rightarrow> nat" where
  "decode_two b0 b1 = (b0 - 0xC0) * 64 + (b1 - 0x80)"

definition decode_three :: "nat \<Rightarrow> nat \<Rightarrow> nat \<Rightarrow> nat" where
  "decode_three b0 b1 b2 = (b0 - 0xE0) * 4096 + (b1 - 0x80) * 64 + (b2 - 0x80)"

definition decode_four :: "nat \<Rightarrow> nat \<Rightarrow> nat \<Rightarrow> nat \<Rightarrow> nat" where
  "decode_four b0 b1 b2 b3 = (b0 - 0xF0) * 262144 + (b1 - 0x80) * 4096 + (b2 - 0x80) * 64 + (b3 - 0x80)"

fun decode_bytes :: "nat list \<Rightarrow> nat \<times> nat" where
  "decode_bytes [] = (rune_error, 0)"
| "decode_bytes (b0 # bs) =
    (if b0 < 0x80 then (b0, 1)
     else case bs of
       b1 # bs' \<Rightarrow>
         if 0xC2 \<le> b0 \<and> b0 \<le> 0xDF \<and> cont_byte b1 then (decode_two b0 b1, 2)
         else if \<not> (0xE0 \<le> b0 \<and> b0 \<le> 0xF4 \<and> second_low b0 \<le> b1 \<and> b1 \<le> second_high b0) then (rune_error, 1)
         else (case bs' of
           b2 # bs'' \<Rightarrow>
             if \<not> cont_byte b2 then (rune_error, 1)
             else if b0 \<le> 0xEF then (decode_three b0 b1 b2, 3)
             else (case bs'' of b3 # _ \<Rightarrow> if cont_byte b3 then (decode_four b0 b1 b2 b3, 4) else (rune_error, 1) | [] \<Rightarrow> (rune_error, 1))
         | [] \<Rightarrow> (rune_error, 1))
     | [] \<Rightarrow> (rune_error, 1))"

definition decode_rune :: "string \<Rightarrow> nat \<times> nat" where
  "decode_rune s = decode_bytes (map of_char s)"

lemma decode_width: "s \<noteq> [] \<Longrightarrow> 0 < snd (decode_rune s)"
  by (cases s) (auto simp: decode_rune_def split: list.split)

text \<open>\<^verbatim>\<open>[]rune(s)\<close>, and the parts of the string that the runes come from.\<close>
function runes :: "string \<Rightarrow> nat list" where
  "runes s = (if s = [] then [] else fst (decode_rune s) # runes (drop (snd (decode_rune s)) s))"
  by pat_completeness auto
termination by (relation "measure length") (auto simp: decode_width)

function rune_parts :: "string \<Rightarrow> string list" where
  "rune_parts s = (if s = [] then [] else take (snd (decode_rune s)) s # rune_parts (drop (snd (decode_rune s)) s))"
  by pat_completeness auto
termination by (relation "measure length") (auto simp: decode_width)

declare runes.simps [simp del] rune_parts.simps [simp del]

definition valid_rune :: "int \<Rightarrow> bool" where
  "valid_rune r \<longleftrightarrow> 0 \<le> r \<and> r \<le> 0x10FFFF \<and> \<not> (0xD800 \<le> r \<and> r \<le> 0xDFFF)"

definition encode_bytes :: "nat \<Rightarrow> nat list" where
  "encode_bytes r =
    (if r < 0x80 then [r]
     else if r < 0x800 then [0xC0 + r div 64, 0x80 + r mod 64]
     else if r < 0x10000 then [0xE0 + r div 4096, 0x80 + r div 64 mod 64, 0x80 + r mod 64]
     else [0xF0 + r div 262144, 0x80 + r div 4096 mod 64, 0x80 + r div 64 mod 64, 0x80 + r mod 64])"

text \<open>\<^verbatim>\<open>string(rune(n))\<close>.\<close>
definition encode_rune :: "int \<Rightarrow> string" where
  "encode_rune r = map char_of (encode_bytes (if valid_rune r then nat r else rune_error))"

lemma encode_bytes_small: "r \<le> 0x10FFFF \<Longrightarrow> b \<in> set (encode_bytes r) \<Longrightarrow> b < 256"
  by (auto simp: encode_bytes_def split: if_splits)

lemma decode_two_ok:
  "2 \<le> a \<Longrightarrow> a \<le> 31 \<Longrightarrow> b < 64 \<Longrightarrow> decode_bytes ((0xC0 + a) # (0x80 + b) # bs) = (a * 64 + b, 2)"
  by (simp add: decode_two_def cont_byte_def)

lemma decode_three_ok:
  "a \<le> 15 \<Longrightarrow> b < 64 \<Longrightarrow> c < 64 \<Longrightarrow> (a = 0 \<Longrightarrow> 32 \<le> b) \<Longrightarrow> (a = 13 \<Longrightarrow> b \<le> 31) \<Longrightarrow>
    decode_bytes ((0xE0 + a) # (0x80 + b) # (0x80 + c) # bs) = (a * 4096 + b * 64 + c, 3)"
  by (simp add: decode_three_def cont_byte_def second_low_def second_high_def)

lemma decode_four_ok:
  "a \<le> 4 \<Longrightarrow> b < 64 \<Longrightarrow> c < 64 \<Longrightarrow> d < 64 \<Longrightarrow> (a = 0 \<Longrightarrow> 16 \<le> b) \<Longrightarrow> (a = 4 \<Longrightarrow> b \<le> 15) \<Longrightarrow>
    decode_bytes ((0xF0 + a) # (0x80 + b) # (0x80 + c) # (0x80 + d) # bs) = (a * 262144 + b * 4096 + c * 64 + d, 4)"
  by (simp add: decode_four_def cont_byte_def second_low_def second_high_def)

lemma sextets:
  "(r::nat) div 64 * 64 + r mod 64 = r" "r div 4096 * 4096 + r div 64 mod 64 * 64 + r mod 64 = r"
  "r div 262144 * 262144 + r div 4096 mod 64 * 4096 + r div 64 mod 64 * 64 + r mod 64 = r"
proof -
  have a: "r div 64 * 64 + r mod 64 = r" by (rule div_mult_mod_eq)
  have b: "r div 4096 * 64 + r div 64 mod 64 = r div 64" using div_mult_mod_eq[of "r div 64" 64] by (simp add: div_mult2_eq[symmetric])
  have c: "r div 262144 * 64 + r div 4096 mod 64 = r div 4096" using div_mult_mod_eq[of "r div 4096" 64] by (simp add: div_mult2_eq[symmetric])
  show "r div 64 * 64 + r mod 64 = r" by (rule a)
  from a b show d: "r div 4096 * 4096 + r div 64 mod 64 * 64 + r mod 64 = r" by linarith
  from c d show "r div 262144 * 262144 + r div 4096 mod 64 * 4096 + r div 64 mod 64 * 64 + r mod 64 = r" by linarith
qed

lemma decode_encode_bytes:
  assumes "r \<le> 0x10FFFF" "\<not> (0xD800 \<le> r \<and> r \<le> 0xDFFF)"
  shows "decode_bytes (encode_bytes r @ bs) = (r, length (encode_bytes r))"
proof -
  consider "r < 0x80" | "0x80 \<le> r" "r < 0x800" | "0x800 \<le> r" "r < 0x10000" | "0x10000 \<le> r" by linarith
  then show ?thesis
  proof cases
    case 1
    then show ?thesis by (simp add: encode_bytes_def)
  next
    case 2
    then have "decode_bytes ((0xC0 + r div 64) # (0x80 + r mod 64) # bs) = (r div 64 * 64 + r mod 64, 2)"
      by (intro decode_two_ok) auto
    with 2 show ?thesis by (simp add: encode_bytes_def del: decode_bytes.simps)
  next
    case 3
    have "decode_bytes ((0xE0 + r div 4096) # (0x80 + r div 64 mod 64) # (0x80 + r mod 64) # bs)
        = (r div 4096 * 4096 + r div 64 mod 64 * 64 + r mod 64, 3)"
      by (rule decode_three_ok) (use 3 assms(2) sextets(2)[of r] in \<open>auto; linarith\<close>)+
    with 3 show ?thesis by (simp add: encode_bytes_def sextets del: decode_bytes.simps)
  next
    case 4
    have "decode_bytes ((0xF0 + r div 262144) # (0x80 + r div 4096 mod 64) # (0x80 + r div 64 mod 64) # (0x80 + r mod 64) # bs)
        = (r div 262144 * 262144 + r div 4096 mod 64 * 4096 + r div 64 mod 64 * 64 + r mod 64, 4)"
      by (rule decode_four_ok) (use 4 assms(1) sextets(3)[of r] in \<open>auto; linarith\<close>)+
    with 4 show ?thesis by (simp add: encode_bytes_def sextets del: decode_bytes.simps)
  qed
qed

lemma encode_bytes_nonempty [simp]: "encode_bytes r \<noteq> []"
  by (simp add: encode_bytes_def)

lemma runes_encode:
  assumes "valid_rune r"
  shows "runes (encode_rune r @ s) = nat r # runes s"
proof -
  let ?bs = "encode_bytes (nat r)"
  have r: "nat r \<le> 0x10FFFF" "\<not> (0xD800 \<le> nat r \<and> nat r \<le> 0xDFFF)" using assms by (auto simp: valid_rune_def)
  have "map of_char (encode_rune r @ s) = ?bs @ map of_char s"
    using encode_bytes_small[OF r(1)] assms by (simp add: encode_rune_def comp_def cong: map_cong)
  then have d: "decode_rune (encode_rune r @ s) = (nat r, length ?bs)"
    using decode_encode_bytes[OF r] by (simp add: decode_rune_def)
  have l: "length (encode_rune r) = length ?bs" using assms by (simp add: encode_rune_def)
  then have "encode_rune r \<noteq> []" by (metis encode_bytes_nonempty length_0_conv)
  with d l show ?thesis by (subst runes.simps) simp
qed

section \<open>Strings\<close>

text \<open>What is pushed, in order.\<close>
datatype 'v pushed = PNil | PInt int | PStr string | PVal 'v

text \<open>The byte function pushes runes; it returns a number that is not how many when the end is before the start.\<close>
definition lua_string_byte :: "string \<Rightarrow> int option \<Rightarrow> int option \<Rightarrow> 'v pushed list \<times> int" where
  "lua_string_byte str start_arg end_arg =
    (let s = runes str; n = int (length s);
         first = (case start_arg of None \<Rightarrow> 1 | Some a \<Rightarrow> if a < 1 then 1 else a);
         last = (case end_arg of None \<Rightarrow> first | Some a \<Rightarrow> a);
         last = (if n < last then n else last)
     in if n < first then ([], 0)
        else (map (\<lambda>i. PInt (int (s ! nat (i - 1)))) [first..last], last - first + 1))"

text \<open>The conversion to a rune wraps to 32 bits.\<close>
definition lua_string_char :: "int \<Rightarrow> 'v pushed list \<times> int" where
  "lua_string_char n = ([PStr (encode_rune (sint (word_of_int n :: 32 word)))], 1)"

fun str_index :: "string \<Rightarrow> string \<Rightarrow> nat option" where
  "str_index s p = (if take (length p) s = p then Some 0
     else case s of [] \<Rightarrow> None | _ # t \<Rightarrow> map_option Suc (str_index t p))"

declare str_index.simps [simp del]

text \<open>The start is used to slice the string without a check.\<close>
definition lua_string_find :: "string \<Rightarrow> string \<Rightarrow> int option \<Rightarrow> ('v pushed list \<times> int) result" where
  "lua_string_find s pat start_arg =
    (let start = (case start_arg of None \<Rightarrow> 1 | Some a \<Rightarrow> a)
     in if start - 1 < 0 \<or> int (length s) < start - 1 then Inl (Panic ''slice bounds out of range'')
        else case str_index (drop (nat (start - 1)) s) pat of
          None \<Rightarrow> Inr ([PNil], 1)
        | Some i \<Rightarrow> Inr ([PInt (start + int i), PInt (start + int i + int (length pat) - 1)], 2))"

text \<open>\<^verbatim>\<open>strings.ReplaceAll\<close>: an empty pattern is found before every rune and at the end.\<close>
function replace_each :: "string \<Rightarrow> string \<Rightarrow> string \<Rightarrow> string" where
  "replace_each old new s = (if old = [] then s else case str_index s old of
      None \<Rightarrow> s
    | Some i \<Rightarrow> take i s @ new @ replace_each old new (drop (i + length old) s))"
  by pat_completeness auto

lemma str_index_Some:
  "str_index s p = Some i \<Longrightarrow> i + length p \<le> length s \<and> take (length p) (drop i s) = p"
proof (induction s p arbitrary: i rule: str_index.induct)
  case (1 s p)
  show ?case
  proof (cases "take (length p) s = p")
    case True
    with "1.prems" have "i = 0" by (simp add: str_index.simps)
    with True show ?thesis using take_all_iff[of "length p" s] by (metis add_0 drop0 le_cases length_take min.absorb_iff2)
  next
    case False
    with "1.prems" obtain c t j where "s = c # t" "str_index t p = Some j" "i = Suc j"
      by (subst (asm) str_index.simps) (auto split: list.splits)
    with "1.IH"[OF False, of c t j] show ?thesis by simp
  qed
qed

termination replace_each
proof (relation "measure (length \<circ> snd \<circ> snd)", simp)
  fix old new s :: string and i
  assume "old \<noteq> []" "str_index s old = Some i"
  with str_index_Some[of s old i] show "((old, new, drop (i + length old) s), old, new, s) \<in> measure (length \<circ> snd \<circ> snd)"
    by (cases old) auto
qed

declare replace_each.simps [simp del]

definition lua_string_gsub :: "string \<Rightarrow> string \<Rightarrow> string \<Rightarrow> 'v pushed list \<times> int" where
  "lua_string_gsub s old new =
    ([PStr (if old = new then s
            else if old = [] then new @ concat (map (\<lambda>p. p @ new) (rune_parts s))
            else replace_each old new s)], 1)"

definition lua_string_len :: "string \<Rightarrow> 'v pushed list \<times> int" where
  "lua_string_len s = ([PInt (int (length s))], 1)"

definition lua_string_match :: "string \<Rightarrow> string \<Rightarrow> 'v pushed list \<times> int" where
  "lua_string_match s pat = (case str_index s pat of
      None \<Rightarrow> ([PNil], 1) | Some i \<Rightarrow> ([PStr (take (length pat) (drop i s))], 1))"

definition lua_string_rep :: "string \<Rightarrow> int \<Rightarrow> ('v pushed list \<times> int) result" where
  "lua_string_rep s n =
    (if n < 0 then Inl (Panic ''strings: negative Repeat count'')
     else if 2 ^ 63 \<le> int (length s) * n then Inl (Panic ''strings: Repeat output length overflow'')
     else Inr ([PStr (concat (replicate (nat n) s))], 1))"

definition go_slice :: "'a list \<Rightarrow> int \<Rightarrow> int \<Rightarrow> 'a list result" where
  "go_slice xs i j = (if 0 \<le> i \<and> i \<le> j \<and> j \<le> int (length xs) then Inr (take (nat (j - i)) (drop (nat i) xs))
     else Inl (Panic ''slice bounds out of range''))"

definition lua_string_sub :: "string \<Rightarrow> int \<Rightarrow> int option \<Rightarrow> ('v pushed list \<times> int) result" where
  "lua_string_sub s start end_arg =
    (let last = (case end_arg of None \<Rightarrow> int (length s) | Some a \<Rightarrow> a);
         start = (if start < 1 then 1 else start);
         last = (if int (length s) < last then int (length s) else last)
     in if last < start then Inr ([PStr []], 1)
        else bind_result (go_slice s (start - 1) last) (\<lambda>t. Inr ([PStr t], 1)))"

text \<open>A character that can be one is read back as its code, in any string.\<close>
lemma char_read_back:
  assumes "valid_rune r" "lua_string_char r = ([PStr s], 1)"
  shows "lua_string_byte (s @ t) None None = ([PInt r], 1)"
proof -
  from assms(1) have "sint (word_of_int r :: 32 word) = r"
    by (intro signed_take_bit_int_eq_self_iff[THEN iffD2, of 31 r, THEN trans[rotated]]) (auto simp: valid_rune_def sint_sbintrunc')
  with assms(2) have "s = encode_rune r" by (simp add: lua_string_char_def)
  with runes_encode[OF assms(1), of t] have "runes (s @ t) = nat r # runes t" by simp
  with assms(1) show ?thesis by (simp add: lua_string_byte_def Let_def valid_rune_def)
qed

text \<open>A substring is always cut without a panic.\<close>
lemma sub_never_panics: "is_ok (lua_string_sub s i j)"
  by (auto simp: lua_string_sub_def go_slice_def Let_def split: option.split)

text \<open>Cutting at what was found gives the pattern.\<close>
lemma find_then_sub:
  assumes "lua_string_find s pat st = Inr ([PInt i, PInt j], 2)" "pat \<noteq> []"
  shows "lua_string_sub s i (Some j) = Inr ([PStr pat], 1)"
proof -
  let ?st = "case st of None \<Rightarrow> 1 | Some a \<Rightarrow> a"
  from assms(1) obtain k where k: "str_index (drop (nat (?st - 1)) s) pat = Some k" and st: "1 \<le> ?st"
    and i: "i = ?st + int k" and j: "j = i + int (length pat) - 1"
    by (auto simp: lua_string_find_def Let_def split: if_splits option.splits)
  from str_index_Some[OF k] have le: "nat (?st - 1) + k + length pat \<le> length s" "take (length pat) (drop (nat (?st - 1) + k) s) = pat"
    using assms(2) by (cases pat; auto simp: add.commute)+
  have n: "nat (i - 1) = nat (?st - 1) + k" "nat (j - (i - 1)) = length pat" using st i j by auto
  have "i \<le> j" "j \<le> int (length s)" "1 \<le> i" using st i j le(1) assms(2) by (cases pat; auto)+
  with le(2) n show ?thesis by (simp add: lua_string_sub_def go_slice_def Let_def)
qed

text \<open>With an end before the start nothing is pushed and the number returned is not positive.\<close>
lemma byte_returns_negative: "(lua_string_byte ''abc'' (Some 3) (Some 1) :: unit pushed list \<times> int) = ([], -1)"
  by (simp add: lua_string_byte_def runes.simps decode_rune_def Let_def)

section \<open>Replacing\<close>

fun join_with :: "string \<Rightarrow> string list \<Rightarrow> string" where
  "join_with sep [] = []"
| "join_with sep [p] = p"
| "join_with sep (p # q # ps) = p @ sep @ join_with sep (q # ps)"

lemma join_with_Cons: "ps \<noteq> [] \<Longrightarrow> join_with sep (p # ps) = p @ sep @ join_with sep ps"
  by (cases ps) simp_all

definition occurs_in :: "string \<Rightarrow> string \<Rightarrow> bool" where
  "occurs_in p s \<longleftrightarrow> (\<exists>u v. s = u @ p @ v)"

lemma str_index_append: "str_index (u @ p @ v) p \<noteq> None \<and> the (str_index (u @ p @ v) p) \<le> length u"
proof (induction u)
  case Nil
  show ?case by (simp add: str_index.simps)
next
  case (Cons c u)
  then obtain i where "str_index (u @ p @ v) p = Some i" "i \<le> length u" by auto
  then show ?case by (subst (1 2) str_index.simps) auto
qed

lemma str_index_None: "str_index s p = None \<Longrightarrow> \<not> occurs_in p s"
  unfolding occurs_in_def using str_index_append[of _ p] by metis

lemma before_index: 
  assumes "str_index s p = Some i" "p \<noteq> []"
  shows "\<not> occurs_in p (take i s)"
proof
  assume "occurs_in p (take i s)"
  then obtain u v where t: "take i s = u @ p @ v" by (auto simp: occurs_in_def)
  then have "s = u @ p @ (v @ drop i s)" by (metis append.assoc append_take_drop_id)
  with str_index_append[of u p "v @ drop i s"] assms(1) have "i \<le> length u" by auto
  moreover have "length u + length p \<le> i" using arg_cong[OF t, of length] by (simp split: if_splits)
  ultimately show False using assms(2) by (cases p) auto
qed

text \<open>Replacing a non-empty pattern splits the string at occurrences of the pattern, leaves none in the parts, and joins
  the parts by the replacement.\<close>
lemma replaced_parts:
  assumes "old \<noteq> []"
  shows "\<exists>ps. ps \<noteq> [] \<and> s = join_with old ps \<and> replace_each old new s = join_with new ps \<and> (\<forall>p \<in> set ps. \<not> occurs_in old p)"
proof (induction "length s" arbitrary: s rule: less_induct)
  case less
  show ?case
  proof (cases "str_index s old")
    case None
    with assms show ?thesis
      by (intro exI[of _ "[s]"]) (simp add: str_index_None replace_each.simps[of old new s])
  next
    case (Some i)
    note f = str_index_Some[OF Some]
    let ?t = "drop (i + length old) s"
    have "length ?t < length s" using f assms by (cases old) auto
    from less[OF this] obtain ps where ps: "ps \<noteq> []" "?t = join_with old ps" "replace_each old new ?t = join_with new ps"
      "\<forall>p \<in> set ps. \<not> occurs_in old p" by blast
    have "s = take i s @ old @ ?t" using f by (metis add.commute append_take_drop_id drop_drop)
    with ps Some assms before_index[OF Some assms] show ?thesis
      by (intro exI[of _ "take i s # ps"]) (simp add: join_with_Cons replace_each.simps[of old new s])
  qed
qed

section \<open>Numbers\<close>

definition lua_math_abs :: "'f flt \<Rightarrow> 'f \<Rightarrow> 'f" where
  "lua_math_abs F n = (if fl_less F n (fl_lit F 0) then fl_neg F n else n)"

text \<open>Both convert to an integer and back.\<close>
definition lua_math_ceil :: "'f flt \<Rightarrow> 'f \<Rightarrow> 'f" where
  "lua_math_ceil F n = fl_of_int F (fl_to_int F n)"

definition lua_math_floor :: "'f flt \<Rightarrow> 'f \<Rightarrow> 'f" where
  "lua_math_floor F n = fl_of_int F (fl_to_int F n)"

definition lua_math_max :: "'f flt \<Rightarrow> 'f \<Rightarrow> 'f list \<Rightarrow> 'f" where
  "lua_math_max F n ns = fold (\<lambda>n m. if fl_less F m n then n else m) ns n"

definition lua_math_min :: "'f flt \<Rightarrow> 'f \<Rightarrow> 'f list \<Rightarrow> 'f" where
  "lua_math_min F n ns = fold (\<lambda>n m. if fl_less F n m then n else m) ns n"

text \<open>The square root is the conversion of its argument.\<close>
definition lua_math_sqrt :: "'f \<Rightarrow> 'f" where
  "lua_math_sqrt n = n"

lemma ceil_rounds_down: "lua_math_ceil real_flt 1.5 = 1" "lua_math_floor real_flt (- 1.5) = - 1" "lua_math_sqrt (4 :: real) = 4"
  by (simp_all add: lua_math_ceil_def lua_math_floor_def lua_math_sqrt_def real_flt_def floor_eq_iff)

lemma max_of_all: "lua_math_max real_flt n ns = Max (set (n # ns))"
proof -
  have "(if m < (x::real) then x else m) = max x m" for m x by simp
  then show ?thesis by (simp only: lua_math_max_def real_flt_simps Max.set_eq_fold max.commute[symmetric])
qed

lemma min_of_all: "lua_math_min real_flt n ns = Min (set (n # ns))"
proof -
  have "(if x < (m::real) then x else m) = min x m" for m x by simp
  then show ?thesis by (simp only: lua_math_min_def real_flt_simps Min.set_eq_fold)
qed

end
