(* ===== verification/LuaTables.thy ===== *)
theory LuaTables
  imports LuaLib
begin

text \<open>
  The table library of scripts: \<^verbatim>\<open>luaTable*\<close> of \<^verbatim>\<open>src/player/lua/stdlib.go\<close>.  A table belongs to
  the interpreter, which is a library: its operations are the fields of a record.
\<close>

section \<open>Tables\<close>

text \<open>The length, reading and writing at an integer, inserting and removing with shifts, the entries in the order in which
  they are visited, an empty table, and the text of a value.\<close>
record ('t, 'v) table_lib =
  tl_max :: "'t \<Rightarrow> int"
  tl_get :: "'t \<Rightarrow> int \<Rightarrow> 'v"
  tl_set :: "int \<Rightarrow> 'v \<Rightarrow> 't \<Rightarrow> 't"
  tl_insert :: "int \<Rightarrow> 'v \<Rightarrow> 't \<Rightarrow> 't"
  tl_remove :: "int \<Rightarrow> 't \<Rightarrow> 'v option \<times> 't"
  tl_entries :: "'t \<Rightarrow> ('v \<times> 'v) list"
  tl_new :: 't
  tl_text :: "'v \<Rightarrow> string"

text \<open>The length is returned as the number of results, and not pushed.\<close>
definition lua_table_maxn :: "('t, 'v) table_lib \<Rightarrow> 't \<Rightarrow> 'v pushed list \<times> int" where
  "lua_table_maxn T t = ([], tl_max T t)"

text \<open>With two arguments the value goes to the end.\<close>
definition lua_table_insert :: "('t, 'v) table_lib \<Rightarrow> int option \<Rightarrow> 'v \<Rightarrow> 't \<Rightarrow> 't" where
  "lua_table_insert T pos v t = tl_insert T (case pos of None \<Rightarrow> tl_max T t + 1 | Some p \<Rightarrow> p) v t"

definition lua_table_remove :: "('t, 'v) table_lib \<Rightarrow> int option \<Rightarrow> 't \<Rightarrow> ('v pushed list \<times> int) \<times> 't" where
  "lua_table_remove T pos t = (case tl_remove T (case pos of None \<Rightarrow> tl_max T t | Some p \<Rightarrow> p) t of
      (Some v, t) \<Rightarrow> (([PVal v], 1), t) | (None, t) \<Rightarrow> (([PNil], 1), t))"

fun concat_from :: "('t, 'v) table_lib \<Rightarrow> string \<Rightarrow> 't \<Rightarrow> int list \<Rightarrow> string" where
  "concat_from T sep t [] = []"
| "concat_from T sep t (i # is) = (if 1 < i then sep else []) @ tl_text T (tl_get T t i) @ concat_from T sep t is"

definition lua_table_concat :: "('t, 'v) table_lib \<Rightarrow> string option \<Rightarrow> 't \<Rightarrow> 'v pushed list \<times> int" where
  "lua_table_concat T sep t =
    ([PStr (concat_from T (case sep of None \<Rightarrow> [] | Some s \<Rightarrow> s) t [1..tl_max T t])], 1)"

text \<open>The values are collected, not the keys.\<close>
definition lua_table_keys :: "('t, 'v) table_lib \<Rightarrow> 't \<Rightarrow> 't" where
  "lua_table_keys T t = snd (fold (\<lambda>(k, v) (i, r). (i + 1, tl_set T i v r)) (tl_entries T t) (1, tl_new T))"

section \<open>Sorting\<close>

text \<open>One pass down from \<^verbatim>\<open>j\<close>: neighbours are swapped when the comparison says so, which may fail.\<close>
fun sort_down :: "('v \<Rightarrow> 'v \<Rightarrow> bool result) \<Rightarrow> nat \<Rightarrow> 'v list \<Rightarrow> 'v list result" where
  "sort_down c 0 ks = Inr ks"
| "sort_down c (Suc j) ks = bind_result (c (ks ! j) (ks ! Suc j)) (\<lambda>b.
     sort_down c j (if b then ks[j := ks ! Suc j, Suc j := ks ! j] else ks))"

fun sort_passes :: "('v \<Rightarrow> 'v \<Rightarrow> bool result) \<Rightarrow> nat list \<Rightarrow> 'v list \<Rightarrow> 'v list result" where
  "sort_passes c [] ks = Inr ks"
| "sort_passes c (i # is) ks = bind_result (sort_down c i ks) (sort_passes c is)"

definition sort_keys :: "('v \<Rightarrow> 'v \<Rightarrow> bool result) \<Rightarrow> 'v list \<Rightarrow> 'v list result" where
  "sort_keys c ks = sort_passes c [1..<length ks] ks"

text \<open>Texts are compared by their bytes.\<close>
fun text_less :: "string \<Rightarrow> string \<Rightarrow> bool" where
  "text_less a [] = False"
| "text_less [] (y # b) = True"
| "text_less (x # a) (y # b) \<longleftrightarrow> (of_char x :: nat) < of_char y \<or> x = y \<and> text_less a b"

definition text_order :: "('t, 'v) table_lib \<Rightarrow> 'v \<Rightarrow> 'v \<Rightarrow> bool result" where
  "text_order T a b = Inr (text_less (tl_text T b) (tl_text T a))"

definition write_sorted :: "('t, 'v) table_lib \<Rightarrow> 'v list \<Rightarrow> 't \<Rightarrow> 't" where
  "write_sorted T ks t = fold (\<lambda>(i, v). tl_set T (int i + 1) v) (enumerate 0 ks) t"

text \<open>The function of the script, if there is one, with its result when that is a boolean; anything else is a panic.\<close>
definition lua_table_sort :: "('t, 'v) table_lib \<Rightarrow> ('v \<Rightarrow> 'v \<Rightarrow> bool result) option \<Rightarrow> 't \<Rightarrow> 't result" where
  "lua_table_sort T fn t =
    bind_result (sort_keys (case fn of Some f \<Rightarrow> f | None \<Rightarrow> text_order T) (map (tl_get T t) [1..tl_max T t]))
      (\<lambda>ks. Inr (write_sorted T ks t))"

section \<open>A pass\<close>

text \<open>A comparison that always answers, with what it means: \<^verbatim>\<open>c a b\<close> that \<^verbatim>\<open>a\<close> comes after \<^verbatim>\<open>b\<close>.\<close>
definition answers :: "('v \<Rightarrow> 'v \<Rightarrow> bool result) \<Rightarrow> ('v \<Rightarrow> 'v \<Rightarrow> bool) \<Rightarrow> bool" where
  "answers c after \<longleftrightarrow> (\<forall>a b. c a b = Inr (after a b))"

definition weak_order :: "('v \<Rightarrow> 'v \<Rightarrow> bool) \<Rightarrow> bool" where
  "weak_order after \<longleftrightarrow> (\<forall>a b. after a b \<longrightarrow> \<not> after b a) \<and> (\<forall>a b c. \<not> after a b \<longrightarrow> \<not> after b c \<longrightarrow> \<not> after a c)"

abbreviation swapped :: "nat \<Rightarrow> 'v list \<Rightarrow> 'v list" where
  "swapped j ks \<equiv> ks[j := ks ! Suc j, Suc j := ks ! j]"

lemma mset_swapped: "Suc j < length ks \<Longrightarrow> mset (swapped j ks) = mset ks"
  using mset_swap[of j ks "Suc j"] by (simp add: list_update_swap)

lemma swapped_split:
  assumes "Suc j < length ks"
  shows "ks = take j ks @ [ks ! j, ks ! Suc j] @ drop (Suc (Suc j)) ks"
    and "swapped j ks = take j ks @ [ks ! Suc j, ks ! j] @ drop (Suc (Suc j)) ks"
proof -
  from assms show e: "ks = take j ks @ [ks ! j, ks ! Suc j] @ drop (Suc (Suc j)) ks"
    by (simp add: Cons_nth_drop_Suc)
  have "(as @ [x, y] @ bs)[length as := y, Suc (length as) := x] = as @ [y, x] @ bs" for as bs and x y :: 'a
    by (simp add: list_update_append)
  from this[of "take j ks" "ks ! j" "ks ! Suc j" "drop (Suc (Suc j)) ks"] e assms
  show "swapped j ks = take j ks @ [ks ! Suc j, ks ! j] @ drop (Suc (Suc j)) ks" by (simp add: min_def)
qed

text \<open>What is equal to something keeps its order.\<close>
lemma swapped_keeps_equal:
  assumes "Suc j < length ks" "\<not> (P (ks ! j) \<and> P (ks ! Suc j))"
  shows "filter P (swapped j ks) = filter P ks"
  using assms(2) arg_cong[OF swapped_split(1)[OF assms(1)], of "filter P"] arg_cong[OF swapped_split(2)[OF assms(1)], of "filter P"]
  by auto

text \<open>Everything in the first \<^verbatim>\<open>m\<close> is in order, but for what is at \<^verbatim>\<open>j\<close>, which is not after anything behind it.\<close>
definition ordered_but :: "('v \<Rightarrow> 'v \<Rightarrow> bool) \<Rightarrow> nat \<Rightarrow> nat \<Rightarrow> 'v list \<Rightarrow> bool" where
  "ordered_but after m j ks \<longleftrightarrow> (\<forall>p q. p < q \<and> q < m \<and> p \<noteq> j \<and> q \<noteq> j \<longrightarrow> \<not> after (ks ! p) (ks ! q))
     \<and> (\<forall>q. j < q \<and> q < m \<longrightarrow> \<not> after (ks ! j) (ks ! q))"

lemma ordered_swapped:
  assumes "weak_order after" "ordered_but after m (Suc j) ks" "Suc j < m" "m \<le> length ks" "after (ks ! j) (ks ! Suc j)"
  shows "ordered_but after m j (swapped j ks)"
proof -
  let ?s = "swapped j ks"
  have at: "?s ! j = ks ! Suc j" "?s ! Suc j = ks ! j" "\<And>p. p \<noteq> j \<Longrightarrow> p \<noteq> Suc j \<Longrightarrow> ?s ! p = ks ! p"
    using assms(3,4) by simp_all
  have o: "\<not> after (ks ! p) (ks ! q)" if "p < q" "q < m" "p \<noteq> Suc j" "q \<noteq> Suc j" for p q
    using assms(2) that by (simp add: ordered_but_def)
  have l: "\<not> after (ks ! Suc j) (ks ! q)" if "Suc j < q" "q < m" for q
    using assms(2) that by (simp add: ordered_but_def)
  have "\<not> after (?s ! p) (?s ! q)" if "p < q" "q < m" "p \<noteq> j" "q \<noteq> j" for p q
  proof (cases "p = Suc j \<or> q = Suc j")
    case False
    with that o[of p q] at(3)[of p] at(3)[of q] show ?thesis by simp
  next
    case True
    then show ?thesis
    proof
      assume p: "p = Suc j"
      with that o[of j q] at(3)[of q] at(2) show ?thesis by simp
    next
      assume q: "q = Suc j"
      with that have "p < j" by simp
      with q o[of p j] at(3)[of p] at(2) assms(3) show ?thesis by simp
    qed
  qed
  moreover have "\<not> after (?s ! j) (?s ! q)" if "j < q" "q < m" for q
  proof (cases "q = Suc j")
    case True
    from assms(1,5) have "\<not> after (ks ! Suc j) (ks ! j)" unfolding weak_order_def by blast
    with True at(1,2) show ?thesis by simp
  next
    case False
    with that l[of q] at(1) at(3)[of q] show ?thesis by simp
  qed
  ultimately show ?thesis by (simp add: ordered_but_def)
qed

lemma ordered_unswapped:
  assumes "weak_order after" "ordered_but after m (Suc j) ks" "Suc j < m" "\<not> after (ks ! j) (ks ! Suc j)"
  shows "ordered_but after m j ks"
proof -
  have "\<not> after (ks ! p) (ks ! q)" if pq: "p < q" "q < m" for p q
  proof -
    consider "p = Suc j" | "q = Suc j" "p = j" | "q = Suc j" "p < j" | "p \<noteq> Suc j" "q \<noteq> Suc j"
      using pq(1) by (metis less_Suc_eq)
    then show ?thesis
    proof cases
      case 3
      then have "\<not> after (ks ! p) (ks ! j)" using assms(2,3) by (simp add: ordered_but_def)
      with assms(1,4) 3 show ?thesis by (metis weak_order_def)
    qed (use pq assms(2,4) in \<open>auto simp: ordered_but_def\<close>)
  qed
  then show ?thesis using assms(3) by (auto simp: ordered_but_def)
qed

lemma sort_down_orders:
  assumes "answers c after" "weak_order after" "ordered_but after m j ks" "j < m" "m \<le> length ks"
  shows "\<exists>ks'. sort_down c j ks = Inr ks' \<and> ordered_but after m 0 ks' \<and> length ks' = length ks \<and> mset ks' = mset ks
    \<and> (\<forall>i \<ge> m. ks' ! i = ks ! i) \<and> (\<forall>P. (\<forall>a b. after a b \<longrightarrow> \<not> (P a \<and> P b)) \<longrightarrow> filter P ks' = filter P ks)"
  using assms(3-5)
proof (induction j arbitrary: ks)
  case 0
  then show ?case by simp
next
  case (Suc j)
  let ?k = "if after (ks ! j) (ks ! Suc j) then swapped j ks else ks"
  have o: "ordered_but after m j ?k"
    using ordered_swapped[OF assms(2) Suc.prems] ordered_unswapped[OF assms(2) Suc.prems(1,2)] by simp
  have l: "length ?k = length ks" "mset ?k = mset ks" "\<forall>i \<ge> m. ?k ! i = ks ! i"
    using Suc.prems(2,3) by (simp_all add: mset_swapped)
  have f: "filter P ?k = filter P ks" if "\<forall>a b. after a b \<longrightarrow> \<not> (P a \<and> P b)" for P
    using that swapped_keeps_equal[of j ks P] Suc.prems(2,3) by simp
  have c: "c (ks ! j) (ks ! Suc j) = Inr (after (ks ! j) (ks ! Suc j))" using assms(1) by (simp add: answers_def)
  from Suc.IH[OF o] Suc.prems(2,3) l(1) obtain ks' where "sort_down c j ?k = Inr ks'" "ordered_but after m 0 ks'"
    "length ks' = length ks" "mset ks' = mset ?k" "\<forall>i \<ge> m. ks' ! i = ?k ! i"
    "\<forall>P. (\<forall>a b. after a b \<longrightarrow> \<not> (P a \<and> P b)) \<longrightarrow> filter P ks' = filter P ?k"
    by (metis Suc_lessD)
  then show ?case using l f c by (intro exI[of _ ks']) (simp only: sort_down.simps bind_result_simps; simp)
qed

text \<open>All pairs among the first \<^verbatim>\<open>m\<close> are in order.\<close>
lemma ordered_but_0: "ordered_but after m 0 ks \<longleftrightarrow> (\<forall>p q. p < q \<and> q < m \<longrightarrow> \<not> after (ks ! p) (ks ! q))"
proof
  assume o: "ordered_but after m 0 ks"
  have "\<not> after (ks ! p) (ks ! q)" if "p < q" "q < m" for p q
    using o that by (cases "p = 0") (simp_all add: ordered_but_def)
  then show "\<forall>p q. p < q \<and> q < m \<longrightarrow> \<not> after (ks ! p) (ks ! q)" by simp
qed (simp add: ordered_but_def)

lemma ordered_but_grows: "ordered_but after m 0 ks \<Longrightarrow> ordered_but after (Suc m) m ks"
  unfolding ordered_but_0 by (auto simp: ordered_but_def)

lemma sort_passes_orders:
  assumes "answers c after" "weak_order after" "ordered_but after m 0 ks" "m \<le> length ks"
  shows "\<exists>ks'. sort_passes c [m..<length ks] ks = Inr ks' \<and> ordered_but after (length ks) 0 ks' \<and> length ks' = length ks
    \<and> mset ks' = mset ks \<and> (\<forall>P. (\<forall>a b. after a b \<longrightarrow> \<not> (P a \<and> P b)) \<longrightarrow> filter P ks' = filter P ks)"
  using assms(3,4)
proof (induction "length ks - m" arbitrary: m ks)
  case 0
  then show ?case by (intro exI[of _ ks]) simp
next
  case (Suc n)
  then have m: "m < length ks" by simp
  from sort_down_orders[OF assms(1,2) ordered_but_grows[OF Suc.prems(1)]] m obtain k where
    k: "sort_down c m ks = Inr k" "ordered_but after (Suc m) 0 k" "length k = length ks" "mset k = mset ks"
      "\<forall>P. (\<forall>a b. after a b \<longrightarrow> \<not> (P a \<and> P b)) \<longrightarrow> filter P k = filter P ks" by auto
  have n: "n = length k - Suc m" "Suc m \<le> length k" using Suc.hyps(2) m k(3) by simp_all
  from Suc.hyps(1)[OF n(1) k(2) n(2)] obtain ks' where ks': "sort_passes c [Suc m..<length k] k = Inr ks'"
    "ordered_but after (length k) 0 ks'" "length ks' = length k" "mset ks' = mset k"
    "\<forall>P. (\<forall>a b. after a b \<longrightarrow> \<not> (P a \<and> P b)) \<longrightarrow> filter P ks' = filter P k" by blast
  have "sort_passes c [m..<length ks] ks = Inr ks'" using k(1,3) ks'(1) by (simp add: upt_conv_Cons[OF m])
  with k(3-5) ks'(2-5) show ?case by (intro exI[of _ ks']) simp
qed

text \<open>A comparison that always answers and is a weak order puts the keys in order, whatever they are, and keeps the order of
  those that it does not tell apart.\<close>
lemma sort_keys_orders:
  assumes "answers c after" "weak_order after"
  shows "\<exists>ks'. sort_keys c ks = Inr ks' \<and> sorted_wrt (\<lambda>a b. \<not> after a b) ks' \<and> mset ks' = mset ks
    \<and> (\<forall>P. (\<forall>a b. after a b \<longrightarrow> \<not> (P a \<and> P b)) \<longrightarrow> filter P ks' = filter P ks)"
proof (cases "ks = []")
  case False
  then have "1 \<le> length ks" by (cases ks) auto
  moreover have "ordered_but after 1 0 ks" by (simp add: ordered_but_0)
  ultimately obtain ks' where ks': "sort_passes c [1..<length ks] ks = Inr ks'" "ordered_but after (length ks) 0 ks'"
    "length ks' = length ks" "mset ks' = mset ks" "\<forall>P. (\<forall>a b. after a b \<longrightarrow> \<not> (P a \<and> P b)) \<longrightarrow> filter P ks' = filter P ks"
    using sort_passes_orders[OF assms] by blast
  then have "sorted_wrt (\<lambda>a b. \<not> after a b) ks'" by (auto simp: sorted_wrt_iff_nth_less ordered_but_0)
  with ks' show ?thesis by (simp add: sort_keys_def)
qed (simp add: sort_keys_def)

section \<open>Sorting a table\<close>

definition cells :: "('t, 'v) table_lib \<Rightarrow> 't \<Rightarrow> 'v list" where
  "cells T t = map (tl_get T t) [1..tl_max T t]"

text \<open>What the interpreter documents of its tables: writing at an index in use changes what is read there, and nothing else.\<close>
definition writes_cells :: "('t, 'v) table_lib \<Rightarrow> bool" where
  "writes_cells T \<longleftrightarrow> (\<forall>t i v. 1 \<le> i \<and> i \<le> tl_max T t \<longrightarrow> tl_max T (tl_set T i v t) = tl_max T t
     \<and> (\<forall>j. 1 \<le> j \<and> j \<le> tl_max T t \<longrightarrow> tl_get T (tl_set T i v t) j = (if j = i then v else tl_get T t j)))"

lemma write_from:
  assumes "writes_cells T" "int (n + length ks) \<le> tl_max T t"
  shows "tl_max T (fold (\<lambda>(i, v). tl_set T (int i + 1) v) (enumerate n ks) t) = tl_max T t
    \<and> (\<forall>j. 1 \<le> j \<and> j \<le> tl_max T t \<longrightarrow> tl_get T (fold (\<lambda>(i, v). tl_set T (int i + 1) v) (enumerate n ks) t) j
         = (if int n < j \<and> j \<le> int (n + length ks) then ks ! (nat j - n - 1) else tl_get T t j))"
  using assms(2)
proof (induction ks arbitrary: n t)
  case Nil
  then show ?case by auto
next
  case (Cons k ks)
  let ?t = "tl_set T (int n + 1) k t"
  have w: "tl_max T ?t = tl_max T t" "\<And>j. 1 \<le> j \<Longrightarrow> j \<le> tl_max T t \<Longrightarrow> tl_get T ?t j = (if j = int n + 1 then k else tl_get T t j)"
    using assms(1) Cons.prems by (auto simp: writes_cells_def)
  have "(k # ks) ! (nat j - n - 1) = ks ! (nat j - Suc n - 1)" if "int (Suc n) < j" for j
  proof -
    from that have "nat j - n - 1 = Suc (nat j - Suc n - 1)" by linarith
    then show ?thesis by simp
  qed
  with w Cons.IH[of "Suc n" ?t] Cons.prems show ?case by (auto simp: nth_Cons')
qed

lemma cells_written:
  assumes "writes_cells T" "int (length ks) = tl_max T t"
  shows "cells T (write_sorted T ks t) = ks"
proof -
  from write_from[OF assms(1), of 0 ks t] assms(2) have w: "tl_max T (write_sorted T ks t) = int (length ks)"
    "\<And>j. 0 < j \<Longrightarrow> j \<le> int (length ks) \<Longrightarrow> tl_get T (write_sorted T ks t) j = ks ! (nat j - 1)"
    by (simp_all add: write_sorted_def)
  show ?thesis unfolding cells_def w(1) by (rule nth_equalityI) (simp_all add: w(2) nat_add_distrib)
qed

lemma text_less_Nil [simp]: "text_less [] a \<longleftrightarrow> a \<noteq> []"
  by (cases a) simp_all

lemma text_less_order:
  "text_less a b \<Longrightarrow> \<not> text_less b a" "\<not> text_less a b \<Longrightarrow> \<not> text_less b a \<Longrightarrow> a = b"
  by (induction a b rule: text_less.induct) (auto simp: not_less_iff_gr_or_eq)

lemma text_less_trans: "text_less a b \<Longrightarrow> text_less b c \<Longrightarrow> text_less a c"
proof (induction a b arbitrary: c rule: text_less.induct)
  case (2 y b)
  then show ?case by (cases c) auto
next
  case (3 x a y b)
  then show ?case by (cases c) auto
qed simp

lemma text_less_weak: "weak_order (\<lambda>a b. text_less (f b) (f a))"
  unfolding weak_order_def using text_less_order text_less_trans by metis


section \<open>Tables as lists\<close>

definition list_lib :: "('v \<Rightarrow> string) \<Rightarrow> ('v list, 'v) table_lib" where
  "list_lib f = \<lparr>tl_max = \<lambda>t. int (length t), tl_get = \<lambda>t i. t ! nat (i - 1),
     tl_set = \<lambda>i v t. if i = int (length t) + 1 then t @ [v] else if 1 \<le> i \<and> i \<le> int (length t) then t[nat (i - 1) := v] else t,
     tl_insert = \<lambda>i v t. take (nat (i - 1)) t @ [v] @ drop (nat (i - 1)) t,
     tl_remove = \<lambda>i t. if 1 \<le> i \<and> i \<le> int (length t) then (Some (t ! nat (i - 1)), take (nat (i - 1)) t @ drop (nat i) t) else (None, t),
     tl_entries = \<lambda>t. zip t t, tl_new = [], tl_text = f\<rparr>"

definition digits_of :: "nat \<Rightarrow> string" where
  "digits_of n = (if n < 10 then [char_of (48 + n)] else [char_of (48 + n div 10), char_of (48 + n mod 10)])"

lemma list_lib_cells: "cells (list_lib f) t = t"
  by (rule nth_equalityI) (simp_all add: cells_def list_lib_def)

lemma list_lib_writes: "writes_cells (list_lib f)"
  by (auto simp: writes_cells_def list_lib_def nth_list_update)

text \<open>Numbers are sorted as texts, and the usual function sorts the other way round.\<close>
lemma sorts_as_text: "lua_table_sort (list_lib digits_of) None [9, 10, 1] = Inr [1, 10, 9]"
  by code_simp

lemma sorts_descending: "lua_table_sort (list_lib digits_of) (Some (\<lambda>a b. Inr (a < b))) [1, 3, 2] = Inr [3, 2, 1]"
  by code_simp


end
