(* ===== verification/LuaTimers.thy ===== *)
theory LuaTimers
  imports Prelude
begin

text \<open>
  The timers of scripts: \<^verbatim>\<open>TimerRegistry\<close> of \<^verbatim>\<open>src/player/lua/engine.go\<close>.  A repeating timer is a
  ticker, which keeps at most one tick for its goroutine, and the goroutine, which waits for ticks and for the channel that
  stops the registry.  Durations are in nanoseconds.
\<close>

section \<open>The registry\<close>

record routine =
  rt_id :: int
  rt_running :: bool
  rt_tick :: bool
  rt_alive :: bool

text \<open>The calls that fired, a repeating timer by its number and a single one by none.\<close>
record timer_registry =
  rg_next :: int
  rg_timers :: "int \<Rightarrow> nat option"
  rg_routines :: "routine list"
  rg_stopped :: bool
  rg_waiting :: nat
  rg_fired :: "int option list"

definition new_timer_registry :: timer_registry where
  "new_timer_registry = \<lparr>rg_next = 0, rg_timers = Map.empty, rg_routines = [], rg_stopped = False, rg_waiting = 0, rg_fired = []\<rparr>"

definition timer_after :: "timer_registry \<Rightarrow> timer_registry" where
  "timer_after r = r\<lparr>rg_waiting := rg_waiting r + 1\<rparr>"

definition timer_every :: "int \<Rightarrow> timer_registry \<Rightarrow> (int \<times> timer_registry) result" where
  "timer_every d r =
    (if d \<le> 0 then Inl (Panic ''non-positive interval for NewTicker'')
     else Inr (rg_next r, r\<lparr>rg_next := rg_next r + 1, rg_timers := (rg_timers r)(rg_next r \<mapsto> length (rg_routines r)),
       rg_routines := rg_routines r @ [\<lparr>rt_id = rg_next r, rt_running = True, rt_tick = False, rt_alive = True\<rparr>]\<rparr>))"

definition on_routine :: "nat \<Rightarrow> (routine \<Rightarrow> routine) \<Rightarrow> timer_registry \<Rightarrow> timer_registry" where
  "on_routine k g r = r\<lparr>rg_routines := (rg_routines r)[k := g (rg_routines r ! k)]\<rparr>"

text \<open>The ticker is stopped; its goroutine is not told.\<close>
definition timer_cancel :: "int \<Rightarrow> timer_registry \<Rightarrow> timer_registry" where
  "timer_cancel i r = (case rg_timers r i of
      None \<Rightarrow> r\<lparr>rg_timers := (rg_timers r)(i := None)\<rparr>
    | Some k \<Rightarrow> (on_routine k (rt_running_update (\<lambda>_. False)) r)\<lparr>rg_timers := (rg_timers r)(i := None)\<rparr>)"

section \<open>Steps\<close>

datatype timer_event = EvEvery int | EvAfter | EvCancel int | EvStop | EvTick nat | EvReceive nat | EvExit nat | EvFires

text \<open>The event, if it can happen: a ticker that runs ticks, a goroutine takes a tick and calls the function, or returns when the
  registry is stopped; a single timer fires whatever happened to the registry.\<close>
definition timer_step :: "timer_event \<Rightarrow> timer_registry \<Rightarrow> timer_registry option" where
  "timer_step ev r = (case ev of
      EvEvery d \<Rightarrow> (case timer_every d r of Inl _ \<Rightarrow> None | Inr (_, r) \<Rightarrow> Some r)
    | EvAfter \<Rightarrow> Some (timer_after r)
    | EvCancel i \<Rightarrow> Some (timer_cancel i r)
    | EvStop \<Rightarrow> Some (r\<lparr>rg_stopped := True\<rparr>)
    | EvTick k \<Rightarrow> if k < length (rg_routines r) \<and> rt_running (rg_routines r ! k)
        then Some (on_routine k (rt_tick_update (\<lambda>_. True)) r) else None
    | EvReceive k \<Rightarrow> if k < length (rg_routines r) \<and> rt_alive (rg_routines r ! k) \<and> rt_tick (rg_routines r ! k)
        then Some ((on_routine k (rt_tick_update (\<lambda>_. False)) r)\<lparr>rg_fired := rg_fired r @ [Some (rt_id (rg_routines r ! k))]\<rparr>) else None
    | EvExit k \<Rightarrow> if k < length (rg_routines r) \<and> rt_alive (rg_routines r ! k) \<and> rg_stopped r
        then Some (on_routine k (\<lambda>t. t\<lparr>rt_running := False, rt_alive := False\<rparr>) r) else None
    | EvFires \<Rightarrow> if 0 < rg_waiting r then Some (r\<lparr>rg_waiting := rg_waiting r - 1, rg_fired := rg_fired r @ [None]\<rparr>) else None)"

fun timer_run :: "timer_event list \<Rightarrow> timer_registry \<Rightarrow> timer_registry option" where
  "timer_run [] r = Some r"
| "timer_run (ev # evs) r = (case timer_step ev r of None \<Rightarrow> None | Some r \<Rightarrow> timer_run evs r)"

lemma timer_run_append: "timer_run (xs @ ys) r = (case timer_run xs r of None \<Rightarrow> None | Some r \<Rightarrow> timer_run ys r)"
  by (induction xs arbitrary: r) (auto split: option.split)

section \<open>The invariant\<close>

text \<open>The numbers given are distinct and below the next, and a ticker that runs is registered.\<close>
definition timers_wf :: "timer_registry \<Rightarrow> bool" where
  "timers_wf r \<longleftrightarrow> distinct (map rt_id (rg_routines r)) \<and> (\<forall>k < length (rg_routines r). rt_id (rg_routines r ! k) < rg_next r)
     \<and> (\<forall>i k. rg_timers r i = Some k \<longrightarrow> k < length (rg_routines r) \<and> rt_id (rg_routines r ! k) = i)
     \<and> (\<forall>k < length (rg_routines r). rt_running (rg_routines r ! k) \<longrightarrow> rg_timers r (rt_id (rg_routines r ! k)) = Some k)"

lemma on_routine_simps [simp]:
  "rg_next (on_routine k g r) = rg_next r" "rg_timers (on_routine k g r) = rg_timers r" "rg_fired (on_routine k g r) = rg_fired r"
  "rg_routines (on_routine k g r) = (rg_routines r)[k := g (rg_routines r ! k)]" "rg_stopped (on_routine k g r) = rg_stopped r"
  by (simp_all add: on_routine_def)

lemma updated_at: "j < length xs \<Longrightarrow> xs[k := g (xs ! k)] ! j = (if j = k then g (xs ! j) else xs ! j)"
  by (cases "k = j") simp_all

lemma ids_updated:
  assumes "\<And>t. rt_id (g t) = rt_id t"
  shows "map rt_id (xs[k := g (xs ! k)]) = map rt_id xs"
  using assms by (intro nth_equalityI) (simp_all add: updated_at)

lemma wf_on_routine:
  assumes "timers_wf r" "\<And>t. rt_id (g t) = rt_id t" "\<And>t. rt_running (g t) \<Longrightarrow> rt_running t"
  shows "timers_wf (on_routine k g r)"
proof -
  let ?xs = "(rg_routines r)[k := g (rg_routines r ! k)]"
  have n: "rt_id (?xs ! j) = rt_id (rg_routines r ! j)" if "j < length (rg_routines r)" for j
    using that assms(2) by (simp add: updated_at)
  have m: "rt_running (?xs ! j) \<Longrightarrow> rt_running (rg_routines r ! j)" if "j < length (rg_routines r)" for j
    using that assms(3) by (simp add: updated_at split: if_splits)
  show ?thesis using assms(1) n m ids_updated[of g "rg_routines r" k, OF assms(2)] by (auto simp: timers_wf_def)
qed

lemma timers_distinct:
  assumes "timers_wf r" "j < length (rg_routines r)" "k < length (rg_routines r)" "rt_id (rg_routines r ! j) = rt_id (rg_routines r ! k)"
  shows "j = k"
  using nth_eq_iff_index_eq[of "map rt_id (rg_routines r)" j k] assms by (simp add: timers_wf_def)

text \<open>After a cancellation no ticker of the number runs.\<close>
definition silenced :: "int \<Rightarrow> timer_registry \<Rightarrow> bool" where
  "silenced i r \<longleftrightarrow> timers_wf r \<and> i < rg_next r
     \<and> (\<forall>k < length (rg_routines r). rt_id (rg_routines r ! k) = i \<longrightarrow> \<not> rt_running (rg_routines r ! k))"

lemma wf_cancel:
  assumes "timers_wf r"
  shows "timers_wf (timer_cancel i r)" "i < rg_next r \<Longrightarrow> silenced i (timer_cancel i r)"
proof -
  let ?c = "timer_cancel i r"
  obtain k where c: "?c = r\<lparr>rg_timers := (rg_timers r)(i := None)\<rparr> \<and> rg_timers r i = None
    \<or> ?c = (on_routine k (rt_running_update (\<lambda>_. False)) r)\<lparr>rg_timers := (rg_timers r)(i := None)\<rparr> \<and> rg_timers r i = Some k"
    by (cases "rg_timers r i") (auto simp: timer_cancel_def)
  let ?r = "on_routine k (rt_running_update (\<lambda>_. False)) r"
  have r: "timers_wf ?r" by (rule wf_on_routine[OF assms]) simp_all
  have e: "rt_id (rg_routines ?c ! j) \<noteq> i" if "j < length (rg_routines ?c)" "rt_running (rg_routines ?c ! j)" for j
  proof
    assume a: "rt_id (rg_routines ?c ! j) = i"
    from c show False
    proof (elim disjE conjE)
      assume n: "?c = r\<lparr>rg_timers := (rg_timers r)(i := None)\<rparr>" "rg_timers r i = None"
      with that a assms show False by (auto simp: timers_wf_def)
    next
      assume n: "?c = ?r\<lparr>rg_timers := (rg_timers r)(i := None)\<rparr>" "rg_timers r i = Some k"
      with that a have j: "j < length (rg_routines r)" "rt_running (rg_routines ?r ! j)" "rt_id (rg_routines ?r ! j) = i" by simp_all
      with r n(2) have "j = k" by (auto simp: timers_wf_def)
      with j show False by simp
    qed
  qed
  from c show w: "timers_wf ?c"
  proof (elim disjE conjE)
    assume n: "?c = r\<lparr>rg_timers := (rg_timers r)(i := None)\<rparr>"
    with assms e show ?thesis by (auto simp: timers_wf_def)
  next
    assume n: "?c = ?r\<lparr>rg_timers := (rg_timers r)(i := None)\<rparr>"
    with r e show ?thesis by (auto simp: timers_wf_def)
  qed
  assume "i < rg_next r"
  moreover have "rg_next ?c = rg_next r" using c by auto
  ultimately show "silenced i ?c" using w e by (auto simp: silenced_def)
qed

lemma wf_every:
  assumes "timers_wf r" "timer_every d r = Inr (i, r')"
  shows "timers_wf r'"
proof -
  let ?n = "length (rg_routines r)"
  from assms(2) have r': "rg_routines r' = rg_routines r @ [\<lparr>rt_id = rg_next r, rt_running = True, rt_tick = False, rt_alive = True\<rparr>]"
    "rg_next r' = rg_next r + 1" "rg_timers r' = (rg_timers r)(rg_next r \<mapsto> ?n)"
    by (auto simp: timer_every_def split: if_splits)
  have less: "rt_id (rg_routines r ! k) < rg_next r" if "k < ?n" for k using assms(1) that by (simp add: timers_wf_def)
  have "rg_next r \<notin> set (map rt_id (rg_routines r))" using less by (fastforce simp: in_set_conv_nth)
  moreover have "rt_id (rg_routines r' ! k) < rg_next r'" if "k < Suc ?n" for k
    using less[of k] that by (cases "k = ?n") (simp_all add: r' nth_append)
  moreover have "k < Suc ?n \<and> rt_id (rg_routines r' ! k) = i" if "rg_timers r' i = Some k" for i k
  proof (cases "i = rg_next r")
    case False
    with that assms(1) have "k < ?n" "rt_id (rg_routines r ! k) = i" by (simp_all add: r' timers_wf_def)
    then show ?thesis by (simp add: r' nth_append)
  qed (use that in \<open>simp add: r' nth_append\<close>)
  moreover have "rg_timers r' (rt_id (rg_routines r' ! k)) = Some k" if "k < Suc ?n" "rt_running (rg_routines r' ! k)" for k
  proof (cases "k = ?n")
    case False
    with that less[of k] have "k < ?n" "rt_id (rg_routines r ! k) \<noteq> rg_next r" by simp_all
    with that assms(1) show ?thesis by (simp add: r' nth_append timers_wf_def)
  qed (simp add: r' nth_append)
  ultimately show ?thesis using assms(1) by (simp add: timers_wf_def r'(1))
qed

lemma wf_step:
  assumes "timers_wf r" "timer_step ev r = Some r'"
  shows "timers_wf r'"
proof (cases ev)
  case (EvEvery d)
  with assms wf_every[OF assms(1), of d] show ?thesis by (auto simp: timer_step_def split: sum.splits)
next
  case (EvCancel i)
  with assms wf_cancel(1) show ?thesis by (auto simp: timer_step_def)
next
  case (EvTick k)
  have "timers_wf (on_routine k (rt_tick_update (\<lambda>_. True)) r)" by (rule wf_on_routine[OF assms(1)]) simp_all
  with EvTick assms(2) show ?thesis by (auto simp: timer_step_def split: if_splits)
next
  case (EvReceive k)
  have "timers_wf (on_routine k (rt_tick_update (\<lambda>_. False)) r)" by (rule wf_on_routine[OF assms(1)]) simp_all
  with EvReceive assms(2) show ?thesis by (auto simp: timer_step_def timers_wf_def split: if_splits)
next
  case (EvExit k)
  have "timers_wf (on_routine k (\<lambda>t. t\<lparr>rt_running := False, rt_alive := False\<rparr>) r)" by (rule wf_on_routine[OF assms(1)]) simp_all
  with EvExit assms(2) show ?thesis by (auto simp: timer_step_def split: if_splits)
qed (use assms in \<open>auto simp: timer_step_def timer_after_def timers_wf_def split: if_splits\<close>)

lemma wf_run: "timers_wf r \<Longrightarrow> timer_run evs r = Some r' \<Longrightarrow> timers_wf r'"
  by (induction evs arbitrary: r) (auto split: option.splits intro: wf_step)

lemma wf_new: "timers_wf new_timer_registry"
  by (simp add: timers_wf_def new_timer_registry_def)

section \<open>A cancelled timer fires at most once more\<close>

definition due :: "int \<Rightarrow> routine \<Rightarrow> int" where
  "due i t = (if rt_id t = i \<and> rt_tick t then 1 else 0)"

text \<open>How often a number has fired or has a tick waiting.\<close>
definition fired_or_due :: "int \<Rightarrow> timer_registry \<Rightarrow> int" where
  "fired_or_due i r = int (count_list (rg_fired r) (Some i)) + sum_list (map (due i) (rg_routines r))"

lemma due_at_most_one: "distinct (map rt_id xs) \<Longrightarrow> sum_list (map (due i) xs) \<le> 1"
proof (induction xs)
  case (Cons t xs)
  show ?case
  proof (cases "rt_id t = i")
    case True
    with Cons.prems have "\<forall>u \<in> set xs. due i u = 0" by (simp add: due_def) (metis imageI)
    then have "sum_list (map (due i) xs) = 0" by (induction xs) simp_all
    then show ?thesis by (simp add: due_def[of i t])
  qed (use Cons in \<open>simp add: due_def\<close>)
qed simp

lemma due_nonneg: "0 \<le> sum_list (map (due i) xs)"
  by (induction xs) (simp_all add: due_def)

lemma due_updated:
  assumes "k < length xs"
  shows "sum_list (map (due i) (xs[k := t])) = sum_list (map (due i) xs) - due i (xs ! k) + due i t"
  using sum_list_update_int[of k "map (due i) xs" "due i t"] assms by (simp add: map_update)

lemma silenced_on_routine:
  assumes "silenced i r" "\<And>t. rt_id (g t) = rt_id t" "\<And>t. rt_running (g t) \<Longrightarrow> rt_running t"
  shows "silenced i (on_routine k g r)"
proof -
  have "\<not> rt_running ((rg_routines r)[k := g (rg_routines r ! k)] ! j)"
    if "j < length (rg_routines r)" "rt_id ((rg_routines r)[k := g (rg_routines r ! k)] ! j) = i" for j
    using assms that by (auto simp: updated_at silenced_def split: if_splits)
  with wf_on_routine[of r g k, OF _ assms(2,3)] assms(1) show ?thesis by (simp add: silenced_def)
qed

lemma silenced_step:
  assumes "silenced i r" "timer_step ev r = Some r'"
  shows "silenced i r' \<and> fired_or_due i r' \<le> fired_or_due i r"
proof (cases ev)
  case (EvEvery d)
  with assms(2) obtain n where "timer_every d r = Inr (n, r')" by (auto simp: timer_step_def split: sum.splits)
  with wf_every[of r d n r'] assms(1) show ?thesis
    by (auto simp: timer_every_def silenced_def fired_or_due_def due_def nth_append split: if_splits)
next
  case (EvCancel n)
  have c: "silenced i (timer_cancel n r) \<and> fired_or_due i (timer_cancel n r) = fired_or_due i r"
  proof (cases "rg_timers r n")
    case None
    then have "timer_cancel n r = r" by (simp add: timer_cancel_def fun_upd_idem)
    with assms(1) show ?thesis by simp
  next
    case (Some k)
    let ?g = "rt_running_update (\<lambda>_. False)"
    have "silenced i (on_routine k ?g r)" by (rule silenced_on_routine[OF assms(1)]) simp_all
    moreover have "k < length (rg_routines r)" using Some assms(1) by (simp add: silenced_def timers_wf_def)
    ultimately show ?thesis using Some wf_cancel(1)[of r n] assms(1)
      by (simp add: timer_cancel_def silenced_def fired_or_due_def due_updated) (simp add: due_def)
  qed
  with EvCancel assms(2) show ?thesis by (simp add: timer_step_def)
next
  case (EvTick k)
  with assms(2) have k: "k < length (rg_routines r)" "rt_running (rg_routines r ! k)" and r': "r' = on_routine k (rt_tick_update (\<lambda>_. True)) r"
    by (auto simp: timer_step_def split: if_splits)
  with assms(1) have "rt_id (rg_routines r ! k) \<noteq> i" by (auto simp: silenced_def)
  with k have "fired_or_due i r' = fired_or_due i r" by (simp add: r' fired_or_due_def due_updated) (simp add: due_def)
  moreover have "silenced i r'" unfolding r' by (rule silenced_on_routine[OF assms(1)]) simp_all
  ultimately show ?thesis by simp
next
  case (EvReceive k)
  let ?o = "on_routine k (rt_tick_update (\<lambda>_. False)) r"
  from EvReceive assms(2) have k: "k < length (rg_routines r)" "rt_tick (rg_routines r ! k)"
    and r': "r' = ?o\<lparr>rg_fired := rg_fired r @ [Some (rt_id (rg_routines r ! k))]\<rparr>"
    by (auto simp: timer_step_def split: if_splits)
  have "silenced i ?o" by (rule silenced_on_routine[OF assms(1)]) simp_all
  then have "silenced i r'" by (simp add: r' silenced_def timers_wf_def)
  moreover have "fired_or_due i r' = fired_or_due i r"
    using k by (simp add: r' fired_or_due_def due_updated count_list_append) (simp add: due_def)
  ultimately show ?thesis by simp
next
  case (EvExit k)
  let ?g = "\<lambda>t :: routine. t\<lparr>rt_running := False, rt_alive := False\<rparr>"
  from EvExit assms(2) have k: "k < length (rg_routines r)" and r': "r' = on_routine k ?g r"
    by (auto simp: timer_step_def split: if_splits)
  have "silenced i r'" unfolding r' by (rule silenced_on_routine[OF assms(1)]) simp_all
  with k show ?thesis by (simp add: r' fired_or_due_def due_updated) (simp add: due_def)
qed (use assms in \<open>auto simp: timer_step_def timer_after_def silenced_def timers_wf_def fired_or_due_def count_list_append split: if_splits\<close>)

lemma silenced_run: "silenced i r \<Longrightarrow> timer_run evs r = Some r' \<Longrightarrow> fired_or_due i r' \<le> fired_or_due i r"
proof (induction evs arbitrary: r)
  case (Cons ev evs)
  then obtain t where "timer_step ev r = Some t" "timer_run evs t = Some r'" by (auto split: option.splits)
  with Cons silenced_step[of i r ev t] show ?case by force
qed simp

text \<open>Whatever happens before and after, in any order of the goroutines, a repeating timer fires at most once more after it is
  cancelled.\<close>
theorem cancelled_timer_ends:
  assumes "timer_run evs new_timer_registry = Some r" "i < rg_next r" "timer_run evs' (timer_cancel i r) = Some r'"
  shows "count_list (rg_fired r') (Some i) \<le> count_list (rg_fired r) (Some i) + 1"
proof -
  have w: "timers_wf r" by (rule wf_run[OF wf_new assms(1)])
  from silenced_run[OF wf_cancel(2)[OF w assms(2)] assms(3)]
  have "int (count_list (rg_fired r') (Some i)) \<le> fired_or_due i (timer_cancel i r)"
    using due_nonneg[of i "rg_routines r'"] by (simp add: fired_or_due_def)
  moreover have "rg_fired (timer_cancel i r) = rg_fired r" by (simp add: timer_cancel_def split: option.split)
  moreover have "distinct (map rt_id (rg_routines (timer_cancel i r)))" using wf_cancel(1)[OF w] by (simp add: timers_wf_def)
  ultimately show ?thesis using due_at_most_one[of "rg_routines (timer_cancel i r)" i] by (simp add: fired_or_due_def)
qed

text \<open>The tick that waits when the timer is cancelled still fires.\<close>
theorem cancelled_timer_ends_witness:
  "\<exists>r r'. timer_run [EvEvery 5, EvTick 0] new_timer_registry = Some r \<and> timer_run [EvReceive 0] (timer_cancel 0 r) = Some r'
    \<and> count_list (rg_fired r') (Some 0) \<le> 1 \<and> count_list (rg_fired r') (Some 0) = 1"
proof -
  let ?r = "\<lparr>rg_next = 1, rg_timers = [0 \<mapsto> 0], rg_routines = [\<lparr>rt_id = 0, rt_running = True, rt_tick = True, rt_alive = True\<rparr>],
    rg_stopped = False, rg_waiting = 0, rg_fired = []\<rparr>"
  let ?r' = "\<lparr>rg_next = 1, rg_timers = Map.empty, rg_routines = [\<lparr>rt_id = 0, rt_running = False, rt_tick = False, rt_alive = True\<rparr>],
    rg_stopped = False, rg_waiting = 0, rg_fired = [Some 0]\<rparr>"
  have a: "timer_run [EvEvery 5, EvTick 0] new_timer_registry = Some ?r"
    by (simp add: timer_step_def timer_every_def new_timer_registry_def on_routine_def)
  have b: "timer_run [EvReceive 0] (timer_cancel 0 ?r) = Some ?r'"
    by (simp add: timer_step_def timer_cancel_def on_routine_def)
  from cancelled_timer_ends[OF a _ b] a b show ?thesis by auto
qed

section \<open>What cancelling and stopping leave\<close>

text \<open>The goroutine of a timer that is cancelled waits until the registry is stopped.\<close>
lemma cancelled_routine_stays:
  assumes "k < length (rg_routines r)" "rt_alive (rg_routines r ! k)" "\<not> rg_stopped r" "ev \<noteq> EvStop" "timer_step ev r = Some r'"
  shows "k < length (rg_routines r') \<and> rt_alive (rg_routines r' ! k) \<and> \<not> rg_stopped r'"
  using assms
  by (cases ev) (auto simp: timer_step_def timer_every_def timer_after_def timer_cancel_def updated_at nth_append split: if_splits option.splits)

text \<open>A single timer fires after the registry was stopped.\<close>
lemma single_fires_after_stop:
  "\<exists>r'. timer_run [EvAfter, EvStop, EvFires] new_timer_registry = Some r' \<and> rg_fired r' = [None]"
  by (simp add: timer_step_def timer_after_def new_timer_registry_def)

end
