(* ===== verification/LuaApi.thy ===== *)
theory LuaApi
  imports SqlStore
begin

text \<open>
  What scripts can do to the program: \<^verbatim>\<open>src/player/lua/api_actions.go\<close>, and the tables that are passed to them
  (\<^verbatim>\<open>types.go\<close>, \<^verbatim>\<open>engine.go\<close>).  Players and the store come as values of any type; an assertion
  to an interface succeeds when the type has the methods with exactly the types that the interface names.
\<close>

section \<open>Values behind interfaces\<close>

text \<open>The store that is set, if any.\<close>
datatype any_store = NoStore | JsonStore admin | SqliteStore sqlite

text \<open>Messages are formats with their arguments; players are known by their names.\<close>
datatype lua_effect =
    LeMessage string string "string list"
  | LePopup string string
  | LeDisconnect string string

text \<open>The methods, with their types, that the player and the stores have of those that the interfaces name.\<close>
definition player_methods :: "string list" where
  "player_methods = [''Message(string, ...any)'', ''Popup(string, ...any)'', ''Disconnect(string)'']"

definition store_methods :: "any_store \<Rightarrow> string list" where
  "store_methods st = (case st of
      NoStore \<Rightarrow> []
    | JsonStore _ \<Rightarrow> [''IsOperator(string, string) bool'', ''IsBanned(string, string) (BanEntry, bool)'',
        ''Ban(string, string, string, string)'', ''Unban(string, string) bool'']
    | SqliteStore _ \<Rightarrow> [''IsOperator(string, string) bool'', ''IsBanned(string, string) (BanEntry, bool)'',
        ''Ban(string, string, string, string)'', ''BanTemp(string, string, string, string, time.Time)'', ''Unban(string, string) bool''])"

definition asserts :: "string list \<Rightarrow> string list \<Rightarrow> bool" where
  "asserts methods wanted = list_all (\<lambda>m. m \<in> set methods) wanted"

record lua_world =
  lw_getter :: "(string \<Rightarrow> string option) option"
  lw_xuid :: "string \<Rightarrow> string"
  lw_players :: "(string \<times> string) list option"
  lw_store :: any_store
  lw_out :: "lua_effect list"

definition lua_emit :: "lua_effect list \<Rightarrow> lua_world \<Rightarrow> lua_world" where
  "lua_emit es w = w\<lparr>lw_out := lw_out w @ es\<rparr>"

definition lua_player :: "string \<Rightarrow> lua_world \<Rightarrow> string option" where
  "lua_player name w = (case lw_getter w of None \<Rightarrow> None | Some g \<Rightarrow> g name)"

text \<open>The XUID of a player who is found, if players have the method for it.\<close>
definition asserted_xuid :: "string \<Rightarrow> lua_world \<Rightarrow> string" where
  "asserted_xuid name w = (case lua_player name w of
      None \<Rightarrow> []
    | Some p \<Rightarrow> if asserts player_methods [''XUID() string''] then lw_xuid w p else [])"

definition can_kick :: bool where
  "can_kick = asserts player_methods [''Message(string, ...any)'', ''Disconnect(string)'']"

section \<open>Actions on players\<close>

definition lua_kick_player :: "string \<Rightarrow> string option \<Rightarrow> lua_world \<Rightarrow> lua_world" where
  "lua_kick_player name reason w = (case lua_player name w of
      None \<Rightarrow> w
    | Some p \<Rightarrow> let reason = (case reason of None \<Rightarrow> ''kicked by admin'' | Some r \<Rightarrow> r)
               in if can_kick then lua_emit [LeMessage p ''<red>You were kicked: <yellow>%s</yellow></red>'' [reason], LeDisconnect p reason] w
                  else w)"

text \<open>The ban of the store; \<^verbatim>\<open>writable\<close> is whether the file of the store can be written.\<close>
definition store_ban :: "bool \<Rightarrow> int \<Rightarrow> string \<Rightarrow> string \<Rightarrow> string \<Rightarrow> any_store \<Rightarrow> any_store" where
  "store_ban writable now name xuid reason st =
    (if \<not> asserts (store_methods st) [''Ban(string, string, string, string)''] then st else case st of
      NoStore \<Rightarrow> NoStore
    | JsonStore a \<Rightarrow> JsonStore (ban writable now name xuid reason ''lua'' a)
    | SqliteStore s \<Rightarrow> SqliteStore (sq_ban name xuid reason ''lua'' now s))"

definition lua_ban_player :: "bool \<Rightarrow> int \<Rightarrow> string \<Rightarrow> string option \<Rightarrow> lua_world \<Rightarrow> lua_world" where
  "lua_ban_player writable now name reason w =
    (let reason = (case reason of None \<Rightarrow> ''banned by admin'' | Some r \<Rightarrow> r);
         w = w\<lparr>lw_store := store_ban writable now name (asserted_xuid name w) reason (lw_store w)\<rparr>
     in case lua_player name w of
          None \<Rightarrow> w
        | Some p \<Rightarrow> if can_kick then lua_emit [LeMessage p ''<red>You were banned: <yellow>%s</yellow></red>'' [reason], LeDisconnect p reason] w
                    else w)"

text \<open>Times are in seconds.\<close>
definition lua_tempban_player :: "int \<Rightarrow> string \<Rightarrow> int \<Rightarrow> string option \<Rightarrow> lua_world \<Rightarrow> lua_world" where
  "lua_tempban_player now name secs reason w =
    (let reason = (case reason of None \<Rightarrow> ''temp banned by admin'' | Some r \<Rightarrow> r)
     in if \<not> asserts (store_methods (lw_store w)) [''BanTemp(string, string, string, string, time.Time)''] then w else case lw_store w of
          SqliteStore s \<Rightarrow> w\<lparr>lw_store := SqliteStore
            (sq_ban_temp name (asserted_xuid name w) reason ''lua'' (Some (now + secs)) now s)\<rparr>
        | _ \<Rightarrow> w)"

definition lua_unban_player :: "bool \<Rightarrow> string \<Rightarrow> lua_world \<Rightarrow> lua_world result" where
  "lua_unban_player writable name w =
    (let xuid = asserted_xuid name w
     in if \<not> asserts (store_methods (lw_store w)) [''Unban(string, string) bool''] then Inr w else case lw_store w of
       NoStore \<Rightarrow> Inr w
     | JsonStore a \<Rightarrow> Inr (w\<lparr>lw_store := JsonStore (snd (unban writable name xuid a))\<rparr>)
     | SqliteStore s \<Rightarrow> bind_result (sq_unban name xuid s) (\<lambda>(_, s). Inr (w\<lparr>lw_store := SqliteStore s\<rparr>)))"

section \<open>Messages and questions\<close>

definition lua_send_message :: "string \<Rightarrow> string \<Rightarrow> lua_world \<Rightarrow> lua_world" where
  "lua_send_message name msg w = (case lua_player name w of None \<Rightarrow> w
     | Some p \<Rightarrow> if asserts player_methods [''Message(string, ...any)''] then lua_emit [LeMessage p msg []] w else w)"

definition lua_send_popup :: "string \<Rightarrow> string \<Rightarrow> lua_world \<Rightarrow> lua_world" where
  "lua_send_popup name msg w = (case lua_player name w of None \<Rightarrow> w
     | Some p \<Rightarrow> if asserts player_methods [''Popup(string, ...any)''] then lua_emit [LePopup p msg] w else w)"

text \<open>The players by name in the order in which the map is iterated.\<close>
definition lua_broadcast :: "string \<Rightarrow> lua_world \<Rightarrow> lua_world" where
  "lua_broadcast msg w = (case lw_players w of None \<Rightarrow> w
     | Some ps \<Rightarrow> if asserts player_methods [''Message(string, ...any)''] then lua_emit (map (\<lambda>(_, p). LeMessage p msg []) ps) w else w)"

definition lua_get_online_players :: "lua_world \<Rightarrow> (int \<times> string) list" where
  "lua_get_online_players w = (case lw_players w of None \<Rightarrow> []
     | Some ps \<Rightarrow> map (\<lambda>(i, (name, _)). (int i, name)) (enumerate 1 ps))"

text \<open>The interface asks for a result of any type; \<^verbatim>\<open>now\<close> is the time.\<close>
definition lua_is_banned :: "int \<Rightarrow> string \<Rightarrow> lua_world \<Rightarrow> bool \<times> lua_world" where
  "lua_is_banned now name w =
    (if \<not> asserts (store_methods (lw_store w)) [''IsBanned(string, string) (any, bool)''] then (False, w) else case lw_store w of
      NoStore \<Rightarrow> (False, w)
    | JsonStore a \<Rightarrow> (is_banned a name [] \<noteq> None, w)
    | SqliteStore s \<Rightarrow> (case sq_is_banned name [] now now s of (b, s) \<Rightarrow> (b \<noteq> None, w\<lparr>lw_store := SqliteStore s\<rparr>)))"

definition lua_is_op :: "string \<Rightarrow> lua_world \<Rightarrow> bool" where
  "lua_is_op name w = 
    (if \<not> asserts (store_methods (lw_store w)) [''IsOperator(string, string) bool''] then False else case lw_store w of
      NoStore \<Rightarrow> False
    | JsonStore a \<Rightarrow> is_operator a name []
    | SqliteStore s \<Rightarrow> sq_is_operator name [] s)"

section \<open>Commands of scripts\<close>

text \<open>What running a command queues: a call of the global function of that name with the sender and the arguments.\<close>
record lua_command_call =
  lc_function :: string
  lc_sender :: string
  lc_perms :: "64 word"
  lc_args :: "string list"

definition lua_register_command ::
  "string \<Rightarrow> string option \<Rightarrow> 64 word option \<Rightarrow> (string \<times> 64 word)
   \<Rightarrow> lua_command_call registry \<Rightarrow> lua_command_call registry" where
  "lua_register_command name usage perm sender g =
    register_command \<lparr>cd_name = name, cd_aliases = [], cd_permission = (case perm of None \<Rightarrow> 0 | Some p \<Rightarrow> p),
      cd_usage = (case usage of None \<Rightarrow> [] | Some u \<Rightarrow> u), cd_min_args = 0,
      cd_run = \<lambda>args. \<lparr>lc_function = name, lc_sender = fst sender, lc_perms = snd sender, lc_args = args\<rparr>\<rparr> g"

datatype lua_called = NotLoaded | Called string "string \<times> bool" "(int \<times> string) list"

text \<open>The queued call: the global may be missing by then; arguments are numbered from one.\<close>
definition lua_run_command :: "(string \<Rightarrow> bool) \<Rightarrow> lua_command_call \<Rightarrow> lua_called" where
  "lua_run_command defined c = (if \<not> defined (lc_function c) then NotLoaded
     else Called (lc_function c) (lc_sender c, has_perm permission_admin (lc_perms c))
       (map (\<lambda>(i, a). (int i + 1, a)) (enumerate 0 (lc_args c))))"

section \<open>Events as tables\<close>

record 'f detection_state =
  ds_position :: "'f \<times> 'f \<times> 'f"
  ds_last_pos :: "'f \<times> 'f \<times> 'f"
  ds_vel :: "'f \<times> 'f \<times> 'f"
  ds_yaw :: 'f
  ds_pitch :: 'f
  ds_head_yaw :: 'f
  ds_on_ground :: bool
  ds_air_ticks :: int
  ds_fly_ticks :: int
  ds_sprint_ticks :: int
  ds_swim_ticks :: int
  ds_climb_ticks :: int
  ds_action :: int
  ds_hyper_speed :: 'f
  ds_hover_time :: int
  ds_step_height :: 'f
  ds_allow_flying :: bool
  ds_collision :: bool
  ds_fall_distance :: 'f
  ds_speed :: 'f
  ds_vspeed :: 'f
  ds_yaw_diff :: 'f
  ds_pitch_diff :: 'f
  ds_head_rot_diff :: 'f
  ds_ticks :: int

record 'f player_event =
  pv_name :: string
  pv_xuid :: string
  pv_display_name :: string
  pv_version :: int
  pv_game_mode :: int
  pv_input_mode :: int
  pv_ticks_alive :: int
  pv_is_op :: bool
  pv_perms :: "64 word"
  pv_detection :: "'f detection_state option"

datatype 'f lua_field = LfString string | LfNumber 'f | LfBool bool | LfTable "(string \<times> 'f lua_field) list"

text \<open>\<^verbatim>\<open>num\<close> converts an integer to the numbers of scripts.\<close>
definition detection_table :: "(int \<Rightarrow> 'f) \<Rightarrow> 'f detection_state \<Rightarrow> (string \<times> 'f lua_field) list" where
  "detection_table num d =
    (case ds_position d of (x, y, z) \<Rightarrow> case ds_last_pos d of (lx, ly, lz) \<Rightarrow> case ds_vel d of (vx, vy, vz) \<Rightarrow>
      let n = (\<lambda>i. LfNumber (num i)) in
      [(''x'', LfNumber x), (''y'', LfNumber y), (''z'', LfNumber z),
       (''last_x'', LfNumber lx), (''last_y'', LfNumber ly), (''last_z'', LfNumber lz),
       (''vel_x'', LfNumber vx), (''vel_y'', LfNumber vy), (''vel_z'', LfNumber vz),
       (''yaw'', LfNumber (ds_yaw d)), (''pitch'', LfNumber (ds_pitch d)), (''head_yaw'', LfNumber (ds_head_yaw d)),
       (''on_ground'', LfBool (ds_on_ground d)), (''air_ticks'', n (ds_air_ticks d)), (''fly_ticks'', n (ds_fly_ticks d)),
       (''sprint_ticks'', n (ds_sprint_ticks d)), (''swim_ticks'', n (ds_swim_ticks d)), (''climb_ticks'', n (ds_climb_ticks d)),
       (''action'', n (ds_action d)), (''hyper_speed'', LfNumber (ds_hyper_speed d)), (''hover_time'', n (ds_hover_time d)),
       (''step_height'', LfNumber (ds_step_height d)), (''allow_flying'', LfBool (ds_allow_flying d)),
       (''collision'', LfBool (ds_collision d)), (''fall_distance'', LfNumber (ds_fall_distance d)),
       (''speed'', LfNumber (ds_speed d)), (''vspeed'', LfNumber (ds_vspeed d)), (''yaw_diff'', LfNumber (ds_yaw_diff d)),
       (''pitch_diff'', LfNumber (ds_pitch_diff d)), (''head_rot_diff'', LfNumber (ds_head_rot_diff d)),
       (''ticks'', n (ds_ticks d))])"

definition event_to_table :: "(int \<Rightarrow> 'f) \<Rightarrow> 'f player_event \<Rightarrow> (string \<times> 'f lua_field) list" where
  "event_to_table num ev =
    [(''name'', LfString (pv_name ev)), (''xuid'', LfString (pv_xuid ev)), (''display_name'', LfString (pv_display_name ev)),
     (''version'', LfNumber (num (pv_version ev))), (''gamemode'', LfNumber (num (pv_game_mode ev))),
     (''input_mode'', LfNumber (num (pv_input_mode ev))), (''ticks_alive'', LfNumber (num (pv_ticks_alive ev))),
     (''is_op'', LfBool (pv_is_op ev)), (''perms'', LfNumber (num (uint (pv_perms ev))))]
    @ (case pv_detection ev of None \<Rightarrow> [] | Some d \<Rightarrow> [(''detection'', LfTable (detection_table num d))])"

text \<open>No field is written over by another.\<close>
lemma event_fields_distinct:
  "distinct (map fst (event_to_table num ev))" "distinct (map fst (detection_table num d))"
  by (simp_all add: event_to_table_def detection_table_def Let_def split: option.split prod.split)

section \<open>The libraries of a state\<close>

text \<open>The globals of a fresh state over those of the interpreter's libraries: names that are cleared, then the modules and
  functions of the program.\<close>
datatype lua_global = GModule "string list" | GFunction | GLibrary

definition cleared_globals :: "string list" where
  "cleared_globals = [''os'', ''io'', ''debug'', ''loadfile'', ''dofile'', ''module'', ''package'', ''require'',
     ''collectgarbage'', ''newproxy'']"

definition safe_libs :: "(string \<times> lua_global) list" where
  "safe_libs =
    [(''string'', GModule [''byte'', ''char'', ''find'', ''format'', ''gsub'', ''len'', ''lower'', ''upper'', ''trim'', ''match'', ''rep'', ''sub'']),
     (''math'', GModule [''abs'', ''ceil'', ''floor'', ''max'', ''min'', ''sqrt'', ''random'']),
     (''table'', GModule [''insert'', ''remove'', ''sort'', ''concat'', ''keys'']),
     (''print'', GFunction)]"

definition builtin_globals :: "(string \<times> lua_global) list" where
  "builtin_globals = [(''type'', GFunction), (''tostring'', GFunction), (''tonumber'', GFunction), (''error'', GFunction),
     (''timer'', GModule [''after'', ''every'', ''cancel'']), (''log'', GModule [''info'', ''warn'', ''error'', ''debug''])]"

definition open_safe_libs :: "(string \<Rightarrow> lua_global option) \<Rightarrow> string \<Rightarrow> lua_global option" where
  "open_safe_libs libs = fold (\<lambda>(n, g) m. m(n \<mapsto> g)) safe_libs (fold (\<lambda>n m. m(n := None)) cleared_globals libs)"

definition register_builtins :: "(string \<Rightarrow> lua_global option) \<Rightarrow> string \<Rightarrow> lua_global option" where
  "register_builtins = fold (\<lambda>(n, g) m. m(n \<mapsto> g)) builtin_globals"

lemma clearing: "fold (\<lambda>n m. m(n := None)) ns m n = (if n \<in> set ns then None else m n)"
  by (induction ns arbitrary: m) auto

lemma setting: "n \<notin> fst ` set gs \<Longrightarrow> fold (\<lambda>(n, g) m. m(n \<mapsto> g)) gs m n = m n"
  by (induction gs arbitrary: m) auto

text \<open>Whatever the interpreter's libraries bring, a state has no access to files, processes or other modules by the names that
  are cleared.\<close>
lemma state_is_closed:
  assumes "n \<in> set cleared_globals"
  shows "register_builtins (open_safe_libs libs) n = None"
proof -
  have "list_all (\<lambda>n. n \<notin> fst ` set safe_libs \<and> n \<notin> fst ` set builtin_globals) cleared_globals" by code_simp
  with assms show ?thesis by (simp add: register_builtins_def open_safe_libs_def setting clearing list_all_iff)
qed

text \<open>What is not cleared is still there: code can be compiled from strings.\<close>
lemma loadstring_stays: "register_builtins (open_safe_libs libs) ''loadstring'' = libs ''loadstring''"
proof -
  have "''loadstring'' \<notin> fst ` set safe_libs" "''loadstring'' \<notin> fst ` set builtin_globals" "''loadstring'' \<notin> set cleared_globals"
    by code_simp+
  then show ?thesis by (simp add: register_builtins_def open_safe_libs_def setting clearing)
qed

section \<open>Bans by scripts\<close>

text \<open>Which assertions succeed: the player has no method for its XUID, only the SQLite store bans for a time, and both return a ban
  where the interface for asking says any type.\<close>
lemma assertions:
  "can_kick" "\<not> asserts player_methods [''XUID() string'']"
  "asserts player_methods [''Message(string, ...any)'']" "asserts player_methods [''Popup(string, ...any)'']"
  "asserts (store_methods (JsonStore a)) [''Ban(string, string, string, string)'']"
  "asserts (store_methods (SqliteStore s)) [''Ban(string, string, string, string)'']"
  "\<not> asserts (store_methods (JsonStore a)) [''BanTemp(string, string, string, string, time.Time)'']"
  "\<not> asserts (store_methods st) [''IsBanned(string, string) (any, bool)'']"
  by (simp_all add: can_kick_def asserts_def player_methods_def store_methods_def split: any_store.split)

lemma no_xuid: "asserted_xuid name w = []"
  by (simp add: asserted_xuid_def assertions split: option.split)

lemma banned_by_name:
  assumes "trim_space n \<noteq> []" "equal_fold (trim_space n) (trim_space m)"
  shows "is_banned (ban writable now n [] reason who a) m x \<noteq> None"
proof -
  have "identity_matches (identity_of n []) m x" using assms by (simp add: identity_matches_def identity_of_def)
  then show ?thesis
    by (auto simp: is_banned_def ban_def admin_save_def find_None_iff)
qed

text \<open>With the store in a file, a player whom a script bans is thrown out when online, and whoever comes with the name cannot
  join.\<close>
theorem script_ban_keeps_out:
  assumes "lw_store w = JsonStore a" "trim_space n \<noteq> []" "equal_fold (trim_space n) (trim_space (on_name p))"
  shows "\<exists>a'. lw_store (lua_ban_player writable now n reason w) = JsonStore a'
    \<and> (\<exists>why. handle_join writable' p (s\<lparr>sv_admin := a'\<rparr>) = (Some why, s\<lparr>sv_admin := a'\<rparr>))
    \<and> (\<forall>q. lua_player n w = Some q \<longrightarrow> (\<exists>why. LeDisconnect q why \<in> set (lw_out (lua_ban_player writable now n reason w))))"
proof -
  let ?r = "case reason of None \<Rightarrow> ''banned by admin'' | Some r \<Rightarrow> r" and ?w = "lua_ban_player writable now n reason w"
  let ?a = "ban writable now n [] ?r ''lua'' a"
  have "lua_player n (w\<lparr>lw_store := st\<rparr>) = lua_player n w" for st by (simp add: lua_player_def)
  then have w: "lw_store ?w = JsonStore ?a"
    "\<forall>q. lua_player n w = Some q \<longrightarrow> LeDisconnect q ?r \<in> set (lw_out ?w)"
    using assms(1) by (auto simp: lua_ban_player_def store_ban_def assertions no_xuid lua_emit_def Let_def split: option.split)
  from banned_by_name[OF assms(2,3)] obtain b where "is_banned ?a (on_name p) (on_xuid p) = Some b" by blast
  then have "\<exists>why. handle_join writable' p (s\<lparr>sv_admin := ?a\<rparr>) = (Some why, s\<lparr>sv_admin := ?a\<rparr>)" by (simp add: handle_join_def)
  with w show ?thesis by blast
qed

text \<open>With the SQLite store every ban of a script replaces the one before, and a player with an XUID is let in.\<close>
lemma script_bans_replace:
  assumes "lw_store w = SqliteStore s"
  shows "\<exists>s'. lw_store (lua_ban_player b now m r2 (lua_ban_player b now n r1 w)) = SqliteStore s'
    \<and> (sq_open s \<longrightarrow> filter (\<lambda>r. br_xuid r = []) (sq_bans s') = [last (sq_bans s')] \<and> br_name (last (sq_bans s')) = trim_space m)"
  using assms
  by (simp add: lua_ban_player_def lua_player_def lua_emit_def store_ban_def assertions no_xuid sq_ban_def sq_ban_temp_def
      insert_or_replace_def trim_space_def Let_def filter_empty_conv split: option.split)

lemma script_never_sees_ban: "\<not> fst (lua_is_banned now' n (lua_ban_player writable now n reason w))"
  by (simp add: lua_is_banned_def assertions)

text \<open>With the store in a file a temporary ban does nothing.\<close>
lemma tempban_does_nothing: "lw_store w = JsonStore a \<Longrightarrow> lua_tempban_player now n secs reason w = w"
  by (simp add: lua_tempban_player_def assertions)

text \<open>A script can take the place of a command of operators, for everyone.\<close>
lemma script_takes_command:
  "dispatch (lua_register_command n usage None sender g) perms n args
    = (True, Ran \<lparr>lc_function = n, lc_sender = fst sender, lc_perms = snd sender, lc_args = args\<rparr>)"
  by (simp add: dispatch_def by_name_def lua_register_command_def register_command_def Let_def)

theorem script_ban_keeps_out_witness:
  "\<exists>a' why. lw_store (lua_ban_player True 5 ''Steve'' None \<lparr>lw_getter = None, lw_xuid = \<lambda>_. [], lw_players = None,
       lw_store = JsonStore (new_admin_store ''a.json'' Missing), lw_out = []\<rparr>) = JsonStore a'
     \<and> fst (handle_join True \<lparr>on_name = ''steve'', on_xuid = ''7'', on_perms = 0, on_alerts = False, on_delay = 0, on_last_alert = 0,
         on_debug = new_debugger\<rparr> \<lparr>sv_admin = a', sv_online = [], sv_allowed = []\<rparr>) = Some why"
proof -
  let ?p = "\<lparr>on_name = ''steve'', on_xuid = ''7'', on_perms = 0, on_alerts = False, on_delay = 0, on_last_alert = 0, on_debug = new_debugger\<rparr>"
  let ?w = "\<lparr>lw_getter = None, lw_xuid = \<lambda>_. [], lw_players = None, lw_store = JsonStore (new_admin_store ''a.json'' Missing), lw_out = []\<rparr>"
  have "trim_space ''Steve'' \<noteq> []" "equal_fold (trim_space ''Steve'') (trim_space (on_name ?p))" by code_simp+
  from script_ban_keeps_out[of ?w "new_admin_store ''a.json'' Missing" "''Steve''" ?p True 5 None True
      "\<lparr>sv_admin = new_admin_store ''a.json'' Missing, sv_online = [], sv_allowed = []\<rparr>", OF _ this]
  obtain a' why where "lw_store (lua_ban_player True 5 ''Steve'' None ?w) = JsonStore a'"
    "handle_join True ?p \<lparr>sv_admin = a', sv_online = [], sv_allowed = []\<rparr> = (Some why, \<lparr>sv_admin = a', sv_online = [], sv_allowed = []\<rparr>)"
    by auto
  then show ?thesis by (metis fst_conv)
qed

end
