(* ===== verification/ExtraBlocks.thy ===== *)
theory ExtraBlocks
  imports Prelude
begin

unbundle bit_operations_syntax

text \<open>
  The blocks that the program registers besides those of the block library: \<^verbatim>\<open>src/world/block\<close>.  A block has a
  name with properties, and a hash of two words.
\<close>

section \<open>Blocks\<close>

text \<open>The blocks of the library that others are made of; wood and the types of blackstone by their numbers.\<close>
datatype inner = Planks nat | Stone | Blackstone nat | Gold | Iron | OtherInner nat

text \<open>One constructor per type, with its fields in their order; faces, directions and colours by their numbers.\<close>
datatype extra_block =
    BrainCoralFan nat
  | DeadBrainCoralFan nat
  | Button inner nat bool
  | Candle nat int bool
  | IronDoor nat bool bool bool
  | IronTrapdoor nat bool bool
  | PressurePlate int inner
  | Sapling nat nat
  | TripWire bool bool bool bool
  | TripWireHook bool bool nat

text \<open>What the library says: the kinds of wood, faces and directions in its order, names, and hashes.\<close>
record extra_lib =
  xl_woods :: "nat list"
  xl_sapling_woods :: "nat list"
  xl_faces :: "nat list"
  xl_directions :: "nat list"
  xl_colours :: "nat list"
  xl_wood_name :: "nat \<Rightarrow> string"
  xl_colour_name :: "nat \<Rightarrow> string"
  xl_direction_name :: "nat \<Rightarrow> string"
  xl_rotate_right :: "nat \<Rightarrow> nat"
  xl_oak :: nat
  xl_polished :: nat
  xl_blackstone_name :: "nat \<Rightarrow> string"
  xl_base :: "nat \<Rightarrow> 64 word"
  xl_block_hash :: "inner \<Rightarrow> 64 word"

datatype extra_property = XByte "8 word" | XInt "32 word" | XBool bool | XString string

definition bool_byte :: "bool \<Rightarrow> 8 word" where
  "bool_byte v = (if v then 1 else 0)"

text \<open>Directions as the trapdoor counts them.\<close>
definition trapdoor_direction :: "nat \<Rightarrow> 32 word" where
  "trapdoor_direction d = (let n = word_of_int (3 - int d) in if n <s 0 then - n else n)"

definition encode_button_type :: "extra_lib \<Rightarrow> inner \<Rightarrow> string result" where
  "encode_button_type L b = (case b of
      Planks w \<Rightarrow> Inr (if xl_wood_name L w = ''oak'' then ''wooden'' else xl_wood_name L w)
    | Stone \<Rightarrow> Inr ''stone''
    | Blackstone t \<Rightarrow> if t = xl_polished L then Inr (xl_blackstone_name L t) else Inl (Panic ''invalid block for button type'')
    | _ \<Rightarrow> Inl (Panic ''invalid block for button type''))"

definition encode_pressure_plate_block :: "extra_lib \<Rightarrow> inner \<Rightarrow> string result" where
  "encode_pressure_plate_block L b = (case b of
      Planks w \<Rightarrow> Inr (if w = xl_oak L then ''wooden'' else xl_wood_name L w)
    | Stone \<Rightarrow> Inr ''stone''
    | Blackstone t \<Rightarrow> Inr (xl_blackstone_name L (xl_polished L))
    | Gold \<Rightarrow> Inr ''light_weighted''
    | Iron \<Rightarrow> Inr ''heavy_weighted''
    | OtherInner _ \<Rightarrow> Inl (Panic ''invalid block used for pressure plates''))"

definition encode_coral :: "string \<Rightarrow> nat \<Rightarrow> string \<times> (string \<times> extra_property) list" where
  "encode_coral n d = (n, [(''coral_fan_direction'', XInt (word_of_nat d))])"

definition encode_button :: "extra_lib \<Rightarrow> inner \<Rightarrow> nat \<Rightarrow> bool \<Rightarrow> (string \<times> (string \<times> extra_property) list) result" where
  "encode_button L b d pressed = bind_result (encode_button_type L b) (\<lambda>n. Inr (''minecraft:'' @ n @ ''_button'',
     [(''button_pressed_bit'', XByte (bool_byte pressed)), (''facing_direction'', XInt (word_of_nat d))]))"

definition encode_candle :: "extra_lib \<Rightarrow> nat \<Rightarrow> int \<Rightarrow> bool \<Rightarrow> string \<times> (string \<times> extra_property) list" where
  "encode_candle L c count lit = (''minecraft:'' @ xl_colour_name L c @ ''_candle'',
     [(''candles'', XInt (word_of_int (count - 1))), (''lit'', XBool lit)])"

definition encode_iron_door :: "extra_lib \<Rightarrow> nat \<Rightarrow> bool \<Rightarrow> bool \<Rightarrow> bool \<Rightarrow> string \<times> (string \<times> extra_property) list" where
  "encode_iron_door L facing open_bit upper right = (''minecraft:iron_door'',
     [(''minecraft:cardinal_direction'', XString (xl_direction_name L (xl_rotate_right L facing))), (''door_hinge_bit'', XBool right),
      (''open_bit'', XBool open_bit), (''upper_block_bit'', XBool upper)])"

definition encode_iron_trapdoor :: "nat \<Rightarrow> bool \<Rightarrow> bool \<Rightarrow> string \<times> (string \<times> extra_property) list" where
  "encode_iron_trapdoor facing open_bit upper = (''minecraft:iron_trapdoor'',
     [(''direction'', XInt (trapdoor_direction facing)), (''open_bit'', XByte (bool_byte open_bit)),
      (''upside_down_bit'', XByte (bool_byte upper))])"

definition encode_pressure_plate :: "extra_lib \<Rightarrow> int \<Rightarrow> inner \<Rightarrow> (string \<times> (string \<times> extra_property) list) result" where
  "encode_pressure_plate L signal b = bind_result (encode_pressure_plate_block L b) (\<lambda>n.
     Inr (''minecraft:'' @ n @ ''_pressure_plate'', [(''redstone_signal'', XInt (word_of_int signal))]))"

definition encode_sapling :: "extra_lib \<Rightarrow> nat \<Rightarrow> nat \<Rightarrow> string \<times> (string \<times> extra_property) list" where
  "encode_sapling L w age = (''minecraft:'' @ xl_wood_name L w @ ''_sapling'', [(''age_bit'', XByte (word_of_nat age))])"

definition encode_trip_wire :: "bool \<Rightarrow> bool \<Rightarrow> bool \<Rightarrow> bool \<Rightarrow> string \<times> (string \<times> extra_property) list" where
  "encode_trip_wire attached disarmed powered suspended = (''minecraft:trip_wire'',
     [(''attached_bit'', XByte (bool_byte attached)), (''disarmed_bit'', XByte (bool_byte disarmed)),
      (''powered_bit'', XByte (bool_byte powered)), (''suspended_bit'', XByte (bool_byte suspended))])"

definition encode_trip_wire_hook :: "bool \<Rightarrow> bool \<Rightarrow> nat \<Rightarrow> string \<times> (string \<times> extra_property) list" where
  "encode_trip_wire_hook attached powered d = (''minecraft:tripwire_hook'',
     [(''attached_bit'', XByte (bool_byte attached)), (''direction'', XInt (word_of_nat d)), (''powered_bit'', XByte (bool_byte powered))])"

definition encode_block :: "extra_lib \<Rightarrow> extra_block \<Rightarrow> (string \<times> (string \<times> extra_property) list) result" where
  "encode_block L b = (case b of
      BrainCoralFan d \<Rightarrow> Inr (encode_coral ''minecraft:brain_coral_fan'' d)
    | DeadBrainCoralFan d \<Rightarrow> Inr (encode_coral ''minecraft:dead_brain_coral_fan'' d)
    | Button i d p \<Rightarrow> encode_button L i d p
    | Candle c n l \<Rightarrow> Inr (encode_candle L c n l)
    | IronDoor f o' t r \<Rightarrow> Inr (encode_iron_door L f o' t r)
    | IronTrapdoor f o' t \<Rightarrow> Inr (encode_iron_trapdoor f o' t)
    | PressurePlate s i \<Rightarrow> encode_pressure_plate L s i
    | Sapling w a \<Rightarrow> Inr (encode_sapling L w a)
    | TripWire a d p s \<Rightarrow> Inr (encode_trip_wire a d p s)
    | TripWireHook a p d \<Rightarrow> Inr (encode_trip_wire_hook a p d))"

section \<open>Hashes\<close>

definition bit64 :: "bool \<Rightarrow> 64 word" where
  "bit64 v = ucast (bool_byte v)"

text \<open>The numbers of the base hashes are those of the types.\<close>
definition hash_coral :: "nat \<Rightarrow> 64 word" where
  "hash_coral d = push_bit 32 (word_of_nat d)"

definition hash_button :: "extra_lib \<Rightarrow> inner \<Rightarrow> nat \<Rightarrow> bool \<Rightarrow> 64 word" where
  "hash_button L b d pressed = (xl_block_hash L b OR push_bit 32 (bit64 pressed)) OR push_bit 33 (word_of_nat d)"

definition hash_candle :: "nat \<Rightarrow> int \<Rightarrow> bool \<Rightarrow> 64 word" where
  "hash_candle c count lit = (push_bit 32 (word_of_nat c) OR push_bit 36 (word_of_int (count - 1))) OR push_bit 40 (bit64 lit)"

definition hash_iron_door :: "nat \<Rightarrow> bool \<Rightarrow> bool \<Rightarrow> bool \<Rightarrow> 64 word" where
  "hash_iron_door facing open_bit upper right =
    ((word_of_nat facing OR push_bit 2 (bit64 open_bit)) OR push_bit 3 (bit64 upper)) OR push_bit 4 (bit64 right)"

definition hash_iron_trapdoor :: "nat \<Rightarrow> bool \<Rightarrow> bool \<Rightarrow> 64 word" where
  "hash_iron_trapdoor facing open_bit upper = (word_of_nat facing OR push_bit 32 (bit64 open_bit)) OR push_bit 33 (bit64 upper)"

definition hash_pressure_plate :: "extra_lib \<Rightarrow> int \<Rightarrow> inner \<Rightarrow> 64 word" where
  "hash_pressure_plate L signal b = xl_block_hash L b OR push_bit 32 (word_of_int signal)"

definition hash_sapling :: "nat \<Rightarrow> nat \<Rightarrow> 64 word" where
  "hash_sapling w age = word_of_nat w OR push_bit 32 (word_of_nat age)"

definition hash_trip_wire :: "bool \<Rightarrow> bool \<Rightarrow> bool \<Rightarrow> bool \<Rightarrow> 64 word" where
  "hash_trip_wire attached disarmed powered suspended =
    ((bit64 attached OR push_bit 32 (bit64 disarmed)) OR push_bit 33 (bit64 powered)) OR push_bit 34 (bit64 suspended)"

definition hash_trip_wire_hook :: "bool \<Rightarrow> bool \<Rightarrow> nat \<Rightarrow> 64 word" where
  "hash_trip_wire_hook attached powered d = (bit64 attached OR push_bit 32 (bit64 powered)) OR push_bit 33 (word_of_nat d)"

definition block_hash :: "extra_lib \<Rightarrow> extra_block \<Rightarrow> 64 word \<times> 64 word" where
  "block_hash L b = (case b of
      BrainCoralFan d \<Rightarrow> (xl_base L 0, hash_coral d)
    | DeadBrainCoralFan d \<Rightarrow> (xl_base L 1, hash_coral d)
    | Button i d p \<Rightarrow> (xl_base L 2, hash_button L i d p)
    | Candle c n l \<Rightarrow> (xl_base L 3, hash_candle c n l)
    | IronDoor f o' t r \<Rightarrow> (xl_base L 4, hash_iron_door f o' t r)
    | IronTrapdoor f o' t \<Rightarrow> (xl_base L 5, hash_iron_trapdoor f o' t)
    | PressurePlate s i \<Rightarrow> (xl_base L 6, hash_pressure_plate L s i)
    | Sapling w a \<Rightarrow> (xl_base L 7, hash_sapling w a)
    | TripWire a d p s \<Rightarrow> (xl_base L 8, hash_trip_wire a d p s)
    | TripWireHook a p d \<Rightarrow> (xl_base L 9, hash_trip_wire_hook a p d))"

section \<open>What is registered\<close>

definition coral_fans :: "extra_block list" where
  "coral_fans = [BrainCoralFan 1, BrainCoralFan 0, DeadBrainCoralFan 1, DeadBrainCoralFan 0]"

definition button_blocks_of :: "extra_lib \<Rightarrow> nat \<Rightarrow> extra_block list" where
  "button_blocks_of L d = concat (map (\<lambda>b. [Button b d False, Button b d True])
     (map Planks (xl_woods L) @ [Stone, Blackstone (xl_polished L)]))"

definition all_button_blocks :: "extra_lib \<Rightarrow> extra_block list" where
  "all_button_blocks L = concat (map (button_blocks_of L) (xl_faces L))"

definition candles :: "extra_lib \<Rightarrow> extra_block list" where
  "candles L = concat (map (\<lambda>c. concat (map (\<lambda>i. [Candle c (i + 1) False, Candle c (i + 1) True]) [0..3])) (xl_colours L))"

definition all_iron_doors :: "extra_block list" where
  "all_iron_doors = concat (map (\<lambda>i. [IronDoor i False False False, IronDoor i False True False, IronDoor i True True False,
     IronDoor i True False False, IronDoor i False False True, IronDoor i False True True, IronDoor i True True True,
     IronDoor i True False True]) [0, 1, 2, 3])"

definition iron_trapdoors :: "extra_lib \<Rightarrow> extra_block list" where
  "iron_trapdoors L = concat (map (\<lambda>d. [IronTrapdoor d False False, IronTrapdoor d False True, IronTrapdoor d True False,
     IronTrapdoor d True True]) (xl_directions L))"

definition pressure_plate_blocks :: "extra_lib \<Rightarrow> inner list" where
  "pressure_plate_blocks L = map Planks (xl_woods L) @ [Stone, Blackstone (xl_polished L), Gold, Iron]"

definition all_pressure_plates :: "extra_lib \<Rightarrow> extra_block list" where
  "all_pressure_plates L = concat (map (\<lambda>b. map (\<lambda>i. PressurePlate i b) [0..15]) (pressure_plate_blocks L))"

definition saplings :: "extra_lib \<Rightarrow> extra_block list" where
  "saplings L = concat (map (\<lambda>w. map (Sapling w) [0, 1]) (xl_sapling_woods L))"

definition all_trip_wire_hooks :: "extra_lib \<Rightarrow> extra_block list" where
  "all_trip_wire_hooks L = concat (map (\<lambda>d. [TripWireHook False False d, TripWireHook False True d, TripWireHook True False d,
     TripWireHook True True d]) (xl_directions L))"

definition all_tripwires :: "extra_block list" where
  "all_tripwires = concat (map (\<lambda>a. concat (map (\<lambda>b. concat (map (\<lambda>c. map (\<lambda>d. TripWire a b c d) [False, True]) [False, True]))
     [False, True])) [False, True])"

text \<open>In the order of the files.\<close>
definition all_registered :: "extra_lib \<Rightarrow> extra_block list" where
  "all_registered L = coral_fans @ all_button_blocks L @ candles L @ all_iron_doors @ iron_trapdoors L @ all_pressure_plates L
     @ saplings L @ all_tripwires @ all_trip_wire_hooks L"

text \<open>Registering that panics is passed over.\<close>
definition register_block :: "('r \<Rightarrow> extra_block \<Rightarrow> 'r result) \<Rightarrow> extra_block \<Rightarrow> 'r \<Rightarrow> 'r" where
  "register_block reg b r = (case reg r b of Inl _ \<Rightarrow> r | Inr r' \<Rightarrow> r')"

definition register_all :: "('r \<Rightarrow> extra_block \<Rightarrow> 'r result) \<Rightarrow> extra_lib \<Rightarrow> 'r \<Rightarrow> 'r" where
  "register_all reg L = fold (register_block reg) (all_registered L)"

section \<open>No two states have the same hash\<close>

text \<open>A field above the bits of another is added.\<close>
lemma uint_push:
  fixes b :: "64 word"
  assumes "uint b * 2 ^ n < 2 ^ 64"
  shows "uint (push_bit n b) = uint b * 2 ^ n"
proof -
  have "uint (push_bit n b) = take_bit 64 (push_bit n (uint b))" by (simp add: unsigned_push_bit_eq)
  also have "\<dots> = uint b * 2 ^ n" using assms by (simp only: push_bit_eq_mult) (simp add: take_bit_int_eq_self)
  finally show ?thesis .
qed

lemma or_push:
  fixes a b :: "64 word"
  assumes "uint a < 2 ^ n" "uint b * 2 ^ n < 2 ^ 64 - 2 ^ n"
  shows "uint (a OR push_bit n b) = uint a + uint b * 2 ^ n"
proof -
  have "take_bit n a = a" using assms(1) by (intro word_uint_eqI) (simp add: unsigned_take_bit_eq take_bit_int_eq_self)
  then have "\<not> bit a m" if "n \<le> m" for m using that by (metis bit_take_bit_iff not_less)
  then have "a AND push_bit n b = 0" by (intro bit_eqI) (auto simp: bit_simps)
  then have "a OR push_bit n b = a + push_bit n b" by (simp add: disjunctive_add_eq_or)
  moreover have "uint b * 2 ^ n < 2 ^ 64" using assms(2) by (smt (verit) zero_less_power)
  ultimately show ?thesis using uint_push[of b n] assms by (simp add: uint_word_ariths)
qed

lemma uint_bit64: "uint (bit64 v) = of_bool v"
  by (cases v) (simp_all add: bit64_def bool_byte_def)

lemma uint_nat: "n < 2 ^ 64 \<Longrightarrow> uint (word_of_nat n :: 64 word) = int n"
  by (simp add: unsigned_of_nat take_bit_nat_eq_self)

lemma uint_int: "0 \<le> i \<Longrightarrow> i < 2 ^ 64 \<Longrightarrow> uint (word_of_int i :: 64 word) = i"
  by (simp add: uint_word_of_int)

lemma pack_cancel:
  assumes "0 \<le> a" "a < m" "0 \<le> a'" "a' < m" "a + x * m = a' + x' * (m :: int)"
  shows "a = a' \<and> x = x'"
proof -
  have "(a + x * m) mod m = a" "(a' + x' * m) mod m = a'" using assms(1-4) by simp_all
  then have "a = a'" using assms(5) by simp
  with assms show ?thesis by simp
qed

lemma bools: "(of_bool a :: int) = of_bool b \<longleftrightarrow> a = b"
  by (cases a; cases b) simp_all

text \<open>The states that can be registered, and what the library has to say of its hashes and of the order of its lists.\<close>
definition valid_state :: "extra_lib \<Rightarrow> extra_block \<Rightarrow> bool" where
  "valid_state L b = (case b of
      BrainCoralFan d \<Rightarrow> d < 6
    | DeadBrainCoralFan d \<Rightarrow> d < 6
    | Button i d p \<Rightarrow> i \<in> set (pressure_plate_blocks L) \<and> d < 6
    | Candle c n l \<Rightarrow> c < 16 \<and> 1 \<le> n \<and> n \<le> 4
    | IronDoor f o' t r \<Rightarrow> f < 4
    | IronTrapdoor f o' t \<Rightarrow> f < 4
    | PressurePlate s i \<Rightarrow> 0 \<le> s \<and> s \<le> 15 \<and> i \<in> set (pressure_plate_blocks L)
    | Sapling w a \<Rightarrow> w < 2 ^ 32 \<and> a < 2
    | TripWire a d p s \<Rightarrow> True
    | TripWireHook a p d \<Rightarrow> d < 4)"

definition library_hashes :: "extra_lib \<Rightarrow> bool" where
  "library_hashes L \<longleftrightarrow> inj_on (xl_base L) {..<10} \<and> inj_on (xl_block_hash L) (set (pressure_plate_blocks L))
     \<and> (\<forall>i \<in> set (pressure_plate_blocks L). uint (xl_block_hash L i) < 2 ^ 32)"

definition library_numbers :: "extra_lib \<Rightarrow> bool" where
  "library_numbers L \<longleftrightarrow> (\<forall>d \<in> set (xl_faces L). d < 6) \<and> (\<forall>d \<in> set (xl_directions L). d < 4)
     \<and> (\<forall>c \<in> set (xl_colours L). c < 16) \<and> (\<forall>w \<in> set (xl_sapling_woods L). w < 2 ^ 32)"

lemma registered_valid: "library_numbers L \<Longrightarrow> b \<in> set (all_registered L) \<Longrightarrow> valid_state L b"
  by (auto simp: all_registered_def coral_fans_def all_button_blocks_def button_blocks_of_def candles_def all_iron_doors_def
      iron_trapdoors_def all_pressure_plates_def saplings_def all_tripwires_def all_trip_wire_hooks_def valid_state_def
      pressure_plate_blocks_def library_numbers_def)

text \<open>What the hashes are as numbers.\<close>
lemma coral_number: "d < 6 \<Longrightarrow> uint (hash_coral d) = int d * 2 ^ 32"
  by (simp add: hash_coral_def uint_push uint_nat)

lemma plate_number:
  "0 \<le> s \<Longrightarrow> s \<le> 15 \<Longrightarrow> uint (xl_block_hash L i) < 2 ^ 32 \<Longrightarrow>
    uint (hash_pressure_plate L s i) = uint (xl_block_hash L i) + s * 2 ^ 32"
  by (simp add: hash_pressure_plate_def or_push uint_int)

lemma button_number:
  assumes "d < 6" "uint (xl_block_hash L i) < 2 ^ 32"
  shows "uint (hash_button L i d p) = uint (xl_block_hash L i) + (of_bool p + 2 * int d) * 2 ^ 32"
proof -
  have "uint (xl_block_hash L i OR push_bit 32 (bit64 p)) = uint (xl_block_hash L i) + of_bool p * 2 ^ 32"
    using assms(2) by (simp add: or_push uint_bit64)
  with assms show ?thesis by (simp add: hash_button_def or_push uint_nat)
qed

lemma candle_number:
  assumes "c < 16" "1 \<le> n" "n \<le> 4"
  shows "uint (hash_candle c n l) = (int c + ((n - 1) + of_bool l * 16) * 16) * 2 ^ 32"
proof -
  have a: "uint (push_bit 32 (word_of_nat c :: 64 word)) = int c * 2 ^ 32" using assms(1) by (simp add: uint_push uint_nat)
  have b: "uint (push_bit 32 (word_of_nat c :: 64 word) OR push_bit 36 (word_of_int (n - 1))) = int c * 2 ^ 32 + (n - 1) * 2 ^ 36"
    using assms a by (simp add: or_push uint_int del: of_int_diff)
  show ?thesis using assms unfolding hash_candle_def by (subst or_push) (simp_all add: b uint_bit64 del: of_int_diff)
qed

lemma door_number:
  assumes "f < 4"
  shows "uint (hash_iron_door f a b c) = int f + (of_bool a + (of_bool b + of_bool c * 2) * 2) * 4"
proof -
  have a: "uint (word_of_nat f OR push_bit 2 (bit64 a)) = int f + of_bool a * 4"
    using assms by (simp add: or_push uint_nat uint_bit64)
  have b: "uint ((word_of_nat f OR push_bit 2 (bit64 a)) OR push_bit 3 (bit64 b)) = int f + of_bool a * 4 + of_bool b * 8"
    using assms a by (subst or_push) (simp_all add: uint_bit64)
  show ?thesis unfolding hash_iron_door_def using assms b by (subst or_push) (simp_all add: uint_bit64)
qed

lemma trapdoor_number:
  assumes "f < 4"
  shows "uint (hash_iron_trapdoor f a b) = int f + (of_bool a + of_bool b * 2) * 2 ^ 32"
proof -
  have a: "uint (word_of_nat f OR push_bit 32 (bit64 a)) = int f + of_bool a * 2 ^ 32"
    using assms by (simp add: or_push uint_nat uint_bit64)
  show ?thesis unfolding hash_iron_trapdoor_def using assms a by (subst or_push) (simp_all add: uint_bit64)
qed

lemma sapling_number: "w < 2 ^ 32 \<Longrightarrow> a < 2 \<Longrightarrow> uint (hash_sapling w a) = int w + int a * 2 ^ 32"
  by (simp add: hash_sapling_def or_push uint_nat)

lemma wire_number:
  "uint (hash_trip_wire a b c d) = of_bool a + (of_bool b + (of_bool c + of_bool d * 2) * 2) * 2 ^ 32"
proof -
  have 1: "uint (bit64 a OR push_bit 32 (bit64 b)) = of_bool a + of_bool b * 2 ^ 32"
    by (simp add: or_push uint_bit64)
  have 2: "uint ((bit64 a OR push_bit 32 (bit64 b)) OR push_bit 33 (bit64 c)) = of_bool a + of_bool b * 2 ^ 32 + of_bool c * 2 ^ 33"
    using 1 by (subst or_push) (simp_all add: uint_bit64)
  show ?thesis unfolding hash_trip_wire_def using 2 by (subst or_push) (simp_all add: uint_bit64)
qed

lemma hook_number:
  assumes "d < 4"
  shows "uint (hash_trip_wire_hook a p d) = of_bool a + (of_bool p + int d * 2) * 2 ^ 32"
proof -
  have 1: "uint (bit64 a OR push_bit 32 (bit64 p)) = of_bool a + of_bool p * 2 ^ 32"
    by (simp add: or_push uint_bit64)
  show ?thesis unfolding hash_trip_wire_hook_def using assms 1 by (subst or_push) (simp_all add: uint_nat)
qed

lemma library_inj:
  assumes "library_hashes L" "i \<in> set (pressure_plate_blocks L)" "i' \<in> set (pressure_plate_blocks L)"
    "uint (xl_block_hash L i) = uint (xl_block_hash L i')"
  shows "i = i'"
proof -
  from assms(4) have "xl_block_hash L i = xl_block_hash L i'" by (rule word_uint_eqI)
  moreover have "inj_on (xl_block_hash L) (set (pressure_plate_blocks L))" using assms(1) by (simp add: library_hashes_def)
  ultimately show ?thesis using assms(2,3) by (blast dest: inj_onD)
qed

text \<open>The fields are read back from the number of a hash.\<close>
lemma button_inj:
  assumes "library_hashes L" "valid_state L (Button i d p)" "valid_state L (Button i' d' p')" "hash_button L i d p = hash_button L i' d' p'"
  shows "i = i' \<and> d = d' \<and> p = p'"
proof -
  from assms(1-3) have h: "uint (xl_block_hash L i) < 2 ^ 32" "uint (xl_block_hash L i') < 2 ^ 32" "d < 6" "d' < 6"
    by (simp_all add: library_hashes_def valid_state_def)
  from arg_cong[OF assms(4), of uint] h have "uint (xl_block_hash L i) = uint (xl_block_hash L i')
      \<and> of_bool p + 2 * int d = of_bool p' + 2 * int d'"
    by (intro pack_cancel[where m = "2 ^ 32"]) (simp_all add: button_number)
  moreover from this have "of_bool p + int d * 2 = of_bool p' + int d' * 2" by simp
  then have "of_bool p = (of_bool p' :: int) \<and> int d = int d'" by (intro pack_cancel[where m = 2]) simp_all
  moreover from calculation have "i = i'"
    by (intro library_inj[OF assms(1)]) (use assms(2,3) in \<open>simp_all add: valid_state_def\<close>)
  ultimately show ?thesis by (simp add: bools)
qed

lemma plate_inj:
  assumes "library_hashes L" "valid_state L (PressurePlate s i)" "valid_state L (PressurePlate s' i')"
    "hash_pressure_plate L s i = hash_pressure_plate L s' i'"
  shows "s = s' \<and> i = i'"
proof -
  from assms(1-3) have h: "uint (xl_block_hash L i) < 2 ^ 32" "uint (xl_block_hash L i') < 2 ^ 32" "0 \<le> s" "s \<le> 15" "0 \<le> s'" "s' \<le> 15"
    by (simp_all add: library_hashes_def valid_state_def)
  from arg_cong[OF assms(4), of uint] h have "uint (xl_block_hash L i) = uint (xl_block_hash L i') \<and> s = s'"
    by (intro pack_cancel[where m = "2 ^ 32"]) (simp_all add: plate_number)
  moreover from calculation have "i = i'"
    by (intro library_inj[OF assms(1)]) (use assms(2,3) in \<open>simp_all add: valid_state_def\<close>)
  ultimately show ?thesis by simp
qed

lemma candle_inj:
  assumes "valid_state L (Candle c n l)" "valid_state L (Candle c' n' l')" "hash_candle c n l = hash_candle c' n' l'"
  shows "c = c' \<and> n = n' \<and> l = l'"
proof -
  from assms(1,2) have v: "c < 16" "1 \<le> n" "n \<le> 4" "c' < 16" "1 \<le> n'" "n' \<le> 4" by (simp_all add: valid_state_def)
  from arg_cong[OF assms(3), of uint] v have "int c + ((n - 1) + of_bool l * 16) * 16 = int c' + ((n' - 1) + of_bool l' * 16) * 16"
    by (simp only: candle_number) simp
  then have c: "int c = int c' \<and> (n - 1) + of_bool l * 16 = (n' - 1) + of_bool l' * 16"
    by (intro pack_cancel[where m = 16]) (use v in simp_all)
  then have "n - 1 = n' - 1 \<and> of_bool l = (of_bool l' :: int)" by (intro pack_cancel[where m = 16]) (use v in simp_all)
  with c show ?thesis by (simp add: bools)
qed

lemma door_inj:
  assumes "f < 4" "f' < 4" "hash_iron_door f a b c = hash_iron_door f' a' b' c'"
  shows "f = f' \<and> a = a' \<and> b = b' \<and> c = c'"
proof -
  from arg_cong[OF assms(3), of uint] assms(1,2)
  have f: "int f = int f' \<and> of_bool a + (of_bool b + of_bool c * 2) * 2 = of_bool a' + (of_bool b' + of_bool c' * 2) * (2 :: int)"
    by (intro pack_cancel[where m = 4]) (simp_all add: door_number)
  then show ?thesis by (cases a; cases b; cases c; cases a'; cases b'; cases c'; simp)
qed

lemma trapdoor_inj:
  assumes "f < 4" "f' < 4" "hash_iron_trapdoor f a b = hash_iron_trapdoor f' a' b'"
  shows "f = f' \<and> a = a' \<and> b = b'"
proof -
  from arg_cong[OF assms(3), of uint] assms(1,2)
  have "int f = int f' \<and> of_bool a + of_bool b * 2 = of_bool a' + of_bool b' * (2 :: int)"
    by (intro pack_cancel[where m = "2 ^ 32"]) (simp_all add: trapdoor_number)
  then show ?thesis by (cases a; cases b; cases a'; cases b'; simp)
qed

lemma sapling_inj:
  assumes "valid_state L (Sapling w a)" "valid_state L (Sapling w' a')" "hash_sapling w a = hash_sapling w' a'"
  shows "w = w' \<and> a = a'"
proof -
  from arg_cong[OF assms(3), of uint] assms(1,2) have "int w = int w' \<and> int a = int a'"
    by (intro pack_cancel[where m = "2 ^ 32"]) (simp_all add: sapling_number valid_state_def)
  then show ?thesis by simp
qed

lemma wire_inj:
  assumes "hash_trip_wire a b c d = hash_trip_wire a' b' c' d'"
  shows "a = a' \<and> b = b' \<and> c = c' \<and> d = d'"
  using arg_cong[OF assms, of uint] unfolding wire_number
  by (cases a; cases b; cases c; cases d; cases a'; cases b'; cases c'; cases d'; simp)

lemma hook_inj:
  assumes "d < 4" "d' < 4" "hash_trip_wire_hook a p d = hash_trip_wire_hook a' p' d'"
  shows "a = a' \<and> p = p' \<and> d = d'"
proof -
  from arg_cong[OF assms(3), of uint] assms(1,2)
  have a: "of_bool a = (of_bool a' :: int) \<and> of_bool p + int d * 2 = of_bool p' + int d' * 2"
    by (intro pack_cancel[where m = "2 ^ 32"]) (simp_all add: hook_number)
  then have "of_bool p = (of_bool p' :: int) \<and> int d = int d'" by (intro pack_cancel[where m = 2]) simp_all
  with a show ?thesis by (simp add: bools)
qed

lemma coral_inj: "d < 6 \<Longrightarrow> d' < 6 \<Longrightarrow> hash_coral d = hash_coral d' \<Longrightarrow> d = d'"
  by (drule arg_cong[of _ _ uint], unfold coral_number) simp

definition kind_number :: "extra_block \<Rightarrow> nat" where
  "kind_number b = (case b of BrainCoralFan _ \<Rightarrow> 0 | DeadBrainCoralFan _ \<Rightarrow> 1 | Button _ _ _ \<Rightarrow> 2 | Candle _ _ _ \<Rightarrow> 3
     | IronDoor _ _ _ _ \<Rightarrow> 4 | IronTrapdoor _ _ _ \<Rightarrow> 5 | PressurePlate _ _ \<Rightarrow> 6 | Sapling _ _ \<Rightarrow> 7 | TripWire _ _ _ _ \<Rightarrow> 8
     | TripWireHook _ _ _ \<Rightarrow> 9)"

lemma base_hash: "fst (block_hash L b) = xl_base L (kind_number b)" "kind_number b < 10"
  by (simp_all add: block_hash_def kind_number_def split: extra_block.split)

text \<open>Two registered states with the same hash are the same state, given that the library numbers its faces, directions and
  colours as it says and that the blocks that others are made of have different hashes below the field that is added.\<close>
theorem registered_hashes_differ:
  assumes "library_hashes L" "library_numbers L" "b \<in> set (all_registered L)" "b' \<in> set (all_registered L)"
    "block_hash L b = block_hash L b'"
  shows "b = b'"
proof -
  have v: "valid_state L b" "valid_state L b'" by (rule registered_valid[OF assms(2)]; fact)+
  have "inj_on (xl_base L) {..<10}" using assms(1) by (simp add: library_hashes_def)
  moreover have "xl_base L (kind_number b) = xl_base L (kind_number b')" using assms(5) base_hash(1)[of L] by metis
  ultimately have k: "kind_number b = kind_number b'" using base_hash(2)[of b] base_hash(2)[of b'] by (auto dest: inj_onD)
  have e: "snd (block_hash L b) = snd (block_hash L b')" using assms(5) by simp
  show ?thesis
  proof (cases b)
    case (Button i d p)
    with k obtain i' d' p' where b': "b' = Button i' d' p'" by (cases b') (simp_all add: kind_number_def)
    with Button v e button_inj[OF assms(1)] show ?thesis by (simp add: block_hash_def)
  next
    case (PressurePlate t i)
    with k obtain t' i' where b': "b' = PressurePlate t' i'" by (cases b') (simp_all add: kind_number_def)
    with PressurePlate v e plate_inj[OF assms(1)] show ?thesis by (simp add: block_hash_def)
  next
    case (Candle c n l)
    with k obtain c' n' l' where b': "b' = Candle c' n' l'" by (cases b') (simp_all add: kind_number_def)
    with Candle v e candle_inj[of L c n l c' n' l'] show ?thesis by (simp add: block_hash_def)
  next
    case (Sapling w a)
    with k obtain w' a' where b': "b' = Sapling w' a'" by (cases b') (simp_all add: kind_number_def)
    with Sapling v e sapling_inj[of L w a w' a'] show ?thesis by (simp add: block_hash_def)
  next
    case (IronDoor f q t r)
    with k obtain f' q' t' r' where b': "b' = IronDoor f' q' t' r'" by (cases b') (simp_all add: kind_number_def)
    with IronDoor v e door_inj[of f f' q t r q' t' r'] show ?thesis by (simp add: block_hash_def valid_state_def)
  next
    case (IronTrapdoor f q t)
    with k obtain f' q' t' where b': "b' = IronTrapdoor f' q' t'" by (cases b') (simp_all add: kind_number_def)
    with IronTrapdoor v e trapdoor_inj[of f f' q t q' t'] show ?thesis by (simp add: block_hash_def valid_state_def)
  next
    case (TripWire t u w x)
    with k obtain t' u' w' x' where b': "b' = TripWire t' u' w' x'" by (cases b') (simp_all add: kind_number_def)
    with TripWire e wire_inj[of t u w x t' u' w' x'] show ?thesis by (simp add: block_hash_def)
  next
    case (TripWireHook t u d)
    with k obtain t' u' d' where b': "b' = TripWireHook t' u' d'" by (cases b') (simp_all add: kind_number_def)
    with TripWireHook v e hook_inj[of d d' t u t' u'] show ?thesis by (simp add: block_hash_def valid_state_def)
  next
    case (BrainCoralFan d)
    with k obtain d' where b': "b' = BrainCoralFan d'" by (cases b') (simp_all add: kind_number_def)
    with BrainCoralFan v e coral_inj[of d d'] show ?thesis by (simp add: block_hash_def valid_state_def)
  next
    case (DeadBrainCoralFan d)
    with k obtain d' where b': "b' = DeadBrainCoralFan d'" by (cases b') (simp_all add: kind_number_def)
    with DeadBrainCoralFan v e coral_inj[of d d'] show ?thesis by (simp add: block_hash_def valid_state_def)
  qed
qed

section \<open>A library\<close>

definition small_lib :: extra_lib where
  "small_lib = \<lparr>xl_woods = [0, 1], xl_sapling_woods = [0, 1], xl_faces = [0, 1, 2, 3, 4, 5], xl_directions = [0, 1, 2, 3],
     xl_colours = [0, 15], xl_wood_name = \<lambda>w. if w = 0 then ''oak'' else ''birch'', xl_colour_name = \<lambda>c. if c = 0 then ''white'' else ''black'',
     xl_direction_name = \<lambda>d. if d = 0 then ''north'' else if d = 1 then ''south'' else if d = 2 then ''west'' else ''east'',
     xl_rotate_right = \<lambda>d. if d = 0 then 3 else if d = 3 then 1 else if d = 1 then 2 else 0, xl_oak = 0, xl_polished = 2,
     xl_blackstone_name = \<lambda>_. ''polished_blackstone'', xl_base = word_of_nat,
     xl_block_hash = \<lambda>b. case b of Planks w \<Rightarrow> 16 + word_of_nat w | Stone \<Rightarrow> 1 | Blackstone t \<Rightarrow> 2 | Gold \<Rightarrow> 3 | Iron \<Rightarrow> 4 | OtherInner _ \<Rightarrow> 5\<rparr>"

lemma small_lib_ok: "library_hashes small_lib" "library_numbers small_lib"
proof -
  have "inj_on (word_of_nat :: nat \<Rightarrow> 64 word) {..<10}"
  proof (rule inj_onI)
    fix x y :: nat assume b: "x \<in> {..<10}" "y \<in> {..<10}" and e: "(word_of_nat x :: 64 word) = word_of_nat y"
    from b have "x < 2 ^ 64" "y < 2 ^ 64" by simp_all
    moreover note arg_cong[OF e, of uint]
    ultimately show "x = y" by (simp only: uint_nat)
  qed
  then show "library_hashes small_lib"
    by (simp add: library_hashes_def small_lib_def pressure_plate_blocks_def inj_on_def)
  show "library_numbers small_lib" by (simp add: library_numbers_def small_lib_def)
qed

theorem registered_hashes_differ_witness:
  "block_hash small_lib (Button Stone 1 True) \<noteq> block_hash small_lib (Button (Planks 1) 2 False)"
proof
  assume h: "block_hash small_lib (Button Stone 1 True) = block_hash small_lib (Button (Planks 1) 2 False)"
  have "Button Stone 1 True \<in> set (all_registered small_lib)" "Button (Planks 1) 2 False \<in> set (all_registered small_lib)"
    by (simp_all add: all_registered_def all_button_blocks_def button_blocks_of_def small_lib_def)
  from registered_hashes_differ[OF small_lib_ok this h] show False by simp
qed

text \<open>Blocks that are equal in the wood have names that say so, and only the type of blackstone that is polished makes a button.\<close>
lemma oak_is_wooden: "encode_pressure_plate small_lib 3 (Planks 0) = Inr (''minecraft:wooden_pressure_plate'', [(''redstone_signal'', XInt 3)])"
  by (simp add: encode_pressure_plate_def encode_pressure_plate_block_def small_lib_def)

lemma other_blackstone_panics: "t \<noteq> xl_polished L \<Longrightarrow> \<not> is_ok (encode_button L (Blackstone t) d p)"
  by (simp add: encode_button_def encode_button_type_def)

text \<open>All that is registered has a name.\<close>
lemma registered_have_names: "b \<in> set (all_registered L) \<Longrightarrow> is_ok (encode_block L b)"
  by (auto simp: all_registered_def coral_fans_def all_button_blocks_def button_blocks_of_def candles_def all_iron_doors_def
      iron_trapdoors_def all_pressure_plates_def saplings_def all_tripwires_def all_trip_wire_hooks_def pressure_plate_blocks_def
      encode_block_def encode_button_def encode_button_type_def encode_pressure_plate_def encode_pressure_plate_block_def)

end
