(* ===== verification/BlockShapes.thy ===== *)
theory BlockShapes
  imports Interaction
begin

text \<open>
  The shapes of blocks that differ from those of the block library: \<^verbatim>\<open>src/world/blockmodel\<close>.  Boxes are pairs of
  corners; making and changing boxes is a library.
\<close>

section \<open>Boxes of the library\<close>

record 'f shape_lib =
  sh_box :: "'f vec3 \<Rightarrow> 'f vec3 \<Rightarrow> 'f bbox"
  sh_stretch :: "axis \<Rightarrow> 'f \<Rightarrow> 'f bbox \<Rightarrow> 'f bbox"
  sh_extend :: "face \<Rightarrow> 'f \<Rightarrow> 'f bbox \<Rightarrow> 'f bbox"

definition lit3 :: "'f flt \<Rightarrow> real \<Rightarrow> real \<Rightarrow> real \<Rightarrow> 'f vec3" where
  "lit3 F x y z = (fl_lit F x, fl_lit F y, fl_lit F z)"

section \<open>Candles\<close>

definition candle_box :: "'f flt \<Rightarrow> 'f shape_lib \<Rightarrow> int \<Rightarrow> 'f bbox result" where
  "candle_box F S count =
    (if count = 1 then Inr (sh_box S (lit3 F (7 / 16) 0 (7 / 16)) (lit3 F (9 / 16) (6 / 16) (9 / 16)))
     else if count = 2 then Inr (sh_box S (lit3 F 0.3125 0 0.4375) (lit3 F 0.6875 (6 / 16) 0.625))
     else if count = 3 then Inr (sh_box S (lit3 F 0.3125 0 0.375) (lit3 F 0.625 (6 / 16) 0.6875))
     else if count = 4 then Inr (sh_box S (lit3 F 0.3125 0 0.3125) (lit3 F 0.6875 (6 / 16) 0.625))
     else Inl (Panic ''invalid count for candles''))"

definition candle_boxes :: "'f flt \<Rightarrow> 'f shape_lib \<Rightarrow> int \<Rightarrow> 'f bbox list result" where
  "candle_boxes F S count = bind_result (candle_box F S count) (\<lambda>b. Inr [b])"

definition candle_face_solid :: "face \<Rightarrow> bool" where
  "candle_face_solid f = False"

section \<open>Blocks without collision\<close>

datatype no_collision = NoCollisionSolid | NoCollisionNotSolid

definition no_collision_boxes :: "no_collision \<Rightarrow> 'f bbox list" where
  "no_collision_boxes m = []"

definition no_collision_face_solid :: "no_collision \<Rightarrow> face \<Rightarrow> bool" where
  "no_collision_face_solid m f = (case m of NoCollisionSolid \<Rightarrow> True | NoCollisionNotSolid \<Rightarrow> False)"

section \<open>Iron bars\<close>

definition bars_connect :: "geometry \<Rightarrow> 'b use_lib \<Rightarrow> (bpos \<Rightarrow> 'b) \<Rightarrow> bpos \<Rightarrow> face \<Rightarrow> bool" where
  "bars_connect G U src pos f =
    (let side = g_side G pos f; b = src side
     in if ul_kind U b = ''IronBars'' then True
        else if ul_kind U b = ''Wall'' then True
        else ul_face_solid U b side (g_opposite G f) src)"

text \<open>One bar along an axis, if it is connected at one of its ends.\<close>
definition bar_along :: "'f flt \<Rightarrow> 'f shape_lib \<Rightarrow> axis \<Rightarrow> face \<Rightarrow> bool \<Rightarrow> face \<Rightarrow> bool \<Rightarrow> 'f bbox list" where
  "bar_along F S across low connect_low high connect_high =
    (if connect_low \<or> connect_high
     then let bb = sh_stretch S across (fl_lit F (- 7 / 16)) (sh_box S (lit3 F 0 0 0) (lit3 F 1 1 1))
          in [if \<not> connect_low then sh_extend S low (fl_lit F (- 8 / 16)) bb
              else if \<not> connect_high then sh_extend S high (fl_lit F (- 8 / 16)) bb
              else bb]
     else [])"

definition iron_bars_boxes :: "'f flt \<Rightarrow> 'f shape_lib \<Rightarrow> geometry \<Rightarrow> 'b use_lib \<Rightarrow> (bpos \<Rightarrow> 'b) \<Rightarrow> bpos \<Rightarrow> 'f bbox list" where
  "iron_bars_boxes F S G U src pos =
    (let c = bars_connect G U src pos;
         bbs = bar_along F S AxisZ FaceWest (c FaceWest) FaceEast (c FaceEast)
             @ bar_along F S AxisX FaceNorth (c FaceNorth) FaceSouth (c FaceSouth)
     in if bbs = []
        then [sh_stretch S AxisZ (fl_lit F (- 7 / 16)) (sh_stretch S AxisX (fl_lit F (- 7 / 16)) (sh_box S (lit3 F 0 0 0) (lit3 F 1 1 1)))]
        else bbs)"

definition iron_bars_face_solid :: "face \<Rightarrow> bool" where
  "iron_bars_face_solid f = True"

section \<open>Walls\<close>

record 'f wall_model =
  wm_north :: 'f
  wm_east :: 'f
  wm_south :: 'f
  wm_west :: 'f
  wm_post :: bool

definition wall_boxes :: "'f flt \<Rightarrow> 'f shape_lib \<Rightarrow> 'f wall_model \<Rightarrow> 'f bbox list" where
  "wall_boxes F S w =
    (let pos = fl_less F (fl_lit F 0);
         north = pos (wm_north w); south = pos (wm_south w); west = pos (wm_west w); east = pos (wm_east w);
         inset = (if \<not> wm_post w \<and> ((north \<and> south \<and> \<not> west \<and> \<not> east) \<or> (\<not> north \<and> \<not> south \<and> west \<and> east)) then 0.3125 else 0.25);
         pull = (\<lambda>keep f b. if keep then b else sh_extend S f (fl_lit F (- inset)) b)
     in [pull east FaceEast (pull west FaceWest (pull south FaceSouth (pull north FaceNorth
           (sh_box S (lit3 F 0 0 0) (lit3 F 1 1.5 1)))))])"

definition wall_face_solid :: "geometry \<Rightarrow> face \<Rightarrow> bool" where
  "wall_face_solid G f \<longleftrightarrow> g_axis G f = AxisY"

section \<open>In exact numbers\<close>

text \<open>What the library says of its boxes: stretching moves both sides of an axis outwards, extending the side of a face.\<close>
definition grow_low :: "nat \<Rightarrow> real \<Rightarrow> real bbox \<Rightarrow> real bbox" where
  "grow_low i r b = (case b of (lo, hi) \<Rightarrow> (vset i (vget i lo - r) lo, hi))"

definition grow_high :: "nat \<Rightarrow> real \<Rightarrow> real bbox \<Rightarrow> real bbox" where
  "grow_high i r b = (case b of (lo, hi) \<Rightarrow> (lo, vset i (vget i hi + r) hi))"

definition axis_index :: "axis \<Rightarrow> nat" where
  "axis_index a = (case a of AxisX \<Rightarrow> 0 | AxisY \<Rightarrow> 1 | AxisZ \<Rightarrow> 2)"

definition real_extend :: "face \<Rightarrow> real \<Rightarrow> real bbox \<Rightarrow> real bbox" where
  "real_extend f = (case f of FaceDown \<Rightarrow> grow_low 1 | FaceUp \<Rightarrow> grow_high 1 | FaceNorth \<Rightarrow> grow_low 2 | FaceSouth \<Rightarrow> grow_high 2
     | FaceWest \<Rightarrow> grow_low 0 | FaceEast \<Rightarrow> grow_high 0)"

definition exact_boxes :: "real shape_lib \<Rightarrow> bool" where
  "exact_boxes S \<longleftrightarrow> (\<forall>lo hi. sh_box S lo hi = (lo, hi))
     \<and> (\<forall>a r b. sh_stretch S a r b = grow_low (axis_index a) r (grow_high (axis_index a) r b))
     \<and> (\<forall>f r b. sh_extend S f r b = real_extend f r b)"

text \<open>A box of a block up to a height, that has the middle of the block in it.\<close>
definition in_block :: "real \<Rightarrow> real bbox \<Rightarrow> bool" where
  "in_block h b \<longleftrightarrow> (case b of ((x, y, z), (x', y', z')) \<Rightarrow>
     0 \<le> x \<and> x \<le> 0.5 \<and> 0.5 \<le> x' \<and> x' \<le> 1 \<and> y = 0 \<and> y' = h \<and> 0 \<le> z \<and> z \<le> 0.5 \<and> 0.5 \<le> z' \<and> z' \<le> 1)"

text \<open>Whether a box ends at a side of the block.\<close>
definition reaches :: "face \<Rightarrow> real bbox \<Rightarrow> bool" where
  "reaches f b = (case b of ((x, y, z), (x', y', z')) \<Rightarrow> case f of
     FaceWest \<Rightarrow> x = 0 | FaceEast \<Rightarrow> x' = 1 | FaceNorth \<Rightarrow> z = 0 | FaceSouth \<Rightarrow> z' = 1 | FaceDown \<Rightarrow> y = 0 | FaceUp \<Rightarrow> y' = 1)"

lemma exact:
  assumes "exact_boxes S"
  shows "sh_box S lo hi = (lo, hi)" "sh_extend S f r b = real_extend f r b"
    "sh_stretch S a r b = grow_low (axis_index a) r (grow_high (axis_index a) r b)"
  using assms unfolding exact_boxes_def by blast+

lemmas shape_simps = lit3_def grow_low_def grow_high_def axis_index_def real_extend_def vset_def vget_def set_vx_def set_vy_def set_vz_def

text \<open>Iron bars fill no more than their block, are as high as it, meet in its middle, and end at a side exactly when they are
  connected there.\<close>
theorem bars_reach_connections:
  assumes "exact_boxes S"
  shows "(\<forall>b \<in> set (iron_bars_boxes real_flt S G U src pos). in_block 1 b)
    \<and> (\<forall>f \<in> {FaceNorth, FaceSouth, FaceWest, FaceEast}.
        (\<exists>b \<in> set (iron_bars_boxes real_flt S G U src pos). reaches f b) \<longleftrightarrow> bars_connect G U src pos f)"
  by (cases "bars_connect G U src pos FaceNorth"; cases "bars_connect G U src pos FaceSouth";
      cases "bars_connect G U src pos FaceWest"; cases "bars_connect G U src pos FaceEast";
      simp add: iron_bars_boxes_def bar_along_def exact[OF assms] shape_simps Let_def in_block_def reaches_def)

text \<open>The one box of a wall, likewise, up to one and a half blocks.\<close>
lemma wall_reaches_connections:
  assumes "exact_boxes S"
  shows "\<exists>b. wall_boxes real_flt S w = [b] \<and> in_block 1.5 b
    \<and> reaches FaceNorth b = (0 < wm_north w) \<and> reaches FaceSouth b = (0 < wm_south w)
    \<and> reaches FaceWest b = (0 < wm_west w) \<and> reaches FaceEast b = (0 < wm_east w)"
  by (cases "0 < wm_north w"; cases "0 < wm_south w"; cases "0 < wm_west w"; cases "0 < wm_east w"; cases "wm_post w";
      simp add: wall_boxes_def exact[OF assms] shape_simps Let_def in_block_def reaches_def)

text \<open>Candles that are registered have a box, inside of the block.\<close>
lemma candles_have_boxes:
  assumes "exact_boxes S"
  shows "is_ok (candle_boxes real_flt S n) \<longleftrightarrow> 1 \<le> n \<and> n \<le> 4"
    and "candle_boxes real_flt S n = Inr [b] \<Longrightarrow> in_block (6 / 16) b"
  by (auto simp: candle_boxes_def candle_box_def exact[OF assms] lit3_def in_block_def split: if_splits)

definition exact_lib :: "real shape_lib" where
  "exact_lib = \<lparr>sh_box = Pair, sh_stretch = \<lambda>a r b. grow_low (axis_index a) r (grow_high (axis_index a) r b), sh_extend = real_extend\<rparr>"

text \<open>Bars next to a wall in the west, and nothing else.\<close>
theorem bars_reach_connections_witness:
  "\<exists>G U src. reaches FaceWest (hd (iron_bars_boxes real_flt exact_lib G (U :: int use_lib) src (0, 0, 0)))
     \<and> \<not> reaches FaceEast (hd (iron_bars_boxes real_flt exact_lib G U src (0, 0, 0)))"
proof -
  let ?G = "undefined\<lparr>g_side := \<lambda>p f. if f = FaceWest then (-1, 0, 0) else (1, 0, 0)\<rparr> :: geometry"
  let ?U = "undefined\<lparr>ul_kind := \<lambda>b. if b = 1 then ''Wall'' else ''Air'', ul_face_solid := \<lambda>_ _ _ _. False\<rparr> :: int use_lib"
  let ?src = "\<lambda>p :: bpos. if p = (-1, 0, 0) then 1 else 0 :: int"
  have "exact_boxes exact_lib" by (simp add: exact_boxes_def exact_lib_def)
  from bars_reach_connections[OF this, of ?G ?U ?src "(0, 0, 0)"]
  have "(\<exists>b \<in> set (iron_bars_boxes real_flt exact_lib ?G ?U ?src (0, 0, 0)). reaches FaceWest b)"
    "\<not> (\<exists>b \<in> set (iron_bars_boxes real_flt exact_lib ?G ?U ?src (0, 0, 0)). reaches FaceEast b)"
    by (simp_all add: bars_connect_def)
  moreover have "length (iron_bars_boxes real_flt exact_lib ?G ?U ?src (0, 0, 0)) = 1"
    by (simp add: iron_bars_boxes_def bar_along_def bars_connect_def Let_def)
  then obtain b where "iron_bars_boxes real_flt exact_lib ?G ?U ?src (0, 0, 0) = [b]" by (auto simp: length_Suc_conv)
  ultimately show ?thesis by (intro exI[of _ ?G] exI[of _ ?U] exI[of _ ?src]) auto
qed

end
