(* ===== verification/Stats.thy ===== *)
theory Stats
  imports Floats "HOL-Library.Multiset"
begin

text \<open>
  The statistics of \<^verbatim>\<open>src/game/stats.go\<close>.  Sorting works in place, so a function that sorts returns the data
  with its result; slices of a slice share its memory.  Sorting and powers are the standard library's.
\<close>

section \<open>Functions\<close>

record 'f stats_lib =
  sl_sort :: "'f list \<Rightarrow> 'f list"
  sl_pow :: "'f \<Rightarrow> nat \<Rightarrow> 'f"

definition stat_count :: "'f flt \<Rightarrow> 'f list \<Rightarrow> 'f" where
  "stat_count F data = fl_of_int F (int (length data))"

definition stat_sum :: "'f flt \<Rightarrow> 'f list \<Rightarrow> 'f" where
  "stat_sum F data = fold (\<lambda>v s. fl_add F s v) data (fl_lit F 0)"

definition stat_mean :: "'f flt \<Rightarrow> 'f list \<Rightarrow> 'f" where
  "stat_mean F data = (if data = [] then fl_lit F 0 else fl_div F (stat_sum F data) (stat_count F data))"

text \<open>The indices are conversions of halves of the count, which truncate.\<close>
definition stat_median :: "'f flt \<Rightarrow> 'f stats_lib \<Rightarrow> 'f list \<Rightarrow> 'f \<times> 'f list" where
  "stat_median F L data =
    (if data = [] then (fl_lit F 0, data)
     else let s = sl_sort L data; n = length data
          in (if odd n then s ! (n div 2)
              else fl_mul F (fl_add F (s ! ((n - 1) div 2)) (s ! (n div 2))) (fl_lit F 0.5), s))"

definition stat_variance :: "'f flt \<Rightarrow> 'f stats_lib \<Rightarrow> 'f list \<Rightarrow> 'f" where
  "stat_variance F L data =
    (if data = [] then fl_lit F 0
     else let mean = fl_div F (stat_sum F data) (stat_count F data)
          in fl_div F (fold (\<lambda>x v. fl_add F v (sl_pow L (fl_sub F x mean) 2)) data (fl_lit F 0)) (stat_count F data))"

text \<open>A second series that is shorter is indexed out of range.\<close>
definition stat_covariance :: "'f flt \<Rightarrow> 'f list \<Rightarrow> 'f list \<Rightarrow> 'f result" where
  "stat_covariance F x y =
    (if length y < length x then Inl (Panic ''index out of range'')
     else let xm = stat_mean F x; ym = stat_mean F y
          in Inr (fl_div F (fold (\<lambda>(a, b) s. fl_add F s (fl_mul F (fl_sub F a xm) (fl_sub F b ym))) (zip x y) (fl_lit F 0))
               (stat_count F x)))"

definition stat_deviation :: "'f flt \<Rightarrow> 'f stats_lib \<Rightarrow> 'f list \<Rightarrow> 'f" where
  "stat_deviation F L data = fl_sqrt F (stat_variance F L data)"

definition stat_correlation :: "'f flt \<Rightarrow> 'f stats_lib \<Rightarrow> 'f list \<Rightarrow> 'f list \<Rightarrow> 'f result" where
  "stat_correlation F L x y = bind_result (stat_covariance F x y) (\<lambda>c.
     let d = fl_mul F (stat_deviation F L x) (stat_deviation F L y)
     in if fl_eq F d (fl_lit F 0) then Inr (fl_lit F 0) else Inr (fl_div F c d))"

text \<open>The variance is that of the data after the median has sorted it.\<close>
definition stat_skewness :: "'f flt \<Rightarrow> 'f stats_lib \<Rightarrow> 'f list \<Rightarrow> 'f \<times> 'f list" where
  "stat_skewness F L data =
    (let mean = fl_div F (stat_sum F data) (stat_count F data); (median, data) = stat_median F L data; v = stat_variance F L data
     in (if fl_less F (fl_lit F 0) v then fl_div F (fl_mul F (fl_lit F 3) (fl_sub F mean median)) v else fl_lit F 0, data))"

definition stat_kurtosis :: "'f flt \<Rightarrow> 'f stats_lib \<Rightarrow> 'f list \<Rightarrow> 'f" where
  "stat_kurtosis F L data =
    (let sum = stat_sum F data; n = stat_count F data; lit = fl_lit F; sub = (\<lambda>k. fl_sub F n (lit k)); mul = fl_mul F; dv = fl_div F
     in if fl_eq F sum (lit 0) \<or> fl_le F n (lit 2) then lit 0
        else
          let first = dv (mul n (fl_add F n (lit 1))) (mul (mul (sub 1) (sub 2)) (sub 3));
              second = dv (mul (lit 3) (sl_pow L (sub 1) 2)) (mul (sub 2) (sub 3));
              average = stat_mean F data;
              v = fold (\<lambda>x v. fl_add F v (sl_pow L (fl_sub F average x) 2)) data (lit 0);
              w = fold (\<lambda>x v. fl_add F v (sl_pow L (fl_sub F average x) 4)) data (lit 0)
          in fl_sub F (mul first (dv w (sl_pow L (dv v sum) 2))) second)"

text \<open>For an offset and a length that are not negative.\<close>
definition stat_splice :: "'f list \<Rightarrow> nat \<Rightarrow> nat \<Rightarrow> 'f list" where
  "stat_splice data offset len =
    (if length data < offset then []
     else if offset + len < length data then take len (drop offset data)
     else drop offset data)"

text \<open>The medians sort the two halves of the collection in place.\<close>
definition stat_outliers :: "'f flt \<Rightarrow> 'f stats_lib \<Rightarrow> 'f list \<Rightarrow> nat \<times> 'f list" where
  "stat_outliers F L collection =
    (let h = (length collection + 1) div 2;
         (q1, low) = stat_median F L (stat_splice collection 0 h);
         (q3, high) = stat_median F L (stat_splice collection h (length collection));
         iqr = fl_abs F (fl_sub F q1 q3);
         low_threshold = fl_sub F q1 (fl_mul F (fl_lit F 1.5) iqr);
         high_threshold = fl_add F q3 (fl_mul F (fl_lit F 1.5) iqr);
         c = low @ high
     in (length (filter (\<lambda>v. fl_less F v low_threshold) c)
         + length (filter (\<lambda>v. \<not> fl_less F v low_threshold \<and> fl_less F high_threshold v) c), c))"

section \<open>In exact numbers\<close>

definition exact_stats :: "real stats_lib \<Rightarrow> bool" where
  "exact_stats L \<longleftrightarrow> (\<forall>xs. sl_sort L xs = sort xs) \<and> (\<forall>x n. sl_pow L x n = x ^ n)"

lemma sum_exact: "stat_sum real_flt data = sum_list data"
proof -
  have "fold (\<lambda>v s. s + v) data s = s + sum_list data" for s :: real by (induction data arbitrary: s) simp_all
  then show ?thesis by (simp add: stat_sum_def)
qed

lemma count_exact: "stat_count real_flt data = real (length data)"
  by (simp add: stat_count_def)

lemma mean_exact: "stat_mean real_flt data * real (length data) = sum_list data"
  by (simp add: stat_mean_def sum_exact count_exact)

lemma fold_sum: "fold (\<lambda>x v. v + f x) data s = s + sum_list (map f data)" for s :: real
  by (induction data arbitrary: s) simp_all

lemma variance_exact:
  assumes "exact_stats L" "data \<noteq> []"
  shows "stat_variance real_flt L data = sum_list (map (\<lambda>x. (x - stat_mean real_flt data)\<^sup>2) data) / real (length data)"
  using assms by (simp add: stat_variance_def exact_stats_def stat_mean_def fold_sum count_exact Let_def)

lemma variance_nonneg: "exact_stats L \<Longrightarrow> 0 \<le> stat_variance real_flt L data"
proof (cases "data = []")
  case False
  assume "exact_stats L"
  moreover have "0 \<le> sum_list (map (\<lambda>x. (x - stat_mean real_flt data)\<^sup>2) data)" by (rule sum_list_nonneg) auto
  ultimately show ?thesis using False by (simp add: variance_exact)
qed (simp add: stat_variance_def)

text \<open>The variance is the mean of the squares less the square of the mean.\<close>
lemma variance_moments:
  assumes "exact_stats L" "data \<noteq> []"
  shows "stat_variance real_flt L data = stat_mean real_flt (map (\<lambda>x. x\<^sup>2) data) - (stat_mean real_flt data)\<^sup>2"
proof -
  let ?n = "real (length data)" and ?m = "stat_mean real_flt data"
  have "sum_list (map (\<lambda>x. (x - m)\<^sup>2) data) = sum_list (map (\<lambda>x. x\<^sup>2) data) - 2 * m * sum_list data + real (length data) * m\<^sup>2" for m
    by (induction data) (simp_all add: power2_diff algebra_simps)
  then have "stat_variance real_flt L data = (sum_list (map (\<lambda>x. x\<^sup>2) data) - 2 * ?m * (?m * ?n) + ?n * ?m\<^sup>2) / ?n"
    using variance_exact[OF assms] mean_exact[of data] by simp
  also have "\<dots> = sum_list (map (\<lambda>x. x\<^sup>2) data) / ?n - ?m\<^sup>2" using assms(2) by (simp add: field_simps power2_eq_square)
  finally show ?thesis using assms(2) by (simp add: stat_mean_def sum_exact count_exact)
qed

text \<open>At least half of the data is at most the median, and at least half is at least the median; the data is sorted.\<close>
lemma median_sorts: "exact_stats L \<Longrightarrow> snd (stat_median real_flt L data) = sort data"
  by (simp add: stat_median_def exact_stats_def Let_def)

lemma median_between:
  assumes "exact_stats L" "data \<noteq> []"
  shows "sort data ! ((length data - 1) div 2) \<le> fst (stat_median real_flt L data)
    \<and> fst (stat_median real_flt L data) \<le> sort data ! (length data div 2)"
proof -
  let ?n = "length data"
  have le: "sort data ! ((?n - 1) div 2) \<le> sort data ! (?n div 2)"
    using assms(2) by (intro sorted_nth_mono) (simp_all add: div_le_mono)
  show ?thesis
  proof (cases "odd ?n")
    case True
    then have "(?n - 1) div 2 = ?n div 2" by (auto elim: oddE)
    with True assms show ?thesis by (simp add: stat_median_def exact_stats_def Let_def)
  next
    case False
    with assms le show ?thesis by (simp add: stat_median_def exact_stats_def Let_def)
  qed
qed

text \<open>Counting outliers reorders the data that it is given.\<close>
lemma outliers_reorder:
  assumes "exact_stats L"
  shows "snd (stat_outliers real_flt L c) = sort (take ((length c + 1) div 2) c) @ sort (drop ((length c + 1) div 2) c)"
    and "mset (snd (stat_outliers real_flt L c)) = mset c"
proof -
  let ?h = "(length c + 1) div 2"
  have "stat_splice c 0 ?h = take ?h c" "stat_splice c ?h (length c) = drop ?h c" by (auto simp: stat_splice_def)
  then show s: "snd (stat_outliers real_flt L c) = sort (take ?h c) @ sort (drop ?h c)"
    using median_sorts[OF assms] by (simp add: stat_outliers_def Let_def case_prod_beta)
  show "mset (snd (stat_outliers real_flt L c)) = mset c" by (simp only: s mset_append mset_sort) (simp only: mset_append[symmetric] append_take_drop_id)
qed

text \<open>The number of outliers depends on the order of the data.\<close>
definition demo_stats :: "int stats_lib" where
  "demo_stats = \<lparr>sl_sort = sort, sl_pow = \<lambda>x n. if n = 2 then x * x div 1000 else (x * x div 1000) * (x * x div 1000) div 1000\<rparr>"

lemma outliers_depend_on_order:
  "fst (stat_outliers demo_flt demo_stats [1000, 2000, 3000, 4000, 5000, 90000])
    \<noteq> fst (stat_outliers demo_flt demo_stats [90000, 1000, 5000, 2000, 3000, 4000])"
  by code_simp

lemma short_series_panics: "length y < length x \<Longrightarrow> \<not> is_ok (stat_correlation F L x y)"
  by (simp add: stat_correlation_def stat_covariance_def)

end
