(* ===== verification/ClientPackets.thy ===== *)
theory ClientPackets
  imports ItemUse Commands HandleMovement
begin

text \<open>
  The packets of the client: \<^verbatim>\<open>HandleClientPacket\<close> of \<^verbatim>\<open>src/player/packet.go\<close> and
  \<^verbatim>\<open>tryRunningClientCombat\<close> of \<^verbatim>\<open>combat.go\<close>.  The player holds its components behind interfaces, and so
  does the model: their operations are the fields of a record over a state of any type.
\<close>

section \<open>Components and packets\<close>

text \<open>What the handler calls.  An operation that may panic yields a result; what the input holds besides the fields that the handler
  reads is \<^verbatim>\<open>'d\<close>.\<close>
record ('s, 'd, 'q, 'tr, 'n, 'f) client_ops =
  cl_mv :: "'s \<Rightarrow> 'f mv"
  cl_set_mv :: "'f mv \<Rightarrow> 's \<Rightarrow> 's"
  cl_command_name :: string
  cl_track_client :: bool
  cl_command :: "string \<Rightarrow> string list \<Rightarrow> 's \<Rightarrow> bool \<times> 's"
  cl_disconnect :: "'s \<Rightarrow> 's"
  cl_set_input_mode :: "int \<Rightarrow> 's \<Rightarrow> 's"
  cl_attack_none :: "'s \<Rightarrow> 's result"
  cl_acks_tick :: "'s \<Rightarrow> 's"
  cl_execute :: "int \<Rightarrow> 's \<Rightarrow> (bool \<times> 's) result"
  cl_request :: "'q \<Rightarrow> 's \<Rightarrow> 's result"
  cl_block_actions :: "'d \<Rightarrow> 's \<Rightarrow> 's result"
  cl_movement :: "'d \<Rightarrow> 's \<Rightarrow> ('d \<times> 's) result"
  cl_breaking :: "'s \<Rightarrow> bool"
  cl_calculate :: "'s \<Rightarrow> (bool \<times> 's) result"
  cl_reset_combat :: "'s \<Rightarrow> 's"
  cl_count_attack :: "'s \<Rightarrow> 's"
  cl_clicks_swing :: "'s \<Rightarrow> 's"
  cl_clicks_tick :: "'s \<Rightarrow> 's"
  cl_tracker_tick :: "'s \<Rightarrow> 's"
  cl_client_calculate :: "'s \<Rightarrow> 's result"
  cl_set_radius :: "int \<Rightarrow> 's \<Rightarrow> 's"
  cl_transaction :: "'tr \<Rightarrow> 's \<Rightarrow> (outcome \<times> 's) result"
  cl_equipment :: "int \<Rightarrow> int \<Rightarrow> 'n \<Rightarrow> 's \<Rightarrow> 's"
  cl_swing :: "'s \<Rightarrow> 's"
  cl_stack_request :: "'q list \<Rightarrow> 's \<Rightarrow> 's result"

record ('d, 'q) input_packet =
  ip_mode :: int
  ip_missed_swing :: bool
  ip_request :: "'q option"
  ip_rest :: 'd

datatype ('d, 'q, 'tr, 'n) from_client =
    CpViolation
  | CpCommand string
  | CpScript string
  | CpInput "('d, 'q) input_packet"
  | CpLatency int
  | CpRadius int
  | CpTransaction 'tr
  | CpEquipment int int 'n
  | CpAnimate bool
  | CpStackRequest "'q list"
  | CpSound bool
  | CpOther

text \<open>The context: the packet as it is now, whether it was changed, whether it is kept from the server, and whether the
  detections are to see it.\<close>
record ('d, 'q, 'tr, 'n) packet_ctx =
  pc_packet :: "('d, 'q, 'tr, 'n) from_client"
  pc_modified :: bool
  pc_cancelled :: bool
  pc_seen :: bool

definition passes :: "('d, 'q, 'tr, 'n) from_client \<Rightarrow> ('d, 'q, 'tr, 'n) packet_ctx" where
  "passes pk = \<lparr>pc_packet = pk, pc_modified = False, pc_cancelled = False, pc_seen = True\<rparr>"

definition leaves :: "bool \<Rightarrow> ('d, 'q, 'tr, 'n) from_client \<Rightarrow> ('d, 'q, 'tr, 'n) packet_ctx" where
  "leaves cancelled pk = (passes pk)\<lparr>pc_cancelled := cancelled, pc_seen := False\<rparr>"

section \<open>The handlers\<close>

definition try_client_combat ::
  "('s, 'd, 'q, 'tr, 'n, 'f) client_ops \<Rightarrow> bool \<Rightarrow> 's \<Rightarrow> 's result" where
  "try_client_combat C missed s =
    (let s = cl_count_attack C s; s = (if missed then cl_clicks_swing C s else s); s = cl_clicks_tick C s
     in if cl_track_client C then cl_client_calculate C (cl_tracker_tick C s) else Inr s)"

text \<open>A line for the program goes to the event handler, and to the server only if that says so.\<close>
definition handle_command_request ::
  "('s, 'd, 'q, 'tr, 'n, 'f) client_ops \<Rightarrow> string \<Rightarrow> 's \<Rightarrow> ('d, 'q, 'tr, 'n) packet_ctx \<times> 's" where
  "handle_command_request C line s = (case split_command_line line of
      first # sub # args \<Rightarrow>
        if first = CHR ''/'' # cl_command_name C
        then (case cl_command C sub args s of (cancelled, s) \<Rightarrow> (leaves (\<not> cancelled) (CpCommand line), s))
        else (passes (CpCommand line), s)
    | _ \<Rightarrow> (passes (CpCommand line), s))"

fun contains_text :: "string \<Rightarrow> string \<Rightarrow> bool" where
  "contains_text p s = (take (length p) s = p \<or> (case s of [] \<Rightarrow> False | _ # t \<Rightarrow> contains_text p t))"

declare contains_text.simps [simp del]

text \<open>The fight after the movement: a hit that the server has verified takes the missed swing from the packet.\<close>
definition input_combat ::
  "('s, 'd, 'q, 'tr, 'n, 'f) client_ops \<Rightarrow> bool \<Rightarrow> ('d, 'q) input_packet \<Rightarrow> 's \<Rightarrow> (('d, 'q) input_packet \<times> 's) result" where
  "input_combat C missed pk s =
    bind_result (if \<not> cl_breaking C s then cl_calculate C s else Inr (False, cl_reset_combat C s)) (\<lambda>(hit, s).
      Inr (if hit \<and> missed then pk\<lparr>ip_missed_swing := False\<rparr> else pk, s))"

definition handle_input ::
  "('s, 'd, 'q, 'tr, 'n, 'f) client_ops \<Rightarrow> ('d, 'q) input_packet \<Rightarrow> 's \<Rightarrow> (('d, 'q, 'tr, 'n) packet_ctx \<times> 's) result" where
  "handle_input C pk s =
    (let (ok, m) = input_acceptable (cl_mv C s); s = cl_set_mv C m s
     in if \<not> ok
        then bind_result (try_client_combat C (ip_missed_swing pk) s) (\<lambda>s. Inr ((passes (CpInput pk))\<lparr>pc_cancelled := True\<rparr>, s))
        else
          let s = cl_set_input_mode C (ip_mode pk) s; missed = (ip_mode pk \<noteq> mode_touch \<and> ip_missed_swing pk)
          in bind_result (if missed then cl_attack_none C s else Inr s) (\<lambda>s.
             bind_result (case ip_request pk of None \<Rightarrow> Inr (cl_acks_tick C s) | Some q \<Rightarrow> cl_request C q (cl_acks_tick C s)) (\<lambda>s.
             bind_result (cl_block_actions C (ip_rest pk) s) (\<lambda>s.
             bind_result (cl_movement C (ip_rest pk) s) (\<lambda>(d, s).
             bind_result (try_client_combat C (ip_missed_swing pk) s) (\<lambda>s.
             bind_result (input_combat C missed (pk\<lparr>ip_rest := d\<rparr>) s) (\<lambda>(pk, s).
             Inr ((passes (CpInput pk))\<lparr>pc_modified := True\<rparr>, s))))))))"

definition handle_client_packet ::
  "('s, 'd, 'q, 'tr, 'n, 'f) client_ops \<Rightarrow> ('d, 'q, 'tr, 'n) from_client \<Rightarrow> 's \<Rightarrow> (('d, 'q, 'tr, 'n) packet_ctx \<times> 's) result" where
  "handle_client_packet C pk s = (case pk of
      CpCommand line \<Rightarrow> Inr (handle_command_request C line s)
    | CpScript identifier \<Rightarrow>
        if contains_text ''KillLime:'' identifier then Inr (leaves False pk, cl_disconnect C s) else Inr (passes pk, s)
    | CpInput i \<Rightarrow> handle_input C i s
    | CpLatency timestamp \<Rightarrow> bind_result (cl_execute C timestamp s) (\<lambda>(answered, s).
        Inr (if answered then leaves True pk else passes pk, s))
    | CpRadius r \<Rightarrow> Inr (passes pk, cl_set_radius C (r + 4) s)
    | CpTransaction tr \<Rightarrow> bind_result (cl_transaction C tr s) (\<lambda>(o', s).
        Inr ((passes pk)\<lparr>pc_cancelled := oc_cancelled o', pc_seen := oc_detected o'\<rparr>, s))
    | CpEquipment w slot item \<Rightarrow> Inr (passes pk, cl_equipment C w slot item s)
    | CpAnimate swing_arm \<Rightarrow> Inr (passes pk, if swing_arm then cl_swing C s else s)
    | CpStackRequest qs \<Rightarrow> bind_result (cl_stack_request C qs s) (\<lambda>s. Inr (passes pk, s))
    | CpSound attack_no_damage \<Rightarrow>
        if attack_no_damage then bind_result (cl_attack_none C s) (\<lambda>s. Inr (passes pk, cl_clicks_swing C s)) else Inr (passes pk, s)
    | _ \<Rightarrow> Inr (passes pk, s))"

text \<open>The detections see the packet as the handler leaves it.\<close>
fun run_detections :: "('p \<Rightarrow> 's \<Rightarrow> 's) list \<Rightarrow> 'p \<Rightarrow> 's \<Rightarrow> 's" where
  "run_detections [] pk s = s"
| "run_detections (d # ds) pk s = run_detections ds pk (d pk s)"

definition process_client_packet ::
  "('s, 'd, 'q, 'tr, 'n, 'f) client_ops \<Rightarrow> (('d, 'q, 'tr, 'n) from_client \<Rightarrow> 's \<Rightarrow> 's) list
   \<Rightarrow> ('d, 'q, 'tr, 'n) from_client \<Rightarrow> 's \<Rightarrow> (('d, 'q, 'tr, 'n) packet_ctx \<times> 's) result" where
  "process_client_packet C ds pk s = bind_result (handle_client_packet C pk s) (\<lambda>(ctx, s).
     Inr (ctx, if pc_seen ctx then run_detections ds (pc_packet ctx) s else s))"

section \<open>What reaches the detections and the server\<close>

text \<open>The detections see every input, the rejected ones too.\<close>
lemma inputs_are_seen: "handle_input C pk s = Inr (ctx, s') \<Longrightarrow> pc_seen ctx"
  by (auto simp: handle_input_def bind_result_Inr_iff passes_def Let_def split: prod.splits if_splits)

text \<open>Script messages in the name of the program disconnect the player, and are still forwarded, unseen.\<close>
lemma spoofed_script_forwarded:
  "contains_text ''KillLime:'' i \<Longrightarrow>
    handle_client_packet C (CpScript i) s = Inr (leaves False (CpScript i), cl_disconnect C s) \<and> \<not> pc_cancelled (leaves False (CpScript i))"
  by (simp add: handle_client_packet_def leaves_def passes_def)

text \<open>Only inputs are changed on their way.\<close>
lemma others_unchanged:
  assumes "handle_client_packet C pk s = Inr (ctx, s')" "\<And>i. pk \<noteq> CpInput i"
  shows "pc_packet ctx = pk \<and> \<not> pc_modified ctx"
  using assms
  by (cases pk) (auto simp: handle_client_packet_def handle_command_request_def bind_result_Inr_iff leaves_def passes_def
      split: list.splits if_splits prod.splits)

section \<open>Inputs are forwarded at the pace of the server\<close>

text \<open>An operation that leaves the allowance for inputs alone; only accepting an input and the tick of the server change it.\<close>
definition same_allowance :: "('s, 'd, 'q, 'tr, 'n, 'f) client_ops \<Rightarrow> 's \<Rightarrow> 's \<Rightarrow> bool" where
  "same_allowance C s s' \<longleftrightarrow> in_allowed (mv_inputs (cl_mv C s')) = in_allowed (mv_inputs (cl_mv C s))
     \<and> in_first (mv_inputs (cl_mv C s')) = in_first (mv_inputs (cl_mv C s))"

definition all_results :: "('a \<Rightarrow> bool) \<Rightarrow> 'a result \<Rightarrow> bool" where
  "all_results P r = (case r of Inl _ \<Rightarrow> True | Inr x \<Rightarrow> P x)"

text \<open>The contract of the components with the movement component: the allowance is its own.\<close>
definition keeps_allowance :: "('s, 'd, 'q, 'tr, 'n, 'f) client_ops \<Rightarrow> bool" where
  "keeps_allowance C \<longleftrightarrow> (\<forall>s.
     (\<forall>m. cl_mv C (cl_set_mv C m s) = m)
     \<and> (\<forall>n as. same_allowance C s (snd (cl_command C n as s))) \<and> same_allowance C s (cl_disconnect C s)
     \<and> (\<forall>m. same_allowance C s (cl_set_input_mode C m s)) \<and> all_results (same_allowance C s) (cl_attack_none C s)
     \<and> same_allowance C s (cl_acks_tick C s) \<and> (\<forall>t. all_results (\<lambda>(_, s'). same_allowance C s s') (cl_execute C t s))
     \<and> (\<forall>q. all_results (same_allowance C s) (cl_request C q s)) \<and> (\<forall>d. all_results (same_allowance C s) (cl_block_actions C d s))
     \<and> (\<forall>d. all_results (\<lambda>(_, s'). same_allowance C s s') (cl_movement C d s))
     \<and> all_results (\<lambda>(_, s'). same_allowance C s s') (cl_calculate C s) \<and> same_allowance C s (cl_reset_combat C s)
     \<and> same_allowance C s (cl_count_attack C s) \<and> same_allowance C s (cl_clicks_swing C s) \<and> same_allowance C s (cl_clicks_tick C s)
     \<and> same_allowance C s (cl_tracker_tick C s) \<and> all_results (same_allowance C s) (cl_client_calculate C s)
     \<and> (\<forall>r. same_allowance C s (cl_set_radius C r s)) \<and> (\<forall>tr. all_results (\<lambda>(_, s'). same_allowance C s s') (cl_transaction C tr s))
     \<and> (\<forall>w i n. same_allowance C s (cl_equipment C w i n s)) \<and> same_allowance C s (cl_swing C s)
     \<and> (\<forall>qs. all_results (same_allowance C s) (cl_stack_request C qs s)))"

lemma same_allowance_trans [trans]: "same_allowance C a b \<Longrightarrow> same_allowance C b c \<Longrightarrow> same_allowance C a c"
  by (simp add: same_allowance_def)

lemma same_allowance_refl [simp]: "same_allowance C a a"
  by (simp add: same_allowance_def)

lemma all_results_Inr: "all_results P r \<Longrightarrow> r = Inr x \<Longrightarrow> P x"
  by (simp add: all_results_def)

lemma keeps_simple:
  assumes "keeps_allowance C"
  shows "cl_mv C (cl_set_mv C m s) = m" "same_allowance C s (snd (cl_command C n as s))" "same_allowance C s (cl_disconnect C s)"
    "same_allowance C s (cl_set_input_mode C i s)" "same_allowance C s (cl_acks_tick C s)" "same_allowance C s (cl_reset_combat C s)"
    "same_allowance C s (cl_count_attack C s)" "same_allowance C s (cl_clicks_swing C s)" "same_allowance C s (cl_clicks_tick C s)"
    "same_allowance C s (cl_tracker_tick C s)" "same_allowance C s (cl_set_radius C i s)" "same_allowance C s (cl_equipment C i j it s)"
    "same_allowance C s (cl_swing C s)"
  using assms unfolding keeps_allowance_def by blast+

lemma keeps_all:
  assumes "keeps_allowance C"
  shows "all_results (same_allowance C s) (cl_attack_none C s)" "all_results (\<lambda>(_, s'). same_allowance C s s') (cl_execute C t s)"
    "all_results (same_allowance C s) (cl_request C q s)" "all_results (same_allowance C s) (cl_block_actions C d s)"
    "all_results (\<lambda>(_, s'). same_allowance C s s') (cl_movement C d s)" "all_results (\<lambda>(_, s'). same_allowance C s s') (cl_calculate C s)"
    "all_results (same_allowance C s) (cl_client_calculate C s)" "all_results (\<lambda>(_, s'). same_allowance C s s') (cl_transaction C tr s)"
    "all_results (same_allowance C s) (cl_stack_request C qs s)"
  using assms unfolding keeps_allowance_def by blast+

lemma keeps_results:
  assumes "keeps_allowance C"
  shows "cl_attack_none C s = Inr s' \<Longrightarrow> same_allowance C s s'" "cl_execute C t s = Inr (b, s') \<Longrightarrow> same_allowance C s s'"
    "cl_request C q s = Inr s' \<Longrightarrow> same_allowance C s s'" "cl_block_actions C d s = Inr s' \<Longrightarrow> same_allowance C s s'"
    "cl_movement C d s = Inr (d', s') \<Longrightarrow> same_allowance C s s'" "cl_calculate C s = Inr (b, s') \<Longrightarrow> same_allowance C s s'"
    "cl_client_calculate C s = Inr s' \<Longrightarrow> same_allowance C s s'" "cl_transaction C tr s = Inr (oc, s') \<Longrightarrow> same_allowance C s s'"
    "cl_stack_request C qs s = Inr s' \<Longrightarrow> same_allowance C s s'"
  by (fastforce dest: all_results_Inr[OF keeps_all(1)[OF assms]] all_results_Inr[OF keeps_all(2)[OF assms]]
      all_results_Inr[OF keeps_all(3)[OF assms]] all_results_Inr[OF keeps_all(4)[OF assms]] all_results_Inr[OF keeps_all(5)[OF assms]]
      all_results_Inr[OF keeps_all(6)[OF assms]] all_results_Inr[OF keeps_all(7)[OF assms]] all_results_Inr[OF keeps_all(8)[OF assms]]
      all_results_Inr[OF keeps_all(9)[OF assms]])+

lemma client_combat_keeps:
  assumes "keeps_allowance C" "try_client_combat C m s = Inr s'"
  shows "same_allowance C s s'"
proof -
  let ?a = "cl_count_attack C s" let ?b = "if m then cl_clicks_swing C ?a else ?a" let ?c = "cl_clicks_tick C ?b"
  have "same_allowance C s ?a" by (rule keeps_simple[OF assms(1)])
  also have "same_allowance C ?a ?b" using keeps_simple[OF assms(1)] by simp
  also have "same_allowance C ?b ?c" by (rule keeps_simple[OF assms(1)])
  finally have c: "same_allowance C s ?c" .
  show ?thesis
  proof (cases "cl_track_client C")
    case True
    with assms(2) have "cl_client_calculate C (cl_tracker_tick C ?c) = Inr s'" by (simp add: try_client_combat_def Let_def)
    from keeps_results(7)[OF assms(1) this] keeps_simple(10)[OF assms(1)] c show ?thesis by (blast intro: same_allowance_trans)
  next
    case False
    with assms(2) c show ?thesis by (simp add: try_client_combat_def Let_def)
  qed
qed

lemma input_combat_keeps:
  assumes "keeps_allowance C" "input_combat C m pk s = Inr (pk', s')"
  shows "same_allowance C s s'"
  using assms(2) keeps_results(6)[OF assms(1)] keeps_simple(6)[OF assms(1)]
  by (auto simp: input_combat_def bind_result_Inr_iff split: if_splits)

text \<open>The steps of an accepted input.\<close>
lemma input_keeps:
  assumes "keeps_allowance C" "input_acceptable (cl_mv C s) = (True, m)" "handle_input C pk s = Inr (ctx, s')"
  shows "same_allowance C (cl_set_mv C m s) s'"
proof -
  let ?s = "cl_set_mv C m s" let ?missed = "ip_mode pk \<noteq> mode_touch \<and> ip_missed_swing pk"
  let ?a = "cl_set_input_mode C (ip_mode pk) ?s"
  from assms(2,3) obtain b c d e f g h where
    b: "(if ?missed then cl_attack_none C ?a else Inr ?a) = Inr b"
    and c: "(case ip_request pk of None \<Rightarrow> Inr (cl_acks_tick C b) | Some q \<Rightarrow> cl_request C q (cl_acks_tick C b)) = Inr c"
    and d: "cl_block_actions C (ip_rest pk) c = Inr d" and e: "cl_movement C (ip_rest pk) d = Inr (e, f)"
    and g: "try_client_combat C (ip_missed_swing pk) f = Inr g" and h: "input_combat C ?missed (pk\<lparr>ip_rest := e\<rparr>) g = Inr (h, s')"
    by (auto simp: handle_input_def bind_result_Inr_iff Let_def)
  have "same_allowance C ?s ?a" by (rule keeps_simple[OF assms(1)])
  also have "same_allowance C ?a b" using b keeps_results(1)[OF assms(1)] by (auto split: if_splits)
  also have "same_allowance C b (cl_acks_tick C b)" by (rule keeps_simple[OF assms(1)])
  also have "same_allowance C (cl_acks_tick C b) c" using c keeps_results(3)[OF assms(1)] by (auto split: option.splits)
  also have "same_allowance C c d" by (rule keeps_results(4)[OF assms(1) d])
  also have "same_allowance C d f" by (rule keeps_results(5)[OF assms(1) e])
  also have "same_allowance C f g" by (rule client_combat_keeps[OF assms(1) g])
  also have "same_allowance C g s'" by (rule input_combat_keeps[OF assms(1) h])
  finally show ?thesis .
qed

definition allowance :: "('s, 'd, 'q, 'tr, 'n, 'f) client_ops \<Rightarrow> 's \<Rightarrow> int" where
  "allowance C s = allowed_inputs (cl_mv C s)"

definition started :: "('s, 'd, 'q, 'tr, 'n, 'f) client_ops \<Rightarrow> 's \<Rightarrow> bool" where
  "started C s \<longleftrightarrow> in_first (mv_inputs (cl_mv C s))"

text \<open>An input that is forwarded.\<close>
definition forwards_input :: "('d, 'q, 'tr, 'n) packet_ctx \<Rightarrow> bool" where
  "forwards_input ctx \<longleftrightarrow> \<not> pc_cancelled ctx \<and> (case pc_packet ctx of CpInput _ \<Rightarrow> True | _ \<Rightarrow> False)"

lemma same_allowance_D: "same_allowance C s s' \<Longrightarrow> allowance C s' = allowance C s \<and> started C s' = started C s"
  by (simp add: same_allowance_def allowance_def started_def allowed_inputs_def)

lemma input_pays:
  assumes "keeps_allowance C" "handle_input C pk s = Inr (ctx, s')"
  shows "allowance C s' + of_bool (forwards_input ctx) \<le> allowance C s \<and> started C s'"
proof -
  obtain ok m where a: "input_acceptable (cl_mv C s) = (ok, m)" by fastforce
  have s: "allowance C (cl_set_mv C m s) = allowance C s - of_bool ok" "started C (cl_set_mv C m s)"
    using input_acceptable_allowed[OF a] keeps_simple(1)[OF assms(1)] by (simp_all add: allowance_def started_def)
  show ?thesis
  proof (cases ok)
    case True
    with same_allowance_D[OF input_keeps[OF assms(1) _ assms(2)]] a s show ?thesis by simp
  next
    case False
    with a assms(2) obtain "try_client_combat C (ip_missed_swing pk) (cl_set_mv C m s) = Inr s'" "pc_cancelled ctx"
      by (auto simp: handle_input_def bind_result_Inr_iff)
    with same_allowance_D[OF client_combat_keeps[OF assms(1)]] s False show ?thesis by (simp add: forwards_input_def)
  qed
qed

lemma packet_pays:
  assumes "keeps_allowance C" "handle_client_packet C pk s = Inr (ctx, s')"
  shows "allowance C s' + of_bool (forwards_input ctx) \<le> allowance C s \<and> (started C s \<longrightarrow> started C s')"
proof (cases "\<exists>i. pk = CpInput i")
  case True
  then obtain i where "handle_input C i s = Inr (ctx, s')" using assms(2) by (auto simp: handle_client_packet_def)
  from input_pays[OF assms(1) this] show ?thesis by simp
next
  case False
  then have "\<not> forwards_input ctx" using others_unchanged[OF assms(2)] by (auto simp: forwards_input_def split: from_client.splits)
  moreover have "same_allowance C s s'"
  proof (cases pk)
    case (CpCommand line)
    with assms(2) have "s' = s \<or> (\<exists>n as. s' = snd (cl_command C n as s))"
      by (auto simp: handle_client_packet_def handle_command_request_def split: list.splits if_splits prod.splits) (metis snd_conv)+
    with keeps_simple(2)[OF assms(1)] show ?thesis by auto
  next
    case (CpSound b)
    show ?thesis
    proof (cases b)
      case True
      with CpSound assms(2) obtain t where "cl_attack_none C s = Inr t" "s' = cl_clicks_swing C t"
        by (auto simp: handle_client_packet_def bind_result_Inr_iff)
      with keeps_results(1)[OF assms(1)] keeps_simple(8)[OF assms(1)] show ?thesis by (blast intro: same_allowance_trans)
    qed (use CpSound assms(2) in \<open>simp add: handle_client_packet_def\<close>)
  qed (use assms(2) False keeps_simple[OF assms(1)] keeps_results[OF assms(1)] in
      \<open>auto simp: handle_client_packet_def bind_result_Inr_iff split: if_splits\<close>)
  ultimately show ?thesis using same_allowance_D[of C s s'] by simp
qed

section \<open>The link of a client with the server\<close>

text \<open>What happens to a player: a packet of the client, a tick of the server, anything else.  A panic ends the session.\<close>
datatype ('s, 'd, 'q, 'tr, 'n) link_event =
    LkPacket "('d, 'q, 'tr, 'n) from_client"
  | LkTick int int int
  | LkOther "'s \<Rightarrow> 's"

text \<open>How many inputs a run forwards to the server.\<close>
fun link_run ::
  "('s, 'd, 'q, 'tr, 'n, 'f) client_ops \<Rightarrow> (('d, 'q, 'tr, 'n) from_client \<Rightarrow> 's \<Rightarrow> 's) list
   \<Rightarrow> ('s, 'd, 'q, 'tr, 'n) link_event list \<Rightarrow> 's \<Rightarrow> nat" where
  "link_run C ds [] s = 0"
| "link_run C ds (LkPacket pk # evs) s = (case process_client_packet C ds pk s of
     Inl _ \<Rightarrow> 0
   | Inr (ctx, s) \<Rightarrow> of_bool (forwards_input ctx) + link_run C ds evs s)"
| "link_run C ds (LkTick sv cl el # evs) s = link_run C ds evs (cl_set_mv C (mv_tick sv cl el (cl_mv C s)) s)"
| "link_run C ds (LkOther f # evs) s = link_run C ds evs (f s)"

fun link_ticks :: "('s, 'd, 'q, 'tr, 'n) link_event list \<Rightarrow> int" where
  "link_ticks [] = 0"
| "link_ticks (LkTick sv cl el # evs) = max 1 el + link_ticks evs"
| "link_ticks (_ # evs) = link_ticks evs"

text \<open>The detections and the other events leave the allowance to the movement component.\<close>
definition link_keeps ::
  "('s, 'd, 'q, 'tr, 'n, 'f) client_ops \<Rightarrow> (('d, 'q, 'tr, 'n) from_client \<Rightarrow> 's \<Rightarrow> 's) list
   \<Rightarrow> ('s, 'd, 'q, 'tr, 'n) link_event list \<Rightarrow> bool" where
  "link_keeps C ds evs \<longleftrightarrow> keeps_allowance C \<and> (\<forall>d \<in> set ds. \<forall>pk s. same_allowance C s (d pk s))
     \<and> (\<forall>f s. LkOther f \<in> set evs \<longrightarrow> same_allowance C s (f s))"

lemma detections_keep:
  "\<forall>d \<in> set ds. \<forall>pk s. same_allowance C s (d pk s) \<Longrightarrow> same_allowance C s (run_detections ds pk s)"
proof (induction ds arbitrary: s)
  case (Cons d ds)
  then have "same_allowance C s (d pk s)" "same_allowance C (d pk s) (run_detections ds pk (d pk s))" by simp_all
  then show ?case by (auto intro: same_allowance_trans)
qed simp

lemma process_pays:
  assumes "link_keeps C ds evs" "process_client_packet C ds pk s = Inr (ctx, s')"
  shows "allowance C s' + of_bool (forwards_input ctx) \<le> allowance C s \<and> (started C s \<longrightarrow> started C s')"
proof -
  obtain a where a: "handle_client_packet C pk s = Inr (ctx, a)" and s: "s' = (if pc_seen ctx then run_detections ds (pc_packet ctx) a else a)"
    using assms(2) by (auto simp: process_client_packet_def bind_result_Inr_iff)
  have "same_allowance C a s'" using assms(1) s detections_keep by (auto simp: link_keeps_def)
  from same_allowance_D[OF this] packet_pays[OF _ a] assms(1) show ?thesis by (simp add: link_keeps_def)
qed

lemma link_run_pays:
  "link_keeps C ds evs \<Longrightarrow> started C s \<Longrightarrow> int (link_run C ds evs s) \<le> allowance C s + link_ticks evs"
proof (induction C ds evs s rule: link_run.induct)
  case (1 C ds s)
  then show ?case by (simp add: allowance_def allowed_inputs_def)
next
  case (2 C ds pk evs s)
  then have k: "link_keeps C ds evs" by (simp add: link_keeps_def)
  have n: "0 \<le> link_ticks evs" by (induction evs rule: link_ticks.induct) auto
  show ?case
  proof (cases "process_client_packet C ds pk s")
    case (Inl e)
    then show ?thesis using n by (simp add: allowance_def allowed_inputs_def)
  next
    case (Inr r)
    obtain ctx a where r: "r = (ctx, a)" by (cases r)
    from process_pays[OF k] Inr r 2(3)
    have p: "allowance C a + of_bool (forwards_input ctx) \<le> allowance C s" "started C a" by auto
    from "2.IH"[OF Inr r[symmetric] k p(2)] p(1) Inr r show ?thesis by simp
  qed
next
  case (3 C ds sv cl el evs s)
  let ?s = "cl_set_mv C (mv_tick sv cl el (cl_mv C s)) s"
  from 3(2) have k: "link_keeps C ds evs" by (simp add: link_keeps_def)
  have m: "cl_mv C ?s = mv_tick sv cl el (cl_mv C s)" using k keeps_simple(1) by (auto simp: link_keeps_def)
  have "allowance C ?s \<le> allowance C s + max 1 el" "started C ?s"
    using mv_tick_allowed(1,2)[of "cl_mv C s" sv cl el] 3(3) by (simp_all add: allowance_def started_def m)
  with "3.IH"[OF k] show ?case by simp
next
  case (4 C ds f evs s)
  then have k: "link_keeps C ds evs" and f: "same_allowance C s (f s)" by (auto simp: link_keeps_def)
  from "4.IH"[OF k] same_allowance_D[OF f] 4(3) show ?case by simp
qed


text \<open>A player of the movement component alone; the operations of the others do nothing.\<close>
definition lone_client :: "(int mv, unit, unit, unit, unit, int) client_ops" where
  "lone_client = \<lparr>cl_mv = \<lambda>s. s, cl_set_mv = \<lambda>m s. m, cl_command_name = ''ac'', cl_track_client = True,
     cl_command = \<lambda>n as s. (True, s), cl_disconnect = \<lambda>s. s, cl_set_input_mode = \<lambda>m s. s, cl_attack_none = \<lambda>s. Inr s,
     cl_acks_tick = \<lambda>s. s, cl_execute = \<lambda>t s. Inr (True, s), cl_request = \<lambda>q s. Inr s, cl_block_actions = \<lambda>d s. Inr s,
     cl_movement = \<lambda>d s. Inr (d, s), cl_breaking = \<lambda>s. False, cl_calculate = \<lambda>s. Inr (True, s), cl_reset_combat = \<lambda>s. s,
     cl_count_attack = \<lambda>s. s, cl_clicks_swing = \<lambda>s. s, cl_clicks_tick = \<lambda>s. s, cl_tracker_tick = \<lambda>s. s,
     cl_client_calculate = \<lambda>s. Inr s, cl_set_radius = \<lambda>r s. s, cl_transaction = \<lambda>tr s. Inr (\<lparr>oc_cancelled = False, oc_detected = True\<rparr>, s),
     cl_equipment = \<lambda>w i n s. s, cl_swing = \<lambda>s. s, cl_stack_request = \<lambda>qs s. Inr s\<rparr>"

lemma lone_client_keeps: "keeps_allowance lone_client"
  by (simp add: keeps_allowance_def all_results_def lone_client_def)

definition plain_input :: "(unit, unit, unit, unit) from_client" where
  "plain_input = CpInput \<lparr>ip_mode = 1, ip_missed_swing = True, ip_request = None, ip_rest = ()\<rparr>"

text \<open>After the tick of a server that is ahead by two, five inputs at once: three are forwarded.\<close>
definition late_inputs :: "(int mv, unit, unit, unit, unit) link_event list" where
  "late_inputs = LkTick 12 10 1 # replicate 5 (LkPacket plain_input) @ [LkPacket (CpScript ''x''), LkOther (\<lambda>s. s)]"

definition idle_mv :: "int mv" where
  "idle_mv = demo_mv\<lparr>mv_inputs := (mv_inputs demo_mv)\<lparr>in_allowed := 2, in_first := True\<rparr>\<rparr>"


end
