(* ===== verification/ProxyServe.thy ===== *)
theory ProxyServe
  imports ProxyProps "HOL-Library.Multiset"
begin

text \<open>
  The life of the proxy and of its sessions: \<^verbatim>\<open>Listen\<close>, \<^verbatim>\<open>Serve\<close>, \<^verbatim>\<open>serveClient\<close>, \<^verbatim>\<open>start\<close>,
  \<^verbatim>\<open>run\<close> and \<^verbatim>\<open>close\<close> of \<^verbatim>\<open>src/deps/proxy/proxy.go\<close>.  The network is the environment of the session; here it
  may differ at each event.
\<close>

section \<open>Listening\<close>

record ('dial, 'comp) proxy_config =
  pc_local_address :: string
  pc_remote_address :: string
  pc_dial_timeout :: int
  pc_dial :: "'dial option"
  pc_compression :: "'comp option"

text \<open>The configuration with its defaults, if the listener opens.  Durations are in nanoseconds.\<close>
definition proxy_listen ::
  "(int \<Rightarrow> 'dial) \<Rightarrow> 'comp \<Rightarrow> (string \<Rightarrow> bool) \<Rightarrow> ('dial, 'comp) proxy_config \<Rightarrow> (string + ('dial, 'comp) proxy_config)" where
  "proxy_listen default_dial snappy opens cfg =
    (if pc_local_address cfg = [] \<or> pc_remote_address cfg = [] then Inl ''proxy: local and remote addresses are required''
     else
       let cfg = (if pc_dial_timeout cfg \<le> 0 then cfg\<lparr>pc_dial_timeout := 10000000000\<rparr> else cfg);
           cfg = (case pc_dial cfg of None \<Rightarrow> cfg\<lparr>pc_dial := Some (default_dial (pc_dial_timeout cfg))\<rparr> | Some _ \<Rightarrow> cfg);
           cfg = (case pc_compression cfg of None \<Rightarrow> cfg\<lparr>pc_compression := Some snappy\<rparr> | Some _ \<Rightarrow> cfg)
       in if opens (pc_local_address cfg) then Inr cfg else Inl ''proxy: listen'')"

lemma listening_has_defaults:
  "proxy_listen dd sn opens cfg = Inr cfg' \<Longrightarrow>
    0 < pc_dial_timeout cfg' \<and> pc_dial cfg' \<noteq> None \<and> pc_compression cfg' \<noteq> None \<and> pc_remote_address cfg' \<noteq> []"
  by (auto simp: proxy_listen_def Let_def split: if_splits option.splits)

text \<open>Closing: the channel is closed and the listener is, once.\<close>
record proxy_state =
  ps_done :: bool
  ps_listener_closes :: nat

definition proxy_close :: "proxy_state \<Rightarrow> proxy_state" where
  "proxy_close p = (if ps_done p then p else \<lparr>ps_done = True, ps_listener_closes = ps_listener_closes p + 1\<rparr>)"

text \<open>What accepting gives: a connection, or an error, at which the proxy is closed or the context cancelled or neither; when
  both are, either is seen.\<close>
datatype 'c accepted = Accepted 'c | AcceptFailed bool bool bool

datatype serve_end = ServeClosed | ServeCancelled | ServeFailed | ServeGoesOn

text \<open>The connections that are served, and how serving ends.\<close>
fun proxy_serve :: "'c accepted list \<Rightarrow> 'c list \<times> serve_end" where
  "proxy_serve [] = ([], ServeGoesOn)"
| "proxy_serve (Accepted c # as) = (case proxy_serve as of (cs, e) \<Rightarrow> (c # cs, e))"
| "proxy_serve (AcceptFailed is_done cancelled first # as) =
    ([], if is_done \<and> (first \<or> \<not> cancelled) then ServeClosed else if cancelled then ServeCancelled else ServeFailed)"

section \<open>A session\<close>

text \<open>The handler that does nothing: it takes every backend and passes every packet.\<close>
definition nop_handler :: "('v, 'f, 'g, 'u, 'b) env \<Rightarrow> ('v, 'f, 'g, 'u, 'b) env" where
  "nop_handler E = E\<lparr>ev_handler_takes := \<lambda>_. True, ev_from_client := Some, ev_from_server := Some, ev_radius := None\<rparr>"

text \<open>What the factory gives, if there is one; a handler answers for itself in the environment.\<close>
definition handler_env :: "bool option \<Rightarrow> ('v, 'f, 'g, 'u, 'b) env \<Rightarrow> ('v, 'f, 'g, 'u, 'b) env" where
  "handler_env factory E = (if factory = Some True then E else nop_handler E)"

text \<open>The waiting before a new attempt; the context may be cancelled while it lasts.\<close>
definition recover_fallback ::
  "('v, 'f, 'g, 'u, 'b) env \<Rightarrow> bool \<Rightarrow> int \<Rightarrow> ('v, 'f, 'g, 'u, 'b) session \<Rightarrow> bool \<times> bool \<times> ('v, 'f, 'g, 'u, 'b) session" where
  "recover_fallback E cancelled failures s =
    (if 0 < failures \<and> cancelled then (False, False, s) else transfer_locked E (ev_remote E) s)"

text \<open>What a session reads, with the environment at the time; \<^verbatim>\<open>None\<close> is a failed read of the client.\<close>
datatype ('v, 'f, 'g, 'u) session_event =
    ReClient "('v, 'f, 'g, 'u) pk option"
  | ReServer "64 word" "('v, 'f, 'g, 'u) pk"
  | ReFailed "64 word" goerr
  | ReCancel

text \<open>The client, the backends and the handler of a session that is served, and the backends it ever dialled.\<close>
record ('v, 'f, 'g, 'u, 'b) served =
  sd_session :: "('v, 'f, 'g, 'u, 'b) session"
  sd_dialled :: "'b list"
  sd_handler_closes :: nat
  sd_client_closes :: nat

definition dials :: "('v, 'f, 'g, 'u, 'b) env \<Rightarrow> string \<Rightarrow> 'b list" where
  "dials E address = (if ev_ctx_done E then [] else case ev_dial E address of None \<Rightarrow> [] | Some b \<Rightarrow> [b])"

text \<open>The backends that the event dials.\<close>
definition event_dials ::
  "(string \<Rightarrow> int \<Rightarrow> string) \<Rightarrow> ('v, 'f, 'g, 'u, 'b) env \<Rightarrow> ('v, 'f, 'g, 'u) session_event \<Rightarrow> ('v, 'f, 'g, 'u, 'b) session \<Rightarrow> 'b list" where
  "event_dials J E ev s = (case ev of
      ReServer g (PkTransfer host port) \<Rightarrow> if is_current g s then dials E (J host port) else []
    | ReFailed g err \<Rightarrow> if is_current g s \<and> backend_disconnect_message err = None then dials E (ev_remote E) else []
    | _ \<Rightarrow> [])"

text \<open>An event: whether the session goes on, the failures in a row, the session.\<close>
definition session_round ::
  "(string \<Rightarrow> int \<Rightarrow> string) \<Rightarrow> ('v, 'f, 'g, 'u, 'b) env \<Rightarrow> ('v, 'f, 'g, 'u) session_event \<Rightarrow> int \<Rightarrow> ('v, 'f, 'g, 'u, 'b) session
   \<Rightarrow> bool \<times> int \<times> ('v, 'f, 'g, 'u, 'b) session" where
  "session_round J E ev failures s = (case ev of
      ReClient None \<Rightarrow> (False, failures, s)
    | ReClient (Some pk) \<Rightarrow> (case client_packet E pk s of (go, s) \<Rightarrow> (go, failures, s))
    | ReServer g pk \<Rightarrow> backend_packet J E g pk failures s
    | ReFailed g err \<Rightarrow> (case backend_read_failed E g err failures s of (go, w, failures, s) \<Rightarrow> (go, failures, s))
    | ReCancel \<Rightarrow> (False, failures, s))"

text \<open>The session ends with the first loop that returns, or when the context is cancelled.\<close>
fun session_run ::
  "(string \<Rightarrow> int \<Rightarrow> string) \<Rightarrow> (('v, 'f, 'g, 'u, 'b) env \<times> ('v, 'f, 'g, 'u) session_event) list \<Rightarrow> int
   \<Rightarrow> ('v, 'f, 'g, 'u, 'b) served \<Rightarrow> ('v, 'f, 'g, 'u, 'b) served" where
  "session_run J [] failures d = d"
| "session_run J ((E, ev) # evs) failures d =
    (case session_round J E ev failures (sd_session d) of (go, failures, s) \<Rightarrow>
       let d = d\<lparr>sd_dialled := sd_dialled d @ event_dials J E ev (sd_session d), sd_session := s\<rparr>
       in if go then session_run J evs failures d else d)"

text \<open>Starting: the client gets the game data with a longer history, the backend spawns, the handler takes the backend.\<close>
definition session_starts ::
  "('v, 'f, 'g, 'u, 'b) env \<Rightarrow> (('v, 'f, 'g) game_data \<Rightarrow> int \<Rightarrow> bool) \<Rightarrow> bool \<Rightarrow> ('v, 'f, 'g, 'u, 'b) session \<Rightarrow> bool" where
  "session_starts E client_starts handler_starts s \<longleftrightarrow>
    client_starts (ev_data E (ss_backend s)) 100 \<and> ev_spawn E (ss_backend s) \<and> handler_starts"

definition session_close :: "('v, 'f, 'g, 'u, 'b) served \<Rightarrow> ('v, 'f, 'g, 'u, 'b) served" where
  "session_close d = d\<lparr>sd_handler_closes := sd_handler_closes d + 1,
     sd_session := close_backend (ss_backend (sd_session d)) (sd_session d), sd_client_closes := sd_client_closes d + 1\<rparr>"

text \<open>A client that connects: it is told why when the first dial fails.\<close>
definition serve_client ::
  "(string \<Rightarrow> int \<Rightarrow> string) \<Rightarrow> bool option \<Rightarrow> ('v, 'f, 'g, 'u, 'b) env \<Rightarrow> goerr + 'b \<Rightarrow> (('v, 'f, 'g) game_data \<Rightarrow> int \<Rightarrow> bool) \<Rightarrow> bool
   \<Rightarrow> (('v, 'f, 'g, 'u, 'b) env \<times> ('v, 'f, 'g, 'u) session_event) list \<Rightarrow> string + ('v, 'f, 'g, 'u, 'b) served" where
  "serve_client J factory E dial client_starts handler_starts evs =
    (case dial of
       Inl err \<Rightarrow> Inl (case backend_disconnect_message err of Some reason \<Rightarrow> reason | None \<Rightarrow> ''Unable to connect to the backend server.'')
     | Inr b \<Rightarrow>
         let evs = map (\<lambda>(E, ev). (handler_env factory E, ev)) evs; starts = (factory = Some True \<longrightarrow> handler_starts);
             d = \<lparr>sd_session = new_session E b, sd_dialled = [b], sd_handler_closes = 0, sd_client_closes = 0\<rparr>
         in Inr (session_close (if session_starts E client_starts starts (sd_session d) then session_run J evs 0 d else d)))"

section \<open>Every backend is closed once\<close>

text \<open>The backends that a session has closed and the one it has.\<close>
definition owned :: "('v, 'f, 'g, 'u, 'b) session \<Rightarrow> 'b multiset" where
  "owned s = add_mset (ss_backend s) (mset (ss_closed s))"

lemma owned_core: "session_core s' = session_core s \<Longrightarrow> owned s' = owned s"
  by (simp add: session_core_def owned_def)

lemma owned_same [simp]:
  "owned (s\<lparr>ss_failed := f\<rparr>) = owned s" "owned (s\<lparr>ss_tracker := t\<rparr>) = owned s" "owned (s\<lparr>ss_radius := r\<rparr>) = owned s"
  "owned (s\<lparr>ss_to_client := ps\<rparr>) = owned s" "owned (s\<lparr>ss_to_backend := bs\<rparr>) = owned s"
  by (simp_all add: owned_def)

lemma owned_close: "owned (close_backend b s) = add_mset b (owned s)"
  by (simp add: owned_def close_backend_def)

text \<open>Whether a transfer commits or not, it takes over exactly what it dialled.\<close>
lemma transfer_owns:
  assumes "transfer_locked E address s = (committed, ok, s')"
  shows "owned s' = owned s + mset (dials E address)"
proof (cases committed)
  case True
  with assms have t: "transfer_locked E address s = (True, ok, s')" by simp
  from t have "\<not> ev_ctx_done E" by (auto simp: transfer_locked_def split: if_splits)
  moreover obtain b where "ev_dial E address = Some b" "ss_backend s' = b" "ss_closed s' = ss_closed s @ [ss_backend s]"
    using transfer_committed[OF t] by (auto simp: session_core_def)
  ultimately show ?thesis by (simp add: owned_def dials_def)
next
  case False
  with assms show ?thesis
    by (auto simp: transfer_locked_def dials_def owned_close Let_def split: if_splits option.splits prod.splits)
qed

lemma client_packet_owns: "client_packet E pk s = (go, s') \<Longrightarrow> owned s' = owned s"
  by (auto simp: client_packet_def write_backend_def split: option.splits pk.splits if_splits)

lemma other_packet_owns:
  assumes "\<And>h p. pk \<noteq> PkTransfer h p" "backend_packet J E g pk f s = (go, f', s')"
  shows "owned s' = owned s"
proof -
  have "backend_packet J E g pk f s = (if \<not> is_current g s then (True, f, s) else case ev_from_server E pk of
      None \<Rightarrow> (True, 0, s)
    | Some pk \<Rightarrow> (case rewrite_server_packet s pk of None \<Rightarrow> (True, 0, s)
        | Some pk \<Rightarrow> let (ok, s) = write_client E pk
            (s\<lparr>ss_tracker := tracker_handle (ev_consts E) (ss_client_rid s) pk (ss_tracker s)\<rparr>) in (ok, 0, s)))"
  proof (cases pk)
    case (PkTransfer h p)
    with assms(1) show ?thesis by blast
  qed (simp_all add: backend_packet_def)
  with assms(2) show ?thesis by (auto simp: write_client_def Let_def split: option.splits if_splits prod.splits)
qed

lemma event_owns:
  assumes "session_round J E ev f s = (go, f', s')"
  shows "owned s' = owned s + mset (event_dials J E ev s)"
proof (cases ev)
  case (ReClient r)
  with assms show ?thesis
    by (auto simp: session_round_def event_dials_def client_packet_owns split: option.splits prod.splits)
next
  case (ReServer g pk)
  show ?thesis
  proof (cases "\<exists>h p. pk = PkTransfer h p")
    case True
    then obtain h p where pk: "pk = PkTransfer h p" by blast
    obtain c ok t where t: "transfer_locked E (J h p) s = (c, ok, t)" by (cases "transfer_locked E (J h p) s") auto
    from transfer_owns[OF t] t assms pk ReServer show ?thesis
      by (auto simp: session_round_def event_dials_def backend_packet_def split: if_splits)
  next
    case False
    with other_packet_owns[of pk J E g f s go f' s'] assms ReServer have "owned s' = owned s" by (simp add: session_round_def)
    with False ReServer show ?thesis by (cases pk) (simp_all add: event_dials_def)
  qed
next
  case (ReFailed g err)
  obtain c ok t where t: "transfer_locked E (ev_remote E) s = (c, ok, t)" by (cases "transfer_locked E (ev_remote E) s") auto
  have w: "owned (snd (write_client E pk s)) = owned s" for pk by (simp add: write_client_def)
  from transfer_owns[OF t] t assms ReFailed w show ?thesis
    by (auto simp: session_round_def event_dials_def backend_read_failed_def Let_def split: if_splits option.splits prod.splits)
next
  case ReCancel
  with assms show ?thesis by (simp add: session_round_def event_dials_def)
qed

lemma run_owns:
  "owned (sd_session d) = mset (sd_dialled d) \<Longrightarrow>
    owned (sd_session (session_run J evs f d)) = mset (sd_dialled (session_run J evs f d))"
proof (induction J evs f d rule: session_run.induct)
  case (2 J E ev evs f d)
  obtain go f' s where e: "session_round J E ev f (sd_session d) = (go, f', s)" by (cases "session_round J E ev f (sd_session d)") auto
  let ?d = "d\<lparr>sd_dialled := sd_dialled d @ event_dials J E ev (sd_session d), sd_session := s\<rparr>"
  have "owned (sd_session ?d) = mset (sd_dialled ?d)" using event_owns[OF e] 2(2) by simp
  with "2.IH"[OF e[symmetric] refl refl] e show ?case by (simp add: Let_def)
qed simp

lemma run_closes:
  "sd_handler_closes (session_run J evs f d) = sd_handler_closes d \<and> sd_client_closes (session_run J evs f d) = sd_client_closes d"
  by (induction J evs f d rule: session_run.induct) (auto simp: Let_def split: prod.split)


text \<open>A transfer that was waiting for its backend when the session closed commits after that: nothing closes the new one.\<close>
lemma late_transfer_leaks:
  assumes "transfer_locked E address (sd_session (session_close d)) = (True, ok, s')" "ev_dial E address = Some b"
    "b \<noteq> ss_backend (sd_session d)" "b \<notin> set (ss_closed (sd_session d))"
  shows "ss_backend s' = b \<and> b \<notin> set (ss_closed s')"
proof -
  from assms(2) obtain "ss_backend s' = b"
    "ss_closed s' = ss_closed (sd_session (session_close d)) @ [ss_backend (sd_session (session_close d))]"
    using transfer_committed[OF assms(1)] by (auto simp: session_core_def)
  with assms(3,4) show ?thesis by (simp add: session_close_def close_backend_def)
qed

text \<open>The listener is closed once however often the proxy is.\<close>
lemma closed_once: "ps_listener_closes (proxy_close (proxy_close p)) = ps_listener_closes (proxy_close p)" "ps_done (proxy_close p)"
  by (simp_all add: proxy_close_def)

lemma accepted_are_served:
  "proxy_serve (map Accepted cs @ AcceptFailed True False first # as) = (cs, ServeClosed)"
  by (induction cs) simp_all

text \<open>The waiting is part of the round of the loop for a failed read.\<close>
lemma read_failed_recovers:
  "is_current g s \<Longrightarrow> backend_disconnect_message err = None \<Longrightarrow> backend_read_failed E g err f s =
    (case recover_fallback E (ev_ctx_done E) f s of (committed, ok, s) \<Rightarrow>
       (ok, if 0 < f then fallback_retry_delay f else 0, if ok then f + 1 else f, s))"
proof (cases "0 < f \<and> ev_ctx_done E")
  case True
  then have "transfer_locked E (ev_remote E) s = (False, False, s)" by (simp add: transfer_locked_def)
  with True show "is_current g s \<Longrightarrow> backend_disconnect_message err = None \<Longrightarrow> ?thesis"
    by (simp add: backend_read_failed_def recover_fallback_def)
next
  case False
  then show "is_current g s \<Longrightarrow> backend_disconnect_message err = None \<Longrightarrow> ?thesis"
    by (auto simp: backend_read_failed_def recover_fallback_def split: prod.split)
qed

end
