(* ===== verification/PlayerIo.thy ===== *)
theory PlayerIo
  imports Prelude
begin

text \<open>
  The connections of a player: sending packets to either side, messages, disconnecting and closing, in
  \<^verbatim>\<open>src/player/player.go\<close>.  Writing may fail; which attempts to write to the server succeed is a parameter.
\<close>

section \<open>Sending\<close>

datatype text_type = TextChat | TextPopup

text \<open>Packets for the client that the player makes itself, and others.\<close>
datatype 'p to_client = TcText text_type string | TcDisconnect string | TcOther 'p

text \<open>Connections may be missing.  The packets that were written; closing happens once, in a goroutine that runs later.\<close>
record 'p player_io =
  pi_replay :: bool
  pi_conn :: bool
  pi_server :: bool
  pi_deferred :: "'p list"
  pi_to_client :: "'p to_client list"
  pi_to_server :: "'p list"
  pi_attempts :: nat
  pi_closed :: bool
  pi_closing :: bool
  pi_quits :: nat
  pi_conn_closes :: nat
  pi_server_closes :: nat
  pi_closer :: "nat option"
  pi_closers_run :: "nat list"

definition new_player_io :: "bool \<Rightarrow> 'p player_io" where
  "new_player_io replay = \<lparr>pi_replay = replay, pi_conn = False, pi_server = False, pi_deferred = [], pi_to_client = [], pi_to_server = [],
     pi_attempts = 0, pi_closed = False, pi_closing = False, pi_quits = 0, pi_conn_closes = 0, pi_server_closes = 0,
     pi_closer = None, pi_closers_run = []\<rparr>"

text \<open>Whether there was no error, with \<^verbatim>\<open>ok\<close> for the outcome of the write to the client.\<close>
definition send_packet_to_client :: "bool \<Rightarrow> 'p to_client \<Rightarrow> 'p player_io \<Rightarrow> bool \<times> 'p player_io" where
  "send_packet_to_client ok pk s =
    (if pi_replay s then (True, s)
     else if \<not> pi_conn s then (False, s)
     else if ok then (True, s\<lparr>pi_to_client := pi_to_client s @ [pk]\<rparr>) else (False, s))"

text \<open>The n-th attempt to write to the server.\<close>
definition write_server :: "(nat \<Rightarrow> bool) \<Rightarrow> 'p \<Rightarrow> 'p player_io \<Rightarrow> bool \<times> 'p player_io" where
  "write_server w pk s = (let s' = s\<lparr>pi_attempts := pi_attempts s + 1\<rparr>
     in if w (pi_attempts s) then (True, s'\<lparr>pi_to_server := pi_to_server s @ [pk]\<rparr>) else (False, s'))"

fun write_deferred :: "(nat \<Rightarrow> bool) \<Rightarrow> 'p list \<Rightarrow> 'p player_io \<Rightarrow> bool \<times> 'p player_io" where
  "write_deferred w [] s = (True, s)"
| "write_deferred w (pk # pks) s = (case write_server w pk s of (True, s) \<Rightarrow> write_deferred w pks s | (False, s) \<Rightarrow> (False, s))"

text \<open>Packets wait while there is no server.  They are written before the next packet, and dropped when all have been written.\<close>
definition send_packet_to_server :: "(nat \<Rightarrow> bool) \<Rightarrow> 'p option \<Rightarrow> 'p player_io \<Rightarrow> bool \<times> 'p player_io" where
  "send_packet_to_server w pk s = (case pk of
      None \<Rightarrow> (True, s)
    | Some pk \<Rightarrow>
        if pi_replay s then (True, s)
        else if \<not> pi_server s then (True, s\<lparr>pi_deferred := pi_deferred s @ [pk]\<rparr>)
        else (case write_deferred w (pi_deferred s) s of
            (False, s) \<Rightarrow> (False, s)
          | (True, s) \<Rightarrow> write_server w pk (s\<lparr>pi_deferred := []\<rparr>)))"

section \<open>Messages\<close>

text \<open>Colouring is a library function of the format and its arguments.\<close>
definition player_message :: "(string \<Rightarrow> 'a list \<Rightarrow> string) \<Rightarrow> string \<Rightarrow> string \<Rightarrow> 'a list \<Rightarrow> bool \<Rightarrow> 'p player_io \<Rightarrow> 'p player_io" where
  "player_message colourf prefix msg args ok s = snd (send_packet_to_client ok (TcText TextChat (prefix @ '' '' @ colourf msg args)) s)"

definition player_nmessage :: "(string \<Rightarrow> 'a list \<Rightarrow> string) \<Rightarrow> string \<Rightarrow> 'a list \<Rightarrow> bool \<Rightarrow> 'p player_io \<Rightarrow> 'p player_io" where
  "player_nmessage colourf msg args ok s = snd (send_packet_to_client ok (TcText TextChat (colourf msg args)) s)"

definition raw_message :: "string \<Rightarrow> bool \<Rightarrow> 'p player_io \<Rightarrow> 'p player_io" where
  "raw_message msg ok s = snd (send_packet_to_client ok (TcText TextChat msg) s)"

definition player_popup :: "(string \<Rightarrow> 'a list \<Rightarrow> string) \<Rightarrow> string \<Rightarrow> 'a list \<Rightarrow> bool \<Rightarrow> 'p player_io \<Rightarrow> 'p player_io" where
  "player_popup colourf msg args ok s = snd (send_packet_to_client ok (TcText TextPopup (colourf msg args)) s)"

section \<open>Closing\<close>

definition set_closer :: "nat \<Rightarrow> 'p player_io \<Rightarrow> 'p player_io" where
  "set_closer f s = (if pi_closed s then s else s\<lparr>pi_closer := Some f\<rparr>)"

text \<open>Only the first call does anything: the player is closed, and a goroutine starts.\<close>
definition player_close :: "'p player_io \<Rightarrow> 'p player_io" where
  "player_close s = (if pi_closed s then s else s\<lparr>pi_closed := True, pi_closing := True\<rparr>)"

text \<open>The goroutine, once it has the lock.\<close>
definition close_connections :: "'p player_io \<Rightarrow> 'p player_io" where
  "close_connections s =
    (if \<not> pi_closing s then s
     else
       let s = s\<lparr>pi_closing := False, pi_quits := pi_quits s + 1\<rparr>;
           s = (if pi_conn s then s\<lparr>pi_conn_closes := pi_conn_closes s + 1, pi_conn := False\<rparr> else s);
           s = (if pi_server s then s\<lparr>pi_server_closes := pi_server_closes s + 1, pi_server := False\<rparr> else s)
       in case pi_closer s of None \<Rightarrow> s | Some f \<Rightarrow> s\<lparr>pi_closers_run := pi_closers_run s @ [f]\<rparr>)"

text \<open>A replay panics.\<close>
definition player_disconnect :: "string \<Rightarrow> bool \<Rightarrow> 'p player_io \<Rightarrow> 'p player_io result" where
  "player_disconnect reason ok s =
    (if pi_replay s then Inl (Panic ''replay terminated'')
     else Inr (player_close (snd (send_packet_to_client ok (TcDisconnect reason) s))))"

text \<open>The ticker: the results of the ticks, or the channel of the closing; how many ticks are run.\<close>
datatype ticking = Ticked bool | CloseSeen

fun start_ticking :: "ticking list \<Rightarrow> nat" where
  "start_ticking [] = 0"
| "start_ticking (Ticked b # ts) = 1 + (if b then start_ticking ts else 0)"
| "start_ticking (CloseSeen # ts) = 0"

section \<open>Nothing is lost on the way to the server\<close>

datatype 'p io_event =
    IoConnect
  | IoServer
  | IoSend "'p option"
  | IoSendClient bool "'p to_client"
  | IoDisconnect string bool
  | IoClose
  | IoCloser nat
  | IoFinish

text \<open>The connections are set from outside, on a player that is not closed; a panic leaves the state as it is.\<close>
definition io_step :: "(nat \<Rightarrow> bool) \<Rightarrow> 'p io_event \<Rightarrow> 'p player_io \<Rightarrow> 'p player_io" where
  "io_step w ev s = (case ev of
      IoConnect \<Rightarrow> if pi_closed s then s else s\<lparr>pi_conn := True\<rparr>
    | IoServer \<Rightarrow> if pi_closed s then s else s\<lparr>pi_server := True\<rparr>
    | IoSend pk \<Rightarrow> snd (send_packet_to_server w pk s)
    | IoSendClient ok pk \<Rightarrow> snd (send_packet_to_client ok pk s)
    | IoDisconnect reason ok \<Rightarrow> (case player_disconnect reason ok s of Inl _ \<Rightarrow> s | Inr s \<Rightarrow> s)
    | IoClose \<Rightarrow> player_close s
    | IoCloser f \<Rightarrow> set_closer f s
    | IoFinish \<Rightarrow> close_connections s)"

definition io_run :: "(nat \<Rightarrow> bool) \<Rightarrow> 'p io_event list \<Rightarrow> 'p player_io \<Rightarrow> 'p player_io" where
  "io_run w evs s = fold (io_step w) evs s"

text \<open>The packets that the player was asked to send to the server, in order.\<close>
definition asked :: "'p io_event list \<Rightarrow> 'p list" where
  "asked evs = concat (map (\<lambda>ev. case ev of IoSend (Some pk) \<Rightarrow> [pk] | _ \<Rightarrow> []) evs)"

lemma write_deferred_all:
  "\<forall>n. w n \<Longrightarrow> write_deferred w pks s
    = (True, s\<lparr>pi_attempts := pi_attempts s + length pks, pi_to_server := pi_to_server s @ pks\<rparr>)"
  by (induction pks arbitrary: s) (simp_all add: write_server_def Let_def)

lemma io_step_delivers:
  assumes "\<forall>n. w n"
  shows "pi_replay (io_step w ev s) = pi_replay s"
    and "\<not> pi_replay s \<Longrightarrow> pi_to_server (io_step w ev s) @ pi_deferred (io_step w ev s) = pi_to_server s @ pi_deferred s @ asked [ev]"
  using assms
  by (auto simp: io_step_def asked_def send_packet_to_server_def send_packet_to_client_def write_deferred_all write_server_def
      player_disconnect_def player_close_def set_closer_def close_connections_def Let_def split: io_event.split option.split)

lemma asked_Cons: "asked (ev # evs) = asked [ev] @ asked evs"
  by (simp add: asked_def)

text \<open>While no write fails, what the server got, followed by what waits, is what it was to get, in the same order.\<close>
lemma sent_in_order:
  assumes "\<forall>n. w n" "\<not> pi_replay s"
  shows "pi_to_server (io_run w evs s) @ pi_deferred (io_run w evs s) = pi_to_server s @ pi_deferred s @ asked evs"
  using assms(2)
proof (induction evs arbitrary: s)
  case Nil
  then show ?case by (simp add: io_run_def asked_def)
next
  case (Cons ev evs)
  let ?s = "io_step w ev s"
  from Cons.IH[of ?s] io_step_delivers[OF assms(1), where ev = ev and s = s] Cons.prems
  have "pi_to_server (io_run w evs ?s) @ pi_deferred (io_run w evs ?s) = pi_to_server s @ pi_deferred s @ asked [ev] @ asked evs"
    by simp
  then show ?case by (simp add: io_run_def asked_Cons[of ev evs])
qed

text \<open>When a write of the waiting packets fails they all wait on, and the first is sent again.\<close>
lemma deferred_sent_again:
  "pi_to_server (io_run (\<lambda>n. n \<noteq> 1) [IoSend (Some 1), IoSend (Some 2), IoServer, IoSend (Some 3), IoSend (Some (4 :: nat))]
     (new_player_io False)) = [1, 1, 2, 4]"
  by (simp add: io_run_def io_step_def new_player_io_def send_packet_to_server_def write_server_def Let_def)

section \<open>Closing happens once\<close>

definition io_wf :: "'p player_io \<Rightarrow> bool" where
  "io_wf s \<longleftrightarrow> pi_quits s = of_bool (pi_closed s \<and> \<not> pi_closing s) \<and> pi_conn_closes s \<le> pi_quits s \<and> pi_server_closes s \<le> pi_quits s
     \<and> (pi_closing s \<longrightarrow> pi_closed s) \<and> (pi_quits s = 1 \<longrightarrow> \<not> pi_conn s \<and> \<not> pi_server s)
     \<and> pi_closers_run s = (if pi_quits s = 1 then (case pi_closer s of None \<Rightarrow> [] | Some f \<Rightarrow> [f]) else [])"

text \<open>What sending leaves alone.\<close>
definition io_life :: "'p player_io \<Rightarrow> (bool \<times> bool \<times> bool \<times> bool) \<times> (nat \<times> nat \<times> nat) \<times> nat option \<times> nat list" where
  "io_life s = ((pi_conn s, pi_server s, pi_closed s, pi_closing s), (pi_quits s, pi_conn_closes s, pi_server_closes s),
     pi_closer s, pi_closers_run s)"

lemma io_wf_life: "io_life s' = io_life s \<Longrightarrow> io_wf s' = io_wf s"
  by (simp add: io_life_def io_wf_def)

lemma life_write: "io_life (snd (write_server w pk s)) = io_life s"
  by (simp add: write_server_def io_life_def Let_def)

lemma life_write_deferred: "io_life (snd (write_deferred w pks s)) = io_life s"
proof (induction pks arbitrary: s)
  case (Cons pk pks)
  then show ?case using life_write[of w pk s] by (cases "write_server w pk s") (simp split: bool.split)
qed simp

lemma life_deferred: "io_life (s\<lparr>pi_deferred := ps\<rparr>) = io_life s"
  by (simp add: io_life_def)

lemma life_send_server: "io_life (snd (send_packet_to_server w pk s)) = io_life s"
proof (cases pk)
  case (Some p)
  obtain b t where t: "write_deferred w (pi_deferred s) s = (b, t)" by (cases "write_deferred w (pi_deferred s) s")
  have "io_life t = io_life s" using life_write_deferred[of w "pi_deferred s" s] t by simp
  then show ?thesis using t life_write[of w p "t\<lparr>pi_deferred := []\<rparr>"] Some
    by (simp add: send_packet_to_server_def life_deferred split: bool.split)
qed (simp add: send_packet_to_server_def)

lemma life_send_client: "io_life (snd (send_packet_to_client ok pk s)) = io_life s"
  by (simp add: send_packet_to_client_def io_life_def)

lemma close_wf: "io_wf s \<Longrightarrow> io_wf (player_close s)"
  by (auto simp: io_wf_def player_close_def split: if_splits)

lemma io_step_wf:
  assumes "io_wf s"
  shows "io_wf (io_step w ev s)"
proof (cases ev)
  case (IoSend pk)
  with assms show ?thesis by (simp add: io_step_def io_wf_life[OF life_send_server])
next
  case (IoSendClient ok pk)
  with assms show ?thesis by (simp add: io_step_def io_wf_life[OF life_send_client])
next
  case (IoDisconnect r ok)
  with assms show ?thesis by (simp add: io_step_def player_disconnect_def close_wf io_wf_life[OF life_send_client])
next
  case IoClose
  with assms show ?thesis by (simp add: io_step_def close_wf)
next
  case IoFinish
  show ?thesis
  proof (cases "pi_closing s")
    case True
    with assms have "pi_closed s" "pi_quits s = 0" "pi_conn_closes s = 0" "pi_server_closes s = 0" "pi_closers_run s = []"
      unfolding io_wf_def by simp_all
    with True IoFinish show ?thesis
      by (cases "pi_conn s"; cases "pi_server s"; cases "pi_closer s") (simp_all add: io_step_def close_connections_def io_wf_def Let_def)
  next
    case False
    with assms IoFinish show ?thesis by (simp add: io_step_def close_connections_def)
  qed
qed (use assms in \<open>auto simp: io_step_def io_wf_def set_closer_def\<close>)

lemma io_run_wf: "io_wf s \<Longrightarrow> io_wf (io_run w evs s)"
  unfolding io_run_def by (induction evs arbitrary: s) (simp_all add: io_step_wf)

lemma new_io_wf: "io_wf (new_player_io r)"
  by (simp add: io_wf_def new_player_io_def)

text \<open>C33: however often a player whose connections are set while it is open is disconnected and closed, the handler sees it quit at most once and every
  connection is closed at most once; when the goroutine of a closed player is done both connections are gone, and the function that was set
  last before the closing has been called.\<close>
theorem closing_happens_once:
  "let s = io_run w evs (new_player_io r) in
     pi_quits s \<le> 1 \<and> pi_conn_closes s \<le> 1 \<and> pi_server_closes s \<le> 1 \<and> length (pi_closers_run s) \<le> 1
     \<and> (pi_closed s \<and> \<not> pi_closing s \<longrightarrow> \<not> pi_conn s \<and> \<not> pi_server s \<and> pi_quits s = 1
          \<and> pi_closers_run s = (case pi_closer s of None \<Rightarrow> [] | Some f \<Rightarrow> [f]))"
  using io_run_wf[OF new_io_wf, of w evs r] unfolding Let_def io_wf_def by (auto split: option.splits)

theorem closing_happens_once_witness:
  "let s = io_run (\<lambda>_. True) [IoConnect, IoCloser 1, IoCloser 2, IoServer, IoDisconnect ''bye'' True, IoCloser 3, IoClose, IoFinish, IoFinish]
       (new_player_io False :: nat player_io)
   in pi_closed s \<and> \<not> pi_closing s \<and> pi_closers_run s = [2] \<and> pi_conn_closes s = 1 \<and> pi_quits s \<le> 1 \<and> \<not> pi_conn s"
proof -
  let ?s = "io_run (\<lambda>_. True) [IoConnect, IoCloser 1, IoCloser 2, IoServer, IoDisconnect ''bye'' True, IoCloser 3, IoClose, IoFinish, IoFinish]
       (new_player_io False :: nat player_io)"
  have s: "pi_closed ?s" "\<not> pi_closing ?s" "pi_closers_run ?s = [2]" "pi_conn_closes ?s = 1"
    by (simp_all add: io_run_def io_step_def new_player_io_def player_disconnect_def player_close_def set_closer_def
        close_connections_def send_packet_to_client_def Let_def)
  with closing_happens_once[of "\<lambda>_. True" "[IoConnect, IoCloser 1, IoCloser 2, IoServer, IoDisconnect ''bye'' True, IoCloser 3, IoClose,
       IoFinish, IoFinish] :: nat io_event list" "False"]
  show ?thesis by (simp add: Let_def)
qed

end
