(* ===== verification/Helpers.thy ===== *)
theory Helpers
  imports HandleMovement DetectOthers Interaction
begin

text \<open>
  The small helpers (\<^verbatim>\<open>src/utils/map.go\<close>, \<^verbatim>\<open>text.go\<close>, \<^verbatim>\<open>item.go\<close>, \<^verbatim>\<open>resource.go\<close>, parts of
  \<^verbatim>\<open>world.go\<close>, \<^verbatim>\<open>src/player/items.go\<close>), and the default options of the movement and the combat
  (\<^verbatim>\<open>src/oconfig/config.go\<close>).
\<close>

section \<open>Keys and values\<close>

text \<open>The loop over the list: whether the next value is a key, the key, the map.  A key that is no string panics.\<close>
fun key_vals_loop :: "('v \<Rightarrow> string option) \<Rightarrow> 'v list \<Rightarrow> bool \<Rightarrow> string \<Rightarrow> (string \<Rightarrow> 'v option) \<Rightarrow> (string \<Rightarrow> 'v option) result" where
  "key_vals_loop str [] is_key key m = Inr m"
| "key_vals_loop str (v # vs) is_key key m =
    (if is_key then (case str v of None \<Rightarrow> Inl (Panic ''interface conversion'') | Some k \<Rightarrow> key_vals_loop str vs False k m)
     else key_vals_loop str vs False key (m(key \<mapsto> v)))"

definition key_vals_to_map :: "('v \<Rightarrow> string option) \<Rightarrow> 'v list \<Rightarrow> (string \<Rightarrow> 'v option) result" where
  "key_vals_to_map str kv = (if length kv < 2 then Inr Map.empty else key_vals_loop str kv True [] Map.empty)"

text \<open>Pairs as text; a last key without a value is left out.  \<^verbatim>\<open>show\<close> is how values are printed.\<close>
fun key_vals_parts :: "('v \<Rightarrow> string option) \<Rightarrow> ('v \<Rightarrow> string) \<Rightarrow> bool \<Rightarrow> 'v list \<Rightarrow> string" where
  "key_vals_parts str sh later (k # v # kv) =
    (if later then '' '' else []) @ (case str k of Some s \<Rightarrow> s | None \<Rightarrow> sh k) @ ''='' @ sh v @ key_vals_parts str sh True kv"
| "key_vals_parts str sh later _ = []"

definition key_vals_to_string :: "('v \<Rightarrow> string option) \<Rightarrow> ('v \<Rightarrow> string) \<Rightarrow> 'v list \<Rightarrow> string" where
  "key_vals_to_string str sh kv = (if length kv < 2 then ''[]'' else ''['' @ key_vals_parts str sh False kv @ '']'')"

text \<open>Only the first key is ever used: with any list, the map has at most one entry, the last value.\<close>
lemma key_vals_loop_values:
  "key_vals_loop str vs False k m = Inr (if vs = [] then m else m(k \<mapsto> last vs))"
  by (induction vs arbitrary: m) auto

lemma key_vals_keep_one_key:
  assumes "str k = Some n" "vs \<noteq> []"
  shows "key_vals_to_map str (k # vs) = Inr [n \<mapsto> last vs]"
  using assms by (cases vs) (simp_all add: key_vals_to_map_def key_vals_loop_values)

section \<open>Names\<close>

text \<open>The devices that are named besides those of the detections, by their numbers in the protocol.\<close>
datatype named_device = Known device | OSX | GearVR | Hololens | Dedicated | TVOS

definition device_name :: "named_device \<Rightarrow> string" where
  "device_name d = (case d of
      Known Android \<Rightarrow> ''Android'' | Known IOS \<Rightarrow> ''iOS'' | OSX \<Rightarrow> ''MacOS'' | Known FireOS \<Rightarrow> ''FireOS'' | GearVR \<Rightarrow> ''Gear VR''
    | Hololens \<Rightarrow> ''Hololens'' | Known Win10 \<Rightarrow> ''Windows 10'' | Known Win32 \<Rightarrow> ''Win32'' | Dedicated \<Rightarrow> ''Dedicated'' | TVOS \<Rightarrow> ''TV''
    | Known Orbis \<Rightarrow> ''PlayStation'' | Known NX \<Rightarrow> ''Nintendo'' | Known XBOX \<Rightarrow> ''Xbox'' | Known WP \<Rightarrow> ''Windows Phone''
    | Known (OtherDevice _) \<Rightarrow> ''Unknown'')"

definition input_mode_name :: "int \<Rightarrow> string" where
  "input_mode_name m = (if m = mode_mouse then ''Keyboard/Mouse'' else if m = mode_touch then ''Touch''
     else if m = mode_gamepad then ''Gamepad'' else if m = 4 then ''Motion Controller'' else ''Unknown'')"

text \<open>Items by the names of their types.\<close>
definition is_item_projectile :: "string \<Rightarrow> bool" where
  "is_item_projectile kind \<longleftrightarrow> kind \<in> {''Egg'', ''Snowball'', ''SplashPotion'', ''EnderPearl''}"

definition item_name :: "('i \<Rightarrow> string \<times> int) \<Rightarrow> 'i option \<Rightarrow> string" where
  "item_name encode i = (case i of None \<Rightarrow> [] | Some i \<Rightarrow> fst (encode i))"

text \<open>Blocks by the names of their types; the packages differ on what a fence is.\<close>
definition is_fence_block :: "string \<Rightarrow> bool" where
  "is_fence_block kind \<longleftrightarrow> kind \<in> {''WoodFence'', ''NetherBrickFence''}"

definition is_fence_gate_block :: "string \<Rightarrow> bool" where
  "is_fence_gate_block kind \<longleftrightarrow> kind = ''WoodFenceGate''"

definition is_wall_block :: "string \<Rightarrow> bool" where
  "is_wall_block kind \<longleftrightarrow> kind = ''Wall''"

definition is_fence_or_gate :: "string \<Rightarrow> bool" where
  "is_fence_or_gate kind \<longleftrightarrow> kind \<in> {''WoodFence'', ''WoodFenceGate'', ''NetherBrickFence''}"

lemma fences_differ: "is_fence_or_gate kind \<longleftrightarrow> is_fence_block kind \<or> is_fence_gate_block kind"
  by (auto simp: is_fence_or_gate_def is_fence_block_def is_fence_gate_block_def)

text \<open>Where a player with the yaw looks.\<close>
definition face_from_rotation :: "'f flt \<Rightarrow> 'f \<Rightarrow> face" where
  "face_from_rotation F yaw =
    (if fl_le F yaw (fl_lit F (- 135)) \<or> fl_less F (fl_lit F 135) yaw then FaceNorth
     else if fl_le F yaw (fl_lit F (- 45)) then FaceEast
     else if fl_le F yaw (fl_lit F 45) then FaceSouth
     else FaceWest)"

lemma quarters:
  "-180 \<le> y \<Longrightarrow> y < 180 \<Longrightarrow> face_from_rotation real_flt y = FaceWest \<longleftrightarrow> 45 < y \<and> y \<le> 135"
  by (auto simp: face_from_rotation_def)

definition is_block_place_always_sim_based :: "string \<Rightarrow> bool" where
  "is_block_place_always_sim_based kind \<longleftrightarrow> kind \<in> {''Vines'', ''Ladder''}"

definition block_to_cube_pos :: "32 word \<times> 32 word \<times> 32 word \<Rightarrow> bpos" where
  "block_to_cube_pos p = (case p of (x, y, z) \<Rightarrow> (sint x, sint y, sint z))"

section \<open>Blocks around a position\<close>

text \<open>Positions are words.\<close>
definition blocks_in_radius :: "32 word \<times> 32 word \<times> 32 word \<Rightarrow> nat \<Rightarrow> (32 word \<times> 32 word \<times> 32 word) list" where
  "blocks_in_radius pos radius = (case pos of (px, py, pz) \<Rightarrow>
     let r = int radius in
     concat (map (\<lambda>x. concat (map (\<lambda>y. map (\<lambda>z. (px + word_of_int x, py + word_of_int y, pz + word_of_int z)) [- r..r]) [- r..r])) [- r..r]))"

text \<open>The updates that show the blocks of the world to the client, without waiting for it.\<close>
definition send_block_updates ::
  "('b \<Rightarrow> 32 word) \<Rightarrow> (32 word \<Rightarrow> 32 word) \<Rightarrow> (bpos \<Rightarrow> 'b) \<Rightarrow> (32 word \<times> 32 word \<times> 32 word) list
   \<Rightarrow> ((32 word \<times> 32 word \<times> 32 word) \<times> 32 word) list" where
  "send_block_updates runtime_id encode blocks ps =
    map (\<lambda>p. (p, encode (runtime_id (blocks (block_to_cube_pos p))))) ps"

lemma length_concat_same: "(\<And>x. x \<in> set xs \<Longrightarrow> length (f x) = n) \<Longrightarrow> length (concat (map f xs)) = length xs * n"
  by (induction xs) auto

text \<open>A cube of blocks, the position in its middle.\<close>
lemma radius_length: "length (blocks_in_radius pos r) = (2 * r + 1) * ((2 * r + 1) * (2 * r + 1))"
proof -
  have n: "length [- int r..int r] = 2 * r + 1" by simp
  obtain px py pz where p: "pos = (px, py, pz)" by (cases pos)
  have i: "length (concat (map (\<lambda>y. map (\<lambda>z. (px + word_of_int x, py + word_of_int y, pz + word_of_int z)) [- int r..int r]) [- int r..int r]))
      = (2 * r + 1) * (2 * r + 1)" for x
    using length_concat_same[of "[- int r..int r]" "\<lambda>y. map (\<lambda>z. (px + word_of_int x, py + word_of_int y, pz + word_of_int z)) [- int r..int r]"
        "2 * r + 1"] n by (simp only: length_map)
  show ?thesis unfolding p blocks_in_radius_def prod.case Let_def
    by (subst length_concat_same[where n = "(2 * r + 1) * (2 * r + 1)"]) (simp_all only: i n)
qed

lemma radius_middle: "pos \<in> set (blocks_in_radius pos r)"
proof -
  obtain px py pz where p: "pos = (px, py, pz)" by (cases pos)
  have z: "0 \<in> {- int r..int r}" by simp
  have m: "f 0 0 0 \<in> set (concat (map (\<lambda>x. concat (map (\<lambda>y. map (f x y) [- int r..int r]) [- int r..int r])) [- int r..int r]))"
    for f :: "int \<Rightarrow> int \<Rightarrow> int \<Rightarrow> 32 word \<times> 32 word \<times> 32 word"
    using z by fastforce
  from m[of "\<lambda>x y z. (px + word_of_int x, py + word_of_int y, pz + word_of_int z)"] show ?thesis
    by (simp only: p blocks_in_radius_def prod.case Let_def of_int_0 add_0_right)
qed

section \<open>Items of packets\<close>

record ('t, 'n) item_stack_pk =
  ip_network_id :: int
  ip_metadata :: int
  ip_block_rid :: "32 word"
  ip_nbt :: "'n option"
  ip_count :: int

text \<open>The registries: items of the server by runtime id, those of the library, blocks as items (\<^verbatim>\<open>None\<close>: the block is no
  item), air, reading the data of an item.\<close>
record ('t, 'n, 's) item_lib =
  il_items :: "16 word \<Rightarrow> 't option"
  il_by_runtime :: "int \<Rightarrow> 16 word \<Rightarrow> 't option"
  il_block :: "32 word \<Rightarrow> 't option option"
  il_air :: 't
  il_decode_nbt :: "'n \<Rightarrow> 't \<Rightarrow> 't"
  il_stack :: "'t \<Rightarrow> int \<Rightarrow> 'n option \<Rightarrow> 's"

text \<open>What a stack of a packet is; \<^verbatim>\<open>decode\<close> is the runtime id of a block of the network.\<close>
definition convert_to_stack :: "('t, 'n, 's) item_lib \<Rightarrow> (32 word \<Rightarrow> 32 word) \<Rightarrow> ('t, 'n) item_stack_pk \<Rightarrow> 's" where
  "convert_to_stack L decode it =
    (let t = (case il_items L (word_of_int (ip_network_id it)) of
           Some t \<Rightarrow> t
         | None \<Rightarrow> (case il_by_runtime L (ip_network_id it) (word_of_int (ip_metadata it)) of Some t \<Rightarrow> t | None \<Rightarrow> il_air L));
         t = (if ip_block_rid it \<noteq> 0
              then (case il_block L (decode (ip_block_rid it)) of None \<Rightarrow> t | Some None \<Rightarrow> il_air L | Some (Some b) \<Rightarrow> b) else t);
         t = (case ip_nbt it of None \<Rightarrow> t | Some n \<Rightarrow> il_decode_nbt L n t)
     in il_stack L t (ip_count it) (ip_nbt it))"

text \<open>To and from the network, around the conversions of the library.\<close>
definition instance_from_item :: "('s \<Rightarrow> ('t, 'n) item_stack_pk) \<Rightarrow> (32 word \<Rightarrow> 32 word) \<Rightarrow> 's \<Rightarrow> ('t, 'n) item_stack_pk" where
  "instance_from_item conv encode it =
    (let i = conv it in if ip_block_rid i \<noteq> 0 then i\<lparr>ip_block_rid := encode (ip_block_rid i)\<rparr> else i)"

definition stack_to_item :: "(('t, 'n) item_stack_pk \<Rightarrow> 's) \<Rightarrow> (32 word \<Rightarrow> 32 word) \<Rightarrow> ('t, 'n) item_stack_pk \<Rightarrow> 's" where
  "stack_to_item conv decode it =
    conv (if ip_block_rid it \<noteq> 0 then it\<lparr>ip_block_rid := decode (ip_block_rid it)\<rparr> else it)"

text \<open>An item that the library converts back survives the network, if runtime ids do.\<close>
lemma item_comes_back:
  assumes "\<And>s. conv' (conv s) = s" "\<And>i. decode (encode i) = i" "\<And>i. i \<noteq> 0 \<Longrightarrow> encode i \<noteq> 0"
  shows "stack_to_item conv' decode (instance_from_item conv encode s) = s"
  using assms by (simp add: stack_to_item_def instance_from_item_def Let_def)

section \<open>Resource packs\<close>

datatype 'k keys_file = KeysMissing | KeysUnreadable | Keys "'k option"

text \<open>The packs of a directory: its entries with whether the walk failed there, their names, and the packs that can be read;
  \<^verbatim>\<open>ends\<close> is the test of a suffix.\<close>
fun walk_packs :: "('u \<Rightarrow> string option) \<Rightarrow> ('p \<Rightarrow> 'u) \<Rightarrow> (string \<Rightarrow> 'p \<Rightarrow> 'p) \<Rightarrow> (bool \<times> string \<times> 'p option) list \<Rightarrow> 'p list option" where
  "walk_packs keys uuid with_key [] = Some []"
| "walk_packs keys uuid with_key ((err, name, pack) # es) =
    (if err then None
     else if drop (length name - 4) name = ''.zip'' \<or> (7 \<le> length name \<and> drop (length name - 7) name = ''.mcpack'')
     then (case pack of None \<Rightarrow> None
       | Some p \<Rightarrow> map_option ((#) (case keys (uuid p) of Some k \<Rightarrow> with_key k p | None \<Rightarrow> p)) (walk_packs keys uuid with_key es))
     else walk_packs keys uuid with_key es)"

definition resource_packs ::
  "('u \<Rightarrow> string option) keys_file \<Rightarrow> ('p \<Rightarrow> 'u) \<Rightarrow> (string \<Rightarrow> 'p \<Rightarrow> 'p) \<Rightarrow> (bool \<times> string \<times> 'p option) list option \<Rightarrow> 'p list option" where
  "resource_packs keys uuid with_key dir =
    (case (case keys of KeysMissing \<Rightarrow> Some (\<lambda>_. None) | KeysUnreadable \<Rightarrow> None | Keys k \<Rightarrow> k) of
       None \<Rightarrow> None
     | Some k \<Rightarrow> (case dir of None \<Rightarrow> None | Some es \<Rightarrow> walk_packs k uuid with_key es))"

definition is_pack :: "bool \<times> string \<times> 'p option \<Rightarrow> bool" where
  "is_pack e = (case e of (err, name, pack) \<Rightarrow>
     drop (length name - 4) name = ''.zip'' \<or> (7 \<le> length name \<and> drop (length name - 7) name = ''.mcpack''))"

text \<open>No pack is left out silently.\<close>
lemma walk_packs_all: "walk_packs keys uuid with_key es = Some ps \<Longrightarrow> length ps = length (filter is_pack es)"
proof (induction keys uuid with_key es arbitrary: ps rule: walk_packs.induct)
  case (2 keys uuid with_key err name pack es)
  then show ?case by (cases pack) (auto simp: is_pack_def split: if_splits)
qed simp

section \<open>The default options\<close>

definition default_movement :: "'f flt \<Rightarrow> 'f move_opts" where
  "default_movement F = \<lparr>mo_correction = fl_lit F 0.3, mo_accept_pos = False, mo_pos_threshold = fl_lit F 0.09, mo_accept_vel = False,
     mo_vel_threshold = fl_lit F 0.03, mo_persuasion = fl_lit F 0.002, mo_velocity_limit = Some (fl_lit F 10)\<rparr>"

definition default_combat :: "'f flt \<Rightarrow> 'f combat_opts" where
  "default_combat F = \<lparr>co_lerp_steps = 10, co_expansion = fl_lit F 0.1, co_max_reach = fl_lit F 2.9, co_leniency = fl_lit F 0,
     co_max_angle = fl_lit F 85, co_radius = fl_lit F 6, co_raw_fallback = False, co_no_occlusion = False, co_forward_rejected = False\<rparr>"

text \<open>By default rejected hits are not forwarded, and the options are those that their fallbacks stand for.\<close>
lemma default_options:
  "max_reach_of real_flt (default_combat real_flt) = 2.9" "expansion_of real_flt (default_combat real_flt) = 0.1"
  "\<not> co_forward_rejected (default_combat F)" "mo_persuasion (default_movement real_flt) < mo_correction (default_movement real_flt)"
  by (simp_all add: default_combat_def default_movement_def max_reach_of_def expansion_of_def)

end
