(* ===== verification/Embedded.thy ===== *)
theory Embedded
  imports Prelude
begin

text \<open>
  The adapters between a player and the servers: \<^verbatim>\<open>src/integration/dragonfly/conn.go\<close>, \<^verbatim>\<open>listener.go\<close>,
  \<^verbatim>\<open>src/integration/proxy/proxy.go\<close>, and \<^verbatim>\<open>src/player/error.go\<close>.  The handlers of the player are a function from a packet to
  what is forwarded of it.
\<close>

section \<open>Queues\<close>

text \<open>What a client of a queue relies on: the content is a list, appended to at the end and taken from at the front.\<close>
locale fifo =
  fixes ok :: "'q \<Rightarrow> bool" and content :: "'q \<Rightarrow> 'p list" and enq :: "'p \<Rightarrow> 'q \<Rightarrow> 'q" and deq :: "'q \<Rightarrow> ('p \<times> 'q) option"
  assumes enq_ok: "ok q \<Longrightarrow> ok (enq p q)"
    and enq_content: "ok q \<Longrightarrow> content (enq p q) = content q @ [p]"
    and deq_none: "ok q \<Longrightarrow> deq q = None \<longleftrightarrow> content q = []"
    and deq_some: "ok q \<Longrightarrow> deq q = Some (p, q') \<Longrightarrow> ok q' \<and> content q = p # content q'"
begin

text \<open>Queued packets, and \<^verbatim>\<open>None\<close> for taking one.\<close>
fun ops :: "'p option list \<Rightarrow> 'q \<Rightarrow> 'p list \<times> 'q" where
  "ops [] q = ([], q)"
| "ops (Some p # os) q = ops os (enq p q)"
| "ops (None # os) q = (case deq q of None \<Rightarrow> ops os q | Some (p, q) \<Rightarrow> (case ops os q of (ps, q) \<Rightarrow> (p # ps, q)))"

lemma ops_in_order:
  "ok q \<Longrightarrow> ops os q = (ps, q') \<Longrightarrow> ok q' \<and> ps @ content q' = content q @ concat (map (case_option [] (\<lambda>p. [p])) os)"
proof (induction os q arbitrary: ps q' rule: ops.induct)
  case (2 p os q)
  then show ?case using enq_ok enq_content by simp
next
  case (3 os q)
  show ?case
  proof (cases "deq q")
    case None
    with 3 deq_none[of q] show ?thesis by simp
  next
    case (Some r)
    obtain p q1 where r: "r = (p, q1)" by (cases r)
    obtain ps1 q2 where o: "ops os q1 = (ps1, q2)" by (cases "ops os q1")
    have "ok q1" "content q = p # content q1" using deq_some[OF 3(3)] Some r by auto
    with 3(2)[OF Some r[symmetric], of ps1 q2] 3(4) Some r o show ?thesis by auto
  qed
qed simp

end

section \<open>The packets that the player injects\<close>

text \<open>The list, with entries cleared as they are taken, and where it starts.\<close>
record 'p injected =
  ij_list :: "'p option list"
  ij_head :: nat

definition new_injected :: "'p injected" where
  "new_injected = \<lparr>ij_list = [], ij_head = 0\<rparr>"

definition enqueue_injected :: "'p \<Rightarrow> 'p injected \<Rightarrow> 'p injected" where
  "enqueue_injected pk c = c\<lparr>ij_list := ij_list c @ [Some pk]\<rparr>"

text \<open>The list is emptied when all was taken, and moved to its front when much of it was.\<close>
definition pop_injected :: "'p injected \<Rightarrow> ('p option \<times> 'p injected) option" where
  "pop_injected c =
    (if ij_head c = length (ij_list c) then None
     else
       let pk = ij_list c ! ij_head c; l = (ij_list c)[ij_head c := None]; h = Suc (ij_head c)
       in Some (pk, if h = length l then \<lparr>ij_list = [], ij_head = 0\<rparr>
                    else if 64 \<le> h \<and> length l \<le> h * 2 then \<lparr>ij_list = drop h l, ij_head = 0\<rparr>
                    else \<lparr>ij_list = l, ij_head = h\<rparr>))"

definition injected_ok :: "'p injected \<Rightarrow> bool" where
  "injected_ok c \<longleftrightarrow> ij_head c \<le> length (ij_list c) \<and> None \<notin> set (drop (ij_head c) (ij_list c))
     \<and> (ij_head c < 64 \<or> ij_head c < length (ij_list c) - ij_head c)"

definition injected_content :: "'p injected \<Rightarrow> 'p list" where
  "injected_content c = map the (drop (ij_head c) (ij_list c))"

text \<open>Taking a packet as a client of the queue sees it: the entry is never a cleared one.\<close>
definition deq_injected :: "'p injected \<Rightarrow> ('p \<times> 'p injected) option" where
  "deq_injected c = map_option (\<lambda>(pk, c). (the pk, c)) (pop_injected c)"

lemma pop_some:
  assumes "injected_ok c" "pop_injected c = Some (pk, c')"
  shows "injected_ok c' \<and> pk \<noteq> None \<and> injected_content c = the pk # injected_content c'"
proof -
  let ?l = "ij_list c" and ?h = "ij_head c"
  from assms have h: "?h < length ?l" and pk: "pk = ?l ! ?h"
    by (auto simp: pop_injected_def injected_ok_def Let_def split: if_splits)
  have d: "drop ?h ?l = ?l ! ?h # drop (Suc ?h) ?l" using h by (simp add: Cons_nth_drop_Suc)
  have u: "drop (Suc ?h) (?l[?h := None]) = drop (Suc ?h) ?l" by simp
  have m: "None \<notin> set (?l ! ?h # drop (Suc ?h) ?l)" using assms(1) d by (simp add: injected_ok_def)
  then have n: "None \<notin> set (drop (Suc ?h) ?l)" "?l ! ?h \<noteq> None" by (simp, metis list.set_intros(1))
  have c': "c' = (if Suc ?h = length ?l then \<lparr>ij_list = [], ij_head = 0\<rparr>
      else if 64 \<le> Suc ?h \<and> length ?l \<le> Suc ?h * 2 then \<lparr>ij_list = drop (Suc ?h) ?l, ij_head = 0\<rparr>
      else \<lparr>ij_list = ?l[?h := None], ij_head = Suc ?h\<rparr>)"
    using assms(2) h unfolding pop_injected_def Let_def u length_list_update by (auto split: if_splits)
  have "injected_content c' = map the (drop (Suc ?h) ?l)" using c' by (simp add: injected_content_def)
  moreover have "injected_ok c'" using c' h n(1) by (auto simp: injected_ok_def)
  ultimately show ?thesis using d n(2) pk by (simp add: injected_content_def)
qed

interpretation iq: fifo injected_ok injected_content enqueue_injected deq_injected
proof unfold_locales
  fix q :: "'a injected" and p
  assume q: "injected_ok q"
  then show "injected_ok (enqueue_injected p q)" by (auto simp: injected_ok_def enqueue_injected_def)
  show "injected_content (enqueue_injected p q) = injected_content q @ [p]"
    using q by (simp add: injected_ok_def injected_content_def enqueue_injected_def)
next
  fix q :: "'a injected"
  assume "injected_ok q"
  then show "deq_injected q = None \<longleftrightarrow> injected_content q = []"
    by (auto simp: deq_injected_def pop_injected_def injected_ok_def injected_content_def Let_def)
next
  fix q :: "'a injected" and p q'
  assume q: "injected_ok q" "deq_injected q = Some (p, q')"
  then obtain pk where "pop_injected q = Some (pk, q')" "p = the pk" by (auto simp: deq_injected_def)
  with pop_some[OF q(1)] show "injected_ok q' \<and> injected_content q = p # injected_content q'" by simp
qed

text \<open>What is kept of packets that were taken is bounded by what waits.\<close>
lemma injected_bounded: "injected_ok c \<Longrightarrow> length (ij_list c) \<le> 2 * length (injected_content c) + 64"
  by (auto simp: injected_ok_def injected_content_def)

section \<open>Reading from a session\<close>

text \<open>The reader is at the top of its loop or waits; the goroutine that reads the client holds at most one packet; the notification
  is a channel with one place.  What was queued and what the server has got of it, for both sources.\<close>
record ('p, 's) session_conn =
  sn_queue :: "'p injected"
  sn_notify :: bool
  sn_waits :: bool
  sn_read :: "'p option"
  sn_done :: bool
  sn_player :: 's
  sn_queued :: "'p list"
  sn_out_queued :: "'p list"
  sn_out_client :: "'p list"

definition new_session_conn :: "'s \<Rightarrow> ('p, 's) session_conn" where
  "new_session_conn s = \<lparr>sn_queue = new_injected, sn_notify = False, sn_waits = False, sn_read = None, sn_done = False, sn_player = s,
     sn_queued = [], sn_out_queued = [], sn_out_client = []\<rparr>"

text \<open>Queueing is followed by a notification, unless there is one.\<close>
definition inject :: "'p \<Rightarrow> ('p, 's) session_conn \<Rightarrow> ('p, 's) session_conn" where
  "inject pk c = c\<lparr>sn_queue := enqueue_injected pk (sn_queue c), sn_notify := True, sn_queued := sn_queued c @ [pk]\<rparr>"

text \<open>The handler of the player: what is forwarded of a packet, if anything, and what is injected on the way.\<close>
type_synonym ('p, 's) client_handler = "'p \<Rightarrow> 's \<Rightarrow> 'p option \<times> 'p list \<times> 's"

text \<open>The steps: the goroutine reads, the server asks for a packet and gets what is queued or waits, a case of the select is taken,
  another goroutine injects, the connection is closed.\<close>
inductive conn_step :: "('p, 's) client_handler \<Rightarrow> ('p, 's) session_conn \<Rightarrow> ('p, 's) session_conn \<Rightarrow> bool" for H where
  client_read: "sn_read c = None \<Longrightarrow> conn_step H c (c\<lparr>sn_read := Some pk\<rparr>)"
| takes_queued: "\<not> sn_waits c \<Longrightarrow> pop_injected (sn_queue c) = Some (pk, q) \<Longrightarrow>
    conn_step H c (c\<lparr>sn_queue := q, sn_out_queued := sn_out_queued c @ [the pk]\<rparr>)"
| starts_waiting: "\<not> sn_waits c \<Longrightarrow> pop_injected (sn_queue c) = None \<Longrightarrow> conn_step H c (c\<lparr>sn_waits := True\<rparr>)"
| notified: "sn_waits c \<Longrightarrow> sn_notify c \<Longrightarrow> conn_step H c (c\<lparr>sn_notify := False, sn_waits := False\<rparr>)"
| handled: "sn_waits c \<Longrightarrow> sn_read c = Some pk \<Longrightarrow> H pk (sn_player c) = (r, pks, s) \<Longrightarrow>
    conn_step H c ((fold inject pks (c\<lparr>sn_waits := False, sn_read := None, sn_player := s\<rparr>))
      \<lparr>sn_out_client := sn_out_client c @ (case r of None \<Rightarrow> [] | Some pk \<Rightarrow> [pk])\<rparr>)"
| injects: "conn_step H c (inject pk c)"
| closes: "conn_step H c (c\<lparr>sn_done := True\<rparr>)"

inductive conn_reachable :: "('p, 's) client_handler \<Rightarrow> ('p, 's) session_conn \<Rightarrow> bool" for H where
  conn_start: "conn_reachable H (new_session_conn s)"
| conn_next: "conn_reachable H c \<Longrightarrow> conn_step H c c' \<Longrightarrow> conn_reachable H c'"

definition conn_inv :: "('p, 's) session_conn \<Rightarrow> bool" where
  "conn_inv c \<longleftrightarrow> injected_ok (sn_queue c) \<and> sn_out_queued c @ injected_content (sn_queue c) = sn_queued c
     \<and> (sn_waits c \<and> injected_content (sn_queue c) \<noteq> [] \<longrightarrow> sn_notify c)"

lemma inject_inv: "conn_inv c \<Longrightarrow> conn_inv (inject pk c)"
  by (auto simp: conn_inv_def inject_def iq.enq_ok iq.enq_content)

lemma injects_inv: "conn_inv c \<Longrightarrow> conn_inv (fold inject pks c)"
  by (induction pks arbitrary: c) (simp_all add: inject_inv)

lemma new_conn_inv: "conn_inv (new_session_conn s)"
  by (simp add: conn_inv_def new_session_conn_def new_injected_def injected_ok_def injected_content_def)

lemma pop_none: "injected_ok q \<Longrightarrow> pop_injected q = None \<Longrightarrow> injected_content q = []"
  using iq.deq_none[of q] by (simp add: deq_injected_def)

lemma conn_step_inv: "conn_step H c c' \<Longrightarrow> conn_inv c \<Longrightarrow> conn_inv c'"
proof (induction rule: conn_step.induct)
  case (takes_queued c pk q)
  with pop_some[of "sn_queue c" pk q] show ?case by (auto simp: conn_inv_def)
next
  case (starts_waiting c)
  with pop_none[of "sn_queue c"] show ?case by (auto simp: conn_inv_def)
next
  case (handled c pk r pks s)
  then have "conn_inv (c\<lparr>sn_waits := False, sn_read := None, sn_player := s\<rparr>)" by (simp add: conn_inv_def)
  from injects_inv[OF this, of pks] show ?case by (simp add: conn_inv_def)
next
  case (injects c pk)
  then show ?case by (simp add: inject_inv)
qed (auto simp: conn_inv_def)

text \<open>C24: whatever the client sends and other goroutines inject, and however their steps interleave with those of the server that
  reads, the server has got a prefix of the packets that were injected, each once and in their order; and while some are left a reader that waits
  has been notified, so that it goes on.\<close>
theorem injected_in_order:
  assumes "conn_reachable H c"
  shows "sn_out_queued c @ injected_content (sn_queue c) = sn_queued c
    \<and> (injected_content (sn_queue c) \<noteq> [] \<and> sn_waits c \<longrightarrow> (\<exists>c'. conn_step H c c' \<and> \<not> sn_waits c' \<and> sn_queue c' = sn_queue c))
    \<and> length (ij_list (sn_queue c)) \<le> 2 * length (injected_content (sn_queue c)) + 64"
proof -
  have i: "conn_inv c" using assms by (induction rule: conn_reachable.induct) (auto intro: new_conn_inv conn_step_inv)
  have "\<exists>c'. conn_step H c c' \<and> \<not> sn_waits c' \<and> sn_queue c' = sn_queue c" if "injected_content (sn_queue c) \<noteq> []" "sn_waits c"
  proof -
    have "sn_notify c" using i that by (simp add: conn_inv_def)
    with that(2) have "conn_step H c (c\<lparr>sn_notify := False, sn_waits := False\<rparr>)" by (rule conn_step.notified)
    then show ?thesis by (intro exI[of _ "c\<lparr>sn_notify := False, sn_waits := False\<rparr>"]) simp
  qed
  with i injected_bounded[of "sn_queue c"] show ?thesis by (simp add: conn_inv_def)
qed

theorem injected_in_order_witness:
  "\<exists>c :: (nat, unit) session_conn. conn_reachable (\<lambda>pk s. (Some pk, [7, 8], s)) c \<and> sn_out_client c = [1] \<and> sn_out_queued c = [7]
     \<and> sn_out_queued c @ injected_content (sn_queue c) = [7, 8] \<and> \<not> sn_waits c"
proof -
  let ?H = "\<lambda>pk s. (Some pk, [7, 8], s) :: nat option \<times> nat list \<times> unit"
  let ?n = "new_session_conn () :: (nat, unit) session_conn"
  let ?w = "?n\<lparr>sn_waits := True, sn_read := Some 1\<rparr>"
  let ?h = "?n\<lparr>sn_queue := \<lparr>ij_list = [Some 7, Some 8], ij_head = 0\<rparr>, sn_notify := True, sn_queued := [7, 8], sn_out_client := [1]\<rparr>"
  let ?c = "?h\<lparr>sn_queue := \<lparr>ij_list = [None, Some 8], ij_head = 1\<rparr>, sn_out_queued := [7]\<rparr>"
  have 1: "conn_reachable ?H (?n\<lparr>sn_read := Some 1\<rparr>)"
    by (rule conn_next[OF conn_start conn_step.client_read]) (simp add: new_session_conn_def)
  have 2: "conn_reachable ?H ?w"
    using conn_next[OF 1 conn_step.starts_waiting[of "?n\<lparr>sn_read := Some 1\<rparr>" ?H]]
    by (simp add: new_session_conn_def new_injected_def pop_injected_def)
  have 3: "conn_reachable ?H ?h"
    using conn_next[OF 2 conn_step.handled[of ?w 1 ?H "Some 1" "[7, 8]" "()"]]
    by (simp add: new_session_conn_def new_injected_def inject_def enqueue_injected_def)
  have 4: "conn_reachable ?H ?c"
    using conn_next[OF 3 conn_step.takes_queued[of ?h "Some 7" "\<lparr>ij_list = [None, Some 8], ij_head = 1\<rparr>" ?H]]
    by (simp add: new_session_conn_def pop_injected_def)
  have "sn_queued ?c = [7, 8]" by simp
  with injected_in_order[OF 4] have "sn_out_queued ?c @ injected_content (sn_queue ?c) = [7, 8]" by metis
  with 4 show ?thesis by (intro exI[of _ ?c]) (simp add: new_session_conn_def)
qed

section \<open>Writing, starting and closing\<close>

text \<open>What is written to the client of a packet of the server; without a player all of it.\<close>
definition session_write :: "('p \<Rightarrow> 's \<Rightarrow> 'p option \<times> 's) option \<Rightarrow> 'p \<Rightarrow> 's \<Rightarrow> 'p option \<times> 's" where
  "session_write player pk s = (case player of None \<Rightarrow> (Some pk, s) | Some handle \<Rightarrow> handle pk s)"

text \<open>The life of a session: the game data, whether the player has its connection to the server and ticks, and the closing.\<close>
record 'g session_life =
  sl_game_data :: "'g option"
  sl_server_set :: bool
  sl_ticking :: bool
  sl_closed :: bool
  sl_player_closes :: nat
  sl_conn_closes :: nat
  sl_errors :: "string list"

text \<open>The connection of the player is set before the client starts, whether it does or not.\<close>
definition start_game_context :: "bool \<Rightarrow> bool \<Rightarrow> (int \<Rightarrow> 'g) \<Rightarrow> 'g session_life \<Rightarrow> bool \<times> 'g session_life" where
  "start_game_context has_player starts data s =
    (let s = s\<lparr>sl_game_data := Some (data 100), sl_server_set := sl_server_set s \<or> has_player\<rparr>
     in if starts then (True, s\<lparr>sl_ticking := sl_ticking s \<or> has_player\<rparr>) else (False, s))"

text \<open>Both sides are closed by the first call; later ones give the same errors.\<close>
definition session_conn_close :: "bool \<Rightarrow> string option \<Rightarrow> string option \<Rightarrow> 'g session_life \<Rightarrow> string list \<times> 'g session_life" where
  "session_conn_close has_player player_err conn_err s =
    (if sl_closed s then (sl_errors s, s)
     else let es = (if has_player then (case player_err of None \<Rightarrow> [] | Some e \<Rightarrow> [e]) else [])
                 @ (case conn_err of None \<Rightarrow> [] | Some e \<Rightarrow> [e])
          in (es, s\<lparr>sl_closed := True, sl_player_closes := sl_player_closes s + of_bool has_player,
                    sl_conn_closes := sl_conn_closes s + 1, sl_errors := es\<rparr>))"

lemma session_closes_once:
  "session_conn_close p e f (snd (session_conn_close p e' f' s)) = session_conn_close p e' f' s"
  by (simp add: session_conn_close_def Let_def)

section \<open>Panics\<close>

text \<open>A handler that panics: with a function to recover the panic goes there, without one it ends the process.\<close>
datatype 's recovered = Returned 's | Recovered 's | Crashed

definition recover_error :: "(string \<Rightarrow> 's \<Rightarrow> 's) option \<Rightarrow> (string \<times> 's) + 's \<Rightarrow> 's recovered" where
  "recover_error recv outcome = (case outcome of
      Inr s \<Rightarrow> Returned s
    | Inl (p, s) \<Rightarrow> (case recv of Some f \<Rightarrow> Recovered (f p s) | None \<Rightarrow> Crashed))"

section \<open>The listeners\<close>

text \<open>Connections are those of the network library or of another type.\<close>
datatype 'c connection = Minecraft 'c | OtherConn 'c

record ('c, 'f) integration_listener =
  lr_base :: bool
  lr_configure :: "'f option"
  lr_is_done :: bool
  lr_source_closes :: nat

text \<open>The player that a connection gets: its parts are registered in this order, and a panic closes it.\<close>
datatype 'f set_up = SetRecover | SetConn | RegisterComponents | RegisterDetections | RunConfigure 'f

text \<open>Whether a connection was closed at once, or what was set up for it.\<close>
definition listener_accept :: "('c, 'f) integration_listener \<Rightarrow> (string + 'c connection) \<Rightarrow> string + 'c connection + 'f set_up list" where
  "listener_accept l accepted = (case accepted of
      Inl err \<Rightarrow> Inl err
    | Inr (OtherConn c) \<Rightarrow> Inr (Inl (OtherConn c))
    | Inr (Minecraft c) \<Rightarrow> Inr (Inr ([SetRecover, SetConn, RegisterComponents, RegisterDetections]
        @ (case lr_configure l of None \<Rightarrow> [] | Some f \<Rightarrow> [RunConfigure f]))))"

text \<open>Disconnecting a session closes it as well; the errors of both are joined.\<close>
definition listener_disconnect :: "bool \<Rightarrow> bool \<Rightarrow> string option \<Rightarrow> string list \<Rightarrow> string list" where
  "listener_disconnect is_session has_source err close_errors =
    (if \<not> is_session then [''dragonfly integration: unexpected session connection type'']
     else (if has_source then (case err of None \<Rightarrow> [] | Some e \<Rightarrow> [e]) else []) @ close_errors)"

definition listener_close :: "('c, 'f) integration_listener \<Rightarrow> ('c, 'f) integration_listener" where
  "listener_close l = (if lr_is_done l then l else l\<lparr>lr_is_done := True, lr_source_closes := lr_source_closes l + 1\<rparr>)"

text \<open>The listener of the integration: an address is needed, packets are flushed by the player, compression has a default.\<close>
definition dragonfly_listener ::
  "string \<Rightarrow> 'comp option \<Rightarrow> 'comp \<Rightarrow> (string \<Rightarrow> 'comp \<Rightarrow> int \<Rightarrow> bool) \<Rightarrow> 'f option \<Rightarrow> string + ('c, 'f) integration_listener" where
  "dragonfly_listener address compression snappy listens configure =
    (if address = [] then Inl ''dragonfly integration: listener address is required''
     else if listens address (case compression of None \<Rightarrow> snappy | Some c \<Rightarrow> c) (- 1)
     then Inr \<lparr>lr_base = False, lr_configure = configure, lr_is_done = False, lr_source_closes = 0\<rparr>
     else Inl ''dragonfly integration: listen'')"

text \<open>Around another listener: its factory may be missing, fail, or give nothing.\<close>
definition dragonfly_wrap :: "(string + bool) option \<Rightarrow> 'f option \<Rightarrow> string + ('c, 'f) integration_listener" where
  "dragonfly_wrap next configure = (case next of
      None \<Rightarrow> Inl ''dragonfly integration: wrapped listener factory is required''
    | Some (Inl err) \<Rightarrow> Inl ''dragonfly integration: create wrapped listener''
    | Some (Inr given) \<Rightarrow> if given then Inr \<lparr>lr_base = True, lr_configure = configure, lr_is_done = False, lr_source_closes = 0\<rparr>
        else Inl ''dragonfly integration: wrapped listener factory returned nil'')"

text \<open>The stand-alone proxy: the player of its handler has no function to recover.\<close>
definition proxy_set_up :: "'f option \<Rightarrow> 'f set_up list" where
  "proxy_set_up configure = [SetConn, RegisterComponents, RegisterDetections] @ (case configure of None \<Rightarrow> [] | Some f \<Rightarrow> [RunConfigure f])"

definition recovers :: "'f set_up list \<Rightarrow> bool" where
  "recovers us \<longleftrightarrow> SetRecover \<in> set us"

text \<open>What the handler of the proxy passes on.\<close>
definition killlime_handles :: "bool \<Rightarrow> 'p \<Rightarrow> 'p option" where
  "killlime_handles cancelled pk = (if cancelled then None else Some pk)"

text \<open>A player of the embedded server recovers from panics; one of the proxy does not, unless it is configured to.\<close>
lemma panics_end_the_proxy:
  "listener_accept l (Inr (Minecraft c)) = Inr (Inr us) \<Longrightarrow> recovers us" "\<not> recovers (proxy_set_up configure)"
  "recover_error None (Inl (p, s)) = Crashed"
  by (auto simp: listener_accept_def recovers_def proxy_set_up_def recover_error_def split: option.splits)

end
