(* ===== verification/Spec2Isabelle.thy ===== *)
theory Spec2Isabelle
  imports Prelude Queues Bits Entities Clicks InvProps WorldProps ProxyProps AckProps AckSamples SimFrames
    HandleMovement CombatProps DetectRegister AdminProps BreakProps ItemProps ServerProps Collisions ConfigFile PackCrypt
    SqlStore LuaEngine LuaTables LuaTimers LuaApi ExtraBlocks BlockShapes Stats ClientPackets ProxyServe PlayerIo Helpers Embedded
begin

text \<open>
  KillLime is an anti-cheat proxy for Minecraft: Bedrock Edition.  It sits between a client and a server, keeps its own
  prediction of what the client should be doing, and corrects, withholds or flags what differs.  This library models the
  Go code under \<^verbatim>\<open>src/\<close> that makes those decisions, and proves what makes it correct.

  \<^bold>\<open>How the program works.\<close>  Every packet of the server is handled by \<^verbatim>\<open>HandleServerPacket\<close> and every packet of
  the client by \<^verbatim>\<open>HandleClientPacket\<close> (\<^verbatim>\<open>src/player/packet.go\<close>), which call the components of a
  player.  A change of the server is not applied at once: an acknowledgment of it is sent along, and is applied when the client
  answers, so that the prediction follows what the client has seen.  Each input of the client simulates one frame of its
  movement, against the blocks of the session's world; the result goes to the server in place of what the client claims.
  Attacks are decided against the past positions of entities; inventory requests are predicted and reverted when the server
  refuses them; detections watch all packets of the client.  In front of it, the proxy of \<^verbatim>\<open>src/deps/proxy\<close> moves a
  client between servers; in an embedded server the adapters of \<^verbatim>\<open>src/integration\<close> take its place.

  \<^bold>\<open>Conventions.\<close>  A Go function that may panic or return an error yields a \<^verbatim>\<open>result\<close>, an early return is a
  branch.  Integers whose width matters are words; sizes and ticks are integers, wrapped where the code wraps them.  Floating
  point numbers are a type of their own with the record \<^verbatim>\<open>flt\<close> of the operations that the code uses, of which nothing is
  assumed in the definitions; theorems about distances take the instance \<^verbatim>\<open>real_flt\<close>, exact numbers, and say so.  Pointers that
  are shared are addresses into a store (entities, pending requests, placements).  Maps whose iteration order shows are
  given with an order.  Libraries that are not under \<^verbatim>\<open>src/\<close> (blocks and items, boxes, chunks, the network, JSON, ciphers) are
  records of functions; what the code relies on of them is a named hypothesis.

  \<^bold>\<open>The theories.\<close>  Definitions first, then the theory of their properties.

  \<^item> \<^verbatim>\<open>Prelude\<close>: results, indexing, windows of lists.  \<^verbatim>\<open>Queues\<close> (\<^verbatim>\<open>utils/circular_queue.go\<close>,
    \<^verbatim>\<open>evicting_list.go\<close>): both containers implement the locale of a bounded window.  \<^verbatim>\<open>Bits\<close>
    (\<^verbatim>\<open>utils/bit.go\<close>): flags and little-endian numbers are read back.  \<^verbatim>\<open>Floats\<close>, \<^verbatim>\<open>Distance\<close>
    (\<^verbatim>\<open>game/math.go\<close>, the range test of \<^verbatim>\<open>world/world.go\<close>).
  \<^item> \<^verbatim>\<open>Boxes\<close>, \<^verbatim>\<open>ClipProps\<close> (\<^verbatim>\<open>game/aabb.go\<close>, \<^verbatim>\<open>raytrace.go\<close>): clipping a velocity keeps
    boxes apart.  \<^verbatim>\<open>Blocks\<close> (\<^verbatim>\<open>utils/world.go\<close>).  \<^verbatim>\<open>Collisions\<close>
    (\<^verbatim>\<open>utils/collisions\<close>): every registered shape is found, and the cache is not seen.
  \<^item> \<^verbatim>\<open>Movement\<close> (\<^verbatim>\<open>player/component/movement.go\<close>), \<^verbatim>\<open>Simulation\<close>
    (\<^verbatim>\<open>player/simulation/movement.go\<close>), \<^verbatim>\<open>HandleMovement\<close> (\<^verbatim>\<open>player/movement.go\<close>):
    state, one operation per method, the frame in the order of the code.  \<^verbatim>\<open>SimProps\<close>, \<^verbatim>\<open>SimFrames\<close>: a frame
    leaves the player out of all blocks and ends; the handler corrects exactly when the code should, and shifts by no more
    than its threshold; no more inputs are accepted than ticks allow.  \<^verbatim>\<open>BlockShapes\<close>, \<^verbatim>\<open>ExtraBlocks\<close>
    (\<^verbatim>\<open>world/blockmodel\<close>, \<^verbatim>\<open>world/block\<close>): the boxes, names and hashes of the blocks that the program adds; no two
    registered states have the same hash.
  \<^item> \<^verbatim>\<open>Clicks\<close> (\<^verbatim>\<open>component/clicks.go\<close>, \<^verbatim>\<open>effects.go\<close>), \<^verbatim>\<open>Entities\<close>
    (\<^verbatim>\<open>entity\<close>, \<^verbatim>\<open>component/entities.go\<close>): interpolation and the rewind to the closest tick.
    \<^verbatim>\<open>Combat\<close>, \<^verbatim>\<open>CombatProps\<close> (\<^verbatim>\<open>component/combat.go\<close>): what is sent to the server was
    measured in reach.
  \<^item> \<^verbatim>\<open>ClientPackets\<close> (\<^verbatim>\<open>player/packet.go\<close>, \<^verbatim>\<open>combat.go\<close>): the switch over the packets of the
    client, over components that are operations on a state of any type: the inputs that are forwarded are bounded by the ticks of the server.
    \<^verbatim>\<open>PlayerIo\<close> (\<^verbatim>\<open>player/player.go\<close>): sending, deferring and closing, which happens once.
  \<^item> \<^verbatim>\<open>Inventory\<close>, \<^verbatim>\<open>InvActions\<close>, \<^verbatim>\<open>InvRequests\<close> (\<^verbatim>\<open>player/inventory.go\<close>,
    \<^verbatim>\<open>component/inventory_transaction.go\<close>, \<^verbatim>\<open>inventory.go\<close>); \<^verbatim>\<open>InvQueue\<close>, \<^verbatim>\<open>InvProps\<close>: the
    linked list of requests refines a queue, nothing panics, requests are undone and items conserved.
  \<^item> \<^verbatim>\<open>BlockNetwork\<close>, \<^verbatim>\<open>WorldCache\<close>, \<^verbatim>\<open>World\<close>, \<^verbatim>\<open>WorldProps\<close>
    (\<^verbatim>\<open>world/blocknetwork\<close>, \<^verbatim>\<open>world/cache.go\<close>, \<^verbatim>\<open>world.go\<close>, \<^verbatim>\<open>acknowledgement/chunks.go\<close>):
    the shared caches count exactly what sessions hold.  \<^verbatim>\<open>Placements\<close> (the ghost placements of
    \<^verbatim>\<open>component/world.go\<close>).
  \<^item> \<^verbatim>\<open>Acks\<close>, \<^verbatim>\<open>Session\<close>, \<^verbatim>\<open>AckProps\<close>, \<^verbatim>\<open>AckSamples\<close>
    (\<^verbatim>\<open>component/acks.go\<close>, \<^verbatim>\<open>acknowledgement\<close>, \<^verbatim>\<open>player/player.go\<close>, \<^verbatim>\<open>network.go\<close>): steps of a
    session and its reachable states; an answer runs exactly the batches up to its own; counters are what is in flight.
    \<^verbatim>\<open>ServerPackets\<close>, \<^verbatim>\<open>ServerProps\<close> (\<^verbatim>\<open>player/packet.go\<close>): the packets of the server change nothing
    that the client has been shown.
  \<^item> \<^verbatim>\<open>Breaking\<close>, \<^verbatim>\<open>BreakProps\<close> (\<^verbatim>\<open>player/world.go\<close>): breaking takes its time.
    \<^verbatim>\<open>Interaction\<close>, \<^verbatim>\<open>Placing\<close>, \<^verbatim>\<open>PlacingProps\<close> (\<^verbatim>\<open>utils/interaction.go\<close>,
    \<^verbatim>\<open>player/world.go\<close>, \<^verbatim>\<open>component/world.go\<close>): using an item on a block changes only what is near, could be
    replaced, and keeps out of the player, and does not panic.  \<^verbatim>\<open>ItemUse\<close>, \<^verbatim>\<open>ItemProps\<close>
    (\<^verbatim>\<open>player/packet.go\<close>): transactions, throws, food, drops.
  \<^item> \<^verbatim>\<open>Detections\<close>, \<^verbatim>\<open>DetectPackets\<close>, \<^verbatim>\<open>DetectOthers\<close>, \<^verbatim>\<open>DetectNames\<close>,
    \<^verbatim>\<open>DetectRegister\<close> (\<^verbatim>\<open>player/detection.go\<close>, \<^verbatim>\<open>player/detection\<close>): each detection is a step from its
    state and a packet to verdicts; the framework counts and punishes.
  \<^item> \<^verbatim>\<open>Commands\<close>, \<^verbatim>\<open>Admin\<close>, \<^verbatim>\<open>AdminProps\<close> (\<^verbatim>\<open>player/command\<close>, \<^verbatim>\<open>handler.go\<close>,
    \<^verbatim>\<open>admin.go\<close>, \<^verbatim>\<open>debug.go\<close>): command lines, operators and bans.  \<^verbatim>\<open>ConfigFile\<close>
    (\<^verbatim>\<open>oconfig/json.go\<close>): files are migrated once, and keep what they do not know.  \<^verbatim>\<open>PackCrypt\<close>
    (\<^verbatim>\<open>utils/encrypt.go\<close>): a client reads back the files of an encrypted pack.  \<^verbatim>\<open>SqlStore\<close>
    (\<^verbatim>\<open>store\<close>): the tables of the SQLite store; a ban holds until its end.  \<^verbatim>\<open>LuaEngine\<close>
    (\<^verbatim>\<open>player/lua/engine.go\<close>): the queue and the worker of scripts; the worker lives until a reload.  \<^verbatim>\<open>LuaTimers\<close>:
    a timer that is cancelled fires at most once more.  \<^verbatim>\<open>LuaLib\<close>, \<^verbatim>\<open>LuaTables\<close> (\<^verbatim>\<open>stdlib.go\<close>): strings
    and runes, numbers, tables; sorting is correct and stable.  \<^verbatim>\<open>LuaApi\<close> (\<^verbatim>\<open>api_actions.go\<close>, \<^verbatim>\<open>types.go\<close>):
    what scripts can do to players, bans and commands, over the models of the stores and the registry.  \<^verbatim>\<open>Helpers\<close>
    (\<^verbatim>\<open>utils\<close>, \<^verbatim>\<open>player/items.go\<close>, the defaults of \<^verbatim>\<open>oconfig\<close>), \<^verbatim>\<open>Stats\<close> (\<^verbatim>\<open>game/stats.go\<close>).
  \<^item> \<^verbatim>\<open>ClientPackets\<close> (\<^verbatim>\<open>player/packet.go\<close>, \<^verbatim>\<open>combat.go\<close>): the switch over the packets of the
    client, over components that are operations on a state of any type; what the theorem needs of them is that they leave the allowance of
    inputs to the movement component, and then the inputs that are forwarded are bounded by the ticks of the server.  \<^verbatim>\<open>PlayerIo\<close>
    (\<^verbatim>\<open>player/player.go\<close>): sending, deferring, disconnecting and closing, which happens once.
  \<^item> \<^verbatim>\<open>Proxy\<close>, \<^verbatim>\<open>ProxyProps\<close> (\<^verbatim>\<open>deps/proxy\<close>): rewriting of identifiers, the tracker of what the
    client shows, transfers and the fallback, over reachable sessions.  \<^verbatim>\<open>ProxyServe\<close>: listening, serving and the life of a
    session; every backend that was dialled is closed once.  \<^verbatim>\<open>Embedded\<close> (\<^verbatim>\<open>integration\<close>): the queue of injected
    packets implements the locale of a queue, and a session of two goroutines delivers it in order; listeners and panics.

  \<^bold>\<open>Bounds.\<close>  Loops are structural, or recursive with a measure.  The loops that shorten a sneaking movement may not end for some
  numbers, so that a frame is an option; that it ends is proved for exact numbers, and an example shows that it need not
  for others.  The recursion down a stack of plants is cut at the bottom of the world (\<^verbatim>\<open>growth_depth\<close> is enough for
  every position that the world can hold, which \<^verbatim>\<open>PlacingProps\<close> proves).  Drawing a fresh timestamp retries, and returns when
  the source of randomness gives more different numbers than batches are pending.  Chains of ghost placements are cut at the
  size of the code, 100.

  \<^bold>\<open>Not modelled.\<close>  Logging, metrics, locks and goroutine scheduling inside of a handler: handlers run one after the other, as the
  lock of the player makes them; where goroutines share state without it (timers, the session of an embedded server, closing) their steps interleave.
  Login and the network library, main functions and \<^verbatim>\<open>transport\<close>.  The interpreter of scripts, with formatting, changing case and the
  conversions between its types.  Setting up the registry of the block library (\<^verbatim>\<open>world/init.go\<close> and beside it), reflection into
  private fields of libraries (\<^verbatim>\<open>utils/unsafe.go\<close>), constants, interfaces, and methods that only read a field of a record.  The switch
  over client packets is not instantiated with the models of all components at once, because the session's world is chunks while using items and
  breaking blocks work on a map of blocks.  Directories that repeat a package one level below it (\<^verbatim>\<open>deps/deps\<close>,
  \<^verbatim>\<open>game/game\<close>, \<^verbatim>\<open>integration/integration\<close> and others) are copies.
\<close>

end
